(* ===== verification/Prelude.thy ===== *)
theory Prelude
  imports Main "HOL-Library.Multiset"
begin

text \<open>
  Shared vocabulary of the development: the types every service uses (identifiers, timestamps,
  fixed-point quantities), the handful of table operations through which the services reach their
  database (look a row up, update the rows that match, sort rows by a key), the text of identifiers
  and numbers inside idempotency keys, and the generic lemmas on lists that carry the component
  proofs.

  \<^item> A UUID is a 128-bit number; \<open>uuid_text\<close> is its canonical lower-case text. Two texts that
    differ only in case denote the same \<open>uuid\<close>, which is what the code's
    \<^verbatim>\<open>toLowerCase\<close> and PostgreSQL's \<^verbatim>\<open>::uuid\<close> cast achieve, and \<^verbatim>\<open>localeCompare\<close> on
    canonical texts is the order of the numbers.
  \<^item> A quantity is a \<^verbatim>\<open>Decimal(18,3)\<close>: an integer number of thousandths.
  \<^item> An instant is a number of milliseconds.
  \<^item> A table is the list of its rows in insertion order. A transaction that raises leaves the
    database as it was, so its result is an error or a value together with the new database.
\<close>

type_synonym uuid = nat
type_synonym instant = nat
type_synonym qty = int
type_synonym version = nat

named_theorems db_simps \<open>evaluation of table operations\<close>
named_theorems inv_intros \<open>preservation of the invariants\<close>
named_theorems frame_simps \<open>what an operation leaves unchanged\<close>

section \<open>Table operations\<close>

definition update_where :: "('a \<Rightarrow> bool) \<Rightarrow> ('a \<Rightarrow> 'a) \<Rightarrow> 'a list \<Rightarrow> 'a list" where
  "update_where p f xs = map (\<lambda>x. if p x then f x else x) xs"

definition exists_row :: "('a \<Rightarrow> bool) \<Rightarrow> 'a list \<Rightarrow> bool" where
  "exists_row p xs = list_ex p xs"

lemma update_where_simps [simp, db_simps]:
  "update_where p f [] = []"
  "update_where p f (x # xs) = (if p x then f x else x) # update_where p f xs"
  "update_where p f (xs @ ys) = update_where p f xs @ update_where p f ys"
  by (simp_all add: update_where_def)

lemma length_update_where [simp]: "length (update_where p f xs) = length xs"
  by (simp add: update_where_def)

lemma exists_row_iff [simp]: "exists_row p xs \<longleftrightarrow> (\<exists>x\<in>set xs. p x)"
  by (simp add: exists_row_def list_ex_iff)

lemma exists_row_code [code]: "exists_row p xs = list_ex p xs"
  by (fact exists_row_def)

lemma in_set_update_where:
  "y \<in> set (update_where p f xs) \<longleftrightarrow> (\<exists>x\<in>set xs. y = (if p x then f x else x))"
  by (auto simp: update_where_def)

lemma update_whereE:
  assumes "y \<in> set (update_where p f xs)"
  obtains (hit) x where "x \<in> set xs" "p x" "y = f x"
    | (miss) "y \<in> set xs" "\<not> p y"
  using assms by (auto simp: in_set_update_where split: if_splits)

lemma update_where_mem: "x \<in> set xs \<Longrightarrow> (if p x then f x else x) \<in> set (update_where p f xs)"
  by (auto simp: in_set_update_where)

lemma update_where_kept:
  assumes "x \<in> set xs" "\<And>y. P y \<Longrightarrow> P (f y)" "P x"
  shows "\<exists>y\<in>set (update_where p f xs). P y"
  using update_where_mem [OF assms(1), of p f] assms(2,3) by (intro bexI) auto

lemma map_update_where [simp]:
  assumes "\<And>x. x \<in> set xs \<Longrightarrow> p x \<Longrightarrow> g (f x) = g x"
  shows "map g (update_where p f xs) = map g xs"
  using assms by (auto simp: update_where_def)

lemma filter_update_where_frame:
  assumes "\<And>x. x \<in> set xs \<Longrightarrow> p x \<Longrightarrow> \<not> q x \<and> \<not> q (f x)"
  shows "filter q (update_where p f xs) = filter q xs"
  using assms by (induction xs) auto

lemma update_where_none [simp]: "(\<And>x. x \<in> set xs \<Longrightarrow> \<not> p x) \<Longrightarrow> update_where p f xs = xs"
  by (induction xs) auto

lemma update_where_id: "(\<And>x. x \<in> set xs \<Longrightarrow> p x \<Longrightarrow> f x = x) \<Longrightarrow> update_where p f xs = xs"
  by (induction xs) auto

lemma sum_list_update_where:
  fixes g :: "'a \<Rightarrow> int"
  shows "sum_list (map g (update_where p f xs)) =
    sum_list (map g xs) + sum_list (map (\<lambda>x. g (f x) - g x) (filter p xs))"
  by (induction xs) auto

lemma filter_key_unique:
  "distinct (map k xs) \<Longrightarrow> x \<in> set xs \<Longrightarrow> filter (\<lambda>y. k y = k x) xs = [x]"
proof (induction xs)
  case (Cons a xs)
  have none: "filter (\<lambda>y. k y = k a) xs = []"
    using Cons.prems(1) by (auto simp: filter_empty_conv) (metis image_eqI)
  show ?case
  proof (cases "x = a")
    case True
    with none show ?thesis by simp
  next
    case False
    with Cons.prems have "k a \<noteq> k x" by (auto simp: image_iff)
    with False Cons show ?thesis by simp
  qed
qed simp

lemma sum_list_update_key:
  fixes g :: "'a \<Rightarrow> int"
  assumes "distinct (map k xs)" "x \<in> set xs" "i = k x"
  shows "sum_list (map g (update_where (\<lambda>y. k y = i) f xs)) = sum_list (map g xs) - g x + g (f x)"
  using filter_key_unique [OF assms(1,2)] assms(3) by (simp add: sum_list_update_where)

lemma key_eq_imp_eq:
  "distinct (map k xs) \<Longrightarrow> x \<in> set xs \<Longrightarrow> y \<in> set xs \<Longrightarrow> k x = k y \<Longrightarrow> x = y"
  by (auto simp: distinct_map inj_on_def)

lemma find_Some_D: "List.find p xs = Some x \<Longrightarrow> x \<in> set xs \<and> p x"
  by (auto simp: find_Some_iff)

lemma find_None_D: "List.find p xs = None \<Longrightarrow> x \<in> set xs \<Longrightarrow> \<not> p x"
  by (auto simp: find_None_iff)

lemma find_append: "List.find p (xs @ ys) = (case List.find p xs of None \<Rightarrow> List.find p ys | r \<Rightarrow> r)"
  by (induction xs) auto

lemma find_key_unique:
  "distinct (map k xs) \<Longrightarrow> x \<in> set xs \<Longrightarrow> i = k x \<Longrightarrow> List.find (\<lambda>y. k y = i) xs = Some x"
proof (induction xs)
  case (Cons a xs)
  then show ?case by (cases "k a = k x") (auto simp: image_iff)
qed simp

lemma find_unique:
  assumes "x \<in> set xs" "p x" "\<And>y. y \<in> set xs \<Longrightarrow> p y \<Longrightarrow> y = x"
  shows "List.find p xs = Some x"
  using assms
proof (induction xs)
  case (Cons a xs)
  show ?case
  proof (cases "p a")
    case True
    with Cons.prems(3) [of a] show ?thesis by simp
  next
    case False
    with Cons.prems(1,2) have "x \<in> set xs" by auto
    moreover from Cons.prems(3) have "\<And>y. y \<in> set xs \<Longrightarrow> p y \<Longrightarrow> y = x" by simp
    ultimately have "List.find p xs = Some x" by (rule Cons.IH [OF _ Cons.prems(2)])
    with False show ?thesis by simp
  qed
qed simp

lemma sum_list_append_int: "sum_list (map g (xs @ [x])) = sum_list (map g xs) + (g x :: int)"
  by simp

lemma sum_list_map_nonneg: "(\<And>x. x \<in> set xs \<Longrightarrow> 0 \<le> (g x :: int)) \<Longrightarrow> 0 \<le> sum_list (map g xs)"
  by (induction xs) auto

lemma member_le_sum_list_int:
  "(\<And>x. x \<in> set xs \<Longrightarrow> 0 \<le> (g x :: int)) \<Longrightarrow> x \<in> set xs \<Longrightarrow> g x \<le> sum_list (map g xs)"
proof (induction xs)
  case (Cons a xs)
  from Cons.prems(1) have "0 \<le> sum_list (map g xs)" "0 \<le> g a"
    by (auto intro: sum_list_map_nonneg)
  with Cons show ?case by fastforce
qed simp

lemma sum_list_mset: "mset xs = mset ys \<Longrightarrow> sum_list (map g xs) = (sum_list (map g ys) :: int)"
  by (metis mset_map sum_mset_sum_list)

lemma sum_list_filter_if:
  "sum_list (map g (filter p xs)) = sum_list (map (\<lambda>x. if p x then g x else (0::int)) xs)"
  by (induction xs) auto

lemma distinct_map_append1 [simp]:
  "distinct (map k (xs @ [x])) \<longleftrightarrow> distinct (map k xs) \<and> k x \<notin> k ` set xs"
  by auto

section \<open>Results of fallible operations\<close>

text \<open>Composition of steps that may raise: the first error ends the sequence.\<close>

definition bind_res :: "'e + 'a \<Rightarrow> ('a \<Rightarrow> 'e + 'b) \<Rightarrow> 'e + 'b" where
  "bind_res r f = (case r of Inl e \<Rightarrow> Inl e | Inr x \<Rightarrow> f x)"

lemma bind_res_simps [simp]:
  "bind_res (Inl e) f = Inl e"
  "bind_res (Inr x) f = f x"
  by (simp_all add: bind_res_def)

lemma bind_res_Inr_iff: "bind_res r f = Inr y \<longleftrightarrow> (\<exists>x. r = Inr x \<and> f x = Inr y)"
  by (cases r) auto

lemma bind_res_Inl_iff: "bind_res r f = Inl e \<longleftrightarrow> r = Inl e \<or> (\<exists>x. r = Inr x \<and> f x = Inl e)"
  by (cases r) auto

definition is_ok :: "'e + 'a \<Rightarrow> bool" where
  "is_ok r = (case r of Inl _ \<Rightarrow> False | Inr _ \<Rightarrow> True)"

lemma is_ok_simps [simp]: "is_ok (Inl e) = False" "is_ok (Inr x) = True"
  by (simp_all add: is_ok_def)

section \<open>Text of numbers and identifiers\<close>

definition digit_char :: "nat \<Rightarrow> char" where
  "digit_char d = ''0123456789abcdef'' ! d"

fun digits_base :: "nat \<Rightarrow> nat \<Rightarrow> string" where
  "digits_base b n =
     (if b < 2 \<or> n < b then [digit_char n] else digits_base b (n div b) @ [digit_char (n mod b)])"

declare digits_base.simps [simp del]

text \<open>The decimal text of a counter, as \<^verbatim>\<open>`${n}`\<close> gives it.\<close>

definition nat_text :: "nat \<Rightarrow> string" where
  "nat_text n = digits_base 10 n"

definition pad_start :: "nat \<Rightarrow> char \<Rightarrow> string \<Rightarrow> string" where
  "pad_start w c s = replicate (w - length s) c @ s"

text \<open>The 8-4-4-4-12 hexadecimal text of a UUID.\<close>

definition uuid_text :: "uuid \<Rightarrow> string" where
  "uuid_text u =
     (let h = pad_start 32 (CHR ''0'') (digits_base 16 u)
      in take 8 h @ ''-'' @ take 4 (drop 8 h) @ ''-'' @ take 4 (drop 12 h) @ ''-'' @
         take 4 (drop 16 h) @ ''-'' @ drop 20 h)"

lemma digit_char_inj: "i < 16 \<Longrightarrow> j < 16 \<Longrightarrow> digit_char i = digit_char j \<longleftrightarrow> i = j"
proof -
  have "distinct ''0123456789abcdef''" by simp
  then show "i < 16 \<Longrightarrow> j < 16 \<Longrightarrow> digit_char i = digit_char j \<longleftrightarrow> i = j"
    unfolding digit_char_def by (subst nth_eq_iff_index_eq) auto
qed

lemma digits_base_nonempty [simp]: "digits_base b n \<noteq> []" "[] \<noteq> digits_base b n"
  by (subst digits_base.simps, simp)+

lemma digits_base_inj:
  "2 \<le> b \<Longrightarrow> b \<le> 16 \<Longrightarrow> digits_base b m = digits_base b n \<Longrightarrow> m = n"
proof (induction m arbitrary: n rule: less_induct)
  case (less m)
  show ?case
  proof (cases "m < b")
    case True
    with less.prems have n: "n < b"
      by (subst (asm) (1 2) digits_base.simps) (auto split: if_splits)
    with True less.prems show ?thesis
      using digit_char_inj [of m n]
      by (subst (asm) (1 2) digits_base.simps) auto
  next
    case False
    with less.prems have n: "\<not> n < b"
      by (subst (asm) (1 2) digits_base.simps) (auto split: if_splits)
    with False less.prems
    have eq: "digits_base b (m div b) = digits_base b (n div b)" "digit_char (m mod b) = digit_char (n mod b)"
      by (subst (asm) (1 2) digits_base.simps, simp)+
    have "m mod b < b" "n mod b < b" using less.prems(1) by simp_all
    with less.prems(2) have "m mod b < 16" "n mod b < 16" by linarith+
    with eq(2) digit_char_inj have md: "m mod b = n mod b" by blast
    have "m div b < m" using False less.prems(1) by simp
    then have "m div b = n div b"
      using less.IH less.prems(1,2) eq(1) by blast
    with md show ?thesis by (metis div_mult_mod_eq)
  qed
qed

lemma nat_text_inj [simp]: "nat_text m = nat_text n \<longleftrightarrow> m = n"
  unfolding nat_text_def using digits_base_inj [of 10] by auto

lemma hd_digits_base:
  "2 \<le> b \<Longrightarrow> b \<le> 16 \<Longrightarrow> 0 < n \<Longrightarrow> hd (digits_base b n) \<noteq> CHR ''0''"
proof (induction n rule: less_induct)
  case (less n)
  show ?case
  proof (cases "n < b")
    case True
    with less.prems digit_char_inj [of n 0] show ?thesis
      by (subst digits_base.simps) (simp add: digit_char_def)
  next
    case False
    with less.prems have "n div b < n" "0 < n div b" by (simp_all add: div_greater_zero_iff)
    with less False show ?thesis by (subst digits_base.simps) simp
  qed
qed

lemma dropWhile_digits:
  assumes "2 \<le> b" "b \<le> 16" "0 < n"
  shows "dropWhile ((=) (CHR ''0'')) (digits_base b n) = digits_base b n"
  using hd_digits_base [OF assms] digits_base_nonempty(1) [of b n]
  by (cases "digits_base b n") auto

lemma pad_digits_inj:
  assumes "2 \<le> b" "b \<le> 16" "pad_start w (CHR ''0'') (digits_base b m) = pad_start w (CHR ''0'') (digits_base b n)"
  shows "m = n"
proof -
  have drop: "dropWhile ((=) (CHR ''0'')) (pad_start w (CHR ''0'') (digits_base b k)) =
      (if k = 0 then [] else digits_base b k)" for k
  proof -
    have "dropWhile ((=) c) (replicate j c @ xs) = dropWhile ((=) c) xs" for j and c :: char and xs
      by (induction j) auto
    then show ?thesis
      using assms(1,2) dropWhile_digits [of b k] digits_base.simps [of b 0]
      by (auto simp: pad_start_def digit_char_def)
  qed
  from arg_cong [OF assms(3), of "dropWhile ((=) (CHR ''0''))"] have
    "(if m = 0 then [] else digits_base b m) = (if n = 0 then [] else digits_base b n)" unfolding drop .
  then show ?thesis using digits_base_inj [OF assms(1,2)] by (auto split: if_splits)
qed

lemma uuid_text_inj: "uuid_text u = uuid_text v \<longleftrightarrow> u = v"
proof
  let ?h = "\<lambda>u. pad_start 32 (CHR ''0'') (digits_base 16 u)"
  define strip :: "string \<Rightarrow> string" where
    "strip s = take 8 s @ take 4 (drop 9 s) @ take 4 (drop 14 s) @ take 4 (drop 19 s) @ drop 24 s" for s
  have "strip (uuid_text u) = ?h u" for u
  proof -
    have len: "32 \<le> length (?h u)" by (simp add: pad_start_def)
    have split: "h = take 8 h @ take 4 (drop 8 h) @ take 4 (drop 12 h) @ take 4 (drop 16 h) @ drop 20 h" for h :: string
      using take_add [of 8 4 h] take_add [of 12 4 h] take_add [of 16 4 h] append_take_drop_id [of 20 h] by simp
    have join: "strip (a @ ''-'' @ b @ ''-'' @ c @ ''-'' @ d @ ''-'' @ e) = a @ b @ c @ d @ e"
      if "length a = 8" "length b = 4" "length c = 4" "length d = 4" for a b c d e
      using that by (simp add: strip_def)
    have "strip (uuid_text u) = take 8 (?h u) @ take 4 (drop 8 (?h u)) @ take 4 (drop 12 (?h u)) @
        take 4 (drop 16 (?h u)) @ drop 20 (?h u)"
      unfolding uuid_text_def Let_def by (rule join) (use len in simp_all)
    also have "\<dots> = ?h u" by (rule split [symmetric])
    finally show ?thesis .
  qed
  moreover assume "uuid_text u = uuid_text v"
  ultimately have "?h u = ?h v" by metis
  then show "u = v" by (rule pad_digits_inj [rotated 2]) simp_all
qed simp

text \<open>Identifiers contain no colon, so the parts of a key can be read back.\<close>

lemma digit_char_not_colon: "k < 16 \<Longrightarrow> digit_char k \<noteq> CHR '':''"
proof -
  assume "k < 16"
  then have "digit_char k \<in> set ''0123456789abcdef''" unfolding digit_char_def by (intro nth_mem) simp
  then show ?thesis by auto
qed

lemma digits_base_no_colon: "2 \<le> b \<Longrightarrow> b \<le> 16 \<Longrightarrow> CHR '':'' \<notin> set (digits_base b n)"
proof (induction n rule: less_induct)
  case (less n)
  show ?case
  proof (cases "n < b")
    case True
    with less.prems digit_char_not_colon [of n] show ?thesis by (subst digits_base.simps) auto
  next
    case False
    have "n mod b < 16" using less.prems by (meson less_le_trans mod_less_divisor zero_less_numeral)
    moreover have "n div b < n" using False less.prems by simp
    ultimately show ?thesis using False less.prems less.IH [of "n div b"] digit_char_not_colon [of "n mod b"]
      by (subst digits_base.simps) auto
  qed
qed

lemma uuid_text_no_colon: "CHR '':'' \<notin> set (uuid_text u)"
proof -
  have "CHR '':'' \<notin> set (pad_start 32 (CHR ''0'') (digits_base 16 u))"
    using digits_base_no_colon [of 16 u] by (simp add: pad_start_def)
  then show ?thesis unfolding uuid_text_def Let_def
    by (auto dest: in_set_takeD in_set_dropD)
qed

lemma append_sep_inj:
  assumes "s \<notin> set a" "s \<notin> set b" "a @ s # x = b @ s # y"
  shows "a = b \<and> x = y"
  using assms
proof (induction a arbitrary: b)
  case Nil
  then show ?case by (cases b) auto
next
  case (Cons c a)
  then show ?case by (cases b) auto
qed

lemmas append_colon_inj = append_sep_inj [where s = "CHR '':''"]

end
