(* ===== verification/Messaging.thy ===== *)
theory Messaging
  imports Prelude "HOL-Library.Product_Lexorder"
begin

text \<open>
  The messaging library (\<^verbatim>\<open>libs/messaging\<close>): the event envelope, the transactional outbox row, the
  inbox row, the retry delay, the batch query of \<^verbatim>\<open>PrismaOutboxStore\<close>, the relay loop of
  \<^verbatim>\<open>OutboxRelay.flush\<close>, and the consumption loop of \<^verbatim>\<open>KafkaEventConsumer\<close>.

  A JSON payload is modelled as a typed body together with its \<^verbatim>\<open>actorId\<close> key, the only key the
  library reads. The broker is a parameter: \<open>publish env\<close> is \<open>None\<close> when Kafka acknowledges the
  message and \<open>Some\<close> of the error text when it does not.

  Two interfaces are locales: \<open>outbox_relay_store\<close> is what the relay relies on from a store, and
  \<open>idempotent_consumer\<close> is what every inbox-guarded event handler promises.
\<close>

section \<open>Rows and envelopes\<close>

record 'p envelope =
  ev_eventId :: uuid
  ev_eventType :: string
  ev_eventVersion :: nat
  ev_occurredAt :: instant
  ev_producer :: string
  ev_tenantId :: uuid
  ev_actorId :: "uuid option"
  ev_correlationId :: uuid
  ev_causationId :: uuid
  ev_aggregateType :: string
  ev_aggregateId :: uuid
  ev_aggregateVersion :: version
  ev_payload :: 'p
  ev_payloadActor :: "uuid option"

record 'p outbox_event =
  ob_id :: uuid
  ob_tenantId :: uuid
  ob_eventType :: string
  ob_eventVersion :: nat
  ob_aggregateType :: string
  ob_aggregateId :: uuid
  ob_aggregateVersion :: version
  ob_correlationId :: uuid
  ob_causationId :: "uuid option"
  ob_payload :: 'p
  ob_payloadActor :: "uuid option"
  ob_occurredAt :: instant
  ob_publishedAt :: "instant option"
  ob_attemptCount :: nat
  ob_nextAttemptAt :: instant
  ob_lastError :: "string option"
  ob_version :: version
  ob_deletedAt :: "instant option"

record inbox_event =
  ie_tenantId :: uuid
  ie_consumerName :: string
  ie_eventId :: uuid
  ie_eventType :: string
  ie_aggregateId :: "uuid option"
  ie_aggregateVersion :: "version option"
  ie_outcome :: string

text \<open>
  The shipment contract shared by the services: the lifecycle payload, and the envelope check of
  \<^verbatim>\<open>validateShipmentEnvelope\<close>. Identifiers are well formed by their type, so the check is about the
  version, the producer and the aggregate type. In a received envelope the payload is \<open>None\<close> when the
  event's schema rejects it.
\<close>

record shipment_lifecycle =
  sl_shipmentId :: uuid
  sl_orderId :: uuid
  sl_reservationGroupId :: uuid
  sl_warehouseId :: uuid
  sl_dispatchRequestId :: "uuid option"
  sl_reason :: "string option"

definition MAX_SAFE_INTEGER :: int where
  "MAX_SAFE_INTEGER = 2 ^ 53 - 1"

definition isSafeInteger :: "nat \<Rightarrow> bool" where
  "isSafeInteger n = (int n \<le> MAX_SAFE_INTEGER)"

definition validateShipmentEnvelope :: "'p envelope \<Rightarrow> string \<Rightarrow> string \<Rightarrow> bool" where
  "validateShipmentEnvelope event producer aggregateType \<longleftrightarrow>
     0 < ev_aggregateVersion event \<and> isSafeInteger (ev_aggregateVersion event) \<and> ev_eventVersion event = 1 \<and>
     ev_producer event = producer \<and> ev_aggregateType event = aggregateType"

text \<open>The inbox row of a consumer and event, the unique key of every inbox table.\<close>

definition inbox_has :: "string \<Rightarrow> uuid \<Rightarrow> inbox_event list \<Rightarrow> bool" where
  "inbox_has c i xs = exists_row (\<lambda>r. ie_consumerName r = c \<and> ie_eventId r = i) xs"

lemma inbox_has_snoc [simp]:
  "inbox_has c i (xs @ [r]) \<longleftrightarrow> inbox_has c i xs \<or> ie_consumerName r = c \<and> ie_eventId r = i"
  by (auto simp: inbox_has_def)

lemma inbox_has_Nil [simp]: "\<not> inbox_has c i []"
  by (simp add: inbox_has_def)

section \<open>The retry delay\<close>

definition outboxRetryDelay :: "nat \<Rightarrow> nat \<Rightarrow> nat \<Rightarrow> nat" where
  "outboxRetryDelay attemptCount baseMs maxMs = min maxMs (baseMs * 2 ^ min (attemptCount - 1) 30)"

section \<open>The store: which rows a flush may publish\<close>

text \<open>The lexicographic key of the query's row comparison.\<close>

definition ob_key :: "'p outbox_event \<Rightarrow> version \<times> instant \<times> uuid" where
  "ob_key e = (ob_aggregateVersion e, ob_occurredAt e, ob_id e)"

definition same_aggregate :: "'p outbox_event \<Rightarrow> 'p outbox_event \<Rightarrow> bool" where
  "same_aggregate a b \<longleftrightarrow> ob_tenantId a = ob_tenantId b \<and>
     ob_aggregateType a = ob_aggregateType b \<and> ob_aggregateId a = ob_aggregateId b"

definition ob_pending :: "'p outbox_event \<Rightarrow> bool" where
  "ob_pending e \<longleftrightarrow> ob_publishedAt e = None \<and> ob_deletedAt e = None"

definition ob_eligible :: "instant \<Rightarrow> 'p outbox_event list \<Rightarrow> 'p outbox_event \<Rightarrow> bool" where
  "ob_eligible now evs e \<longleftrightarrow> ob_publishedAt e = None \<and> ob_nextAttemptAt e \<le> now \<and>
     ob_deletedAt e = None \<and>
     \<not> exists_row (\<lambda>earlier. same_aggregate earlier e \<and> ob_pending earlier \<and> ob_key earlier < ob_key e) evs"

text \<open>The batch: eligible rows no other relay has locked, by time and id, at most \<open>limit\<close> of them.\<close>

definition lockedBatch ::
    "nat \<Rightarrow> instant \<Rightarrow> (uuid \<Rightarrow> bool) \<Rightarrow> 'p outbox_event list \<Rightarrow> 'p outbox_event list" where
  "lockedBatch limit now locked evs =
     take limit (sort_key (\<lambda>e. (ob_occurredAt e, ob_id e))
       (filter (\<lambda>e. ob_eligible now evs e \<and> \<not> locked (ob_id e)) evs))"

record 'p relay_record =
  rr_id :: uuid
  rr_attemptCount :: nat
  rr_envelope :: "'p envelope"

datatype relay_error = UnsafeAggregateVersion uuid | DeliveryActorMissing uuid

definition isDeliveryResult :: "'p outbox_event \<Rightarrow> bool" where
  "isDeliveryResult row \<longleftrightarrow>
     (ob_eventType row = ''DeliveryCompleted'' \<or> ob_eventType row = ''DeliveryFailed'') \<and>
     ob_eventVersion row = 2"

definition actorIsEnvelopeMetadata :: "'p outbox_event \<Rightarrow> bool" where
  "actorIsEnvelopeMetadata row \<longleftrightarrow>
     (ob_eventType row = ''TripDispatched'' \<and> ob_eventVersion row = 2) \<or> isDeliveryResult row"

text \<open>
  One row as the relay sees it. \<open>deliveryActor\<close> is the actor the store's query selects from the
  delivery attempts (the transport schema), \<open>None\<close> in the other schemas.
\<close>

definition toRelayRecord ::
    "string \<Rightarrow> ('p outbox_event \<Rightarrow> uuid option) \<Rightarrow> 'p outbox_event \<Rightarrow> relay_error + 'p relay_record" where
  "toRelayRecord producer deliveryActor row =
     (if \<not> isSafeInteger (ob_aggregateVersion row) then Inl (UnsafeAggregateVersion (ob_id row))
      else
        let actorId = (case ob_payloadActor row of Some a \<Rightarrow> Some a | None \<Rightarrow> deliveryActor row)
        in if isDeliveryResult row \<and> actorId = None then Inl (DeliveryActorMissing (ob_id row))
        else Inr \<lparr> rr_id = ob_id row, rr_attemptCount = ob_attemptCount row,
          rr_envelope = \<lparr> ev_eventId = ob_id row, ev_eventType = ob_eventType row,
            ev_eventVersion = ob_eventVersion row, ev_occurredAt = ob_occurredAt row,
            ev_producer = producer, ev_tenantId = ob_tenantId row, ev_actorId = actorId,
            ev_correlationId = ob_correlationId row,
            ev_causationId = (case ob_causationId row of Some c \<Rightarrow> c | None \<Rightarrow> ob_correlationId row),
            ev_aggregateType = ob_aggregateType row, ev_aggregateId = ob_aggregateId row,
            ev_aggregateVersion = ob_aggregateVersion row, ev_payload = ob_payload row,
            ev_payloadActor = (if actorIsEnvelopeMetadata row then None else ob_payloadActor row) \<rparr> \<rparr>)"

fun toRelayRecords ::
    "string \<Rightarrow> ('p outbox_event \<Rightarrow> uuid option) \<Rightarrow> 'p outbox_event list \<Rightarrow> relay_error + 'p relay_record list" where
  "toRelayRecords producer da [] = Inr []"
| "toRelayRecords producer da (row # rows) =
     bind_res (toRelayRecord producer da row)
       (\<lambda>r. bind_res (toRelayRecords producer da rows) (\<lambda>rs. Inr (r # rs)))"

definition markPublished :: "uuid \<Rightarrow> instant \<Rightarrow> 'p outbox_event list \<Rightarrow> 'p outbox_event list" where
  "markPublished i t evs = update_where (\<lambda>e. ob_id e = i)
     (\<lambda>e. e\<lparr> ob_publishedAt := Some t, ob_lastError := None, ob_version := ob_version e + 1 \<rparr>) evs"

definition markFailed ::
    "uuid \<Rightarrow> nat \<Rightarrow> instant \<Rightarrow> string \<Rightarrow> 'p outbox_event list \<Rightarrow> 'p outbox_event list" where
  "markFailed i n t err evs = update_where (\<lambda>e. ob_id e = i)
     (\<lambda>e. e\<lparr> ob_attemptCount := n, ob_nextAttemptAt := t, ob_lastError := Some err,
             ob_version := ob_version e + 1 \<rparr>) evs"

section \<open>The relay\<close>

record relay_options =
  ro_topic :: string
  ro_intervalMs :: nat
  ro_batchSize :: nat
  ro_retryBaseMs :: nat
  ro_retryMaxMs :: nat

definition is_space :: "char \<Rightarrow> bool" where
  "is_space c \<longleftrightarrow> c \<in> {CHR '' '', CHR 0x09, CHR 0x0A, CHR 0x0B, CHR 0x0C, CHR 0x0D, CHR 0xA0}"

definition is_blank :: "string \<Rightarrow> bool" where
  "is_blank s = list_all is_space s"

text \<open>The constructor's guard: a relay exists only with a usable configuration.\<close>

definition relay_options_valid :: "relay_options \<Rightarrow> bool" where
  "relay_options_valid opt \<longleftrightarrow> \<not> (is_blank (ro_topic opt) \<or>
     list_ex (\<lambda>v. \<not> isSafeInteger v \<or> v = 0)
       [ro_intervalMs opt, ro_batchSize opt, ro_retryBaseMs opt, ro_retryMaxMs opt] \<or>
     ro_retryMaxMs opt < ro_retryBaseMs opt)"

text \<open>
  The callback of \<open>flush\<close> over the store's transaction interface (\<open>markP\<close>, \<open>markF\<close> are its
  \<^verbatim>\<open>markPublished\<close> and \<^verbatim>\<open>markFailed\<close>): what the broker accepted, in order, and the store after it.
\<close>

fun relay_records ::
    "(uuid \<Rightarrow> instant \<Rightarrow> 'db \<Rightarrow> 'db) \<Rightarrow> (uuid \<Rightarrow> nat \<Rightarrow> instant \<Rightarrow> string \<Rightarrow> 'db \<Rightarrow> 'db) \<Rightarrow>
     relay_options \<Rightarrow> instant \<Rightarrow> ('p envelope \<Rightarrow> string option) \<Rightarrow> 'p relay_record list \<Rightarrow>
     'db \<Rightarrow> 'p envelope list \<times> 'db" where
  "relay_records markP markF opt now publish [] db = ([], db)"
| "relay_records markP markF opt now publish (r # rs) db =
     (case publish (rr_envelope r) of
        Some message \<Rightarrow>
          let attemptCount = rr_attemptCount r + 1;
              db' = markF (rr_id r) attemptCount
                (now + outboxRetryDelay attemptCount (ro_retryBaseMs opt) (ro_retryMaxMs opt)) message db
          in relay_records markP markF opt now publish rs db'
      | None \<Rightarrow>
          let rest = relay_records markP markF opt now publish rs (markP (rr_id r) now db)
          in (rr_envelope r # fst rest, snd rest))"

text \<open>
  One flush: the broker's log of this flush and the rows after it. A row that cannot be turned into
  an envelope aborts the transaction before anything is published; when the transaction fails to
  commit, what was sent stays sent and the rows are as before.
\<close>

definition flush ::
    "relay_options \<Rightarrow> string \<Rightarrow> ('p outbox_event \<Rightarrow> uuid option) \<Rightarrow> instant \<Rightarrow> (uuid \<Rightarrow> bool) \<Rightarrow>
     ('p envelope \<Rightarrow> string option) \<Rightarrow> bool \<Rightarrow> 'p outbox_event list \<Rightarrow>
     'p envelope list \<times> 'p outbox_event list" where
  "flush opt producer da now locked publish committed evs =
     (case toRelayRecords producer da (lockedBatch (ro_batchSize opt) now locked evs) of
        Inl _ \<Rightarrow> ([], evs)
      | Inr records \<Rightarrow>
          let out = relay_records markPublished markFailed opt now publish records evs
          in (fst out, if committed then snd out else evs))"

text \<open>What the relay relies on from a store: the interface \<^verbatim>\<open>OutboxRelayTransaction\<close>.\<close>

locale outbox_relay_store =
  fixes pending :: "uuid \<Rightarrow> 'db \<Rightarrow> bool"
    and markP :: "uuid \<Rightarrow> instant \<Rightarrow> 'db \<Rightarrow> 'db"
    and markF :: "uuid \<Rightarrow> nat \<Rightarrow> instant \<Rightarrow> string \<Rightarrow> 'db \<Rightarrow> 'db"
  assumes pending_markP: "pending i (markP j t db) \<longleftrightarrow> pending i db \<and> i \<noteq> j"
    and pending_markF: "pending i (markF j n t err db) \<longleftrightarrow> pending i db"
begin

lemma relay_log:
  "fst (relay_records markP markF opt now publish rs db) =
     filter (\<lambda>m. publish m = None) (map rr_envelope rs)"
  by (induction rs arbitrary: db) (auto simp: Let_def split: option.splits)

text \<open>A row leaves the pending set exactly when the broker acknowledged its message.\<close>

lemma relay_pending:
  "pending i (snd (relay_records markP markF opt now publish rs db)) \<longleftrightarrow>
     pending i db \<and> \<not> (\<exists>r\<in>set rs. rr_id r = i \<and> publish (rr_envelope r) = None)"
  by (induction rs arbitrary: db) (auto simp: Let_def pending_markP pending_markF split: option.splits)

end

section \<open>Lemmas on the retry delay\<close>

lemma outboxRetryDelay_le_max: "outboxRetryDelay n b m \<le> m"
  by (simp add: outboxRetryDelay_def)

lemma outboxRetryDelay_ge_base: "b \<le> m \<Longrightarrow> b \<le> outboxRetryDelay n b m"
  by (simp add: outboxRetryDelay_def)

lemma outboxRetryDelay_mono: "k \<le> n \<Longrightarrow> outboxRetryDelay k b m \<le> outboxRetryDelay n b m"
proof -
  assume "k \<le> n"
  then have "min (k - 1) 30 \<le> min (n - 1) 30" by simp
  then have "(2::nat) ^ min (k - 1) 30 \<le> 2 ^ min (n - 1) 30" by (rule power_increasing) simp
  then show ?thesis unfolding outboxRetryDelay_def by (metis min.mono mult_le_mono2 order_refl)
qed

section \<open>Lemmas on the store\<close>

lemma ob_ids_mark [simp]:
  "map ob_id (markPublished i t evs) = map ob_id evs"
  "map ob_id (markFailed i n u err evs) = map ob_id evs"
  by (simp_all add: markPublished_def markFailed_def)

lemma set_lockedBatch:
  "e \<in> set (lockedBatch limit now locked evs) \<Longrightarrow>
     e \<in> set evs \<and> ob_eligible now evs e \<and> \<not> locked (ob_id e)"
  by (auto simp: lockedBatch_def dest: in_set_takeD)

lemma distinct_lockedBatch:
  "distinct (map ob_id evs) \<Longrightarrow> distinct (map ob_id (lockedBatch limit now locked evs))"
proof -
  assume d: "distinct (map ob_id evs)"
  let ?ys = "filter (\<lambda>e. ob_eligible now evs e \<and> \<not> locked (ob_id e)) evs"
  have "distinct (map ob_id ?ys)" using d by (rule distinct_map_filter)
  then have "distinct (map ob_id (sort_key (\<lambda>e. (ob_occurredAt e, ob_id e)) ?ys))"
    by (simp add: distinct_map)
  then show ?thesis by (simp add: lockedBatch_def flip: take_map)
qed

lemma length_lockedBatch: "length (lockedBatch limit now locked evs) \<le> limit"
  by (simp add: lockedBatch_def)

lemma toRelayRecord_id: "toRelayRecord p da row = Inr r \<Longrightarrow>
    rr_id r = ob_id row \<and> ev_eventId (rr_envelope r) = ob_id row \<and> rr_attemptCount r = ob_attemptCount row"
  by (auto simp: toRelayRecord_def Let_def split: if_splits)

lemma toRelayRecords_ids:
  "toRelayRecords p da rows = Inr rs \<Longrightarrow>
     map rr_id rs = map ob_id rows \<and> map (ev_eventId \<circ> rr_envelope) rs = map ob_id rows"
  by (induction rows arbitrary: rs) (auto simp: bind_res_Inr_iff dest: toRelayRecord_id)

lemma toRelayRecords_rec:
  "toRelayRecords p da rows = Inr rs \<Longrightarrow> r \<in> set rs \<Longrightarrow>
     \<exists>row\<in>set rows. toRelayRecord p da row = Inr r"
  by (induction rows arbitrary: rs) (auto simp: bind_res_Inr_iff)

lemma toRelayRecords_error:
  "row \<in> set rows \<Longrightarrow> toRelayRecord p da row = Inl e \<Longrightarrow> \<exists>e'. toRelayRecords p da rows = Inl e'"
proof (induction rows)
  case (Cons a rows)
  then show ?case by (cases "toRelayRecord p da a") auto
qed simp

section \<open>The relay over the Prisma store\<close>

definition ob_unpublished :: "uuid \<Rightarrow> 'p outbox_event list \<Rightarrow> bool" where
  "ob_unpublished i evs = exists_row (\<lambda>e. ob_id e = i \<and> ob_publishedAt e = None) evs"

interpretation prisma_store: outbox_relay_store ob_unpublished markPublished markFailed
proof unfold_locales
  show "ob_unpublished i (markPublished j t db) \<longleftrightarrow> ob_unpublished i db \<and> i \<noteq> j"
    for i j t and db :: "'a outbox_event list"
    by (induction db) (auto simp: ob_unpublished_def markPublished_def)
  show "ob_unpublished i (markFailed j n t err db) \<longleftrightarrow> ob_unpublished i db"
    for i j n t err and db :: "'a outbox_event list"
    by (induction db) (auto simp: ob_unpublished_def markFailed_def)
qed

abbreviation prisma_relay :: "relay_options \<Rightarrow> instant \<Rightarrow> ('p envelope \<Rightarrow> string option) \<Rightarrow>
    'p relay_record list \<Rightarrow> 'p outbox_event list \<Rightarrow> 'p envelope list \<times> 'p outbox_event list" where
  "prisma_relay \<equiv> relay_records markPublished markFailed"

lemma prisma_relay_ids [simp]:
  "map ob_id (snd (prisma_relay opt now publish rs evs)) = map ob_id evs"
  by (induction rs arbitrary: evs) (auto simp: Let_def split: option.splits)

text \<open>The fields of a row a flush never touches.\<close>

definition ob_same_row :: "'p outbox_event \<Rightarrow> 'p outbox_event \<Rightarrow> bool" where
  "ob_same_row a b \<longleftrightarrow> ob_id a = ob_id b \<and> ob_key a = ob_key b \<and> same_aggregate a b \<and>
     ob_deletedAt a = ob_deletedAt b"

lemma ob_same_row_refl [simp]: "ob_same_row a a"
  by (simp add: ob_same_row_def same_aggregate_def)

lemma ob_same_row_trans: "ob_same_row a b \<Longrightarrow> ob_same_row b c \<Longrightarrow> ob_same_row a c"
  by (auto simp: ob_same_row_def same_aggregate_def)

lemma markPublished_row:
  assumes "e' \<in> set (markPublished i t evs)"
  obtains e where "e \<in> set evs" "ob_same_row e' e"
    "ob_publishedAt e' = (if ob_id e = i then Some t else ob_publishedAt e)"
  using assms by (auto simp: markPublished_def ob_same_row_def ob_key_def same_aggregate_def elim!: update_whereE)

lemma markFailed_row:
  assumes "e' \<in> set (markFailed i n t err evs)"
  obtains e where "e \<in> set evs" "ob_same_row e' e" "ob_publishedAt e' = ob_publishedAt e"
  using assms by (auto simp: markFailed_def ob_same_row_def ob_key_def same_aggregate_def elim!: update_whereE)

lemma prisma_relay_row:
  "e' \<in> set (snd (prisma_relay opt now publish rs evs)) \<Longrightarrow>
   \<exists>e\<in>set evs. ob_same_row e' e \<and>
     (ob_publishedAt e' = None \<longleftrightarrow> ob_publishedAt e = None \<and>
        \<not> (\<exists>r\<in>set rs. rr_id r = ob_id e \<and> publish (rr_envelope r) = None))"
proof (induction rs arbitrary: evs)
  case Nil
  then show ?case by (intro bexI [of _ e']) simp_all
next
  case (Cons r rs)
  let ?ack = "\<lambda>rs i. \<exists>r\<in>set rs. rr_id r = i \<and> publish (rr_envelope r) = None"
  show ?case
  proof (cases "publish (rr_envelope r)")
    case None
    with Cons.prems have "e' \<in> set (snd (prisma_relay opt now publish rs (markPublished (rr_id r) now evs)))"
      by (simp add: Let_def)
    from Cons.IH [OF this] obtain e1 where e1: "e1 \<in> set (markPublished (rr_id r) now evs)" "ob_same_row e' e1"
        "ob_publishedAt e' = None \<longleftrightarrow> ob_publishedAt e1 = None \<and> \<not> ?ack rs (ob_id e1)"
      by (elim bexE conjE) (rule that)
    from e1(1) obtain e where e: "e \<in> set evs" "ob_same_row e1 e"
        "ob_publishedAt e1 = (if ob_id e = rr_id r then Some now else ob_publishedAt e)"
      by (rule markPublished_row)
    have id: "ob_id e1 = ob_id e" using e(2) by (simp add: ob_same_row_def)
    have "?ack (r # rs) (ob_id e) \<longleftrightarrow> rr_id r = ob_id e \<or> ?ack rs (ob_id e)" using None by simp
    with e1(3) e(3) id have "ob_publishedAt e' = None \<longleftrightarrow> ob_publishedAt e = None \<and> \<not> ?ack (r # rs) (ob_id e)"
      by (cases "ob_id e = rr_id r") simp_all
    with ob_same_row_trans [OF e1(2) e(2)] show ?thesis by (intro bexI [OF _ e(1)] conjI)
  next
    case (Some m)
    with Cons.prems obtain n t where
      "e' \<in> set (snd (prisma_relay opt now publish rs (markFailed (rr_id r) n t m evs)))"
      by (auto simp: Let_def)
    from Cons.IH [OF this] obtain e1 where e1: "e1 \<in> set (markFailed (rr_id r) n t m evs)" "ob_same_row e' e1"
        "ob_publishedAt e' = None \<longleftrightarrow> ob_publishedAt e1 = None \<and> \<not> ?ack rs (ob_id e1)"
      by (elim bexE conjE) (rule that)
    from e1(1) obtain e where e: "e \<in> set evs" "ob_same_row e1 e" "ob_publishedAt e1 = ob_publishedAt e"
      by (rule markFailed_row)
    have id: "ob_id e1 = ob_id e" using e(2) by (simp add: ob_same_row_def)
    have "?ack (r # rs) (ob_id e) \<longleftrightarrow> ?ack rs (ob_id e)" using Some by simp
    with e1(3) e(3) id have "ob_publishedAt e' = None \<longleftrightarrow> ob_publishedAt e = None \<and> \<not> ?ack (r # rs) (ob_id e)"
      by simp
    with ob_same_row_trans [OF e1(2) e(2)] show ?thesis by (intro bexI [OF _ e(1)] conjI)
  qed
qed

text \<open>
  The order invariant: in every aggregate the published rows are a prefix of its rows in the order
  of version, time and id.
\<close>

definition published_prefix :: "'p outbox_event list \<Rightarrow> bool" where
  "published_prefix evs \<longleftrightarrow> (\<forall>e\<in>set evs. \<forall>d\<in>set evs.
     same_aggregate d e \<and> ob_key d < ob_key e \<and> ob_deletedAt d = None \<and> ob_publishedAt e \<noteq> None
       \<longrightarrow> ob_publishedAt d \<noteq> None)"

lemma flush_alt:
  "snd (flush opt p da now locked publish committed evs) = evs \<or>
   (\<exists>rs. toRelayRecords p da (lockedBatch (ro_batchSize opt) now locked evs) = Inr rs \<and>
      flush opt p da now locked publish committed evs =
        (filter (\<lambda>m. publish m = None) (map rr_envelope rs), snd (prisma_relay opt now publish rs evs)))"
  by (cases "toRelayRecords p da (lockedBatch (ro_batchSize opt) now locked evs)"; cases committed)
     (auto simp: flush_def Let_def prisma_store.relay_log prod_eq_iff)

text \<open>A row a flush publishes was in its batch, and its message is in the broker's log.\<close>

lemma relayed_row_sent:
  assumes recs: "toRelayRecords p da batch = Inr rs"
    and r: "r \<in> set rs" "rr_id r = i" "publish (rr_envelope r) = None"
  shows "i \<in> ob_id ` set batch \<and> (\<exists>m\<in>set (filter (\<lambda>m. publish m = None) (map rr_envelope rs)). ev_eventId m = i)"
proof
  from r(1,2) have "i \<in> set (map rr_id rs)" by force
  with toRelayRecords_ids [OF recs] show "i \<in> ob_id ` set batch" by simp
  obtain row where "toRelayRecord p da row = Inr r"
    using toRelayRecords_rec [OF recs r(1)] by blast
  with r(2) have "ev_eventId (rr_envelope r) = i" using toRelayRecord_id by metis
  with r(1,3) show "\<exists>m\<in>set (filter (\<lambda>m. publish m = None) (map rr_envelope rs)). ev_eventId m = i"
    by (intro bexI [of _ "rr_envelope r"]) simp_all
qed

lemma flush_row:
  assumes "e' \<in> set (snd (flush opt p da now locked publish committed evs))"
  shows "\<exists>e\<in>set evs. ob_same_row e' e \<and> (ob_publishedAt e \<noteq> None \<longrightarrow> ob_publishedAt e' \<noteq> None) \<and>
    (ob_publishedAt e = None \<and> ob_publishedAt e' \<noteq> None \<longrightarrow>
       ob_id e \<in> ob_id ` set (lockedBatch (ro_batchSize opt) now locked evs) \<and>
       (\<exists>m\<in>set (fst (flush opt p da now locked publish committed evs)). ev_eventId m = ob_id e))"
  using flush_alt [of opt p da now locked publish committed evs]
proof (elim disjE exE conjE)
  assume "snd (flush opt p da now locked publish committed evs) = evs"
  with assms show ?thesis by (intro bexI [of _ e']) auto
next
  fix rs
  assume recs: "toRelayRecords p da (lockedBatch (ro_batchSize opt) now locked evs) = Inr rs"
    and fl: "flush opt p da now locked publish committed evs =
      (filter (\<lambda>m. publish m = None) (map rr_envelope rs), snd (prisma_relay opt now publish rs evs))"
  from assms fl have "e' \<in> set (snd (prisma_relay opt now publish rs evs))" by simp
  from prisma_relay_row [OF this] obtain e where e: "e \<in> set evs" "ob_same_row e' e"
      "ob_publishedAt e' = None \<longleftrightarrow> ob_publishedAt e = None \<and>
         \<not> (\<exists>r\<in>set rs. rr_id r = ob_id e \<and> publish (rr_envelope r) = None)"
    by (elim bexE conjE) (rule that)
  have "ob_id e \<in> ob_id ` set (lockedBatch (ro_batchSize opt) now locked evs) \<and>
       (\<exists>m\<in>set (fst (flush opt p da now locked publish committed evs)). ev_eventId m = ob_id e)"
    if new: "ob_publishedAt e = None" "ob_publishedAt e' \<noteq> None"
  proof -
    from new e(3) obtain r where "r \<in> set rs" "rr_id r = ob_id e" "publish (rr_envelope r) = None" by auto
    from relayed_row_sent [where publish = publish, OF recs this] fl show ?thesis by simp
  qed
  moreover have "ob_publishedAt e \<noteq> None \<longrightarrow> ob_publishedAt e' \<noteq> None" using e(3) by simp
  ultimately show ?thesis using e(2) by (intro bexI [OF _ e(1)]) blast
qed

lemma flush_published_prefix:
  assumes ids: "distinct (map ob_id evs)" and pre: "published_prefix evs"
  shows "published_prefix (snd (flush opt p da now locked publish committed evs))"
  unfolding published_prefix_def
proof (intro ballI impI)
  fix e' d'
  assume mem: "e' \<in> set (snd (flush opt p da now locked publish committed evs))"
      "d' \<in> set (snd (flush opt p da now locked publish committed evs))"
    and rel: "same_aggregate d' e' \<and> ob_key d' < ob_key e' \<and> ob_deletedAt d' = None \<and> ob_publishedAt e' \<noteq> None"
  from flush_row [OF mem(1)] obtain e where e: "e \<in> set evs" "ob_same_row e' e"
    "ob_publishedAt e = None \<Longrightarrow> ob_publishedAt e' \<noteq> None \<Longrightarrow>
       ob_id e \<in> ob_id ` set (lockedBatch (ro_batchSize opt) now locked evs)"
    by blast
  from flush_row [OF mem(2)] obtain d where d: "d \<in> set evs" "ob_same_row d' d"
    "ob_publishedAt d \<noteq> None \<Longrightarrow> ob_publishedAt d' \<noteq> None"
    by blast
  from rel e(2) d(2) have rel': "same_aggregate d e" "ob_key d < ob_key e" "ob_deletedAt d = None"
    by (auto simp: ob_same_row_def same_aggregate_def)
  have "ob_publishedAt d \<noteq> None"
  proof (cases "ob_publishedAt e = None")
    case True
    with e(3) rel obtain b where b: "b \<in> set (lockedBatch (ro_batchSize opt) now locked evs)" "ob_id b = ob_id e"
      by force
    from set_lockedBatch [OF b(1)] have "b \<in> set evs" "ob_eligible now evs b" by auto
    with b(2) e(1) ids have "ob_eligible now evs e" by (metis key_eq_imp_eq)
    with d(1) rel' show ?thesis by (auto simp: ob_eligible_def ob_pending_def)
  next
    case False
    with pre e(1) d(1) rel' show ?thesis unfolding published_prefix_def by blast
  qed
  with d(3) show "ob_publishedAt d' \<noteq> None" by simp
qed

section \<open>Consumption: at-least-once delivery and the inbox\<close>

text \<open>
  \<open>eachMessage\<close> runs the handler and lets the offset advance only when it succeeds: a failure stops
  the partition at the failing message. The result is the state reached and the messages left.
\<close>

fun consume :: "('e \<Rightarrow> 'db \<Rightarrow> 'x + 'db) \<Rightarrow> 'e list \<Rightarrow> 'db \<Rightarrow> 'e list \<times> 'db" where
  "consume handle [] db = ([], db)"
| "consume handle (e # es) db =
     (case handle e db of Inl _ \<Rightarrow> (e # es, db) | Inr db' \<Rightarrow> consume handle es db')"

text \<open>The messages of a stream whose key has not occurred before in it.\<close>

fun dedup :: "('e \<Rightarrow> 'k) \<Rightarrow> 'k list \<Rightarrow> 'e list \<Rightarrow> 'e list" where
  "dedup key ks [] = []"
| "dedup key ks (e # es) = (if key e \<in> set ks then dedup key ks es else e # dedup key (key e # ks) es)"

text \<open>
  What an inbox-guarded handler promises: a message it has already accepted changes nothing, an
  accepted message is remembered, and no message makes it forget another.
\<close>

locale idempotent_consumer =
  fixes handle :: "'e \<Rightarrow> 'db \<Rightarrow> 'x + 'db"
    and key :: "'e \<Rightarrow> 'k"
    and valid :: "'e \<Rightarrow> bool"
    and seen :: "'k \<Rightarrow> 'db \<Rightarrow> bool"
  assumes replay: "valid e \<Longrightarrow> seen (key e) db \<Longrightarrow> handle e db = Inr db"
    and marks: "valid e \<Longrightarrow> handle e db = Inr db' \<Longrightarrow> seen (key e) db'"
    and remembers: "valid e \<Longrightarrow> handle e db = Inr db' \<Longrightarrow> seen k db \<Longrightarrow> seen k db'"
begin

lemma handle_twice:
  "valid e \<Longrightarrow> valid e' \<Longrightarrow> key e' = key e \<Longrightarrow> handle e db = Inr db' \<Longrightarrow> handle e' db' = Inr db'"
  using marks replay by metis

text \<open>
  Exactly-once effect under at-least-once delivery: a stream with repetitions is consumed to the
  same state as the stream without them.
\<close>

lemma consume_dedup_seen:
  assumes "\<forall>e\<in>set es. valid e" "\<forall>k\<in>set ks. seen k db" "consume handle es db = ([], db')"
  shows "consume handle (dedup key ks es) db = ([], db')"
  using assms
proof (induction es arbitrary: ks db)
  case (Cons e es)
  then obtain db1 where h: "handle e db = Inr db1" "consume handle es db1 = ([], db')"
    by (auto split: sum.splits)
  show ?case
  proof (cases "key e \<in> set ks")
    case True
    with Cons.prems h(1) have "db1 = db" using replay by fastforce
    with True Cons h(2) show ?thesis by simp
  next
    case False
    have "\<forall>k\<in>set (key e # ks). seen k db1"
      using Cons.prems(1,2) h(1) marks remembers by auto
    with Cons.IH [of "key e # ks" db1] Cons.prems(1) h False show ?thesis by simp
  qed
qed simp

lemma consume_dedup:
  "\<forall>e\<in>set es. valid e \<Longrightarrow> consume handle es db = ([], db') \<Longrightarrow>
     consume handle (dedup key [] es) db = ([], db')"
  by (rule consume_dedup_seen) simp_all

end

lemma consume_append:
  "consume handle (xs @ ys) db =
     (case consume handle xs db of ([], db') \<Rightarrow> consume handle ys db' | (rest, db') \<Rightarrow> (rest @ ys, db'))"
  by (induction xs arbitrary: db) (auto split: sum.splits)

lemma consume_invariant:
  assumes "\<And>e db db'. handle e db = Inr db' \<Longrightarrow> I db \<Longrightarrow> I db'" "I db"
  shows "I (snd (consume handle es db))"
  using assms(2) by (induction es arbitrary: db) (auto split: sum.splits dest: assms(1))

end
