(* ===== verification/Inventory_Base.thy ===== *)
theory Inventory_Base
  imports Messaging
begin

text \<open>
  The inventory service's tables (\<^verbatim>\<open>apps/inventory-service\<close>, \<^verbatim>\<open>prisma/schema.prisma\<close>), its errors, and
  \<^verbatim>\<open>StockMovementService\<close>: the only code that writes an on-hand quantity. The invariant of the
  service is stated here (\<open>inv_ok\<close>): stock bounds, the reservation account, the movement ledger,
  and the uniqueness the schema declares.
\<close>

section \<open>Tables\<close>

datatype movement_type = MT_RECEIPT | MT_ISSUE | MT_ADJUSTMENT_IN | MT_ADJUSTMENT_OUT | MT_REVERSAL
datatype reference_type = RT_SHIPMENT | RT_STOCK_RECEIPT | RT_MANUAL_ADJUSTMENT
datatype reservation_status = RS_ACTIVE | RS_RELEASED | RS_ISSUED

record balance =
  bal_id :: uuid
  bal_tenantId :: uuid
  bal_warehouseId :: uuid
  bal_productId :: uuid
  bal_onHandQuantity :: qty
  bal_reservedQuantity :: qty
  bal_lowStockThreshold :: qty
  bal_version :: version
  bal_deletedAt :: "instant option"

record reservation_group =
  grp_id :: uuid
  grp_tenantId :: uuid
  grp_orderId :: uuid
  grp_warehouseId :: uuid
  grp_status :: reservation_status
  grp_idempotencyKey :: string
  grp_orderVersion :: version
  grp_reservedAt :: instant
  grp_acknowledgedAt :: "instant option"
  grp_releasedAt :: "instant option"
  grp_issuedAt :: "instant option"
  grp_issueShipmentId :: "uuid option"
  grp_issueRequestId :: "uuid option"
  grp_version :: version
  grp_deletedAt :: "instant option"

record reservation =
  res_id :: uuid
  res_tenantId :: uuid
  res_reservationGroupId :: uuid
  res_orderId :: uuid
  res_orderLineId :: uuid
  res_balanceId :: uuid
  res_warehouseId :: uuid
  res_productId :: uuid
  res_quantity :: qty
  res_status :: reservation_status
  res_releasedAt :: "instant option"
  res_issuedAt :: "instant option"
  res_version :: version

record stock_movement =
  mov_id :: uuid
  mov_tenantId :: uuid
  mov_warehouseId :: uuid
  mov_productId :: uuid
  mov_balanceId :: uuid
  mov_movementType :: movement_type
  mov_quantityDelta :: qty
  mov_beforeOnHand :: qty
  mov_afterOnHand :: qty
  mov_referenceType :: reference_type
  mov_referenceId :: uuid
  mov_idempotencyKey :: string
  mov_reason :: "string option"
  mov_actorId :: uuid
  mov_correlationId :: uuid
  mov_occurredAt :: instant

record stock_receipt =
  rcp_id :: uuid
  rcp_tenantId :: uuid
  rcp_receiptNumber :: string
  rcp_warehouseId :: uuid
  rcp_idempotencyKey :: string
  rcp_status :: string
  rcp_receivedAt :: instant
  rcp_actorId :: uuid
  rcp_correlationId :: uuid
  rcp_deletedAt :: "instant option"

record stock_receipt_line =
  rcl_id :: uuid
  rcl_tenantId :: uuid
  rcl_receiptId :: uuid
  rcl_productId :: uuid
  rcl_quantity :: qty
  rcl_movementId :: uuid

text \<open>The payloads of the service's events, without their \<^verbatim>\<open>actorId\<close> key.\<close>

datatype inv_payload =
    MovementPayload (mp_movementId: uuid) (mp_warehouseId: uuid) (mp_productId: uuid)
      (mp_movementType: movement_type) (mp_quantityDelta: qty) (mp_quantity: "qty option")
      (mp_beforeOnHand: qty) (mp_afterOnHand: qty) (mp_reservedQuantity: qty)
      (mp_referenceType: reference_type) (mp_referenceId: uuid) (mp_reason: "string option")
  | ReservationPayload (rp_reservationGroupId: uuid) (rp_orderId: uuid) (rp_orderVersion: version)
      (rp_warehouseId: uuid) (rp_items: "(uuid \<times> qty) list")

record inv_db =
  balances :: "balance list"
  groups :: "reservation_group list"
  reservations :: "reservation list"
  movements :: "stock_movement list"
  receipts :: "stock_receipt list"
  receiptLines :: "stock_receipt_line list"
  inv_outbox :: "inv_payload outbox_event list"
  inv_inbox :: "inbox_event list"
  inv_next :: uuid  \<comment> \<open>the next identifier the database generates\<close>

datatype inv_error =
    IdempotencyKeyMismatch | InvalidReservationLines
  | ReservationReplayConflict | ActiveReservationExists | BalanceMissing
  | BalanceNotFound | ReservedBelowReservation
  | ZeroQuantityDelta | AdjustmentReasonRequired
  | InsufficientOnHand qty qty | BelowReserved qty
  | DuplicateReceiptProduct | ReceiptNotFound
  | UniqueViolation | InvalidEnvelope | InvalidPayload
  | UnexpectedProducer | UnknownReservation | DispatchContextMismatch
  | UnknownReservationGroup | IssuedByAnotherDispatch | InactiveReservation
  | OrphanIssueMovements | LineOwnershipMismatch | ReservedInsufficientForDispatch

text \<open>The HTTP status of the exception class the code raises; a plain \<^verbatim>\<open>Error\<close> is a 500.\<close>

fun inv_http_status :: "inv_error \<Rightarrow> nat" where
  "inv_http_status IdempotencyKeyMismatch = 400"
| "inv_http_status InvalidReservationLines = 400"
| "inv_http_status ReservationReplayConflict = 409"
| "inv_http_status ActiveReservationExists = 409"
| "inv_http_status ReservedBelowReservation = 409"
| "inv_http_status ZeroQuantityDelta = 400"
| "inv_http_status AdjustmentReasonRequired = 400"
| "inv_http_status (InsufficientOnHand _ _) = 400"
| "inv_http_status (BelowReserved _) = 400"
| "inv_http_status DuplicateReceiptProduct = 400"
| "inv_http_status ReceiptNotFound = 404"
| "inv_http_status BalanceNotFound = 404"
| "inv_http_status _ = 500"

section \<open>Stock movements\<close>

record movement_command =
  mc_tenantId :: uuid
  mc_warehouseId :: uuid
  mc_productId :: uuid
  mc_movementType :: movement_type
  mc_quantityDelta :: qty
  mc_referenceType :: reference_type
  mc_referenceId :: uuid
  mc_idempotencyKey :: string
  mc_reason :: "string option"
  mc_actorId :: uuid
  mc_correlationId :: uuid
  mc_occurredAt :: instant

definition bal_for :: "uuid \<Rightarrow> uuid \<Rightarrow> uuid \<Rightarrow> balance \<Rightarrow> bool" where
  "bal_for t w p b \<longleftrightarrow> bal_tenantId b = t \<and> bal_warehouseId b = w \<and> bal_productId b = p"

text \<open>Creates the balance on the first movement, then returns it (the row lock is the transaction).\<close>

definition lockBalance :: "uuid \<Rightarrow> uuid \<Rightarrow> uuid \<Rightarrow> inv_db \<Rightarrow> balance \<times> inv_db" where
  "lockBalance t w p db =
     (case List.find (bal_for t w p) (balances db) of
        Some b \<Rightarrow> (b, db)
      | None \<Rightarrow>
          let b = \<lparr> bal_id = inv_next db, bal_tenantId = t, bal_warehouseId = w, bal_productId = p,
                    bal_onHandQuantity = 0, bal_reservedQuantity = 0, bal_lowStockThreshold = 0,
                    bal_version = 1, bal_deletedAt = None \<rparr>
          in (b, db\<lparr> balances := balances db @ [b], inv_next := inv_next db + 1 \<rparr>))"

definition findMovementByKey :: "uuid \<Rightarrow> string \<Rightarrow> inv_db \<Rightarrow> stock_movement option" where
  "findMovementByKey t k db =
     List.find (\<lambda>m. mov_tenantId m = t \<and> mov_idempotencyKey m = k) (movements db)"

definition isAdjustment :: "movement_type \<Rightarrow> bool" where
  "isAdjustment m \<longleftrightarrow> m = MT_ADJUSTMENT_IN \<or> m = MT_ADJUSTMENT_OUT"

definition movementEventType :: "movement_type \<Rightarrow> string" where
  "movementEventType m =
     (if m = MT_RECEIPT then ''StockReceived'' else if m = MT_ISSUE then ''StockIssued''
      else ''InventoryAdjusted'')"

definition inv_outbox_create ::
    "uuid \<Rightarrow> string \<Rightarrow> string \<Rightarrow> uuid \<Rightarrow> version \<Rightarrow> uuid \<Rightarrow> inv_payload \<Rightarrow> uuid option \<Rightarrow> instant \<Rightarrow> inv_db \<Rightarrow> inv_db" where
  "inv_outbox_create t etype atype aid aver corr payload actor at db =
     db\<lparr> inv_outbox := inv_outbox db @
          [\<lparr> ob_id = inv_next db, ob_tenantId = t, ob_eventType = etype, ob_eventVersion = 1,
             ob_aggregateType = atype, ob_aggregateId = aid, ob_aggregateVersion = aver,
             ob_correlationId = corr, ob_causationId = None, ob_payload = payload,
             ob_payloadActor = actor, ob_occurredAt = at, ob_publishedAt = None,
             ob_attemptCount = 0, ob_nextAttemptAt = at, ob_lastError = None, ob_version = 1,
             ob_deletedAt = None \<rparr>],
         inv_next := inv_next db + 1 \<rparr>"

text \<open>
  The three writes of an accepted movement: the balance, the movement row, the outbox row. The
  movement table's unique index on tenant and idempotency key is what raises \<open>UniqueViolation\<close>.
\<close>

definition setOnHand :: "uuid \<Rightarrow> qty \<Rightarrow> inv_db \<Rightarrow> inv_db" where
  "setOnHand i q db = db\<lparr> balances := update_where (\<lambda>b. bal_id b = i)
     (\<lambda>b. b\<lparr> bal_onHandQuantity := q, bal_version := bal_version b + 1 \<rparr>) (balances db) \<rparr>"

definition newMovement :: "movement_command \<Rightarrow> balance \<Rightarrow> uuid \<Rightarrow> stock_movement" where
  "newMovement c b i = \<lparr> mov_id = i, mov_tenantId = mc_tenantId c,
     mov_warehouseId = mc_warehouseId c, mov_productId = mc_productId c, mov_balanceId = bal_id b,
     mov_movementType = mc_movementType c, mov_quantityDelta = mc_quantityDelta c,
     mov_beforeOnHand = bal_onHandQuantity b,
     mov_afterOnHand = bal_onHandQuantity b + mc_quantityDelta c,
     mov_referenceType = mc_referenceType c, mov_referenceId = mc_referenceId c,
     mov_idempotencyKey = mc_idempotencyKey c, mov_reason = mc_reason c,
     mov_actorId = mc_actorId c, mov_correlationId = mc_correlationId c,
     mov_occurredAt = mc_occurredAt c \<rparr>"

definition createMovement :: "stock_movement \<Rightarrow> inv_db \<Rightarrow> inv_error + inv_db" where
  "createMovement m db =
     (if findMovementByKey (mov_tenantId m) (mov_idempotencyKey m) db \<noteq> None then Inl UniqueViolation
      else Inr (db\<lparr> movements := movements db @ [m], inv_next := inv_next db + 1 \<rparr>))"

definition writeMovementEvent ::
    "movement_command \<Rightarrow> balance \<Rightarrow> stock_movement \<Rightarrow> inv_db \<Rightarrow> inv_db" where
  "writeMovementEvent c b m db =
     inv_outbox_create (mc_tenantId c) (movementEventType (mc_movementType c)) ''InventoryBalance''
       (bal_id b) (bal_version b + 1) (mc_correlationId c)
       (MovementPayload (mov_id m) (mc_warehouseId c) (mc_productId c) (mc_movementType c)
          (mc_quantityDelta c) (if mc_movementType c = MT_RECEIPT then Some (mc_quantityDelta c) else None)
          (mov_beforeOnHand m) (mov_afterOnHand m) (bal_reservedQuantity b)
          (mc_referenceType c) (mc_referenceId c) (mc_reason c))
       (Some (mc_actorId c)) (mc_occurredAt c) db"

text \<open>The transaction body after its replay check.\<close>

definition applyLocked :: "movement_command \<Rightarrow> inv_db \<Rightarrow> inv_error + stock_movement \<times> inv_db" where
  "applyLocked c db =
     (if mc_quantityDelta c = 0 then Inl ZeroQuantityDelta
      else if isAdjustment (mc_movementType c) \<and>
              (case mc_reason c of None \<Rightarrow> True | Some s \<Rightarrow> is_blank s) then Inl AdjustmentReasonRequired
      else
        let (b, db1) = lockBalance (mc_tenantId c) (mc_warehouseId c) (mc_productId c) db;
            afterOnHand = bal_onHandQuantity b + mc_quantityDelta c
        in if afterOnHand < 0 then Inl (InsufficientOnHand (bal_onHandQuantity b) \<bar>mc_quantityDelta c\<bar>)
        else if afterOnHand < bal_reservedQuantity b then Inl (BelowReserved (bal_reservedQuantity b))
        else
          let db2 = setOnHand (bal_id b) afterOnHand db1;
              m = newMovement c b (inv_next db2)
          in bind_res (createMovement m db2) (\<lambda>db3. Inr (m, writeMovementEvent c b m db3)))"

definition applyMovementInTransaction ::
    "movement_command \<Rightarrow> inv_db \<Rightarrow> inv_error + stock_movement \<times> inv_db" where
  "applyMovementInTransaction c db =
     (case findMovementByKey (mc_tenantId c) (mc_idempotencyKey c) db of
        Some m \<Rightarrow> Inr (m, db)
      | None \<Rightarrow> applyLocked c db)"

text \<open>
  \<open>applyMovement\<close> with the race its handler is written for: the replay check reads the committed
  state \<open>db0\<close>; by the time the row lock is taken the committed state is \<open>db1\<close>. With \<open>db0 = db1\<close>
  there is no concurrent writer.
\<close>

definition applyMovement ::
    "movement_command \<Rightarrow> inv_db \<Rightarrow> inv_db \<Rightarrow> inv_error + stock_movement \<times> inv_db" where
  "applyMovement c db0 db1 =
     (case (case findMovementByKey (mc_tenantId c) (mc_idempotencyKey c) db0 of
              Some m \<Rightarrow> Inr (m, db1) | None \<Rightarrow> applyLocked c db1) of
        Inr r \<Rightarrow> Inr r
      | Inl e \<Rightarrow>
          (case findMovementByKey (mc_tenantId c) (mc_idempotencyKey c) db1 of
             Some replay \<Rightarrow> if e = UniqueViolation then Inr (replay, db1) else Inl e
           | None \<Rightarrow> Inl e))"

section \<open>The invariant\<close>

definition held :: "inv_db \<Rightarrow> uuid \<Rightarrow> qty" where
  "held db i = sum_list (map res_quantity
     (filter (\<lambda>r. res_balanceId r = i \<and> res_status r = RS_ACTIVE) (reservations db)))"

definition moved :: "inv_db \<Rightarrow> uuid \<Rightarrow> qty" where
  "moved db i = sum_list (map mov_quantityDelta (filter (\<lambda>m. mov_balanceId m = i) (movements db)))"

definition stock_bounds :: "inv_db \<Rightarrow> bool" where
  "stock_bounds db \<longleftrightarrow> (\<forall>b\<in>set (balances db).
     0 \<le> bal_reservedQuantity b \<and> bal_reservedQuantity b \<le> bal_onHandQuantity b)"

text \<open>
  \<open>owed i\<close> is what a running transaction has already taken off the reserved quantity of balance \<open>i\<close>
  for reservations it has not closed yet; between transactions nothing is owed.
\<close>

definition reservation_account :: "(uuid \<Rightarrow> qty) \<Rightarrow> inv_db \<Rightarrow> bool" where
  "reservation_account owed db \<longleftrightarrow>
     (\<forall>b\<in>set (balances db). bal_reservedQuantity b = held db (bal_id b) - owed (bal_id b)) \<and>
     (\<forall>i. owed i \<noteq> 0 \<longrightarrow> i \<in> bal_id ` set (balances db))"

definition movement_ledger :: "inv_db \<Rightarrow> bool" where
  "movement_ledger db \<longleftrightarrow> (\<forall>b\<in>set (balances db). bal_onHandQuantity b = moved db (bal_id b)) \<and>
     (\<forall>m\<in>set (movements db). mov_afterOnHand m = mov_beforeOnHand m + mov_quantityDelta m \<and>
        mov_quantityDelta m \<noteq> 0 \<and> 0 \<le> mov_afterOnHand m)"

definition ids_ok :: "inv_db \<Rightarrow> bool" where
  "ids_ok db \<longleftrightarrow> distinct (map bal_id (balances db)) \<and> distinct (map grp_id (groups db)) \<and>
     (\<forall>b\<in>set (balances db). bal_id b < inv_next db) \<and> (\<forall>g\<in>set (groups db). grp_id g < inv_next db) \<and>
     (\<forall>r\<in>set (reservations db). res_balanceId r < inv_next db \<and> res_reservationGroupId r < inv_next db) \<and>
     (\<forall>m\<in>set (movements db). mov_balanceId m < inv_next db)"

definition keys_ok :: "inv_db \<Rightarrow> bool" where
  "keys_ok db \<longleftrightarrow>
     distinct (map (\<lambda>b. (bal_tenantId b, bal_warehouseId b, bal_productId b)) (balances db)) \<and>
     distinct (map (\<lambda>g. (grp_tenantId g, grp_idempotencyKey g)) (groups db)) \<and>
     distinct (map (\<lambda>m. (mov_tenantId m, mov_idempotencyKey m)) (movements db))"

definition res_backed :: "inv_db \<Rightarrow> reservation \<Rightarrow> bool" where
  "res_backed db r \<longleftrightarrow> 0 < res_quantity r \<and>
     (\<exists>b\<in>set (balances db). bal_id b = res_balanceId r \<and>
        bal_for (res_tenantId r) (res_warehouseId r) (res_productId r) b) \<and>
     (\<exists>g\<in>set (groups db). grp_id g = res_reservationGroupId r \<and> grp_tenantId g = res_tenantId r \<and>
        grp_orderId g = res_orderId r \<and> grp_warehouseId g = res_warehouseId r \<and>
        grp_status g = res_status r)"

definition one_active_group :: "inv_db \<Rightarrow> bool" where
  "one_active_group db \<longleftrightarrow> (\<forall>g\<in>set (groups db). \<forall>h\<in>set (groups db).
     grp_tenantId g = grp_tenantId h \<and> grp_orderId g = grp_orderId h \<and>
     grp_status g = RS_ACTIVE \<and> grp_status h = RS_ACTIVE \<longrightarrow> g = h)"

definition inv_owed :: "(uuid \<Rightarrow> qty) \<Rightarrow> inv_db \<Rightarrow> bool" where
  "inv_owed owed db \<longleftrightarrow> stock_bounds db \<and> reservation_account owed db \<and> movement_ledger db \<and>
     ids_ok db \<and> keys_ok db \<and> (\<forall>r\<in>set (reservations db). res_backed db r) \<and> one_active_group db"

definition inv_ok :: "inv_db \<Rightarrow> bool" where
  "inv_ok db \<longleftrightarrow> inv_owed (\<lambda>_. 0) db"

definition inv_init :: inv_db where
  "inv_init = \<lparr> balances = [], groups = [], reservations = [], movements = [], receipts = [],
     receiptLines = [], inv_outbox = [], inv_inbox = [], inv_next = 1 \<rparr>"

lemmas inv_parts = stock_bounds_def reservation_account_def movement_ledger_def ids_ok_def keys_ok_def
  one_active_group_def

lemma inv_ok_init: "inv_ok inv_init"
  by (simp add: inv_ok_def inv_owed_def inv_init_def inv_parts)

lemma inv_owedI:
  assumes "stock_bounds db" "reservation_account ow db" "movement_ledger db" "ids_ok db" "keys_ok db"
    "\<And>r. r \<in> set (reservations db) \<Longrightarrow> res_backed db r" "one_active_group db"
  shows "inv_owed ow db"
  using assms by (simp add: inv_owed_def)

lemma inv_owedD:
  assumes "inv_owed ow db"
  shows "stock_bounds db" "reservation_account ow db" "movement_ledger db" "ids_ok db" "keys_ok db"
    "r \<in> set (reservations db) \<Longrightarrow> res_backed db r" "one_active_group db"
  using assms by (simp_all add: inv_owed_def)

text \<open>Writes that touch none of the tables the invariant speaks of.\<close>

lemma inv_owed_cong:
  assumes "inv_owed ow db" "balances db' = balances db" "groups db' = groups db"
    "reservations db' = reservations db" "movements db' = movements db" "inv_next db \<le> inv_next db'"
  shows "inv_owed ow db'"
proof -
  have eq: "held db' = held db" "moved db' = moved db" "res_backed db' = res_backed db"
    using assms(2-5) by (auto simp: held_def moved_def res_backed_def fun_eq_iff)
  show ?thesis
    using assms by (intro inv_owedI) (fastforce simp: inv_owed_def inv_parts eq)+
qed

lemmas inv_ok_cong = inv_owed_cong [where ow = "\<lambda>_. 0", folded inv_ok_def]

lemma inv_outbox_create_tables [simp]:
  "balances (inv_outbox_create t e a i v c p ac w db) = balances db"
  "groups (inv_outbox_create t e a i v c p ac w db) = groups db"
  "reservations (inv_outbox_create t e a i v c p ac w db) = reservations db"
  "movements (inv_outbox_create t e a i v c p ac w db) = movements db"
  "inv_inbox (inv_outbox_create t e a i v c p ac w db) = inv_inbox db"
  "receipts (inv_outbox_create t e a i v c p ac w db) = receipts db"
  "receiptLines (inv_outbox_create t e a i v c p ac w db) = receiptLines db"
  "inv_next (inv_outbox_create t e a i v c p ac w db) = Suc (inv_next db)"
  by (simp_all add: inv_outbox_create_def)

lemma inv_owed_outbox: "inv_owed ow db \<Longrightarrow> inv_owed ow (inv_outbox_create t e a i v c p ac w db)"
  by (erule inv_owed_cong) simp_all

lemmas inv_ok_outbox [inv_intros] = inv_owed_outbox [where ow = "\<lambda>_. 0", folded inv_ok_def]

end
