(* ===== verification/Inventory_Movement.thy ===== *)
theory Inventory_Movement
  imports Inventory_Base
begin

text \<open>
  Lemmas on \<^verbatim>\<open>StockMovementService\<close>: what \<open>lockBalance\<close>, \<open>applyLocked\<close> and
  \<open>applyMovementInTransaction\<close> change, that they keep the invariant, and when they raise.
\<close>

lemma held_cong: "reservations db' = reservations db \<Longrightarrow> held db' = held db"
  by (simp add: held_def fun_eq_iff)

lemma moved_cong: "movements db' = movements db \<Longrightarrow> moved db' = moved db"
  by (simp add: moved_def fun_eq_iff)

lemma held_nonneg: "(\<And>r. r \<in> set (reservations db) \<Longrightarrow> 0 \<le> res_quantity r) \<Longrightarrow> 0 \<le> held db i"
  unfolding held_def by (rule sum_list_map_nonneg) auto

lemma held_fresh:
  "(\<And>r. r \<in> set (reservations db) \<Longrightarrow> res_balanceId r \<noteq> i) \<Longrightarrow> held db i = 0"
  unfolding held_def by (subst filter_False) auto

lemma moved_fresh:
  "(\<And>m. m \<in> set (movements db) \<Longrightarrow> mov_balanceId m \<noteq> i) \<Longrightarrow> moved db i = 0"
  unfolding moved_def by (subst filter_False) auto

lemma balance_unique:
  assumes "inv_owed ow db" "b \<in> set (balances db)" "c \<in> set (balances db)" "bal_for t w p b" "bal_for t w p c"
  shows "b = c"
proof -
  let ?k = "\<lambda>b. (bal_tenantId b, bal_warehouseId b, bal_productId b)"
  have "distinct (map ?k (balances db))" using assms(1) by (simp add: inv_owed_def keys_ok_def)
  then show ?thesis using assms(2,3) by (rule key_eq_imp_eq) (use assms(4,5) in \<open>simp add: bal_for_def\<close>)
qed

lemma balance_id_unique:
  "inv_owed ow db \<Longrightarrow> b \<in> set (balances db) \<Longrightarrow> c \<in> set (balances db) \<Longrightarrow> bal_id b = bal_id c \<Longrightarrow> b = c"
  by (rule key_eq_imp_eq [of bal_id "balances db"]) (simp_all add: inv_owed_def ids_ok_def)

lemma find_balance_eq:
  "inv_owed ow db \<Longrightarrow> b \<in> set (balances db) \<Longrightarrow> bal_for t w p b \<Longrightarrow>
     List.find (bal_for t w p) (balances db) = Some b"
  by (rule find_unique) (auto intro: balance_unique)

lemma find_balance_D:
  "List.find (bal_for t w p) (balances db) = Some b \<Longrightarrow> b \<in> set (balances db) \<and> bal_for t w p b"
  by (rule find_Some_D)

section \<open>lockBalance\<close>

lemma lockBalance_tables [simp]:
  "groups (snd (lockBalance t w p db)) = groups db"
  "reservations (snd (lockBalance t w p db)) = reservations db"
  "movements (snd (lockBalance t w p db)) = movements db"
  "inv_inbox (snd (lockBalance t w p db)) = inv_inbox db"
  "inv_outbox (snd (lockBalance t w p db)) = inv_outbox db"
  "receipts (snd (lockBalance t w p db)) = receipts db"
  "receiptLines (snd (lockBalance t w p db)) = receiptLines db"
  by (simp_all add: lockBalance_def Let_def split: option.splits)

lemma lockBalance_row:
  "fst (lockBalance t w p db) \<in> set (balances (snd (lockBalance t w p db)))"
  "bal_for t w p (fst (lockBalance t w p db))"
  by (auto simp: lockBalance_def Let_def bal_for_def split: option.splits dest: find_Some_D)

lemma lockBalance_next: "inv_next db \<le> inv_next (snd (lockBalance t w p db))"
  by (simp add: lockBalance_def Let_def split: option.splits)

lemma lockBalance_existing:
  "List.find (bal_for t w p) (balances db) = Some b \<Longrightarrow> lockBalance t w p db = (b, db)"
  by (simp add: lockBalance_def)

lemma lockBalance_owed:
  assumes "inv_owed ow db"
  shows "inv_owed ow (snd (lockBalance t w p db))"
proof (cases "List.find (bal_for t w p) (balances db)")
  case (Some b)
  with assms show ?thesis by (simp add: lockBalance_def)
next
  case None
  define b where "b = \<lparr> bal_id = inv_next db, bal_tenantId = t, bal_warehouseId = w, bal_productId = p,
      bal_onHandQuantity = 0, bal_reservedQuantity = 0, bal_lowStockThreshold = 0,
      bal_version = 1, bal_deletedAt = None \<rparr>"
  define db' where "db' = db\<lparr> balances := balances db @ [b], inv_next := inv_next db + 1 \<rparr>"
  have eq: "snd (lockBalance t w p db) = db'"
    using None by (simp add: lockBalance_def b_def db'_def Let_def)
  note ok = inv_owedD [OF assms]
  have fresh: "\<And>c. c \<in> set (balances db) \<Longrightarrow> \<not> bal_for t w p c"
    using None by (rule find_None_D)
  have hm: "held db' = held db" "moved db' = moved db"
    by (simp_all add: db'_def held_def moved_def fun_eq_iff)
  have zero: "held db (inv_next db) = 0" "moved db (inv_next db) = 0"
    using ok(4) by (auto intro!: held_fresh moved_fresh simp: ids_ok_def)
  have owed: "ow (inv_next db) = 0"
    using ok(2,4) by (force simp: reservation_account_def ids_ok_def)
  have "inv_owed ow db'"
  proof (rule inv_owedI)
    show "stock_bounds db'" "reservation_account ow db'" "movement_ledger db'"
      using ok(1-3) zero owed by (auto simp: stock_bounds_def reservation_account_def movement_ledger_def hm)
        (auto simp: db'_def b_def)
    show "ids_ok db'" using ok(4) by (auto simp: ids_ok_def db'_def b_def)
    show "keys_ok db'" using ok(5) fresh by (auto simp: keys_ok_def db'_def b_def bal_for_def)
    show "one_active_group db'" using ok(7) by (simp add: one_active_group_def db'_def)
    show "res_backed db' r" if "r \<in> set (reservations db')" for r
      using ok(6) [of r] that by (auto simp: db'_def res_backed_def)
  qed
  with eq show ?thesis by simp
qed

section \<open>The writes of a movement\<close>

lemma setOnHand_tables [simp]:
  "groups (setOnHand i q db) = groups db" "reservations (setOnHand i q db) = reservations db"
  "movements (setOnHand i q db) = movements db" "inv_next (setOnHand i q db) = inv_next db"
  "inv_inbox (setOnHand i q db) = inv_inbox db" "inv_outbox (setOnHand i q db) = inv_outbox db"
  "receipts (setOnHand i q db) = receipts db" "receiptLines (setOnHand i q db) = receiptLines db"
  by (simp_all add: setOnHand_def)

lemma setOnHand_row:
  assumes "b' \<in> set (balances (setOnHand i q db))"
  obtains b where "b \<in> set (balances db)" "bal_id b' = bal_id b" "bal_for t w p b' = bal_for t w p b"
    "bal_reservedQuantity b' = bal_reservedQuantity b"
    "bal_onHandQuantity b' = (if bal_id b = i then q else bal_onHandQuantity b)"
  using assms by (auto simp: setOnHand_def bal_for_def elim!: update_whereE)

lemma moved_snoc: "moved (db\<lparr> movements := movements db @ [m], inv_next := n \<rparr>) i =
    moved db i + (if mov_balanceId m = i then mov_quantityDelta m else 0)"
  by (simp add: moved_def)

text \<open>
  A write that keeps the rows of the balance table up to on-hand and reserved quantity, which is all
  the service ever does to an existing balance.
\<close>

definition bal_same_row :: "balance \<Rightarrow> balance \<Rightarrow> bool" where
  "bal_same_row a b \<longleftrightarrow> bal_id a = bal_id b \<and> bal_tenantId a = bal_tenantId b \<and>
     bal_warehouseId a = bal_warehouseId b \<and> bal_productId a = bal_productId b"

lemma bal_same_row_for: "bal_same_row a b \<Longrightarrow> bal_for t w p a = bal_for t w p b"
  by (simp add: bal_same_row_def bal_for_def)

lemma list_all2_same_row_map:
  assumes "list_all2 bal_same_row bs cs"
  shows "map bal_id bs = map bal_id cs"
    "map (\<lambda>b. (bal_tenantId b, bal_warehouseId b, bal_productId b)) bs =
     map (\<lambda>b. (bal_tenantId b, bal_warehouseId b, bal_productId b)) cs"
  using assms by (induction rule: list_all2_induct) (auto simp: bal_same_row_def)

lemma list_all2_update_where:
  "(\<And>x. x \<in> set xs \<Longrightarrow> p x \<Longrightarrow> R (f x) x) \<Longrightarrow> (\<And>x. x \<in> set xs \<Longrightarrow> R x x) \<Longrightarrow>
     list_all2 R (update_where p f xs) xs"
  by (induction xs) auto

lemma list_all2_sym_mem:
  "list_all2 R xs ys \<Longrightarrow> y \<in> set ys \<Longrightarrow> \<exists>x\<in>set xs. R x y"
  by (induction rule: list_all2_induct) auto

lemma keys_ok_same_rows:
  assumes "keys_ok db" "list_all2 bal_same_row (balances db') (balances db)"
    "map (\<lambda>g. (grp_tenantId g, grp_idempotencyKey g)) (groups db') = map (\<lambda>g. (grp_tenantId g, grp_idempotencyKey g)) (groups db)"
    "distinct (map (\<lambda>m. (mov_tenantId m, mov_idempotencyKey m)) (movements db'))"
  shows "keys_ok db'"
  unfolding keys_ok_def list_all2_same_row_map [OF assms(2)] assms(3)
  using assms(1,4) by (simp add: keys_ok_def)

lemma res_backed_same_rows:
  assumes "res_backed db r" "list_all2 bal_same_row (balances db') (balances db)" "groups db' = groups db"
  shows "res_backed db' r"
proof -
  from assms(1) obtain b where "b \<in> set (balances db)" "bal_id b = res_balanceId r"
      "bal_for (res_tenantId r) (res_warehouseId r) (res_productId r) b"
    unfolding res_backed_def by blast
  with list_all2_sym_mem [OF assms(2)] obtain b' where "b' \<in> set (balances db')" "bal_same_row b' b" by blast
  with \<open>bal_id b = _\<close> \<open>bal_for _ _ _ b\<close> have
    "\<exists>b\<in>set (balances db'). bal_id b = res_balanceId r \<and> bal_for (res_tenantId r) (res_warehouseId r) (res_productId r) b"
    by (intro bexI [of _ b']) (auto simp: bal_same_row_for, simp add: bal_same_row_def)
  with assms(1,3) show ?thesis by (simp add: res_backed_def)
qed

lemma setOnHand_same_rows: "list_all2 bal_same_row (balances (setOnHand i q db)) (balances db)"
  unfolding setOnHand_def by (simp add: list_all2_update_where bal_same_row_def)

lemma setOnHand_amounts:
  assumes "inv_owed ow db" "b \<in> set (balances db)" "c' \<in> set (balances (setOnHand (bal_id b) q db))"
  shows "\<exists>c\<in>set (balances db). bal_id c' = bal_id c \<and> bal_reservedQuantity c' = bal_reservedQuantity c \<and>
      bal_onHandQuantity c' = (if c = b then q else bal_onHandQuantity c)"
proof -
  from assms(3) have "c' \<in> set (update_where (\<lambda>x. bal_id x = bal_id b)
      (\<lambda>x. x\<lparr>bal_onHandQuantity := q, bal_version := bal_version x + 1\<rparr>) (balances db))"
    by (simp add: setOnHand_def)
  then show ?thesis
  proof (cases rule: update_whereE)
    case (hit x)
    then have "x = b" by (intro balance_id_unique [OF assms(1) _ assms(2)])
    with hit show ?thesis by (intro bexI [OF _ assms(2)]) simp
  next
    case miss
    then show ?thesis by (intro bexI [of _ c']) auto
  qed
qed

lemma movement_write_owed:
  assumes ok: "inv_owed ow db" and b: "b \<in> set (balances db)"
    and q: "q = bal_onHandQuantity b + d" "0 \<le> q" "bal_reservedQuantity b \<le> q" "d \<noteq> 0"
    and m: "mov_balanceId m = bal_id b" "mov_quantityDelta m = d"
      "mov_beforeOnHand m = bal_onHandQuantity b" "mov_afterOnHand m = q"
    and fresh: "findMovementByKey (mov_tenantId m) (mov_idempotencyKey m) db = None"
    and D: "balances D = balances (setOnHand (bal_id b) q db)" "movements D = movements db @ [m]"
      "groups D = groups db" "reservations D = reservations db" "inv_next db \<le> inv_next D"
  shows "inv_owed ow D"
proof -
  note k = inv_owedD [OF ok]
  note rows = setOnHand_amounts [OF ok b, of _ q, folded D(1)]
  have same: "list_all2 bal_same_row (balances D) (balances db)"
    unfolding D(1) by (rule setOnHand_same_rows)
  have hm: "held D = held db" "moved D i = moved db i + (if bal_id b = i then d else 0)" for i
    using m D by (auto simp: held_def moved_def fun_eq_iff)
  show ?thesis
  proof (rule inv_owedI)
    show "stock_bounds D"
      unfolding stock_bounds_def
    proof
      fix c' assume "c' \<in> set (balances D)"
      with rows obtain c where "c \<in> set (balances db)" "bal_reservedQuantity c' = bal_reservedQuantity c"
        "bal_onHandQuantity c' = (if c = b then q else bal_onHandQuantity c)" by blast
      with k(1) q(3) show "0 \<le> bal_reservedQuantity c' \<and> bal_reservedQuantity c' \<le> bal_onHandQuantity c'"
        by (auto simp: stock_bounds_def)
    qed
    show "reservation_account ow D"
    proof -
      have "bal_id ` set (balances D) = bal_id ` set (balances db)"
        using list_all2_same_row_map(1) [OF same] by (metis image_set)
      then show ?thesis
        unfolding reservation_account_def hm(1) using rows k(2) by (metis reservation_account_def)
    qed
    have "bal_onHandQuantity c' = moved D (bal_id c')" if "c' \<in> set (balances D)" for c'
    proof -
      from rows [OF that] obtain c where c: "c \<in> set (balances db)" "bal_id c' = bal_id c"
        "bal_onHandQuantity c' = (if c = b then q else bal_onHandQuantity c)" by blast
      have "bal_id b = bal_id c \<longleftrightarrow> c = b" using balance_id_unique [OF ok c(1) b] by auto
      moreover have "bal_onHandQuantity c = moved db (bal_id c)" using k(3) c(1) unfolding movement_ledger_def by blast
      ultimately show ?thesis unfolding c(2,3) hm(2) q(1) by (cases "c = b") simp_all
    qed
    moreover have "\<forall>x\<in>set (movements D). mov_afterOnHand x = mov_beforeOnHand x + mov_quantityDelta x \<and>
        mov_quantityDelta x \<noteq> 0 \<and> 0 \<le> mov_afterOnHand x"
      using k(3) q m D(2) by (auto simp: movement_ledger_def)
    ultimately show "movement_ledger D" unfolding movement_ledger_def by blast
    have "bal_id b < inv_next db" using k(4) b by (simp add: ids_ok_def)
    moreover have "bal_id c' < inv_next db" if "c' \<in> set (balances D)" for c'
      using rows [OF that] k(4) unfolding ids_ok_def by metis
    ultimately show "ids_ok D"
      using k(4) unfolding ids_ok_def list_all2_same_row_map(1) [OF same] D(2-4)
      using m(1) by (auto intro!: less_le_trans [OF _ D(5)])
    have "distinct (map (\<lambda>m. (mov_tenantId m, mov_idempotencyKey m)) (movements D))"
      using k(5) fresh D(2) by (auto simp: keys_ok_def findMovementByKey_def find_None_iff)
    then show "keys_ok D" by (intro keys_ok_same_rows [OF k(5) same]) (simp_all add: D(3))
    show "one_active_group D" using k(7) D(3) by (simp add: one_active_group_def)
    show "res_backed D r" if "r \<in> set (reservations D)" for r
      using k(6) [of r] that same D(3,4) by (auto intro: res_backed_same_rows)
  qed
qed

section \<open>applyMovement\<close>

text \<open>What an accepted movement did, from the balance it locked.\<close>

lemma applyLocked_cases:
  assumes "applyLocked c db = Inr (m, db')"
  defines "b \<equiv> fst (lockBalance (mc_tenantId c) (mc_warehouseId c) (mc_productId c) db)"
    and "db1 \<equiv> snd (lockBalance (mc_tenantId c) (mc_warehouseId c) (mc_productId c) db)"
  shows "mc_quantityDelta c \<noteq> 0"
    "0 \<le> bal_onHandQuantity b + mc_quantityDelta c"
    "bal_reservedQuantity b \<le> bal_onHandQuantity b + mc_quantityDelta c"
    "m = newMovement c b (inv_next db1)"
    "findMovementByKey (mc_tenantId c) (mc_idempotencyKey c) db = None"
    "balances db' = balances (setOnHand (bal_id b) (bal_onHandQuantity b + mc_quantityDelta c) db1)"
    "movements db' = movements db @ [m]" "groups db' = groups db" "reservations db' = reservations db"
    "inv_next db' = inv_next db1 + 2" "inv_inbox db' = inv_inbox db" "receipts db' = receipts db"
    "receiptLines db' = receiptLines db"
  using assms(1) unfolding applyLocked_def b_def [symmetric] db1_def [symmetric]
  by (auto simp: Let_def case_prod_beta b_def [symmetric] db1_def [symmetric] bind_res_Inr_iff createMovement_def
      writeMovementEvent_def findMovementByKey_def newMovement_def split: if_splits)
     (simp_all add: db1_def)

lemma applyLocked_owed:
  assumes "inv_owed ow db" "applyLocked c db = Inr (m, db')"
  shows "inv_owed ow db'"
proof -
  let ?l = "lockBalance (mc_tenantId c) (mc_warehouseId c) (mc_productId c) db"
  note f = applyLocked_cases [OF assms(2)]
  show ?thesis
    by (rule movement_write_owed [where b = "fst ?l" and d = "mc_quantityDelta c" and m = m and db = "snd ?l"])
       (use f assms(1) in \<open>auto intro: lockBalance_owed lockBalance_row simp: newMovement_def findMovementByKey_def\<close>)
qed

lemma applyMovementInTransaction_owed:
  "inv_owed ow db \<Longrightarrow> applyMovementInTransaction c db = Inr (m, db') \<Longrightarrow> inv_owed ow db'"
  by (auto simp: applyMovementInTransaction_def split: option.splits intro: applyLocked_owed)

lemma applyMovement_owed:
  "inv_owed ow db1 \<Longrightarrow> applyMovement c db0 db1 = Inr (m, db') \<Longrightarrow> inv_owed ow db'"
  by (auto simp: applyMovement_def split: option.splits sum.splits if_splits intro: applyLocked_owed)

lemmas applyMovement_inv [inv_intros] =
  applyMovementInTransaction_owed [where ow = "\<lambda>_. 0", folded inv_ok_def]
  applyMovement_owed [where ow = "\<lambda>_. 0", folded inv_ok_def]

text \<open>An accepted movement is found again under its key, so a retry returns it and writes nothing.\<close>

lemma applyLocked_recorded:
  "applyLocked c db = Inr (m, db') \<Longrightarrow> findMovementByKey (mc_tenantId c) (mc_idempotencyKey c) db' = Some m"
  using applyLocked_cases(4,5,7) [of c db m db']
  by (simp add: findMovementByKey_def find_append newMovement_def)

lemma applyMovementInTransaction_recorded:
  "applyMovementInTransaction c db = Inr (m, db') \<Longrightarrow>
     findMovementByKey (mc_tenantId c) (mc_idempotencyKey c) db' = Some m"
  by (auto simp: applyMovementInTransaction_def split: option.splits dest: applyLocked_recorded)

lemma applyMovementInTransaction_movements:
  assumes "applyMovementInTransaction c db = Inr (m, db')"
  shows "movements db' = movements db \<or> movements db' = movements db @ [m]"
    "groups db' = groups db" "reservations db' = reservations db" "inv_inbox db' = inv_inbox db"
    "receipts db' = receipts db" "receiptLines db' = receiptLines db"
  using assms by (auto simp: applyMovementInTransaction_def split: option.splits dest: applyLocked_cases)

text \<open>
  The loser of the race between two requests with one key: whatever the transaction did, the caller
  receives the committed movement and the database is the winner's.
\<close>

lemma applyMovement_race:
  assumes "findMovementByKey (mc_tenantId c) (mc_idempotencyKey c) db1 = Some w"
    "applyMovement c db0 db1 = Inr (m, db')" "\<And>m0. findMovementByKey (mc_tenantId c) (mc_idempotencyKey c) db0 = Some m0 \<Longrightarrow> m0 = w"
  shows "m = w" "db' = db1"
  using assms applyLocked_cases(5) [of c db1 m db']
  by (auto simp: applyMovement_def split: option.splits sum.splits if_splits)

end
