(* ===== verification/Inventory_Reservation.thy ===== *)
theory Inventory_Reservation
  imports Inventory_Movement
begin

text \<open>
  \<^verbatim>\<open>ReservationService\<close>: \<open>active\<close>, \<open>preview\<close>, \<open>reserve\<close> and \<open>release\<close>. One \<open>reserve\<close> is one
  transaction under the advisory lock of its order: either every line is held or none is, and the
  answer to a shortage lists every short line. The lemmas show that both operations keep
  \<open>inv_ok\<close>, that a repeated request answers with the first group, and that a release under the
  invariant never reaches its conflict branch.
\<close>

section \<open>Requests and answers\<close>

record reserve_line =
  rl_orderLineId :: uuid
  rl_productId :: uuid
  rl_quantity :: qty

record reserve_dto =
  rd_orderId :: uuid
  rd_orderVersion :: version
  rd_warehouseId :: uuid
  rd_lines :: "reserve_line list"

record reservation_context =
  rc_tenantId :: uuid
  rc_correlationId :: uuid
  rc_eventId :: "uuid option"

record reservation_shortage =
  sh_productId :: uuid
  sh_required :: qty
  sh_available :: qty

datatype reserve_result = RESERVED uuid | INSUFFICIENT "reservation_shortage list"

record preview_line =
  pl_productId :: uuid
  pl_required :: qty
  pl_available :: qty
  pl_sufficient :: bool

definition toReserved :: "reservation_group \<Rightarrow> reserve_result" where
  "toReserved g = RESERVED (grp_id g)"

definition order_key :: "uuid \<Rightarrow> version \<Rightarrow> string" where
  "order_key orderId orderVersion = ''order:'' @ uuid_text orderId @ '':v'' @ nat_text orderVersion"

definition assertLines :: "reserve_dto \<Rightarrow> bool" where
  "assertLines dto \<longleftrightarrow> \<not> (length (rd_lines dto) = 0 \<or>
     length (remdups (map rl_productId (rd_lines dto))) \<noteq> length (rd_lines dto) \<or>
     length (remdups (map rl_orderLineId (rd_lines dto))) \<noteq> length (rd_lines dto) \<or>
     list_ex (\<lambda>l. \<not> 0 < rl_quantity l) (rd_lines dto))"

section \<open>Queries\<close>

definition active_group :: "uuid \<Rightarrow> uuid \<Rightarrow> reservation_group \<Rightarrow> bool" where
  "active_group t o' g \<longleftrightarrow> grp_tenantId g = t \<and> grp_orderId g = o' \<and> grp_status g = RS_ACTIVE"

definition active :: "uuid \<Rightarrow> uuid \<Rightarrow> inv_db \<Rightarrow> uuid option" where
  "active orderId tenantId db =
     map_option grp_id (List.find (\<lambda>g. active_group tenantId orderId g \<and> grp_deletedAt g = None) (groups db))"

definition availableOf :: "balance option \<Rightarrow> qty" where
  "availableOf b = (case b of Some b \<Rightarrow> bal_onHandQuantity b - bal_reservedQuantity b | None \<Rightarrow> 0)"

definition live_balance :: "uuid \<Rightarrow> uuid \<Rightarrow> uuid \<Rightarrow> inv_db \<Rightarrow> balance option" where
  "live_balance t w p db = List.find (\<lambda>b. bal_for t w p b \<and> bal_deletedAt b = None) (balances db)"

definition preview :: "reserve_dto \<Rightarrow> reservation_context \<Rightarrow> inv_db \<Rightarrow> inv_error + preview_line list" where
  "preview dto ctx db =
     (if \<not> assertLines dto then Inl InvalidReservationLines
      else
        let rows = filter (\<lambda>b. bal_tenantId b = rc_tenantId ctx \<and> bal_warehouseId b = rd_warehouseId dto \<and>
                     bal_productId b \<in> set (map rl_productId (rd_lines dto)) \<and> bal_deletedAt b = None) (balances db)
        in Inr (map (\<lambda>line.
             let available = availableOf (List.find (\<lambda>b. bal_productId b = rl_productId line) rows)
             in \<lparr> pl_productId = rl_productId line, pl_required = rl_quantity line,
                  pl_available = available, pl_sufficient = (rl_quantity line \<le> available) \<rparr>) (rd_lines dto)))"

section \<open>reserve\<close>

text \<open>The first loop: the shortages in line order and the balances found.\<close>

fun reserve_scan ::
    "uuid \<Rightarrow> uuid \<Rightarrow> inv_db \<Rightarrow> reserve_line list \<Rightarrow> reservation_shortage list \<Rightarrow> (uuid \<Rightarrow> balance option) \<Rightarrow>
     reservation_shortage list \<times> (uuid \<Rightarrow> balance option)" where
  "reserve_scan t w db [] shortages found = (shortages, found)"
| "reserve_scan t w db (line # lines) shortages found =
     (let balance = live_balance t w (rl_productId line) db;
          available = availableOf balance;
          shortages' = (if available < rl_quantity line
                        then shortages @ [\<lparr> sh_productId = rl_productId line, sh_required = rl_quantity line,
                                            sh_available = available \<rparr>]
                        else shortages);
          found' = (case balance of Some b \<Rightarrow> found(rl_productId line \<mapsto> b) | None \<Rightarrow> found)
      in reserve_scan t w db lines shortages' found')"

definition newGroup :: "reserve_dto \<Rightarrow> reservation_context \<Rightarrow> instant \<Rightarrow> uuid \<Rightarrow> reservation_group" where
  "newGroup dto ctx now i = \<lparr> grp_id = i, grp_tenantId = rc_tenantId ctx, grp_orderId = rd_orderId dto,
     grp_warehouseId = rd_warehouseId dto, grp_status = RS_ACTIVE,
     grp_idempotencyKey = order_key (rd_orderId dto) (rd_orderVersion dto),
     grp_orderVersion = rd_orderVersion dto, grp_reservedAt = now, grp_acknowledgedAt = None,
     grp_releasedAt = None, grp_issuedAt = None, grp_issueShipmentId = None, grp_issueRequestId = None,
     grp_version = 1, grp_deletedAt = None \<rparr>"

definition addReserved :: "uuid \<Rightarrow> qty \<Rightarrow> inv_db \<Rightarrow> inv_db" where
  "addReserved i q db = db\<lparr> balances := update_where (\<lambda>b. bal_id b = i)
     (\<lambda>b. b\<lparr> bal_reservedQuantity := bal_reservedQuantity b + q, bal_version := bal_version b + 1 \<rparr>)
     (balances db) \<rparr>"

definition createReservation :: "reservation_group \<Rightarrow> reserve_line \<Rightarrow> uuid \<Rightarrow> inv_db \<Rightarrow> inv_db" where
  "createReservation g line balanceId db =
     db\<lparr> reservations := reservations db @
          [\<lparr> res_id = inv_next db, res_tenantId = grp_tenantId g, res_reservationGroupId = grp_id g,
             res_orderId = grp_orderId g, res_orderLineId = rl_orderLineId line, res_balanceId = balanceId,
             res_warehouseId = grp_warehouseId g, res_productId = rl_productId line,
             res_quantity = rl_quantity line, res_status = RS_ACTIVE, res_releasedAt = None,
             res_issuedAt = None, res_version = 1 \<rparr>],
         inv_next := inv_next db + 1 \<rparr>"

text \<open>The second loop: hold every line on the balance the first loop found.\<close>

fun reserve_hold ::
    "reservation_group \<Rightarrow> (uuid \<Rightarrow> balance option) \<Rightarrow> reserve_line list \<Rightarrow> inv_db \<Rightarrow> inv_error + inv_db" where
  "reserve_hold g found [] db = Inr db"
| "reserve_hold g found (line # lines) db =
     (case found (rl_productId line) of
        None \<Rightarrow> Inl BalanceMissing
      | Some b \<Rightarrow> reserve_hold g found lines
          (createReservation g line (bal_id b) (addReserved (bal_id b) (rl_quantity line) db)))"

definition writeEvent ::
    "reservation_group \<Rightarrow> string \<Rightarrow> reservation_context \<Rightarrow> (uuid \<times> qty) list \<Rightarrow> instant \<Rightarrow> inv_db \<Rightarrow> inv_db" where
  "writeEvent g eventType ctx items now db =
     inv_outbox_create (rc_tenantId ctx) eventType ''ReservationGroup'' (grp_id g) (grp_version g)
       (rc_correlationId ctx)
       (ReservationPayload (grp_id g) (grp_orderId g) (grp_orderVersion g) (grp_warehouseId g) items)
       None now db"

definition same_reservation :: "reserve_dto \<Rightarrow> reservation_group \<Rightarrow> inv_db \<Rightarrow> bool" where
  "same_reservation dto g db \<longleftrightarrow>
     (let saved = filter (\<lambda>r. res_reservationGroupId r = grp_id g) (reservations db)
      in \<not> (grp_status g \<noteq> RS_ACTIVE \<or> grp_orderId g \<noteq> rd_orderId dto \<or>
            grp_warehouseId g \<noteq> rd_warehouseId dto \<or> length saved \<noteq> length (rd_lines dto) \<or>
            list_ex (\<lambda>line. \<not> list_ex (\<lambda>r. res_orderLineId r = rl_orderLineId line \<and>
                res_productId r = rl_productId line \<and> res_quantity r = rl_quantity line) saved)
              (rd_lines dto)))"

definition reserve ::
    "reserve_dto \<Rightarrow> string option \<Rightarrow> reservation_context \<Rightarrow> instant \<Rightarrow> inv_db \<Rightarrow> inv_error + reserve_result \<times> inv_db" where
  "reserve dto idempotencyKey ctx now db =
     (if \<not> isSafeInteger (rd_orderVersion dto) \<or>
         idempotencyKey \<noteq> Some (order_key (rd_orderId dto) (rd_orderVersion dto))
      then Inl IdempotencyKeyMismatch
      else if \<not> assertLines dto then Inl InvalidReservationLines
      else
        case List.find (\<lambda>g. grp_tenantId g = rc_tenantId ctx \<and> Some (grp_idempotencyKey g) = idempotencyKey)
               (groups db) of
          Some previous \<Rightarrow>
            if same_reservation dto previous db then Inr (toReserved previous, db)
            else Inl ReservationReplayConflict
        | None \<Rightarrow>
            if exists_row (active_group (rc_tenantId ctx) (rd_orderId dto)) (groups db)
            then Inl ActiveReservationExists
            else
              let lines = sort_key rl_productId (rd_lines dto);
                  (shortages, found) = reserve_scan (rc_tenantId ctx) (rd_warehouseId dto) db lines [] (\<lambda>_. None)
              in if shortages \<noteq> [] then Inr (INSUFFICIENT shortages, db)
              else
                let group = newGroup dto ctx now (inv_next db);
                    db1 = db\<lparr> groups := groups db @ [group], inv_next := inv_next db + 1 \<rparr>
                in bind_res (reserve_hold group found lines db1) (\<lambda>db2.
                     Inr (toReserved group,
                          writeEvent group ''StockReserved'' ctx
                            (map (\<lambda>l. (rl_productId l, rl_quantity l)) lines) now db2)))"

section \<open>release\<close>

fun release_lines :: "uuid \<Rightarrow> reservation list \<Rightarrow> inv_db \<Rightarrow> inv_error + inv_db" where
  "release_lines t [] db = Inr db"
| "release_lines t (r # rs) db =
     (case List.find (\<lambda>b. bal_tenantId b = t \<and> bal_id b = res_balanceId r) (balances db) of
        None \<Rightarrow> Inl BalanceMissing
      | Some b \<Rightarrow>
          if bal_reservedQuantity b < res_quantity r then Inl ReservedBelowReservation
          else release_lines t rs (addReserved (bal_id b) (- res_quantity r) db))"

definition group_reservations :: "uuid \<Rightarrow> inv_db \<Rightarrow> reservation list" where
  "group_reservations gid db =
     filter (\<lambda>r. res_reservationGroupId r = gid \<and> res_status r = RS_ACTIVE) (reservations db)"

text \<open>Closing a group: its reservations, then the group itself; the updated group is returned.\<close>

definition releaseGroup :: "reservation_context \<Rightarrow> instant \<Rightarrow> (uuid \<times> qty) list \<Rightarrow> reservation_group \<Rightarrow> inv_db \<Rightarrow> inv_db" where
  "releaseGroup ctx now items g db =
     (let close = (\<lambda>h. h\<lparr> grp_status := RS_RELEASED, grp_releasedAt := Some now, grp_version := grp_version h + 1 \<rparr>);
          db1 = db\<lparr> reservations := update_where
                  (\<lambda>r. res_tenantId r = rc_tenantId ctx \<and> res_reservationGroupId r = grp_id g \<and> res_status r = RS_ACTIVE)
                  (\<lambda>r. r\<lparr> res_status := RS_RELEASED, res_releasedAt := Some now, res_version := res_version r + 1 \<rparr>)
                  (reservations db),
                groups := update_where (\<lambda>h. grp_id h = grp_id g) close (groups db) \<rparr>
      in writeEvent (close g) ''StockReleased'' ctx items now db1)"

definition cancellation_consumer :: string where
  "cancellation_consumer = ''inventory-order-cancellation''"

definition release_groups ::
    "uuid \<Rightarrow> reservation_context \<Rightarrow> uuid option \<Rightarrow> instant \<Rightarrow> inv_db \<Rightarrow> inv_error + inv_db" where
  "release_groups orderId ctx groupId now db =
     (let gs = sort_key grp_id (filter (\<lambda>g. active_group (rc_tenantId ctx) orderId g \<and>
                 (case groupId of None \<Rightarrow> True | Some i \<Rightarrow> grp_id g = i)) (groups db));
          items = (\<lambda>g. map (\<lambda>r. (res_productId r, res_quantity r)) (group_reservations (grp_id g) db));
          rs = sort_key res_productId (concat (map (\<lambda>g. group_reservations (grp_id g) db) gs))
      in bind_res (release_lines (rc_tenantId ctx) rs db)
           (\<lambda>db1. Inr (fold (\<lambda>g. releaseGroup ctx now (items g) g) gs db1)))"

definition release ::
    "uuid \<Rightarrow> reservation_context \<Rightarrow> uuid option \<Rightarrow> instant \<Rightarrow> inv_db \<Rightarrow> inv_error + inv_db" where
  "release orderId ctx groupId now db =
     (case rc_eventId ctx of
        None \<Rightarrow> release_groups orderId ctx groupId now db
      | Some eid \<Rightarrow>
          if inbox_has cancellation_consumer eid (inv_inbox db) then Inr db
          else release_groups orderId ctx groupId now
            (db\<lparr> inv_inbox := inv_inbox db @
                 [\<lparr> ie_tenantId = rc_tenantId ctx, ie_consumerName = cancellation_consumer, ie_eventId = eid,
                    ie_eventType = ''OrderCanceled'', ie_aggregateId = Some orderId, ie_aggregateVersion = None,
                    ie_outcome = ''RELEASED'' \<rparr>] \<rparr>))"

section \<open>Lemmas: the writes\<close>

lemma held_frame [simp]:
  "held (db\<lparr>groups := x1\<rparr>) = held db" "held (db\<lparr>inv_next := x2\<rparr>) = held db" "held (db\<lparr>balances := x3\<rparr>) = held db"
  "moved (db\<lparr>groups := x1\<rparr>) = moved db" "moved (db\<lparr>inv_next := x2\<rparr>) = moved db"
  "moved (db\<lparr>balances := x3\<rparr>) = moved db" "moved (db\<lparr>reservations := x4\<rparr>) = moved db"
  by (simp_all add: held_def moved_def fun_eq_iff)

lemma assertLines_iff:
  "assertLines dto \<longleftrightarrow> rd_lines dto \<noteq> [] \<and> distinct (map rl_productId (rd_lines dto)) \<and>
     distinct (map rl_orderLineId (rd_lines dto)) \<and> (\<forall>l\<in>set (rd_lines dto). 0 < rl_quantity l)"
proof -
  have "length (remdups (map f xs)) = length xs \<longleftrightarrow> distinct (map f xs)" for f :: "reserve_line \<Rightarrow> uuid" and xs
    using length_remdups_eq [of "map f xs"] by simp
  then show ?thesis by (auto simp: assertLines_def list_ex_iff)
qed

lemma addReserved_tables [simp]:
  "groups (addReserved i q db) = groups db" "reservations (addReserved i q db) = reservations db"
  "movements (addReserved i q db) = movements db" "inv_next (addReserved i q db) = inv_next db"
  "inv_inbox (addReserved i q db) = inv_inbox db" "inv_outbox (addReserved i q db) = inv_outbox db"
  "receipts (addReserved i q db) = receipts db" "receiptLines (addReserved i q db) = receiptLines db"
  by (simp_all add: addReserved_def)

lemma createReservation_tables [simp]:
  "groups (createReservation g l i db) = groups db" "balances (createReservation g l i db) = balances db"
  "movements (createReservation g l i db) = movements db"
  "inv_inbox (createReservation g l i db) = inv_inbox db" "inv_outbox (createReservation g l i db) = inv_outbox db"
  by (simp_all add: createReservation_def)

lemma addReserved_same_rows: "list_all2 bal_same_row (balances (addReserved i q db)) (balances db)"
  unfolding addReserved_def by (simp add: list_all2_update_where bal_same_row_def)

lemma addReserved_amounts:
  assumes "inv_owed ow db" "b \<in> set (balances db)" "c' \<in> set (balances (addReserved (bal_id b) q db))"
  shows "\<exists>c\<in>set (balances db). bal_id c' = bal_id c \<and> bal_onHandQuantity c' = bal_onHandQuantity c \<and>
      bal_reservedQuantity c' = (if c = b then bal_reservedQuantity b + q else bal_reservedQuantity c)"
proof -
  from assms(3) have "c' \<in> set (update_where (\<lambda>x. bal_id x = bal_id b)
      (\<lambda>x. x\<lparr>bal_reservedQuantity := bal_reservedQuantity x + q, bal_version := bal_version x + 1\<rparr>) (balances db))"
    by (simp add: addReserved_def)
  then show ?thesis
  proof (cases rule: update_whereE)
    case (hit x)
    then have "x = b" by (intro balance_id_unique [OF assms(1) _ assms(2)])
    with hit show ?thesis by (intro bexI [OF _ assms(2)]) simp
  next
    case miss
    then show ?thesis by (intro bexI [of _ c']) auto
  qed
qed

lemma ids_ok_same_rows:
  assumes "ids_ok db" "list_all2 bal_same_row (balances D) (balances db)" "groups D = groups db"
    "reservations D = reservations db" "movements D = movements db" "inv_next D = inv_next db"
  shows "ids_ok D"
proof -
  note m = list_all2_same_row_map(1) [OF assms(2)]
  have "bal_id ` set (balances D) = bal_id ` set (balances db)" using m by (metis image_set)
  then have "\<forall>b\<in>set (balances D). bal_id b \<in> bal_id ` set (balances db)" by blast
  with assms(1) have "\<forall>b\<in>set (balances D). bal_id b < inv_next db" by (auto simp: ids_ok_def)
  with assms m show ?thesis by (simp add: ids_ok_def)
qed

lemma movement_ledger_cong:
  assumes "movement_ledger db" "movements D = movements db"
    "\<And>b. b \<in> set (balances D) \<Longrightarrow> bal_onHandQuantity b = moved db (bal_id b)"
  shows "movement_ledger D"
proof -
  have "moved D = moved db" using assms(2) by (rule moved_cong)
  with assms show ?thesis unfolding movement_ledger_def by metis
qed

lemma addReserved_owed:
  assumes ok: "inv_owed ow db" and b: "b \<in> set (balances db)"
    and q: "0 \<le> bal_reservedQuantity b + q" "bal_reservedQuantity b + q \<le> bal_onHandQuantity b"
  shows "inv_owed (ow(bal_id b := ow (bal_id b) - q)) (addReserved (bal_id b) q db)" (is "inv_owed ?ow ?D")
proof -
  note k = inv_owedD [OF ok]
  note rows = addReserved_amounts [OF ok b, of _ q]
  note same = addReserved_same_rows [of "bal_id b" q db]
  have hm: "held ?D = held db" "moved ?D = moved db" by (simp_all add: held_def moved_def fun_eq_iff)
  show ?thesis
  proof (rule inv_owedI)
    show "stock_bounds ?D" unfolding stock_bounds_def
    proof
      fix c' assume "c' \<in> set (balances ?D)"
      with rows obtain c where c: "c \<in> set (balances db)" "bal_onHandQuantity c' = bal_onHandQuantity c"
        "bal_reservedQuantity c' = (if c = b then bal_reservedQuantity b + q else bal_reservedQuantity c)" by blast
      have "0 \<le> bal_reservedQuantity c \<and> bal_reservedQuantity c \<le> bal_onHandQuantity c"
        using k(1) c(1) by (simp add: stock_bounds_def)
      with q show "0 \<le> bal_reservedQuantity c' \<and> bal_reservedQuantity c' \<le> bal_onHandQuantity c'"
        unfolding c(2,3) by (cases "c = b") simp_all
    qed
    have "bal_reservedQuantity c' = held ?D (bal_id c') - ?ow (bal_id c')" if "c' \<in> set (balances ?D)" for c'
    proof -
      from rows [OF that] obtain c where c: "c \<in> set (balances db)" "bal_id c' = bal_id c"
        "bal_reservedQuantity c' = (if c = b then bal_reservedQuantity b + q else bal_reservedQuantity c)" by blast
      have "bal_id c = bal_id b \<longleftrightarrow> c = b" using balance_id_unique [OF ok c(1) b] by auto
      moreover have "bal_reservedQuantity c = held db (bal_id c) - ow (bal_id c)"
        using k(2) c(1) by (simp add: reservation_account_def)
      ultimately show ?thesis unfolding c(2,3) hm(1) by (cases "c = b") simp_all
    qed
    moreover have "bal_id ` set (balances ?D) = bal_id ` set (balances db)"
      using list_all2_same_row_map(1) [OF same] by (metis image_set)
    ultimately show "reservation_account ?ow ?D"
      using k(2) b unfolding reservation_account_def by simp
    have "bal_onHandQuantity c' = moved db (bal_id c')" if "c' \<in> set (balances ?D)" for c'
      using rows [OF that] k(3) unfolding movement_ledger_def by metis
    then show "movement_ledger ?D" by (intro movement_ledger_cong [OF k(3)]) simp_all
    show "ids_ok ?D" by (rule ids_ok_same_rows [OF k(4) same]) simp_all
    show "keys_ok ?D" using k(5) by (intro keys_ok_same_rows [OF k(5) same]) (simp_all add: keys_ok_def)
    show "one_active_group ?D" using k(7) by (simp add: one_active_group_def)
    show "res_backed ?D r" if "r \<in> set (reservations ?D)" for r
      using k(6) [of r] that same by (auto intro: res_backed_same_rows)
  qed
qed

lemma held_createReservation:
  "held (createReservation g l i db) j = held db j + (if i = j then rl_quantity l else 0)"
  by (simp add: held_def createReservation_def)

lemma createReservation_owed:
  assumes ok: "inv_owed ow db" and b: "b \<in> set (balances db)" "bal_id b = i"
      "bal_for (grp_tenantId g) (grp_warehouseId g) (rl_productId l) b"
    and g: "g \<in> set (groups db)" "grp_status g = RS_ACTIVE" and q: "0 < rl_quantity l"
  shows "inv_owed (ow(i := ow i + rl_quantity l)) (createReservation g l i db)" (is "inv_owed ?ow ?D")
proof -
  note k = inv_owedD [OF ok]
  show ?thesis
  proof (rule inv_owedI)
    show "stock_bounds ?D" using k(1) by (simp add: stock_bounds_def)
    show "reservation_account ?ow ?D"
      using k(2) b(1,2) by (auto simp: reservation_account_def held_createReservation)
    show "movement_ledger ?D" using k(3) by (intro movement_ledger_cong [OF k(3)]) (simp_all add: movement_ledger_def)
    show "ids_ok ?D" using k(4) b g(1) by (auto simp: ids_ok_def createReservation_def less_Suc_eq)
    show "keys_ok ?D" using k(5) by (simp add: keys_ok_def)
    show "one_active_group ?D" using k(7) by (simp add: one_active_group_def)
    show "res_backed ?D r" if "r \<in> set (reservations ?D)" for r
      using that k(6) [of r] b g q by (auto simp: createReservation_def res_backed_def)
  qed
qed

lemma newGroup_owed:
  assumes ok: "inv_owed ow db" and fresh: "\<not> exists_row (active_group (rc_tenantId ctx) (rd_orderId dto)) (groups db)"
    "List.find (\<lambda>g. grp_tenantId g = rc_tenantId ctx \<and>
       Some (grp_idempotencyKey g) = Some (order_key (rd_orderId dto) (rd_orderVersion dto))) (groups db) = None"
  shows "inv_owed ow (db\<lparr> groups := groups db @ [newGroup dto ctx now (inv_next db)], inv_next := inv_next db + 1 \<rparr>)"
    (is "inv_owed ow ?D")
proof -
  note k = inv_owedD [OF ok]
  show ?thesis
  proof (rule inv_owedI)
    show "stock_bounds ?D" using k(1) by (simp add: stock_bounds_def)
    show "reservation_account ow ?D" using k(2) by (simp add: reservation_account_def)
    show "movement_ledger ?D" using k(3) by (intro movement_ledger_cong [OF k(3)]) (simp_all add: movement_ledger_def)
    show "ids_ok ?D" using k(4) by (auto simp: ids_ok_def newGroup_def)
    show "keys_ok ?D" using k(5) fresh(2) by (auto simp: keys_ok_def newGroup_def find_None_iff)
    show "one_active_group ?D"
      using k(7) fresh(1) by (auto simp: one_active_group_def newGroup_def active_group_def)
    show "res_backed ?D r" if "r \<in> set (reservations ?D)" for r
      using that k(6) [of r] by (auto simp: res_backed_def)
  qed
qed

section \<open>Lemmas: reserve\<close>

lemma reserve_scan_shortages:
  "fst (reserve_scan t w db lines sh found) = sh @
     map (\<lambda>l. \<lparr> sh_productId = rl_productId l, sh_required = rl_quantity l,
                sh_available = availableOf (live_balance t w (rl_productId l) db) \<rparr>)
       (filter (\<lambda>l. availableOf (live_balance t w (rl_productId l) db) < rl_quantity l) lines)"
  by (induction lines arbitrary: sh found) (simp_all add: Let_def)

lemma reserve_scan_found:
  "snd (reserve_scan t w db lines sh found) p =
     (if p \<in> rl_productId ` set lines \<and> live_balance t w p db \<noteq> None then live_balance t w p db else found p)"
  by (induction lines arbitrary: sh found) (auto simp: Let_def split: option.splits)

lemma live_balance_D: "live_balance t w p db = Some b \<Longrightarrow> b \<in> set (balances db) \<and> bal_for t w p b"
  unfolding live_balance_def by (drule find_Some_D) simp

lemma availableOf_pos: "0 < q \<Longrightarrow> q \<le> availableOf x \<Longrightarrow> \<exists>b. x = Some b \<and> q \<le> bal_onHandQuantity b - bal_reservedQuantity b"
  by (cases x) (simp_all add: availableOf_def)

text \<open>A line that can be held: the balance the first loop found is still there with enough stock.\<close>

definition holdable :: "reservation_group \<Rightarrow> (uuid \<Rightarrow> balance option) \<Rightarrow> inv_db \<Rightarrow> reserve_line \<Rightarrow> bool" where
  "holdable g found db l \<longleftrightarrow> 0 < rl_quantity l \<and> (\<exists>b\<in>set (balances db). found (rl_productId l) = Some b \<and>
     bal_for (grp_tenantId g) (grp_warehouseId g) (rl_productId l) b \<and>
     rl_quantity l \<le> bal_onHandQuantity b - bal_reservedQuantity b)"

abbreviation hold_line :: "reservation_group \<Rightarrow> balance \<Rightarrow> reserve_line \<Rightarrow> inv_db \<Rightarrow> inv_db" where
  "hold_line g b l db \<equiv> createReservation g l (bal_id b) (addReserved (bal_id b) (rl_quantity l) db)"

lemma hold_line_owed:
  assumes ok: "inv_owed ow db" and g: "g \<in> set (groups db)" "grp_status g = RS_ACTIVE"
    and b: "b \<in> set (balances db)" "bal_for (grp_tenantId g) (grp_warehouseId g) (rl_productId l) b"
    and q: "0 < rl_quantity l" "rl_quantity l \<le> bal_onHandQuantity b - bal_reservedQuantity b"
  shows "inv_owed ow (hold_line g b l db)"
proof -
  let ?i = "bal_id b" let ?D = "addReserved ?i (rl_quantity l) db"
  have "0 \<le> bal_reservedQuantity b" using inv_owedD(1) [OF ok] b(1) by (simp add: stock_bounds_def)
  with q have "inv_owed (ow(?i := ow ?i - rl_quantity l)) ?D" by (intro addReserved_owed [OF ok b(1)]) simp_all
  moreover obtain b' where "b' \<in> set (balances ?D)" "bal_same_row b' b"
    using list_all2_sym_mem [OF addReserved_same_rows b(1)] by blast
  ultimately have "inv_owed ((ow(?i := ow ?i - rl_quantity l))(?i := (ow(?i := ow ?i - rl_quantity l)) ?i + rl_quantity l))
      (hold_line g b l db)"
    using b(2) g q(1) by (intro createReservation_owed [where b = b'])
      (simp_all add: bal_same_row_for, simp add: bal_same_row_def)
  then show ?thesis by simp
qed

lemma hold_line_keeps:
  assumes "c \<in> set (balances db)" "bal_id c \<noteq> bal_id b"
  shows "c \<in> set (balances (hold_line g b l db))"
  using assms by (auto simp: addReserved_def in_set_update_where intro!: bexI [of _ c])

lemma hold_line_holdable:
  assumes ok: "inv_owed ow db" and b: "b \<in> set (balances db)" "bal_for (grp_tenantId g) (grp_warehouseId g) (rl_productId l) b"
    and l': "holdable g found db l'" "rl_productId l' \<noteq> rl_productId l"
  shows "holdable g found (hold_line g b l db) l'"
proof -
  from l'(1) obtain c where c: "0 < rl_quantity l'" "c \<in> set (balances db)" "found (rl_productId l') = Some c"
      "bal_for (grp_tenantId g) (grp_warehouseId g) (rl_productId l') c"
      "rl_quantity l' \<le> bal_onHandQuantity c - bal_reservedQuantity c"
    unfolding holdable_def by blast
  with b(2) l'(2) have "c \<noteq> b" by (auto simp: bal_for_def)
  with balance_id_unique [OF ok c(2) b(1)] have "bal_id c \<noteq> bal_id b" by blast
  with hold_line_keeps [OF c(2)] c show ?thesis unfolding holdable_def by blast
qed

definition line_reservation :: "reservation_group \<Rightarrow> reserve_line \<Rightarrow> reservation \<Rightarrow> bool" where
  "line_reservation g l r \<longleftrightarrow> res_tenantId r = grp_tenantId g \<and> res_reservationGroupId r = grp_id g \<and>
     res_orderId r = grp_orderId g \<and> res_warehouseId r = grp_warehouseId g \<and> res_status r = RS_ACTIVE \<and>
     res_orderLineId r = rl_orderLineId l \<and> res_productId r = rl_productId l \<and> res_quantity r = rl_quantity l"

lemma reserve_hold_owed:
  assumes "inv_owed ow db" "g \<in> set (groups db)" "grp_status g = RS_ACTIVE"
    "distinct (map rl_productId lines)" "\<And>l. l \<in> set lines \<Longrightarrow> holdable g found db l"
  shows "\<exists>db' rs. reserve_hold g found lines db = Inr db' \<and> inv_owed ow db' \<and>
    reservations db' = reservations db @ rs \<and> list_all2 (line_reservation g) lines rs \<and>
    groups db' = groups db \<and> movements db' = movements db \<and> inv_inbox db' = inv_inbox db \<and>
    inv_outbox db' = inv_outbox db"
  using assms
proof (induction lines arbitrary: db)
  case (Cons l lines)
  from Cons.prems(5) [of l] obtain b where b: "0 < rl_quantity l" "b \<in> set (balances db)" "found (rl_productId l) = Some b"
      "bal_for (grp_tenantId g) (grp_warehouseId g) (rl_productId l) b"
      "rl_quantity l \<le> bal_onHandQuantity b - bal_reservedQuantity b"
    by (auto simp: holdable_def)
  let ?D = "hold_line g b l db"
  have "inv_owed ow ?D" by (rule hold_line_owed [OF Cons.prems(1-3) b(2,4,1,5)])
  moreover have "holdable g found ?D l'" if "l' \<in> set lines" for l'
  proof (rule hold_line_holdable [OF Cons.prems(1) b(2,4)])
    show "holdable g found db l'" using that Cons.prems(5) by simp
    show "rl_productId l' \<noteq> rl_productId l"
      using that Cons.prems(4) by (metis distinct.simps(2) imageI list.map(2) list.set_map)
  qed
  ultimately obtain db' rs where h: "reserve_hold g found lines ?D = Inr db'" "inv_owed ow db'"
      "reservations db' = reservations ?D @ rs" "list_all2 (line_reservation g) lines rs"
      "groups db' = groups db" "movements db' = movements db" "inv_inbox db' = inv_inbox db"
      "inv_outbox db' = inv_outbox db"
    using Cons.IH [of ?D] Cons.prems(2-4) by auto
  moreover obtain r where "reservations ?D = reservations db @ [r]" "line_reservation g l r"
    by (auto simp: createReservation_def line_reservation_def)
  ultimately show ?case using b(3) by (intro exI [of _ db'] exI [of _ "r # rs"]) simp
qed simp

text \<open>The outcomes of a fresh request, as one equation per case.\<close>

definition reserve_lines :: "reserve_dto \<Rightarrow> reserve_line list" where
  "reserve_lines dto = sort_key rl_productId (rd_lines dto)"

definition short_line :: "reserve_dto \<Rightarrow> reservation_context \<Rightarrow> inv_db \<Rightarrow> reserve_line \<Rightarrow> bool" where
  "short_line dto ctx db l \<longleftrightarrow>
     availableOf (live_balance (rc_tenantId ctx) (rd_warehouseId dto) (rl_productId l) db) < rl_quantity l"

definition fresh_request :: "reserve_dto \<Rightarrow> string option \<Rightarrow> reservation_context \<Rightarrow> inv_db \<Rightarrow> bool" where
  "fresh_request dto k ctx db \<longleftrightarrow> isSafeInteger (rd_orderVersion dto) \<and>
     k = Some (order_key (rd_orderId dto) (rd_orderVersion dto)) \<and> assertLines dto \<and>
     \<not> exists_row (\<lambda>g. grp_tenantId g = rc_tenantId ctx \<and> Some (grp_idempotencyKey g) = k) (groups db) \<and>
     \<not> exists_row (active_group (rc_tenantId ctx) (rd_orderId dto)) (groups db)"

lemma reserve_fresh:
  assumes "fresh_request dto k ctx db"
  shows "reserve dto k ctx now db =
    (let (shortages, found) = reserve_scan (rc_tenantId ctx) (rd_warehouseId dto) db (reserve_lines dto) [] (\<lambda>_. None);
         g = newGroup dto ctx now (inv_next db);
         db1 = db\<lparr> groups := groups db @ [g], inv_next := inv_next db + 1 \<rparr>
     in if shortages \<noteq> [] then Inr (INSUFFICIENT shortages, db)
        else bind_res (reserve_hold g found (reserve_lines dto) db1) (\<lambda>db2. Inr (toReserved g,
          writeEvent g ''StockReserved'' ctx (map (\<lambda>l. (rl_productId l, rl_quantity l)) (reserve_lines dto)) now db2)))"
proof -
  from assms have g: "isSafeInteger (rd_orderVersion dto)" "assertLines dto"
      "Some (order_key (rd_orderId dto) (rd_orderVersion dto)) = k"
    and find: "List.find (\<lambda>g. grp_tenantId g = rc_tenantId ctx \<and> Some (grp_idempotencyKey g) = k) (groups db) = None"
    and none: "exists_row (active_group (rc_tenantId ctx) (rd_orderId dto)) (groups db) = False"
    by (auto simp: fresh_request_def find_None_iff)
  show ?thesis unfolding reserve_def reserve_lines_def
    by (simp add: g find none Let_def case_prod_beta del: exists_row_iff)
qed

lemma set_reserve_lines [simp]: "set (reserve_lines dto) = set (rd_lines dto)"
  by (simp add: reserve_lines_def)

lemma distinct_reserve_lines:
  "distinct (map rl_productId (rd_lines dto)) \<Longrightarrow> distinct (map rl_productId (reserve_lines dto))"
  by (simp add: reserve_lines_def distinct_map)

lemma newGroup_simps [simp]:
  "grp_id (newGroup dto ctx now i) = i" "grp_tenantId (newGroup dto ctx now i) = rc_tenantId ctx"
  "grp_orderId (newGroup dto ctx now i) = rd_orderId dto" "grp_status (newGroup dto ctx now i) = RS_ACTIVE"
  "grp_warehouseId (newGroup dto ctx now i) = rd_warehouseId dto"
  "grp_idempotencyKey (newGroup dto ctx now i) = order_key (rd_orderId dto) (rd_orderVersion dto)"
  by (simp_all add: newGroup_def)

lemma reserve_short:
  assumes "fresh_request dto k ctx db" "l \<in> set (rd_lines dto)" "short_line dto ctx db l"
  shows "reserve dto k ctx now db = Inr (INSUFFICIENT (map (\<lambda>l. \<lparr> sh_productId = rl_productId l,
      sh_required = rl_quantity l, sh_available =
        availableOf (live_balance (rc_tenantId ctx) (rd_warehouseId dto) (rl_productId l) db) \<rparr>)
      (filter (short_line dto ctx db) (reserve_lines dto))), db)"
proof -
  have "filter (short_line dto ctx db) (reserve_lines dto) \<noteq> []"
    using assms(2,3) by (auto simp: filter_empty_conv)
  then show ?thesis unfolding reserve_fresh [OF assms(1)]
    by (simp add: Let_def case_prod_beta reserve_scan_shortages short_line_def [abs_def])
qed

lemma reserve_enough:
  assumes ok: "inv_ok db" and fresh: "fresh_request dto k ctx db"
    and enough: "\<forall>l\<in>set (rd_lines dto). \<not> short_line dto ctx db l"
  shows "\<exists>db' rs. reserve dto k ctx now db = Inr (RESERVED (inv_next db), db') \<and> inv_ok db' \<and>
    groups db' = groups db @ [newGroup dto ctx now (inv_next db)] \<and>
    reservations db' = reservations db @ rs \<and>
    list_all2 (line_reservation (newGroup dto ctx now (inv_next db))) (reserve_lines dto) rs \<and>
    movements db' = movements db"
proof -
  let ?g = "newGroup dto ctx now (inv_next db)"
  let ?D = "db\<lparr> groups := groups db @ [?g], inv_next := inv_next db + 1 \<rparr>"
  define found where "found = snd (reserve_scan (rc_tenantId ctx) (rd_warehouseId dto) db (reserve_lines dto) [] (\<lambda>_. None))"
  note f = fresh [unfolded fresh_request_def assertLines_iff]
  have D: "inv_owed (\<lambda>_. 0) ?D"
    using ok f unfolding inv_ok_def by (intro newGroup_owed) (auto simp: find_None_iff)
  have hold: "holdable ?g found ?D l" if l: "l \<in> set (reserve_lines dto)" for l
  proof -
    have q: "0 < rl_quantity l"
        "rl_quantity l \<le> availableOf (live_balance (rc_tenantId ctx) (rd_warehouseId dto) (rl_productId l) db)"
      using enough f l by (auto simp: short_line_def not_less)
    from availableOf_pos [OF q] obtain b where
      "live_balance (rc_tenantId ctx) (rd_warehouseId dto) (rl_productId l) db = Some b"
      "rl_quantity l \<le> bal_onHandQuantity b - bal_reservedQuantity b" by blast
    with q(1) l show ?thesis
      by (auto simp: holdable_def found_def reserve_scan_found dest!: live_balance_D)
  qed
  have dist: "distinct (map rl_productId (reserve_lines dto))" using f by (simp add: distinct_reserve_lines)
  obtain db2 rs where h: "reserve_hold ?g found (reserve_lines dto) ?D = Inr db2" "inv_owed (\<lambda>_. 0) db2"
      "reservations db2 = reservations db @ rs" "list_all2 (line_reservation ?g) (reserve_lines dto) rs"
      "groups db2 = groups db @ [?g]" "movements db2 = movements db"
    using reserve_hold_owed [OF D _ _ dist hold] by auto
  have none: "fst (reserve_scan (rc_tenantId ctx) (rd_warehouseId dto) db (reserve_lines dto) [] (\<lambda>_. None)) = []"
    using enough by (auto simp: reserve_scan_shortages short_line_def filter_empty_conv)
  show ?thesis unfolding reserve_fresh [OF fresh]
    using none h by (intro exI [of _ "writeEvent ?g ''StockReserved'' ctx
        (map (\<lambda>l. (rl_productId l, rl_quantity l)) (reserve_lines dto)) now db2"] exI [of _ rs])
      (simp add: Let_def case_prod_beta found_def [symmetric] toReserved_def writeEvent_def inv_ok_def inv_owed_outbox)
qed

text \<open>Every successful answer is one of three: a replay, a shortage list, a new group.\<close>

lemma reserve_cases:
  assumes "reserve dto k ctx now db = Inr (res, db')"
  obtains (replay) g where "g \<in> set (groups db)" "same_reservation dto g db" "res = RESERVED (grp_id g)" "db' = db"
      "grp_tenantId g = rc_tenantId ctx" "Some (grp_idempotencyKey g) = k"
    | (short) l where "fresh_request dto k ctx db" "l \<in> set (rd_lines dto)" "short_line dto ctx db l" "db' = db"
    | (fresh) "fresh_request dto k ctx db" "\<forall>l\<in>set (rd_lines dto). \<not> short_line dto ctx db l"
proof (cases "fresh_request dto k ctx db")
  case True
  then show ?thesis
  proof (cases "\<exists>l\<in>set (rd_lines dto). short_line dto ctx db l")
    case yes: True
    then obtain l where "l \<in> set (rd_lines dto)" "short_line dto ctx db l" by blast
    moreover from reserve_short [OF True this] assms have "db' = db" by simp
    ultimately show ?thesis using True short by blast
  next
    case False
    with True fresh show ?thesis by blast
  qed
next
  case False
  with assms have "\<exists>g\<in>set (groups db). same_reservation dto g db \<and> res = RESERVED (grp_id g) \<and> db' = db \<and>
      grp_tenantId g = rc_tenantId ctx \<and> Some (grp_idempotencyKey g) = k"
    by (auto simp: reserve_def fresh_request_def find_None_iff toReserved_def split: if_splits option.splits
        dest!: find_Some_D)
  then show ?thesis using replay by blast
qed

lemma reserve_inv [inv_intros]:
  assumes "inv_ok db" "reserve dto k ctx now db = Inr (res, db')"
  shows "inv_ok db'"
  using assms(2)
proof (cases rule: reserve_cases)
  case fresh
  with reserve_enough [OF assms(1) fresh, of now] assms(2) show ?thesis by auto
qed (use assms(1) in simp_all)

lemma list_all2_line_reservationD:
  assumes "list_all2 (line_reservation g) lines rs"
  shows "length rs = length lines" "\<And>r. r \<in> set rs \<Longrightarrow> res_reservationGroupId r = grp_id g \<and> res_status r = RS_ACTIVE"
    "\<And>l. l \<in> set lines \<Longrightarrow> \<exists>r\<in>set rs. line_reservation g l r"
proof -
  show "length rs = length lines" using assms by (simp add: list_all2_lengthD)
  show "res_reservationGroupId r = grp_id g \<and> res_status r = RS_ACTIVE" if "r \<in> set rs" for r
    using assms that by (induction rule: list_all2_induct) (auto simp: line_reservation_def)
  show "\<exists>r\<in>set rs. line_reservation g l r" if "l \<in> set lines" for l
    using assms that by (induction rule: list_all2_induct) auto
qed

lemma fresh_group_no_reservations:
  "inv_ok db \<Longrightarrow> filter (\<lambda>r. res_reservationGroupId r = inv_next db) (reservations db) = []"
  by (force simp: filter_empty_conv inv_ok_def inv_owed_def ids_ok_def)

lemma reserve_idempotent_lemma:
  assumes ok: "inv_ok db" and r: "reserve dto k ctx now db = Inr (RESERVED i, db')"
  shows "reserve dto k ctx now' db' = Inr (RESERVED i, db')"
  using r
proof (cases rule: reserve_cases)
  case (replay g)
  then have "List.find (\<lambda>g. grp_tenantId g = rc_tenantId ctx \<and> Some (grp_idempotencyKey g) = k) (groups db) \<noteq> None"
    by (auto simp: find_None_iff)
  with r replay(4) show ?thesis by (auto simp: reserve_def split: if_splits)
next
  case (short l)
  with reserve_short [OF short(1-3), of now] r show ?thesis by simp
next
  case fresh
  let ?g = "newGroup dto ctx now (inv_next db)"
  from reserve_enough [OF ok fresh, of now] r obtain rs where
    d: "i = inv_next db" "groups db' = groups db @ [?g]" "reservations db' = reservations db @ rs"
       "list_all2 (line_reservation ?g) (reserve_lines dto) rs" by auto
  note f = fresh(1) [unfolded fresh_request_def]
  note lr = list_all2_line_reservationD [OF d(4)]
  have saved: "filter (\<lambda>r. res_reservationGroupId r = grp_id ?g) (reservations db') = rs"
    using lr(2) fresh_group_no_reservations [OF ok] by (simp add: d(3))
  have "length rs = length (rd_lines dto)" using lr(1) by (simp add: reserve_lines_def)
  with lr(3) have same: "same_reservation dto ?g db'"
    unfolding same_reservation_def saved Let_def by (auto simp: list_ex_iff line_reservation_def)
  have "List.find (\<lambda>g. grp_tenantId g = rc_tenantId ctx \<and> Some (grp_idempotencyKey g) = k) (groups db') = Some ?g"
    using f by (auto simp: d(2) find_append find_None_iff split: option.splits dest: find_Some_D)
  with f same d(1) show ?thesis by (simp add: reserve_def toReserved_def)
qed

section \<open>Lemmas: release\<close>

definition due :: "reservation list \<Rightarrow> uuid \<Rightarrow> qty" where
  "due rs i = sum_list (map res_quantity (filter (\<lambda>r. res_balanceId r = i) rs))"

lemma due_simps [simp]:
  "due [] i = 0"
  "due (r # rs) i = (if res_balanceId r = i then res_quantity r else 0) + due rs i"
  by (simp_all add: due_def)

lemma due_nonneg: "(\<And>r. r \<in> set rs \<Longrightarrow> 0 < res_quantity r) \<Longrightarrow> 0 \<le> due rs i"
  unfolding due_def by (rule sum_list_map_nonneg) (auto intro: less_imp_le)

lemma due_mset: "mset rs = mset rs' \<Longrightarrow> due rs i = due rs' i"
  unfolding due_def by (rule sum_list_mset) (metis mset_filter)

lemma due_le_held:
  assumes "\<And>r. r \<in> set (reservations db) \<Longrightarrow> 0 < res_quantity r"
  shows "due (group_reservations gid db) i \<le> held db i"
proof -
  have "due (filter (\<lambda>r. res_reservationGroupId r = gid \<and> res_status r = RS_ACTIVE) rs) i \<le>
    sum_list (map res_quantity (filter (\<lambda>r. res_balanceId r = i \<and> res_status r = RS_ACTIVE) rs))"
    if "\<And>r. r \<in> set rs \<Longrightarrow> 0 < res_quantity r" for rs
    using that
  proof (induction rs)
    case (Cons r rs)
    from Cons.prems have "0 < res_quantity r" by simp
    moreover note Cons.IH [OF Cons.prems [OF list.set_intros(2)]]
    ultimately show ?case by simp
  qed simp
  with assms show ?thesis by (simp add: held_def group_reservations_def)
qed

lemma release_lines_owed:
  assumes "inv_owed ow db" "\<And>r. r \<in> set rs \<Longrightarrow> res_tenantId r = t \<and> res_backed db r"
    "\<And>i. due rs i \<le> held db i - ow i"
  shows "\<exists>db'. release_lines t rs db = Inr db' \<and> inv_owed (\<lambda>i. ow i + due rs i) db' \<and>
    groups db' = groups db \<and> reservations db' = reservations db \<and> movements db' = movements db \<and>
    inv_next db' = inv_next db \<and> inv_inbox db' = inv_inbox db"
  using assms
proof (induction rs arbitrary: ow db)
  case (Cons r rs)
  note k = inv_owedD [OF Cons.prems(1)]
  from Cons.prems(2) [of r] obtain b where b: "b \<in> set (balances db)" "bal_id b = res_balanceId r"
      "bal_tenantId b = t" and q: "0 < res_quantity r" "res_tenantId r = t"
    by (auto simp: res_backed_def bal_for_def)
  have find: "List.find (\<lambda>b. bal_tenantId b = t \<and> bal_id b = res_balanceId r) (balances db) = Some b"
    using b by (intro find_unique) (auto intro: balance_id_unique [OF Cons.prems(1)])
  have "0 \<le> due rs (bal_id b)" using Cons.prems(2) by (intro due_nonneg) (simp add: res_backed_def)
  moreover have "bal_reservedQuantity b = held db (bal_id b) - ow (bal_id b)"
    using k(2) b(1) by (simp add: reservation_account_def)
  ultimately have le: "res_quantity r \<le> bal_reservedQuantity b"
    using Cons.prems(3) [of "bal_id b"] b(2) by simp
  let ?D = "addReserved (bal_id b) (- res_quantity r) db"
  let ?ow = "ow(bal_id b := ow (bal_id b) - (- res_quantity r))"
  have "bal_reservedQuantity b \<le> bal_onHandQuantity b" using k(1) b(1) by (simp add: stock_bounds_def)
  with le q have D: "inv_owed ?ow ?D" by (intro addReserved_owed [OF Cons.prems(1) b(1)]) simp_all
  have heldD: "held ?D = held db" by (rule held_cong) simp
  have "res_tenantId r' = t \<and> res_backed ?D r'" if "r' \<in> set rs" for r'
    using Cons.prems(2) [of r'] that by (auto intro: res_backed_same_rows [OF _ addReserved_same_rows])
  moreover have "due rs i \<le> held ?D i - ?ow i" for i
    using Cons.prems(3) [of i] b(2) unfolding heldD by (auto split: if_splits)
  ultimately obtain db' where h: "release_lines t rs ?D = Inr db'" "inv_owed (\<lambda>i. ?ow i + due rs i) db'"
      "groups db' = groups db" "reservations db' = reservations db" "movements db' = movements db"
      "inv_next db' = inv_next db" "inv_inbox db' = inv_inbox db"
    using Cons.IH [OF D] by auto
  moreover have "(\<lambda>i. ?ow i + due rs i) = (\<lambda>i. ow i + due (r # rs) i)"
    using b(2) by (auto simp: fun_eq_iff)
  ultimately show ?case using find le by (intro exI [of _ db']) simp
qed simp

text \<open>
  Closing the group \<open>g\<close> with a final status: its active reservations and the group change status
  together, which pays back what the transaction owed on the balances.
\<close>

definition closes :: "reservation_group \<Rightarrow> reservation_status \<Rightarrow> inv_db \<Rightarrow> inv_db \<Rightarrow> bool" where
  "closes g s db D \<longleftrightarrow> s \<noteq> RS_ACTIVE \<and> g \<in> set (groups db) \<and> grp_status g = RS_ACTIVE \<and>
     (\<exists>f c. reservations D = update_where (\<lambda>r. res_tenantId r = grp_tenantId g \<and>
          res_reservationGroupId r = grp_id g \<and> res_status r = RS_ACTIVE) f (reservations db) \<and>
        groups D = update_where (\<lambda>h. grp_id h = grp_id g) c (groups db) \<and>
        (\<forall>r. res_id (f r) = res_id r \<and> res_tenantId (f r) = res_tenantId r \<and> res_balanceId (f r) = res_balanceId r \<and>
           res_reservationGroupId (f r) = res_reservationGroupId r \<and> res_orderId (f r) = res_orderId r \<and>
           res_warehouseId (f r) = res_warehouseId r \<and> res_productId (f r) = res_productId r \<and>
           res_quantity (f r) = res_quantity r \<and> res_status (f r) = s) \<and>
        (\<forall>h. grp_id (c h) = grp_id h \<and> grp_tenantId (c h) = grp_tenantId h \<and> grp_orderId (c h) = grp_orderId h \<and>
           grp_warehouseId (c h) = grp_warehouseId h \<and> grp_idempotencyKey (c h) = grp_idempotencyKey h \<and>
           grp_status (c h) = s)) \<and>
     balances D = balances db \<and> movements D = movements db \<and> inv_next db \<le> inv_next D"

lemma group_id_unique:
  "inv_owed ow db \<Longrightarrow> g \<in> set (groups db) \<Longrightarrow> h \<in> set (groups db) \<Longrightarrow> grp_id g = grp_id h \<Longrightarrow> g = h"
  by (rule key_eq_imp_eq [of grp_id "groups db"]) (simp_all add: inv_owed_def ids_ok_def)

text \<open>A reservation of an active group is active and belongs to the group's tenant.\<close>

lemma reservation_of_group:
  assumes "inv_owed ow db" "g \<in> set (groups db)" "r \<in> set (reservations db)" "res_reservationGroupId r = grp_id g"
  shows "res_tenantId r = grp_tenantId g" "res_status r = grp_status g" "0 < res_quantity r"
proof -
  from inv_owedD(6) [OF assms(1,3)] obtain h where h: "h \<in> set (groups db)" "grp_id h = res_reservationGroupId r"
      "grp_tenantId h = res_tenantId r" "grp_status h = res_status r" "0 < res_quantity r"
    unfolding res_backed_def by blast
  with group_id_unique [OF assms(1,2) h(1)] assms(4) have "h = g" by simp
  with h show "res_tenantId r = grp_tenantId g" "res_status r = grp_status g" "0 < res_quantity r" by auto
qed

lemma held_close:
  assumes "\<And>r. r \<in> set rs \<Longrightarrow> p r \<Longrightarrow> res_status r = RS_ACTIVE" "\<And>r. res_status (f r) \<noteq> RS_ACTIVE"
    "\<And>r. res_balanceId (f r) = res_balanceId r"
  shows "sum_list (map res_quantity (filter (\<lambda>r. res_balanceId r = i \<and> res_status r = RS_ACTIVE) (update_where p f rs))) =
    sum_list (map res_quantity (filter (\<lambda>r. res_balanceId r = i \<and> res_status r = RS_ACTIVE) rs)) - due (filter p rs) i"
  using assms(1) by (induction rs) (auto simp: assms(2,3))

lemma closes_held:
  assumes owed: "inv_owed ow db" and cl: "closes g s db D"
  shows "held D i = held db i - due (group_reservations (grp_id g) db) i"
proof -
  from cl obtain f c where D: "s \<noteq> RS_ACTIVE" "g \<in> set (groups db)"
      "reservations D = update_where (\<lambda>r. res_tenantId r = grp_tenantId g \<and>
          res_reservationGroupId r = grp_id g \<and> res_status r = RS_ACTIVE) f (reservations db)"
    and f: "\<And>r. res_balanceId (f r) = res_balanceId r" "\<And>r. res_status (f r) = s"
    unfolding closes_def by blast
  have grp: "filter (\<lambda>r. res_tenantId r = grp_tenantId g \<and> res_reservationGroupId r = grp_id g \<and>
      res_status r = RS_ACTIVE) (reservations db) = group_reservations (grp_id g) db"
    unfolding group_reservations_def
    by (rule filter_cong [OF refl]) (use reservation_of_group [OF owed D(2)] in blast)
  show ?thesis unfolding held_def D(3) grp [symmetric] by (rule held_close) (use D(1) f in auto)
qed

lemma closes_ok:
  assumes owed: "inv_owed (due (group_reservations (grp_id g) db)) db" and cl: "closes g s db D"
  shows "inv_ok D"
proof -
  note k = inv_owedD [OF owed]
  from cl obtain f c where D: "s \<noteq> RS_ACTIVE" "g \<in> set (groups db)" "grp_status g = RS_ACTIVE"
      "reservations D = update_where (\<lambda>r. res_tenantId r = grp_tenantId g \<and>
          res_reservationGroupId r = grp_id g \<and> res_status r = RS_ACTIVE) f (reservations db)"
      "groups D = update_where (\<lambda>h. grp_id h = grp_id g) c (groups db)"
      "balances D = balances db" "movements D = movements db" "inv_next db \<le> inv_next D"
    and f [simp]: "\<And>r. res_tenantId (f r) = res_tenantId r" "\<And>r. res_balanceId (f r) = res_balanceId r"
      "\<And>r. res_reservationGroupId (f r) = res_reservationGroupId r" "\<And>r. res_orderId (f r) = res_orderId r"
      "\<And>r. res_warehouseId (f r) = res_warehouseId r" "\<And>r. res_productId (f r) = res_productId r"
      "\<And>r. res_quantity (f r) = res_quantity r" "\<And>r. res_status (f r) = s"
    and c [simp]: "\<And>h. grp_id (c h) = grp_id h" "\<And>h. grp_tenantId (c h) = grp_tenantId h"
      "\<And>h. grp_orderId (c h) = grp_orderId h" "\<And>h. grp_warehouseId (c h) = grp_warehouseId h"
      "\<And>h. grp_idempotencyKey (c h) = grp_idempotencyKey h" "\<And>h. grp_status (c h) = s"
    unfolding closes_def by blast
  note held = closes_held [OF owed cl]
  show ?thesis unfolding inv_ok_def
  proof (rule inv_owedI)
    show "stock_bounds D" using k(1) by (simp add: stock_bounds_def D(6))
    show "reservation_account (\<lambda>_. 0) D" using k(2) by (simp add: reservation_account_def D(6) held)
    show "movement_ledger D" using k(3) by (intro movement_ledger_cong [OF k(3)]) (simp_all add: movement_ledger_def D(6,7))
    show "ids_ok D" unfolding ids_ok_def D(6,7)
    proof (intro conjI ballI)
      fix h assume "h \<in> set (groups D)"
      then show "grp_id h < inv_next D" using k(4) D(8)
        unfolding D(5) ids_ok_def by (cases rule: update_whereE) fastforce+
    next
      fix r assume "r \<in> set (reservations D)"
      then obtain r0 where "r0 \<in> set (reservations db)" "res_balanceId r = res_balanceId r0"
          "res_reservationGroupId r = res_reservationGroupId r0"
        unfolding D(4) by (cases rule: update_whereE) auto
      with k(4) D(8) show "res_balanceId r < inv_next D" "res_reservationGroupId r < inv_next D"
        by (auto simp: ids_ok_def intro: less_le_trans)
    next
      show "distinct (map grp_id (groups D))" using k(4) unfolding D(5) ids_ok_def by simp
    qed (use k(4) D(8) in \<open>auto simp: ids_ok_def intro: less_le_trans\<close>)
    show "keys_ok D" using k(5) unfolding keys_ok_def D(5-7) by simp
    have "h \<in> set (groups db)" if "h \<in> set (groups D)" "grp_status h = RS_ACTIVE" for h
      using that D(1) unfolding D(5) in_set_update_where by (auto split: if_splits)
    with k(7) show "one_active_group D" unfolding one_active_group_def by blast
    show "res_backed D r'" if "r' \<in> set (reservations D)" for r'
    proof -
      from that [unfolded D(4)] obtain r where r: "r \<in> set (reservations db)"
          "r' = (if res_reservationGroupId r = grp_id g then f r else r)"
        using reservation_of_group [OF owed D(2)] D(3) unfolding in_set_update_where by metis
      from k(6) [OF r(1)] obtain h where h: "h \<in> set (groups db)" "grp_id h = res_reservationGroupId r"
          "grp_tenantId h = res_tenantId r" "grp_orderId h = res_orderId r" "grp_warehouseId h = res_warehouseId r"
          "grp_status h = res_status r" unfolding res_backed_def by blast
      have "(if grp_id h = grp_id g then c h else h) \<in> set (groups D)"
        unfolding D(5) by (rule update_where_mem [OF h(1)])
      moreover have "0 < res_quantity r' \<and> (\<exists>b\<in>set (balances D). bal_id b = res_balanceId r' \<and>
          bal_for (res_tenantId r') (res_warehouseId r') (res_productId r') b)"
        using k(6) [OF r(1)] unfolding r(2) res_backed_def D(6) by simp
      ultimately show ?thesis using h unfolding res_backed_def
        by (intro conjI bexI [of _ "if grp_id h = grp_id g then c h else h"]) (auto simp: r(2))
    qed
  qed
qed

lemma writeEvent_tables [simp]:
  "balances (writeEvent g e ctx items now db) = balances db" "groups (writeEvent g e ctx items now db) = groups db"
  "reservations (writeEvent g e ctx items now db) = reservations db"
  "movements (writeEvent g e ctx items now db) = movements db"
  "inv_inbox (writeEvent g e ctx items now db) = inv_inbox db"
  "inv_next (writeEvent g e ctx items now db) = Suc (inv_next db)"
  by (simp_all add: writeEvent_def)

lemma releaseGroup_inbox [simp]: "inv_inbox (releaseGroup ctx now items g db) = inv_inbox db"
  by (simp add: releaseGroup_def Let_def)

lemma releaseGroup_closes:
  assumes "g \<in> set (groups db)" "grp_status g = RS_ACTIVE" "grp_tenantId g = rc_tenantId ctx"
  shows "closes g RS_RELEASED db (releaseGroup ctx now items g db)"
  unfolding closes_def
  by (intro conjI exI [of _ "\<lambda>r. r\<lparr> res_status := RS_RELEASED, res_releasedAt := Some now, res_version := res_version r + 1 \<rparr>"]
        exI [of _ "\<lambda>h. h\<lparr> grp_status := RS_RELEASED, grp_releasedAt := Some now, grp_version := grp_version h + 1 \<rparr>"])
     (simp_all add: assms releaseGroup_def Let_def)

text \<open>Under the invariant a release finds at most one group.\<close>

lemma active_groups_singleton:
  assumes ok: "inv_ok db"
  shows "filter (\<lambda>g. active_group t oid g \<and> q g) (groups db) = [] \<or>
    (\<exists>g. filter (\<lambda>g. active_group t oid g \<and> q g) (groups db) = [g])"
proof (cases "filter (\<lambda>g. active_group t oid g \<and> q g) (groups db)")
  case (Cons g gs)
  have "distinct (groups db)" using ok by (simp add: inv_ok_def inv_owed_def ids_ok_def distinct_map)
  then have d: "distinct (g # gs)" using Cons by (metis distinct_filter)
  have "h = g" if "h \<in> set gs" for h
  proof -
    have "h \<in> set (filter (\<lambda>g. active_group t oid g \<and> q g) (groups db))"
        "g \<in> set (filter (\<lambda>g. active_group t oid g \<and> q g) (groups db))" using Cons that by simp_all
    then show ?thesis using ok
      by (auto simp: inv_ok_def inv_owed_def one_active_group_def active_group_def)
  qed
  with d have "gs = []" by (cases gs) auto
  with Cons show ?thesis by simp
qed simp

lemma release_groups_ok:
  assumes ok: "inv_ok db"
  shows "\<exists>db'. release_groups oid ctx gid now db = Inr db' \<and> inv_ok db' \<and> inv_inbox db' = inv_inbox db \<and>
    movements db' = movements db \<and>
    (\<forall>h\<in>set (groups db'). active_group (rc_tenantId ctx) oid h \<longrightarrow> (\<exists>i. gid = Some i \<and> grp_id h \<noteq> i)) \<and>
    (\<forall>i. held db' i = held db i - due (concat (map (\<lambda>g. group_reservations (grp_id g) db)
       (filter (\<lambda>g. active_group (rc_tenantId ctx) oid g \<and>
          (case gid of None \<Rightarrow> True | Some j \<Rightarrow> grp_id g = j)) (groups db)))) i)"
proof -
  let ?q = "\<lambda>g. case gid of None \<Rightarrow> True | Some i \<Rightarrow> grp_id g = i"
  let ?t = "rc_tenantId ctx"
  show ?thesis
  using active_groups_singleton [OF ok, of ?t oid ?q]
  proof (elim disjE exE)
    assume none: "filter (\<lambda>g. active_group ?t oid g \<and> ?q g) (groups db) = []"
    then have "\<forall>h\<in>set (groups db). active_group ?t oid h \<longrightarrow> (\<exists>i. gid = Some i \<and> grp_id h \<noteq> i)"
      by (auto simp: filter_empty_conv split: option.splits)
    with none ok show ?thesis by (simp add: release_groups_def Let_def)
  next
    fix g assume one: "filter (\<lambda>g. active_group ?t oid g \<and> ?q g) (groups db) = [g]"
    then have g: "g \<in> set (groups db)" "grp_status g = RS_ACTIVE" "grp_tenantId g = ?t"
      by (auto simp: filter_eq_Cons_iff active_group_def)
    let ?rs = "sort_key res_productId (group_reservations (grp_id g) db)"
    note k = inv_owedD [OF ok [unfolded inv_ok_def]]
    have pos: "0 < res_quantity r" if "r \<in> set (reservations db)" for r
      using k(6) [OF that] by (simp add: res_backed_def)
    have due: "due ?rs i = due (group_reservations (grp_id g) db) i" for i by (rule due_mset) simp
    have "res_tenantId r = ?t \<and> res_backed db r" if "r \<in> set ?rs" for r
      using that k(6) [of r] reservation_of_group(1) [OF ok [unfolded inv_ok_def] g(1), of r] g(3)
      by (simp add: group_reservations_def)
    moreover have "due ?rs i \<le> held db i - (\<lambda>_. 0) i" for i
      using due_le_held [of db "grp_id g" i] pos by (simp add: due)
    ultimately obtain db1 where h: "release_lines ?t ?rs db = Inr db1" "inv_owed (\<lambda>i. 0 + due ?rs i) db1"
        "groups db1 = groups db" "reservations db1 = reservations db" "movements db1 = movements db"
        "inv_inbox db1 = inv_inbox db"
      using release_lines_owed [OF ok [unfolded inv_ok_def], of ?rs ?t] by blast
    let ?D = "releaseGroup ctx now (map (\<lambda>r. (res_productId r, res_quantity r)) (group_reservations (grp_id g) db)) g db1"
    have cl: "closes g RS_RELEASED db1 ?D" using g h(3) by (intro releaseGroup_closes) simp_all
    have "inv_owed (due (group_reservations (grp_id g) db1)) db1"
      using h(2) unfolding due by (simp add: group_reservations_def h(4))
    moreover have "held ?D i = held db i - due (concat (map (\<lambda>g. group_reservations (grp_id g) db) [g])) i" for i
      using closes_held [OF h(2) cl] held_cong [OF h(4)] by (simp add: group_reservations_def h(4))
    ultimately have "inv_ok ?D" and "\<And>i. held ?D i = held db i - due (concat (map (\<lambda>g. group_reservations (grp_id g) db) [g])) i"
      using cl by (auto intro: closes_ok)
    moreover have "\<forall>h\<in>set (groups ?D). active_group ?t oid h \<longrightarrow> (\<exists>i. gid = Some i \<and> grp_id h \<noteq> i)"
    proof (intro ballI impI)
      fix h assume "h \<in> set (groups ?D)" "active_group ?t oid h"
      then have "h \<in> set (groups db)" "grp_id h \<noteq> grp_id g"
        by (auto simp: releaseGroup_def Let_def \<open>groups db1 = groups db\<close> active_group_def elim!: update_whereE)
      have "h \<notin> set (filter (\<lambda>g. active_group ?t oid g \<and> ?q g) (groups db))"
        using \<open>grp_id h \<noteq> grp_id g\<close> by (auto simp: one)
      with \<open>active_group ?t oid h\<close> \<open>h \<in> set (groups db)\<close> show "\<exists>i. gid = Some i \<and> grp_id h \<noteq> i"
        by (auto split: option.splits)
    qed
    moreover have "release_groups oid ctx gid now db = Inr ?D"
      using h(1) by (simp add: release_groups_def Let_def one)
    ultimately show ?thesis using h(5,6) unfolding one by (intro exI [of _ ?D]) (simp add: releaseGroup_def Let_def)
  qed
qed

lemma release_ok_lemma:
  assumes ok: "inv_ok db"
  shows "\<exists>db'. release oid ctx gid now db = Inr db' \<and> inv_ok db' \<and> movements db' = movements db"
proof (cases "\<exists>eid. rc_eventId ctx = Some eid \<and> inbox_has cancellation_consumer eid (inv_inbox db)")
  case True
  with ok show ?thesis by (auto simp: release_def)
next
  case False
  have "inv_ok (db\<lparr> inv_inbox := x \<rparr>)" for x using ok by (rule inv_ok_cong) simp_all
  from release_groups_ok [OF this] release_groups_ok [OF ok] False show ?thesis
    by (fastforce simp: release_def split: option.splits)
qed

section \<open>Lemmas: the round trip\<close>

text \<open>The amounts of every balance, in table order.\<close>

definition bal_amounts :: "inv_db \<Rightarrow> (uuid \<times> qty \<times> qty) list" where
  "bal_amounts db = map (\<lambda>b. (bal_id b, bal_onHandQuantity b, bal_reservedQuantity b)) (balances db)"

definition bal_onhands :: "inv_db \<Rightarrow> (uuid \<times> qty) list" where
  "bal_onhands db = map (\<lambda>b. (bal_id b, bal_onHandQuantity b)) (balances db)"

lemma bal_amounts_eq: "inv_ok db \<Longrightarrow> bal_amounts db = map (\<lambda>(i, q). (i, q, held db i)) (bal_onhands db)"
  by (auto simp: bal_amounts_def bal_onhands_def inv_ok_def inv_owed_def reservation_account_def)

lemma bal_onhands_addReserved [simp]: "bal_onhands (addReserved i q db) = bal_onhands db"
  by (simp add: bal_onhands_def addReserved_def)

lemma bal_onhands_cong: "balances D = balances db \<Longrightarrow> bal_onhands D = bal_onhands db"
  by (simp add: bal_onhands_def)

lemma bal_onhands_hold: "reserve_hold g found lines db = Inr db' \<Longrightarrow> bal_onhands db' = bal_onhands db"
proof (induction lines arbitrary: db)
  case (Cons l lines)
  then obtain b where "reserve_hold g found lines (hold_line g b l db) = Inr db'"
    by (auto split: option.splits)
  from Cons.IH [OF this] show ?case
    using bal_onhands_cong [of "hold_line g b l db" "addReserved (bal_id b) (rl_quantity l) db"] by simp
qed simp

lemma bal_onhands_release_lines: "release_lines t rs db = Inr db' \<Longrightarrow> bal_onhands db' = bal_onhands db"
  by (induction rs arbitrary: db) (fastforce split: option.splits if_splits)+

lemma bal_onhands_reserve:
  assumes "reserve dto k ctx now db = Inr (res, db')"
  shows "bal_onhands db' = bal_onhands db"
  using assms
proof (cases rule: reserve_cases)
  case fresh
  from assms [unfolded reserve_fresh [OF fresh(1)]] show ?thesis
    by (auto simp: Let_def bind_res_Inr_iff case_prod_beta split: if_splits dest!: bal_onhands_hold)
       (simp_all add: bal_onhands_def)
qed simp_all

lemma fold_releaseGroup_balances: "balances (fold (\<lambda>g. releaseGroup ctx now (items g) g) gs db) = balances db"
  by (induction gs arbitrary: db) (simp_all add: releaseGroup_def Let_def)

lemma bal_onhands_release_groups: "release_groups oid ctx gid now db = Inr db' \<Longrightarrow> bal_onhands db' = bal_onhands db"
  unfolding release_groups_def Let_def bind_res_Inr_iff
  using bal_onhands_cong [OF fold_releaseGroup_balances] by (auto dest!: bal_onhands_release_lines)

lemma held_append:
  "reservations db' = reservations db @ rs \<Longrightarrow> (\<And>r. r \<in> set rs \<Longrightarrow> res_status r = RS_ACTIVE) \<Longrightarrow>
     held db' i = held db i + due rs i"
  by (auto simp: held_def due_def intro!: arg_cong [where f = "\<lambda>xs. sum_list (map res_quantity xs)"] filter_cong)

lemma reserve_release_amounts:
  assumes ok: "inv_ok db" and fresh: "fresh_request dto k ctx db"
    and r: "reserve dto k ctx now db = Inr (RESERVED i, db')"
    and ctx': "rc_tenantId ctx' = rc_tenantId ctx"
  shows "\<exists>db''. release_groups (rd_orderId dto) ctx' None now' db' = Inr db'' \<and> bal_amounts db'' = bal_amounts db"
proof -
  let ?g = "newGroup dto ctx now (inv_next db)"
  have enough: "\<forall>l\<in>set (rd_lines dto). \<not> short_line dto ctx db l"
    using reserve_short [OF fresh] r by force
  from reserve_enough [OF ok fresh enough, of now] r obtain rs where
    d: "inv_ok db'" "groups db' = groups db @ [?g]" "reservations db' = reservations db @ rs"
       "list_all2 (line_reservation ?g) (reserve_lines dto) rs" by auto
  note lr = list_all2_line_reservationD(2) [OF d(4)]
  have only: "filter (\<lambda>g. active_group (rc_tenantId ctx') (rd_orderId dto) g \<and>
      (case None of None \<Rightarrow> True | Some j \<Rightarrow> grp_id g = j)) (groups db') = [?g]"
    using fresh by (auto simp: d(2) ctx' fresh_request_def active_group_def filter_empty_conv)
  from release_groups_ok [OF d(1), of "rd_orderId dto" ctx' None now', unfolded only] obtain db'' where
    e: "release_groups (rd_orderId dto) ctx' None now' db' = Inr db''" "inv_ok db''"
       "\<And>j. held db'' j = held db' j - due (group_reservations (inv_next db) db') j" by auto
  have "group_reservations (inv_next db) db' = rs"
    using lr fresh_group_no_reservations [OF ok]
    by (auto simp: group_reservations_def d(3) filter_empty_conv intro!: filter_True)
  with e(3) held_append [OF d(3)] lr have "held db'' j = held db j" for j by simp
  moreover have "bal_onhands db'' = bal_onhands db"
    using bal_onhands_release_groups [OF e(1)] bal_onhands_reserve [OF r] by simp
  ultimately have "bal_amounts db'' = bal_amounts db" using ok e(2) by (simp add: bal_amounts_eq)
  with e(1) show ?thesis by blast
qed

end
