(* ===== verification/Inventory_Stock.thy ===== *)
theory Inventory_Stock
  imports Inventory_Reservation
begin

text \<open>
  \<^verbatim>\<open>StockReceiptService\<close> (receipts and manual adjustments) and \<^verbatim>\<open>InventoryBalanceService\<close>
  (the balance and movement queries, the low-stock threshold). The lemmas show that a receipt is
  posted as a whole, that repeating it answers with the stored receipt, and that the low-stock query
  returns exactly the rows the mapper marks as low.
\<close>

section \<open>Views\<close>

record balance_view =
  bv_id :: uuid
  bv_warehouseId :: uuid
  bv_productId :: uuid
  bv_onHandQuantity :: qty
  bv_reservedQuantity :: qty
  bv_availableQuantity :: qty
  bv_lowStockThreshold :: qty
  bv_isLowStock :: bool

definition toBalanceView :: "balance \<Rightarrow> balance_view" where
  "toBalanceView row =
     (let available = bal_onHandQuantity row - bal_reservedQuantity row
      in \<lparr> bv_id = bal_id row, bv_warehouseId = bal_warehouseId row, bv_productId = bal_productId row,
           bv_onHandQuantity = bal_onHandQuantity row, bv_reservedQuantity = bal_reservedQuantity row,
           bv_availableQuantity = available, bv_lowStockThreshold = bal_lowStockThreshold row,
           bv_isLowStock = (available \<le> bal_lowStockThreshold row) \<rparr>)"

record movement_view =
  mv_id :: uuid
  mv_warehouseId :: uuid
  mv_productId :: uuid
  mv_movementType :: movement_type
  mv_quantityDelta :: qty
  mv_beforeOnHand :: qty
  mv_afterOnHand :: qty
  mv_referenceType :: reference_type
  mv_referenceId :: uuid
  mv_referenceNumber :: "string option"
  mv_reason :: "string option"
  mv_actorId :: uuid
  mv_occurredAt :: instant

definition toMovementView :: "stock_movement \<Rightarrow> movement_view" where
  "toMovementView row = \<lparr> mv_id = mov_id row, mv_warehouseId = mov_warehouseId row,
     mv_productId = mov_productId row, mv_movementType = mov_movementType row,
     mv_quantityDelta = mov_quantityDelta row, mv_beforeOnHand = mov_beforeOnHand row,
     mv_afterOnHand = mov_afterOnHand row, mv_referenceType = mov_referenceType row,
     mv_referenceId = mov_referenceId row, mv_referenceNumber = None, mv_reason = mov_reason row,
     mv_actorId = mov_actorId row, mv_occurredAt = mov_occurredAt row \<rparr>"

record receipt_view =
  rv_id :: uuid
  rv_receiptNumber :: string
  rv_warehouseId :: uuid
  rv_status :: string
  rv_receivedAt :: instant
  rv_lines :: "(uuid \<times> uuid \<times> qty \<times> uuid) list"

record 'a paginated =
  pg_items :: "'a list"
  pg_page :: nat
  pg_pageSize :: nat
  pg_total :: nat

section \<open>Receipts and adjustments\<close>

record auth_user =
  au_id :: uuid
  au_tenantId :: uuid

record receipt_line_dto =
  rd_productId :: uuid
  rd_quantity :: qty

record receipt_dto =
  cr_warehouseId :: uuid
  cr_idempotencyKey :: string
  cr_receiptNumber :: "string option"
  cr_receivedAt :: "instant option"
  cr_lines :: "receipt_line_dto list"

definition trim :: "string \<Rightarrow> string" where
  "trim s = rev (dropWhile is_space (rev (dropWhile is_space s)))"

definition getReceipt :: "uuid \<Rightarrow> uuid \<Rightarrow> inv_db \<Rightarrow> inv_error + receipt_view" where
  "getReceipt t i db =
     (case List.find (\<lambda>r. rcp_id r = i \<and> rcp_tenantId r = t \<and> rcp_deletedAt r = None) (receipts db) of
        None \<Rightarrow> Inl ReceiptNotFound
      | Some r \<Rightarrow> Inr \<lparr> rv_id = rcp_id r, rv_receiptNumber = rcp_receiptNumber r,
          rv_warehouseId = rcp_warehouseId r, rv_status = rcp_status r, rv_receivedAt = rcp_receivedAt r,
          rv_lines = map (\<lambda>l. (rcl_id l, rcl_productId l, rcl_quantity l, rcl_movementId l))
            (filter (\<lambda>l. rcl_receiptId l = rcp_id r) (receiptLines db)) \<rparr>)"

definition findReceiptByIdempotencyKey :: "uuid \<Rightarrow> string \<Rightarrow> inv_db \<Rightarrow> inv_error + receipt_view option" where
  "findReceiptByIdempotencyKey t k db =
     (case List.find (\<lambda>r. rcp_tenantId r = t \<and> rcp_idempotencyKey r = k) (receipts db) of
        None \<Rightarrow> Inr None
      | Some r \<Rightarrow> bind_res (getReceipt t (rcp_id r) db) (\<lambda>v. Inr (Some v)))"

fun assertNoDuplicateProduct :: "uuid list \<Rightarrow> receipt_line_dto list \<Rightarrow> bool" where
  "assertNoDuplicateProduct seen [] = True"
| "assertNoDuplicateProduct seen (line # lines) =
     (if rd_productId line \<in> set seen then False
      else assertNoDuplicateProduct (rd_productId line # seen) lines)"

definition createReceiptHeader :: "stock_receipt \<Rightarrow> inv_db \<Rightarrow> inv_error + inv_db" where
  "createReceiptHeader r db =
     (if exists_row (\<lambda>x. rcp_tenantId x = rcp_tenantId r \<and>
           (rcp_receiptNumber x = rcp_receiptNumber r \<or> rcp_idempotencyKey x = rcp_idempotencyKey r)) (receipts db)
      then Inl UniqueViolation
      else Inr (db\<lparr> receipts := receipts db @ [r], inv_next := inv_next db + 1 \<rparr>))"

definition createReceiptLine :: "uuid \<Rightarrow> uuid \<Rightarrow> receipt_line_dto \<Rightarrow> uuid \<Rightarrow> inv_db \<Rightarrow> inv_error + inv_db" where
  "createReceiptLine t receiptId line movementId db =
     (if exists_row (\<lambda>l. rcl_movementId l = movementId) (receiptLines db) then Inl UniqueViolation
      else Inr (db\<lparr> receiptLines := receiptLines db @
             [\<lparr> rcl_id = inv_next db, rcl_tenantId = t, rcl_receiptId = receiptId, rcl_productId = rd_productId line,
                rcl_quantity = rd_quantity line, rcl_movementId = movementId \<rparr>],
             inv_next := inv_next db + 1 \<rparr>))"

definition receiptMovement ::
    "auth_user \<Rightarrow> receipt_dto \<Rightarrow> uuid \<Rightarrow> uuid \<Rightarrow> instant \<Rightarrow> nat \<times> receipt_line_dto \<Rightarrow> movement_command" where
  "receiptMovement actor dto receiptId correlationId receivedAt il =
     \<lparr> mc_tenantId = au_tenantId actor, mc_warehouseId = cr_warehouseId dto,
       mc_productId = rd_productId (snd il), mc_movementType = MT_RECEIPT,
       mc_quantityDelta = rd_quantity (snd il), mc_referenceType = RT_STOCK_RECEIPT,
       mc_referenceId = receiptId,
       mc_idempotencyKey = cr_idempotencyKey dto @ '':'' @ nat_text (fst il), mc_reason = None,
       mc_actorId = au_id actor, mc_correlationId = correlationId, mc_occurredAt = receivedAt \<rparr>"

fun receive_lines ::
    "auth_user \<Rightarrow> receipt_dto \<Rightarrow> uuid \<Rightarrow> uuid \<Rightarrow> instant \<Rightarrow> (nat \<times> receipt_line_dto) list \<Rightarrow> inv_db \<Rightarrow> inv_error + inv_db" where
  "receive_lines actor dto rid corr at [] db = Inr db"
| "receive_lines actor dto rid corr at (il # ils) db =
     bind_res (applyMovementInTransaction (receiptMovement actor dto rid corr at il) db) (\<lambda>(m, db1).
       bind_res (createReceiptLine (au_tenantId actor) rid (snd il) (mov_id m) db1) (\<lambda>db2.
         receive_lines actor dto rid corr at ils db2))"

definition createReceiptTx ::
    "auth_user \<Rightarrow> receipt_dto \<Rightarrow> string \<Rightarrow> uuid \<Rightarrow> instant \<Rightarrow> inv_db \<Rightarrow> inv_error + uuid \<times> inv_db" where
  "createReceiptTx actor dto number corr receivedAt db =
     (let rid = inv_next db;
          r = \<lparr> rcp_id = rid, rcp_tenantId = au_tenantId actor, rcp_receiptNumber = number,
                rcp_warehouseId = cr_warehouseId dto, rcp_idempotencyKey = cr_idempotencyKey dto,
                rcp_status = ''POSTED'', rcp_receivedAt = receivedAt, rcp_actorId = au_id actor,
                rcp_correlationId = corr, rcp_deletedAt = None \<rparr>;
          orderedLines = sort_key (\<lambda>il. rd_productId (snd il)) (enumerate 0 (cr_lines dto))
      in bind_res (createReceiptHeader r db) (\<lambda>db1.
           bind_res (receive_lines actor dto rid corr receivedAt orderedLines db1) (\<lambda>db2. Inr (rid, db2))))"

definition receivedAt :: "receipt_dto \<Rightarrow> instant \<Rightarrow> instant" where
  "receivedAt dto now = (case cr_receivedAt dto of Some t \<Rightarrow> t | None \<Rightarrow> now)"

definition receiptNumber :: "receipt_dto \<Rightarrow> string \<Rightarrow> string" where
  "receiptNumber dto generated =
     (case cr_receiptNumber dto of Some s \<Rightarrow> if trim s = '''' then generated else trim s | None \<Rightarrow> generated)"

text \<open>
  The first lookup reads the committed state \<open>db0\<close>, the transaction runs on the committed state
  \<open>db1\<close>; with \<open>db0 = db1\<close> there is no concurrent request. \<open>generated\<close> is the number
  \<^verbatim>\<open>generateReceiptNumber\<close> draws.
\<close>

definition createReceipt ::
    "auth_user \<Rightarrow> receipt_dto \<Rightarrow> string \<Rightarrow> uuid \<Rightarrow> instant \<Rightarrow> inv_db \<Rightarrow> inv_db \<Rightarrow> inv_error + receipt_view \<times> inv_db" where
  "createReceipt actor dto generated corr now db0 db1 =
     bind_res (findReceiptByIdempotencyKey (au_tenantId actor) (cr_idempotencyKey dto) db0) (\<lambda>existing.
       case existing of
         Some v \<Rightarrow> Inr (v, db1)
       | None \<Rightarrow>
           if \<not> assertNoDuplicateProduct [] (cr_lines dto) then Inl DuplicateReceiptProduct
           else
             case createReceiptTx actor dto (receiptNumber dto generated) corr (receivedAt dto now) db1 of
                  Inr (rid, db2) \<Rightarrow> bind_res (getReceipt (au_tenantId actor) rid db2) (\<lambda>v. Inr (v, db2))
                | Inl e \<Rightarrow>
                    bind_res (findReceiptByIdempotencyKey (au_tenantId actor) (cr_idempotencyKey dto) db1)
                      (\<lambda>replay. case replay of
                         Some v \<Rightarrow> if e = UniqueViolation then Inr (v, db1) else Inl e
                       | None \<Rightarrow> Inl e))"

record adjust_dto =
  ad_quantityDelta :: qty
  ad_reason :: string
  ad_idempotencyKey :: string

definition adjustStock ::
    "auth_user \<Rightarrow> uuid \<Rightarrow> uuid \<Rightarrow> adjust_dto \<Rightarrow> uuid \<Rightarrow> instant \<Rightarrow> inv_db \<Rightarrow> inv_db \<Rightarrow> inv_error + balance_view \<times> inv_db" where
  "adjustStock actor w p dto corr now db0 db1 =
     bind_res (applyMovement \<lparr> mc_tenantId = au_tenantId actor, mc_warehouseId = w, mc_productId = p,
         mc_movementType = (if ad_quantityDelta dto < 0 then MT_ADJUSTMENT_OUT else MT_ADJUSTMENT_IN),
         mc_quantityDelta = ad_quantityDelta dto, mc_referenceType = RT_MANUAL_ADJUSTMENT,
         mc_referenceId = au_id actor, mc_idempotencyKey = ad_idempotencyKey dto,
         mc_reason = Some (ad_reason dto), mc_actorId = au_id actor, mc_correlationId = corr,
         mc_occurredAt = now \<rparr> db0 db1) (\<lambda>(m, db2).
       case List.find (bal_for (au_tenantId actor) w p) (balances db2) of
         None \<Rightarrow> Inl BalanceNotFound
       | Some b \<Rightarrow> Inr (toBalanceView b, db2))"

section \<open>Queries and the threshold\<close>

record query_balances =
  qb_warehouseId :: "uuid option"
  qb_productId :: "uuid option"
  qb_lowStockOnly :: bool
  qb_page :: "nat option"
  qb_pageSize :: "nat option"

definition DEFAULT_PAGE_SIZE :: nat where "DEFAULT_PAGE_SIZE = 20"

definition matches :: "'a option \<Rightarrow> 'a \<Rightarrow> bool" where
  "matches f x = (case f of None \<Rightarrow> True | Some y \<Rightarrow> x = y)"

definition page_of :: "nat \<Rightarrow> nat \<Rightarrow> 'a list \<Rightarrow> 'a list" where
  "page_of skip n xs = take n (drop skip xs)"

definition balance_where :: "uuid \<Rightarrow> query_balances \<Rightarrow> balance \<Rightarrow> bool" where
  "balance_where t query b \<longleftrightarrow> bal_tenantId b = t \<and> bal_deletedAt b = None \<and>
     matches (qb_warehouseId query) (bal_warehouseId b) \<and> matches (qb_productId query) (bal_productId b)"

definition balance_order :: "balance list \<Rightarrow> balance list" where
  "balance_order bs = sort_key (\<lambda>b. (bal_warehouseId b, bal_productId b)) bs"

text \<open>The ids come from one query and the rows of those ids from a second one.\<close>

definition listLowStockBalances ::
    "uuid \<Rightarrow> query_balances \<Rightarrow> nat \<Rightarrow> nat \<Rightarrow> nat \<Rightarrow> inv_db \<Rightarrow> balance_view paginated" where
  "listLowStockBalances t query page pageSize skip db =
     (let low = filter (\<lambda>b. balance_where t query b \<and>
                  bal_onHandQuantity b - bal_reservedQuantity b \<le> bal_lowStockThreshold b) (balances db);
          idRows = map bal_id (page_of skip pageSize (balance_order low))
      in \<lparr> pg_items = (if idRows = [] then [] else map toBalanceView
             (balance_order (filter (\<lambda>b. bal_id b \<in> set idRows) (balances db)))),
           pg_page = page, pg_pageSize = pageSize, pg_total = length low \<rparr>)"

definition listBalances :: "uuid \<Rightarrow> query_balances \<Rightarrow> inv_db \<Rightarrow> balance_view paginated" where
  "listBalances t query db =
     (let page = (case qb_page query of Some n \<Rightarrow> n | None \<Rightarrow> 1);
          pageSize = (case qb_pageSize query of Some n \<Rightarrow> n | None \<Rightarrow> DEFAULT_PAGE_SIZE);
          skip = (page - 1) * pageSize
      in if qb_lowStockOnly query then listLowStockBalances t query page pageSize skip db
         else
           let rows = filter (balance_where t query) (balances db)
           in \<lparr> pg_items = map toBalanceView (page_of skip pageSize (balance_order rows)),
                pg_page = page, pg_pageSize = pageSize, pg_total = length rows \<rparr>)"

definition getBalance :: "uuid \<Rightarrow> uuid \<Rightarrow> uuid \<Rightarrow> inv_db \<Rightarrow> inv_error + balance_view" where
  "getBalance t w p db =
     (case live_balance t w p db of None \<Rightarrow> Inl BalanceNotFound | Some b \<Rightarrow> Inr (toBalanceView b))"

record query_movements =
  qm_warehouseId :: "uuid option"
  qm_productId :: "uuid option"
  qm_referenceType :: "reference_type option"
  qm_referenceId :: "uuid option"
  qm_page :: "nat option"
  qm_pageSize :: "nat option"

definition listMovements :: "uuid \<Rightarrow> query_movements \<Rightarrow> inv_db \<Rightarrow> movement_view paginated" where
  "listMovements t query db =
     (let page = (case qm_page query of Some n \<Rightarrow> n | None \<Rightarrow> 1);
          pageSize = (case qm_pageSize query of Some n \<Rightarrow> n | None \<Rightarrow> DEFAULT_PAGE_SIZE);
          rows = filter (\<lambda>m. mov_tenantId m = t \<and> matches (qm_warehouseId query) (mov_warehouseId m) \<and>
                   matches (qm_productId query) (mov_productId m) \<and>
                   matches (qm_referenceType query) (mov_referenceType m) \<and>
                   matches (qm_referenceId query) (mov_referenceId m)) (movements db);
          number = (\<lambda>i. map_option rcp_receiptNumber
                     (List.find (\<lambda>r. rcp_id r = i \<and> rcp_tenantId r = t \<and> rcp_deletedAt r = None) (receipts db)))
      in \<lparr> pg_items = map (\<lambda>m. (toMovementView m)\<lparr> mv_referenceNumber :=
               (if mov_referenceType m = RT_STOCK_RECEIPT then number (mov_referenceId m) else None) \<rparr>)
             (page_of ((page - 1) * pageSize) pageSize (rev (sort_key (\<lambda>m. (mov_occurredAt m, mov_id m)) rows))),
           pg_page = page, pg_pageSize = pageSize, pg_total = length rows \<rparr>)"

definition updateLowStockThreshold ::
    "uuid \<Rightarrow> uuid \<Rightarrow> uuid \<Rightarrow> qty \<Rightarrow> inv_db \<Rightarrow> inv_error + balance_view \<times> inv_db" where
  "updateLowStockThreshold t w p threshold db =
     (case live_balance t w p db of
        None \<Rightarrow> Inl BalanceNotFound
      | Some b \<Rightarrow> Inr (toBalanceView (b\<lparr> bal_lowStockThreshold := threshold \<rparr>),
          db\<lparr> balances := update_where (\<lambda>x. bal_id x = bal_id b)
                (\<lambda>x. x\<lparr> bal_lowStockThreshold := threshold \<rparr>) (balances db) \<rparr>))"

section \<open>Lemmas: on-hand quantities\<close>

definition onHandOf :: "uuid \<Rightarrow> uuid \<Rightarrow> uuid \<Rightarrow> inv_db \<Rightarrow> qty" where
  "onHandOf t w p db = (case List.find (bal_for t w p) (balances db) of Some b \<Rightarrow> bal_onHandQuantity b | None \<Rightarrow> 0)"

lemma onHandOf_eq: "inv_owed ow db \<Longrightarrow> b \<in> set (balances db) \<Longrightarrow> bal_for t w p b \<Longrightarrow> onHandOf t w p db = bal_onHandQuantity b"
  by (simp add: onHandOf_def find_balance_eq)

lemma onHandOf_cong: "balances D = balances db \<Longrightarrow> onHandOf t w p D = onHandOf t w p db"
  by (simp add: onHandOf_def)

lemma onHandOf_addReserved [simp]: "onHandOf t w p (addReserved i q db) = onHandOf t w p db"
proof -
  have "List.find (bal_for t w p) (update_where (\<lambda>b. bal_id b = i) (\<lambda>b. b\<lparr>bal_reservedQuantity := bal_reservedQuantity b + q,
      bal_version := bal_version b + 1\<rparr>) bs) =
    map_option (\<lambda>b. if bal_id b = i then b\<lparr>bal_reservedQuantity := bal_reservedQuantity b + q, bal_version := bal_version b + 1\<rparr> else b)
      (List.find (bal_for t w p) bs)" for bs
    by (induction bs) (auto simp: bal_for_def)
  then show ?thesis by (simp add: onHandOf_def addReserved_def split: option.splits)
qed

lemma onHandOf_lockBalance: "onHandOf t w p (snd (lockBalance t' w' p' db)) = onHandOf t w p db"
  by (auto simp: onHandOf_def lockBalance_def Let_def find_append bal_for_def split: option.splits)

lemma onHandOf_locked: "bal_onHandQuantity (fst (lockBalance t w p db)) = onHandOf t w p db"
  by (simp add: onHandOf_def lockBalance_def Let_def split: option.splits)

text \<open>An accepted movement changes the on-hand quantity of its own balance by its delta, and no other.\<close>

lemma find_setOnHand:
  "List.find (bal_for t w p) (balances (setOnHand i q db)) =
     map_option (\<lambda>b. if bal_id b = i then b\<lparr>bal_onHandQuantity := q, bal_version := bal_version b + 1\<rparr> else b)
       (List.find (bal_for t w p) (balances db))"
proof -
  have "List.find (bal_for t w p) (update_where (\<lambda>b. bal_id b = i) (\<lambda>b. b\<lparr>bal_onHandQuantity := q,
      bal_version := bal_version b + 1\<rparr>) bs) =
    map_option (\<lambda>b. if bal_id b = i then b\<lparr>bal_onHandQuantity := q, bal_version := bal_version b + 1\<rparr> else b)
      (List.find (bal_for t w p) bs)" for bs
    by (induction bs) (auto simp: bal_for_def)
  then show ?thesis by (simp add: setOnHand_def)
qed

lemma onHandOf_setOnHand:
  assumes ok: "inv_owed ow db" and b: "b \<in> set (balances db)" "bal_for t' w' p' b"
  shows "onHandOf t w p (setOnHand (bal_id b) q db) = (if (t, w, p) = (t', w', p') then q else onHandOf t w p db)"
proof (cases "List.find (bal_for t w p) (balances db)")
  case None
  with find_balance_eq [OF ok b] have "(t, w, p) \<noteq> (t', w', p')" by auto
  with None show ?thesis by (auto simp: onHandOf_def find_setOnHand)
next
  case (Some c)
  from find_balance_D [OF this] have c: "c \<in> set (balances db)" "bal_for t w p c" by auto
  have "bal_id c = bal_id b \<longleftrightarrow> (t, w, p) = (t', w', p')"
    using c b balance_id_unique [OF ok c(1) b(1)] balance_unique [OF ok c(1) b(1)] by (auto simp: bal_for_def)
  with Some show ?thesis by (auto simp: onHandOf_def find_setOnHand)
qed

lemma applyLocked_onHand:
  assumes ok: "inv_owed ow db" and a: "applyLocked c db = Inr (m, db')"
  shows "onHandOf t w p db' = onHandOf t w p db +
    (if (t, w, p) = (mc_tenantId c, mc_warehouseId c, mc_productId c) then mc_quantityDelta c else 0)"
proof -
  let ?l = "lockBalance (mc_tenantId c) (mc_warehouseId c) (mc_productId c) db"
  have "onHandOf t w p db' =
      onHandOf t w p (setOnHand (bal_id (fst ?l)) (bal_onHandQuantity (fst ?l) + mc_quantityDelta c) (snd ?l))"
    using applyLocked_cases(6) [OF a] by (rule onHandOf_cong)
  also have "\<dots> = (if (t, w, p) = (mc_tenantId c, mc_warehouseId c, mc_productId c)
      then bal_onHandQuantity (fst ?l) + mc_quantityDelta c else onHandOf t w p (snd ?l))"
    by (rule onHandOf_setOnHand [OF lockBalance_owed [OF ok] lockBalance_row])
  finally show ?thesis by (auto simp: onHandOf_locked onHandOf_lockBalance)
qed

section \<open>Lemmas: receipts and adjustments\<close>

lemma assertNoDuplicateProduct_iff:
  "assertNoDuplicateProduct seen lines \<longleftrightarrow> distinct (map rd_productId lines) \<and>
     set (map rd_productId lines) \<inter> set seen = {}"
  by (induction seen lines rule: assertNoDuplicateProduct.induct) auto

lemma createReceiptHeader_inv:
  "inv_ok db \<Longrightarrow> createReceiptHeader r db = Inr db' \<Longrightarrow> inv_ok db'"
  by (auto simp: createReceiptHeader_def split: if_splits elim!: inv_ok_cong)

lemma createReceiptLine_inv:
  "inv_ok db \<Longrightarrow> createReceiptLine t r l m db = Inr db' \<Longrightarrow> inv_ok db'"
  by (auto simp: createReceiptLine_def split: if_splits elim!: inv_ok_cong)

lemma receive_lines_inv:
  "inv_ok db \<Longrightarrow> receive_lines actor dto rid corr at ils db = Inr db' \<Longrightarrow> inv_ok db'"
proof (induction ils arbitrary: db)
  case (Cons il ils)
  then obtain m db1 db2 where "applyMovementInTransaction (receiptMovement actor dto rid corr at il) db = Inr (m, db1)"
      "createReceiptLine (au_tenantId actor) rid (snd il) (mov_id m) db1 = Inr db2"
      "receive_lines actor dto rid corr at ils db2 = Inr db'"
    by (auto simp: bind_res_Inr_iff)
  with Cons show ?case by (blast intro: applyMovement_inv(1) createReceiptLine_inv)
qed simp

lemma receive_lines_receipts:
  "receive_lines actor dto rid corr at ils db = Inr db' \<Longrightarrow> receipts db' = receipts db"
  by (induction ils arbitrary: db)
     (fastforce simp: bind_res_Inr_iff createReceiptLine_def split: if_splits dest: applyMovementInTransaction_movements(5))+

lemma createReceiptTx_D:
  assumes "createReceiptTx actor dto number corr at db = Inr (rid, db')"
  shows "inv_ok db \<Longrightarrow> inv_ok db'" "rid = inv_next db"
    "\<exists>r. receipts db' = receipts db @ [r] \<and> rcp_id r = rid \<and> rcp_tenantId r = au_tenantId actor \<and>
       rcp_idempotencyKey r = cr_idempotencyKey dto \<and> rcp_deletedAt r = None"
    "\<not> exists_row (\<lambda>r. rcp_tenantId r = au_tenantId actor \<and> rcp_idempotencyKey r = cr_idempotencyKey dto) (receipts db)"
  using assms unfolding createReceiptTx_def Let_def bind_res_Inr_iff
  by (auto dest: createReceiptHeader_inv receive_lines_inv)
     (auto simp: createReceiptHeader_def split: if_splits dest: receive_lines_receipts)

lemma createReceipt_inv [inv_intros]:
  assumes "inv_ok db1" "createReceipt actor dto gen corr now db0 db1 = Inr (v, db')"
  shows "inv_ok db'"
  using assms unfolding createReceipt_def
  by (auto simp: bind_res_Inr_iff Let_def split: option.splits if_splits sum.splits dest: createReceiptTx_D(1))

lemma findReceipt_after_create:
  assumes "createReceiptTx actor dto number corr at db = Inr (rid, db')" "getReceipt (au_tenantId actor) rid db' = Inr v"
  shows "findReceiptByIdempotencyKey (au_tenantId actor) (cr_idempotencyKey dto) db' = Inr (Some v)"
proof -
  from createReceiptTx_D(3) [OF assms(1)] obtain r where r: "receipts db' = receipts db @ [r]" "rcp_id r = rid"
      "rcp_tenantId r = au_tenantId actor" "rcp_idempotencyKey r = cr_idempotencyKey dto" by blast
  have "List.find (\<lambda>r. rcp_tenantId r = au_tenantId actor \<and> rcp_idempotencyKey r = cr_idempotencyKey dto) (receipts db) = None"
    using createReceiptTx_D(4) [OF assms(1)] by (simp add: find_None_iff)
  with r assms(2) show ?thesis by (simp add: findReceiptByIdempotencyKey_def find_append)
qed

lemma createReceipt_replays:
  assumes "createReceipt actor dto gen corr now db db = Inr (v, db')"
  shows "createReceipt actor dto gen' corr' now' db' db' = Inr (v, db')"
proof -
  have "findReceiptByIdempotencyKey (au_tenantId actor) (cr_idempotencyKey dto) db = Inr (Some v) \<and> db' = db \<or>
      (\<exists>rid. createReceiptTx actor dto (receiptNumber dto gen) corr (receivedAt dto now) db = Inr (rid, db') \<and>
         getReceipt (au_tenantId actor) rid db' = Inr v)"
    using assms unfolding createReceipt_def
    by (cases "findReceiptByIdempotencyKey (au_tenantId actor) (cr_idempotencyKey dto) db")
       (auto simp: bind_res_Inr_iff split: option.splits if_splits sum.splits)
  then have "findReceiptByIdempotencyKey (au_tenantId actor) (cr_idempotencyKey dto) db' = Inr (Some v)"
    using findReceipt_after_create by blast
  then show ?thesis by (simp add: createReceipt_def)
qed

lemma adjustStock_inv [inv_intros]:
  "inv_ok db1 \<Longrightarrow> adjustStock actor w p dto corr now db0 db1 = Inr (v, db') \<Longrightarrow> inv_ok db'"
  by (auto simp: adjustStock_def bind_res_Inr_iff split: option.splits intro: applyMovement_inv(2))

text \<open>
  The effect of a receipt. Its movement keys extend the receipt's key by the line index, so when no
  earlier movement has one of them, every line is received.
\<close>

definition line_keys_fresh :: "auth_user \<Rightarrow> receipt_dto \<Rightarrow> nat list \<Rightarrow> inv_db \<Rightarrow> bool" where
  "line_keys_fresh actor dto is db \<longleftrightarrow> (\<forall>i\<in>set is.
     findMovementByKey (au_tenantId actor) (cr_idempotencyKey dto @ '':'' @ nat_text i) db = None)"

definition received :: "(nat \<times> receipt_line_dto) list \<Rightarrow> uuid \<Rightarrow> qty" where
  "received ils p = sum_list (map (\<lambda>il. rd_quantity (snd il)) (filter (\<lambda>il. rd_productId (snd il) = p) ils))"

lemma received_Cons [simp]:
  "received [] p = 0"
  "received (il # ils) p = (if rd_productId (snd il) = p then rd_quantity (snd il) else 0) + received ils p"
  by (simp_all add: received_def)

lemma receive_lines_onHand:
  assumes "inv_ok db" "receive_lines actor dto rid corr at ils db = Inr db'" "distinct (map fst ils)"
    "line_keys_fresh actor dto (map fst ils) db"
  shows "onHandOf t w p db' = onHandOf t w p db +
    (if (t, w) = (au_tenantId actor, cr_warehouseId dto) then received ils p else 0)"
  using assms
proof (induction ils arbitrary: db)
  case (Cons il ils)
  let ?c = "receiptMovement actor dto rid corr at il"
  from Cons.prems(2) obtain m db1 db2 where s: "applyMovementInTransaction ?c db = Inr (m, db1)"
      "createReceiptLine (au_tenantId actor) rid (snd il) (mov_id m) db1 = Inr db2"
      "receive_lines actor dto rid corr at ils db2 = Inr db'"
    by (auto simp: bind_res_Inr_iff)
  have fresh: "findMovementByKey (mc_tenantId ?c) (mc_idempotencyKey ?c) db = None"
    using Cons.prems(4) by (simp add: line_keys_fresh_def receiptMovement_def)
  with s(1) have l: "applyLocked ?c db = Inr (m, db1)" by (simp add: applyMovementInTransaction_def)
  have ok2: "inv_ok db2" using createReceiptLine_inv [OF applyMovement_inv(1) [OF Cons.prems(1) s(1)] s(2)] .
  have tabs: "balances db2 = balances db1" "movements db2 = movements db1"
    using s(2) by (auto simp: createReceiptLine_def split: if_splits)
  have "line_keys_fresh actor dto (map fst ils) db2"
    using Cons.prems(3,4) tabs(2) applyLocked_cases(4,7) [OF l]
    by (fastforce simp: line_keys_fresh_def findMovementByKey_def find_append newMovement_def receiptMovement_def)
  with Cons.IH [OF ok2 s(3)] Cons.prems(3)
  have "onHandOf t w p db' = onHandOf t w p db2 +
      (if (t, w) = (au_tenantId actor, cr_warehouseId dto) then received ils p else 0)" by simp
  moreover have "onHandOf t w p db2 = onHandOf t w p db1" using tabs(1) by (rule onHandOf_cong)
  moreover have "onHandOf t w p db1 = onHandOf t w p db + (if (t, w, p) = (au_tenantId actor, cr_warehouseId dto,
      rd_productId (snd il)) then rd_quantity (snd il) else 0)"
    using applyLocked_onHand [OF Cons.prems(1) [unfolded inv_ok_def] l, of t w p] by (simp add: receiptMovement_def)
  ultimately show ?case by auto
qed simp

lemma received_enumerate_sorted:
  "received (sort_key f (enumerate n lines)) p =
     sum_list (map rd_quantity (filter (\<lambda>l. rd_productId l = p) lines))"
proof -
  have "received (enumerate n lines) p = sum_list (map rd_quantity (filter (\<lambda>l. rd_productId l = p) lines))"
    by (induction lines arbitrary: n) simp_all
  moreover have "received (sort_key f (enumerate n lines)) p = received (enumerate n lines) p"
    unfolding received_def by (rule sum_list_mset) (metis mset_filter mset_sort)
  ultimately show ?thesis by simp
qed

lemma createReceiptTx_onHand:
  assumes "inv_ok db" "createReceiptTx actor dto number corr at db = Inr (rid, db')"
    "line_keys_fresh actor dto [0..<length (cr_lines dto)] db"
  shows "onHandOf (au_tenantId actor) (cr_warehouseId dto) p db' =
    onHandOf (au_tenantId actor) (cr_warehouseId dto) p db +
    sum_list (map rd_quantity (filter (\<lambda>l. rd_productId l = p) (cr_lines dto)))"
proof -
  let ?ils = "sort_key (\<lambda>il. rd_productId (snd il)) (enumerate 0 (cr_lines dto))"
  from assms(2) obtain r db1 where s: "createReceiptHeader r db = Inr db1"
      "receive_lines actor dto rid corr at ?ils db1 = Inr db'"
    unfolding createReceiptTx_def Let_def bind_res_Inr_iff by auto
  have tabs: "balances db1 = balances db" "movements db1 = movements db"
    using s(1) by (auto simp: createReceiptHeader_def split: if_splits)
  have m: "mset (map fst ?ils) = mset [0..<length (cr_lines dto)]"
    by (metis add_0 map_fst_enumerate mset_map mset_sort)
  have "distinct (map fst ?ils)" using m by (metis distinct_upt mset_eq_imp_distinct_iff)
  moreover have "set (map fst ?ils) = set [0..<length (cr_lines dto)]" using m by (metis mset_eq_setD)
  then have "line_keys_fresh actor dto (map fst ?ils) db1"
    using assms(3) tabs(2) unfolding line_keys_fresh_def findMovementByKey_def by simp
  ultimately have "onHandOf (au_tenantId actor) (cr_warehouseId dto) p db' =
      onHandOf (au_tenantId actor) (cr_warehouseId dto) p db1 + received ?ils p"
    using receive_lines_onHand [OF createReceiptHeader_inv [OF assms(1) s(1)] s(2)] by simp
  then show ?thesis using onHandOf_cong [OF tabs(1)] by (simp add: received_enumerate_sorted)
qed

section \<open>Lemmas: queries\<close>

text \<open>Rows whose keys are distinct are determined, in sorted order, by the set of them.\<close>

lemma sort_key_set_unique:
  assumes "sorted (map f ys)" "distinct (map f ys)" "distinct xs" "set xs = set ys"
  shows "sort_key f xs = ys"
proof (rule properties_for_sort_key)
  have dy: "distinct ys" using assms(2) by (simp add: distinct_map)
  show m: "mset ys = mset xs" using dy assms(3,4) by (simp add: set_eq_iff_mset_eq_distinct)
  show "sorted (map f ys)" by fact
  show "filter (\<lambda>x. f k = f x) ys = filter (\<lambda>x. f k = f x) xs" if "k \<in> set ys" for k
  proof -
    have "distinct (map f xs)" using assms(2-4) by (simp add: distinct_map)
    then have "filter (\<lambda>x. f x = f k) xs = [k]" "filter (\<lambda>x. f x = f k) ys = [k]"
      using that assms(2,4) by (auto intro: filter_key_unique)
    then show ?thesis by (simp add: eq_commute)
  qed
qed

lemma set_page_of: "x \<in> set (page_of s n xs) \<Longrightarrow> x \<in> set xs"
  by (auto simp: page_of_def dest: in_set_takeD in_set_dropD)

lemma set_filter_ids:
  assumes "distinct (map k xs)" "set ys \<subseteq> set xs"
  shows "set (filter (\<lambda>x. k x \<in> set (map k ys)) xs) = set ys"
proof (intro equalityI subsetI)
  fix x assume "x \<in> set (filter (\<lambda>x. k x \<in> set (map k ys)) xs)"
  then obtain y where "x \<in> set xs" "y \<in> set ys" "k x = k y" by auto
  with assms(2) key_eq_imp_eq [OF assms(1), of x y] show "x \<in> set ys" by auto
qed (use assms(2) in auto)

lemma map_page_of: "map f (page_of s n xs) = page_of s n (map f xs)"
  by (simp add: page_of_def take_map drop_map)

lemma sorted_page_of: "sorted xs \<Longrightarrow> sorted (page_of s n xs)"
  by (simp add: page_of_def sorted_wrt_take sorted_wrt_drop)

lemma distinct_page_of: "distinct xs \<Longrightarrow> distinct (page_of s n xs)"
  by (simp add: page_of_def)

lemma low_stock_page:
  assumes ok: "inv_ok db"
  shows "pg_items (listLowStockBalances t query page n skip db) =
    page_of skip n (filter bv_isLowStock (map toBalanceView (balance_order (filter (balance_where t query) (balances db)))))"
proof -
  define f :: "balance \<Rightarrow> uuid \<times> uuid" where "f = (\<lambda>b. (bal_warehouseId b, bal_productId b))"
  define low where "low = filter (\<lambda>b. balance_where t query b \<and>
      bal_onHandQuantity b - bal_reservedQuantity b \<le> bal_lowStockThreshold b) (balances db)"
  define P where "P = page_of skip n (sort_key f low)"
  have keys: "distinct (map (\<lambda>b. (bal_tenantId b, bal_warehouseId b, bal_productId b)) (balances db))"
      and ids: "distinct (map bal_id (balances db))"
    using ok by (simp_all add: inv_ok_def inv_owed_def keys_ok_def ids_ok_def)
  have "inj_on f (set low)"
  proof (rule inj_onI)
    fix b c assume "b \<in> set low" "c \<in> set low" "f b = f c"
    then show "b = c" by (intro key_eq_imp_eq [OF keys]) (auto simp: low_def f_def balance_where_def)
  qed
  moreover have "distinct low" using ids by (simp add: low_def distinct_map)
  ultimately have "distinct (map f (sort_key f low))" by (simp add: distinct_map)
  then have dP: "distinct (map f P)" unfolding P_def map_page_of by (rule distinct_page_of)
  have sP: "sorted (map f P)" unfolding P_def map_page_of by (rule sorted_page_of) simp
  have sub: "set P \<subseteq> set (balances db)"
  proof
    fix b assume "b \<in> set P"
    then have "b \<in> set (sort_key f low)" unfolding P_def by (rule set_page_of)
    then show "b \<in> set (balances db)" by (simp add: low_def)
  qed
  have "set (filter (\<lambda>b. bal_id b \<in> set (map bal_id P)) (balances db)) = set P"
    using ids sub by (rule set_filter_ids)
  moreover have "distinct (filter (\<lambda>b. bal_id b \<in> set (map bal_id P)) (balances db))"
    using ids by (simp add: distinct_map)
  ultimately have "sort_key f (filter (\<lambda>b. bal_id b \<in> set (map bal_id P)) (balances db)) = P"
    by (intro sort_key_set_unique sP dP)
  then have items: "pg_items (listLowStockBalances t query page n skip db) = map toBalanceView P"
    by (auto simp: listLowStockBalances_def Let_def balance_order_def f_def [symmetric] low_def [symmetric] P_def [symmetric])
  have "filter bv_isLowStock (map toBalanceView (balance_order (filter (balance_where t query) (balances db)))) =
      map toBalanceView (filter (\<lambda>b. bal_onHandQuantity b - bal_reservedQuantity b \<le> bal_lowStockThreshold b)
        (sort_key f (filter (balance_where t query) (balances db))))"
    by (simp add: filter_map comp_def toBalanceView_def Let_def balance_order_def f_def)
  also have "\<dots> = map toBalanceView (sort_key f low)"
    by (simp add: filter_sort low_def conj_commute)
  finally show ?thesis unfolding items P_def by (simp add: map_page_of)
qed

lemma threshold_same_rows:
  "list_all2 bal_same_row (update_where (\<lambda>x. bal_id x = i) (\<lambda>x. x\<lparr> bal_lowStockThreshold := q \<rparr>) bs) bs"
  by (simp add: list_all2_update_where bal_same_row_def)

lemma updateLowStockThreshold_inv [inv_intros]:
  assumes "inv_ok db" "updateLowStockThreshold t w p q db = Inr (v, db')"
  shows "inv_ok db'"
proof -
  note k = inv_owedD [OF assms(1) [unfolded inv_ok_def]]
  from assms(2) obtain i where D: "db' = db\<lparr> balances := update_where (\<lambda>x. bal_id x = i)
      (\<lambda>x. x\<lparr> bal_lowStockThreshold := q \<rparr>) (balances db) \<rparr>"
    by (auto simp: updateLowStockThreshold_def split: option.splits)
  have rows: "\<exists>c\<in>set (balances db). bal_id c' = bal_id c \<and> bal_onHandQuantity c' = bal_onHandQuantity c \<and>
      bal_reservedQuantity c' = bal_reservedQuantity c" if "c' \<in> set (balances db')" for c'
    using that unfolding D by (auto simp: in_set_update_where)
  have same: "list_all2 bal_same_row (balances db') (balances db)" unfolding D by (simp add: threshold_same_rows)
  show ?thesis unfolding inv_ok_def
  proof (rule inv_owedI)
    show "stock_bounds db'" using rows k(1) unfolding stock_bounds_def by metis
    show "reservation_account (\<lambda>_. 0) db'" using rows k(2) unfolding reservation_account_def
      by (metis D held_frame(3))
    have "bal_onHandQuantity c' = moved db (bal_id c')" if "c' \<in> set (balances db')" for c'
      using rows [OF that] k(3) unfolding movement_ledger_def by metis
    then show "movement_ledger db'" by (intro movement_ledger_cong [OF k(3)]) (simp_all add: D)
    show "ids_ok db'" by (rule ids_ok_same_rows [OF k(4) same]) (simp_all add: D)
    show "keys_ok db'" using k(5) by (intro keys_ok_same_rows [OF k(5) same]) (simp_all add: D keys_ok_def)
    show "one_active_group db'" using k(7) by (simp add: D one_active_group_def)
    show "res_backed db' r" if "r \<in> set (reservations db')" for r
      using k(6) [of r] that same by (auto simp: D intro: res_backed_same_rows)
  qed
qed

end
