(* ===== verification/Inventory_Events.thy ===== *)
theory Inventory_Events
  imports Inventory_Stock
begin

text \<open>
  The asynchronous side of the inventory service: \<^verbatim>\<open>ShipmentIssueService\<close> turns a dispatched
  shipment's reservation into an issue, \<^verbatim>\<open>ReservationOrderEventsService\<close> releases or acknowledges a
  group on the order's events, and \<^verbatim>\<open>ReservationReconcilerService\<close> asks the order service about old
  unacknowledged groups. The two handlers are interpreted as idempotent consumers.
\<close>

section \<open>Shipment issue\<close>

definition issue_consumer :: string where
  "issue_consumer = ''inventory-shipment-issue''"

definition issue_key :: "uuid \<Rightarrow> uuid \<Rightarrow> string" where
  "issue_key shipmentId productId = ''shipment:'' @ uuid_text shipmentId @ '':issue:'' @ uuid_text productId"

fun add_quantity :: "uuid \<Rightarrow> qty \<Rightarrow> (uuid \<times> qty) list \<Rightarrow> (uuid \<times> qty) list" where
  "add_quantity p q [] = [(p, q)]"
| "add_quantity p q ((p', q') # xs) = (if p = p' then (p', q' + q) # xs else (p', q') # add_quantity p q xs)"

text \<open>The quantities per product, in the insertion order of the code's \<^verbatim>\<open>Map\<close>.\<close>

fun issue_quantities ::
    "uuid \<Rightarrow> uuid \<Rightarrow> uuid \<Rightarrow> reservation list \<Rightarrow> (uuid \<times> qty) list \<Rightarrow> inv_error + (uuid \<times> qty) list" where
  "issue_quantities t o' w [] acc = Inr acc"
| "issue_quantities t o' w (line # lines) acc =
     (if res_tenantId line \<noteq> t \<or> res_orderId line \<noteq> o' \<or> res_warehouseId line \<noteq> w then Inl LineOwnershipMismatch
      else issue_quantities t o' w lines (add_quantity (res_productId line) (res_quantity line) acc))"

definition issueMovement ::
    "'p envelope \<Rightarrow> shipment_lifecycle \<Rightarrow> uuid \<Rightarrow> uuid \<times> qty \<Rightarrow> movement_command" where
  "issueMovement event payload actorId pq =
     \<lparr> mc_tenantId = ev_tenantId event, mc_warehouseId = sl_warehouseId payload, mc_productId = fst pq,
       mc_movementType = MT_ISSUE, mc_quantityDelta = - snd pq, mc_referenceType = RT_SHIPMENT,
       mc_referenceId = sl_shipmentId payload,
       mc_idempotencyKey = issue_key (sl_shipmentId payload) (fst pq), mc_reason = None,
       mc_actorId = actorId, mc_correlationId = ev_correlationId event, mc_occurredAt = ev_occurredAt event \<rparr>"

fun issue_lines ::
    "'p envelope \<Rightarrow> shipment_lifecycle \<Rightarrow> uuid \<Rightarrow> (uuid \<times> qty) list \<Rightarrow> inv_db \<Rightarrow> inv_error + inv_db" where
  "issue_lines event payload actorId [] db = Inr db"
| "issue_lines event payload actorId (pq # pqs) db =
     (case List.find (bal_for (ev_tenantId event) (sl_warehouseId payload) (fst pq)) (balances db) of
        None \<Rightarrow> Inl BalanceMissing
      | Some b \<Rightarrow>
          if bal_reservedQuantity b < snd pq then Inl ReservedInsufficientForDispatch
          else bind_res (applyMovementInTransaction (issueMovement event payload actorId pq)
                           (addReserved (bal_id b) (- snd pq) db))
                 (\<lambda>(m, db'). issue_lines event payload actorId pqs db'))"

text \<open>The group and its lines become \<^verbatim>\<open>ISSUED\<close>; one shipment issues at most one group of a tenant.\<close>

definition closeIssued ::
    "'p envelope \<Rightarrow> shipment_lifecycle \<Rightarrow> reservation_group \<Rightarrow> inv_db \<Rightarrow> inv_error + inv_db" where
  "closeIssued event payload g db =
     (if exists_row (\<lambda>h. grp_id h \<noteq> grp_id g \<and> grp_tenantId h = grp_tenantId g \<and>
           grp_issueShipmentId h = Some (sl_shipmentId payload)) (groups db) then Inl UniqueViolation
      else Inr (db\<lparr>
        reservations := update_where (\<lambda>r. res_tenantId r = ev_tenantId event \<and>
            res_reservationGroupId r = grp_id g \<and> res_status r = RS_ACTIVE)
          (\<lambda>r. r\<lparr> res_status := RS_ISSUED, res_issuedAt := Some (ev_occurredAt event), res_version := res_version r + 1 \<rparr>)
          (reservations db),
        groups := update_where (\<lambda>h. grp_id h = grp_id g)
          (\<lambda>h. h\<lparr> grp_status := RS_ISSUED, grp_issuedAt := Some (ev_occurredAt event),
                  grp_issueShipmentId := Some (sl_shipmentId payload),
                  grp_issueRequestId := sl_dispatchRequestId payload, grp_version := grp_version h + 1 \<rparr>)
          (groups db) \<rparr>))"

definition issueGroup ::
    "'p envelope \<Rightarrow> shipment_lifecycle \<Rightarrow> uuid \<Rightarrow> reservation_group \<Rightarrow> inv_db \<Rightarrow> inv_error + inv_db" where
  "issueGroup event payload actorId g db =
     (let lines = sort_key (\<lambda>r. (res_productId r, res_id r))
                    (filter (\<lambda>r. res_reservationGroupId r = grp_id g) (reservations db))
      in if grp_status g \<noteq> RS_ACTIVE \<or> length lines = 0 \<or> list_ex (\<lambda>l. res_status l \<noteq> RS_ACTIVE) lines
         then Inl InactiveReservation
         else if exists_row (\<lambda>m. mov_tenantId m = ev_tenantId event \<and> mov_referenceType m = RT_SHIPMENT \<and>
                   mov_referenceId m = sl_shipmentId payload) (movements db)
         then Inl OrphanIssueMovements
         else bind_res (issue_quantities (ev_tenantId event) (sl_orderId payload) (sl_warehouseId payload) lines [])
           (\<lambda>quantities. bind_res (issue_lines event payload actorId quantities db) (closeIssued event payload g)))"

definition recordInbox :: "string \<Rightarrow> 'p envelope \<Rightarrow> string \<Rightarrow> inv_db \<Rightarrow> inv_db" where
  "recordInbox consumer event outcome db =
     db\<lparr> inv_inbox := inv_inbox db @
       [\<lparr> ie_tenantId = ev_tenantId event, ie_consumerName = consumer, ie_eventId = ev_eventId event,
          ie_eventType = ev_eventType event, ie_aggregateId = Some (ev_aggregateId event),
          ie_aggregateVersion = Some (ev_aggregateVersion event), ie_outcome = outcome \<rparr>] \<rparr>"

definition issueTx ::
    "'p envelope \<Rightarrow> shipment_lifecycle \<Rightarrow> uuid \<Rightarrow> inv_db \<Rightarrow> inv_error + inv_db" where
  "issueTx event payload actorId db =
     (if inbox_has issue_consumer (ev_eventId event) (inv_inbox db) then Inr db
      else
        case List.find (\<lambda>g. grp_id g = sl_reservationGroupId payload \<and> grp_tenantId g = ev_tenantId event \<and>
               grp_orderId g = sl_orderId payload \<and> grp_warehouseId g = sl_warehouseId payload \<and>
               grp_deletedAt g = None) (groups db) of
          None \<Rightarrow> Inl UnknownReservationGroup
        | Some g \<Rightarrow>
            if grp_status g = RS_ISSUED then
              if grp_issueShipmentId g \<noteq> Some (sl_shipmentId payload) \<or>
                 grp_issueRequestId g \<noteq> sl_dispatchRequestId payload
              then Inl IssuedByAnotherDispatch
              else Inr (recordInbox issue_consumer event ''IGNORED_STALE'' db)
            else bind_res (issueGroup event payload actorId g db)
                   (\<lambda>db'. Inr (recordInbox issue_consumer event ''ISSUED'' db')))"

definition handleShipment :: "shipment_lifecycle option envelope \<Rightarrow> inv_db \<Rightarrow> inv_error + inv_db" where
  "handleShipment event db =
     (if ev_eventType event \<noteq> ''ShipmentDispatched'' then Inr db
      else if \<not> validateShipmentEnvelope event ''fulfillment-service'' ''Shipment'' then Inl InvalidEnvelope
      else case ev_payload event of
          None \<Rightarrow> Inl InvalidPayload
        | Some payload \<Rightarrow>
            (case ev_actorId event of
               None \<Rightarrow> Inl InvalidPayload
             | Some actorId \<Rightarrow>
                 if sl_dispatchRequestId payload = None \<or> ev_aggregateId event \<noteq> sl_shipmentId payload
                 then Inl DispatchContextMismatch
                 else issueTx event payload actorId db))"

section \<open>Order events\<close>

text \<open>The keys of an order event's payload this service reads; \<open>None\<close> when absent or not a UUID.\<close>

record order_event_view =
  oe_orderId :: "uuid option"
  oe_reservationGroupId :: "uuid option"

definition confirmation_consumer :: string where
  "confirmation_consumer = ''inventory-order-confirmation''"

definition acknowledge :: "'p envelope \<Rightarrow> uuid \<Rightarrow> uuid \<Rightarrow> instant \<Rightarrow> inv_db \<Rightarrow> inv_error + inv_db" where
  "acknowledge event orderId groupId now db =
     (if inbox_has confirmation_consumer (ev_eventId event) (inv_inbox db) then Inr db
      else
        case List.find (\<lambda>g. grp_id g = groupId \<and> grp_tenantId g = ev_tenantId event \<and> grp_orderId g = orderId) (groups db) of
          None \<Rightarrow> Inl UnknownReservation
        | Some g \<Rightarrow> Inr (recordInbox confirmation_consumer event ''ACKNOWLEDGED''
            (db\<lparr> groups := update_where (\<lambda>h. grp_id h = grp_id g \<and> grp_tenantId h = ev_tenantId event)
               (\<lambda>h. h\<lparr> grp_acknowledgedAt := Some now, grp_version := grp_version h + 1 \<rparr>) (groups db) \<rparr>)))"

definition handleOrderEvent :: "instant \<Rightarrow> order_event_view envelope \<Rightarrow> inv_db \<Rightarrow> inv_error + inv_db" where
  "handleOrderEvent now event db =
     (if ev_eventType event \<noteq> ''OrderCanceled'' \<and> ev_eventType event \<noteq> ''OrderConfirmed'' then Inr db
      else if ev_producer event \<noteq> ''order-service'' then Inl UnexpectedProducer
      else if ev_eventType event = ''OrderCanceled'' then
        (case oe_orderId (ev_payload event) of
           None \<Rightarrow> Inl InvalidPayload
         | Some orderId \<Rightarrow> release orderId \<lparr> rc_tenantId = ev_tenantId event,
             rc_correlationId = ev_correlationId event, rc_eventId = Some (ev_eventId event) \<rparr> None now db)
      else
        (case (oe_orderId (ev_payload event), oe_reservationGroupId (ev_payload event)) of
           (Some orderId, Some groupId) \<Rightarrow> acknowledge event orderId groupId now db
         | _ \<Rightarrow> Inl InvalidPayload))"

section \<open>The reconciler\<close>

datatype reconcile_decision = ACKNOWLEDGE | RELEASE | KEEP

text \<open>
  \<open>decide\<close> is the order service's answer to a group and its lines, \<open>None\<close> when the request fails, is
  rejected or its answer does not parse.
\<close>

definition reconcile_group ::
    "(reservation_group \<Rightarrow> reservation list \<Rightarrow> reconcile_decision option) \<Rightarrow> (uuid \<Rightarrow> uuid) \<Rightarrow> instant \<Rightarrow>
     reservation_group \<times> reservation list \<Rightarrow> inv_db \<Rightarrow> inv_db" where
  "reconcile_group decide corr now gl db =
     (let g = fst gl in
      if \<not> isSafeInteger (grp_orderVersion g) then db
      else case decide g (snd gl) of
          Some RELEASE \<Rightarrow>
            (case release (grp_orderId g) \<lparr> rc_tenantId = grp_tenantId g, rc_correlationId = corr (grp_id g),
                    rc_eventId = None \<rparr> (Some (grp_id g)) now db of
               Inr db' \<Rightarrow> db' | Inl _ \<Rightarrow> db)
        | Some ACKNOWLEDGE \<Rightarrow>
            db\<lparr> groups := update_where (\<lambda>h. grp_tenantId h = grp_tenantId g \<and> grp_id h = grp_id g \<and>
                  grp_status h = RS_ACTIVE \<and> grp_acknowledgedAt h = None)
                (\<lambda>h. h\<lparr> grp_acknowledgedAt := Some now, grp_version := grp_version h + 1 \<rparr>) (groups db) \<rparr>
        | _ \<Rightarrow> db)"

definition reconcile ::
    "(reservation_group \<Rightarrow> reservation list \<Rightarrow> reconcile_decision option) \<Rightarrow> (uuid \<Rightarrow> uuid) \<Rightarrow>
     nat \<Rightarrow> nat \<Rightarrow> instant \<Rightarrow> inv_db \<Rightarrow> inv_db" where
  "reconcile decide corr ageMs batchSize now db =
     (let old = take batchSize (sort_key (\<lambda>g. (grp_reservedAt g, grp_id g))
            (filter (\<lambda>g. grp_status g = RS_ACTIVE \<and> grp_acknowledgedAt g = None \<and> grp_deletedAt g = None \<and>
               grp_reservedAt g + ageMs \<le> now) (groups db)));
          withLines = map (\<lambda>g. (g, filter (\<lambda>r. res_reservationGroupId r = grp_id g) (reservations db))) old
      in fold (reconcile_group decide corr now) withLines db)"

section \<open>Lemmas: quantities\<close>

definition alist_sum :: "(uuid \<Rightarrow> bool) \<Rightarrow> (uuid \<times> qty) list \<Rightarrow> qty" where
  "alist_sum P xs = sum_list (map snd (filter (P \<circ> fst) xs))"

lemma alist_sum_simps [simp]:
  "alist_sum P [] = 0"
  "alist_sum P (x # xs) = (if P (fst x) then snd x else 0) + alist_sum P xs"
  by (simp_all add: alist_sum_def)

lemma alist_sum_add_quantity: "alist_sum P (add_quantity p q xs) = alist_sum P xs + (if P p then q else 0)"
  by (induction p q xs rule: add_quantity.induct) auto

lemma add_quantity_keys: "fst ` set (add_quantity p q xs) = insert p (fst ` set xs)"
  by (induction p q xs rule: add_quantity.induct) auto

lemma add_quantity_distinct: "distinct (map fst xs) \<Longrightarrow> distinct (map fst (add_quantity p q xs))"
proof (induction p q xs rule: add_quantity.induct)
  case (2 p q p' q' xs)
  then show ?case using add_quantity_keys [of p q xs] by auto
qed simp

lemma add_quantity_pos: "0 < q \<Longrightarrow> \<forall>x\<in>set xs. 0 < snd x \<Longrightarrow> \<forall>x\<in>set (add_quantity p q xs). 0 < snd x"
  by (induction p q xs rule: add_quantity.induct) auto

lemma issue_quantities_sum:
  "issue_quantities t o' w lines acc = Inr qs \<Longrightarrow> alist_sum P qs = alist_sum P acc +
      sum_list (map res_quantity (filter (\<lambda>r. P (res_productId r)) lines))"
proof (induction lines arbitrary: acc)
  case (Cons r lines)
  then have "issue_quantities t o' w lines (add_quantity (res_productId r) (res_quantity r) acc) = Inr qs"
    by (auto split: if_splits)
  from Cons.IH [OF this] show ?case by (simp add: alist_sum_add_quantity)
qed simp

lemma issue_quantities_distinct:
  "issue_quantities t o' w lines acc = Inr qs \<Longrightarrow> distinct (map fst acc) \<Longrightarrow> distinct (map fst qs)"
  by (induction lines arbitrary: acc) (auto split: if_splits intro: add_quantity_distinct)

lemma issue_quantities_pos:
  "issue_quantities t o' w lines acc = Inr qs \<Longrightarrow> \<forall>r\<in>set lines. 0 < res_quantity r \<Longrightarrow> \<forall>x\<in>set acc. 0 < snd x \<Longrightarrow>
     \<forall>x\<in>set qs. 0 < snd x"
proof (induction lines arbitrary: acc)
  case (Cons r lines)
  then have "issue_quantities t o' w lines (add_quantity (res_productId r) (res_quantity r) acc) = Inr qs"
    by (auto split: if_splits)
  moreover have "\<forall>x\<in>set (add_quantity (res_productId r) (res_quantity r) acc). 0 < snd x"
    using Cons.prems by (intro add_quantity_pos) simp_all
  ultimately show ?case using Cons.IH Cons.prems(2) by (meson list.set_intros(2))
qed simp

lemma issue_quantities_keys:
  "issue_quantities t o' w lines acc = Inr qs \<Longrightarrow> fst ` set qs = fst ` set acc \<union> res_productId ` set lines"
  by (induction lines arbitrary: acc) (auto simp: add_quantity_keys split: if_splits)

lemma issue_quantities_ok:
  "\<forall>r\<in>set lines. res_tenantId r = t \<and> res_orderId r = o' \<and> res_warehouseId r = w \<Longrightarrow>
     \<exists>qs. issue_quantities t o' w lines acc = Inr qs"
  by (induction lines arbitrary: acc) auto

lemma alist_sum_single: "distinct (map fst qs) \<Longrightarrow> (p, q) \<in> set qs \<Longrightarrow> alist_sum ((=) p) qs = q"
proof (induction qs)
  case (Cons x qs)
  show ?case
  proof (cases "fst x = p")
    case True
    with Cons.prems(1) have "filter ((=) p \<circ> fst) qs = []" by (force simp: filter_empty_conv)
    moreover from True Cons.prems have "snd x = q" by (metis distinct.simps(2) fst_conv imageI list.set_map list.simps(9) set_ConsD snd_conv)
    ultimately show ?thesis using True by (simp add: alist_sum_def)
  next
    case False
    with Cons show ?thesis by auto
  qed
qed simp

section \<open>Lemmas: issuing lines\<close>

lemma applyMovementInTransaction_same_rows:
  assumes "inv_owed ow db" "b \<in> set (balances db)" "bal_for (mc_tenantId c) (mc_warehouseId c) (mc_productId c) b"
    "applyMovementInTransaction c db = Inr (m, db')"
  shows "list_all2 bal_same_row (balances db') (balances db)"
proof (cases "findMovementByKey (mc_tenantId c) (mc_idempotencyKey c) db")
  case None
  with assms(4) have a: "applyLocked c db = Inr (m, db')" by (simp add: applyMovementInTransaction_def)
  have "lockBalance (mc_tenantId c) (mc_warehouseId c) (mc_productId c) db = (b, db)"
    by (rule lockBalance_existing [OF find_balance_eq [OF assms(1-3)]])
  with applyLocked_cases(6) [OF a] setOnHand_same_rows show ?thesis by simp
next
  case (Some m')
  with assms(4) show ?thesis by (simp add: applyMovementInTransaction_def list_all2_same bal_same_row_def)
qed

text \<open>\<open>idOf\<close> names the balance of each product; the loop pays back what it takes off those balances.\<close>

definition names_balances :: "uuid \<Rightarrow> uuid \<Rightarrow> (uuid \<Rightarrow> uuid) \<Rightarrow> uuid set \<Rightarrow> inv_db \<Rightarrow> bool" where
  "names_balances t w idOf ps db \<longleftrightarrow> (\<forall>p\<in>ps. \<exists>b\<in>set (balances db). bal_for t w p b \<and> bal_id b = idOf p)"

lemma names_balances_same_rows:
  assumes "names_balances t w idOf ps db" "list_all2 bal_same_row (balances db') (balances db)" "ps' \<subseteq> ps"
  shows "names_balances t w idOf ps' db'"
  unfolding names_balances_def
proof
  fix p assume "p \<in> ps'"
  with assms(1,3) obtain b where "b \<in> set (balances db)" "bal_for t w p b" "bal_id b = idOf p"
    unfolding names_balances_def by blast
  moreover from list_all2_sym_mem [OF assms(2) this(1)] obtain b' where "b' \<in> set (balances db')" "bal_same_row b' b" by blast
  ultimately show "\<exists>b\<in>set (balances db'). bal_for t w p b \<and> bal_id b = idOf p"
    by (intro bexI [of _ b']) (auto simp: bal_same_row_for, simp add: bal_same_row_def)
qed

lemma list_all2_bal_same_row_trans:
  "list_all2 bal_same_row as bs \<Longrightarrow> list_all2 bal_same_row bs cs \<Longrightarrow> list_all2 bal_same_row as cs"
  by (rule list_all2_trans [of bal_same_row bal_same_row bal_same_row]) (auto simp: bal_same_row_def)

text \<open>One line of an issue.\<close>

lemma issue_line_step:
  assumes ok: "inv_owed ow db" and nb: "names_balances (ev_tenantId e) (sl_warehouseId pl) idOf {fst pq} db"
    and pos: "0 < snd pq"
    and b: "List.find (bal_for (ev_tenantId e) (sl_warehouseId pl) (fst pq)) (balances db) = Some b" "snd pq \<le> bal_reservedQuantity b"
    and a: "applyMovementInTransaction (issueMovement e pl actor pq) (addReserved (bal_id b) (- snd pq) db) = Inr (m, db')"
  shows "inv_owed (ow(idOf (fst pq) := ow (idOf (fst pq)) + snd pq)) db'"
    "list_all2 bal_same_row (balances db') (balances db)" "groups db' = groups db" "reservations db' = reservations db"
    "inv_inbox db' = inv_inbox db"
proof -
  let ?t = "ev_tenantId e" let ?w = "sl_warehouseId pl"
  let ?D = "addReserved (bal_id b) (- snd pq) db"
  from find_balance_D [OF b(1)] have bm: "b \<in> set (balances db)" "bal_for ?t ?w (fst pq) b" by auto
  have id: "bal_id b = idOf (fst pq)"
    using nb bm balance_unique [OF ok] unfolding names_balances_def by blast
  have "bal_reservedQuantity b \<le> bal_onHandQuantity b"
    using inv_owedD(1) [OF ok] bm(1) by (simp add: stock_bounds_def)
  with pos b(2) have D: "inv_owed (ow(bal_id b := ow (bal_id b) - (- snd pq))) ?D"
    by (intro addReserved_owed [OF ok bm(1)]) simp_all
  obtain b' where b': "b' \<in> set (balances ?D)" "bal_same_row b' b"
    using list_all2_sym_mem [OF addReserved_same_rows bm(1)] by blast
  have "bal_for ?t ?w (fst pq) b'" using b'(2) bm(2) by (simp add: bal_same_row_for)
  then have rows: "list_all2 bal_same_row (balances db') (balances ?D)"
    by (intro applyMovementInTransaction_same_rows [OF D b'(1) _ a]) (simp add: issueMovement_def)
  show "inv_owed (ow(idOf (fst pq) := ow (idOf (fst pq)) + snd pq)) db'"
    using applyMovementInTransaction_owed [OF D a] by (simp add: id)
  show "list_all2 bal_same_row (balances db') (balances db)"
    using rows addReserved_same_rows by (rule list_all2_bal_same_row_trans)
  show "groups db' = groups db" "reservations db' = reservations db" "inv_inbox db' = inv_inbox db"
    using applyMovementInTransaction_movements(2-4) [OF a] by simp_all
qed

lemma issue_lines_owed:
  assumes "inv_owed ow db" "issue_lines e pl actor qs db = Inr db'" "\<forall>x\<in>set qs. 0 < snd x"
    "names_balances (ev_tenantId e) (sl_warehouseId pl) idOf (fst ` set qs) db"
  shows "inv_owed (\<lambda>i. ow i + alist_sum (\<lambda>p. idOf p = i) qs) db' \<and>
    groups db' = groups db \<and> reservations db' = reservations db \<and> inv_inbox db' = inv_inbox db"
  using assms
proof (induction qs arbitrary: ow db)
  case (Cons pq qs)
  from Cons.prems(2) obtain b m db1 where
    s: "List.find (bal_for (ev_tenantId e) (sl_warehouseId pl) (fst pq)) (balances db) = Some b"
       "snd pq \<le> bal_reservedQuantity b"
       "applyMovementInTransaction (issueMovement e pl actor pq) (addReserved (bal_id b) (- snd pq) db) = Inr (m, db1)"
       "issue_lines e pl actor qs db1 = Inr db'"
    by (auto simp: bind_res_Inr_iff split: option.splits if_splits)
  let ?ow = "ow(idOf (fst pq) := ow (idOf (fst pq)) + snd pq)"
  have nb: "names_balances (ev_tenantId e) (sl_warehouseId pl) idOf {fst pq} db"
    using Cons.prems(4) by (simp add: names_balances_def)
  note st = issue_line_step [OF Cons.prems(1) nb _ s(1-3)]
  have pos: "0 < snd pq" using Cons.prems(3) by simp
  have "names_balances (ev_tenantId e) (sl_warehouseId pl) idOf (fst ` set qs) db1"
    by (rule names_balances_same_rows [OF Cons.prems(4) st(2) [OF pos]]) auto
  with Cons.IH [OF st(1) [OF pos] s(4)] Cons.prems(3)
  have "inv_owed (\<lambda>i. ?ow i + alist_sum (\<lambda>p. idOf p = i) qs) db' \<and> groups db' = groups db1 \<and>
      reservations db' = reservations db1 \<and> inv_inbox db' = inv_inbox db1" by simp
  moreover have "(\<lambda>i. ?ow i + alist_sum (\<lambda>p. idOf p = i) qs) = (\<lambda>i. ow i + alist_sum (\<lambda>p. idOf p = i) (pq # qs))"
    by (auto simp: fun_eq_iff)
  ultimately show ?case using st(3-5) [OF pos] by simp
qed simp

section \<open>Lemmas: issuing a group\<close>

lemma issue_quantities_owned:
  "issue_quantities t o' w lines acc = Inr qs \<Longrightarrow> r \<in> set lines \<Longrightarrow>
     res_tenantId r = t \<and> res_orderId r = o' \<and> res_warehouseId r = w"
  by (induction lines arbitrary: acc) (auto split: if_splits)

definition balanceIdOf :: "uuid \<Rightarrow> uuid \<Rightarrow> inv_db \<Rightarrow> uuid \<Rightarrow> uuid" where
  "balanceIdOf t w db p = (case List.find (bal_for t w p) (balances db) of Some b \<Rightarrow> bal_id b | None \<Rightarrow> 0)"

lemma reservation_balance:
  assumes "inv_owed ow db" "r \<in> set (reservations db)"
  obtains b where "b \<in> set (balances db)" "bal_id b = res_balanceId r"
    "bal_for (res_tenantId r) (res_warehouseId r) (res_productId r) b"
    "balanceIdOf (res_tenantId r) (res_warehouseId r) db (res_productId r) = res_balanceId r"
proof -
  from inv_owedD(6) [OF assms] obtain b where b: "b \<in> set (balances db)" "bal_id b = res_balanceId r"
      "bal_for (res_tenantId r) (res_warehouseId r) (res_productId r) b"
    unfolding res_backed_def by blast
  from find_balance_eq [OF assms(1) b(1,3)] b that show thesis by (simp add: balanceIdOf_def)
qed

text \<open>The lines of a group as the handler reads them, and the quantities it derives from them.\<close>

definition issue_reads :: "'p envelope \<Rightarrow> shipment_lifecycle \<Rightarrow> reservation_group \<Rightarrow> (uuid \<times> qty) list \<Rightarrow> inv_db \<Rightarrow> bool" where
  "issue_reads e pl g qs db \<longleftrightarrow> issue_quantities (ev_tenantId e) (sl_orderId pl) (sl_warehouseId pl)
     (sort_key (\<lambda>r. (res_productId r, res_id r)) (filter (\<lambda>r. res_reservationGroupId r = grp_id g) (reservations db))) [] = Inr qs"

lemma issue_reads_D:
  assumes ok: "inv_owed ow db" and rd: "issue_reads e pl g qs db"
  defines "idOf \<equiv> balanceIdOf (ev_tenantId e) (sl_warehouseId pl) db"
  defines "lines \<equiv> filter (\<lambda>r. res_reservationGroupId r = grp_id g) (reservations db)"
  shows "\<forall>x\<in>set qs. 0 < snd x" "distinct (map fst qs)"
    "names_balances (ev_tenantId e) (sl_warehouseId pl) idOf (fst ` set qs) db"
    "alist_sum (\<lambda>p. idOf p = i) qs = due lines i"
proof -
  note q = rd [unfolded issue_reads_def, folded lines_def]
  let ?s = "sort_key (\<lambda>r. (res_productId r, res_id r)) lines"
  have mem: "r \<in> set (reservations db)" if "r \<in> set lines" for r using that by (simp add: lines_def)
  have own: "res_tenantId r = ev_tenantId e" "res_warehouseId r = sl_warehouseId pl" if "r \<in> set lines" for r
    using issue_quantities_owned [OF q] that by auto
  have bal: "\<exists>b\<in>set (balances db). bal_for (ev_tenantId e) (sl_warehouseId pl) (res_productId r) b \<and>
      bal_id b = idOf (res_productId r) \<and> res_balanceId r = idOf (res_productId r)" if "r \<in> set lines" for r
    using reservation_balance [OF ok mem [OF that]] own [OF that] unfolding idOf_def by metis
  have "\<forall>r\<in>set ?s. 0 < res_quantity r" using inv_owedD(6) [OF ok mem] by (simp add: res_backed_def)
  with issue_quantities_pos [OF q] show "\<forall>x\<in>set qs. 0 < snd x" by simp
  show "distinct (map fst qs)" using issue_quantities_distinct [OF q] by simp
  have keys: "fst ` set qs = res_productId ` set lines" using issue_quantities_keys [OF q] by simp
  show "names_balances (ev_tenantId e) (sl_warehouseId pl) idOf (fst ` set qs) db"
    using bal unfolding names_balances_def keys by blast
  have "res_balanceId r = idOf (res_productId r)" if "r \<in> set lines" for r using bal [OF that] by blast
  then have "filter (\<lambda>r. idOf (res_productId r) = i) ?s = filter (\<lambda>r. res_balanceId r = i) ?s"
    by (intro filter_cong) simp_all
  then have "alist_sum (\<lambda>p. idOf p = i) qs = due ?s i"
    using issue_quantities_sum [OF q, of "\<lambda>p. idOf p = i"] by (simp add: due_def)
  then show "alist_sum (\<lambda>p. idOf p = i) qs = due lines i" using due_mset [of ?s lines i] by simp
qed

lemma closeIssued_closes:
  assumes "closeIssued e pl g db = Inr D" "g \<in> set (groups db)" "grp_status g = RS_ACTIVE" "grp_tenantId g = ev_tenantId e"
  shows "closes g RS_ISSUED db D"
  using assms(1) unfolding closes_def closeIssued_def
  by (intro conjI exI [of _ "\<lambda>r. r\<lparr> res_status := RS_ISSUED, res_issuedAt := Some (ev_occurredAt e), res_version := res_version r + 1 \<rparr>"]
        exI [of _ "\<lambda>h. h\<lparr> grp_status := RS_ISSUED, grp_issuedAt := Some (ev_occurredAt e),
            grp_issueShipmentId := Some (sl_shipmentId pl), grp_issueRequestId := sl_dispatchRequestId pl,
            grp_version := grp_version h + 1 \<rparr>"])
     (auto simp: assms(2-4) split: if_splits)

lemma group_lines_active:
  "\<forall>r\<in>set (reservations db). res_reservationGroupId r = i \<longrightarrow> res_status r = RS_ACTIVE \<Longrightarrow>
     filter (\<lambda>r. res_reservationGroupId r = i) (reservations db) = group_reservations i db"
  by (auto simp: group_reservations_def intro: filter_cong)

lemma issueGroup_inv:
  assumes ok: "inv_ok db" and g: "g \<in> set (groups db)" "grp_tenantId g = ev_tenantId e"
    and i: "issueGroup e pl actor g db = Inr db'"
  shows "inv_ok db'"
proof -
  note ok' = ok [unfolded inv_ok_def]
  from i obtain qs db1 where s: "grp_status g = RS_ACTIVE" "issue_reads e pl g qs db"
      "issue_lines e pl actor qs db = Inr db1" "closeIssued e pl g db1 = Inr db'"
    unfolding issueGroup_def Let_def issue_reads_def by (auto simp: bind_res_Inr_iff split: if_splits)
  let ?id = "balanceIdOf (ev_tenantId e) (sl_warehouseId pl) db"
  note q = issue_reads_D [OF ok' s(2)]
  have l: "inv_owed (\<lambda>i. 0 + alist_sum (\<lambda>p. ?id p = i) qs) db1" "groups db1 = groups db" "reservations db1 = reservations db"
    using issue_lines_owed [OF ok' s(3) q(1,3)] by auto
  have "filter (\<lambda>r. res_reservationGroupId r = grp_id g) (reservations db) = group_reservations (grp_id g) db1"
    using reservation_of_group(2) [OF ok' g(1)] s(1) l(3) by (intro trans [OF group_lines_active]) (auto simp: group_reservations_def)
  with l(1) q(4) have "inv_owed (due (group_reservations (grp_id g) db1)) db1" by simp
  moreover have "closes g RS_ISSUED db1 db'" using s(1,4) g l(2) by (intro closeIssued_closes) simp_all
  ultimately show ?thesis by (rule closes_ok)
qed

lemma recordInbox_inv [inv_intros]: "inv_ok db \<Longrightarrow> inv_ok (recordInbox c e out db)"
  unfolding recordInbox_def by (erule inv_ok_cong) simp_all

lemma handleShipment_inv [inv_intros]:
  assumes "inv_ok db" "handleShipment e db = Inr db'"
  shows "inv_ok db'"
  using assms unfolding handleShipment_def issueTx_def
  by (auto simp: bind_res_Inr_iff split: if_splits option.splits dest!: find_Some_D intro!: recordInbox_inv intro: issueGroup_inv)

section \<open>Lemmas: an active reservation can always be issued\<close>

lemma issue_key_inj [simp]: "issue_key s p = issue_key s p' \<longleftrightarrow> p = p'"
  by (simp add: issue_key_def uuid_text_inj)

lemma applyLocked_ok:
  assumes ok: "inv_owed ow db" and b: "b \<in> set (balances db)" "bal_for (mc_tenantId c) (mc_warehouseId c) (mc_productId c) b"
    and c: "mc_quantityDelta c \<noteq> 0" "\<not> isAdjustment (mc_movementType c)"
      "0 \<le> bal_onHandQuantity b + mc_quantityDelta c" "bal_reservedQuantity b \<le> bal_onHandQuantity b + mc_quantityDelta c"
      "findMovementByKey (mc_tenantId c) (mc_idempotencyKey c) db = None"
  shows "\<exists>m db'. applyLocked c db = Inr (m, db')"
proof -
  have "lockBalance (mc_tenantId c) (mc_warehouseId c) (mc_productId c) db = (b, db)"
    by (rule lockBalance_existing [OF find_balance_eq [OF ok b]])
  with c show ?thesis
    by (simp add: applyLocked_def Let_def createMovement_def newMovement_def findMovementByKey_def)
qed

lemma alist_sum_nonneg: "\<forall>x\<in>set qs. 0 < snd x \<Longrightarrow> 0 \<le> alist_sum P qs"
  unfolding alist_sum_def by (rule sum_list_map_nonneg) auto

definition issue_keys_fresh :: "uuid \<Rightarrow> uuid \<Rightarrow> uuid set \<Rightarrow> inv_db \<Rightarrow> bool" where
  "issue_keys_fresh t s ps db \<longleftrightarrow> (\<forall>p\<in>ps. findMovementByKey t (issue_key s p) db = None)"

lemma issue_line_ok:
  assumes ok: "inv_owed ow db" and b: "b \<in> set (balances db)" "bal_for (ev_tenantId e) (sl_warehouseId pl) (fst pq) b"
    and q: "0 < snd pq" "snd pq \<le> bal_reservedQuantity b"
    and fresh: "findMovementByKey (ev_tenantId e) (issue_key (sl_shipmentId pl) (fst pq)) db = None"
  shows "\<exists>m db'. applyLocked (issueMovement e pl actor pq) (addReserved (bal_id b) (- snd pq) db) = Inr (m, db')"
proof -
  let ?D = "addReserved (bal_id b) (- snd pq) db"
  have bd: "bal_reservedQuantity b \<le> bal_onHandQuantity b"
    using inv_owedD(1) [OF ok] b(1) by (simp add: stock_bounds_def)
  with q have D: "inv_owed (ow(bal_id b := ow (bal_id b) - (- snd pq))) ?D"
    by (intro addReserved_owed [OF ok b(1)]) simp_all
  let ?b = "b\<lparr> bal_reservedQuantity := bal_reservedQuantity b + - snd pq, bal_version := bal_version b + 1 \<rparr>"
  have "?b \<in> set (balances ?D)" using update_where_mem [OF b(1), of "\<lambda>x. bal_id x = bal_id b"]
    by (simp add: addReserved_def) (metis (mono_tags, lifting))
  then show ?thesis
    by (rule applyLocked_ok [OF D]) (use q bd b(2) fresh in \<open>simp_all add: issueMovement_def bal_for_def isAdjustment_def findMovementByKey_def\<close>)
qed

lemma issue_lines_total:
  assumes "inv_owed ow db" "distinct (map fst qs)" "\<forall>x\<in>set qs. 0 < snd x"
    "names_balances (ev_tenantId e) (sl_warehouseId pl) idOf (fst ` set qs) db"
    "\<And>i. alist_sum (\<lambda>p. idOf p = i) qs \<le> held db i - ow i"
    "issue_keys_fresh (ev_tenantId e) (sl_shipmentId pl) (fst ` set qs) db"
  shows "\<exists>db'. issue_lines e pl actor qs db = Inr db' \<and> (\<forall>p. onHandOf (ev_tenantId e) (sl_warehouseId pl) p db' =
    onHandOf (ev_tenantId e) (sl_warehouseId pl) p db - alist_sum ((=) p) qs)"
  using assms
proof (induction qs arbitrary: ow db)
  case (Cons pq qs)
  let ?t = "ev_tenantId e" let ?w = "sl_warehouseId pl" let ?s = "sl_shipmentId pl"
  from Cons.prems(4) obtain b where b: "b \<in> set (balances db)" "bal_for ?t ?w (fst pq) b" "bal_id b = idOf (fst pq)"
    by (auto simp: names_balances_def)
  have find: "List.find (bal_for ?t ?w (fst pq)) (balances db) = Some b"
    by (rule find_balance_eq [OF Cons.prems(1) b(1,2)])
  have pos: "0 < snd pq" "\<forall>x\<in>set qs. 0 < snd x" using Cons.prems(3) by auto
  have "bal_reservedQuantity b = held db (bal_id b) - ow (bal_id b)"
    using inv_owedD(2) [OF Cons.prems(1)] b(1) by (simp add: reservation_account_def)
  with Cons.prems(5) [of "bal_id b"] b(3) alist_sum_nonneg [OF pos(2)]
  have le: "snd pq \<le> bal_reservedQuantity b" by (simp add: add_increasing2 order.trans [rotated])
  have fresh: "findMovementByKey ?t (issue_key ?s (fst pq)) db = None"
    using Cons.prems(6) by (simp add: issue_keys_fresh_def)
  let ?D = "addReserved (bal_id b) (- snd pq) db"
  obtain m db1 where a: "applyLocked (issueMovement e pl actor pq) ?D = Inr (m, db1)"
    using issue_line_ok [OF Cons.prems(1) b(1,2) pos(1) le fresh] by blast
  have at: "applyMovementInTransaction (issueMovement e pl actor pq) ?D = Inr (m, db1)"
    using a fresh by (simp add: applyMovementInTransaction_def issueMovement_def findMovementByKey_def)
  have nb: "names_balances ?t ?w idOf {fst pq} db" using Cons.prems(4) by (simp add: names_balances_def)
  note st = issue_line_step [OF Cons.prems(1) nb pos(1) find le at]
  have nb1: "names_balances ?t ?w idOf (fst ` set qs) db1"
    by (rule names_balances_same_rows [OF Cons.prems(4) st(2)]) auto
  have sum1: "alist_sum (\<lambda>p. idOf p = i) qs \<le> held db1 i - (ow(idOf (fst pq) := ow (idOf (fst pq)) + snd pq)) i" for i
    using Cons.prems(5) [of i] held_cong [OF st(4)] by (auto split: if_splits)
  have "issue_keys_fresh ?t ?s (fst ` set qs) db1"
    using Cons.prems(2,6) applyLocked_cases(4,7) [OF a]
    by (auto simp: issue_keys_fresh_def findMovementByKey_def find_append newMovement_def issueMovement_def)
  then obtain db' where h: "issue_lines e pl actor qs db1 = Inr db'"
      "\<And>p. onHandOf ?t ?w p db' = onHandOf ?t ?w p db1 - alist_sum ((=) p) qs"
    using Cons.IH [OF st(1) _ pos(2) nb1 sum1] Cons.prems(2) by auto
  have D: "inv_owed (ow(bal_id b := ow (bal_id b) - (- snd pq))) ?D"
    using le pos inv_owedD(1) [OF Cons.prems(1)] b(1)
    by (intro addReserved_owed [OF Cons.prems(1) b(1)]) (auto simp: stock_bounds_def)
  have "onHandOf ?t ?w p db1 = onHandOf ?t ?w p db - (if p = fst pq then snd pq else 0)" for p
    using applyLocked_onHand [OF D a, of ?t ?w p] by (simp add: issueMovement_def)
  with h find le at show ?case by (intro exI [of _ db']) auto
qed simp

text \<open>The group a shipment event names.\<close>

definition names_group :: "'p envelope \<Rightarrow> shipment_lifecycle \<Rightarrow> reservation_group \<Rightarrow> bool" where
  "names_group e pl g \<longleftrightarrow> grp_id g = sl_reservationGroupId pl \<and> grp_tenantId g = ev_tenantId e \<and>
     grp_orderId g = sl_orderId pl \<and> grp_warehouseId g = sl_warehouseId pl \<and> grp_deletedAt g = None"

text \<open>
  What lets an issue go through: the group named is active and has lines, no movement of the shipment and no
  group issued to it exists yet, and no other movement took one of its keys.
\<close>

definition issuable :: "'p envelope \<Rightarrow> shipment_lifecycle \<Rightarrow> reservation_group \<Rightarrow> inv_db \<Rightarrow> bool" where
  "issuable e pl g db \<longleftrightarrow> g \<in> set (groups db) \<and> names_group e pl g \<and> grp_status g = RS_ACTIVE \<and> group_reservations (grp_id g) db \<noteq> [] \<and>
     \<not> exists_row (\<lambda>m. mov_tenantId m = ev_tenantId e \<and> mov_referenceType m = RT_SHIPMENT \<and>
        mov_referenceId m = sl_shipmentId pl) (movements db) \<and>
     \<not> exists_row (\<lambda>h. grp_tenantId h = ev_tenantId e \<and> grp_issueShipmentId h = Some (sl_shipmentId pl)) (groups db) \<and>
     \<not> exists_row (\<lambda>m. mov_tenantId m = ev_tenantId e \<and>
        list_ex (\<lambda>r. mov_idempotencyKey m = issue_key (sl_shipmentId pl) (res_productId r))
          (group_reservations (grp_id g) db)) (movements db)"

definition group_quantity :: "reservation_group \<Rightarrow> uuid \<Rightarrow> inv_db \<Rightarrow> qty" where
  "group_quantity g p db =
     sum_list (map res_quantity (filter (\<lambda>r. res_productId r = p) (group_reservations (grp_id g) db)))"

lemma issueGroup_total:
  assumes ok: "inv_ok db" and i: "issuable e pl g db"
  shows "\<exists>db'. issueGroup e pl actor g db = Inr db' \<and>
    (\<forall>h\<in>set (groups db'). grp_id h = grp_id g \<longrightarrow> grp_status h = RS_ISSUED) \<and>
    (\<forall>p. onHandOf (ev_tenantId e) (sl_warehouseId pl) p db' =
       onHandOf (ev_tenantId e) (sl_warehouseId pl) p db - group_quantity g p db)"
proof -
  note ok' = ok [unfolded inv_ok_def] note I = i [unfolded issuable_def names_group_def]
  let ?ls = "sort_key (\<lambda>r. (res_productId r, res_id r)) (group_reservations (grp_id g) db)"
  let ?id = "balanceIdOf (ev_tenantId e) (sl_warehouseId pl) db"
  have g: "g \<in> set (groups db)" using I by simp
  have lines: "filter (\<lambda>r. res_reservationGroupId r = grp_id g) (reservations db) = group_reservations (grp_id g) db"
    using reservation_of_group(2) [OF ok' g] I by (intro group_lines_active) auto
  have own: "res_tenantId r = ev_tenantId e \<and> res_orderId r = sl_orderId pl \<and> res_warehouseId r = sl_warehouseId pl"
    if "r \<in> set (group_reservations (grp_id g) db)" for r
  proof -
    have "r \<in> set (reservations db)" "res_reservationGroupId r = grp_id g" using that by (simp_all add: group_reservations_def)
    with inv_owedD(6) [OF ok'] group_id_unique [OF ok' g] I show ?thesis unfolding res_backed_def by metis
  qed
  then obtain qs where qs: "issue_quantities (ev_tenantId e) (sl_orderId pl) (sl_warehouseId pl) ?ls [] = Inr qs"
    using issue_quantities_ok [of ?ls "ev_tenantId e" "sl_orderId pl" "sl_warehouseId pl" "[]"] by fastforce
  then have rd: "issue_reads e pl g qs db" unfolding issue_reads_def lines .
  note q = issue_reads_D [OF ok' rd, unfolded lines]
  have pos: "r \<in> set (reservations db) \<Longrightarrow> 0 < res_quantity r" for r
    using inv_owedD(6) [OF ok', of r] by (simp add: res_backed_def)
  have le: "alist_sum (\<lambda>p. ?id p = j) qs \<le> held db j - (\<lambda>_. 0) j" for j
    using due_le_held [of db "grp_id g" j] pos by (simp add: q(4))
  have "fst ` set qs = res_productId ` set (group_reservations (grp_id g) db)"
    using issue_quantities_keys [OF qs] by simp
  then have fresh: "issue_keys_fresh (ev_tenantId e) (sl_shipmentId pl) (fst ` set qs) db"
    using I by (auto simp: issue_keys_fresh_def findMovementByKey_def find_None_iff list_ex_iff)
  obtain db1 where l: "issue_lines e pl actor qs db = Inr db1"
      "\<And>p. onHandOf (ev_tenantId e) (sl_warehouseId pl) p db1 =
         onHandOf (ev_tenantId e) (sl_warehouseId pl) p db - alist_sum ((=) p) qs"
    using issue_lines_total [OF ok' q(2,1,3) le fresh] by blast
  have same: "groups db1 = groups db" using issue_lines_owed [OF ok' l(1) q(1,3)] by simp
  then obtain db' where c: "closeIssued e pl g db1 = Inr db'" using I by (auto simp: closeIssued_def)
  have sum: "alist_sum ((=) p) qs = group_quantity g p db" for p
  proof -
    have "sum_list (map res_quantity (filter (\<lambda>r. p = res_productId r) ?ls)) = group_quantity g p db"
      unfolding group_quantity_def by (rule sum_list_mset) (simp add: eq_commute)
    with issue_quantities_sum [OF qs, of "(=) p"] show ?thesis by simp
  qed
  have act: "list_ex (\<lambda>l. res_status l \<noteq> RS_ACTIVE) ?ls = False" "length ?ls \<noteq> 0"
    using I by (auto simp: list_ex_iff group_reservations_def)
  have "issueGroup e pl actor g db = Inr db'"
    unfolding issueGroup_def Let_def lines using I act qs l(1) c by auto
  moreover have "\<forall>h\<in>set (groups db'). grp_id h = grp_id g \<longrightarrow> grp_status h = RS_ISSUED"
    using c unfolding closeIssued_def by (auto split: if_splits elim!: update_whereE)
  moreover have "balances db' = balances db1" using c by (auto simp: closeIssued_def split: if_splits)
  from onHandOf_cong [OF this] have "\<forall>p. onHandOf (ev_tenantId e) (sl_warehouseId pl) p db' =
       onHandOf (ev_tenantId e) (sl_warehouseId pl) p db - group_quantity g p db" by (simp add: l(2) sum)
  ultimately show ?thesis by blast
qed

section \<open>Lemmas: order events and the reconciler\<close>

definition grp_same_row :: "reservation_group \<Rightarrow> reservation_group \<Rightarrow> bool" where
  "grp_same_row a b \<longleftrightarrow> grp_id a = grp_id b \<and> grp_tenantId a = grp_tenantId b \<and> grp_orderId a = grp_orderId b \<and>
     grp_warehouseId a = grp_warehouseId b \<and> grp_idempotencyKey a = grp_idempotencyKey b \<and> grp_status a = grp_status b"

text \<open>Writing the acknowledgement time of some groups.\<close>

lemma acknowledge_groups_inv:
  assumes ok: "inv_ok db"
  shows "inv_ok (db\<lparr> groups := update_where p (\<lambda>h. h\<lparr> grp_acknowledgedAt := Some now, grp_version := grp_version h + 1 \<rparr>) (groups db) \<rparr>)"
    (is "inv_ok ?D")
proof -
  note k = inv_owedD [OF ok [unfolded inv_ok_def]]
  let ?f = "\<lambda>h. if p h then h\<lparr> grp_acknowledgedAt := Some now, grp_version := grp_version h + 1 \<rparr> else h"
  have grp: "groups ?D = map ?f (groups db)" by (simp add: update_where_def)
  show ?thesis unfolding inv_ok_def
  proof (rule inv_owedI)
    show "stock_bounds ?D" "reservation_account (\<lambda>_. 0) ?D" using k(1,2) by (simp_all add: stock_bounds_def reservation_account_def)
    show "movement_ledger ?D" using k(3) by (intro movement_ledger_cong [OF k(3)]) (simp_all add: movement_ledger_def)
    have "\<forall>h\<in>set (groups ?D). grp_id h < inv_next db" using k(4) unfolding grp ids_ok_def by auto
    then show "ids_ok ?D" using k(4) by (simp add: ids_ok_def)
    show "keys_ok ?D" using k(5) by (simp add: keys_ok_def)
    show "one_active_group ?D" unfolding one_active_group_def grp
    proof (intro ballI impI)
      fix g h assume "g \<in> set (map ?f (groups db))" "h \<in> set (map ?f (groups db))"
        and eq: "grp_tenantId g = grp_tenantId h \<and> grp_orderId g = grp_orderId h \<and>
          grp_status g = RS_ACTIVE \<and> grp_status h = RS_ACTIVE"
      then obtain g0 h0 where gh: "g0 \<in> set (groups db)" "g = ?f g0" "h0 \<in> set (groups db)" "h = ?f h0" by auto
      from eq have "grp_tenantId g0 = grp_tenantId h0 \<and> grp_orderId g0 = grp_orderId h0 \<and>
          grp_status g0 = RS_ACTIVE \<and> grp_status h0 = RS_ACTIVE"
        unfolding gh(2,4) by (auto split: if_splits)
      with k(7) gh(1,3) have "g0 = h0" unfolding one_active_group_def by blast
      then show "g = h" by (simp only: gh(2,4))
    qed
    show "res_backed ?D r" if "r \<in> set (reservations ?D)" for r
    proof -
      from that k(6) [of r] have rb: "res_backed db r" by simp
      then obtain g where "g \<in> set (groups db)" "grp_id g = res_reservationGroupId r" "grp_tenantId g = res_tenantId r"
          "grp_orderId g = res_orderId r" "grp_warehouseId g = res_warehouseId r" "grp_status g = res_status r"
        unfolding res_backed_def by blast
      then have "\<exists>g\<in>set (groups ?D). grp_id g = res_reservationGroupId r \<and> grp_tenantId g = res_tenantId r \<and>
          grp_orderId g = res_orderId r \<and> grp_warehouseId g = res_warehouseId r \<and> grp_status g = res_status r"
        by (simp, intro update_where_kept) simp_all
      with rb show ?thesis by (simp add: res_backed_def)
    qed
  qed
qed

lemma release_inv [inv_intros]: "inv_ok db \<Longrightarrow> release oid ctx gid now db = Inr db' \<Longrightarrow> inv_ok db'"
  using release_ok_lemma [of db oid ctx gid now] by auto

lemma handleOrderEvent_inv [inv_intros]:
  assumes "inv_ok db" "handleOrderEvent now e db = Inr db'"
  shows "inv_ok db'"
  using assms unfolding handleOrderEvent_def acknowledge_def
  by (auto split: if_splits option.splits intro: release_inv
      intro!: recordInbox_inv acknowledge_groups_inv [simplified])

lemma reconcile_group_inv: "inv_ok db \<Longrightarrow> inv_ok (reconcile_group decide corr now gl db)"
  unfolding reconcile_group_def Let_def
  by (auto split: option.splits sum.splits reconcile_decision.splits intro: release_inv acknowledge_groups_inv [simplified])

lemma fold_preserves: "(\<And>x db. P db \<Longrightarrow> P (f x db)) \<Longrightarrow> P db \<Longrightarrow> P (fold f xs db)"
  by (induction xs arbitrary: db) auto

lemma reconcile_inv [inv_intros]: "inv_ok db \<Longrightarrow> inv_ok (reconcile decide corr age n now db)"
  unfolding reconcile_def Let_def by (intro fold_preserves [where P = inv_ok]) (auto intro: reconcile_group_inv)

section \<open>The handlers as idempotent consumers\<close>

lemma issue_lines_inbox: "issue_lines e pl actor qs db = Inr db' \<Longrightarrow> inv_inbox db' = inv_inbox db"
proof (induction qs arbitrary: db)
  case (Cons pq qs)
  then obtain b :: balance and m db1 where
      "applyMovementInTransaction (issueMovement e pl actor pq) (addReserved (bal_id b) (- snd pq) db) = Inr (m, db1)"
      "issue_lines e pl actor qs db1 = Inr db'"
    by (auto simp: bind_res_Inr_iff split: option.splits if_splits)
  with Cons.IH show ?case using applyMovementInTransaction_movements(4) by fastforce
qed simp

lemma issueGroup_inbox: "issueGroup e pl actor g db = Inr db' \<Longrightarrow> inv_inbox db' = inv_inbox db"
  unfolding issueGroup_def Let_def closeIssued_def
  by (auto simp: bind_res_Inr_iff split: if_splits dest: issue_lines_inbox)

lemma inbox_recordInbox [simp]:
  "inbox_has c i (inv_inbox (recordInbox c' e out db)) \<longleftrightarrow> inbox_has c i (inv_inbox db) \<or> c' = c \<and> ev_eventId e = i"
  by (simp add: recordInbox_def)

definition issue_valid :: "shipment_lifecycle option envelope \<Rightarrow> bool" where
  "issue_valid e \<longleftrightarrow> ev_eventType e = ''ShipmentDispatched'' \<and>
     validateShipmentEnvelope e ''fulfillment-service'' ''Shipment'' \<and> ev_actorId e \<noteq> None \<and>
     (case ev_payload e of None \<Rightarrow> False
      | Some pl \<Rightarrow> sl_dispatchRequestId pl \<noteq> None \<and> ev_aggregateId e = sl_shipmentId pl)"

definition issue_seen :: "uuid \<Rightarrow> inv_db \<Rightarrow> bool" where
  "issue_seen i db = inbox_has issue_consumer i (inv_inbox db)"

lemma handleShipment_valid:
  "issue_valid e \<Longrightarrow> \<exists>pl actor. ev_payload e = Some pl \<and> handleShipment e db = issueTx e pl actor db"
  by (auto simp: issue_valid_def handleShipment_def split: option.splits)

interpretation issue_events: idempotent_consumer handleShipment ev_eventId issue_valid issue_seen
proof unfold_locales
  show "handleShipment e db = Inr db" if "issue_valid e" "issue_seen (ev_eventId e) db" for e db
    using handleShipment_valid [OF that(1), of db] that(2) by (auto simp: issueTx_def issue_seen_def)
  show "issue_seen (ev_eventId e) db'" if "issue_valid e" "handleShipment e db = Inr db'" for e db db'
  proof -
    from handleShipment_valid [OF that(1)] obtain pl actor where "handleShipment e db = issueTx e pl actor db" by blast
    with that(2) show ?thesis
      by (auto simp: issueTx_def issue_seen_def bind_res_Inr_iff split: option.splits if_splits)
  qed
  show "issue_seen k db'" if "issue_valid e" "handleShipment e db = Inr db'" "issue_seen k db" for e db db' k
  proof -
    from handleShipment_valid [OF that(1)] obtain pl actor where "handleShipment e db = issueTx e pl actor db" by blast
    with that(2,3) show ?thesis
      by (auto simp: issueTx_def issue_seen_def bind_res_Inr_iff split: option.splits if_splits dest: issueGroup_inbox)
  qed
qed

lemma release_lines_inbox: "release_lines t rs db = Inr db' \<Longrightarrow> inv_inbox db' = inv_inbox db"
  by (induction rs arbitrary: db) (fastforce split: option.splits if_splits)+

lemma fold_releaseGroup_inbox: "inv_inbox (fold (\<lambda>g. releaseGroup ctx now (items g) g) gs db) = inv_inbox db"
  by (induction gs arbitrary: db) simp_all

lemma release_groups_inbox: "release_groups oid ctx gid now db = Inr db' \<Longrightarrow> inv_inbox db' = inv_inbox db"
  unfolding release_groups_def Let_def bind_res_Inr_iff
  by (auto simp: fold_releaseGroup_inbox dest: release_lines_inbox)

lemma release_inbox:
  "release oid ctx gid now db = Inr db' \<Longrightarrow> inbox_has c i (inv_inbox db') \<longleftrightarrow>
     inbox_has c i (inv_inbox db) \<or> c = cancellation_consumer \<and> rc_eventId ctx = Some i"
  by (auto simp: release_def split: option.splits if_splits dest!: release_groups_inbox)

definition order_event_valid :: "order_event_view envelope \<Rightarrow> bool" where
  "order_event_valid e \<longleftrightarrow> (ev_eventType e = ''OrderCanceled'' \<or> ev_eventType e = ''OrderConfirmed'') \<and>
     ev_producer e = ''order-service'' \<and> oe_orderId (ev_payload e) \<noteq> None \<and>
     (ev_eventType e = ''OrderConfirmed'' \<longrightarrow> oe_reservationGroupId (ev_payload e) \<noteq> None)"

definition order_event_key :: "order_event_view envelope \<Rightarrow> string \<times> uuid" where
  "order_event_key e =
     (if ev_eventType e = ''OrderCanceled'' then cancellation_consumer else confirmation_consumer, ev_eventId e)"

definition order_event_seen :: "string \<times> uuid \<Rightarrow> inv_db \<Rightarrow> bool" where
  "order_event_seen k db = inbox_has (fst k) (snd k) (inv_inbox db)"

interpretation order_events: idempotent_consumer "handleOrderEvent now" order_event_key order_event_valid order_event_seen
  for now
proof unfold_locales
  show "handleOrderEvent now e db = Inr db" if "order_event_valid e" "order_event_seen (order_event_key e) db" for e db
    using that by (auto simp: handleOrderEvent_def order_event_valid_def order_event_seen_def order_event_key_def
        release_def acknowledge_def)
  show "order_event_seen (order_event_key e) db'" if "order_event_valid e" "handleOrderEvent now e db = Inr db'" for e db db'
    using that by (auto simp: handleOrderEvent_def order_event_valid_def order_event_seen_def order_event_key_def
        acknowledge_def release_inbox split: if_splits option.splits)
  show "order_event_seen k db'" if "order_event_valid e" "handleOrderEvent now e db = Inr db'" "order_event_seen k db" for e db db' k
    using that by (auto simp: handleOrderEvent_def order_event_valid_def order_event_seen_def order_event_key_def
        acknowledge_def release_inbox split: if_splits option.splits)
qed

text \<open>Without a \<open>RELEASE\<close> answer the reconciler changes no stock and no status.\<close>

lemma reconcile_keeps:
  assumes "\<And>g ls. decide g ls \<noteq> Some RELEASE"
  shows "balances (reconcile decide corr age n now db) = balances db \<and>
    reservations (reconcile decide corr age n now db) = reservations db \<and>
    map (\<lambda>g. (grp_id g, grp_status g)) (groups (reconcile decide corr age n now db)) =
    map (\<lambda>g. (grp_id g, grp_status g)) (groups db)"
  unfolding reconcile_def Let_def
proof (rule fold_preserves [where P = "\<lambda>D. balances D = balances db \<and> reservations D = reservations db \<and>
    map (\<lambda>g. (grp_id g, grp_status g)) (groups D) = map (\<lambda>g. (grp_id g, grp_status g)) (groups db)"])
  fix gl and D :: inv_db
  assume "balances D = balances db \<and> reservations D = reservations db \<and>
    map (\<lambda>g. (grp_id g, grp_status g)) (groups D) = map (\<lambda>g. (grp_id g, grp_status g)) (groups db)"
  then show "balances (reconcile_group decide corr now gl D) = balances db \<and>
    reservations (reconcile_group decide corr now gl D) = reservations db \<and>
    map (\<lambda>g. (grp_id g, grp_status g)) (groups (reconcile_group decide corr now gl D)) =
    map (\<lambda>g. (grp_id g, grp_status g)) (groups db)"
    using assms by (auto simp: reconcile_group_def Let_def split: option.splits reconcile_decision.splits)
qed simp

end
