(* ===== verification/Inventory_Theorems.thy ===== *)
theory Inventory_Theorems
  imports Inventory_Events
begin

text \<open>
  The inventory service as a state machine whose steps are its operations, the invariant of every
  reachable state, and the main theorems on the outbox relay, the movements, the reservations, the
  receipts and the event handlers, each with a concrete run that satisfies its hypotheses.
\<close>

section \<open>The service as a state machine\<close>

inductive inv_step :: "inv_db \<Rightarrow> inv_db \<Rightarrow> bool" where
  step_receipt: "createReceipt actor rdto gen corr now db0 db = Inr (rv, db') \<Longrightarrow> inv_step db db'"
| step_adjust: "adjustStock actor w p adto corr now db0 db = Inr (bv, db') \<Longrightarrow> inv_step db db'"
| step_threshold: "updateLowStockThreshold t w p q db = Inr (bv, db') \<Longrightarrow> inv_step db db'"
| step_reserve: "reserve dto k ctx now db = Inr (res, db') \<Longrightarrow> inv_step db db'"
| step_release: "release oid ctx gid now db = Inr db' \<Longrightarrow> inv_step db db'"
| step_shipment: "handleShipment e db = Inr db' \<Longrightarrow> inv_step db db'"
| step_order_event: "handleOrderEvent now oe db = Inr db' \<Longrightarrow> inv_step db db'"
| step_reconcile: "inv_step db (reconcile decide corrf age n now db)"
| step_relay: "flush opt producer da now locked publish committed (inv_outbox db) = (sent, obx) \<Longrightarrow>
    inv_step db (db\<lparr> inv_outbox := obx \<rparr>)"

inductive_cases inv_stepE: "inv_step db db'"

lemma inv_step_ok: "inv_step db db' \<Longrightarrow> inv_ok db \<Longrightarrow> inv_ok db'"
proof (induction rule: inv_step.induct)
  case (step_relay opt producer da now locked publish committed db sent obx)
  show ?case by (rule inv_ok_cong [OF step_relay.prems]) simp_all
qed (auto intro: inv_intros)

lemma inv_reachable_ok: "inv_step\<^sup>*\<^sup>* db db' \<Longrightarrow> inv_ok db \<Longrightarrow> inv_ok db'"
  by (induction rule: rtranclp_induct) (auto intro: inv_step_ok)

section \<open>A concrete history\<close>

text \<open>A tenant receives two products, then an order reserves part of them.\<close>

definition demo_actor :: auth_user where
  "demo_actor = \<lparr> au_id = 7, au_tenantId = 1 \<rparr>"

definition demo_receipt :: receipt_dto where
  "demo_receipt = \<lparr> cr_warehouseId = 2, cr_idempotencyKey = ''rcp-1'', cr_receiptNumber = Some '' GRN-1 '',
     cr_receivedAt = None, cr_lines = [\<lparr> rd_productId = 31, rd_quantity = 5000 \<rparr>, \<lparr> rd_productId = 30, rd_quantity = 2000 \<rparr>] \<rparr>"

definition demo_received :: "inv_error + receipt_view \<times> inv_db" where
  "demo_received = createReceipt demo_actor demo_receipt ''GRN-X'' 90 10 inv_init inv_init"

definition demo_stock :: inv_db where
  "demo_stock = (case demo_received of Inr (_, db) \<Rightarrow> db | Inl _ \<Rightarrow> inv_init)"

definition demo_order :: reserve_dto where
  "demo_order = \<lparr> rd_orderId = 50, rd_orderVersion = 1, rd_warehouseId = 2,
     rd_lines = [\<lparr> rl_orderLineId = 61, rl_productId = 31, rl_quantity = 1500 \<rparr>,
                 \<lparr> rl_orderLineId = 60, rl_productId = 30, rl_quantity = 2000 \<rparr>] \<rparr>"

definition demo_ctx :: reservation_context where
  "demo_ctx = \<lparr> rc_tenantId = 1, rc_correlationId = 91, rc_eventId = None \<rparr>"

definition demo_key :: "string option" where
  "demo_key = Some (order_key 50 1)"

definition demo_reserved :: "inv_error + reserve_result \<times> inv_db" where
  "demo_reserved = reserve demo_order demo_key demo_ctx 11 demo_stock"

definition demo_held :: inv_db where
  "demo_held = (case demo_reserved of Inr (_, db) \<Rightarrow> db | Inl _ \<Rightarrow> inv_init)"

definition demo_view :: receipt_view where
  "demo_view = fst (projr demo_received)"

text \<open>Its value, computed once for the evaluations that start from it.\<close>

lemma demo_stock_value [code]: "demo_stock =
    \<lparr> balances = [\<lparr> bal_id = 2, bal_tenantId = 1, bal_warehouseId = 2, bal_productId = 30,
    bal_onHandQuantity = 2000, bal_reservedQuantity = 0, bal_lowStockThreshold = 0, bal_version = 2,
    bal_deletedAt = None \<rparr>, \<lparr> bal_id = 6, bal_tenantId = 1, bal_warehouseId = 2, bal_productId =
    31, bal_onHandQuantity = 5000, bal_reservedQuantity = 0, bal_lowStockThreshold = 0, bal_version = 2,
    bal_deletedAt = None \<rparr>], groups = [], reservations = [], movements = [\<lparr> mov_id = 3,
    mov_tenantId = 1, mov_warehouseId = 2, mov_productId = 30, mov_balanceId = 2, mov_movementType =
    MT_RECEIPT, mov_quantityDelta = 2000, mov_beforeOnHand = 0, mov_afterOnHand = 2000, mov_referenceType =
    RT_STOCK_RECEIPT, mov_referenceId = 1, mov_idempotencyKey = ''rcp-1:1'', mov_reason = None, mov_actorId =
    7, mov_correlationId = 90, mov_occurredAt = 10 \<rparr>, \<lparr> mov_id = 7, mov_tenantId = 1,
    mov_warehouseId = 2, mov_productId = 31, mov_balanceId = 6, mov_movementType = MT_RECEIPT,
    mov_quantityDelta = 5000, mov_beforeOnHand = 0, mov_afterOnHand = 5000, mov_referenceType =
    RT_STOCK_RECEIPT, mov_referenceId = 1, mov_idempotencyKey = ''rcp-1:0'', mov_reason = None, mov_actorId =
    7, mov_correlationId = 90, mov_occurredAt = 10 \<rparr>], receipts = [\<lparr> rcp_id = 1, rcp_tenantId =
    1, rcp_receiptNumber = ''GRN-1'', rcp_warehouseId = 2, rcp_idempotencyKey = ''rcp-1'', rcp_status =
    ''POSTED'', rcp_receivedAt = 10, rcp_actorId = 7, rcp_correlationId = 90, rcp_deletedAt = None \<rparr>],
    receiptLines = [\<lparr> rcl_id = 5, rcl_tenantId = 1, rcl_receiptId = 1, rcl_productId = 30, rcl_quantity
    = 2000, rcl_movementId = 3 \<rparr>, \<lparr> rcl_id = 9, rcl_tenantId = 1, rcl_receiptId = 1,
    rcl_productId = 31, rcl_quantity = 5000, rcl_movementId = 7 \<rparr>], inv_outbox = [\<lparr> ob_id = 4,
    ob_tenantId = 1, ob_eventType = ''StockReceived'', ob_eventVersion = 1, ob_aggregateType =
    ''InventoryBalance'', ob_aggregateId = 2, ob_aggregateVersion = 2, ob_correlationId = 90, ob_causationId =
    None, ob_payload = MovementPayload 3 2 30 MT_RECEIPT 2000 (Some 2000) 0 2000 0 RT_STOCK_RECEIPT 1 None,
    ob_payloadActor = Some 7, ob_occurredAt = 10, ob_publishedAt = None, ob_attemptCount = 0, ob_nextAttemptAt
    = 10, ob_lastError = None, ob_version = 1, ob_deletedAt = None \<rparr>, \<lparr> ob_id = 8, ob_tenantId =
    1, ob_eventType = ''StockReceived'', ob_eventVersion = 1, ob_aggregateType = ''InventoryBalance'',
    ob_aggregateId = 6, ob_aggregateVersion = 2, ob_correlationId = 90, ob_causationId = None, ob_payload =
    MovementPayload 7 2 31 MT_RECEIPT 5000 (Some 5000) 0 5000 0 RT_STOCK_RECEIPT 1 None, ob_payloadActor = Some
    7, ob_occurredAt = 10, ob_publishedAt = None, ob_attemptCount = 0, ob_nextAttemptAt = 10, ob_lastError =
    None, ob_version = 1, ob_deletedAt = None \<rparr>], inv_inbox = [], inv_next = 10 \<rparr>"
  by code_simp

lemma demo_stock_run: "demo_received = Inr (demo_view, demo_stock)"
  by code_simp

lemma demo_held_run: "demo_reserved = Inr (RESERVED 10, demo_held)"
  by code_simp

lemma demo_stock_ok: "inv_ok demo_stock"
  using createReceipt_inv [OF inv_ok_init demo_stock_run [unfolded demo_received_def]] .

lemma demo_held_ok: "inv_ok demo_held"
  using reserve_inv [OF demo_stock_ok demo_held_run [unfolded demo_reserved_def]] .

definition demo_payload :: shipment_lifecycle where
  "demo_payload = \<lparr> sl_shipmentId = 70, sl_orderId = 50, sl_reservationGroupId = 10, sl_warehouseId = 2,
     sl_dispatchRequestId = Some 80, sl_reason = None \<rparr>"

definition demo_dispatch :: "shipment_lifecycle option envelope" where
  "demo_dispatch = \<lparr> ev_eventId = 100, ev_eventType = ''ShipmentDispatched'', ev_eventVersion = 1,
     ev_occurredAt = 20, ev_producer = ''fulfillment-service'', ev_tenantId = 1, ev_actorId = Some 7,
     ev_correlationId = 92, ev_causationId = 92, ev_aggregateType = ''Shipment'', ev_aggregateId = 70,
     ev_aggregateVersion = 4, ev_payload = Some demo_payload, ev_payloadActor = None \<rparr>"

definition demo_cancel :: "order_event_view envelope" where
  "demo_cancel = \<lparr> ev_eventId = 101, ev_eventType = ''OrderCanceled'', ev_eventVersion = 1,
     ev_occurredAt = 20, ev_producer = ''order-service'', ev_tenantId = 1, ev_actorId = Some 7,
     ev_correlationId = 93, ev_causationId = 93, ev_aggregateType = ''Order'', ev_aggregateId = 50,
     ev_aggregateVersion = 3, ev_payload = \<lparr> oe_orderId = Some 50, oe_reservationGroupId = None \<rparr>,
     ev_payloadActor = None \<rparr>"

section \<open>Invariant of every reachable state\<close>

text \<open>
  C10. Every state the inventory service reaches from an empty database, by any sequence of receipts,
  adjustments, threshold updates, reservations, releases, shipment issues, order events, reconciler
  runs and relay flushes, satisfies: for every balance 0 <= reserved <= on hand, the reserved quantity
  is the sum of its active reservations, the on-hand quantity is the sum of its movements, and an
  order has at most one active reservation group.
\<close>

theorem inventory_invariant:
  assumes "inv_step\<^sup>*\<^sup>* inv_init db"
  shows "(\<forall>b\<in>set (balances db). 0 \<le> bal_reservedQuantity b \<and> bal_reservedQuantity b \<le> bal_onHandQuantity b \<and>
      bal_reservedQuantity b = held db (bal_id b) \<and> bal_onHandQuantity b = moved db (bal_id b)) \<and>
    (\<forall>g\<in>set (groups db). \<forall>h\<in>set (groups db). active_group t oid g \<and> active_group t oid h \<longrightarrow> g = h)"
  using inv_reachable_ok [OF assms inv_ok_init]
  by (auto simp: inv_ok_def inv_owed_def inv_parts active_group_def)

theorem inventory_invariant_witness:
  "inv_step\<^sup>*\<^sup>* inv_init demo_held \<and>
   (let b = hd (balances demo_held) in bal_reservedQuantity b = 2000 \<and> held demo_held (bal_id b) = 2000 \<and>
      bal_reservedQuantity b \<le> bal_onHandQuantity b)"
proof -
  have "inv_step inv_init demo_stock" by (rule step_receipt [OF demo_stock_run [unfolded demo_received_def]])
  moreover have "inv_step demo_stock demo_held" by (rule step_reserve [OF demo_held_run [unfolded demo_reserved_def]])
  ultimately have r: "inv_step\<^sup>*\<^sup>* inv_init demo_held" by simp
  have "balances demo_held \<noteq> []" "bal_reservedQuantity (hd (balances demo_held)) = 2000" by code_simp+
  with inventory_invariant [OF r] r show ?thesis by (metis hd_in_set)
qed

section \<open>Reservations\<close>

text \<open>
  C2. A fresh, well-formed reservation request is decided as a whole: it is RESERVED exactly when every
  line fits in its available quantity (on hand minus reserved), creating one active group with one
  reservation per line and no movement; otherwise it is INSUFFICIENT with exactly the short lines, in
  product order, and the database is untouched.
\<close>

theorem reserve_all_or_nothing:
  assumes "inv_ok db" "fresh_request dto k ctx db"
  shows "if \<exists>l\<in>set (rd_lines dto). short_line dto ctx db l
    then reserve dto k ctx now db = Inr (INSUFFICIENT (map (\<lambda>l. \<lparr> sh_productId = rl_productId l,
        sh_required = rl_quantity l, sh_available =
          availableOf (live_balance (rc_tenantId ctx) (rd_warehouseId dto) (rl_productId l) db) \<rparr>)
        (filter (short_line dto ctx db) (reserve_lines dto))), db)
    else \<exists>db' rs. reserve dto k ctx now db = Inr (RESERVED (inv_next db), db') \<and> inv_ok db' \<and>
      groups db' = groups db @ [newGroup dto ctx now (inv_next db)] \<and> reservations db' = reservations db @ rs \<and>
      list_all2 (line_reservation (newGroup dto ctx now (inv_next db))) (reserve_lines dto) rs \<and>
      movements db' = movements db"
  using reserve_enough [OF assms] reserve_short [OF assms(2)] by auto

theorem reserve_all_or_nothing_witness:
  "inv_ok demo_stock \<and> fresh_request demo_order demo_key demo_ctx demo_stock \<and>
   (\<exists>db' rs. reserve demo_order demo_key demo_ctx 11 demo_stock = Inr (RESERVED (inv_next demo_stock), db') \<and>
      reservations db' = reservations demo_stock @ rs)"
proof -
  have f: "fresh_request demo_order demo_key demo_ctx demo_stock" by code_simp
  have "\<not> list_ex (short_line demo_order demo_ctx demo_stock) (rd_lines demo_order)" by code_simp
  with reserve_all_or_nothing [OF demo_stock_ok f, of 11] f demo_stock_ok show ?thesis by (auto simp: list_ex_iff)
qed

text \<open>
  C24. Reserving is idempotent: repeating a request that was answered RESERVED, with the same key and
  content, answers with the same group and changes nothing.
\<close>

theorem reserve_idempotent:
  assumes "inv_ok db" "reserve dto k ctx now db = Inr (RESERVED i, db')"
  shows "reserve dto k ctx now' db' = Inr (RESERVED i, db')"
  by (rule reserve_idempotent_lemma [OF assms])

theorem reserve_idempotent_witness:
  "inv_ok demo_stock \<and> reserve demo_order demo_key demo_ctx 11 demo_stock = Inr (RESERVED 10, demo_held) \<and>
   reserve demo_order demo_key demo_ctx 15 demo_held = Inr (RESERVED 10, demo_held)"
  using demo_stock_ok demo_held_run reserve_idempotent [OF demo_stock_ok demo_held_run [unfolded demo_reserved_def]]
  by (simp add: demo_reserved_def)

text \<open>
  C26. Under the invariant a release always succeeds (its conflict branch is unreachable), keeps the
  invariant, leaves no active group of the order among those it was asked for, and lowers what is held
  on each balance by exactly the released reservations.
\<close>

theorem release_succeeds:
  assumes "inv_ok db"
  shows "\<exists>db'. release_groups oid ctx gid now db = Inr db' \<and> inv_ok db' \<and>
    (\<forall>h\<in>set (groups db'). active_group (rc_tenantId ctx) oid h \<longrightarrow> (\<exists>i. gid = Some i \<and> grp_id h \<noteq> i)) \<and>
    (\<forall>i. held db' i = held db i - due (concat (map (\<lambda>g. group_reservations (grp_id g) db)
       (filter (\<lambda>g. active_group (rc_tenantId ctx) oid g \<and>
          (case gid of None \<Rightarrow> True | Some j \<Rightarrow> grp_id g = j)) (groups db)))) i)"
  using release_groups_ok [OF assms] by blast

theorem release_succeeds_witness:
  "inv_ok demo_held \<and> (\<exists>db'. release_groups 50 demo_ctx None 12 demo_held = Inr db' \<and> inv_ok db')"
  using release_succeeds [OF demo_held_ok, of 50 demo_ctx None 12] demo_held_ok by blast

text \<open>
  C27. Reserve then release is a round trip: after an order's fresh reservation is released, every
  balance has the on-hand and reserved quantities it had before.
\<close>

theorem reserve_release_roundtrip:
  assumes "inv_ok db" "fresh_request dto k ctx db" "reserve dto k ctx now db = Inr (RESERVED i, db')"
    "rc_tenantId ctx' = rc_tenantId ctx" "rc_eventId ctx' = None"
  shows "\<exists>db''. release (rd_orderId dto) ctx' None now' db' = Inr db'' \<and> bal_amounts db'' = bal_amounts db"
  using reserve_release_amounts [OF assms(1-4)] assms(5) by (simp add: release_def)

theorem reserve_release_roundtrip_witness:
  "inv_ok demo_stock \<and> (\<exists>db''. release 50 demo_ctx None 13 demo_held = Inr db'' \<and> bal_amounts db'' = bal_amounts demo_stock)"
proof -
  have f: "fresh_request demo_order demo_key demo_ctx demo_stock" by code_simp
  have "rd_orderId demo_order = 50" "rc_eventId demo_ctx = None" by (simp_all add: demo_order_def demo_ctx_def)
  with reserve_release_roundtrip [OF demo_stock_ok f demo_held_run [unfolded demo_reserved_def] refl, of 13] demo_stock_ok
  show ?thesis by simp
qed

text \<open>
  The reservation key determines the order and its version, so two orders, or two versions of one
  order, never replay each other's reservation.
\<close>

theorem order_key_identifies: "order_key oid v = order_key oid' v' \<longleftrightarrow> oid = oid' \<and> v = v'"
proof
  assume "order_key oid v = order_key oid' v'"
  then have eq: "uuid_text oid @ CHR '':'' # ''v'' @ nat_text v = uuid_text oid' @ CHR '':'' # ''v'' @ nat_text v'"
    by (simp add: order_key_def)
  from append_colon_inj [OF uuid_text_no_colon uuid_text_no_colon eq] show "oid = oid' \<and> v = v'"
    by (simp add: uuid_text_inj)
qed simp

section \<open>Movements and receipts\<close>

text \<open>
  An accepted movement changes the on-hand quantity of its own balance by its delta and of no other
  balance, is recorded with the quantity before and after, and never leaves a balance below zero or
  below its reserved quantity.
\<close>

theorem movement_effect:
  assumes "inv_ok db" "applyLocked c db = Inr (m, db')"
  shows "inv_ok db' \<and> movements db' = movements db @ [m] \<and>
    mov_afterOnHand m = mov_beforeOnHand m + mc_quantityDelta c \<and>
    mov_beforeOnHand m = onHandOf (mc_tenantId c) (mc_warehouseId c) (mc_productId c) db \<and>
    onHandOf t w p db' = onHandOf t w p db +
      (if (t, w, p) = (mc_tenantId c, mc_warehouseId c, mc_productId c) then mc_quantityDelta c else 0)"
  using applyLocked_owed [OF assms(1) [unfolded inv_ok_def] assms(2)] applyLocked_cases(4,7) [OF assms(2)]
    applyLocked_onHand [OF assms(1) [unfolded inv_ok_def] assms(2), of t w p]
  by (simp add: inv_ok_def newMovement_def onHandOf_locked)

definition demo_command :: movement_command where
  "demo_command = \<lparr> mc_tenantId = 1, mc_warehouseId = 2, mc_productId = 31, mc_movementType = MT_ADJUSTMENT_OUT,
     mc_quantityDelta = - 500, mc_referenceType = RT_MANUAL_ADJUSTMENT, mc_referenceId = 7,
     mc_idempotencyKey = ''adj-1'', mc_reason = Some ''damaged'', mc_actorId = 7, mc_correlationId = 94,
     mc_occurredAt = 12 \<rparr>"

theorem movement_effect_witness:
  "inv_ok demo_held \<and> (\<exists>m db'. applyLocked demo_command demo_held = Inr (m, db') \<and> inv_ok db' \<and>
     onHandOf 1 2 31 db' = onHandOf 1 2 31 demo_held - 500 \<and> onHandOf 1 2 30 db' = onHandOf 1 2 30 demo_held)"
proof -
  have "is_ok (applyLocked demo_command demo_held)" by code_simp
  then obtain m db' where a: "applyLocked demo_command demo_held = Inr (m, db')"
    by (cases "applyLocked demo_command demo_held") auto
  have "onHandOf 1 2 31 db' = onHandOf 1 2 31 demo_held - 500"
    using movement_effect [OF demo_held_ok a, of 1 2 31] by (simp add: demo_command_def)
  moreover have "inv_ok db' \<and> onHandOf 1 2 30 db' = onHandOf 1 2 30 demo_held"
    using movement_effect [OF demo_held_ok a, of 1 2 30] by (simp add: demo_command_def)
  ultimately show ?thesis using demo_held_ok a by blast
qed

text \<open>
  The movement idempotency key works under a race: when the key is already committed by the time the
  row lock is taken, the request answers with that committed movement and writes nothing, whatever
  the earlier replay check had seen.
\<close>

theorem movement_race_returns_winner:
  assumes "findMovementByKey (mc_tenantId c) (mc_idempotencyKey c) db1 = Some w"
    "findMovementByKey (mc_tenantId c) (mc_idempotencyKey c) db0 \<in> {None, Some w}"
    "applyMovement c db0 db1 = Inr (m, db')"
  shows "m = w \<and> db' = db1"
  using applyMovement_race [OF assms(1,3)] assms(2) by auto

definition demo_receipt_command :: movement_command where
  "demo_receipt_command = receiptMovement demo_actor demo_receipt 1 90 10 (0, \<lparr> rd_productId = 31, rd_quantity = 5000 \<rparr>)"

theorem movement_race_returns_winner_witness:
  "findMovementByKey 1 ''rcp-1:0'' inv_init = None \<and>
   (\<exists>m. findMovementByKey 1 ''rcp-1:0'' demo_stock = Some m \<and>
     applyMovement demo_receipt_command inv_init demo_stock = Inr (m, demo_stock))"
proof -
  have k: "mc_tenantId demo_receipt_command = 1" "mc_idempotencyKey demo_receipt_command = ''rcp-1:0''" by code_simp+
  have n: "findMovementByKey 1 ''rcp-1:0'' inv_init = None" by (simp add: findMovementByKey_def inv_init_def)
  have "findMovementByKey 1 ''rcp-1:0'' demo_stock \<noteq> None" by code_simp
  then obtain w where w: "findMovementByKey 1 ''rcp-1:0'' demo_stock = Some w" by blast
  have "is_ok (applyMovement demo_receipt_command inv_init demo_stock)" by code_simp
  then obtain m db' where a: "applyMovement demo_receipt_command inv_init demo_stock = Inr (m, db')"
    by (cases "applyMovement demo_receipt_command inv_init demo_stock") auto
  from movement_race_returns_winner [OF _ _ a, unfolded k, OF w] n have "m = w \<and> db' = demo_stock" by simp
  with a n w show ?thesis by blast
qed

text \<open>
  C36. A posted receipt is complete: when none of the keys of its lines was used before, the on-hand
  quantity of every product in its warehouse rises by exactly the quantities of its lines.
\<close>

theorem receipt_effect:
  assumes "inv_ok db" "createReceiptTx actor dto number corr at db = Inr (rid, db')"
    "line_keys_fresh actor dto [0..<length (cr_lines dto)] db"
  shows "inv_ok db' \<and> onHandOf (au_tenantId actor) (cr_warehouseId dto) p db' =
    onHandOf (au_tenantId actor) (cr_warehouseId dto) p db +
    sum_list (map rd_quantity (filter (\<lambda>l. rd_productId l = p) (cr_lines dto)))"
  using createReceiptTx_onHand [OF assms] createReceiptTx_D(1) [OF assms(2,1)] by simp

theorem receipt_effect_witness:
  "\<exists>rid db'. createReceiptTx demo_actor demo_receipt ''GRN-1'' 90 10 inv_init = Inr (rid, db') \<and>
     onHandOf 1 2 31 db' = 5000"
proof -
  have "is_ok (createReceiptTx demo_actor demo_receipt ''GRN-1'' 90 10 inv_init)" by code_simp
  then obtain rid db' where r: "createReceiptTx demo_actor demo_receipt ''GRN-1'' 90 10 inv_init = Inr (rid, db')"
    by (cases "createReceiptTx demo_actor demo_receipt ''GRN-1'' 90 10 inv_init") auto
  have "line_keys_fresh demo_actor demo_receipt [0..<length (cr_lines demo_receipt)] inv_init" by code_simp
  from receipt_effect [OF inv_ok_init r this, of 31] r show ?thesis
    by (simp add: demo_actor_def demo_receipt_def onHandOf_def inv_init_def)
qed

text \<open>C37. Posting a receipt is idempotent: the same key answers with the stored receipt and changes nothing.\<close>

theorem receipt_idempotent:
  assumes "createReceipt actor dto gen corr now db db = Inr (v, db')"
  shows "createReceipt actor dto gen' corr' now' db' db' = Inr (v, db')"
  by (rule createReceipt_replays [OF assms])

theorem receipt_idempotent_witness:
  "createReceipt demo_actor demo_receipt ''GRN-Y'' 95 30 demo_stock demo_stock = Inr (demo_view, demo_stock)"
  by (rule receipt_idempotent [OF demo_stock_run [unfolded demo_received_def]])

text \<open>
  A movement key is compared without its command. A manual adjustment of one product took the key the first
  line of a later receipt derives: the receipt is accepted, and the stock of its line is not added.
\<close>

definition demo_adjust :: adjust_dto where
  "demo_adjust = \<lparr> ad_quantityDelta = - 100, ad_reason = ''damaged'', ad_idempotencyKey = ''rcp-2:0'' \<rparr>"

definition demo_receipt2 :: receipt_dto where
  "demo_receipt2 = demo_receipt\<lparr> cr_idempotencyKey := ''rcp-2'', cr_receiptNumber := None,
     cr_lines := [\<lparr> rd_productId = 31, rd_quantity = 5000 \<rparr>] \<rparr>"

definition demo_adjusted :: inv_db where
  "demo_adjusted = (case adjustStock demo_actor 2 30 demo_adjust 96 12 demo_stock demo_stock of
     Inr (_, db) \<Rightarrow> db | Inl _ \<Rightarrow> inv_init)"

definition demo_misposted :: "inv_error + receipt_view \<times> inv_db" where
  "demo_misposted = createReceipt demo_actor demo_receipt2 ''GRN-Z'' 97 13 demo_adjusted demo_adjusted"

theorem receipt_line_takes_foreign_movement:
  "is_ok demo_misposted \<and> length (receipts (snd (projr demo_misposted))) = length (receipts demo_adjusted) + 1 \<and>
   onHandOf 1 2 31 (snd (projr demo_misposted)) = onHandOf 1 2 31 demo_adjusted"
  by (intro conjI; code_simp)

text \<open>
  The low-stock query, which finds ids in SQL and re-reads the rows, returns exactly the requested
  page of the balances whose view is marked low, in warehouse and product order, and their number.
\<close>

theorem low_stock_query_complete:
  assumes "inv_ok db"
  shows "listLowStockBalances t query page n skip db =
    (let low = filter bv_isLowStock (map toBalanceView (balance_order (filter (balance_where t query) (balances db))))
     in \<lparr> pg_items = page_of skip n low, pg_page = page, pg_pageSize = n, pg_total = length low \<rparr>)"
proof -
  have "length (filter bv_isLowStock (map toBalanceView (balance_order (filter (balance_where t query) (balances db))))) =
      length (filter (\<lambda>b. balance_where t query b \<and>
        bal_onHandQuantity b - bal_reservedQuantity b \<le> bal_lowStockThreshold b) (balances db))"
    by (simp add: filter_map comp_def toBalanceView_def Let_def balance_order_def filter_sort conj_commute)
  with low_stock_page [OF assms, of t query page n skip] show ?thesis
    by (simp add: listLowStockBalances_def Let_def)
qed

theorem low_stock_query_complete_witness:
  "inv_ok demo_held \<and> pg_total (listLowStockBalances 1 \<lparr> qb_warehouseId = None, qb_productId = None,
     qb_lowStockOnly = True, qb_page = None, qb_pageSize = None \<rparr> 1 20 0 demo_held) = 1"
  unfolding low_stock_query_complete [OF demo_held_ok] by (rule conjI [OF demo_held_ok]) code_simp

section \<open>Event handlers\<close>

text \<open>
  C33. A dispatched shipment whose reservation group is active is issued, and stock is no reason to fail:
  as long as nothing of this shipment is recorded yet (no movement of it, no group issued to it) and no
  other movement of the tenant took one of its issue keys, the handler succeeds whatever the balances are,
  the group becomes ISSUED, on-hand of every product falls by what the group held, and the invariant is
  kept.
\<close>

theorem issue_succeeds:
  assumes "inv_ok db" "issue_valid e" "ev_payload e = Some pl" "\<not> issue_seen (ev_eventId e) db"
    "g \<in> set (groups db)" "names_group e pl g" "grp_status g = RS_ACTIVE" "group_reservations (grp_id g) db \<noteq> []"
    "\<forall>m\<in>set (movements db). mov_tenantId m = ev_tenantId e \<longrightarrow>
       \<not> (mov_referenceType m = RT_SHIPMENT \<and> mov_referenceId m = sl_shipmentId pl) \<and>
       (\<forall>r\<in>set (group_reservations (grp_id g) db). mov_idempotencyKey m \<noteq> issue_key (sl_shipmentId pl) (res_productId r))"
    "\<forall>h\<in>set (groups db). grp_tenantId h = ev_tenantId e \<longrightarrow> grp_issueShipmentId h \<noteq> Some (sl_shipmentId pl)"
  shows "\<exists>db'. handleShipment e db = Inr db' \<and> inv_ok db' \<and>
    (\<forall>h\<in>set (groups db'). grp_id h = grp_id g \<longrightarrow> grp_status h = RS_ISSUED) \<and>
    (\<forall>p. onHandOf (ev_tenantId e) (sl_warehouseId pl) p db' =
       onHandOf (ev_tenantId e) (sl_warehouseId pl) p db - group_quantity g p db)"
proof -
  have i: "issuable e pl g db" using assms(5-10) by (auto simp: issuable_def names_group_def list_ex_iff)
  note I = i [unfolded issuable_def names_group_def]
  from handleShipment_valid [OF assms(2), of db] assms(3) obtain actor where
    h: "handleShipment e db = issueTx e pl actor db" by auto
  have "List.find (\<lambda>g. grp_id g = sl_reservationGroupId pl \<and> grp_tenantId g = ev_tenantId e \<and>
      grp_orderId g = sl_orderId pl \<and> grp_warehouseId g = sl_warehouseId pl \<and> grp_deletedAt g = None) (groups db) = Some g"
    using I group_id_unique [OF assms(1) [unfolded inv_ok_def]] by (intro find_unique) auto
  moreover obtain db1 where d: "issueGroup e pl actor g db = Inr db1"
      "\<forall>h\<in>set (groups db1). grp_id h = grp_id g \<longrightarrow> grp_status h = RS_ISSUED"
      "\<And>p. onHandOf (ev_tenantId e) (sl_warehouseId pl) p db1 =
         onHandOf (ev_tenantId e) (sl_warehouseId pl) p db - group_quantity g p db"
    using issueGroup_total [OF assms(1) i, of actor] by blast
  ultimately have r: "handleShipment e db = Inr (recordInbox issue_consumer e ''ISSUED'' db1)"
    using I assms(4) by (simp add: h issueTx_def issue_seen_def)
  have "onHandOf t w p (recordInbox c e out D) = onHandOf t w p D" for t w p c out D
    by (rule onHandOf_cong) (simp add: recordInbox_def)
  moreover have "groups (recordInbox c e out D) = groups D" for c out D by (simp add: recordInbox_def)
  ultimately show ?thesis using r d(2,3) handleShipment_inv [OF assms(1) r] by auto
qed

definition demo_group :: reservation_group where
  "demo_group = newGroup demo_order demo_ctx 11 10"

theorem issue_succeeds_witness:
  "names_group demo_dispatch demo_payload demo_group \<and>
   (\<exists>db'. handleShipment demo_dispatch demo_held = Inr db' \<and> inv_ok db' \<and> onHandOf 1 2 31 db' = 3500)"
proof -
  have v: "issue_valid demo_dispatch" by code_simp
  have p: "ev_payload demo_dispatch = Some demo_payload" by (simp add: demo_dispatch_def)
  have u: "\<not> issue_seen (ev_eventId demo_dispatch) demo_held" by code_simp
  have g: "demo_group \<in> set (groups demo_held)" "names_group demo_dispatch demo_payload demo_group" "grp_status demo_group = RS_ACTIVE"
    "group_reservations (grp_id demo_group) demo_held \<noteq> []" by code_simp+
  have m: "\<forall>m\<in>set (movements demo_held). mov_tenantId m = ev_tenantId demo_dispatch \<longrightarrow>
      \<not> (mov_referenceType m = RT_SHIPMENT \<and> mov_referenceId m = sl_shipmentId demo_payload) \<and>
      (\<forall>r\<in>set (group_reservations (grp_id demo_group) demo_held).
        mov_idempotencyKey m \<noteq> issue_key (sl_shipmentId demo_payload) (res_productId r))" by code_simp
  have h: "\<forall>h\<in>set (groups demo_held). grp_tenantId h = ev_tenantId demo_dispatch \<longrightarrow>
      grp_issueShipmentId h \<noteq> Some (sl_shipmentId demo_payload)" by code_simp
  have q: "onHandOf (ev_tenantId demo_dispatch) (sl_warehouseId demo_payload) 31 demo_held = 5000"
      "group_quantity demo_group 31 demo_held = 1500" by code_simp+
  have "ev_tenantId demo_dispatch = 1" "sl_warehouseId demo_payload = 2" by (simp_all add: demo_dispatch_def demo_payload_def)
  with issue_succeeds [OF demo_held_ok v p u g m h] q g(2) show ?thesis by fastforce
qed

text \<open>
  C23. Stock is issued exactly once: consuming a stream of valid dispatch events in which events are
  repeated any number of times leads to the same database as consuming each of them once.
\<close>

theorem issue_exactly_once:
  assumes "\<forall>e\<in>set es. issue_valid e" "consume handleShipment es db = ([], db')"
  shows "consume handleShipment (dedup ev_eventId [] es) db = ([], db')"
  by (rule issue_events.consume_dedup [OF assms])

definition demo_issued :: inv_db where
  "demo_issued = (case handleShipment demo_dispatch demo_held of Inr db \<Rightarrow> db | Inl _ \<Rightarrow> inv_init)"

theorem issue_exactly_once_witness:
  "consume handleShipment [demo_dispatch, demo_dispatch] demo_held = ([], demo_issued) \<and>
   consume handleShipment [demo_dispatch] demo_held = ([], demo_issued)"
proof -
  have v: "\<forall>e\<in>set [demo_dispatch, demo_dispatch]. issue_valid e" by code_simp
  have c: "consume handleShipment [demo_dispatch, demo_dispatch] demo_held = ([], demo_issued)" by code_simp
  from issue_exactly_once [OF v c] c show ?thesis by simp
qed

text \<open>
  C34. Order events are consumed exactly once: repeating cancellations and confirmations in the stream
  changes neither the reservations nor the inbox.
\<close>

theorem order_events_exactly_once:
  assumes "\<forall>e\<in>set es. order_event_valid e" "consume (handleOrderEvent now) es db = ([], db')"
  shows "consume (handleOrderEvent now) (dedup order_event_key [] es) db = ([], db')"
  by (rule order_events.consume_dedup [OF assms])

definition demo_released :: inv_db where
  "demo_released = (case handleOrderEvent 21 demo_cancel demo_held of Inr db \<Rightarrow> db | Inl _ \<Rightarrow> inv_init)"

theorem order_events_exactly_once_witness:
  "consume (handleOrderEvent 21) [demo_cancel, demo_cancel] demo_held = ([], demo_released) \<and>
   consume (handleOrderEvent 21) [demo_cancel] demo_held = ([], demo_released) \<and>
   bal_amounts demo_released = bal_amounts demo_stock"
proof -
  have v: "\<forall>e\<in>set [demo_cancel, demo_cancel]. order_event_valid e" by code_simp
  have c: "consume (handleOrderEvent 21) [demo_cancel, demo_cancel] demo_held = ([], demo_released)" by code_simp
  have b: "bal_amounts demo_released = bal_amounts demo_stock" by code_simp
  from order_events_exactly_once [OF v c] c b show ?thesis by simp
qed

text \<open>
  C35. Missing confirmation never authorizes release: unless the order service answers RELEASE, a
  reconciler run (failed requests included) leaves every balance, reservation and group status as it was.
\<close>

theorem reconcile_never_releases_unasked:
  assumes "\<And>g ls. decide g ls \<noteq> Some RELEASE"
  shows "balances (reconcile decide corr age n now db) = balances db \<and>
    reservations (reconcile decide corr age n now db) = reservations db \<and>
    map (\<lambda>g. (grp_id g, grp_status g)) (groups (reconcile decide corr age n now db)) =
    map (\<lambda>g. (grp_id g, grp_status g)) (groups db)"
  by (rule reconcile_keeps [OF assms])

theorem reconcile_never_releases_unasked_witness:
  "map grp_acknowledgedAt (groups (reconcile (\<lambda>_ _. Some ACKNOWLEDGE) id 5 10 40 demo_held)) = [Some 40] \<and>
   reservations (reconcile (\<lambda>_ _. Some ACKNOWLEDGE) id 5 10 40 demo_held) = reservations demo_held"
proof -
  have "map grp_acknowledgedAt (groups (reconcile (\<lambda>_ _. Some ACKNOWLEDGE) id 5 10 40 demo_held)) = [Some 40]" by code_simp
  with reconcile_never_releases_unasked [of "\<lambda>_ _. Some ACKNOWLEDGE" id 5 10 40 demo_held] show ?thesis by simp
qed

section \<open>The outbox relay\<close>

text \<open>
  C22. The relay publishes every aggregate's events in order: a flush, with any batch size, any rows
  locked by other relays, any broker failures and committed or not, keeps the published rows of each
  aggregate a prefix of its rows in version order.
\<close>

theorem relay_publishes_in_order:
  assumes "distinct (map ob_id evs)" "published_prefix evs"
  shows "published_prefix (snd (flush opt p da now locked publish committed evs)) \<and>
    map ob_id (snd (flush opt p da now locked publish committed evs)) = map ob_id evs"
  using flush_published_prefix [OF assms] flush_alt [of opt p da now locked publish committed evs]
  by auto

definition demo_options :: relay_options where
  "demo_options = \<lparr> ro_topic = ''inventory'', ro_intervalMs = 5, ro_batchSize = 10, ro_retryBaseMs = 2, ro_retryMaxMs = 8 \<rparr>"

definition demo_flushed :: "inv_payload envelope list \<times> inv_payload outbox_event list" where
  "demo_flushed = flush demo_options ''inventory-service'' (\<lambda>_. None) 30 (\<lambda>_. False)
     (\<lambda>m. if ev_aggregateId m = 6 then Some ''broker down'' else None) True (inv_outbox demo_held)"

theorem relay_publishes_in_order_witness:
  "published_prefix (snd demo_flushed) \<and> map ev_eventId (fst demo_flushed) = [4, 13]"
proof -
  have d: "distinct (map ob_id (inv_outbox demo_held))" by code_simp
  have p: "published_prefix (inv_outbox demo_held)" by code_simp
  have e: "map ev_eventId (fst demo_flushed) = [4, 13]" by code_simp
  from relay_publishes_in_order [OF d p] e show ?thesis unfolding demo_flushed_def by blast
qed

text \<open>
  No event is lost by the relay: a row that a flush newly marks as published was in its batch and
  its message was acknowledged by the broker in that flush; every other row keeps its state.
\<close>

theorem relay_marks_only_sent:
  assumes "e' \<in> set (snd (flush opt p da now locked publish committed evs))"
  shows "\<exists>e\<in>set evs. ob_same_row e' e \<and> (ob_publishedAt e \<noteq> None \<longrightarrow> ob_publishedAt e' \<noteq> None) \<and>
    (ob_publishedAt e = None \<and> ob_publishedAt e' \<noteq> None \<longrightarrow>
       ob_id e \<in> ob_id ` set (lockedBatch (ro_batchSize opt) now locked evs) \<and>
       (\<exists>m\<in>set (fst (flush opt p da now locked publish committed evs)). ev_eventId m = ob_id e))"
  by (rule flush_row [OF assms])

theorem relay_marks_only_sent_witness:
  "\<exists>e'\<in>set (snd demo_flushed). ob_publishedAt e' \<noteq> None \<and> (\<exists>e\<in>set (inv_outbox demo_held). ob_same_row e' e)"
proof -
  let ?e = "hd (snd demo_flushed)"
  have m: "?e \<in> set (snd demo_flushed)" "ob_publishedAt ?e \<noteq> None" by code_simp+
  from relay_marks_only_sent [OF m(1) [unfolded demo_flushed_def]] m show ?thesis
    unfolding demo_flushed_def [symmetric] by blast
qed

text \<open>
  The retry delay is exponential backoff between its bounds: it never exceeds the maximum, is at
  least the base, never decreases with the number of attempts, and doubles until it reaches the cap.
\<close>

theorem retry_delay_bounds:
  assumes "b \<le> m" "1 \<le> k" "k \<le> n"
  shows "b \<le> outboxRetryDelay k b m \<and> outboxRetryDelay k b m \<le> outboxRetryDelay n b m \<and> outboxRetryDelay n b m \<le> m \<and>
    (k \<le> 30 \<longrightarrow> outboxRetryDelay (k + 1) b m = min m (2 * outboxRetryDelay k b m))"
proof -
  have "outboxRetryDelay (k + 1) b m = min m (2 * outboxRetryDelay k b m)" if "k \<le> 30"
  proof -
    obtain j where "k = Suc j" using assms(2) by (cases k) auto
    with that show ?thesis by (simp add: outboxRetryDelay_def min_def)
  qed
  with assms outboxRetryDelay_ge_base [of b m k] outboxRetryDelay_mono [of k n b m] outboxRetryDelay_le_max [of n b m]
  show ?thesis by blast
qed

theorem retry_delay_bounds_witness: "outboxRetryDelay 1 2 8 = 2 \<and> 2 \<le> outboxRetryDelay 1 2 8 \<and> outboxRetryDelay 2 2 8 = 4"
  using retry_delay_bounds [of 2 8 1 2] by (simp add: outboxRetryDelay_def)

text \<open>
  C40. One row the store cannot turn into an envelope (an aggregate version above the safe integers, or
  a delivery result without an actor) stops the whole flush: nothing is published, and no row, the bad
  one included, is marked for a later attempt.
\<close>

theorem bad_row_blocks_flush:
  assumes "row \<in> set (lockedBatch (ro_batchSize opt) now locked evs)" "toRelayRecord p da row = Inl err"
  shows "flush opt p da now locked publish committed evs = ([], evs)"
  using toRelayRecords_error [OF assms] by (auto simp: flush_def)

definition demo_bad_outbox :: "inv_payload outbox_event list" where
  "demo_bad_outbox = map (\<lambda>e. if ob_id e = 4 then e\<lparr> ob_eventType := ''DeliveryCompleted'', ob_eventVersion := 2,
     ob_payloadActor := None \<rparr> else e) (inv_outbox demo_held)"

theorem bad_row_blocks_flush_witness:
  "flush demo_options ''transport-service'' (\<lambda>_. None) 30 (\<lambda>_. False) (\<lambda>_. None) True demo_bad_outbox = ([], demo_bad_outbox)"
proof -
  let ?row = "hd demo_bad_outbox"
  have m: "?row \<in> set (lockedBatch (ro_batchSize demo_options) 30 (\<lambda>_. False) demo_bad_outbox)" by code_simp
  have "toRelayRecord ''transport-service'' (\<lambda>_. None) ?row = Inl (DeliveryActorMissing 4)" by code_simp
  from bad_row_blocks_flush [OF m this] show ?thesis .
qed

end
