(* ===== verification/Order_Domain.thy ===== *)
theory Order_Domain
  imports Messaging
begin

text \<open>
  The order service's domain layer (\<^verbatim>\<open>orders/domain\<close>, \<^verbatim>\<open>order-totals.ts\<close>, \<^verbatim>\<open>order-number.service.ts\<close>):
  the statuses and their transition table, the domain errors with their reason and HTTP status, the
  patterns of the request fields and the decimal texts, the totals of an order and its number.

  \<^item> A quantity or weight is an integer number of thousandths, a volume of millionths, as in the
    \<^verbatim>\<open>Decimal(18,3)\<close> and \<^verbatim>\<open>Decimal(18,6)\<close> columns. Products carry the sum of the scales.
  \<^item> \<^verbatim>\<open>Prisma.Decimal\<close> rounds each result of \<^verbatim>\<open>plus\<close> and \<^verbatim>\<open>times\<close> to its configured number of
    significant digits. That rounding is the argument \<open>prec\<close>; documented is that it is the identity
    on results of at most 20 digits (\<open>prec_exact\<close>).
\<close>

section \<open>Statuses\<close>

datatype order_status = DRAFT | PENDING_STOCK | CONFIRMED | PICKING | READY_TO_SHIP | IN_DELIVERY
  | DELIVERY_FAILED | COMPLETED | CANCELED

definition ORDER_STATUSES :: "order_status list" where
  "ORDER_STATUSES = [DRAFT, PENDING_STOCK, CONFIRMED, PICKING, READY_TO_SHIP, IN_DELIVERY,
     DELIVERY_FAILED, COMPLETED, CANCELED]"

fun ALLOWED_TRANSITIONS :: "order_status \<Rightarrow> order_status list" where
  "ALLOWED_TRANSITIONS DRAFT = [PENDING_STOCK, CONFIRMED, CANCELED]"
| "ALLOWED_TRANSITIONS PENDING_STOCK = [CONFIRMED, CANCELED]"
| "ALLOWED_TRANSITIONS CONFIRMED = [PICKING, CANCELED]"
| "ALLOWED_TRANSITIONS PICKING = [READY_TO_SHIP, CANCELED]"
| "ALLOWED_TRANSITIONS READY_TO_SHIP = [IN_DELIVERY, CANCELED]"
| "ALLOWED_TRANSITIONS IN_DELIVERY = [COMPLETED, DELIVERY_FAILED]"
| "ALLOWED_TRANSITIONS DELIVERY_FAILED = [IN_DELIVERY]"
| "ALLOWED_TRANSITIONS COMPLETED = []"
| "ALLOWED_TRANSITIONS CANCELED = []"

definition canTransition :: "order_status \<Rightarrow> order_status \<Rightarrow> bool" where
  "canTransition from to \<longleftrightarrow> to \<in> set (ALLOWED_TRANSITIONS from)"

definition isTerminalStatus :: "order_status \<Rightarrow> bool" where
  "isTerminalStatus status \<longleftrightarrow> length (ALLOWED_TRANSITIONS status) = 0"

text \<open>The text a status has in its column and in event payloads.\<close>

fun status_text :: "order_status \<Rightarrow> string" where
  "status_text DRAFT = ''DRAFT''"
| "status_text PENDING_STOCK = ''PENDING_STOCK''"
| "status_text CONFIRMED = ''CONFIRMED''"
| "status_text PICKING = ''PICKING''"
| "status_text READY_TO_SHIP = ''READY_TO_SHIP''"
| "status_text IN_DELIVERY = ''IN_DELIVERY''"
| "status_text DELIVERY_FAILED = ''DELIVERY_FAILED''"
| "status_text COMPLETED = ''COMPLETED''"
| "status_text CANCELED = ''CANCELED''"

definition ORDER_EDITABLE_STATUSES :: "order_status list" where
  "ORDER_EDITABLE_STATUSES = [DRAFT, PENDING_STOCK]"

definition ORDER_CANCELABLE_STATUSES :: "order_status list" where
  "ORDER_CANCELABLE_STATUSES = [DRAFT, PENDING_STOCK, CONFIRMED, PICKING, READY_TO_SHIP]"

section \<open>Errors\<close>

text \<open>
  The constructors of \<^verbatim>\<open>OrderErrors\<close>, then what else the code raises: the state machine's own error,
  a PostgreSQL unique or check violation, a numeric overflow of a column, an aborted commit, and a
  plain \<^verbatim>\<open>Error\<close>.
\<close>

datatype ord_error =
    DispatchCommitted uuid
  | DispatchRequestConflict uuid
  | ReservationMismatch uuid
  | OrderNotFound uuid
  | InvalidTransition uuid order_status string
  | VersionConflict uuid version version
  | NoChanges
  | InvalidDateRange
  | AddressNotOfCustomer uuid uuid
  | AddressNotShipping uuid
  | MasterDataNotFound string uuid
  | MasterDataInactive string uuid
  | DuplicateProduct uuid string
  | TooManyLines nat nat
  | IdempotencyKeyRequired
  | IdempotencyKeyReused
  | UpstreamUnavailable string
  | UpstreamRejected string nat
  | InvalidStateTransition order_status order_status
  | OrdUniqueViolation
  | OrdCheckViolation
  | OrdNumericOverflow
  | OrdCommitFailed
  | OrdPlainError string

definition assertTransition :: "order_status \<Rightarrow> order_status \<Rightarrow> ord_error + unit" where
  "assertTransition from to = (if \<not> canTransition from to then Inl (InvalidStateTransition from to) else Inr ())"

text \<open>The \<^verbatim>\<open>reason\<close> of an \<^verbatim>\<open>OrderDomainError\<close>; other errors carry none.\<close>

fun ord_reason :: "ord_error \<Rightarrow> string option" where
  "ord_reason (DispatchCommitted _) = Some ''ORDER_DISPATCH_COMMITTED''"
| "ord_reason (DispatchRequestConflict _) = Some ''ORDER_DISPATCH_REQUEST_CONFLICT''"
| "ord_reason (ReservationMismatch _) = Some ''ORDER_RESERVATION_MISMATCH''"
| "ord_reason (OrderNotFound _) = Some ''ORDER_NOT_FOUND''"
| "ord_reason (InvalidTransition _ _ _) = Some ''ORDER_INVALID_TRANSITION''"
| "ord_reason (VersionConflict _ _ _) = Some ''ORDER_VERSION_CONFLICT''"
| "ord_reason NoChanges = Some ''ORDER_NO_CHANGES''"
| "ord_reason InvalidDateRange = Some ''ORDER_INVALID_DATE_RANGE''"
| "ord_reason (AddressNotOfCustomer _ _) = Some ''ORDER_ADDRESS_NOT_OF_CUSTOMER''"
| "ord_reason (AddressNotShipping _) = Some ''ORDER_ADDRESS_NOT_SHIPPING''"
| "ord_reason (MasterDataNotFound _ _) = Some ''ORDER_MASTER_DATA_NOT_FOUND''"
| "ord_reason (MasterDataInactive _ _) = Some ''ORDER_MASTER_DATA_INACTIVE''"
| "ord_reason (DuplicateProduct _ _) = Some ''ORDER_DUPLICATE_PRODUCT''"
| "ord_reason (TooManyLines _ _) = Some ''ORDER_TOO_MANY_LINES''"
| "ord_reason IdempotencyKeyRequired = Some ''IDEMPOTENCY_KEY_REQUIRED''"
| "ord_reason IdempotencyKeyReused = Some ''IDEMPOTENCY_KEY_REUSED''"
| "ord_reason (UpstreamUnavailable _) = Some ''UPSTREAM_UNAVAILABLE''"
| "ord_reason (UpstreamRejected _ _) = Some ''UPSTREAM_REJECTED''"
| "ord_reason _ = None"

fun ord_http_status :: "ord_error \<Rightarrow> nat option" where
  "ord_http_status (DispatchCommitted _) = Some 409"
| "ord_http_status (DispatchRequestConflict _) = Some 409"
| "ord_http_status (ReservationMismatch _) = Some 409"
| "ord_http_status (OrderNotFound _) = Some 404"
| "ord_http_status (InvalidTransition _ _ _) = Some 409"
| "ord_http_status (VersionConflict _ _ _) = Some 409"
| "ord_http_status NoChanges = Some 400"
| "ord_http_status InvalidDateRange = Some 400"
| "ord_http_status (AddressNotOfCustomer _ _) = Some 422"
| "ord_http_status (AddressNotShipping _) = Some 422"
| "ord_http_status (MasterDataNotFound _ _) = Some 422"
| "ord_http_status (MasterDataInactive _ _) = Some 422"
| "ord_http_status (DuplicateProduct _ _) = Some 422"
| "ord_http_status (TooManyLines _ _) = Some 422"
| "ord_http_status IdempotencyKeyRequired = Some 400"
| "ord_http_status IdempotencyKeyReused = Some 409"
| "ord_http_status (UpstreamUnavailable _) = Some 503"
| "ord_http_status (UpstreamRejected _ _) = Some 502"
| "ord_http_status _ = None"

section \<open>Patterns and decimal texts\<close>

definition is_digit :: "char \<Rightarrow> bool" where
  "is_digit c \<longleftrightarrow> c \<in> set ''0123456789''"

text \<open>\<^verbatim>\<open>/^(?!0+(?:\.0+)?$)\d{1,15}(?:\.\d{1,3})?$/\<close>\<close>

definition ORDER_QUANTITY_PATTERN :: "string \<Rightarrow> bool" where
  "ORDER_QUANTITY_PATTERN s \<longleftrightarrow>
     (let whole = takeWhile is_digit s; rest = dropWhile is_digit s; frac = drop 1 rest
      in 1 \<le> length whole \<and> length whole \<le> 15 \<and>
         (rest = [] \<or> hd rest = CHR ''.'' \<and> list_all is_digit frac \<and> 1 \<le> length frac \<and> length frac \<le> 3) \<and>
         \<not> (list_all ((=) (CHR ''0'')) whole \<and> list_all ((=) (CHR ''0'')) frac))"

text \<open>\<^verbatim>\<open>/^[A-Z]{3}$/\<close> and \<^verbatim>\<open>/^[A-Za-z0-9_.:-]{8,100}$/\<close>\<close>

definition ORDER_CURRENCY_PATTERN :: "string \<Rightarrow> bool" where
  "ORDER_CURRENCY_PATTERN s \<longleftrightarrow> length s = 3 \<and> list_all (\<lambda>c. c \<in> set ''ABCDEFGHIJKLMNOPQRSTUVWXYZ'') s"

definition IDEMPOTENCY_KEY_PATTERN :: "string \<Rightarrow> bool" where
  "IDEMPOTENCY_KEY_PATTERN s \<longleftrightarrow> 8 \<le> length s \<and> length s \<le> 100 \<and>
     list_all (\<lambda>c. c \<in> set ''ABCDEFGHIJKLMNOPQRSTUVWXYZabcdefghijklmnopqrstuvwxyz0123456789_.:-'') s"

definition digit_of :: "char \<Rightarrow> int" where
  "digit_of c = int (length (takeWhile (\<lambda>d. d \<noteq> c) ''0123456789''))"

definition digits_val :: "string \<Rightarrow> int" where
  "digits_val s = foldl (\<lambda>a c. 10 * a + digit_of c) 0 s"

text \<open>\<^verbatim>\<open>new Prisma.Decimal(s)\<close> of a plain decimal text with at most \<open>k\<close> fractional digits, at scale \<open>k\<close>.\<close>

definition decimal_value :: "nat \<Rightarrow> string \<Rightarrow> int" where
  "decimal_value k s =
     (let whole = takeWhile is_digit s; frac = drop 1 (dropWhile is_digit s)
      in digits_val whole * 10 ^ k + digits_val (frac @ replicate (k - length frac) (CHR ''0'')))"

text \<open>\<^verbatim>\<open>value.toFixed(k)\<close> of a value at scale \<open>k\<close>.\<close>

definition toFixed :: "nat \<Rightarrow> int \<Rightarrow> string" where
  "toFixed k x =
     (if x < 0 then ''-'' else []) @ nat_text (nat (\<bar>x\<bar> div 10 ^ k)) @
     (if k = 0 then [] else CHR ''.'' # pad_start k (CHR ''0'') (nat_text (nat (\<bar>x\<bar> mod 10 ^ k))))"

definition formatQuantity :: "qty \<Rightarrow> string" where "formatQuantity = toFixed 3"

definition formatWeight :: "int \<Rightarrow> string" where "formatWeight = toFixed 3"

definition formatVolume :: "int \<Rightarrow> string" where "formatVolume = toFixed 6"

section \<open>Totals\<close>

record resolved_line =
  rv_lineNumber :: nat
  rv_productId :: uuid
  rv_skuSnapshot :: string
  rv_productNameSnapshot :: string
  rv_unitSnapshot :: string
  rv_quantity :: qty
  rv_unitWeight :: int
  rv_unitVolume :: int

record order_totals =
  ot_totalQuantity :: qty
  ot_totalWeight :: int
  ot_totalVolume :: int

text \<open>\<^verbatim>\<open>toDecimalPlaces\<close> with \<^verbatim>\<open>ROUND_HALF_UP\<close>: drop the last \<open>k\<close> digits, halves away from zero.\<close>

definition round_half_up :: "nat \<Rightarrow> int \<Rightarrow> int" where
  "round_half_up k x = sgn x * ((2 * \<bar>x\<bar> + 10 ^ k) div (2 * 10 ^ k))"

definition add_line :: "(int \<Rightarrow> int) \<Rightarrow> order_totals \<Rightarrow> resolved_line \<Rightarrow> order_totals" where
  "add_line prec acc line =
     \<lparr> ot_totalQuantity = prec (ot_totalQuantity acc + rv_quantity line),
       ot_totalWeight = prec (ot_totalWeight acc + prec (rv_quantity line * rv_unitWeight line)),
       ot_totalVolume = prec (ot_totalVolume acc + prec (rv_quantity line * rv_unitVolume line)) \<rparr>"

definition calculateOrderTotals :: "(int \<Rightarrow> int) \<Rightarrow> resolved_line list \<Rightarrow> order_totals" where
  "calculateOrderTotals prec lines =
     (let raw = foldl (add_line prec) \<lparr> ot_totalQuantity = 0, ot_totalWeight = 0, ot_totalVolume = 0 \<rparr> lines
      in \<lparr> ot_totalQuantity = round_half_up 0 (ot_totalQuantity raw),
           ot_totalWeight = round_half_up 3 (ot_totalWeight raw),
           ot_totalVolume = round_half_up 3 (ot_totalVolume raw) \<rparr>)"

definition prec_exact :: "(int \<Rightarrow> int) \<Rightarrow> bool" where
  "prec_exact prec \<longleftrightarrow> (\<forall>x. \<bar>x\<bar> < 10 ^ 20 \<longrightarrow> prec x = x)"

section \<open>Order numbers\<close>

definition leap :: "int \<Rightarrow> bool" where
  "leap y \<longleftrightarrow> y mod 4 = 0 \<and> (y mod 100 \<noteq> 0 \<or> y mod 400 = 0)"

definition days_in_year :: "int \<Rightarrow> int" where
  "days_in_year y = (if leap y then 366 else 365)"

definition month_lengths :: "int \<Rightarrow> int list" where
  "month_lengths y = [31, if leap y then 29 else 28, 31, 30, 31, 30, 31, 31, 30, 31, 30, 31]"

text \<open>The year and the day in it of the \<open>d\<close>-th day counted from the first of January of year \<open>y\<close>.\<close>

function civil_year :: "int \<Rightarrow> int \<Rightarrow> int \<times> int" where
  "civil_year y d = (if d < days_in_year y then (y, d) else civil_year (y + 1) (d - days_in_year y))"
  by pat_completeness auto

termination civil_year
  by (relation "measure (\<lambda>(y, d). nat d)") (auto simp: days_in_year_def split: if_splits)

declare civil_year.simps [simp del]

fun civil_month :: "nat \<Rightarrow> int list \<Rightarrow> int \<Rightarrow> nat \<times> int" where
  "civil_month m [] d = (m, d)"
| "civil_month m (l # ls) d = (if d < l then (m, d) else civil_month (m + 1) ls (d - l))"

text \<open>
  The calendar day of an instant in \<^verbatim>\<open>Asia/Ho_Chi_Minh\<close> (seven hours ahead of UTC, no daylight
  saving since 1975), formatted as the \<^verbatim>\<open>en-CA\<close> locale does and stripped of its dashes.
\<close>

definition formatOrderPeriod :: "instant \<Rightarrow> string" where
  "formatOrderPeriod at =
     (let (y, doy) = civil_year 1970 ((int at + 7 * 3600000) div 86400000);
          (m, d) = civil_month 1 (month_lengths y) doy
      in nat_text (nat y) @ pad_start 2 (CHR ''0'') (nat_text m) @
         pad_start 2 (CHR ''0'') (nat_text (nat d + 1)))"

definition formatOrderNumber :: "string \<Rightarrow> nat \<Rightarrow> string" where
  "formatOrderNumber period sequence =
     ''SO-'' @ period @ ''-'' @ pad_start 6 (CHR ''0'') (nat_text sequence)"

record order_sequence =
  sq_tenantId :: uuid
  sq_period :: string
  sq_lastValue :: nat

text \<open>The upsert of \<^verbatim>\<open>OrderNumberService.next\<close>: the number and the counters after it.\<close>

definition nextOrderNumber ::
    "uuid \<Rightarrow> instant \<Rightarrow> order_sequence list \<Rightarrow> string \<times> order_sequence list" where
  "nextOrderNumber tenantId at sequences =
     (let period = formatOrderPeriod at;
          hit = (\<lambda>s. sq_tenantId s = tenantId \<and> sq_period s = period)
      in case List.find hit sequences of
           None \<Rightarrow> (formatOrderNumber period 1,
             sequences @ [\<lparr> sq_tenantId = tenantId, sq_period = period, sq_lastValue = 1 \<rparr>])
         | Some s \<Rightarrow> (formatOrderNumber period (sq_lastValue s + 1),
             update_where hit (\<lambda>s. s\<lparr> sq_lastValue := sq_lastValue s + 1 \<rparr>) sequences))"

section \<open>Lemmas: statuses\<close>

lemma canTransition_simps [simp]:
  "canTransition DRAFT s \<longleftrightarrow> s = PENDING_STOCK \<or> s = CONFIRMED \<or> s = CANCELED"
  "canTransition PENDING_STOCK s \<longleftrightarrow> s = CONFIRMED \<or> s = CANCELED"
  "canTransition CONFIRMED s \<longleftrightarrow> s = PICKING \<or> s = CANCELED"
  "canTransition PICKING s \<longleftrightarrow> s = READY_TO_SHIP \<or> s = CANCELED"
  "canTransition READY_TO_SHIP s \<longleftrightarrow> s = IN_DELIVERY \<or> s = CANCELED"
  "canTransition IN_DELIVERY s \<longleftrightarrow> s = COMPLETED \<or> s = DELIVERY_FAILED"
  "canTransition DELIVERY_FAILED s \<longleftrightarrow> s = IN_DELIVERY"
  "\<not> canTransition COMPLETED s" "\<not> canTransition CANCELED s"
  by (auto simp: canTransition_def)

lemma isTerminalStatus_iff: "isTerminalStatus s \<longleftrightarrow> s = COMPLETED \<or> s = CANCELED"
  by (cases s) (simp_all add: isTerminalStatus_def)

text \<open>How far an order has come; no operation of the service takes a failed delivery out again.\<close>

fun status_rank :: "order_status \<Rightarrow> nat" where
  "status_rank DRAFT = 0"
| "status_rank PENDING_STOCK = 1"
| "status_rank CONFIRMED = 2"
| "status_rank PICKING = 3"
| "status_rank READY_TO_SHIP = 4"
| "status_rank IN_DELIVERY = 5"
| "status_rank _ = 6"

lemma status_rank_mono: "canTransition s t \<Longrightarrow> s \<noteq> DELIVERY_FAILED \<Longrightarrow> status_rank s < status_rank t"
  by (cases s) auto

lemma status_rank_le: "status_rank s \<le> 6"
  by (cases s) simp_all

lemma status_text_inj [simp]: "status_text s = status_text t \<longleftrightarrow> s = t"
  by (cases s; cases t; simp)

section \<open>Lemmas: decimal texts\<close>

lemma digit_char_decimal: "d < 10 \<Longrightarrow> digit_of (digit_char d) = int d \<and> is_digit (digit_char d)"
proof -
  assume "d < 10"
  then have "d \<in> set [0..<10]" by simp
  moreover have "\<forall>d\<in>set [0..<10]. digit_of (digit_char d) = int d \<and> is_digit (digit_char d)" by code_simp
  ultimately show ?thesis by blast
qed

lemma is_digit_zero: "is_digit (CHR ''0'')"
  by (simp add: is_digit_def)

lemma digit_of_bounds: "is_digit c \<Longrightarrow> 0 \<le> digit_of c \<and> digit_of c \<le> 9"
  by (auto simp: is_digit_def digit_of_def)

lemma digit_of_zero_iff: "digit_of c = 0 \<longleftrightarrow> c = CHR ''0''"
  by (auto simp: digit_of_def)

lemma digits_val_simps [simp]:
  "digits_val [] = 0" "digits_val (s @ [c]) = 10 * digits_val s + digit_of c"
  by (simp_all add: digits_val_def)

lemma digits_val_append: "digits_val (s @ t) = digits_val s * 10 ^ length t + digits_val t"
proof (induction t rule: rev_induct)
  case (snoc c t)
  have "digits_val (s @ t @ [c]) = 10 * digits_val (s @ t) + digit_of c"
    using digits_val_simps(2) [of "s @ t" c] by simp
  with snoc show ?case by (simp add: algebra_simps)
qed simp

lemma digits_val_bounds:
  "list_all is_digit s \<Longrightarrow> 0 \<le> digits_val s \<and> digits_val s < 10 ^ length s"
proof (induction s rule: rev_induct)
  case (snoc c s)
  then have "0 \<le> digits_val s" "digits_val s < 10 ^ length s" "0 \<le> digit_of c" "digit_of c \<le> 9"
    using digit_of_bounds by auto
  then show ?case by simp
qed simp

lemma digits_val_zero_iff:
  "list_all is_digit s \<Longrightarrow> digits_val s = 0 \<longleftrightarrow> list_all ((=) (CHR ''0'')) s"
proof (induction s rule: rev_induct)
  case (snoc c s)
  then have "0 \<le> digits_val s" "0 \<le> digit_of c" using digits_val_bounds [of s] digit_of_bounds by auto
  then have "digits_val (s @ [c]) = 0 \<longleftrightarrow> digits_val s = 0 \<and> digit_of c = 0" by auto
  with snoc digit_of_zero_iff show ?case by auto
qed simp

lemma digits_val_replicate: "digits_val (replicate n (CHR ''0'')) = 0"
  by (induction n) (simp_all add: digits_val_def digit_of_def)

lemma digits_base_10: "digits_val (digits_base 10 n) = int n \<and> list_all is_digit (digits_base 10 n)"
proof (induction n rule: less_induct)
  case (less n)
  show ?case
  proof (cases "n < 10")
    case True
    then show ?thesis
      using digits_val_simps(2) [of "[]" "digit_char n"]
      by (subst (1 2) digits_base.simps) (simp add: digit_char_decimal)
  next
    case False
    then have "n div 10 < n" by simp
    moreover have "10 * int (n div 10) + int (n mod 10) = int n"
      using mult_div_mod_eq [of "int 10" "int n"] by (simp add: zdiv_int zmod_int)
    ultimately show ?thesis using less [of "n div 10"] False
      by (subst (1 2) digits_base.simps) (simp add: digit_char_decimal)
  qed
qed

lemma nat_text_digits [simp]: "digits_val (nat_text n) = int n" "list_all is_digit (nat_text n)"
  using digits_base_10 by (simp_all add: nat_text_def)

lemma nat_text_nonempty [simp]: "nat_text n \<noteq> []"
  by (simp add: nat_text_def)

lemma pad_zero_digits [simp]:
  "digits_val (pad_start k (CHR ''0'') s) = digits_val s"
  "list_all is_digit (pad_start k (CHR ''0'') s) \<longleftrightarrow> list_all is_digit s"
proof -
  show "digits_val (pad_start k (CHR ''0'') s) = digits_val s"
    by (simp add: pad_start_def digits_val_append digits_val_replicate)
  from is_digit_zero show "list_all is_digit (pad_start k (CHR ''0'') s) \<longleftrightarrow> list_all is_digit s"
    by (auto simp: pad_start_def list_all_iff)
qed

lemma length_nat_text: "n < 10 ^ k \<Longrightarrow> 0 < k \<Longrightarrow> length (nat_text n) \<le> k"
proof (induction k arbitrary: n)
  case (Suc k)
  show ?case
  proof (cases "n < 10")
    case False
    with Suc.prems have "n div 10 < 10 ^ k" "0 < k" by (auto simp: less_mult_imp_div_less intro: gr0I)
    with Suc.IH have "length (nat_text (n div 10)) \<le> k" by blast
    with False show ?thesis unfolding nat_text_def by (subst digits_base.simps) simp
  qed (simp add: nat_text_def digits_base.simps)
qed simp

lemma takeWhile_digits:
  assumes "list_all is_digit s" "rest = [] \<or> \<not> is_digit (hd rest)"
  shows "takeWhile is_digit (s @ rest) = s" "dropWhile is_digit (s @ rest) = rest"
  using assms by (induction s) (cases rest; auto)+

lemma decimal_value_split:
  assumes "list_all is_digit whole"
  shows "decimal_value k (whole @ CHR ''.'' # frac) =
      digits_val whole * 10 ^ k + digits_val (frac @ replicate (k - length frac) (CHR ''0''))"
  using takeWhile_digits [OF assms, of "CHR ''.'' # frac"] by (simp add: decimal_value_def is_digit_def Let_def)

text \<open>A fixed-point text is read back as the value it was printed from.\<close>

lemma decimal_value_toFixed:
  assumes "0 \<le> x" "0 < k"
  shows "decimal_value k (toFixed k x) = x"
proof -
  let ?f = "pad_start k (CHR ''0'') (nat_text (nat (x mod 10 ^ k)))"
  have lt: "x mod 10 ^ k < 10 ^ k" "0 \<le> x mod 10 ^ k" by simp_all
  then have "nat (x mod 10 ^ k) < 10 ^ k" by (metis nat_less_iff of_nat_numeral of_nat_power)
  then have "length ?f = k" using length_nat_text [of "nat (x mod 10 ^ k)" k] assms(2) by (simp add: pad_start_def)
  then have "decimal_value k (nat_text (nat (x div 10 ^ k)) @ CHR ''.'' # ?f) = x div 10 ^ k * 10 ^ k + x mod 10 ^ k"
    using decimal_value_split [of "nat_text (nat (x div 10 ^ k))" k ?f] assms(1) lt(2)
    by (simp add: pos_imp_zdiv_nonneg_iff)
  moreover have "x div 10 ^ k * 10 ^ k + x mod 10 ^ k = x" by (rule div_mult_mod_eq)
  ultimately show ?thesis using assms by (simp add: toFixed_def)
qed

text \<open>What the quantity pattern admits: a positive amount that fits \<^verbatim>\<open>numeric(18,3)\<close>.\<close>

lemma quantity_pattern_value:
  assumes "ORDER_QUANTITY_PATTERN s"
  shows "0 < decimal_value 3 s \<and> decimal_value 3 s < 10 ^ 18"
proof -
  define whole rest where wr: "whole = takeWhile is_digit s" "rest = dropWhile is_digit s"
  define frac where f: "frac = drop 1 rest"
  define padded where p: "padded = frac @ replicate (3 - length frac) (CHR ''0'')"
  note pat = assms [unfolded ORDER_QUANTITY_PATTERN_def Let_def, folded wr, folded f]
  then have len: "length whole \<le> 15"
    and nz: "\<not> (list_all ((=) (CHR ''0'')) whole \<and> list_all ((=) (CHR ''0'')) frac)" by blast+
  from pat have "rest = [] \<or> list_all is_digit frac \<and> length frac \<le> 3" by blast
  then have fr: "list_all is_digit frac" "length frac \<le> 3" by (auto simp: f)
  have dw: "list_all is_digit whole" by (auto simp: wr list_all_iff dest: set_takeWhileD)
  have dp: "list_all is_digit padded" and lp: "length padded = 3"
    using fr is_digit_zero by (auto simp: p list_all_iff)
  have "list_all ((=) (CHR ''0'')) (replicate n (CHR ''0''))" for n by (induction n) simp_all
  then have "list_all ((=) (CHR ''0'')) padded \<longleftrightarrow> list_all ((=) (CHR ''0'')) frac"
    unfolding p list_all_append by blast
  with nz digits_val_zero_iff [OF dw] digits_val_zero_iff [OF dp]
  have "digits_val whole \<noteq> 0 \<or> digits_val padded \<noteq> 0" by blast
  moreover note digits_val_bounds [OF dw] digits_val_bounds [OF dp]
  moreover have "(10::int) ^ length whole \<le> 10 ^ 15" by (rule power_increasing [OF len]) simp
  moreover have "decimal_value 3 s = digits_val whole * 1000 + digits_val padded"
    by (simp add: decimal_value_def Let_def wr f p)
  ultimately show ?thesis using lp by auto
qed

section \<open>Lemmas: totals\<close>

lemma round_half_up_zero [simp]: "round_half_up 0 x = x"
  by (simp add: round_half_up_def sgn_if)

lemma round_half_up_nonneg: "0 \<le> x \<Longrightarrow> 0 \<le> round_half_up k x"
  by (simp add: round_half_up_def sgn_if pos_imp_zdiv_nonneg_iff)

text \<open>The rounded value is within half a unit of the exact one.\<close>

lemma round_half_up_error:
  assumes "0 \<le> x"
  shows "\<bar>2 * (round_half_up k x * 10 ^ k - x)\<bar> \<le> 10 ^ k"
proof -
  define d where "d = (10::int) ^ k"
  have d: "0 < d" by (simp add: d_def)
  define r where "r = (2 * x + d) div (2 * d)"
  have "r * (2 * d) + (2 * x + d) mod (2 * d) = 2 * x + d" unfolding r_def by (rule div_mult_mod_eq)
  moreover have "0 \<le> (2 * x + d) mod (2 * d)" "(2 * x + d) mod (2 * d) < 2 * d" using d by simp_all
  ultimately have "\<bar>2 * (r * d - x)\<bar> \<le> d" by (simp add: algebra_simps abs_if)
  moreover have "round_half_up k x = r"
  proof (cases "x = 0")
    case True
    with d show ?thesis by (simp add: round_half_up_def r_def)
  next
    case False
    with assms show ?thesis by (simp add: round_half_up_def r_def d_def)
  qed
  ultimately show ?thesis by (simp add: d_def)
qed

definition sum_of :: "(resolved_line \<Rightarrow> int) \<Rightarrow> resolved_line list \<Rightarrow> int" where
  "sum_of f lines = sum_list (map f lines)"

definition line_weight :: "resolved_line \<Rightarrow> int" where
  "line_weight l = rv_quantity l * rv_unitWeight l"

definition line_volume :: "resolved_line \<Rightarrow> int" where
  "line_volume l = rv_quantity l * rv_unitVolume l"

text \<open>Non-negative amounts whose sum has at most 20 digits.\<close>

definition small_sum :: "(resolved_line \<Rightarrow> int) \<Rightarrow> resolved_line list \<Rightarrow> bool" where
  "small_sum f lines \<longleftrightarrow> list_all (\<lambda>l. 0 \<le> f l) lines \<and> sum_of f lines < 10 ^ 20"

definition totals_small :: "resolved_line list \<Rightarrow> bool" where
  "totals_small lines \<longleftrightarrow> small_sum rv_quantity lines \<and> small_sum line_weight lines \<and> small_sum line_volume lines"

lemma sum_of_simps [simp]: "sum_of f [] = 0" "sum_of f (ls @ [l]) = sum_of f ls + f l"
  by (simp_all add: sum_of_def)

lemma sum_of_nonneg: "list_all (\<lambda>l. 0 \<le> f l) ls \<Longrightarrow> 0 \<le> sum_of f ls"
  by (simp add: sum_of_def list_all_iff sum_list_map_nonneg)

lemma small_sum_snoc:
  assumes "prec_exact prec" "small_sum f (ls @ [l])"
  shows "small_sum f ls" "prec (f l) = f l" "prec (sum_of f ls + f l) = sum_of f ls + f l"
proof -
  from assms(2) have "0 \<le> f l" "list_all (\<lambda>l. 0 \<le> f l) ls" "sum_of f ls + f l < 10 ^ 20"
    by (simp_all add: small_sum_def)
  moreover from this(2) have "0 \<le> sum_of f ls" by (rule sum_of_nonneg)
  ultimately show "small_sum f ls" "prec (f l) = f l" "prec (sum_of f ls + f l) = sum_of f ls + f l"
    using assms(1) by (simp_all add: small_sum_def prec_exact_def)
qed

lemma totals_fold_exact:
  assumes "prec_exact prec" "totals_small lines"
  shows "foldl (add_line prec) \<lparr> ot_totalQuantity = 0, ot_totalWeight = 0, ot_totalVolume = 0 \<rparr> lines =
    \<lparr> ot_totalQuantity = sum_of rv_quantity lines, ot_totalWeight = sum_of line_weight lines,
      ot_totalVolume = sum_of line_volume lines \<rparr>"
  using assms(2)
proof (induction lines rule: rev_induct)
  case (snoc l ls)
  then have sm: "small_sum rv_quantity (ls @ [l])" "small_sum line_weight (ls @ [l])" "small_sum line_volume (ls @ [l])"
    by (simp_all add: totals_small_def)
  note p = sm [THEN small_sum_snoc(1) [OF assms(1)]] sm [THEN small_sum_snoc(2) [OF assms(1)]]
    sm [THEN small_sum_snoc(3) [OF assms(1)]]
  have "totals_small ls" using p(1-3) by (simp add: totals_small_def)
  with snoc.IH p(4-9) show ?case
    by (simp add: add_line_def flip: line_weight_def line_volume_def)
qed simp

lemma calculateOrderTotals_exact:
  assumes "prec_exact prec" "totals_small lines"
  shows "calculateOrderTotals prec lines =
    \<lparr> ot_totalQuantity = sum_of rv_quantity lines, ot_totalWeight = round_half_up 3 (sum_of line_weight lines),
      ot_totalVolume = round_half_up 3 (sum_of line_volume lines) \<rparr>"
  by (simp add: calculateOrderTotals_def totals_fold_exact [OF assms])

section \<open>Lemmas: order numbers\<close>

lemma digits_no_dash: "list_all is_digit s \<Longrightarrow> CHR ''-'' \<notin> set s"
proof -
  have "\<not> is_digit (CHR ''-'')" by (simp add: is_digit_def)
  then show "list_all is_digit s \<Longrightarrow> CHR ''-'' \<notin> set s" by (metis list_all_iff)
qed

lemma formatOrderPeriod_no_dash: "CHR ''-'' \<notin> set (formatOrderPeriod at)"
  by (rule digits_no_dash) (simp add: formatOrderPeriod_def split: prod.splits)

lemma formatOrderNumber_inj:
  assumes "CHR ''-'' \<notin> set p" "CHR ''-'' \<notin> set q"
  shows "formatOrderNumber p m = formatOrderNumber q n \<longleftrightarrow> p = q \<and> m = n"
proof
  assume "formatOrderNumber p m = formatOrderNumber q n"
  then have "p @ CHR ''-'' # pad_start 6 (CHR ''0'') (nat_text m) = q @ CHR ''-'' # pad_start 6 (CHR ''0'') (nat_text n)"
    by (simp add: formatOrderNumber_def)
  from append_sep_inj [OF assms this] show "p = q \<and> m = n"
    using pad_digits_inj [of 10 6 m n] by (simp add: nat_text_def)
qed simp

text \<open>
  \<open>numbers_issued ns seqs\<close>: every number in use in a tenant is one its counter has already passed, so
  the next number of the counter is new.
\<close>

definition numbers_issued :: "(uuid \<times> string) list \<Rightarrow> order_sequence list \<Rightarrow> bool" where
  "numbers_issued ns seqs \<longleftrightarrow>
     distinct (map (\<lambda>s. (sq_tenantId s, sq_period s)) seqs) \<and>
     (\<forall>(t, x)\<in>set ns. \<exists>s\<in>set seqs. \<exists>n. sq_tenantId s = t \<and> CHR ''-'' \<notin> set (sq_period s) \<and>
        n \<le> sq_lastValue s \<and> x = formatOrderNumber (sq_period s) n)"

lemma numbers_issued_Nil [simp]: "numbers_issued [] []"
  by (simp add: numbers_issued_def)

lemma nextOrderNumber_fresh:
  assumes "numbers_issued ns seqs" "nextOrderNumber t at seqs = (x, seqs')"
  shows "(t, x) \<notin> set ns" "numbers_issued (ns @ [(t, x)]) seqs'"
proof -
  let ?p = "formatOrderPeriod at"
  let ?hit = "\<lambda>s. sq_tenantId s = t \<and> sq_period s = ?p"
  let ?k = "\<lambda>s. (sq_tenantId s, sq_period s)"
  let ?up = "\<lambda>s. s\<lparr>sq_lastValue := sq_lastValue s + 1\<rparr>"
  note dash = formatOrderPeriod_no_dash [of at]
  have di: "distinct (map ?k seqs)" using assms(1) by (simp add: numbers_issued_def)
  have old: "\<exists>s\<in>set seqs. \<exists>n. sq_tenantId s = u \<and> CHR ''-'' \<notin> set (sq_period s) \<and>
      n \<le> sq_lastValue s \<and> y = formatOrderNumber (sq_period s) n" if "(u, y) \<in> set ns" for u y
    using assms(1) that by (auto simp: numbers_issued_def)
  have "(t, x) \<notin> set ns \<and> numbers_issued (ns @ [(t, x)]) seqs'"
  proof (cases "List.find ?hit seqs")
    case None
    note none = find_None_D [OF None]
    from assms(2) None have x: "x = formatOrderNumber ?p 1"
      and s': "seqs' = seqs @ [\<lparr> sq_tenantId = t, sq_period = ?p, sq_lastValue = 1 \<rparr>]"
      by (simp_all add: nextOrderNumber_def Let_def)
    have "(t, x) \<notin> set ns" using old [of t x] none x dash formatOrderNumber_inj by metis
    moreover have "numbers_issued (ns @ [(t, x)]) seqs'"
    proof -
      have "distinct (map ?k seqs')" using di none by (fastforce simp: s')
      then show ?thesis unfolding numbers_issued_def using old dash x by (fastforce simp: s')
    qed
    ultimately show ?thesis by blast
  next
    case (Some s)
    note s = find_Some_D [OF Some]
    from assms(2) Some have x: "x = formatOrderNumber ?p (sq_lastValue s + 1)"
      and s': "seqs' = update_where ?hit ?up seqs"
      by (simp_all add: nextOrderNumber_def Let_def)
    have uniq: "s1 = s" if "s1 \<in> set seqs" "?hit s1" for s1
      using key_eq_imp_eq [OF di that(1), of s] s that(2) by auto
    have "(t, x) \<notin> set ns"
    proof
      assume "(t, x) \<in> set ns"
      then obtain s1 n where a: "s1 \<in> set seqs" "sq_tenantId s1 = t" "CHR ''-'' \<notin> set (sq_period s1)"
        "n \<le> sq_lastValue s1" "x = formatOrderNumber (sq_period s1) n" using old by blast
      with x dash have "sq_period s1 = ?p" "n = sq_lastValue s + 1" using formatOrderNumber_inj by metis+
      with uniq [OF a(1)] a(2,4) show False by simp
    qed
    moreover have "numbers_issued (ns @ [(t, x)]) seqs'"
    proof -
      have "map ?k seqs' = map ?k seqs" unfolding s' by (rule map_update_where) simp
      moreover have "\<exists>s\<in>set seqs'. \<exists>n. sq_tenantId s = u \<and> CHR ''-'' \<notin> set (sq_period s) \<and>
          n \<le> sq_lastValue s \<and> y = formatOrderNumber (sq_period s) n" if "(u, y) \<in> set ns" for u y
      proof -
        from old [OF that] obtain s1 n where a: "s1 \<in> set seqs" "sq_tenantId s1 = u"
          "CHR ''-'' \<notin> set (sq_period s1)" "n \<le> sq_lastValue s1" "y = formatOrderNumber (sq_period s1) n" by blast
        show ?thesis unfolding s'
          by (rule bexI [OF _ update_where_mem [OF a(1)]]) (use a in \<open>auto intro: le_SucI\<close>)
      qed
      moreover have "\<exists>s\<in>set seqs'. \<exists>n. sq_tenantId s = t \<and> CHR ''-'' \<notin> set (sq_period s) \<and>
          n \<le> sq_lastValue s \<and> x = formatOrderNumber (sq_period s) n"
        unfolding s'
        by (rule bexI [OF _ update_where_mem [OF conjunct1 [OF s]]])
           (use s dash x in \<open>auto intro!: exI [of _ "Suc (sq_lastValue s)"]\<close>)
      ultimately show ?thesis using di unfolding numbers_issued_def by auto
    qed
    ultimately show ?thesis by blast
  qed
  then show "(t, x) \<notin> set ns" "numbers_issued (ns @ [(t, x)]) seqs'" by blast+
qed

end
