(* ===== verification/Order_References.thy ===== *)
theory Order_References
  imports Order_Domain
begin

text \<open>
  What an order copies from Master Data: the read models (\<^verbatim>\<open>integrations/master-data.types.ts\<close>), the
  HTTP client (\<^verbatim>\<open>integrations/master-data.client.ts\<close>), the snapshots built from them
  (\<^verbatim>\<open>mappers/order.mapper.ts\<close>) and the resolver (\<^verbatim>\<open>services/order-reference.resolver.ts\<close>) with its
  bounded-concurrency loop.

  \<^item> A reply of the remote service is a network failure, or a status with a body that is \<open>None\<close> when
    it cannot be parsed.
  \<^item> Identifiers in requests are in canonical lower-case text, so comparing them is comparing the
    UUIDs.
  \<^item> Where the code awaits several lookups at once and more than one fails, it reports the failure
    that comes first in time; the definitions report the leftmost. The loop \<^verbatim>\<open>mapWithConcurrency\<close>
    is also given as a step relation with every interleaving of its workers, and the lemmas at the end
    show that all of them compute the same answer.
\<close>

section \<open>Read models and snapshots\<close>

record master_customer =
  mu_id :: uuid
  mu_code :: string
  mu_name :: string
  mu_taxCode :: "string option"
  mu_phone :: "string option"
  mu_email :: "string option"
  mu_status :: string
  mu_version :: version

record master_address =
  ma_id :: uuid
  ma_customerId :: uuid
  ma_addressType :: string
  ma_label :: "string option"
  ma_recipientName :: string
  ma_phone :: "string option"
  ma_addressLine :: string
  ma_ward :: "string option"
  ma_district :: "string option"
  ma_province :: string
  ma_postalCode :: "string option"
  ma_latitude :: "string option"
  ma_longitude :: "string option"
  ma_deliveryNote :: "string option"
  ma_status :: string
  ma_version :: version

record master_warehouse =
  mw_id :: uuid
  mw_code :: string
  mw_name :: string
  mw_addressLine :: string
  mw_ward :: "string option"
  mw_district :: "string option"
  mw_province :: string
  mw_postalCode :: "string option"
  mw_latitude :: "string option"
  mw_longitude :: "string option"
  mw_status :: string
  mw_version :: version

record master_product =
  mp_id :: uuid
  mp_sku :: string
  mp_name :: string
  mp_baseUnit :: string
  mp_weight :: string
  mp_volume :: string
  mp_status :: string
  mp_version :: version

record customer_snapshot =
  cs_customerId :: uuid
  cs_customerVersion :: version
  cs_code :: string
  cs_name :: string
  cs_taxCode :: "string option"
  cs_phone :: "string option"
  cs_email :: "string option"

record address_snapshot =
  as_addressId :: uuid
  as_addressVersion :: version
  as_addressType :: string
  as_label :: "string option"
  as_recipientName :: string
  as_phone :: "string option"
  as_addressLine :: string
  as_ward :: "string option"
  as_district :: "string option"
  as_province :: string
  as_postalCode :: "string option"
  as_latitude :: "string option"
  as_longitude :: "string option"
  as_deliveryNote :: "string option"

record warehouse_snapshot =
  ws_warehouseId :: uuid
  ws_warehouseVersion :: version
  ws_code :: string
  ws_name :: string
  ws_addressLine :: string
  ws_ward :: "string option"
  ws_district :: "string option"
  ws_province :: string
  ws_postalCode :: "string option"
  ws_latitude :: "string option"
  ws_longitude :: "string option"

definition buildCustomerSnapshot :: "master_customer \<Rightarrow> customer_snapshot" where
  "buildCustomerSnapshot c = \<lparr> cs_customerId = mu_id c, cs_customerVersion = mu_version c,
     cs_code = mu_code c, cs_name = mu_name c, cs_taxCode = mu_taxCode c, cs_phone = mu_phone c,
     cs_email = mu_email c \<rparr>"

definition buildAddressSnapshot :: "master_address \<Rightarrow> address_snapshot" where
  "buildAddressSnapshot a = \<lparr> as_addressId = ma_id a, as_addressVersion = ma_version a,
     as_addressType = ma_addressType a, as_label = ma_label a, as_recipientName = ma_recipientName a,
     as_phone = ma_phone a, as_addressLine = ma_addressLine a, as_ward = ma_ward a,
     as_district = ma_district a, as_province = ma_province a, as_postalCode = ma_postalCode a,
     as_latitude = ma_latitude a, as_longitude = ma_longitude a, as_deliveryNote = ma_deliveryNote a \<rparr>"

definition buildWarehouseSnapshot :: "master_warehouse \<Rightarrow> warehouse_snapshot" where
  "buildWarehouseSnapshot w = \<lparr> ws_warehouseId = mw_id w, ws_warehouseVersion = mw_version w,
     ws_code = mw_code w, ws_name = mw_name w, ws_addressLine = mw_addressLine w, ws_ward = mw_ward w,
     ws_district = mw_district w, ws_province = mw_province w, ws_postalCode = mw_postalCode w,
     ws_latitude = mw_latitude w, ws_longitude = mw_longitude w \<rparr>"

section \<open>The HTTP client\<close>

datatype 'a http_reply = NetworkFailure | HttpReply nat "'a option"

definition http_ok :: "nat \<Rightarrow> bool" where
  "http_ok status \<longleftrightarrow> 200 \<le> status \<and> status < 300"

definition MASTER_DATA_SERVICE_NAME :: string where
  "MASTER_DATA_SERVICE_NAME = ''master-data-service''"

definition masterDataGet :: "'a http_reply \<Rightarrow> ord_error + 'a option" where
  "masterDataGet reply =
     (case reply of
        NetworkFailure \<Rightarrow> Inl (UpstreamUnavailable MASTER_DATA_SERVICE_NAME)
      | HttpReply status body \<Rightarrow>
          if status = 404 then Inr None
          else if 500 \<le> status then Inl (UpstreamUnavailable MASTER_DATA_SERVICE_NAME)
          else if \<not> http_ok status then Inl (UpstreamRejected MASTER_DATA_SERVICE_NAME status)
          else (case body of
                  None \<Rightarrow> Inl (UpstreamUnavailable MASTER_DATA_SERVICE_NAME)
                | Some x \<Rightarrow> Inr (Some x)))"

record master_data_context =
  mx_authorization :: string
  mx_correlationId :: uuid

text \<open>What the remote service answers to each request of the client.\<close>

record master_data_api =
  md_customer :: "uuid \<Rightarrow> master_data_context \<Rightarrow> master_customer http_reply"
  md_addresses :: "uuid \<Rightarrow> master_data_context \<Rightarrow> master_address list http_reply"
  md_warehouse :: "uuid \<Rightarrow> master_data_context \<Rightarrow> master_warehouse http_reply"
  md_product :: "uuid \<Rightarrow> master_data_context \<Rightarrow> master_product http_reply"

definition getCustomer :: "master_data_api \<Rightarrow> uuid \<Rightarrow> master_data_context \<Rightarrow> ord_error + master_customer option" where
  "getCustomer api i ctx = masterDataGet (md_customer api i ctx)"

definition listCustomerAddresses ::
    "master_data_api \<Rightarrow> uuid \<Rightarrow> master_data_context \<Rightarrow> ord_error + master_address list option" where
  "listCustomerAddresses api customerId ctx = masterDataGet (md_addresses api customerId ctx)"

definition getWarehouse :: "master_data_api \<Rightarrow> uuid \<Rightarrow> master_data_context \<Rightarrow> ord_error + master_warehouse option" where
  "getWarehouse api i ctx = masterDataGet (md_warehouse api i ctx)"

definition getProduct :: "master_data_api \<Rightarrow> uuid \<Rightarrow> master_data_context \<Rightarrow> ord_error + master_product option" where
  "getProduct api i ctx = masterDataGet (md_product api i ctx)"

section \<open>The resolver\<close>

record order_line_input =
  li_productId :: uuid
  li_quantity :: string

record resolved_customer =
  rs_customerSnapshot :: customer_snapshot
  rs_deliveryAddressSnapshot :: address_snapshot

definition MASTER_DATA_RECORD_STATUS_ACTIVE :: string where
  "MASTER_DATA_RECORD_STATUS_ACTIVE = ''ACTIVE''"

definition DELIVERY_ADDRESS_TYPE :: string where
  "DELIVERY_ADDRESS_TYPE = ''SHIPPING''"

definition line_field :: "nat \<Rightarrow> string" where
  "line_field index = ''lines['' @ nat_text index @ ''].productId''"

fun assertDistinctProducts :: "uuid list \<Rightarrow> nat \<Rightarrow> order_line_input list \<Rightarrow> ord_error + unit" where
  "assertDistinctProducts seen index [] = Inr ()"
| "assertDistinctProducts seen index (line # lines) =
     (if li_productId line \<in> set seen then Inl (DuplicateProduct (li_productId line) (line_field index))
      else assertDistinctProducts (li_productId line # seen) (index + 1) lines)"

definition assertLineRules :: "nat \<Rightarrow> order_line_input list \<Rightarrow> ord_error + unit" where
  "assertLineRules maxLines lines =
     (if maxLines < length lines then Inl (TooManyLines maxLines (length lines))
      else assertDistinctProducts [] 0 lines)"

definition resolveCustomer ::
    "master_data_api \<Rightarrow> uuid \<Rightarrow> uuid \<Rightarrow> master_data_context \<Rightarrow> ord_error + resolved_customer" where
  "resolveCustomer api customerId deliveryAddressId ctx =
     bind_res (getCustomer api customerId ctx) (\<lambda>customer.
     bind_res (listCustomerAddresses api customerId ctx) (\<lambda>addresses.
       case customer of
         None \<Rightarrow> Inl (MasterDataNotFound ''customerId'' customerId)
       | Some customer \<Rightarrow>
           if mu_status customer \<noteq> MASTER_DATA_RECORD_STATUS_ACTIVE
           then Inl (MasterDataInactive ''customerId'' customerId)
           else
             (case (case addresses of
                      None \<Rightarrow> None
                    | Some as \<Rightarrow> List.find (\<lambda>c. ma_id c = deliveryAddressId \<and> ma_customerId c = mu_id customer) as) of
                None \<Rightarrow> Inl (AddressNotOfCustomer deliveryAddressId customerId)
              | Some address \<Rightarrow>
                  if ma_status address \<noteq> MASTER_DATA_RECORD_STATUS_ACTIVE
                  then Inl (MasterDataInactive ''deliveryAddressId'' deliveryAddressId)
                  else if ma_addressType address \<noteq> DELIVERY_ADDRESS_TYPE
                  then Inl (AddressNotShipping deliveryAddressId)
                  else Inr \<lparr> rs_customerSnapshot = buildCustomerSnapshot customer,
                             rs_deliveryAddressSnapshot = buildAddressSnapshot address \<rparr>)))"

definition resolveWarehouse ::
    "master_data_api \<Rightarrow> uuid \<Rightarrow> master_data_context \<Rightarrow> ord_error + warehouse_snapshot" where
  "resolveWarehouse api warehouseId ctx =
     bind_res (getWarehouse api warehouseId ctx) (\<lambda>warehouse.
       case warehouse of
         None \<Rightarrow> Inl (MasterDataNotFound ''warehouseId'' warehouseId)
       | Some w \<Rightarrow>
           if mw_status w \<noteq> MASTER_DATA_RECORD_STATUS_ACTIVE
           then Inl (MasterDataInactive ''warehouseId'' warehouseId)
           else Inr (buildWarehouseSnapshot w))"

text \<open>The result of \<^verbatim>\<open>mapWithConcurrency\<close>: the mapped items in order, or a failure.\<close>

fun map_res :: "('a \<Rightarrow> 'e + 'b) \<Rightarrow> 'a list \<Rightarrow> 'e + 'b list" where
  "map_res f [] = Inr []"
| "map_res f (x # xs) = bind_res (f x) (\<lambda>y. bind_res (map_res f xs) (\<lambda>ys. Inr (y # ys)))"

definition toResolvedLine :: "nat \<Rightarrow> order_line_input \<Rightarrow> master_product \<Rightarrow> resolved_line" where
  "toResolvedLine lineNumber line product =
     \<lparr> rv_lineNumber = lineNumber, rv_productId = mp_id product, rv_skuSnapshot = mp_sku product,
       rv_productNameSnapshot = mp_name product, rv_unitSnapshot = mp_baseUnit product,
       rv_quantity = decimal_value 3 (li_quantity line), rv_unitWeight = decimal_value 3 (mp_weight product),
       rv_unitVolume = decimal_value 6 (mp_volume product) \<rparr>"

definition resolveLine ::
    "nat \<times> order_line_input \<times> master_product option \<Rightarrow> ord_error + resolved_line" where
  "resolveLine = (\<lambda>(index, line, product).
     case product of
       None \<Rightarrow> Inl (MasterDataNotFound (line_field index) (li_productId line))
     | Some p \<Rightarrow>
         if mp_status p \<noteq> MASTER_DATA_RECORD_STATUS_ACTIVE
         then Inl (MasterDataInactive (line_field index) (li_productId line))
         else Inr (toResolvedLine (index + 1) line p))"

definition resolveLines ::
    "master_data_api \<Rightarrow> order_line_input list \<Rightarrow> master_data_context \<Rightarrow> ord_error + resolved_line list" where
  "resolveLines api lines ctx =
     bind_res (map_res (\<lambda>line. getProduct api (li_productId line) ctx) lines) (\<lambda>products.
       map_res resolveLine (enumerate 0 (zip lines products)))"

section \<open>The concurrent loop\<close>

text \<open>
  \<open>mc_cursor\<close> is the shared cursor, \<open>mc_busy w\<close> the index worker \<open>w\<close> is waiting for, \<open>mc_results\<close> the
  array \<^verbatim>\<open>results\<close>, \<open>mc_failed\<close> the first rejection. A worker that is free takes the next index while
  there is one; a reply stores the result, or rejects. \<open>mc_calls\<close> is the ghost log of requests sent.
\<close>

record ('e, 'b) mc_state =
  mc_cursor :: nat
  mc_busy :: "nat \<Rightarrow> nat option"
  mc_stopped :: "nat \<Rightarrow> bool"
  mc_results :: "nat \<Rightarrow> 'b option"
  mc_failed :: "'e option"
  mc_calls :: "nat list"

definition mc_init :: "('e, 'b) mc_state" where
  "mc_init = \<lparr> mc_cursor = 0, mc_busy = (\<lambda>_. None), mc_stopped = (\<lambda>_. False), mc_results = (\<lambda>_. None),
     mc_failed = None, mc_calls = [] \<rparr>"

inductive mc_step ::
    "('a \<Rightarrow> 'e + 'b) \<Rightarrow> 'a list \<Rightarrow> nat \<Rightarrow> ('e, 'b) mc_state \<Rightarrow> ('e, 'b) mc_state \<Rightarrow> bool"
  for mapper :: "'a \<Rightarrow> 'e + 'b" and items :: "'a list" and limit :: nat where
  take_index: "w < min limit (length items) \<Longrightarrow> \<not> mc_stopped s w \<Longrightarrow> mc_busy s w = None \<Longrightarrow>
     mc_cursor s < length items \<Longrightarrow>
     mc_step mapper items limit s (s\<lparr> mc_cursor := mc_cursor s + 1, mc_busy := (mc_busy s)(w := Some (mc_cursor s)),
       mc_calls := mc_calls s @ [mc_cursor s] \<rparr>)"
| resolve: "mc_busy s w = Some i \<Longrightarrow> mapper (items ! i) = Inr y \<Longrightarrow>
     mc_step mapper items limit s (s\<lparr> mc_busy := (mc_busy s)(w := None), mc_results := (mc_results s)(i := Some y) \<rparr>)"
| reject: "mc_busy s w = Some i \<Longrightarrow> mapper (items ! i) = Inl e \<Longrightarrow>
     mc_step mapper items limit s (s\<lparr> mc_busy := (mc_busy s)(w := None), mc_stopped := (mc_stopped s)(w := True),
       mc_failed := (case mc_failed s of None \<Rightarrow> Some e | r \<Rightarrow> r) \<rparr>)"

text \<open>The loop is over when some worker has rejected, or every worker has run out of items.\<close>

definition mc_done :: "'a list \<Rightarrow> ('e, 'b) mc_state \<Rightarrow> bool" where
  "mc_done items s \<longleftrightarrow> mc_failed s \<noteq> None \<or> mc_cursor s \<ge> length items \<and> (\<forall>w. mc_busy s w = None)"

section \<open>Lemmas: rules on lines\<close>

lemma assertDistinctProducts_ok:
  "assertDistinctProducts seen i lines = Inr () \<longleftrightarrow>
     distinct (map li_productId lines) \<and> set (map li_productId lines) \<inter> set seen = {}"
  by (induction lines arbitrary: seen i) auto

lemma assertLineRules_ok:
  "assertLineRules n lines = Inr () \<longleftrightarrow> length lines \<le> n \<and> distinct (map li_productId lines)"
  by (auto simp: assertLineRules_def assertDistinctProducts_ok)

lemma map_res_Inr: "map_res f xs = Inr ys \<longleftrightarrow> list_all2 (\<lambda>x y. f x = Inr y) xs ys"
proof (induction xs arbitrary: ys)
  case (Cons x xs)
  then show ?case by (cases ys) (auto simp: bind_res_Inr_iff)
qed auto

lemma map_res_Inl: "map_res f xs = Inl e \<Longrightarrow> \<exists>x\<in>set xs. f x = Inl e"
  by (induction xs) (auto simp: bind_res_Inl_iff)

lemma resolveLine_ok:
  "resolveLine (i, l, p) = Inr r \<longleftrightarrow>
     (\<exists>q. p = Some q \<and> mp_status q = MASTER_DATA_RECORD_STATUS_ACTIVE \<and> r = toResolvedLine (i + 1) l q)"
  by (auto simp: resolveLine_def split: option.splits if_splits)

text \<open>A resolved line is numbered by its position, from one, and carries the requested amount.\<close>

lemma resolveLines_ok:
  assumes "resolveLines api lines ctx = Inr rs"
  shows "length rs = length lines"
    "i < length lines \<Longrightarrow> \<exists>q. getProduct api (li_productId (lines ! i)) ctx = Inr (Some q) \<and>
       mp_status q = MASTER_DATA_RECORD_STATUS_ACTIVE \<and> rs ! i = toResolvedLine (i + 1) (lines ! i) q"
proof -
  from assms obtain ps where ps: "list_all2 (\<lambda>l p. getProduct api (li_productId l) ctx = Inr p) lines ps"
    and rs: "list_all2 (\<lambda>x r. resolveLine x = Inr r) (enumerate 0 (zip lines ps)) rs"
    by (auto simp: resolveLines_def bind_res_Inr_iff map_res_Inr)
  have len: "length ps = length lines" "length rs = length lines"
    using list_all2_lengthD [OF ps] list_all2_lengthD [OF rs] by simp_all
  then show "length rs = length lines" by blast
  assume i: "i < length lines"
  from list_all2_nthD [OF rs, of i] i len have "resolveLine (i, lines ! i, ps ! i) = Inr (rs ! i)"
    by (simp add: nth_enumerate_eq)
  with list_all2_nthD [OF ps i] show "\<exists>q. getProduct api (li_productId (lines ! i)) ctx = Inr (Some q) \<and>
       mp_status q = MASTER_DATA_RECORD_STATUS_ACTIVE \<and> rs ! i = toResolvedLine (i + 1) (lines ! i) q"
    by (auto simp: resolveLine_ok)
qed

section \<open>Lemmas: the concurrent loop\<close>

definition mc_inflight :: "('e, 'b) mc_state \<Rightarrow> nat set" where
  "mc_inflight s = {w. mc_busy s w \<noteq> None}"

text \<open>
  Every index below the cursor has been asked for exactly once, and is waiting, answered or failed;
  \<open>k\<close> counts the steps taken.
\<close>

definition mc_inv :: "('a \<Rightarrow> 'e + 'b) \<Rightarrow> 'a list \<Rightarrow> nat \<Rightarrow> nat \<Rightarrow> ('e, 'b) mc_state \<Rightarrow> bool" where
  "mc_inv f items limit k s \<longleftrightarrow>
     mc_cursor s \<le> length items \<and> mc_calls s = [0..<mc_cursor s] \<and>
     mc_inflight s \<subseteq> {..<min limit (length items)} \<and>
     k + card (mc_inflight s) = 2 * mc_cursor s \<and>
     (\<forall>w i. mc_busy s w = Some i \<longrightarrow> i < mc_cursor s) \<and>
     (\<forall>i<mc_cursor s. (\<exists>w. mc_busy s w = Some i) \<or> (\<exists>y. mc_results s i = Some y) \<or> mc_failed s \<noteq> None) \<and>
     (\<forall>i y. mc_results s i = Some y \<longrightarrow> f (items ! i) = Inr y) \<and>
     (\<forall>e. mc_failed s = Some e \<longrightarrow> (\<exists>x\<in>set items. f x = Inl e)) \<and>
     (\<forall>w. mc_stopped s w \<longrightarrow> mc_failed s \<noteq> None)"

lemma mc_inflight_finite: "mc_inv f items limit k s \<Longrightarrow> finite (mc_inflight s)"
  unfolding mc_inv_def by (blast intro: finite_subset)

lemma mc_take_inv:
  assumes "mc_inv f items limit k s" "w < min limit (length items)" "mc_busy s w = None" "mc_cursor s < length items"
  shows "mc_inv f items limit (Suc k) (s\<lparr> mc_cursor := mc_cursor s + 1,
    mc_busy := (mc_busy s)(w := Some (mc_cursor s)), mc_calls := mc_calls s @ [mc_cursor s] \<rparr>)" (is "mc_inv _ _ _ _ ?s'")
proof -
  note inv = assms(1) [unfolded mc_inv_def]
  have w: "w \<notin> mc_inflight s" using assms(3) by (simp add: mc_inflight_def)
  have "mc_inflight ?s' = insert w (mc_inflight s)" by (auto simp: mc_inflight_def)
  with w mc_inflight_finite [OF assms(1)] have "card (mc_inflight ?s') = Suc (card (mc_inflight s))"
    "mc_inflight ?s' \<subseteq> {..<min limit (length items)}"
    using assms(1,2) by (auto simp: mc_inv_def)
  moreover have "(\<exists>v. mc_busy ?s' v = Some i) \<or> (\<exists>y. mc_results s i = Some y) \<or> mc_failed s \<noteq> None"
    if "i < Suc (mc_cursor s)" for i
  proof (cases "i = mc_cursor s")
    case False
    with that inv consider v where "mc_busy s v = Some i" | "mc_results s i \<noteq> None" | "mc_failed s \<noteq> None"
      by (metis less_Suc_eq option.distinct(1))
    then show ?thesis
    proof cases
      case (1 v)
      then have "mc_busy ?s' v = Some i" using assms(3) by auto
      then show ?thesis by blast
    qed auto
  qed (auto intro!: exI [of _ w])
  moreover have "i < Suc (mc_cursor s)" if "mc_busy ?s' v = Some i" for v i
    using that inv by (auto split: if_splits intro: less_SucI)
  ultimately show ?thesis using inv assms(4) unfolding mc_inv_def by auto
qed

text \<open>An answer frees its worker; it is stored, or it is the failure.\<close>

lemma mc_answer_inv:
  assumes "mc_inv f items limit k s" "mc_busy s w = Some i"
    and "\<And>j y. rs j = Some y \<Longrightarrow> mc_results s j = Some y \<or> f (items ! j) = Inr y"
    and "\<And>j. mc_results s j \<noteq> None \<Longrightarrow> rs j \<noteq> None" "rs i \<noteq> None \<or> fl \<noteq> None"
    and "\<And>e. fl = Some e \<Longrightarrow> mc_failed s = Some e \<or> f (items ! i) = Inl e" "mc_failed s \<noteq> None \<Longrightarrow> fl \<noteq> None"
    and "\<And>v. st v \<Longrightarrow> mc_stopped s v \<or> fl \<noteq> None"
  shows "mc_inv f items limit (Suc k) (s\<lparr> mc_busy := (mc_busy s)(w := None), mc_results := rs, mc_stopped := st,
    mc_failed := fl \<rparr>)" (is "mc_inv _ _ _ _ ?s'")
proof -
  note inv = assms(1) [unfolded mc_inv_def]
  have "w \<in> mc_inflight s" using assms(2) by (simp add: mc_inflight_def)
  then have card: "Suc (card (mc_inflight s - {w})) = card (mc_inflight s)"
    using mc_inflight_finite [OF assms(1)] by (metis card_Suc_Diff1)
  have fly: "mc_inflight ?s' = mc_inflight s - {w}" by (auto simp: mc_inflight_def)
  have i: "i < length items" using inv assms(2) by fastforce
  have "\<exists>x\<in>set items. f x = Inl e" if "fl = Some e" for e
    using assms(6) [OF that] inv nth_mem [OF i] by blast
  moreover have "(\<exists>v. mc_busy ?s' v = Some j) \<or> (\<exists>y. rs j = Some y) \<or> fl \<noteq> None" if "j < mc_cursor s" for j
  proof -
    from inv that consider v where "mc_busy s v = Some j" | "mc_results s j \<noteq> None" | "mc_failed s \<noteq> None" by blast
    then show ?thesis
    proof cases
      case (1 v)
      then show ?thesis using assms(2,5) by (cases "v = w") auto
    qed (use assms(4,7) in auto)
  qed
  moreover have "Suc k + card (mc_inflight ?s') = 2 * mc_cursor s" using inv card fly by simp
  moreover have "mc_inflight ?s' \<subseteq> {..<min limit (length items)}" using inv unfolding fly by blast
  moreover have "f (items ! j) = Inr y" if "rs j = Some y" for j y using assms(3) [OF that] inv by blast
  moreover have "fl \<noteq> None" if "st v" for v using assms(8) [OF that] assms(7) inv by blast
  ultimately show ?thesis using inv unfolding mc_inv_def by auto
qed

lemma mc_step_inv:
  assumes "mc_step f items limit s s'" "mc_inv f items limit k s"
  shows "mc_inv f items limit (Suc k) s'"
  using assms(1)
proof (cases rule: mc_step.cases)
  case (take_index w)
  with mc_take_inv [OF assms(2) take_index(2,4,5)] show ?thesis by simp
next
  case (resolve w i y)
  have "mc_inv f items limit (Suc k) (s\<lparr> mc_busy := (mc_busy s)(w := None),
      mc_results := (mc_results s)(i := Some y), mc_stopped := mc_stopped s, mc_failed := mc_failed s \<rparr>)"
    by (rule mc_answer_inv [OF assms(2) resolve(2)]) (use resolve in \<open>auto split: if_splits\<close>)
  with resolve(1) show ?thesis by simp
next
  case (reject w i e)
  have "mc_inv f items limit (Suc k) (s\<lparr> mc_busy := (mc_busy s)(w := None), mc_results := mc_results s,
      mc_stopped := (mc_stopped s)(w := True), mc_failed := (case mc_failed s of None \<Rightarrow> Some e | r \<Rightarrow> r) \<rparr>)"
    by (rule mc_answer_inv [OF assms(2) reject(2)]) (use reject in \<open>auto split: if_splits option.splits\<close>)
  with reject(1) show ?thesis by simp
qed

lemma mc_run_inv: "(mc_step f items limit ^^ k) mc_init s \<Longrightarrow> mc_inv f items limit k s"
proof (induction k arbitrary: s)
  case 0
  then have "s = mc_init" by simp
  then show ?case by (simp add: mc_inv_def mc_init_def mc_inflight_def)
next
  case (Suc k)
  then show ?case by (auto elim!: relcompp.cases intro: mc_step_inv)
qed

text \<open>A run takes at most two steps per item, and a loop that is not over can always go on.\<close>

lemma mc_run_bound: "(mc_step f items limit ^^ k) mc_init s \<Longrightarrow> k \<le> 2 * length items"
  by (drule mc_run_inv) (simp add: mc_inv_def)

lemma mc_progress:
  assumes "mc_inv f items limit k s" "\<not> mc_done items s" "0 < limit"
  shows "\<exists>s'. mc_step f items limit s s'"
proof (cases "\<exists>w i. mc_busy s w = Some i")
  case True
  then obtain w i where "mc_busy s w = Some i" by blast
  then show ?thesis by (cases "f (items ! i)") (blast intro: mc_step.intros)+
next
  case False
  with assms(2) have c: "mc_cursor s < length items" "mc_failed s = None" by (auto simp: mc_done_def)
  with assms(1) have "\<not> mc_stopped s 0" by (auto simp: mc_inv_def)
  moreover have "0 < min limit (length items)" using c(1) assms(3) by auto
  moreover have "mc_busy s 0 = None" using False by (cases "mc_busy s 0") auto
  ultimately show ?thesis using c(1) mc_step.take_index by blast
qed

text \<open>Whatever the interleaving, a loop that is over without a failure has the mapped list.\<close>

lemma mc_done_result:
  assumes "mc_inv f items limit k s" "mc_done items s"
  shows "case mc_failed s of
      Some e \<Rightarrow> (\<exists>x\<in>set items. f x = Inl e)
    | None \<Rightarrow> (\<exists>ys. map_res f items = Inr ys \<and> (\<forall>i<length items. mc_results s i = Some (ys ! i)))"
proof (cases "mc_failed s")
  case None
  with assms have c: "mc_cursor s = length items" "\<And>w. mc_busy s w = None" by (auto simp: mc_done_def mc_inv_def)
  let ?ys = "map (\<lambda>i. the (mc_results s i)) [0..<length items]"
  have r: "\<exists>y. mc_results s i = Some y" if "i < length items" for i
    using assms(1) that None c by (auto simp: mc_inv_def)
  have f: "f (items ! i) = Inr (the (mc_results s i))" if "i < length items" for i
    using r [OF that] assms(1) by (auto simp: mc_inv_def)
  have "map_res f items = Inr ?ys"
    unfolding map_res_Inr by (auto simp: list_all2_conv_all_nth f)
  moreover have "\<forall>i<length items. mc_results s i = Some (?ys ! i)" using r by auto
  ultimately show ?thesis using None by auto
qed (use assms(1) in \<open>auto simp: mc_inv_def\<close>)

end
