(* ===== verification/Contracts.thy ===== *)
theory Contracts
  imports Messaging
begin

text \<open>
  The dispatch part of the transport contract shared by the order and fulfilment services
  (\<^verbatim>\<open>libs/messaging/src/interfaces/transport.contract.ts\<close>): the batch grant request and decision,
  what their schemas require beyond the types, and the binding check between the two.
\<close>

record batch_item =
  bi_shipmentId :: uuid
  bi_orderId :: uuid
  bi_reservationGroupId :: uuid
  bi_orderVersion :: version
  bi_shipmentVersion :: version
  bi_dispatchRequestId :: uuid

record batch_request =
  br_contractVersion :: nat
  br_tenantId :: uuid
  br_requestId :: uuid
  br_tripId :: uuid
  br_actorId :: uuid
  br_expectedTripVersion :: version
  br_dispatchVersion :: version
  br_approvedPlanId :: uuid
  br_inputHash :: string
  br_shipments :: "batch_item list"

record batch_grant =
  bg_shipmentId :: uuid
  bg_orderId :: uuid
  bg_grantId :: uuid
  bg_orderVersion :: version
  bg_reservationGroupId :: uuid
  bg_dispatchRequestId :: uuid

record batch_binding =
  bb_contractVersion :: nat
  bb_tenantId :: uuid
  bb_requestId :: uuid
  bb_tripId :: uuid
  bb_actorId :: uuid
  bb_dispatchVersion :: version
  bb_approvedPlanId :: uuid
  bb_inputHash :: string
  bb_decidedAt :: instant

datatype batch_decision = GRANTED batch_binding "batch_grant list" | REJECTED batch_binding string

definition TRANSPORT_CONTRACT_VERSION :: nat where "TRANSPORT_CONTRACT_VERSION = 1"

definition transportVersion :: "nat \<Rightarrow> bool" where
  "transportVersion v \<longleftrightarrow> 0 < v \<and> isSafeInteger v"

definition sha256_text :: "string \<Rightarrow> bool" where
  "sha256_text s \<longleftrightarrow> length s = 64 \<and> list_all (\<lambda>c. c \<in> set ''0123456789abcdef'') s"

definition batchRequestValid :: "batch_request \<Rightarrow> bool" where
  "batchRequestValid r \<longleftrightarrow>
     br_contractVersion r = TRANSPORT_CONTRACT_VERSION \<and> transportVersion (br_expectedTripVersion r) \<and>
     transportVersion (br_dispatchVersion r) \<and> sha256_text (br_inputHash r) \<and>
     list_all (\<lambda>i. transportVersion (bi_orderVersion i) \<and> transportVersion (bi_shipmentVersion i)) (br_shipments r) \<and>
     br_shipments r \<noteq> [] \<and>
     length (remdups (map bi_shipmentId (br_shipments r))) = length (br_shipments r) \<and>
     length (remdups (map bi_orderId (br_shipments r))) = length (br_shipments r) \<and>
     length (remdups (map bi_dispatchRequestId (br_shipments r))) = length (br_shipments r)"

fun decision_binding :: "batch_decision \<Rightarrow> batch_binding" where
  "decision_binding (GRANTED b gs) = b"
| "decision_binding (REJECTED b why) = b"

definition batchDecisionValid :: "batch_decision \<Rightarrow> bool" where
  "batchDecisionValid d \<longleftrightarrow>
     bb_contractVersion (decision_binding d) = TRANSPORT_CONTRACT_VERSION \<and>
     transportVersion (bb_dispatchVersion (decision_binding d)) \<and> sha256_text (bb_inputHash (decision_binding d)) \<and>
     (case d of
        GRANTED b gs \<Rightarrow> gs \<noteq> [] \<and> list_all (\<lambda>g. transportVersion (bg_orderVersion g)) gs
      | REJECTED b why \<Rightarrow> why \<noteq> [])"

text \<open>\<open>True\<close> when \<^verbatim>\<open>assertBatchDispatchGrantBinding\<close> does not throw.\<close>

definition assertBatchDispatchGrantBinding :: "batch_request \<Rightarrow> batch_decision \<Rightarrow> bool" where
  "assertBatchDispatchGrantBinding request decision \<longleftrightarrow>
     batchRequestValid request \<and> batchDecisionValid decision \<and>
     (let b = decision_binding decision in
      \<not> (br_tenantId request \<noteq> bb_tenantId b \<or> br_requestId request \<noteq> bb_requestId b \<or>
         br_tripId request \<noteq> bb_tripId b \<or> br_dispatchVersion request \<noteq> bb_dispatchVersion b \<or>
         br_actorId request \<noteq> bb_actorId b \<or> br_approvedPlanId request \<noteq> bb_approvedPlanId b \<or>
         br_inputHash request \<noteq> bb_inputHash b)) \<and>
     (case decision of
        REJECTED _ _ \<Rightarrow> True
      | GRANTED _ grants \<Rightarrow>
          let requested = remdups (map bi_shipmentId (br_shipments request));
              granted = remdups (map bg_shipmentId grants)
          in \<not> (length requested \<noteq> length granted \<or>
                list_ex (\<lambda>s. s \<notin> set granted) requested \<or>
                length (remdups (map bg_orderId grants)) \<noteq> length grants \<or>
                list_ex (\<lambda>item.
                  case List.find (\<lambda>g. bg_shipmentId g = bi_shipmentId item) grants of
                    None \<Rightarrow> True
                  | Some g \<Rightarrow> bg_orderId g \<noteq> bi_orderId item \<or> bg_orderVersion g \<noteq> bi_orderVersion item \<or>
                      bg_reservationGroupId g \<noteq> bi_reservationGroupId item \<or>
                      bg_dispatchRequestId g \<noteq> bi_dispatchRequestId item) (br_shipments request)))"

text \<open>The check accepts a decision built item by item from the request.\<close>

lemma distinct_remdups_length: "length (remdups xs) = length xs \<longleftrightarrow> distinct xs"
  using length_remdups_eq [of xs] by simp

lemma batchRequestValid_distinct:
  assumes "batchRequestValid r"
  shows "distinct (map bi_shipmentId (br_shipments r))" "distinct (map bi_orderId (br_shipments r))"
    "distinct (map bi_dispatchRequestId (br_shipments r))" "br_shipments r \<noteq> []"
  using assms distinct_remdups_length [of "map bi_shipmentId (br_shipments r)"]
    distinct_remdups_length [of "map bi_orderId (br_shipments r)"]
    distinct_remdups_length [of "map bi_dispatchRequestId (br_shipments r)"]
  by (simp_all add: batchRequestValid_def)

end
