(* ===== verification/Order_Base.thy ===== *)
theory Order_Base
  imports Order_References Contracts Inventory_Events
begin

text \<open>
  The order service's tables (\<^verbatim>\<open>prisma/schema.prisma\<close> with the constraints of the migrations), the row
  operations its services use, the views and event payloads of \<^verbatim>\<open>order.mapper.ts\<close>, the outbox
  writer, and the client through which it reaches the inventory service.

  Writes go through \<open>updateOrder\<close>, \<open>createHistory\<close> and the other row operations, which check the unique
  indexes and \<^verbatim>\<open>CHECK\<close> constraints of their table; a violation aborts the transaction. The columns no
  code of the service writes are left out.
\<close>

section \<open>Rows\<close>

record sales_order =
  so_id :: uuid
  so_tenantId :: uuid
  so_orderNumber :: string
  so_customerId :: uuid
  so_deliveryAddressId :: uuid
  so_warehouseId :: uuid
  so_customerSnapshot :: customer_snapshot
  so_deliveryAddressSnapshot :: address_snapshot
  so_warehouseSnapshot :: warehouse_snapshot
  so_currency :: string
  so_status :: order_status
  so_orderSource :: string
  so_idempotencyKey :: "string option"
  so_idempotencyRequestHash :: "string option"
  so_totals :: order_totals
  so_pendingSince :: "instant option"
  so_confirmedAt :: "instant option"
  so_reservationGroupId :: "uuid option"
  so_cancellationRequestedAt :: "instant option"
  so_cancellationReason :: "string option"
  so_cancellationActorId :: "uuid option"
  so_cancellationCorrelationId :: "uuid option"
  so_dispatchRequestId :: "uuid option"
  so_dispatchShipmentId :: "uuid option"
  so_dispatchOrderVersion :: "version option"
  so_dispatchGrantedAt :: "instant option"
  so_dispatchActorId :: "uuid option"
  so_dispatchCorrelationId :: "uuid option"
  so_canceledAt :: "instant option"
  so_completedAt :: "instant option"
  so_cancelReason :: "string option"
  so_createdAt :: instant
  so_updatedAt :: instant
  so_version :: version
  so_deletedAt :: "instant option"

record order_line =
  ol_id :: uuid
  ol_tenantId :: uuid
  ol_orderId :: uuid
  ol_lineNumber :: nat
  ol_productId :: uuid
  ol_skuSnapshot :: string
  ol_productNameSnapshot :: string
  ol_unitSnapshot :: string
  ol_quantity :: qty
  ol_unitWeight :: int
  ol_unitVolume :: int
  ol_deletedAt :: "instant option"

record order_history =
  oh_id :: uuid
  oh_tenantId :: uuid
  oh_orderId :: uuid
  oh_fromStatus :: "order_status option"
  oh_toStatus :: order_status
  oh_reason :: "string option"
  oh_actorId :: "uuid option"
  oh_correlationId :: uuid
  oh_orderVersion :: version
  oh_occurredAt :: instant
  oh_deletedAt :: "instant option"

record order_shortage =
  os_id :: uuid
  os_tenantId :: uuid
  os_orderId :: uuid
  os_productId :: uuid
  os_warehouseId :: uuid
  os_requiredQuantity :: qty
  os_availableQuantity :: qty
  os_shortageHash :: string
  os_detectedAt :: instant
  os_resolvedAt :: "instant option"
  os_version :: version
  os_deletedAt :: "instant option"

record order_dispatch_batch =
  bd_id :: uuid
  bd_tenantId :: uuid
  bd_payload :: batch_request
  bd_decision :: batch_decision

section \<open>Event payloads\<close>

record draft_payload =
  dp_orderId :: uuid
  dp_orderNumber :: string
  dp_status :: string
  dp_customerId :: uuid
  dp_deliveryAddressId :: uuid
  dp_warehouseId :: uuid
  dp_currency :: string
  dp_totalQuantity :: string
  dp_totalWeight :: string
  dp_totalVolume :: string
  dp_orderLines :: "(nat \<times> uuid \<times> string) list"

record order_line_view =
  lv_id :: uuid
  lv_lineNumber :: nat
  lv_productId :: uuid
  lv_skuSnapshot :: string
  lv_productNameSnapshot :: string
  lv_unitSnapshot :: string
  lv_quantity :: string
  lv_unitWeight :: string
  lv_unitVolume :: string

record confirmed_payload =
  cf_orderId :: uuid
  cf_orderNumber :: string
  cf_orderVersion :: version
  cf_reservationGroupId :: uuid
  cf_confirmedAt :: instant
  cf_customerId :: uuid
  cf_deliveryAddressId :: uuid
  cf_warehouseId :: uuid
  cf_customerSnapshot :: customer_snapshot
  cf_deliveryAddressSnapshot :: address_snapshot
  cf_warehouseSnapshot :: warehouse_snapshot
  cf_totalQuantity :: string
  cf_totalWeight :: string
  cf_totalVolume :: string
  cf_orderLines :: "order_line_view list"

datatype ord_payload =
    DraftPayload draft_payload
  | CanceledPayload uuid string string instant string
  | ConfirmedPayload confirmed_payload
  | PendingStockPayload uuid uuid instant "reservation_shortage list"

record ord_db =
  orders :: "sales_order list"
  orderLines :: "order_line list"
  orderHistory :: "order_history list"
  shortages :: "order_shortage list"
  dispatchBatches :: "order_dispatch_batch list"
  orderSequences :: "order_sequence list"
  ord_outbox :: "ord_payload outbox_event list"
  ord_inbox :: "inbox_event list"
  ord_next :: uuid

section \<open>Constraints\<close>

definition fits_numeric18 :: "int \<Rightarrow> bool" where
  "fits_numeric18 x \<longleftrightarrow> \<bar>x\<bar> < 10 ^ 18"

definition totals_fit :: "order_totals \<Rightarrow> bool" where
  "totals_fit t \<longleftrightarrow> fits_numeric18 (ot_totalQuantity t) \<and> fits_numeric18 (ot_totalWeight t) \<and>
     fits_numeric18 (ot_totalVolume t)"

text \<open>\<^verbatim>\<open>ck_sales_orders_pending_since\<close>\<close>

definition ck_pending_since :: "sales_order \<Rightarrow> bool" where
  "ck_pending_since x \<longleftrightarrow> so_status x \<noteq> PENDING_STOCK \<or> so_pendingSince x \<noteq> None"

text \<open>\<^verbatim>\<open>ck_orders_dispatch_decision\<close>: no dispatch column is set, or all are and the order is committed.\<close>

definition no_dispatch :: "sales_order \<Rightarrow> bool" where
  "no_dispatch x \<longleftrightarrow> so_dispatchRequestId x = None \<and> so_dispatchShipmentId x = None \<and>
     so_dispatchOrderVersion x = None \<and> so_dispatchGrantedAt x = None \<and> so_dispatchActorId x = None \<and>
     so_dispatchCorrelationId x = None"

definition dispatch_committed :: "sales_order \<Rightarrow> bool" where
  "dispatch_committed x \<longleftrightarrow> so_dispatchRequestId x \<noteq> None \<and> so_dispatchShipmentId x \<noteq> None \<and>
     (case so_dispatchOrderVersion x of None \<Rightarrow> False | Some v \<Rightarrow> 0 < v) \<and> so_dispatchGrantedAt x \<noteq> None \<and>
     so_dispatchActorId x \<noteq> None \<and> so_dispatchCorrelationId x \<noteq> None \<and> so_reservationGroupId x \<noteq> None \<and>
     so_cancellationRequestedAt x = None \<and> so_canceledAt x = None \<and>
     so_status x \<in> set [READY_TO_SHIP, IN_DELIVERY, DELIVERY_FAILED, COMPLETED]"

definition ck_dispatch_decision :: "sales_order \<Rightarrow> bool" where
  "ck_dispatch_decision x \<longleftrightarrow> no_dispatch x \<or> dispatch_committed x"

definition row_checks :: "sales_order \<Rightarrow> bool" where
  "row_checks x \<longleftrightarrow> ck_pending_since x \<and> ck_dispatch_decision x"

section \<open>Row operations\<close>

definition the_order :: "uuid \<Rightarrow> uuid \<Rightarrow> sales_order \<Rightarrow> bool" where
  "the_order t i x \<longleftrightarrow> so_id x = i \<and> so_tenantId x = t"

definition lines_of :: "uuid \<Rightarrow> ord_db \<Rightarrow> order_line list" where
  "lines_of i db = filter (\<lambda>l. ol_orderId l = i) (orderLines db)"

text \<open>\<^verbatim>\<open>findFirst({ where: { id, tenantId, deletedAt: null } })\<close>, raising when there is no such order.\<close>

definition loadOrder :: "uuid \<Rightarrow> uuid \<Rightarrow> ord_db \<Rightarrow> ord_error + sales_order" where
  "loadOrder tenantId orderId db =
     (case List.find (\<lambda>x. the_order tenantId orderId x \<and> so_deletedAt x = None) (orders db) of
        None \<Rightarrow> Inl (OrderNotFound orderId)
      | Some x \<Rightarrow> Inr x)"

definition dispatch_request_taken :: "sales_order \<Rightarrow> sales_order list \<Rightarrow> bool" where
  "dispatch_request_taken x xs \<longleftrightarrow> so_dispatchRequestId x \<noteq> None \<and>
     exists_row (\<lambda>y. so_id y \<noteq> so_id x \<and> so_tenantId y = so_tenantId x \<and>
       so_dispatchRequestId y = so_dispatchRequestId x) xs"

text \<open>
  \<^verbatim>\<open>salesOrder.update\<close>: the row after \<open>f\<close>, its \<^verbatim>\<open>updatedAt\<close> set, provided the constraints hold.
\<close>

definition updateOrder ::
    "uuid \<Rightarrow> uuid \<Rightarrow> (sales_order \<Rightarrow> sales_order) \<Rightarrow> instant \<Rightarrow> ord_db \<Rightarrow> ord_error + sales_order \<times> ord_db" where
  "updateOrder tenantId orderId f now db =
     (case List.find (the_order tenantId orderId) (orders db) of
        None \<Rightarrow> Inl (OrdPlainError ''P2025'')
      | Some x \<Rightarrow>
          let x' = (f x)\<lparr> so_updatedAt := now \<rparr>
          in if \<not> totals_fit (so_totals x') then Inl OrdNumericOverflow
             else if \<not> row_checks x' then Inl OrdCheckViolation
             else if dispatch_request_taken x' (orders db) then Inl OrdUniqueViolation
             else Inr (x', db\<lparr> orders := update_where (the_order tenantId orderId) (\<lambda>_. x') (orders db) \<rparr>))"

definition createHistory ::
    "uuid \<Rightarrow> uuid \<Rightarrow> order_status option \<Rightarrow> order_status \<Rightarrow> string option \<Rightarrow> uuid option \<Rightarrow> uuid \<Rightarrow> version \<Rightarrow>
     instant \<Rightarrow> ord_db \<Rightarrow> ord_error + ord_db" where
  "createHistory t i from to reason actor corr ver at db =
     (if exists_row (\<lambda>h. oh_tenantId h = t \<and> oh_orderId h = i \<and> oh_orderVersion h = ver) (orderHistory db)
      then Inl OrdUniqueViolation
      else Inr (db\<lparr> orderHistory := orderHistory db @
             [\<lparr> oh_id = ord_next db, oh_tenantId = t, oh_orderId = i, oh_fromStatus = from, oh_toStatus = to,
                oh_reason = reason, oh_actorId = actor, oh_correlationId = corr, oh_orderVersion = ver,
                oh_occurredAt = at, oh_deletedAt = None \<rparr>], ord_next := ord_next db + 1 \<rparr>))"

text \<open>\<^verbatim>\<open>orderShortage.updateMany\<close> over the open shortages of an order.\<close>

definition resolveShortages :: "uuid \<Rightarrow> uuid \<Rightarrow> (order_shortage \<Rightarrow> bool) \<Rightarrow> instant \<Rightarrow> ord_db \<Rightarrow> ord_db" where
  "resolveShortages t i p now db =
     db\<lparr> shortages := update_where
       (\<lambda>s. os_tenantId s = t \<and> os_orderId s = i \<and> os_resolvedAt s = None \<and> os_deletedAt s = None \<and> p s)
       (\<lambda>s. s\<lparr> os_resolvedAt := Some now, os_version := os_version s + 1 \<rparr>) (shortages db) \<rparr>"

definition ord_inbox_create :: "inbox_event \<Rightarrow> ord_db \<Rightarrow> ord_error + ord_db" where
  "ord_inbox_create r db =
     (if inbox_has (ie_consumerName r) (ie_eventId r) (ord_inbox db) then Inl OrdUniqueViolation
      else Inr (db\<lparr> ord_inbox := ord_inbox db @ [r] \<rparr>))"

definition writeOutbox ::
    "uuid \<Rightarrow> string \<Rightarrow> uuid \<Rightarrow> version \<Rightarrow> uuid \<Rightarrow> uuid option \<Rightarrow> uuid option \<Rightarrow> instant \<Rightarrow> ord_payload \<Rightarrow> ord_db \<Rightarrow> ord_db" where
  "writeOutbox t etype i ver corr actor causation at payload db =
     db\<lparr> ord_outbox := ord_outbox db @
          [\<lparr> ob_id = ord_next db, ob_tenantId = t, ob_eventType = etype, ob_eventVersion = 1,
             ob_aggregateType = ''SalesOrder'', ob_aggregateId = i, ob_aggregateVersion = ver,
             ob_correlationId = corr,
             ob_causationId = Some (case causation of Some c \<Rightarrow> c | None \<Rightarrow> corr), ob_payload = payload,
             ob_payloadActor = actor, ob_occurredAt = at, ob_publishedAt = None, ob_attemptCount = 0,
             ob_nextAttemptAt = at, ob_lastError = None, ob_version = 1, ob_deletedAt = None \<rparr>],
         ord_next := ord_next db + 1 \<rparr>"

section \<open>Views\<close>

record order_summary_view =
  ov_id :: uuid
  ov_orderNumber :: string
  ov_status :: order_status
  ov_customerId :: uuid
  ov_customerCode :: string
  ov_customerName :: string
  ov_warehouseId :: uuid
  ov_warehouseCode :: string
  ov_warehouseName :: string
  ov_currency :: string
  ov_totalQuantity :: string
  ov_totalWeight :: string
  ov_totalVolume :: string
  ov_createdAt :: instant
  ov_updatedAt :: instant
  ov_pendingSince :: "instant option"
  ov_cancellationRequestedAt :: "instant option"
  ov_dispatchGrantedAt :: "instant option"
  ov_dispatchShipmentId :: "uuid option"
  ov_version :: version

record order_detail_view = order_summary_view +
  ov_deliveryAddressId :: uuid
  ov_orderSource :: string
  ov_customerSnapshot :: customer_snapshot
  ov_deliveryAddressSnapshot :: address_snapshot
  ov_warehouseSnapshot :: warehouse_snapshot
  ov_confirmedAt :: "instant option"
  ov_reservationGroupId :: "uuid option"
  ov_canceledAt :: "instant option"
  ov_cancelReason :: "string option"
  ov_lines :: "order_line_view list"

record order_history_view =
  hv_id :: uuid
  hv_fromStatus :: "order_status option"
  hv_toStatus :: order_status
  hv_reason :: "string option"
  hv_actorId :: "uuid option"
  hv_correlationId :: uuid
  hv_orderVersion :: version
  hv_occurredAt :: instant

definition toOrderLineView :: "order_line \<Rightarrow> order_line_view" where
  "toOrderLineView l = \<lparr> lv_id = ol_id l, lv_lineNumber = ol_lineNumber l, lv_productId = ol_productId l,
     lv_skuSnapshot = ol_skuSnapshot l, lv_productNameSnapshot = ol_productNameSnapshot l,
     lv_unitSnapshot = ol_unitSnapshot l, lv_quantity = formatQuantity (ol_quantity l),
     lv_unitWeight = formatWeight (ol_unitWeight l), lv_unitVolume = formatVolume (ol_unitVolume l) \<rparr>"

definition toOrderSummaryView :: "sales_order \<Rightarrow> order_summary_view" where
  "toOrderSummaryView x = \<lparr> ov_id = so_id x, ov_orderNumber = so_orderNumber x, ov_status = so_status x,
     ov_customerId = so_customerId x, ov_customerCode = cs_code (so_customerSnapshot x),
     ov_customerName = cs_name (so_customerSnapshot x), ov_warehouseId = so_warehouseId x,
     ov_warehouseCode = ws_code (so_warehouseSnapshot x), ov_warehouseName = ws_name (so_warehouseSnapshot x),
     ov_currency = so_currency x,
     ov_totalQuantity = formatQuantity (ot_totalQuantity (so_totals x)),
     ov_totalWeight = formatWeight (ot_totalWeight (so_totals x)),
     ov_totalVolume = formatVolume (ot_totalVolume (so_totals x)),
     ov_createdAt = so_createdAt x, ov_updatedAt = so_updatedAt x, ov_pendingSince = so_pendingSince x,
     ov_cancellationRequestedAt = so_cancellationRequestedAt x, ov_dispatchGrantedAt = so_dispatchGrantedAt x,
     ov_dispatchShipmentId = so_dispatchShipmentId x, ov_version = so_version x \<rparr>"

definition toOrderDetailView :: "sales_order \<Rightarrow> order_line list \<Rightarrow> order_detail_view" where
  "toOrderDetailView x lines = order_summary_view.extend (toOrderSummaryView x)
     (order_detail_view.fields (so_deliveryAddressId x) (so_orderSource x) (so_customerSnapshot x)
       (so_deliveryAddressSnapshot x) (so_warehouseSnapshot x) (so_confirmedAt x) (so_reservationGroupId x)
       (so_canceledAt x) (so_cancelReason x) (map toOrderLineView (sort_key ol_lineNumber lines)))"

definition toOrderHistoryView :: "order_history \<Rightarrow> order_history_view" where
  "toOrderHistoryView h = \<lparr> hv_id = oh_id h, hv_fromStatus = oh_fromStatus h, hv_toStatus = oh_toStatus h,
     hv_reason = oh_reason h, hv_actorId = oh_actorId h, hv_correlationId = oh_correlationId h,
     hv_orderVersion = oh_orderVersion h, hv_occurredAt = oh_occurredAt h \<rparr>"

definition toOrderDraftPayload :: "sales_order \<Rightarrow> order_line list \<Rightarrow> draft_payload" where
  "toOrderDraftPayload x lines = \<lparr> dp_orderId = so_id x, dp_orderNumber = so_orderNumber x,
     dp_status = status_text (so_status x), dp_customerId = so_customerId x,
     dp_deliveryAddressId = so_deliveryAddressId x, dp_warehouseId = so_warehouseId x,
     dp_currency = so_currency x,
     dp_totalQuantity = formatQuantity (ot_totalQuantity (so_totals x)),
     dp_totalWeight = formatWeight (ot_totalWeight (so_totals x)),
     dp_totalVolume = formatVolume (ot_totalVolume (so_totals x)),
     dp_orderLines = map (\<lambda>l. (ol_lineNumber l, ol_productId l, formatQuantity (ol_quantity l)))
       (sort_key ol_lineNumber lines) \<rparr>"

section \<open>The inventory client\<close>

record request_context =
  qx_tenantId :: uuid
  qx_correlationId :: uuid

text \<open>
  What the inventory service does with each request and what comes back. A reply may be lost although
  the request was carried out, so the remote state is returned beside it.
\<close>

record 'inv inventory_api =
  ia_reserve :: "reserve_dto \<Rightarrow> string \<Rightarrow> request_context \<Rightarrow> instant \<Rightarrow> 'inv \<Rightarrow> reserve_result http_reply \<times> 'inv"
  ia_preview :: "reserve_dto \<Rightarrow> request_context \<Rightarrow> instant \<Rightarrow> 'inv \<Rightarrow> (instant \<times> preview_line list) http_reply"
  ia_release :: "uuid \<Rightarrow> request_context \<Rightarrow> instant \<Rightarrow> 'inv \<Rightarrow> unit http_reply \<times> 'inv"
  ia_active :: "uuid \<Rightarrow> request_context \<Rightarrow> 'inv \<Rightarrow> uuid option http_reply"

definition INVENTORY_SERVICE :: string where
  "INVENTORY_SERVICE = ''inventory-service''"

text \<open>\<open>schema\<close> is what the zod schema of the answer requires beyond its shape.\<close>

definition inventoryPost :: "('a \<Rightarrow> bool) \<Rightarrow> 'a http_reply \<Rightarrow> ord_error + 'a" where
  "inventoryPost schema reply =
     (case reply of
        NetworkFailure \<Rightarrow> Inl (UpstreamUnavailable INVENTORY_SERVICE)
      | HttpReply status body \<Rightarrow>
          if 500 \<le> status then Inl (UpstreamUnavailable INVENTORY_SERVICE)
          else if \<not> http_ok status then Inl (UpstreamRejected INVENTORY_SERVICE status)
          else (case body of
                  None \<Rightarrow> Inl (UpstreamUnavailable INVENTORY_SERVICE)
                | Some x \<Rightarrow> if schema x then Inr x else Inl (UpstreamUnavailable INVENTORY_SERVICE)))"

text \<open>A text of at most 15 integer and 3 fractional digits without a sign.\<close>

definition quantitySchema :: "qty \<Rightarrow> bool" where
  "quantitySchema q \<longleftrightarrow> 0 \<le> q \<and> q < 10 ^ 18"

definition shortageSchema :: "reservation_shortage \<Rightarrow> bool" where
  "shortageSchema s \<longleftrightarrow> quantitySchema (sh_required s) \<and> quantitySchema (sh_available s)"

fun reserveResultSchema :: "reserve_result \<Rightarrow> bool" where
  "reserveResultSchema (RESERVED g) = True"
| "reserveResultSchema (INSUFFICIENT ss) = (list_all shortageSchema ss \<and> ss \<noteq> [])"

definition previewResultSchema :: "instant \<times> preview_line list \<Rightarrow> bool" where
  "previewResultSchema p \<longleftrightarrow> list_all (\<lambda>l. quantitySchema (pl_required l) \<and> quantitySchema (pl_available l)) (snd p) \<and>
     snd p \<noteq> []"

definition inventoryReserve ::
    "'inv inventory_api \<Rightarrow> reserve_dto \<Rightarrow> request_context \<Rightarrow> instant \<Rightarrow> 'inv \<Rightarrow> (ord_error + reserve_result) \<times> 'inv" where
  "inventoryReserve api body ctx now stock =
     (let (reply, stock') = ia_reserve api body (order_key (rd_orderId body) (rd_orderVersion body)) ctx now stock
      in (inventoryPost reserveResultSchema reply, stock'))"

definition inventoryPreview ::
    "'inv inventory_api \<Rightarrow> reserve_dto \<Rightarrow> request_context \<Rightarrow> instant \<Rightarrow> 'inv \<Rightarrow> ord_error + instant \<times> preview_line list" where
  "inventoryPreview api body ctx now stock = inventoryPost previewResultSchema (ia_preview api body ctx now stock)"

definition inventoryRelease ::
    "'inv inventory_api \<Rightarrow> uuid \<Rightarrow> request_context \<Rightarrow> instant \<Rightarrow> 'inv \<Rightarrow> (ord_error + unit) \<times> 'inv" where
  "inventoryRelease api orderId ctx now stock =
     (let (reply, stock') = ia_release api orderId ctx now stock in (inventoryPost (\<lambda>_. True) reply, stock'))"

definition inventoryActive ::
    "'inv inventory_api \<Rightarrow> uuid \<Rightarrow> request_context \<Rightarrow> 'inv \<Rightarrow> ord_error + uuid option" where
  "inventoryActive api orderId ctx stock = inventoryPost (\<lambda>_. True) (ia_active api orderId ctx stock)"

text \<open>
  The inventory service of this repository behind its internal controller; with \<open>lost\<close> every reply is
  lost on the way back.
\<close>

definition inv_ctx :: "request_context \<Rightarrow> reservation_context" where
  "inv_ctx ctx = \<lparr> rc_tenantId = qx_tenantId ctx, rc_correlationId = qx_correlationId ctx, rc_eventId = None \<rparr>"

definition http_send :: "bool \<Rightarrow> 'a http_reply \<Rightarrow> 'a http_reply" where
  "http_send lost reply = (if lost then NetworkFailure else reply)"

definition reservationsInternalController :: "bool \<Rightarrow> inv_db inventory_api" where
  "reservationsInternalController lost =
     \<lparr> ia_reserve = (\<lambda>dto key ctx now db.
         case reserve dto (Some key) (inv_ctx ctx) now db of
           Inl e \<Rightarrow> (http_send lost (HttpReply (inv_http_status e) None), db)
         | Inr (r, db') \<Rightarrow> (http_send lost (HttpReply 201 (Some r)), db')),
       ia_preview = (\<lambda>dto ctx now db.
         case preview dto (inv_ctx ctx) db of
           Inl e \<Rightarrow> http_send lost (HttpReply (inv_http_status e) None)
         | Inr ls \<Rightarrow> http_send lost (HttpReply 201 (Some (now, ls)))),
       ia_release = (\<lambda>orderId ctx now db.
         case release orderId (inv_ctx ctx) None now db of
           Inl e \<Rightarrow> (http_send lost (HttpReply (inv_http_status e) None), db)
         | Inr db' \<Rightarrow> (http_send lost (HttpReply 201 (Some ())), db')),
       ia_active = (\<lambda>orderId ctx db. http_send lost (HttpReply 200 (Some (active orderId (qx_tenantId ctx) db)))) \<rparr>"

section \<open>Environment\<close>

text \<open>
  What the service takes from outside: its configuration, Master Data, the rounding of
  \<^verbatim>\<open>Prisma.Decimal\<close>, and SHA-256 of the JSON texts it hashes (as functions of the content).
\<close>

record order_content =
  nc_customerId :: uuid
  nc_deliveryAddressId :: uuid
  nc_warehouseId :: uuid
  nc_currency :: string
  nc_lines :: "(uuid \<times> qty) list"

record ord_env =
  oe_maxLines :: nat
  oe_batchSize :: nat
  oe_prec :: "int \<Rightarrow> int"
  oe_masterData :: master_data_api
  oe_requestHash :: "order_content \<Rightarrow> string"
  oe_shortageHash :: "uuid \<times> uuid \<times> uuid \<times> qty \<times> qty \<Rightarrow> string"
  oe_batchHash :: "batch_request \<Rightarrow> string"

record order_context =
  oc_tenantId :: uuid
  oc_actorId :: uuid
  oc_correlationId :: uuid
  oc_authorization :: string

end
