(* ===== verification/Order_Commands.thy ===== *)
theory Order_Commands
  imports Order_Base "HOL-Library.Option_ord"
begin

text \<open>
  \<^verbatim>\<open>OrderCommandService\<close>: creating, editing and cancelling an order, and
  \<^verbatim>\<open>OrderCancellationRecoveryService\<close>.

  \<^item> \<open>create\<close> and \<open>update\<close> read the database before they call Master Data and write it afterwards: \<open>db0\<close>
    is the committed state at the first read, \<open>db\<close> the one their transaction starts from.
  \<^item> A cancellation is two transactions with a call of the inventory service between them, so it
    returns the state of both services whatever its outcome.
\<close>

section \<open>Requests\<close>

record create_order_dto =
  cd_customerId :: uuid
  cd_deliveryAddressId :: uuid
  cd_warehouseId :: uuid
  cd_currency :: string
  cd_lines :: "order_line_input list"

record update_order_dto =
  up_version :: version
  up_customerId :: "uuid option"
  up_deliveryAddressId :: "uuid option"
  up_warehouseId :: "uuid option"
  up_currency :: "string option"
  up_lines :: "order_line_input list option"

record cancel_order_dto =
  ca_version :: version
  ca_reason :: string

definition lineInputsValid :: "order_line_input list \<Rightarrow> bool" where
  "lineInputsValid lines \<longleftrightarrow> lines \<noteq> [] \<and> list_all (\<lambda>l. ORDER_QUANTITY_PATTERN (li_quantity l)) lines"

definition createOrderDtoValid :: "create_order_dto \<Rightarrow> bool" where
  "createOrderDtoValid dto \<longleftrightarrow> ORDER_CURRENCY_PATTERN (cd_currency dto) \<and> lineInputsValid (cd_lines dto)"

definition updateOrderDtoValid :: "update_order_dto \<Rightarrow> bool" where
  "updateOrderDtoValid dto \<longleftrightarrow> 1 \<le> up_version dto \<and> isSafeInteger (up_version dto) \<and>
     (case up_currency dto of None \<Rightarrow> True | Some c \<Rightarrow> ORDER_CURRENCY_PATTERN c) \<and>
     (case up_lines dto of None \<Rightarrow> True | Some ls \<Rightarrow> lineInputsValid ls)"

definition cancelOrderDtoValid :: "cancel_order_dto \<Rightarrow> bool" where
  "cancelOrderDtoValid dto \<longleftrightarrow> 1 \<le> ca_version dto \<and> isSafeInteger (ca_version dto) \<and>
     ca_reason dto = trim (ca_reason dto) \<and> ca_reason dto \<noteq> [] \<and> length (ca_reason dto) \<le> 500"

definition normalizeCreate :: "create_order_dto \<Rightarrow> order_content" where
  "normalizeCreate dto = \<lparr> nc_customerId = cd_customerId dto, nc_deliveryAddressId = cd_deliveryAddressId dto,
     nc_warehouseId = cd_warehouseId dto, nc_currency = cd_currency dto,
     nc_lines = map (\<lambda>l. (li_productId l, decimal_value 3 (li_quantity l))) (cd_lines dto) \<rparr>"

definition hashCreateOrderRequest :: "ord_env \<Rightarrow> create_order_dto \<Rightarrow> string" where
  "hashCreateOrderRequest env dto = oe_requestHash env (normalizeCreate dto)"

definition hasUpdatableField :: "update_order_dto \<Rightarrow> bool" where
  "hasUpdatableField dto \<longleftrightarrow> up_customerId dto \<noteq> None \<or> up_deliveryAddressId dto \<noteq> None \<or>
     up_warehouseId dto \<noteq> None \<or> up_currency dto \<noteq> None \<or> up_lines dto \<noteq> None"

definition toUpstreamContext :: "order_context \<Rightarrow> master_data_context" where
  "toUpstreamContext ctx = \<lparr> mx_authorization = oc_authorization ctx, mx_correlationId = oc_correlationId ctx \<rparr>"

definition toRequestContext :: "order_context \<Rightarrow> request_context" where
  "toRequestContext ctx = \<lparr> qx_tenantId = oc_tenantId ctx, qx_correlationId = oc_correlationId ctx \<rparr>"

section \<open>Lines\<close>

definition toLineCreateData :: "uuid \<Rightarrow> uuid \<Rightarrow> resolved_line \<Rightarrow> uuid \<Rightarrow> order_line" where
  "toLineCreateData tenantId orderId line i = \<lparr> ol_id = i, ol_tenantId = tenantId, ol_orderId = orderId,
     ol_lineNumber = rv_lineNumber line, ol_productId = rv_productId line, ol_skuSnapshot = rv_skuSnapshot line,
     ol_productNameSnapshot = rv_productNameSnapshot line, ol_unitSnapshot = rv_unitSnapshot line,
     ol_quantity = rv_quantity line, ol_unitWeight = rv_unitWeight line, ol_unitVolume = rv_unitVolume line,
     ol_deletedAt = None \<rparr>"

fun createLines :: "uuid \<Rightarrow> uuid \<Rightarrow> resolved_line list \<Rightarrow> ord_db \<Rightarrow> ord_error + ord_db" where
  "createLines t i [] db = Inr db"
| "createLines t i (line # lines) db =
     (if \<not> (fits_numeric18 (rv_quantity line) \<and> fits_numeric18 (rv_unitWeight line) \<and> fits_numeric18 (rv_unitVolume line))
      then Inl OrdNumericOverflow
      else if rv_quantity line \<le> 0 \<or> rv_unitWeight line < 0 \<or> rv_unitVolume line < 0 then Inl OrdCheckViolation
      else if exists_row (\<lambda>l. ol_tenantId l = t \<and> ol_orderId l = i \<and>
                (ol_lineNumber l = rv_lineNumber line \<or> ol_productId l = rv_productId line)) (orderLines db)
      then Inl OrdUniqueViolation
      else createLines t i lines (db\<lparr> orderLines := orderLines db @ [toLineCreateData t i line (ord_next db)],
             ord_next := ord_next db + 1 \<rparr>))"

definition deleteLines :: "uuid \<Rightarrow> uuid \<Rightarrow> ord_db \<Rightarrow> ord_db" where
  "deleteLines t i db = db\<lparr> orderLines := filter (\<lambda>l. \<not> (ol_tenantId l = t \<and> ol_orderId l = i)) (orderLines db) \<rparr>"

section \<open>create\<close>

definition findByIdempotencyKey :: "uuid \<Rightarrow> string \<Rightarrow> ord_db \<Rightarrow> sales_order option" where
  "findByIdempotencyKey t key db =
     List.find (\<lambda>x. so_tenantId x = t \<and> so_idempotencyKey x = Some key) (orders db)"

record create_result =
  cr_order :: order_detail_view
  cr_replayed :: bool

definition replay :: "sales_order \<Rightarrow> string \<Rightarrow> ord_db \<Rightarrow> ord_error + create_result" where
  "replay x requestHash db =
     (if so_idempotencyRequestHash x \<noteq> Some requestHash then Inl IdempotencyKeyReused
      else Inr \<lparr> cr_order = toOrderDetailView x (lines_of (so_id x) db), cr_replayed = True \<rparr>)"

definition newOrder ::
    "create_order_dto \<Rightarrow> string \<Rightarrow> string \<Rightarrow> order_context \<Rightarrow> resolved_customer \<Rightarrow> warehouse_snapshot \<Rightarrow> order_totals \<Rightarrow>
     string \<Rightarrow> instant \<Rightarrow> uuid \<Rightarrow> sales_order" where
  "newOrder dto key hash ctx customer warehouse totals orderNumber now i =
     \<lparr> so_id = i, so_tenantId = oc_tenantId ctx, so_orderNumber = orderNumber,
       so_customerId = cd_customerId dto, so_deliveryAddressId = cd_deliveryAddressId dto,
       so_warehouseId = cd_warehouseId dto, so_customerSnapshot = rs_customerSnapshot customer,
       so_deliveryAddressSnapshot = rs_deliveryAddressSnapshot customer, so_warehouseSnapshot = warehouse,
       so_currency = cd_currency dto, so_status = DRAFT, so_orderSource = ''MANUAL'',
       so_idempotencyKey = Some key, so_idempotencyRequestHash = Some hash, so_totals = totals,
       so_pendingSince = None, so_confirmedAt = None, so_reservationGroupId = None,
       so_cancellationRequestedAt = None, so_cancellationReason = None, so_cancellationActorId = None,
       so_cancellationCorrelationId = None, so_dispatchRequestId = None, so_dispatchShipmentId = None,
       so_dispatchOrderVersion = None, so_dispatchGrantedAt = None, so_dispatchActorId = None,
       so_dispatchCorrelationId = None, so_canceledAt = None, so_completedAt = None, so_cancelReason = None,
       so_createdAt = now, so_updatedAt = now, so_version = 1, so_deletedAt = None \<rparr>"

definition insertOrder :: "sales_order \<Rightarrow> ord_db \<Rightarrow> ord_error + ord_db" where
  "insertOrder x db =
     (if \<not> totals_fit (so_totals x) then Inl OrdNumericOverflow
      else if exists_row (\<lambda>y. so_tenantId y = so_tenantId x \<and> so_orderNumber y = so_orderNumber x) (orders db) \<or>
              exists_row (\<lambda>y. so_tenantId y = so_tenantId x \<and> so_idempotencyKey x \<noteq> None \<and>
                so_idempotencyKey y = so_idempotencyKey x) (orders db)
      then Inl OrdUniqueViolation
      else Inr (db\<lparr> orders := orders db @ [x], ord_next := ord_next db + 1 \<rparr>))"

definition createTx ::
    "create_order_dto \<Rightarrow> string \<Rightarrow> string \<Rightarrow> order_context \<Rightarrow> resolved_customer \<Rightarrow> warehouse_snapshot \<Rightarrow>
     resolved_line list \<Rightarrow> order_totals \<Rightarrow> instant \<Rightarrow> ord_db \<Rightarrow> ord_error + sales_order \<times> ord_db" where
  "createTx dto key hash ctx customer warehouse lines totals now db =
     (let (orderNumber, sequences) = nextOrderNumber (oc_tenantId ctx) now (orderSequences db);
          created = newOrder dto key hash ctx customer warehouse totals orderNumber now (ord_next db)
      in bind_res (insertOrder created (db\<lparr> orderSequences := sequences \<rparr>)) (\<lambda>db1.
         bind_res (createLines (oc_tenantId ctx) (so_id created) lines db1) (\<lambda>db2.
         bind_res (createHistory (oc_tenantId ctx) (so_id created) None DRAFT None (Some (oc_actorId ctx))
                     (oc_correlationId ctx) (so_version created) now db2) (\<lambda>db3.
           Inr (created, writeOutbox (oc_tenantId ctx) ''OrderCreated'' (so_id created) (so_version created)
             (oc_correlationId ctx) (Some (oc_actorId ctx)) None now
             (DraftPayload (toOrderDraftPayload created (lines_of (so_id created) db3))) db3)))))"

definition create ::
    "ord_env \<Rightarrow> create_order_dto \<Rightarrow> string option \<Rightarrow> order_context \<Rightarrow> instant \<Rightarrow> ord_db \<Rightarrow> ord_db \<Rightarrow>
     ord_error + create_result \<times> ord_db" where
  "create env dto idempotencyKey ctx now db0 db =
     (case idempotencyKey of
        None \<Rightarrow> Inl IdempotencyKeyRequired
      | Some key \<Rightarrow>
          if \<not> IDEMPOTENCY_KEY_PATTERN key then Inl IdempotencyKeyRequired
          else
            let requestHash = hashCreateOrderRequest env dto in
            case findByIdempotencyKey (oc_tenantId ctx) key db0 of
              Some existing \<Rightarrow> bind_res (replay existing requestHash db0) (\<lambda>r. Inr (r, db))
            | None \<Rightarrow>
                bind_res (assertLineRules (oe_maxLines env) (cd_lines dto)) (\<lambda>_.
                bind_res (resolveCustomer (oe_masterData env) (cd_customerId dto) (cd_deliveryAddressId dto)
                            (toUpstreamContext ctx)) (\<lambda>customer.
                bind_res (resolveWarehouse (oe_masterData env) (cd_warehouseId dto) (toUpstreamContext ctx)) (\<lambda>warehouse.
                bind_res (resolveLines (oe_masterData env) (cd_lines dto) (toUpstreamContext ctx)) (\<lambda>lines.
                  case createTx dto key requestHash ctx customer warehouse lines
                         (calculateOrderTotals (oe_prec env) lines) now db of
                    Inr (x, db') \<Rightarrow>
                      Inr (\<lparr> cr_order = toOrderDetailView x (lines_of (so_id x) db'), cr_replayed = False \<rparr>, db')
                  | Inl e \<Rightarrow>
                      (case findByIdempotencyKey (oc_tenantId ctx) key db of
                         Some winner \<Rightarrow>
                           if e = OrdUniqueViolation
                           then bind_res (replay winner requestHash db) (\<lambda>r. Inr (r, db)) else Inl e
                       | None \<Rightarrow> Inl e))))))"

section \<open>update\<close>

datatype order_action = ACT_UPDATE | ACT_CANCEL

fun action_text :: "order_action \<Rightarrow> string" where
  "action_text ACT_UPDATE = ''UPDATE''"
| "action_text ACT_CANCEL = ''CANCEL''"

definition assertWritable ::
    "sales_order \<Rightarrow> version \<Rightarrow> order_action \<Rightarrow> order_status list \<Rightarrow> ord_error + unit" where
  "assertWritable x expectedVersion action allowedStatuses =
     (if so_dispatchGrantedAt x \<noteq> None then Inl (DispatchCommitted (so_id x))
      else if so_cancellationRequestedAt x \<noteq> None
      then Inl (InvalidTransition (so_id x) (so_status x) ''CANCELLATION_PENDING'')
      else
        let transitionAllowed = (action \<noteq> ACT_CANCEL \<or> canTransition (so_status x) CANCELED)
        in if so_status x \<notin> set allowedStatuses \<or> \<not> transitionAllowed
           then Inl (InvalidTransition (so_id x) (so_status x) (action_text action))
           else if so_version x \<noteq> expectedVersion
           then Inl (VersionConflict (so_id x) expectedVersion (so_version x))
           else Inr ())"

definition guardedUpdate ::
    "uuid \<Rightarrow> uuid \<Rightarrow> version \<Rightarrow> order_action \<Rightarrow> order_status list \<Rightarrow> (sales_order \<Rightarrow> sales_order) \<Rightarrow> instant \<Rightarrow>
     ord_db \<Rightarrow> ord_error + ord_db" where
  "guardedUpdate t i expectedVersion action allowedStatuses f now db =
     (if exists_row (\<lambda>x. the_order t i x \<and> so_deletedAt x = None \<and> so_version x = expectedVersion \<and>
           so_status x \<in> set allowedStatuses) (orders db)
      then bind_res (updateOrder t i f now db) (\<lambda>r. Inr (snd r))
      else bind_res (loadOrder t i db) (\<lambda>latest.
           bind_res (assertWritable latest expectedVersion action allowedStatuses) (\<lambda>_.
             Inl (VersionConflict i expectedVersion (so_version latest)))))"

text \<open>The columns an edit writes.\<close>

definition editOrder ::
    "update_order_dto \<Rightarrow> uuid \<Rightarrow> uuid \<Rightarrow> resolved_customer option \<Rightarrow> warehouse_snapshot option \<Rightarrow> order_totals option \<Rightarrow>
     instant option \<Rightarrow> sales_order \<Rightarrow> sales_order" where
  "editOrder dto customerId deliveryAddressId customer warehouse totals pendingSince x =
     (let x1 = x\<lparr> so_version := so_version x + 1 \<rparr>;
          x2 = (case up_currency dto of None \<Rightarrow> x1 | Some c \<Rightarrow> x1\<lparr> so_currency := c \<rparr>);
          x3 = (case customer of
                  None \<Rightarrow> x2
                | Some c \<Rightarrow> x2\<lparr> so_customerId := customerId, so_deliveryAddressId := deliveryAddressId,
                    so_customerSnapshot := rs_customerSnapshot c,
                    so_deliveryAddressSnapshot := rs_deliveryAddressSnapshot c \<rparr>);
          x4 = (case (warehouse, up_warehouseId dto) of
                  (Some w, Some wid) \<Rightarrow> x3\<lparr> so_warehouseId := wid, so_warehouseSnapshot := w \<rparr>
                | _ \<Rightarrow> x3);
          x5 = (case totals of None \<Rightarrow> x4 | Some t \<Rightarrow> x4\<lparr> so_totals := t \<rparr>)
      in (case pendingSince of None \<Rightarrow> x5 | Some p \<Rightarrow> x5\<lparr> so_pendingSince := Some p \<rparr>))"

definition opt_res :: "('a \<Rightarrow> 'e + 'b) \<Rightarrow> 'a option \<Rightarrow> 'e + 'b option" where
  "opt_res f x = (case x of None \<Rightarrow> Inr None | Some a \<Rightarrow> bind_res (f a) (\<lambda>y. Inr (Some y)))"

definition updateTx ::
    "'inv inventory_api \<Rightarrow> ord_env \<Rightarrow> uuid \<Rightarrow> update_order_dto \<Rightarrow> order_context \<Rightarrow> uuid \<Rightarrow> uuid \<Rightarrow> resolved_customer option \<Rightarrow>
     warehouse_snapshot option \<Rightarrow> resolved_line list option \<Rightarrow> instant \<Rightarrow> 'inv \<Rightarrow> ord_db \<Rightarrow> ord_error + sales_order \<times> ord_db" where
  "updateTx api env orderId dto ctx customerId deliveryAddressId customer warehouse lines now stock db =
     (let t = oc_tenantId ctx in
      bind_res (loadOrder t orderId db) (\<lambda>locked.
      bind_res (assertWritable locked (up_version dto) ACT_UPDATE ORDER_EDITABLE_STATUSES) (\<lambda>_.
      bind_res (inventoryActive api orderId (toRequestContext ctx) stock) (\<lambda>active.
        if active \<noteq> None
        then Inl (InvalidTransition orderId (so_status locked) ''RESERVATION_RECONCILIATION_REQUIRED'')
        else
          let requeue = so_status locked = PENDING_STOCK \<and> (up_lines dto \<noteq> None \<or> up_warehouseId dto \<noteq> None);
              db1 = (if requeue then resolveShortages t orderId (\<lambda>_. True) now db else db);
              data = editOrder dto customerId deliveryAddressId customer warehouse
                (map_option (calculateOrderTotals (oe_prec env)) lines) (if requeue then Some now else None)
          in bind_res (guardedUpdate t orderId (up_version dto) ACT_UPDATE ORDER_EDITABLE_STATUSES data now db1) (\<lambda>db2.
             bind_res (case lines of None \<Rightarrow> Inr db2
                       | Some ls \<Rightarrow> createLines t orderId ls (deleteLines t orderId db2)) (\<lambda>db3.
             bind_res (loadOrder t orderId db3) (\<lambda>x.
               Inr (x, writeOutbox t ''OrderUpdated'' orderId (so_version x) (oc_correlationId ctx)
                 (Some (oc_actorId ctx)) None (so_updatedAt x)
                 (DraftPayload (toOrderDraftPayload x (lines_of orderId db3))) db3))))))))"

definition update ::
    "'inv inventory_api \<Rightarrow> ord_env \<Rightarrow> uuid \<Rightarrow> update_order_dto \<Rightarrow> order_context \<Rightarrow> instant \<Rightarrow> 'inv \<Rightarrow> ord_db \<Rightarrow> ord_db \<Rightarrow>
     ord_error + order_detail_view \<times> ord_db" where
  "update api env orderId dto ctx now stock db0 db =
     (if \<not> hasUpdatableField dto then Inl NoChanges
      else
        bind_res (loadOrder (oc_tenantId ctx) orderId db0) (\<lambda>current.
        bind_res (assertWritable current (up_version dto) ACT_UPDATE ORDER_EDITABLE_STATUSES) (\<lambda>_.
          let customerId = (case up_customerId dto of Some c \<Rightarrow> c | None \<Rightarrow> so_customerId current);
              deliveryAddressId = (case up_deliveryAddressId dto of Some a \<Rightarrow> a | None \<Rightarrow> so_deliveryAddressId current);
              customerChanged = (up_customerId dto \<noteq> None \<or> up_deliveryAddressId dto \<noteq> None);
              md = oe_masterData env; up = toUpstreamContext ctx
          in bind_res (case up_lines dto of None \<Rightarrow> Inr () | Some ls \<Rightarrow> assertLineRules (oe_maxLines env) ls) (\<lambda>_.
             bind_res (opt_res (\<lambda>c. resolveCustomer md c deliveryAddressId up)
                         (if customerChanged then Some customerId else None)) (\<lambda>customer.
             bind_res (opt_res (\<lambda>w. resolveWarehouse md w up) (up_warehouseId dto)) (\<lambda>warehouse.
             bind_res (opt_res (\<lambda>ls. resolveLines md ls up) (up_lines dto)) (\<lambda>lines.
             bind_res (updateTx api env orderId dto ctx customerId deliveryAddressId customer warehouse lines now stock db)
               (\<lambda>(x, db'). Inr (toOrderDetailView x (lines_of orderId db'), db')))))))))"

section \<open>cancel\<close>

text \<open>The first transaction: the durable intent.\<close>

definition requestCancellation ::
    "uuid \<Rightarrow> cancel_order_dto \<Rightarrow> order_context \<Rightarrow> instant \<Rightarrow> ord_db \<Rightarrow> ord_error + ord_db" where
  "requestCancellation orderId dto ctx now db =
     (let t = oc_tenantId ctx in
      bind_res (loadOrder t orderId db) (\<lambda>current.
      bind_res (assertWritable current (ca_version dto) ACT_CANCEL ORDER_CANCELABLE_STATUSES) (\<lambda>_.
      bind_res (updateOrder t orderId (\<lambda>x. x\<lparr> so_cancellationRequestedAt := Some now,
            so_cancellationReason := Some (ca_reason dto), so_cancellationActorId := Some (oc_actorId ctx),
            so_cancellationCorrelationId := Some (oc_correlationId ctx), so_version := so_version x + 1 \<rparr>) now db)
        (\<lambda>r. Inr (snd r)))))"

definition falsy :: "string option \<Rightarrow> bool" where
  "falsy s \<longleftrightarrow> (case s of None \<Rightarrow> True | Some x \<Rightarrow> x = [])"

text \<open>The second transaction, after the stock has been released.\<close>

definition commitCancellation ::
    "uuid \<Rightarrow> uuid \<Rightarrow> uuid option \<Rightarrow> uuid \<Rightarrow> instant \<Rightarrow> ord_db \<Rightarrow> ord_error + sales_order \<times> ord_db" where
  "commitCancellation t orderId actorId correlationId now db =
     bind_res (loadOrder t orderId db) (\<lambda>current.
       if so_dispatchGrantedAt current \<noteq> None then Inl (DispatchCommitted orderId)
       else if so_status current = CANCELED then Inr (current, db)
       else if so_cancellationRequestedAt current = None \<or> falsy (so_cancellationReason current)
       then Inl (InvalidTransition orderId (so_status current) ''NO_CANCELLATION_REQUEST'')
       else
         bind_res (updateOrder t orderId (\<lambda>x. x\<lparr> so_status := CANCELED, so_canceledAt := Some now,
             so_cancelReason := so_cancellationReason current, so_cancellationRequestedAt := None,
             so_version := so_version x + 1 \<rparr>) now db) (\<lambda>(_, db1).
         let db2 = resolveShortages t orderId (\<lambda>_. True) now db1 in
         bind_res (loadOrder t orderId db2) (\<lambda>x.
         bind_res (createHistory t orderId (Some (so_status current)) CANCELED (so_cancellationReason current)
                     actorId correlationId (so_version x) now db2) (\<lambda>db3.
           Inr (x, writeOutbox t ''OrderCanceled'' orderId (so_version x) correlationId actorId None now
             (CanceledPayload orderId (so_orderNumber x) (status_text (so_status current)) now
               (case so_cancellationReason current of Some r \<Rightarrow> r | None \<Rightarrow> [])) db3)))))"

text \<open>The check before the inventory service is called: the answer at once, or the intent to complete.\<close>

definition cancellationIntent :: "uuid \<Rightarrow> uuid \<Rightarrow> ord_db \<Rightarrow> ord_error + order_detail_view + sales_order" where
  "cancellationIntent t orderId db =
     bind_res (loadOrder t orderId db) (\<lambda>intent.
       if so_dispatchGrantedAt intent \<noteq> None then Inl (DispatchCommitted orderId)
       else if so_status intent = CANCELED then Inr (Inl (toOrderDetailView intent (lines_of orderId db)))
       else if so_cancellationRequestedAt intent = None \<or> falsy (so_cancellationReason intent) \<or>
               so_cancellationCorrelationId intent = None
       then Inl (InvalidTransition orderId (so_status intent) ''NO_CANCELLATION_REQUEST'')
       else Inr (Inr intent))"

definition completeCancellation ::
    "'inv inventory_api \<Rightarrow> uuid \<Rightarrow> uuid \<Rightarrow> instant \<Rightarrow> ord_db \<times> 'inv \<Rightarrow> (ord_error + order_detail_view) \<times> ord_db \<times> 'inv" where
  "completeCancellation api t orderId now = (\<lambda>(db, stock).
     case cancellationIntent t orderId db of
       Inl e \<Rightarrow> (Inl e, db, stock)
     | Inr (Inl view) \<Rightarrow> (Inr view, db, stock)
     | Inr (Inr intent) \<Rightarrow>
         (let corr = the (so_cancellationCorrelationId intent);
              (released, stock') = inventoryRelease api orderId \<lparr> qx_tenantId = t, qx_correlationId = corr \<rparr> now stock
          in case bind_res released (\<lambda>_. commitCancellation t orderId (so_cancellationActorId intent) corr now db) of
               Inl e \<Rightarrow> (Inl e, db, stock')
             | Inr (x, db') \<Rightarrow> (Inr (toOrderDetailView x (lines_of orderId db')), db', stock')))"

definition cancel ::
    "'inv inventory_api \<Rightarrow> uuid \<Rightarrow> cancel_order_dto \<Rightarrow> order_context \<Rightarrow> instant \<Rightarrow> ord_db \<times> 'inv \<Rightarrow>
     (ord_error + order_detail_view) \<times> ord_db \<times> 'inv" where
  "cancel api orderId dto ctx now = (\<lambda>(db, stock).
     case requestCancellation orderId dto ctx now db of
       Inl e \<Rightarrow> (Inl e, db, stock)
     | Inr db' \<Rightarrow> completeCancellation api (oc_tenantId ctx) orderId now (db', stock))"

section \<open>Recovery of interrupted cancellations\<close>

definition pendingCancellations :: "nat \<Rightarrow> ord_db \<Rightarrow> sales_order list" where
  "pendingCancellations n db =
     take n (sort_key (\<lambda>x. (so_cancellationRequestedAt x, so_id x))
       (filter (\<lambda>x. so_cancellationRequestedAt x \<noteq> None \<and> so_deletedAt x = None \<and> so_status x \<noteq> CANCELED) (orders db)))"

definition recoverCancellations ::
    "'inv inventory_api \<Rightarrow> ord_env \<Rightarrow> instant \<Rightarrow> ord_db \<times> 'inv \<Rightarrow> ord_db \<times> 'inv" where
  "recoverCancellations api env now w =
     fold (\<lambda>x v. snd (completeCancellation api (so_tenantId x) (so_id x) now v))
       (pendingCancellations (oe_batchSize env) (fst w)) w"

end
