(* ===== verification/Order_Reservation.thy ===== *)
theory Order_Reservation
  imports Order_Commands
begin

text \<open>
  \<^verbatim>\<open>OrderReservationService\<close>: confirming an order against the inventory service, the shortages a refusal
  leaves, the preview, and the answer to the inventory service's reconciler. The row lock of the order
  is held across the remote call, so \<open>confirm\<close> is one step; its transaction may still fail to commit
  after the stock has been reserved (\<open>commits = False\<close>), which is what \<open>reconcile\<close> repairs.
\<close>

record order_reservation_context =
  xc_tenantId :: uuid
  xc_correlationId :: uuid
  xc_actorId :: "uuid option"
  xc_eventId :: "uuid option"
  xc_eventType :: "string option"

definition user_context :: "order_context \<Rightarrow> order_reservation_context" where
  "user_context ctx = \<lparr> xc_tenantId = oc_tenantId ctx, xc_correlationId = oc_correlationId ctx,
     xc_actorId = Some (oc_actorId ctx), xc_eventId = None, xc_eventType = None \<rparr>"

definition xc_request :: "order_reservation_context \<Rightarrow> request_context" where
  "xc_request ctx = \<lparr> qx_tenantId = xc_tenantId ctx, qx_correlationId = xc_correlationId ctx \<rparr>"

definition reservationConsumer :: "uuid \<Rightarrow> string" where
  "reservationConsumer orderId = ''order-reservation:'' @ uuid_text orderId"

definition reserveRequest :: "sales_order \<Rightarrow> order_line list \<Rightarrow> reserve_dto" where
  "reserveRequest x lines = \<lparr> rd_orderId = so_id x, rd_orderVersion = so_version x, rd_warehouseId = so_warehouseId x,
     rd_lines = map (\<lambda>l. \<lparr> rl_orderLineId = ol_id l, rl_productId = ol_productId l, rl_quantity = ol_quantity l \<rparr>) lines \<rparr>"

definition assertConfirmable :: "sales_order \<Rightarrow> bool \<Rightarrow> ord_error + unit" where
  "assertConfirmable x retryOnly =
     (if so_cancellationRequestedAt x \<noteq> None
      then Inl (InvalidTransition (so_id x) (so_status x) ''CANCELLATION_PENDING'')
      else if so_status x \<noteq> PENDING_STOCK \<and> (retryOnly \<or> so_status x \<noteq> DRAFT)
      then Inl (InvalidTransition (so_id x) (so_status x) (if retryOnly then ''RETRY_RESERVATION'' else ''CONFIRM''))
      else Inr ())"

section \<open>Shortages\<close>

definition shortage_hash :: "ord_env \<Rightarrow> sales_order \<Rightarrow> reservation_shortage \<Rightarrow> string" where
  "shortage_hash env x item = oe_shortageHash env
     (so_id x, so_warehouseId x, sh_productId item, sh_required item, sh_available item)"

definition open_shortage :: "uuid \<Rightarrow> uuid \<Rightarrow> order_shortage \<Rightarrow> bool" where
  "open_shortage t i s \<longleftrightarrow> os_tenantId s = t \<and> os_orderId s = i \<and> os_resolvedAt s = None \<and> os_deletedAt s = None"

text \<open>
  Inserting a shortage. The partial unique index \<^verbatim>\<open>ux_open_order_shortage\<close> allows one unresolved row per
  tenant, order and product.
\<close>

definition createShortage ::
    "sales_order \<Rightarrow> reservation_shortage \<Rightarrow> string \<Rightarrow> instant \<Rightarrow> ord_db \<Rightarrow> ord_error + ord_db" where
  "createShortage x item hash detectedAt db =
     (if exists_row (\<lambda>s. os_tenantId s = so_tenantId x \<and> os_orderId s = so_id x \<and>
           os_productId s = sh_productId item \<and> os_resolvedAt s = None) (shortages db)
      then Inl OrdUniqueViolation
      else Inr (db\<lparr> shortages := shortages db @
             [\<lparr> os_id = ord_next db, os_tenantId = so_tenantId x, os_orderId = so_id x,
                os_productId = sh_productId item, os_warehouseId = so_warehouseId x,
                os_requiredQuantity = sh_required item, os_availableQuantity = sh_available item,
                os_shortageHash = hash, os_detectedAt = detectedAt, os_resolvedAt = None, os_version = 1,
                os_deletedAt = None \<rparr>], ord_next := ord_next db + 1 \<rparr>))"

fun saveShortageItems ::
    "ord_env \<Rightarrow> sales_order \<Rightarrow> reservation_shortage list \<Rightarrow> instant \<Rightarrow> ord_db \<Rightarrow> ord_error + ord_db" where
  "saveShortageItems env x [] detectedAt db = Inr db"
| "saveShortageItems env x (item # items) detectedAt db =
     (let hash = shortage_hash env x item in
      case List.find (\<lambda>s. open_shortage (so_tenantId x) (so_id x) s \<and> os_shortageHash s = hash) (shortages db) of
        Some existing \<Rightarrow>
          saveShortageItems env x items detectedAt
            (db\<lparr> shortages := update_where (\<lambda>s. os_id s = os_id existing \<and> os_tenantId s = so_tenantId x)
               (\<lambda>s. s\<lparr> os_requiredQuantity := sh_required item, os_availableQuantity := sh_available item,
                  os_detectedAt := detectedAt, os_version := os_version s + 1 \<rparr>) (shortages db) \<rparr>)
      | None \<Rightarrow>
          bind_res (createShortage x item hash detectedAt db) (saveShortageItems env x items detectedAt))"

definition saveShortages ::
    "ord_env \<Rightarrow> sales_order \<Rightarrow> reservation_shortage list \<Rightarrow> instant \<Rightarrow> ord_db \<Rightarrow> ord_error + ord_db" where
  "saveShortages env x items detectedAt db =
     bind_res (saveShortageItems env x items detectedAt db) (\<lambda>db1.
       Inr (resolveShortages (so_tenantId x) (so_id x)
         (\<lambda>s. os_shortageHash s \<notin> set (map (shortage_hash env x) items)) detectedAt db1))"

section \<open>confirm\<close>

text \<open>The columns the decision writes.\<close>

fun decideOrder :: "reserve_result \<Rightarrow> instant \<Rightarrow> sales_order \<Rightarrow> sales_order" where
  "decideOrder (RESERVED g) now x = x\<lparr> so_status := CONFIRMED, so_version := so_version x + 1,
     so_confirmedAt := Some now, so_reservationGroupId := Some g \<rparr>"
| "decideOrder (INSUFFICIENT ss) now x = x\<lparr> so_status := PENDING_STOCK, so_version := so_version x + 1,
     so_pendingSince := Some (case so_pendingSince x of Some p \<Rightarrow> p | None \<Rightarrow> now) \<rparr>"

definition confirmedPayload :: "sales_order \<Rightarrow> order_line list \<Rightarrow> uuid \<Rightarrow> instant \<Rightarrow> ord_payload" where
  "confirmedPayload x lines g now =
     (let detail = toOrderDetailView x lines in
      ConfirmedPayload \<lparr> cf_orderId = so_id x, cf_orderNumber = so_orderNumber x, cf_orderVersion = so_version x,
        cf_reservationGroupId = g, cf_confirmedAt = now, cf_customerId = ov_customerId detail,
        cf_deliveryAddressId = ov_deliveryAddressId detail, cf_warehouseId = ov_warehouseId detail,
        cf_customerSnapshot = ov_customerSnapshot detail,
        cf_deliveryAddressSnapshot = ov_deliveryAddressSnapshot detail,
        cf_warehouseSnapshot = ov_warehouseSnapshot detail, cf_totalQuantity = ov_totalQuantity detail,
        cf_totalWeight = ov_totalWeight detail, cf_totalVolume = ov_totalVolume detail,
        cf_orderLines = ov_lines detail \<rparr>)"

text \<open>What follows the status update in either case: shortages and the event.\<close>

fun recordDecision ::
    "ord_env \<Rightarrow> order_reservation_context \<Rightarrow> order_status \<Rightarrow> sales_order \<Rightarrow> reserve_result \<Rightarrow> instant \<Rightarrow> ord_db \<Rightarrow>
     ord_error + ord_db" where
  "recordDecision env ctx previous updated (RESERVED g) now db =
     (let db1 = resolveShortages (xc_tenantId ctx) (so_id updated) (\<lambda>_. True) now db in
      Inr (writeOutbox (xc_tenantId ctx) ''OrderConfirmed'' (so_id updated) (so_version updated)
        (xc_correlationId ctx) (xc_actorId ctx) (xc_eventId ctx) now
        (confirmedPayload updated (lines_of (so_id updated) db1) g now) db1))"
| "recordDecision env ctx previous updated (INSUFFICIENT ss) now db =
     bind_res (saveShortages env updated ss now db) (\<lambda>db1.
       Inr (if previous \<noteq> PENDING_STOCK
            then writeOutbox (xc_tenantId ctx) ''OrderPendingStock'' (so_id updated) (so_version updated)
              (xc_correlationId ctx) (xc_actorId ctx) (xc_eventId ctx) now
              (PendingStockPayload (so_id updated) (so_warehouseId updated)
                (case so_pendingSince updated of Some p \<Rightarrow> p | None \<Rightarrow> now) ss) db1
            else db1))"

fun outcome_text :: "reserve_result \<Rightarrow> string" where
  "outcome_text (RESERVED g) = ''RESERVED''"
| "outcome_text (INSUFFICIENT ss) = ''INSUFFICIENT''"

text \<open>Everything the transaction writes once the inventory service has answered.\<close>

definition applyReserveResult ::
    "ord_env \<Rightarrow> order_reservation_context \<Rightarrow> sales_order \<Rightarrow> reserve_result \<Rightarrow> instant \<Rightarrow> ord_db \<Rightarrow>
     ord_error + sales_order \<times> ord_db" where
  "applyReserveResult env ctx current result now db =
     bind_res (updateOrder (xc_tenantId ctx) (so_id current) (decideOrder result now) now db) (\<lambda>(updated, db1).
     bind_res (recordDecision env ctx (so_status current) updated result now db1) (\<lambda>db2.
     bind_res (if so_status current \<noteq> so_status updated
               then createHistory (xc_tenantId ctx) (so_id current) (Some (so_status current)) (so_status updated) None
                      (xc_actorId ctx) (xc_correlationId ctx) (so_version updated) now db2
               else Inr db2) (\<lambda>db3.
     bind_res (case xc_eventId ctx of
                 None \<Rightarrow> Inr db3
               | Some eid \<Rightarrow> ord_inbox_create
                   \<lparr> ie_tenantId = xc_tenantId ctx, ie_consumerName = reservationConsumer (so_id current), ie_eventId = eid,
                     ie_eventType = (case xc_eventType ctx of Some e \<Rightarrow> e | None \<Rightarrow> ''InventoryAvailabilityChanged''),
                     ie_aggregateId = Some (so_id current), ie_aggregateVersion = Some (so_version updated),
                     ie_outcome = outcome_text result \<rparr> db3) (\<lambda>db4.
       Inr (updated, db4)))))"

text \<open>The guards before the remote call: \<open>Inl\<close> an order already handled for this event.\<close>

definition confirmGuards ::
    "uuid \<Rightarrow> version \<Rightarrow> order_reservation_context \<Rightarrow> bool \<Rightarrow> ord_db \<Rightarrow> ord_error + sales_order + sales_order" where
  "confirmGuards orderId expectedVersion ctx retryOnly db =
     bind_res (loadOrder (xc_tenantId ctx) orderId db) (\<lambda>current.
       if (case xc_eventId ctx of
             Some eid \<Rightarrow> inbox_has (reservationConsumer orderId) eid (ord_inbox db) | None \<Rightarrow> False)
       then Inr (Inl current)
       else bind_res (assertConfirmable current retryOnly) (\<lambda>_.
         if so_version current \<noteq> expectedVersion
         then Inl (VersionConflict orderId expectedVersion (so_version current))
         else Inr (Inr current)))"

definition confirm ::
    "'inv inventory_api \<Rightarrow> ord_env \<Rightarrow> bool \<Rightarrow> uuid \<Rightarrow> version \<Rightarrow> order_reservation_context \<Rightarrow> bool \<Rightarrow> instant \<Rightarrow>
     ord_db \<times> 'inv \<Rightarrow> (ord_error + order_detail_view) \<times> ord_db \<times> 'inv" where
  "confirm api env commits orderId expectedVersion ctx retryOnly now = (\<lambda>(db, stock).
     case confirmGuards orderId expectedVersion ctx retryOnly db of
       Inl e \<Rightarrow> (Inl e, db, stock)
     | Inr (Inl x) \<Rightarrow> (Inr (toOrderDetailView x (lines_of orderId db)), db, stock)
     | Inr (Inr current) \<Rightarrow>
         (let (answer, stock') =
                inventoryReserve api (reserveRequest current (lines_of orderId db)) (xc_request ctx) now stock
          in case bind_res answer (\<lambda>result. applyReserveResult env ctx current result now db) of
               Inl e \<Rightarrow> (Inl e, db, stock')
             | Inr (x, db') \<Rightarrow>
                 if commits then (Inr (toOrderDetailView x (lines_of orderId db')), db', stock')
                 else (Inl OrdCommitFailed, db, stock')))"

section \<open>reconcile, preview, shortages\<close>

record reconcile_dto =
  rq_reservationGroupId :: uuid
  rq_request :: reserve_dto

definition same_content :: "sales_order \<Rightarrow> order_line list \<Rightarrow> reserve_dto \<Rightarrow> bool" where
  "same_content x lines dto \<longleftrightarrow>
     \<not> (so_version x \<noteq> rd_orderVersion dto \<or> so_warehouseId x \<noteq> rd_warehouseId dto \<or>
        length lines \<noteq> length (rd_lines dto) \<or>
        list_ex (\<lambda>line. \<not> list_ex (\<lambda>saved. ol_id saved = rl_orderLineId line \<and> ol_productId saved = rl_productId line \<and>
          ol_quantity saved = rl_quantity line) lines) (rd_lines dto))"

definition reconcileReservation ::
    "'inv inventory_api \<Rightarrow> ord_env \<Rightarrow> bool \<Rightarrow> reconcile_dto \<Rightarrow> order_reservation_context \<Rightarrow> instant \<Rightarrow>
     ord_db \<times> 'inv \<Rightarrow> (ord_error + reconcile_decision) \<times> ord_db \<times> 'inv" where
  "reconcileReservation api env commits dto ctx now w =
     (let db = fst w; oid = rd_orderId (rq_request dto) in
      case List.find (\<lambda>x. the_order (xc_tenantId ctx) oid x \<and> so_deletedAt x = None) (orders db) of
        None \<Rightarrow> (Inr RELEASE, w)
      | Some x \<Rightarrow>
          if so_status x = CANCELED then (Inr RELEASE, w)
          else if so_cancellationRequestedAt x \<noteq> None then (Inr KEEP, w)
          else if so_reservationGroupId x = Some (rq_reservationGroupId dto) then (Inr ACKNOWLEDGE, w)
          else if so_status x \<noteq> DRAFT \<and> so_status x \<noteq> PENDING_STOCK then (Inr RELEASE, w)
          else if \<not> same_content x (lines_of oid db) (rq_request dto) then (Inr RELEASE, w)
          else
            (case confirm api env commits oid (rd_orderVersion (rq_request dto)) ctx False now w of
               (Inl e, w') \<Rightarrow> (Inl e, w')
             | (Inr view, w') \<Rightarrow>
                 if ov_reservationGroupId view \<noteq> Some (rq_reservationGroupId dto)
                 then (Inl (OrdPlainError ''Recovered order references a different reservation''), w')
                 else (Inr ACKNOWLEDGE, w')))"

definition previewConfirmation ::
    "'inv inventory_api \<Rightarrow> uuid \<Rightarrow> order_reservation_context \<Rightarrow> instant \<Rightarrow> ord_db \<Rightarrow> 'inv \<Rightarrow>
     ord_error + (instant \<times> preview_line list) \<times> version" where
  "previewConfirmation api orderId ctx now db stock =
     bind_res (loadOrder (xc_tenantId ctx) orderId db) (\<lambda>x.
     bind_res (assertConfirmable x False) (\<lambda>_.
     bind_res (inventoryPreview api (reserveRequest x (lines_of orderId db)) (xc_request ctx) now stock) (\<lambda>p.
       Inr (p, so_version x))))"

record shortage_view =
  sv_id :: uuid
  sv_productId :: uuid
  sv_warehouseId :: uuid
  sv_required :: string
  sv_available :: string
  sv_detectedAt :: instant

definition listShortages :: "uuid \<Rightarrow> uuid \<Rightarrow> ord_db \<Rightarrow> ord_error + shortage_view list" where
  "listShortages t orderId db =
     bind_res (loadOrder t orderId db) (\<lambda>_.
       Inr (map (\<lambda>s. \<lparr> sv_id = os_id s, sv_productId = os_productId s, sv_warehouseId = os_warehouseId s,
              sv_required = toFixed 3 (os_requiredQuantity s), sv_available = toFixed 3 (os_availableQuantity s),
              sv_detectedAt = os_detectedAt s \<rparr>)
         (sort_key (\<lambda>s. (- int (os_detectedAt s), os_productId s)) (filter (open_shortage t orderId) (shortages db)))))"

end
