(* ===== verification/Order_Dispatch.thy ===== *)
theory Order_Dispatch
  imports Order_Reservation
begin

text \<open>
  The irrevocable dispatch decision: \<^verbatim>\<open>OrderDispatchService.authorize\<close> for one order and
  \<^verbatim>\<open>OrderDispatchBatchService.authorize\<close> for the orders of a trip, granted together or not at all and
  answered again from the stored decision.
\<close>

section \<open>One order\<close>

record dispatch_request =
  dq_requestId :: uuid
  dq_shipmentId :: uuid
  dq_reservationGroupId :: uuid
  dq_orderVersion :: version
  dq_actorId :: uuid

record dispatch_grant =
  dg_orderId :: uuid
  dg_requestId :: uuid
  dg_shipmentId :: uuid
  dg_reservationGroupId :: uuid
  dg_orderVersion :: version
  dg_actorId :: uuid
  dg_grantedAt :: instant
  dg_correlationId :: uuid

definition toGrant :: "sales_order \<Rightarrow> ord_error + dispatch_grant" where
  "toGrant x =
     (case (so_dispatchRequestId x, so_dispatchShipmentId x, so_dispatchOrderVersion x, so_dispatchGrantedAt x,
            so_dispatchActorId x, so_dispatchCorrelationId x, so_reservationGroupId x) of
        (Some r, Some s, Some v, Some at, Some a, Some c, Some g) \<Rightarrow>
          Inr \<lparr> dg_orderId = so_id x, dg_requestId = r, dg_shipmentId = s, dg_reservationGroupId = g,
                dg_orderVersion = v, dg_actorId = a, dg_grantedAt = at, dg_correlationId = c \<rparr>
      | _ \<Rightarrow> Inl (OrdPlainError ''Incomplete persisted order dispatch decision''))"

definition grantDispatch :: "dispatch_request \<Rightarrow> uuid \<Rightarrow> instant \<Rightarrow> sales_order \<Rightarrow> sales_order" where
  "grantDispatch r corr now x = x\<lparr> so_dispatchRequestId := Some (dq_requestId r),
     so_dispatchShipmentId := Some (dq_shipmentId r), so_dispatchOrderVersion := Some (dq_orderVersion r),
     so_dispatchActorId := Some (dq_actorId r), so_dispatchCorrelationId := Some corr,
     so_dispatchGrantedAt := Some now, so_version := so_version x + 1 \<rparr>"

definition authorizeTx ::
    "uuid \<Rightarrow> uuid \<Rightarrow> dispatch_request \<Rightarrow> uuid \<Rightarrow> instant \<Rightarrow> ord_db \<Rightarrow> ord_error + dispatch_grant \<times> ord_db" where
  "authorizeTx t orderId request corr now db =
     bind_res (loadOrder t orderId db) (\<lambda>x.
       if so_dispatchGrantedAt x \<noteq> None then
         bind_res (toGrant x) (\<lambda>grant.
           if dg_requestId grant \<noteq> dq_requestId request \<or> dg_shipmentId grant \<noteq> dq_shipmentId request \<or>
              dg_reservationGroupId grant \<noteq> dq_reservationGroupId request \<or>
              dg_orderVersion grant \<noteq> dq_orderVersion request \<or> dg_actorId grant \<noteq> dq_actorId request
           then Inl (DispatchRequestConflict orderId)
           else Inr (grant, db))
       else if so_cancellationRequestedAt x \<noteq> None
       then Inl (InvalidTransition orderId (so_status x) ''CANCELLATION_PENDING'')
       else if so_status x \<noteq> READY_TO_SHIP then Inl (InvalidTransition orderId (so_status x) ''DISPATCH'')
       else if so_version x \<noteq> dq_orderVersion request
       then Inl (VersionConflict orderId (dq_orderVersion request) (so_version x))
       else if so_reservationGroupId x \<noteq> Some (dq_reservationGroupId request)
       then Inl (ReservationMismatch orderId)
       else
         bind_res (updateOrder t orderId (grantDispatch request corr now) now db) (\<lambda>(granted, db').
         bind_res (toGrant granted) (\<lambda>grant. Inr (grant, db'))))"

definition authorize ::
    "uuid \<Rightarrow> uuid \<Rightarrow> dispatch_request \<Rightarrow> uuid \<Rightarrow> instant \<Rightarrow> ord_db \<Rightarrow> ord_error + dispatch_grant \<times> ord_db" where
  "authorize t orderId request corr now db =
     (case authorizeTx t orderId request corr now db of
        Inl e \<Rightarrow> Inl (if e = OrdUniqueViolation then DispatchRequestConflict orderId else e)
      | Inr r \<Rightarrow> Inr r)"

section \<open>A batch\<close>

definition item_dispatchable :: "uuid \<Rightarrow> batch_item \<Rightarrow> ord_db \<Rightarrow> bool" where
  "item_dispatchable t item db =
     (case List.find (\<lambda>x. the_order t (bi_orderId item) x \<and> so_deletedAt x = None) (orders db) of
        None \<Rightarrow> False
      | Some x \<Rightarrow> \<not> (so_dispatchGrantedAt x \<noteq> None \<or> so_cancellationRequestedAt x \<noteq> None \<or>
          so_status x \<noteq> READY_TO_SHIP \<or> so_version x \<noteq> bi_orderVersion item \<or>
          so_reservationGroupId x \<noteq> Some (bi_reservationGroupId item)))"

definition child_request_used :: "uuid \<Rightarrow> batch_item \<Rightarrow> ord_db \<Rightarrow> bool" where
  "child_request_used t item db =
     exists_row (\<lambda>x. so_tenantId x = t \<and> so_dispatchRequestId x = Some (bi_dispatchRequestId item)) (orders db)"

text \<open>The loop over the items in the order of their orders: the first reason to reject.\<close>

fun batchReason :: "uuid \<Rightarrow> batch_item list \<Rightarrow> ord_db \<Rightarrow> string option" where
  "batchReason t [] db = None"
| "batchReason t (item # items) db =
     (if \<not> item_dispatchable t item db then Some ''ORDER_NOT_DISPATCHABLE''
      else if child_request_used t item db then Some ''CHILD_REQUEST_ALREADY_USED''
      else batchReason t items db)"

definition batchBinding :: "batch_request \<Rightarrow> instant \<Rightarrow> batch_binding" where
  "batchBinding r now = \<lparr> bb_contractVersion = br_contractVersion r, bb_tenantId = br_tenantId r,
     bb_requestId = br_requestId r, bb_tripId = br_tripId r, bb_actorId = br_actorId r,
     bb_dispatchVersion = br_dispatchVersion r, bb_approvedPlanId = br_approvedPlanId r,
     bb_inputHash = br_inputHash r, bb_decidedAt = now \<rparr>"

definition itemGrant :: "batch_item \<Rightarrow> batch_grant" where
  "itemGrant item = \<lparr> bg_shipmentId = bi_shipmentId item, bg_orderId = bi_orderId item,
     bg_grantId = bi_dispatchRequestId item, bg_orderVersion = bi_orderVersion item,
     bg_reservationGroupId = bi_reservationGroupId item, bg_dispatchRequestId = bi_dispatchRequestId item \<rparr>"

definition itemRequest :: "batch_request \<Rightarrow> batch_item \<Rightarrow> dispatch_request" where
  "itemRequest r item = \<lparr> dq_requestId = bi_dispatchRequestId item, dq_shipmentId = bi_shipmentId item,
     dq_reservationGroupId = bi_reservationGroupId item, dq_orderVersion = bi_orderVersion item,
     dq_actorId = br_actorId r \<rparr>"

fun grantItems :: "batch_request \<Rightarrow> batch_item list \<Rightarrow> instant \<Rightarrow> ord_db \<Rightarrow> ord_error + ord_db" where
  "grantItems r [] now db = Inr db"
| "grantItems r (item # items) now db =
     bind_res (updateOrder (br_tenantId r) (bi_orderId item)
                 (grantDispatch (itemRequest r item) (br_requestId r) now) now db)
       (\<lambda>(_, db'). grantItems r items now db')"

definition createBatch :: "batch_request \<Rightarrow> batch_decision \<Rightarrow> ord_db \<Rightarrow> ord_error + ord_db" where
  "createBatch r d db =
     (if exists_row (\<lambda>b. bd_id b = br_requestId r) (dispatchBatches db) then Inl OrdUniqueViolation
      else Inr (db\<lparr> dispatchBatches := dispatchBatches db @
             [\<lparr> bd_id = br_requestId r, bd_tenantId = br_tenantId r, bd_payload = r, bd_decision = d \<rparr>] \<rparr>))"

definition batchDecision :: "batch_request \<Rightarrow> instant \<Rightarrow> ord_db \<Rightarrow> batch_decision" where
  "batchDecision r now db =
     (case batchReason (br_tenantId r) (sort_key bi_orderId (br_shipments r)) db of
        Some reason \<Rightarrow> REJECTED (batchBinding r now) reason
      | None \<Rightarrow> GRANTED (batchBinding r now) (map itemGrant (br_shipments r)))"

definition authorizeBatch ::
    "ord_env \<Rightarrow> batch_request \<Rightarrow> instant \<Rightarrow> ord_db \<Rightarrow> ord_error + batch_decision \<times> ord_db" where
  "authorizeBatch env r now db =
     (if \<not> batchRequestValid r then Inl (OrdPlainError ''ZodError'')
      else
        case List.find (\<lambda>b. bd_tenantId b = br_tenantId r \<and> bd_id b = br_requestId r) (dispatchBatches db) of
          Some prior \<Rightarrow>
            if oe_batchHash env (bd_payload prior) \<noteq> oe_batchHash env r
            then Inl (DispatchRequestConflict (bi_orderId (hd (br_shipments r))))
            else Inr (bd_decision prior, db)
        | None \<Rightarrow>
            let decision = batchDecision r now db in
            bind_res (case decision of
                        GRANTED _ _ \<Rightarrow> grantItems r (sort_key bi_orderId (br_shipments r)) now db
                      | REJECTED _ _ \<Rightarrow> Inr db) (\<lambda>db1.
            bind_res (createBatch r decision db1) (\<lambda>db2. Inr (decision, db2))))"

end
