(* ===== verification/Order_Events.thy ===== *)
theory Order_Events
  imports Order_Dispatch
begin

text \<open>
  The event handlers of the order service: the projection of shipment events on the order
  (\<^verbatim>\<open>OrderShipmentEventsService\<close>), the retry of waiting orders when stock becomes available
  (\<^verbatim>\<open>OrderStockEventsService\<close>), and its queries (\<^verbatim>\<open>OrderQueryService\<close>).
\<close>

section \<open>Shipment events\<close>

definition shipment_consumer :: string where
  "shipment_consumer = ''order-shipment-lifecycle''"

definition TARGETS :: "string \<Rightarrow> order_status option" where
  "TARGETS e =
     (if e = ''ShipmentPicking'' then Some PICKING
      else if e = ''ShipmentReadyToShip'' then Some READY_TO_SHIP
      else if e = ''ShipmentDispatched'' then Some IN_DELIVERY
      else if e = ''ShipmentDelivered'' then Some COMPLETED
      else if e = ''ShipmentDeliveryFailed'' then Some DELIVERY_FAILED
      else None)"

text \<open>The version of the last applied event of the shipment, the greatest one on record.\<close>

definition applied_versions :: "uuid \<Rightarrow> uuid \<Rightarrow> ord_db \<Rightarrow> version list" where
  "applied_versions t shipmentId db =
     List.map_filter ie_aggregateVersion
       (filter (\<lambda>r. ie_tenantId r = t \<and> ie_consumerName r = shipment_consumer \<and>
          ie_aggregateId r = Some shipmentId \<and> ie_outcome r = ''APPLIED'') (ord_inbox db))"

definition previousVersion :: "uuid \<Rightarrow> uuid \<Rightarrow> ord_db \<Rightarrow> version" where
  "previousVersion t shipmentId db = foldl max 0 (applied_versions t shipmentId db)"

definition projectStatus :: "order_status \<Rightarrow> instant \<Rightarrow> sales_order \<Rightarrow> sales_order" where
  "projectStatus target at x =
     (let x1 = x\<lparr> so_status := target, so_version := so_version x + 1 \<rparr>
      in if target = COMPLETED then x1\<lparr> so_completedAt := Some at \<rparr> else x1)"

definition projectable :: "'p envelope \<Rightarrow> shipment_lifecycle \<Rightarrow> order_status \<Rightarrow> sales_order \<Rightarrow> ord_db \<Rightarrow> bool" where
  "projectable event payload target x db \<longleftrightarrow>
     (previousVersion (ev_tenantId event) (sl_shipmentId payload) db = 0 \<or>
      previousVersion (ev_tenantId event) (sl_shipmentId payload) db < ev_aggregateVersion event) \<and>
     so_cancellationRequestedAt x = None \<and> canTransition (so_status x) target \<and>
     \<not> (target = IN_DELIVERY \<and> so_status x \<noteq> READY_TO_SHIP)"

definition applyProjection ::
    "'p envelope \<Rightarrow> shipment_lifecycle \<Rightarrow> order_status \<Rightarrow> instant \<Rightarrow> sales_order \<Rightarrow> ord_db \<Rightarrow> ord_error + ord_db" where
  "applyProjection event payload target now x db =
     (if target = IN_DELIVERY \<and>
         (so_dispatchRequestId x \<noteq> sl_dispatchRequestId payload \<or> so_dispatchGrantedAt x = None)
      then Inl (OrdPlainError ''Dispatch event has no matching Order grant'')
      else
        bind_res (updateOrder (so_tenantId x) (so_id x) (projectStatus target (ev_occurredAt event)) now db)
          (\<lambda>(updated, db1).
            createHistory (ev_tenantId event) (so_id x) (Some (so_status x)) target (sl_reason payload)
              (ev_actorId event) (ev_correlationId event) (so_version updated) now db1))"

definition shipmentInboxRow :: "'p envelope \<Rightarrow> string \<Rightarrow> inbox_event" where
  "shipmentInboxRow event outcome = \<lparr> ie_tenantId = ev_tenantId event, ie_consumerName = shipment_consumer,
     ie_eventId = ev_eventId event, ie_eventType = ev_eventType event, ie_aggregateId = Some (ev_aggregateId event),
     ie_aggregateVersion = Some (ev_aggregateVersion event), ie_outcome = outcome \<rparr>"

definition projectShipmentTx ::
    "'p envelope \<Rightarrow> shipment_lifecycle \<Rightarrow> order_status \<Rightarrow> instant \<Rightarrow> ord_db \<Rightarrow> ord_error + ord_db" where
  "projectShipmentTx event payload target now db =
     (if inbox_has shipment_consumer (ev_eventId event) (ord_inbox db) then Inr db
      else
        case loadOrder (ev_tenantId event) (sl_orderId payload) db of
          Inl _ \<Rightarrow> Inl (OrdPlainError ''Shipment references unknown order'')
        | Inr x \<Rightarrow>
            if so_reservationGroupId x \<noteq> Some (sl_reservationGroupId payload) \<or>
               so_warehouseId x \<noteq> sl_warehouseId payload \<or>
               (so_dispatchShipmentId x \<noteq> None \<and> so_dispatchShipmentId x \<noteq> Some (sl_shipmentId payload))
            then Inl (OrdPlainError ''Shipment projection ownership mismatch'')
            else if projectable event payload target x db
            then bind_res (applyProjection event payload target now x db)
                   (ord_inbox_create (shipmentInboxRow event ''APPLIED''))
            else ord_inbox_create (shipmentInboxRow event ''IGNORED_STALE'') db)"

definition handleShipmentEvent ::
    "instant \<Rightarrow> shipment_lifecycle option envelope \<Rightarrow> ord_db \<Rightarrow> ord_error + ord_db" where
  "handleShipmentEvent now event db =
     (case TARGETS (ev_eventType event) of
        None \<Rightarrow> Inr db
      | Some target \<Rightarrow>
          if \<not> validateShipmentEnvelope event ''fulfillment-service'' ''Shipment''
          then Inl (OrdPlainError ''Invalid shipment envelope'')
          else
            (case ev_payload event of
               None \<Rightarrow> Inl (OrdPlainError ''ZodError'')
             | Some payload \<Rightarrow>
                 if sl_shipmentId payload \<noteq> ev_aggregateId event
                 then Inl (OrdPlainError ''Shipment aggregate mismatch'')
                 else projectShipmentTx event payload target now db))"

section \<open>Stock events\<close>

definition stock_consumer :: string where
  "stock_consumer = ''order-stock-events''"

text \<open>The fields the four payload schemas read; in a received event \<open>None\<close> is a payload its schema rejects.\<close>

datatype stock_payload =
    StockReceivedView uuid uuid
  | StockReleasedView uuid "uuid list"
  | OrderPendingView uuid "uuid list"
  | OrderUpdatedView string uuid "uuid list"

fun payload_warehouse :: "stock_payload \<Rightarrow> uuid" where
  "payload_warehouse (StockReceivedView w p) = w"
| "payload_warehouse (StockReleasedView w ps) = w"
| "payload_warehouse (OrderPendingView w ps) = w"
| "payload_warehouse (OrderUpdatedView s w ps) = w"

fun payload_products :: "stock_payload \<Rightarrow> uuid list" where
  "payload_products (StockReceivedView w p) = [p]"
| "payload_products (StockReleasedView w ps) = ps"
| "payload_products (OrderPendingView w ps) = ps"
| "payload_products (OrderUpdatedView s w ps) = ps"

text \<open>The schema of the event type accepts the payload.\<close>

fun stock_payload_parses :: "string \<Rightarrow> stock_payload \<Rightarrow> bool" where
  "stock_payload_parses e (StockReceivedView w p) = (e = ''StockReceived'')"
| "stock_payload_parses e (StockReleasedView w ps) = (e = ''StockReleased'' \<and> ps \<noteq> [])"
| "stock_payload_parses e (OrderPendingView w ps) = (e = ''OrderPendingStock'' \<and> ps \<noteq> [])"
| "stock_payload_parses e (OrderUpdatedView s w ps) = (e = ''OrderUpdated'' \<and> ps \<noteq> [])"

definition fifo_candidate :: "uuid \<Rightarrow> uuid \<Rightarrow> uuid list \<Rightarrow> ord_db \<Rightarrow> sales_order \<Rightarrow> bool" where
  "fifo_candidate t w products db x \<longleftrightarrow> so_tenantId x = t \<and> so_warehouseId x = w \<and> so_status x = PENDING_STOCK \<and>
     so_cancellationRequestedAt x = None \<and> so_deletedAt x = None \<and>
     list_ex (\<lambda>l. ol_productId l \<in> set products \<and> ol_deletedAt l = None) (lines_of (so_id x) db)"

definition fifoCandidates :: "uuid \<Rightarrow> uuid \<Rightarrow> uuid list \<Rightarrow> ord_db \<Rightarrow> sales_order list" where
  "fifoCandidates t w products db =
     sort_key (\<lambda>x. (so_pendingSince x, so_id x)) (filter (fifo_candidate t w products db) (orders db))"

definition stockContext :: "'p envelope \<Rightarrow> order_reservation_context" where
  "stockContext event = \<lparr> xc_tenantId = ev_tenantId event, xc_correlationId = ev_correlationId event, xc_actorId = None,
     xc_eventId = Some (ev_eventId event), xc_eventType = Some (ev_eventType event) \<rparr>"

definition skippable :: "ord_error \<Rightarrow> bool" where
  "skippable e \<longleftrightarrow> ord_reason e = Some ''ORDER_VERSION_CONFLICT'' \<or> ord_reason e = Some ''ORDER_INVALID_TRANSITION''"

text \<open>
  The loop: each candidate is confirmed in a transaction of its own; a stale candidate is skipped, any
  other error ends the loop. The decisions taken before it stay.
\<close>

fun retryCandidates ::
    "'inv inventory_api \<Rightarrow> ord_env \<Rightarrow> instant \<Rightarrow> order_reservation_context \<Rightarrow> sales_order list \<Rightarrow> ord_db \<times> 'inv \<Rightarrow>
     ord_error option \<times> ord_db \<times> 'inv" where
  "retryCandidates api env now ctx [] w = (None, w)"
| "retryCandidates api env now ctx (x # xs) w =
     (case confirm api env True (so_id x) (so_version x) ctx True now w of
        (Inr _, w') \<Rightarrow> retryCandidates api env now ctx xs w'
      | (Inl e, w') \<Rightarrow> if skippable e then retryCandidates api env now ctx xs w' else (Some e, w'))"

definition stockInboxRow :: "'p envelope \<Rightarrow> inbox_event" where
  "stockInboxRow event = \<lparr> ie_tenantId = ev_tenantId event, ie_consumerName = stock_consumer,
     ie_eventId = ev_eventId event, ie_eventType = ev_eventType event, ie_aggregateId = Some (ev_aggregateId event),
     ie_aggregateVersion = Some (ev_aggregateVersion event), ie_outcome = ''PROCESSED'' \<rparr>"

definition retryWaitingOrders ::
    "'inv inventory_api \<Rightarrow> ord_env \<Rightarrow> instant \<Rightarrow> 'p envelope \<Rightarrow> stock_payload \<Rightarrow> ord_db \<times> 'inv \<Rightarrow>
     (ord_error + unit) \<times> ord_db \<times> 'inv" where
  "retryWaitingOrders api env now event payload w =
     (if inbox_has stock_consumer (ev_eventId event) (ord_inbox (fst w)) then (Inr (), w)
      else
        case retryCandidates api env now (stockContext event)
               (fifoCandidates (ev_tenantId event) (payload_warehouse payload) (payload_products payload) (fst w)) w of
          (Some e, w') \<Rightarrow> (Inl e, w')
        | (None, db', stock') \<Rightarrow>
            (case ord_inbox_create (stockInboxRow event) db' of
               Inl e \<Rightarrow> (Inl e, db', stock')
             | Inr db'' \<Rightarrow> (Inr (), db'', stock')))"

definition handleStockEvent ::
    "'inv inventory_api \<Rightarrow> ord_env \<Rightarrow> instant \<Rightarrow> stock_payload option envelope \<Rightarrow> ord_db \<times> 'inv \<Rightarrow>
     (ord_error + unit) \<times> ord_db \<times> 'inv" where
  "handleStockEvent api env now event w =
     (let e = ev_eventType event in
      if e \<notin> set [''StockReceived'', ''StockReleased'', ''OrderPendingStock'', ''OrderUpdated''] then (Inr (), w)
      else if ev_producer event \<noteq> (if take 5 e = ''Order'' then ''order-service'' else ''inventory-service'')
      then (Inl (OrdPlainError ''Unexpected inventory event producer''), w)
      else case ev_payload event of
          None \<Rightarrow> (Inl (OrdPlainError ''ZodError''), w)
        | Some payload \<Rightarrow>
            if \<not> stock_payload_parses e payload then (Inl (OrdPlainError ''ZodError''), w)
            else (case payload of
                OrderUpdatedView status _ _ \<Rightarrow>
                  if status \<noteq> status_text PENDING_STOCK then (Inr (), w)
                  else retryWaitingOrders api env now event payload w
              | _ \<Rightarrow> retryWaitingOrders api env now event payload w))"

section \<open>Queries\<close>

record list_orders_query =
  lq_q :: "string option"
  lq_customerId :: "uuid option"
  lq_warehouseId :: "uuid option"
  lq_status :: "order_status list option"
  lq_createdFrom :: "instant option"
  lq_createdTo :: "instant option"
  lq_page :: "nat option"
  lq_pageSize :: "nat option"

definition lower_char :: "char \<Rightarrow> char" where
  "lower_char c = (case List.find (\<lambda>p. fst p = c)
       (zip ''ABCDEFGHIJKLMNOPQRSTUVWXYZ'' ''abcdefghijklmnopqrstuvwxyz'') of Some p \<Rightarrow> snd p | None \<Rightarrow> c)"

fun is_infix :: "string \<Rightarrow> string \<Rightarrow> bool" where
  "is_infix s [] = (s = [])"
| "is_infix s (c # cs) = (take (length s) (c # cs) = s \<or> is_infix s cs)"

definition order_where :: "uuid \<Rightarrow> list_orders_query \<Rightarrow> sales_order \<Rightarrow> bool" where
  "order_where t q x \<longleftrightarrow> so_tenantId x = t \<and> so_deletedAt x = None \<and>
     (falsy (lq_q q) \<or> is_infix (map lower_char (the (lq_q q))) (map lower_char (so_orderNumber x))) \<and>
     matches (lq_customerId q) (so_customerId x) \<and> matches (lq_warehouseId q) (so_warehouseId x) \<and>
     (case lq_status q of None \<Rightarrow> True | Some ss \<Rightarrow> ss = [] \<or> so_status x \<in> set ss) \<and>
     (case lq_createdFrom q of None \<Rightarrow> True | Some a \<Rightarrow> a \<le> so_createdAt x) \<and>
     (case lq_createdTo q of None \<Rightarrow> True | Some b \<Rightarrow> so_createdAt x \<le> b)"

definition listOrders :: "uuid \<Rightarrow> list_orders_query \<Rightarrow> ord_db \<Rightarrow> ord_error + order_summary_view paginated" where
  "listOrders t q db =
     (if (case (lq_createdFrom q, lq_createdTo q) of (Some a, Some b) \<Rightarrow> b < a | _ \<Rightarrow> False) then Inl InvalidDateRange
      else
        let page = (case lq_page q of Some p \<Rightarrow> p | None \<Rightarrow> 1);
            pageSize = (case lq_pageSize q of Some n \<Rightarrow> n | None \<Rightarrow> 20);
            hits = rev (sort_key (\<lambda>x. (so_createdAt x, so_id x)) (filter (order_where t q) (orders db)))
        in Inr \<lparr> pg_items = map toOrderSummaryView (page_of ((page - 1) * pageSize) pageSize hits), pg_page = page,
                 pg_pageSize = pageSize, pg_total = length hits \<rparr>)"

definition orderDetail :: "uuid \<Rightarrow> uuid \<Rightarrow> ord_db \<Rightarrow> ord_error + order_detail_view" where
  "orderDetail t orderId db =
     bind_res (loadOrder t orderId db) (\<lambda>x. Inr (toOrderDetailView x (lines_of orderId db)))"

definition orderHistoryOf :: "uuid \<Rightarrow> uuid \<Rightarrow> ord_db \<Rightarrow> ord_error + order_history_view list" where
  "orderHistoryOf t orderId db =
     bind_res (loadOrder t orderId db) (\<lambda>_.
       Inr (map toOrderHistoryView (sort_key (\<lambda>h. (oh_occurredAt h, oh_id h))
         (filter (\<lambda>h. oh_tenantId h = t \<and> oh_orderId h = orderId \<and> oh_deletedAt h = None) (orderHistory db)))))"

end
