(* ===== verification/Order_Invariant.thy ===== *)
theory Order_Invariant
  imports Order_Events
begin

text \<open>
  The invariant of the order database and its preservation by every operation. The central lemma is
  \<open>replaces_ok\<close>: an operation that replaces one order row by a row satisfying the constraints, with a
  greater version and a history entry for a change of status, keeps the invariant. The lemmas after it
  say what each operation does to its row in that vocabulary; the row of every other order is
  untouched.
\<close>

section \<open>The invariant\<close>

definition history_of :: "uuid \<Rightarrow> uuid \<Rightarrow> ord_db \<Rightarrow> order_history list" where
  "history_of t i db = filter (\<lambda>h. oh_tenantId h = t \<and> oh_orderId h = i) (orderHistory db)"

text \<open>
  A history tells a path of the state machine from its creation to status \<open>s\<close>, at growing versions, and
  never leaves a failed delivery.
\<close>

inductive history_path :: "order_history list \<Rightarrow> order_status \<Rightarrow> version \<Rightarrow> bool" where
  created: "oh_fromStatus h = None \<Longrightarrow> oh_toStatus h = DRAFT \<Longrightarrow> history_path [h] DRAFT (oh_orderVersion h)"
| moved: "history_path hs s v \<Longrightarrow> oh_fromStatus h = Some s \<Longrightarrow> canTransition s (oh_toStatus h) \<Longrightarrow>
     s \<noteq> DELIVERY_FAILED \<Longrightarrow> v < oh_orderVersion h \<Longrightarrow> history_path (hs @ [h]) (oh_toStatus h) (oh_orderVersion h)"

definition reserved_status :: "order_status \<Rightarrow> bool" where
  "reserved_status s \<longleftrightarrow> s \<in> {CONFIRMED, PICKING, READY_TO_SHIP, IN_DELIVERY, DELIVERY_FAILED, COMPLETED}"

definition status_fields :: "sales_order \<Rightarrow> bool" where
  "status_fields x \<longleftrightarrow>
     (reserved_status (so_status x) \<longrightarrow> so_reservationGroupId x \<noteq> None) \<and>
     (so_status x \<in> {DRAFT, PENDING_STOCK} \<longrightarrow> so_reservationGroupId x = None) \<and>
     (so_status x \<in> {IN_DELIVERY, DELIVERY_FAILED, COMPLETED} \<longrightarrow> so_dispatchGrantedAt x \<noteq> None) \<and>
     (so_status x = CANCELED \<longleftrightarrow> so_canceledAt x \<noteq> None) \<and>
     (so_status x = COMPLETED \<longleftrightarrow> so_completedAt x \<noteq> None) \<and>
     (so_cancellationRequestedAt x \<noteq> None \<longrightarrow> so_status x \<in> set ORDER_CANCELABLE_STATUSES \<and>
        \<not> falsy (so_cancellationReason x) \<and> so_cancellationCorrelationId x \<noteq> None)"

definition order_ok :: "ord_db \<Rightarrow> sales_order \<Rightarrow> bool" where
  "order_ok db x \<longleftrightarrow> totals_fit (so_totals x) \<and> row_checks x \<and> status_fields x \<and> 0 < so_version x \<and>
     (\<exists>v\<le>so_version x. history_path (history_of (so_tenantId x) (so_id x) db) (so_status x) v)"

definition keys_distinct :: "sales_order list \<Rightarrow> bool" where
  "keys_distinct xs \<longleftrightarrow> (\<forall>x\<in>set xs. \<forall>y\<in>set xs. so_tenantId x = so_tenantId y \<longrightarrow>
     (so_idempotencyKey x \<noteq> None \<and> so_idempotencyKey x = so_idempotencyKey y \<or>
      so_dispatchRequestId x \<noteq> None \<and> so_dispatchRequestId x = so_dispatchRequestId y) \<longrightarrow> x = y)"

definition ord_ok :: "ord_db \<Rightarrow> bool" where
  "ord_ok db \<longleftrightarrow> distinct (map so_id (orders db)) \<and>
     (\<forall>x\<in>set (orders db). so_id x < ord_next db \<and> order_ok db x) \<and>
     (\<forall>h\<in>set (orderHistory db). oh_orderId h < ord_next db) \<and>
     numbers_issued (map (\<lambda>x. (so_tenantId x, so_orderNumber x)) (orders db)) (orderSequences db) \<and>
     keys_distinct (orders db)"

definition ord_init :: ord_db where
  "ord_init = \<lparr> orders = [], orderLines = [], orderHistory = [], shortages = [], dispatchBatches = [],
     orderSequences = [], ord_outbox = [], ord_inbox = [], ord_next = 1 \<rparr>"

lemma ord_ok_init: "ord_ok ord_init"
  by (simp add: ord_ok_def ord_init_def keys_distinct_def)

lemma ord_okD:
  assumes "ord_ok db"
  shows "distinct (map so_id (orders db))" "x \<in> set (orders db) \<Longrightarrow> so_id x < ord_next db"
    "x \<in> set (orders db) \<Longrightarrow> order_ok db x" "h \<in> set (orderHistory db) \<Longrightarrow> oh_orderId h < ord_next db"
    "numbers_issued (map (\<lambda>x. (so_tenantId x, so_orderNumber x)) (orders db)) (orderSequences db)"
    "keys_distinct (orders db)"
  using assms by (auto simp: ord_ok_def)

lemma order_id_unique:
  "ord_ok db \<Longrightarrow> x \<in> set (orders db) \<Longrightarrow> y \<in> set (orders db) \<Longrightarrow> so_id x = so_id y \<Longrightarrow> x = y"
  using key_eq_imp_eq [OF ord_okD(1)] .

text \<open>Writes that touch neither orders nor their history nor the counters.\<close>

lemma ord_ok_cong:
  assumes "ord_ok db" "orders db' = orders db" "orderHistory db' = orderHistory db"
    "orderSequences db' = orderSequences db" "ord_next db \<le> ord_next db'"
  shows "ord_ok db'"
  using assms by (fastforce simp: ord_ok_def order_ok_def history_of_def)

section \<open>Frames\<close>

lemma loadOrder_D: "loadOrder t i db = Inr x \<Longrightarrow> x \<in> set (orders db) \<and> the_order t i x \<and> so_deletedAt x = None"
  by (auto simp: loadOrder_def split: option.splits dest: find_Some_D)

lemma loadOrder_ids: "loadOrder t i db = Inr x \<Longrightarrow> so_id x = i \<and> so_tenantId x = t"
  by (drule loadOrder_D) (simp add: the_order_def)

lemma loadOrder_eq:
  assumes "ord_ok db" "x \<in> set (orders db)" "the_order t i x" "so_deletedAt x = None"
  shows "loadOrder t i db = Inr x"
proof -
  have "List.find (\<lambda>y. the_order t i y \<and> so_deletedAt y = None) (orders db) = Some x"
    by (rule find_unique) (use assms order_id_unique in \<open>auto simp: the_order_def\<close>)
  then show ?thesis by (simp add: loadOrder_def)
qed

lemma loadOrder_cong: "orders db' = orders db \<Longrightarrow> loadOrder t i db' = loadOrder t i db"
  by (simp add: loadOrder_def)

lemma resolveShortages_frame [simp]:
  "orders (resolveShortages t i p now db) = orders db" "orderLines (resolveShortages t i p now db) = orderLines db"
  "orderHistory (resolveShortages t i p now db) = orderHistory db"
  "dispatchBatches (resolveShortages t i p now db) = dispatchBatches db"
  "orderSequences (resolveShortages t i p now db) = orderSequences db"
  "ord_outbox (resolveShortages t i p now db) = ord_outbox db" "ord_inbox (resolveShortages t i p now db) = ord_inbox db"
  "ord_next (resolveShortages t i p now db) = ord_next db"
  by (simp_all add: resolveShortages_def)

lemma writeOutbox_frame [simp]:
  "orders (writeOutbox t e i v c a u at p db) = orders db" "orderLines (writeOutbox t e i v c a u at p db) = orderLines db"
  "orderHistory (writeOutbox t e i v c a u at p db) = orderHistory db"
  "shortages (writeOutbox t e i v c a u at p db) = shortages db"
  "dispatchBatches (writeOutbox t e i v c a u at p db) = dispatchBatches db"
  "orderSequences (writeOutbox t e i v c a u at p db) = orderSequences db"
  "ord_inbox (writeOutbox t e i v c a u at p db) = ord_inbox db"
  "ord_next (writeOutbox t e i v c a u at p db) = Suc (ord_next db)"
  by (simp_all add: writeOutbox_def)

text \<open>\<open>grows db db'\<close>: everything but the tables of lines, shortages, outbox, inbox and batches is unchanged.\<close>

definition grows :: "ord_db \<Rightarrow> ord_db \<Rightarrow> bool" where
  "grows db db' \<longleftrightarrow> orders db' = orders db \<and> orderHistory db' = orderHistory db \<and>
     orderSequences db' = orderSequences db \<and> ord_next db \<le> ord_next db'"

lemma grows_refl [simp, intro]: "grows db db"
  by (simp add: grows_def)

lemma grows_trans: "grows db1 db2 \<Longrightarrow> grows db2 db3 \<Longrightarrow> grows db1 db3"
  by (simp add: grows_def)

lemma grows_ok: "grows db db' \<Longrightarrow> ord_ok db \<Longrightarrow> ord_ok db'"
  using ord_ok_cong unfolding grows_def by blast

lemma grows_writes [simp, intro]:
  "grows db (resolveShortages t i p now db)" "grows db (writeOutbox t e i v c a u at py db)"
  "grows db (deleteLines t i db)"
  by (simp_all add: grows_def deleteLines_def)

lemma createLines_grows: "createLines t i ls db = Inr db' \<Longrightarrow> grows db db'"
proof (induction ls arbitrary: db)
  case (Cons l ls)
  then show ?case by (fastforce simp: grows_def split: if_splits)
qed (simp add: grows_def)

lemma ord_inbox_create_D:
  "ord_inbox_create r db = Inr db' \<Longrightarrow> \<not> inbox_has (ie_consumerName r) (ie_eventId r) (ord_inbox db) \<and>
     db' = db\<lparr> ord_inbox := ord_inbox db @ [r] \<rparr>"
  by (auto simp: ord_inbox_create_def split: if_splits)

lemma ord_inbox_create_grows: "ord_inbox_create r db = Inr db' \<Longrightarrow> grows db db'"
  by (drule ord_inbox_create_D) (simp add: grows_def)

lemma createShortage_grows: "createShortage x it h at db = Inr db' \<Longrightarrow> grows db db'"
  by (auto simp: createShortage_def grows_def split: if_splits)

lemma saveShortageItems_grows: "saveShortageItems env x items at db = Inr db' \<Longrightarrow> grows db db'"
proof (induction items arbitrary: db)
  case (Cons a items)
  then show ?case
    by (fastforce simp: Let_def bind_res_Inr_iff grows_def split: option.splits dest: createShortage_grows)
qed simp

lemma saveShortages_grows: "saveShortages env x items at db = Inr db' \<Longrightarrow> grows db db'"
  by (auto simp: saveShortages_def bind_res_Inr_iff dest!: saveShortageItems_grows intro: grows_trans)

lemma recordDecision_grows: "recordDecision env ctx st x r now db = Inr db' \<Longrightarrow> grows db db'"
  by (cases r) (auto simp: Let_def bind_res_Inr_iff dest!: saveShortages_grows intro: grows_trans split: if_splits)

lemma createHistory_D:
  "createHistory t i from to reason actor corr ver at db = Inr db' \<Longrightarrow>
     \<exists>h. oh_tenantId h = t \<and> oh_orderId h = i \<and> oh_fromStatus h = from \<and> oh_toStatus h = to \<and> oh_orderVersion h = ver \<and>
       orderHistory db' = orderHistory db @ [h] \<and> orders db' = orders db \<and> orderSequences db' = orderSequences db \<and>
       orderLines db' = orderLines db \<and> shortages db' = shortages db \<and> ord_inbox db' = ord_inbox db \<and>
       ord_outbox db' = ord_outbox db \<and> dispatchBatches db' = dispatchBatches db \<and> ord_next db' = Suc (ord_next db)"
  by (auto simp: createHistory_def split: if_splits)

lemma updateOrder_D:
  assumes "updateOrder t i f now db = Inr (x', db')"
  shows "\<exists>x\<in>set (orders db). the_order t i x \<and> x' = (f x)\<lparr> so_updatedAt := now \<rparr> \<and> totals_fit (so_totals x') \<and>
      row_checks x' \<and> \<not> dispatch_request_taken x' (orders db) \<and>
      db' = db\<lparr> orders := update_where (the_order t i) (\<lambda>_. x') (orders db) \<rparr>"
  using assms
  by (auto simp: updateOrder_def Let_def split: option.splits if_splits dest!: find_Some_D)

section \<open>Replacing one row\<close>

definition replaces :: "sales_order \<Rightarrow> sales_order \<Rightarrow> ord_db \<Rightarrow> ord_db \<Rightarrow> bool" where
  "replaces x x' db db' \<longleftrightarrow> x \<in> set (orders db) \<and> so_id x' = so_id x \<and> so_tenantId x' = so_tenantId x \<and>
     so_orderNumber x' = so_orderNumber x \<and> so_idempotencyKey x' = so_idempotencyKey x \<and>
     so_idempotencyRequestHash x' = so_idempotencyRequestHash x \<and> so_version x < so_version x' \<and> totals_fit (so_totals x') \<and> row_checks x' \<and>
     \<not> dispatch_request_taken x' (orders db) \<and>
     orders db' = update_where (the_order (so_tenantId x) (so_id x)) (\<lambda>_. x') (orders db) \<and>
     orderSequences db' = orderSequences db \<and> ord_next db \<le> ord_next db'"

text \<open>The history entry that goes with a change of status.\<close>

definition recorded :: "sales_order \<Rightarrow> sales_order \<Rightarrow> ord_db \<Rightarrow> ord_db \<Rightarrow> bool" where
  "recorded x x' db db' \<longleftrightarrow>
     so_status x' = so_status x \<and> orderHistory db' = orderHistory db \<or>
     canTransition (so_status x) (so_status x') \<and> so_status x \<noteq> DELIVERY_FAILED \<and>
     (\<exists>h. oh_tenantId h = so_tenantId x \<and> oh_orderId h = so_id x \<and> oh_fromStatus h = Some (so_status x) \<and>
        oh_toStatus h = so_status x' \<and> oh_orderVersion h = so_version x' \<and> orderHistory db' = orderHistory db @ [h])"

lemma replaces_orders:
  assumes "ord_ok db" "replaces x x' db db'" "y' \<in> set (orders db')"
  shows "y' = x' \<or> y' \<in> set (orders db) \<and> so_id y' \<noteq> so_id x"
proof -
  from assms(2) have "orders db' = update_where (the_order (so_tenantId x) (so_id x)) (\<lambda>_. x') (orders db)"
    and x: "x \<in> set (orders db)" by (simp_all add: replaces_def)
  with assms(3) have "y' \<in> set (update_where (the_order (so_tenantId x) (so_id x)) (\<lambda>_. x') (orders db))" by simp
  then show ?thesis
  proof (cases rule: update_whereE)
    case miss
    have "so_id y' \<noteq> so_id x"
    proof
      assume "so_id y' = so_id x"
      then have "y' = x" by (rule order_id_unique [OF assms(1) miss(1) x])
      with miss(2) show False by (simp add: the_order_def)
    qed
    with miss(1) show ?thesis by blast
  qed simp
qed

lemma replaces_mem:
  assumes "replaces x x' db db'"
  shows "x' \<in> set (orders db')"
proof -
  have "the_order (so_tenantId x) (so_id x) x" by (simp add: the_order_def)
  with assms update_where_mem [of x "orders db" "the_order (so_tenantId x) (so_id x)" "\<lambda>_. x'"]
  show ?thesis unfolding replaces_def by metis
qed

lemma replaces_history_of:
  assumes "recorded x x' db db'" "so_id y \<noteq> so_id x"
  shows "history_of (so_tenantId y) (so_id y) db' = history_of (so_tenantId y) (so_id y) db"
  using assms by (auto simp: recorded_def history_of_def)

lemma replaces_path:
  assumes "order_ok db x" "recorded x x' db db'" "so_version x < so_version x'"
    "so_id x' = so_id x" "so_tenantId x' = so_tenantId x"
  shows "\<exists>v\<le>so_version x'. history_path (history_of (so_tenantId x') (so_id x') db') (so_status x') v"
proof -
  from assms(1) obtain v where v: "v \<le> so_version x" "history_path (history_of (so_tenantId x) (so_id x) db) (so_status x) v"
    by (auto simp: order_ok_def)
  from assms(2) consider "so_status x' = so_status x" "orderHistory db' = orderHistory db"
    | h where "canTransition (so_status x) (so_status x')" "so_status x \<noteq> DELIVERY_FAILED" "oh_tenantId h = so_tenantId x"
      "oh_orderId h = so_id x" "oh_fromStatus h = Some (so_status x)" "oh_toStatus h = so_status x'"
      "oh_orderVersion h = so_version x'" "orderHistory db' = orderHistory db @ [h]"
    by (auto simp: recorded_def)
  then show ?thesis
  proof cases
    case 1
    with v assms(3-5) show ?thesis by (intro exI [of _ v]) (simp add: history_of_def)
  next
    case (2 h)
    with v(1) assms(3) have "v < oh_orderVersion h" by simp
    from history_path.moved [OF v(2) 2(5) _ 2(2) this] 2 show ?thesis
      using assms(4,5) by (intro exI [of _ "so_version x'"]) (simp add: history_of_def)
  qed
qed

lemma replaces_ok:
  assumes ok: "ord_ok db" and r: "replaces x x' db db'" and h: "recorded x x' db db'" and s: "status_fields x'"
  shows "ord_ok db'"
proof -
  note rd = r [unfolded replaces_def]
  note rows = replaces_orders [OF ok r]
  have frame: "map f (orders db') = map f (orders db)" if "f x' = f x" for f :: "sales_order \<Rightarrow> 'b"
  proof -
    have "f x' = f y" if "y \<in> set (orders db)" "the_order (so_tenantId x) (so_id x) y" for y
      using order_id_unique [OF ok, of y x] that rd \<open>f x' = f x\<close> by (simp add: the_order_def)
    then show ?thesis using rd by (simp add: map_update_where)
  qed
  have "order_ok db' y'" if "y' \<in> set (orders db')" for y'
    using rows [OF that]
  proof
    assume "y' = x'"
    with replaces_path [OF _ h] ok rd s show ?thesis by (simp add: order_ok_def ord_ok_def)
  next
    assume "y' \<in> set (orders db) \<and> so_id y' \<noteq> so_id x"
    with replaces_history_of [OF h, of y'] ord_okD(3) [OF ok, of y'] show ?thesis by (simp add: order_ok_def)
  qed
  moreover have "so_id y' < ord_next db'" if "y' \<in> set (orders db')" for y'
    using rows [OF that] ord_okD(2) [OF ok, of x] ord_okD(2) [OF ok, of y'] rd by auto
  moreover have "oh_orderId h' < ord_next db'" if "h' \<in> set (orderHistory db')" for h'
    using that h ord_okD(2) [OF ok, of x] ord_okD(4) [OF ok, of h'] rd by (auto simp: recorded_def)
  moreover have "keys_distinct (orders db')"
  proof -
    have own: "False" if "y \<in> set (orders db)" "so_id y \<noteq> so_id x" "so_tenantId y = so_tenantId x'"
      "so_idempotencyKey x' \<noteq> None \<and> so_idempotencyKey y = so_idempotencyKey x' \<or>
       so_dispatchRequestId x' \<noteq> None \<and> so_dispatchRequestId y = so_dispatchRequestId x'" for y
      using that(4)
    proof
      assume "so_idempotencyKey x' \<noteq> None \<and> so_idempotencyKey y = so_idempotencyKey x'"
      with ord_okD(6) [OF ok] that(1,3) rd have "y = x" unfolding keys_distinct_def by metis
      with that(2) show False by simp
    next
      assume "so_dispatchRequestId x' \<noteq> None \<and> so_dispatchRequestId y = so_dispatchRequestId x'"
      with that rd show False by (auto simp: dispatch_request_taken_def)
    qed
    show ?thesis unfolding keys_distinct_def
    proof (intro ballI impI)
      fix y z assume yz: "y \<in> set (orders db')" "z \<in> set (orders db')" "so_tenantId y = so_tenantId z"
        "so_idempotencyKey y \<noteq> None \<and> so_idempotencyKey y = so_idempotencyKey z \<or>
         so_dispatchRequestId y \<noteq> None \<and> so_dispatchRequestId y = so_dispatchRequestId z"
      from rows [OF yz(1)] rows [OF yz(2)] show "y = z"
      proof (elim disjE)
        assume "y = x'" "z \<in> set (orders db) \<and> so_id z \<noteq> so_id x"
        with own [of z] yz(3,4) show ?thesis by metis
      next
        assume "y \<in> set (orders db) \<and> so_id y \<noteq> so_id x" "z = x'"
        with own [of y] yz(3,4) show ?thesis by metis
      next
        assume "y \<in> set (orders db) \<and> so_id y \<noteq> so_id x" "z \<in> set (orders db) \<and> so_id z \<noteq> so_id x"
        with ord_okD(6) [OF ok] yz(3,4) show ?thesis unfolding keys_distinct_def by blast
      qed simp
    qed
  qed
  ultimately show ?thesis
    using ord_okD(1,5) [OF ok] frame [of so_id] frame [of "\<lambda>x. (so_tenantId x, so_orderNumber x)"] rd
    unfolding ord_ok_def by simp
qed

text \<open>A replaced row followed by writes to the other tables.\<close>

lemma replaces_grows: "replaces x x' db db1 \<Longrightarrow> grows db1 db2 \<Longrightarrow> replaces x x' db db2"
  by (simp add: replaces_def grows_def)

lemma recorded_grows: "recorded x x' db db1 \<Longrightarrow> grows db1 db2 \<Longrightarrow> recorded x x' db db2"
  by (simp add: recorded_def grows_def)

section \<open>The abstract life of an order\<close>

text \<open>
  What the service promises of an order, without rows, versions or events: its status, whether a
  cancellation is under way, and whether dispatch has been granted.
\<close>

type_synonym order_abs = "order_status \<times> bool \<times> bool"

inductive lifecycle :: "order_abs \<Rightarrow> order_abs \<Rightarrow> bool" where
  waits: "lifecycle (DRAFT, False, False) (PENDING_STOCK, False, False)"
| confirms: "s \<in> {DRAFT, PENDING_STOCK} \<Longrightarrow> lifecycle (s, False, False) (CONFIRMED, False, False)"
| picks: "lifecycle (CONFIRMED, False, False) (PICKING, False, False)"
| readies: "lifecycle (PICKING, False, False) (READY_TO_SHIP, False, False)"
| grants: "lifecycle (READY_TO_SHIP, False, False) (READY_TO_SHIP, False, True)"
| departs: "lifecycle (READY_TO_SHIP, False, True) (IN_DELIVERY, False, True)"
| arrives: "s \<in> {COMPLETED, DELIVERY_FAILED} \<Longrightarrow> lifecycle (IN_DELIVERY, False, True) (s, False, True)"
| requests: "s \<in> {DRAFT, PENDING_STOCK, CONFIRMED, PICKING, READY_TO_SHIP} \<Longrightarrow>
     lifecycle (s, False, False) (s, True, False)"
| cancels: "s \<in> {DRAFT, PENDING_STOCK, CONFIRMED, PICKING, READY_TO_SHIP} \<Longrightarrow>
     lifecycle (s, True, False) (CANCELED, False, False)"

definition abs_order :: "sales_order \<Rightarrow> order_abs" where
  "abs_order x = (so_status x, so_cancellationRequestedAt x \<noteq> None, so_dispatchGrantedAt x \<noteq> None)"

inductive_simps lifecycle_granted: "lifecycle (s, c, True) a"
inductive_simps lifecycle_canceling: "lifecycle (s, True, g) a"

text \<open>Once granted, an order is never cancelled; once a cancellation is requested, nothing else happens to it.\<close>

lemma lifecycle_granted_star:
  "lifecycle\<^sup>*\<^sup>* a b \<Longrightarrow> snd (snd a) \<Longrightarrow> fst a \<noteq> CANCELED \<Longrightarrow> snd (snd b) \<and> fst b \<noteq> CANCELED"
proof (induction rule: rtranclp_induct)
  case (step b c)
  then obtain s d where b: "b = (s, d, True)" by (cases b) auto
  show ?case using step(2) unfolding b by (auto simp: lifecycle_granted)
qed simp

lemma lifecycle_canceling_star:
  "lifecycle\<^sup>*\<^sup>* (s, True, False) b \<Longrightarrow> b = (s, True, False) \<or> b = (CANCELED, False, False)"
proof (induction rule: rtranclp_induct)
  case (step b c)
  then show ?case by (auto simp: lifecycle_canceling elim: lifecycle.cases)
qed simp

section \<open>What an operation does to its row\<close>

definition effect :: "ord_db \<Rightarrow> ord_db \<Rightarrow> bool" where
  "effect db db' \<longleftrightarrow> (\<exists>x x'. replaces x x' db db' \<and> recorded x x' db db' \<and> status_fields x' \<and>
     (abs_order x' = abs_order x \<or> lifecycle (abs_order x) (abs_order x')))"

lemma effect_ok: "effect db db' \<Longrightarrow> ord_ok db \<Longrightarrow> ord_ok db'"
  unfolding effect_def using replaces_ok by blast

lemma effect_grows: "effect db db1 \<Longrightarrow> grows db1 db2 \<Longrightarrow> effect db db2"
  unfolding effect_def using replaces_grows recorded_grows by blast

lemma grows_effect:
  assumes "grows db db1" "effect db1 db2"
  shows "effect db db2"
proof -
  from assms(2) obtain x x' where e: "replaces x x' db1 db2" "recorded x x' db1 db2" "status_fields x'"
    "abs_order x' = abs_order x \<or> lifecycle (abs_order x) (abs_order x')" unfolding effect_def by blast
  then have "replaces x x' db db2" "recorded x x' db db2"
    using assms(1) by (auto simp: replaces_def recorded_def grows_def)
  with e(3,4) show ?thesis unfolding effect_def by blast
qed

definition keeps_identity :: "(sales_order \<Rightarrow> sales_order) \<Rightarrow> bool" where
  "keeps_identity f \<longleftrightarrow> (\<forall>x. so_id (f x) = so_id x \<and> so_tenantId (f x) = so_tenantId x \<and>
     so_orderNumber (f x) = so_orderNumber x \<and> so_idempotencyKey (f x) = so_idempotencyKey x \<and>
     so_idempotencyRequestHash (f x) = so_idempotencyRequestHash x \<and>
     so_deletedAt (f x) = so_deletedAt x \<and> so_version (f x) = so_version x + 1)"

lemma updateOrder_replaces:
  assumes ok: "ord_ok db" and u: "updateOrder t i f now db = Inr (x', db')" and l: "loadOrder t i db = Inr x"
    and k: "keeps_identity f"
  shows "x' = (f x)\<lparr> so_updatedAt := now \<rparr>" "replaces x x' db db'" "orderHistory db' = orderHistory db"
    "orders D = orders db' \<Longrightarrow> loadOrder t i D = Inr x'"
proof -
  note lx = loadOrder_D [OF l]
  from updateOrder_D [OF u] obtain y where y: "y \<in> set (orders db)" "the_order t i y" "x' = (f y)\<lparr> so_updatedAt := now \<rparr>"
    "totals_fit (so_totals x')" "row_checks x'" "\<not> dispatch_request_taken x' (orders db)"
    "db' = db\<lparr> orders := update_where (the_order t i) (\<lambda>_. x') (orders db) \<rparr>" by blast
  have yx: "y = x" using order_id_unique [OF ok y(1), of x] lx y(2) by (simp add: the_order_def)
  with y(3) show x': "x' = (f x)\<lparr> so_updatedAt := now \<rparr>" by simp
  have ids: "so_id x = i" "so_tenantId x = t" using lx by (simp_all add: the_order_def)
  show r: "replaces x x' db db'"
    unfolding replaces_def using lx y [unfolded yx] k ids by (simp add: keeps_identity_def)
  show "orderHistory db' = orderHistory db" using y(7) by simp
  assume D: "orders D = orders db'"
  have "List.find (\<lambda>z. the_order t i z \<and> so_deletedAt z = None) (orders D) = Some x'"
  proof (rule find_unique)
    show "x' \<in> set (orders D)" using replaces_mem [OF r] D by simp
    show "the_order t i x' \<and> so_deletedAt x' = None" using x' k lx by (simp add: keeps_identity_def the_order_def)
  next
    fix z assume "z \<in> set (orders D)" "the_order t i z \<and> so_deletedAt z = None"
    then show "z = x'" using replaces_orders [OF ok r, of z] D ids by (auto simp: the_order_def)
  qed
  then show "loadOrder t i D = Inr x'" by (simp add: loadOrder_def)
qed

lemma recordedI:
  assumes "createHistory t i (Some (so_status x)) to reason actor corr (so_version x') at db1 = Inr db2"
    "orderHistory db1 = orderHistory db" "so_id x = i" "so_tenantId x = t" "to = so_status x'"
    "canTransition (so_status x) to" "so_status x \<noteq> DELIVERY_FAILED"
  shows "recorded x x' db db2"
  using createHistory_D [OF assms(1)] assms(2-7) by (auto simp: recorded_def)

lemma createHistory_replaces:
  assumes "replaces x x' db db1" "createHistory t i from to reason actor corr ver at db2 = Inr db3" "grows db1 db2"
  shows "replaces x x' db db3"
  using createHistory_D [OF assms(2)] assms(1,3) by (auto simp: replaces_def grows_def)

lemmas row_defs = status_fields_def reserved_status_def abs_order_def ORDER_CANCELABLE_STATUSES_def
  ORDER_EDITABLE_STATUSES_def

subsection \<open>Cancellation\<close>

lemma assertWritable_ok:
  "assertWritable x v a ss = Inr () \<longleftrightarrow> so_dispatchGrantedAt x = None \<and> so_cancellationRequestedAt x = None \<and>
     so_status x \<in> set ss \<and> (a = ACT_CANCEL \<longrightarrow> canTransition (so_status x) CANCELED) \<and> so_version x = v"
  by (auto simp: assertWritable_def Let_def)

lemma requestCancellation_effect:
  assumes "ord_ok db" "cancelOrderDtoValid dto" "requestCancellation i dto ctx now db = Inr db'"
  shows "effect db db'"
proof -
  let ?f = "\<lambda>x. x\<lparr> so_cancellationRequestedAt := Some now,
            so_cancellationReason := Some (ca_reason dto), so_cancellationActorId := Some (oc_actorId ctx),
            so_cancellationCorrelationId := Some (oc_correlationId ctx), so_version := so_version x + 1 \<rparr>"
  from assms(3) obtain x x' where x: "loadOrder (oc_tenantId ctx) i db = Inr x"
    "assertWritable x (ca_version dto) ACT_CANCEL ORDER_CANCELABLE_STATUSES = Inr ()"
    "updateOrder (oc_tenantId ctx) i ?f now db = Inr (x', db')"
    by (auto simp: requestCancellation_def Let_def bind_res_Inr_iff)
  have k: "keeps_identity ?f" by (simp add: keeps_identity_def)
  note u = updateOrder_replaces [OF assms(1) x(3,1) k]
  have sx: "status_fields x" using ord_okD(3) [OF assms(1)] loadOrder_D [OF x(1)] by (simp add: order_ok_def)
  have "recorded x x' db db'" using u(1,3) by (simp add: recorded_def)
  moreover have "status_fields x'" using sx x(2) assms(2) unfolding u(1)
    by (cases "so_status x") (simp_all add: row_defs assertWritable_ok cancelOrderDtoValid_def falsy_def)
  moreover have "lifecycle (abs_order x) (abs_order x')" using x(2) unfolding u(1)
    by (cases "so_status x") (simp_all add: row_defs assertWritable_ok lifecycle.requests)
  ultimately show ?thesis using u(2) unfolding effect_def by blast
qed

lemma commitCancellation_effect:
  assumes "ord_ok db" "commitCancellation t i actor corr now db = Inr (y, db')"
  shows "db' = db \<or> effect db db'"
proof -
  from assms(2) obtain x where x: "loadOrder t i db = Inr x" "so_dispatchGrantedAt x = None"
    by (auto simp: commitCancellation_def bind_res_Inr_iff split: if_splits)
  let ?f = "\<lambda>z. z\<lparr> so_status := CANCELED, so_canceledAt := Some now, so_cancelReason := so_cancellationReason x,
             so_cancellationRequestedAt := None, so_version := so_version z + 1 \<rparr>"
  have k: "keeps_identity ?f" by (simp add: keeps_identity_def)
  note lx = loadOrder_D [OF x(1)]
  have sx: "status_fields x" using ord_okD(3) [OF assms(1)] lx by (simp add: order_ok_def)
  show ?thesis
  proof (cases "so_status x = CANCELED")
    case True
    with assms(2) x show ?thesis by (auto simp: commitCancellation_def)
  next
    case False
    with assms(2) x obtain x' db1 z db3 where req: "so_cancellationRequestedAt x \<noteq> None"
      and up: "updateOrder t i ?f now db = Inr (x', db1)"
      and z: "loadOrder t i (resolveShortages t i (\<lambda>_. True) now db1) = Inr z"
      and h: "createHistory t i (Some (so_status x)) CANCELED (so_cancellationReason x) actor corr (so_version z) now
        (resolveShortages t i (\<lambda>_. True) now db1) = Inr db3" and g: "grows db3 db'"
      by (auto simp: commitCancellation_def bind_res_Inr_iff Let_def split: if_splits)
    note u = updateOrder_replaces [OF assms(1) up x(1) k]
    have zx: "z = x'" using u(4) [of "resolveShortages t i (\<lambda>_. True) now db1"] z by simp
    have st: "so_status x \<in> set ORDER_CANCELABLE_STATUSES" using sx req by (simp add: status_fields_def)
    have "recorded x x' db db3"
      by (rule recordedI [OF h [unfolded zx]])
         (use u(1,3) st lx in \<open>auto simp: the_order_def ORDER_CANCELABLE_STATUSES_def\<close>)
    moreover have "replaces x x' db db3" by (rule createHistory_replaces [OF u(2) h]) simp
    moreover have "status_fields x'" using sx st unfolding u(1) by (cases "so_status x") (simp_all add: row_defs)
    moreover have "lifecycle (abs_order x) (abs_order x')" using st req x(2) unfolding u(1)
      by (cases "so_status x") (simp_all add: row_defs lifecycle.cancels)
    ultimately have "effect db db3" unfolding effect_def by blast
    then show ?thesis using effect_grows g by blast
  qed
qed

subsection \<open>Confirmation\<close>

lemma assertConfirmable_ok:
  "assertConfirmable x retry = Inr () \<longleftrightarrow> so_cancellationRequestedAt x = None \<and>
     (so_status x = PENDING_STOCK \<or> \<not> retry \<and> so_status x = DRAFT)"
  by (auto simp: assertConfirmable_def)

lemma confirmGuards_D:
  assumes "confirmGuards i v ctx retry db = Inr (Inr x)"
  shows "loadOrder (xc_tenantId ctx) i db = Inr x" "assertConfirmable x retry = Inr ()" "so_version x = v"
    "xc_eventId ctx = Some eid \<Longrightarrow> \<not> inbox_has (reservationConsumer i) eid (ord_inbox db)"
  using assms by (auto simp: confirmGuards_def bind_res_Inr_iff split: if_splits)

lemma decideOrder_keeps: "keeps_identity (decideOrder r now)"
  by (cases r) (simp_all add: keeps_identity_def)

lemma order_ok_confirmable:
  assumes "order_ok db x" "assertConfirmable x retry = Inr ()"
  shows "so_dispatchGrantedAt x = None" "so_reservationGroupId x = None" "so_status x \<in> {DRAFT, PENDING_STOCK}"
proof -
  show st: "so_status x \<in> {DRAFT, PENDING_STOCK}" using assms(2) by (auto simp: assertConfirmable_ok)
  with assms(1) show "so_reservationGroupId x = None" by (auto simp: order_ok_def status_fields_def)
  have "\<not> dispatch_committed x" using st by (auto simp: dispatch_committed_def)
  with assms(1) show "so_dispatchGrantedAt x = None"
    by (simp add: order_ok_def row_checks_def ck_dispatch_decision_def no_dispatch_def)
qed

lemma applyReserveResult_effect:
  assumes ok: "ord_ok db" and l: "loadOrder (xc_tenantId ctx) i db = Inr x" and c: "assertConfirmable x retry = Inr ()"
    and a: "applyReserveResult env ctx x result now db = Inr (x', db')"
  shows "effect db db'" "x' = (decideOrder result now x)\<lparr> so_updatedAt := now \<rparr>"
proof -
  note ids = loadOrder_ids [OF l]
  have ox: "order_ok db x" using ord_okD(3) [OF ok] loadOrder_D [OF l] by blast
  note pre = order_ok_confirmable [OF ox c]
  from a obtain db1 db2 db3 where up: "updateOrder (xc_tenantId ctx) i (decideOrder result now) now db = Inr (x', db1)"
    and rec: "recordDecision env ctx (so_status x) x' result now db1 = Inr db2"
    and his: "(if so_status x \<noteq> so_status x'
        then createHistory (xc_tenantId ctx) i (Some (so_status x)) (so_status x') None
          (xc_actorId ctx) (xc_correlationId ctx) (so_version x') now db2 else Inr db2) = Inr db3"
    and g: "grows db3 db'"
    using ids by (auto simp: applyReserveResult_def bind_res_Inr_iff split: option.splits
        dest!: ord_inbox_create_grows)
  note u = updateOrder_replaces [OF ok up l decideOrder_keeps]
  show "x' = (decideOrder result now x)\<lparr> so_updatedAt := now \<rparr>" by (fact u(1))
  note g12 = recordDecision_grows [OF rec]
  have st': "so_status x' = (case result of RESERVED _ \<Rightarrow> CONFIRMED | INSUFFICIENT _ \<Rightarrow> PENDING_STOCK)"
    unfolding u(1) by (cases result) simp_all
  have "recorded x x' db db3 \<and> replaces x x' db db3"
  proof (cases "so_status x = so_status x'")
    case True
    with his u(2,3) g12 show ?thesis by (auto simp: recorded_def grows_def intro: replaces_grows)
  next
    case False
    with his have h: "createHistory (xc_tenantId ctx) i (Some (so_status x)) (so_status x') None
          (xc_actorId ctx) (xc_correlationId ctx) (so_version x') now db2 = Inr db3" by simp
    have "recorded x x' db db3"
      by (rule recordedI [OF h])
         (use g12 u(3) ids pre(3) st' False in \<open>auto simp: grows_def split: reserve_result.splits\<close>)
    then show ?thesis using createHistory_replaces [OF u(2) h g12] by blast
  qed
  moreover have "status_fields x'" using ox pre c unfolding u(1)
    by (cases result) (auto simp: row_defs order_ok_def assertConfirmable_ok)
  moreover have "abs_order x' = abs_order x \<or> lifecycle (abs_order x) (abs_order x')" using pre c unfolding u(1)
    by (cases result) (auto simp: abs_order_def assertConfirmable_ok lifecycle.waits lifecycle.confirms)
  ultimately have "effect db db3" unfolding effect_def by blast
  then show "effect db db'" using effect_grows g by blast
qed

lemma confirm_effect:
  assumes "ord_ok db" "confirm api env commits i v ctx retry now (db, stock) = (r, db', stock')"
  shows "db' = db \<or> effect db db'"
proof (cases "confirmGuards i v ctx retry db")
  case (Inr y)
  show ?thesis
  proof (cases y)
    case (Inr x)
    with \<open>confirmGuards i v ctx retry db = Inr y\<close> have c: "confirmGuards i v ctx retry db = Inr (Inr x)" by simp
    note cx = confirmGuards_D [OF this]
    show ?thesis using assms(2) c applyReserveResult_effect(1) [OF assms(1) cx(1,2), of env]
      by (auto simp: confirm_def Let_def split: prod.splits sum.splits if_splits dest!: bind_res_Inr_iff [THEN iffD1])
  next
    case (Inl z)
    with Inr assms(2) show ?thesis by (simp add: confirm_def)
  qed
qed (use assms(2) in \<open>simp add: confirm_def\<close>)

lemma reconcileReservation_effect:
  assumes "ord_ok db" "reconcileReservation api env commits dto ctx now (db, stock) = (r, db', stock')"
  shows "db' = db \<or> effect db db'"
  using assms(2)
  by (auto simp: reconcileReservation_def Let_def split: option.splits if_splits prod.splits sum.splits
      dest!: confirm_effect [OF assms(1)])

subsection \<open>Editing\<close>

lemma if_Inl_iff: "(if b then Inl e else r) = Inr v \<longleftrightarrow> \<not> b \<and> r = Inr v"
  by simp

lemma editOrder_keeps: "keeps_identity (editOrder dto cid aid c w ts p)"
  by (auto simp: keeps_identity_def editOrder_def Let_def split: option.splits)

lemma editOrder_fields:
  "so_status (editOrder dto cid aid c w ts p x) = so_status x"
  "so_reservationGroupId (editOrder dto cid aid c w ts p x) = so_reservationGroupId x"
  "so_dispatchGrantedAt (editOrder dto cid aid c w ts p x) = so_dispatchGrantedAt x"
  "so_canceledAt (editOrder dto cid aid c w ts p x) = so_canceledAt x"
  "so_completedAt (editOrder dto cid aid c w ts p x) = so_completedAt x"
  "so_cancellationRequestedAt (editOrder dto cid aid c w ts p x) = so_cancellationRequestedAt x"
  "so_cancellationReason (editOrder dto cid aid c w ts p x) = so_cancellationReason x"
  "so_cancellationCorrelationId (editOrder dto cid aid c w ts p x) = so_cancellationCorrelationId x"
  by (auto simp: editOrder_def Let_def split: option.splits)

lemma guardedUpdate_D:
  assumes "guardedUpdate t i v a ss f now db = Inr db'"
  shows "\<exists>x'. updateOrder t i f now db = Inr (x', db')"
  using assms by (auto simp: guardedUpdate_def bind_res_Inr_iff split: if_splits)

lemma updateTx_effect:
  assumes ok: "ord_ok db" and u: "updateTx api env i dto ctx cid aid c w ls now stock db = Inr (y, db')"
  shows "effect db db'"
proof -
  let ?t = "oc_tenantId ctx"
  from u obtain x where l: "loadOrder ?t i db = Inr x" by (auto simp: updateTx_def bind_res_Inr_iff Let_def)
  define rq where "rq = (so_status x = PENDING_STOCK \<and> (up_lines dto \<noteq> None \<or> up_warehouseId dto \<noteq> None))"
  define db1 where "db1 = (if rq then resolveShortages ?t i (\<lambda>_. True) now db else db)"
  define f where f: "f = editOrder dto cid aid c w (map_option (calculateOrderTotals (oe_prec env)) ls)
       (if rq then Some now else None)"
  have g1: "grows db db1" by (simp add: db1_def)
  from u l obtain db2 db3 where
    gu: "guardedUpdate ?t i (up_version dto) ACT_UPDATE ORDER_EDITABLE_STATUSES f now db1 = Inr db2"
    and ln: "(case ls of None \<Rightarrow> Inr db2 | Some ls \<Rightarrow> createLines ?t i ls (deleteLines ?t i db2)) = Inr db3"
    and g': "grows db3 db'"
    unfolding db1_def f rq_def
    by (auto simp: updateTx_def Let_def bind_res_Inr_iff if_Inl_iff)
  from ln have g3: "grows db2 db3"
    by (auto split: option.splits dest!: createLines_grows intro: grows_trans)
  from guardedUpdate_D [OF gu] obtain x' where up: "updateOrder ?t i f now db1 = Inr (x', db2)" by blast
  have l1: "loadOrder ?t i db1 = Inr x" using l g1 loadOrder_cong [of db1 db] by (simp add: grows_def)
  have k: "keeps_identity f" unfolding f by (rule editOrder_keeps)
  note ok1 = grows_ok [OF g1 ok]
  note r = updateOrder_replaces [OF ok1 up l1 k]
  have "status_fields x" using ord_okD(3) [OF ok] loadOrder_D [OF l] by (simp add: order_ok_def)
  then have "status_fields x'" unfolding r(1) f by (simp add: status_fields_def editOrder_fields)
  moreover have "recorded x x' db1 db2" using r(1,3) by (simp add: recorded_def f editOrder_fields)
  moreover have "abs_order x' = abs_order x" unfolding r(1) f by (simp add: abs_order_def editOrder_fields)
  ultimately have "effect db1 db2" using r(2) unfolding effect_def by blast
  then show ?thesis using grows_effect [OF g1] effect_grows g3 g' by blast
qed

lemma update_effect:
  assumes "ord_ok db" "update api env i dto ctx now stock db0 db = Inr (v, db')"
  shows "effect db db'"
  using assms(2) updateTx_effect [OF assms(1)]
  by (fastforce simp: update_def bind_res_Inr_iff Let_def split: if_splits prod.splits)

subsection \<open>Dispatch\<close>

lemma grantDispatch_keeps: "keeps_identity (grantDispatch r c now)"
  by (simp add: keeps_identity_def grantDispatch_def)

definition dispatchable :: "dispatch_request \<Rightarrow> sales_order \<Rightarrow> bool" where
  "dispatchable r x \<longleftrightarrow> so_dispatchGrantedAt x = None \<and> so_cancellationRequestedAt x = None \<and>
     so_status x = READY_TO_SHIP \<and> so_version x = dq_orderVersion r \<and> so_reservationGroupId x = Some (dq_reservationGroupId r)"

lemma grant_effect:
  assumes ok: "ord_ok db" and l: "loadOrder t i db = Inr x" and d: "dispatchable r x"
    and up: "updateOrder t i (grantDispatch r c now) now db = Inr (x', db')"
  shows "effect db db'"
proof -
  note u = updateOrder_replaces [OF ok up l grantDispatch_keeps]
  have "status_fields x" using ord_okD(3) [OF ok] loadOrder_D [OF l] by (simp add: order_ok_def)
  with d have "status_fields x'" unfolding u(1) by (simp add: row_defs grantDispatch_def dispatchable_def)
  moreover have "recorded x x' db db'" using u(1,3) by (simp add: recorded_def grantDispatch_def)
  moreover have "lifecycle (abs_order x) (abs_order x')" using d unfolding u(1)
    by (simp add: abs_order_def grantDispatch_def dispatchable_def lifecycle.grants)
  ultimately show ?thesis using u(2) unfolding effect_def by blast
qed

lemma authorize_effect:
  assumes "ord_ok db" "authorize t i r c now db = Inr (g, db')"
  shows "db' = db \<or> effect db db'"
proof -
  from assms(2) have a: "authorizeTx t i r c now db = Inr (g, db')" by (simp add: authorize_def split: sum.splits)
  then obtain x where l: "loadOrder t i db = Inr x" by (auto simp: authorizeTx_def bind_res_Inr_iff)
  show ?thesis
  proof (cases "so_dispatchGrantedAt x = None")
    case True
    with a l obtain x' where "dispatchable r x" "updateOrder t i (grantDispatch r c now) now db = Inr (x', db')"
      by (auto simp: authorizeTx_def bind_res_Inr_iff dispatchable_def split: if_splits)
    with grant_effect [OF assms(1) l] show ?thesis by blast
  next
    case False
    with a l show ?thesis by (auto simp: authorizeTx_def bind_res_Inr_iff split: if_splits)
  qed
qed

subsection \<open>Shipment events\<close>

lemma projectStatus_keeps: "keeps_identity (projectStatus s at)"
  by (simp add: keeps_identity_def projectStatus_def Let_def)

lemma TARGETS_cases:
  "TARGETS e = Some s \<Longrightarrow> s \<in> {PICKING, READY_TO_SHIP, IN_DELIVERY, COMPLETED, DELIVERY_FAILED}"
  by (auto simp: TARGETS_def split: if_splits)

lemma applyProjection_effect:
  assumes ok: "ord_ok db" and l: "loadOrder t i db = Inr x" and p: "projectable event payload target x db"
    and tg: "target \<in> {PICKING, READY_TO_SHIP, IN_DELIVERY, COMPLETED, DELIVERY_FAILED}" and te: "ev_tenantId event = t"
    and a: "applyProjection event payload target now x db = Inr db'"
  shows "effect db db'"
proof -
  note ids = loadOrder_ids [OF l]
  from a ids te obtain x' db1 where up: "updateOrder t i (projectStatus target (ev_occurredAt event)) now db = Inr (x', db1)"
    and h: "createHistory t i (Some (so_status x)) target (sl_reason payload) (ev_actorId event) (ev_correlationId event)
       (so_version x') now db1 = Inr db'" and gr: "target = IN_DELIVERY \<Longrightarrow> so_dispatchGrantedAt x \<noteq> None"
    by (auto simp: applyProjection_def bind_res_Inr_iff split: if_splits)
  note u = updateOrder_replaces [OF ok up l projectStatus_keeps]
  have ox: "order_ok db x" using ord_okD(3) [OF ok] loadOrder_D [OF l] by blast
  have ct: "canTransition (so_status x) target" "so_status x \<noteq> DELIVERY_FAILED" "so_cancellationRequestedAt x = None"
    using p tg by (auto simp: projectable_def)
  have st': "so_status x' = target" unfolding u(1) by (simp add: projectStatus_def Let_def)
  have "recorded x x' db db'" by (rule recordedI [OF h]) (use u(3) ids st' ct in auto)
  moreover have "replaces x x' db db'" by (rule createHistory_replaces [OF u(2) h]) simp
  moreover have "status_fields x'" using ox ct gr tg unfolding u(1)
    by (cases "so_status x") (auto simp: row_defs order_ok_def projectStatus_def Let_def)
  moreover have "lifecycle (abs_order x) (abs_order x')" using ox ct gr tg unfolding u(1)
    by (cases "so_status x")
      (auto simp: abs_order_def order_ok_def status_fields_def row_checks_def ck_dispatch_decision_def no_dispatch_def
        dispatch_committed_def projectStatus_def Let_def
        lifecycle.picks lifecycle.readies lifecycle.departs lifecycle.arrives)
  ultimately show ?thesis unfolding effect_def by blast
qed

lemma handleShipmentEvent_effect:
  assumes ok: "ord_ok db" and h: "handleShipmentEvent now event db = Inr db'"
  shows "grows db db' \<or> effect db db'"
proof (cases "TARGETS (ev_eventType event)")
  case (Some target)
  note tg = TARGETS_cases [OF Some]
  from h Some obtain payload where "projectShipmentTx event payload target now db = Inr db'"
    by (auto simp: handleShipmentEvent_def split: if_splits option.splits)
  then consider "db' = db" | "grows db db'"
    | x db1 where "loadOrder (ev_tenantId event) (sl_orderId payload) db = Inr x" "projectable event payload target x db"
      "applyProjection event payload target now x db = Inr db1" "grows db1 db'"
    by (auto simp: projectShipmentTx_def bind_res_Inr_iff split: if_splits sum.splits dest!: ord_inbox_create_grows)
  then show ?thesis
  proof cases
    case (3 x db1)
    with applyProjection_effect [OF ok 3(1,2) tg] effect_grows show ?thesis by blast
  qed auto
qed (use h in \<open>simp add: handleShipmentEvent_def\<close>)

subsection \<open>Creation\<close>

lemma newOrder_simps [simp]:
  "so_id (newOrder dto key hash ctx c w ts n now i) = i"
  "so_tenantId (newOrder dto key hash ctx c w ts n now i) = oc_tenantId ctx"
  "so_orderNumber (newOrder dto key hash ctx c w ts n now i) = n"
  "so_idempotencyKey (newOrder dto key hash ctx c w ts n now i) = Some key"
  "so_idempotencyRequestHash (newOrder dto key hash ctx c w ts n now i) = Some hash"
  "so_dispatchRequestId (newOrder dto key hash ctx c w ts n now i) = None"
  "so_version (newOrder dto key hash ctx c w ts n now i) = 1"
  "so_status (newOrder dto key hash ctx c w ts n now i) = DRAFT"
  "so_totals (newOrder dto key hash ctx c w ts n now i) = ts"
  "so_deletedAt (newOrder dto key hash ctx c w ts n now i) = None"
  "abs_order (newOrder dto key hash ctx c w ts n now i) = (DRAFT, False, False)"
  "row_checks (newOrder dto key hash ctx c w ts n now i)"
  "status_fields (newOrder dto key hash ctx c w ts n now i)"
  by (simp_all add: newOrder_def row_checks_def ck_pending_since_def ck_dispatch_decision_def no_dispatch_def row_defs)

lemma insertOrder_D:
  assumes "insertOrder x db = Inr db'"
  shows "totals_fit (so_totals x)" "db' = db\<lparr> orders := orders db @ [x], ord_next := ord_next db + 1 \<rparr>"
    "y \<in> set (orders db) \<Longrightarrow> so_tenantId y = so_tenantId x \<Longrightarrow> so_idempotencyKey x \<noteq> None \<Longrightarrow>
       so_idempotencyKey y \<noteq> so_idempotencyKey x"
    "y \<in> set (orders db) \<Longrightarrow> so_tenantId y = so_tenantId x \<Longrightarrow> so_orderNumber y \<noteq> so_orderNumber x"
  using assms by (auto simp: insertOrder_def split: if_splits)

text \<open>What a committed creation leaves: one more order, its lines and its first history entry.\<close>

definition creates :: "sales_order \<Rightarrow> ord_db \<Rightarrow> ord_db \<Rightarrow> bool" where
  "creates x db db' \<longleftrightarrow> orders db' = orders db @ [x] \<and> so_id x = ord_next db \<and> ord_next db < ord_next db' \<and>
     abs_order x = (DRAFT, False, False) \<and> totals_fit (so_totals x) \<and> row_checks x \<and> status_fields x \<and> so_version x = 1 \<and>
     so_dispatchRequestId x = None \<and>
     (\<forall>y\<in>set (orders db). so_tenantId y = so_tenantId x \<longrightarrow> so_idempotencyKey y \<noteq> so_idempotencyKey x) \<and>
     nextOrderNumber (so_tenantId x) (so_createdAt x) (orderSequences db) = (so_orderNumber x, orderSequences db') \<and>
     (\<exists>h. oh_tenantId h = so_tenantId x \<and> oh_orderId h = so_id x \<and> oh_fromStatus h = None \<and> oh_toStatus h = DRAFT \<and>
        oh_orderVersion h = 1 \<and> orderHistory db' = orderHistory db @ [h])"

lemma createTx_D:
  assumes "createTx dto key hash ctx c w ls ts now db = Inr (x, db')"
  obtains n sq db1 db2 db3 where
    "nextOrderNumber (oc_tenantId ctx) now (orderSequences db) = (n, sq)"
    "x = newOrder dto key hash ctx c w ts n now (ord_next db)"
    "insertOrder x (db\<lparr> orderSequences := sq \<rparr>) = Inr db1" "createLines (oc_tenantId ctx) (so_id x) ls db1 = Inr db2"
    "createHistory (oc_tenantId ctx) (so_id x) None DRAFT None (Some (oc_actorId ctx)) (oc_correlationId ctx) 1 now db2 = Inr db3"
    "db' = writeOutbox (oc_tenantId ctx) ''OrderCreated'' (so_id x) 1 (oc_correlationId ctx) (Some (oc_actorId ctx)) None now
       (DraftPayload (toOrderDraftPayload x (lines_of (so_id x) db3))) db3"
  using assms by (auto simp: createTx_def Let_def bind_res_Inr_iff split: prod.splits)

lemma createTx_creates:
  assumes "createTx dto key hash ctx c w ls ts now db = Inr (x, db')"
  shows "creates x db db'"
  using assms
proof (rule createTx_D)
  fix n sq db1 db2 db3
  assume n: "nextOrderNumber (oc_tenantId ctx) now (orderSequences db) = (n, sq)"
    and x: "x = newOrder dto key hash ctx c w ts n now (ord_next db)"
    and i: "insertOrder x (db\<lparr> orderSequences := sq \<rparr>) = Inr db1" and l: "createLines (oc_tenantId ctx) (so_id x) ls db1 = Inr db2"
    and h: "createHistory (oc_tenantId ctx) (so_id x) None DRAFT None (Some (oc_actorId ctx)) (oc_correlationId ctx) 1 now db2 = Inr db3"
    and d: "db' = writeOutbox (oc_tenantId ctx) ''OrderCreated'' (so_id x) 1 (oc_correlationId ctx) (Some (oc_actorId ctx)) None now
       (DraftPayload (toOrderDraftPayload x (lines_of (so_id x) db3))) db3"
  note ii = insertOrder_D [OF i]
  note g = createLines_grows [OF l]
  have "so_createdAt x = now" by (simp add: x newOrder_def)
  moreover from createHistory_D [OF h] g ii(2) have "orders db' = orders db @ [x]" "ord_next db < ord_next db'"
    "orderSequences db' = sq" "\<exists>h. oh_tenantId h = so_tenantId x \<and> oh_orderId h = so_id x \<and> oh_fromStatus h = None \<and>
      oh_toStatus h = DRAFT \<and> oh_orderVersion h = 1 \<and> orderHistory db' = orderHistory db @ [h]"
    by (auto simp: grows_def d x)
  ultimately show ?thesis using ii n unfolding creates_def by (auto simp: x)
qed

lemma creates_ok:
  assumes ok: "ord_ok db" and c: "creates x db db'"
  shows "ord_ok db'"
proof -
  note cc = c [unfolded creates_def]
  from cc obtain h where h: "oh_tenantId h = so_tenantId x" "oh_orderId h = so_id x" "oh_fromStatus h = None"
    "oh_toStatus h = DRAFT" "oh_orderVersion h = 1" "orderHistory db' = orderHistory db @ [h]" by blast
  have fresh: "so_id y < so_id x" if "y \<in> set (orders db)" for y using ord_okD(2) [OF ok that] cc by simp
  have old: "history_of t i db' = history_of t i db" if "i \<noteq> so_id x" for t i
    using h that by (simp add: history_of_def)
  have "history_of (so_tenantId x) (so_id x) db = []"
    using conjunct1 [OF conjunct2 [OF cc]] by (auto simp: history_of_def filter_empty_conv dest!: ord_okD(4) [OF ok])
  with h have "history_of (so_tenantId x) (so_id x) db' = [h]" by (simp add: history_of_def)
  with history_path.created [OF h(3,4)] h(5) cc have "order_ok db' x"
    by (auto simp: order_ok_def abs_order_def)
  moreover have "order_ok db' y" if "y \<in> set (orders db)" for y
    using ord_okD(3) [OF ok that] fresh [OF that] old [of "so_id y" "so_tenantId y"] by (simp add: order_ok_def)
  moreover have "keys_distinct (orders db')"
  proof -
    have new: "so_idempotencyKey y \<noteq> so_idempotencyKey x" if "y \<in> set (orders db)" "so_tenantId y = so_tenantId x" for y
      using cc that by blast
    have no: "so_dispatchRequestId x = None" "orders db' = orders db @ [x]" using cc by blast+
    show ?thesis unfolding keys_distinct_def
    proof (intro ballI impI)
      fix y z assume yz: "y \<in> set (orders db')" "z \<in> set (orders db')" "so_tenantId y = so_tenantId z"
        "so_idempotencyKey y \<noteq> None \<and> so_idempotencyKey y = so_idempotencyKey z \<or>
         so_dispatchRequestId y \<noteq> None \<and> so_dispatchRequestId y = so_dispatchRequestId z"
      from yz(1,2) no(2) consider "y = x" "z = x" | "y = x" "z \<in> set (orders db)" | "y \<in> set (orders db)" "z = x"
        | "y \<in> set (orders db)" "z \<in> set (orders db)" by auto
      then show "y = z"
      proof cases
        case 4
        with ord_okD(6) [OF ok] yz(3,4) show ?thesis unfolding keys_distinct_def by blast
      qed (use new [of y] new [of z] no(1) yz(3,4) in auto)
    qed
  qed
  moreover have os: "orders db' = orders db @ [x]" "so_id x < ord_next db'" "ord_next db < ord_next db'" using cc by simp_all
  moreover have "numbers_issued (map (\<lambda>x. (so_tenantId x, so_orderNumber x)) (orders db')) (orderSequences db')"
    using nextOrderNumber_fresh(2) [OF ord_okD(5) [OF ok], of "so_tenantId x" "so_createdAt x"] cc os(1) by simp
  moreover have "so_id y < ord_next db'" if "y \<in> set (orders db)" for y using fresh [OF that] os(2) by simp
  moreover have "oh_orderId k < ord_next db'" if "k \<in> set (orderHistory db')" for k
  proof (cases "k = h")
    case False
    then show ?thesis using that h(6) ord_okD(4) [OF ok, of k] os(3) by simp
  qed (simp add: h(2) os(2))
  moreover have "distinct (map so_id (orders db'))"
  proof -
    have "so_id x \<notin> so_id ` set (orders db)" using fresh by (metis imageE less_irrefl)
    with ord_okD(1) [OF ok] os(1) show ?thesis by simp
  qed
  ultimately show ?thesis unfolding ord_ok_def by auto
qed

lemma replay_D: "replay x hash db = Inr r \<Longrightarrow> cr_replayed r \<and> so_idempotencyRequestHash x = Some hash \<and>
    cr_order r = toOrderDetailView x (lines_of (so_id x) db)"
  by (auto simp: replay_def split: if_splits)

lemma create_D:
  assumes "create env dto key ctx now db0 db = Inr (r, db')"
  shows "db' = db \<and> cr_replayed r \<or> \<not> cr_replayed r \<and> (\<exists>x k c w ls. key = Some k \<and>
    createTx dto k (hashCreateOrderRequest env dto) ctx c w ls (calculateOrderTotals (oe_prec env) ls) now db = Inr (x, db') \<and>
    cr_order r = toOrderDetailView x (lines_of (so_id x) db'))"
proof -
  let ?h = "hashCreateOrderRequest env dto"
  from assms obtain k where k: "key = Some k" "IDEMPOTENCY_KEY_PATTERN k"
    by (auto simp: create_def split: option.splits if_splits)
  show ?thesis
  proof (cases "findByIdempotencyKey (oc_tenantId ctx) k db0")
    case (Some x)
    with assms k show ?thesis by (auto simp: create_def Let_def bind_res_Inr_iff dest!: replay_D)
  next
    case None
    with assms k obtain c w ls where
      body: "(case createTx dto k ?h ctx c w ls (calculateOrderTotals (oe_prec env) ls) now db of
        Inr (x, db') \<Rightarrow> Inr (\<lparr> cr_order = toOrderDetailView x (lines_of (so_id x) db'), cr_replayed = False \<rparr>, db')
      | Inl e \<Rightarrow> (case findByIdempotencyKey (oc_tenantId ctx) k db of
           Some winner \<Rightarrow> if e = OrdUniqueViolation then bind_res (replay winner ?h db) (\<lambda>r. Inr (r, db)) else Inl e
         | None \<Rightarrow> Inl e)) = Inr (r, db')"
      by (auto simp: create_def Let_def bind_res_Inr_iff)
    show ?thesis
    proof (cases "createTx dto k ?h ctx c w ls (calculateOrderTotals (oe_prec env) ls) now db")
      case (Inl e)
      with body show ?thesis by (auto simp: bind_res_Inr_iff split: option.splits if_splits dest!: replay_D)
    next
      case (Inr y)
      with body k(1) obtain x where "y = (x, db')"
        "r = \<lparr> cr_order = toOrderDetailView x (lines_of (so_id x) db'), cr_replayed = False \<rparr>"
        by (cases y) auto
      with Inr k(1) show ?thesis by auto
    qed
  qed
qed

section \<open>Moves\<close>

text \<open>
  Every operation is a sequence of moves: writes that leave the orders alone, one replaced row, or one
  new order.
\<close>

definition ord_move :: "ord_db \<Rightarrow> ord_db \<Rightarrow> bool" where
  "ord_move db db' \<longleftrightarrow> grows db db' \<or> effect db db' \<or> (\<exists>x. creates x db db')"

lemma ord_move_ok: "ord_move db db' \<Longrightarrow> ord_ok db \<Longrightarrow> ord_ok db'"
  unfolding ord_move_def using grows_ok effect_ok creates_ok by blast

lemma ord_moves_ok: "ord_move\<^sup>*\<^sup>* db db' \<Longrightarrow> ord_ok db \<Longrightarrow> ord_ok db'"
  by (induction rule: rtranclp_induct) (blast intro: ord_move_ok)+

lemma ord_moveI [intro]: "grows db db' \<Longrightarrow> ord_move db db'" "effect db db' \<Longrightarrow> ord_move db db'" "creates x db db' \<Longrightarrow> ord_move db db'"
  by (auto simp: ord_move_def)

text \<open>How an order of \<open>db\<close> appears in \<open>db'\<close>.\<close>

definition becomes :: "sales_order \<Rightarrow> sales_order \<Rightarrow> bool" where
  "becomes x x' \<longleftrightarrow> so_id x' = so_id x \<and> so_tenantId x' = so_tenantId x \<and> so_orderNumber x' = so_orderNumber x \<and>
     so_idempotencyKey x' = so_idempotencyKey x \<and> so_idempotencyRequestHash x' = so_idempotencyRequestHash x \<and>
     so_version x \<le> so_version x' \<and> (so_version x' = so_version x \<longrightarrow> x' = x) \<and> lifecycle\<^sup>*\<^sup>* (abs_order x) (abs_order x')"

lemma becomes_refl [simp]: "becomes x x"
  by (simp add: becomes_def)

lemma becomes_trans: "becomes x y \<Longrightarrow> becomes y z \<Longrightarrow> becomes x z"
  unfolding becomes_def by (metis antisym order_trans rtranclp_trans)

lemma ord_move_becomes:
  assumes ok: "ord_ok db" and m: "ord_move db db'" and x: "x \<in> set (orders db)"
  shows "\<exists>x'\<in>set (orders db'). becomes x x'"
  using m unfolding ord_move_def
proof (elim disjE exE)
  assume "grows db db'"
  with x show ?thesis by (intro bexI [of _ x]) (simp_all add: grows_def)
next
  fix y assume "creates y db db'"
  with x show ?thesis by (intro bexI [of _ x]) (simp_all add: creates_def)
next
  assume "effect db db'"
  then obtain y y' where e: "replaces y y' db db'" "abs_order y' = abs_order y \<or> lifecycle (abs_order y) (abs_order y')"
    unfolding effect_def by blast
  have y: "y \<in> set (orders db)" using e(1) by (simp add: replaces_def)
  show ?thesis
  proof (cases "so_id x = so_id y")
    case True
    then have "x = y" using order_id_unique [OF ok x y] by simp
    moreover have "becomes y y'" using e by (auto simp: becomes_def replaces_def)
    ultimately show ?thesis using replaces_mem [OF e(1)] by blast
  next
    case False
    have "x \<in> set (orders db')"
      using update_where_mem [OF x, of "the_order (so_tenantId y) (so_id y)" "\<lambda>_. y'"] False e(1)
      by (simp add: replaces_def the_order_def)
    then show ?thesis by (intro bexI [of _ x]) simp_all
  qed
qed

lemma ord_moves_becomes:
  "ord_move\<^sup>*\<^sup>* db db' \<Longrightarrow> ord_ok db \<Longrightarrow> x \<in> set (orders db) \<Longrightarrow> \<exists>x'\<in>set (orders db'). becomes x x'"
proof (induction rule: rtranclp_induct)
  case (step db1 db2)
  then obtain x1 where "x1 \<in> set (orders db1)" "becomes x x1" by blast
  with ord_move_becomes [OF ord_moves_ok [OF step(1) step.prems(1)] step(2)] becomes_trans show ?case by blast
qed (auto intro: bexI [of _ x])

subsection \<open>Operations that change several orders\<close>

lemma completeCancellation_moves:
  assumes "ord_ok db" "completeCancellation api t i now (db, stock) = (r, db', stock')"
  shows "db' = db \<or> effect db db'"
  using assms(2)
  by (auto simp: completeCancellation_def Let_def split: sum.splits prod.splits
      dest!: bind_res_Inr_iff [THEN iffD1] commitCancellation_effect [OF assms(1)])

lemma moves_eq_or: "db' = db \<or> effect db db' \<Longrightarrow> ord_move\<^sup>*\<^sup>* db db'"
  by auto

lemma cancel_moves:
  assumes ok: "ord_ok db" and v: "cancelOrderDtoValid dto" and c: "cancel api i dto ctx now (db, stock) = (r, db', stock')"
  shows "ord_move\<^sup>*\<^sup>* db db'"
proof (cases "requestCancellation i dto ctx now db")
  case (Inr db1)
  note e = requestCancellation_effect [OF ok v Inr]
  from c Inr have "completeCancellation api (oc_tenantId ctx) i now (db1, stock) = (r, db', stock')"
    by (simp add: cancel_def)
  from moves_eq_or [OF completeCancellation_moves [OF effect_ok [OF e ok] this]] e
  show ?thesis by (auto intro: converse_rtranclp_into_rtranclp)
qed (use c in \<open>simp add: cancel_def\<close>)

lemma recoverCancellations_moves:
  assumes "ord_ok (fst w)"
  shows "ord_move\<^sup>*\<^sup>* (fst w) (fst (recoverCancellations api env now w))"
proof -
  have "ord_move\<^sup>*\<^sup>* (fst w) (fst (fold (\<lambda>x v. snd (completeCancellation api (so_tenantId x) (so_id x) now v)) xs w))"
    if "ord_ok (fst w)" for xs and w :: "ord_db \<times> 'a"
    using that
  proof (induction xs arbitrary: w)
    case (Cons x xs)
    let ?w = "snd (completeCancellation api (so_tenantId x) (so_id x) now w)"
    have m: "ord_move\<^sup>*\<^sup>* (fst w) (fst ?w)"
      by (rule moves_eq_or, rule completeCancellation_moves [OF Cons.prems, of api "so_tenantId x" "so_id x" now "snd w"
          "fst (completeCancellation api (so_tenantId x) (so_id x) now w)" _ "snd ?w"]) simp
    from Cons.IH [OF ord_moves_ok [OF m Cons.prems]] m show ?case by simp
  qed simp
  with assms show ?thesis by (simp add: recoverCancellations_def)
qed

lemma retryCandidates_moves:
  assumes "ord_ok db" "retryCandidates api env now ctx xs (db, stock) = (r, db', stock')"
  shows "ord_move\<^sup>*\<^sup>* db db'"
  using assms
proof (induction xs arbitrary: db stock)
  case (Cons x xs)
  obtain a db1 s1 where c: "confirm api env True (so_id x) (so_version x) ctx True now (db, stock) = (a, db1, s1)"
    by (metis prod.exhaust)
  note m = moves_eq_or [OF confirm_effect [OF Cons.prems(1) c]]
  from Cons.prems(2) c consider "db' = db1" | "retryCandidates api env now ctx xs (db1, s1) = (r, db', stock')"
    by (auto split: sum.splits if_splits)
  then show ?case
  proof cases
    case 2
    from Cons.IH [OF ord_moves_ok [OF m Cons.prems(1)] 2] m show ?thesis by simp
  qed (use m in simp)
qed simp

lemma handleStockEvent_moves:
  assumes ok: "ord_ok db" and h: "handleStockEvent api env now event (db, stock) = (r, db', stock')"
  shows "ord_move\<^sup>*\<^sup>* db db'"
proof -
  have "ord_move\<^sup>*\<^sup>* db db'" if "retryWaitingOrders api env now event payload (db, stock) = (r, db', stock')" for payload
  proof -
    obtain a db1 s1 where c: "retryCandidates api env now (stockContext event)
        (fifoCandidates (ev_tenantId event) (payload_warehouse payload) (payload_products payload) db) (db, stock) = (a, db1, s1)"
      by (metis prod.exhaust)
    note m = retryCandidates_moves [OF ok c]
    from that c have "db' = db \<or> db' = db1 \<or> grows db1 db'"
      by (auto simp: retryWaitingOrders_def split: if_splits option.splits sum.splits dest!: ord_inbox_create_grows)
    with m show ?thesis by (auto intro: rtranclp.rtrancl_into_rtrancl)
  qed
  with h show ?thesis
    by (auto simp: handleStockEvent_def Let_def split: if_splits option.splits stock_payload.splits)
qed

subsection \<open>Batches\<close>

lemma find_update_where_frame:
  assumes "\<And>x. x \<in> set xs \<Longrightarrow> q x \<Longrightarrow> \<not> p x \<and> \<not> p (f x)"
  shows "List.find p (update_where q f xs) = List.find p xs"
  using assms by (induction xs) auto

lemma updateOrder_other:
  assumes "updateOrder t i f now db = Inr (x', db')" "the_order t i x'" "j \<noteq> i"
  shows "loadOrder u j db' = loadOrder u j db"
proof -
  from updateOrder_D [OF assms(1)] have "orders db' = update_where (the_order t i) (\<lambda>_. x') (orders db)" by auto
  then show ?thesis
    using assms(2,3) find_update_where_frame [of "orders db" "the_order t i" "\<lambda>y. the_order u j y \<and> so_deletedAt y = None" "\<lambda>_. x'"]
    by (simp add: loadOrder_def the_order_def)
qed

lemma item_dispatchable_load:
  assumes "item_dispatchable t item db"
  shows "\<exists>x. loadOrder t (bi_orderId item) db = Inr x \<and> dispatchable (itemRequest r item) x"
  using assms by (auto simp: item_dispatchable_def loadOrder_def dispatchable_def itemRequest_def split: option.splits)

lemma item_dispatchable_cong:
  "loadOrder t (bi_orderId item) db' = loadOrder t (bi_orderId item) db \<Longrightarrow>
     item_dispatchable t item db' = item_dispatchable t item db"
  by (simp add: item_dispatchable_def loadOrder_def split: option.splits)

definition request_unused :: "uuid \<Rightarrow> uuid \<Rightarrow> ord_db \<Rightarrow> bool" where
  "request_unused t rid db \<longleftrightarrow> (\<forall>x\<in>set (orders db). so_tenantId x = t \<longrightarrow> so_dispatchRequestId x \<noteq> Some rid)"

text \<open>A grant on a dispatchable order whose request is new succeeds.\<close>

lemma grant_succeeds:
  assumes ok: "ord_ok db" and l: "loadOrder t i db = Inr x" and d: "dispatchable r x" and n: "request_unused t (dq_requestId r) db"
  shows "\<exists>x' db'. updateOrder t i (grantDispatch r c now) now db = Inr (x', db')"
proof -
  note lx = loadOrder_D [OF l]
  let ?x' = "(grantDispatch r c now x)\<lparr> so_updatedAt := now \<rparr>"
  have ox: "order_ok db x" using ord_okD(3) [OF ok] lx by blast
  have f: "List.find (the_order t i) (orders db) = Some x"
    by (rule find_unique) (use lx order_id_unique [OF ok] in \<open>auto simp: the_order_def\<close>)
  have "totals_fit (so_totals ?x')" using ox by (simp add: order_ok_def grantDispatch_def)
  moreover have "row_checks ?x'"
  proof -
    have "no_dispatch x" using ox d by (auto simp: order_ok_def row_checks_def ck_dispatch_decision_def dispatch_committed_def dispatchable_def)
    moreover have "so_canceledAt x = None" using ox d by (auto simp: order_ok_def status_fields_def dispatchable_def)
    moreover have "0 < dq_orderVersion r" using ox d by (simp add: order_ok_def dispatchable_def)
    ultimately show ?thesis using d
      by (simp add: row_checks_def ck_pending_since_def ck_dispatch_decision_def dispatch_committed_def grantDispatch_def dispatchable_def)
  qed
  moreover have "\<not> dispatch_request_taken ?x' (orders db)"
    using n lx by (auto simp: dispatch_request_taken_def grantDispatch_def request_unused_def the_order_def)
  ultimately show ?thesis using f by (simp add: updateOrder_def Let_def)
qed

lemma grantItems_ok:
  assumes "ord_ok db" "\<forall>item\<in>set items. item_dispatchable (br_tenantId r) item db \<and>
      request_unused (br_tenantId r) (bi_dispatchRequestId item) db"
    "distinct (map bi_orderId items)" "distinct (map bi_dispatchRequestId items)"
  shows "\<exists>db'. grantItems r items now db = Inr db' \<and> ord_move\<^sup>*\<^sup>* db db' \<and> dispatchBatches db' = dispatchBatches db \<and>
    (\<forall>j. j \<notin> bi_orderId ` set items \<longrightarrow> loadOrder (br_tenantId r) j db' = loadOrder (br_tenantId r) j db) \<and>
    (\<forall>item\<in>set items. \<exists>x. loadOrder (br_tenantId r) (bi_orderId item) db = Inr x \<and>
       loadOrder (br_tenantId r) (bi_orderId item) db' =
         Inr ((grantDispatch (itemRequest r item) (br_requestId r) now x)\<lparr> so_updatedAt := now \<rparr>))"
  using assms
proof (induction items arbitrary: db)
  case (Cons a items)
  let ?t = "br_tenantId r" and ?f = "grantDispatch (itemRequest r a) (br_requestId r) now"
  from Cons.prems(2) obtain x where x: "loadOrder ?t (bi_orderId a) db = Inr x" "dispatchable (itemRequest r a) x"
    using item_dispatchable_load [of ?t a db r] by auto
  have un: "request_unused ?t (dq_requestId (itemRequest r a)) db" using Cons.prems(2) by (simp add: itemRequest_def)
  obtain x' db1 where up: "updateOrder ?t (bi_orderId a) ?f now db = Inr (x', db1)"
    using grant_succeeds [OF Cons.prems(1) x un] by blast
  note u = updateOrder_replaces [OF Cons.prems(1) up x(1) grantDispatch_keeps]
  have e: "effect db db1" by (rule grant_effect [OF Cons.prems(1) x up])
  note ids = loadOrder_ids [OF x(1)]
  have tx': "the_order ?t (bi_orderId a) x'" using ids unfolding u(1) by (simp add: the_order_def grantDispatch_def)
  note other = updateOrder_other [OF up tx']
  have "item_dispatchable ?t it db1 \<and> request_unused ?t (bi_dispatchRequestId it) db1" if "it \<in> set items" for it
  proof -
    have ne: "bi_orderId it \<noteq> bi_orderId a" "bi_dispatchRequestId it \<noteq> bi_dispatchRequestId a"
      using that Cons.prems(3,4) by (auto simp: image_iff)
    have "request_unused ?t (bi_dispatchRequestId it) db1"
      unfolding request_unused_def
    proof (intro ballI impI)
      fix y assume "y \<in> set (orders db1)" "so_tenantId y = ?t"
      from replaces_orders [OF Cons.prems(1) u(2) this(1)] show "so_dispatchRequestId y \<noteq> Some (bi_dispatchRequestId it)"
      proof
        assume "y = x'"
        with ne(2) show ?thesis unfolding u(1) by (simp add: grantDispatch_def itemRequest_def)
      next
        assume "y \<in> set (orders db) \<and> so_id y \<noteq> so_id x"
        with Cons.prems(2) that \<open>so_tenantId y = ?t\<close> show ?thesis by (auto simp: request_unused_def)
      qed
    qed
    with item_dispatchable_cong [OF other [OF ne(1)]] Cons.prems(2) that show ?thesis by simp
  qed
  with Cons.IH [OF effect_ok [OF e Cons.prems(1)]] Cons.prems(3,4) obtain db2 where
    ih: "grantItems r items now db1 = Inr db2" "ord_move\<^sup>*\<^sup>* db1 db2" "dispatchBatches db2 = dispatchBatches db1"
    "\<forall>j. j \<notin> bi_orderId ` set items \<longrightarrow> loadOrder ?t j db2 = loadOrder ?t j db1"
    "\<forall>item\<in>set items. \<exists>x. loadOrder ?t (bi_orderId item) db1 = Inr x \<and> loadOrder ?t (bi_orderId item) db2 =
         Inr ((grantDispatch (itemRequest r item) (br_requestId r) now x)\<lparr> so_updatedAt := now \<rparr>)"
    by (auto simp: Ball_def)
  have "ord_move\<^sup>*\<^sup>* db db2" using e ih(2) by (auto intro: converse_rtranclp_into_rtranclp)
  moreover have "loadOrder ?t (bi_orderId a) db2 = Inr x'"
    using ih(4) u(4) [of db1] Cons.prems(3) by simp
  moreover have "loadOrder ?t (bi_orderId it) db1 = loadOrder ?t (bi_orderId it) db" if "it \<in> set items" for it
    using that Cons.prems(3) by (intro other) (auto simp: image_iff)
  moreover have "dispatchBatches db1 = dispatchBatches db" using updateOrder_D [OF up] by auto
  moreover have "loadOrder ?t j db2 = loadOrder ?t j db" if "j \<notin> bi_orderId ` set (a # items)" for j
    using that ih(4) other by auto
  ultimately show ?case using ih up x(1) u(1) by (intro exI [of _ db2]) auto
qed simp

lemma batchReason_None:
  "batchReason t items db = None \<longleftrightarrow>
     (\<forall>item\<in>set items. item_dispatchable t item db \<and> request_unused t (bi_dispatchRequestId item) db)"
  by (induction items) (auto simp: child_request_used_def request_unused_def)

lemma distinct_sort_key_map: "distinct (map f xs) \<Longrightarrow> distinct (map f (sort_key k xs))"
  by (metis distinct_map distinct_sort set_sort)

lemma authorizeBatch_moves:
  assumes ok: "ord_ok db" and a: "authorizeBatch env r now db = Inr (d, db')"
  shows "ord_move\<^sup>*\<^sup>* db db'"
proof -
  let ?items = "sort_key bi_orderId (br_shipments r)"
  have batch: "grows db1 db2" if "createBatch r d db1 = Inr db2" for db1 db2
    using that by (auto simp: createBatch_def grows_def split: if_splits)
  show ?thesis
  proof (cases "List.find (\<lambda>b. bd_tenantId b = br_tenantId r \<and> bd_id b = br_requestId r) (dispatchBatches db)")
    case (Some prior)
    with a show ?thesis by (auto simp: authorizeBatch_def split: if_splits)
  next
    case None
    with a have v: "batchRequestValid r" by (simp add: authorizeBatch_def split: if_splits)
    note di = batchRequestValid_distinct [OF v]
    show ?thesis
    proof (cases "batchReason (br_tenantId r) ?items db")
      case None
      from grantItems_ok [OF ok None [unfolded batchReason_None] distinct_sort_key_map distinct_sort_key_map, OF di(2,3)]
      obtain db1 where g: "grantItems r ?items now db = Inr db1" "ord_move\<^sup>*\<^sup>* db db1" by blast
      with a v \<open>List.find _ _ = None\<close> None have "createBatch r d db1 = Inr db'"
        by (auto simp: authorizeBatch_def batchDecision_def Let_def bind_res_Inr_iff)
      with batch g(2) show ?thesis by (meson ord_moveI(1) rtranclp.rtrancl_into_rtrancl)
    next
      case (Some why)
      with a v \<open>List.find _ _ = None\<close> have "createBatch r d db = Inr db'"
        by (auto simp: authorizeBatch_def batchDecision_def Let_def bind_res_Inr_iff)
      with batch show ?thesis by blast
    qed
  qed
qed

end
