(* ===== verification/Order_Theorems.thy ===== *)
theory Order_Theorems
  imports Order_Invariant Inventory_Theorems
begin

text \<open>
  The order service as a state machine whose steps are its operations, and the main theorems on it:
  the invariant, the refinement of the abstract life of an order, idempotent creation, the exclusion
  of cancellation and dispatch, the atomic batch grant, the projection of shipment events, and the
  composition with the inventory service.
\<close>

section \<open>The service as a state machine\<close>

text \<open>
  The state is the order database and that of the inventory service behind \<open>api\<close>, which others change
  too (\<open>remote\<close>). A cancellation's request and completion are also steps of their own, so that every
  interleaving of them with other operations is a run.
\<close>

inductive ord_step :: "'inv inventory_api \<Rightarrow> ord_env \<Rightarrow> ord_db \<times> 'inv \<Rightarrow> ord_db \<times> 'inv \<Rightarrow> bool"
  for api :: "'inv inventory_api" and env :: ord_env where
  creates: "create env cdto key ctx now db0 db = Inr (cres, db') \<Longrightarrow> ord_step api env (db, s) (db', s)"
| edits: "update api env i udto ctx now s db0 db = Inr (view, db') \<Longrightarrow> ord_step api env (db, s) (db', s)"
| cancels: "cancelOrderDtoValid adto \<Longrightarrow> cancel api i adto ctx now w = (vres, w') \<Longrightarrow> ord_step api env w w'"
| requests: "cancelOrderDtoValid adto \<Longrightarrow> requestCancellation i adto ctx now db = Inr db' \<Longrightarrow> ord_step api env (db, s) (db', s)"
| completes: "completeCancellation api t i now w = (vres, w') \<Longrightarrow> ord_step api env w w'"
| recovers: "ord_step api env w (recoverCancellations api env now w)"
| confirms: "confirm api env commits i v xctx retry now w = (vres, w') \<Longrightarrow> ord_step api env w w'"
| reconciles: "reconcileReservation api env commits rdto xctx now w = (dres, w') \<Longrightarrow> ord_step api env w w'"
| authorizes: "authorize t i dreq corr now db = Inr (grant, db') \<Longrightarrow> ord_step api env (db, s) (db', s)"
| authorizes_batch: "authorizeBatch env breq now db = Inr (dec, db') \<Longrightarrow> ord_step api env (db, s) (db', s)"
| shipment: "handleShipmentEvent now sev db = Inr db' \<Longrightarrow> ord_step api env (db, s) (db', s)"
| stock: "handleStockEvent api env now kev w = (ures, w') \<Longrightarrow> ord_step api env w w'"
| relays: "flush opt producer da now locked publish committed (ord_outbox db) = (sent, obx) \<Longrightarrow>
    ord_step api env (db, s) (db\<lparr> ord_outbox := obx \<rparr>, s)"
| remote: "ord_step api env (db, s) (db, s')"

lemma moves_grows: "grows db db' \<or> effect db db' \<Longrightarrow> ord_move\<^sup>*\<^sup>* db db'"
  by auto

lemma ord_step_moves:
  assumes "ord_step api env w w'" "ord_ok (fst w)"
  shows "ord_move\<^sup>*\<^sup>* (fst w) (fst w')"
  using assms
proof (induction rule: ord_step.induct)
  case (creates cdto key ctx now db0 db cres db' s)
  from create_D [OF creates(1)] show ?case by (auto dest!: createTx_creates)
next
  case (edits i udto ctx now s db0 db view db')
  from update_effect [OF _ edits(1)] edits(2) show ?case by auto
next
  case (cancels adto i ctx now w vres w')
  from cancel_moves [OF cancels(3,1), of api i ctx now "snd w" vres "fst w'" "snd w'"] cancels(2) show ?case by simp
next
  case (requests adto i ctx now db db' s)
  from requestCancellation_effect [OF _ requests(1,2)] requests(3) show ?case by auto
next
  case (completes t i now w vres w')
  from completeCancellation_moves [OF completes(2), of api t i now "snd w" vres "fst w'" "snd w'"] completes(1)
  show ?case by (auto intro: moves_eq_or)
next
  case (recovers w now)
  then show ?case by (rule recoverCancellations_moves)
next
  case (confirms commits i v xctx retry now w vres w')
  from confirm_effect [OF confirms(2), of api env commits i v xctx retry now "snd w" vres "fst w'" "snd w'"] confirms(1)
  show ?case by (auto intro: moves_eq_or)
next
  case (reconciles commits rdto xctx now w dres w')
  from reconcileReservation_effect [OF reconciles(2), of api env commits rdto xctx now "snd w" dres "fst w'" "snd w'"] reconciles(1)
  show ?case by (auto intro: moves_eq_or)
next
  case (authorizes t i dreq corr now db grant db' s)
  from authorize_effect [OF _ authorizes(1)] authorizes(2) show ?case by (auto intro: moves_eq_or)
next
  case (authorizes_batch breq now db dec db' s)
  from authorizeBatch_moves [OF _ authorizes_batch(1)] authorizes_batch(2) show ?case by simp
next
  case (shipment now sev db db' s)
  from handleShipmentEvent_effect [OF _ shipment(1)] shipment(2) show ?case by (auto intro: moves_grows)
next
  case (stock now kev w ures w')
  from handleStockEvent_moves [OF stock(2), of api env now kev "snd w" ures "fst w'" "snd w'"] stock(1) show ?case by simp
next
  case (relays opt producer da now locked publish committed db sent obx s)
  have "grows db (db\<lparr> ord_outbox := obx \<rparr>)" by (simp add: grows_def)
  then show ?case by auto
qed simp

lemma ord_steps_moves:
  "(ord_step api env)\<^sup>*\<^sup>* w w' \<Longrightarrow> ord_ok (fst w) \<Longrightarrow> ord_move\<^sup>*\<^sup>* (fst w) (fst w')"
proof (induction rule: rtranclp_induct)
  case (step w1 w2)
  with ord_step_moves [OF step(2)] ord_moves_ok show ?case by (meson rtranclp_trans)
qed simp

section \<open>A concrete environment and run\<close>

definition demo_customer :: master_customer where
  "demo_customer = \<lparr> mu_id = 5, mu_code = ''C-1'', mu_name = ''Minh Anh'', mu_taxCode = None, mu_phone = None,
     mu_email = None, mu_status = ''ACTIVE'', mu_version = 1 \<rparr>"

definition demo_address :: master_address where
  "demo_address = \<lparr> ma_id = 6, ma_customerId = 5, ma_addressType = ''SHIPPING'', ma_label = None,
     ma_recipientName = ''Minh Anh'', ma_phone = None, ma_addressLine = ''1 Le Loi'', ma_ward = None, ma_district = None,
     ma_province = ''HCM'', ma_postalCode = None, ma_latitude = None, ma_longitude = None, ma_deliveryNote = None,
     ma_status = ''ACTIVE'', ma_version = 1 \<rparr>"

definition demo_warehouse :: master_warehouse where
  "demo_warehouse = \<lparr> mw_id = 2, mw_code = ''W-1'', mw_name = ''Main'', mw_addressLine = ''2 Le Loi'', mw_ward = None,
     mw_district = None, mw_province = ''HCM'', mw_postalCode = None, mw_latitude = None, mw_longitude = None,
     mw_status = ''ACTIVE'', mw_version = 1 \<rparr>"

definition demo_product :: "uuid \<Rightarrow> master_product" where
  "demo_product i = \<lparr> mp_id = i, mp_sku = ''SKU'', mp_name = ''Tea'', mp_baseUnit = ''BOX'', mp_weight = ''0.002'',
     mp_volume = ''0.000001'', mp_status = ''ACTIVE'', mp_version = 1 \<rparr>"

definition demo_md :: master_data_api where
  "demo_md = \<lparr> md_customer = (\<lambda>i _. if i = 5 then HttpReply 200 (Some demo_customer) else HttpReply 404 None),
     md_addresses = (\<lambda>i _. HttpReply 200 (Some [demo_address])),
     md_warehouse = (\<lambda>i _. if i = 2 then HttpReply 200 (Some demo_warehouse) else HttpReply 404 None),
     md_product = (\<lambda>i _. if i = 99 then HttpReply 404 None else HttpReply 200 (Some (demo_product i))) \<rparr>"

text \<open>For evaluation, injective codes stand for the hashes.\<close>

definition demo_content_code :: "order_content \<Rightarrow> string" where
  "demo_content_code c = concat (map (\<lambda>(p, q). toFixed 3 q) (nc_lines c))"

definition demo_env :: ord_env where
  "demo_env = \<lparr> oe_maxLines = 5, oe_batchSize = 10, oe_prec = (\<lambda>x. x), oe_masterData = demo_md,
     oe_requestHash = demo_content_code, oe_shortageHash = (\<lambda>(a, b, c, d, e). toFixed 3 d @ toFixed 3 e),
     oe_batchHash = (\<lambda>r. nat_text (length (br_shipments r))) \<rparr>"

definition demo_octx :: order_context where
  "demo_octx = \<lparr> oc_tenantId = 1, oc_actorId = 7, oc_correlationId = 90, oc_authorization = ''Bearer x'' \<rparr>"

definition demo_dto :: create_order_dto where
  "demo_dto = \<lparr> cd_customerId = 5, cd_deliveryAddressId = 6, cd_warehouseId = 2, cd_currency = ''VND'',
     cd_lines = [\<lparr> li_productId = 31, li_quantity = ''0.015'' \<rparr>] \<rparr>"

definition demo_create :: "ord_error + create_result \<times> ord_db" where
  "demo_create = create demo_env demo_dto (Some ''demo-key'') demo_octx 3 ord_init ord_init"

definition demo_odb :: ord_db where
  "demo_odb = snd (projr demo_create)"

lemma ok_pair: "is_ok r \<Longrightarrow> r = Inr (fst (projr r), snd (projr r))"
  by (cases r) auto

lemma ok_projr: "is_ok r \<Longrightarrow> r = Inr (projr r)"
  by (cases r) auto

lemma demo_odb_value [code]: "demo_odb =
    \<lparr> orders = [\<lparr> so_id = 1, so_tenantId = 1, so_orderNumber = ''SO-19700101-000001'',
    so_customerId = 5, so_deliveryAddressId = 6, so_warehouseId = 2, so_customerSnapshot = \<lparr>
    cs_customerId = 5, cs_customerVersion = 1, cs_code = ''C-1'', cs_name = ''Minh Anh'', cs_taxCode = None,
    cs_phone = None, cs_email = None \<rparr>, so_deliveryAddressSnapshot = \<lparr> as_addressId = 6,
    as_addressVersion = 1, as_addressType = ''SHIPPING'', as_label = None, as_recipientName = ''Minh Anh'',
    as_phone = None, as_addressLine = ''1 Le Loi'', as_ward = None, as_district = None, as_province = ''HCM'',
    as_postalCode = None, as_latitude = None, as_longitude = None, as_deliveryNote = None \<rparr>,
    so_warehouseSnapshot = \<lparr> ws_warehouseId = 2, ws_warehouseVersion = 1, ws_code = ''W-1'', ws_name =
    ''Main'', ws_addressLine = ''2 Le Loi'', ws_ward = None, ws_district = None, ws_province = ''HCM'',
    ws_postalCode = None, ws_latitude = None, ws_longitude = None \<rparr>, so_currency = ''VND'', so_status =
    DRAFT, so_orderSource = ''MANUAL'', so_idempotencyKey = Some ''demo-key'', so_idempotencyRequestHash = Some
    ''0.015'', so_totals = \<lparr> ot_totalQuantity = 15, ot_totalWeight = 0, ot_totalVolume = 0 \<rparr>,
    so_pendingSince = None, so_confirmedAt = None, so_reservationGroupId = None, so_cancellationRequestedAt =
    None, so_cancellationReason = None, so_cancellationActorId = None, so_cancellationCorrelationId = None,
    so_dispatchRequestId = None, so_dispatchShipmentId = None, so_dispatchOrderVersion = None,
    so_dispatchGrantedAt = None, so_dispatchActorId = None, so_dispatchCorrelationId = None, so_canceledAt =
    None, so_completedAt = None, so_cancelReason = None, so_createdAt = 3, so_updatedAt = 3, so_version = 1,
    so_deletedAt = None \<rparr>], orderLines = [\<lparr> ol_id = 2, ol_tenantId = 1, ol_orderId = 1,
    ol_lineNumber = 1, ol_productId = 31, ol_skuSnapshot = ''SKU'', ol_productNameSnapshot = ''Tea'',
    ol_unitSnapshot = ''BOX'', ol_quantity = 15, ol_unitWeight = 2, ol_unitVolume = 1, ol_deletedAt = None
    \<rparr>], orderHistory = [\<lparr> oh_id = 3, oh_tenantId = 1, oh_orderId = 1, oh_fromStatus = None,
    oh_toStatus = DRAFT, oh_reason = None, oh_actorId = Some 7, oh_correlationId = 90, oh_orderVersion = 1,
    oh_occurredAt = 3, oh_deletedAt = None \<rparr>], shortages = [], dispatchBatches = [], orderSequences =
    [\<lparr> sq_tenantId = 1, sq_period = ''19700101'', sq_lastValue = 1 \<rparr>], ord_outbox = [\<lparr>
    ob_id = 4, ob_tenantId = 1, ob_eventType = ''OrderCreated'', ob_eventVersion = 1, ob_aggregateType =
    ''SalesOrder'', ob_aggregateId = 1, ob_aggregateVersion = 1, ob_correlationId = 90, ob_causationId = Some
    90, ob_payload = DraftPayload \<lparr> dp_orderId = 1, dp_orderNumber = ''SO-19700101-000001'', dp_status =
    ''DRAFT'', dp_customerId = 5, dp_deliveryAddressId = 6, dp_warehouseId = 2, dp_currency = ''VND'',
    dp_totalQuantity = ''0.015'', dp_totalWeight = ''0.000'', dp_totalVolume = ''0.000000'', dp_orderLines =
    [(1, 31, ''0.015'')] \<rparr>, ob_payloadActor = Some 7, ob_occurredAt = 3, ob_publishedAt = None,
    ob_attemptCount = 0, ob_nextAttemptAt = 3, ob_lastError = None, ob_version = 1, ob_deletedAt = None
    \<rparr>], ord_inbox = [], ord_next = 5 \<rparr>"
  by code_simp

lemma demo_create_run: "demo_create = Inr (fst (projr demo_create), demo_odb)"
proof -
  have "is_ok demo_create" by code_simp
  then show ?thesis unfolding demo_odb_def by (rule ok_pair)
qed

definition demo_api :: "inv_db inventory_api" where
  "demo_api = reservationsInternalController False"

lemma demo_created: "ord_step demo_api demo_env (ord_init, s) (demo_odb, s)"
  by (rule ord_step.creates [OF trans [OF demo_create_def [symmetric] demo_create_run]])

lemma demo_odb_ok: "ord_ok demo_odb"
  using ord_moves_ok [OF ord_step_moves [OF demo_created]] ord_ok_init by simp

text \<open>The order is confirmed, picked, made ready and granted.\<close>

definition demo_confirm :: "(ord_error + order_detail_view) \<times> ord_db \<times> inv_db" where
  "demo_confirm = confirm demo_api demo_env True 1 1 (user_context demo_octx) False 12 (demo_odb, demo_stock)"

lemma demo_confirm_value [code]: "demo_confirm =
    (Inr \<lparr> ov_id = 1, ov_orderNumber = ''SO-19700101-000001'', ov_status = CONFIRMED, ov_customerId = 5,
    ov_customerCode = ''C-1'', ov_customerName = ''Minh Anh'', ov_warehouseId = 2, ov_warehouseCode = ''W-1'',
    ov_warehouseName = ''Main'', ov_currency = ''VND'', ov_totalQuantity = ''0.015'', ov_totalWeight =
    ''0.000'', ov_totalVolume = ''0.000000'', ov_createdAt = 3, ov_updatedAt = 12, ov_pendingSince = None,
    ov_cancellationRequestedAt = None, ov_dispatchGrantedAt = None, ov_dispatchShipmentId = None, ov_version =
    2, ov_deliveryAddressId = 6, ov_orderSource = ''MANUAL'', ov_customerSnapshot = \<lparr> cs_customerId = 5,
    cs_customerVersion = 1, cs_code = ''C-1'', cs_name = ''Minh Anh'', cs_taxCode = None, cs_phone = None,
    cs_email = None \<rparr>, ov_deliveryAddressSnapshot = \<lparr> as_addressId = 6, as_addressVersion = 1,
    as_addressType = ''SHIPPING'', as_label = None, as_recipientName = ''Minh Anh'', as_phone = None,
    as_addressLine = ''1 Le Loi'', as_ward = None, as_district = None, as_province = ''HCM'', as_postalCode =
    None, as_latitude = None, as_longitude = None, as_deliveryNote = None \<rparr>, ov_warehouseSnapshot =
    \<lparr> ws_warehouseId = 2, ws_warehouseVersion = 1, ws_code = ''W-1'', ws_name = ''Main'', ws_addressLine
    = ''2 Le Loi'', ws_ward = None, ws_district = None, ws_province = ''HCM'', ws_postalCode = None,
    ws_latitude = None, ws_longitude = None \<rparr>, ov_confirmedAt = Some 12, ov_reservationGroupId = Some
    10, ov_canceledAt = None, ov_cancelReason = None, ov_lines = [\<lparr> lv_id = 2, lv_lineNumber = 1,
    lv_productId = 31, lv_skuSnapshot = ''SKU'', lv_productNameSnapshot = ''Tea'', lv_unitSnapshot = ''BOX'',
    lv_quantity = ''0.015'', lv_unitWeight = ''0.002'', lv_unitVolume = ''0.000001'' \<rparr>] \<rparr>,
    \<lparr> orders = [\<lparr> so_id = 1, so_tenantId = 1, so_orderNumber = ''SO-19700101-000001'',
    so_customerId = 5, so_deliveryAddressId = 6, so_warehouseId = 2, so_customerSnapshot = \<lparr>
    cs_customerId = 5, cs_customerVersion = 1, cs_code = ''C-1'', cs_name = ''Minh Anh'', cs_taxCode = None,
    cs_phone = None, cs_email = None \<rparr>, so_deliveryAddressSnapshot = \<lparr> as_addressId = 6,
    as_addressVersion = 1, as_addressType = ''SHIPPING'', as_label = None, as_recipientName = ''Minh Anh'',
    as_phone = None, as_addressLine = ''1 Le Loi'', as_ward = None, as_district = None, as_province = ''HCM'',
    as_postalCode = None, as_latitude = None, as_longitude = None, as_deliveryNote = None \<rparr>,
    so_warehouseSnapshot = \<lparr> ws_warehouseId = 2, ws_warehouseVersion = 1, ws_code = ''W-1'', ws_name =
    ''Main'', ws_addressLine = ''2 Le Loi'', ws_ward = None, ws_district = None, ws_province = ''HCM'',
    ws_postalCode = None, ws_latitude = None, ws_longitude = None \<rparr>, so_currency = ''VND'', so_status =
    CONFIRMED, so_orderSource = ''MANUAL'', so_idempotencyKey = Some ''demo-key'', so_idempotencyRequestHash =
    Some ''0.015'', so_totals = \<lparr> ot_totalQuantity = 15, ot_totalWeight = 0, ot_totalVolume = 0
    \<rparr>, so_pendingSince = None, so_confirmedAt = Some 12, so_reservationGroupId = Some 10,
    so_cancellationRequestedAt = None, so_cancellationReason = None, so_cancellationActorId = None,
    so_cancellationCorrelationId = None, so_dispatchRequestId = None, so_dispatchShipmentId = None,
    so_dispatchOrderVersion = None, so_dispatchGrantedAt = None, so_dispatchActorId = None,
    so_dispatchCorrelationId = None, so_canceledAt = None, so_completedAt = None, so_cancelReason = None,
    so_createdAt = 3, so_updatedAt = 12, so_version = 2, so_deletedAt = None \<rparr>], orderLines = [\<lparr>
    ol_id = 2, ol_tenantId = 1, ol_orderId = 1, ol_lineNumber = 1, ol_productId = 31, ol_skuSnapshot = ''SKU'',
    ol_productNameSnapshot = ''Tea'', ol_unitSnapshot = ''BOX'', ol_quantity = 15, ol_unitWeight = 2,
    ol_unitVolume = 1, ol_deletedAt = None \<rparr>], orderHistory = [\<lparr> oh_id = 3, oh_tenantId = 1,
    oh_orderId = 1, oh_fromStatus = None, oh_toStatus = DRAFT, oh_reason = None, oh_actorId = Some 7,
    oh_correlationId = 90, oh_orderVersion = 1, oh_occurredAt = 3, oh_deletedAt = None \<rparr>, \<lparr> oh_id
    = 6, oh_tenantId = 1, oh_orderId = 1, oh_fromStatus = Some DRAFT, oh_toStatus = CONFIRMED, oh_reason =
    None, oh_actorId = Some 7, oh_correlationId = 90, oh_orderVersion = 2, oh_occurredAt = 12, oh_deletedAt =
    None \<rparr>], shortages = [], dispatchBatches = [], orderSequences = [\<lparr> sq_tenantId = 1, sq_period
    = ''19700101'', sq_lastValue = 1 \<rparr>], ord_outbox = [\<lparr> ob_id = 4, ob_tenantId = 1, ob_eventType
    = ''OrderCreated'', ob_eventVersion = 1, ob_aggregateType = ''SalesOrder'', ob_aggregateId = 1,
    ob_aggregateVersion = 1, ob_correlationId = 90, ob_causationId = Some 90, ob_payload = DraftPayload
    \<lparr> dp_orderId = 1, dp_orderNumber = ''SO-19700101-000001'', dp_status = ''DRAFT'', dp_customerId = 5,
    dp_deliveryAddressId = 6, dp_warehouseId = 2, dp_currency = ''VND'', dp_totalQuantity = ''0.015'',
    dp_totalWeight = ''0.000'', dp_totalVolume = ''0.000000'', dp_orderLines = [(1, 31, ''0.015'')] \<rparr>,
    ob_payloadActor = Some 7, ob_occurredAt = 3, ob_publishedAt = None, ob_attemptCount = 0, ob_nextAttemptAt =
    3, ob_lastError = None, ob_version = 1, ob_deletedAt = None \<rparr>, \<lparr> ob_id = 5, ob_tenantId = 1,
    ob_eventType = ''OrderConfirmed'', ob_eventVersion = 1, ob_aggregateType = ''SalesOrder'', ob_aggregateId =
    1, ob_aggregateVersion = 2, ob_correlationId = 90, ob_causationId = Some 90, ob_payload = ConfirmedPayload
    \<lparr> cf_orderId = 1, cf_orderNumber = ''SO-19700101-000001'', cf_orderVersion = 2,
    cf_reservationGroupId = 10, cf_confirmedAt = 12, cf_customerId = 5, cf_deliveryAddressId = 6,
    cf_warehouseId = 2, cf_customerSnapshot = \<lparr> cs_customerId = 5, cs_customerVersion = 1, cs_code =
    ''C-1'', cs_name = ''Minh Anh'', cs_taxCode = None, cs_phone = None, cs_email = None \<rparr>,
    cf_deliveryAddressSnapshot = \<lparr> as_addressId = 6, as_addressVersion = 1, as_addressType =
    ''SHIPPING'', as_label = None, as_recipientName = ''Minh Anh'', as_phone = None, as_addressLine =
    ''1 Le Loi'', as_ward = None, as_district = None, as_province = ''HCM'', as_postalCode = None, as_latitude
    = None, as_longitude = None, as_deliveryNote = None \<rparr>, cf_warehouseSnapshot = \<lparr>
    ws_warehouseId = 2, ws_warehouseVersion = 1, ws_code = ''W-1'', ws_name = ''Main'', ws_addressLine =
    ''2 Le Loi'', ws_ward = None, ws_district = None, ws_province = ''HCM'', ws_postalCode = None, ws_latitude
    = None, ws_longitude = None \<rparr>, cf_totalQuantity = ''0.015'', cf_totalWeight = ''0.000'',
    cf_totalVolume = ''0.000000'', cf_orderLines = [\<lparr> lv_id = 2, lv_lineNumber = 1, lv_productId = 31,
    lv_skuSnapshot = ''SKU'', lv_productNameSnapshot = ''Tea'', lv_unitSnapshot = ''BOX'', lv_quantity =
    ''0.015'', lv_unitWeight = ''0.002'', lv_unitVolume = ''0.000001'' \<rparr>] \<rparr>, ob_payloadActor =
    Some 7, ob_occurredAt = 12, ob_publishedAt = None, ob_attemptCount = 0, ob_nextAttemptAt = 12, ob_lastError
    = None, ob_version = 1, ob_deletedAt = None \<rparr>], ord_inbox = [], ord_next = 7 \<rparr>, \<lparr>
    balances = [\<lparr> bal_id = 2, bal_tenantId = 1, bal_warehouseId = 2, bal_productId = 30,
    bal_onHandQuantity = 2000, bal_reservedQuantity = 0, bal_lowStockThreshold = 0, bal_version = 2,
    bal_deletedAt = None \<rparr>, \<lparr> bal_id = 6, bal_tenantId = 1, bal_warehouseId = 2, bal_productId =
    31, bal_onHandQuantity = 5000, bal_reservedQuantity = 15, bal_lowStockThreshold = 0, bal_version = 3,
    bal_deletedAt = None \<rparr>], groups = [\<lparr> grp_id = 10, grp_tenantId = 1, grp_orderId = 1,
    grp_warehouseId = 2, grp_status = RS_ACTIVE, grp_idempotencyKey =
    ''order:00000000-0000-0000-0000-000000000001:v1'', grp_orderVersion = 1, grp_reservedAt = 12,
    grp_acknowledgedAt = None, grp_releasedAt = None, grp_issuedAt = None, grp_issueShipmentId = None,
    grp_issueRequestId = None, grp_version = 1, grp_deletedAt = None \<rparr>], reservations = [\<lparr> res_id
    = 11, res_tenantId = 1, res_reservationGroupId = 10, res_orderId = 1, res_orderLineId = 2, res_balanceId =
    6, res_warehouseId = 2, res_productId = 31, res_quantity = 15, res_status = RS_ACTIVE, res_releasedAt =
    None, res_issuedAt = None, res_version = 1 \<rparr>], movements = [\<lparr> mov_id = 3, mov_tenantId = 1,
    mov_warehouseId = 2, mov_productId = 30, mov_balanceId = 2, mov_movementType = MT_RECEIPT,
    mov_quantityDelta = 2000, mov_beforeOnHand = 0, mov_afterOnHand = 2000, mov_referenceType =
    RT_STOCK_RECEIPT, mov_referenceId = 1, mov_idempotencyKey = ''rcp-1:1'', mov_reason = None, mov_actorId =
    7, mov_correlationId = 90, mov_occurredAt = 10 \<rparr>, \<lparr> mov_id = 7, mov_tenantId = 1,
    mov_warehouseId = 2, mov_productId = 31, mov_balanceId = 6, mov_movementType = MT_RECEIPT,
    mov_quantityDelta = 5000, mov_beforeOnHand = 0, mov_afterOnHand = 5000, mov_referenceType =
    RT_STOCK_RECEIPT, mov_referenceId = 1, mov_idempotencyKey = ''rcp-1:0'', mov_reason = None, mov_actorId =
    7, mov_correlationId = 90, mov_occurredAt = 10 \<rparr>], receipts = [\<lparr> rcp_id = 1, rcp_tenantId =
    1, rcp_receiptNumber = ''GRN-1'', rcp_warehouseId = 2, rcp_idempotencyKey = ''rcp-1'', rcp_status =
    ''POSTED'', rcp_receivedAt = 10, rcp_actorId = 7, rcp_correlationId = 90, rcp_deletedAt = None \<rparr>],
    receiptLines = [\<lparr> rcl_id = 5, rcl_tenantId = 1, rcl_receiptId = 1, rcl_productId = 30, rcl_quantity
    = 2000, rcl_movementId = 3 \<rparr>, \<lparr> rcl_id = 9, rcl_tenantId = 1, rcl_receiptId = 1,
    rcl_productId = 31, rcl_quantity = 5000, rcl_movementId = 7 \<rparr>], inv_outbox = [\<lparr> ob_id = 4,
    ob_tenantId = 1, ob_eventType = ''StockReceived'', ob_eventVersion = 1, ob_aggregateType =
    ''InventoryBalance'', ob_aggregateId = 2, ob_aggregateVersion = 2, ob_correlationId = 90, ob_causationId =
    None, ob_payload = MovementPayload 3 2 30 MT_RECEIPT 2000 (Some 2000) 0 2000 0 RT_STOCK_RECEIPT 1 None,
    ob_payloadActor = Some 7, ob_occurredAt = 10, ob_publishedAt = None, ob_attemptCount = 0, ob_nextAttemptAt
    = 10, ob_lastError = None, ob_version = 1, ob_deletedAt = None \<rparr>, \<lparr> ob_id = 8, ob_tenantId =
    1, ob_eventType = ''StockReceived'', ob_eventVersion = 1, ob_aggregateType = ''InventoryBalance'',
    ob_aggregateId = 6, ob_aggregateVersion = 2, ob_correlationId = 90, ob_causationId = None, ob_payload =
    MovementPayload 7 2 31 MT_RECEIPT 5000 (Some 5000) 0 5000 0 RT_STOCK_RECEIPT 1 None, ob_payloadActor = Some
    7, ob_occurredAt = 10, ob_publishedAt = None, ob_attemptCount = 0, ob_nextAttemptAt = 10, ob_lastError =
    None, ob_version = 1, ob_deletedAt = None \<rparr>, \<lparr> ob_id = 12, ob_tenantId = 1, ob_eventType =
    ''StockReserved'', ob_eventVersion = 1, ob_aggregateType = ''ReservationGroup'', ob_aggregateId = 10,
    ob_aggregateVersion = 1, ob_correlationId = 90, ob_causationId = None, ob_payload = ReservationPayload 10 1
    1 2 [(31, 15)], ob_payloadActor = None, ob_occurredAt = 12, ob_publishedAt = None, ob_attemptCount = 0,
    ob_nextAttemptAt = 12, ob_lastError = None, ob_version = 1, ob_deletedAt = None \<rparr>], inv_inbox = [],
    inv_next = 13 \<rparr>)"
  by code_simp

definition demo_shipment_event :: "string \<Rightarrow> uuid \<Rightarrow> version \<Rightarrow> shipment_lifecycle option envelope" where
  "demo_shipment_event e i v = \<lparr> ev_eventId = i, ev_eventType = e, ev_eventVersion = 1,
     ev_occurredAt = 20, ev_producer = ''fulfillment-service'', ev_tenantId = 1, ev_actorId = Some 7,
     ev_correlationId = 92, ev_causationId = 92, ev_aggregateType = ''Shipment'', ev_aggregateId = 70,
     ev_aggregateVersion = v, ev_payload = Some \<lparr> sl_shipmentId = 70, sl_orderId = 1, sl_reservationGroupId = 10,
       sl_warehouseId = 2, sl_dispatchRequestId = Some 80, sl_reason = None \<rparr>, ev_payloadActor = None \<rparr>"

definition demo_picking :: "ord_error + ord_db" where
  "demo_picking = handleShipmentEvent 21 (demo_shipment_event ''ShipmentPicking'' 40 1) (fst (snd demo_confirm))"

definition demo_ready :: "ord_error + ord_db" where
  "demo_ready = handleShipmentEvent 22 (demo_shipment_event ''ShipmentReadyToShip'' 41 2) (projr demo_picking)"

definition demo_dispatch_request :: dispatch_request where
  "demo_dispatch_request = \<lparr> dq_requestId = 80, dq_shipmentId = 70, dq_reservationGroupId = 10, dq_orderVersion = 4, dq_actorId = 7 \<rparr>"

definition demo_grant :: "ord_error + dispatch_grant \<times> ord_db" where
  "demo_grant = authorize 1 1 demo_dispatch_request 93 23 (projr demo_ready)"

text \<open>The run as steps of the service.\<close>

lemma demo_granted_run: "demo_grant = Inr (fst (projr demo_grant), snd (projr demo_grant))"
  by (rule ok_pair) code_simp

lemma demo_ready_run: "demo_ready = Inr (projr demo_ready)"
  by (rule ok_projr) code_simp

lemma demo_picking_run: "demo_picking = Inr (projr demo_picking)"
  by (rule ok_projr) code_simp

lemma demo_created_to_ready:
  "(ord_step demo_api demo_env)\<^sup>*\<^sup>* (demo_odb, demo_stock) (projr demo_ready, snd (snd demo_confirm))"
proof -
  let ?step = "ord_step demo_api demo_env" and ?s = "snd (snd demo_confirm)"
  have "?step (demo_odb, demo_stock) (fst (snd demo_confirm), ?s)"
    by (rule ord_step.confirms [where vres = "fst demo_confirm"]) (simp add: demo_confirm_def)
  moreover have "?step (fst (snd demo_confirm), ?s) (projr demo_picking, ?s)"
    by (rule ord_step.shipment [OF trans [OF demo_picking_def [symmetric] demo_picking_run]])
  moreover have "?step (projr demo_picking, ?s) (projr demo_ready, ?s)"
    by (rule ord_step.shipment [OF trans [OF demo_ready_def [symmetric] demo_ready_run]])
  ultimately show ?thesis by (meson rtranclp.rtrancl_into_rtrancl rtranclp.rtrancl_refl)
qed

lemma demo_reaches_ready:
  "(ord_step demo_api demo_env)\<^sup>*\<^sup>* (ord_init, demo_stock) (projr demo_ready, snd (snd demo_confirm))"
  by (rule converse_rtranclp_into_rtranclp [OF demo_created demo_created_to_ready])

lemma demo_grants:
  "ord_step demo_api demo_env (projr demo_ready, snd (snd demo_confirm)) (snd (projr demo_grant), snd (snd demo_confirm))"
  by (rule ord_step.authorizes [OF trans [OF demo_grant_def [symmetric] demo_granted_run]])

section \<open>The invariant and the refinement\<close>

text \<open>
  C1. Every state the order service reaches from an empty database satisfies its invariant, whatever
  the inventory service answers and however operations interleave: order ids, order numbers,
  idempotency keys and dispatch requests are unique, every row satisfies the table's constraints, an
  order past confirmation carries a reservation group and one in delivery a dispatch grant, and its
  status history is a path of the state machine ending in its status.
\<close>

theorem order_invariant:
  assumes "(ord_step api env)\<^sup>*\<^sup>* (ord_init, s0) (db, s)"
  shows "ord_ok db"
  using ord_moves_ok [OF ord_steps_moves [OF assms]] ord_ok_init by simp

theorem order_invariant_witness: "ord_ok (projr demo_ready) \<and> length (orders (projr demo_ready)) = 1"
proof
  show "ord_ok (projr demo_ready)" by (rule order_invariant [OF demo_reaches_ready])
  show "length (orders (projr demo_ready)) = 1" by code_simp
qed

lemma ord_move_origin:
  assumes "ord_ok db" "ord_move db db'" "x' \<in> set (orders db')"
  shows "(\<exists>x\<in>set (orders db). becomes x x') \<or> abs_order x' = (DRAFT, False, False)"
  using assms(2) unfolding ord_move_def
proof (elim disjE exE)
  assume "effect db db'"
  then obtain y y' where e: "replaces y y' db db'" "abs_order y' = abs_order y \<or> lifecycle (abs_order y) (abs_order y')"
    unfolding effect_def by blast
  then have "becomes y y'" "y \<in> set (orders db)" by (auto simp: becomes_def replaces_def)
  with replaces_orders [OF assms(1) e(1) assms(3)] show ?thesis using becomes_refl by blast
qed (use assms(3) in \<open>auto simp: grows_def creates_def intro: bexI [of _ x']\<close>)

lemma ord_moves_origin:
  "ord_move\<^sup>*\<^sup>* db db' \<Longrightarrow> ord_ok db \<Longrightarrow> x' \<in> set (orders db') \<Longrightarrow>
     (\<exists>x\<in>set (orders db). becomes x x') \<or> lifecycle\<^sup>*\<^sup>* (DRAFT, False, False) (abs_order x')"
proof (induction arbitrary: x' rule: rtranclp_induct)
  case (step db1 db2)
  note ok1 = ord_moves_ok [OF step(1,4)]
  from ord_move_origin [OF ok1 step(2,5)] show ?case
  proof
    assume "\<exists>x\<in>set (orders db1). becomes x x'"
    then obtain x1 where x1: "x1 \<in> set (orders db1)" "becomes x1 x'" by blast
    from step.IH [OF step(4) x1(1)] x1(2) becomes_trans show ?thesis
      by (meson becomes_def rtranclp_trans)
  qed simp
qed (use becomes_refl in blast)

text \<open>
  C8. The service refines the abstract life of an order: in one step of the service every order stays
  the same order, moves only along the abstract transitions, and its version grows whenever its row
  changes; an order that was not there before has come from a draft along them.
\<close>

theorem order_refines_lifecycle:
  assumes "ord_ok db" "ord_step api env (db, s) (db', s')"
  shows "(\<forall>x\<in>set (orders db). \<exists>x'\<in>set (orders db'). so_id x' = so_id x \<and> so_tenantId x' = so_tenantId x \<and>
       so_orderNumber x' = so_orderNumber x \<and> lifecycle\<^sup>*\<^sup>* (abs_order x) (abs_order x') \<and>
       so_version x \<le> so_version x' \<and> (so_version x' = so_version x \<longrightarrow> x' = x)) \<and>
    (\<forall>x'\<in>set (orders db'). (\<exists>x\<in>set (orders db). so_id x = so_id x') \<or>
       lifecycle\<^sup>*\<^sup>* (DRAFT, False, False) (abs_order x'))"
proof -
  have m: "ord_move\<^sup>*\<^sup>* db db'" using ord_step_moves [OF assms(2)] assms(1) by simp
  show ?thesis
    using ord_moves_becomes [OF m assms(1)] ord_moves_origin [OF m assms(1)]
    unfolding becomes_def by (metis (no_types, lifting))
qed

theorem order_refines_lifecycle_witness:
  "map abs_order (orders (projr demo_ready)) = [(READY_TO_SHIP, False, False)] \<and>
   (\<exists>x'. x' \<in> set (orders (snd (projr demo_grant))) \<and> lifecycle\<^sup>*\<^sup>* (READY_TO_SHIP, False, False) (abs_order x')) \<and>
   map abs_order (orders (snd (projr demo_grant))) = [(READY_TO_SHIP, False, True)]"
proof -
  have r: "map abs_order (orders (projr demo_ready)) = [(READY_TO_SHIP, False, False)]" by code_simp
  have g: "map abs_order (orders (snd (projr demo_grant))) = [(READY_TO_SHIP, False, True)]" by code_simp
  have ok: "ord_ok (projr demo_ready)"
    using ord_moves_ok [OF ord_steps_moves [OF demo_reaches_ready]] ord_ok_init by simp
  from r obtain x where x: "x \<in> set (orders (projr demo_ready))" "abs_order x = (READY_TO_SHIP, False, False)"
    by (cases "orders (projr demo_ready)") auto
  from order_refines_lifecycle [OF ok demo_grants] x
  have "\<exists>x'. x' \<in> set (orders (snd (projr demo_grant))) \<and> lifecycle\<^sup>*\<^sup>* (READY_TO_SHIP, False, False) (abs_order x')"
    by metis
  with r g show ?thesis by blast
qed

lemma granted_not_canceling:
  "order_ok db x \<Longrightarrow> so_dispatchGrantedAt x \<noteq> None \<Longrightarrow> so_cancellationRequestedAt x = None \<and> so_status x \<noteq> CANCELED"
  by (auto simp: order_ok_def row_checks_def ck_dispatch_decision_def no_dispatch_def dispatch_committed_def)

text \<open>
  C9. Dispatch and cancellation exclude each other for good: once dispatch of an order has been
  granted, in every later state the order is still granted, has no cancellation under way and is not
  cancelled; once its cancellation has been requested, in every later state it has never been granted
  and is either still waiting for the cancellation in the same status or cancelled.
\<close>

theorem dispatch_excludes_cancellation:
  assumes "(ord_step api env)\<^sup>*\<^sup>* (ord_init, s0) (db, s)" "x \<in> set (orders db)"
    "(ord_step api env)\<^sup>*\<^sup>* (db, s) (db', s')"
  shows "(so_dispatchGrantedAt x \<noteq> None \<longrightarrow> (\<exists>x'\<in>set (orders db'). so_id x' = so_id x \<and>
       so_dispatchGrantedAt x' \<noteq> None \<and> so_cancellationRequestedAt x' = None \<and> so_status x' \<noteq> CANCELED)) \<and>
    (so_cancellationRequestedAt x \<noteq> None \<longrightarrow> (\<exists>x'\<in>set (orders db'). so_id x' = so_id x \<and>
       so_dispatchGrantedAt x' = None \<and>
       (so_status x' = so_status x \<and> so_cancellationRequestedAt x' \<noteq> None \<or> so_status x' = CANCELED)))"
proof -
  have ok: "ord_ok db" using ord_moves_ok [OF ord_steps_moves [OF assms(1)]] ord_ok_init by simp
  have m: "ord_move\<^sup>*\<^sup>* db db'" using ord_steps_moves [OF assms(3)] ok by simp
  from ord_moves_becomes [OF m ok assms(2)] obtain x' where
    x': "x' \<in> set (orders db')" "so_id x' = so_id x" "lifecycle\<^sup>*\<^sup>* (abs_order x) (abs_order x')"
    unfolding becomes_def by blast
  note nc = granted_not_canceling [OF ord_okD(3) [OF ok assms(2)]]
    granted_not_canceling [OF ord_okD(3) [OF ord_moves_ok [OF m ok] x'(1)]]
  show ?thesis
  proof (intro conjI impI)
    assume "so_dispatchGrantedAt x \<noteq> None"
    with lifecycle_granted_star [OF x'(3)] nc show "\<exists>x'\<in>set (orders db'). so_id x' = so_id x \<and>
       so_dispatchGrantedAt x' \<noteq> None \<and> so_cancellationRequestedAt x' = None \<and> so_status x' \<noteq> CANCELED"
      using x'(1,2) by (auto simp: abs_order_def)
  next
    assume c: "so_cancellationRequestedAt x \<noteq> None"
    with nc(1) have "so_dispatchGrantedAt x = None" by blast
    with c x'(3) have "lifecycle\<^sup>*\<^sup>* (so_status x, True, False) (abs_order x')" by (simp add: abs_order_def)
    from lifecycle_canceling_star [OF this] show "\<exists>x'\<in>set (orders db'). so_id x' = so_id x \<and>
       so_dispatchGrantedAt x' = None \<and>
       (so_status x' = so_status x \<and> so_cancellationRequestedAt x' \<noteq> None \<or> so_status x' = CANCELED)"
      using x'(1,2) by (auto simp: abs_order_def)
  qed
qed

definition demo_departed :: "ord_error + ord_db" where
  "demo_departed = handleShipmentEvent 24 (demo_shipment_event ''ShipmentDispatched'' 42 3) (snd (projr demo_grant))"

theorem dispatch_excludes_cancellation_witness:
  "map abs_order (orders (snd (projr demo_grant))) = [(READY_TO_SHIP, False, True)] \<and>
   map abs_order (orders (projr demo_departed)) = [(IN_DELIVERY, False, True)] \<and>
   (\<exists>x'\<in>set (orders (projr demo_departed)). so_dispatchGrantedAt x' \<noteq> None \<and>
      so_cancellationRequestedAt x' = None \<and> so_status x' \<noteq> CANCELED)"
proof -
  have g: "map abs_order (orders (snd (projr demo_grant))) = [(READY_TO_SHIP, False, True)]" by code_simp
  have d: "map abs_order (orders (projr demo_departed)) = [(IN_DELIVERY, False, True)]" by code_simp
  have "is_ok demo_departed" by code_simp
  then have run: "(ord_step demo_api demo_env)\<^sup>*\<^sup>* (snd (projr demo_grant), snd (snd demo_confirm))
      (projr demo_departed, snd (snd demo_confirm))"
    by (intro r_into_rtranclp ord_step.shipment [OF trans [OF demo_departed_def [symmetric]]] ok_projr)
  have start: "(ord_step demo_api demo_env)\<^sup>*\<^sup>* (ord_init, demo_stock) (snd (projr demo_grant), snd (snd demo_confirm))"
    using demo_reaches_ready demo_grants by (meson rtranclp.rtrancl_into_rtrancl)
  from g obtain x where x: "x \<in> set (orders (snd (projr demo_grant)))" "so_dispatchGrantedAt x \<noteq> None"
    by (cases "orders (snd (projr demo_grant))") (auto simp: abs_order_def)
  from dispatch_excludes_cancellation [OF start x(1) run] x(2) g d show ?thesis by blast
qed

lemma history_path_length: "history_path hs s v \<Longrightarrow> length hs \<le> Suc (status_rank s)"
proof (induction rule: history_path.induct)
  case (moved hs s v h)
  with status_rank_mono [OF moved(3,4)] show ?case by simp
qed simp

text \<open>
  C30. The life of an order ends: in every reachable state its history starts with its creation, each
  entry continues where the one before it ended along an allowed transition at a greater version, the
  last entry is its present status, and there are at most seven entries.
\<close>

theorem order_history_terminates:
  assumes "(ord_step api env)\<^sup>*\<^sup>* (ord_init, s0) (db, s)" "x \<in> set (orders db)"
  shows "(\<exists>v\<le>so_version x. history_path (history_of (so_tenantId x) (so_id x) db) (so_status x) v) \<and>
    length (history_of (so_tenantId x) (so_id x) db) \<le> 7"
proof -
  have ok: "ord_ok db" using ord_moves_ok [OF ord_steps_moves [OF assms(1)]] ord_ok_init by simp
  from ord_okD(3) [OF ok assms(2)] obtain v where v: "v \<le> so_version x"
    "history_path (history_of (so_tenantId x) (so_id x) db) (so_status x) v" by (auto simp: order_ok_def)
  with history_path_length [OF v(2)] status_rank_le [of "so_status x"] show ?thesis by auto
qed

theorem order_history_terminates_witness:
  "length (history_of 1 1 (projr demo_ready)) = 4 \<and>
   (\<exists>v. v \<le> 4 \<and> history_path (history_of 1 1 (projr demo_ready)) READY_TO_SHIP v)"
proof -
  have l: "length (history_of 1 1 (projr demo_ready)) = 4" by code_simp
  have o: "map (\<lambda>x. (so_tenantId x, so_id x, so_status x, so_version x)) (orders (projr demo_ready)) =
      [(1, 1, READY_TO_SHIP, 4)]" by code_simp
  then obtain x where x: "x \<in> set (orders (projr demo_ready))" "so_tenantId x = 1" "so_id x = 1"
    "so_status x = READY_TO_SHIP" "so_version x = 4" by (cases "orders (projr demo_ready)") auto
  from order_history_terminates [OF demo_reaches_ready x(1)] l show ?thesis unfolding x(2-5) by blast
qed

end
