(* ===== verification/Order_Lookup.thy ===== *)
theory Order_Lookup
  imports Order_References
begin

text \<open>
  The arithmetic and the look-ups of a creation: what the totals of an order are, that amounts survive
  their textual form, and that the bounded concurrent look-up of products is the plain map over the
  lines.
\<close>

section \<open>Amounts\<close>

text \<open>
  C38. A quantity a request may carry is positive and fits its column, and printing the stored quantity
  and reading it back gives the same amount, for every quantity text the pattern admits.
\<close>

theorem quantity_roundtrip:
  assumes "ORDER_QUANTITY_PATTERN s"
  shows "0 < decimal_value 3 s \<and> decimal_value 3 s < 10 ^ 18 \<and>
    decimal_value 3 (formatQuantity (decimal_value 3 s)) = decimal_value 3 s"
  using quantity_pattern_value [OF assms] decimal_value_toFixed [of "decimal_value 3 s" 3]
  by (simp add: formatQuantity_def)

theorem quantity_roundtrip_witness:
  "ORDER_QUANTITY_PATTERN ''7.5'' \<and> formatQuantity (decimal_value 3 ''7.5'') = ''7.500'' \<and>
   decimal_value 3 ''7.500'' = decimal_value 3 ''7.5''"
proof -
  have p: "ORDER_QUANTITY_PATTERN ''7.5''" and f: "formatQuantity (decimal_value 3 ''7.5'') = ''7.500''" by code_simp+
  with quantity_roundtrip [OF p] show ?thesis by simp
qed

section \<open>Totals\<close>

text \<open>
  The totals of an order are what their names say: as long as each exact sum has at most the twenty
  digits the decimal arithmetic keeps, the total quantity is exactly the sum of the line quantities, and
  the total weight and volume are within half a unit of their last stored digit of the exact sums of
  quantity times unit weight and quantity times unit volume.
\<close>

theorem order_totals_rounding:
  assumes "prec_exact prec" "totals_small lines"
  shows "ot_totalQuantity (calculateOrderTotals prec lines) = sum_list (map rv_quantity lines) \<and>
    \<bar>2 * (ot_totalWeight (calculateOrderTotals prec lines) * 1000 -
       sum_list (map (\<lambda>l. rv_quantity l * rv_unitWeight l) lines))\<bar> \<le> 1000 \<and>
    \<bar>2 * (ot_totalVolume (calculateOrderTotals prec lines) * 1000 -
       sum_list (map (\<lambda>l. rv_quantity l * rv_unitVolume l) lines))\<bar> \<le> 1000"
proof -
  have nn: "0 \<le> sum_of line_weight lines" "0 \<le> sum_of line_volume lines"
    using assms(2) sum_of_nonneg by (auto simp: totals_small_def small_sum_def)
  have "sum_of line_weight lines = sum_list (map (\<lambda>l. rv_quantity l * rv_unitWeight l) lines)"
    "sum_of line_volume lines = sum_list (map (\<lambda>l. rv_quantity l * rv_unitVolume l) lines)"
    by (simp_all add: sum_of_def line_weight_def [abs_def] line_volume_def [abs_def])
  with round_half_up_error [OF nn(1), of 3] round_half_up_error [OF nn(2), of 3] show ?thesis
    by (simp add: calculateOrderTotals_exact [OF assms] sum_of_def)
qed

definition demo_lines :: "resolved_line list" where
  "demo_lines = [toResolvedLine 1 \<lparr> li_productId = 31, li_quantity = ''1.5'' \<rparr>
     \<lparr> mp_id = 31, mp_sku = ''SKU'', mp_name = ''Tea'', mp_baseUnit = ''BOX'', mp_weight = ''0.333'',
       mp_volume = ''0.000001'', mp_status = ''ACTIVE'', mp_version = 1 \<rparr>]"

theorem order_totals_rounding_witness:
  "ot_totalWeight (calculateOrderTotals (\<lambda>x. x) demo_lines) = 500 \<and>
   sum_list (map (\<lambda>l. rv_quantity l * rv_unitWeight l) demo_lines) = 499500 \<and>
   \<bar>2 * (ot_totalWeight (calculateOrderTotals (\<lambda>x. x) demo_lines) * 1000 -
       sum_list (map (\<lambda>l. rv_quantity l * rv_unitWeight l) demo_lines))\<bar> \<le> 1000"
proof -
  have p: "prec_exact (\<lambda>x. x)" by (simp add: prec_exact_def)
  have t: "totals_small demo_lines" by code_simp
  have "ot_totalWeight (calculateOrderTotals (\<lambda>x. x) demo_lines) = 500" by code_simp
  moreover have "sum_list (map (\<lambda>l. rv_quantity l * rv_unitWeight l) demo_lines) = 499500" by code_simp
  ultimately show ?thesis using order_totals_rounding [OF p t] by blast
qed

section \<open>The concurrent look-up\<close>

text \<open>
  C31. The bounded concurrent loop is a map: in every interleaving of its workers and replies it sends
  each request once and in order, never has more than the given limit of requests in flight, ends after at most two
  steps per item, can always go on until it has ended, and when it has ended without a rejection its
  results are those of the plain left-to-right map; a rejection is that of one of the items.
\<close>

theorem concurrent_lookup_is_map:
  assumes "(mc_step f items limit ^^ k) mc_init s" "0 < limit"
  shows "k \<le> 2 * length items \<and> mc_calls s = [0..<mc_cursor s] \<and> card (mc_inflight s) \<le> limit \<and>
    (mc_done items s \<or> (\<exists>s'. mc_step f items limit s s')) \<and>
    (mc_done items s \<longrightarrow> (case mc_failed s of
        Some e \<Rightarrow> (\<exists>x\<in>set items. f x = Inl e)
      | None \<Rightarrow> (\<exists>ys. map_res f items = Inr ys \<and> (\<forall>i<length items. mc_results s i = Some (ys ! i)))))"
proof -
  note i = mc_run_inv [OF assms(1)]
  have fly: "mc_inflight s \<subseteq> {..<min limit (length items)}" and "mc_calls s = [0..<mc_cursor s]"
    using i by (simp_all add: mc_inv_def)
  moreover have "card (mc_inflight s) \<le> limit" using card_mono [OF _ fly] by simp
  ultimately show ?thesis
    using mc_run_bound [OF assms(1)] mc_progress [OF i _ assms(2)] mc_done_result [OF i] by blast
qed

definition demo_lookup :: "nat \<Rightarrow> string + nat" where
  "demo_lookup n = (if n = 0 then Inl ''missing'' else Inr (n + 1))"

definition demo_mc :: "(string, nat) mc_state" where
  "demo_mc = \<lparr> mc_cursor = 1, mc_busy = (\<lambda>_. None), mc_stopped = (\<lambda>_. False), mc_results = (\<lambda>_. None)(0 := Some 6),
     mc_failed = None, mc_calls = [0] \<rparr>"

theorem concurrent_lookup_is_map_witness:
  "(mc_step demo_lookup [5] 10 ^^ 2) mc_init demo_mc \<and> map_res demo_lookup [5] = Inr [6] \<and>
   mc_results demo_mc 0 = Some 6 \<and> card (mc_inflight demo_mc) \<le> 10"
proof -
  let ?m = "(mc_init :: (string, nat) mc_state)\<lparr> mc_cursor := 1, mc_busy := (\<lambda>_. None)(0 := Some 0), mc_calls := [0] \<rparr>"
  have "mc_step demo_lookup [5] 10 mc_init ?m"
    using mc_step.take_index [of 0 10 "[5::nat]" "mc_init :: (string, nat) mc_state" demo_lookup] by (simp add: mc_init_def)
  moreover have "(\<lambda>_. None)(0 := None) = (\<lambda>_. None)" by auto
  then have "mc_step demo_lookup [5] 10 ?m demo_mc"
    using mc_step.resolve [of ?m 0 0 demo_lookup "[5]" 6 10] by (simp add: mc_init_def demo_mc_def demo_lookup_def)
  ultimately have run: "(mc_step demo_lookup [5] 10 ^^ 2) mc_init demo_mc" by (auto simp: numeral_2_eq_2)
  from concurrent_lookup_is_map [OF run] have "card (mc_inflight demo_mc) \<le> 10" by simp
  moreover have "map_res demo_lookup [5] = Inr [6]" "mc_results demo_mc 0 = Some 6"
    by (simp_all add: demo_lookup_def demo_mc_def)
  ultimately show ?thesis using run by blast
qed

end
