(* ===== verification/Order_Protocols.thy ===== *)
theory Order_Protocols
  imports Order_Theorems
begin

text \<open>
  What the order service promises its callers beyond the invariant: retried and racing creations, the
  shortages of a waiting order, the exact totals, the bounded concurrent look-up of products, and the
  atomic batch decision.
\<close>

section \<open>Creation\<close>

lemma findByIdempotencyKey_unique:
  assumes "ord_ok db" "x \<in> set (orders db)" "so_tenantId x = t" "so_idempotencyKey x = Some k"
  shows "findByIdempotencyKey t k db = Some x"
  unfolding findByIdempotencyKey_def
  by (rule find_unique) (use assms ord_okD(6) [OF assms(1)] in \<open>auto simp: keys_distinct_def\<close>)

lemma create_result_view:
  assumes "create env dto (Some k) ctx now db0 db = Inr (r, db')" "\<not> cr_replayed r"
  shows "\<exists>x\<in>set (orders db'). so_tenantId x = oc_tenantId ctx \<and> so_idempotencyKey x = Some k \<and>
    so_idempotencyRequestHash x = Some (hashCreateOrderRequest env dto) \<and>
    cr_order r = toOrderDetailView x (lines_of (so_id x) db')"
proof -
  from create_D [OF assms(1)] assms(2) obtain x c w ls where
    tx: "createTx dto k (hashCreateOrderRequest env dto) ctx c w ls (calculateOrderTotals (oe_prec env) ls) now db = Inr (x, db')"
    "cr_order r = toOrderDetailView x (lines_of (so_id x) db')" by auto
  from createTx_creates [OF tx(1)] have "x \<in> set (orders db')" by (simp add: creates_def)
  moreover from createTx_D [OF tx(1)] have "so_tenantId x = oc_tenantId ctx" "so_idempotencyKey x = Some k"
    "so_idempotencyRequestHash x = Some (hashCreateOrderRequest env dto)" by (metis newOrder_simps)+
  ultimately show ?thesis using tx(2) by blast
qed

lemma create_key_pattern: "create env dto (Some k) ctx now db0 db = Inr p \<Longrightarrow> IDEMPOTENCY_KEY_PATTERN k"
  by (auto simp: create_def split: if_splits)

lemma ov_id_view [simp]: "ov_id (toOrderDetailView x ls) = so_id x"
  by (simp add: toOrderDetailView_def toOrderSummaryView_def order_summary_view.defs)

text \<open>
  C20. Creating an order is idempotent: after a creation with a key, in every later state a request of
  the same tenant with that key and the same content returns the order created first, in its present
  state, and writes nothing; with other content (another hash) it is refused.
\<close>

theorem create_idempotent:
  assumes "ord_ok db" "create env dto (Some k) ctx now db0 db = Inr (r, db1)" "\<not> cr_replayed r"
    "(ord_step api env)\<^sup>*\<^sup>* (db1, s) (db2, s2)" "oc_tenantId ctx' = oc_tenantId ctx"
  shows "\<exists>x\<in>set (orders db2). so_id x = ov_id (cr_order r) \<and>
    create env dto' (Some k) ctx' now' db2 db3 =
      (if hashCreateOrderRequest env dto' = hashCreateOrderRequest env dto
       then Inr (\<lparr> cr_order = toOrderDetailView x (lines_of (so_id x) db2), cr_replayed = True \<rparr>, db3)
       else Inl IdempotencyKeyReused)"
proof -
  from create_result_view [OF assms(2,3)] obtain x where x: "x \<in> set (orders db1)" "so_tenantId x = oc_tenantId ctx"
    "so_idempotencyKey x = Some k" "so_idempotencyRequestHash x = Some (hashCreateOrderRequest env dto)"
    "cr_order r = toOrderDetailView x (lines_of (so_id x) db1)" by blast
  have ok1: "ord_ok db1"
    using ord_moves_ok [OF ord_step_moves [OF ord_step.creates [OF assms(2)]]] assms(1) by simp
  have m: "ord_move\<^sup>*\<^sup>* db1 db2" using ord_steps_moves [OF assms(4)] ok1 by simp
  from ord_moves_becomes [OF m ok1 x(1)] obtain x' where x': "x' \<in> set (orders db2)" "becomes x x'" by blast
  then have "findByIdempotencyKey (oc_tenantId ctx') k db2 = Some x'"
    using findByIdempotencyKey_unique [OF ord_moves_ok [OF m ok1] x'(1)] x assms(5) by (simp add: becomes_def)
  with create_key_pattern [OF assms(2)] x x' show ?thesis
    by (intro bexI [of _ x']) (auto simp: create_def replay_def becomes_def)
qed

definition demo_dto2 :: create_order_dto where
  "demo_dto2 = demo_dto\<lparr> cd_lines := [\<lparr> li_productId = 31, li_quantity = ''0.016'' \<rparr>] \<rparr>"

theorem create_idempotent_witness:
  "is_ok demo_create \<and>
   create demo_env demo_dto2 (Some ''demo-key'') demo_octx 30 (projr demo_ready) ord_init = Inl IdempotencyKeyReused \<and>
   (\<exists>x\<in>set (orders (projr demo_ready)). so_id x = 1 \<and> so_status x = READY_TO_SHIP \<and>
     create demo_env demo_dto (Some ''demo-key'') demo_octx 30 (projr demo_ready) ord_init =
       Inr (\<lparr> cr_order = toOrderDetailView x (lines_of (so_id x) (projr demo_ready)), cr_replayed = True \<rparr>, ord_init))"
proof -
  let ?r = "fst (projr demo_create)"
  have ok: "is_ok demo_create" and n: "\<not> cr_replayed ?r" and i: "ov_id (cr_order ?r) = 1" by code_simp+
  have run: "(ord_step demo_api demo_env)\<^sup>*\<^sup>* (demo_odb, demo_stock) (projr demo_ready, snd (snd demo_confirm))"
    by (rule demo_created_to_ready)
  note again = create_idempotent [OF ord_ok_init demo_create_run [unfolded demo_create_def] n [unfolded demo_create_def] run refl]
  have h: "hashCreateOrderRequest demo_env demo_dto2 \<noteq> hashCreateOrderRequest demo_env demo_dto" by code_simp
  have st: "list_all (\<lambda>x. so_status x = READY_TO_SHIP) (orders (projr demo_ready))" by code_simp
  show ?thesis using ok again [of demo_dto2 30 ord_init] again [of demo_dto 30 ord_init] h i st
    unfolding demo_create_def [symmetric] by (auto simp: list_all_iff)
qed

text \<open>
  C29. Of two racing creations with one key the loser leaves no trace: it found no order with its key before
  it called Master Data, but when its transaction starts the winner has committed; its insert violates the
  unique index and is rolled back with the order number it drew. A loser with the winner's content gets the
  winner's order as a replay, a loser with other content the error that the key is reused.
\<close>

theorem create_race_returns_winner:
  assumes "ord_ok db" "x \<in> set (orders db)" "so_tenantId x = oc_tenantId ctx" "so_idempotencyKey x = Some k"
    "findByIdempotencyKey (oc_tenantId ctx) k db0 = None" "IDEMPOTENCY_KEY_PATTERN k"
    "assertLineRules (oe_maxLines env) (cd_lines dto) = Inr u"
    "resolveCustomer (oe_masterData env) (cd_customerId dto) (cd_deliveryAddressId dto) (toUpstreamContext ctx) = Inr c"
    "resolveWarehouse (oe_masterData env) (cd_warehouseId dto) (toUpstreamContext ctx) = Inr w"
    "resolveLines (oe_masterData env) (cd_lines dto) (toUpstreamContext ctx) = Inr ls"
    "totals_fit (calculateOrderTotals (oe_prec env) ls)"
  shows "create env dto (Some k) ctx now db0 db =
    (if so_idempotencyRequestHash x = Some (hashCreateOrderRequest env dto)
     then Inr (\<lparr> cr_order = toOrderDetailView x (lines_of (so_id x) db), cr_replayed = True \<rparr>, db)
     else Inl IdempotencyKeyReused)"
proof -
  have f: "findByIdempotencyKey (oc_tenantId ctx) k db = Some x"
    using findByIdempotencyKey_unique assms(1-4) by simp
  have "createTx dto k (hashCreateOrderRequest env dto) ctx c w ls (calculateOrderTotals (oe_prec env) ls) now db =
      Inl OrdUniqueViolation"
    using assms(2-4,11) by (auto simp: createTx_def insertOrder_def Let_def split: prod.splits)
  with f assms(5-10) show ?thesis by (simp add: create_def Let_def replay_def)
qed

theorem create_race_returns_winner_witness:
  "\<exists>x\<in>set (orders demo_odb). create demo_env demo_dto (Some ''demo-key'') demo_octx 5 ord_init demo_odb =
     Inr (\<lparr> cr_order = toOrderDetailView x (lines_of (so_id x) demo_odb), cr_replayed = True \<rparr>, demo_odb)"
proof -
  let ?h = "hashCreateOrderRequest demo_env demo_dto" and ?up = "toUpstreamContext demo_octx"
  have "map (\<lambda>x. (so_tenantId x, so_idempotencyKey x, so_idempotencyRequestHash x)) (orders demo_odb) =
      [(1, Some ''demo-key'', Some ?h)]" by code_simp
  then obtain x where x: "x \<in> set (orders demo_odb)" "so_tenantId x = oc_tenantId demo_octx"
    "so_idempotencyKey x = Some ''demo-key''" "so_idempotencyRequestHash x = Some ?h"
    by (cases "orders demo_odb") (auto simp: demo_octx_def)
  have f: "findByIdempotencyKey (oc_tenantId demo_octx) ''demo-key'' ord_init = None" by code_simp
  have p: "IDEMPOTENCY_KEY_PATTERN ''demo-key''" by code_simp
  have "is_ok (assertLineRules (oe_maxLines demo_env) (cd_lines demo_dto))" by code_simp
  note a = ok_projr [OF this]
  have "is_ok (resolveCustomer (oe_masterData demo_env) (cd_customerId demo_dto) (cd_deliveryAddressId demo_dto) ?up)" by code_simp
  note b = ok_projr [OF this]
  have "is_ok (resolveWarehouse (oe_masterData demo_env) (cd_warehouseId demo_dto) ?up)" by code_simp
  note c = ok_projr [OF this]
  have "is_ok (resolveLines (oe_masterData demo_env) (cd_lines demo_dto) ?up)" by code_simp
  note d = ok_projr [OF this]
  have t: "totals_fit (calculateOrderTotals (oe_prec demo_env)
      (projr (resolveLines (oe_masterData demo_env) (cd_lines demo_dto) ?up)))" by code_simp
  show ?thesis
    using create_race_returns_winner [OF demo_odb_ok x(1-3) f p a b c d t] x(1,4) by auto
qed

end
