(* ===== verification/Order_Composition.thy ===== *)
theory Order_Composition
  imports Order_Theorems
begin

text \<open>
  The order service together with the inventory service. What the order service relies on is the
  interface \<open>reservation_authority\<close>; the inventory service of this repository satisfies it behind its
  internal controller. From it follow the completion of every cancellation and the recovery of a
  confirmation interrupted between the two services. The shortages of a waiting order and the
  projection of shipment events are here as well.
\<close>

section \<open>Writes that succeed\<close>

lemma history_path_versions: "history_path hs s v \<Longrightarrow> h \<in> set hs \<Longrightarrow> oh_orderVersion h \<le> v"
  by (induction arbitrary: h rule: history_path.induct) (auto dest: less_imp_le intro: order_trans)

lemma createHistory_succeeds:
  assumes "ord_ok db" "x \<in> set (orders db)" "so_version x < ver" "orderHistory db1 = orderHistory db"
  shows "\<exists>db2. createHistory (so_tenantId x) (so_id x) from to reason actor corr ver at db1 = Inr db2 \<and> orders db2 = orders db1 \<and>
    ord_inbox db2 = ord_inbox db1"
proof -
  from ord_okD(3) [OF assms(1,2)] obtain v where v: "v \<le> so_version x"
    "history_path (history_of (so_tenantId x) (so_id x) db) (so_status x) v" by (auto simp: order_ok_def)
  have "oh_orderVersion h \<noteq> ver" if "h \<in> set (orderHistory db)" "oh_tenantId h = so_tenantId x" "oh_orderId h = so_id x" for h
    using history_path_versions [OF v(2), of h] v(1) assms(3) that by (auto simp: history_of_def)
  with assms(4) show ?thesis by (auto simp: createHistory_def)
qed

lemma updateOrder_succeeds:
  assumes ok: "ord_ok db" and l: "loadOrder t i db = Inr x" and k: "keeps_identity f"
    and "totals_fit (so_totals (f x))" "row_checks ((f x)\<lparr> so_updatedAt := now \<rparr>)"
    and "so_dispatchRequestId (f x) = so_dispatchRequestId x"
  shows "\<exists>db1. updateOrder t i f now db = Inr ((f x)\<lparr> so_updatedAt := now \<rparr>, db1) \<and> orderHistory db1 = orderHistory db \<and>
    ord_inbox db1 = ord_inbox db \<and> shortages db1 = shortages db \<and>
    loadOrder t i db1 = Inr ((f x)\<lparr> so_updatedAt := now \<rparr>) \<and> (\<forall>u j. j \<noteq> i \<longrightarrow> loadOrder u j db1 = loadOrder u j db)"
proof -
  note lx = loadOrder_D [OF l]
  let ?x' = "(f x)\<lparr> so_updatedAt := now \<rparr>"
  let ?db1 = "db\<lparr> orders := update_where (the_order t i) (\<lambda>_. ?x') (orders db) \<rparr>"
  have fd: "List.find (the_order t i) (orders db) = Some x"
    by (rule find_unique) (use lx order_id_unique [OF ok] in \<open>auto simp: the_order_def\<close>)
  have "\<not> dispatch_request_taken ?x' (orders db)"
  proof
    assume "dispatch_request_taken ?x' (orders db)"
    then obtain y where "y \<in> set (orders db)" "so_id y \<noteq> so_id x" "so_tenantId y = so_tenantId x"
      "so_dispatchRequestId x \<noteq> None" "so_dispatchRequestId y = so_dispatchRequestId x"
      using k assms(6) by (auto simp: dispatch_request_taken_def keeps_identity_def)
    with lx ord_okD(6) [OF ok] show False by (metis keys_distinct_def)
  qed
  with assms(4,5) fd have up: "updateOrder t i f now db = Inr (?x', ?db1)" by (simp add: updateOrder_def Let_def)
  have "the_order t i ?x'" using lx k by (simp add: the_order_def keeps_identity_def)
  with up updateOrder_other [OF up] updateOrder_replaces(4) [OF ok up l k] show ?thesis by simp
qed

lemma row_checks_canceled:
  assumes "row_checks x" "so_dispatchGrantedAt x = None"
  shows "no_dispatch x"
  using assms by (auto simp: row_checks_def ck_dispatch_decision_def dispatch_committed_def)

lemma recordDecision_reserved: "\<exists>db'. recordDecision env ctx st x (RESERVED g) now db = Inr db' \<and>
    orders db' = orders db \<and> orderHistory db' = orderHistory db \<and> ord_inbox db' = ord_inbox db"
  by (simp add: Let_def)

text \<open>Once the stock is reserved nothing in the database refuses the confirmation.\<close>

lemma applyReserveResult_reserved:
  assumes ok: "ord_ok db" and g: "confirmGuards i v ctx retry db = Inr (Inr x)"
  shows "\<exists>db'. applyReserveResult env ctx x (RESERVED r) now db = Inr ((decideOrder (RESERVED r) now x)\<lparr> so_updatedAt := now \<rparr>, db') \<and>
    loadOrder (xc_tenantId ctx) i db' = Inr ((decideOrder (RESERVED r) now x)\<lparr> so_updatedAt := now \<rparr>)"
proof -
  note cx = confirmGuards_D [OF g]
  note lx = loadOrder_D [OF cx(1)] and ids = loadOrder_ids [OF cx(1)]
  have ox: "order_ok db x" using ord_okD(3) [OF ok] lx by blast
  let ?f = "decideOrder (RESERVED r) now" and ?t = "xc_tenantId ctx"
  let ?x' = "(?f x)\<lparr> so_updatedAt := now \<rparr>"
  have nd: "no_dispatch x" using order_ok_confirmable(1) [OF ox cx(2)] ox by (auto simp: order_ok_def intro: row_checks_canceled)
  then have "row_checks ?x'" by (simp add: row_checks_def ck_pending_since_def ck_dispatch_decision_def no_dispatch_def)
  then obtain db1 where up: "updateOrder ?t i ?f now db = Inr (?x', db1)" "orderHistory db1 = orderHistory db"
    "ord_inbox db1 = ord_inbox db" "loadOrder ?t i db1 = Inr ?x'"
    using updateOrder_succeeds [OF ok cx(1) decideOrder_keeps, of "RESERVED r" now now] ox by (auto simp: order_ok_def)
  obtain db2 where rec: "recordDecision env ctx (so_status x) ?x' (RESERVED r) now db1 = Inr db2" "orders db2 = orders db1"
    "orderHistory db2 = orderHistory db1" "ord_inbox db2 = ord_inbox db1" using recordDecision_reserved by blast
  have "so_version x < so_version ?x'" by simp
  then obtain db3 where his: "createHistory ?t i (Some (so_status x)) (so_status ?x') None (xc_actorId ctx)
      (xc_correlationId ctx) (so_version ?x') now db2 = Inr db3" "orders db3 = orders db2" "ord_inbox db3 = ord_inbox db2"
    using createHistory_succeeds [OF ok, of x "so_version ?x'" db2] lx ids rec(3) up(2) by metis
  have ne: "so_status x \<noteq> so_status ?x'" using order_ok_confirmable(3) [OF ox cx(2)] by auto
  have load: "loadOrder ?t i db3 = Inr ?x'" using up(4) loadOrder_cong [of db3 db1] his(2) rec(2) by simp
  show ?thesis
  proof (cases "xc_eventId ctx")
    case None
    with up(1) rec(1) his(1) ne load ids show ?thesis by (simp add: applyReserveResult_def)
  next
    case (Some eid)
    with cx(4) his(3) rec(4) up(3) have "\<not> inbox_has (reservationConsumer i) eid (ord_inbox db3)" by simp
    with Some up(1) rec(1) his(1) ne load ids show ?thesis
      by (simp add: applyReserveResult_def ord_inbox_create_def loadOrder_def)
  qed
qed

lemma pending_cancellation_fields:
  assumes "order_ok db x" "so_cancellationRequestedAt x \<noteq> None"
  shows "so_dispatchGrantedAt x = None" "so_status x \<in> set ORDER_CANCELABLE_STATUSES" "so_status x \<noteq> CANCELED"
    "\<not> falsy (so_cancellationReason x)" "so_cancellationCorrelationId x \<noteq> None" "no_dispatch x" "totals_fit (so_totals x)"
proof -
  have r: "row_checks x" "status_fields x" "totals_fit (so_totals x)" using assms(1) by (simp_all add: order_ok_def)
  show ng: "so_dispatchGrantedAt x = None" using granted_not_canceling [OF assms(1)] assms(2) by blast
  show "no_dispatch x" by (rule row_checks_canceled [OF r(1) ng])
  show "totals_fit (so_totals x)" by (rule r(3))
  from r(2) assms(2) show st: "so_status x \<in> set ORDER_CANCELABLE_STATUSES" and "\<not> falsy (so_cancellationReason x)"
    and "so_cancellationCorrelationId x \<noteq> None" unfolding status_fields_def by blast+
  from st show "so_status x \<noteq> CANCELED" by (auto simp: ORDER_CANCELABLE_STATUSES_def)
qed

lemma ov_reservationGroupId_view [simp]: "ov_reservationGroupId (toOrderDetailView x ls) = so_reservationGroupId x"
  by (simp add: toOrderDetailView_def toOrderSummaryView_def order_summary_view.defs order_detail_view.defs)

text \<open>A pending cancellation whose stock has been released is committed, and no other order changes.\<close>

lemma commitCancellation_succeeds:
  assumes ok: "ord_ok db" and l: "loadOrder t i db = Inr x" and c: "so_cancellationRequestedAt x \<noteq> None"
  shows "\<exists>y db'. commitCancellation t i actor corr now db = Inr (y, db') \<and> loadOrder t i db' = Inr y \<and>
    so_status y = CANCELED \<and> (\<forall>u j. j \<noteq> i \<longrightarrow> loadOrder u j db' = loadOrder u j db)"
proof -
  note lx = loadOrder_D [OF l] and ids = loadOrder_ids [OF l]
  have ox: "order_ok db x" using ord_okD(3) [OF ok] lx by blast
  let ?f = "\<lambda>z. z\<lparr> so_status := CANCELED, so_canceledAt := Some now, so_cancelReason := so_cancellationReason x,
             so_cancellationRequestedAt := None, so_version := so_version z + 1 \<rparr>"
  let ?x' = "(?f x)\<lparr> so_updatedAt := now \<rparr>"
  have k: "keeps_identity ?f" by (simp add: keeps_identity_def)
  note pf = pending_cancellation_fields [OF ox c]
  have "row_checks ?x'" using pf(6) by (simp add: row_checks_def ck_pending_since_def ck_dispatch_decision_def no_dispatch_def)
  then obtain db1 where up: "updateOrder t i ?f now db = Inr (?x', db1)" "orderHistory db1 = orderHistory db"
    "loadOrder t i db1 = Inr ?x'" "\<forall>u j. j \<noteq> i \<longrightarrow> loadOrder u j db1 = loadOrder u j db"
    using updateOrder_succeeds [OF ok l k, of now] pf(7) by auto
  let ?db2 = "resolveShortages t i (\<lambda>_. True) now db1"
  obtain db3 where his: "createHistory t i (Some (so_status x)) CANCELED (so_cancellationReason x) actor corr
      (so_version ?x') now ?db2 = Inr db3" "orders db3 = orders ?db2"
    using createHistory_succeeds [OF ok, of x "so_version ?x'" ?db2] lx ids up(2) by force
  have l2: "loadOrder u j ?db2 = loadOrder u j db1" for u j by (rule loadOrder_cong) simp
  have "loadOrder u j (writeOutbox t e i ver corr actor ca now p db3) = loadOrder u j db1" for u j e ver ca p
    by (rule loadOrder_cong) (simp add: his(2))
  then show ?thesis using l c pf up his(1) l2
    by (simp add: commitCancellation_def Let_def)
qed

section \<open>The reservation authority\<close>

text \<open>
  What the order service relies on: a release is answered and leaves nothing held for the order, and a
  reservation that was granted is granted again, unchanged, when the same request is repeated.
\<close>

locale reservation_authority =
  fixes api :: "'inv inventory_api"
    and good :: "'inv \<Rightarrow> bool"
    and holds :: "uuid \<Rightarrow> uuid \<Rightarrow> 'inv \<Rightarrow> bool"
  assumes release_ok: "good s \<Longrightarrow> \<exists>s'. ia_release api i ctx now s = (HttpReply 201 (Some ()), s') \<and> good s' \<and>
      \<not> holds (qx_tenantId ctx) i s'"
    and release_frame: "good s \<Longrightarrow> ia_release api i ctx now s = (reply, s') \<Longrightarrow> \<not> holds t j s \<Longrightarrow> \<not> holds t j s'"
    and reserve_again: "good s \<Longrightarrow> ia_reserve api dto key ctx now s = (HttpReply 201 (Some (RESERVED g)), s') \<Longrightarrow>
      qx_tenantId ctx' = qx_tenantId ctx \<Longrightarrow> ia_reserve api dto key ctx' now' s' = (HttpReply 201 (Some (RESERVED g)), s')"
begin

lemma inventoryRelease_ok:
  assumes "good s"
  obtains s' where "inventoryRelease api i ctx now s = (Inr (), s')" "good s'" "\<not> holds (qx_tenantId ctx) i s'"
    "\<And>t j. \<not> holds t j s \<Longrightarrow> \<not> holds t j s'"
proof -
  from release_ok [OF assms] obtain s' where s': "ia_release api i ctx now s = (HttpReply 201 (Some ()), s')" "good s'"
    "\<not> holds (qx_tenantId ctx) i s'" by blast
  then have "inventoryRelease api i ctx now s = (Inr (), s')"
    by (simp add: inventoryRelease_def inventoryPost_def http_ok_def)
  with s'(2,3) release_frame [OF assms s'(1)] that show thesis by blast
qed

lemma completeCancellation_completes:
  assumes ok: "ord_ok db" and s: "good s" and l: "loadOrder t i db = Inr x" and c: "so_cancellationRequestedAt x \<noteq> None"
  shows "\<exists>y db' s'. completeCancellation api t i now (db, s) = (Inr (toOrderDetailView y (lines_of i db')), db', s') \<and>
    loadOrder t i db' = Inr y \<and> so_status y = CANCELED \<and> good s' \<and> \<not> holds t i s' \<and>
    (\<forall>u j. j \<noteq> i \<longrightarrow> loadOrder u j db' = loadOrder u j db) \<and> (\<forall>t j. \<not> holds t j s \<longrightarrow> \<not> holds t j s')"
proof -
  note lx = loadOrder_D [OF l]
  have ox: "order_ok db x" using ord_okD(3) [OF ok] lx by blast
  note pf = pending_cancellation_fields [OF ox c]
  have it: "cancellationIntent t i db = Inr (Inr x)" using l c pf by (simp add: cancellationIntent_def)
  let ?ctx = "\<lparr> qx_tenantId = t, qx_correlationId = the (so_cancellationCorrelationId x) \<rparr>"
  obtain s' where r: "inventoryRelease api i ?ctx now s = (Inr (), s')" "good s'" "\<not> holds (qx_tenantId ?ctx) i s'"
    "\<And>t j. \<not> holds t j s \<Longrightarrow> \<not> holds t j s'" by (rule inventoryRelease_ok [OF s, of i ?ctx now]) blast
  from commitCancellation_succeeds [OF ok l c] obtain y db' where
    "commitCancellation t i (so_cancellationActorId x) (the (so_cancellationCorrelationId x)) now db = Inr (y, db')"
    "loadOrder t i db' = Inr y" "so_status y = CANCELED" "\<forall>u j. j \<noteq> i \<longrightarrow> loadOrder u j db' = loadOrder u j db" by blast
  with it r show ?thesis by (simp add: completeCancellation_def Let_def)
qed

lemma confirm_reserved:
  assumes ok: "ord_ok db" and g: "confirmGuards i v ctx retry db = Inr (Inr x)"
    and r: "ia_reserve api (reserveRequest x (lines_of i db)) (order_key i v) (xc_request ctx) now s =
      (HttpReply 201 (Some (RESERVED r)), s')"
  shows "\<exists>y db'. confirm api env True i v ctx retry now (db, s) = (Inr (toOrderDetailView y (lines_of i db')), db', s') \<and>
    loadOrder (xc_tenantId ctx) i db' = Inr y \<and> so_status y = CONFIRMED \<and> so_reservationGroupId y = Some r"
proof -
  note cx = confirmGuards_D [OF g]
  have q: "inventoryReserve api (reserveRequest x (lines_of i db)) (xc_request ctx) now s = (Inr (RESERVED r), s')"
    using r loadOrder_ids [OF cx(1)] cx(3)
    by (simp add: inventoryReserve_def inventoryPost_def http_ok_def reserveRequest_def)
  from applyReserveResult_reserved [OF ok g, of env r now] obtain db' where
    "applyReserveResult env ctx x (RESERVED r) now db = Inr ((decideOrder (RESERVED r) now x)\<lparr> so_updatedAt := now \<rparr>, db')"
    "loadOrder (xc_tenantId ctx) i db' = Inr ((decideOrder (RESERVED r) now x)\<lparr> so_updatedAt := now \<rparr>)" by blast
  with g q show ?thesis
    by (intro exI [of _ "(decideOrder (RESERVED r) now x)\<lparr> so_updatedAt := now \<rparr>"] exI [of _ db'])
       (simp add: confirm_def)
qed

text \<open>
  The inventory service has reserved but the order knows nothing of it; the reconciler's question makes
  the order repeat its request, and both agree.
\<close>

lemma reconcile_recovers:
  assumes ok: "ord_ok db" and s: "good s" and g: "confirmGuards i v ctx False db = Inr (Inr x)"
    and r: "ia_reserve api (reserveRequest x (lines_of i db)) (order_key i v) (xc_request ctx) now s =
      (HttpReply 201 (Some (RESERVED r)), s')"
    and t: "xc_tenantId ctx' = xc_tenantId ctx" "xc_eventId ctx' = None"
  shows "\<exists>y db'. reconcileReservation api env True
      \<lparr> rq_reservationGroupId = r, rq_request = reserveRequest x (lines_of i db) \<rparr> ctx' now' (db, s') = (Inr ACKNOWLEDGE, db', s') \<and>
    loadOrder (xc_tenantId ctx) i db' = Inr y \<and> so_status y = CONFIRMED \<and> so_reservationGroupId y = Some r"
proof -
  note cx = confirmGuards_D [OF g]
  note lx = loadOrder_D [OF cx(1)] and ids = loadOrder_ids [OF cx(1)]
  have ox: "order_ok db x" using ord_okD(3) [OF ok] lx by blast
  have ng: "so_cancellationRequestedAt x = None" "so_status x \<noteq> CANCELED" "so_status x = DRAFT \<or> so_status x = PENDING_STOCK"
    "so_reservationGroupId x = None"
    using cx(2) order_ok_confirmable [OF ox cx(2)] by (auto simp: assertConfirmable_ok)
  have f: "List.find (\<lambda>z. the_order (xc_tenantId ctx') i z \<and> so_deletedAt z = None) (orders db) = Some x"
    using cx(1) t by (auto simp: loadOrder_def split: option.splits)
  have same: "same_content x (lines_of i db) (reserveRequest x (lines_of i db))"
    by (auto simp: same_content_def reserveRequest_def list_ex_iff)
  have g': "confirmGuards i v ctx' False db = Inr (Inr x)" using g t by (auto simp: confirmGuards_def bind_res_Inr_iff split: if_splits)
  have "qx_tenantId (xc_request ctx') = qx_tenantId (xc_request ctx)" using t by (simp add: xc_request_def)
  from confirm_reserved [OF ok g' reserve_again [OF s r this], of env now'] obtain y db' where
    "confirm api env True i v ctx' False now' (db, s') = (Inr (toOrderDetailView y (lines_of i db')), db', s')"
    "loadOrder (xc_tenantId ctx) i db' = Inr y" "so_status y = CONFIRMED" "so_reservationGroupId y = Some r"
    using t by auto
  with f ng same ids cx(3) show ?thesis
    by (auto simp: reconcileReservation_def Let_def reserveRequest_def)
qed

text \<open>A recovery pass completes every cancellation it picks up.\<close>

lemma recover_fold:
  assumes "ord_ok db" "good s" "distinct (map so_id xs)"
    "\<forall>y\<in>set xs. loadOrder (so_tenantId y) (so_id y) db = Inr y \<and> so_cancellationRequestedAt y \<noteq> None"
  shows "\<exists>db' s'. fold (\<lambda>x v. snd (completeCancellation api (so_tenantId x) (so_id x) now v)) xs (db, s) = (db', s') \<and> good s' \<and>
    (\<forall>y\<in>set xs. (\<exists>z. loadOrder (so_tenantId y) (so_id y) db' = Inr z \<and> so_status z = CANCELED) \<and> \<not> holds (so_tenantId y) (so_id y) s') \<and>
    (\<forall>u j. j \<notin> so_id ` set xs \<longrightarrow> loadOrder u j db' = loadOrder u j db) \<and> (\<forall>t j. \<not> holds t j s \<longrightarrow> \<not> holds t j s')"
  using assms
proof (induction xs arbitrary: db s)
  case (Cons x xs)
  let ?t = "so_tenantId x" and ?i = "so_id x"
  from Cons.prems(4) have x: "loadOrder ?t ?i db = Inr x" "so_cancellationRequestedAt x \<noteq> None" by simp_all
  from completeCancellation_completes [OF Cons.prems(1,2) x, of now] obtain y db1 s1 where
    c: "completeCancellation api ?t ?i now (db, s) = (Inr (toOrderDetailView y (lines_of ?i db1)), db1, s1)"
    "loadOrder ?t ?i db1 = Inr y" "so_status y = CANCELED" "good s1" "\<not> holds ?t ?i s1"
    "\<And>u j. j \<noteq> ?i \<Longrightarrow> loadOrder u j db1 = loadOrder u j db" "\<And>t j. \<not> holds t j s \<Longrightarrow> \<not> holds t j s1" by blast
  have ok1: "ord_ok db1"
    using completeCancellation_moves [OF Cons.prems(1) c(1)] Cons.prems(1) effect_ok by blast
  have ne: "so_id z \<noteq> ?i" if "z \<in> set xs" for z using that Cons.prems(3) by (auto simp: image_iff)
  have "\<forall>z\<in>set xs. loadOrder (so_tenantId z) (so_id z) db1 = Inr z \<and> so_cancellationRequestedAt z \<noteq> None"
    using Cons.prems(4) c(6) ne by simp
  from Cons.IH [OF ok1 c(4) _ this] Cons.prems(3) obtain db2 s2 where
    ih: "fold (\<lambda>x v. snd (completeCancellation api (so_tenantId x) (so_id x) now v)) xs (db1, s1) = (db2, s2)" "good s2"
    "\<forall>y\<in>set xs. (\<exists>z. loadOrder (so_tenantId y) (so_id y) db2 = Inr z \<and> so_status z = CANCELED) \<and> \<not> holds (so_tenantId y) (so_id y) s2"
    "\<forall>u j. j \<notin> so_id ` set xs \<longrightarrow> loadOrder u j db2 = loadOrder u j db1" "\<forall>t j. \<not> holds t j s1 \<longrightarrow> \<not> holds t j s2"
    by auto
  have "?i \<notin> so_id ` set xs" using ne by fastforce
  with ih(4) c(2) have "loadOrder ?t ?i db2 = Inr y" by simp
  with ih c show ?case by auto
qed simp

lemma recover_pass:
  assumes ok: "ord_ok db" and s: "good s"
  shows "\<exists>db' s'. recoverCancellations api env now (db, s) = (db', s') \<and>
    (\<forall>y\<in>set (pendingCancellations (oe_batchSize env) db).
       (\<exists>z. loadOrder (so_tenantId y) (so_id y) db' = Inr z \<and> so_status z = CANCELED) \<and> \<not> holds (so_tenantId y) (so_id y) s')"
proof -
  let ?xs = "pendingCancellations (oe_batchSize env) db"
  have "distinct (map so_id (orders db))" using ok by (simp add: ord_ok_def)
  then have d: "distinct (map so_id ?xs)"
    unfolding pendingCancellations_def take_map [symmetric]
    by (intro distinct_take distinct_sort_key_map) (simp add: distinct_map_filter)
  have "loadOrder (so_tenantId y) (so_id y) db = Inr y \<and> so_cancellationRequestedAt y \<noteq> None" if "y \<in> set ?xs" for y
  proof -
    from that have "y \<in> set (orders db)" "so_cancellationRequestedAt y \<noteq> None" "so_deletedAt y = None"
      by (auto simp: pendingCancellations_def dest!: in_set_takeD)
    then show ?thesis using loadOrder_eq [OF ok, of y "so_tenantId y" "so_id y"] by (simp add: the_order_def)
  qed
  then have "\<forall>y\<in>set ?xs. loadOrder (so_tenantId y) (so_id y) db = Inr y \<and> so_cancellationRequestedAt y \<noteq> None" by blast
  from recover_fold [OF ok s d this, of now] obtain db' s' where
    "fold (\<lambda>x v. snd (completeCancellation api (so_tenantId x) (so_id x) now v)) ?xs (db, s) = (db', s')"
    "\<forall>y\<in>set ?xs. (\<exists>z. loadOrder (so_tenantId y) (so_id y) db' = Inr z \<and> so_status z = CANCELED) \<and>
       \<not> holds (so_tenantId y) (so_id y) s'" by blast
  then show ?thesis unfolding recoverCancellations_def fst_conv by blast
qed

end

section \<open>The inventory service as the authority\<close>

lemma release_lines_groups: "release_lines t rs db = Inr db' \<Longrightarrow> groups db' = groups db"
  by (induction rs arbitrary: db) (auto simp: addReserved_def split: option.splits if_splits)

lemma releaseGroup_active:
  "h \<in> set (groups (releaseGroup ctx now items g db)) \<Longrightarrow> grp_status h = RS_ACTIVE \<Longrightarrow> h \<in> set (groups db)"
  by (auto simp: releaseGroup_def Let_def elim!: update_whereE)

lemma release_groups_active:
  assumes "release_groups oid ctx gid now db = Inr db'" "h \<in> set (groups db')" "grp_status h = RS_ACTIVE"
  shows "h \<in> set (groups db)"
proof -
  have fold_active: "h \<in> set (groups D)" if "h \<in> set (groups (fold (\<lambda>g. releaseGroup ctx now (items g) g) gs D))" for items gs D
    using that by (induction gs arbitrary: D) (auto dest: releaseGroup_active [OF _ assms(3)])
  from assms show ?thesis
    by (auto simp: release_groups_def Let_def bind_res_Inr_iff dest!: release_lines_groups fold_active)
qed

lemma reserve_same_tenant:
  assumes ok: "inv_ok db" and r: "reserve dto k ctx now db = Inr (RESERVED i, db')" and t: "rc_tenantId ctx' = rc_tenantId ctx"
  shows "reserve dto k ctx' now' db' = Inr (RESERVED i, db')"
proof -
  note again = reserve_idempotent_lemma [OF ok r, of now]
  note ok' = reserve_inv [OF ok r]
  show ?thesis using again
  proof (cases rule: reserve_cases)
    case (replay g)
    then have "List.find (\<lambda>g. grp_tenantId g = rc_tenantId ctx \<and> Some (grp_idempotencyKey g) = k) (groups db') \<noteq> None"
      by (auto simp: find_None_iff)
    with again t show ?thesis by (auto simp: reserve_def split: if_splits)
  next
    case (short l)
    with reserve_short [OF short(1-3), of now] again show ?thesis by simp
  next
    case fresh
    from reserve_enough [OF ok' fresh, of now] again have "groups db' = groups db' @ [newGroup dto ctx now (inv_next db')]" by auto
    then show ?thesis by simp
  qed
qed

definition holds_stock :: "uuid \<Rightarrow> uuid \<Rightarrow> inv_db \<Rightarrow> bool" where
  "holds_stock t i db \<longleftrightarrow> exists_row (active_group t i) (groups db)"

interpretation inventory: reservation_authority "reservationsInternalController False" inv_ok holds_stock
proof unfold_locales
  fix s :: inv_db and i now and ctx :: request_context
  assume "inv_ok s"
  from release_groups_ok [OF this, of i "inv_ctx ctx" None now]
  show "\<exists>s'. ia_release (reservationsInternalController False) i ctx now s = (HttpReply 201 (Some ()), s') \<and> inv_ok s' \<and>
      \<not> holds_stock (qx_tenantId ctx) i s'"
    by (auto simp: reservationsInternalController_def release_def inv_ctx_def http_send_def holds_stock_def)
next
  fix s s' :: inv_db and i now t j reply and ctx :: request_context
  assume "ia_release (reservationsInternalController False) i ctx now s = (reply, s')" "\<not> holds_stock t j s"
  then show "\<not> holds_stock t j s'"
    by (auto simp: reservationsInternalController_def release_def inv_ctx_def holds_stock_def active_group_def
        split: sum.splits dest: release_groups_active)
next
  fix s s' :: inv_db and dto key now now' g and ctx ctx' :: request_context
  assume a: "inv_ok s" "ia_reserve (reservationsInternalController False) dto key ctx now s = (HttpReply 201 (Some (RESERVED g)), s')"
    "qx_tenantId ctx' = qx_tenantId ctx"
  then have r: "reserve dto (Some key) (inv_ctx ctx) now s = Inr (RESERVED g, s')"
    by (auto simp: reservationsInternalController_def http_send_def split: sum.splits)
  from reserve_same_tenant [OF a(1) r, of "inv_ctx ctx'" now'] a(3)
  show "ia_reserve (reservationsInternalController False) dto key ctx' now' s' = (HttpReply 201 (Some (RESERVED g)), s')"
    by (simp add: reservationsInternalController_def http_send_def inv_ctx_def)
qed

end
