(* ===== verification/Order_Recovery.thy ===== *)
theory Order_Recovery
  imports Order_Composition
begin

text \<open>
  The two services together: cancellations complete and release their stock, an interrupted
  confirmation is recovered, and the shortages a waiting order records.
\<close>

section \<open>Cancellation\<close>

lemma requestCancellation_succeeds:
  assumes ok: "ord_ok db" and l: "loadOrder (oc_tenantId ctx) i db = Inr x"
    and w: "assertWritable x (ca_version dto) ACT_CANCEL ORDER_CANCELABLE_STATUSES = Inr ()"
  shows "\<exists>y db'. requestCancellation i dto ctx now db = Inr db' \<and> loadOrder (oc_tenantId ctx) i db' = Inr y \<and>
    so_cancellationRequestedAt y \<noteq> None"
proof -
  note wx = w [unfolded assertWritable_ok]
  have "row_checks x" "totals_fit (so_totals x)" using ord_okD(3) [OF ok] loadOrder_D [OF l] by (simp_all add: order_ok_def)
  moreover from this(1) wx have "no_dispatch x" by (simp add: row_checks_canceled)
  moreover let ?f = "\<lambda>z. z\<lparr> so_cancellationRequestedAt := Some now,
            so_cancellationReason := Some (ca_reason dto), so_cancellationActorId := Some (oc_actorId ctx),
            so_cancellationCorrelationId := Some (oc_correlationId ctx), so_version := so_version z + 1 \<rparr>"
  have "keeps_identity ?f" by (simp add: keeps_identity_def)
  ultimately obtain db' where "updateOrder (oc_tenantId ctx) i ?f now db = Inr ((?f x)\<lparr> so_updatedAt := now \<rparr>, db')"
    "loadOrder (oc_tenantId ctx) i db' = Inr ((?f x)\<lparr> so_updatedAt := now \<rparr>)"
    using updateOrder_succeeds [OF ok l, of ?f now]
    by (auto simp: row_checks_def ck_pending_since_def ck_dispatch_decision_def no_dispatch_def)
  with l w show ?thesis by (simp add: requestCancellation_def Let_def)
qed

text \<open>
  C21. Cancelling works to the end: an order that may be cancelled (not granted, no cancellation under
  way, in a cancelable status, at the version the caller saw) is cancelled by the first request when the
  inventory service answers, and then no active reservation of the order is left in the inventory
  service.
\<close>

theorem cancellation_completes:
  assumes "ord_ok db" "inv_ok stock" "cancelOrderDtoValid dto" "loadOrder (oc_tenantId ctx) i db = Inr x"
    "assertWritable x (ca_version dto) ACT_CANCEL ORDER_CANCELABLE_STATUSES = Inr ()"
  shows "\<exists>y db' stock'. cancel (reservationsInternalController False) i dto ctx now (db, stock) =
      (Inr (toOrderDetailView y (lines_of i db')), db', stock') \<and>
    loadOrder (oc_tenantId ctx) i db' = Inr y \<and> so_status y = CANCELED \<and> inv_ok stock' \<and>
    \<not> exists_row (active_group (oc_tenantId ctx) i) (groups stock')"
proof -
  from requestCancellation_succeeds [OF assms(1,4,5)] obtain z db1 where
    r: "requestCancellation i dto ctx now db = Inr db1" "loadOrder (oc_tenantId ctx) i db1 = Inr z"
    "so_cancellationRequestedAt z \<noteq> None" by blast
  have "ord_ok db1" using effect_ok [OF requestCancellation_effect [OF assms(1,3) r(1)] assms(1)] .
  from inventory.completeCancellation_completes [OF this assms(2) r(2,3), of now] r(1)
  show ?thesis unfolding holds_stock_def by (auto simp: cancel_def)
qed

definition demo_cancel_dto :: cancel_order_dto where
  "demo_cancel_dto = \<lparr> ca_version = 2, ca_reason = ''changed'' \<rparr>"

definition demo_confirmed :: sales_order where
  "demo_confirmed = hd (orders (fst (snd demo_confirm)))"

lemma demo_confirmed_load: "loadOrder (oc_tenantId demo_octx) 1 (fst (snd demo_confirm)) = Inr demo_confirmed"
  by code_simp

lemma demo_confirm_ok: "ord_ok (fst (snd demo_confirm))"
proof -
  have "(ord_step demo_api demo_env)\<^sup>*\<^sup>* (demo_odb, demo_stock) (snd demo_confirm)"
    by (intro r_into_rtranclp ord_step.confirms [where vres = "fst demo_confirm"]) (simp add: demo_confirm_def)
  from ord_moves_ok [OF ord_steps_moves [OF this]] demo_odb_ok show ?thesis by simp
qed

lemma demo_reserve_run:
  "reserve (reserveRequest (hd (orders demo_odb)) (lines_of 1 demo_odb)) (Some (order_key 1 1))
     (inv_ctx (xc_request (user_context demo_octx))) 12 demo_stock = Inr (RESERVED 10, snd (snd demo_confirm))"
  by code_simp

lemma demo_confirm_stock_ok: "inv_ok (snd (snd demo_confirm))"
  by (rule reserve_inv [OF demo_stock_ok demo_reserve_run])

theorem cancellation_completes_witness:
  "holds_stock 1 1 (snd (snd demo_confirm)) \<and>
   (\<exists>y db' stock'. cancel demo_api 1 demo_cancel_dto demo_octx 30 (snd demo_confirm) =
      (Inr (toOrderDetailView y (lines_of 1 db')), db', stock') \<and> so_status y = CANCELED \<and> \<not> holds_stock 1 1 stock')"
proof -
  have h: "holds_stock 1 1 (snd (snd demo_confirm))" by code_simp
  have d: "cancelOrderDtoValid demo_cancel_dto" by code_simp
  have w: "assertWritable demo_confirmed (ca_version demo_cancel_dto) ACT_CANCEL ORDER_CANCELABLE_STATUSES = Inr ()" by code_simp
  have t: "oc_tenantId demo_octx = 1" by (simp add: demo_octx_def)
  from cancellation_completes [OF demo_confirm_ok demo_confirm_stock_ok d demo_confirmed_load w, of 30] h
  show ?thesis unfolding demo_api_def holds_stock_def t by auto
qed

text \<open>
  C28. A recovery pass completes the cancellations left behind: each pending cancellation of the batch it
  takes, oldest first, ends with the order cancelled and no active reservation of it in the inventory
  service.
\<close>

theorem recovery_completes_pending:
  assumes "ord_ok db" "inv_ok stock" "x \<in> set (pendingCancellations (oe_batchSize env) db)"
  shows "case recoverCancellations (reservationsInternalController False) env now (db, stock) of (db', stock') \<Rightarrow>
    (\<exists>y. loadOrder (so_tenantId x) (so_id x) db' = Inr y \<and> so_status y = CANCELED) \<and>
    \<not> exists_row (active_group (so_tenantId x) (so_id x)) (groups stock')"
  using inventory.recover_pass [OF assms(1,2), of env now] assms(3) unfolding holds_stock_def by auto

definition demo_requested :: "ord_error + ord_db" where
  "demo_requested = requestCancellation 1 demo_cancel_dto demo_octx 30 (fst (snd demo_confirm))"

theorem recovery_completes_pending_witness:
  "map so_id (pendingCancellations (oe_batchSize demo_env) (projr demo_requested)) = [1] \<and>
   (case recoverCancellations demo_api demo_env 40 (projr demo_requested, snd (snd demo_confirm)) of (db', stock') \<Rightarrow>
     (\<exists>y. loadOrder 1 1 db' = Inr y \<and> so_status y = CANCELED))"
proof -
  let ?p = "pendingCancellations (oe_batchSize demo_env) (projr demo_requested)"
  have p: "map (\<lambda>x. (so_tenantId x, so_id x)) ?p = [(1, 1)]" by code_simp
  then obtain x where x: "x \<in> set ?p" "so_tenantId x = 1" "so_id x = 1" by (cases ?p) auto
  have q: "map so_id ?p = [1]" by code_simp
  have "is_ok demo_requested" by code_simp
  then have r: "requestCancellation 1 demo_cancel_dto demo_octx 30 (fst (snd demo_confirm)) = Inr (projr demo_requested)"
    unfolding demo_requested_def by (rule ok_projr)
  have "cancelOrderDtoValid demo_cancel_dto" by code_simp
  from effect_ok [OF requestCancellation_effect [OF demo_confirm_ok this r] demo_confirm_ok]
  have "ord_ok (projr demo_requested)" .
  from recovery_completes_pending [OF this demo_confirm_stock_ok x(1), of 40] q show ?thesis
    unfolding x demo_api_def by (auto split: prod.splits)
qed

section \<open>Confirmation\<close>

text \<open>
  C3. A confirmation cut off between the two services is recovered: once the inventory service has
  reserved the stock, a lost reply or a failed commit leaves the order database as it was with the stock
  held; when the inventory service's reconciler then asks about the group, the order repeats its request
  under the same key, is confirmed with that same group, the answer is ACKNOWLEDGE, and the inventory
  service's state has not changed.
\<close>

theorem interrupted_confirmation_recovers:
  assumes "ord_ok db" "inv_ok stock" "confirmGuards i v ctx False db = Inr (Inr x)"
    "reserve (reserveRequest x (lines_of i db)) (Some (order_key i v)) (inv_ctx (xc_request ctx)) now stock =
       Inr (RESERVED g, stock')" "xc_tenantId ctx' = xc_tenantId ctx" "xc_eventId ctx' = None"
  shows "confirm (reservationsInternalController True) env commits i v ctx False now (db, stock) =
      (Inl (UpstreamUnavailable INVENTORY_SERVICE), db, stock') \<and>
    confirm (reservationsInternalController False) env False i v ctx False now (db, stock) =
      (Inl OrdCommitFailed, db, stock') \<and>
    (\<exists>y db'. reconcileReservation (reservationsInternalController False) env True
        \<lparr> rq_reservationGroupId = g, rq_request = reserveRequest x (lines_of i db) \<rparr> ctx' now' (db, stock') =
        (Inr ACKNOWLEDGE, db', stock') \<and>
      loadOrder (xc_tenantId ctx) i db' = Inr y \<and> so_status y = CONFIRMED \<and> so_reservationGroupId y = Some g)"
proof -
  note cx = confirmGuards_D [OF assms(3)]
  have ids: "rd_orderId (reserveRequest x (lines_of i db)) = i" "rd_orderVersion (reserveRequest x (lines_of i db)) = v"
    using loadOrder_ids [OF cx(1)] cx(3) by (simp_all add: reserveRequest_def)
  have ia: "ia_reserve (reservationsInternalController False) (reserveRequest x (lines_of i db)) (order_key i v) (xc_request ctx) now stock =
      (HttpReply 201 (Some (RESERVED g)), stock')"
    using assms(4) by (simp add: reservationsInternalController_def http_send_def)
  from applyReserveResult_reserved [OF assms(1,3), of env g now] obtain y db' where
    a: "applyReserveResult env ctx x (RESERVED g) now db = Inr (y, db')" by blast
  have "confirm (reservationsInternalController True) env commits i v ctx False now (db, stock) =
      (Inl (UpstreamUnavailable INVENTORY_SERVICE), db, stock')"
    using assms(3,4) ids
    by (simp add: confirm_def inventoryReserve_def inventoryPost_def reservationsInternalController_def http_send_def)
  moreover have "confirm (reservationsInternalController False) env False i v ctx False now (db, stock) = (Inl OrdCommitFailed, db, stock')"
    using assms(3) ia ids a by (simp add: confirm_def inventoryReserve_def inventoryPost_def http_ok_def)
  ultimately show ?thesis using inventory.reconcile_recovers [OF assms(1-3) ia assms(5,6)] by blast
qed

definition demo_xctx :: order_reservation_context where
  "demo_xctx = \<lparr> xc_tenantId = 1, xc_correlationId = 95, xc_actorId = None, xc_eventId = None, xc_eventType = None \<rparr>"

theorem interrupted_confirmation_recovers_witness:
  "\<exists>x y db'. confirmGuards 1 1 (user_context demo_octx) False demo_odb = Inr (Inr x) \<and>
     confirm (reservationsInternalController True) demo_env True 1 1 (user_context demo_octx) False 12 (demo_odb, demo_stock) =
       (Inl (UpstreamUnavailable INVENTORY_SERVICE), demo_odb, snd (snd demo_confirm)) \<and>
     reconcileReservation demo_api demo_env True
        \<lparr> rq_reservationGroupId = 10, rq_request = reserveRequest x (lines_of 1 demo_odb) \<rparr> demo_xctx 50
        (demo_odb, snd (snd demo_confirm)) = (Inr ACKNOWLEDGE, db', snd (snd demo_confirm)) \<and>
     loadOrder (xc_tenantId (user_context demo_octx)) 1 db' = Inr y \<and> so_status y = CONFIRMED"
proof -
  let ?x = "hd (orders demo_odb)" and ?c = "user_context demo_octx"
  have g: "confirmGuards 1 1 ?c False demo_odb = Inr (Inr ?x)" by code_simp
  have t: "xc_tenantId demo_xctx = xc_tenantId ?c" "xc_eventId demo_xctx = None"
    by (simp_all add: demo_xctx_def user_context_def demo_octx_def)
  from interrupted_confirmation_recovers [OF demo_odb_ok demo_stock_ok g demo_reserve_run t, of demo_env True 50] g
  show ?thesis unfolding demo_api_def by blast
qed

section \<open>Shortages\<close>

lemma saveShortageItems_changed:
  assumes "item \<in> set items"
    "\<forall>it\<in>set items. sh_productId it \<noteq> sh_productId item \<longrightarrow> shortage_hash env x it \<noteq> shortage_hash env x item"
    "s \<in> set (shortages db)" "open_shortage (so_tenantId x) (so_id x) s" "os_productId s = sh_productId item"
    "\<forall>z\<in>set (shortages db). open_shortage (so_tenantId x) (so_id x) z \<longrightarrow> os_shortageHash z \<noteq> shortage_hash env x item"
  shows "saveShortageItems env x items at db = Inl OrdUniqueViolation"
  using assms
proof (induction items arbitrary: db s)
  case (Cons it its)
  let ?same = "\<lambda>z. open_shortage (so_tenantId x) (so_id x) z \<and> os_shortageHash z = shortage_hash env x it"
  show ?case
  proof (cases "List.find ?same (shortages db)")
    case None
    show ?thesis
    proof (cases "createShortage x it (shortage_hash env x it) at db")
      case (Inl e)
      with None show ?thesis by (auto simp: createShortage_def split: if_splits)
    next
      case (Inr db1)
      then have free: "sh_productId it \<noteq> sh_productId item"
        using Cons.prems(3-5) by (auto simp: createShortage_def open_shortage_def split: if_splits)
      then have it: "shortage_hash env x it \<noteq> shortage_hash env x item" using Cons.prems(2) by simp
      have "saveShortageItems env x its at db1 = Inl OrdUniqueViolation"
        by (rule Cons.IH [of s]) (use Cons.prems Inr free it in \<open>auto simp: createShortage_def split: if_splits\<close>)
      with None Inr show ?thesis by simp
    qed
  next
    case (Some z)
    note z = find_Some_D [OF Some]
    define f :: "order_shortage \<Rightarrow> order_shortage" where "f = (\<lambda>z. z\<lparr> os_requiredQuantity := sh_required it, os_availableQuantity := sh_available it,
      os_detectedAt := at, os_version := os_version z + 1 \<rparr>)"
    define db1 where "db1 = db\<lparr> shortages := update_where (\<lambda>y. os_id y = os_id z \<and> os_tenantId y = so_tenantId x) f (shortages db) \<rparr>"
    have f: "open_shortage t i (f y) = open_shortage t i y" "os_productId (f y) = os_productId y" "os_shortageHash (f y) = os_shortageHash y"
      for t i y by (simp_all add: f_def open_shortage_def)
    have "it \<noteq> item" using z Cons.prems(6) by auto
    then have m: "item \<in> set its" using Cons.prems(1) by simp
    have "saveShortageItems env x its at db1 = Inl OrdUniqueViolation"
      by (rule Cons.IH [of "if os_id s = os_id z \<and> os_tenantId s = so_tenantId x then f s else s"])
         (use Cons.prems m f in \<open>auto simp: db1_def update_where_def\<close>)
    with Some show ?thesis by (simp add: db1_def f_def)
  qed
qed simp

text \<open>
  C32. A waiting order cannot record that the available amount has changed: when a retry finds several
  products short, and any one of them with another available (or required) amount than the open shortage
  of that product recorded, the new shortage is inserted before the old one is closed, the unique index on
  open shortages refuses it, and the whole confirmation fails with an unclassified database error, leaving
  the order database as it was. (The hash of a shortage tells products apart.)
\<close>

theorem changed_shortage_blocks_retry:
  assumes "ord_ok db" "confirmGuards i v ctx retry db = Inr (Inr x)"
    "inventoryReserve api (reserveRequest x (lines_of i db)) (xc_request ctx) now stock = (Inr (INSUFFICIENT items), stock')"
    "item \<in> set items"
    "\<forall>it\<in>set items. sh_productId it \<noteq> sh_productId item \<longrightarrow> shortage_hash env x it \<noteq> shortage_hash env x item"
    "s \<in> set (shortages db)" "open_shortage (so_tenantId x) (so_id x) s" "os_productId s = sh_productId item"
    "\<forall>z\<in>set (shortages db). open_shortage (so_tenantId x) (so_id x) z \<longrightarrow> os_shortageHash z \<noteq> shortage_hash env x item"
  shows "confirm api env commits i v ctx retry now (db, stock) = (Inl OrdUniqueViolation, db, stock')"
proof -
  note cx = confirmGuards_D [OF assms(2)]
  note ids = loadOrder_ids [OF cx(1)]
  let ?r = "INSUFFICIENT items"
  let ?x' = "(decideOrder ?r now x)\<lparr> so_updatedAt := now \<rparr>"
  have ox: "order_ok db x" using ord_okD(3) [OF assms(1)] loadOrder_D [OF cx(1)] by blast
  have nd: "no_dispatch x" using order_ok_confirmable(1) [OF ox cx(2)] ox by (auto simp: order_ok_def intro: row_checks_canceled)
  then have "row_checks ?x'" by (simp add: row_checks_def ck_pending_since_def ck_dispatch_decision_def no_dispatch_def)
  then obtain db1 where up: "updateOrder (xc_tenantId ctx) i (decideOrder ?r now) now db = Inr (?x', db1)" "shortages db1 = shortages db"
    using updateOrder_succeeds [OF assms(1) cx(1) decideOrder_keeps, of ?r now now] ox by (auto simp: order_ok_def)
  have h: "shortage_hash env ?x' it = shortage_hash env x it" for it by (simp add: shortage_hash_def)
  have "saveShortageItems env ?x' items now db1 = Inl OrdUniqueViolation"
    by (rule saveShortageItems_changed [OF assms(4), of env ?x' s]) (use assms(5-9) up(2) h in simp_all)
  then have "saveShortages env ?x' items now db1 = Inl OrdUniqueViolation" by (simp add: saveShortages_def)
  with up(1) ids have "applyReserveResult env ctx x ?r now db = Inl OrdUniqueViolation" by (simp add: applyReserveResult_def)
  with assms(2,3) show ?thesis by (simp add: confirm_def)
qed

text \<open>An order for 0.015 of a product: first nothing is in stock, then 0.001.\<close>

definition demo_waiting :: "(ord_error + order_detail_view) \<times> ord_db \<times> inv_db" where
  "demo_waiting = confirm demo_api demo_env True 1 1 (user_context demo_octx) False 12 (demo_odb, inv_init)"

definition demo_little :: inv_db where
  "demo_little = snd (projr (createReceipt demo_actor
     \<lparr> cr_warehouseId = 2, cr_idempotencyKey = ''rcp-2'', cr_receiptNumber = None, cr_receivedAt = None,
       cr_lines = [\<lparr> rd_productId = 31, rd_quantity = 1 \<rparr>] \<rparr> ''GRN-2'' 90 10 inv_init inv_init))"

theorem changed_shortage_blocks_retry_witness:
  "is_ok (fst demo_waiting) \<and> map so_status (orders (fst (snd demo_waiting))) = [PENDING_STOCK] \<and>
   confirm demo_api demo_env True 1 2 (user_context demo_octx) True 20 (fst (snd demo_waiting), demo_little) =
     (Inl OrdUniqueViolation, fst (snd demo_waiting), demo_little)"
proof -
  let ?db = "fst (snd demo_waiting)" and ?c = "user_context demo_octx"
  let ?x = "hd (orders ?db)" and ?s = "hd (shortages ?db)"
  let ?item = "\<lparr> sh_productId = 31, sh_required = 15, sh_available = 1 \<rparr>"
  have w: "is_ok (fst demo_waiting)" "map so_status (orders ?db) = [PENDING_STOCK]" by code_simp+
  have "(ord_step demo_api demo_env)\<^sup>*\<^sup>* (demo_odb, inv_init) (snd demo_waiting)"
    by (intro r_into_rtranclp ord_step.confirms [where vres = "fst demo_waiting"]) (simp add: demo_waiting_def)
  from ord_moves_ok [OF ord_steps_moves [OF this]] demo_odb_ok have ok: "ord_ok ?db" by simp
  have g: "confirmGuards 1 2 ?c True ?db = Inr (Inr ?x)" by code_simp
  have r: "inventoryReserve demo_api (reserveRequest ?x (lines_of 1 ?db)) (xc_request ?c) 20 demo_little =
      (Inr (INSUFFICIENT [?item]), demo_little)" by code_simp
  have s: "?s \<in> set (shortages ?db)" by code_simp
  have o: "open_shortage (so_tenantId ?x) (so_id ?x) ?s" "os_productId ?s = sh_productId ?item" by code_simp+
  have n: "\<forall>z\<in>set (shortages ?db). open_shortage (so_tenantId ?x) (so_id ?x) z \<longrightarrow> os_shortageHash z \<noteq> shortage_hash demo_env ?x ?item"
    by code_simp
  from changed_shortage_blocks_retry [OF ok g r _ _ s o n, of True] w show ?thesis by simp
qed

end
