(* ===== verification/Order_Agreement.thy ===== *)
theory Order_Agreement
  imports Order_Theorems
begin

text \<open>
  The order service's agreements with fulfilment and transport: the batch dispatch decision and the
  projection of shipment events onto the order.
\<close>

section \<open>The batch decision\<close>

lemma find_map_key:
  assumes "distinct (map f xs)" "x \<in> set xs" "\<And>y. y \<in> set xs \<Longrightarrow> h (g y) = f y"
  shows "List.find (\<lambda>z. h z = f x) (map g xs) = Some (g x)"
proof (rule find_unique)
  show "z = g x" if "z \<in> set (map g xs)" "h z = f x" for z
    using that assms(2,3) key_eq_imp_eq [OF assms(1)] by fastforce
qed (use assms(2,3) in auto)

lemma batchBinding_valid:
  assumes "batchRequestValid r"
  shows "bb_contractVersion (batchBinding r now) = TRANSPORT_CONTRACT_VERSION"
    "transportVersion (bb_dispatchVersion (batchBinding r now))" "sha256_text (bb_inputHash (batchBinding r now))"
  using assms by (simp_all add: batchRequestValid_def batchBinding_def)

lemma granted_binding:
  assumes v: "batchRequestValid r"
  shows "assertBatchDispatchGrantBinding r (GRANTED (batchBinding r now) (map itemGrant (br_shipments r)))"
proof -
  note d = batchRequestValid_distinct [OF v]
  have c: "bg_shipmentId \<circ> itemGrant = bi_shipmentId" by (simp add: fun_eq_iff itemGrant_def)
  have m: "map bg_shipmentId (map itemGrant (br_shipments r)) = map bi_shipmentId (br_shipments r)"
    "map bg_orderId (map itemGrant (br_shipments r)) = map bi_orderId (br_shipments r)"
    by (simp_all add: itemGrant_def)
  have "List.find (\<lambda>g. bg_shipmentId g = bi_shipmentId item) (map itemGrant (br_shipments r)) = Some (itemGrant item)"
    if "item \<in> set (br_shipments r)" for item
    by (rule find_map_key [OF d(1) that]) (simp add: itemGrant_def)
  then have "\<not> list_ex (\<lambda>item. case List.find (\<lambda>g. bg_shipmentId g = bi_shipmentId item) (map itemGrant (br_shipments r)) of
      None \<Rightarrow> True | Some g \<Rightarrow> bg_orderId g \<noteq> bi_orderId item \<or> bg_orderVersion g \<noteq> bi_orderVersion item \<or>
        bg_reservationGroupId g \<noteq> bi_reservationGroupId item \<or> bg_dispatchRequestId g \<noteq> bi_dispatchRequestId item) (br_shipments r)"
    by (auto simp: list_ex_iff itemGrant_def)
  moreover have "list_all (\<lambda>g. transportVersion (bg_orderVersion g)) (map itemGrant (br_shipments r))"
    using v by (auto simp: batchRequestValid_def list_all_iff itemGrant_def)
  moreover have "length (remdups (map bg_orderId (map itemGrant (br_shipments r)))) = length (map itemGrant (br_shipments r))"
    using v unfolding m batchRequestValid_def by simp
  ultimately show ?thesis
    using v d(4) batchBinding_valid [OF v, of now]
    by (simp add: assertBatchDispatchGrantBinding_def batchDecisionValid_def Let_def m list_ex_iff)
       (simp add: batchBinding_def image_comp c)
qed

lemma rejected_binding:
  assumes "batchRequestValid r" "why \<noteq> []"
  shows "assertBatchDispatchGrantBinding r (REJECTED (batchBinding r now) why)"
  using assms batchBinding_valid [OF assms(1), of now]
  by (simp add: assertBatchDispatchGrantBinding_def batchDecisionValid_def) (simp add: batchBinding_def)

lemma batchReason_text: "batchReason t items db = Some why \<Longrightarrow> why \<noteq> []"
  by (induction items) (auto split: if_splits)

lemma authorizeBatch_new:
  assumes ok: "ord_ok db" and v: "batchRequestValid r" and n: "\<forall>b\<in>set (dispatchBatches db). bd_id b \<noteq> br_requestId r"
  shows "\<exists>db'. authorizeBatch env r now db = Inr (batchDecision r now db, db') \<and>
    authorizeBatch env r now' db' = Inr (batchDecision r now db, db') \<and>
    (case batchDecision r now db of
       REJECTED b why \<Rightarrow> orders db' = orders db
     | GRANTED b gs \<Rightarrow> \<forall>item\<in>set (br_shipments r). \<exists>x. loadOrder (br_tenantId r) (bi_orderId item) db = Inr x \<and>
         loadOrder (br_tenantId r) (bi_orderId item) db' =
           Inr ((grantDispatch (itemRequest r item) (br_requestId r) now x)\<lparr> so_updatedAt := now \<rparr>))"
proof -
  let ?items = "sort_key bi_orderId (br_shipments r)" and ?d = "batchDecision r now db"
  note di = batchRequestValid_distinct [OF v]
  have fresh: "List.find (\<lambda>b. bd_tenantId b = br_tenantId r \<and> bd_id b = br_requestId r) (dispatchBatches D) = None"
    if "dispatchBatches D = dispatchBatches db" for D :: ord_db
    using n that by (auto simp: find_None_iff)
  have stored: "authorizeBatch env r now' D' = Inr (?d, D')" and "createBatch r ?d D = Inr D'"
    if "dispatchBatches D = dispatchBatches db" "D' = D\<lparr> dispatchBatches := dispatchBatches D @
        [\<lparr> bd_id = br_requestId r, bd_tenantId = br_tenantId r, bd_payload = r, bd_decision = ?d \<rparr>] \<rparr>" for D D'
    using that n fresh [OF that(1)] v by (auto simp: authorizeBatch_def createBatch_def find_append)
  note st = this
  let ?add = "\<lambda>D. D\<lparr> dispatchBatches := dispatchBatches D @
        [\<lparr> bd_id = br_requestId r, bd_tenantId = br_tenantId r, bd_payload = r, bd_decision = ?d \<rparr>] \<rparr>"
  show ?thesis
  proof (cases "batchReason (br_tenantId r) ?items db")
    case None
    from grantItems_ok [OF ok None [unfolded batchReason_None] distinct_sort_key_map distinct_sort_key_map, OF di(2,3)]
    obtain db1 where g: "grantItems r ?items now db = Inr db1" "dispatchBatches db1 = dispatchBatches db"
      "\<forall>item\<in>set ?items. \<exists>x. loadOrder (br_tenantId r) (bi_orderId item) db = Inr x \<and>
       loadOrder (br_tenantId r) (bi_orderId item) db1 =
         Inr ((grantDispatch (itemRequest r item) (br_requestId r) now x)\<lparr> so_updatedAt := now \<rparr>)" by blast
    have d: "?d = GRANTED (batchBinding r now) (map itemGrant (br_shipments r))" using None by (simp add: batchDecision_def)
    have "authorizeBatch env r now db = Inr (?d, ?add db1)"
      using g(1) v fresh [of db] st(2) [OF g(2) refl] by (simp add: authorizeBatch_def Let_def d)
    moreover have "loadOrder t i (?add db1) = loadOrder t i db1" for t i by (simp add: loadOrder_def)
    ultimately show ?thesis using st(1) [OF g(2) refl] g(3) by (intro exI [of _ "?add db1"]) (simp add: d)
  next
    case (Some why)
    then have d: "?d = REJECTED (batchBinding r now) why" by (simp add: batchDecision_def)
    have "authorizeBatch env r now db = Inr (?d, ?add db)"
      using v fresh [of db] st(2) [of db] by (simp add: authorizeBatch_def Let_def d)
    then show ?thesis using st(1) [of db "?add db"] by (intro exI [of _ "?add db"]) (simp add: d)
  qed
qed

text \<open>
  C5. A new batch request is always decided, and all or nothing: it is granted exactly when every item
  names a dispatchable order of the tenant at its version and reservation with an unused request; then
  every order of the batch goes from not granted to granted with the item's request, otherwise no order
  changes. Repeating the request, in the state it left, returns the stored decision and writes nothing.
\<close>

theorem batch_all_or_nothing:
  assumes "ord_ok db" "batchRequestValid r" "\<forall>b\<in>set (dispatchBatches db). bd_id b \<noteq> br_requestId r"
  shows "\<exists>d db'. authorizeBatch env r now db = Inr (d, db') \<and> authorizeBatch env r now' db' = Inr (d, db') \<and>
    (case d of
       REJECTED b why \<Rightarrow> orders db' = orders db \<and>
         (\<exists>item\<in>set (br_shipments r). \<not> item_dispatchable (br_tenantId r) item db \<or>
            \<not> request_unused (br_tenantId r) (bi_dispatchRequestId item) db)
     | GRANTED b gs \<Rightarrow> \<forall>item\<in>set (br_shipments r). item_dispatchable (br_tenantId r) item db \<and>
         (\<exists>x x'. loadOrder (br_tenantId r) (bi_orderId item) db = Inr x \<and> so_dispatchGrantedAt x = None \<and>
            loadOrder (br_tenantId r) (bi_orderId item) db' = Inr x' \<and> so_dispatchGrantedAt x' = Some now \<and>
            so_dispatchRequestId x' = Some (bi_dispatchRequestId item) \<and>
            so_dispatchShipmentId x' = Some (bi_shipmentId item) \<and> so_status x' = READY_TO_SHIP))"
proof -
  from authorizeBatch_new [OF assms, of env now now'] obtain db' where
    a: "authorizeBatch env r now db = Inr (batchDecision r now db, db')"
    "authorizeBatch env r now' db' = Inr (batchDecision r now db, db')"
    "case batchDecision r now db of
       REJECTED b why \<Rightarrow> orders db' = orders db
     | GRANTED b gs \<Rightarrow> \<forall>item\<in>set (br_shipments r). \<exists>x. loadOrder (br_tenantId r) (bi_orderId item) db = Inr x \<and>
         loadOrder (br_tenantId r) (bi_orderId item) db' =
           Inr ((grantDispatch (itemRequest r item) (br_requestId r) now x)\<lparr> so_updatedAt := now \<rparr>)" by blast
  note reason = batchReason_None [of "br_tenantId r" "sort_key bi_orderId (br_shipments r)" db, unfolded set_sort]
  show ?thesis
  proof (cases "batchReason (br_tenantId r) (sort_key bi_orderId (br_shipments r)) db")
    case None
    then have d: "batchDecision r now db = GRANTED (batchBinding r now) (map itemGrant (br_shipments r))"
      by (simp add: batchDecision_def)
    have "item_dispatchable (br_tenantId r) item db \<and>
         (\<exists>x x'. loadOrder (br_tenantId r) (bi_orderId item) db = Inr x \<and> so_dispatchGrantedAt x = None \<and>
            loadOrder (br_tenantId r) (bi_orderId item) db' = Inr x' \<and> so_dispatchGrantedAt x' = Some now \<and>
            so_dispatchRequestId x' = Some (bi_dispatchRequestId item) \<and>
            so_dispatchShipmentId x' = Some (bi_shipmentId item) \<and> so_status x' = READY_TO_SHIP)"
      if "item \<in> set (br_shipments r)" for item
    proof -
      have i: "item_dispatchable (br_tenantId r) item db" using reason None that by blast
      from item_dispatchable_load [OF i, of r] obtain x where
        "loadOrder (br_tenantId r) (bi_orderId item) db = Inr x" "dispatchable (itemRequest r item) x" by blast
      with a(3) d that i show ?thesis by (auto simp: dispatchable_def grantDispatch_def itemRequest_def)
    qed
    with a d show ?thesis by (intro exI [of _ "batchDecision r now db"] exI [of _ db']) simp
  next
    case (Some why)
    with reason have "\<exists>item\<in>set (br_shipments r). \<not> item_dispatchable (br_tenantId r) item db \<or>
        \<not> request_unused (br_tenantId r) (bi_dispatchRequestId item) db" by auto
    with Some a show ?thesis by (intro exI [of _ "batchDecision r now db"] exI [of _ db']) (simp add: batchDecision_def)
  qed
qed

definition demo_batch :: batch_request where
  "demo_batch = \<lparr> br_contractVersion = 1, br_tenantId = 1, br_requestId = 60, br_tripId = 61, br_actorId = 7,
     br_expectedTripVersion = 2, br_dispatchVersion = 1, br_approvedPlanId = 62, br_inputHash = replicate 64 (CHR ''a''),
     br_shipments = [\<lparr> bi_shipmentId = 70, bi_orderId = 1, bi_reservationGroupId = 10, bi_orderVersion = 4,
       bi_shipmentVersion = 2, bi_dispatchRequestId = 80 \<rparr>] \<rparr>"

lemma demo_ready_ok: "ord_ok (projr demo_ready)"
  using ord_moves_ok [OF ord_steps_moves [OF demo_reaches_ready]] ord_ok_init by simp

lemma demo_batch_valid: "batchRequestValid demo_batch"
  by code_simp

lemma demo_batch_new: "\<forall>b\<in>set (dispatchBatches (projr demo_ready)). bd_id b \<noteq> br_requestId demo_batch"
  by code_simp

theorem batch_all_or_nothing_witness:
  "(\<exists>d db'. authorizeBatch demo_env demo_batch 30 (projr demo_ready) = Inr (d, db') \<and>
     authorizeBatch demo_env demo_batch 31 db' = Inr (d, db')) \<and>
   map abs_order (orders (snd (projr (authorizeBatch demo_env demo_batch 30 (projr demo_ready))))) = [(READY_TO_SHIP, False, True)]"
proof -
  have "map abs_order (orders (snd (projr (authorizeBatch demo_env demo_batch 30 (projr demo_ready))))) = [(READY_TO_SHIP, False, True)]"
    by code_simp
  with batch_all_or_nothing [OF demo_ready_ok demo_batch_valid demo_batch_new, of demo_env 30 31] show ?thesis by blast
qed

text \<open>
  Every new batch decision is well typed for its reader: it satisfies the published schema of a
  decision and passes the contract's own binding check against the request, granted or rejected.
\<close>

theorem batch_decision_conforms:
  assumes "ord_ok db" "batchRequestValid r" "\<forall>b\<in>set (dispatchBatches db). bd_id b \<noteq> br_requestId r"
  shows "\<exists>d db'. authorizeBatch env r now db = Inr (d, db') \<and> batchDecisionValid d \<and> assertBatchDispatchGrantBinding r d"
proof -
  have "assertBatchDispatchGrantBinding r (batchDecision r now db)"
    using granted_binding [OF assms(2)] rejected_binding [OF assms(2) batchReason_text]
    by (auto simp: batchDecision_def split: option.splits)
  with authorizeBatch_new [OF assms, of env now] show ?thesis unfolding assertBatchDispatchGrantBinding_def by blast
qed

theorem batch_decision_conforms_witness:
  "\<exists>d db'. authorizeBatch demo_env demo_batch 30 (projr demo_ready) = Inr (d, db') \<and> assertBatchDispatchGrantBinding demo_batch d"
  using batch_decision_conforms [OF demo_ready_ok demo_batch_valid demo_batch_new, of demo_env 30] by blast

section \<open>Shipment events\<close>

definition projection_valid :: "shipment_lifecycle option envelope \<Rightarrow> bool" where
  "projection_valid e \<longleftrightarrow> TARGETS (ev_eventType e) \<noteq> None \<and> validateShipmentEnvelope e ''fulfillment-service'' ''Shipment'' \<and>
     (case ev_payload e of None \<Rightarrow> False | Some p \<Rightarrow> sl_shipmentId p = ev_aggregateId e)"

definition projection_seen :: "uuid \<Rightarrow> ord_db \<Rightarrow> bool" where
  "projection_seen k db = inbox_has shipment_consumer k (ord_inbox db)"

lemma handleShipmentEvent_valid:
  "projection_valid e \<Longrightarrow> \<exists>pl target. ev_payload e = Some pl \<and> handleShipmentEvent now e db = projectShipmentTx e pl target now db"
  by (auto simp: projection_valid_def handleShipmentEvent_def split: option.splits)

lemma applyProjection_inbox: "applyProjection e pl target now x db = Inr db' \<Longrightarrow> ord_inbox db' = ord_inbox db"
  by (auto simp: applyProjection_def bind_res_Inr_iff split: if_splits dest!: updateOrder_D createHistory_D)

lemma projectShipmentTx_inbox:
  assumes "projectShipmentTx e pl target now db = Inr db'"
  shows "inbox_has c i (ord_inbox db') \<longleftrightarrow> inbox_has c i (ord_inbox db) \<or> c = shipment_consumer \<and> i = ev_eventId e"
  using assms
  by (auto simp: projectShipmentTx_def shipmentInboxRow_def bind_res_Inr_iff split: if_splits sum.splits
      dest!: ord_inbox_create_D applyProjection_inbox)

interpretation projection: idempotent_consumer "handleShipmentEvent now" ev_eventId projection_valid projection_seen
  for now
proof unfold_locales
  show "handleShipmentEvent now e db = Inr db" if "projection_valid e" "projection_seen (ev_eventId e) db" for e db
    using handleShipmentEvent_valid [OF that(1), of now db] that(2)
    by (auto simp: projectShipmentTx_def projection_seen_def)
  show "projection_seen (ev_eventId e) db'" if "projection_valid e" "handleShipmentEvent now e db = Inr db'" for e db db'
    using handleShipmentEvent_valid [OF that(1), of now db] that(2)
    by (auto simp: projection_seen_def projectShipmentTx_inbox)
  show "projection_seen k db'" if "projection_valid e" "handleShipmentEvent now e db = Inr db'" "projection_seen k db" for e db db' k
    using handleShipmentEvent_valid [OF that(1), of now db] that(2,3)
    by (auto simp: projection_seen_def projectShipmentTx_inbox)
qed

text \<open>
  C25. The order's status follows its shipment exactly once per event: consuming a stream of valid shipment
  events in which events are repeated any number of times, in any places, leads to the same order
  database, history and inbox included, as consuming each of them once.
\<close>

theorem shipment_projection_exactly_once:
  assumes "\<forall>e\<in>set es. projection_valid e" "consume (handleShipmentEvent now) es db = ([], db')"
  shows "consume (handleShipmentEvent now) (dedup ev_eventId [] es) db = ([], db')"
  by (rule projection.consume_dedup [OF assms])

definition demo_stream :: "shipment_lifecycle option envelope list" where
  "demo_stream = [demo_shipment_event ''ShipmentPicking'' 40 1, demo_shipment_event ''ShipmentReadyToShip'' 41 2,
     demo_shipment_event ''ShipmentPicking'' 40 1]"

theorem shipment_projection_exactly_once_witness:
  "\<exists>db'. consume (handleShipmentEvent 22) demo_stream (fst (snd demo_confirm)) = ([], db') \<and>
    consume (handleShipmentEvent 22) (take 2 demo_stream) (fst (snd demo_confirm)) = ([], db') \<and>
    map so_status (orders db') = [READY_TO_SHIP]"
proof -
  let ?c = "consume (handleShipmentEvent 22) demo_stream (fst (snd demo_confirm))"
  have v: "\<forall>e\<in>set demo_stream. projection_valid e" by code_simp
  have "fst ?c = []" by code_simp
  then have c: "?c = ([], snd ?c)" by (metis prod.collapse)
  have d: "dedup ev_eventId [] demo_stream = take 2 demo_stream"
    by (simp add: demo_stream_def demo_shipment_event_def numeral_2_eq_2)
  have s: "map so_status (orders (snd ?c)) = [READY_TO_SHIP]" by code_simp
  from shipment_projection_exactly_once [OF v c] c d s show ?thesis by metis
qed

end
