(* ===== verification/Trip_Contracts.thy ===== *)
theory Trip_Contracts
  imports Contracts Inventory_Stock
begin

text \<open>
  The trip part of the transport contract (\<^verbatim>\<open>libs/messaging/src/interfaces/transport.contract.ts\<close>): the
  claim and the release of a shipment by a trip with their receipts and binding checks, and the delivery
  result that transport publishes. A schema is the predicate of what it requires beyond the types; the two
  schemas that trim a text are functions to the parsed value.
\<close>

section \<open>Trimmed texts\<close>

lemma set_dropWhile_miss: "x \<in> set xs \<Longrightarrow> \<not> p x \<Longrightarrow> x \<in> set (dropWhile p xs)"
  by (induction xs) auto

lemma trim_eq_Nil_iff: "trim s = [] \<longleftrightarrow> is_blank s"
  using set_dropWhile_miss [of _ s is_space] set_dropWhileD [of _ is_space s]
  by (auto simp: trim_def is_blank_def list_all_iff dropWhile_eq_Nil_conv)

lemma trim_trim_Nil [simp]: "trim (trim s) = [] \<longleftrightarrow> trim s = []"
proof
  assume "trim (trim s) = []"
  then have blank: "\<forall>x\<in>set (trim s). is_space x" by (simp add: trim_eq_Nil_iff is_blank_def list_all_iff)
  have "x \<in> set (trim s)" if "x \<in> set s" "\<not> is_space x" for x
    using that by (simp add: trim_def set_dropWhile_miss)
  with blank show "trim s = []" by (auto simp: trim_eq_Nil_iff is_blank_def list_all_iff)
next
  assume "trim s = []"
  then have "trim (trim s) = trim []" by (rule arg_cong)
  also have "\<dots> = []" by (simp add: trim_def)
  finally show "trim (trim s) = []" .
qed

section \<open>Claims\<close>

record claim_request =
  cq_contractVersion :: nat
  cq_tenantId :: uuid
  cq_requestId :: uuid
  cq_tripId :: uuid
  cq_shipmentId :: uuid
  cq_actorId :: uuid
  cq_expectedTripVersion :: version
  cq_expectedShipmentVersion :: version

record claim_receipt =
  ct_contractVersion :: nat
  ct_tenantId :: uuid
  ct_requestId :: uuid
  ct_tripId :: uuid
  ct_shipmentId :: uuid
  ct_claimId :: uuid
  ct_tripVersion :: version
  ct_shipmentVersion :: version
  ct_claimedAt :: instant

record release_request =
  lr_contractVersion :: nat
  lr_tenantId :: uuid
  lr_requestId :: uuid
  lr_claimId :: uuid
  lr_tripId :: uuid
  lr_shipmentId :: uuid
  lr_actorId :: uuid
  lr_expectedTripVersion :: version
  lr_expectedShipmentVersion :: version
  lr_reason :: string

record release_receipt =
  lt_contractVersion :: nat
  lt_tenantId :: uuid
  lt_requestId :: uuid
  lt_claimId :: uuid
  lt_tripId :: uuid
  lt_shipmentId :: uuid
  lt_tripVersion :: version
  lt_shipmentVersion :: version
  lt_releasedAt :: instant

definition claimRequestValid :: "claim_request \<Rightarrow> bool" where
  "claimRequestValid r \<longleftrightarrow> cq_contractVersion r = TRANSPORT_CONTRACT_VERSION \<and>
     transportVersion (cq_expectedTripVersion r) \<and> transportVersion (cq_expectedShipmentVersion r)"

definition claimReceiptValid :: "claim_receipt \<Rightarrow> bool" where
  "claimReceiptValid c \<longleftrightarrow> ct_contractVersion c = TRANSPORT_CONTRACT_VERSION \<and>
     transportVersion (ct_tripVersion c) \<and> transportVersion (ct_shipmentVersion c)"

text \<open>\<open>None\<close> when the schema rejects the request; the reason is trimmed.\<close>

definition parseReleaseRequest :: "release_request \<Rightarrow> release_request option" where
  "parseReleaseRequest r =
     (if lr_contractVersion r = TRANSPORT_CONTRACT_VERSION \<and> transportVersion (lr_expectedTripVersion r) \<and>
         transportVersion (lr_expectedShipmentVersion r) \<and> trim (lr_reason r) \<noteq> []
      then Some (r\<lparr> lr_reason := trim (lr_reason r) \<rparr>) else None)"

definition releaseReceiptValid :: "release_receipt \<Rightarrow> bool" where
  "releaseReceiptValid c \<longleftrightarrow> lt_contractVersion c = TRANSPORT_CONTRACT_VERSION \<and>
     transportVersion (lt_tripVersion c) \<and> transportVersion (lt_shipmentVersion c)"

text \<open>\<open>True\<close> when the check does not throw.\<close>

definition assertShipmentClaimReceiptBinding :: "claim_request \<Rightarrow> claim_receipt \<Rightarrow> bool" where
  "assertShipmentClaimReceiptBinding request receipt \<longleftrightarrow>
     claimRequestValid request \<and> claimReceiptValid receipt \<and>
     \<not> (cq_tenantId request \<noteq> ct_tenantId receipt \<or> cq_requestId request \<noteq> ct_requestId receipt \<or>
        cq_tripId request \<noteq> ct_tripId receipt \<or> cq_shipmentId request \<noteq> ct_shipmentId receipt)"

definition assertShipmentReleaseReceiptBinding :: "release_request \<Rightarrow> release_receipt \<Rightarrow> bool" where
  "assertShipmentReleaseReceiptBinding request receipt \<longleftrightarrow>
     parseReleaseRequest request \<noteq> None \<and> releaseReceiptValid receipt \<and>
     \<not> (lr_tenantId request \<noteq> lt_tenantId receipt \<or> lr_requestId request \<noteq> lt_requestId receipt \<or>
        lr_claimId request \<noteq> lt_claimId receipt \<or> lr_tripId request \<noteq> lt_tripId receipt \<or>
        lr_shipmentId request \<noteq> lt_shipmentId receipt)"

section \<open>Delivery results\<close>

datatype delivery_outcome = OUTCOME_DELIVERED | OUTCOME_FAILED

record delivery_payload =
  dv_contractVersion :: nat
  dv_tenantId :: uuid
  dv_tripId :: uuid
  dv_stopId :: uuid
  dv_shipmentId :: uuid
  dv_attempt :: version
  dv_driverId :: uuid
  dv_assigneeUserId :: uuid
  dv_outcome :: delivery_outcome
  dv_occurredAt :: instant
  dv_reason :: "string option"
  dv_requestId :: uuid

text \<open>In a received event the payload is \<open>None\<close> when it does not have this shape.\<close>

type_synonym delivery_event = "delivery_payload option envelope"

definition parseDeliveryPayload :: "delivery_payload \<Rightarrow> delivery_payload option" where
  "parseDeliveryPayload p =
     (let reason = map_option trim (dv_reason p) in
      if dv_contractVersion p = TRANSPORT_CONTRACT_VERSION \<and> transportVersion (dv_attempt p) \<and> reason \<noteq> Some [] \<and>
         (if dv_outcome p = OUTCOME_FAILED then reason \<noteq> None else reason = None)
      then Some (p\<lparr> dv_reason := reason \<rparr>) else None)"

text \<open>\<^verbatim>\<open>deliveryResultEventSchema.parse\<close>, its payload.\<close>

definition parseDeliveryEvent :: "delivery_event \<Rightarrow> delivery_payload option" where
  "parseDeliveryEvent e =
     (case Option.bind (ev_payload e) parseDeliveryPayload of
        None \<Rightarrow> None
      | Some p \<Rightarrow>
          if ev_eventType e \<in> set [''DeliveryCompleted'', ''DeliveryFailed''] \<and> ev_eventVersion e = 2 \<and>
             ev_producer e = ''transport-service'' \<and> ev_actorId e \<noteq> None \<and>
             ev_aggregateType e = ''DeliveryTrip'' \<and> transportVersion (ev_aggregateVersion e) \<and>
             dv_tenantId p = ev_tenantId e \<and> dv_tripId p = ev_aggregateId e \<and>
             \<not> (ev_eventType e = ''DeliveryCompleted'' \<and> dv_outcome p \<noteq> OUTCOME_DELIVERED \<or>
                ev_eventType e = ''DeliveryFailed'' \<and> dv_outcome p \<noteq> OUTCOME_FAILED)
          then Some p else None)"

end
