(* ===== verification/Fulfillment_Base.thy ===== *)
theory Fulfillment_Base
  imports Order_Events Trip_Contracts
begin

text \<open>
  The fulfilment service's shipments: statuses, errors and transitions (\<^verbatim>\<open>shipment.domain.ts\<close> and
  \<^verbatim>\<open>shipment.contract.ts\<close>), its tables (\<^verbatim>\<open>prisma/schema.prisma\<close> with the constraints of the
  migrations), the row operations its services use, \<^verbatim>\<open>recordShipment\<close>, the client of the order service
  (\<^verbatim>\<open>order.client.ts\<close>), the queries, and the plain status change of \<^verbatim>\<open>shipment-command.service.ts\<close>.

  The inbox is one table with two consumers; only the rows of delivery results keep the received event.
  Columns no code of the service writes are left out.
\<close>

section \<open>Statuses, events and errors\<close>

datatype shipment_status = S_PENDING_PICK | S_PICKING | S_READY_TO_SHIP | S_DISPATCHED | S_DELIVERED
  | S_FAILED | S_CANCELED

datatype shipment_event = E_CREATED | E_PICKING | E_READY | E_DISPATCHED | E_DELIVERED | E_FAILED
  | E_CANCELED | E_CANCEL_REJECTED

fun SHIPMENT_EVENT :: "shipment_event \<Rightarrow> string" where
  "SHIPMENT_EVENT E_CREATED = ''ShipmentCreated''"
| "SHIPMENT_EVENT E_PICKING = ''ShipmentPicking''"
| "SHIPMENT_EVENT E_READY = ''ShipmentReadyToShip''"
| "SHIPMENT_EVENT E_DISPATCHED = ''ShipmentDispatched''"
| "SHIPMENT_EVENT E_DELIVERED = ''ShipmentDelivered''"
| "SHIPMENT_EVENT E_FAILED = ''ShipmentDeliveryFailed''"
| "SHIPMENT_EVENT E_CANCELED = ''ShipmentCanceled''"
| "SHIPMENT_EVENT E_CANCEL_REJECTED = ''ShipmentCancelRejected''"

datatype intent_status = I_PENDING | I_COMPLETED | I_REJECTED

text \<open>
  \<open>OrderUpstream n\<close> is \<^verbatim>\<open>ShipmentErrors.upstream(n)\<close>, \<open>OrderRequestRejected n\<close> the client's own
  exception; the last five are plain exceptions, malformed requests and errors of the database.
\<close>

datatype ful_error =
    ShipmentMissing
  | ShipmentVersionConflict
  | ShipmentInvalidTransition
  | ShipmentDispatchPending
  | TripClaimConflict
  | TripRequestConflict
  | SnapshotInvalid
  | OrderUnavailable
  | OrderUpstream nat
  | OrderRequestRejected nat
  | BusinessRuleViolation string
  | FulEntityNotFound uuid
  | FulBadRequest string
  | FulPlainError string
  | FulUniqueViolation
  | FulCheckViolation
  | FulNumericOverflow

fun ful_http_status :: "ful_error \<Rightarrow> nat option" where
  "ful_http_status ShipmentMissing = Some 404"
| "ful_http_status ShipmentVersionConflict = Some 409"
| "ful_http_status ShipmentInvalidTransition = Some 409"
| "ful_http_status ShipmentDispatchPending = Some 409"
| "ful_http_status TripClaimConflict = Some 409"
| "ful_http_status TripRequestConflict = Some 409"
| "ful_http_status SnapshotInvalid = Some 409"
| "ful_http_status OrderUnavailable = Some 503"
| "ful_http_status (OrderUpstream n) = Some (if n = 409 then 409 else 502)"
| "ful_http_status _ = None"

fun SHIPMENT_TRANSITIONS :: "shipment_status \<Rightarrow> (shipment_status \<times> shipment_event) option" where
  "SHIPMENT_TRANSITIONS S_PICKING = Some (S_PENDING_PICK, E_PICKING)"
| "SHIPMENT_TRANSITIONS S_READY_TO_SHIP = Some (S_PICKING, E_READY)"
| "SHIPMENT_TRANSITIONS S_DISPATCHED = Some (S_READY_TO_SHIP, E_DISPATCHED)"
| "SHIPMENT_TRANSITIONS S_DELIVERED = Some (S_DISPATCHED, E_DELIVERED)"
| "SHIPMENT_TRANSITIONS S_FAILED = Some (S_DISPATCHED, E_FAILED)"
| "SHIPMENT_TRANSITIONS _ = None"

definition assertShipmentVersion :: "version \<Rightarrow> version \<Rightarrow> ful_error + unit" where
  "assertShipmentVersion actual expected = (if actual \<noteq> expected then Inl ShipmentVersionConflict else Inr ())"

definition assertShipmentTransition :: "shipment_status \<Rightarrow> shipment_status \<Rightarrow> ful_error + shipment_event" where
  "assertShipmentTransition from to =
     (case SHIPMENT_TRANSITIONS to of
        None \<Rightarrow> Inl ShipmentInvalidTransition
      | Some (f, event) \<Rightarrow> if f \<noteq> from then Inl ShipmentInvalidTransition else Inr event)"

section \<open>Rows\<close>

record shipment =
  sp_id :: uuid
  sp_tenantId :: uuid
  sp_shipmentNumber :: string
  sp_orderId :: uuid
  sp_warehouseId :: uuid
  sp_deliveryAddressId :: uuid
  sp_customerSnapshot :: customer_snapshot
  sp_deliveryAddressSnapshot :: address_snapshot
  sp_warehouseSnapshot :: warehouse_snapshot
  sp_orderNumber :: string
  sp_confirmedOrderVersion :: version
  sp_status :: shipment_status
  sp_totalWeight :: int
  sp_totalVolume :: int
  sp_reservationGroupId :: uuid
  sp_assignedTripId :: "uuid option"
  sp_tripClaimId :: "uuid option"
  sp_dispatchIssuedAt :: "instant option"
  sp_readyAt :: "instant option"
  sp_deliveredAt :: "instant option"
  sp_failedAt :: "instant option"
  sp_failureReason :: "string option"
  sp_createdAt :: instant
  sp_updatedAt :: instant
  sp_version :: version
  sp_deletedAt :: "instant option"

record shipment_item =
  it_id :: uuid
  it_tenantId :: uuid
  it_shipmentId :: uuid
  it_orderLineId :: uuid
  it_productId :: uuid
  it_skuSnapshot :: string
  it_productNameSnapshot :: string
  it_unitSnapshot :: string
  it_quantity :: qty
  it_weight :: int
  it_volume :: int
  it_deletedAt :: "instant option"

record shipment_history =
  hs_id :: uuid
  hs_tenantId :: uuid
  hs_shipmentId :: uuid
  hs_fromStatus :: "shipment_status option"
  hs_toStatus :: shipment_status
  hs_reason :: "string option"
  hs_actorId :: "uuid option"
  hs_correlationId :: uuid
  hs_shipmentVersion :: version
  hs_occurredAt :: instant

record dispatch_intent =
  di_id :: uuid
  di_tenantId :: uuid
  di_shipmentId :: uuid
  di_orderVersion :: version
  di_shipmentVersion :: version
  di_actorId :: uuid
  di_correlationId :: uuid
  di_status :: intent_status
  di_batchId :: "uuid option"
  di_grantReceipt :: "batch_decision option"
  di_rejectionReason :: "string option"
  di_attemptCount :: nat
  di_nextAttemptAt :: instant

datatype batch_stage = PREPARED | STAGE_GRANTED | STAGE_COMPLETED | STAGE_REJECTED

record batch_receipt_item =
  bt_shipmentId :: uuid
  bt_dispatchRequestId :: uuid
  bt_shipmentVersion :: version

record batch_receipt =
  be_tenantId :: uuid
  be_requestId :: uuid
  be_tripId :: uuid
  be_payloadHash :: string
  be_status :: intent_status
  be_stage :: batch_stage
  be_decision :: "batch_decision option"
  be_shipments :: "batch_receipt_item list"

record shipment_dispatch_batch =
  fb_id :: uuid
  fb_tenantId :: uuid
  fb_tripId :: uuid
  fb_payload :: batch_request
  fb_payloadHash :: string
  fb_status :: intent_status
  fb_stage :: batch_stage
  fb_decision :: "batch_decision option"
  fb_response :: "batch_receipt option"
  fb_attemptCount :: nat
  fb_nextAttemptAt :: instant
  fb_lastError :: "string option"

record order_cursor =
  cu_tenantId :: uuid
  cu_orderId :: uuid
  cu_orderVersion :: version
  cu_canceled :: bool

record ful_inbox_row =
  fi_id :: uuid
  fi_tenantId :: uuid
  fi_eventId :: uuid
  fi_consumerName :: string
  fi_eventType :: string
  fi_aggregateId :: "uuid option"
  fi_aggregateVersion :: "version option"
  fi_eventPayload :: "delivery_event option"
  fi_payloadHash :: "string option"
  fi_semanticKey :: "(uuid \<times> uuid) option"
  fi_attemptCount :: nat
  fi_nextAttemptAt :: instant
  fi_lastError :: "string option"
  fi_processedAt :: instant
  fi_outcome :: string
  fi_errorCode :: "string option"

text \<open>
  A receipt row keeps the request and the response of a claim or a release. The claim's response carries
  a snapshot of the shipment for the trip.
\<close>

record trip_snapshot_item =
  ni_orderLineId :: uuid
  ni_productId :: uuid
  ni_skuSnapshot :: string
  ni_productNameSnapshot :: string
  ni_unitSnapshot :: string
  ni_quantity :: string
  ni_weight :: string
  ni_volume :: string

record trip_snapshot =
  ns_tenantId :: uuid
  ns_shipmentId :: uuid
  ns_shipmentNumber :: string
  ns_orderId :: uuid
  ns_warehouseId :: uuid
  ns_shipmentVersion :: version
  ns_orderVersion :: version
  ns_deliveryAddressSnapshot :: address_snapshot
  ns_totalWeight :: string
  ns_totalVolume :: string
  ns_items :: "trip_snapshot_item list"

datatype trip_request = ClaimRequest claim_request | ReleaseRequest release_request

datatype trip_response = ClaimResponse claim_receipt trip_snapshot | ReleaseResponse release_receipt

datatype trip_operation = CLAIM | RELEASE

record trip_receipt =
  tr_id :: uuid
  tr_tenantId :: uuid
  tr_requestId :: uuid
  tr_shipmentId :: uuid
  tr_tripId :: uuid
  tr_claimId :: uuid
  tr_actorId :: uuid
  tr_operation :: trip_operation
  tr_requestPayload :: trip_request
  tr_responsePayload :: trip_response
  tr_createdAt :: instant

record ful_db =
  shipments :: "shipment list"
  shipmentItems :: "shipment_item list"
  shipmentHistory :: "shipment_history list"
  dispatchIntents :: "dispatch_intent list"
  fulBatches :: "shipment_dispatch_batch list"
  orderCursors :: "order_cursor list"
  tripReceipts :: "trip_receipt list"
  ful_inbox :: "ful_inbox_row list"
  ful_outbox :: "shipment_lifecycle outbox_event list"
  ful_next :: uuid

text \<open>Configuration, the rounding of \<^verbatim>\<open>Prisma.Decimal\<close>, and SHA-256 of the texts the service hashes.\<close>

record ful_env =
  fe_prec :: "int \<Rightarrow> int"
  fe_batchHash :: "batch_request \<Rightarrow> string"
  fe_eventHash :: "delivery_event \<Rightarrow> string"
  fe_semanticHash :: "uuid \<times> string \<times> uuid option \<times> string \<times> delivery_payload option \<Rightarrow> string"
  fe_batchSize :: nat
  fe_retryBaseMs :: nat
  fe_retryMaxMs :: nat

record shipment_context =
  sx_tenantId :: uuid
  sx_actorId :: "uuid option"
  sx_correlationId :: uuid
  sx_causationId :: "uuid option"

section \<open>Row operations\<close>

definition the_shipment :: "uuid \<Rightarrow> uuid \<Rightarrow> shipment \<Rightarrow> bool" where
  "the_shipment t i x \<longleftrightarrow> sp_id x = i \<and> sp_tenantId x = t"

text \<open>\<^verbatim>\<open>findFirst({ where: { id, tenantId, deletedAt: null } })\<close>\<close>

definition findShipment :: "uuid \<Rightarrow> uuid \<Rightarrow> ful_db \<Rightarrow> shipment option" where
  "findShipment t i db = List.find (\<lambda>x. the_shipment t i x \<and> sp_deletedAt x = None) (shipments db)"

definition loadShipment :: "uuid \<Rightarrow> uuid \<Rightarrow> ful_db \<Rightarrow> ful_error + shipment" where
  "loadShipment t i db = (case findShipment t i db of None \<Rightarrow> Inl ShipmentMissing | Some x \<Rightarrow> Inr x)"

text \<open>The \<^verbatim>\<open>dispatchIntent\<close> relation of a shipment.\<close>

definition intentOf :: "uuid \<Rightarrow> ful_db \<Rightarrow> dispatch_intent option" where
  "intentOf i db = List.find (\<lambda>d. di_shipmentId d = i) (dispatchIntents db)"

definition intent_pending :: "uuid \<Rightarrow> ful_db \<Rightarrow> bool" where
  "intent_pending i db = (case intentOf i db of None \<Rightarrow> False | Some d \<Rightarrow> di_status d = I_PENDING)"

text \<open>An intent that is not rejected keeps its shipment from every other dispatch and claim.\<close>

definition intent_blocks :: "uuid \<Rightarrow> ful_db \<Rightarrow> bool" where
  "intent_blocks i db = (case intentOf i db of None \<Rightarrow> False | Some d \<Rightarrow> di_status d \<noteq> I_REJECTED)"

text \<open>\<^verbatim>\<open>shipment.update\<close>: the row after \<open>f\<close>, its \<^verbatim>\<open>updatedAt\<close> set.\<close>

definition updateShipment ::
    "uuid \<Rightarrow> uuid \<Rightarrow> (shipment \<Rightarrow> shipment) \<Rightarrow> instant \<Rightarrow> ful_db \<Rightarrow> ful_error + shipment \<times> ful_db" where
  "updateShipment t i f now db =
     (case List.find (the_shipment t i) (shipments db) of
        None \<Rightarrow> Inl (FulPlainError ''P2025'')
      | Some x \<Rightarrow>
          let x' = (f x)\<lparr> sp_updatedAt := now \<rparr>
          in Inr (x', db\<lparr> shipments := update_where (the_shipment t i) (\<lambda>_. x') (shipments db) \<rparr>))"

definition recordShipment ::
    "shipment \<Rightarrow> shipment_status option \<Rightarrow> shipment_event \<Rightarrow> shipment_context \<Rightarrow> string option \<Rightarrow> uuid option \<Rightarrow> instant \<Rightarrow>
     ful_db \<Rightarrow> ful_error + ful_db" where
  "recordShipment x from event ctx reason dispatchRequestId now db =
     (if exists_row (\<lambda>h. hs_tenantId h = sp_tenantId x \<and> hs_shipmentId h = sp_id x \<and>
           hs_shipmentVersion h = sp_version x) (shipmentHistory db)
      then Inl FulUniqueViolation
      else Inr (db\<lparr>
        shipmentHistory := shipmentHistory db @
          [\<lparr> hs_id = ful_next db, hs_tenantId = sp_tenantId x, hs_shipmentId = sp_id x, hs_fromStatus = from,
             hs_toStatus = sp_status x, hs_reason = reason, hs_actorId = sx_actorId ctx,
             hs_correlationId = sx_correlationId ctx, hs_shipmentVersion = sp_version x, hs_occurredAt = now \<rparr>],
        ful_outbox := ful_outbox db @
          [\<lparr> ob_id = ful_next db + 1, ob_tenantId = sp_tenantId x, ob_eventType = SHIPMENT_EVENT event,
             ob_eventVersion = 1, ob_aggregateType = ''Shipment'', ob_aggregateId = sp_id x,
             ob_aggregateVersion = sp_version x, ob_correlationId = sx_correlationId ctx,
             ob_causationId = Some (case sx_causationId ctx of Some c \<Rightarrow> c | None \<Rightarrow> sx_correlationId ctx),
             ob_payload = \<lparr> sl_shipmentId = sp_id x, sl_orderId = sp_orderId x,
               sl_reservationGroupId = sp_reservationGroupId x, sl_warehouseId = sp_warehouseId x,
               sl_dispatchRequestId = dispatchRequestId, sl_reason = reason \<rparr>,
             ob_payloadActor = sx_actorId ctx, ob_occurredAt = now, ob_publishedAt = None,
             ob_attemptCount = 0, ob_nextAttemptAt = now, ob_lastError = None, ob_version = 1,
             ob_deletedAt = None \<rparr>],
        ful_next := ful_next db + 2 \<rparr>))"

definition setIntents ::
    "(dispatch_intent \<Rightarrow> bool) \<Rightarrow> (dispatch_intent \<Rightarrow> dispatch_intent) \<Rightarrow> ful_db \<Rightarrow> ful_db" where
  "setIntents p f db = db\<lparr> dispatchIntents := update_where p f (dispatchIntents db) \<rparr>"

text \<open>
  \<^verbatim>\<open>shipmentDispatchIntent.create\<close>: the id and the shipment are unique, the versions positive, and the
  shipment must exist.
\<close>

definition createIntent :: "dispatch_intent \<Rightarrow> ful_db \<Rightarrow> ful_error + ful_db" where
  "createIntent d db =
     (if exists_row (\<lambda>e. di_id e = di_id d \<or> di_shipmentId e = di_shipmentId d) (dispatchIntents db)
      then Inl FulUniqueViolation
      else if \<not> (0 < di_orderVersion d \<and> 0 < di_shipmentVersion d) then Inl FulCheckViolation
      else if \<not> exists_row (\<lambda>x. sp_id x = di_shipmentId d) (shipments db) then Inl FulCheckViolation
      else Inr (db\<lparr> dispatchIntents := dispatchIntents db @ [d] \<rparr>))"

definition deleteIntent :: "uuid \<Rightarrow> ful_db \<Rightarrow> ful_db" where
  "deleteIntent i db = db\<lparr> dispatchIntents := filter (\<lambda>d. di_id d \<noteq> i) (dispatchIntents db) \<rparr>"

definition ful_inbox_find :: "string \<Rightarrow> uuid \<Rightarrow> ful_db \<Rightarrow> ful_inbox_row option" where
  "ful_inbox_find c i db = List.find (\<lambda>r. fi_consumerName r = c \<and> fi_eventId r = i) (ful_inbox db)"

definition ful_inbox_create :: "ful_inbox_row \<Rightarrow> ful_db \<Rightarrow> ful_error + ful_db" where
  "ful_inbox_create r db =
     (if ful_inbox_find (fi_consumerName r) (fi_eventId r) db \<noteq> None then Inl FulUniqueViolation
      else Inr (db\<lparr> ful_inbox := ful_inbox db @ [r\<lparr> fi_id := ful_next db \<rparr>], ful_next := ful_next db + 1 \<rparr>))"

section \<open>The order client\<close>

text \<open>
  What the order service does with each request and what comes back; the remote state is returned beside
  the reply, which may be lost.
\<close>

record 'ord order_api =
  oa_snapshot :: "uuid \<Rightarrow> uuid \<Rightarrow> 'ord \<Rightarrow> order_detail_view http_reply"
  oa_authorize :: "uuid \<Rightarrow> uuid \<Rightarrow> dispatch_request \<Rightarrow> uuid \<Rightarrow> instant \<Rightarrow> 'ord \<Rightarrow> dispatch_grant http_reply \<times> 'ord"
  oa_authorizeBatch :: "batch_request \<Rightarrow> instant \<Rightarrow> 'ord \<Rightarrow> batch_decision http_reply \<times> 'ord"

text \<open>\<open>hasBody\<close>: only a request with a body turns a conflict into the client's own exception.\<close>

definition orderRequest :: "bool \<Rightarrow> ('a \<Rightarrow> bool) \<Rightarrow> 'a http_reply \<Rightarrow> ful_error + 'a" where
  "orderRequest hasBody schema reply =
     (case reply of
        NetworkFailure \<Rightarrow> Inl OrderUnavailable
      | HttpReply status body \<Rightarrow>
          if 500 \<le> status then Inl OrderUnavailable
          else if \<not> http_ok status then
            (if hasBody \<and> status = 409 then Inl (OrderRequestRejected status) else Inl (OrderUpstream status))
          else (case body of
                  None \<Rightarrow> Inl OrderUnavailable
                | Some x \<Rightarrow> if schema x then Inr x else Inl OrderUnavailable))"

text \<open>\<^verbatim>\<open>/^\d{1,15}(?:\.\d{1,6})?$/\<close>\<close>

definition measure_text :: "string \<Rightarrow> bool" where
  "measure_text s \<longleftrightarrow>
     (let whole = takeWhile is_digit s; rest = dropWhile is_digit s; frac = drop 1 rest
      in 1 \<le> length whole \<and> length whole \<le> 15 \<and>
         (rest = [] \<or> hd rest = CHR ''.'' \<and> list_all is_digit frac \<and> 1 \<le> length frac \<and> length frac \<le> 6))"

text \<open>\<^verbatim>\<open>shipmentQuantity\<close> is the pattern of the order service's quantities.\<close>

definition shipmentLineSchema :: "order_line_view \<Rightarrow> bool" where
  "shipmentLineSchema l \<longleftrightarrow> 0 < lv_lineNumber l \<and> ORDER_QUANTITY_PATTERN (lv_quantity l) \<and>
     lv_skuSnapshot l \<noteq> [] \<and> lv_productNameSnapshot l \<noteq> [] \<and> lv_unitSnapshot l \<noteq> [] \<and>
     measure_text (lv_unitWeight l) \<and> measure_text (lv_unitVolume l)"

definition snapshotSchema :: "order_detail_view \<Rightarrow> bool" where
  "snapshotSchema v \<longleftrightarrow> transportVersion (ov_version v) \<and> list_all shipmentLineSchema (ov_lines v)"

definition grantSchema :: "dispatch_grant \<Rightarrow> bool" where
  "grantSchema g \<longleftrightarrow> transportVersion (dg_orderVersion g)"

definition orderSnapshot :: "'ord order_api \<Rightarrow> uuid \<Rightarrow> uuid \<Rightarrow> 'ord \<Rightarrow> ful_error + order_detail_view" where
  "orderSnapshot api t orderId s = orderRequest False snapshotSchema (oa_snapshot api t orderId s)"

definition orderAuthorize ::
    "'ord order_api \<Rightarrow> uuid \<Rightarrow> uuid \<Rightarrow> dispatch_request \<Rightarrow> uuid \<Rightarrow> instant \<Rightarrow> 'ord \<Rightarrow> (ful_error + dispatch_grant) \<times> 'ord" where
  "orderAuthorize api t orderId body corr now s =
     (let (reply, s') = oa_authorize api t orderId body corr now s in (orderRequest True grantSchema reply, s'))"

definition orderAuthorizeBatch ::
    "'ord order_api \<Rightarrow> batch_request \<Rightarrow> instant \<Rightarrow> 'ord \<Rightarrow> (ful_error + batch_decision) \<times> 'ord" where
  "orderAuthorizeBatch api body now s =
     (let (reply, s') = oa_authorizeBatch api body now s in (orderRequest True batchDecisionValid reply, s'))"

section \<open>Queries\<close>

text \<open>
  \<^verbatim>\<open>shipmentView\<close> raises on a version beyond the safe integers and drops \<^verbatim>\<open>tripClaimId\<close>; the view is the
  row without it, with its items, intent and history.
\<close>

record shipment_view =
  vw_shipment :: shipment
  vw_items :: "shipment_item list"
  vw_intent :: "dispatch_intent option"
  vw_history :: "shipment_history list"

definition versions_safe :: "shipment_view \<Rightarrow> bool" where
  "versions_safe v \<longleftrightarrow> isSafeInteger (sp_version (vw_shipment v)) \<and>
     isSafeInteger (sp_confirmedOrderVersion (vw_shipment v)) \<and>
     (case vw_intent v of None \<Rightarrow> True | Some d \<Rightarrow> isSafeInteger (di_orderVersion d) \<and> isSafeInteger (di_shipmentVersion d)) \<and>
     list_all (\<lambda>h. isSafeInteger (hs_shipmentVersion h)) (vw_history v)"

definition shipmentView :: "shipment_view \<Rightarrow> ful_error + shipment_view" where
  "shipmentView v =
     (if versions_safe v then Inr (v\<lparr> vw_shipment := (vw_shipment v)\<lparr> sp_tripClaimId := None \<rparr> \<rparr>)
      else Inl (FulPlainError ''Shipment version exceeds safe integer range''))"

definition shipmentDetail :: "uuid \<Rightarrow> uuid \<Rightarrow> ful_db \<Rightarrow> ful_error + shipment_view" where
  "shipmentDetail t i db =
     bind_res (loadShipment t i db) (\<lambda>x.
       shipmentView \<lparr> vw_shipment = x,
         vw_items = sort_key it_id (filter (\<lambda>l. it_shipmentId l = sp_id x \<and> it_deletedAt l = None) (shipmentItems db)),
         vw_intent = intentOf (sp_id x) db,
         vw_history = sort_key hs_shipmentVersion (filter (\<lambda>h. hs_shipmentId h = sp_id x) (shipmentHistory db)) \<rparr>)"

record shipment_query =
  sq_page :: "nat option"
  sq_pageSize :: "nat option"
  sq_warehouseId :: "uuid option"
  sq_orderId :: "uuid option"
  sq_status :: "shipment_status option"
  sq_statuses :: "shipment_status list option"
  sq_createdFrom :: "instant option"
  sq_createdTo :: "instant option"

definition SHIPMENT_DEFAULT_PAGE_SIZE :: nat where "SHIPMENT_DEFAULT_PAGE_SIZE = 20"

text \<open>A later spread of the same key replaces an earlier one, so \<^verbatim>\<open>statuses\<close> wins over \<^verbatim>\<open>status\<close>.\<close>

definition shipment_where :: "uuid \<Rightarrow> shipment_query \<Rightarrow> shipment \<Rightarrow> bool" where
  "shipment_where t q x \<longleftrightarrow> sp_tenantId x = t \<and> sp_deletedAt x = None \<and>
     (case sq_warehouseId q of None \<Rightarrow> True | Some w \<Rightarrow> sp_warehouseId x = w) \<and>
     (case sq_orderId q of None \<Rightarrow> True | Some i \<Rightarrow> sp_orderId x = i) \<and>
     (case sq_statuses q of
        Some ss \<Rightarrow> sp_status x \<in> set ss
      | None \<Rightarrow> (case sq_status q of None \<Rightarrow> True | Some s \<Rightarrow> sp_status x = s)) \<and>
     (case sq_createdFrom q of None \<Rightarrow> True | Some a \<Rightarrow> a \<le> sp_createdAt x) \<and>
     (case sq_createdTo q of None \<Rightarrow> True | Some b \<Rightarrow> sp_createdAt x \<le> b)"

record shipment_page =
  sg_items :: "shipment_view list"
  sg_total :: nat
  sg_page :: nat
  sg_pageSize :: nat

fun shipmentViews :: "shipment_view list \<Rightarrow> ful_error + shipment_view list" where
  "shipmentViews [] = Inr []"
| "shipmentViews (v # vs) =
     bind_res (shipmentView v) (\<lambda>w. bind_res (shipmentViews vs) (\<lambda>ws. Inr (w # ws)))"

definition listShipments :: "uuid \<Rightarrow> shipment_query \<Rightarrow> ful_db \<Rightarrow> ful_error + shipment_page" where
  "listShipments t q db =
     (let page = (case sq_page q of None \<Rightarrow> 1 | Some p \<Rightarrow> p);
          size = (case sq_pageSize q of None \<Rightarrow> SHIPMENT_DEFAULT_PAGE_SIZE | Some s \<Rightarrow> s)
      in case (sq_createdFrom q, sq_createdTo q) of
           (from, to) \<Rightarrow>
             if from \<noteq> None \<and> to \<noteq> None \<and> the to < the from then Inl (FulBadRequest ''createdFrom'')
             else
               let rows = filter (shipment_where t q) (shipments db);
                   sorted = rev (sort_key (\<lambda>x. (sp_createdAt x, sp_id x)) rows);
                   window = take size (drop ((page - 1) * size) sorted)
               in bind_res (shipmentViews (map (\<lambda>x. \<lparr> vw_shipment = x, vw_items = [],
                      vw_intent = intentOf (sp_id x) db, vw_history = [] \<rparr>) window))
                    (\<lambda>items. Inr \<lparr> sg_items = items, sg_total = length rows, sg_page = page, sg_pageSize = size \<rparr>))"

section \<open>Picking, readiness and manual results\<close>

text \<open>The columns a plain status change writes.\<close>

definition moveShipment :: "shipment_status \<Rightarrow> string option \<Rightarrow> instant \<Rightarrow> shipment \<Rightarrow> shipment" where
  "moveShipment to reason now x =
     (let x1 = x\<lparr> sp_status := to, sp_version := sp_version x + 1 \<rparr>
      in if to = S_READY_TO_SHIP then x1\<lparr> sp_readyAt := Some now \<rparr>
         else if to = S_DELIVERED then x1\<lparr> sp_deliveredAt := Some now \<rparr>
         else if to = S_FAILED then x1\<lparr> sp_failedAt := Some now, sp_failureReason := reason \<rparr>
         else x1)"

definition transitionTx ::
    "uuid \<Rightarrow> version \<Rightarrow> shipment_status \<Rightarrow> shipment_context \<Rightarrow> string option \<Rightarrow> instant \<Rightarrow> ful_db \<Rightarrow>
     ful_error + ful_db" where
  "transitionTx i ver to ctx reason now db =
     bind_res (loadShipment (sx_tenantId ctx) i db) (\<lambda>current.
     bind_res (assertShipmentVersion (sp_version current) ver) (\<lambda>_.
       if intent_pending i db then Inl ShipmentDispatchPending
       else
         bind_res (assertShipmentTransition (sp_status current) to) (\<lambda>event.
         bind_res (updateShipment (sx_tenantId ctx) i (moveShipment to reason now) now db) (\<lambda>(updated, db1).
           recordShipment updated (Some (sp_status current)) event ctx reason None now db1))))"

definition transition ::
    "uuid \<Rightarrow> version \<Rightarrow> shipment_status \<Rightarrow> shipment_context \<Rightarrow> string option \<Rightarrow> instant \<Rightarrow> ful_db \<Rightarrow>
     (ful_error + shipment_view) \<times> ful_db" where
  "transition i ver to ctx reason now db =
     (case transitionTx i ver to ctx reason now db of
        Inl e \<Rightarrow> (Inl e, db)
      | Inr db' \<Rightarrow> (shipmentDetail (sx_tenantId ctx) i db', db'))"

text \<open>The four routes of \<^verbatim>\<open>shipments.controller.ts\<close> that use it; none of them dispatches.\<close>

definition MANUAL_TARGETS :: "shipment_status list" where
  "MANUAL_TARGETS = [S_PICKING, S_READY_TO_SHIP, S_DELIVERED, S_FAILED]"

end
