(* ===== verification/Fulfillment_Orders.thy ===== *)
theory Fulfillment_Orders
  imports Fulfillment_Base
begin

text \<open>
  How shipments follow orders (\<^verbatim>\<open>shipment-order-events.service.ts\<close>): a confirmed order becomes a shipment,
  a cancelled order cancels its shipment unless it has left, and a cursor per order keeps old events from
  being applied. The handler reads the inbox and the cursor before its transaction, on a database \<open>db0\<close>
  that may be older than the one the transaction runs on.
\<close>

section \<open>The received payload\<close>

text \<open>
  A line of the event as it was sent: the five snapshot keys may be missing, in events of the first
  version of the contract. \<open>None\<close> in the body stands for a part its schema rejects.
\<close>

record source_line =
  sn_orderLineId :: uuid
  sn_lineNumber :: nat
  sn_productId :: uuid
  sn_quantity :: string
  sn_skuSnapshot :: "string option"
  sn_productNameSnapshot :: "string option"
  sn_unitSnapshot :: "string option"
  sn_unitWeight :: "string option"
  sn_unitVolume :: "string option"

record source_payload =
  pr_orderNumber :: string
  pr_orderVersion :: version
  pr_reservationGroupId :: uuid
  pr_confirmedAt :: instant
  pr_customerId :: uuid
  pr_deliveryAddressId :: uuid
  pr_warehouseId :: uuid
  pr_customerSnapshot :: customer_snapshot
  pr_deliveryAddressSnapshot :: address_snapshot
  pr_warehouseSnapshot :: warehouse_snapshot
  pr_totalQuantity :: string
  pr_totalWeight :: string
  pr_totalVolume :: string
  pr_orderLines :: "source_line list"

record order_event_body =
  oy_orderId :: "uuid option"
  oy_confirmed :: "source_payload option"
  oy_cancelReason :: "string option"

type_synonym order_event = "order_event_body envelope"

definition legacyLine :: "source_line \<Rightarrow> bool" where
  "legacyLine l \<longleftrightarrow> 0 < sn_lineNumber l \<and> ORDER_QUANTITY_PATTERN (sn_quantity l)"

definition legacyConfirmed :: "source_payload \<Rightarrow> bool" where
  "legacyConfirmed p \<longleftrightarrow> pr_orderNumber p \<noteq> [] \<and> transportVersion (pr_orderVersion p) \<and>
     as_addressType (pr_deliveryAddressSnapshot p) = ''SHIPPING'' \<and>
     ORDER_QUANTITY_PATTERN (pr_totalQuantity p) \<and> measure_text (pr_totalWeight p) \<and> measure_text (pr_totalVolume p) \<and>
     pr_orderLines p \<noteq> [] \<and> list_all legacyLine (pr_orderLines p)"

definition richLine :: "source_line \<Rightarrow> order_line_view option" where
  "richLine l =
     (case (sn_skuSnapshot l, sn_productNameSnapshot l, sn_unitSnapshot l, sn_unitWeight l, sn_unitVolume l) of
        (Some sku, Some name, Some u, Some w, Some v) \<Rightarrow>
          (let line = \<lparr> lv_id = sn_orderLineId l, lv_lineNumber = sn_lineNumber l, lv_productId = sn_productId l,
             lv_skuSnapshot = sku, lv_productNameSnapshot = name, lv_unitSnapshot = u, lv_quantity = sn_quantity l,
             lv_unitWeight = w, lv_unitVolume = v \<rparr>
           in if shipmentLineSchema line then Some line else None)
      | _ \<Rightarrow> None)"

definition hasSnapshotKey :: "source_line \<Rightarrow> bool" where
  "hasSnapshotKey l \<longleftrightarrow> sn_skuSnapshot l \<noteq> None \<or> sn_productNameSnapshot l \<noteq> None \<or> sn_unitSnapshot l \<noteq> None \<or>
     sn_unitWeight l \<noteq> None \<or> sn_unitVolume l \<noteq> None"

definition withLines :: "uuid \<Rightarrow> source_payload \<Rightarrow> order_line_view list \<Rightarrow> confirmed_payload" where
  "withLines orderId p lines = \<lparr> cf_orderId = orderId, cf_orderNumber = pr_orderNumber p,
     cf_orderVersion = pr_orderVersion p, cf_reservationGroupId = pr_reservationGroupId p,
     cf_confirmedAt = pr_confirmedAt p, cf_customerId = pr_customerId p,
     cf_deliveryAddressId = pr_deliveryAddressId p, cf_warehouseId = pr_warehouseId p,
     cf_customerSnapshot = pr_customerSnapshot p, cf_deliveryAddressSnapshot = pr_deliveryAddressSnapshot p,
     cf_warehouseSnapshot = pr_warehouseSnapshot p, cf_totalQuantity = pr_totalQuantity p,
     cf_totalWeight = pr_totalWeight p, cf_totalVolume = pr_totalVolume p, cf_orderLines = lines \<rparr>"

text \<open>The lines of an old event, completed from the order's own lines.\<close>

definition legacyMerge :: "order_line_view list \<Rightarrow> source_line \<Rightarrow> ful_error + order_line_view" where
  "legacyMerge savedLines line =
     (case List.find (\<lambda>s. lv_id s = sn_orderLineId line) savedLines of
        None \<Rightarrow> Inl (FulPlainError ''Legacy snapshot line mismatch'')
      | Some saved \<Rightarrow>
          if lv_productId saved \<noteq> sn_productId line \<or> lv_lineNumber saved \<noteq> sn_lineNumber line \<or>
             decimal_value 3 (lv_quantity saved) \<noteq> decimal_value 3 (sn_quantity line)
          then Inl (FulPlainError ''Legacy snapshot line mismatch'')
          else Inr (saved\<lparr> lv_lineNumber := sn_lineNumber line, lv_productId := sn_productId line,
                          lv_quantity := sn_quantity line \<rparr>))"

fun legacyLines :: "order_line_view list \<Rightarrow> source_line list \<Rightarrow> ful_error + order_line_view list" where
  "legacyLines saved [] = Inr []"
| "legacyLines saved (l # ls) =
     bind_res (legacyMerge saved l) (\<lambda>v. bind_res (legacyLines saved ls) (\<lambda>vs. Inr (v # vs)))"

definition legacySource ::
    "'ord order_api \<Rightarrow> uuid \<Rightarrow> uuid \<Rightarrow> source_payload \<Rightarrow> 'ord \<Rightarrow> ful_error + order_line_view list" where
  "legacySource api t orderId p s =
     (if list_ex hasSnapshotKey (pr_orderLines p) then Inl (FulPlainError ''ZodError'')
      else
        bind_res (orderSnapshot api t orderId s) (\<lambda>snapshot.
          if ov_id snapshot \<noteq> orderId \<or> ov_reservationGroupId snapshot \<noteq> Some (pr_reservationGroupId p)
          then Inl (FulPlainError ''Legacy snapshot reservation mismatch'')
          else
            bind_res (legacyLines (ov_lines snapshot) (pr_orderLines p)) (\<lambda>lines.
              if length lines \<noteq> length (ov_lines snapshot)
              then Inl (FulPlainError ''Legacy snapshot line count mismatch'')
              else if \<not> list_all shipmentLineSchema lines then Inl (FulPlainError ''ZodError'')
              else Inr lines)))"

definition sourceConsistent :: "confirmed_payload \<Rightarrow> bool" where
  "sourceConsistent c \<longleftrightarrow>
     \<not> (cs_customerId (cf_customerSnapshot c) \<noteq> cf_customerId c \<or>
        as_addressId (cf_deliveryAddressSnapshot c) \<noteq> cf_deliveryAddressId c \<or>
        ws_warehouseId (cf_warehouseSnapshot c) \<noteq> cf_warehouseId c \<or>
        length (remdups (map lv_id (cf_orderLines c))) \<noteq> length (cf_orderLines c))"

text \<open>The confirmation the transaction works with: the event's own lines, or those of an old event.\<close>

definition confirmedSource ::
    "'ord order_api \<Rightarrow> order_event \<Rightarrow> uuid \<Rightarrow> 'ord \<Rightarrow> ful_error + confirmed_payload" where
  "confirmedSource api event orderId s =
     (case oy_confirmed (ev_payload event) of
        None \<Rightarrow> Inl (FulPlainError ''ZodError'')
      | Some p \<Rightarrow>
          if \<not> legacyConfirmed p then Inl (FulPlainError ''ZodError'')
          else if pr_orderVersion p \<noteq> ev_aggregateVersion event then Inl (FulPlainError ''Confirmation version mismatch'')
          else
            bind_res (case those (map richLine (pr_orderLines p)) of
                        Some lines \<Rightarrow> Inr lines
                      | None \<Rightarrow> legacySource api (ev_tenantId event) orderId p s) (\<lambda>lines.
              if sourceConsistent (withLines orderId p lines) then Inr (withLines orderId p lines)
              else Inl (FulPlainError ''Shipment source snapshots mismatch'')))"

section \<open>Creating the shipment\<close>

definition shipmentNumber :: "uuid \<Rightarrow> string" where
  "shipmentNumber orderId = ''SHP-'' @ uuid_text orderId"

text \<open>The amounts as the columns store them: PostgreSQL rounds a \<^verbatim>\<open>numeric\<close> to the column's scale.\<close>

definition newItem :: "(int \<Rightarrow> int) \<Rightarrow> uuid \<Rightarrow> uuid \<Rightarrow> uuid \<Rightarrow> order_line_view \<Rightarrow> shipment_item" where
  "newItem prec t shipmentId i line =
     \<lparr> it_id = i, it_tenantId = t, it_shipmentId = shipmentId, it_orderLineId = lv_id line,
       it_productId = lv_productId line, it_skuSnapshot = lv_skuSnapshot line,
       it_productNameSnapshot = lv_productNameSnapshot line, it_unitSnapshot = lv_unitSnapshot line,
       it_quantity = decimal_value 3 (lv_quantity line),
       it_weight = round_half_up 6 (prec (decimal_value 6 (lv_unitWeight line) * decimal_value 3 (lv_quantity line))),
       it_volume = round_half_up 3 (prec (decimal_value 6 (lv_unitVolume line) * decimal_value 3 (lv_quantity line))),
       it_deletedAt = None \<rparr>"

definition newShipment :: "uuid \<Rightarrow> uuid \<Rightarrow> confirmed_payload \<Rightarrow> instant \<Rightarrow> shipment" where
  "newShipment i t c now =
     \<lparr> sp_id = i, sp_tenantId = t, sp_shipmentNumber = shipmentNumber (cf_orderId c), sp_orderId = cf_orderId c,
       sp_warehouseId = cf_warehouseId c, sp_deliveryAddressId = cf_deliveryAddressId c,
       sp_customerSnapshot = cf_customerSnapshot c, sp_deliveryAddressSnapshot = cf_deliveryAddressSnapshot c,
       sp_warehouseSnapshot = cf_warehouseSnapshot c, sp_orderNumber = cf_orderNumber c,
       sp_confirmedOrderVersion = cf_orderVersion c, sp_status = S_PENDING_PICK,
       sp_totalWeight = round_half_up 3 (decimal_value 6 (cf_totalWeight c)),
       sp_totalVolume = decimal_value 6 (cf_totalVolume c), sp_reservationGroupId = cf_reservationGroupId c,
       sp_assignedTripId = None, sp_tripClaimId = None, sp_dispatchIssuedAt = None, sp_readyAt = None,
       sp_deliveredAt = None, sp_failedAt = None, sp_failureReason = None, sp_createdAt = now, sp_updatedAt = now,
       sp_version = 1, sp_deletedAt = None \<rparr>"

definition item_fits :: "shipment_item \<Rightarrow> bool" where
  "item_fits l \<longleftrightarrow> fits_numeric18 (it_quantity l) \<and> fits_numeric18 (it_weight l) \<and> fits_numeric18 (it_volume l) \<and>
     length (it_skuSnapshot l) \<le> 100 \<and> length (it_productNameSnapshot l) \<le> 200 \<and> length (it_unitSnapshot l) \<le> 30"

definition shipment_fits :: "shipment \<Rightarrow> bool" where
  "shipment_fits x \<longleftrightarrow> fits_numeric18 (sp_totalWeight x) \<and> fits_numeric18 (sp_totalVolume x) \<and>
     length (sp_orderNumber x) \<le> 50 \<and> length (sp_shipmentNumber x) \<le> 50"

definition newItems :: "(int \<Rightarrow> int) \<Rightarrow> uuid \<Rightarrow> uuid \<Rightarrow> confirmed_payload \<Rightarrow> shipment_item list" where
  "newItems prec i t c =
     map (\<lambda>(k, line). newItem prec t i (i + 1 + k) line) (enumerate 0 (cf_orderLines c))"

definition createShipment ::
    "ful_env \<Rightarrow> uuid \<Rightarrow> confirmed_payload \<Rightarrow> instant \<Rightarrow> ful_db \<Rightarrow> ful_error + shipment \<times> ful_db" where
  "createShipment env t c now db =
     (let x = newShipment (ful_next db) t c now;
          items = newItems (fe_prec env) (ful_next db) t c
      in if \<not> shipment_fits x \<or> \<not> list_all item_fits items then Inl FulNumericOverflow
         else if \<not> 0 < sp_confirmedOrderVersion x \<or> \<not> list_all (\<lambda>l. 0 < it_quantity l) items then Inl FulCheckViolation
         else if exists_row (\<lambda>y. sp_tenantId y = t \<and>
                   (sp_orderId y = sp_orderId x \<or> sp_shipmentNumber y = sp_shipmentNumber x)) (shipments db)
         then Inl FulUniqueViolation
         else if length (remdups (map it_orderLineId items)) \<noteq> length items then Inl FulUniqueViolation
         else Inr (x, db\<lparr> shipments := shipments db @ [x], shipmentItems := shipmentItems db @ items,
                        ful_next := ful_next db + 1 + length items \<rparr>))"

section \<open>The transaction\<close>

definition SHIPMENT_CONSUMER :: string where
  "SHIPMENT_CONSUMER = ''fulfillment-order-events''"

definition eventContext :: "'p envelope \<Rightarrow> shipment_context" where
  "eventContext e = \<lparr> sx_tenantId = ev_tenantId e, sx_actorId = ev_actorId e, sx_correlationId = ev_correlationId e,
     sx_causationId = Some (ev_eventId e) \<rparr>"

definition findCursor :: "uuid \<Rightarrow> uuid \<Rightarrow> ful_db \<Rightarrow> order_cursor option" where
  "findCursor t i db = List.find (\<lambda>c. cu_tenantId c = t \<and> cu_orderId c = i) (orderCursors db)"

definition cursorStale :: "order_cursor option \<Rightarrow> version \<Rightarrow> bool" where
  "cursorStale c v = (case c of None \<Rightarrow> False | Some k \<Rightarrow> cu_canceled k \<or> v \<le> cu_orderVersion k)"

definition upsertCursor :: "uuid \<Rightarrow> uuid \<Rightarrow> version \<Rightarrow> bool \<Rightarrow> ful_db \<Rightarrow> ful_db" where
  "upsertCursor t i v canceled db =
     (if findCursor t i db = None
      then db\<lparr> orderCursors := orderCursors db @
             [\<lparr> cu_tenantId = t, cu_orderId = i, cu_orderVersion = v, cu_canceled = canceled \<rparr>] \<rparr>
      else db\<lparr> orderCursors := update_where (\<lambda>c. cu_tenantId c = t \<and> cu_orderId c = i)
             (\<lambda>c. c\<lparr> cu_orderVersion := v, cu_canceled := canceled \<rparr>) (orderCursors db) \<rparr>)"

definition shipmentOfOrder :: "uuid \<Rightarrow> uuid \<Rightarrow> ful_db \<Rightarrow> shipment option" where
  "shipmentOfOrder t i db = List.find (\<lambda>x. sp_tenantId x = t \<and> sp_orderId x = i) (shipments db)"

definition batchIntentPending :: "uuid \<Rightarrow> uuid \<Rightarrow> ful_db \<Rightarrow> bool" where
  "batchIntentPending t i db =
     exists_row (\<lambda>d. di_shipmentId d = i \<and> di_tenantId d = t \<and> di_batchId d \<noteq> None \<and> di_status d = I_PENDING)
       (dispatchIntents db)"

definition bumpVersion :: "shipment \<Rightarrow> shipment" where
  "bumpVersion x = x\<lparr> sp_version := sp_version x + 1 \<rparr>"

definition cancelRow :: "shipment \<Rightarrow> shipment" where
  "cancelRow x = x\<lparr> sp_status := S_CANCELED, sp_version := sp_version x + 1 \<rparr>"

text \<open>A cancelled order's shipment: the outcome of the event and the database after it.\<close>

definition cancelShipment ::
    "shipment_context \<Rightarrow> string option \<Rightarrow> shipment \<Rightarrow> instant \<Rightarrow> ful_db \<Rightarrow> ful_error + string \<times> ful_db" where
  "cancelShipment ctx reason current now db =
     (let t = sx_tenantId ctx; i = sp_id current in
      if batchIntentPending t i db then Inl ShipmentDispatchPending
      else if sp_status current \<in> set [S_DISPATCHED, S_DELIVERED, S_FAILED] then
        bind_res (updateShipment t i bumpVersion now db) (\<lambda>(rejected, db1).
        bind_res (recordShipment rejected (Some (sp_status current)) E_CANCEL_REJECTED ctx
                    (Some ''ORDER_DISPATCH_COMMITTED'') None now db1) (\<lambda>db2.
          Inr (''CANCEL_REJECTED'', db2)))
      else if sp_status current \<noteq> S_CANCELED then
        let db1 = setIntents (\<lambda>d. di_tenantId d = t \<and> di_shipmentId d = i \<and> di_status d = I_PENDING)
              (\<lambda>d. d\<lparr> di_status := I_REJECTED, di_rejectionReason := Some ''ORDER_CANCELED'' \<rparr>) db
        in bind_res (updateShipment t i cancelRow now db1) (\<lambda>(canceled, db2).
           bind_res (recordShipment canceled (Some (sp_status current)) E_CANCELED ctx reason None now db2) (\<lambda>db3.
             Inr (''APPLIED'', db3)))
      else Inr (''APPLIED'', db))"

definition confirmShipment ::
    "ful_env \<Rightarrow> shipment_context \<Rightarrow> confirmed_payload \<Rightarrow> shipment option \<Rightarrow> instant \<Rightarrow> ful_db \<Rightarrow> ful_error + string \<times> ful_db" where
  "confirmShipment env ctx c existing now db =
     (case existing of
        Some x \<Rightarrow>
          if sp_reservationGroupId x \<noteq> cf_reservationGroupId c
          then Inl (FulPlainError ''One order cannot have another shipment reservation'')
          else Inr (''IGNORED_STALE'', db)
      | None \<Rightarrow>
          bind_res (createShipment env (sx_tenantId ctx) c now db) (\<lambda>(x, db1).
          bind_res (recordShipment x None E_CREATED ctx None None now db1) (\<lambda>db2. Inr (''APPLIED'', db2))))"

definition orderInboxRow :: "order_event \<Rightarrow> instant \<Rightarrow> string \<Rightarrow> ful_inbox_row" where
  "orderInboxRow e now outcome = \<lparr> fi_id = 0, fi_tenantId = ev_tenantId e, fi_eventId = ev_eventId e,
     fi_consumerName = SHIPMENT_CONSUMER, fi_eventType = ev_eventType e, fi_aggregateId = Some (ev_aggregateId e),
     fi_aggregateVersion = Some (ev_aggregateVersion e), fi_eventPayload = None, fi_payloadHash = None,
     fi_semanticKey = None, fi_attemptCount = 0, fi_nextAttemptAt = now, fi_lastError = None,
     fi_processedAt = now, fi_outcome = outcome, fi_errorCode = None \<rparr>"

definition orderEventTx ::
    "ful_env \<Rightarrow> order_event \<Rightarrow> uuid \<Rightarrow> confirmed_payload option \<Rightarrow> string option \<Rightarrow> instant \<Rightarrow> ful_db \<Rightarrow> ful_error + ful_db" where
  "orderEventTx env event orderId confirmed reason now db =
     (let t = ev_tenantId event; v = ev_aggregateVersion event; ctx = eventContext event in
      if ful_inbox_find SHIPMENT_CONSUMER (ev_eventId event) db \<noteq> None then Inr db
      else if cursorStale (findCursor t orderId db) v
      then ful_inbox_create (orderInboxRow event now ''IGNORED_STALE'') db
      else
        bind_res (case confirmed of
                    Some c \<Rightarrow> confirmShipment env ctx c (shipmentOfOrder t orderId db) now db
                  | None \<Rightarrow>
                      (case shipmentOfOrder t orderId db of
                         None \<Rightarrow> Inr (''APPLIED'', db)
                       | Some x \<Rightarrow> cancelShipment ctx reason x now db)) (\<lambda>(outcome, db1).
          ful_inbox_create (orderInboxRow event now outcome)
            (upsertCursor t orderId v (confirmed = None) db1)))"

section \<open>The handler\<close>

definition handleShipmentOrderEvent ::
    "'ord order_api \<Rightarrow> ful_env \<Rightarrow> instant \<Rightarrow> 'ord \<Rightarrow> ful_db \<Rightarrow> order_event \<Rightarrow> ful_db \<Rightarrow> ful_error + ful_db" where
  "handleShipmentOrderEvent api env now s db0 event db =
     (if ev_eventType event \<noteq> ''OrderConfirmed'' \<and> ev_eventType event \<noteq> ''OrderCanceled'' then Inr db
      else if \<not> validateShipmentEnvelope event ''order-service'' ''SalesOrder''
      then Inl (FulPlainError ''ZodError'')
      else
        case oy_orderId (ev_payload event) of
          None \<Rightarrow> Inl (FulPlainError ''ZodError'')
        | Some orderId \<Rightarrow>
            if orderId \<noteq> ev_aggregateId event then Inl (FulPlainError ''Order aggregate mismatch'')
            else if ful_inbox_find SHIPMENT_CONSUMER (ev_eventId event) db0 \<noteq> None then Inr db
            else
              let knownStale = cursorStale (findCursor (ev_tenantId event) orderId db0) (ev_aggregateVersion event) in
              if ev_eventType event = ''OrderCanceled'' then
                (case oy_cancelReason (ev_payload event) of
                   None \<Rightarrow> Inl (FulPlainError ''ZodError'')
                 | Some reason \<Rightarrow>
                     if reason = [] then Inl (FulPlainError ''ZodError'')
                     else orderEventTx env event orderId None (Some reason) now db)
              else if knownStale then orderEventTx env event orderId None None now db
              else
                bind_res (confirmedSource api event orderId s) (\<lambda>c.
                  orderEventTx env event orderId (Some c) None now db))"

end
