(* ===== verification/Fulfillment_Dispatch.thy ===== *)
theory Fulfillment_Dispatch
  imports Fulfillment_Orders
begin

text \<open>
  Leaving the warehouse. One shipment (\<^verbatim>\<open>shipment-dispatch.service.ts\<close>) or the shipments of a trip
  (\<^verbatim>\<open>shipment-dispatch-batch.service.ts\<close>) are dispatched in three steps: a local transaction saves the
  intent, the order service decides, a second local transaction carries the decision out. Recovery
  (\<^verbatim>\<open>shipment-recovery.service.ts\<close>) repeats the last two for the intents and batches that are pending.

  Each transaction is a definition of its own, so that any other transaction may run between two of them.
\<close>

section \<open>One shipment\<close>

record dispatch_dto =
  dd_version :: version
  dd_orderVersion :: version
  dd_requestId :: uuid

record dispatch_preview =
  pw_shipmentId :: uuid
  pw_shipmentNumber :: string
  pw_orderId :: uuid
  pw_version :: version
  pw_orderVersion :: version
  pw_reservationGroupId :: uuid

definition claimed :: "shipment \<Rightarrow> bool" where
  "claimed x \<longleftrightarrow> sp_assignedTripId x \<noteq> None \<or> sp_tripClaimId x \<noteq> None"

definition order_dispatchable :: "shipment \<Rightarrow> order_detail_view \<Rightarrow> bool" where
  "order_dispatchable x v \<longleftrightarrow> \<not> (ov_status v \<noteq> READY_TO_SHIP \<or> ov_cancellationRequestedAt v \<noteq> None \<or>
     ov_reservationGroupId v \<noteq> Some (sp_reservationGroupId x))"

definition previewDispatch ::
    "'ord order_api \<Rightarrow> uuid \<Rightarrow> shipment_context \<Rightarrow> 'ord \<Rightarrow> ful_db \<Rightarrow> ful_error + dispatch_preview" where
  "previewDispatch api i ctx s db =
     bind_res (loadShipment (sx_tenantId ctx) i db) (\<lambda>x.
       if claimed x then Inl TripClaimConflict
       else if intent_pending i db then Inl ShipmentDispatchPending
       else
         bind_res (assertShipmentTransition (sp_status x) S_DISPATCHED) (\<lambda>_.
         bind_res (orderSnapshot api (sx_tenantId ctx) (sp_orderId x) s) (\<lambda>order.
           if \<not> order_dispatchable x order then Inl ShipmentInvalidTransition
           else Inr \<lparr> pw_shipmentId = i, pw_shipmentNumber = sp_shipmentNumber x, pw_orderId = sp_orderId x,
                      pw_version = sp_version x, pw_orderVersion = ov_version order,
                      pw_reservationGroupId = sp_reservationGroupId x \<rparr>)))"

text \<open>What \<^verbatim>\<open>dispatch\<close> checks before it writes anything; a repeated request skips the checks.\<close>

definition dispatchPrecheck ::
    "'ord order_api \<Rightarrow> uuid \<Rightarrow> dispatch_dto \<Rightarrow> shipment_context \<Rightarrow> 'ord \<Rightarrow> ful_db \<Rightarrow> ful_error + unit" where
  "dispatchPrecheck api i dto ctx s db =
     bind_res (loadShipment (sx_tenantId ctx) i db) (\<lambda>before.
       if claimed before then Inl TripClaimConflict
       else if map_option di_id (intentOf i db) = Some (dd_requestId dto) then Inr ()
       else if intent_blocks i db then Inl ShipmentDispatchPending
       else
         bind_res (assertShipmentVersion (sp_version before) (dd_version dto)) (\<lambda>_.
         bind_res (assertShipmentTransition (sp_status before) S_DISPATCHED) (\<lambda>_.
         bind_res (orderSnapshot api (sx_tenantId ctx) (sp_orderId before) s) (\<lambda>order.
           if ov_id order \<noteq> sp_orderId before \<or> \<not> order_dispatchable before order then Inl ShipmentInvalidTransition
           else if ov_version order \<noteq> dd_orderVersion dto then Inl ShipmentVersionConflict
           else Inr ()))))"

definition newIntent ::
    "uuid \<Rightarrow> uuid \<Rightarrow> uuid \<Rightarrow> version \<Rightarrow> version \<Rightarrow> uuid \<Rightarrow> uuid \<Rightarrow> uuid option \<Rightarrow> instant \<Rightarrow> dispatch_intent" where
  "newIntent i t shipmentId orderVersion shipmentVersion actor corr batch now =
     \<lparr> di_id = i, di_tenantId = t, di_shipmentId = shipmentId, di_orderVersion = orderVersion,
       di_shipmentVersion = shipmentVersion, di_actorId = actor, di_correlationId = corr, di_status = I_PENDING,
       di_batchId = batch, di_grantReceipt = None, di_rejectionReason = None, di_attemptCount = 0,
       di_nextAttemptAt = now \<rparr>"

definition saveIntent ::
    "uuid \<Rightarrow> dispatch_dto \<Rightarrow> uuid \<Rightarrow> shipment_context \<Rightarrow> instant \<Rightarrow> ful_db \<Rightarrow> ful_error + ful_db" where
  "saveIntent i dto actor ctx now db =
     bind_res (loadShipment (sx_tenantId ctx) i db) (\<lambda>x.
       if claimed x then Inl TripClaimConflict
       else
         case intentOf i db of
           Some d \<Rightarrow>
             if di_id d = dd_requestId dto then
               (if di_orderVersion d \<noteq> dd_orderVersion dto \<or> di_shipmentVersion d \<noteq> dd_version dto \<or> di_actorId d \<noteq> actor
                then Inl ShipmentVersionConflict
                else if di_status d = I_REJECTED then Inl ShipmentInvalidTransition
                else Inr db)
             else if di_status d \<noteq> I_REJECTED then Inl ShipmentDispatchPending
             else
               bind_res (assertShipmentVersion (sp_version x) (dd_version dto)) (\<lambda>_.
               bind_res (assertShipmentTransition (sp_status x) S_DISPATCHED) (\<lambda>_.
                 createIntent (newIntent (dd_requestId dto) (sx_tenantId ctx) i (dd_orderVersion dto) (sp_version x)
                   actor (sx_correlationId ctx) None now) (deleteIntent (di_id d) db)))
         | None \<Rightarrow>
             bind_res (assertShipmentVersion (sp_version x) (dd_version dto)) (\<lambda>_.
             bind_res (assertShipmentTransition (sp_status x) S_DISPATCHED) (\<lambda>_.
               createIntent (newIntent (dd_requestId dto) (sx_tenantId ctx) i (dd_orderVersion dto) (sp_version x)
                 actor (sx_correlationId ctx) None now) db)))"

definition dispatchTx ::
    "uuid \<Rightarrow> dispatch_dto \<Rightarrow> uuid \<Rightarrow> shipment_context \<Rightarrow> instant \<Rightarrow> ful_db \<Rightarrow> ful_error + ful_db" where
  "dispatchTx i dto actor ctx now db =
     (case saveIntent i dto actor ctx now db of
        Inl e \<Rightarrow> Inl (if e = FulUniqueViolation then ShipmentVersionConflict else e)
      | Inr db' \<Rightarrow> Inr db')"

text \<open>The request an intent stands for, the same at every attempt.\<close>

definition intentRequest :: "shipment \<Rightarrow> dispatch_intent \<Rightarrow> dispatch_request" where
  "intentRequest x d = \<lparr> dq_requestId = di_id d, dq_shipmentId = sp_id x,
     dq_reservationGroupId = sp_reservationGroupId x, dq_orderVersion = di_orderVersion d, dq_actorId = di_actorId d \<rparr>"

definition grantMatches :: "shipment \<Rightarrow> dispatch_intent \<Rightarrow> dispatch_grant \<Rightarrow> bool" where
  "grantMatches x d g \<longleftrightarrow>
     \<not> (dg_requestId g \<noteq> di_id d \<or> dg_shipmentId g \<noteq> sp_id x \<or> dg_orderId g \<noteq> sp_orderId x \<or>
        dg_reservationGroupId g \<noteq> sp_reservationGroupId x \<or> dg_orderVersion g \<noteq> di_orderVersion d \<or>
        dg_actorId g \<noteq> di_actorId d \<or> dg_correlationId g \<noteq> di_correlationId d)"

definition rejectIntent :: "uuid \<Rightarrow> ful_db \<Rightarrow> ful_db" where
  "rejectIntent i db = setIntents (\<lambda>d. di_id d = i \<and> di_status d = I_PENDING)
     (\<lambda>d. d\<lparr> di_status := I_REJECTED, di_rejectionReason := Some ''ORDER_CONFLICT'' \<rparr>) db"

definition dispatchRow :: "instant \<Rightarrow> shipment \<Rightarrow> shipment" where
  "dispatchRow at x = x\<lparr> sp_status := S_DISPATCHED, sp_dispatchIssuedAt := Some at, sp_version := sp_version x + 1 \<rparr>"

definition completeIntent :: "uuid \<Rightarrow> ful_db \<Rightarrow> ful_db" where
  "completeIntent i db = setIntents (\<lambda>d. di_id d = i) (\<lambda>d. d\<lparr> di_status := I_COMPLETED \<rparr>) db"

definition completeTx ::
    "uuid \<Rightarrow> uuid \<Rightarrow> dispatch_intent \<Rightarrow> dispatch_grant \<Rightarrow> instant \<Rightarrow> ful_db \<Rightarrow> ful_error + ful_db" where
  "completeTx t i intent grant now db =
     (case List.find (the_shipment t i) (shipments db) of
        None \<Rightarrow> Inl (FulPlainError ''P2025'')
      | Some current \<Rightarrow>
          (case intentOf i db of
             None \<Rightarrow> Inl (FulPlainError ''Dispatch intent changed after grant'')
           | Some d \<Rightarrow>
               if di_id d \<noteq> di_id intent then Inl (FulPlainError ''Dispatch intent changed after grant'')
               else if di_status d = I_COMPLETED then Inr db
               else
                 bind_res (assertShipmentTransition (sp_status current) S_DISPATCHED) (\<lambda>_.
                 bind_res (updateShipment t i (dispatchRow (dg_grantedAt grant)) now db) (\<lambda>(dispatched, db1).
                   recordShipment dispatched (Some (sp_status current)) E_DISPATCHED
                     \<lparr> sx_tenantId = t, sx_actorId = Some (di_actorId intent), sx_correlationId = di_correlationId intent,
                       sx_causationId = None \<rparr> None (Some (di_id intent)) now
                     (completeIntent (di_id intent) db1)))))"

definition completeDispatch ::
    "'ord order_api \<Rightarrow> uuid \<Rightarrow> uuid \<Rightarrow> instant \<Rightarrow> ful_db \<times> 'ord \<Rightarrow> (ful_error + unit) \<times> ful_db \<times> 'ord" where
  "completeDispatch api t i now = (\<lambda>(db, s).
     case (List.find (the_shipment t i) (shipments db), intentOf i db) of
       (Some x, Some d) \<Rightarrow>
         if di_status d \<noteq> I_PENDING \<or> di_batchId d \<noteq> None then (Inr (), db, s)
         else
           (case orderAuthorize api t (sp_orderId x) (intentRequest x d) (di_correlationId d) now s of
              (Inl e, s') \<Rightarrow>
                if e = OrderRequestRejected 409 then (Inl (OrderUpstream 409), rejectIntent (di_id d) db, s')
                else (Inl e, db, s')
            | (Inr g, s') \<Rightarrow>
                if \<not> grantMatches x d g
                then (Inl (FulPlainError ''Order returned a mismatched dispatch grant''), db, s')
                else
                  (case completeTx t i d g now db of
                     Inl e \<Rightarrow> (Inl e, db, s')
                   | Inr db' \<Rightarrow> (Inr (), db', s')))
     | _ \<Rightarrow> (Inr (), db, s))"

definition dispatchShipment ::
    "'ord order_api \<Rightarrow> uuid \<Rightarrow> dispatch_dto \<Rightarrow> shipment_context \<Rightarrow> instant \<Rightarrow> ful_db \<times> 'ord \<Rightarrow>
     (ful_error + shipment_view) \<times> ful_db \<times> 'ord" where
  "dispatchShipment api i dto ctx now = (\<lambda>(db, s).
     case sx_actorId ctx of
       None \<Rightarrow> (Inl (FulPlainError ''Dispatch requires authenticated actor''), db, s)
     | Some actor \<Rightarrow>
         (case bind_res (dispatchPrecheck api i dto ctx s db) (\<lambda>_. dispatchTx i dto actor ctx now db) of
            Inl e \<Rightarrow> (Inl e, db, s)
          | Inr db1 \<Rightarrow>
              (case completeDispatch api (sx_tenantId ctx) i now (db1, s) of
                 (Inl e, r) \<Rightarrow> (Inl e, r)
               | (Inr _, db2, s') \<Rightarrow> (shipmentDetail (sx_tenantId ctx) i db2, db2, s'))))"

section \<open>The shipments of a trip\<close>

record readiness_item =
  ri_shipmentId :: uuid
  ri_shipmentVersion :: version
  ri_orderId :: uuid
  ri_orderVersion :: version
  ri_reservationGroupId :: uuid

fun readiness ::
    "'ord order_api \<Rightarrow> uuid \<Rightarrow> uuid \<Rightarrow> (uuid \<times> version) list \<Rightarrow> 'ord \<Rightarrow> ful_db \<Rightarrow> ful_error + readiness_item list" where
  "readiness api t trip [] s db = Inr []"
| "readiness api t trip ((i, v) # items) s db =
     (case findShipment t i db of
        None \<Rightarrow> Inl TripClaimConflict
      | Some x \<Rightarrow>
          if sp_assignedTripId x \<noteq> Some trip \<or> sp_tripClaimId x = None \<or> sp_version x \<noteq> v \<or>
             sp_status x \<noteq> S_READY_TO_SHIP \<or> intent_blocks i db
          then Inl TripClaimConflict
          else
            bind_res (orderSnapshot api t (sp_orderId x) s) (\<lambda>order.
              if \<not> order_dispatchable x order then Inl ShipmentInvalidTransition
              else
                bind_res (readiness api t trip items s db) (\<lambda>rest.
                  Inr (\<lparr> ri_shipmentId = sp_id x, ri_shipmentVersion = v, ri_orderId = sp_orderId x,
                         ri_orderVersion = ov_version order, ri_reservationGroupId = sp_reservationGroupId x \<rparr> # rest))))"

definition batch_item_ready :: "batch_request \<Rightarrow> batch_item \<Rightarrow> ful_db \<Rightarrow> bool" where
  "batch_item_ready r item db =
     (case findShipment (br_tenantId r) (bi_shipmentId item) db of
        None \<Rightarrow> False
      | Some x \<Rightarrow>
          \<not> (sp_orderId x \<noteq> bi_orderId item \<or> sp_reservationGroupId x \<noteq> bi_reservationGroupId item \<or>
             sp_assignedTripId x \<noteq> Some (br_tripId r) \<or> sp_tripClaimId x = None \<or>
             sp_status x \<noteq> S_READY_TO_SHIP \<or> sp_version x \<noteq> bi_shipmentVersion item \<or>
             intent_blocks (bi_shipmentId item) db))"

definition findBatch :: "uuid \<Rightarrow> uuid \<Rightarrow> ful_db \<Rightarrow> shipment_dispatch_batch option" where
  "findBatch t i db = List.find (\<lambda>b. fb_id b = i \<and> fb_tenantId b = t) (fulBatches db)"

definition newBatch :: "ful_env \<Rightarrow> batch_request \<Rightarrow> instant \<Rightarrow> shipment_dispatch_batch" where
  "newBatch env r now = \<lparr> fb_id = br_requestId r, fb_tenantId = br_tenantId r, fb_tripId = br_tripId r,
     fb_payload = r, fb_payloadHash = fe_batchHash env r, fb_status = I_PENDING, fb_stage = PREPARED,
     fb_decision = None, fb_response = None, fb_attemptCount = 0, fb_nextAttemptAt = now, fb_lastError = None \<rparr>"

definition createFulBatch :: "shipment_dispatch_batch \<Rightarrow> ful_db \<Rightarrow> ful_error + ful_db" where
  "createFulBatch b db =
     (if exists_row (\<lambda>c. fb_id c = fb_id b) (fulBatches db) then Inl FulUniqueViolation
      else Inr (db\<lparr> fulBatches := fulBatches db @ [b] \<rparr>))"

text \<open>\<^verbatim>\<open>shipmentDispatchBatchReceiptSchema\<close> beyond its types.\<close>

definition batchReceiptValid :: "batch_receipt \<Rightarrow> bool" where
  "batchReceiptValid c \<longleftrightarrow> sha256_text (be_payloadHash c) \<and>
     (case be_decision c of None \<Rightarrow> True | Some d \<Rightarrow> batchDecisionValid d) \<and>
     list_all (\<lambda>l. transportVersion (bt_shipmentVersion l)) (be_shipments c)"

definition parseBatchReceipt :: "batch_receipt \<Rightarrow> ful_error + batch_receipt" where
  "parseBatchReceipt c = (if batchReceiptValid c then Inr c else Inl (FulPlainError ''ZodError''))"

definition batchReceiptOf ::
    "shipment_dispatch_batch \<Rightarrow> intent_status \<Rightarrow> batch_stage \<Rightarrow> batch_decision option \<Rightarrow> batch_receipt_item list \<Rightarrow> batch_receipt" where
  "batchReceiptOf b status stage decision items = \<lparr> be_tenantId = fb_tenantId b, be_requestId = fb_id b,
     be_tripId = fb_tripId b, be_payloadHash = fb_payloadHash b, be_status = status, be_stage = stage,
     be_decision = decision, be_shipments = items \<rparr>"

fun saveBatchIntents :: "batch_request \<Rightarrow> (batch_item \<times> uuid option) list \<Rightarrow> instant \<Rightarrow> ful_db \<Rightarrow> ful_error + ful_db" where
  "saveBatchIntents r [] now db = Inr db"
| "saveBatchIntents r ((item, priorId) # rest) now db =
     bind_res (createIntent (newIntent (bi_dispatchRequestId item) (br_tenantId r) (bi_shipmentId item)
                 (bi_orderVersion item) (bi_shipmentVersion item) (br_actorId r) (br_requestId r)
                 (Some (br_requestId r)) now)
               (case priorId of None \<Rightarrow> db | Some p \<Rightarrow> deleteIntent p db))
       (saveBatchIntents r rest now)"

definition prepareBatchTx :: "ful_env \<Rightarrow> batch_request \<Rightarrow> instant \<Rightarrow> ful_db \<Rightarrow> ful_error + ful_db" where
  "prepareBatchTx env r now db =
     (case findBatch (br_tenantId r) (br_requestId r) db of
        Some prior \<Rightarrow> if fb_payloadHash prior \<noteq> fe_batchHash env r then Inl TripRequestConflict else Inr db
      | None \<Rightarrow>
          let batch = newBatch env r now in
          if \<not> list_all (\<lambda>item. batch_item_ready r item db) (br_shipments r) then
            bind_res (parseBatchReceipt (batchReceiptOf batch I_REJECTED STAGE_REJECTED None [])) (\<lambda>response.
              createFulBatch (batch\<lparr> fb_status := I_REJECTED, fb_stage := STAGE_REJECTED,
                fb_response := Some response, fb_lastError := Some ''SHIPMENT_NOT_DISPATCHABLE'' \<rparr>) db)
          else
            bind_res (saveBatchIntents r
                (map (\<lambda>item. (item, map_option di_id (intentOf (bi_shipmentId item) db))) (br_shipments r)) now db)
              (createFulBatch batch))"

fun attachGrants :: "batch_decision \<Rightarrow> batch_item list \<Rightarrow> ful_db \<Rightarrow> ful_error + ful_db" where
  "attachGrants d [] db = Inr db"
| "attachGrants d (item # items) db =
     (if exists_row (\<lambda>e. di_id e = bi_dispatchRequestId item) (dispatchIntents db)
      then attachGrants d items (setIntents (\<lambda>e. di_id e = bi_dispatchRequestId item)
             (\<lambda>e. e\<lparr> di_grantReceipt := Some d \<rparr>) db)
      else Inl (FulPlainError ''P2025''))"

fun is_granted :: "batch_decision \<Rightarrow> bool" where
  "is_granted (GRANTED b gs) = True"
| "is_granted (REJECTED b why) = False"

definition setBatch ::
    "uuid \<Rightarrow> (shipment_dispatch_batch \<Rightarrow> shipment_dispatch_batch) \<Rightarrow> ful_db \<Rightarrow> ful_db" where
  "setBatch i f db = db\<lparr> fulBatches := update_where (\<lambda>b. fb_id b = i) f (fulBatches db) \<rparr>"

text \<open>The authority's receipt is saved before the shipments change.\<close>

definition saveDecisionTx :: "uuid \<Rightarrow> uuid \<Rightarrow> batch_request \<Rightarrow> batch_decision \<Rightarrow> ful_db \<Rightarrow> ful_error + ful_db" where
  "saveDecisionTx t i request decision db =
     (case findBatch t i db of
        None \<Rightarrow> Inl (FulPlainError ''P2025'')
      | Some current \<Rightarrow>
          if fb_status current \<noteq> I_PENDING then Inr db
          else
            let db1 = setBatch i (\<lambda>b. b\<lparr> fb_decision := Some decision,
                  fb_stage := (if is_granted decision then STAGE_GRANTED else STAGE_REJECTED) \<rparr>) db
            in if is_granted decision then attachGrants decision (br_shipments request) db1 else Inr db1)"

definition decidedAt :: "batch_decision \<Rightarrow> instant" where
  "decidedAt d = bb_decidedAt (decision_binding d)"

definition commitItem ::
    "uuid \<Rightarrow> uuid \<Rightarrow> batch_request \<Rightarrow> batch_decision \<Rightarrow> batch_item \<Rightarrow> instant \<Rightarrow> ful_db \<Rightarrow>
     ful_error + batch_receipt_item list \<times> ful_db" where
  "commitItem t requestId r decision item now db =
     (case decision of
        REJECTED b why \<Rightarrow>
          Inr ([], setIntents (\<lambda>d. di_id d = bi_dispatchRequestId item \<and> di_tenantId d = t \<and> di_status d = I_PENDING)
                 (\<lambda>d. d\<lparr> di_status := I_REJECTED, di_rejectionReason := Some why \<rparr>) db)
      | GRANTED b gs \<Rightarrow>
          (case List.find (the_shipment t (bi_shipmentId item)) (shipments db) of
             None \<Rightarrow> Inl (FulPlainError ''P2025'')
           | Some x \<Rightarrow>
               if sp_status x \<noteq> S_READY_TO_SHIP \<or> sp_assignedTripId x \<noteq> Some (br_tripId r) \<or>
                  (case intentOf (bi_shipmentId item) db of
                     None \<Rightarrow> True
                   | Some d \<Rightarrow> di_id d \<noteq> bi_dispatchRequestId item \<or> di_grantReceipt d = None)
               then Inl (BusinessRuleViolation ''BATCH_GRANTED_SHIPMENT_BINDING_CHANGED'')
               else
                 bind_res (updateShipment t (bi_shipmentId item) (dispatchRow (decidedAt decision)) now db) (\<lambda>(updated, db1).
                 bind_res (recordShipment updated (Some (sp_status x)) E_DISPATCHED
                     \<lparr> sx_tenantId = t, sx_actorId = Some (br_actorId r), sx_correlationId = requestId, sx_causationId = None \<rparr>
                     None (Some (bi_dispatchRequestId item)) now (completeIntent (bi_dispatchRequestId item) db1)) (\<lambda>db2.
                   Inr ([\<lparr> bt_shipmentId = bi_shipmentId item, bt_dispatchRequestId = bi_dispatchRequestId item,
                          bt_shipmentVersion = sp_version updated \<rparr>], db2)))))"

fun commitItems ::
    "uuid \<Rightarrow> uuid \<Rightarrow> batch_request \<Rightarrow> batch_decision \<Rightarrow> batch_item list \<Rightarrow> instant \<Rightarrow> ful_db \<Rightarrow>
     ful_error + batch_receipt_item list \<times> ful_db" where
  "commitItems t requestId r decision [] now db = Inr ([], db)"
| "commitItems t requestId r decision (item # items) now db =
     bind_res (commitItem t requestId r decision item now db) (\<lambda>(receipts, db1).
     bind_res (commitItems t requestId r decision items now db1) (\<lambda>(rest, db2). Inr (receipts @ rest, db2)))"

definition commitTx ::
    "uuid \<Rightarrow> uuid \<Rightarrow> batch_request \<Rightarrow> batch_decision \<Rightarrow> instant \<Rightarrow> ful_db \<Rightarrow> ful_error + ful_db" where
  "commitTx t i request decision now db =
     (case findBatch t i db of
        None \<Rightarrow> Inl (FulPlainError ''P2025'')
      | Some current \<Rightarrow>
          if fb_status current \<noteq> I_PENDING then Inr db
          else
            bind_res (commitItems t i request decision (br_shipments request) now db) (\<lambda>(receipts, db1).
              let status = (if is_granted decision then I_COMPLETED else I_REJECTED);
                  stage = (if is_granted decision then STAGE_COMPLETED else STAGE_REJECTED)
              in bind_res (parseBatchReceipt \<lparr> be_tenantId = t, be_requestId = i, be_tripId = br_tripId request,
                     be_payloadHash = fb_payloadHash current, be_status = status, be_stage = stage,
                     be_decision = Some decision, be_shipments = receipts \<rparr>) (\<lambda>response.
                   Inr (setBatch i (\<lambda>b. b\<lparr> fb_status := status, fb_stage := stage, fb_response := Some response \<rparr>) db1))))"

definition commitBatch :: "uuid \<Rightarrow> uuid \<Rightarrow> instant \<Rightarrow> ful_db \<Rightarrow> ful_error + ful_db" where
  "commitBatch t i now db =
     (case findBatch t i db of
        None \<Rightarrow> Inl (FulPlainError ''P2025'')
      | Some b \<Rightarrow>
          if fb_status b \<noteq> I_PENDING then Inr db
          else if \<not> batchRequestValid (fb_payload b) then Inl (FulPlainError ''ZodError'')
          else
            (case fb_decision b of
               None \<Rightarrow> Inl (FulPlainError ''ZodError'')
             | Some d \<Rightarrow>
                 if \<not> batchDecisionValid d then Inl (FulPlainError ''ZodError'')
                 else commitTx t i (fb_payload b) d now db))"

text \<open>The decision a pending batch goes on with: the saved one, or the answer of the order service.\<close>

definition batchAuthority ::
    "'ord order_api \<Rightarrow> shipment_dispatch_batch \<Rightarrow> instant \<Rightarrow> 'ord \<Rightarrow> (ful_error + batch_decision) \<times> 'ord" where
  "batchAuthority api b now s =
     (case fb_decision b of
        Some d \<Rightarrow> (if batchDecisionValid d then Inr d else Inl (FulPlainError ''ZodError''), s)
      | None \<Rightarrow> orderAuthorizeBatch api (fb_payload b) now s)"

definition completeBatch ::
    "'ord order_api \<Rightarrow> uuid \<Rightarrow> uuid \<Rightarrow> instant \<Rightarrow> ful_db \<times> 'ord \<Rightarrow> (ful_error + unit) \<times> ful_db \<times> 'ord" where
  "completeBatch api t i now = (\<lambda>(db, s).
     case findBatch t i db of
       None \<Rightarrow> (Inr (), db, s)
     | Some b \<Rightarrow>
         if fb_status b \<noteq> I_PENDING then (Inr (), db, s)
         else if \<not> batchRequestValid (fb_payload b) then (Inl (FulPlainError ''ZodError''), db, s)
         else
           (case batchAuthority api b now s of
              (Inl e, s') \<Rightarrow> (Inl e, db, s')
            | (Inr d, s') \<Rightarrow>
                if \<not> assertBatchDispatchGrantBinding (fb_payload b) d
                then (Inl (FulPlainError ''Batch grant does not match its request binding''), db, s')
                else
                  (case saveDecisionTx t i (fb_payload b) d db of
                     Inl e \<Rightarrow> (Inl e, db, s')
                   | Inr db1 \<Rightarrow>
                       (case commitBatch t i now db1 of
                          Inl e \<Rightarrow> (Inl e, db1, s')
                        | Inr db2 \<Rightarrow> (Inr (), db2, s')))))"

definition batchReceipt :: "uuid \<Rightarrow> uuid \<Rightarrow> ful_db \<Rightarrow> ful_error + batch_receipt" where
  "batchReceipt t i db =
     (case findBatch t i db of
        None \<Rightarrow> Inl (FulEntityNotFound i)
      | Some b \<Rightarrow>
          (case fb_response b of
             Some r \<Rightarrow> parseBatchReceipt r
           | None \<Rightarrow> parseBatchReceipt (batchReceiptOf b (fb_status b) (fb_stage b) (fb_decision b) [])))"

definition dispatchBatch ::
    "'ord order_api \<Rightarrow> ful_env \<Rightarrow> batch_request \<Rightarrow> instant \<Rightarrow> ful_db \<times> 'ord \<Rightarrow>
     (ful_error + batch_receipt) \<times> ful_db \<times> 'ord" where
  "dispatchBatch api env r now = (\<lambda>(db, s).
     if \<not> batchRequestValid r then (Inl (FulPlainError ''ZodError''), db, s)
     else
       (case prepareBatchTx env r now db of
          Inl e \<Rightarrow> (Inl e, db, s)
        | Inr db1 \<Rightarrow>
            (case completeBatch api (br_tenantId r) (br_requestId r) now (db1, s) of
               (Inl e, res) \<Rightarrow> (Inl e, res)
             | (Inr _, db2, s') \<Rightarrow> (batchReceipt (br_tenantId r) (br_requestId r) db2, db2, s'))))"

section \<open>Recovery\<close>

definition deferBatch :: "ful_env \<Rightarrow> shipment_dispatch_batch \<Rightarrow> instant \<Rightarrow> ful_db \<Rightarrow> ful_db" where
  "deferBatch env b now db =
     db\<lparr> fulBatches := update_where (\<lambda>c. fb_id c = fb_id b \<and> fb_status c = I_PENDING)
       (\<lambda>c. c\<lparr> fb_attemptCount := fb_attemptCount c + 1, fb_lastError := Some ''BATCH_RECOVERY_PENDING'',
               fb_nextAttemptAt := now + outboxRetryDelay (fb_attemptCount b + 1) (fe_retryBaseMs env) (fe_retryMaxMs env) \<rparr>)
       (fulBatches db) \<rparr>"

definition deferIntent :: "ful_env \<Rightarrow> dispatch_intent \<Rightarrow> instant \<Rightarrow> ful_db \<Rightarrow> ful_db" where
  "deferIntent env d now db =
     setIntents (\<lambda>e. di_id e = di_id d \<and> di_status e = I_PENDING)
       (\<lambda>e. e\<lparr> di_attemptCount := di_attemptCount e + 1,
               di_nextAttemptAt := now + outboxRetryDelay (di_attemptCount d + 1) (fe_retryBaseMs env) (fe_retryMaxMs env) \<rparr>) db"

fun recoverBatches ::
    "'ord order_api \<Rightarrow> ful_env \<Rightarrow> instant \<Rightarrow> shipment_dispatch_batch list \<Rightarrow> ful_db \<times> 'ord \<Rightarrow> ful_db \<times> 'ord" where
  "recoverBatches api env now [] st = st"
| "recoverBatches api env now (b # bs) st =
     (case completeBatch api (fb_tenantId b) (fb_id b) now st of
        (Inr _, st') \<Rightarrow> recoverBatches api env now bs st'
      | (Inl _, db', s') \<Rightarrow> recoverBatches api env now bs (deferBatch env b now db', s'))"

fun recoverIntents ::
    "'ord order_api \<Rightarrow> ful_env \<Rightarrow> instant \<Rightarrow> dispatch_intent list \<Rightarrow> ful_db \<times> 'ord \<Rightarrow> ful_db \<times> 'ord" where
  "recoverIntents api env now [] st = st"
| "recoverIntents api env now (d # ds) st =
     (case completeDispatch api (di_tenantId d) (di_shipmentId d) now st of
        (Inr _, st') \<Rightarrow> recoverIntents api env now ds st'
      | (Inl _, db', s') \<Rightarrow> recoverIntents api env now ds (deferIntent env d now db', s'))"

definition recover :: "'ord order_api \<Rightarrow> ful_env \<Rightarrow> instant \<Rightarrow> ful_db \<times> 'ord \<Rightarrow> ful_db \<times> 'ord" where
  "recover api env now = (\<lambda>(db, s).
     let batches = take (fe_batchSize env) (sort_key (\<lambda>b. (fb_nextAttemptAt b, fb_id b))
           (filter (\<lambda>b. fb_status b = I_PENDING \<and> fb_nextAttemptAt b \<le> now) (fulBatches db)));
         st1 = recoverBatches api env now batches (db, s);
         intents = take (fe_batchSize env) (sort_key (\<lambda>d. (di_nextAttemptAt d, di_id d))
           (filter (\<lambda>d. di_status d = I_PENDING \<and> di_batchId d = None \<and> di_nextAttemptAt d \<le> now)
             (dispatchIntents (fst st1))))
     in recoverIntents api env now intents st1)"

end
