(* ===== verification/Fulfillment_Claims.thy ===== *)
theory Fulfillment_Claims
  imports Fulfillment_Dispatch
begin

text \<open>
  The shipments a trip may take (\<^verbatim>\<open>shipment-pool.service.ts\<close>) and the claim a trip holds on one
  (\<^verbatim>\<open>shipment-trip-claim.service.ts\<close>): claim and release are idempotent by request id, through a receipt
  that keeps the request and the answer. \<^verbatim>\<open>stableJson\<close> writes the same text exactly for equal requests, so
  the comparison of two texts is the comparison of the requests. A fresh claim id is the next identifier of
  the database.
\<close>

section \<open>The snapshot\<close>

definition safeVersion :: "version \<Rightarrow> ful_error + version" where
  "safeVersion v = (if isSafeInteger v \<and> 1 \<le> v then Inr v
     else Inl (FulPlainError ''Shipment version exceeds safe integer range''))"

definition activeItems :: "uuid \<Rightarrow> ful_db \<Rightarrow> shipment_item list" where
  "activeItems i db = filter (\<lambda>l. it_shipmentId l = i \<and> it_deletedAt l = None) (shipmentItems db)"

definition snapshotItem :: "shipment_item \<Rightarrow> trip_snapshot_item" where
  "snapshotItem l = \<lparr> ni_orderLineId = it_orderLineId l, ni_productId = it_productId l,
     ni_skuSnapshot = it_skuSnapshot l, ni_productNameSnapshot = it_productNameSnapshot l,
     ni_unitSnapshot = it_unitSnapshot l, ni_quantity = toFixed 3 (it_quantity l),
     ni_weight = toFixed 3 (it_weight l), ni_volume = toFixed 6 (it_volume l) \<rparr>"

definition tripSnapshot :: "shipment \<Rightarrow> shipment_item list \<Rightarrow> ful_error + trip_snapshot" where
  "tripSnapshot x items =
     bind_res (safeVersion (sp_version x)) (\<lambda>v.
     bind_res (safeVersion (sp_confirmedOrderVersion x)) (\<lambda>ov.
       Inr \<lparr> ns_tenantId = sp_tenantId x, ns_shipmentId = sp_id x, ns_shipmentNumber = sp_shipmentNumber x,
             ns_orderId = sp_orderId x, ns_warehouseId = sp_warehouseId x, ns_shipmentVersion = v, ns_orderVersion = ov,
             ns_deliveryAddressSnapshot = sp_deliveryAddressSnapshot x,
             ns_totalWeight = toFixed 3 (sp_totalWeight x), ns_totalVolume = toFixed 6 (sp_totalVolume x),
             ns_items = map snapshotItem (sort_key it_id items) \<rparr>))"

definition addressSchema :: "address_snapshot \<Rightarrow> bool" where
  "addressSchema a \<longleftrightarrow> transportVersion (as_addressVersion a) \<and> as_addressType a = ''SHIPPING'' \<and>
     trim (as_recipientName a) \<noteq> [] \<and> trim (as_addressLine a) \<noteq> [] \<and> trim (as_province a) \<noteq> []"

definition assertSnapshot :: "shipment \<Rightarrow> shipment_item list \<Rightarrow> ful_error + unit" where
  "assertSnapshot x items =
     (if \<not> addressSchema (sp_deliveryAddressSnapshot x) \<or>
         as_addressId (sp_deliveryAddressSnapshot x) \<noteq> sp_deliveryAddressId x \<or> items = [] \<or>
         list_ex (\<lambda>l. it_quantity l \<le> 0 \<or> it_weight l < 0 \<or> it_volume l < 0) items
      then Inl SnapshotInvalid else Inr ())"

section \<open>Claims\<close>

definition findReceipt :: "uuid \<Rightarrow> uuid \<Rightarrow> ful_db \<Rightarrow> trip_receipt option" where
  "findReceipt t requestId db = List.find (\<lambda>r. tr_tenantId r = t \<and> tr_requestId r = requestId) (tripReceipts db)"

definition createTripReceipt :: "trip_receipt \<Rightarrow> ful_db \<Rightarrow> ful_error + ful_db" where
  "createTripReceipt r db =
     (if findReceipt (tr_tenantId r) (tr_requestId r) db \<noteq> None then Inl FulUniqueViolation
      else Inr (db\<lparr> tripReceipts := tripReceipts db @ [r] \<rparr>))"

definition claimRow :: "uuid \<Rightarrow> uuid \<Rightarrow> shipment \<Rightarrow> shipment" where
  "claimRow trip claimId x = x\<lparr> sp_assignedTripId := Some trip, sp_tripClaimId := Some claimId, sp_version := sp_version x + 1 \<rparr>"

definition claimReceipt :: "claim_request \<Rightarrow> uuid \<Rightarrow> version \<Rightarrow> instant \<Rightarrow> ful_error + claim_receipt" where
  "claimReceipt p claimId v now =
     bind_res (safeVersion v) (\<lambda>v'.
       let receipt = \<lparr> ct_contractVersion = cq_contractVersion p, ct_tenantId = cq_tenantId p,
             ct_requestId = cq_requestId p, ct_tripId = cq_tripId p, ct_shipmentId = cq_shipmentId p,
             ct_claimId = claimId, ct_tripVersion = cq_expectedTripVersion p, ct_shipmentVersion = v',
             ct_claimedAt = now \<rparr>
       in if \<not> claimReceiptValid receipt then Inl (FulPlainError ''ZodError'')
          else if \<not> assertShipmentClaimReceiptBinding p receipt
          then Inl (FulPlainError ''Shipment claim receipt does not match its request binding'')
          else Inr receipt)"

definition claimable :: "shipment \<Rightarrow> ful_db \<Rightarrow> bool" where
  "claimable x db \<longleftrightarrow> \<not> (sp_status x \<noteq> S_READY_TO_SHIP \<or> sp_assignedTripId x \<noteq> None \<or> sp_tripClaimId x \<noteq> None \<or>
     intent_blocks (sp_id x) db)"

definition claimTx :: "claim_request \<Rightarrow> instant \<Rightarrow> ful_db \<Rightarrow> ful_error + trip_response \<times> ful_db" where
  "claimTx p now db =
     (case findReceipt (cq_tenantId p) (cq_requestId p) db of
        Some prior \<Rightarrow>
          if tr_operation prior \<noteq> CLAIM \<or> tr_requestPayload prior \<noteq> ClaimRequest p then Inl TripRequestConflict
          else Inr (tr_responsePayload prior, db)
      | None \<Rightarrow>
          bind_res (loadShipment (cq_tenantId p) (cq_shipmentId p) db) (\<lambda>current.
          bind_res (assertShipmentVersion (sp_version current) (cq_expectedShipmentVersion p)) (\<lambda>_.
            if \<not> claimable current db then Inl TripClaimConflict
            else
              let items = activeItems (sp_id current) db; claimId = ful_next db in
              bind_res (assertSnapshot current items) (\<lambda>_.
              bind_res (updateShipment (cq_tenantId p) (sp_id current) (claimRow (cq_tripId p) claimId) now db) (\<lambda>(updated, db1).
              bind_res (claimReceipt p claimId (sp_version updated) now) (\<lambda>receipt.
              bind_res (tripSnapshot updated items) (\<lambda>snap.
              bind_res (createTripReceipt \<lparr> tr_id = ful_next db + 1, tr_tenantId = cq_tenantId p, tr_requestId = cq_requestId p,
                  tr_shipmentId = cq_shipmentId p, tr_tripId = cq_tripId p, tr_claimId = claimId, tr_actorId = cq_actorId p,
                  tr_operation = CLAIM, tr_requestPayload = ClaimRequest p,
                  tr_responsePayload = ClaimResponse receipt snap, tr_createdAt = now \<rparr>
                  (db1\<lparr> ful_next := ful_next db + 2 \<rparr>)) (\<lambda>db2.
                Inr (ClaimResponse receipt snap, db2)))))))))"

text \<open>A violated unique index, from a concurrent use of the same request id, is a request conflict.\<close>

definition requestConflict :: "ful_error + 'a \<Rightarrow> ful_error + 'a" where
  "requestConflict r = (case r of Inl e \<Rightarrow> Inl (if e = FulUniqueViolation then TripRequestConflict else e) | Inr x \<Rightarrow> Inr x)"

definition claimShipment :: "claim_request \<Rightarrow> instant \<Rightarrow> ful_db \<Rightarrow> ful_error + trip_response \<times> ful_db" where
  "claimShipment p now db =
     (if \<not> claimRequestValid p then Inl (FulPlainError ''ZodError'') else requestConflict (claimTx p now db))"

section \<open>Releases\<close>

definition releaseRow :: "shipment \<Rightarrow> shipment" where
  "releaseRow x = x\<lparr> sp_assignedTripId := None, sp_tripClaimId := None, sp_version := sp_version x + 1 \<rparr>"

definition findClaim :: "uuid \<Rightarrow> uuid \<Rightarrow> ful_db \<Rightarrow> trip_receipt option" where
  "findClaim t claimId db =
     List.find (\<lambda>r. tr_tenantId r = t \<and> tr_claimId r = claimId \<and> tr_operation r = CLAIM) (tripReceipts db)"

text \<open>The claim a release names must be the claim of this trip, shipment and actor.\<close>

definition originalMatches :: "trip_receipt \<Rightarrow> release_request \<Rightarrow> ful_error + bool" where
  "originalMatches original p =
     (case (tr_requestPayload original, tr_responsePayload original) of
        (ClaimRequest q, ClaimResponse receipt snap) \<Rightarrow>
          if \<not> claimRequestValid q then Inl (FulPlainError ''ZodError'')
          else Inr (\<not> (tr_shipmentId original \<noteq> lr_shipmentId p \<or> tr_tripId original \<noteq> lr_tripId p \<or>
                 tr_actorId original \<noteq> lr_actorId p \<or> cq_tenantId q \<noteq> lr_tenantId p \<or> cq_tripId q \<noteq> lr_tripId p \<or>
                 cq_shipmentId q \<noteq> lr_shipmentId p \<or> cq_actorId q \<noteq> lr_actorId p \<or> ct_claimId receipt \<noteq> lr_claimId p))
      | _ \<Rightarrow> Inl (FulPlainError ''ZodError''))"

definition releasable :: "shipment \<Rightarrow> release_request \<Rightarrow> ful_db \<Rightarrow> bool" where
  "releasable x p db \<longleftrightarrow> \<not> (sp_tripClaimId x \<noteq> Some (lr_claimId p) \<or> sp_assignedTripId x \<noteq> Some (lr_tripId p) \<or>
     intent_blocks (sp_id x) db \<or> sp_dispatchIssuedAt x \<noteq> None \<or> sp_status x \<notin> set [S_READY_TO_SHIP, S_CANCELED])"

definition releaseReceiptOf :: "release_request \<Rightarrow> version \<Rightarrow> instant \<Rightarrow> ful_error + release_receipt" where
  "releaseReceiptOf p v now =
     bind_res (safeVersion v) (\<lambda>v'.
       let receipt = \<lparr> lt_contractVersion = lr_contractVersion p, lt_tenantId = lr_tenantId p,
             lt_requestId = lr_requestId p, lt_claimId = lr_claimId p, lt_tripId = lr_tripId p,
             lt_shipmentId = lr_shipmentId p, lt_tripVersion = lr_expectedTripVersion p, lt_shipmentVersion = v',
             lt_releasedAt = now \<rparr>
       in if \<not> releaseReceiptValid receipt then Inl (FulPlainError ''ZodError'')
          else if \<not> assertShipmentReleaseReceiptBinding p receipt
          then Inl (FulPlainError ''Shipment release receipt does not match its request binding'')
          else Inr receipt)"

definition releaseTx :: "release_request \<Rightarrow> instant \<Rightarrow> ful_db \<Rightarrow> ful_error + trip_response \<times> ful_db" where
  "releaseTx p now db =
     (case findReceipt (lr_tenantId p) (lr_requestId p) db of
        Some prior \<Rightarrow>
          if tr_operation prior \<noteq> RELEASE \<or> tr_requestPayload prior \<noteq> ReleaseRequest p then Inl TripRequestConflict
          else Inr (tr_responsePayload prior, db)
      | None \<Rightarrow>
          bind_res (loadShipment (lr_tenantId p) (lr_shipmentId p) db) (\<lambda>current.
            case findClaim (lr_tenantId p) (lr_claimId p) db of
              None \<Rightarrow> Inl TripClaimConflict
            | Some original \<Rightarrow>
                bind_res (originalMatches original p) (\<lambda>matches.
                  if \<not> matches then Inl TripClaimConflict
                  else
                    bind_res (assertShipmentVersion (sp_version current) (lr_expectedShipmentVersion p)) (\<lambda>_.
                      if \<not> releasable current p db then Inl TripClaimConflict
                      else
                        bind_res (updateShipment (lr_tenantId p) (sp_id current) releaseRow now db) (\<lambda>(updated, db1).
                        bind_res (releaseReceiptOf p (sp_version updated) now) (\<lambda>receipt.
                        bind_res (createTripReceipt \<lparr> tr_id = ful_next db, tr_tenantId = lr_tenantId p,
                            tr_requestId = lr_requestId p, tr_shipmentId = lr_shipmentId p, tr_tripId = lr_tripId p,
                            tr_claimId = lr_claimId p, tr_actorId = lr_actorId p, tr_operation = RELEASE,
                            tr_requestPayload = ReleaseRequest p, tr_responsePayload = ReleaseResponse receipt,
                            tr_createdAt = now \<rparr> (db1\<lparr> ful_next := ful_next db + 1 \<rparr>)) (\<lambda>db2.
                          Inr (ReleaseResponse receipt, db2))))))))"

definition releaseShipment :: "release_request \<Rightarrow> instant \<Rightarrow> ful_db \<Rightarrow> ful_error + trip_response \<times> ful_db" where
  "releaseShipment request now db =
     (case parseReleaseRequest request of
        None \<Rightarrow> Inl (FulPlainError ''ZodError'')
      | Some p \<Rightarrow> requestConflict (releaseTx p now db))"

section \<open>Reading claims\<close>

definition tripReceipt :: "uuid \<Rightarrow> uuid \<Rightarrow> ful_db \<Rightarrow> ful_error + trip_response" where
  "tripReceipt t requestId db =
     (case findReceipt t requestId db of None \<Rightarrow> Inl ShipmentMissing | Some r \<Rightarrow> Inr (tr_responsePayload r))"

record claim_status =
  cz_tenantId :: uuid
  cz_claimId :: uuid
  cz_tripId :: uuid
  cz_shipmentId :: uuid
  cz_active :: bool
  cz_shipmentStatus :: shipment_status
  cz_shipmentVersion :: version
  cz_response :: trip_response
  cz_release :: "trip_response option"

definition lastRelease :: "uuid \<Rightarrow> uuid \<Rightarrow> ful_db \<Rightarrow> trip_receipt option" where
  "lastRelease shipmentId claimId db =
     (case rev (sort_key tr_createdAt
          (filter (\<lambda>r. tr_shipmentId r = shipmentId \<and> tr_operation r = RELEASE \<and> tr_claimId r = claimId) (tripReceipts db))) of
        [] \<Rightarrow> None | r # _ \<Rightarrow> Some r)"

definition claimStatus :: "uuid \<Rightarrow> uuid \<Rightarrow> ful_db \<Rightarrow> ful_error + claim_status" where
  "claimStatus t claimId db =
     (case findClaim t claimId db of
        None \<Rightarrow> Inl ShipmentMissing
      | Some c \<Rightarrow>
          (case List.find (\<lambda>x. sp_id x = tr_shipmentId c) (shipments db) of
             None \<Rightarrow> Inl (FulPlainError ''P2025'')
           | Some x \<Rightarrow>
               let release = lastRelease (tr_shipmentId c) claimId db;
                   active = (sp_tripClaimId x = Some claimId \<and> sp_assignedTripId x = Some (tr_tripId c))
               in if \<not> active \<and> release = None then Inl TripClaimConflict
                  else
                    bind_res (safeVersion (sp_version x)) (\<lambda>v.
                      Inr \<lparr> cz_tenantId = t, cz_claimId = claimId, cz_tripId = tr_tripId c,
                            cz_shipmentId = tr_shipmentId c, cz_active = active, cz_shipmentStatus = sp_status x,
                            cz_shipmentVersion = v, cz_response = tr_responsePayload c,
                            cz_release = map_option tr_responsePayload release \<rparr>)))"

section \<open>The pool\<close>

record pool_query =
  pq_contractVersion :: nat
  pq_warehouseId :: uuid
  pq_page :: nat
  pq_pageSize :: nat

record pool_item =
  pi_shipmentId :: uuid
  pi_shipmentNumber :: string
  pi_orderId :: uuid
  pi_warehouseId :: uuid
  pi_shipmentVersion :: version
  pi_orderVersion :: version
  pi_totalWeight :: int
  pi_totalVolume :: int

record pool_page =
  pp_items :: "pool_item list"
  pp_total :: nat
  pp_page :: nat
  pp_pageSize :: nat

definition TRANSPORT_MAX_PAGE_SIZE :: nat where "TRANSPORT_MAX_PAGE_SIZE = 100"

definition TRANSPORT_MAX_PAGE_NUMBER :: nat where "TRANSPORT_MAX_PAGE_NUMBER = 2147483647 div TRANSPORT_MAX_PAGE_SIZE"

definition poolQueryValid :: "pool_query \<Rightarrow> bool" where
  "poolQueryValid q \<longleftrightarrow> pq_contractVersion q = TRANSPORT_CONTRACT_VERSION \<and>
     transportVersion (pq_page q) \<and> pq_page q \<le> TRANSPORT_MAX_PAGE_NUMBER \<and>
     transportVersion (pq_pageSize q) \<and> pq_pageSize q \<le> TRANSPORT_MAX_PAGE_SIZE"

definition pool_where :: "uuid \<Rightarrow> uuid \<Rightarrow> uuid list \<Rightarrow> ful_db \<Rightarrow> shipment \<Rightarrow> bool" where
  "pool_where t warehouse excluded db x \<longleftrightarrow> sp_tenantId x = t \<and> sp_warehouseId x = warehouse \<and>
     sp_status x = S_READY_TO_SHIP \<and> sp_deletedAt x = None \<and> sp_assignedTripId x = None \<and>
     sp_id x \<notin> set excluded \<and> \<not> intent_pending (sp_id x) db"

fun poolItems :: "shipment list \<Rightarrow> ful_error + pool_item list" where
  "poolItems [] = Inr []"
| "poolItems (x # xs) =
     bind_res (safeVersion (sp_version x)) (\<lambda>v.
     bind_res (safeVersion (sp_confirmedOrderVersion x)) (\<lambda>ov.
     bind_res (poolItems xs) (\<lambda>rest.
       Inr (\<lparr> pi_shipmentId = sp_id x, pi_shipmentNumber = sp_shipmentNumber x, pi_orderId = sp_orderId x,
              pi_warehouseId = sp_warehouseId x, pi_shipmentVersion = v, pi_orderVersion = ov,
              pi_totalWeight = sp_totalWeight x, pi_totalVolume = sp_totalVolume x \<rparr> # rest))))"

definition poolList :: "uuid \<Rightarrow> pool_query \<Rightarrow> uuid list \<Rightarrow> ful_db \<Rightarrow> ful_error + pool_page" where
  "poolList t q excluded db =
     (if \<not> poolQueryValid q then Inl (FulBadRequest ''Invalid shipment pool query'')
      else
        let rows = filter (pool_where t (pq_warehouseId q) excluded db) (shipments db);
            sorted = rev (sort_key (\<lambda>x. (sp_createdAt x, sp_id x)) rows);
            window = take (pq_pageSize q) (drop ((pq_page q - 1) * pq_pageSize q) sorted)
        in bind_res (poolItems window) (\<lambda>items.
             Inr \<lparr> pp_items = items, pp_total = length rows, pp_page = pq_page q, pp_pageSize = pq_pageSize q \<rparr>))"

end
