(* ===== verification/Fulfillment_Delivery.thy ===== *)
theory Fulfillment_Delivery
  imports Fulfillment_Claims
begin

text \<open>
  The results transport reports for the stops of a trip (\<^verbatim>\<open>shipment-delivery-events.service.ts\<close>): a result
  is applied to its shipment, deferred until the dispatch has arrived here, recognised as a duplicate, or
  parked as a conflict; deferred results are retried with a growing delay. The semantic key
  \<^verbatim>\<open>tripId:stopId\<close> is the pair of its identifiers.
\<close>

definition DELIVERY_RESULTS_CONSUMER :: string where
  "DELIVERY_RESULTS_CONSUMER = ''fulfillment-delivery-results''"

definition DELIVERY_RETRY_BASE_MS :: nat where "DELIVERY_RETRY_BASE_MS = 1000"

definition DELIVERY_RETRY_MAX_MS :: nat where "DELIVERY_RETRY_MAX_MS = 60000"

definition DELIVERY_RETRY_BATCH_SIZE :: nat where "DELIVERY_RETRY_BATCH_SIZE = 25"

fun outcome_status :: "delivery_outcome \<Rightarrow> shipment_status" where
  "outcome_status OUTCOME_DELIVERED = S_DELIVERED"
| "outcome_status OUTCOME_FAILED = S_FAILED"

fun outcome_event :: "delivery_outcome \<Rightarrow> shipment_event" where
  "outcome_event OUTCOME_DELIVERED = E_DELIVERED"
| "outcome_event OUTCOME_FAILED = E_FAILED"

definition parseDeliveryResult :: "delivery_event \<Rightarrow> ful_error + delivery_payload" where
  "parseDeliveryResult e =
     (case parseDeliveryEvent e of
        None \<Rightarrow> Inl (FulPlainError ''ZodError'')
      | Some p \<Rightarrow>
          if dv_occurredAt p \<noteq> ev_occurredAt e then Inl (FulPlainError ''Delivery result occurrence time mismatch'')
          else Inr p)"

definition semanticResult :: "delivery_event \<Rightarrow> uuid \<times> string \<times> uuid option \<times> string \<times> delivery_payload option" where
  "semanticResult e = (ev_tenantId e, ev_producer e, ev_actorId e, ev_eventType e, ev_payload e)"

definition semanticHash :: "ful_env \<Rightarrow> delivery_event \<Rightarrow> string" where
  "semanticHash env e = fe_semanticHash env (semanticResult e)"

section \<open>Receipts\<close>

record receipt_details =
  rx_outcome :: string
  rx_errorCode :: "string option"
  rx_attemptCount :: "nat option"
  rx_nextAttemptAt :: "instant option"

definition deliveryRow ::
    "ful_env \<Rightarrow> delivery_event \<Rightarrow> uuid \<times> uuid \<Rightarrow> ful_inbox_row option \<Rightarrow> receipt_details \<Rightarrow> instant \<Rightarrow> uuid \<Rightarrow> ful_inbox_row" where
  "deliveryRow env e key receipt det now i =
     \<lparr> fi_id = i, fi_tenantId = ev_tenantId e, fi_eventId = ev_eventId e,
       fi_consumerName = DELIVERY_RESULTS_CONSUMER, fi_eventType = ev_eventType e,
       fi_aggregateId = Some (ev_aggregateId e), fi_aggregateVersion = Some (ev_aggregateVersion e),
       fi_eventPayload = Some e, fi_payloadHash = Some (fe_eventHash env e), fi_semanticKey = Some key,
       fi_attemptCount = (case rx_attemptCount det of Some n \<Rightarrow> n
         | None \<Rightarrow> (case receipt of Some r \<Rightarrow> fi_attemptCount r | None \<Rightarrow> 0)),
       fi_nextAttemptAt = (case rx_nextAttemptAt det of Some n \<Rightarrow> n | None \<Rightarrow> now),
       fi_lastError = rx_errorCode det, fi_processedAt = now, fi_outcome = rx_outcome det,
       fi_errorCode = rx_errorCode det \<rparr>"

definition saveReceipt ::
    "ful_env \<Rightarrow> delivery_event \<Rightarrow> uuid \<times> uuid \<Rightarrow> ful_inbox_row option \<Rightarrow> receipt_details \<Rightarrow> instant \<Rightarrow> ful_db \<Rightarrow>
     ful_error + ful_db" where
  "saveReceipt env e key receipt det now db =
     (case receipt of
        Some r \<Rightarrow>
          Inr (db\<lparr> ful_inbox := update_where (\<lambda>x. fi_id x = fi_id r)
                  (\<lambda>x. deliveryRow env e key receipt det now (fi_id x)) (ful_inbox db) \<rparr>)
      | None \<Rightarrow> ful_inbox_create (deliveryRow env e key None det now 0) db)"

definition simpleDetails :: "string \<Rightarrow> string option \<Rightarrow> receipt_details" where
  "simpleDetails outcome err = \<lparr> rx_outcome = outcome, rx_errorCode = err, rx_attemptCount = None, rx_nextAttemptAt = None \<rparr>"

definition deferDelay :: "nat \<Rightarrow> nat" where
  "deferDelay attemptCount = min DELIVERY_RETRY_MAX_MS (DELIVERY_RETRY_BASE_MS * 2 ^ min (attemptCount - 1) 10)"

definition deferResult ::
    "ful_env \<Rightarrow> delivery_event \<Rightarrow> uuid \<times> uuid \<Rightarrow> ful_inbox_row option \<Rightarrow> string \<Rightarrow> instant \<Rightarrow> ful_db \<Rightarrow> ful_error + ful_db" where
  "deferResult env e key receipt err now db =
     (let attemptCount = (case receipt of Some r \<Rightarrow> fi_attemptCount r | None \<Rightarrow> 0) + 1
      in saveReceipt env e key receipt \<lparr> rx_outcome = ''DEFERRED'', rx_errorCode = Some err,
           rx_attemptCount = Some attemptCount, rx_nextAttemptAt = Some (now + deferDelay attemptCount) \<rparr> now db)"

section \<open>Applying a result\<close>

definition deliverRow :: "delivery_payload \<Rightarrow> shipment \<Rightarrow> shipment" where
  "deliverRow p x =
     (let x1 = x\<lparr> sp_status := outcome_status (dv_outcome p), sp_version := sp_version x + 1 \<rparr>
      in case dv_outcome p of
           OUTCOME_DELIVERED \<Rightarrow> x1\<lparr> sp_deliveredAt := Some (dv_occurredAt p) \<rparr>
         | OUTCOME_FAILED \<Rightarrow> x1\<lparr> sp_failedAt := Some (dv_occurredAt p), sp_failureReason := dv_reason p \<rparr>)"

definition semanticReceipt :: "delivery_event \<Rightarrow> uuid \<times> uuid \<Rightarrow> ful_db \<Rightarrow> ful_inbox_row option" where
  "semanticReceipt e key db =
     List.find (\<lambda>r. fi_tenantId r = ev_tenantId e \<and> fi_consumerName r = DELIVERY_RESULTS_CONSUMER \<and>
       fi_semanticKey r = Some key \<and> fi_eventId r \<noteq> ev_eventId e \<and>
       fi_outcome r \<in> set [''APPLIED'', ''DUPLICATE'', ''DEFERRED'']) (ful_inbox db)"

definition sameResult :: "ful_env \<Rightarrow> ful_inbox_row \<Rightarrow> delivery_event \<Rightarrow> bool" where
  "sameResult env r e = (case fi_eventPayload r of None \<Rightarrow> False | Some old \<Rightarrow> semanticHash env old = semanticHash env e)"

definition parkConflict :: "ful_inbox_row \<Rightarrow> instant \<Rightarrow> ful_db \<Rightarrow> ful_db" where
  "parkConflict r now db =
     db\<lparr> ful_inbox := update_where (\<lambda>x. fi_id x = fi_id r)
       (\<lambda>x. x\<lparr> fi_outcome := ''CONFLICT'', fi_errorCode := Some ''CONFLICTING_TERMINAL_RESULT'',
               fi_lastError := Some ''CONFLICTING_TERMINAL_RESULT'', fi_processedAt := now \<rparr>) (ful_inbox db) \<rparr>"

text \<open>
  The part after the look for another result of the same stop. The transaction takes no lock on the shipment:
  it decides on the row as it stood in \<open>db0\<close>, the database of its look, and updates the row of now by its id.
\<close>

definition applyResult ::
    "ful_env \<Rightarrow> delivery_event \<Rightarrow> delivery_payload \<Rightarrow> uuid \<times> uuid \<Rightarrow> ful_inbox_row option \<Rightarrow> instant \<Rightarrow> ful_db \<Rightarrow> ful_db \<Rightarrow>
     ful_error + ful_db" where
  "applyResult env e p key receipt now db0 db =
     (case findShipment (ev_tenantId e) (dv_shipmentId p) db0 of
        None \<Rightarrow> deferResult env e key receipt ''SHIPMENT_NOT_YET_PROJECTED'' now db
      | Some x \<Rightarrow>
          if sp_assignedTripId x \<noteq> Some (dv_tripId p)
          then saveReceipt env e key receipt (simpleDetails ''CONFLICT'' (Some ''TRIP_SHIPMENT_BINDING_MISMATCH'')) now db
          else if sp_status x \<noteq> S_DISPATCHED then
            (if sp_status x \<notin> set [S_DELIVERED, S_FAILED, S_CANCELED]
             then deferResult env e key receipt ''SHIPMENT_DISPATCH_NOT_YET_PROJECTED'' now db
             else saveReceipt env e key receipt (simpleDetails ''CONFLICT'' (Some ''SHIPMENT_ALREADY_TERMINAL'')) now db)
          else
            bind_res (assertShipmentTransition (sp_status x) (outcome_status (dv_outcome p))) (\<lambda>_.
            bind_res (updateShipment (ev_tenantId e) (sp_id x) (deliverRow p) now db) (\<lambda>(updated, db1).
            bind_res (recordShipment updated (Some (sp_status x)) (outcome_event (dv_outcome p)) (eventContext e)
                        (dv_reason p) None now db1) (\<lambda>db2.
              saveReceipt env e key receipt (simpleDetails ''APPLIED'' None) now db2))))"

text \<open>
  The look for another result of the same stop: an equal one already applied makes this a duplicate, a
  different one is a conflict, which parks a deferred result too.
\<close>

definition settleResult ::
    "ful_env \<Rightarrow> instant \<Rightarrow> delivery_event \<Rightarrow> delivery_payload \<Rightarrow> ful_inbox_row option \<Rightarrow> ful_db \<Rightarrow> ful_db \<Rightarrow> ful_error + ful_db" where
  "settleResult env now e p receipt db0 db =
     (let key = (dv_tripId p, dv_stopId p) in
      case semanticReceipt e key db of
        None \<Rightarrow> applyResult env e p key receipt now db0 db
      | Some other \<Rightarrow>
          if sameResult env other e then
            (if fi_outcome other \<in> set [''APPLIED'', ''DUPLICATE'']
             then saveReceipt env e key receipt (simpleDetails ''DUPLICATE'' None) now db
             else applyResult env e p key receipt now db0 db)
          else saveReceipt env e key receipt (simpleDetails ''CONFLICT'' (Some ''CONFLICTING_TERMINAL_RESULT'')) now
                 (if fi_outcome other = ''DEFERRED'' then parkConflict other now db else db))"

definition persistOrApply ::
    "ful_env \<Rightarrow> instant \<Rightarrow> delivery_event \<Rightarrow> delivery_payload \<Rightarrow> ful_db \<Rightarrow> ful_db \<Rightarrow> ful_error + ful_db" where
  "persistOrApply env now e p db0 db =
     (case ful_inbox_find DELIVERY_RESULTS_CONSUMER (ev_eventId e) db of
        None \<Rightarrow> settleResult env now e p None db0 db
      | Some r \<Rightarrow>
          if fi_payloadHash r \<noteq> Some (fe_eventHash env e)
          then Inl (FulPlainError ''Delivery result event id payload conflict'')
          else if fi_outcome r \<noteq> ''DEFERRED'' then Inr db
          else settleResult env now e p (Some r) db0 db)"

definition handleDeliveryEvent :: "ful_env \<Rightarrow> instant \<Rightarrow> delivery_event \<Rightarrow> ful_db \<Rightarrow> ful_db \<Rightarrow> ful_error + ful_db" where
  "handleDeliveryEvent env now e db0 db =
     (if ev_eventType e \<noteq> ''DeliveryCompleted'' \<and> ev_eventType e \<noteq> ''DeliveryFailed'' then Inr db
      else bind_res (parseDeliveryResult e) (\<lambda>p. persistOrApply env now e p db0 db))"

section \<open>Retrying deferred results\<close>

text \<open>An error is logged and the loop goes on.\<close>

fun retryRows :: "ful_env \<Rightarrow> instant \<Rightarrow> ful_inbox_row list \<Rightarrow> ful_db \<Rightarrow> ful_db" where
  "retryRows env now [] db = db"
| "retryRows env now (r # rs) db =
     retryRows env now rs
       (case fi_eventPayload r of
          None \<Rightarrow> db
        | Some e \<Rightarrow>
            (case bind_res (parseDeliveryResult e) (\<lambda>p. persistOrApply env now e p db db) of
               Inl _ \<Rightarrow> db | Inr db' \<Rightarrow> db'))"

definition dueResults :: "instant \<Rightarrow> ful_db \<Rightarrow> ful_inbox_row list" where
  "dueResults now db = take DELIVERY_RETRY_BATCH_SIZE (sort_key fi_nextAttemptAt
     (filter (\<lambda>r. fi_consumerName r = DELIVERY_RESULTS_CONSUMER \<and> fi_outcome r = ''DEFERRED'' \<and>
        fi_nextAttemptAt r \<le> now \<and> fi_eventPayload r \<noteq> None) (ful_inbox db)))"

definition retryDeferred :: "ful_env \<Rightarrow> instant \<Rightarrow> ful_db \<Rightarrow> ful_db" where
  "retryDeferred env now db = retryRows env now (dueResults now db) db"

end
