(* ===== verification/Fulfillment_Invariant.thy ===== *)
theory Fulfillment_Invariant
  imports Fulfillment_Delivery
begin

text \<open>
  The invariant of the fulfilment database and its preservation by every transaction. It has four parts:
  the shipments with their history, the dispatch intents with their shipments, the dispatch batches with
  the intents that lock their shipments, and the trip claims with their receipts. While a batch is being
  carried out its own part is suspended: \<open>ful_but B\<close> is the invariant without the batches \<open>B\<close>.

  Every transaction is a composition of a few changes (one shipment row, one intent row, one batch row), each
  with one lemma.
\<close>

section \<open>The invariant\<close>

definition has_left :: "shipment_status \<Rightarrow> bool" where
  "has_left s \<longleftrightarrow> s \<in> {S_DISPATCHED, S_DELIVERED, S_FAILED}"

definition row_ok :: "shipment \<Rightarrow> bool" where
  "row_ok x \<longleftrightarrow> sp_deletedAt x = None \<and> 0 < sp_version x \<and> (sp_dispatchIssuedAt x \<noteq> None \<longleftrightarrow> has_left (sp_status x)) \<and>
     (sp_assignedTripId x = None \<longleftrightarrow> sp_tripClaimId x = None)"

definition rows_ok :: "ful_db \<Rightarrow> bool" where
  "rows_ok db \<longleftrightarrow> distinct (map sp_id (shipments db)) \<and>
     distinct (map (\<lambda>x. (sp_tenantId x, sp_orderId x)) (shipments db)) \<and>
     (\<forall>x\<in>set (shipments db). row_ok x \<and> sp_id x < ful_next db) \<and>
     (\<forall>h\<in>set (shipmentHistory db). hs_shipmentId h < ful_next db \<and>
        (\<forall>x\<in>set (shipments db). sp_id x = hs_shipmentId h \<longrightarrow> hs_shipmentVersion h \<le> sp_version x))"

definition intent_ok :: "dispatch_intent \<Rightarrow> shipment \<Rightarrow> bool" where
  "intent_ok d x \<longleftrightarrow> sp_id x = di_shipmentId d \<and> sp_tenantId x = di_tenantId d \<and>
     (di_status d = I_PENDING \<longrightarrow> sp_status x = S_READY_TO_SHIP) \<and>
     (di_status d = I_COMPLETED \<longrightarrow> has_left (sp_status x))"

definition intents_ok :: "ful_db \<Rightarrow> bool" where
  "intents_ok db \<longleftrightarrow> distinct (map di_id (dispatchIntents db)) \<and> distinct (map di_shipmentId (dispatchIntents db)) \<and>
     (\<forall>d\<in>set (dispatchIntents db). \<exists>x\<in>set (shipments db). intent_ok d x) \<and>
     (\<forall>x\<in>set (shipments db). has_left (sp_status x) \<longrightarrow>
        (\<exists>d\<in>set (dispatchIntents db). di_shipmentId d = sp_id x \<and> di_status d = I_COMPLETED))"

text \<open>How a pending batch holds one of its shipments.\<close>

definition intent_locks :: "shipment_dispatch_batch \<Rightarrow> batch_item \<Rightarrow> dispatch_intent \<Rightarrow> bool" where
  "intent_locks b item d \<longleftrightarrow> di_id d = bi_dispatchRequestId item \<and> di_shipmentId d = bi_shipmentId item \<and>
     di_tenantId d = fb_tenantId b \<and> di_status d = I_PENDING \<and> di_batchId d = Some (fb_id b) \<and>
     (\<forall>dec. fb_decision b = Some dec \<and> is_granted dec \<longrightarrow> di_grantReceipt d = Some dec)"

definition ship_locked :: "shipment_dispatch_batch \<Rightarrow> batch_item \<Rightarrow> shipment \<Rightarrow> bool" where
  "ship_locked b item x \<longleftrightarrow> the_shipment (fb_tenantId b) (bi_shipmentId item) x \<and>
     sp_assignedTripId x = Some (br_tripId (fb_payload b)) \<and> sp_version x = bi_shipmentVersion item \<and>
     sp_orderId x = bi_orderId item \<and> sp_reservationGroupId x = bi_reservationGroupId item"

definition item_locked :: "ful_db \<Rightarrow> shipment_dispatch_batch \<Rightarrow> batch_item \<Rightarrow> bool" where
  "item_locked db b item \<longleftrightarrow> (\<exists>d\<in>set (dispatchIntents db). intent_locks b item d) \<and>
     (\<exists>x\<in>set (shipments db). ship_locked b item x)"

definition batch_form :: "shipment_dispatch_batch \<Rightarrow> bool" where
  "batch_form b \<longleftrightarrow> fb_id b = br_requestId (fb_payload b) \<and> fb_tenantId b = br_tenantId (fb_payload b) \<and>
     fb_tripId b = br_tripId (fb_payload b) \<and> batchRequestValid (fb_payload b) \<and>
     (\<forall>dec. fb_decision b = Some dec \<longrightarrow> assertBatchDispatchGrantBinding (fb_payload b) dec)"

definition batches_ok :: "uuid set \<Rightarrow> ful_db \<Rightarrow> bool" where
  "batches_ok B db \<longleftrightarrow> distinct (map fb_id (fulBatches db)) \<and> (\<forall>b\<in>set (fulBatches db). batch_form b) \<and>
     (\<forall>b\<in>set (fulBatches db). fb_status b = I_PENDING \<and> fb_id b \<notin> B \<longrightarrow>
        (\<forall>item\<in>set (br_shipments (fb_payload b)). item_locked db b item)) \<and>
     (\<forall>d\<in>set (dispatchIntents db). \<forall>j. di_status d = I_PENDING \<and> di_batchId d = Some j \<and> j \<notin> B \<longrightarrow>
        (\<exists>b\<in>set (fulBatches db). fb_id b = j \<and> fb_status b = I_PENDING \<and>
           di_id d \<in> bi_dispatchRequestId ` set (br_shipments (fb_payload b))))"

definition receipt_ok :: "trip_receipt \<Rightarrow> bool" where
  "receipt_ok r = (case (tr_operation r, tr_requestPayload r, tr_responsePayload r) of
       (CLAIM, ClaimRequest q, ClaimResponse c snap) \<Rightarrow>
         claimRequestValid q \<and> cq_tenantId q = tr_tenantId r \<and> cq_requestId q = tr_requestId r \<and>
         cq_shipmentId q = tr_shipmentId r \<and> cq_tripId q = tr_tripId r \<and> cq_actorId q = tr_actorId r \<and>
         ct_claimId c = tr_claimId r \<and> assertShipmentClaimReceiptBinding q c
     | (RELEASE, ReleaseRequest q, ReleaseResponse c) \<Rightarrow>
         lr_tenantId q = tr_tenantId r \<and> lr_requestId q = tr_requestId r \<and> lr_shipmentId q = tr_shipmentId r \<and>
         lr_claimId q = tr_claimId r \<and> assertShipmentReleaseReceiptBinding q c
     | _ \<Rightarrow> False)"

definition claim_held :: "trip_receipt list \<Rightarrow> shipment \<Rightarrow> bool" where
  "claim_held rs x \<longleftrightarrow> (\<forall>c. sp_tripClaimId x = Some c \<longrightarrow>
     (\<exists>r\<in>set rs. tr_operation r = CLAIM \<and> tr_claimId r = c \<and> tr_shipmentId r = sp_id x \<and>
        tr_tenantId r = sp_tenantId x \<and> sp_assignedTripId x = Some (tr_tripId r)))"

definition claims_ok :: "ful_db \<Rightarrow> bool" where
  "claims_ok db \<longleftrightarrow> distinct (map (\<lambda>r. (tr_tenantId r, tr_requestId r)) (tripReceipts db)) \<and>
     (\<forall>r\<in>set (tripReceipts db). tr_claimId r < ful_next db \<and> receipt_ok r) \<and>
     (\<forall>r\<in>set (tripReceipts db). \<forall>r'\<in>set (tripReceipts db).
        tr_operation r = CLAIM \<and> tr_operation r' = CLAIM \<and> tr_claimId r = tr_claimId r' \<longrightarrow> r = r') \<and>
     (\<forall>x\<in>set (shipments db). claim_held (tripReceipts db) x)"

definition ful_but :: "uuid set \<Rightarrow> ful_db \<Rightarrow> bool" where
  "ful_but B db \<longleftrightarrow> rows_ok db \<and> intents_ok db \<and> batches_ok B db \<and> claims_ok db"

definition ful_ok :: "ful_db \<Rightarrow> bool" where
  "ful_ok db = ful_but {} db"

definition ful_init :: ful_db where
  "ful_init = \<lparr> shipments = [], shipmentItems = [], shipmentHistory = [], dispatchIntents = [], fulBatches = [],
     orderCursors = [], tripReceipts = [], ful_inbox = [], ful_outbox = [], ful_next = 1 \<rparr>"

lemmas ful_parts = rows_ok_def intents_ok_def batches_ok_def claims_ok_def

lemma ful_ok_init: "ful_ok ful_init"
  by (simp add: ful_ok_def ful_but_def ful_parts ful_init_def)

lemma ful_butD:
  assumes "ful_but B db"
  shows "rows_ok db" "intents_ok db" "batches_ok B db" "claims_ok db"
  using assms by (simp_all add: ful_but_def)

lemma batches_ok_mono: "batches_ok B db \<Longrightarrow> B \<subseteq> C \<Longrightarrow> batches_ok C db"
  unfolding batches_ok_def by (meson subsetD)

lemma ful_but_mono: "ful_but B db \<Longrightarrow> B \<subseteq> C \<Longrightarrow> ful_but C db"
  unfolding ful_but_def using batches_ok_mono by blast

text \<open>Only six tables and the counter matter.\<close>

definition same_tables :: "ful_db \<Rightarrow> ful_db \<Rightarrow> bool" where
  "same_tables db db' \<longleftrightarrow> shipments db' = shipments db \<and> shipmentHistory db' = shipmentHistory db \<and>
     dispatchIntents db' = dispatchIntents db \<and> fulBatches db' = fulBatches db \<and> tripReceipts db' = tripReceipts db \<and>
     ful_next db \<le> ful_next db'"

lemma same_tables_refl [simp, intro]: "same_tables db db"
  by (simp add: same_tables_def)

lemma same_tables_trans: "same_tables a b \<Longrightarrow> same_tables b c \<Longrightarrow> same_tables a c"
  by (auto simp: same_tables_def)

lemma item_locked_cong:
  "dispatchIntents db' = dispatchIntents db \<Longrightarrow> shipments db' = shipments db \<Longrightarrow> item_locked db' b item = item_locked db b item"
  by (simp add: item_locked_def)

lemma same_tables_ok:
  assumes "same_tables db db'" "ful_but B db"
  shows "ful_but B db'"
proof -
  note s = assms(1) [unfolded same_tables_def]
  note ok = ful_butD [OF assms(2)]
  have lt: "i < ful_next db'" if "i < ful_next db" for i using s that by simp
  have "rows_ok db'" using s ok(1) lt by (auto simp: rows_ok_def)
  moreover have "intents_ok db'" using s ok(2) by (simp add: intents_ok_def)
  moreover have "batches_ok B db'" using s ok(3) item_locked_cong [of db' db] by (simp add: batches_ok_def)
  moreover have "claims_ok db'" using s ok(4) lt by (auto simp: claims_ok_def)
  ultimately show ?thesis by (simp add: ful_but_def)
qed

section \<open>Changing one shipment\<close>

definition ship_change :: "shipment \<Rightarrow> shipment \<Rightarrow> ful_db \<Rightarrow> ful_db \<Rightarrow> bool" where
  "ship_change x x' db db' \<longleftrightarrow> x \<in> set (shipments db) \<and> sp_id x' = sp_id x \<and> sp_tenantId x' = sp_tenantId x \<and>
     sp_orderId x' = sp_orderId x \<and> sp_reservationGroupId x' = sp_reservationGroupId x \<and> sp_version x' = sp_version x + 1 \<and>
     shipments db' = update_where (the_shipment (sp_tenantId x) (sp_id x)) (\<lambda>_. x') (shipments db) \<and>
     (\<forall>h\<in>set (shipmentHistory db'). h \<in> set (shipmentHistory db) \<or>
        hs_shipmentId h = sp_id x \<and> hs_shipmentVersion h = sp_version x') \<and> ful_next db \<le> ful_next db'"

lemma shipment_unique: "rows_ok db \<Longrightarrow> x \<in> set (shipments db) \<Longrightarrow> y \<in> set (shipments db) \<Longrightarrow> sp_id x = sp_id y \<Longrightarrow> x = y"
  unfolding rows_ok_def by (blast dest: key_eq_imp_eq)

lemma ship_change_set:
  assumes ok: "rows_ok db" and c: "ship_change x x' db db'"
  shows "set (shipments db') = insert x' (set (shipments db) - {x})"
proof -
  have x: "x \<in> set (shipments db)"
    and s: "shipments db' = update_where (the_shipment (sp_tenantId x) (sp_id x)) (\<lambda>_. x') (shipments db)"
    using c by (simp_all add: ship_change_def)
  have "the_shipment (sp_tenantId x) (sp_id x) y \<longleftrightarrow> y = x" if "y \<in> set (shipments db)" for y
    using shipment_unique [OF ok that x] by (auto simp: the_shipment_def)
  then have "update_where (the_shipment (sp_tenantId x) (sp_id x)) (\<lambda>_. x') (shipments db) =
      map (\<lambda>y. if y = x then x' else y) (shipments db)" by (simp add: update_where_def)
  with x show ?thesis unfolding s by auto
qed

lemma ship_change_maps:
  assumes "ship_change x x' db db'" "\<And>y. y \<in> set (shipments db) \<Longrightarrow> the_shipment (sp_tenantId x) (sp_id x) y \<Longrightarrow> g x' = g y"
  shows "map g (shipments db') = map g (shipments db)"
  using assms by (simp add: ship_change_def update_where_def)

lemma rows_ok_change:
  assumes ok: "rows_ok db" and c: "ship_change x x' db db'" and r: "row_ok x'"
  shows "rows_ok db'"
proof -
  note set = ship_change_set [OF ok c]
  note c' = c [unfolded ship_change_def]
  have "map sp_id (shipments db') = map sp_id (shipments db)"
    by (rule ship_change_maps [OF c]) (use c' in \<open>simp add: the_shipment_def\<close>)
  moreover have "map (\<lambda>y. (sp_tenantId y, sp_orderId y)) (shipments db') = map (\<lambda>y. (sp_tenantId y, sp_orderId y)) (shipments db)"
  proof (rule ship_change_maps [OF c])
    fix y assume "y \<in> set (shipments db)" "the_shipment (sp_tenantId x) (sp_id x) y"
    then have "y = x" using shipment_unique [OF ok _ _] c' by (auto simp: the_shipment_def)
    then show "(sp_tenantId x', sp_orderId x') = (sp_tenantId y, sp_orderId y)" using c' by simp
  qed
  moreover have "row_ok y \<and> sp_id y < ful_next db'" if "y \<in> set (shipments db')" for y
    using that ok r c' unfolding set rows_ok_def by auto
  moreover have "hs_shipmentId h < ful_next db'" if "h \<in> set (shipmentHistory db')" for h
    using that ok c' unfolding rows_ok_def by (auto dest!: bspec [where x = h] bspec [where x = x])
  moreover have "hs_shipmentVersion h \<le> sp_version y"
    if h: "h \<in> set (shipmentHistory db')" and y: "y \<in> set (shipments db')" and e: "sp_id y = hs_shipmentId h" for h y
  proof -
    consider "h \<in> set (shipmentHistory db)" | "hs_shipmentId h = sp_id x" "hs_shipmentVersion h = sp_version x'"
      using c' h by blast
    then show ?thesis
    proof cases
      case 1
      then have old: "hs_shipmentVersion h \<le> sp_version z" if "z \<in> set (shipments db)" "sp_id z = hs_shipmentId h" for z
        using ok that unfolding rows_ok_def by blast
      show ?thesis using y old [of y] old [of x] e c' unfolding set by auto
    next
      case 2
      then have "y = x'" using y e c' shipment_unique [OF ok _ _, of y x] unfolding set by auto
      with 2 show ?thesis by simp
    qed
  qed
  ultimately show ?thesis using ok unfolding rows_ok_def by simp
qed

definition unlocked :: "uuid \<Rightarrow> ful_db \<Rightarrow> bool" where
  "unlocked i db \<longleftrightarrow> (\<forall>d\<in>set (dispatchIntents db). di_shipmentId d = i \<longrightarrow> di_status d \<noteq> I_PENDING)"

lemma intents_ok_change:
  assumes ok: "rows_ok db" "intents_ok db" and c: "ship_change x x' db db'"
    and i: "dispatchIntents db' = dispatchIntents db" and u: "unlocked (sp_id x) db"
    and l: "has_left (sp_status x') \<longleftrightarrow> has_left (sp_status x)"
  shows "intents_ok db'"
proof -
  note set = ship_change_set [OF ok(1) c]
  note c' = c [unfolded ship_change_def]
  have "\<exists>y\<in>set (shipments db'). intent_ok d y" if d: "d \<in> set (dispatchIntents db)" for d
  proof -
    obtain y where y: "y \<in> set (shipments db)" "intent_ok d y" using ok(2) d unfolding intents_ok_def by blast
    show ?thesis
    proof (cases "y = x")
      case True
      with y(2) u d l c' have "intent_ok d x'" by (auto simp: intent_ok_def unlocked_def)
      then show ?thesis unfolding set by blast
    next
      case False
      with y show ?thesis unfolding set by blast
    qed
  qed
  moreover have "\<exists>d\<in>set (dispatchIntents db). di_shipmentId d = sp_id y \<and> di_status d = I_COMPLETED"
    if "y \<in> set (shipments db')" "has_left (sp_status y)" for y
    using that ok(2) c' l unfolding set intents_ok_def by (cases "y = x'") auto
  ultimately show ?thesis using ok(2) unfolding intents_ok_def i by blast
qed

lemma item_locked_change:
  assumes ok: "rows_ok db" and c: "ship_change x x' db db'" and i: "dispatchIntents db' = dispatchIntents db"
    and l: "item_locked db b item" and n: "bi_shipmentId item \<noteq> sp_id x"
  shows "item_locked db' b item"
  using l n ship_change_set [OF ok c] i by (auto simp: item_locked_def ship_locked_def the_shipment_def)

lemma locked_not_unlocked: "item_locked db b item \<Longrightarrow> \<not> unlocked (bi_shipmentId item) db"
  by (auto simp: item_locked_def intent_locks_def unlocked_def)

lemma batches_ok_change:
  assumes ok: "rows_ok db" "batches_ok B db" and c: "ship_change x x' db db'"
    and i: "dispatchIntents db' = dispatchIntents db" "fulBatches db' = fulBatches db" and u: "unlocked (sp_id x) db"
  shows "batches_ok B db'"
proof -
  have "item_locked db' b item" if "item_locked db b item" for b item
    using item_locked_change [OF ok(1) c i(1) that] locked_not_unlocked [OF that] u by metis
  with ok(2) show ?thesis unfolding batches_ok_def i by blast
qed

lemma claims_ok_change:
  assumes ok: "rows_ok db" "claims_ok db" and c: "ship_change x x' db db'" and i: "tripReceipts db' = tripReceipts db"
    and f: "sp_tripClaimId x' = None \<or> sp_tripClaimId x' = sp_tripClaimId x \<and> sp_assignedTripId x' = sp_assignedTripId x"
  shows "claims_ok db'"
proof -
  note c' = c [unfolded ship_change_def]
  have "claim_held (tripReceipts db) x" using ok(2) c' by (simp add: claims_ok_def)
  then have "claim_held (tripReceipts db) x'" using f c' by (auto simp: claim_held_def)
  moreover have "tr_claimId r < ful_next db'" if "r \<in> set (tripReceipts db)" for r
    using ok(2) that c' unfolding claims_ok_def by (metis order.strict_trans2)
  ultimately show ?thesis using ok(2) ship_change_set [OF ok(1) c] unfolding claims_ok_def i by auto
qed

lemma ship_step:
  assumes ok: "ful_but B db" and c: "ship_change x x' db db'" and r: "row_ok x'"
    and i: "dispatchIntents db' = dispatchIntents db" "fulBatches db' = fulBatches db" and u: "unlocked (sp_id x) db"
    and l: "has_left (sp_status x') \<longleftrightarrow> has_left (sp_status x)" and cl: "claims_ok db'"
  shows "ful_but B db'"
  using ful_butD [OF ok] rows_ok_change [OF _ c r] intents_ok_change [OF _ _ c i(1) u l]
    batches_ok_change [OF _ _ c i u] cl by (simp add: ful_but_def)

section \<open>Changing intents\<close>

definition keeps_intent :: "uuid set \<Rightarrow> dispatch_intent \<Rightarrow> dispatch_intent \<Rightarrow> bool" where
  "keeps_intent B d d' \<longleftrightarrow> di_id d' = di_id d \<and> di_shipmentId d' = di_shipmentId d \<and> di_tenantId d' = di_tenantId d \<and>
     di_batchId d' = di_batchId d \<and> (di_status d' = I_PENDING \<longrightarrow> di_status d = I_PENDING) \<and>
     (di_status d' = I_COMPLETED \<longleftrightarrow> di_status d = I_COMPLETED) \<and>
     (\<forall>j. di_status d = I_PENDING \<and> di_batchId d = Some j \<and> j \<notin> B \<longrightarrow>
        di_status d' = I_PENDING \<and> di_grantReceipt d' = di_grantReceipt d)"

lemma keeps_intent_refl [simp]: "keeps_intent B d d"
  by (simp add: keeps_intent_def)

lemma keeps_intent_locks:
  "keeps_intent B d d' \<Longrightarrow> fb_id b \<notin> B \<Longrightarrow> intent_locks b item d \<Longrightarrow> intent_locks b item d'"
  by (auto simp: keeps_intent_def intent_locks_def)

lemma intent_unique:
  assumes "intents_ok db" "d \<in> set (dispatchIntents db)" "e \<in> set (dispatchIntents db)"
  shows "di_id d = di_id e \<Longrightarrow> d = e" "di_shipmentId d = di_shipmentId e \<Longrightarrow> d = e"
  using assms unfolding intents_ok_def by (blast dest: key_eq_imp_eq)+

lemma intent_shipment:
  assumes "intents_ok db" "d \<in> set (dispatchIntents db)"
  obtains x where "x \<in> set (shipments db)" "intent_ok d x"
  using assms unfolding intents_ok_def by blast

lemma completed_intent:
  assumes "intents_ok db" "x \<in> set (shipments db)" "has_left (sp_status x)"
  obtains d where "d \<in> set (dispatchIntents db)" "di_shipmentId d = sp_id x" "di_status d = I_COMPLETED"
  using assms unfolding intents_ok_def by blast

lemma setIntents_frame [simp]:
  "shipments (setIntents p f db) = shipments db" "shipmentHistory (setIntents p f db) = shipmentHistory db"
  "fulBatches (setIntents p f db) = fulBatches db" "tripReceipts (setIntents p f db) = tripReceipts db"
  "ful_next (setIntents p f db) = ful_next db" "ful_inbox (setIntents p f db) = ful_inbox db"
  "orderCursors (setIntents p f db) = orderCursors db" "shipmentItems (setIntents p f db) = shipmentItems db"
  "dispatchIntents (setIntents p f db) = update_where p f (dispatchIntents db)"
  by (simp_all add: setIntents_def)

lemma setIntents_ok:
  assumes ok: "ful_but B db" and k: "\<And>d. d \<in> set (dispatchIntents db) \<Longrightarrow> p d \<Longrightarrow> keeps_intent B d (f d)"
  shows "ful_but B (setIntents p f db)"
proof -
  let ?f = "\<lambda>d. if p d then f d else d"
  note p = ful_butD [OF ok]
  have kf: "keeps_intent B d (?f d)" if "d \<in> set (dispatchIntents db)" for d using k that by simp
  have keys: "map di_id (update_where p f (dispatchIntents db)) = map di_id (dispatchIntents db)"
    "map di_shipmentId (update_where p f (dispatchIntents db)) = map di_shipmentId (dispatchIntents db)"
    using k by (simp_all add: keeps_intent_def)
  have mem: "?f d \<in> set (update_where p f (dispatchIntents db))" if "d \<in> set (dispatchIntents db)" for d
    using update_where_mem [OF that] .
  have "\<exists>x\<in>set (shipments db). intent_ok (?f d) x" if "d \<in> set (dispatchIntents db)" for d
    using p(2) kf [OF that] that unfolding intents_ok_def intent_ok_def keeps_intent_def by metis
  moreover have "\<exists>d\<in>set (update_where p f (dispatchIntents db)). di_shipmentId d = sp_id x \<and> di_status d = I_COMPLETED"
    if x: "x \<in> set (shipments db)" "has_left (sp_status x)" for x
  proof -
    obtain d where d: "d \<in> set (dispatchIntents db)" "di_shipmentId d = sp_id x" "di_status d = I_COMPLETED"
      by (rule completed_intent [OF p(2) x])
    with kf [OF d(1)] show ?thesis by (intro bexI [OF _ mem [OF d(1)]]) (simp add: keeps_intent_def)
  qed
  ultimately have i: "intents_ok (setIntents p f db)"
    using p(2) unfolding intents_ok_def by (auto simp: keys in_set_update_where)
  have locked: "item_locked (setIntents p f db) b item" if l: "fb_id b \<notin> B" "item_locked db b item" for b item
  proof -
    obtain d where d: "d \<in> set (dispatchIntents db)" "intent_locks b item d" using l(2) by (auto simp: item_locked_def)
    have "\<exists>e\<in>set (update_where p f (dispatchIntents db)). intent_locks b item e"
      using keeps_intent_locks [OF kf [OF d(1)] l(1) d(2)] mem [OF d(1)] by (intro bexI [of _ "?f d"])
    with l(2) show ?thesis by (simp add: item_locked_def)
  qed
  have origin: "\<exists>b\<in>set (fulBatches db). fb_id b = j \<and> fb_status b = I_PENDING \<and>
      di_id d' \<in> bi_dispatchRequestId ` set (br_shipments (fb_payload b))"
    if "d' \<in> set (update_where p f (dispatchIntents db))" "di_status d' = I_PENDING \<and> di_batchId d' = Some j \<and> j \<notin> B" for d' j
  proof -
    from that(1) obtain d where d: "d \<in> set (dispatchIntents db)" "d' = ?f d" by (auto simp: in_set_update_where)
    with kf [OF d(1)] that(2) have "di_status d = I_PENDING \<and> di_batchId d = Some j \<and> j \<notin> B" "di_id d' = di_id d"
      unfolding keeps_intent_def by metis+
    with p(3) d(1) show ?thesis unfolding batches_ok_def by metis
  qed
  have "batches_ok B (setIntents p f db)"
    using p(3) locked origin unfolding batches_ok_def setIntents_frame by meson
  with p i show ?thesis by (auto simp: ful_but_def rows_ok_def claims_ok_def)
qed

lemma deleteIntent_frame [simp]:
  "shipments (deleteIntent i db) = shipments db" "shipmentHistory (deleteIntent i db) = shipmentHistory db"
  "fulBatches (deleteIntent i db) = fulBatches db" "tripReceipts (deleteIntent i db) = tripReceipts db"
  "ful_next (deleteIntent i db) = ful_next db"
  "dispatchIntents (deleteIntent i db) = filter (\<lambda>d. di_id d \<noteq> i) (dispatchIntents db)"
  by (simp_all add: deleteIntent_def)

text \<open>Only a rejected intent is ever deleted, to make room for the next one of its shipment.\<close>

lemma deleteIntent_ok:
  assumes ok: "ful_but B db" and r: "\<forall>d\<in>set (dispatchIntents db). di_id d = i \<longrightarrow> di_status d = I_REJECTED"
  shows "ful_but B (deleteIntent i db)"
proof -
  note p = ful_butD [OF ok]
  have "\<exists>d\<in>set (dispatchIntents (deleteIntent i db)). di_shipmentId d = sp_id x \<and> di_status d = I_COMPLETED"
    if "x \<in> set (shipments db)" "has_left (sp_status x)" for x
    using p(2) that r unfolding intents_ok_def by force
  then have i: "intents_ok (deleteIntent i db)" using p(2) by (auto simp: intents_ok_def distinct_map_filter)
  have "item_locked (deleteIntent i db) b item" if "item_locked db b item" for b item
    using that r by (auto simp: item_locked_def intent_locks_def)
  then have "batches_ok B (deleteIntent i db)"
    using p(3) unfolding batches_ok_def deleteIntent_frame by auto
  with p i show ?thesis by (auto simp: ful_but_def rows_ok_def claims_ok_def)
qed

lemma createIntent_D:
  "createIntent d db = Inr db' \<Longrightarrow> db' = db\<lparr> dispatchIntents := dispatchIntents db @ [d] \<rparr> \<and>
     (\<forall>e\<in>set (dispatchIntents db). di_id e \<noteq> di_id d \<and> di_shipmentId e \<noteq> di_shipmentId d)"
  by (auto simp: createIntent_def split: if_splits)

lemma createIntent_ok:
  assumes ok: "ful_but B db" and c: "createIntent d db = Inr db'"
    and x: "x \<in> set (shipments db)" "sp_id x = di_shipmentId d" "sp_tenantId x = di_tenantId d" "sp_status x = S_READY_TO_SHIP"
    and d: "di_status d = I_PENDING" "\<And>j. di_batchId d = Some j \<Longrightarrow> j \<in> B"
  shows "ful_but B db'"
proof -
  note p = ful_butD [OF ok] and c' = createIntent_D [OF c]
  have "intents_ok db'"
    using p(2) c' x d(1) by (auto simp: intents_ok_def intent_ok_def)
  moreover have "item_locked db' b item" if "item_locked db b item" for b item
    using that c' by (auto simp: item_locked_def)
  then have "batches_ok B db'"
    using p(3) c' d(2) unfolding batches_ok_def by fastforce
  ultimately show ?thesis using p c' by (auto simp: ful_but_def rows_ok_def claims_ok_def)
qed

section \<open>A shipment leaves\<close>

lemma dispatch_step:
  assumes ok: "ful_but B db" and c: "ship_change x x' db db'" and r: "row_ok x'" and left: "sp_status x' = S_DISPATCHED"
    and d: "d \<in> set (dispatchIntents db)" "di_shipmentId d = sp_id x"
      "\<And>j. di_status d = I_PENDING \<Longrightarrow> di_batchId d = Some j \<Longrightarrow> j \<in> B"
    and i: "dispatchIntents db' = update_where (\<lambda>e. di_id e = di_id d) (\<lambda>e. e\<lparr> di_status := I_COMPLETED \<rparr>) (dispatchIntents db)"
    and b: "fulBatches db' = fulBatches db" and cl: "claims_ok db'"
  shows "ful_but B db'"
proof -
  note p = ful_butD [OF ok] and set = ship_change_set [OF ful_butD(1) [OF ok] c]
  note c' = c [unfolded ship_change_def]
  let ?d = "d\<lparr> di_status := I_COMPLETED \<rparr>"
  have iset: "set (dispatchIntents db') = insert ?d (set (dispatchIntents db) - {d})"
  proof -
    have "di_id e = di_id d \<longleftrightarrow> e = d" if "e \<in> set (dispatchIntents db)" for e
      using intent_unique(1) [OF p(2) that d(1)] by auto
    then have "dispatchIntents db' = map (\<lambda>e. if e = d then ?d else e) (dispatchIntents db)"
      unfolding i by (simp add: update_where_def)
    with d(1) show ?thesis by auto
  qed
  have keys: "map di_id (dispatchIntents db') = map di_id (dispatchIntents db)"
    "map di_shipmentId (dispatchIntents db') = map di_shipmentId (dispatchIntents db)"
    unfolding i by simp_all
  have x: "x \<in> set (shipments db)" using c' by simp
  have dx: "sp_tenantId x = di_tenantId d"
    using intent_shipment [OF p(2) d(1)] d(2) shipment_unique [OF p(1) x] by (metis intent_ok_def)
  have "\<exists>y\<in>set (shipments db'). intent_ok e y" if e: "e \<in> set (dispatchIntents db')" for e
  proof (cases "e = ?d")
    case True
    have "intent_ok ?d x'" using d(2) dx left c' by (simp add: intent_ok_def has_left_def)
    with True show ?thesis unfolding set by blast
  next
    case False
    with e have e': "e \<in> set (dispatchIntents db)" "e \<noteq> d" unfolding iset by auto
    then obtain y where y: "y \<in> set (shipments db)" "intent_ok e y" using p(2) unfolding intents_ok_def by blast
    have "y \<noteq> x" using y(2) d(2) e' intent_unique(2) [OF p(2) e'(1) d(1)] by (auto simp: intent_ok_def)
    with y show ?thesis unfolding set by blast
  qed
  moreover have "\<exists>e\<in>set (dispatchIntents db'). di_shipmentId e = sp_id y \<and> di_status e = I_COMPLETED"
    if y: "y \<in> set (shipments db')" "has_left (sp_status y)" for y
  proof (cases "y = x'")
    case True
    then show ?thesis unfolding iset using d(2) c' by (intro bexI [of _ ?d]) simp_all
  next
    case False
    with y have y': "y \<in> set (shipments db)" "y \<noteq> x" unfolding set by auto
    then obtain e where e: "e \<in> set (dispatchIntents db)" "di_shipmentId e = sp_id y" "di_status e = I_COMPLETED"
      using p(2) y(2) unfolding intents_ok_def by blast
    have "e \<noteq> d" using e(2) d(2) shipment_unique [OF p(1) y'(1) x] y'(2) by auto
    with e show ?thesis unfolding iset by blast
  qed
  ultimately have io: "intents_ok db'" using p(2) unfolding intents_ok_def by (auto simp: keys)
  have "item_locked db' b item" if l: "item_locked db b item" "fb_id b \<notin> B" for b item
  proof -
    from l(1) obtain e y where e: "e \<in> set (dispatchIntents db)" "intent_locks b item e"
      and y: "y \<in> set (shipments db)" "ship_locked b item y" by (auto simp: item_locked_def)
    have "e \<noteq> d" using e(2) d(3) l(2) by (auto simp: intent_locks_def)
    moreover have "y \<noteq> x"
      using e y(2) d intent_unique(2) [OF p(2) e(1) d(1)] \<open>e \<noteq> d\<close>
      by (auto simp: ship_locked_def intent_locks_def the_shipment_def)
    ultimately show ?thesis using e y unfolding item_locked_def iset set by blast
  qed
  moreover have "e \<in> set (dispatchIntents db)" if "e \<in> set (dispatchIntents db')" "di_status e = I_PENDING" for e
    using that unfolding iset by auto
  ultimately have "batches_ok B db'" using p(3) unfolding batches_ok_def b by blast
  with io rows_ok_change [OF p(1) c r] cl show ?thesis by (simp add: ful_but_def)
qed

section \<open>Row operations as changes\<close>

definition keeps_ship :: "(shipment \<Rightarrow> shipment) \<Rightarrow> bool" where
  "keeps_ship f \<longleftrightarrow> (\<forall>x. sp_id (f x) = sp_id x \<and> sp_tenantId (f x) = sp_tenantId x \<and> sp_orderId (f x) = sp_orderId x \<and>
     sp_reservationGroupId (f x) = sp_reservationGroupId x \<and> sp_version (f x) = sp_version x + 1)"

lemma keeps_ship_rows [simp]:
  "keeps_ship (moveShipment to reason now)" "keeps_ship bumpVersion" "keeps_ship cancelRow" "keeps_ship (dispatchRow at)"
  "keeps_ship (claimRow trip c)" "keeps_ship releaseRow" "keeps_ship (deliverRow p)"
  by (simp_all add: keeps_ship_def moveShipment_def bumpVersion_def cancelRow_def dispatchRow_def claimRow_def releaseRow_def
      deliverRow_def Let_def split: delivery_outcome.splits)

lemma findShipment_D:
  "findShipment t i db = Some x \<Longrightarrow> x \<in> set (shipments db) \<and> sp_id x = i \<and> sp_tenantId x = t \<and> sp_deletedAt x = None"
  by (auto simp: findShipment_def the_shipment_def dest: find_Some_D)

lemma loadShipment_D:
  "loadShipment t i db = Inr x \<Longrightarrow> x \<in> set (shipments db) \<and> sp_id x = i \<and> sp_tenantId x = t \<and> sp_deletedAt x = None"
  by (auto simp: loadShipment_def dest: findShipment_D split: option.splits)

lemma find_shipment:
  assumes "rows_ok db" "x \<in> set (shipments db)" "sp_id x = i" "sp_tenantId x = t"
  shows "List.find (the_shipment t i) (shipments db) = Some x" "findShipment t i db = Some x"
proof -
  have u: "y = x" if "y \<in> set (shipments db)" "the_shipment t i y" for y
    using that shipment_unique [OF assms(1) _ assms(2)] assms(3) by (simp add: the_shipment_def)
  have x: "the_shipment t i x" using assms(3,4) by (simp add: the_shipment_def)
  show "List.find (the_shipment t i) (shipments db) = Some x" by (rule find_unique) (fact assms(2), fact x, fact u)
  have "sp_deletedAt x = None" using assms(1,2) by (simp add: rows_ok_def row_ok_def)
  with x u show "findShipment t i db = Some x"
    unfolding findShipment_def by (intro find_unique [OF assms(2)]) blast+
qed

lemma updateShipment_frame:
  assumes "updateShipment t i f now db = Inr (x', db')"
  shows "dispatchIntents db' = dispatchIntents db" "fulBatches db' = fulBatches db" "tripReceipts db' = tripReceipts db"
    "shipmentHistory db' = shipmentHistory db" "ful_next db' = ful_next db" "ful_inbox db' = ful_inbox db"
    "orderCursors db' = orderCursors db" "shipmentItems db' = shipmentItems db"
  using assms by (auto simp: updateShipment_def Let_def split: option.splits)

lemma updateShipment_change:
  assumes ok: "rows_ok db" and u: "updateShipment t i f now db = Inr (x', db')" and k: "keeps_ship f"
    and x: "x \<in> set (shipments db)" "sp_id x = i" "sp_tenantId x = t"
  shows "x' = (f x)\<lparr> sp_updatedAt := now \<rparr>" "ship_change x x' db db'"
proof -
  have d: "x' = (f x)\<lparr> sp_updatedAt := now \<rparr>"
    "db' = db\<lparr> shipments := update_where (the_shipment t i) (\<lambda>_. x') (shipments db) \<rparr>"
    using u [unfolded updateShipment_def find_shipment(1) [OF ok x], simplified Let_def option.case sum.inject prod.inject]
    by (elim conjE, simp only:)+
  then show "x' = (f x)\<lparr> sp_updatedAt := now \<rparr>" by simp
  show "ship_change x x' db db'" using d k x by (auto simp: ship_change_def keeps_ship_def)
qed

lemma recordShipment_frame:
  assumes "recordShipment x from event ctx reason rq now db = Inr db'"
  shows "dispatchIntents db' = dispatchIntents db" "fulBatches db' = fulBatches db" "tripReceipts db' = tripReceipts db"
    "shipments db' = shipments db" "ful_inbox db' = ful_inbox db" "orderCursors db' = orderCursors db"
    "shipmentItems db' = shipmentItems db" "ful_next db' = ful_next db + 2"
    "\<exists>h. shipmentHistory db' = shipmentHistory db @ [h] \<and> hs_tenantId h = sp_tenantId x \<and> hs_shipmentId h = sp_id x \<and>
       hs_fromStatus h = from \<and> hs_toStatus h = sp_status x \<and> hs_shipmentVersion h = sp_version x"
    "\<exists>e. ful_outbox db' = ful_outbox db @ [e] \<and> ob_eventType e = SHIPMENT_EVENT event \<and> ob_aggregateId e = sp_id x \<and>
       ob_aggregateVersion e = sp_version x \<and> sl_dispatchRequestId (ob_payload e) = rq"
  using assms by (auto simp: recordShipment_def split: if_splits)

lemma record_change:
  assumes c: "ship_change x x' db db1" and r: "recordShipment x' from event ctx reason rq now db2 = Inr db3"
    and s: "shipments db2 = shipments db1" "shipmentHistory db2 = shipmentHistory db1" "ful_next db2 = ful_next db1"
  shows "ship_change x x' db db3"
proof -
  obtain h where "shipmentHistory db3 = shipmentHistory db2 @ [h]" "hs_shipmentId h = sp_id x'" "hs_shipmentVersion h = sp_version x'"
    using recordShipment_frame(9) [OF r] by blast
  with c s recordShipment_frame(4,8) [OF r] show ?thesis by (auto simp: ship_change_def)
qed

text \<open>A change that is written to the history is always accepted.\<close>

lemma recordShipment_succeeds:
  assumes ok: "rows_ok db" and c: "ship_change x x' db db1" and s: "shipmentHistory db2 = shipmentHistory db"
  shows "\<exists>db3. recordShipment x' from event ctx reason rq now db2 = Inr db3"
proof -
  have "hs_shipmentVersion h \<le> sp_version x" if "h \<in> set (shipmentHistory db)" "hs_shipmentId h = sp_id x" for h
    using ok c that unfolding rows_ok_def ship_change_def by metis
  with c s have "\<not> exists_row (\<lambda>h. hs_tenantId h = sp_tenantId x' \<and> hs_shipmentId h = sp_id x' \<and>
      hs_shipmentVersion h = sp_version x') (shipmentHistory db2)" by (force simp: ship_change_def)
  then show ?thesis unfolding recordShipment_def by (simp del: exists_row_iff)
qed

lemma unlocked_blocks: "\<not> intent_blocks i db \<Longrightarrow> intents_ok db \<Longrightarrow> unlocked i db"
proof -
  assume b: "\<not> intent_blocks i db" and ok: "intents_ok db"
  have "di_status d \<noteq> I_PENDING" if d: "d \<in> set (dispatchIntents db)" "di_shipmentId d = i" for d
  proof -
    have "intentOf i db = Some d"
      unfolding intentOf_def by (rule find_key_unique) (use ok d in \<open>simp_all add: intents_ok_def\<close>)
    with b show ?thesis by (auto simp: intent_blocks_def)
  qed
  then show "unlocked i db" by (simp add: unlocked_def)
qed

lemma intentOf_iff:
  assumes "intents_ok db"
  shows "intentOf i db = Some d \<longleftrightarrow> d \<in> set (dispatchIntents db) \<and> di_shipmentId d = i"
  unfolding intentOf_def using assms find_key_unique [of di_shipmentId "dispatchIntents db" d i]
  by (auto simp: intents_ok_def dest: find_Some_D)

lemma unlocked_pending:
  assumes "intents_ok db"
  shows "unlocked i db \<longleftrightarrow> \<not> intent_pending i db"
proof -
  have "unlocked i db \<longleftrightarrow> (\<forall>d. intentOf i db = Some d \<longrightarrow> di_status d \<noteq> I_PENDING)"
    using intentOf_iff [OF assms] by (auto simp: unlocked_def)
  then show ?thesis by (cases "intentOf i db") (simp_all add: intent_pending_def)
qed

end
