(* ===== verification/Fulfillment_Effects.thy ===== *)
theory Fulfillment_Effects
  imports Fulfillment_Invariant
begin

text \<open>
  What each transaction of the fulfilment service does: it preserves the invariant and moves the database
  along \<open>evolves\<close>, the relation of what never changes again: a shipment follows the lifecycle
  \<open>ship_life\<close>, a claim is held until it is released itself, receipts stay, and a stale cursor stays stale.
\<close>

section \<open>How the database evolves\<close>

text \<open>A delivery result is written over an outcome that was recorded after its look: \<open>overwrites\<close>.\<close>

inductive ship_life :: "shipment_status \<Rightarrow> shipment_status \<Rightarrow> bool" where
  picks: "ship_life S_PENDING_PICK S_PICKING"
| readies: "ship_life S_PICKING S_READY_TO_SHIP"
| leaves: "ship_life S_READY_TO_SHIP S_DISPATCHED"
| arrives: "s \<in> {S_DELIVERED, S_FAILED} \<Longrightarrow> ship_life S_DISPATCHED s"
| cancels: "s \<in> {S_PENDING_PICK, S_PICKING, S_READY_TO_SHIP} \<Longrightarrow> ship_life s S_CANCELED"
| overwrites: "s \<in> {S_DELIVERED, S_FAILED} \<Longrightarrow> s' \<in> {S_DELIVERED, S_FAILED} \<Longrightarrow> ship_life s s'"

inductive_simps ship_life_simps [simp]:
  "ship_life S_DELIVERED s" "ship_life S_FAILED s" "ship_life S_CANCELED s" "ship_life S_DISPATCHED s"

lemma left_life: "ship_life\<^sup>*\<^sup>* s s' \<Longrightarrow> has_left s \<Longrightarrow> has_left s'"
  by (induction rule: rtranclp_induct) (auto simp: has_left_def elim: ship_life.cases)

definition released :: "uuid \<Rightarrow> ful_db \<Rightarrow> bool" where
  "released c db \<longleftrightarrow> (\<exists>r\<in>set (tripReceipts db). tr_operation r = RELEASE \<and> tr_claimId r = c)"

definition ship_becomes :: "ful_db \<Rightarrow> shipment \<Rightarrow> shipment \<Rightarrow> bool" where
  "ship_becomes db x x' \<longleftrightarrow> sp_id x' = sp_id x \<and> sp_tenantId x' = sp_tenantId x \<and> sp_orderId x' = sp_orderId x \<and>
     sp_reservationGroupId x' = sp_reservationGroupId x \<and> sp_version x \<le> sp_version x' \<and>
     (sp_version x' = sp_version x \<longrightarrow> x' = x) \<and> ship_life\<^sup>*\<^sup>* (sp_status x) (sp_status x') \<and>
     (\<forall>c. sp_tripClaimId x = Some c \<longrightarrow>
        sp_tripClaimId x' = Some c \<and> sp_assignedTripId x' = sp_assignedTripId x \<or> released c db)"

definition evolves :: "ful_db \<Rightarrow> ful_db \<Rightarrow> bool" where
  "evolves db db' \<longleftrightarrow> (\<forall>x\<in>set (shipments db). \<exists>x'\<in>set (shipments db'). ship_becomes db' x x') \<and>
     set (tripReceipts db) \<subseteq> set (tripReceipts db') \<and>
     (\<forall>t i v. cursorStale (findCursor t i db) v \<longrightarrow> cursorStale (findCursor t i db') v)"

lemma ship_becomes_refl [simp]: "ship_becomes db x x"
  by (simp add: ship_becomes_def)

lemma released_mono: "set (tripReceipts db) \<subseteq> set (tripReceipts db') \<Longrightarrow> released c db \<Longrightarrow> released c db'"
  by (auto simp: released_def)

lemma ship_becomes_trans:
  assumes "ship_becomes db x y" "ship_becomes db' y z" "set (tripReceipts db) \<subseteq> set (tripReceipts db')"
  shows "ship_becomes db' x z"
proof -
  have "sp_version z = sp_version x \<Longrightarrow> z = x"
    using assms(1,2) unfolding ship_becomes_def by (metis le_antisym)
  moreover have "ship_life\<^sup>*\<^sup>* (sp_status x) (sp_status z)"
    using assms(1,2) unfolding ship_becomes_def by (meson rtranclp_trans)
  moreover have "sp_tripClaimId z = Some c \<and> sp_assignedTripId z = sp_assignedTripId x \<or> released c db'"
    if "sp_tripClaimId x = Some c" for c
    using assms(1,2) released_mono [OF assms(3)] that unfolding ship_becomes_def by metis
  ultimately show ?thesis using assms(1,2) by (auto simp: ship_becomes_def)
qed

lemma evolves_refl [simp, intro]: "evolves db db"
  unfolding evolves_def using ship_becomes_refl by blast

lemma evolves_trans:
  assumes "evolves a b" "evolves b c"
  shows "evolves a c"
proof -
  have "\<exists>z\<in>set (shipments c). ship_becomes c x z" if x: "x \<in> set (shipments a)" for x
  proof -
    obtain y where y: "y \<in> set (shipments b)" "ship_becomes b x y" using assms(1) x unfolding evolves_def by blast
    then obtain z where "z \<in> set (shipments c)" "ship_becomes c y z" using assms(2) unfolding evolves_def by blast
    with ship_becomes_trans [OF y(2)] assms(2) show ?thesis unfolding evolves_def by blast
  qed
  then show ?thesis using assms unfolding evolves_def by auto
qed

lemma evolves_same:
  assumes "shipments db' = shipments db" "tripReceipts db' = tripReceipts db" "orderCursors db' = orderCursors db"
  shows "evolves db db'"
  unfolding evolves_def findCursor_def assms using ship_becomes_refl by blast

lemma evolves_change:
  assumes ok: "rows_ok db" and c: "ship_change x x' db db'"
    and l: "sp_status x' = sp_status x \<or> ship_life (sp_status x) (sp_status x')"
    and r: "set (tripReceipts db) \<subseteq> set (tripReceipts db')" and k: "orderCursors db' = orderCursors db"
    and cl: "\<And>c. sp_tripClaimId x = Some c \<Longrightarrow>
      sp_tripClaimId x' = Some c \<and> sp_assignedTripId x' = sp_assignedTripId x \<or> released c db'"
  shows "evolves db db'"
proof -
  note set = ship_change_set [OF ok c]
  have "ship_becomes db' x x'" using c l cl by (auto simp: ship_becomes_def ship_change_def)
  moreover have "\<exists>y'\<in>set (shipments db'). ship_becomes db' y y'" if "y \<in> set (shipments db)" "y \<noteq> x" for y
    using that by (intro bexI [of _ y]) (simp_all add: set)
  ultimately have "\<exists>y'\<in>set (shipments db'). ship_becomes db' y y'" if "y \<in> set (shipments db)" for y
    using that set by (cases "y = x") auto
  then show ?thesis using r k by (simp add: evolves_def findCursor_def)
qed

text \<open>The result of a transaction: the invariant still holds and the database has evolved.\<close>

definition keeps_ful :: "uuid set \<Rightarrow> ful_db \<Rightarrow> ful_db \<Rightarrow> bool" where
  "keeps_ful B db db' \<longleftrightarrow> (ful_but B db \<longrightarrow> ful_but B db' \<and> evolves db db')"

lemma keeps_ful_refl [simp, intro]: "keeps_ful B db db"
  by (simp add: keeps_ful_def)

lemma keeps_ful_trans: "keeps_ful B a b \<Longrightarrow> keeps_ful B b c \<Longrightarrow> keeps_ful B a c"
  unfolding keeps_ful_def using evolves_trans by blast

lemma same_tables_keeps: "same_tables db db' \<Longrightarrow> orderCursors db' = orderCursors db \<Longrightarrow> keeps_ful B db db'"
  unfolding keeps_ful_def using same_tables_ok evolves_same by (auto simp: same_tables_def)

lemma setIntents_keeps:
  "(\<And>d. d \<in> set (dispatchIntents db) \<Longrightarrow> p d \<Longrightarrow> keeps_intent B d (f d)) \<Longrightarrow> keeps_ful B db (setIntents p f db)"
  unfolding keeps_ful_def using setIntents_ok [of B db p f] evolves_same [of "setIntents p f db" db] by auto

text \<open>A shipment that no pending intent holds changes, and the change is written to the history.\<close>

lemma ship_keeps:
  assumes ok: "ful_but B db" and c: "ship_change x x' db db'" and r: "row_ok x'"
    and i: "dispatchIntents db' = dispatchIntents db" "fulBatches db' = fulBatches db" "tripReceipts db' = tripReceipts db"
      "orderCursors db' = orderCursors db"
    and u: "unlocked (sp_id x) db" and l: "has_left (sp_status x') \<longleftrightarrow> has_left (sp_status x)"
    and s: "sp_status x' = sp_status x \<or> ship_life (sp_status x) (sp_status x')"
    and f: "sp_tripClaimId x' = sp_tripClaimId x" "sp_assignedTripId x' = sp_assignedTripId x"
  shows "ful_but B db' \<and> evolves db db'"
proof
  note p = ful_butD [OF ok]
  show "ful_but B db'"
    by (rule ship_step [OF ok c r i(1,2) u l claims_ok_change [OF p(1,4) c i(3)]]) (use f in simp)
  show "evolves db db'"
    by (rule evolves_change [OF p(1) c s]) (use i f in simp_all)
qed

section \<open>Status changes\<close>

lemma assertShipmentTransition_D:
  "assertShipmentTransition from to = Inr ev \<Longrightarrow> SHIPMENT_TRANSITIONS to = Some (from, ev)"
  by (auto simp: assertShipmentTransition_def split: option.splits if_splits)

lemma SHIPMENT_TRANSITIONS_life: "SHIPMENT_TRANSITIONS to = Some (from, ev) \<Longrightarrow> ship_life from to"
  by (cases to) (auto intro: ship_life.intros)

lemma manual_left:
  "to \<in> set MANUAL_TARGETS \<Longrightarrow> SHIPMENT_TRANSITIONS to = Some (from, ev) \<Longrightarrow> has_left to \<longleftrightarrow> has_left from"
  by (cases to) (auto simp: MANUAL_TARGETS_def has_left_def)

lemma moveShipment_fields [simp]:
  "sp_status (moveShipment to reason now x) = to" "sp_deletedAt (moveShipment to reason now x) = sp_deletedAt x"
  "sp_dispatchIssuedAt (moveShipment to reason now x) = sp_dispatchIssuedAt x"
  "sp_assignedTripId (moveShipment to reason now x) = sp_assignedTripId x"
  "sp_tripClaimId (moveShipment to reason now x) = sp_tripClaimId x"
  "sp_version (moveShipment to reason now x) = sp_version x + 1"
  by (simp_all add: moveShipment_def Let_def)

lemma recorded_update:
  assumes ok: "rows_ok db" and u: "updateShipment t i f now db = Inr (x', db1)" and k: "keeps_ship f"
    and x: "x \<in> set (shipments db)" "sp_id x = i" "sp_tenantId x = t"
    and r: "recordShipment x' from ev ctx reason rq now db1 = Inr db2"
  shows "x' = (f x)\<lparr> sp_updatedAt := now \<rparr>" "ship_change x x' db db2" "dispatchIntents db2 = dispatchIntents db"
    "fulBatches db2 = fulBatches db" "tripReceipts db2 = tripReceipts db" "orderCursors db2 = orderCursors db"
    "ful_inbox db2 = ful_inbox db"
  using updateShipment_change [OF ok u k x] updateShipment_frame [OF u] recordShipment_frame [OF r]
    record_change [OF _ r] by simp_all

lemma transitionTx_keeps:
  assumes t: "transitionTx i ver to ctx reason now db = Inr db'" and m: "to \<in> set MANUAL_TARGETS"
  shows "keeps_ful B db db'"
  unfolding keeps_ful_def
proof
  assume ok: "ful_but B db"
  note p = ful_butD [OF ok]
  from t obtain x ev x' db1 where l: "loadShipment (sx_tenantId ctx) i db = Inr x" and n: "\<not> intent_pending i db"
    and a: "assertShipmentTransition (sp_status x) to = Inr ev"
    and u: "updateShipment (sx_tenantId ctx) i (moveShipment to reason now) now db = Inr (x', db1)"
    and r: "recordShipment x' (Some (sp_status x)) ev ctx reason None now db1 = Inr db'"
    by (auto simp: transitionTx_def bind_res_Inr_iff split: if_splits)
  note lx = loadShipment_D [OF l] and tr = assertShipmentTransition_D [OF a]
  note c = recorded_update [OF p(1) u _ _ _ _ r, of x]
  have "row_ok x" using p(1) lx by (simp add: rows_ok_def)
  then show "ful_but B db' \<and> evolves db db'"
    using ship_keeps [OF ok c(2) _ c(3-6)] c(1) lx n unlocked_pending [OF p(2)] manual_left [OF m tr]
      SHIPMENT_TRANSITIONS_life [OF tr]
    by (simp add: row_ok_def)
qed

section \<open>Order events\<close>

lemma record_keeps:
  assumes ok: "ful_but B db" and x: "x \<in> set (shipments db)" and r: "recordShipment x from ev ctx reason rq now db = Inr db'"
  shows "ful_but B db' \<and> evolves db db'"
proof
  note p = ful_butD [OF ok] and f = recordShipment_frame [OF r]
  obtain h where h: "shipmentHistory db' = shipmentHistory db @ [h]" "hs_shipmentId h = sp_id x" "hs_shipmentVersion h = sp_version x"
    using f(9) by blast
  have "sp_id x < ful_next db" using p(1) x by (simp add: rows_ok_def)
  moreover have "sp_version x \<le> sp_version y" if "y \<in> set (shipments db)" "sp_id y = sp_id x" for y
    using shipment_unique [OF p(1) that(1) x that(2)] by simp
  ultimately have "rows_ok db'" using p(1) f h by (force simp: rows_ok_def)
  moreover have "claims_ok db'" using p(4) f by (force simp: claims_ok_def)
  ultimately show "ful_but B db'"
    using p f item_locked_cong [of db' db] by (simp add: ful_but_def intents_ok_def batches_ok_def)
  show "evolves db db'" by (rule evolves_same) (use f in simp_all)
qed

lemma newShipment_fields [simp]:
  "sp_id (newShipment i t c now) = i" "sp_tenantId (newShipment i t c now) = t"
  "sp_orderId (newShipment i t c now) = cf_orderId c" "sp_status (newShipment i t c now) = S_PENDING_PICK"
  "row_ok (newShipment i t c now)" "sp_tripClaimId (newShipment i t c now) = None"
  "sp_reservationGroupId (newShipment i t c now) = cf_reservationGroupId c"
  by (simp_all add: newShipment_def row_ok_def has_left_def)

lemma createShipment_D:
  assumes "createShipment env t c now db = Inr (x, db')"
  shows "x = newShipment (ful_next db) t c now" "shipments db' = shipments db @ [x]"
    "\<forall>y\<in>set (shipments db). sp_tenantId y = t \<longrightarrow> sp_orderId y \<noteq> cf_orderId c" "ful_next db < ful_next db'"
    "dispatchIntents db' = dispatchIntents db" "fulBatches db' = fulBatches db" "tripReceipts db' = tripReceipts db"
    "shipmentHistory db' = shipmentHistory db" "orderCursors db' = orderCursors db" "ful_inbox db' = ful_inbox db"
  using assms by (auto simp: createShipment_def Let_def split: if_splits)

lemma createShipment_keeps:
  assumes ok: "ful_but B db" and c: "createShipment env t cf now db = Inr (x, db')"
  shows "ful_but B db' \<and> evolves db db'"
proof
  note p = ful_butD [OF ok] and d = createShipment_D [OF c]
  have x: "sp_id x = ful_next db" "sp_tenantId x = t" "sp_orderId x = cf_orderId cf" "\<not> has_left (sp_status x)" "row_ok x"
    "sp_tripClaimId x = None" by (simp_all add: d(1) has_left_def)
  have fresh: "sp_id y < ful_next db" if "y \<in> set (shipments db)" for y using p(1) that by (simp add: rows_ok_def)
  have "rows_ok db'"
    using p(1) d(2-4) d(8) x fresh unfolding rows_ok_def by (auto simp: image_iff) (fastforce simp: less_trans)+
  moreover have "intents_ok db'" using p(2) d(2,5) x(4) by (auto simp: intents_ok_def)
  moreover have "item_locked db' b item" if "item_locked db b item" for b item
    using that d(2,5) by (auto simp: item_locked_def)
  then have "batches_ok B db'" using p(3) d(5,6) by (auto simp: batches_ok_def)
  moreover have "claims_ok db'" using p(4) d(2,4,7) x(6) by (force simp: claims_ok_def claim_held_def)
  ultimately show "ful_but B db'" by (simp add: ful_but_def)
  show "evolves db db'"
    unfolding evolves_def findCursor_def d(7,9) using d(2) ship_becomes_refl by (metis Un_iff order_refl set_append)
qed

lemma confirmShipment_keeps:
  assumes "confirmShipment env ctx c existing now db = Inr (outcome, db')"
  shows "keeps_ful B db db'"
proof (cases existing)
  case (Some x)
  with assms show ?thesis by (auto simp: confirmShipment_def split: if_splits)
next
  case None
  with assms obtain x db1 where c: "createShipment env (sx_tenantId ctx) c now db = Inr (x, db1)"
    and r: "recordShipment x None E_CREATED ctx None None now db1 = Inr db'"
    by (auto simp: confirmShipment_def bind_res_Inr_iff)
  show ?thesis unfolding keeps_ful_def
  proof
    assume "ful_but B db"
    note k = createShipment_keeps [OF this c]
    have "x \<in> set (shipments db1)" using createShipment_D(2) [OF c] by simp
    from record_keeps [OF conjunct1 [OF k] this r] k evolves_trans show "ful_but B db' \<and> evolves db db'" by blast
  qed
qed

lemma has_left_list: "has_left s \<longleftrightarrow> s \<in> set [S_DISPATCHED, S_DELIVERED, S_FAILED]"
  by (auto simp: has_left_def)

lemma left_unlocked:
  assumes p: "rows_ok db" "intents_ok db" and x: "x \<in> set (shipments db)" "sp_status x \<noteq> S_READY_TO_SHIP"
  shows "unlocked (sp_id x) db"
  unfolding unlocked_def
proof (intro ballI impI)
  fix d assume d: "d \<in> set (dispatchIntents db)" "di_shipmentId d = sp_id x"
  obtain y where "y \<in> set (shipments db)" "intent_ok d y" by (rule intent_shipment [OF p(2) d(1)])
  with d(2) shipment_unique [OF p(1) _ x(1)] x(2) show "di_status d \<noteq> I_PENDING" by (auto simp: intent_ok_def)
qed

lemma cancelShipment_keeps:
  assumes x: "x \<in> set (shipments db)" "sp_tenantId x = sx_tenantId ctx"
    and c: "cancelShipment ctx reason x now db = Inr (outcome, db')"
  shows "keeps_ful B db db'"
  unfolding keeps_ful_def
proof
  assume ok: "ful_but B db"
  note p = ful_butD [OF ok]
  let ?t = "sx_tenantId ctx" and ?i = "sp_id x"
  have nb: "\<not> batchIntentPending ?t ?i db" using c by (auto simp: cancelShipment_def Let_def split: if_splits)
  have rx: "row_ok x" using p(1) x(1) by (simp add: rows_ok_def)
  consider (left) "has_left (sp_status x)" | (canceled) "sp_status x = S_CANCELED"
    | (unsent) "\<not> has_left (sp_status x)" "sp_status x \<noteq> S_CANCELED" by blast
  then show "ful_but B db' \<and> evolves db db'"
  proof cases
    case left
    with c nb obtain x' db1 where u: "updateShipment ?t ?i bumpVersion now db = Inr (x', db1)"
      and r: "recordShipment x' (Some (sp_status x)) E_CANCEL_REJECTED ctx (Some ''ORDER_DISPATCH_COMMITTED'') None now db1 = Inr db'"
      by (auto simp: cancelShipment_def Let_def bind_res_Inr_iff has_left_list)
    note d = recorded_update [OF p(1) u keeps_ship_rows(2) x(1) refl x(2) r]
    have "unlocked ?i db" using left_unlocked [OF p(1,2) x(1)] left by (auto simp: has_left_def)
    then show ?thesis using ship_keeps [OF ok d(2) _ d(3-6)] d(1) rx by (simp add: row_ok_def bumpVersion_def)
  next
    case canceled
    with c nb have "db' = db" by (auto simp: cancelShipment_def Let_def has_left_list)
    with ok show ?thesis by simp
  next
    case unsent
    let ?p = "\<lambda>d. di_tenantId d = ?t \<and> di_shipmentId d = ?i \<and> di_status d = I_PENDING"
    let ?f = "\<lambda>d. d\<lparr> di_status := I_REJECTED, di_rejectionReason := Some ''ORDER_CANCELED'' \<rparr>"
    let ?db1 = "setIntents ?p ?f db"
    from unsent c nb obtain x' db2 where u: "updateShipment ?t ?i cancelRow now ?db1 = Inr (x', db2)"
      and r: "recordShipment x' (Some (sp_status x)) E_CANCELED ctx reason None now db2 = Inr db'"
      by (auto simp: cancelShipment_def Let_def bind_res_Inr_iff has_left_list)
    have "keeps_ful B db ?db1"
    proof (rule setIntents_keeps)
      fix d assume "d \<in> set (dispatchIntents db)" "?p d"
      with nb show "keeps_intent B d (?f d)" by (auto simp: keeps_intent_def batchIntentPending_def)
    qed
    with ok have k: "ful_but B ?db1" "evolves db ?db1" by (simp_all add: keeps_ful_def)
    note q = ful_butD [OF k(1)]
    have x1: "x \<in> set (shipments ?db1)" using x(1) by simp
    note d = recorded_update [OF q(1) u keeps_ship_rows(3) x1 refl x(2) r]
    have tn: "di_tenantId e = ?t" if e: "e \<in> set (dispatchIntents db)" "di_shipmentId e = ?i" for e
      using intent_shipment [OF p(2) e(1)] shipment_unique [OF p(1) _ x(1)] e(2) x(2) by (metis intent_ok_def)
    have u1: "unlocked ?i ?db1" using tn by (auto simp: unlocked_def elim!: update_whereE)
    have "ship_life (sp_status x) S_CANCELED" using unsent by (cases "sp_status x") (auto simp: has_left_def intro: ship_life.intros)
    then have "ful_but B db' \<and> evolves ?db1 db'"
      using ship_keeps [OF k(1) d(2) _ d(3-6) u1] d(1) rx unsent(1)
      by (simp add: row_ok_def cancelRow_def has_left_def)
    with k(2) evolves_trans show ?thesis by blast
  qed
qed

lemma find_update_key: "(\<And>x. p (f x) = p x) \<Longrightarrow> List.find p (update_where p f xs) = map_option f (List.find p xs)"
  by (induction xs) auto

lemma find_update_other: "(\<And>x. q x \<Longrightarrow> \<not> p x \<and> \<not> p (f x)) \<Longrightarrow> List.find p (update_where q f xs) = List.find p xs"
  by (induction xs) auto

lemma findCursor_upsert:
  "findCursor t' i' (upsertCursor t i v c db) =
     (if t' = t \<and> i' = i then Some \<lparr> cu_tenantId = t, cu_orderId = i, cu_orderVersion = v, cu_canceled = c \<rparr>
      else findCursor t' i' db)"
proof (cases "findCursor t i db")
  case None
  then show ?thesis by (auto simp: upsertCursor_def findCursor_def find_append split: option.splits)
next
  case (Some k)
  let ?f = "\<lambda>c'. c'\<lparr> cu_orderVersion := v, cu_canceled := c \<rparr>"
  show ?thesis
  proof (cases "t' = t \<and> i' = i")
    case True
    have "List.find (\<lambda>c. cu_tenantId c = t \<and> cu_orderId c = i)
        (update_where (\<lambda>c. cu_tenantId c = t \<and> cu_orderId c = i) ?f (orderCursors db)) = map_option ?f (Some k)"
      using Some by (subst find_update_key) (simp_all add: findCursor_def)
    moreover have "cu_tenantId k = t" "cu_orderId k = i" using Some by (auto simp: findCursor_def dest: find_Some_D)
    ultimately show ?thesis using True Some by (simp add: upsertCursor_def findCursor_def)
  next
    case False
    have "List.find (\<lambda>c. cu_tenantId c = t' \<and> cu_orderId c = i')
        (update_where (\<lambda>c. cu_tenantId c = t \<and> cu_orderId c = i) ?f (orderCursors db)) =
        List.find (\<lambda>c. cu_tenantId c = t' \<and> cu_orderId c = i') (orderCursors db)"
      using False by (intro find_update_other) auto
    then show ?thesis using False Some by (auto simp: upsertCursor_def findCursor_def)
  qed
qed

lemma upsertCursor_frame [simp]:
  "shipments (upsertCursor t i v c db) = shipments db" "tripReceipts (upsertCursor t i v c db) = tripReceipts db"
  "ful_inbox (upsertCursor t i v c db) = ful_inbox db" "same_tables db (upsertCursor t i v c db)"
  "dispatchIntents (upsertCursor t i v c db) = dispatchIntents db"
  by (simp_all add: upsertCursor_def same_tables_def)

lemma upsertCursor_keeps:
  assumes "\<not> cursorStale (findCursor t i db) v"
  shows "keeps_ful B db (upsertCursor t i v c db)"
proof -
  have "cursorStale (findCursor t' i' (upsertCursor t i v c db)) w" if "cursorStale (findCursor t' i' db) w" for t' i' w
    using that assms by (auto simp: findCursor_upsert cursorStale_def split: option.splits)
  then have "evolves db (upsertCursor t i v c db)"
    unfolding evolves_def upsertCursor_frame using ship_becomes_refl by blast
  then show ?thesis unfolding keeps_ful_def using same_tables_ok [OF upsertCursor_frame(4)] by blast
qed

lemma ful_inbox_create_D:
  "ful_inbox_create r db = Inr db' \<Longrightarrow> ful_inbox_find (fi_consumerName r) (fi_eventId r) db = None \<and>
     db' = db\<lparr> ful_inbox := ful_inbox db @ [r\<lparr> fi_id := ful_next db \<rparr>], ful_next := ful_next db + 1 \<rparr>"
  by (auto simp: ful_inbox_create_def split: if_splits)

lemma ful_inbox_create_keeps: "ful_inbox_create r db = Inr db' \<Longrightarrow> keeps_ful B db db'"
  by (drule ful_inbox_create_D) (auto intro!: same_tables_keeps simp: same_tables_def)

lemma shipmentOfOrder_D:
  "shipmentOfOrder t i db = Some x \<Longrightarrow> x \<in> set (shipments db) \<and> sp_tenantId x = t \<and> sp_orderId x = i"
  by (auto simp: shipmentOfOrder_def dest: find_Some_D)

lemma log_frames:
  "recordShipment x from ev ctx reason rq now db = Inr db' \<Longrightarrow> orderCursors db' = orderCursors db \<and> ful_inbox db' = ful_inbox db"
  "updateShipment t i f now db = Inr (x', db1) \<Longrightarrow> orderCursors db1 = orderCursors db \<and> ful_inbox db1 = ful_inbox db"
  "createShipment env t c now db = Inr (x', db1) \<Longrightarrow> orderCursors db1 = orderCursors db \<and> ful_inbox db1 = ful_inbox db"
  by (simp_all add: recordShipment_frame updateShipment_frame createShipment_D)

lemma cancelShipment_frame:
  "cancelShipment ctx reason x now db = Inr (outcome, db') \<Longrightarrow> orderCursors db' = orderCursors db \<and> ful_inbox db' = ful_inbox db"
  by (auto simp: cancelShipment_def Let_def bind_res_Inr_iff split: if_splits dest!: log_frames)

lemma confirmShipment_frame:
  "confirmShipment env ctx c e now db = Inr (outcome, db') \<Longrightarrow> orderCursors db' = orderCursors db \<and> ful_inbox db' = ful_inbox db"
  by (auto simp: confirmShipment_def bind_res_Inr_iff split: if_splits option.splits dest!: log_frames)

text \<open>What the transaction does to an order that is not stale, before the cursor and the inbox.\<close>

definition orderEventBody ::
    "ful_env \<Rightarrow> order_event \<Rightarrow> uuid \<Rightarrow> confirmed_payload option \<Rightarrow> string option \<Rightarrow> instant \<Rightarrow> ful_db \<Rightarrow> ful_error + string \<times> ful_db" where
  "orderEventBody env event orderId confirmed reason now db =
     (let t = ev_tenantId event; ctx = eventContext event in
      case confirmed of
        Some c \<Rightarrow> confirmShipment env ctx c (shipmentOfOrder t orderId db) now db
      | None \<Rightarrow>
          (case shipmentOfOrder t orderId db of
             None \<Rightarrow> Inr (''APPLIED'', db)
           | Some x \<Rightarrow> cancelShipment ctx reason x now db))"

lemma orderEventTx_body:
  "orderEventTx env event orderId confirmed reason now db =
     (if ful_inbox_find SHIPMENT_CONSUMER (ev_eventId event) db \<noteq> None then Inr db
      else if cursorStale (findCursor (ev_tenantId event) orderId db) (ev_aggregateVersion event)
      then ful_inbox_create (orderInboxRow event now ''IGNORED_STALE'') db
      else bind_res (orderEventBody env event orderId confirmed reason now db) (\<lambda>(outcome, db1).
        ful_inbox_create (orderInboxRow event now outcome)
          (upsertCursor (ev_tenantId event) orderId (ev_aggregateVersion event) (confirmed = None) db1)))"
  by (simp only: orderEventTx_def orderEventBody_def Let_def)

lemma eventContext_tenant [simp]: "sx_tenantId (eventContext e) = ev_tenantId e"
  by (simp add: eventContext_def)

lemma orderEventBody_keeps:
  assumes "orderEventBody env event orderId confirmed reason now db = Inr (outcome, db')"
  shows "keeps_ful B db db'" "orderCursors db' = orderCursors db" "ful_inbox db' = ful_inbox db"
proof -
  show "keeps_ful B db db'"
    using assms confirmShipment_keeps cancelShipment_keeps [where ctx = "eventContext event", simplified]
    by (auto simp: orderEventBody_def Let_def split: option.splits dest!: shipmentOfOrder_D)
  show "orderCursors db' = orderCursors db" "ful_inbox db' = ful_inbox db"
    using assms confirmShipment_frame cancelShipment_frame
    by (auto simp: orderEventBody_def Let_def split: option.splits)
qed

lemma orderEventTx_keeps:
  assumes "orderEventTx env event orderId confirmed reason now db = Inr db'"
  shows "keeps_ful B db db'"
proof -
  have "keeps_ful B db db'"
    if st: "\<not> cursorStale (findCursor (ev_tenantId event) orderId db) (ev_aggregateVersion event)"
      and b: "orderEventBody env event orderId confirmed reason now db = Inr (outcome, db1)"
      and c: "ful_inbox_create (orderInboxRow event now outcome)
        (upsertCursor (ev_tenantId event) orderId (ev_aggregateVersion event) (confirmed = None) db1) = Inr db'" for outcome db1
  proof -
    note k = orderEventBody_keeps [OF b]
    have "\<not> cursorStale (findCursor (ev_tenantId event) orderId db1) (ev_aggregateVersion event)"
      using st k(2) by (simp add: findCursor_def)
    from keeps_ful_trans [OF k(1) keeps_ful_trans [OF upsertCursor_keeps [OF this] ful_inbox_create_keeps [OF c]]]
    show ?thesis .
  qed
  then show ?thesis using assms ful_inbox_create_keeps
    by (auto simp: orderEventTx_body bind_res_Inr_iff split: if_splits)
qed

lemma handleShipmentOrderEvent_keeps:
  "handleShipmentOrderEvent api env now s db0 event db = Inr db' \<Longrightarrow> keeps_ful B db db'"
  by (auto simp: handleShipmentOrderEvent_def Let_def bind_res_Inr_iff split: if_splits option.splits intro: orderEventTx_keeps)

section \<open>Dispatch of one shipment\<close>

lemma rejectIntent_keeps:
  assumes "\<forall>d\<in>set (dispatchIntents db). di_id d = i \<longrightarrow> di_batchId d = None"
  shows "keeps_ful B db (rejectIntent i db)"
  unfolding rejectIntent_def by (rule setIntents_keeps) (use assms in \<open>auto simp: keeps_intent_def\<close>)

lemma deferIntent_keeps: "keeps_ful B db (deferIntent env d now db)"
  unfolding deferIntent_def by (rule setIntents_keeps) (auto simp: keeps_intent_def)

lemma createIntent_keeps:
  assumes c: "createIntent d db = Inr db'" and x: "x \<in> set (shipments db)" "sp_id x = di_shipmentId d" "sp_tenantId x = di_tenantId d"
      "sp_status x = S_READY_TO_SHIP"
    and d: "di_status d = I_PENDING" "\<And>j. di_batchId d = Some j \<Longrightarrow> j \<in> B"
  shows "keeps_ful B db db'"
  unfolding keeps_ful_def using createIntent_ok [OF _ c x d] createIntent_D [OF c] evolves_same by fastforce

lemma deleteIntent_keeps:
  assumes "\<forall>d\<in>set (dispatchIntents db). di_id d = i \<longrightarrow> di_status d = I_REJECTED"
  shows "keeps_ful B db (deleteIntent i db)"
  unfolding keeps_ful_def using deleteIntent_ok [OF _ assms] evolves_same [of "deleteIntent i db" db]
  by (simp add: deleteIntent_def)

lemma dispatched_from_ready: "assertShipmentTransition s S_DISPATCHED = Inr ev \<Longrightarrow> s = S_READY_TO_SHIP"
  by (auto simp: assertShipmentTransition_def split: if_splits)

lemma saveIntent_keeps:
  assumes "saveIntent i dto actor ctx now db = Inr db'"
  shows "keeps_ful B db db'"
proof -
  obtain x where l: "loadShipment (sx_tenantId ctx) i db = Inr x" using assms by (auto simp: saveIntent_def bind_res_Inr_iff)
  note lx = loadShipment_D [OF l]
  let ?n = "newIntent (dd_requestId dto) (sx_tenantId ctx) i (dd_orderVersion dto) (sp_version x) actor (sx_correlationId ctx) None now"
  have new: "keeps_ful B D D'" if "createIntent ?n D = Inr D'" "shipments D = shipments db" "sp_status x = S_READY_TO_SHIP" for D D'
    by (rule createIntent_keeps [OF that(1), of x]) (use lx that in \<open>simp_all add: newIntent_def\<close>)
  show ?thesis
  proof (cases "intentOf i db")
    case None
    with assms l show ?thesis
      by (auto simp: saveIntent_def bind_res_Inr_iff split: if_splits dest!: dispatched_from_ready intro: new)
  next
    case (Some d)
    show ?thesis
    proof (cases "db' = db")
      case False
      with assms l Some have c: "createIntent ?n (deleteIntent (di_id d) db) = Inr db'" and r: "di_status d = I_REJECTED"
        and st: "sp_status x = S_READY_TO_SHIP"
        by (auto simp: saveIntent_def bind_res_Inr_iff split: if_splits dest!: dispatched_from_ready)
      show ?thesis unfolding keeps_ful_def
      proof
        assume ok: "ful_but B db"
        have d: "d \<in> set (dispatchIntents db)" using Some by (auto simp: intentOf_def dest: find_Some_D)
        have "keeps_ful B db (deleteIntent (di_id d) db)"
          by (rule deleteIntent_keeps) (use intent_unique(1) [OF ful_butD(2) [OF ok] _ d] r in blast)
        from keeps_ful_trans [OF this new [OF c _ st]] ok show "ful_but B db' \<and> evolves db db'"
          by (simp add: keeps_ful_def)
      qed
    qed simp
  qed
qed

lemma dispatchTx_keeps: "dispatchTx i dto actor ctx now db = Inr db' \<Longrightarrow> keeps_ful B db db'"
  by (auto simp: dispatchTx_def split: sum.splits intro: saveIntent_keeps)

lemma dispatchRow_fields [simp]:
  "sp_status (dispatchRow at x) = S_DISPATCHED" "sp_dispatchIssuedAt (dispatchRow at x) = Some at"
  "sp_deletedAt (dispatchRow at x) = sp_deletedAt x" "sp_assignedTripId (dispatchRow at x) = sp_assignedTripId x"
  "sp_tripClaimId (dispatchRow at x) = sp_tripClaimId x" "sp_version (dispatchRow at x) = sp_version x + 1"
  "sp_id (dispatchRow at x) = sp_id x" "sp_tenantId (dispatchRow at x) = sp_tenantId x"
  by (simp_all add: dispatchRow_def)

lemma completeIntent_frame [simp]:
  "shipments (completeIntent i db) = shipments db" "shipmentHistory (completeIntent i db) = shipmentHistory db"
  "fulBatches (completeIntent i db) = fulBatches db" "tripReceipts (completeIntent i db) = tripReceipts db"
  "ful_next (completeIntent i db) = ful_next db" "ful_inbox (completeIntent i db) = ful_inbox db"
  "orderCursors (completeIntent i db) = orderCursors db"
  "dispatchIntents (completeIntent i db) = update_where (\<lambda>d. di_id d = i) (\<lambda>d. d\<lparr> di_status := I_COMPLETED \<rparr>) (dispatchIntents db)"
  by (simp_all add: completeIntent_def)

text \<open>The two ways out of the warehouse share one change: the shipment and its intent, together.\<close>

lemma dispatched_keeps:
  assumes ok: "ful_but B db" and x: "x \<in> set (shipments db)" "sp_id x = i" "sp_tenantId x = t" "sp_status x = S_READY_TO_SHIP"
    and d: "d \<in> set (dispatchIntents db)" "di_shipmentId d = i" "\<And>j. di_status d = I_PENDING \<Longrightarrow> di_batchId d = Some j \<Longrightarrow> j \<in> B"
    and u: "updateShipment t i (dispatchRow at) now db = Inr (x', db1)"
    and r: "recordShipment x' from E_DISPATCHED ctx reason rq now (completeIntent (di_id d) db1) = Inr db'"
  shows "ful_but B db' \<and> evolves db db'" "ship_change x x' db db'" "x' = (dispatchRow at x)\<lparr> sp_updatedAt := now \<rparr>"
    "dispatchIntents db' = update_where (\<lambda>e. di_id e = di_id d) (\<lambda>e. e\<lparr> di_status := I_COMPLETED \<rparr>) (dispatchIntents db)"
    "fulBatches db' = fulBatches db" "tripReceipts db' = tripReceipts db"
proof -
  note p = ful_butD [OF ok]
  note c = updateShipment_change [OF p(1) u _ x(1-3)]
  note f = updateShipment_frame [OF u] and g = recordShipment_frame [OF r]
  show x': "x' = (dispatchRow at x)\<lparr> sp_updatedAt := now \<rparr>" using c(1) by simp
  show ch: "ship_change x x' db db'" by (rule record_change [OF c(2) r]) simp_all
  show i: "dispatchIntents db' = update_where (\<lambda>e. di_id e = di_id d) (\<lambda>e. e\<lparr> di_status := I_COMPLETED \<rparr>) (dispatchIntents db)"
    and b: "fulBatches db' = fulBatches db" and tr: "tripReceipts db' = tripReceipts db" using f g by simp_all
  have "row_ok x" using p(1) x(1) by (simp add: rows_ok_def)
  then have row: "row_ok x'" by (simp add: x' row_ok_def has_left_def)
  have cl: "claims_ok db'" by (rule claims_ok_change [OF p(1,4) ch tr]) (simp add: x')
  have "ful_but B db'"
    by (rule dispatch_step [OF ok ch row _ d(1) _ d(3) i b cl]) (use x' d(2) x(2) in simp_all)
  moreover have "evolves db db'"
    by (rule evolves_change [OF p(1) ch]) (use x' x(4) f g in \<open>auto intro: ship_life.intros\<close>)
  ultimately show "ful_but B db' \<and> evolves db db'" by blast
qed

lemma completeTx_keeps:
  assumes c: "completeTx t i d g now db = Inr db'"
    and n: "\<forall>e\<in>set (dispatchIntents db). di_id e = di_id d \<longrightarrow> di_batchId e = None"
  shows "keeps_ful B db db'"
proof (cases "db' = db")
  case False
  obtain x e where x: "List.find (the_shipment t i) (shipments db) = Some x" and e: "intentOf i db = Some e" "di_id e = di_id d"
    using c by (auto simp: completeTx_def split: option.splits if_splits)
  note fx = find_Some_D [OF x]
  have e': "e \<in> set (dispatchIntents db)" "di_shipmentId e = i" using e(1) by (auto simp: intentOf_def dest: find_Some_D)
  from c x e False obtain x' db1 ctx where st: "sp_status x = S_READY_TO_SHIP"
    and u: "updateShipment t i (dispatchRow (dg_grantedAt g)) now db = Inr (x', db1)"
    and r: "recordShipment x' (Some (sp_status x)) E_DISPATCHED ctx None (Some (di_id d)) now (completeIntent (di_id e) db1) = Inr db'"
    by (auto simp: completeTx_def bind_res_Inr_iff split: if_splits dest!: dispatched_from_ready)
  have n': "di_batchId e = None" using n e(2) e'(1) by blast
  show ?thesis unfolding keeps_ful_def
    using dispatched_keeps(1) [OF _ _ _ _ st e' _ u r] fx n' by (auto simp: the_shipment_def)
qed simp

end
