(* ===== verification/Fulfillment_Batches.thy ===== *)
theory Fulfillment_Batches
  imports Fulfillment_Effects
begin

text \<open>
  The three transactions of a batch dispatch: preparing it locks its shipments, the decision is saved, and
  carrying the decision out releases or completes the locks, all of them together. A prepared batch can
  always be carried out.
\<close>

section \<open>Suspending and resuming one batch\<close>

lemma item_lockedI:
  "d \<in> set (dispatchIntents db) \<Longrightarrow> intent_locks b item d \<Longrightarrow> x \<in> set (shipments db) \<Longrightarrow> ship_locked b item x \<Longrightarrow> item_locked db b item"
  by (auto simp: item_locked_def)

lemma close_batch:
  assumes ok: "ful_but {i} db" and b: "b \<in> set (fulBatches db)" "fb_id b = i"
    and l: "fb_status b = I_PENDING \<Longrightarrow> \<forall>item\<in>set (br_shipments (fb_payload b)). item_locked db b item"
    and o: "\<And>d. d \<in> set (dispatchIntents db) \<Longrightarrow> di_status d = I_PENDING \<Longrightarrow> di_batchId d = Some i \<Longrightarrow>
      fb_status b = I_PENDING \<and> di_id d \<in> bi_dispatchRequestId ` set (br_shipments (fb_payload b))"
  shows "ful_but {} db"
proof -
  note p = ful_butD [OF ok]
  have u: "c = b" if "c \<in> set (fulBatches db)" "fb_id c = i" for c
    using p(3) that b by (auto simp: batches_ok_def dest: key_eq_imp_eq)
  have "item_locked db c item" if "c \<in> set (fulBatches db)" "fb_status c = I_PENDING" "item \<in> set (br_shipments (fb_payload c))" for c item
    using that p(3) u l unfolding batches_ok_def by (cases "fb_id c = i") auto
  moreover have "\<exists>c\<in>set (fulBatches db). fb_id c = j \<and> fb_status c = I_PENDING \<and>
      di_id d \<in> bi_dispatchRequestId ` set (br_shipments (fb_payload c))"
    if "d \<in> set (dispatchIntents db)" "di_status d = I_PENDING" "di_batchId d = Some j" for d j
    using that p(3) b o unfolding batches_ok_def by (cases "j = i") auto
  ultimately show ?thesis using p by (simp add: ful_but_def batches_ok_def)
qed

lemma add_batch:
  assumes ok: "ful_but B db" and f: "\<forall>c\<in>set (fulBatches db). fb_id c \<noteq> fb_id b" and b: "batch_form b" "fb_id b \<in> B"
  shows "ful_but B (db\<lparr> fulBatches := fulBatches db @ [b] \<rparr>)"
proof -
  note p = ful_butD [OF ok]
  let ?db = "db\<lparr> fulBatches := fulBatches db @ [b] \<rparr>"
  have "item_locked ?db c item \<longleftrightarrow> item_locked db c item" for c item by (simp add: item_locked_def)
  then have "batches_ok B ?db" using p(3) f b unfolding batches_ok_def by fastforce
  with p show ?thesis by (auto simp: ful_but_def rows_ok_def intents_ok_def claims_ok_def)
qed

lemma setBatch_frame [simp]:
  "shipments (setBatch i f db) = shipments db" "shipmentHistory (setBatch i f db) = shipmentHistory db"
  "dispatchIntents (setBatch i f db) = dispatchIntents db" "tripReceipts (setBatch i f db) = tripReceipts db"
  "ful_next (setBatch i f db) = ful_next db" "orderCursors (setBatch i f db) = orderCursors db"
  "fulBatches (setBatch i f db) = update_where (\<lambda>b. fb_id b = i) f (fulBatches db)"
  by (simp_all add: setBatch_def)

text \<open>Row changes of batches outside the invariant's care: a suspended batch, or fields it does not look at.\<close>

definition keeps_batch :: "uuid set \<Rightarrow> shipment_dispatch_batch \<Rightarrow> shipment_dispatch_batch \<Rightarrow> bool" where
  "keeps_batch B b b' \<longleftrightarrow> fb_id b' = fb_id b \<and> batch_form b' \<and>
     (fb_id b \<in> B \<or> fb_status b' = fb_status b \<and> fb_payload b' = fb_payload b \<and> fb_decision b' = fb_decision b \<and>
        fb_tenantId b' = fb_tenantId b)"

lemma item_locked_batch:
  "fb_id b' = fb_id b \<Longrightarrow> fb_payload b' = fb_payload b \<Longrightarrow> fb_decision b' = fb_decision b \<Longrightarrow> fb_tenantId b' = fb_tenantId b \<Longrightarrow>
   item_locked db b' item = item_locked db b item"
  by (simp add: item_locked_def intent_locks_def ship_locked_def)

lemma map_batches_ok:
  assumes ok: "ful_but B db" and k: "\<And>b. b \<in> set (fulBatches db) \<Longrightarrow> keeps_batch B b (f b)"
  shows "ful_but B (db\<lparr> fulBatches := map f (fulBatches db) \<rparr>)"
proof -
  note p = ful_butD [OF ok]
  let ?db = "db\<lparr> fulBatches := map f (fulBatches db) \<rparr>"
  have ids: "map fb_id (map f (fulBatches db)) = map fb_id (fulBatches db)" using k by (simp add: keeps_batch_def)
  have lock: "item_locked ?db c item \<longleftrightarrow> item_locked db c item" for c item by (simp add: item_locked_def)
  have "item_locked db (f b) item"
    if "b \<in> set (fulBatches db)" "fb_status (f b) = I_PENDING" "fb_id (f b) \<notin> B" "item \<in> set (br_shipments (fb_payload (f b)))" for b item
    using that k [OF that(1)] p(3) item_locked_batch [of "f b" b] unfolding keeps_batch_def batches_ok_def by metis
  moreover have "\<exists>c\<in>set (map f (fulBatches db)). fb_id c = j \<and> fb_status c = I_PENDING \<and>
      di_id d \<in> bi_dispatchRequestId ` set (br_shipments (fb_payload c))"
    if d: "d \<in> set (dispatchIntents db)" "di_status d = I_PENDING" "di_batchId d = Some j" "j \<notin> B" for d j
  proof -
    obtain b where b: "b \<in> set (fulBatches db)" "fb_id b = j" "fb_status b = I_PENDING"
        "di_id d \<in> bi_dispatchRequestId ` set (br_shipments (fb_payload b))"
      using p(3) d unfolding batches_ok_def by metis
    with k [OF b(1)] d(4) show ?thesis by (intro bexI [of _ "f b"]) (auto simp: keeps_batch_def)
  qed
  moreover have "\<forall>b\<in>set (map f (fulBatches db)). batch_form b" using k by (auto simp: keeps_batch_def)
  moreover have "distinct (map fb_id (fulBatches ?db))" using p(3) ids by (simp add: batches_ok_def del: map_map)
  ultimately have "batches_ok B ?db"
    unfolding batches_ok_def by (simp add: lock del: map_map)
  with p show ?thesis by (auto simp: ful_but_def rows_ok_def intents_ok_def claims_ok_def)
qed

lemma update_batches_ok:
  assumes ok: "ful_but B db" and k: "\<And>b. b \<in> set (fulBatches db) \<Longrightarrow> q b \<Longrightarrow> keeps_batch B b (f b)"
  shows "ful_but B (db\<lparr> fulBatches := update_where q f (fulBatches db) \<rparr>)"
  unfolding update_where_def
proof (rule map_batches_ok [OF ok])
  fix b assume b: "b \<in> set (fulBatches db)"
  have "batch_form b" using ful_butD(3) [OF ok] b by (simp add: batches_ok_def)
  then show "keeps_batch B b (if q b then f b else b)" using k [OF b] by (simp add: keeps_batch_def)
qed

lemma setBatch_ok:
  assumes "ful_but B db" "\<And>b. b \<in> set (fulBatches db) \<Longrightarrow> fb_id b = i \<Longrightarrow> keeps_batch B b (f b)"
  shows "ful_but B (setBatch i f db)"
  unfolding setBatch_def using assms by (rule update_batches_ok)

lemma deferBatch_keeps: "keeps_ful B db (deferBatch env b now db)"
proof -
  have "ful_but B (deferBatch env b now db)" if ok: "ful_but B db"
    unfolding deferBatch_def using ok
    by (rule update_batches_ok) (use ful_butD(3) [OF ok] in \<open>auto simp: keeps_batch_def batch_form_def batches_ok_def\<close>)
  moreover have "evolves db (deferBatch env b now db)" by (rule evolves_same) (simp_all add: deferBatch_def)
  ultimately show ?thesis by (simp add: keeps_ful_def)
qed

lemma findBatch_D: "findBatch t i db = Some b \<Longrightarrow> b \<in> set (fulBatches db) \<and> fb_id b = i \<and> fb_tenantId b = t"
  by (auto simp: findBatch_def dest: find_Some_D)

lemma createFulBatch_D:
  "createFulBatch b db = Inr db' \<Longrightarrow> db' = db\<lparr> fulBatches := fulBatches db @ [b] \<rparr> \<and> (\<forall>c\<in>set (fulBatches db). fb_id c \<noteq> fb_id b)"
  by (auto simp: createFulBatch_def split: if_splits)

section \<open>Preparing\<close>

definition batchIntent :: "batch_request \<Rightarrow> instant \<Rightarrow> batch_item \<Rightarrow> dispatch_intent" where
  "batchIntent r now item = newIntent (bi_dispatchRequestId item) (br_tenantId r) (bi_shipmentId item)
     (bi_orderVersion item) (bi_shipmentVersion item) (br_actorId r) (br_requestId r) (Some (br_requestId r)) now"

lemma batchIntent_fields [simp]:
  "di_id (batchIntent r now item) = bi_dispatchRequestId item" "di_shipmentId (batchIntent r now item) = bi_shipmentId item"
  "di_tenantId (batchIntent r now item) = br_tenantId r" "di_status (batchIntent r now item) = I_PENDING"
  "di_batchId (batchIntent r now item) = Some (br_requestId r)"
  by (simp_all add: batchIntent_def newIntent_def)

definition item_free :: "batch_request \<Rightarrow> ful_db \<Rightarrow> batch_item \<times> uuid option \<Rightarrow> bool" where
  "item_free r db ip \<longleftrightarrow> (\<exists>x\<in>set (shipments db). sp_id x = bi_shipmentId (fst ip) \<and> sp_tenantId x = br_tenantId r \<and>
       sp_status x = S_READY_TO_SHIP) \<and>
     snd ip = map_option di_id (intentOf (bi_shipmentId (fst ip)) db) \<and> \<not> intent_blocks (bi_shipmentId (fst ip)) db"

definition without_prior :: "uuid option \<Rightarrow> ful_db \<Rightarrow> ful_db" where
  "without_prior pr db = (case pr of None \<Rightarrow> db | Some p \<Rightarrow> deleteIntent p db)"

lemma without_prior:
  assumes ok: "ful_but B db" and f: "item_free r db (item, pr)"
  shows "shipments (without_prior pr db) = shipments db" "fulBatches (without_prior pr db) = fulBatches db"
    "set (dispatchIntents (without_prior pr db)) = {d \<in> set (dispatchIntents db). di_shipmentId d \<noteq> bi_shipmentId item}"
    "keeps_ful B db (without_prior pr db)"
proof -
  note p = ful_butD [OF ok]
  have pr: "pr = map_option di_id (intentOf (bi_shipmentId item) db)" and nb: "\<not> intent_blocks (bi_shipmentId item) db"
    using f by (simp_all add: item_free_def)
  show "shipments (without_prior pr db) = shipments db" "fulBatches (without_prior pr db) = fulBatches db"
    by (simp_all add: without_prior_def split: option.splits)
  have "set (dispatchIntents (without_prior pr db)) = {d \<in> set (dispatchIntents db). di_shipmentId d \<noteq> bi_shipmentId item} \<and>
    keeps_ful B db (without_prior pr db)"
  proof (cases "intentOf (bi_shipmentId item) db")
    case None
    then have "\<forall>d\<in>set (dispatchIntents db). di_shipmentId d \<noteq> bi_shipmentId item"
      by (auto simp: intentOf_def find_None_iff)
    with None pr show ?thesis by (auto simp: without_prior_def)
  next
    case (Some e)
    then have e: "e \<in> set (dispatchIntents db)" "di_shipmentId e = bi_shipmentId item" by (simp_all add: intentOf_iff [OF p(2)])
    have "di_id d = di_id e \<longleftrightarrow> di_shipmentId d = bi_shipmentId item" if "d \<in> set (dispatchIntents db)" for d
      using intent_unique [OF p(2) that e(1)] e(2) by auto
    then have "set (dispatchIntents (without_prior pr db)) = {d \<in> set (dispatchIntents db). di_shipmentId d \<noteq> bi_shipmentId item}"
      using pr Some by (auto simp: without_prior_def)
    moreover have "di_status d = I_REJECTED" if "d \<in> set (dispatchIntents db)" "di_id d = di_id e" for d
      using intent_unique(1) [OF p(2) that(1) e(1) that(2)] nb Some by (simp add: intent_blocks_def)
    ultimately show ?thesis using pr Some deleteIntent_keeps [of db "di_id e"] by (auto simp: without_prior_def)
  qed
  then show "set (dispatchIntents (without_prior pr db)) = {d \<in> set (dispatchIntents db). di_shipmentId d \<noteq> bi_shipmentId item}"
    "keeps_ful B db (without_prior pr db)" by blast+
qed

lemma saveBatchIntents_Cons:
  "saveBatchIntents r ((item, pr) # xs) now db =
     bind_res (createIntent (batchIntent r now item) (without_prior pr db)) (saveBatchIntents r xs now)"
  by (simp add: batchIntent_def without_prior_def)

lemma saveBatchIntent_keeps:
  assumes ok: "ful_but {br_requestId r} db" and f: "item_free r db (item, pr)"
    and c: "createIntent (batchIntent r now item) (without_prior pr db) = Inr db'"
  shows "ful_but {br_requestId r} db' \<and> evolves db db'" "shipments db' = shipments db" "fulBatches db' = fulBatches db"
    "set (dispatchIntents db') = insert (batchIntent r now item) {d \<in> set (dispatchIntents db). di_shipmentId d \<noteq> bi_shipmentId item}"
proof -
  note D = without_prior [OF ok f] and c' = createIntent_D [OF c]
  from f obtain x where x: "x \<in> set (shipments db)" "sp_id x = bi_shipmentId item" "sp_tenantId x = br_tenantId r" "sp_status x = S_READY_TO_SHIP"
    by (auto simp: item_free_def)
  have "keeps_ful {br_requestId r} (without_prior pr db) db'"
    by (rule createIntent_keeps [OF c, of x]) (use x D(1) in simp_all)
  with keeps_ful_trans [OF D(4)] ok show "ful_but {br_requestId r} db' \<and> evolves db db'" unfolding keeps_ful_def by blast
  show "shipments db' = shipments db" "fulBatches db' = fulBatches db" using c' D(1,2) by simp_all
  show "set (dispatchIntents db') = insert (batchIntent r now item) {d \<in> set (dispatchIntents db). di_shipmentId d \<noteq> bi_shipmentId item}"
    using c' D(3) by auto
qed

lemma item_free_frame:
  assumes io: "intents_ok db" "intents_ok db1" and s: "shipments db1 = shipments db"
    and i: "set (dispatchIntents db1) = insert (batchIntent r now item) {d \<in> set (dispatchIntents db). di_shipmentId d \<noteq> bi_shipmentId item}"
    and f: "item_free r db jp" and n: "bi_shipmentId (fst jp) \<noteq> bi_shipmentId item"
  shows "item_free r db1 jp"
proof -
  have "intentOf (bi_shipmentId (fst jp)) db1 = Some d \<longleftrightarrow> intentOf (bi_shipmentId (fst jp)) db = Some d" for d
    using n by (auto simp: intentOf_iff [OF io(1)] intentOf_iff [OF io(2)] i)
  then have "intentOf (bi_shipmentId (fst jp)) db1 = intentOf (bi_shipmentId (fst jp)) db" by (metis option.exhaust)
  with f show ?thesis by (simp add: item_free_def s intent_blocks_def)
qed

lemma saveBatchIntents_keeps:
  assumes "ful_but {br_requestId r} db" "\<forall>ip\<in>set xs. item_free r db ip" "distinct (map (bi_shipmentId \<circ> fst) xs)"
    "saveBatchIntents r xs now db = Inr db'"
  shows "ful_but {br_requestId r} db' \<and> evolves db db' \<and> shipments db' = shipments db \<and> fulBatches db' = fulBatches db \<and>
    set (dispatchIntents db') = batchIntent r now ` fst ` set xs \<union>
      {d \<in> set (dispatchIntents db). di_shipmentId d \<notin> bi_shipmentId ` fst ` set xs}"
  using assms
proof (induction xs arbitrary: db)
  case (Cons ip xs)
  obtain item pr where ip: "ip = (item, pr)" by (cases ip)
  from Cons.prems(4) obtain db1 where c: "createIntent (batchIntent r now item) (without_prior pr db) = Inr db1"
    and rest: "saveBatchIntents r xs now db1 = Inr db'" by (auto simp: ip bind_res_Inr_iff saveBatchIntents_Cons simp del: saveBatchIntents.simps)
  have "item_free r db (item, pr)" using Cons.prems(2) by (simp add: ip)
  note k = saveBatchIntent_keeps [OF Cons.prems(1) this c]
  have io: "intents_ok db" "intents_ok db1" using ful_butD(2) Cons.prems(1) k(1) by blast+
  have "item_free r db1 jp" if jp: "jp \<in> set xs" for jp
    by (rule item_free_frame [OF io k(2,4)]) (use jp Cons.prems(2,3) in \<open>auto simp: ip image_iff\<close>)
  then have "\<forall>jp\<in>set xs. item_free r db1 jp" by blast
  from Cons.IH [OF conjunct1 [OF k(1)] this _ rest] Cons.prems(3) have
    ih: "ful_but {br_requestId r} db'" "evolves db1 db'" "shipments db' = shipments db1" "fulBatches db' = fulBatches db1"
      "set (dispatchIntents db') = batchIntent r now ` fst ` set xs \<union> {d \<in> set (dispatchIntents db1). di_shipmentId d \<notin> bi_shipmentId ` fst ` set xs}"
    by simp_all
  define F where "F = fst ` set xs"
  have F: "fst ` set (ip # xs) = insert item F" by (simp add: ip F_def)
  have "bi_shipmentId item \<notin> bi_shipmentId ` F" using Cons.prems(3) by (simp add: ip image_image F_def)
  then have "set (dispatchIntents db') = batchIntent r now ` fst ` set (ip # xs) \<union>
      {d \<in> set (dispatchIntents db). di_shipmentId d \<notin> bi_shipmentId ` fst ` set (ip # xs)}"
    unfolding F ih(5) [folded F_def] k(4) by auto
  with ih(1-4) k(1-3) evolves_trans show ?case by (metis (no_types, lifting))
qed simp

lemma no_pending_of_new_batch:
  assumes "batches_ok {} db" "\<forall>c\<in>set (fulBatches db). fb_id c \<noteq> j" "d \<in> set (dispatchIntents db)" "di_batchId d = Some j"
  shows "di_status d \<noteq> I_PENDING"
  using assms unfolding batches_ok_def by blast

lemma batch_item_ready_D:
  assumes "batch_item_ready r item db"
  shows "\<exists>x\<in>set (shipments db). the_shipment (br_tenantId r) (bi_shipmentId item) x \<and> sp_orderId x = bi_orderId item \<and>
      sp_reservationGroupId x = bi_reservationGroupId item \<and> sp_assignedTripId x = Some (br_tripId r) \<and>
      sp_status x = S_READY_TO_SHIP \<and> sp_version x = bi_shipmentVersion item" "\<not> intent_blocks (bi_shipmentId item) db"
  using assms by (auto simp: batch_item_ready_def the_shipment_def split: option.splits dest!: findShipment_D)

lemma newBatch_form: "batchRequestValid r \<Longrightarrow> batch_form (newBatch env r now)"
  by (simp add: batch_form_def newBatch_def)

text \<open>A batch that is rejected at once has no shipment of its own.\<close>

lemma rejectedBatch_keeps:
  assumes ok: "ful_but {} db" and v: "batch_form b" and c: "createFulBatch b db = Inr db'" and s: "fb_status b \<noteq> I_PENDING"
  shows "ful_but {} db' \<and> evolves db db'"
proof
  note c' = createFulBatch_D [OF c]
  have "ful_but {fb_id b} db'"
    using add_batch [OF ful_but_mono [OF ok, of "{fb_id b}"], of b] v c' by simp
  then show "ful_but {} db'"
    by (rule close_batch [where b = b]) (use c' s no_pending_of_new_batch [OF ful_butD(3) [OF ok], of "fb_id b"] in auto)
  show "evolves db db'" by (rule evolves_same) (use c' in simp_all)
qed

lemma preparedBatch_keeps:
  assumes ok: "ful_but {} db" and v: "batchRequestValid r" and rd: "\<forall>item\<in>set (br_shipments r). batch_item_ready r item db"
    and sv: "saveBatchIntents r (map (\<lambda>item. (item, map_option di_id (intentOf (bi_shipmentId item) db))) (br_shipments r)) now db = Inr db1"
    and c: "createFulBatch (newBatch env r now) db1 = Inr db'"
  shows "ful_but {} db' \<and> evolves db db'"
proof -
  let ?b = "newBatch env r now" and ?j = "br_requestId r"
  let ?xs = "map (\<lambda>item. (item, map_option di_id (intentOf (bi_shipmentId item) db))) (br_shipments r)"
  have b: "fb_id ?b = ?j" "fb_payload ?b = r" "fb_tenantId ?b = br_tenantId r" "fb_decision ?b = None" "fb_status ?b = I_PENDING"
    by (simp_all add: newBatch_def)
  have free: "\<forall>ip\<in>set ?xs. item_free r db ip"
    using rd batch_item_ready_D by (fastforce simp: item_free_def the_shipment_def)
  have "map (bi_shipmentId \<circ> fst) ?xs = map bi_shipmentId (br_shipments r)" by simp
  with batchRequestValid_distinct(1) [OF v] have dist: "distinct (map (bi_shipmentId \<circ> fst) ?xs)" by (simp only:)
  have fst_xs: "fst ` set ?xs = set (br_shipments r)" by (simp add: image_image)
  note k = saveBatchIntents_keeps [OF ful_but_mono [OF ok empty_subsetI] free dist sv, unfolded fst_xs]
  note c' = createFulBatch_D [OF c]
  have u: "ful_but {?j} db'"
    using add_batch [of "{?j}" db1 ?b] k c' newBatch_form [OF v] b(1) by simp
  have lock: "item_locked db' ?b item" if item: "item \<in> set (br_shipments r)" for item
  proof -
    have "\<exists>x\<in>set (shipments db). ship_locked ?b item x"
      using batch_item_ready_D(1) [of r item db] rd item unfolding ship_locked_def b by blast
    moreover have "intent_locks ?b item (batchIntent r now item)" by (simp add: intent_locks_def b)
    ultimately show ?thesis using k c' item by (auto simp: item_locked_def)
  qed
  have orig: "di_id d \<in> bi_dispatchRequestId ` set (br_shipments r)"
    if d: "d \<in> set (dispatchIntents db')" "di_status d = I_PENDING" "di_batchId d = Some ?j" for d
  proof -
    have "d \<in> batchIntent r now ` set (br_shipments r) \<or> d \<in> set (dispatchIntents db)" using d(1) c' k by auto
    moreover have "d \<notin> set (dispatchIntents db)"
      using no_pending_of_new_batch [OF ful_butD(3) [OF ok], of ?j d] c' k d(2,3) b(1) by auto
    ultimately show ?thesis by auto
  qed
  have "ful_but {} db'"
    by (rule close_batch [OF u, of ?b]) (use c' b lock orig in auto)
  moreover have "evolves db1 db'" by (rule evolves_same) (use c' in simp_all)
  ultimately show ?thesis using k evolves_trans by blast
qed

lemma prepareBatchTx_keeps:
  assumes v: "batchRequestValid r" and t: "prepareBatchTx env r now db = Inr db'"
  shows "keeps_ful {} db db'"
  unfolding keeps_ful_def
proof
  assume ok: "ful_but {} db"
  show "ful_but {} db' \<and> evolves db db'"
  proof (cases "findBatch (br_tenantId r) (br_requestId r) db")
    case (Some b)
    with t ok show ?thesis by (auto simp: prepareBatchTx_def split: if_splits)
  next
    case None
    show ?thesis
    proof (cases "\<forall>item\<in>set (br_shipments r). batch_item_ready r item db")
      case True
      with t None preparedBatch_keeps [OF ok v True] show ?thesis
        by (auto simp: prepareBatchTx_def Let_def bind_res_Inr_iff list_all_iff)
    next
      case False
      with t None obtain res where c: "createFulBatch ((newBatch env r now)\<lparr> fb_status := I_REJECTED, fb_stage := STAGE_REJECTED,
          fb_response := Some res, fb_lastError := Some ''SHIPMENT_NOT_DISPATCHABLE'' \<rparr>) db = Inr db'"
        by (auto simp: prepareBatchTx_def Let_def bind_res_Inr_iff list_all_iff split: if_splits)
      show ?thesis by (rule rejectedBatch_keeps [OF ok _ c]) (use newBatch_form [OF v, of env now] in \<open>simp_all add: batch_form_def\<close>)
    qed
  qed
qed

section \<open>Saving the decision\<close>

lemma attachGrants_keeps:
  assumes "ful_but {i} db" "\<forall>d\<in>set (dispatchIntents db). di_id d \<in> bi_dispatchRequestId ` set items \<longrightarrow> di_batchId d = Some i"
    "attachGrants dec items db = Inr db'"
  shows "ful_but {i} db' \<and> shipments db' = shipments db \<and> fulBatches db' = fulBatches db \<and> tripReceipts db' = tripReceipts db \<and>
    orderCursors db' = orderCursors db \<and>
    dispatchIntents db' = map (\<lambda>d. if di_id d \<in> bi_dispatchRequestId ` set items then d\<lparr> di_grantReceipt := Some dec \<rparr> else d) (dispatchIntents db)"
  using assms
proof (induction items arbitrary: db)
  case (Cons item items)
  let ?p = "\<lambda>e. di_id e = bi_dispatchRequestId item" and ?f = "\<lambda>e. e\<lparr> di_grantReceipt := Some dec \<rparr>"
  let ?db = "setIntents ?p ?f db"
  have a: "attachGrants dec items ?db = Inr db'" using Cons.prems(3) by (auto split: if_splits)
  have "ful_but {i} ?db"
    by (rule setIntents_ok [OF Cons.prems(1)]) (use Cons.prems(2) in \<open>auto simp: keeps_intent_def\<close>)
  moreover have "\<forall>d\<in>set (dispatchIntents ?db). di_id d \<in> bi_dispatchRequestId ` set items \<longrightarrow> di_batchId d = Some i"
    using Cons.prems(2) by (auto elim!: update_whereE)
  ultimately have ih: "ful_but {i} db'" "shipments db' = shipments ?db" "fulBatches db' = fulBatches ?db"
    "tripReceipts db' = tripReceipts ?db" "orderCursors db' = orderCursors ?db"
    "dispatchIntents db' = map (\<lambda>d. if di_id d \<in> bi_dispatchRequestId ` set items then ?f d else d) (dispatchIntents ?db)"
    using Cons.IH [OF _ _ a] by blast+
  have "map (\<lambda>d. if di_id d \<in> bi_dispatchRequestId ` set items then ?f d else d) (dispatchIntents ?db) =
      map (\<lambda>d. if di_id d \<in> bi_dispatchRequestId ` set (item # items) then ?f d else d) (dispatchIntents db)"
    by (auto simp: update_where_def)
  with ih show ?case by simp
qed simp

lemma pending_batch_intents:
  assumes ok: "ful_but {} db" and b: "b \<in> set (fulBatches db)" "fb_status b = I_PENDING"
    and d: "d \<in> set (dispatchIntents db)" "di_id d \<in> bi_dispatchRequestId ` set (br_shipments (fb_payload b))"
  shows "di_batchId d = Some (fb_id b)" "di_tenantId d = fb_tenantId b" "di_status d = I_PENDING"
proof -
  obtain item where item: "item \<in> set (br_shipments (fb_payload b))" "di_id d = bi_dispatchRequestId item" using d(2) by blast
  then obtain e where e: "e \<in> set (dispatchIntents db)" "intent_locks b item e"
    using ful_butD(3) [OF ok] b unfolding batches_ok_def item_locked_def by blast
  have "d = e" by (rule intent_unique(1) [OF ful_butD(2) [OF ok] d(1) e(1)]) (use e(2) item(2) in \<open>simp add: intent_locks_def\<close>)
  with e(2) show "di_batchId d = Some (fb_id b)" "di_tenantId d = fb_tenantId b" "di_status d = I_PENDING" by (simp_all add: intent_locks_def)
qed

lemma batch_id_unique:
  assumes "batches_ok B db" "b \<in> set (fulBatches db)" "c \<in> set (fulBatches db)" "fb_id b = fb_id c"
  shows "b = c"
  using assms by (auto simp: batches_ok_def dest: key_eq_imp_eq)

lemma pending_intent_batch:
  assumes "batches_ok {} db" "d \<in> set (dispatchIntents db)" "di_status d = I_PENDING" "di_batchId d = Some (fb_id b)"
    "b \<in> set (fulBatches db)"
  shows "di_id d \<in> bi_dispatchRequestId ` set (br_shipments (fb_payload b))"
proof -
  from assms(1-4) obtain c where c: "c \<in> set (fulBatches db)" "fb_id c = fb_id b"
    "di_id d \<in> bi_dispatchRequestId ` set (br_shipments (fb_payload c))" unfolding batches_ok_def by blast
  with batch_id_unique [OF assms(1) c(1) assms(5)] show ?thesis by simp
qed

lemma saveDecisionTx_keeps:
  assumes t: "saveDecisionTx t i (fb_payload b) dec db = Inr db'" and b: "findBatch t i db = Some b"
    and n: "fb_decision b = None \<or> fb_decision b = Some dec" and bind: "assertBatchDispatchGrantBinding (fb_payload b) dec"
  shows "keeps_ful {} db db'"
  unfolding keeps_ful_def
proof
  assume ok: "ful_but {} db"
  note fb = findBatch_D [OF b]
  show "ful_but {} db' \<and> evolves db db'"
  proof (cases "fb_status b = I_PENDING")
    case False
    with t b ok show ?thesis by (simp add: saveDecisionTx_def)
  next
    case True
    let ?st = "if is_granted dec then STAGE_GRANTED else STAGE_REJECTED"
    let ?f = "\<lambda>b. b\<lparr> fb_decision := Some dec, fb_stage := ?st \<rparr>" and ?ids = "bi_dispatchRequestId ` set (br_shipments (fb_payload b))"
    let ?db1 = "setBatch i ?f db"
    have a: "(if is_granted dec then attachGrants dec (br_shipments (fb_payload b)) ?db1 else Inr ?db1) = Inr db'"
      using t b True by (simp add: saveDecisionTx_def Let_def)
    note oki = ful_but_mono [OF ok, of "{i}"]
    have only: "c = b" if "c \<in> set (fulBatches db)" "fb_id c = i" for c
      using batch_id_unique [OF ful_butD(3) [OF ok] that(1)] fb that(2) by simp
    have form: "batch_form b" using ful_butD(3) [OF ok] fb by (simp add: batches_ok_def)
    have k1: "ful_but {i} ?db1"
      by (rule setBatch_ok [OF oki]) (use only form bind in \<open>auto simp: keeps_batch_def batch_form_def\<close>)
    note pend = pending_batch_intents [OF ok conjunct1 [OF fb] True]
    have own: "\<forall>d\<in>set (dispatchIntents ?db1). di_id d \<in> ?ids \<longrightarrow> di_batchId d = Some i" using pend(1) fb by auto
    have k2: "ful_but {i} db' \<and> shipments db' = shipments db \<and> fulBatches db' = fulBatches ?db1 \<and> tripReceipts db' = tripReceipts db \<and>
      orderCursors db' = orderCursors db \<and>
      dispatchIntents db' = map (\<lambda>d. if is_granted dec \<and> di_id d \<in> ?ids then d\<lparr> di_grantReceipt := Some dec \<rparr> else d) (dispatchIntents db)"
    proof (cases "is_granted dec")
      case g: True
      with a have "attachGrants dec (br_shipments (fb_payload b)) ?db1 = Inr db'" by simp
      from attachGrants_keeps [OF k1 own this] g show ?thesis by simp
    next
      case g: False
      with a have "db' = ?db1" by simp
      with k1 g show ?thesis by simp
    qed
    have bin: "?f b \<in> set (fulBatches db')" using update_where_mem [of b "fulBatches db" "\<lambda>c. fb_id c = i" ?f] fb k2 by simp
    have lock: "item_locked db' (?f b) item" if item: "item \<in> set (br_shipments (fb_payload b))" for item
    proof -
      have "item_locked db b item" using ful_butD(3) [OF ok] fb True item unfolding batches_ok_def by blast
      then obtain d x where d: "d \<in> set (dispatchIntents db)" "intent_locks b item d" and x: "x \<in> set (shipments db)" "ship_locked b item x"
        by (auto simp: item_locked_def)
      let ?d = "if is_granted dec \<and> di_id d \<in> ?ids then d\<lparr> di_grantReceipt := Some dec \<rparr> else d"
      have "?d \<in> set (dispatchIntents db')" using d(1) k2 by simp
      moreover have "intent_locks (?f b) item ?d" using d(2) item by (auto simp: intent_locks_def)
      moreover have "x \<in> set (shipments db')" using x(1) k2 by simp
      moreover have "ship_locked (?f b) item x" using x(2) by (simp add: ship_locked_def)
      ultimately show ?thesis by (rule item_lockedI)
    qed
    have orig: "di_id d \<in> ?ids" if o: "d \<in> set (dispatchIntents db')" "di_status d = I_PENDING" "di_batchId d = Some i" for d
    proof -
      obtain e where "e \<in> set (dispatchIntents db)" "di_id d = di_id e" "di_status e = I_PENDING" "di_batchId e = Some i"
        using o k2 by (auto split: if_splits)
      with pending_intent_batch [OF ful_butD(3) [OF ok], of e b] fb show ?thesis by simp
    qed
    have "ful_but {} db'" by (rule close_batch [OF conjunct1 [OF k2] bin]) (use fb lock orig True in auto)
    moreover have "evolves db db'" by (rule evolves_same) (use k2 in simp_all)
    ultimately show ?thesis by blast
  qed
qed

section \<open>Carrying the decision out\<close>

definition own_intents :: "uuid \<Rightarrow> uuid \<Rightarrow> batch_item list \<Rightarrow> ful_db \<Rightarrow> bool" where
  "own_intents t i items db \<longleftrightarrow> (\<forall>d\<in>set (dispatchIntents db). di_id d \<in> bi_dispatchRequestId ` set items \<longrightarrow>
     di_batchId d = Some i \<and> di_tenantId d = t)"

definition settled :: "batch_item list \<Rightarrow> ful_db \<Rightarrow> ful_db \<Rightarrow> bool" where
  "settled items db db' \<longleftrightarrow> fulBatches db' = fulBatches db \<and> tripReceipts db' = tripReceipts db \<and>
     (\<forall>d'\<in>set (dispatchIntents db'). di_id d' \<in> di_id ` set (dispatchIntents db) \<and>
        (\<exists>d\<in>set (dispatchIntents db). di_id d = di_id d' \<and> di_batchId d = di_batchId d' \<and> di_tenantId d = di_tenantId d' \<and>
           (di_status d' = I_PENDING \<longrightarrow> d' = d \<and> di_id d \<notin> bi_dispatchRequestId ` set items)))"

lemma settled_refl: "settled [] db db"
  by (auto simp: settled_def)

lemma settled_update:
  assumes "fulBatches db' = fulBatches db" "tripReceipts db' = tripReceipts db"
    and i: "dispatchIntents db' = update_where p f (dispatchIntents db)"
    and f: "\<And>d. di_id (f d) = di_id d \<and> di_batchId (f d) = di_batchId d \<and> di_tenantId (f d) = di_tenantId d \<and> di_status (f d) \<noteq> I_PENDING"
    and n: "\<And>d. d \<in> set (dispatchIntents db) \<Longrightarrow> \<not> p d \<Longrightarrow> di_status d = I_PENDING \<Longrightarrow> di_id d \<notin> bi_dispatchRequestId ` set items"
  shows "settled items db db'"
  unfolding settled_def
proof (intro conjI ballI)
  fix d assume d: "d \<in> set (dispatchIntents db')"
  then obtain e where e: "e \<in> set (dispatchIntents db)" "d = (if p e then f e else e)" by (auto simp: i in_set_update_where)
  then show "\<exists>e\<in>set (dispatchIntents db). di_id e = di_id d \<and> di_batchId e = di_batchId d \<and> di_tenantId e = di_tenantId d \<and>
      (di_status d = I_PENDING \<longrightarrow> d = e \<and> di_id e \<notin> bi_dispatchRequestId ` set items)"
    using f [of e] n [of e] by (intro bexI [OF _ e(1)]) auto
  show "di_id d \<in> di_id ` set (dispatchIntents db)" using e f [of e] by auto
qed (use assms in simp_all)

lemma settled_trans:
  assumes "settled [item] a b" "settled items b c"
  shows "settled (item # items) a c"
  unfolding settled_def
proof (intro conjI ballI)
  fix d assume d: "d \<in> set (dispatchIntents c)"
  obtain e where e: "e \<in> set (dispatchIntents b)" "di_id e = di_id d" "di_batchId e = di_batchId d" "di_tenantId e = di_tenantId d"
      "di_status d = I_PENDING \<longrightarrow> d = e \<and> di_id e \<notin> bi_dispatchRequestId ` set items"
    using assms(2) d unfolding settled_def by blast
  then obtain f where f: "f \<in> set (dispatchIntents a)" "di_id f = di_id e" "di_batchId f = di_batchId e" "di_tenantId f = di_tenantId e"
      "di_status e = I_PENDING \<longrightarrow> e = f \<and> di_id f \<notin> bi_dispatchRequestId ` set [item]"
    using assms(1) unfolding settled_def by blast
  show "\<exists>f\<in>set (dispatchIntents a). di_id f = di_id d \<and> di_batchId f = di_batchId d \<and> di_tenantId f = di_tenantId d \<and>
      (di_status d = I_PENDING \<longrightarrow> d = f \<and> di_id f \<notin> bi_dispatchRequestId ` set (item # items))"
    using e f by (intro bexI [OF _ f(1)]) auto
  show "di_id d \<in> di_id ` set (dispatchIntents a)" using f(1,2) e(2) by (metis imageI)
qed (use assms in \<open>simp_all add: settled_def\<close>)

lemma own_intents_settled: "own_intents t i (item # items) a \<Longrightarrow> settled [item] a b \<Longrightarrow> own_intents t i items b"
  unfolding own_intents_def settled_def by (metis image_insert insertI2 list.simps(15))

lemma commitItem_keeps:
  assumes ok: "ful_but {i} db" and own: "own_intents t i [item] db" and c: "commitItem t i r dec item now db = Inr (rs, db')"
  shows "ful_but {i} db' \<and> evolves db db'" "settled [item] db db'"
proof -
  have "(ful_but {i} db' \<and> evolves db db') \<and> settled [item] db db'"
  proof (cases dec)
    case (REJECTED b why)
    let ?p = "\<lambda>d. di_id d = bi_dispatchRequestId item \<and> di_tenantId d = t \<and> di_status d = I_PENDING"
    let ?f = "\<lambda>d. d\<lparr> di_status := I_REJECTED, di_rejectionReason := Some why \<rparr>"
    have db': "db' = setIntents ?p ?f db" using c REJECTED by (simp add: commitItem_def)
    have "keeps_ful {i} db db'"
      unfolding db' by (rule setIntents_keeps) (use own in \<open>auto simp: keeps_intent_def own_intents_def\<close>)
    moreover have "settled [item] db db'"
      by (rule settled_update [where p = ?p and f = ?f]) (use own in \<open>auto simp: db' own_intents_def\<close>)
    ultimately show ?thesis using ok by (simp add: keeps_ful_def)
  next
    case (GRANTED b gs)
    then obtain x d where x: "List.find (the_shipment t (bi_shipmentId item)) (shipments db) = Some x"
      and d: "intentOf (bi_shipmentId item) db = Some d" "di_id d = bi_dispatchRequestId item" and st: "sp_status x = S_READY_TO_SHIP"
      using c by (auto simp: commitItem_def split: option.splits if_splits)
    note fx = find_Some_D [OF x]
    have d': "d \<in> set (dispatchIntents db)" "di_shipmentId d = bi_shipmentId item"
      using d(1) by (simp_all add: intentOf_iff [OF ful_butD(2) [OF ok]])
    from c x d st GRANTED obtain x' db1 ctx where u: "updateShipment t (bi_shipmentId item) (dispatchRow (decidedAt dec)) now db = Inr (x', db1)"
      and r: "recordShipment x' (Some (sp_status x)) E_DISPATCHED ctx None (Some (bi_dispatchRequestId item)) now (completeIntent (di_id d) db1) = Inr db'"
      by (auto simp: commitItem_def bind_res_Inr_iff split: if_splits)
    have o: "di_batchId d = Some i" using own d(2) d'(1) by (simp add: own_intents_def)
    note k = dispatched_keeps [OF ok conjunct1 [OF fx] _ _ st d' _ u r]
    have x3: "sp_id x = bi_shipmentId item" "sp_tenantId x = t" using fx by (simp_all add: the_shipment_def)
    have "settled [item] db db'"
      by (rule settled_update [where p = "\<lambda>e. di_id e = di_id d" and f = "\<lambda>e. e\<lparr> di_status := I_COMPLETED \<rparr>"])
         (use k(4-6) o d(2) x3 in auto)
    with k(1) o x3 show ?thesis by auto
  qed
  then show "ful_but {i} db' \<and> evolves db db'" "settled [item] db db'" by auto
qed

lemma commitItems_keeps:
  assumes "ful_but {i} db" "own_intents t i items db" "commitItems t i r dec items now db = Inr (rs, db')"
  shows "ful_but {i} db' \<and> evolves db db' \<and> settled items db db'"
  using assms
proof (induction items arbitrary: db rs)
  case Nil
  then show ?case by (simp add: settled_refl)
next
  case (Cons item items)
  then obtain r1 db1 r2 where c: "commitItem t i r dec item now db = Inr (r1, db1)"
    and cs: "commitItems t i r dec items now db1 = Inr (r2, db')" by (auto simp: bind_res_Inr_iff)
  have "own_intents t i [item] db" using Cons.prems(2) by (auto simp: own_intents_def)
  note k = commitItem_keeps [OF Cons.prems(1) this c]
  from Cons.IH [OF conjunct1 [OF k(1)] own_intents_settled [OF Cons.prems(2) k(2)] cs] k settled_trans [OF k(2)] evolves_trans
  show ?case by blast
qed

lemma commitTx_keeps:
  assumes t: "commitTx t i (fb_payload b) dec now db = Inr db'" and b: "findBatch t i db = Some b"
  shows "keeps_ful {} db db'"
  unfolding keeps_ful_def
proof
  assume ok: "ful_but {} db"
  note fb = findBatch_D [OF b]
  show "ful_but {} db' \<and> evolves db db'"
  proof (cases "fb_status b = I_PENDING")
    case False
    with t b ok show ?thesis by (simp add: commitTx_def)
  next
    case True
    let ?st = "if is_granted dec then I_COMPLETED else I_REJECTED" and ?sg = "if is_granted dec then STAGE_COMPLETED else STAGE_REJECTED"
    from t b True obtain rs db1 res where c: "commitItems t i (fb_payload b) dec (br_shipments (fb_payload b)) now db = Inr (rs, db1)"
      and db': "db' = setBatch i (\<lambda>b. b\<lparr> fb_status := ?st, fb_stage := ?sg, fb_response := Some res \<rparr>) db1"
      by (auto simp: commitTx_def bind_res_Inr_iff Let_def)
    let ?f = "\<lambda>b. b\<lparr> fb_status := ?st, fb_stage := ?sg, fb_response := Some res \<rparr>"
    have "own_intents t i (br_shipments (fb_payload b)) db"
      using pending_batch_intents [OF ok conjunct1 [OF fb] True] fb by (simp add: own_intents_def)
    note k = commitItems_keeps [OF ful_but_mono [OF ok empty_subsetI] this c]
    have k1: "ful_but {i} db1" "evolves db db1" "settled (br_shipments (fb_payload b)) db db1" using k by auto
    have form: "batch_form c" if "c \<in> set (fulBatches db1)" for c using ful_butD(3) [OF k1(1)] that by (simp add: batches_ok_def)
    have k2: "ful_but {i} db'"
      unfolding db' by (rule setBatch_ok [OF k1(1)]) (use form in \<open>auto simp: keeps_batch_def batch_form_def\<close>)
    have bin: "?f b \<in> set (fulBatches db')"
      using update_where_mem [of b "fulBatches db1" "\<lambda>c. fb_id c = i" ?f] fb k1(3) by (simp add: db' settled_def)
    have none: "\<not> (di_status d = I_PENDING \<and> di_batchId d = Some i)" if d: "d \<in> set (dispatchIntents db')" for d
    proof
      assume p: "di_status d = I_PENDING \<and> di_batchId d = Some i"
      with d k1(3) have e: "d \<in> set (dispatchIntents db)" "di_id d \<notin> bi_dispatchRequestId ` set (br_shipments (fb_payload b))"
        unfolding settled_def db' by auto
      with pending_intent_batch [OF ful_butD(3) [OF ok], of d b] p fb show False by simp
    qed
    have "ful_but {} db'" by (rule close_batch [OF k2 bin]) (use fb none in auto)
    moreover have "evolves db1 db'" by (rule evolves_same) (simp_all add: db')
    ultimately show ?thesis using k1(2) evolves_trans by blast
  qed
qed

lemma commitBatch_keeps: "commitBatch t i now db = Inr db' \<Longrightarrow> keeps_ful {} db db'"
  by (auto simp: commitBatch_def split: option.splits if_splits intro: commitTx_keeps)

end
