(* ===== verification/Fulfillment_Steps.thy ===== *)
theory Fulfillment_Steps
  imports Fulfillment_Batches
begin

text \<open>
  The remaining transactions (claims, releases, delivery results) and the step relation of the fulfilment
  service: one step is one transaction of one of its operations, so any interleaving of operations, and an
  operation that stops between two of its transactions, is a sequence of steps. The operations as a whole
  are sequences of steps.
\<close>

section \<open>Claims and releases\<close>

lemma createTripReceipt_D:
  "createTripReceipt r db = Inr db' \<Longrightarrow> db' = db\<lparr> tripReceipts := tripReceipts db @ [r] \<rparr> \<and>
     (\<forall>q\<in>set (tripReceipts db). (tr_tenantId q, tr_requestId q) \<noteq> (tr_tenantId r, tr_requestId r))"
  by (auto simp: createTripReceipt_def findReceipt_def find_None_iff split: if_splits)

lemma claims_ok_add:
  assumes ok: "rows_ok db" "claims_ok db" and c: "ship_change x x' db db'" and r: "tripReceipts db' = tripReceipts db @ [r]"
    and n: "\<forall>q\<in>set (tripReceipts db). (tr_tenantId q, tr_requestId q) \<noteq> (tr_tenantId r, tr_requestId r)"
    and v: "receipt_ok r" "tr_claimId r < ful_next db'"
    and f: "tr_operation r = CLAIM \<Longrightarrow> tr_claimId r = ful_next db"
    and h: "claim_held (tripReceipts db') x'"
  shows "claims_ok db'"
proof -
  note c' = c [unfolded ship_change_def]
  have "distinct (map (\<lambda>q. (tr_tenantId q, tr_requestId q)) (tripReceipts db'))"
    using ok(2) n unfolding claims_ok_def r by (auto simp: image_iff)
  moreover have "tr_claimId q < ful_next db' \<and> receipt_ok q" if "q \<in> set (tripReceipts db')" for q
    using that ok(2) v c' unfolding claims_ok_def r by (auto dest!: bspec)
  moreover have "q = q'" if q: "q \<in> set (tripReceipts db')" "q' \<in> set (tripReceipts db')"
      "tr_operation q = CLAIM" "tr_operation q' = CLAIM" "tr_claimId q = tr_claimId q'" for q q'
  proof -
    have "tr_claimId p < ful_next db" if "p \<in> set (tripReceipts db)" for p using ok(2) that by (simp add: claims_ok_def)
    then have "q = r \<longleftrightarrow> q' = r" using q f unfolding r by (metis Un_iff empty_iff insert_iff less_irrefl list.set(1,2) set_append)
    then show ?thesis using q ok(2) unfolding r claims_ok_def by auto
  qed
  moreover have "claim_held (tripReceipts db') y" if "y \<in> set (shipments db')" for y
  proof (cases "y = x'")
    case False
    then have "y \<in> set (shipments db)" using that ship_change_set [OF ok(1) c] by auto
    then have "claim_held (tripReceipts db) y" using ok(2) by (simp add: claims_ok_def)
    then show ?thesis unfolding claim_held_def r by auto
  qed (use h in simp)
  ultimately show ?thesis unfolding claims_ok_def by blast
qed

lemma claimReceipt_D:
  "claimReceipt p c v now = Inr rc \<Longrightarrow> assertShipmentClaimReceiptBinding p rc \<and> ct_claimId rc = c \<and> ct_shipmentVersion rc = v"
  by (auto simp: claimReceipt_def Let_def bind_res_Inr_iff safeVersion_def split: if_splits)

text \<open>A claim that is not a replay.\<close>

lemma claimTx_D:
  assumes "claimTx p now db = Inr (res, db')" "findReceipt (cq_tenantId p) (cq_requestId p) db = None"
  shows "\<exists>x x' db1 rc snap r. loadShipment (cq_tenantId p) (cq_shipmentId p) db = Inr x \<and> claimable x db \<and>
    sp_version x = cq_expectedShipmentVersion p \<and>
    updateShipment (cq_tenantId p) (sp_id x) (claimRow (cq_tripId p) (ful_next db)) now db = Inr (x', db1) \<and>
    claimReceipt p (ful_next db) (sp_version x') now = Inr rc \<and> res = ClaimResponse rc snap \<and>
    r = \<lparr> tr_id = ful_next db + 1, tr_tenantId = cq_tenantId p, tr_requestId = cq_requestId p,
          tr_shipmentId = cq_shipmentId p, tr_tripId = cq_tripId p, tr_claimId = ful_next db, tr_actorId = cq_actorId p,
          tr_operation = CLAIM, tr_requestPayload = ClaimRequest p, tr_responsePayload = ClaimResponse rc snap, tr_createdAt = now \<rparr> \<and>
    createTripReceipt r (db1\<lparr> ful_next := ful_next db + 2 \<rparr>) = Inr db'"
  using assms by (auto simp: claimTx_def bind_res_Inr_iff Let_def assertShipmentVersion_def split: if_splits)

lemma claimTx_keeps:
  assumes t: "claimTx p now db = Inr (res, db')" and v: "claimRequestValid p"
  shows "keeps_ful B db db'"
proof (cases "findReceipt (cq_tenantId p) (cq_requestId p) db")
  case (Some q)
  with t show ?thesis by (auto simp: claimTx_def split: if_splits)
next
  case None
  show ?thesis unfolding keeps_ful_def
  proof
    assume ok: "ful_but B db"
    note p = ful_butD [OF ok]
    from claimTx_D [OF t None] obtain x x' db1 rc snap r where l: "loadShipment (cq_tenantId p) (cq_shipmentId p) db = Inr x"
      and cl: "claimable x db" and u: "updateShipment (cq_tenantId p) (sp_id x) (claimRow (cq_tripId p) (ful_next db)) now db = Inr (x', db1)"
      and rc: "claimReceipt p (ful_next db) (sp_version x') now = Inr rc"
      and r: "r = \<lparr> tr_id = ful_next db + 1, tr_tenantId = cq_tenantId p, tr_requestId = cq_requestId p,
          tr_shipmentId = cq_shipmentId p, tr_tripId = cq_tripId p, tr_claimId = ful_next db, tr_actorId = cq_actorId p,
          tr_operation = CLAIM, tr_requestPayload = ClaimRequest p, tr_responsePayload = ClaimResponse rc snap, tr_createdAt = now \<rparr>"
      and cr: "createTripReceipt r (db1\<lparr> ful_next := ful_next db + 2 \<rparr>) = Inr db'" by blast
    note lx = loadShipment_D [OF l] and cr' = createTripReceipt_D [OF cr] and f = updateShipment_frame [OF u]
    note c1 = updateShipment_change [OF p(1) u _ _ refl]
    have x': "x' = (claimRow (cq_tripId p) (ful_next db) x)\<lparr> sp_updatedAt := now \<rparr>" and ch: "ship_change x x' db db'"
      using c1 lx cr' f by (simp_all add: ship_change_def)
    have "row_ok x" using p(1) lx by (simp add: rows_ok_def)
    then have row: "row_ok x'" by (simp add: x' claimRow_def row_ok_def)
    have tr: "tripReceipts db' = tripReceipts db @ [r]" using cr' f by simp
    have cok: "claims_ok db'"
      by (rule claims_ok_add [OF p(1,4) ch tr])
         (use cr' f r lx claimReceipt_D [OF rc] v in \<open>auto simp: receipt_ok_def claim_held_def x' claimRow_def\<close>)
    have st: "sp_status x' = sp_status x" by (simp add: x' claimRow_def)
    have "ful_but B db'"
      by (rule ship_step [OF ok ch row _ _ unlocked_blocks [OF _ p(2)] _ cok]) (use cr' f cl st in \<open>simp_all add: claimable_def\<close>)
    moreover have "evolves db db'"
      by (rule evolves_change [OF p(1) ch]) (use st tr cr' f cl in \<open>auto simp: claimable_def\<close>)
    ultimately show "ful_but B db' \<and> evolves db db'" by blast
  qed
qed

lemma requestConflict_Inr [simp]: "requestConflict r = Inr x \<longleftrightarrow> r = Inr x"
  by (cases r) (simp_all add: requestConflict_def)

lemma claimShipment_keeps: "claimShipment p now db = Inr (res, db') \<Longrightarrow> keeps_ful B db db'"
  by (auto simp: claimShipment_def split: if_splits intro: claimTx_keeps)

lemma releaseReceiptOf_D:
  "releaseReceiptOf p v now = Inr rc \<Longrightarrow> assertShipmentReleaseReceiptBinding p rc"
  by (auto simp: releaseReceiptOf_def Let_def bind_res_Inr_iff split: if_splits)

lemma releaseTx_keeps:
  assumes t: "releaseTx p now db = Inr (res, db')"
  shows "keeps_ful B db db'"
proof (cases "findReceipt (lr_tenantId p) (lr_requestId p) db")
  case (Some q)
  with t show ?thesis by (auto simp: releaseTx_def split: if_splits)
next
  case None
  show ?thesis unfolding keeps_ful_def
  proof
    assume ok: "ful_but B db"
    note p = ful_butD [OF ok]
    from t None obtain x x' db1 rc r where l: "loadShipment (lr_tenantId p) (lr_shipmentId p) db = Inr x"
      and rl: "releasable x p db" and u: "updateShipment (lr_tenantId p) (sp_id x) releaseRow now db = Inr (x', db1)"
      and rc: "releaseReceiptOf p (sp_version x') now = Inr rc"
      and r: "r = \<lparr> tr_id = ful_next db, tr_tenantId = lr_tenantId p, tr_requestId = lr_requestId p, tr_shipmentId = lr_shipmentId p,
          tr_tripId = lr_tripId p, tr_claimId = lr_claimId p, tr_actorId = lr_actorId p, tr_operation = RELEASE,
          tr_requestPayload = ReleaseRequest p, tr_responsePayload = ReleaseResponse rc, tr_createdAt = now \<rparr>"
      and cr: "createTripReceipt r (db1\<lparr> ful_next := ful_next db + 1 \<rparr>) = Inr db'"
      by (auto simp: releaseTx_def bind_res_Inr_iff split: if_splits option.splits)
    note lx = loadShipment_D [OF l] and cr' = createTripReceipt_D [OF cr] and f = updateShipment_frame [OF u]
    note c1 = updateShipment_change [OF p(1) u _ _ refl]
    have x': "x' = (releaseRow x)\<lparr> sp_updatedAt := now \<rparr>" and ch: "ship_change x x' db db'"
      using c1 lx cr' f by (simp_all add: ship_change_def)
    have rx: "row_ok x" "claim_held (tripReceipts db) x" using p(1,4) lx by (simp_all add: rows_ok_def claims_ok_def)
    then have row: "row_ok x'" by (simp add: x' releaseRow_def row_ok_def)
    have claim: "sp_tripClaimId x = Some (lr_claimId p)" using rl by (simp add: releasable_def)
    then obtain q where "q \<in> set (tripReceipts db)" "tr_claimId q = lr_claimId p" using rx(2) by (auto simp: claim_held_def)
    then have lt: "lr_claimId p < ful_next db" using p(4) by (auto simp: claims_ok_def)
    have tr: "tripReceipts db' = tripReceipts db @ [r]" using cr' f by simp
    have cok: "claims_ok db'"
      by (rule claims_ok_add [OF p(1,4) ch tr])
         (use cr' f r lx lt releaseReceiptOf_D [OF rc] in \<open>auto simp: receipt_ok_def claim_held_def x' releaseRow_def\<close>)
    have st: "sp_status x' = sp_status x" by (simp add: x' releaseRow_def)
    have "ful_but B db'"
      by (rule ship_step [OF ok ch row _ _ unlocked_blocks [OF _ p(2)] _ cok]) (use cr' f rl st in \<open>simp_all add: releasable_def\<close>)
    moreover have "evolves db db'"
      by (rule evolves_change [OF p(1) ch]) (use st tr cr' f claim r in \<open>auto simp: released_def\<close>)
    ultimately show "ful_but B db' \<and> evolves db db'" by blast
  qed
qed

lemma releaseShipment_keeps: "releaseShipment p now db = Inr (res, db') \<Longrightarrow> keeps_ful B db db'"
  by (auto simp: releaseShipment_def split: option.splits intro: releaseTx_keeps)

section \<open>Delivery results\<close>

lemma saveReceipt_keeps:
  assumes "saveReceipt env e key receipt det now db = Inr db'"
  shows "keeps_ful B db db'"
proof (cases receipt)
  case None
  with assms show ?thesis by (auto simp: saveReceipt_def intro: ful_inbox_create_keeps)
next
  case (Some r)
  with assms show ?thesis by (auto simp: saveReceipt_def same_tables_def intro!: same_tables_keeps)
qed

lemma deferResult_keeps: "deferResult env e key receipt err now db = Inr db' \<Longrightarrow> keeps_ful B db db'"
  by (auto simp: deferResult_def Let_def intro: saveReceipt_keeps)

lemma parkConflict_keeps: "keeps_ful B db (parkConflict r now db)"
  by (rule same_tables_keeps) (simp_all add: parkConflict_def same_tables_def)

lemma deliverRow_fields [simp]:
  "sp_status (deliverRow p x) = outcome_status (dv_outcome p)" "sp_version (deliverRow p x) = sp_version x + 1"
  "sp_deletedAt (deliverRow p x) = sp_deletedAt x" "sp_dispatchIssuedAt (deliverRow p x) = sp_dispatchIssuedAt x"
  "sp_assignedTripId (deliverRow p x) = sp_assignedTripId x" "sp_tripClaimId (deliverRow p x) = sp_tripClaimId x"
  by (simp_all add: deliverRow_def Let_def split: delivery_outcome.splits)

lemma outcome_left [simp]: "has_left (outcome_status q)" "outcome_status q = S_DELIVERED \<or> outcome_status q = S_FAILED"
  by (cases q; simp add: has_left_def)+

text \<open>What was dispatched at the look of a delivery result has left by the time it is written.\<close>

definition left_since :: "ful_db \<Rightarrow> ful_db \<Rightarrow> bool" where
  "left_since db0 db \<longleftrightarrow> (\<forall>x\<in>set (shipments db0). sp_status x = S_DISPATCHED \<longrightarrow>
     (\<exists>y\<in>set (shipments db). sp_id y = sp_id x \<and> sp_tenantId y = sp_tenantId x \<and> has_left (sp_status y)))"

lemma left_since_refl [simp, intro]: "left_since db db"
  by (auto simp: left_since_def has_left_def)

lemma applyResult_keeps:
  assumes a: "applyResult env e p key receipt now db0 db = Inr db'" and l: "left_since db0 db"
  shows "keeps_ful B db db'"
proof -
  have "keeps_ful B db db'"
    if x: "findShipment (ev_tenantId e) (dv_shipmentId p) db0 = Some x" and st: "sp_status x = S_DISPATCHED"
      and u: "updateShipment (ev_tenantId e) (sp_id x) (deliverRow p) now db = Inr (x', db1)"
      and r: "recordShipment x' (Some (sp_status x)) ev (eventContext e) (dv_reason p) None now db1 = Inr db2"
      and s: "saveReceipt env e key receipt det now db2 = Inr db'" for x x' db1 db2 ev det
  proof -
    have "keeps_ful B db db2" unfolding keeps_ful_def
    proof
      assume ok: "ful_but B db"
      note p = ful_butD [OF ok] and fx = findShipment_D [OF x]
      from l fx st obtain y where y: "y \<in> set (shipments db)" "sp_id y = sp_id x" "sp_tenantId y = ev_tenantId e" "has_left (sp_status y)"
        unfolding left_since_def by metis
      note c = recorded_update [OF p(1) u _ y(1-3) r]
      have "row_ok y" "sp_status y \<noteq> S_READY_TO_SHIP" using p(1) y(1,4) by (auto simp: rows_ok_def has_left_def)
      then show "ful_but B db2 \<and> evolves db db2"
        using ship_keeps [OF ok c(2) _ c(3-6) left_unlocked [OF p(1,2) y(1)]] c(1) y(4)
        by (auto simp: row_ok_def has_left_def intro: ship_life.intros)
    qed
    with saveReceipt_keeps [OF s] keeps_ful_trans show ?thesis by blast
  qed
  with a show ?thesis
    by (auto simp: applyResult_def bind_res_Inr_iff split: option.splits if_splits intro: saveReceipt_keeps deferResult_keeps)
qed

lemma persistOrApply_keeps: "persistOrApply env now e p db0 db = Inr db' \<Longrightarrow> left_since db0 db \<Longrightarrow> keeps_ful B db db'"
  by (auto simp: persistOrApply_def settleResult_def Let_def split: option.splits if_splits
      intro: applyResult_keeps saveReceipt_keeps keeps_ful_trans [OF parkConflict_keeps saveReceipt_keeps])

section \<open>The step relation\<close>

text \<open>
  One transaction per step. The local steps need no decision of the order service; the others carry one out:
  a shipment leaves with a grant, the decision of a batch is saved, a batch is carried out. The order
  service's answers are not constrained here: a step may use any that passes the checks of the client. The
  pre-read of an order event may be of an older database, and so may the look of a delivery result at its
  shipment; by \<open>steps_left_since\<close> the premise holds of every database the service was in before. A grant or a refusal is carried out for an intent
  of its own, never for one of a batch; request ids are not reused between the two.
\<close>

inductive ful_local :: "'ord order_api \<Rightarrow> ful_env \<Rightarrow> ful_db \<Rightarrow> ful_db \<Rightarrow> bool" for api env where
  order_event: "handleShipmentOrderEvent api env now s db0 e db = Inr db' \<Longrightarrow> ful_local api env db db'"
| manual: "to \<in> set MANUAL_TARGETS \<Longrightarrow> transitionTx i ver to ctx reason now db = Inr db' \<Longrightarrow> ful_local api env db db'"
| intend: "dispatchTx i dto actor ctx now db = Inr db' \<Longrightarrow> ful_local api env db db'"
| refuse: "\<forall>d\<in>set (dispatchIntents db). di_id d = i \<longrightarrow> di_batchId d = None \<Longrightarrow> ful_local api env db (rejectIntent i db)"
| prepare: "batchRequestValid r \<Longrightarrow> prepareBatchTx env r now db = Inr db' \<Longrightarrow> ful_local api env db db'"
| defer_batch: "ful_local api env db (deferBatch env b now db)"
| defer_intent: "ful_local api env db (deferIntent env d now db)"
| claim: "claimShipment p now db = Inr (res, db') \<Longrightarrow> ful_local api env db db'"
| release: "releaseShipment q now db = Inr (res, db') \<Longrightarrow> ful_local api env db db'"
| deliver: "parseDeliveryResult e = Inr pl \<Longrightarrow> left_since db0 db \<Longrightarrow> persistOrApply env now e pl db0 db = Inr db' \<Longrightarrow> ful_local api env db db'"

inductive ful_step :: "'ord order_api \<Rightarrow> ful_env \<Rightarrow> ful_db \<Rightarrow> ful_db \<Rightarrow> bool" for api env where
  local: "ful_local api env db db' \<Longrightarrow> ful_step api env db db'"
| leave: "\<forall>e\<in>set (dispatchIntents db). di_id e = di_id d \<longrightarrow> di_batchId e = None \<Longrightarrow>
    completeTx t i d g now db = Inr db' \<Longrightarrow> ful_step api env db db'"
| decide: "findBatch t i db = Some b \<Longrightarrow> fb_decision b = None \<or> fb_decision b = Some dec \<Longrightarrow>
    assertBatchDispatchGrantBinding (fb_payload b) dec \<Longrightarrow> saveDecisionTx t i (fb_payload b) dec db = Inr db' \<Longrightarrow>
    ful_step api env db db'"
| commit: "commitBatch t i now db = Inr db' \<Longrightarrow> ful_step api env db db'"

lemmas local_steps = ful_local.intros [THEN ful_step.local]

lemma ful_local_keeps: "ful_local api env db db' \<Longrightarrow> keeps_ful {} db db'"
  by (induction rule: ful_local.induct)
     (blast intro: handleShipmentOrderEvent_keeps transitionTx_keeps dispatchTx_keeps rejectIntent_keeps
       prepareBatchTx_keeps deferBatch_keeps deferIntent_keeps claimShipment_keeps releaseShipment_keeps persistOrApply_keeps)+

lemma ful_step_keeps: "ful_step api env db db' \<Longrightarrow> keeps_ful {} db db'"
  by (induction rule: ful_step.induct)
     (blast intro: ful_local_keeps completeTx_keeps saveDecisionTx_keeps commitBatch_keeps)+

lemma ful_steps_keep: "(ful_step api env)\<^sup>*\<^sup>* db db' \<Longrightarrow> keeps_ful {} db db'"
  by (induction rule: rtranclp_induct) (auto intro: keeps_ful_trans ful_step_keeps)

lemma ful_steps_ok: "(ful_step api env)\<^sup>*\<^sup>* db db' \<Longrightarrow> ful_ok db \<Longrightarrow> ful_ok db'"
  and ful_steps_evolve: "(ful_step api env)\<^sup>*\<^sup>* db db' \<Longrightarrow> ful_ok db \<Longrightarrow> evolves db db'"
  using ful_steps_keep [of api env db db'] by (simp_all add: keeps_ful_def ful_ok_def)

lemma steps_left_since:
  assumes "ful_ok db0" "(ful_step api env)\<^sup>*\<^sup>* db0 db"
  shows "left_since db0 db"
  using ful_steps_evolve [OF assms(2,1)] left_life unfolding left_since_def evolves_def ship_becomes_def
  by (metis has_left_def insertI1)

section \<open>Whole operations\<close>

text \<open>Every operation of the service is a sequence of steps, whatever the order service answers.\<close>

named_theorems ful_ops

lemma transition_steps [ful_ops]:
  "to \<in> set MANUAL_TARGETS \<Longrightarrow> (ful_step api env)\<^sup>*\<^sup>* db (snd (transition i ver to ctx reason now db))"
  unfolding transition_def by (cases "transitionTx i ver to ctx reason now db") (auto intro: local_steps)

lemma completeDispatch_cases:
  assumes "completeDispatch api t i now (db, s) = (res, db', s')"
  obtains "db' = db"
  | d where "intentOf i db = Some d" "di_batchId d = None" "db' = rejectIntent (di_id d) db"
  | d g where "intentOf i db = Some d" "di_batchId d = None" "completeTx t i d g now db = Inr db'"
proof (cases "List.find (the_shipment t i) (shipments db)")
  case None
  then show thesis using assms that(1) by (simp add: completeDispatch_def)
next
  case (Some x)
  note x = this
  show thesis
  proof (cases "intentOf i db")
    case None
    then show thesis using assms x that(1) by (simp add: completeDispatch_def)
  next
    case (Some d)
    obtain a r where a: "orderAuthorize api t (sp_orderId x) (intentRequest x d) (di_correlationId d) now s = (a, r)"
      by (metis prod.exhaust)
    show thesis
    proof (cases a)
      case (Inl e)
      with x Some a assms that(1,2) show thesis by (auto simp: completeDispatch_def split: if_splits)
    next
      case (Inr g)
      with x Some a assms that(1,3) show thesis by (auto simp: completeDispatch_def split: if_splits sum.splits)
    qed
  qed
qed

lemma completeDispatch_steps:
  assumes ok: "ful_ok db"
  shows "(ful_step api env)\<^sup>*\<^sup>* db (fst (snd (completeDispatch api t i now (db, s))))"
proof -
  obtain res db' s' where c: "completeDispatch api t i now (db, s) = (res, db', s')" by (metis prod.exhaust)
  have n: "\<forall>e\<in>set (dispatchIntents db). di_id e = di_id d \<longrightarrow> di_batchId e = None"
    if d: "intentOf i db = Some d" "di_batchId d = None" for d
  proof (intro ballI impI)
    fix e assume e: "e \<in> set (dispatchIntents db)" "di_id e = di_id d"
    note p = ful_butD(2) [OF ok [unfolded ful_ok_def]]
    have "d \<in> set (dispatchIntents db)" using d(1) intentOf_iff [OF p] by simp
    with intent_unique(1) [OF p e(1)] e(2) d(2) show "di_batchId e = None" by simp
  qed
  from c have "(ful_step api env)\<^sup>*\<^sup>* db db'"
  proof (cases rule: completeDispatch_cases)
    case (2 d)
    then show ?thesis using local_steps(4) [OF n] by blast
  next
    case (3 d g)
    then show ?thesis using leave [OF n] by blast
  qed simp
  with c show ?thesis by simp
qed

lemma dispatchShipment_steps [ful_ops]:
  assumes ok: "ful_ok db"
  shows "(ful_step api env)\<^sup>*\<^sup>* db (fst (snd (dispatchShipment api i dto ctx now (db, s))))"
proof (cases "sx_actorId ctx")
  case None
  then show ?thesis by (simp add: dispatchShipment_def)
next
  case (Some actor)
  show ?thesis
  proof (cases "bind_res (dispatchPrecheck api i dto ctx s db) (\<lambda>_. dispatchTx i dto actor ctx now db)")
    case (Inl e)
    with Some show ?thesis by (simp add: dispatchShipment_def)
  next
    case (Inr db1)
    then have st: "ful_step api env db db1" by (auto simp: bind_res_Inr_iff intro: local_steps)
    then have "(ful_step api env)\<^sup>*\<^sup>* db1 (fst (snd (completeDispatch api (sx_tenantId ctx) i now (db1, s))))"
      by (intro completeDispatch_steps ful_steps_ok [OF r_into_rtranclp ok])
    with st Some Inr show ?thesis
      by (auto simp: dispatchShipment_def split: prod.splits sum.splits intro: converse_rtranclp_into_rtranclp)
  qed
qed

lemma batchAuthority_decision: "batchAuthority api b now s = (Inr d, s') \<Longrightarrow> fb_decision b = None \<or> fb_decision b = Some d"
  by (auto simp: batchAuthority_def split: option.splits if_splits)

lemma completeBatch_steps: "(ful_step api env)\<^sup>*\<^sup>* db (fst (snd (completeBatch api t i now (db, s))))"
proof (cases "findBatch t i db")
  case None
  then show ?thesis by (simp add: completeBatch_def)
next
  case (Some b)
  obtain a s' where a: "batchAuthority api b now s = (a, s')" by (metis prod.exhaust)
  show ?thesis
  proof (cases a)
    case (Inl e)
    with Some a show ?thesis by (simp add: completeBatch_def)
  next
    case (Inr d)
    note step = decide [OF Some batchAuthority_decision [OF a [unfolded Inr]]]
    from Some a Inr show ?thesis
      by (auto simp: completeBatch_def split: sum.splits intro: step commit rtranclp.rtrancl_into_rtrancl [OF r_into_rtranclp])
  qed
qed

lemma dispatchBatch_steps [ful_ops]: "(ful_step api env)\<^sup>*\<^sup>* db (fst (snd (dispatchBatch api env r now (db, s))))"
proof (cases "batchRequestValid r")
  case False
  then show ?thesis by (simp add: dispatchBatch_def)
next
  case v: True
  show ?thesis
  proof (cases "prepareBatchTx env r now db")
    case (Inl e)
    with v show ?thesis by (simp add: dispatchBatch_def)
  next
    case (Inr db1)
    then have "ful_step api env db db1" using local_steps(5) [OF v] by blast
    then show ?thesis
      using v Inr completeBatch_steps [of api env db1 "br_tenantId r" "br_requestId r" now s]
      by (auto simp: dispatchBatch_def split: prod.splits sum.splits intro: converse_rtranclp_into_rtranclp)
  qed
qed

lemma recoverBatches_steps:
  "(ful_step api env)\<^sup>*\<^sup>* (fst st) (fst (recoverBatches api env now bs st))"
proof (induction bs arbitrary: st)
  case (Cons b bs)
  obtain db s where st: "st = (db, s)" by (cases st)
  obtain a db' s' where a: "completeBatch api (fb_tenantId b) (fb_id b) now (db, s) = (a, db', s')" by (metis prod.exhaust)
  have one: "(ful_step api env)\<^sup>*\<^sup>* db db'"
    using completeBatch_steps [of api env db "fb_tenantId b" "fb_id b" now s] a by simp
  show ?case
  proof (cases a)
    case (Inl e)
    have "(ful_step api env)\<^sup>*\<^sup>* db (deferBatch env b now db')" using one local_steps(6) by (rule rtranclp.rtrancl_into_rtrancl)
    with Cons.IH [of "(deferBatch env b now db', s')"] show ?thesis by (simp add: st a Inl)
  next
    case (Inr u)
    with one Cons.IH [of "(db', s')"] show ?thesis by (simp add: st a)
  qed
qed simp

lemma recoverIntents_steps:
  "ful_ok (fst st) \<Longrightarrow> (ful_step api env)\<^sup>*\<^sup>* (fst st) (fst (recoverIntents api env now ds st))"
proof (induction ds arbitrary: st)
  case (Cons d ds)
  obtain db s where st: "st = (db, s)" by (cases st)
  obtain a db' s' where a: "completeDispatch api (di_tenantId d) (di_shipmentId d) now (db, s) = (a, db', s')" by (metis prod.exhaust)
  have one: "(ful_step api env)\<^sup>*\<^sup>* db db'"
    using completeDispatch_steps [of db api env "di_tenantId d" "di_shipmentId d" now s] a st Cons.prems by simp
  show ?case
  proof (cases a)
    case (Inl e)
    have two: "(ful_step api env)\<^sup>*\<^sup>* db (deferIntent env d now db')" using one local_steps(7) by (rule rtranclp.rtrancl_into_rtrancl)
    with Cons.IH [of "(deferIntent env d now db', s')"] ful_steps_ok [OF two] Cons.prems show ?thesis
      by (simp add: st a Inl)
  next
    case (Inr u)
    with one Cons.IH [of "(db', s')"] ful_steps_ok [OF one] Cons.prems show ?thesis by (simp add: st a)
  qed
qed simp

lemma recover_steps [ful_ops]:
  assumes ok: "ful_ok db"
  shows "(ful_step api env)\<^sup>*\<^sup>* db (fst (recover api env now (db, s)))"
proof -
  have one: "(ful_step api env)\<^sup>*\<^sup>* db (fst (recoverBatches api env now bs (db, s)))" for bs
    using recoverBatches_steps [of api env "(db, s)"] by simp
  show ?thesis unfolding recover_def Let_def prod.case
    by (rule rtranclp_trans [OF one recoverIntents_steps [OF ful_steps_ok [OF one ok]]])
qed

lemma handleDeliveryEvent_steps [ful_ops]:
  "handleDeliveryEvent env now e db0 db = Inr db' \<Longrightarrow> left_since db0 db \<Longrightarrow> (ful_step api env)\<^sup>*\<^sup>* db db'"
  by (auto simp: handleDeliveryEvent_def bind_res_Inr_iff split: if_splits intro: local_steps)

lemma retryRows_steps: "(ful_step api env)\<^sup>*\<^sup>* db (retryRows env now rs db)"
proof (induction rs arbitrary: db)
  case (Cons r rs)
  let ?db = "case fi_eventPayload r of None \<Rightarrow> db
    | Some e \<Rightarrow> (case bind_res (parseDeliveryResult e) (\<lambda>p. persistOrApply env now e p db db) of Inl _ \<Rightarrow> db | Inr db' \<Rightarrow> db')"
  have "(ful_step api env)\<^sup>*\<^sup>* db ?db"
    by (auto simp: bind_res_Inr_iff split: option.splits sum.splits intro: local_steps)
  with Cons.IH [of ?db] show ?case by (simp only: retryRows.simps)
qed simp

lemma retryDeferred_steps [ful_ops]: "(ful_step api env)\<^sup>*\<^sup>* db (retryDeferred env now db)"
  unfolding retryDeferred_def by (rule retryRows_steps)

end
