(* ===== verification/Fulfillment_Settlement.thy ===== *)
theory Fulfillment_Settlement
  imports Fulfillment_Steps
begin

text \<open>
  Progress of a trip's batch. In a state with the invariant a pending batch can always be carried out: its
  shipments are locked by its intents, so that the decision, once it is known, meets them as they were when
  the batch was prepared. The outcome is all or nothing.
\<close>

section \<open>Carrying out a grant\<close>

definition item_granted :: "uuid \<Rightarrow> uuid \<Rightarrow> batch_request \<Rightarrow> ful_db \<Rightarrow> batch_item \<Rightarrow> bool" where
  "item_granted t i r db item \<longleftrightarrow>
     (\<exists>x\<in>set (shipments db). the_shipment t (bi_shipmentId item) x \<and> sp_status x = S_READY_TO_SHIP \<and>
        sp_assignedTripId x = Some (br_tripId r) \<and> sp_version x = bi_shipmentVersion item) \<and>
     (\<exists>d\<in>set (dispatchIntents db). di_id d = bi_dispatchRequestId item \<and> di_shipmentId d = bi_shipmentId item \<and>
        di_grantReceipt d \<noteq> None \<and> di_batchId d = Some i)"

definition item_dispatched :: "uuid \<Rightarrow> ful_db \<Rightarrow> batch_item \<Rightarrow> bool" where
  "item_dispatched t db item \<longleftrightarrow> (\<exists>x\<in>set (shipments db). the_shipment t (bi_shipmentId item) x \<and>
     sp_status x = S_DISPATCHED \<and> sp_version x = bi_shipmentVersion item + 1)"

definition item_receipt :: "batch_item \<Rightarrow> batch_receipt_item" where
  "item_receipt item = \<lparr> bt_shipmentId = bi_shipmentId item, bt_dispatchRequestId = bi_dispatchRequestId item,
     bt_shipmentVersion = bi_shipmentVersion item + 1 \<rparr>"

lemma commitItem_grants:
  assumes ok: "ful_but {i} db" and l: "item_granted t i r db item" and g: "is_granted dec"
  shows "\<exists>db'. commitItem t i r dec item now db = Inr ([item_receipt item], db') \<and> ful_but {i} db' \<and> item_dispatched t db' item \<and>
    fulBatches db' = fulBatches db \<and> (\<forall>y\<in>set (shipments db). sp_id y \<noteq> bi_shipmentId item \<longrightarrow> y \<in> set (shipments db')) \<and>
    (\<forall>e\<in>set (dispatchIntents db). di_id e \<noteq> bi_dispatchRequestId item \<longrightarrow> e \<in> set (dispatchIntents db'))"
proof -
  note p = ful_butD [OF ok]
  obtain b gs where dec: "dec = GRANTED b gs" using g by (cases dec) auto
  from l obtain x d where x: "x \<in> set (shipments db)" "sp_id x = bi_shipmentId item" "sp_tenantId x = t" "sp_status x = S_READY_TO_SHIP"
      "sp_assignedTripId x = Some (br_tripId r)" "sp_version x = bi_shipmentVersion item"
    and d: "d \<in> set (dispatchIntents db)" "di_shipmentId d = bi_shipmentId item" "di_id d = bi_dispatchRequestId item"
      "di_grantReceipt d \<noteq> None" "di_batchId d = Some i"
    by (auto simp: item_granted_def the_shipment_def)
  note fx = find_shipment(1) [OF p(1) x(1-3)]
  have fd: "intentOf (bi_shipmentId item) db = Some d" using d by (simp add: intentOf_iff [OF p(2)])
  let ?x' = "(dispatchRow (decidedAt dec) x)\<lparr> sp_updatedAt := now \<rparr>"
  obtain db1 where u: "updateShipment t (bi_shipmentId item) (dispatchRow (decidedAt dec)) now db = Inr (?x', db1)"
    by (simp add: updateShipment_def fx Let_def)
  note ch = updateShipment_change(2) [OF p(1) u _ x(1-3)]
  let ?ctx = "\<lparr> sx_tenantId = t, sx_actorId = Some (br_actorId r), sx_correlationId = i, sx_causationId = None \<rparr>"
  obtain db' where rec: "recordShipment ?x' (Some (sp_status x)) E_DISPATCHED ?ctx None (Some (bi_dispatchRequestId item)) now
      (completeIntent (di_id d) db1) = Inr db'"
    using recordShipment_succeeds [OF p(1) ch] updateShipment_frame [OF u] by fastforce
  note k = dispatched_keeps [OF ok x(1-4) d(1,2) _ u rec]
  have c: "commitItem t i r dec item now db = Inr ([item_receipt item], db')"
    using fx fd x d u rec by (simp add: commitItem_def dec item_receipt_def)
  have ch': "ship_change x ?x' db db'" and i': "dispatchIntents db' = update_where (\<lambda>e. di_id e = di_id d) (\<lambda>e. e\<lparr> di_status := I_COMPLETED \<rparr>) (dispatchIntents db)"
    and k': "ful_but {i} db'" "fulBatches db' = fulBatches db" using k d(5) by auto
  note s = ship_change_set [OF p(1) ch']
  have "item_dispatched t db' item"
    unfolding item_dispatched_def s using x by (intro bexI [of _ ?x']) (simp_all add: the_shipment_def)
  moreover have "\<forall>y\<in>set (shipments db). sp_id y \<noteq> bi_shipmentId item \<longrightarrow> y \<in> set (shipments db')" using s x(2) by auto
  moreover have "\<forall>e\<in>set (dispatchIntents db). di_id e \<noteq> bi_dispatchRequestId item \<longrightarrow> e \<in> set (dispatchIntents db')"
    using i' d(3) by (auto simp: in_set_update_where)
  ultimately show ?thesis using c k' by blast
qed

lemma item_granted_frame:
  assumes "item_granted t i r db item" "\<forall>y\<in>set (shipments db). sp_id y \<noteq> s \<longrightarrow> y \<in> set (shipments db')"
    "\<forall>e\<in>set (dispatchIntents db). di_id e \<noteq> q \<longrightarrow> e \<in> set (dispatchIntents db')"
    "bi_shipmentId item \<noteq> s" "bi_dispatchRequestId item \<noteq> q"
  shows "item_granted t i r db' item"
proof -
  from assms(1) obtain x d where "x \<in> set (shipments db)" "the_shipment t (bi_shipmentId item) x" "sp_status x = S_READY_TO_SHIP"
      "sp_assignedTripId x = Some (br_tripId r)" "sp_version x = bi_shipmentVersion item"
    and "d \<in> set (dispatchIntents db)" "di_id d = bi_dispatchRequestId item" "di_shipmentId d = bi_shipmentId item"
      "di_grantReceipt d \<noteq> None" "di_batchId d = Some i" unfolding item_granted_def by blast
  with assms(2-5) show ?thesis unfolding item_granted_def by (auto simp: the_shipment_def)
qed

lemma commitItems_grant:
  assumes "ful_but {i} db" "\<forall>item\<in>set items. item_granted t i r db item" "is_granted dec"
    "distinct (map bi_shipmentId items)" "distinct (map bi_dispatchRequestId items)"
  shows "\<exists>db'. commitItems t i r dec items now db = Inr (map item_receipt items, db') \<and> fulBatches db' = fulBatches db \<and>
    (\<forall>item\<in>set items. item_dispatched t db' item) \<and>
    (\<forall>y\<in>set (shipments db). sp_id y \<notin> bi_shipmentId ` set items \<longrightarrow> y \<in> set (shipments db'))"
  using assms
proof (induction items arbitrary: db)
  case (Cons item items)
  from commitItem_grants [OF Cons.prems(1), of t r item dec now] Cons.prems(2,3)
  obtain db1 where c: "commitItem t i r dec item now db = Inr ([item_receipt item], db1)" "ful_but {i} db1" "item_dispatched t db1 item"
      "fulBatches db1 = fulBatches db" "\<forall>y\<in>set (shipments db). sp_id y \<noteq> bi_shipmentId item \<longrightarrow> y \<in> set (shipments db1)"
      "\<forall>e\<in>set (dispatchIntents db). di_id e \<noteq> bi_dispatchRequestId item \<longrightarrow> e \<in> set (dispatchIntents db1)" by auto
  have "item_granted t i r db1 it" if "it \<in> set items" for it
    by (rule item_granted_frame [OF _ c(5,6)]) (use that Cons.prems(2,4,5) in \<open>auto simp: image_iff Ball_def\<close>)
  then have "\<forall>it\<in>set items. item_granted t i r db1 it" by blast
  from Cons.IH [OF c(2) this Cons.prems(3)] Cons.prems(4,5)
  obtain db2 where d: "commitItems t i r dec items now db1 = Inr (map item_receipt items, db2)" "fulBatches db2 = fulBatches db1"
      "\<forall>item\<in>set items. item_dispatched t db2 item"
      "\<forall>y\<in>set (shipments db1). sp_id y \<notin> bi_shipmentId ` set items \<longrightarrow> y \<in> set (shipments db2)" by auto
  have "bi_shipmentId item \<notin> bi_shipmentId ` set items" using Cons.prems(4) by simp
  then have "item_dispatched t db2 item"
    using c(3) d(4) by (auto simp: item_dispatched_def the_shipment_def)
  with c d show ?case by auto
qed simp

lemma commitItems_reject:
  assumes "dec = REJECTED b why"
  shows "\<exists>db'. commitItems t i r dec items now db = Inr ([], db') \<and> shipments db' = shipments db \<and> fulBatches db' = fulBatches db"
  using assms
proof (induction items arbitrary: db)
  case (Cons item items)
  let ?db = "setIntents (\<lambda>d. di_id d = bi_dispatchRequestId item \<and> di_tenantId d = t \<and> di_status d = I_PENDING)
    (\<lambda>d. d\<lparr> di_status := I_REJECTED, di_rejectionReason := Some why \<rparr>) db"
  from Cons.IH [of ?db] Cons.prems show ?case by (auto simp: commitItem_def)
qed simp

section \<open>The decision\<close>

lemma find_update_sub:
  "(\<And>x. p (f x) = p x) \<Longrightarrow> (\<And>x. p x \<Longrightarrow> q x) \<Longrightarrow> List.find p (update_where q f xs) = map_option f (List.find p xs)"
  by (induction xs) auto

lemma findBatch_setBatch:
  "(\<And>b. fb_id (f b) = fb_id b \<and> fb_tenantId (f b) = fb_tenantId b) \<Longrightarrow>
     findBatch t i (setBatch i f db) = map_option f (findBatch t i db)"
  by (simp add: findBatch_def setBatch_def) (rule find_update_sub; simp)

lemma attachGrants_succeeds:
  assumes "\<forall>item\<in>set items. \<exists>d\<in>set (dispatchIntents db). di_id d = bi_dispatchRequestId item"
  shows "\<exists>db'. attachGrants dec items db = Inr db' \<and> shipments db' = shipments db \<and> fulBatches db' = fulBatches db"
  using assms
proof (induction items arbitrary: db)
  case (Cons item items)
  let ?db = "setIntents (\<lambda>e. di_id e = bi_dispatchRequestId item) (\<lambda>e. e\<lparr> di_grantReceipt := Some dec \<rparr>) db"
  have "\<exists>d\<in>set (dispatchIntents ?db). di_id d = bi_dispatchRequestId it" if it: "it \<in> set items" for it
  proof -
    from Cons.prems it obtain d where d: "d \<in> set (dispatchIntents db)" "di_id d = bi_dispatchRequestId it" by auto
    let ?d = "if di_id d = bi_dispatchRequestId item then d\<lparr> di_grantReceipt := Some dec \<rparr> else d"
    have "?d \<in> set (dispatchIntents ?db)" using d(1) by (auto simp: in_set_update_where)
    with d(2) show ?thesis by (intro bexI [of _ ?d]) simp_all
  qed
  with Cons.IH [of ?db] Cons.prems show ?case by auto
qed simp

lemma pending_item_locked:
  assumes "ful_but {} db" "findBatch t i db = Some b" "fb_status b = I_PENDING" "item \<in> set (br_shipments (fb_payload b))"
  shows "item_locked db b item"
  using ful_butD(3) [OF assms(1)] findBatch_D [OF assms(2)] assms(3,4) unfolding batches_ok_def by blast

lemma saveDecisionTx_succeeds:
  assumes ok: "ful_but {} db" and b: "findBatch t i db = Some b" "fb_status b = I_PENDING"
  shows "\<exists>db'. saveDecisionTx t i (fb_payload b) dec db = Inr db' \<and> shipments db' = shipments db \<and>
    findBatch t i db' = Some (b\<lparr> fb_decision := Some dec, fb_stage := (if is_granted dec then STAGE_GRANTED else STAGE_REJECTED) \<rparr>)"
proof -
  let ?f = "\<lambda>b. b\<lparr> fb_decision := Some dec, fb_stage := (if is_granted dec then STAGE_GRANTED else STAGE_REJECTED) \<rparr>"
  let ?db = "setBatch i ?f db"
  have f: "findBatch t i ?db = Some (?f b)" using b by (subst findBatch_setBatch) simp_all
  have "\<exists>d\<in>set (dispatchIntents ?db). di_id d = bi_dispatchRequestId item" if "item \<in> set (br_shipments (fb_payload b))" for item
    using pending_item_locked [OF ok b that] by (auto simp: item_locked_def intent_locks_def)
  then obtain db' where a: "attachGrants dec (br_shipments (fb_payload b)) ?db = Inr db'" "shipments db' = shipments db" "fulBatches db' = fulBatches ?db"
    using attachGrants_succeeds [of "br_shipments (fb_payload b)" ?db dec] by auto
  from a(3) have "findBatch t i db' = findBatch t i ?db" by (simp add: findBatch_def)
  with a f b show ?thesis by (cases "is_granted dec") (simp_all add: saveDecisionTx_def Let_def)
qed

lemma pending_item_granted:
  assumes ok: "ful_but {} db" and b: "findBatch t i db = Some b" "fb_status b = I_PENDING" "item \<in> set (br_shipments (fb_payload b))"
    and d: "fb_decision b = Some dec" "is_granted dec"
  shows "item_granted t i (fb_payload b) db item"
proof -
  from pending_item_locked [OF ok b] obtain e x where e: "e \<in> set (dispatchIntents db)" "intent_locks b item e"
    and x: "x \<in> set (shipments db)" "ship_locked b item x" by (auto simp: item_locked_def)
  obtain y where y: "y \<in> set (shipments db)" "intent_ok e y" by (rule intent_shipment [OF ful_butD(2) [OF ok] e(1)])
  have "y = x" using shipment_unique [OF ful_butD(1) [OF ok] y(1) x(1)] y(2) e(2) x(2)
    by (simp add: intent_ok_def intent_locks_def ship_locked_def the_shipment_def)
  then have "sp_status x = S_READY_TO_SHIP" using y(2) e(2) by (simp add: intent_ok_def intent_locks_def)
  with e x d findBatch_D [OF b(1)] show ?thesis
    unfolding item_granted_def by (intro conjI bexI [of _ x] bexI [of _ e]) (auto simp: intent_locks_def ship_locked_def)
qed

text \<open>The receipt of a batch that has ended, and how a batch ends.\<close>

definition response_of :: "shipment_dispatch_batch \<Rightarrow> batch_decision \<Rightarrow> batch_receipt \<Rightarrow> bool" where
  "response_of b dec c \<longleftrightarrow> be_tenantId c = fb_tenantId b \<and> be_requestId c = fb_id b \<and> be_tripId c = br_tripId (fb_payload b) \<and>
     be_payloadHash c = fb_payloadHash b \<and> be_decision c = Some dec \<and>
     be_status c = (if is_granted dec then I_COMPLETED else I_REJECTED) \<and>
     be_shipments c = (if is_granted dec then map item_receipt (br_shipments (fb_payload b)) else [])"

definition batch_ended :: "uuid \<Rightarrow> ful_db \<Rightarrow> shipment_dispatch_batch \<Rightarrow> batch_decision \<Rightarrow> ful_db \<Rightarrow> bool" where
  "batch_ended t db b dec db' \<longleftrightarrow>
     (let st = (if is_granted dec then I_COMPLETED else I_REJECTED) in
      \<exists>b' c. findBatch t (fb_id b) db' = Some b' \<and> fb_payload b' = fb_payload b \<and> fb_status b' = st \<and>
        fb_response b' = Some c \<and> batchReceiptValid c \<and> response_of b dec c) \<and>
     (if is_granted dec then \<forall>item\<in>set (br_shipments (fb_payload b)). item_dispatched t db' item
      else shipments db' = shipments db)"

lemma commitBatch_ends:
  assumes ok: "ful_but {} db" and b: "findBatch t i db = Some b" "fb_status b = I_PENDING" and dec: "fb_decision b = Some dec"
    and h: "sha256_text (fb_payloadHash b)" and v: "\<forall>item\<in>set (br_shipments (fb_payload b)). isSafeInteger (bi_shipmentVersion item + 1)"
  shows "\<exists>db'. commitBatch t i now db = Inr db' \<and> batch_ended t db b dec db'"
proof -
  let ?r = "fb_payload b" and ?g = "is_granted dec"
  let ?st = "if ?g then I_COMPLETED else I_REJECTED" and ?sg = "if ?g then STAGE_COMPLETED else STAGE_REJECTED"
  note fb = findBatch_D [OF b(1)]
  have form: "batch_form b" using ful_butD(3) [OF ok] fb by (simp add: batches_ok_def)
  then have r: "batchRequestValid ?r" and dv: "batchDecisionValid dec"
    using dec by (auto simp: batch_form_def assertBatchDispatchGrantBinding_def)
  note di = batchRequestValid_distinct [OF r]
  define rs where "rs = (if ?g then map item_receipt (br_shipments ?r) else [])"
  obtain db1 where c: "commitItems t i ?r dec (br_shipments ?r) now db = Inr (rs, db1)" "fulBatches db1 = fulBatches db"
    "if ?g then \<forall>item\<in>set (br_shipments ?r). item_dispatched t db1 item else shipments db1 = shipments db"
  proof (cases dec)
    case (GRANTED w gs)
    then show thesis
      using commitItems_grant [OF ful_but_mono [OF ok empty_subsetI], of "br_shipments ?r" t i ?r dec now]
        pending_item_granted [OF ok b _ dec] di that by (auto simp: rs_def)
  next
    case (REJECTED w why)
    then show thesis using commitItems_reject [OF REJECTED, of t i ?r "br_shipments ?r" now db] that by (auto simp: rs_def)
  qed
  let ?c = "\<lparr> be_tenantId = t, be_requestId = i, be_tripId = br_tripId ?r, be_payloadHash = fb_payloadHash b, be_status = ?st,
    be_stage = ?sg, be_decision = Some dec, be_shipments = rs \<rparr>"
  let ?f = "\<lambda>b. b\<lparr> fb_status := ?st, fb_stage := ?sg, fb_response := Some ?c \<rparr>"
  have cv: "batchReceiptValid ?c"
    using h dv v by (auto simp: batchReceiptValid_def rs_def list_all_iff item_receipt_def transportVersion_def)
  then have "commitBatch t i now db = Inr (setBatch i ?f db1)"
    using b dec r dv c(1) by (simp add: commitBatch_def commitTx_def parseBatchReceipt_def Let_def)
  moreover have "findBatch t i (setBatch i ?f db1) = Some (?f b)"
    using b(1) c(2) by (subst findBatch_setBatch) (simp_all add: findBatch_def)
  moreover have "item_dispatched t (setBatch i ?f db1) item = item_dispatched t db1 item" for item by (simp add: item_dispatched_def)
  moreover have "response_of b dec ?c" using fb by (simp add: response_of_def rs_def)
  ultimately show ?thesis using c(3) cv fb by (auto simp: batch_ended_def Let_def)
qed

end
