(* ===== verification/Fulfillment_Agreement.thy ===== *)
theory Fulfillment_Agreement
  imports Fulfillment_Settlement Order_Agreement
begin

text \<open>
  The dispatch of a trip across the two services. A locale states what the fulfilment service needs of the
  authority that decides a batch; the order service's model, behind its internal controllers, provides it.
  On the interpretation rest the theorems that a trip leaves entirely or not at all, in both databases, and
  that a batch which was interrupted is completed by recovery.
\<close>

section \<open>The order service behind its controllers\<close>

text \<open>The status the exception filter answers: a domain error's own, and 500 for anything else.\<close>

definition ord_reply_status :: "ord_error \<Rightarrow> nat" where
  "ord_reply_status e = (case ord_http_status e of
     Some n \<Rightarrow> n
   | None \<Rightarrow> (case e of InvalidStateTransition _ _ \<Rightarrow> 422 | _ \<Rightarrow> 500))"

text \<open>A handler that returns answers 201 to a \<^verbatim>\<open>POST\<close>; one that throws has written nothing.\<close>

definition posted :: "ord_error + 'a \<times> ord_db \<Rightarrow> ord_db \<Rightarrow> 'a http_reply \<times> ord_db" where
  "posted result s = (case result of
     Inl e \<Rightarrow> (HttpReply (ord_reply_status e) None, s)
   | Inr (x, s') \<Rightarrow> (HttpReply 201 (Some x), s'))"

definition postBatch :: "ord_env \<Rightarrow> batch_request \<Rightarrow> instant \<Rightarrow> ord_db \<Rightarrow> batch_decision http_reply \<times> ord_db" where
  "postBatch env r now s =
     (if \<not> batchRequestValid r then (HttpReply 400 None, s) else posted (authorizeBatch env r now s) s)"

definition postAuthorize ::
    "uuid \<Rightarrow> uuid \<Rightarrow> dispatch_request \<Rightarrow> uuid \<Rightarrow> instant \<Rightarrow> ord_db \<Rightarrow> dispatch_grant http_reply \<times> ord_db" where
  "postAuthorize t orderId body corr now s =
     (if \<not> transportVersion (dq_orderVersion body) then (HttpReply 400 None, s)
      else posted (authorize t orderId body corr now s) s)"

definition getSnapshot :: "uuid \<Rightarrow> uuid \<Rightarrow> ord_db \<Rightarrow> order_detail_view http_reply" where
  "getSnapshot t orderId s = (case orderDetail t orderId s of
     Inl e \<Rightarrow> HttpReply (ord_reply_status e) None | Inr v \<Rightarrow> HttpReply 200 (Some v))"

definition order_service :: "ord_env \<Rightarrow> ord_db order_api" where
  "order_service env = \<lparr> oa_snapshot = getSnapshot, oa_authorize = postAuthorize, oa_authorizeBatch = postBatch env \<rparr>"

section \<open>Preparing a batch\<close>

lemma createIntent_succeeds:
  assumes "\<forall>e\<in>set (dispatchIntents db). di_id e \<noteq> di_id d \<and> di_shipmentId e \<noteq> di_shipmentId d" "0 < di_orderVersion d"
    "0 < di_shipmentVersion d" "x \<in> set (shipments db)" "sp_id x = di_shipmentId d"
  shows "\<exists>db'. createIntent d db = Inr db'"
  using assms by (auto simp: createIntent_def)

definition item_new :: "ful_db \<Rightarrow> batch_item \<Rightarrow> bool" where
  "item_new db item \<longleftrightarrow> 0 < bi_orderVersion item \<and> 0 < bi_shipmentVersion item \<and>
     (\<forall>d\<in>set (dispatchIntents db). di_id d \<noteq> bi_dispatchRequestId item)"

lemma saveBatchIntents_succeeds:
  assumes "ful_but {br_requestId r} db" "\<forall>ip\<in>set xs. item_free r db ip \<and> item_new db (fst ip)"
    "distinct (map (bi_shipmentId \<circ> fst) xs)" "distinct (map (bi_dispatchRequestId \<circ> fst) xs)"
  shows "\<exists>db'. saveBatchIntents r xs now db = Inr db'"
  using assms
proof (induction xs arbitrary: db)
  case (Cons ip xs)
  obtain item pr where ip: "ip = (item, pr)" by (cases ip)
  have f: "item_free r db (item, pr)" and n: "item_new db item" using Cons.prems(2) by (simp_all add: ip)
  note D = without_prior [OF Cons.prems(1) f]
  obtain x where x: "x \<in> set (shipments db)" "sp_id x = bi_shipmentId item" using f by (auto simp: item_free_def)
  have "\<exists>db1. createIntent (batchIntent r now item) (without_prior pr db) = Inr db1"
    by (rule createIntent_succeeds [where x = x]) (use n x D in \<open>auto simp: item_new_def batchIntent_def newIntent_def\<close>)
  then obtain db1 where c: "createIntent (batchIntent r now item) (without_prior pr db) = Inr db1" by blast
  note k = saveBatchIntent_keeps [OF Cons.prems(1) f c]
  have io: "intents_ok db" "intents_ok db1" using ful_butD(2) Cons.prems(1) k(1) by blast+
  have "item_free r db1 jp \<and> item_new db1 (fst jp)" if jp: "jp \<in> set xs" for jp
  proof
    show "item_free r db1 jp"
      by (rule item_free_frame [OF io k(2,4)]) (use jp Cons.prems(2,3) in \<open>auto simp: ip image_iff\<close>)
    have "bi_dispatchRequestId (fst jp) \<noteq> bi_dispatchRequestId item" using jp Cons.prems(4) by (auto simp: ip image_iff)
    then show "item_new db1 (fst jp)" using jp Cons.prems(2) by (auto simp: item_new_def k(4))
  qed
  with Cons.IH [of db1] k(1) Cons.prems(3,4) c show ?case
    by (simp add: ip saveBatchIntents_Cons del: saveBatchIntents.simps)
qed simp

text \<open>A new batch is prepared: its shipments are locked, or it is rejected at once.\<close>

definition batch_new :: "ful_env \<Rightarrow> batch_request \<Rightarrow> ful_db \<Rightarrow> bool" where
  "batch_new env r db \<longleftrightarrow> batchRequestValid r \<and> sha256_text (fe_batchHash env r) \<and>
     list_all (\<lambda>b. fb_id b \<noteq> br_requestId r) (fulBatches db) \<and>
     list_all (\<lambda>d. di_id d \<notin> set (map bi_dispatchRequestId (br_shipments r))) (dispatchIntents db) \<and>
     list_all (\<lambda>item. isSafeInteger (bi_shipmentVersion item + 1)) (br_shipments r)"

text \<open>A final receipt of the request.\<close>

definition receipt_for :: "ful_env \<Rightarrow> batch_request \<Rightarrow> batch_receipt \<Rightarrow> bool" where
  "receipt_for env r c \<longleftrightarrow> batchReceiptValid c \<and> be_tenantId c = br_tenantId r \<and> be_requestId c = br_requestId r \<and>
     be_tripId c = br_tripId r \<and> be_payloadHash c = fe_batchHash env r \<and>
     (case be_decision c of None \<Rightarrow> be_status c = I_REJECTED
      | Some d \<Rightarrow> assertBatchDispatchGrantBinding r d \<and> be_status c = (if is_granted d then I_COMPLETED else I_REJECTED)) \<and>
     (be_status c = I_COMPLETED \<longrightarrow> be_shipments c = map item_receipt (br_shipments r))"

lemma prepareBatchTx_succeeds:
  assumes ok: "ful_ok db" and n: "batch_new env r db"
  shows "\<exists>db1 b. prepareBatchTx env r now db = Inr db1 \<and> findBatch (br_tenantId r) (br_requestId r) db1 = Some b \<and>
    fb_payload b = r \<and> fb_payloadHash b = fe_batchHash env r \<and> shipments db1 = shipments db \<and>
    (fb_status b = I_PENDING \<and> fb_decision b = None \<or>
     fb_status b = I_REJECTED \<and> (\<exists>c. fb_response b = Some c \<and> receipt_for env r c \<and> be_status c = I_REJECTED))"
proof -
  note ok' = ok [unfolded ful_ok_def]
  have v: "batchRequestValid r" and h: "sha256_text (fe_batchHash env r)" and fresh: "\<forall>b\<in>set (fulBatches db). fb_id b \<noteq> br_requestId r"
    and free: "\<forall>d\<in>set (dispatchIntents db). di_id d \<notin> bi_dispatchRequestId ` set (br_shipments r)"
    using n by (auto simp: batch_new_def list_all_iff)
  let ?b = "newBatch env r now"
  have none: "findBatch (br_tenantId r) (br_requestId r) db = None" using fresh by (auto simp: findBatch_def find_None_iff)
  have found: "findBatch (br_tenantId r) (br_requestId r) (D\<lparr> fulBatches := fulBatches D @ [b] \<rparr>) = Some b"
    if "fulBatches D = fulBatches db" "fb_id b = br_requestId r" "fb_tenantId b = br_tenantId r" for D b
    using none that by (auto simp: findBatch_def find_append)
  have create: "createFulBatch b D = Inr (D\<lparr> fulBatches := fulBatches D @ [b] \<rparr>)"
    if "fulBatches D = fulBatches db" "fb_id b = br_requestId r" for D b using fresh that by (auto simp: createFulBatch_def)
  show ?thesis
  proof (cases "\<forall>item\<in>set (br_shipments r). batch_item_ready r item db")
    case True
    let ?xs = "map (\<lambda>item. (item, map_option di_id (intentOf (bi_shipmentId item) db))) (br_shipments r)"
    have m: "map (bi_shipmentId \<circ> fst) ?xs = map bi_shipmentId (br_shipments r)"
      "map (bi_dispatchRequestId \<circ> fst) ?xs = map bi_dispatchRequestId (br_shipments r)" by simp_all
    have f: "\<forall>ip\<in>set ?xs. item_free r db ip" using True batch_item_ready_D by (fastforce simp: item_free_def the_shipment_def)
    have "\<forall>ip\<in>set ?xs. item_new db (fst ip)"
      using free v by (auto simp: item_new_def batchRequestValid_def list_all_iff transportVersion_def)
    with f saveBatchIntents_succeeds [of r db ?xs now, unfolded m] batchRequestValid_distinct [OF v] ful_but_mono [OF ok' empty_subsetI]
    obtain db1 where s: "saveBatchIntents r ?xs now db = Inr db1" by blast
    have k: "shipments db1 = shipments db" "fulBatches db1 = fulBatches db"
      using saveBatchIntents_keeps [OF ful_but_mono [OF ok' empty_subsetI] f _ s, unfolded m] batchRequestValid_distinct [OF v] by auto
    have "prepareBatchTx env r now db = Inr (db1\<lparr> fulBatches := fulBatches db1 @ [?b] \<rparr>)"
      using True none s create [OF k(2), of ?b] by (simp add: prepareBatchTx_def list_all_iff newBatch_def Let_def)
    with found [OF k(2), of ?b] k(1) show ?thesis by (simp add: newBatch_def)
  next
    case False
    let ?c = "batchReceiptOf ?b I_REJECTED STAGE_REJECTED None []"
    let ?b' = "?b\<lparr> fb_status := I_REJECTED, fb_stage := STAGE_REJECTED, fb_response := Some ?c, fb_lastError := Some ''SHIPMENT_NOT_DISPATCHABLE'' \<rparr>"
    have c: "batchReceiptValid ?c" using h by (simp add: batchReceiptValid_def batchReceiptOf_def newBatch_def)
    then have "prepareBatchTx env r now db = Inr (db\<lparr> fulBatches := fulBatches db @ [?b'] \<rparr>)"
      using False none create [of db ?b'] by (auto simp: prepareBatchTx_def list_all_iff newBatch_def parseBatchReceipt_def Let_def)
    moreover have "be_status ?c = I_REJECTED" by (simp add: batchReceiptOf_def)
    moreover have "receipt_for env r ?c" using c by (simp add: receipt_for_def batchReceiptOf_def newBatch_def)
    ultimately show ?thesis using found [of db ?b'] by (simp add: newBatch_def)
  qed
qed

section \<open>The authority\<close>

text \<open>Whatever decision the batch goes on with, it is carried out.\<close>

lemma completeBatch_carries:
  assumes ok: "ful_ok db" and b: "findBatch t i db = Some b" "fb_status b = I_PENDING"
    and h: "sha256_text (fb_payloadHash b)" and v: "\<forall>item\<in>set (br_shipments (fb_payload b)). isSafeInteger (bi_shipmentVersion item + 1)"
    and d: "batchAuthority api b now s = (Inr d, s')" "assertBatchDispatchGrantBinding (fb_payload b) d"
  shows "\<exists>db'. completeBatch api t i now (db, s) = (Inr (), db', s') \<and> batch_ended t db b d db'"
proof -
  note ok' = ok [unfolded ful_ok_def]
  have r: "batchRequestValid (fb_payload b)" using d(2) by (simp add: assertBatchDispatchGrantBinding_def)
  let ?b = "b\<lparr> fb_decision := Some d, fb_stage := (if is_granted d then STAGE_GRANTED else STAGE_REJECTED) \<rparr>"
  from saveDecisionTx_succeeds [OF ok' b, of d] obtain db1 where s: "saveDecisionTx t i (fb_payload b) d db = Inr db1"
    "shipments db1 = shipments db" "findBatch t i db1 = Some ?b" by blast
  have "ful_but {} db1"
    using saveDecisionTx_keeps [OF s(1) b(1) batchAuthority_decision [OF d(1)] d(2)] ok' by (simp add: keeps_ful_def)
  from commitBatch_ends [OF this s(3), of d now] b(2) h v obtain db2 where c: "commitBatch t i now db1 = Inr db2" "batch_ended t db1 ?b d db2"
    by auto
  have "completeBatch api t i now (db, s) = (Inr (), db2, s')" using b r d s(1) c(1) by (simp add: completeBatch_def)
  moreover have "response_of ?b d c = response_of b d c" for c by (simp add: response_of_def)
  then have "batch_ended t db b d db2" using c(2) s(2) by (simp add: batch_ended_def)
  ultimately show ?thesis by blast
qed

text \<open>
  What the fulfilment service relies on: for a request it \<open>answers\<close>, the authority replies with a decision
  bound to the request, it \<open>stands by\<close> that decision when asked again, and a rejection changes none of what
  it decides about (\<open>subjects\<close>).
\<close>

locale dispatch_authority =
  fixes api :: "'ord order_api"
    and answers :: "batch_request \<Rightarrow> 'ord \<Rightarrow> bool"
    and stands_by :: "batch_request \<Rightarrow> batch_decision \<Rightarrow> 'ord \<Rightarrow> bool"
    and subjects :: "'ord \<Rightarrow> 'subjects"
  assumes decides: "batchRequestValid r \<Longrightarrow> answers r s \<Longrightarrow>
      \<exists>d s'. oa_authorizeBatch api r now s = (HttpReply 201 (Some d), s') \<and> stands_by r d s' \<and>
        (\<not> is_granted d \<longrightarrow> subjects s' = subjects s)"
    and repeats: "batchRequestValid r \<Longrightarrow> stands_by r d s \<Longrightarrow> oa_authorizeBatch api r now s = (HttpReply 201 (Some d), s)"
    and bound: "stands_by r d s \<Longrightarrow> assertBatchDispatchGrantBinding r d"
begin

lemma authority_reply:
  assumes "oa_authorizeBatch api r now s = (HttpReply 201 (Some d), s')" "stands_by r d s'"
  shows "orderAuthorizeBatch api r now s = (Inr d, s')"
  using assms bound [OF assms(2)]
  by (simp add: orderAuthorizeBatch_def orderRequest_def http_ok_def assertBatchDispatchGrantBinding_def)

lemma authority_answer:
  assumes "batchRequestValid r" "answers r s \<or> stands_by r d0 s"
  shows "\<exists>d s'. orderAuthorizeBatch api r now s = (Inr d, s') \<and> stands_by r d s' \<and>
    (\<not> is_granted d \<longrightarrow> subjects s' = subjects s) \<and> (stands_by r d0 s \<longrightarrow> d = d0 \<and> s' = s)"
proof (cases "stands_by r d0 s")
  case True
  with authority_reply repeats assms(1) show ?thesis by blast
next
  case False
  with assms decides [OF assms(1), of s now] authority_reply show ?thesis by blast
qed

text \<open>A pending batch is completed wherever it stopped: before the authority was asked, before its reply arrived, or before the decision was carried out.\<close>

lemma completeBatch_ends:
  assumes ok: "ful_ok db" and b: "findBatch t i db = Some b" "fb_status b = I_PENDING"
    and h: "sha256_text (fb_payloadHash b)" and v: "\<forall>item\<in>set (br_shipments (fb_payload b)). isSafeInteger (bi_shipmentVersion item + 1)"
    and a: "fb_decision b = None \<and> answers (fb_payload b) s \<or> stands_by (fb_payload b) d0 s \<and> fb_decision b \<in> {None, Some d0}"
  shows "\<exists>d db' s'. completeBatch api t i now (db, s) = (Inr (), db', s') \<and> batch_ended t db b d db' \<and>
    stands_by (fb_payload b) d s' \<and> (\<not> is_granted d \<longrightarrow> subjects s' = subjects s)"
proof -
  have "batch_form b" using ful_butD(3) [OF ok [unfolded ful_ok_def]] findBatch_D [OF b(1)] by (simp add: batches_ok_def)
  then have r: "batchRequestValid (fb_payload b)" by (simp add: batch_form_def)
  obtain d s' where d: "batchAuthority api b now s = (Inr d, s')" "stands_by (fb_payload b) d s'"
    "\<not> is_granted d \<longrightarrow> subjects s' = subjects s"
  proof (cases "fb_decision b")
    case None
    with authority_answer [OF r, of s d0 now] a that show thesis by (auto simp: batchAuthority_def)
  next
    case (Some e)
    with a bound [of "fb_payload b" d0 s] that [of d0 s] show thesis by (simp add: batchAuthority_def assertBatchDispatchGrantBinding_def)
  qed
  with completeBatch_carries [OF ok b h v d(1) bound [OF d(2)]] show ?thesis by blast
qed

text \<open>A request that finds its batch under way ends it.\<close>

lemma completeBatch_answers:
  assumes ok: "ful_ok db" and b: "findBatch (br_tenantId r) (br_requestId r) db = Some b" "fb_status b = I_PENDING" "fb_payload b = r"
      "fb_payloadHash b = fe_batchHash env r" and h: "sha256_text (fe_batchHash env r)"
    and v: "\<forall>item\<in>set (br_shipments r). isSafeInteger (bi_shipmentVersion item + 1)"
    and a: "fb_decision b = None \<and> answers r s \<or> stands_by r d0 s \<and> fb_decision b \<in> {None, Some d0}"
  shows "\<exists>c db' s'. completeBatch api (br_tenantId r) (br_requestId r) now (db, s) = (Inr (), db', s') \<and>
    batchReceipt (br_tenantId r) (br_requestId r) db' = Inr c \<and> receipt_for env r c \<and>
    (be_status c = I_COMPLETED \<and> (\<forall>item\<in>set (br_shipments r). item_dispatched (br_tenantId r) db' item) \<and>
       (\<exists>d. is_granted d \<and> stands_by r d s') \<or>
     be_status c = I_REJECTED \<and> shipments db' = shipments db \<and> subjects s' = subjects s)"
proof -
  let ?t = "br_tenantId r" and ?i = "br_requestId r"
  from completeBatch_ends [OF ok b(1,2), of s d0 now] b(3,4) h v a
  obtain d db2 s' where c: "completeBatch api ?t ?i now (db, s) = (Inr (), db2, s')" "batch_ended ?t db b d db2"
    "stands_by r d s'" "\<not> is_granted d \<longrightarrow> subjects s' = subjects s" by auto
  note fb = findBatch_D [OF b(1)]
  from c(2) fb obtain b' w where w: "findBatch ?t ?i db2 = Some b'" "fb_response b' = Some w" "batchReceiptValid w" "response_of b d w"
    by (auto simp: batch_ended_def Let_def)
  have "batchReceipt ?t ?i db2 = Inr w" using w(1-3) by (simp add: batchReceipt_def parseBatchReceipt_def)
  moreover have "receipt_for env r w" using w(3,4) b(3,4) fb bound [OF c(3)] by (simp add: receipt_for_def response_of_def)
  moreover have "if is_granted d then \<forall>item\<in>set (br_shipments r). item_dispatched ?t db2 item else shipments db2 = shipments db"
    using c(2) b(3) unfolding batch_ended_def by simp
  ultimately show ?thesis using c w(4) by (cases "is_granted d") (auto simp: response_of_def)
qed

lemma dispatchBatch_resumes:
  assumes ok: "ful_ok db" and r: "batchRequestValid r"
    and b: "findBatch (br_tenantId r) (br_requestId r) db = Some b" "fb_status b = I_PENDING" "fb_payload b = r"
      "fb_payloadHash b = fe_batchHash env r" and h: "sha256_text (fe_batchHash env r)"
    and v: "\<forall>item\<in>set (br_shipments r). isSafeInteger (bi_shipmentVersion item + 1)"
    and a: "fb_decision b = None \<and> answers r s \<or> stands_by r d0 s \<and> fb_decision b \<in> {None, Some d0}"
  shows "\<exists>c db' s'. dispatchBatch api env r now (db, s) = (Inr c, db', s') \<and> receipt_for env r c \<and>
    (be_status c = I_COMPLETED \<and> (\<forall>item\<in>set (br_shipments r). item_dispatched (br_tenantId r) db' item) \<and>
       (\<exists>d. is_granted d \<and> stands_by r d s') \<or>
     be_status c = I_REJECTED \<and> shipments db' = shipments db \<and> subjects s' = subjects s)"
proof -
  from completeBatch_answers [OF ok b h v a, of now] obtain c db' s' where
    c: "completeBatch api (br_tenantId r) (br_requestId r) now (db, s) = (Inr (), db', s')"
      "batchReceipt (br_tenantId r) (br_requestId r) db' = Inr c" "receipt_for env r c"
    and e: "be_status c = I_COMPLETED \<and> (\<forall>item\<in>set (br_shipments r). item_dispatched (br_tenantId r) db' item) \<and>
       (\<exists>d. is_granted d \<and> stands_by r d s') \<or>
     be_status c = I_REJECTED \<and> shipments db' = shipments db \<and> subjects s' = subjects s" by blast
  have "dispatchBatch api env r now (db, s) = (Inr c, db', s')" using r b c by (simp add: dispatchBatch_def prepareBatchTx_def)
  with c(3) e show ?thesis by blast
qed

lemma dispatchBatch_ends:
  assumes ok: "ful_ok db" and n: "batch_new env r db" and a: "answers r s"
  shows "\<exists>c db' s'. dispatchBatch api env r now (db, s) = (Inr c, db', s') \<and> receipt_for env r c \<and>
    (be_status c = I_COMPLETED \<and> (\<forall>item\<in>set (br_shipments r). item_dispatched (br_tenantId r) db' item) \<and>
       (\<exists>d. is_granted d \<and> stands_by r d s') \<or>
     be_status c = I_REJECTED \<and> shipments db' = shipments db \<and> subjects s' = subjects s)"
proof -
  let ?t = "br_tenantId r" and ?i = "br_requestId r"
  have v: "batchRequestValid r" and h: "sha256_text (fe_batchHash env r)"
    and sv: "\<forall>item\<in>set (br_shipments r). isSafeInteger (bi_shipmentVersion item + 1)" using n by (auto simp: batch_new_def list_all_iff)
  from prepareBatchTx_succeeds [OF ok n, of now] obtain db1 b where p: "prepareBatchTx env r now db = Inr db1"
    "findBatch ?t ?i db1 = Some b" "fb_payload b = r" "fb_payloadHash b = fe_batchHash env r" "shipments db1 = shipments db"
    and st: "fb_status b = I_PENDING \<and> fb_decision b = None \<or>
     fb_status b = I_REJECTED \<and> (\<exists>c. fb_response b = Some c \<and> receipt_for env r c \<and> be_status c = I_REJECTED)" by blast
  have ok1: "ful_ok db1" using prepareBatchTx_keeps [OF v p(1)] ok by (simp add: keeps_ful_def ful_ok_def)
  from st show ?thesis
  proof
    assume pend: "fb_status b = I_PENDING \<and> fb_decision b = None"
    from completeBatch_answers [OF ok1 p(2) _ p(3,4) h sv, of s _ now] pend a obtain c db' s' where
      c: "completeBatch api ?t ?i now (db1, s) = (Inr (), db', s')" "batchReceipt ?t ?i db' = Inr c" "receipt_for env r c"
      and e: "be_status c = I_COMPLETED \<and> (\<forall>item\<in>set (br_shipments r). item_dispatched ?t db' item) \<and>
         (\<exists>d. is_granted d \<and> stands_by r d s') \<or>
       be_status c = I_REJECTED \<and> shipments db' = shipments db1 \<and> subjects s' = subjects s" by blast
    have "dispatchBatch api env r now (db, s) = (Inr c, db', s')" using v p(1) c by (simp add: dispatchBatch_def)
    with c(3) e p(5) show ?thesis by auto
  next
    assume rej: "fb_status b = I_REJECTED \<and> (\<exists>c. fb_response b = Some c \<and> receipt_for env r c \<and> be_status c = I_REJECTED)"
    then obtain w where w: "fb_response b = Some w" "receipt_for env r w" "be_status w = I_REJECTED" by blast
    have "completeBatch api ?t ?i now (db1, s) = (Inr (), db1, s)" using p(2) rej by (simp add: completeBatch_def)
    with v p w have "dispatchBatch api env r now (db, s) = (Inr w, db1, s)"
      by (simp add: dispatchBatch_def batchReceipt_def parseBatchReceipt_def receipt_for_def)
    with w p(5) show ?thesis by blast
  qed
qed

text \<open>A request whose batch has ended gets its receipt again.\<close>

lemma dispatchBatch_repeats:
  assumes "batchRequestValid r" "findBatch (br_tenantId r) (br_requestId r) db = Some b" "fb_status b \<noteq> I_PENDING"
    "fb_payloadHash b = fe_batchHash env r" "fb_response b = Some c" "batchReceiptValid c"
  shows "dispatchBatch api env r now (db, s) = (Inr c, db, s)"
  using assms by (simp add: dispatchBatch_def prepareBatchTx_def completeBatch_def batchReceipt_def parseBatchReceipt_def)

end

section \<open>The order service is such an authority\<close>

definition batch_undecided :: "batch_request \<Rightarrow> ord_db \<Rightarrow> bool" where
  "batch_undecided r s \<longleftrightarrow> ord_ok s \<and> (\<forall>b\<in>set (dispatchBatches s). bd_id b \<noteq> br_requestId r)"

definition orders_granted :: "batch_request \<Rightarrow> ord_db \<Rightarrow> bool" where
  "orders_granted r s \<longleftrightarrow> (\<forall>item\<in>set (br_shipments r). \<exists>x. loadOrder (br_tenantId r) (bi_orderId item) s = Inr x \<and>
     so_dispatchGrantedAt x \<noteq> None \<and> so_dispatchRequestId x = Some (bi_dispatchRequestId item) \<and>
     so_dispatchShipmentId x = Some (bi_shipmentId item))"

definition batch_decided :: "batch_request \<Rightarrow> batch_decision \<Rightarrow> ord_db \<Rightarrow> bool" where
  "batch_decided r d s \<longleftrightarrow>
     List.find (\<lambda>b. bd_tenantId b = br_tenantId r \<and> bd_id b = br_requestId r) (dispatchBatches s) =
       Some \<lparr> bd_id = br_requestId r, bd_tenantId = br_tenantId r, bd_payload = r, bd_decision = d \<rparr> \<and>
     assertBatchDispatchGrantBinding r d \<and> (is_granted d \<longrightarrow> orders_granted r s)"

lemma batch_decided_repeats: "batchRequestValid r \<Longrightarrow> batch_decided r d s \<Longrightarrow> authorizeBatch env r now s = Inr (d, s)"
  by (simp add: batch_decided_def authorizeBatch_def)

lemma batchDecision_bound: "batchRequestValid r \<Longrightarrow> assertBatchDispatchGrantBinding r (batchDecision r now s)"
  using granted_binding [of r now] rejected_binding [OF _ batchReason_text, of r]
  by (auto simp: batchDecision_def split: option.splits)

lemma grantItems_batches: "grantItems r items now db = Inr db' \<Longrightarrow> dispatchBatches db' = dispatchBatches db"
  by (induction items arbitrary: db) (auto simp: bind_res_Inr_iff dest!: updateOrder_D)

lemma authorizeBatch_stores:
  assumes a: "authorizeBatch env r now s = Inr (d, s')" and n: "\<forall>b\<in>set (dispatchBatches s). bd_id b \<noteq> br_requestId r"
  shows "dispatchBatches s' = dispatchBatches s @ [\<lparr> bd_id = br_requestId r, bd_tenantId = br_tenantId r, bd_payload = r, bd_decision = d \<rparr>]"
proof -
  have "List.find (\<lambda>b. bd_tenantId b = br_tenantId r \<and> bd_id b = br_requestId r) (dispatchBatches s) = None"
    using n by (auto simp: find_None_iff)
  with a show ?thesis
    by (auto simp: authorizeBatch_def createBatch_def bind_res_Inr_iff Let_def split: if_splits batch_decision.splits dest!: grantItems_batches)
qed

lemma authorizeBatch_decides:
  assumes v: "batchRequestValid r" and n: "batch_undecided r s"
  shows "\<exists>d s'. authorizeBatch env r now s = Inr (d, s') \<and> batch_decided r d s' \<and> (\<not> is_granted d \<longrightarrow> orders s' = orders s)"
proof -
  let ?d = "batchDecision r now s"
  have n': "ord_ok s" "\<forall>b\<in>set (dispatchBatches s). bd_id b \<noteq> br_requestId r" using n by (simp_all add: batch_undecided_def)
  from authorizeBatch_new [OF n'(1) v n'(2), of env now] obtain s' where a: "authorizeBatch env r now s = Inr (?d, s')"
    "case ?d of
       REJECTED b why \<Rightarrow> orders s' = orders s
     | GRANTED b gs \<Rightarrow> \<forall>item\<in>set (br_shipments r). \<exists>x. loadOrder (br_tenantId r) (bi_orderId item) s = Inr x \<and>
         loadOrder (br_tenantId r) (bi_orderId item) s' =
           Inr ((grantDispatch (itemRequest r item) (br_requestId r) now x)\<lparr> so_updatedAt := now \<rparr>)" by blast
  have "orders_granted r s'" if "is_granted ?d"
    unfolding orders_granted_def using that a(2)
    by (cases ?d) (auto simp: grantDispatch_def itemRequest_def dest!: bspec)
  moreover have "List.find (\<lambda>b. bd_tenantId b = br_tenantId r \<and> bd_id b = br_requestId r) (dispatchBatches s') =
      Some \<lparr> bd_id = br_requestId r, bd_tenantId = br_tenantId r, bd_payload = r, bd_decision = ?d \<rparr>"
    using n'(2) by (auto simp: authorizeBatch_stores [OF a(1) n'(2)] find_append find_None_iff split: option.splits dest!: find_Some_D)
  ultimately have "batch_decided r ?d s'" using batchDecision_bound [OF v] by (simp add: batch_decided_def)
  moreover have "orders s' = orders s" if "\<not> is_granted ?d" using that a(2) by (cases ?d) simp_all
  ultimately show ?thesis using a(1) by blast
qed

interpretation authority: dispatch_authority "order_service env" batch_undecided batch_decided orders
  for env
proof unfold_locales
  show "\<exists>d s'. oa_authorizeBatch (order_service env) r now s = (HttpReply 201 (Some d), s') \<and> batch_decided r d s' \<and>
      (\<not> is_granted d \<longrightarrow> orders s' = orders s)" if "batchRequestValid r" "batch_undecided r s" for r s now
    using authorizeBatch_decides [OF that, of env now] that(1) by (auto simp: order_service_def postBatch_def posted_def)
  show "oa_authorizeBatch (order_service env) r now s = (HttpReply 201 (Some d), s)"
    if "batchRequestValid r" "batch_decided r d s" for r d s now
    using batch_decided_repeats [OF that] that(1) by (simp add: order_service_def postBatch_def posted_def)
  show "assertBatchDispatchGrantBinding r d" if "batch_decided r d s" for r d s using that by (simp add: batch_decided_def)
qed

end
