(* ===== verification/Fulfillment_Run.thy ===== *)
theory Fulfillment_Run
  imports Fulfillment_Agreement
begin

text \<open>
  A run of the order service and the fulfilment service, for the witnesses: the order that the order service
  confirmed becomes a shipment, is picked, made ready, claimed by a trip and dispatched with it.
\<close>

section \<open>To the claim\<close>

text \<open>For evaluation, short codes stand for the hashes.\<close>

definition demo_fenv :: ful_env where
  "demo_fenv = \<lparr> fe_prec = (\<lambda>x. x), fe_batchHash = (\<lambda>r. replicate 64 (CHR ''a'')), fe_eventHash = (\<lambda>e. nat_text (ev_eventId e)),
     fe_semanticHash = (\<lambda>(t, pr, a, ty, p). ty), fe_batchSize = 10, fe_retryBaseMs = 1, fe_retryMaxMs = 4 \<rparr>"

definition source_of :: "order_line_view \<Rightarrow> source_line" where
  "source_of l = \<lparr> sn_orderLineId = lv_id l, sn_lineNumber = lv_lineNumber l, sn_productId = lv_productId l,
     sn_quantity = lv_quantity l, sn_skuSnapshot = Some (lv_skuSnapshot l),
     sn_productNameSnapshot = Some (lv_productNameSnapshot l), sn_unitSnapshot = Some (lv_unitSnapshot l),
     sn_unitWeight = Some (lv_unitWeight l), sn_unitVolume = Some (lv_unitVolume l) \<rparr>"

definition body_of :: "ord_payload \<Rightarrow> order_event_body" where
  "body_of p = (case p of
     ConfirmedPayload c \<Rightarrow> \<lparr> oy_orderId = Some (cf_orderId c), oy_confirmed = Some \<lparr> pr_orderNumber = cf_orderNumber c,
       pr_orderVersion = cf_orderVersion c, pr_reservationGroupId = cf_reservationGroupId c, pr_confirmedAt = cf_confirmedAt c,
       pr_customerId = cf_customerId c, pr_deliveryAddressId = cf_deliveryAddressId c, pr_warehouseId = cf_warehouseId c,
       pr_customerSnapshot = cf_customerSnapshot c, pr_deliveryAddressSnapshot = cf_deliveryAddressSnapshot c,
       pr_warehouseSnapshot = cf_warehouseSnapshot c, pr_totalQuantity = cf_totalQuantity c, pr_totalWeight = cf_totalWeight c,
       pr_totalVolume = cf_totalVolume c, pr_orderLines = map source_of (cf_orderLines c) \<rparr>, oy_cancelReason = None \<rparr>
   | _ \<Rightarrow> \<lparr> oy_orderId = None, oy_confirmed = None, oy_cancelReason = None \<rparr>)"

text \<open>The confirmation as the order service published it.\<close>

definition demo_confirmation :: order_event where
  "demo_confirmation = (let row = last (ord_outbox (fst (snd demo_confirm))) in
     \<lparr> ev_eventId = ob_id row, ev_eventType = ob_eventType row, ev_eventVersion = ob_eventVersion row,
       ev_occurredAt = ob_occurredAt row, ev_producer = ''order-service'', ev_tenantId = ob_tenantId row,
       ev_actorId = ob_payloadActor row, ev_correlationId = ob_correlationId row, ev_causationId = ob_correlationId row,
       ev_aggregateType = ob_aggregateType row, ev_aggregateId = ob_aggregateId row,
       ev_aggregateVersion = ob_aggregateVersion row, ev_payload = body_of (ob_payload row), ev_payloadActor = None \<rparr>)"

definition demo_sctx :: shipment_context where
  "demo_sctx = \<lparr> sx_tenantId = 1, sx_actorId = Some 7, sx_correlationId = 91, sx_causationId = None \<rparr>"

definition demo_claim :: claim_request where
  "demo_claim = \<lparr> cq_contractVersion = 1, cq_tenantId = 1, cq_requestId = 50, cq_tripId = 61, cq_shipmentId = 1, cq_actorId = 7,
     cq_expectedTripVersion = 1, cq_expectedShipmentVersion = 3 \<rparr>"

definition demo_api_ord :: "ord_db order_api" where
  "demo_api_ord = order_service demo_env"

definition demo_f1 :: "ful_error + ful_db" where
  "demo_f1 = handleShipmentOrderEvent demo_api_ord demo_fenv 13 (fst (snd demo_confirm)) ful_init demo_confirmation ful_init"

definition demo_f2 :: "ful_error + ful_db" where
  "demo_f2 = transitionTx 1 1 S_PICKING demo_sctx None 14 (projr demo_f1)"

definition demo_f3 :: "ful_error + ful_db" where
  "demo_f3 = transitionTx 1 2 S_READY_TO_SHIP demo_sctx None 15 (projr demo_f2)"

definition demo_f4 :: "ful_error + trip_response \<times> ful_db" where
  "demo_f4 = claimShipment demo_claim 16 (projr demo_f3)"

definition demo_fdb :: ful_db where
  "demo_fdb = snd (projr demo_f4)"

lemma demo_fdb_value [code]: "demo_fdb =
    \<lparr>shipments = [\<lparr>sp_id = 1, sp_tenantId = 1, sp_shipmentNumber =
    ''SHP-00000000-0000-0000-0000-000000000001'', sp_orderId = 1, sp_warehouseId = 2, sp_deliveryAddressId = 6,
    sp_customerSnapshot = \<lparr>cs_customerId = 5, cs_customerVersion = 1, cs_code = ''C-1'', cs_name =
    ''Minh Anh'', cs_taxCode = None, cs_phone = None, cs_email = None\<rparr>, sp_deliveryAddressSnapshot =
    \<lparr>as_addressId = 6, as_addressVersion = 1, as_addressType = ''SHIPPING'', as_label = None,
    as_recipientName = ''Minh Anh'', as_phone = None, as_addressLine = ''1 Le Loi'', as_ward = None, as_district
    = None, as_province = ''HCM'', as_postalCode = None, as_latitude = None, as_longitude = None,
    as_deliveryNote = None\<rparr>, sp_warehouseSnapshot = \<lparr>ws_warehouseId = 2, ws_warehouseVersion = 1,
    ws_code = ''W-1'', ws_name = ''Main'', ws_addressLine = ''2 Le Loi'', ws_ward = None, ws_district = None,
    ws_province = ''HCM'', ws_postalCode = None, ws_latitude = None, ws_longitude = None\<rparr>, sp_orderNumber
    = ''SO-19700101-000001'', sp_confirmedOrderVersion = 2, sp_status = S_READY_TO_SHIP, sp_totalWeight = 0,
    sp_totalVolume = 0, sp_reservationGroupId = 10, sp_assignedTripId = Some 61, sp_tripClaimId = Some 10,
    sp_dispatchIssuedAt = None, sp_readyAt = Some 15, sp_deliveredAt = None, sp_failedAt = None,
    sp_failureReason = None, sp_createdAt = 13, sp_updatedAt = 16, sp_version = 4, sp_deletedAt = None\<rparr>],
    shipmentItems = [\<lparr>it_id = 2, it_tenantId = 1, it_shipmentId = 1, it_orderLineId = 2, it_productId =
    31, it_skuSnapshot = ''SKU'', it_productNameSnapshot = ''Tea'', it_unitSnapshot = ''BOX'', it_quantity = 15,
    it_weight = 0, it_volume = 0, it_deletedAt = None\<rparr>], shipmentHistory = [\<lparr>hs_id = 3,
    hs_tenantId = 1, hs_shipmentId = 1, hs_fromStatus = None, hs_toStatus = S_PENDING_PICK, hs_reason = None,
    hs_actorId = Some 7, hs_correlationId = 90, hs_shipmentVersion = 1, hs_occurredAt = 13\<rparr>,
    \<lparr>hs_id = 6, hs_tenantId = 1, hs_shipmentId = 1, hs_fromStatus = Some S_PENDING_PICK, hs_toStatus =
    S_PICKING, hs_reason = None, hs_actorId = Some 7, hs_correlationId = 91, hs_shipmentVersion = 2,
    hs_occurredAt = 14\<rparr>, \<lparr>hs_id = 8, hs_tenantId = 1, hs_shipmentId = 1, hs_fromStatus = Some
    S_PICKING, hs_toStatus = S_READY_TO_SHIP, hs_reason = None, hs_actorId = Some 7, hs_correlationId = 91,
    hs_shipmentVersion = 3, hs_occurredAt = 15\<rparr>], dispatchIntents = [], fulBatches = [], orderCursors =
    [\<lparr>cu_tenantId = 1, cu_orderId = 1, cu_orderVersion = 2, cu_canceled = False\<rparr>], tripReceipts =
    [\<lparr>tr_id = 11, tr_tenantId = 1, tr_requestId = 50, tr_shipmentId = 1, tr_tripId = 61, tr_claimId = 10,
    tr_actorId = 7, tr_operation = CLAIM, tr_requestPayload = ClaimRequest \<lparr>cq_contractVersion = 1,
    cq_tenantId = 1, cq_requestId = 50, cq_tripId = 61, cq_shipmentId = 1, cq_actorId = 7,
    cq_expectedTripVersion = 1, cq_expectedShipmentVersion = 3\<rparr>, tr_responsePayload = ClaimResponse
    \<lparr>ct_contractVersion = 1, ct_tenantId = 1, ct_requestId = 50, ct_tripId = 61, ct_shipmentId = 1,
    ct_claimId = 10, ct_tripVersion = 1, ct_shipmentVersion = 4, ct_claimedAt = 16\<rparr> \<lparr>ns_tenantId =
    1, ns_shipmentId = 1, ns_shipmentNumber = ''SHP-00000000-0000-0000-0000-000000000001'', ns_orderId = 1,
    ns_warehouseId = 2, ns_shipmentVersion = 4, ns_orderVersion = 2, ns_deliveryAddressSnapshot =
    \<lparr>as_addressId = 6, as_addressVersion = 1, as_addressType = ''SHIPPING'', as_label = None,
    as_recipientName = ''Minh Anh'', as_phone = None, as_addressLine = ''1 Le Loi'', as_ward = None, as_district
    = None, as_province = ''HCM'', as_postalCode = None, as_latitude = None, as_longitude = None,
    as_deliveryNote = None\<rparr>, ns_totalWeight = ''0.000'', ns_totalVolume = ''0.000000'', ns_items =
    [\<lparr>ni_orderLineId = 2, ni_productId = 31, ni_skuSnapshot = ''SKU'', ni_productNameSnapshot = ''Tea'',
    ni_unitSnapshot = ''BOX'', ni_quantity = ''0.015'', ni_weight = ''0.000'', ni_volume =
    ''0.000000''\<rparr>]\<rparr>, tr_createdAt = 16\<rparr>], ful_inbox = [\<lparr>fi_id = 5, fi_tenantId = 1,
    fi_eventId = 5, fi_consumerName = ''fulfillment-order-events'', fi_eventType = ''OrderConfirmed'',
    fi_aggregateId = Some 1, fi_aggregateVersion = Some 2, fi_eventPayload = None, fi_payloadHash = None,
    fi_semanticKey = None, fi_attemptCount = 0, fi_nextAttemptAt = 13, fi_lastError = None, fi_processedAt = 13,
    fi_outcome = ''APPLIED'', fi_errorCode = None\<rparr>], ful_outbox = [\<lparr>ob_id = 4, ob_tenantId = 1,
    ob_eventType = ''ShipmentCreated'', ob_eventVersion = 1, ob_aggregateType = ''Shipment'', ob_aggregateId =
    1, ob_aggregateVersion = 1, ob_correlationId = 90, ob_causationId = Some 5, ob_payload =
    \<lparr>sl_shipmentId = 1, sl_orderId = 1, sl_reservationGroupId = 10, sl_warehouseId = 2,
    sl_dispatchRequestId = None, sl_reason = None\<rparr>, ob_payloadActor = Some 7, ob_occurredAt = 13,
    ob_publishedAt = None, ob_attemptCount = 0, ob_nextAttemptAt = 13, ob_lastError = None, ob_version = 1,
    ob_deletedAt = None\<rparr>, \<lparr>ob_id = 7, ob_tenantId = 1, ob_eventType = ''ShipmentPicking'',
    ob_eventVersion = 1, ob_aggregateType = ''Shipment'', ob_aggregateId = 1, ob_aggregateVersion = 2,
    ob_correlationId = 91, ob_causationId = Some 91, ob_payload = \<lparr>sl_shipmentId = 1, sl_orderId = 1,
    sl_reservationGroupId = 10, sl_warehouseId = 2, sl_dispatchRequestId = None, sl_reason = None\<rparr>,
    ob_payloadActor = Some 7, ob_occurredAt = 14, ob_publishedAt = None, ob_attemptCount = 0, ob_nextAttemptAt =
    14, ob_lastError = None, ob_version = 1, ob_deletedAt = None\<rparr>, \<lparr>ob_id = 9, ob_tenantId = 1,
    ob_eventType = ''ShipmentReadyToShip'', ob_eventVersion = 1, ob_aggregateType = ''Shipment'', ob_aggregateId
    = 1, ob_aggregateVersion = 3, ob_correlationId = 91, ob_causationId = Some 91, ob_payload =
    \<lparr>sl_shipmentId = 1, sl_orderId = 1, sl_reservationGroupId = 10, sl_warehouseId = 2,
    sl_dispatchRequestId = None, sl_reason = None\<rparr>, ob_payloadActor = Some 7, ob_occurredAt = 15,
    ob_publishedAt = None, ob_attemptCount = 0, ob_nextAttemptAt = 15, ob_lastError = None, ob_version = 1,
    ob_deletedAt = None\<rparr>], ful_next = 12\<rparr>"
  by code_simp

text \<open>The order service's database once the shipment's readiness has reached it.\<close>

definition demo_rdb :: ord_db where
  "demo_rdb = projr demo_ready"

lemma demo_rdb_value [code]: "demo_rdb =
    \<lparr>orders = [\<lparr>so_id = 1, so_tenantId = 1, so_orderNumber = ''SO-19700101-000001'', so_customerId
    = 5, so_deliveryAddressId = 6, so_warehouseId = 2, so_customerSnapshot = \<lparr>cs_customerId = 5,
    cs_customerVersion = 1, cs_code = ''C-1'', cs_name = ''Minh Anh'', cs_taxCode = None, cs_phone = None,
    cs_email = None\<rparr>, so_deliveryAddressSnapshot = \<lparr>as_addressId = 6, as_addressVersion = 1,
    as_addressType = ''SHIPPING'', as_label = None, as_recipientName = ''Minh Anh'', as_phone = None,
    as_addressLine = ''1 Le Loi'', as_ward = None, as_district = None, as_province = ''HCM'', as_postalCode =
    None, as_latitude = None, as_longitude = None, as_deliveryNote = None\<rparr>, so_warehouseSnapshot =
    \<lparr>ws_warehouseId = 2, ws_warehouseVersion = 1, ws_code = ''W-1'', ws_name = ''Main'', ws_addressLine =
    ''2 Le Loi'', ws_ward = None, ws_district = None, ws_province = ''HCM'', ws_postalCode = None, ws_latitude =
    None, ws_longitude = None\<rparr>, so_currency = ''VND'', so_status = READY_TO_SHIP, so_orderSource =
    ''MANUAL'', so_idempotencyKey = Some ''demo-key'', so_idempotencyRequestHash = Some ''0.015'', so_totals =
    \<lparr>ot_totalQuantity = 15, ot_totalWeight = 0, ot_totalVolume = 0\<rparr>, so_pendingSince = None,
    so_confirmedAt = Some 12, so_reservationGroupId = Some 10, so_cancellationRequestedAt = None,
    so_cancellationReason = None, so_cancellationActorId = None, so_cancellationCorrelationId = None,
    so_dispatchRequestId = None, so_dispatchShipmentId = None, so_dispatchOrderVersion = None,
    so_dispatchGrantedAt = None, so_dispatchActorId = None, so_dispatchCorrelationId = None, so_canceledAt =
    None, so_completedAt = None, so_cancelReason = None, so_createdAt = 3, so_updatedAt = 22, so_version = 4,
    so_deletedAt = None\<rparr>], orderLines = [\<lparr>ol_id = 2, ol_tenantId = 1, ol_orderId = 1,
    ol_lineNumber = 1, ol_productId = 31, ol_skuSnapshot = ''SKU'', ol_productNameSnapshot = ''Tea'',
    ol_unitSnapshot = ''BOX'', ol_quantity = 15, ol_unitWeight = 2, ol_unitVolume = 1, ol_deletedAt =
    None\<rparr>], orderHistory = [\<lparr>oh_id = 3, oh_tenantId = 1, oh_orderId = 1, oh_fromStatus = None,
    oh_toStatus = DRAFT, oh_reason = None, oh_actorId = Some 7, oh_correlationId = 90, oh_orderVersion = 1,
    oh_occurredAt = 3, oh_deletedAt = None\<rparr>, \<lparr>oh_id = 6, oh_tenantId = 1, oh_orderId = 1,
    oh_fromStatus = Some DRAFT, oh_toStatus = CONFIRMED, oh_reason = None, oh_actorId = Some 7, oh_correlationId
    = 90, oh_orderVersion = 2, oh_occurredAt = 12, oh_deletedAt = None\<rparr>, \<lparr>oh_id = 7, oh_tenantId =
    1, oh_orderId = 1, oh_fromStatus = Some CONFIRMED, oh_toStatus = PICKING, oh_reason = None, oh_actorId =
    Some 7, oh_correlationId = 92, oh_orderVersion = 3, oh_occurredAt = 21, oh_deletedAt = None\<rparr>,
    \<lparr>oh_id = 8, oh_tenantId = 1, oh_orderId = 1, oh_fromStatus = Some PICKING, oh_toStatus =
    READY_TO_SHIP, oh_reason = None, oh_actorId = Some 7, oh_correlationId = 92, oh_orderVersion = 4,
    oh_occurredAt = 22, oh_deletedAt = None\<rparr>], shortages = [], dispatchBatches = [], orderSequences =
    [\<lparr>sq_tenantId = 1, sq_period = ''19700101'', sq_lastValue = 1\<rparr>], ord_outbox = [\<lparr>ob_id =
    4, ob_tenantId = 1, ob_eventType = ''OrderCreated'', ob_eventVersion = 1, ob_aggregateType = ''SalesOrder'',
    ob_aggregateId = 1, ob_aggregateVersion = 1, ob_correlationId = 90, ob_causationId = Some 90, ob_payload =
    DraftPayload \<lparr>dp_orderId = 1, dp_orderNumber = ''SO-19700101-000001'', dp_status = ''DRAFT'',
    dp_customerId = 5, dp_deliveryAddressId = 6, dp_warehouseId = 2, dp_currency = ''VND'', dp_totalQuantity =
    ''0.015'', dp_totalWeight = ''0.000'', dp_totalVolume = ''0.000000'', dp_orderLines = [(1, 31,
    ''0.015'')]\<rparr>, ob_payloadActor = Some 7, ob_occurredAt = 3, ob_publishedAt = None, ob_attemptCount =
    0, ob_nextAttemptAt = 3, ob_lastError = None, ob_version = 1, ob_deletedAt = None\<rparr>, \<lparr>ob_id =
    5, ob_tenantId = 1, ob_eventType = ''OrderConfirmed'', ob_eventVersion = 1, ob_aggregateType =
    ''SalesOrder'', ob_aggregateId = 1, ob_aggregateVersion = 2, ob_correlationId = 90, ob_causationId = Some
    90, ob_payload = ConfirmedPayload \<lparr>cf_orderId = 1, cf_orderNumber = ''SO-19700101-000001'',
    cf_orderVersion = 2, cf_reservationGroupId = 10, cf_confirmedAt = 12, cf_customerId = 5,
    cf_deliveryAddressId = 6, cf_warehouseId = 2, cf_customerSnapshot = \<lparr>cs_customerId = 5,
    cs_customerVersion = 1, cs_code = ''C-1'', cs_name = ''Minh Anh'', cs_taxCode = None, cs_phone = None,
    cs_email = None\<rparr>, cf_deliveryAddressSnapshot = \<lparr>as_addressId = 6, as_addressVersion = 1,
    as_addressType = ''SHIPPING'', as_label = None, as_recipientName = ''Minh Anh'', as_phone = None,
    as_addressLine = ''1 Le Loi'', as_ward = None, as_district = None, as_province = ''HCM'', as_postalCode =
    None, as_latitude = None, as_longitude = None, as_deliveryNote = None\<rparr>, cf_warehouseSnapshot =
    \<lparr>ws_warehouseId = 2, ws_warehouseVersion = 1, ws_code = ''W-1'', ws_name = ''Main'', ws_addressLine =
    ''2 Le Loi'', ws_ward = None, ws_district = None, ws_province = ''HCM'', ws_postalCode = None, ws_latitude =
    None, ws_longitude = None\<rparr>, cf_totalQuantity = ''0.015'', cf_totalWeight = ''0.000'', cf_totalVolume
    = ''0.000000'', cf_orderLines = [\<lparr>lv_id = 2, lv_lineNumber = 1, lv_productId = 31, lv_skuSnapshot =
    ''SKU'', lv_productNameSnapshot = ''Tea'', lv_unitSnapshot = ''BOX'', lv_quantity = ''0.015'', lv_unitWeight
    = ''0.002'', lv_unitVolume = ''0.000001''\<rparr>]\<rparr>, ob_payloadActor = Some 7, ob_occurredAt = 12,
    ob_publishedAt = None, ob_attemptCount = 0, ob_nextAttemptAt = 12, ob_lastError = None, ob_version = 1,
    ob_deletedAt = None\<rparr>], ord_inbox = [\<lparr>ie_tenantId = 1, ie_consumerName =
    ''order-shipment-lifecycle'', ie_eventId = 40, ie_eventType = ''ShipmentPicking'', ie_aggregateId = Some 70,
    ie_aggregateVersion = Some 1, ie_outcome = ''APPLIED''\<rparr>, \<lparr>ie_tenantId = 1, ie_consumerName =
    ''order-shipment-lifecycle'', ie_eventId = 41, ie_eventType = ''ShipmentReadyToShip'', ie_aggregateId = Some
    70, ie_aggregateVersion = Some 2, ie_outcome = ''APPLIED''\<rparr>], ord_next = 9\<rparr>"
  by code_simp

lemma demo_f1_run: "demo_f1 = Inr (projr demo_f1)"
  by (rule ok_projr) code_simp

lemma demo_f2_run: "demo_f2 = Inr (projr demo_f2)"
  by (rule ok_projr) code_simp

lemma demo_f3_run: "demo_f3 = Inr (projr demo_f3)"
  by (rule ok_projr) code_simp

lemma demo_f4_run: "demo_f4 = Inr (fst (projr demo_f4), demo_fdb)"
  unfolding demo_fdb_def by (rule ok_pair) code_simp

lemma demo_rest: "(ful_step demo_api_ord demo_fenv)\<^sup>*\<^sup>* (projr demo_f1) demo_fdb"
proof -
  have "ful_step demo_api_ord demo_fenv (projr demo_f1) (projr demo_f2)"
    by (rule local_steps(2) [OF _ trans [OF demo_f2_def [symmetric] demo_f2_run]]) (simp add: MANUAL_TARGETS_def)
  moreover have "ful_step demo_api_ord demo_fenv (projr demo_f2) (projr demo_f3)"
    by (rule local_steps(2) [OF _ trans [OF demo_f3_def [symmetric] demo_f3_run]]) (simp add: MANUAL_TARGETS_def)
  moreover have "ful_step demo_api_ord demo_fenv (projr demo_f3) demo_fdb"
    by (rule local_steps(8) [OF trans [OF demo_f4_def [symmetric] demo_f4_run]])
  ultimately show ?thesis by (meson rtranclp.rtrancl_into_rtrancl rtranclp.rtrancl_refl)
qed

lemma demo_starts: "(ful_step demo_api_ord demo_fenv)\<^sup>*\<^sup>* ful_init (projr demo_f1)"
  using local_steps(1) [OF trans [OF demo_f1_def [symmetric] demo_f1_run]] by blast

lemma demo_reaches: "(ful_step demo_api_ord demo_fenv)\<^sup>*\<^sup>* ful_init demo_fdb"
  using demo_starts demo_rest by (rule rtranclp_trans)

lemma demo_ok: "ful_ok (projr demo_f1)" "ful_ok demo_fdb"
  using ful_steps_ok [OF demo_starts] ful_steps_ok [OF demo_reaches] ful_ok_init by blast+

section \<open>The departure\<close>

definition demo_trip :: batch_request where
  "demo_trip = \<lparr> br_contractVersion = 1, br_tenantId = 1, br_requestId = 60, br_tripId = 61, br_actorId = 7,
     br_expectedTripVersion = 2, br_dispatchVersion = 1, br_approvedPlanId = 62, br_inputHash = replicate 64 (CHR ''a''),
     br_shipments = [\<lparr> bi_shipmentId = 1, bi_orderId = 1, bi_reservationGroupId = 10, bi_orderVersion = 4,
       bi_shipmentVersion = 4, bi_dispatchRequestId = 80 \<rparr>] \<rparr>"

definition demo_departure :: "(ful_error + batch_receipt) \<times> ful_db \<times> ord_db" where
  "demo_departure = dispatchBatch demo_api_ord demo_fenv demo_trip 30 (demo_fdb, demo_rdb)"

lemma demo_departs: "(ful_step demo_api_ord demo_fenv)\<^sup>*\<^sup>* demo_fdb (fst (snd demo_departure))"
  unfolding demo_departure_def by (rule dispatchBatch_steps)

text \<open>What the departure left in both databases.\<close>

lemma demo_departure_view:
  "(case demo_departure of (res, db, s) \<Rightarrow>
      (map_sum (\<lambda>e. ()) be_status res, map (\<lambda>x. (sp_id x, sp_status x, sp_tripClaimId x, sp_assignedTripId x)) (shipments db),
       map tr_operation (tripReceipts db), map (\<lambda>x. (so_status x, so_dispatchShipmentId x)) (orders s))) =
   (Inr I_COMPLETED, [(1, S_DISPATCHED, Some 10, Some 61)], [CLAIM], [(READY_TO_SHIP, Some 1)])"
  by code_simp

lemma demo_departure_parts:
  "map_sum (\<lambda>e. ()) be_status (fst demo_departure) = Inr I_COMPLETED"
  "map (\<lambda>x. (sp_id x, sp_status x, sp_tripClaimId x, sp_assignedTripId x)) (shipments (fst (snd demo_departure))) =
     [(1, S_DISPATCHED, Some 10, Some 61)]"
  "map tr_operation (tripReceipts (fst (snd demo_departure))) = [CLAIM]"
  "map (\<lambda>x. (so_status x, so_dispatchShipmentId x)) (orders (snd (snd demo_departure))) = [(READY_TO_SHIP, Some 1)]"
proof -
  obtain res db s where d: "demo_departure = (res, db, s)" by (metis prod.exhaust)
  note v = demo_departure_view [unfolded d prod.case prod.inject]
  show "map_sum (\<lambda>e. ()) be_status (fst demo_departure) = Inr I_COMPLETED"
    "map (\<lambda>x. (sp_id x, sp_status x, sp_tripClaimId x, sp_assignedTripId x)) (shipments (fst (snd demo_departure))) =
     [(1, S_DISPATCHED, Some 10, Some 61)]"
    "map tr_operation (tripReceipts (fst (snd demo_departure))) = [CLAIM]"
    "map (\<lambda>x. (so_status x, so_dispatchShipmentId x)) (orders (snd (snd demo_departure))) = [(READY_TO_SHIP, Some 1)]"
    unfolding d fst_conv snd_conv using v by blast+
qed

end
