(* ===== verification/Fulfillment_Theorems.thy ===== *)
theory Fulfillment_Theorems
  imports Fulfillment_Run
begin

text \<open>The properties of the fulfilment service and of its part in the dispatch of a trip.\<close>

section \<open>The invariant\<close>

text \<open>
  C13. In every state the fulfilment service reaches, by any interleaving of the transactions of its
  operations and whatever the order service answers, the database invariant holds: one shipment per order
  of a tenant, a history that never runs ahead of the version, a dispatch time and a completed intent
  exactly for the shipments that have left, a pending intent only on a shipment that is ready, for every
  pending batch an intent of its own that locks each of its shipments at the version, order, reservation
  and trip of the request, and for every claim a shipment carries the one receipt that granted it.
\<close>

theorem fulfilment_invariant: "(ful_step api env)\<^sup>*\<^sup>* ful_init db \<Longrightarrow> ful_ok db"
  using ful_steps_ok ful_ok_init by blast

theorem fulfilment_invariant_witness: "ful_ok demo_fdb \<and> map sp_status (shipments demo_fdb) = [S_READY_TO_SHIP]"
proof -
  have "map sp_status (shipments demo_fdb) = [S_READY_TO_SHIP]" by code_simp
  with fulfilment_invariant [OF demo_reaches] show ?thesis by blast
qed

section \<open>The life of a shipment\<close>

lemma steps_become:
  assumes "ful_ok db" "(ful_step api env)\<^sup>*\<^sup>* db db'" "x \<in> set (shipments db)" "x' \<in> set (shipments db')" "sp_id x' = sp_id x"
  shows "ship_becomes db' x x'"
proof -
  from ful_steps_evolve [OF assms(2,1)] assms(3) obtain y where y: "y \<in> set (shipments db')" "ship_becomes db' x y"
    unfolding evolves_def by blast
  have "rows_ok db'" using ful_steps_ok [OF assms(2,1)] by (simp add: ful_ok_def ful_but_def)
  from shipment_unique [OF this y(1) assms(4)] y(2) assms(5) show ?thesis by (simp add: ship_becomes_def)
qed

text \<open>
  C14. The fulfilment service implements the shipment life cycle: between any two states of a run a shipment
  is kept, its status moves along the life cycle only (picking, ready, dispatched, delivered or failed, with
  a cancellation possible until it leaves), its order and reservation never change, its version never goes
  back, and two equal versions mean the row was not written in between. Once delivered or failed it stays
  one of the two; a delivery result that looked at the shipment before is written over the outcome.
\<close>

theorem shipment_refines_lifecycle:
  assumes "ful_ok db" "(ful_step api env)\<^sup>*\<^sup>* db db'" "x \<in> set (shipments db)"
  shows "\<exists>x'. findShipment (sp_tenantId x) (sp_id x) db' = Some x' \<and> ship_life\<^sup>*\<^sup>* (sp_status x) (sp_status x') \<and>
    sp_orderId x' = sp_orderId x \<and> sp_reservationGroupId x' = sp_reservationGroupId x \<and> sp_version x \<le> sp_version x' \<and>
    (sp_version x' = sp_version x \<longrightarrow> x' = x)"
proof -
  from ful_steps_evolve [OF assms(2,1)] assms(3) obtain x' where x': "x' \<in> set (shipments db')" "ship_becomes db' x x'"
    unfolding evolves_def by blast
  have "rows_ok db'" using ful_steps_ok [OF assms(2,1)] by (simp add: ful_ok_def ful_but_def)
  from find_shipment(2) [OF this x'(1)] x'(2) show ?thesis unfolding ship_becomes_def by metis
qed

theorem shipment_refines_lifecycle_witness:
  "\<exists>x x'. x \<in> set (shipments (projr demo_f1)) \<and> sp_status x = S_PENDING_PICK \<and> findShipment 1 1 demo_fdb = Some x' \<and>
    sp_status x' = S_READY_TO_SHIP \<and> ship_life\<^sup>*\<^sup>* (sp_status x) (sp_status x')"
proof -
  have "map (\<lambda>x. (sp_tenantId x, sp_id x, sp_status x)) (shipments (projr demo_f1)) = [(1, 1, S_PENDING_PICK)]" by code_simp
  then obtain x where x: "shipments (projr demo_f1) = [x]" "sp_tenantId x = 1" "sp_id x = 1" "sp_status x = S_PENDING_PICK" by auto
  have "map_option sp_status (findShipment 1 1 demo_fdb) = Some S_READY_TO_SHIP" by code_simp
  with shipment_refines_lifecycle [OF demo_ok(1) demo_rest, of x] x show ?thesis by auto
qed

text \<open>
  The shipment of the run has left and is marked as failed by hand; the driver's result, whose transaction
  looked at the shipment before, makes it delivered.
\<close>

definition demo_left :: ful_db where
  "demo_left = fst (snd demo_departure)"

definition demo_marked :: "ful_error + ful_db" where
  "demo_marked = transitionTx 1 5 S_FAILED demo_sctx (Some ''damaged'') 40 demo_left"

definition demo_delivered :: delivery_event where
  "demo_delivered = \<lparr> ev_eventId = 300, ev_eventType = ''DeliveryCompleted'', ev_eventVersion = 2, ev_occurredAt = 39,
     ev_producer = ''transport-service'', ev_tenantId = 1, ev_actorId = Some 9, ev_correlationId = 92, ev_causationId = 92,
     ev_aggregateType = ''DeliveryTrip'', ev_aggregateId = 61, ev_aggregateVersion = 6,
     ev_payload = Some \<lparr> dv_contractVersion = 1, dv_tenantId = 1, dv_tripId = 61, dv_stopId = 70, dv_shipmentId = 1, dv_attempt = 1,
       dv_driverId = 4, dv_assigneeUserId = 9, dv_outcome = OUTCOME_DELIVERED, dv_occurredAt = 39, dv_reason = None, dv_requestId = 46 \<rparr>, ev_payloadActor = None \<rparr>"

theorem late_result_overwrites_failure:
  "map sp_status (shipments demo_left) = [S_DISPATCHED]"
  "map sp_status (shipments (projr demo_marked)) = [S_FAILED]"
  "map sp_status (shipments (projr (handleDeliveryEvent demo_fenv 41 demo_delivered demo_left (projr demo_marked)))) = [S_DELIVERED]"
  by code_simp+

section \<open>Claims\<close>

text \<open>
  C15. A trip's claim is exclusive. As long as no release names the claim, the shipment stays with the trip
  and the claim that took it, through every other operation: no other trip can claim it, and neither
  dispatch nor delivery nor a cancellation of the order takes it away.
\<close>

theorem trip_claim_exclusive:
  assumes "ful_ok db" "(ful_step api env)\<^sup>*\<^sup>* db db'" "x \<in> set (shipments db)" "x' \<in> set (shipments db')" "sp_id x' = sp_id x"
    "sp_tripClaimId x = Some c" "\<not> released c db'"
  shows "sp_tripClaimId x' = Some c \<and> sp_assignedTripId x' = sp_assignedTripId x \<and>
    (\<exists>r\<in>set (tripReceipts db'). tr_operation r = CLAIM \<and> tr_claimId r = c \<and> Some (tr_tripId r) = sp_assignedTripId x')"
proof -
  have c: "sp_tripClaimId x' = Some c \<and> sp_assignedTripId x' = sp_assignedTripId x"
    using steps_become [OF assms(1-5)] assms(6,7) unfolding ship_becomes_def by blast
  have "claims_ok db'" using ful_steps_ok [OF assms(2,1)] by (simp add: ful_ok_def ful_but_def)
  then have "claim_held (tripReceipts db') x'" using assms(4) by (simp add: claims_ok_def)
  with c show ?thesis unfolding claim_held_def by metis
qed

theorem trip_claim_exclusive_witness:
  "map (\<lambda>x. (sp_id x, sp_tripClaimId x)) (shipments demo_fdb) = [(1, Some 10)] \<and>
   map sp_status (shipments (fst (snd demo_departure))) = [S_DISPATCHED] \<and>
   (\<exists>x\<in>set (shipments (fst (snd demo_departure))). sp_tripClaimId x = Some 10 \<and> sp_assignedTripId x = Some 61)"
proof -
  let ?db = "fst (snd demo_departure)"
  have x: "map (\<lambda>x. (sp_id x, sp_tripClaimId x, sp_assignedTripId x)) (shipments demo_fdb) = [(1, Some 10, Some 61)]" by code_simp
  then obtain a where a: "shipments demo_fdb = [a]" "sp_id a = 1" "sp_tripClaimId a = Some 10" "sp_assignedTripId a = Some 61" by auto
  obtain b where b: "shipments ?db = [b]" "sp_id b = 1" "sp_status b = S_DISPATCHED" using demo_departure_parts(2) by auto
  have "\<not> released 10 ?db" using demo_departure_parts(3) by (auto simp: released_def)
  from trip_claim_exclusive [OF demo_ok(2) demo_departs, of a b 10, OF _ _ _ _ this] a b show ?thesis by auto
qed

section \<open>The dispatch of a trip\<close>

lemma decided_grant: "batch_decided r d s \<Longrightarrow> is_granted d \<Longrightarrow> orders_granted r s"
  by (simp add: batch_decided_def)

text \<open>
  C6. A trip leaves entirely or not at all, in both databases. When the fulfilment service dispatches the
  shipments of a trip through the order service, the operation returns a final receipt: either every
  shipment of the request is dispatched, one version up, and every order is granted for its shipment and
  its request, or the batch is rejected and neither a shipment nor an order has changed.
\<close>

theorem trip_dispatch_all_or_nothing:
  assumes "ful_ok db" "batch_new env r db" "batch_undecided r s"
  shows "\<exists>c db' s'. dispatchBatch (order_service oenv) env r now (db, s) = (Inr c, db', s') \<and>
    (be_status c = I_COMPLETED \<and> (\<forall>item\<in>set (br_shipments r). item_dispatched (br_tenantId r) db' item) \<and> orders_granted r s' \<or>
     be_status c = I_REJECTED \<and> shipments db' = shipments db \<and> orders s' = orders s)"
  using authority.dispatchBatch_ends [OF assms] decided_grant by blast

lemma demo_trip_new: "batch_new demo_fenv demo_trip demo_fdb"
  by code_simp

lemma demo_trip_undecided: "batch_undecided demo_trip demo_rdb"
proof -
  have "list_all (\<lambda>b. bd_id b \<noteq> br_requestId demo_trip) (dispatchBatches demo_rdb)" by code_simp
  then show ?thesis using demo_ready_ok by (simp add: batch_undecided_def demo_rdb_def list_all_iff)
qed

theorem trip_dispatch_all_or_nothing_witness:
  "\<exists>c db' s'. demo_departure = (Inr c, db', s') \<and> be_status c = I_COMPLETED \<and> item_dispatched 1 db' (hd (br_shipments demo_trip)) \<and>
     orders_granted demo_trip s'"
proof -
  obtain c db' s' where c: "demo_departure = (Inr c, db', s')"
    "be_status c = I_COMPLETED \<and> (\<forall>item\<in>set (br_shipments demo_trip). item_dispatched (br_tenantId demo_trip) db' item) \<and> orders_granted demo_trip s' \<or>
     be_status c = I_REJECTED \<and> shipments db' = shipments demo_fdb \<and> orders s' = orders demo_rdb"
    using trip_dispatch_all_or_nothing [OF demo_ok(2) demo_trip_new demo_trip_undecided, of demo_env 30]
    unfolding demo_departure_def demo_api_ord_def by blast
  moreover have "be_status c = I_COMPLETED" using demo_departure_parts(1) unfolding c(1) by simp
  moreover have "br_tenantId demo_trip = 1" "hd (br_shipments demo_trip) \<in> set (br_shipments demo_trip)" by (simp_all add: demo_trip_def)
  ultimately show ?thesis by auto
qed

text \<open>
  C7. An interrupted trip dispatch is completed. Wherever the first attempt stopped (before the order service
  was asked, after it decided but before its reply arrived, or after the decision was saved), one attempt of
  recovery at a pending batch ends it: the batch becomes completed or rejected with a valid receipt, the
  shipments have left exactly when the orders are granted, and a decision the order service had already
  taken is the one carried out.
\<close>

theorem interrupted_trip_completes:
  assumes "ful_ok db" "findBatch t i db = Some b" "fb_status b = I_PENDING" "sha256_text (fb_payloadHash b)"
    "\<forall>item\<in>set (br_shipments (fb_payload b)). isSafeInteger (bi_shipmentVersion item + 1)"
    "fb_decision b = None \<and> batch_undecided (fb_payload b) s \<or> batch_decided (fb_payload b) d0 s \<and> fb_decision b \<in> {None, Some d0}"
  shows "\<exists>d db' s'. completeBatch (order_service oenv) t i now (db, s) = (Inr (), db', s') \<and> batch_ended t db b d db' \<and>
    batch_decided (fb_payload b) d s' \<and> (is_granted d \<longrightarrow> orders_granted (fb_payload b) s') \<and>
    (\<not> is_granted d \<longrightarrow> orders s' = orders s)"
  using authority.completeBatch_ends [OF assms] decided_grant by blast

text \<open>The demonstration batch, stopped after it was prepared.\<close>

definition demo_stopped :: "ful_error + ful_db" where
  "demo_stopped = prepareBatchTx demo_fenv demo_trip 30 demo_fdb"

theorem interrupted_trip_completes_witness:
  "\<exists>b d db' s'. findBatch 1 60 (projr demo_stopped) = Some b \<and> fb_status b = I_PENDING \<and>
     completeBatch (order_service demo_env) 1 60 31 (projr demo_stopped, demo_rdb) = (Inr (), db', s') \<and>
     batch_ended 1 (projr demo_stopped) b d db'"
proof -
  let ?v = "\<lambda>b. (fb_status b, fb_payload b, fb_decision b, fb_payloadHash b)"
  have "is_ok demo_stopped \<and> map_option ?v (findBatch 1 60 (projr demo_stopped)) = Some (I_PENDING, demo_trip, None, replicate 64 (CHR ''a''))"
    by code_simp
  then obtain b where st: "demo_stopped = Inr (projr demo_stopped)" and b: "findBatch 1 60 (projr demo_stopped) = Some b" "fb_status b = I_PENDING"
    "fb_payload b = demo_trip" "fb_decision b = None" "fb_payloadHash b = replicate 64 (CHR ''a'')" using ok_projr by auto
  have v: "batchRequestValid demo_trip" using demo_trip_new by (simp add: batch_new_def)
  have "ful_ok (projr demo_stopped)"
    using prepareBatchTx_keeps [OF v trans [OF demo_stopped_def [symmetric] st]] demo_ok(2) by (simp add: keeps_ful_def ful_ok_def)
  moreover have "sha256_text (replicate 64 (CHR ''a''))" by code_simp
  moreover have "\<forall>item\<in>set (br_shipments demo_trip). isSafeInteger (bi_shipmentVersion item + 1)" by code_simp
  ultimately show ?thesis
    using interrupted_trip_completes [of "projr demo_stopped" 1 60 b demo_rdb _ demo_env 31] b demo_trip_undecided by auto
qed

end
