(* ===== verification/Transport_Base.thy ===== *)
theory Transport_Base
  imports Fulfillment_Claims Fulfillment_Delivery
begin

text \<open>
  The transport service's trips: statuses and errors (\<^verbatim>\<open>trip-status.ts\<close>, \<^verbatim>\<open>trip-conflict.error.ts\<close>,
  \<^verbatim>\<open>downstream-error.ts\<close>), its tables (\<^verbatim>\<open>prisma/schema.prisma\<close> with the constraints and the partial unique
  indexes of the migrations), the row operations its services use, the helpers of
  \<^verbatim>\<open>trip-serialization.ts\<close> and \<^verbatim>\<open>route-domain.ts\<close>, and the client of the fulfilment service
  (\<^verbatim>\<open>fulfillment.client.ts\<close>).

  The lock text \<^verbatim>\<open>tenant:trip\<close> of an operation is the pair of the two. Of an operation's payload the parts
  that code reads again are kept. A fresh UUID is the next identifier of the database.
\<close>

section \<open>Statuses and errors\<close>

datatype trip_status = T_DRAFT | T_APPROVED | T_IN_PROGRESS | T_COMPLETED | T_CANCELED

datatype stop_status = STOP_PENDING | STOP_DELIVERED | STOP_FAILED

datatype member_state = M_CLAIM_PENDING | M_ACTIVE | M_RELEASE_PENDING | M_RELEASED

datatype op_kind = K_CREATE | K_UPDATE | K_ASSIGNMENT | K_ADD | K_REMOVE | K_CANCEL | K_SHIPMENT_CANCELED

datatype op_status = O_PENDING | O_COMPENSATING | O_COMPLETED | O_REJECTED

definition op_open :: "op_status \<Rightarrow> bool" where
  "op_open s \<longleftrightarrow> s = O_PENDING \<or> s = O_COMPENSATING"

text \<open>
  \<open>Downstream message status definite\<close> is the client's own exception, \<open>InvalidClaimSnapshot\<close> its subclass
  that carries the receipt; the last five are plain exceptions and errors of the database.
\<close>

datatype trp_error =
    TripNotFound uuid
  | TripEntityNotFound string
  | TripVersionConflict version version
  | TripInvalidState trip_status string
  | TripConflict string
  | TripRule string
  | TripAccessDenied
  | Downstream string "nat option" bool
  | InvalidClaimSnapshot claim_receipt
  | DownstreamService string "nat option"
  | TrpPlainError string
  | TrpUniqueViolation
  | TrpCheckViolation
  | TrpNotFound
  | TrpNumericOverflow

text \<open>\<^verbatim>\<open>error instanceof DownstreamError && error.definite\<close>\<close>

fun definite :: "trp_error \<Rightarrow> bool" where
  "definite (Downstream m s d) = d"
| "definite (InvalidClaimSnapshot r) = True"
| "definite _ = False"

section \<open>Rows\<close>

record depot_snapshot =
  ds_id :: uuid
  ds_name :: string
  ds_addressLine :: string
  ds_latitude :: "string option"
  ds_longitude :: "string option"
  ds_status :: string
  ds_version :: version

record vehicle_view =
  vh_id :: uuid
  vh_code :: string
  vh_licensePlate :: string
  vh_capacityWeight :: string
  vh_capacityVolume :: string
  vh_status :: string
  vh_version :: version

record trip_driver =
  tv_id :: uuid
  tv_tenantId :: uuid
  tv_userId :: uuid
  tv_displayName :: string
  tv_version :: version

record delivery_trip =
  dt_id :: uuid
  dt_tenantId :: uuid
  dt_tripNumber :: string
  dt_warehouseId :: uuid
  dt_vehicleId :: "uuid option"
  dt_driverId :: "uuid option"
  dt_driverUserId :: "uuid option"
  dt_driverVersion :: "version option"
  dt_depotSnapshot :: depot_snapshot
  dt_vehicleSnapshot :: "vehicle_view option"
  dt_driverSnapshot :: "trip_driver option"
  dt_status :: trip_status
  dt_plannedStartAt :: instant
  dt_actualStartAt :: "instant option"
  dt_completedAt :: "instant option"
  dt_totalWeight :: int
  dt_totalVolume :: int
  dt_approvedRoutePlanId :: "uuid option"
  dt_dispatchVersion :: version
  dt_dispatchedAt :: "instant option"
  dt_canceledAt :: "instant option"
  dt_cancelReason :: "string option"
  dt_createdAt :: instant
  dt_updatedAt :: instant
  dt_version :: version
  dt_deletedAt :: "instant option"

record trip_shipment =
  ts_id :: uuid
  ts_tenantId :: uuid
  ts_tripId :: uuid
  ts_shipmentId :: uuid
  ts_orderId :: "uuid option"
  ts_warehouseId :: uuid
  ts_operationId :: "uuid option"
  ts_state :: member_state
  ts_weight :: int
  ts_volume :: int
  ts_expectedShipmentVersion :: "version option"
  ts_shipmentVersion :: "version option"
  ts_orderVersion :: "version option"
  ts_claimRequest :: "claim_request option"
  ts_claimReceipt :: "claim_receipt option"
  ts_releaseRequest :: "release_request option"
  ts_releaseReceipt :: "release_receipt option"
  ts_shipmentSnapshot :: "trip_snapshot option"
  ts_assignedAt :: instant
  ts_removedAt :: "instant option"
  ts_version :: version
  ts_deletedAt :: "instant option"

record trip_stop =
  ps_id :: uuid
  ps_tenantId :: uuid
  ps_tripId :: uuid
  ps_shipmentId :: uuid
  ps_deliveryAddressId :: uuid
  ps_addressSnapshot :: address_snapshot
  ps_latitude :: "int option"
  ps_longitude :: "int option"
  ps_plannedSequence :: nat
  ps_approvedSequence :: "nat option"
  ps_status :: stop_status
  ps_currentAttempt :: nat
  ps_completedAt :: "instant option"
  ps_version :: version
  ps_deletedAt :: "instant option"

text \<open>What an operation answers: the trip's version and the state of each shipment.\<close>

record operation_result =
  or_shipmentId :: uuid
  or_state :: member_state
  or_reason :: "string option"

record operation_view =
  ov_tripId :: "uuid option"
  ov_requestId :: uuid
  ov_kind :: op_kind
  ov_status :: op_status
  ov_version :: version
  ov_results :: "operation_result list"

record trip_op =
  to_id :: uuid
  to_tenantId :: uuid
  to_tripId :: "uuid option"
  to_requestId :: uuid
  to_actorId :: uuid
  to_kind :: op_kind
  to_status :: op_status
  to_payloadHash :: string
  to_shipmentIds :: "uuid list"
  to_membershipIds :: "uuid list"
  to_reason :: "string option"
  to_result :: "operation_view option"
  to_activeLock :: "(uuid \<times> uuid) option"
  to_attemptCount :: nat
  to_nextAttemptAt :: instant
  to_lockedUntil :: "instant option"
  to_lastError :: "string option"
  to_createdAt :: instant
  to_version :: version

datatype dispatch_stage = G_ACCEPTED | G_SUBMITTED | G_RECEIPTED | G_COMPLETED | G_REJECTED

record dispatch_result =
  dz_tripId :: uuid
  dz_version :: version
  dz_dispatchVersion :: version
  dz_dispatchedAt :: instant

text \<open>The payload of a dispatch is \<open>None\<close> when it does not parse as a batch request.\<close>

record trip_dispatch =
  td_id :: uuid
  td_tenantId :: uuid
  td_tripId :: uuid
  td_dispatchVersion :: version
  td_idempotencyKey :: uuid
  td_status :: intent_status
  td_requestedBy :: uuid
  td_stage :: dispatch_stage
  td_payloadHash :: string
  td_payload :: "batch_request option"
  td_receipt :: "batch_receipt option"
  td_result :: "dispatch_result option"
  td_attemptCount :: nat
  td_nextAttemptAt :: instant
  td_lastError :: "string option"
  td_requestedAt :: instant
  td_completedAt :: "instant option"

datatype actor_mode = MODE_DRIVER | MODE_SUPER_ADMIN

record delivery_result =
  dl_requestId :: uuid
  dl_tripId :: uuid
  dl_tripStopId :: uuid
  dl_shipmentId :: uuid
  dl_driverId :: "uuid option"
  dl_assigneeUserId :: "uuid option"
  dl_actorUserId :: uuid
  dl_actorMode :: actor_mode
  dl_status :: stop_status
  dl_reason :: "string option"
  dl_actingReason :: "string option"
  dl_attempt :: nat
  dl_occurredAt :: instant
  dl_tripVersion :: version
  dl_stopVersion :: version

record delivery_attempt =
  da_id :: uuid
  da_tenantId :: uuid
  da_tripStopId :: uuid
  da_shipmentId :: uuid
  da_attemptNumber :: nat
  da_requestId :: "uuid option"
  da_status :: stop_status
  da_reason :: "string option"
  da_actorDriverId :: uuid
  da_actorUserId :: "uuid option"
  da_assigneeUserId :: "uuid option"
  da_actorMode :: "actor_mode option"
  da_actingReason :: "string option"
  da_payloadHash :: "string option"
  da_receipt :: "delivery_result option"
  da_occurredAt :: instant

text \<open>The input of a route plan and the plan itself; the figures of the solver are left out.\<close>

record route_stop_input =
  rs_stopId :: uuid
  rs_shipmentId :: uuid
  rs_shipmentVersion :: version
  rs_addressSnapshot :: address_snapshot
  rs_demandWeight :: string
  rs_demandVolume :: string
  rs_sequence :: nat

record route_input =
  rn_tenantId :: uuid
  rn_tripId :: uuid
  rn_tripVersion :: version
  rn_warehouseId :: uuid
  rn_vehicleId :: uuid
  rn_plannedStartAt :: instant
  rn_driver :: "uuid \<times> uuid \<times> version"
  rn_depot :: "string \<times> string \<times> string \<times> string"
  rn_vehicle :: "uuid \<times> version \<times> string \<times> string \<times> string"
  rn_stops :: "route_stop_input list"

datatype plan_source = MANUAL | OPTIMIZED | OVERRIDE | OPTIMIZER | MANUAL_OVERRIDE

record route_plan_stop =
  rq_tripStopId :: uuid
  rq_sequence :: nat

record route_plan =
  rp_id :: uuid
  rp_tenantId :: uuid
  rp_tripId :: uuid
  rp_planVersion :: version
  rp_routeRequestId :: uuid
  rp_requestActorId :: "uuid option"
  rp_requestHash :: "string option"
  rp_source :: plan_source
  rp_inputHash :: string
  rp_inputSnapshot :: route_input
  rp_optimizationRunId :: "uuid option"
  rp_originalPlanId :: "uuid option"
  rp_overrideReason :: "string option"
  rp_approvedBy :: "uuid option"
  rp_approvedAt :: "instant option"
  rp_approvalRequestId :: "uuid option"
  rp_approvalHash :: "string option"
  rp_approvalReceipt :: "delivery_trip option"
  rp_vehicleSnapshot :: "vehicle_view option"
  rp_driverSnapshot :: "trip_driver option"
  rp_stops :: "route_plan_stop list"
  rp_createdAt :: instant
  rp_deletedAt :: "instant option"

record trip_change =
  tx_beforeStatus :: trip_status
  tx_beforeVersion :: version
  tx_afterStatus :: trip_status
  tx_afterVersion :: version
  tx_requestId :: uuid
  tx_reason :: "string option"
  tx_planId :: "uuid option"

record trip_dispatched_item =
  tdi_shipmentId :: uuid
  tdi_orderId :: uuid
  tdi_reservationGroupId :: uuid
  tdi_orderVersion :: version

record trip_dispatched =
  tp_tenantId :: uuid
  tp_tripId :: uuid
  tp_warehouseId :: uuid
  tp_dispatchVersion :: version
  tp_dispatchRequestId :: uuid
  tp_approvedPlanId :: uuid
  tp_driverId :: uuid
  tp_assigneeUserId :: uuid
  tp_vehicleId :: uuid
  tp_dispatchedAt :: instant
  tp_shipments :: "trip_dispatched_item list"

datatype trip_payload = TripChanged trip_change | TripLeft trip_dispatched | StopResult delivery_payload

record trp_db =
  trips :: "delivery_trip list"
  tripShipments :: "trip_shipment list"
  tripStops :: "trip_stop list"
  routePlans :: "route_plan list"
  deliveryAttempts :: "delivery_attempt list"
  tripDispatches :: "trip_dispatch list"
  tripOperations :: "trip_op list"
  trp_outbox :: "trip_payload outbox_event list"
  trp_inbox :: "inbox_event list"
  trp_next :: uuid

record trip_user =
  us_tenantId :: uuid
  us_id :: uuid
  us_isSuperAdmin :: bool

end
