(* ===== verification/Transport_Rows.thy ===== *)
theory Transport_Rows
  imports Transport_Base
begin

text \<open>
  The row operations of the transport service with the constraints of its migrations, the helpers of
  \<^verbatim>\<open>trip-serialization.ts\<close> and \<^verbatim>\<open>route-domain.ts\<close>, and the client of the fulfilment service
  (\<^verbatim>\<open>fulfillment.client.ts\<close>). Row locks are the atomicity of a transaction.
\<close>

section \<open>Versions\<close>

definition toSafeVersion :: "version \<Rightarrow> trp_error + version" where
  "toSafeVersion v = (if \<not> isSafeInteger v \<or> v < 1
     then Inl (TrpPlainError ''Transport version exceeds the supported safe integer range'') else Inr v)"

text \<open>\<^verbatim>\<open>assertVersion\<close> of the trip services.\<close>

definition assertTripVersion :: "version \<Rightarrow> version \<Rightarrow> trp_error + unit" where
  "assertTripVersion expected actual =
     (if actual \<noteq> expected then bind_res (toSafeVersion actual) (\<lambda>v. Inl (TripVersionConflict expected v)) else Inr ())"

text \<open>\<^verbatim>\<open>trip.version >= BigInt(Number.MAX_SAFE_INTEGER)\<close>\<close>

definition versionRoom :: "version \<Rightarrow> version \<Rightarrow> trp_error + unit" where
  "versionRoom expected actual =
     (if MAX_SAFE_INTEGER \<le> int actual
      then bind_res (toSafeVersion actual) (\<lambda>v. Inl (TripVersionConflict expected v)) else Inr ())"

section \<open>Trips\<close>

definition findTrip :: "uuid \<Rightarrow> uuid \<Rightarrow> trp_db \<Rightarrow> delivery_trip option" where
  "findTrip t i db = List.find (\<lambda>x. dt_id x = i \<and> dt_tenantId x = t \<and> dt_deletedAt x = None) (trips db)"

definition loadTrip :: "uuid \<Rightarrow> uuid \<Rightarrow> trp_db \<Rightarrow> trp_error + delivery_trip" where
  "loadTrip t i db = (case findTrip t i db of None \<Rightarrow> Inl (TripNotFound i) | Some x \<Rightarrow> Inr x)"

text \<open>A trip that is approved or under way holds its vehicle and its driver.\<close>

definition trip_active :: "delivery_trip \<Rightarrow> bool" where
  "trip_active x \<longleftrightarrow> dt_status x = T_APPROVED \<or> dt_status x = T_IN_PROGRESS"

text \<open>\<^verbatim>\<open>ux_trips_driver_active\<close> and \<^verbatim>\<open>ux_trips_vehicle_active\<close>\<close>

definition resource_taken :: "delivery_trip \<Rightarrow> delivery_trip list \<Rightarrow> bool" where
  "resource_taken x xs \<longleftrightarrow> trip_active x \<and>
     exists_row (\<lambda>y. dt_id y \<noteq> dt_id x \<and> dt_tenantId y = dt_tenantId x \<and> trip_active y \<and>
       (dt_driverId x \<noteq> None \<and> dt_driverId y = dt_driverId x \<or> dt_vehicleId x \<noteq> None \<and> dt_vehicleId y = dt_vehicleId x)) xs"

text \<open>\<^verbatim>\<open>ck_trip_active_resources\<close>, and the columns of the totals.\<close>

definition trip_row_ok :: "delivery_trip \<Rightarrow> bool" where
  "trip_row_ok x \<longleftrightarrow> (trip_active x \<longrightarrow> dt_vehicleId x \<noteq> None \<and> dt_driverId x \<noteq> None)"

definition trip_totals_fit :: "delivery_trip \<Rightarrow> bool" where
  "trip_totals_fit x \<longleftrightarrow> \<bar>dt_totalWeight x\<bar> < 10 ^ 18 \<and> \<bar>dt_totalVolume x\<bar> < 10 ^ 18"

definition createTrip :: "delivery_trip \<Rightarrow> trp_db \<Rightarrow> trp_error + trp_db" where
  "createTrip x db =
     (if exists_row (\<lambda>y. dt_id y = dt_id x \<or> dt_tenantId y = dt_tenantId x \<and> dt_tripNumber y = dt_tripNumber x) (trips db)
      then Inl TrpUniqueViolation
      else Inr (db\<lparr> trips := trips db @ [x] \<rparr>))"

text \<open>\<^verbatim>\<open>deliveryTrip.update({ where: { id } })\<close>\<close>

definition updateTrip ::
    "uuid \<Rightarrow> (delivery_trip \<Rightarrow> delivery_trip) \<Rightarrow> instant \<Rightarrow> trp_db \<Rightarrow> trp_error + delivery_trip \<times> trp_db" where
  "updateTrip i f now db =
     (case List.find (\<lambda>x. dt_id x = i) (trips db) of
        None \<Rightarrow> Inl TrpNotFound
      | Some x \<Rightarrow>
          let x' = (f x)\<lparr> dt_updatedAt := now \<rparr> in
          if \<not> trip_totals_fit x' then Inl TrpNumericOverflow
          else if \<not> trip_row_ok x' then Inl TrpCheckViolation
          else if resource_taken x' (trips db) then Inl TrpUniqueViolation
          else Inr (x', db\<lparr> trips := update_where (\<lambda>y. dt_id y = i) (\<lambda>_. x') (trips db) \<rparr>))"

definition bumpTrip :: "delivery_trip \<Rightarrow> delivery_trip" where
  "bumpTrip x = x\<lparr> dt_version := dt_version x + 1 \<rparr>"

section \<open>Operations\<close>

definition findOperation :: "uuid \<Rightarrow> trp_db \<Rightarrow> trip_op option" where
  "findOperation i db = List.find (\<lambda>p. to_id p = i) (tripOperations db)"

definition operationOf :: "uuid \<Rightarrow> uuid \<Rightarrow> trp_db \<Rightarrow> trip_op option" where
  "operationOf t requestId db = List.find (\<lambda>p. to_tenantId p = t \<and> to_requestId p = requestId) (tripOperations db)"

definition lockHolder :: "uuid \<Rightarrow> uuid \<Rightarrow> trp_db \<Rightarrow> trip_op option" where
  "lockHolder t trip db = List.find (\<lambda>p. to_activeLock p = Some (t, trip)) (tripOperations db)"

definition createOperation :: "trip_op \<Rightarrow> trp_db \<Rightarrow> trp_error + trp_db" where
  "createOperation p db =
     (if exists_row (\<lambda>q. to_id q = to_id p \<or> to_tenantId q = to_tenantId p \<and> to_requestId q = to_requestId p \<or>
           to_activeLock p \<noteq> None \<and> to_activeLock q = to_activeLock p) (tripOperations db)
      then Inl TrpUniqueViolation
      else Inr (db\<lparr> tripOperations := tripOperations db @ [p] \<rparr>))"

definition setOperation :: "uuid \<Rightarrow> (trip_op \<Rightarrow> trip_op) \<Rightarrow> trp_db \<Rightarrow> trp_db" where
  "setOperation i f db = db\<lparr> tripOperations := update_where (\<lambda>p. to_id p = i) f (tripOperations db) \<rparr>"

text \<open>\<^verbatim>\<open>replay\<close> of the trip services: the operation of a repeated request, when actor and content agree.\<close>

definition replayOperation :: "uuid \<Rightarrow> uuid \<Rightarrow> uuid \<Rightarrow> string \<Rightarrow> trp_db \<Rightarrow> trp_error + trip_op option" where
  "replayOperation t requestId actorId hash db =
     (case operationOf t requestId db of
        None \<Rightarrow> Inr None
      | Some p \<Rightarrow>
          if to_actorId p \<noteq> actorId \<or> to_payloadHash p \<noteq> hash then Inl (TripConflict ''REQUEST_ID_REPLAY_MISMATCH'')
          else Inr (Some p))"

definition noLock :: "uuid \<Rightarrow> uuid \<Rightarrow> trp_db \<Rightarrow> trp_error + unit" where
  "noLock t trip db = (if lockHolder t trip db \<noteq> None then Inl (TripConflict ''TRIP_OPERATION_PENDING'') else Inr ())"

definition assertNoPending :: "uuid \<Rightarrow> uuid \<Rightarrow> trp_db \<Rightarrow> trp_error + unit" where
  "assertNoPending t trip db =
     (if lockHolder t trip db \<noteq> None \<or>
         exists_row (\<lambda>d. td_tenantId d = t \<and> td_tripId d = trip \<and> td_status d \<noteq> I_REJECTED) (tripDispatches db)
      then Inl (TripConflict ''TRIP_OPERATION_PENDING'') else Inr ())"

section \<open>Memberships and stops\<close>

definition findMember :: "uuid \<Rightarrow> trp_db \<Rightarrow> trip_shipment option" where
  "findMember i db = List.find (\<lambda>m. ts_id m = i) (tripShipments db)"

definition member_live :: "trip_shipment \<Rightarrow> bool" where
  "member_live m \<longleftrightarrow> ts_removedAt m = None"

text \<open>\<^verbatim>\<open>ux_trip_active_shipment\<close>\<close>

definition createMember :: "trip_shipment \<Rightarrow> trp_db \<Rightarrow> trp_error + trp_db" where
  "createMember m db =
     (if exists_row (\<lambda>n. ts_id n = ts_id m \<or>
           member_live m \<and> member_live n \<and> ts_tenantId n = ts_tenantId m \<and> ts_shipmentId n = ts_shipmentId m) (tripShipments db)
      then Inl TrpUniqueViolation
      else Inr (db\<lparr> tripShipments := tripShipments db @ [m] \<rparr>))"

fun createMembers :: "trip_shipment list \<Rightarrow> trp_db \<Rightarrow> trp_error + trp_db" where
  "createMembers [] db = Inr db"
| "createMembers (m # ms) db = bind_res (createMember m db) (createMembers ms)"

definition setMember :: "uuid \<Rightarrow> (trip_shipment \<Rightarrow> trip_shipment) \<Rightarrow> trp_db \<Rightarrow> trp_db" where
  "setMember i f db = db\<lparr> tripShipments := update_where (\<lambda>m. ts_id m = i) f (tripShipments db) \<rparr>"

definition activeMembers :: "uuid \<Rightarrow> uuid \<Rightarrow> trp_db \<Rightarrow> trip_shipment list" where
  "activeMembers t trip db =
     filter (\<lambda>m. ts_tenantId m = t \<and> ts_tripId m = trip \<and> ts_state m = M_ACTIVE \<and> member_live m) (tripShipments db)"

text \<open>\<^verbatim>\<open>orderBy: [{ assignedAt: 'asc' }, { id: 'asc' }]\<close>\<close>

definition by_assignment :: "trip_shipment list \<Rightarrow> trip_shipment list" where
  "by_assignment ms = sort_key ts_assignedAt (sort_key ts_id ms)"

definition operationMembers :: "uuid \<Rightarrow> trp_db \<Rightarrow> trip_shipment list" where
  "operationMembers i db = filter (\<lambda>m. ts_operationId m = Some i) (tripShipments db)"

definition pendingMembers :: "uuid \<Rightarrow> member_state \<Rightarrow> trp_db \<Rightarrow> trip_shipment list" where
  "pendingMembers i s db = filter (\<lambda>m. ts_state m = s) (operationMembers i db)"

definition findStop :: "uuid \<Rightarrow> uuid \<Rightarrow> uuid \<Rightarrow> trp_db \<Rightarrow> trip_stop option" where
  "findStop t trip shipmentId db =
     List.find (\<lambda>p. ps_tenantId p = t \<and> ps_tripId p = trip \<and> ps_shipmentId p = shipmentId) (tripStops db)"

definition stop_live :: "trip_stop \<Rightarrow> bool" where
  "stop_live p \<longleftrightarrow> ps_deletedAt p = None"

definition liveStops :: "uuid \<Rightarrow> uuid \<Rightarrow> trp_db \<Rightarrow> trip_stop list" where
  "liveStops t trip db = filter (\<lambda>p. ps_tenantId p = t \<and> ps_tripId p = trip \<and> stop_live p) (tripStops db)"

definition setStops :: "(trip_stop \<Rightarrow> bool) \<Rightarrow> (trip_stop \<Rightarrow> trip_stop) \<Rightarrow> trp_db \<Rightarrow> trp_db" where
  "setStops p f db = db\<lparr> tripStops := update_where p f (tripStops db) \<rparr>"

definition totalWeightOf :: "trip_shipment list \<Rightarrow> int" where "totalWeightOf ms = sum_list (map ts_weight ms)"

definition totalVolumeOf :: "trip_shipment list \<Rightarrow> int" where "totalVolumeOf ms = sum_list (map ts_volume ms)"

definition recalculateTripTotals :: "uuid \<Rightarrow> uuid \<Rightarrow> instant \<Rightarrow> trp_db \<Rightarrow> trp_error + trp_db" where
  "recalculateTripTotals t trip now db =
     (let rows = activeMembers t trip db in
      bind_res (updateTrip trip (\<lambda>x. x\<lparr> dt_totalWeight := totalWeightOf rows, dt_totalVolume := totalVolumeOf rows \<rparr>) now db)
        (\<lambda>(_, db'). Inr db'))"

section \<open>Outbox\<close>

definition tripEvent ::
    "uuid \<Rightarrow> string \<Rightarrow> nat \<Rightarrow> uuid \<Rightarrow> version \<Rightarrow> uuid \<Rightarrow> trip_payload \<Rightarrow> uuid option \<Rightarrow> instant \<Rightarrow> trp_db \<Rightarrow> trp_db" where
  "tripEvent t eventType eventVersion trip v requestId payload actor now db = db\<lparr>
     trp_outbox := trp_outbox db @
       [\<lparr> ob_id = trp_next db, ob_tenantId = t, ob_eventType = eventType, ob_eventVersion = eventVersion,
          ob_aggregateType = ''DeliveryTrip'', ob_aggregateId = trip, ob_aggregateVersion = v,
          ob_correlationId = requestId, ob_causationId = Some requestId, ob_payload = payload,
          ob_payloadActor = actor, ob_occurredAt = now, ob_publishedAt = None, ob_attemptCount = 0,
          ob_nextAttemptAt = now, ob_lastError = None, ob_version = 1, ob_deletedAt = None \<rparr>],
     trp_next := trp_next db + 1 \<rparr>"

section \<open>The fulfilment client\<close>

text \<open>
  A reply is lost, or has a status, the \<^verbatim>\<open>message\<close> of its body when it is a text, and the body where it has
  the expected shape; of a claim's body the two parts are parsed separately.
\<close>

datatype 'a trip_reply = TripNetworkFailure string | TripReply nat "string option" "'a option"

record 'ful fulfillment_api =
  fa_claim :: "claim_request \<Rightarrow> instant \<Rightarrow> 'ful \<Rightarrow> (claim_receipt option \<times> trip_snapshot option) trip_reply \<times> 'ful"
  fa_release :: "release_request \<Rightarrow> instant \<Rightarrow> 'ful \<Rightarrow> release_receipt option trip_reply \<times> 'ful"
  fa_status :: "uuid \<Rightarrow> uuid \<Rightarrow> 'ful \<Rightarrow> claim_status trip_reply"
  fa_readiness :: "uuid \<Rightarrow> uuid \<Rightarrow> (uuid \<times> version) list \<Rightarrow> 'ful \<Rightarrow> readiness_item list trip_reply"
  fa_dispatchBatch :: "batch_request \<Rightarrow> instant \<Rightarrow> 'ful \<Rightarrow> batch_receipt trip_reply \<times> 'ful"

definition fulRequest :: "'a trip_reply \<Rightarrow> trp_error + 'a option" where
  "fulRequest reply =
     (case reply of
        TripNetworkFailure m \<Rightarrow> Inl (Downstream m None False)
      | TripReply status message body \<Rightarrow>
          if \<not> http_ok status
          then Inl (Downstream (case message of Some m \<Rightarrow> m
                      | None \<Rightarrow> ''Fulfillment rejected the request ('' @ nat_text status @ '')'') (Some status)
                  (status < 500 \<and> status \<noteq> 408 \<and> status \<noteq> 429))
          else Inr body)"

text \<open>\<^verbatim>\<open>decimal18_3Schema\<close> and \<^verbatim>\<open>decimal18_6Schema\<close>: \<open>n\<close> whole digits, no leading zero, up to \<open>k\<close> decimals.\<close>

definition decimal_schema :: "nat \<Rightarrow> nat \<Rightarrow> string \<Rightarrow> bool" where
  "decimal_schema n k s \<longleftrightarrow>
     (let whole = takeWhile is_digit s; rest = dropWhile is_digit s; frac = drop 1 rest
      in 1 \<le> length whole \<and> length whole \<le> n \<and> (hd whole = CHR ''0'' \<longrightarrow> length whole = 1) \<and>
         (rest = [] \<or> hd rest = CHR ''.'' \<and> list_all is_digit frac \<and> 1 \<le> length frac \<and> length frac \<le> k))"

definition claimSnapshotSchema :: "trip_snapshot \<Rightarrow> bool" where
  "claimSnapshotSchema s \<longleftrightarrow> ns_shipmentNumber s \<noteq> [] \<and>
     transportVersion (as_addressVersion (ns_deliveryAddressSnapshot s)) \<and>
     as_addressType (ns_deliveryAddressSnapshot s) = ''SHIPPING'' \<and>
     transportVersion (ns_shipmentVersion s) \<and> transportVersion (ns_orderVersion s) \<and>
     decimal_schema 15 3 (ns_totalWeight s) \<and> decimal_schema 12 6 (ns_totalVolume s) \<and>
     list_all (\<lambda>i. ni_skuSnapshot i \<noteq> [] \<and> ni_productNameSnapshot i \<noteq> [] \<and> ni_unitSnapshot i \<noteq> [] \<and>
       ORDER_QUANTITY_PATTERN (ni_quantity i) \<and> decimal_schema 15 3 (ni_weight i) \<and> decimal_schema 12 6 (ni_volume i))
       (ns_items s)"

text \<open>The snapshot of a claim is accepted when it has the shape and names the request's shipment at the receipt's version.\<close>

definition snapshot_accepted :: "claim_request \<Rightarrow> claim_receipt \<Rightarrow> trip_snapshot \<Rightarrow> bool" where
  "snapshot_accepted request receipt s \<longleftrightarrow> claimSnapshotSchema s \<and> ns_tenantId s = cq_tenantId request \<and>
     ns_shipmentId s = cq_shipmentId request \<and> ns_shipmentVersion s = ct_shipmentVersion receipt"

definition claimReply ::
    "claim_request \<Rightarrow> claim_receipt option \<times> trip_snapshot option \<Rightarrow> trp_error + claim_receipt \<times> trip_snapshot" where
  "claimReply request body =
     (case body of (receipt0, snapshot0) \<Rightarrow>
       (case receipt0 of
          None \<Rightarrow> Inl (TrpPlainError ''ZodError'')
        | Some receipt \<Rightarrow>
            if \<not> claimReceiptValid receipt then Inl (TrpPlainError ''ZodError'')
            else if ct_tenantId receipt \<noteq> cq_tenantId request \<or> ct_requestId receipt \<noteq> cq_requestId request \<or>
                    ct_tripId receipt \<noteq> cq_tripId request \<or> ct_shipmentId receipt \<noteq> cq_shipmentId request
            then Inl (Downstream ''Fulfillment returned an invalid claim receipt binding'' (Some 502) False)
            else (case snapshot0 of
                    None \<Rightarrow> Inl (InvalidClaimSnapshot receipt)
                  | Some s \<Rightarrow>
                      if snapshot_accepted request receipt s then Inr (receipt, s) else Inl (InvalidClaimSnapshot receipt))))"

definition fulClaim ::
    "'ful fulfillment_api \<Rightarrow> claim_request \<Rightarrow> instant \<Rightarrow> 'ful \<Rightarrow> (trp_error + claim_receipt \<times> trip_snapshot) \<times> 'ful" where
  "fulClaim api request now s =
     (if \<not> claimRequestValid request then (Inl (TrpPlainError ''ZodError''), s)
      else let (reply, s') = fa_claim api request now s
           in (bind_res (fulRequest reply) (\<lambda>body.
                 case body of None \<Rightarrow> Inl (TrpPlainError ''TypeError'') | Some b \<Rightarrow> claimReply request b), s'))"

definition fulRelease ::
    "'ful fulfillment_api \<Rightarrow> release_request \<Rightarrow> instant \<Rightarrow> 'ful \<Rightarrow> (trp_error + release_receipt) \<times> 'ful" where
  "fulRelease api request now s =
     (if parseReleaseRequest request = None then (Inl (TrpPlainError ''ZodError''), s)
      else let (reply, s') = fa_release api request now s
           in (bind_res (fulRequest reply) (\<lambda>body.
                 case body of
                   Some (Some receipt) \<Rightarrow> if releaseReceiptValid receipt then Inr receipt else Inl (TrpPlainError ''ZodError'')
                 | Some None \<Rightarrow> Inl (TrpPlainError ''ZodError'')
                 | None \<Rightarrow> Inl (TrpPlainError ''TypeError'')), s'))"

text \<open>\<^verbatim>\<open>assertReady\<close>: the claim stands and its shipment is ready at the version.\<close>

definition fulAssertReady ::
    "'ful fulfillment_api \<Rightarrow> uuid \<Rightarrow> uuid \<Rightarrow> uuid \<Rightarrow> uuid \<Rightarrow> version \<Rightarrow> 'ful \<Rightarrow> trp_error + unit" where
  "fulAssertReady api t trip shipmentId claimId v s =
     bind_res (fulRequest (fa_status api t claimId s)) (\<lambda>body.
       case body of
         None \<Rightarrow> Inl (Downstream ''SHIPMENT_NOT_READY_OR_CLAIM_CHANGED'' (Some 409) True)
       | Some c \<Rightarrow>
           if cz_active c \<and> cz_shipmentStatus c = S_READY_TO_SHIP \<and> transportVersion (cz_shipmentVersion c) \<and>
              cz_tenantId c = t \<and> cz_tripId c = trip \<and> cz_shipmentId c = shipmentId \<and> cz_claimId c = claimId \<and>
              cz_shipmentVersion c = v
           then Inr () else Inl (Downstream ''SHIPMENT_NOT_READY_OR_CLAIM_CHANGED'' (Some 409) True))"

definition fulDispatchBatch ::
    "'ful fulfillment_api \<Rightarrow> batch_request \<Rightarrow> instant \<Rightarrow> 'ful \<Rightarrow> (trp_error + batch_receipt) \<times> 'ful" where
  "fulDispatchBatch api request now s =
     (if \<not> batchRequestValid request then (Inl (TrpPlainError ''ZodError''), s)
      else let (reply, s') = fa_dispatchBatch api request now s
           in (bind_res (fulRequest reply) (\<lambda>body.
                 case body of
                   Some receipt \<Rightarrow> if batchReceiptValid receipt then Inr receipt else Inl (TrpPlainError ''ZodError'')
                 | None \<Rightarrow> Inl (TrpPlainError ''ZodError'')), s'))"

end
