(* ===== verification/Transport_Membership.thy ===== *)
theory Transport_Membership
  imports Transport_Rows
begin

text \<open>
  The shipments of a trip (\<^verbatim>\<open>trip-membership.service.ts\<close>): a request to add or remove shipments saves an
  operation that locks the trip, then the claims or releases are made one by one at the fulfilment service,
  each reply saved in a transaction of its own; a definite refusal of a claim turns the operation into a
  compensation that releases what was claimed. What stops on the way is resumed by its owner or by the
  recovery worker. An exception between two transactions leaves the first one committed, so the steps that
  call the other service return an error together with both states.
\<close>

section \<open>Requests\<close>

record add_item =
  ai_shipmentId :: uuid
  ai_expectedShipmentVersion :: version

record add_dto =
  ad_requestId :: uuid
  ad_expectedTripVersion :: version
  ad_shipments :: "add_item list"

record remove_dto =
  rm_requestId :: uuid
  rm_expectedTripVersion :: version
  rm_shipmentIds :: "uuid list"

text \<open>A cancellation names a signed preview, or the id of a preview of the older kind.\<close>

record cancel_dto =
  cn_requestId :: uuid
  cn_expectedVersion :: version
  cn_reason :: string
  cn_preview :: "string + uuid"

record create_trip_dto =
  ce_requestId :: uuid
  ce_warehouseId :: uuid
  ce_plannedStartAt :: instant
  ce_vehicleId :: "uuid option"
  ce_driverId :: "uuid option"

text \<open>Of an optional nullable field, \<open>None\<close> is an absent field and \<open>Some None\<close> is \<^verbatim>\<open>null\<close>.\<close>

record update_trip_dto =
  ue_requestId :: uuid
  ue_expectedVersion :: version
  ue_plannedStartAt :: "instant option"
  ue_vehicleId :: "uuid option option"
  ue_driverId :: "uuid option option"

definition addShipmentsSchema :: "add_dto \<Rightarrow> bool" where
  "addShipmentsSchema d \<longleftrightarrow> transportVersion (ad_expectedTripVersion d) \<and>
     1 \<le> length (ad_shipments d) \<and> length (ad_shipments d) \<le> 100 \<and>
     list_all (\<lambda>i. transportVersion (ai_expectedShipmentVersion i)) (ad_shipments d) \<and>
     length (remdups (map ai_shipmentId (ad_shipments d))) = length (ad_shipments d)"

definition removeShipmentsSchema :: "remove_dto \<Rightarrow> bool" where
  "removeShipmentsSchema d \<longleftrightarrow> transportVersion (rm_expectedTripVersion d) \<and>
     1 \<le> length (rm_shipmentIds d) \<and> length (rm_shipmentIds d) \<le> 100 \<and>
     length (remdups (rm_shipmentIds d)) = length (rm_shipmentIds d)"

text \<open>The values the service hashes, and the environment: SHA-256 of them and the texts of exceptions.\<close>

datatype trip_hash =
    HashCreate create_trip_dto
  | HashUpdate op_kind uuid update_trip_dto
  | HashAdd uuid add_dto
  | HashRemove uuid remove_dto
  | HashCancel uuid cancel_dto
  | HashMembers uuid uuid uuid version "(uuid \<times> uuid \<times> version \<times> version option) list"

record trp_env =
  te_hash :: "trip_hash \<Rightarrow> string"
  te_message :: "trp_error \<Rightarrow> string"

definition error_message :: "trp_env \<Rightarrow> trp_error \<Rightarrow> string" where
  "error_message env e =
     (case e of Downstream m s d \<Rightarrow> m
      | InvalidClaimSnapshot r \<Rightarrow> ''Fulfillment returned an invalid claim snapshot''
      | _ \<Rightarrow> te_message env e)"

section \<open>Adding shipments\<close>

definition newOperation ::
    "uuid \<Rightarrow> uuid \<Rightarrow> uuid \<Rightarrow> uuid \<Rightarrow> uuid \<Rightarrow> op_kind \<Rightarrow> string \<Rightarrow> uuid list \<Rightarrow> uuid list \<Rightarrow> string option \<Rightarrow> instant \<Rightarrow> trip_op" where
  "newOperation i t trip requestId actor kind hash shipmentIds membershipIds reason now =
     \<lparr> to_id = i, to_tenantId = t, to_tripId = Some trip, to_requestId = requestId, to_actorId = actor,
       to_kind = kind, to_status = O_PENDING, to_payloadHash = hash, to_shipmentIds = shipmentIds,
       to_membershipIds = membershipIds, to_reason = reason, to_result = None, to_activeLock = Some (t, trip),
       to_attemptCount = 0, to_nextAttemptAt = now, to_lockedUntil = None, to_lastError = None,
       to_createdAt = now, to_version = 1 \<rparr>"

text \<open>The row of one item: its own id and the id of its claim request are fresh.\<close>

definition newMember ::
    "trip_user \<Rightarrow> delivery_trip \<Rightarrow> uuid \<Rightarrow> version \<Rightarrow> uuid \<Rightarrow> uuid \<Rightarrow> add_item \<Rightarrow> instant \<Rightarrow> trip_shipment" where
  "newMember user trip operationId tripVersion memberId claimRequestId item now =
     \<lparr> ts_id = memberId, ts_tenantId = us_tenantId user, ts_tripId = dt_id trip,
       ts_shipmentId = ai_shipmentId item, ts_orderId = None, ts_warehouseId = dt_warehouseId trip,
       ts_operationId = Some operationId, ts_state = M_CLAIM_PENDING, ts_weight = 0, ts_volume = 0,
       ts_expectedShipmentVersion = Some (ai_expectedShipmentVersion item), ts_shipmentVersion = None,
       ts_orderVersion = None,
       ts_claimRequest = Some \<lparr> cq_contractVersion = TRANSPORT_CONTRACT_VERSION, cq_tenantId = us_tenantId user,
         cq_requestId = claimRequestId, cq_tripId = dt_id trip, cq_shipmentId = ai_shipmentId item,
         cq_actorId = us_id user, cq_expectedTripVersion = tripVersion,
         cq_expectedShipmentVersion = ai_expectedShipmentVersion item \<rparr>,
       ts_claimReceipt = None, ts_releaseRequest = None, ts_releaseReceipt = None, ts_shipmentSnapshot = None,
       ts_assignedAt = now, ts_removedAt = None, ts_version = 1, ts_deletedAt = None \<rparr>"

fun newMembers ::
    "trip_user \<Rightarrow> delivery_trip \<Rightarrow> uuid \<Rightarrow> version \<Rightarrow> uuid \<Rightarrow> add_item list \<Rightarrow> instant \<Rightarrow> trip_shipment list" where
  "newMembers user trip operationId tripVersion n [] now = []"
| "newMembers user trip operationId tripVersion n (item # items) now =
     newMember user trip operationId tripVersion n (n + 1) item now #
     newMembers user trip operationId tripVersion (n + 2) items now"

text \<open>The checks \<^verbatim>\<open>add\<close> and \<^verbatim>\<open>remove\<close> share: the trip is a draft at the version, and no operation holds it.\<close>

definition draftTrip :: "uuid \<Rightarrow> uuid \<Rightarrow> version \<Rightarrow> string \<Rightarrow> trp_db \<Rightarrow> trp_error + delivery_trip" where
  "draftTrip t tripId expected what db =
     bind_res (loadTrip t tripId db) (\<lambda>trip.
     bind_res (assertTripVersion expected (dt_version trip)) (\<lambda>_.
       if dt_status trip \<noteq> T_DRAFT then Inl (TripInvalidState (dt_status trip) what)
       else
         bind_res (versionRoom expected (dt_version trip)) (\<lambda>_.
         bind_res (noLock t tripId db) (\<lambda>_. Inr trip))))"

text \<open>The transaction of \<^verbatim>\<open>add\<close>: the id of the saved operation.\<close>

definition addTx :: "trp_env \<Rightarrow> trip_user \<Rightarrow> uuid \<Rightarrow> add_dto \<Rightarrow> instant \<Rightarrow> trp_db \<Rightarrow> trp_error + uuid \<times> trp_db" where
  "addTx env user tripId dto now db =
     (let t = us_tenantId user; operationId = trp_next db in
      bind_res (draftTrip t tripId (ad_expectedTripVersion dto) ''ADD_SHIPMENTS'' db) (\<lambda>trip.
        if exists_row (\<lambda>m. ts_tenantId m = t \<and> ts_tripId m = tripId \<and>
             ts_shipmentId m \<in> set (map ai_shipmentId (ad_shipments dto)) \<and> member_live m) (tripShipments db)
        then Inl (TripRule ''SHIPMENT_ALREADY_IN_TRIP'')
        else
          bind_res (toSafeVersion (dt_version trip + 1)) (\<lambda>tripVersion.
            let ms = newMembers user trip operationId tripVersion (operationId + 1) (ad_shipments dto) now in
            bind_res (createOperation (newOperation operationId t tripId (ad_requestId dto) (us_id user) K_ADD
                (te_hash env (HashAdd tripId dto)) (map ai_shipmentId (ad_shipments dto)) (map ts_id ms) None now)
                (db\<lparr> trp_next := operationId + 1 + 2 * length ms \<rparr>)) (\<lambda>db1.
            bind_res (createMembers ms db1) (\<lambda>db2.
            bind_res (updateTrip tripId bumpTrip now db2) (\<lambda>(_, db3). Inr (operationId, db3)))))))"

section \<open>Releases\<close>

definition releaseRequestOf ::
    "trip_shipment \<Rightarrow> uuid \<Rightarrow> version \<Rightarrow> string \<Rightarrow> uuid \<Rightarrow> trp_error + release_request" where
  "releaseRequestOf m actorId tripVersion reason requestId =
     (case (ts_claimReceipt m, ts_shipmentVersion m) of
        (Some receipt, Some v) \<Rightarrow>
          bind_res (toSafeVersion v) (\<lambda>v'.
            Inr \<lparr> lr_contractVersion = TRANSPORT_CONTRACT_VERSION, lr_tenantId = ts_tenantId m,
              lr_requestId = requestId, lr_claimId = ct_claimId receipt, lr_tripId = ts_tripId m,
              lr_shipmentId = ts_shipmentId m, lr_actorId = actorId, lr_expectedTripVersion = tripVersion,
              lr_expectedShipmentVersion = v', lr_reason = reason \<rparr>)
      | _ \<Rightarrow> Inl (TrpPlainError ''Cannot prepare release without a durable Fulfillment claim receipt''))"

text \<open>The loop that moves memberships to their release, each with a fresh request.\<close>

fun releaseMembers ::
    "uuid \<Rightarrow> uuid \<Rightarrow> version \<Rightarrow> string \<Rightarrow> trip_shipment list \<Rightarrow> trp_db \<Rightarrow> trp_error + trp_db" where
  "releaseMembers operationId actorId tripVersion reason [] db = Inr db"
| "releaseMembers operationId actorId tripVersion reason (m # ms) db =
     bind_res (releaseRequestOf m actorId tripVersion reason (trp_next db)) (\<lambda>request.
       releaseMembers operationId actorId tripVersion reason ms
         (setMember (ts_id m) (\<lambda>x. x\<lparr> ts_operationId := Some operationId, ts_state := M_RELEASE_PENDING,
            ts_releaseRequest := Some request \<rparr>) (db\<lparr> trp_next := trp_next db + 1 \<rparr>)))"

definition removeTx :: "trp_env \<Rightarrow> trip_user \<Rightarrow> uuid \<Rightarrow> remove_dto \<Rightarrow> instant \<Rightarrow> trp_db \<Rightarrow> trp_error + uuid \<times> trp_db" where
  "removeTx env user tripId dto now db =
     (let t = us_tenantId user; operationId = trp_next db in
      bind_res (draftTrip t tripId (rm_expectedTripVersion dto) ''REMOVE_SHIPMENTS'' db) (\<lambda>trip.
        let memberships = filter (\<lambda>m. ts_shipmentId m \<in> set (rm_shipmentIds dto)) (activeMembers t tripId db) in
        if length memberships \<noteq> length (rm_shipmentIds dto) then Inl (TripRule ''SHIPMENT_NOT_ACTIVE_ON_TRIP'')
        else
          bind_res (createOperation (newOperation operationId t tripId (rm_requestId dto) (us_id user) K_REMOVE
              (te_hash env (HashRemove tripId dto)) (rm_shipmentIds dto) (map ts_id memberships)
              (Some ''REMOVED_FROM_TRIP'') now) (db\<lparr> trp_next := operationId + 1 \<rparr>)) (\<lambda>db1.
          bind_res (toSafeVersion (dt_version trip + 1)) (\<lambda>tripVersion.
          bind_res (releaseMembers operationId (us_id user) tripVersion ''REMOVED_FROM_TRIP'' memberships db1) (\<lambda>db2.
          bind_res (updateTrip tripId bumpTrip now db2) (\<lambda>(_, db3). Inr (operationId, db3)))))))"

section \<open>Saving replies\<close>

text \<open>\<^verbatim>\<open>coordinate\<close>: \<^verbatim>\<open>/^-?\d{1,3}(?:\.\d{1,6})?$/\<close> within the bound, in millionths.\<close>

definition coordinate_text :: "string \<Rightarrow> bool" where
  "coordinate_text s \<longleftrightarrow>
     (let u = (if s \<noteq> [] \<and> hd s = CHR ''-'' then tl s else s);
          whole = takeWhile is_digit u; rest = dropWhile is_digit u; frac = drop 1 rest
      in 1 \<le> length whole \<and> length whole \<le> 3 \<and>
         (rest = [] \<or> hd rest = CHR ''.'' \<and> list_all is_digit frac \<and> 1 \<le> length frac \<and> length frac \<le> 6))"

definition coordinate_value :: "string \<Rightarrow> int" where
  "coordinate_value s = (if s \<noteq> [] \<and> hd s = CHR ''-'' then - decimal_value 6 (tl s) else decimal_value 6 s)"

definition coordinateOf :: "string option \<Rightarrow> int \<Rightarrow> trp_error + int option" where
  "coordinateOf s bound =
     (case s of
        None \<Rightarrow> Inr None
      | Some x \<Rightarrow>
          if \<not> coordinate_text x \<or> coordinate_value x < - (bound * 10 ^ 6) \<or> bound * 10 ^ 6 < coordinate_value x
          then Inl (Downstream ''Fulfillment returned an invalid coordinate'' (Some 502) True)
          else Inr (Some (coordinate_value x)))"

text \<open>The checks of \<^verbatim>\<open>persistClaim\<close> before its transaction: the coordinates of the stop.\<close>

definition claimPosition :: "trip_shipment \<Rightarrow> trip_snapshot \<Rightarrow> trp_error + int \<times> int" where
  "claimPosition m s =
     (if ns_tenantId s \<noteq> ts_tenantId m \<or> ns_warehouseId s \<noteq> ts_warehouseId m \<or> ns_shipmentId s \<noteq> ts_shipmentId m
      then Inl (Downstream ''Fulfillment claim snapshot does not match the stored intent'' (Some 502) True)
      else
        bind_res (coordinateOf (as_latitude (ns_deliveryAddressSnapshot s)) 90) (\<lambda>latitude.
        bind_res (coordinateOf (as_longitude (ns_deliveryAddressSnapshot s)) 180) (\<lambda>longitude.
          case (latitude, longitude) of
            (Some la, Some lo) \<Rightarrow> Inr (la, lo)
          | _ \<Rightarrow> Inl (Downstream ''Fulfillment returned missing address coordinates'' (Some 502) True))))"

text \<open>The stop of a claimed shipment: a new row, or the row of an earlier membership brought back.\<close>

definition stopData :: "trip_snapshot \<Rightarrow> int \<times> int \<Rightarrow> nat \<Rightarrow> trip_stop \<Rightarrow> trip_stop" where
  "stopData s position sequence p = p\<lparr> ps_deliveryAddressId := as_addressId (ns_deliveryAddressSnapshot s),
     ps_addressSnapshot := ns_deliveryAddressSnapshot s, ps_latitude := Some (fst position),
     ps_longitude := Some (snd position), ps_plannedSequence := sequence, ps_status := STOP_PENDING, ps_deletedAt := None \<rparr>"

definition saveStop :: "trip_shipment \<Rightarrow> trip_snapshot \<Rightarrow> int \<times> int \<Rightarrow> trp_db \<Rightarrow> trp_db" where
  "saveStop m s position db =
     (let sequence = length (liveStops (ts_tenantId m) (ts_tripId m) db) + 1 in
      case findStop (ts_tenantId m) (ts_tripId m) (ts_shipmentId m) db of
        Some p \<Rightarrow> setStops (\<lambda>q. ps_id q = ps_id p) (\<lambda>q. (stopData s position sequence q)\<lparr> ps_version := ps_version q + 1 \<rparr>) db
      | None \<Rightarrow>
          db\<lparr> tripStops := tripStops db @
                [\<lparr> ps_id = trp_next db, ps_tenantId = ts_tenantId m, ps_tripId = ts_tripId m, ps_shipmentId = ts_shipmentId m,
                   ps_deliveryAddressId = as_addressId (ns_deliveryAddressSnapshot s),
                   ps_addressSnapshot = ns_deliveryAddressSnapshot s, ps_latitude = Some (fst position),
                   ps_longitude = Some (snd position), ps_plannedSequence = sequence, ps_approvedSequence = None,
                   ps_status = STOP_PENDING, ps_currentAttempt = 0, ps_completedAt = None, ps_version = 1,
                   ps_deletedAt = None \<rparr>],
              trp_next := trp_next db + 1 \<rparr>)"

definition activateMember :: "claim_receipt \<Rightarrow> trip_snapshot \<Rightarrow> trip_shipment \<Rightarrow> trip_shipment" where
  "activateMember receipt s x = x\<lparr> ts_state := M_ACTIVE, ts_orderId := Some (ns_orderId s),
     ts_shipmentVersion := Some (ns_shipmentVersion s), ts_orderVersion := Some (ns_orderVersion s),
     ts_weight := decimal_value 3 (ns_totalWeight s), ts_volume := decimal_value 6 (ns_totalVolume s),
     ts_claimReceipt := Some receipt, ts_shipmentSnapshot := Some s \<rparr>"

text \<open>\<open>m0\<close> is the row read before the transaction.\<close>

definition persistClaim ::
    "trip_shipment \<Rightarrow> claim_receipt \<Rightarrow> trip_snapshot \<Rightarrow> instant \<Rightarrow> trp_db \<Rightarrow> trp_error + trp_db" where
  "persistClaim m0 receipt s now db =
     bind_res (claimPosition m0 s) (\<lambda>position.
       case findMember (ts_id m0) db of
         None \<Rightarrow> Inl TrpNotFound
       | Some m \<Rightarrow>
           if ts_state m \<noteq> M_CLAIM_PENDING then Inr db
           else
             recalculateTripTotals (ts_tenantId m) (ts_tripId m) now
               (setMember (ts_id m) (activateMember receipt s) (saveStop m s position db)))"

definition releasedMember :: "release_receipt \<Rightarrow> instant \<Rightarrow> trip_shipment \<Rightarrow> trip_shipment" where
  "releasedMember receipt now x = x\<lparr> ts_state := M_RELEASED, ts_removedAt := Some now, ts_releaseReceipt := Some receipt \<rparr>"

definition removeStop :: "instant \<Rightarrow> trip_stop \<Rightarrow> trip_stop" where
  "removeStop now p = p\<lparr> ps_deletedAt := Some now, ps_approvedSequence := None, ps_version := ps_version p + 1 \<rparr>"

definition persistRelease :: "uuid \<Rightarrow> release_receipt \<Rightarrow> instant \<Rightarrow> trp_db \<Rightarrow> trp_error + trp_db" where
  "persistRelease i receipt now db =
     (case findMember i db of
        None \<Rightarrow> Inl TrpNotFound
      | Some m \<Rightarrow>
          if ts_state m \<noteq> M_RELEASE_PENDING then Inr db
          else
            recalculateTripTotals (ts_tenantId m) (ts_tripId m) now
              (setStops (\<lambda>p. ps_tenantId p = ts_tenantId m \<and> ps_tripId p = ts_tripId m \<and>
                  ps_shipmentId p = ts_shipmentId m \<and> stop_live p) (removeStop now)
                (setMember i (releasedMember receipt now) db)))"

section \<open>Compensation\<close>

definition invalidClaimMember :: "claim_receipt \<Rightarrow> trip_shipment \<Rightarrow> trip_shipment" where
  "invalidClaimMember receipt x = x\<lparr> ts_state := M_ACTIVE, ts_claimReceipt := Some receipt,
     ts_shipmentVersion := Some (ct_shipmentVersion receipt) \<rparr>"

text \<open>Every claimed shipment of the operation is to be released; one that was never claimed leaves at once.\<close>

fun compensateMembers :: "uuid \<Rightarrow> version \<Rightarrow> trip_shipment list \<Rightarrow> instant \<Rightarrow> trp_db \<Rightarrow> trp_error + trp_db" where
  "compensateMembers actorId tripVersion [] now db = Inr db"
| "compensateMembers actorId tripVersion (m # ms) now db =
     (if ts_state m = M_ACTIVE then
        bind_res (toSafeVersion tripVersion) (\<lambda>v.
        bind_res (releaseRequestOf m actorId v ''BATCH_ADD_COMPENSATION'' (trp_next db)) (\<lambda>request.
          compensateMembers actorId tripVersion ms now
            (setMember (ts_id m) (\<lambda>x. x\<lparr> ts_state := M_RELEASE_PENDING, ts_releaseRequest := Some request \<rparr>)
              (db\<lparr> trp_next := trp_next db + 1 \<rparr>))))
      else if ts_state m = M_CLAIM_PENDING then
        compensateMembers actorId tripVersion ms now
          (setMember (ts_id m) (\<lambda>x. x\<lparr> ts_state := M_RELEASED, ts_removedAt := Some now \<rparr>) db)
      else compensateMembers actorId tripVersion ms now db)"

definition beginCompensation ::
    "uuid \<Rightarrow> string \<Rightarrow> (uuid \<times> claim_receipt) option \<Rightarrow> instant \<Rightarrow> trp_db \<Rightarrow> trp_error + trp_db" where
  "beginCompensation operationId reason invalidClaim now db =
     (case findOperation operationId db of
        None \<Rightarrow> Inl TrpNotFound
      | Some p \<Rightarrow>
          (case Option.bind (to_tripId p) (\<lambda>i. List.find (\<lambda>x. dt_id x = i) (trips db)) of
             None \<Rightarrow> Inl TrpNotFound
           | Some trip \<Rightarrow>
               let db1 = (case invalidClaim of None \<Rightarrow> db
                          | Some (i, receipt) \<Rightarrow> setMember i (invalidClaimMember receipt) db) in
               bind_res (compensateMembers (to_actorId p) (dt_version trip) (operationMembers operationId db1) now db1) (\<lambda>db2.
                 Inr (setOperation operationId (\<lambda>q. q\<lparr> to_status := O_COMPENSATING, to_lastError := Some reason \<rparr>) db2))))"

section \<open>Ending an operation\<close>

definition operationResults :: "trip_op \<Rightarrow> op_status \<Rightarrow> trip_shipment list \<Rightarrow> operation_result list" where
  "operationResults p status ms =
     map (\<lambda>m. \<lparr> or_shipmentId = ts_shipmentId m, or_state = ts_state m,
       or_reason = (if status = O_REJECTED then to_lastError p else None) \<rparr>) ms"

definition finalizeTrip :: "bool \<Rightarrow> int \<Rightarrow> int \<Rightarrow> string option \<Rightarrow> instant \<Rightarrow> delivery_trip \<Rightarrow> delivery_trip" where
  "finalizeTrip cancels weight volume reason now x =
     (let y = x\<lparr> dt_totalWeight := (if cancels then 0 else weight), dt_totalVolume := (if cancels then 0 else volume),
        dt_version := dt_version x + 1 \<rparr> in
      if cancels then y\<lparr> dt_status := T_CANCELED, dt_approvedRoutePlanId := None, dt_canceledAt := Some now,
        dt_cancelReason := Some (case reason of None \<Rightarrow> [] | Some r \<Rightarrow> r) \<rparr> else y)"

definition finalizeOperation :: "op_status \<Rightarrow> operation_view \<Rightarrow> trip_op \<Rightarrow> trip_op" where
  "finalizeOperation status result p = p\<lparr> to_status := status, to_result := Some result, to_activeLock := None,
     to_lockedUntil := None, to_version := to_version p + 1 \<rparr>"

definition finalize :: "uuid \<Rightarrow> op_status \<Rightarrow> instant \<Rightarrow> trp_db \<Rightarrow> trp_error + trp_db" where
  "finalize operationId status now db =
     (case findOperation operationId db of
        None \<Rightarrow> Inl TrpNotFound
      | Some p \<Rightarrow>
          (case to_tripId p of
             None \<Rightarrow> Inl (TrpPlainError ''Trip operation is missing trip identity'')
           | Some tripId \<Rightarrow>
               let rows = activeMembers (to_tenantId p) tripId db;
                   cancels = (to_kind p = K_CANCEL \<and> status = O_COMPLETED) in
               (case List.find (\<lambda>x. dt_id x = tripId \<and> dt_tenantId x = to_tenantId p) (trips db) of
                  None \<Rightarrow> Inl (TripNotFound tripId)
                | Some trip \<Rightarrow>
                    bind_res (updateTrip (dt_id trip)
                        (finalizeTrip cancels (totalWeightOf rows) (totalVolumeOf rows) (to_reason p) now) now db) (\<lambda>(updated, db1).
                    bind_res (toSafeVersion (dt_version updated)) (\<lambda>v.
                      let result = \<lparr> ov_tripId = Some (dt_id trip), ov_requestId = to_requestId p, ov_kind = to_kind p,
                            ov_status = status, ov_version = v,
                            ov_results = operationResults p status (by_assignment (operationMembers operationId db1)) \<rparr>;
                          db2 = setOperation operationId (finalizeOperation status result) db1
                      in if \<not> cancels then Inr db2
                         else
                           bind_res (toSafeVersion (dt_version trip)) (\<lambda>v0.
                             Inr (tripEvent (to_tenantId p) ''TripCanceled'' 1 (dt_id trip) (dt_version updated) (to_requestId p)
                               (TripChanged \<lparr> tx_beforeStatus = dt_status trip, tx_beforeVersion = v0,
                                  tx_afterStatus = T_CANCELED, tx_afterVersion = v, tx_requestId = to_requestId p,
                                  tx_reason = to_reason p, tx_planId = None \<rparr>)
                               (Some (to_actorId p)) now db2)))))))"

section \<open>Working on an operation\<close>

text \<open>
  What \<^verbatim>\<open>process\<close> does when a claim was made and its reply could not be saved: the inner handler starts the
  compensation with the receipt, then the exception reaches the outer handler.
\<close>

definition saveFailed ::
    "trp_env \<Rightarrow> uuid \<Rightarrow> uuid \<Rightarrow> claim_receipt \<Rightarrow> trp_error \<Rightarrow> instant \<Rightarrow> trp_db \<Rightarrow> trp_error option \<times> trp_db" where
  "saveFailed env operationId memberId receipt e now db =
     (case (case e of
              InvalidClaimSnapshot r \<Rightarrow> beginCompensation operationId (error_message env e) (Some (memberId, r)) now db
            | _ \<Rightarrow> Inr db) of
        Inl e1 \<Rightarrow> (Some e1, db)
      | Inr db1 \<Rightarrow>
          if \<not> definite e then (Some e, db1)
          else
            (case beginCompensation operationId (error_message env e) (Some (memberId, receipt)) now db1 of
               Inl e2 \<Rightarrow> (Some e2, db1)
             | Inr db2 \<Rightarrow>
                 (case beginCompensation operationId (error_message env e) None now db2 of
                    Inl e3 \<Rightarrow> (Some e3, db2)
                  | Inr db3 \<Rightarrow> (None, db3))))"

text \<open>The claims of an operation, in order; \<open>None\<close> also when the loop is left after a compensation.\<close>

fun claimRows ::
    "trp_env \<Rightarrow> 'ful fulfillment_api \<Rightarrow> uuid \<Rightarrow> trip_shipment list \<Rightarrow> instant \<Rightarrow> trp_db \<times> 'ful \<Rightarrow> trp_error option \<times> trp_db \<times> 'ful" where
  "claimRows env api operationId [] now (db, s) = (None, db, s)"
| "claimRows env api operationId (m # ms) now (db, s) =
     (case ts_claimRequest m of
        None \<Rightarrow> (Some (TrpPlainError ''ZodError''), db, s)
      | Some request \<Rightarrow>
          (case fulClaim api request now s of
             (Inl e, s1) \<Rightarrow>
               if definite e then
                 (case beginCompensation operationId (error_message env e) None now db of
                    Inl e1 \<Rightarrow> (Some e1, db, s1)
                  | Inr db1 \<Rightarrow> (None, db1, s1))
               else (Some e, db, s1)
           | (Inr (receipt, snapshot), s1) \<Rightarrow>
               (case persistClaim m receipt snapshot now db of
                  Inr db1 \<Rightarrow> claimRows env api operationId ms now (db1, s1)
                | Inl e \<Rightarrow> (case saveFailed env operationId (ts_id m) receipt e now db of (r, db1) \<Rightarrow> (r, db1, s1)))))"

fun releaseRows ::
    "'ful fulfillment_api \<Rightarrow> trip_shipment list \<Rightarrow> instant \<Rightarrow> trp_db \<times> 'ful \<Rightarrow> trp_error option \<times> trp_db \<times> 'ful" where
  "releaseRows api [] now (db, s) = (None, db, s)"
| "releaseRows api (m # ms) now (db, s) =
     (case ts_releaseRequest m of
        None \<Rightarrow> (Some (TrpPlainError ''ZodError''), db, s)
      | Some request \<Rightarrow>
          (case fulRelease api request now s of
             (Inl e, s1) \<Rightarrow> (Some e, db, s1)
           | (Inr receipt, s1) \<Rightarrow>
               (case persistRelease (ts_id m) receipt now db of
                  Inl e \<Rightarrow> (Some e, db, s1)
                | Inr db1 \<Rightarrow> releaseRows api ms now (db1, s1))))"

definition finishOperation ::
    "uuid \<Rightarrow> op_status \<Rightarrow> instant \<Rightarrow> trp_db \<times> 'ful \<Rightarrow> trp_error option \<times> trp_db \<times> 'ful" where
  "finishOperation operationId status now w =
     (case finalize operationId status now (fst w) of
        Inl e \<Rightarrow> (Some e, w) | Inr db \<Rightarrow> (None, db, snd w))"

definition releases_kind :: "op_kind \<Rightarrow> bool" where
  "releases_kind k \<longleftrightarrow> k = K_REMOVE \<or> k = K_CANCEL \<or> k = K_SHIPMENT_CANCELED"

definition processReleases ::
    "'ful fulfillment_api \<Rightarrow> uuid \<Rightarrow> instant \<Rightarrow> trp_db \<times> 'ful \<Rightarrow> trp_error option \<times> trp_db \<times> 'ful" where
  "processReleases api operationId now w =
     (case findOperation operationId (fst w) of
        None \<Rightarrow> (Some TrpNotFound, w)
      | Some p \<Rightarrow>
          if to_status p = O_COMPENSATING \<or> releases_kind (to_kind p) then
            (case releaseRows api (by_assignment (pendingMembers operationId M_RELEASE_PENDING (fst w))) now w of
               (Some e, w1) \<Rightarrow> (Some e, w1)
             | (None, w1) \<Rightarrow>
                 if pendingMembers operationId M_RELEASE_PENDING (fst w1) \<noteq> [] then (None, w1)
                 else finishOperation operationId (if to_status p = O_COMPENSATING then O_REJECTED else O_COMPLETED) now w1)
          else (None, w))"

definition processClaims ::
    "trp_env \<Rightarrow> 'ful fulfillment_api \<Rightarrow> uuid \<Rightarrow> instant \<Rightarrow> trp_db \<times> 'ful \<Rightarrow> trp_error option \<times> trp_db \<times> 'ful" where
  "processClaims env api operationId now w =
     (case claimRows env api operationId (by_assignment (pendingMembers operationId M_CLAIM_PENDING (fst w))) now w of
        (Some e, w1) \<Rightarrow> (Some e, w1)
      | (None, w1) \<Rightarrow>
          (case findOperation operationId (fst w1) of
             None \<Rightarrow> (Some TrpNotFound, w1)
           | Some p \<Rightarrow>
               if to_status p = O_PENDING then
                 (if pendingMembers operationId M_CLAIM_PENDING (fst w1) = []
                  then finishOperation operationId O_COMPLETED now w1 else (None, w1))
               else processReleases api operationId now w1))"

definition processOperation ::
    "trp_env \<Rightarrow> 'ful fulfillment_api \<Rightarrow> uuid \<Rightarrow> instant \<Rightarrow> trp_db \<times> 'ful \<Rightarrow> trp_error option \<times> trp_db \<times> 'ful" where
  "processOperation env api operationId now w =
     (case findOperation operationId (fst w) of
        None \<Rightarrow> (None, w)
      | Some p \<Rightarrow>
          if \<not> op_open (to_status p) then (None, w)
          else if to_status p = O_PENDING \<and> to_kind p = K_ADD then processClaims env api operationId now w
          else processReleases api operationId now w)"

section \<open>Leases and retries\<close>

definition RETRY_BASE_MS :: nat where "RETRY_BASE_MS = 1000"
definition RETRY_MAX_MS :: nat where "RETRY_MAX_MS = 60000"
definition PROCESS_LEASE_MS :: nat where "PROCESS_LEASE_MS = 30000"

definition retryDelay :: "nat \<Rightarrow> nat" where
  "retryDelay attempts = min (RETRY_BASE_MS * 2 ^ min (attempts - 1) 10) RETRY_MAX_MS"

definition scheduleRetry :: "trp_env \<Rightarrow> uuid \<Rightarrow> trp_error \<Rightarrow> instant \<Rightarrow> trp_db \<Rightarrow> trp_db" where
  "scheduleRetry env operationId e now db =
     setOperation operationId (\<lambda>p. p\<lparr> to_attemptCount := to_attemptCount p + 1,
       to_nextAttemptAt := now + retryDelay (to_attemptCount p + 1), to_lockedUntil := None,
       to_lastError := Some (error_message env e) \<rparr>) db"

definition leasable :: "bool \<Rightarrow> instant \<Rightarrow> trip_op \<Rightarrow> bool" where
  "leasable force now p \<longleftrightarrow> op_open (to_status p) \<and> (force \<or> to_nextAttemptAt p \<le> now) \<and>
     (case to_lockedUntil p of None \<Rightarrow> True | Some l \<Rightarrow> l < now)"

definition releaseLease :: "uuid \<Rightarrow> trp_db \<Rightarrow> trp_db" where
  "releaseLease operationId db = setOperation operationId (\<lambda>p. p\<lparr> to_lockedUntil := None \<rparr>) db"

text \<open>The \<^verbatim>\<open>catch\<close> and the \<^verbatim>\<open>finally\<close> of \<^verbatim>\<open>resume\<close>.\<close>

fun endResume :: "trp_env \<Rightarrow> uuid \<Rightarrow> instant \<Rightarrow> trp_error option \<times> trp_db \<times> 'ful \<Rightarrow> trp_db \<times> 'ful" where
  "endResume env operationId now (None, db, s) = (releaseLease operationId db, s)"
| "endResume env operationId now (Some e, db, s) =
     (releaseLease operationId
        (case findOperation operationId db of
           None \<Rightarrow> db
         | Some p \<Rightarrow> if op_open (to_status p) then scheduleRetry env operationId e now db else db), s)"

definition resume ::
    "trp_env \<Rightarrow> 'ful fulfillment_api \<Rightarrow> uuid \<Rightarrow> bool \<Rightarrow> instant \<Rightarrow> trp_db \<times> 'ful \<Rightarrow> trp_db \<times> 'ful" where
  "resume env api operationId force now w =
     (if \<not> exists_row (\<lambda>p. to_id p = operationId \<and> leasable force now p) (tripOperations (fst w)) then w
      else
        endResume env operationId now (processOperation env api operationId now
          (setOperation operationId (\<lambda>p. p\<lparr> to_lockedUntil := Some (now + PROCESS_LEASE_MS) \<rparr>) (fst w), snd w)))"

section \<open>Answers\<close>

definition view_status :: "op_status \<Rightarrow> op_status" where
  "view_status s = (if s = O_COMPENSATING then O_PENDING else s)"

definition serializeOperation :: "trip_op \<Rightarrow> trp_db \<Rightarrow> trp_error + operation_view" where
  "serializeOperation p db =
     (case to_result p of
        Some result \<Rightarrow> Inr result
      | None \<Rightarrow>
          let rows = filter (\<lambda>m. ts_tenantId m = to_tenantId p \<and>
                (if to_membershipIds p \<noteq> [] then ts_id m \<in> set (to_membershipIds p) else ts_operationId m = Some (to_id p)))
                (tripShipments db) in
          bind_res (case Option.bind (to_tripId p) (\<lambda>i. List.find (\<lambda>x. dt_id x = i \<and> dt_tenantId x = to_tenantId p) (trips db)) of
                      None \<Rightarrow> Inr 1 | Some trip \<Rightarrow> toSafeVersion (dt_version trip)) (\<lambda>v.
            Inr \<lparr> ov_tripId = to_tripId p, ov_requestId = to_requestId p, ov_kind = to_kind p,
              ov_status = view_status (to_status p), ov_version = v,
              ov_results = map (\<lambda>m. \<lparr> or_shipmentId = ts_shipmentId m, or_state = ts_state m, or_reason = to_lastError p \<rparr>)
                (by_assignment rows) \<rparr>))"

definition operationView :: "uuid \<Rightarrow> uuid \<Rightarrow> trp_db \<Rightarrow> trp_error + operation_view option" where
  "operationView t requestId db =
     (case operationOf t requestId db of
        None \<Rightarrow> Inr None
      | Some p \<Rightarrow> bind_res (serializeOperation p db) (\<lambda>v. Inr (Some v)))"

definition resumeAndView ::
    "trp_env \<Rightarrow> 'ful fulfillment_api \<Rightarrow> uuid \<Rightarrow> uuid \<Rightarrow> uuid \<Rightarrow> instant \<Rightarrow> trp_db \<times> 'ful \<Rightarrow>
     (trp_error + operation_view option) \<times> trp_db \<times> 'ful" where
  "resumeAndView env api operationId t requestId now w =
     (let w1 = resume env api operationId True now w in (operationView t requestId (fst w1), w1))"

text \<open>\<open>db0\<close> is the database of the first look for an earlier request.\<close>

definition addShipments ::
    "trp_env \<Rightarrow> 'ful fulfillment_api \<Rightarrow> trip_user \<Rightarrow> uuid \<Rightarrow> add_dto \<Rightarrow> instant \<Rightarrow> trp_db \<Rightarrow> trp_db \<times> 'ful \<Rightarrow>
     (trp_error + operation_view option) \<times> trp_db \<times> 'ful" where
  "addShipments env api user tripId dto now db0 w =
     (let t = us_tenantId user; hash = te_hash env (HashAdd tripId dto) in
      case replayOperation t (ad_requestId dto) (us_id user) hash db0 of
        Inl e \<Rightarrow> (Inl e, w)
      | Inr (Some p) \<Rightarrow> resumeAndView env api (to_id p) t (ad_requestId dto) now w
      | Inr None \<Rightarrow>
          (case addTx env user tripId dto now (fst w) of
             Inr (operationId, db1) \<Rightarrow> resumeAndView env api operationId t (ad_requestId dto) now (db1, snd w)
           | Inl e \<Rightarrow>
               (case replayOperation t (ad_requestId dto) (us_id user) hash (fst w) of
                  Inl e1 \<Rightarrow> (Inl e1, w)
                | Inr (Some p) \<Rightarrow> resumeAndView env api (to_id p) t (ad_requestId dto) now w
                | Inr None \<Rightarrow>
                    (Inl (if e = TrpUniqueViolation then TripConflict ''SHIPMENT_OR_TRIP_OPERATION_CONFLICT'' else e), w))))"

definition removeShipments ::
    "trp_env \<Rightarrow> 'ful fulfillment_api \<Rightarrow> trip_user \<Rightarrow> uuid \<Rightarrow> remove_dto \<Rightarrow> instant \<Rightarrow> trp_db \<Rightarrow> trp_db \<times> 'ful \<Rightarrow>
     (trp_error + operation_view option) \<times> trp_db \<times> 'ful" where
  "removeShipments env api user tripId dto now db0 w =
     (let t = us_tenantId user; hash = te_hash env (HashRemove tripId dto) in
      case replayOperation t (rm_requestId dto) (us_id user) hash db0 of
        Inl e \<Rightarrow> (Inl e, w)
      | Inr (Some p) \<Rightarrow> resumeAndView env api (to_id p) t (rm_requestId dto) now w
      | Inr None \<Rightarrow>
          (case removeTx env user tripId dto now (fst w) of
             Inl e \<Rightarrow> (Inl e, w)
           | Inr (operationId, db1) \<Rightarrow> resumeAndView env api operationId t (rm_requestId dto) now (db1, snd w)))"

end
