(* ===== verification/Transport_Commands.thy ===== *)
theory Transport_Commands
  imports Transport_Membership
begin

text \<open>
  Creating, changing and assigning a trip (\<^verbatim>\<open>trip-command.service.ts\<close>) and the client of the master-data
  service (\<^verbatim>\<open>master-data.client.ts\<close>). What master data answers is a parameter. A trip is answered as its
  row; the full view adds its shipments and stops.
\<close>

section \<open>The master-data client\<close>

record driver_view =
  dw_id :: uuid
  dw_tenantId :: uuid
  dw_userId :: uuid
  dw_status :: string
  dw_version :: version

record driver_binding =
  db_driverId :: uuid
  db_userId :: uuid
  db_version :: version

record trip_master_api =
  mt_warehouse :: "uuid \<Rightarrow> uuid \<Rightarrow> depot_snapshot http_reply"
  mt_vehicle :: "uuid \<Rightarrow> uuid \<Rightarrow> vehicle_view http_reply"
  mt_driver :: "uuid \<Rightarrow> driver_view http_reply"
  mt_linkLock :: "uuid \<Rightarrow> uuid \<Rightarrow> version \<Rightarrow> uuid \<Rightarrow> driver_binding http_reply"
  mt_driverForTrip :: "uuid \<Rightarrow> uuid \<Rightarrow> trip_driver http_reply"

definition MASTER_DATA :: string where "MASTER_DATA = ''Master Data''"

text \<open>\<^verbatim>\<open>request\<close>; a body that is not JSON is \<^verbatim>\<open>null\<close>, and reading a field of it is a type error.\<close>

definition masterRequest :: "'a http_reply \<Rightarrow> trp_error + 'a" where
  "masterRequest reply =
     (case reply of
        NetworkFailure \<Rightarrow> Inl (DownstreamService MASTER_DATA None)
      | HttpReply status body \<Rightarrow>
          if \<not> http_ok status then
            (if status = 404 then Inl (TripEntityNotFound ''Master Data reference'')
             else if status = 409 then Inl (TripConflict ''MASTER_DATA_REFERENCE_CHANGED'')
             else Inl (DownstreamService MASTER_DATA (Some status)))
          else (case body of None \<Rightarrow> Inl (TrpPlainError ''TypeError'') | Some x \<Rightarrow> Inr x))"

definition upstream_version :: "version \<Rightarrow> bool" where
  "upstream_version v \<longleftrightarrow> isSafeInteger v \<and> 1 \<le> v"

definition masterWarehouse :: "trip_master_api \<Rightarrow> uuid \<Rightarrow> uuid \<Rightarrow> trp_error + depot_snapshot" where
  "masterWarehouse api t i =
     bind_res (masterRequest (mt_warehouse api t i)) (\<lambda>w.
       if ds_id w \<noteq> i \<or> \<not> upstream_version (ds_version w) then Inl (DownstreamService MASTER_DATA (Some 502))
       else if ds_status w \<noteq> ''ACTIVE'' then Inl (TripRule ''WAREHOUSE_MUST_BE_ACTIVE'')
       else Inr w)"

definition masterVehicle :: "trip_master_api \<Rightarrow> uuid \<Rightarrow> uuid \<Rightarrow> trp_error + vehicle_view" where
  "masterVehicle api t i =
     bind_res (masterRequest (mt_vehicle api t i)) (\<lambda>v.
       if vh_id v \<noteq> i \<or> \<not> upstream_version (vh_version v) then Inl (DownstreamService MASTER_DATA (Some 502))
       else if vh_status v \<noteq> ''ACTIVE'' then Inl (TripRule ''VEHICLE_MUST_BE_ACTIVE'')
       else Inr v)"

text \<open>The driver is bound to the user it was read with.\<close>

definition lockDriver :: "trip_master_api \<Rightarrow> uuid \<Rightarrow> uuid \<Rightarrow> trp_error + driver_binding" where
  "lockDriver api t i =
     bind_res (masterRequest (mt_driver api i)) (\<lambda>d.
       if dw_id d \<noteq> i \<or> dw_tenantId d \<noteq> t then Inl (TripEntityNotFound ''Driver'')
       else if dw_status d \<noteq> ''ACTIVE'' then Inl (TripRule ''DRIVER_MUST_BE_ACTIVE'')
       else if \<not> upstream_version (dw_version d) then Inl (DownstreamService MASTER_DATA (Some 502))
       else
         bind_res (masterRequest (mt_linkLock api t i (dw_version d) (dw_userId d))) (\<lambda>b.
           if db_driverId b \<noteq> i \<or> db_userId b \<noteq> dw_userId d \<or> db_version b \<noteq> dw_version d
           then Inl (DownstreamService MASTER_DATA (Some 502)) else Inr b))"

text \<open>The answer is parsed: the driver is active and its version is safe.\<close>

definition driverForTrip :: "trip_master_api \<Rightarrow> uuid \<Rightarrow> uuid \<Rightarrow> trp_error + trip_driver" where
  "driverForTrip api t i =
     bind_res (masterRequest (mt_driverForTrip api t i)) (\<lambda>d.
       if tv_displayName d = [] \<or> \<not> upstream_version (tv_version d) \<or> tv_id d \<noteq> i \<or> tv_tenantId d \<noteq> t
       then Inl (DownstreamService MASTER_DATA (Some 502)) else Inr d)"

definition optional_call :: "('a \<Rightarrow> trp_error + 'b) \<Rightarrow> 'a option \<Rightarrow> trp_error + 'b option" where
  "optional_call f x = (case x of None \<Rightarrow> Inr None | Some a \<Rightarrow> bind_res (f a) (\<lambda>b. Inr (Some b)))"

section \<open>Creating a trip\<close>

definition upper_hex :: "char \<Rightarrow> char" where
  "upper_hex c = (case List.find (\<lambda>p. fst p = c) (zip ''abcdef'' ''ABCDEF'') of Some (_, d) \<Rightarrow> d | None \<Rightarrow> c)"

text \<open>\<open>stamp\<close>: the digits of the ISO time to the second.\<close>

definition tripNumberOf :: "(instant \<Rightarrow> string) \<Rightarrow> instant \<Rightarrow> uuid \<Rightarrow> string" where
  "tripNumberOf stamp now i = ''TR-'' @ stamp now @ ''-'' @ map upper_hex (take 8 (uuid_text i))"

definition requireTrip :: "uuid \<Rightarrow> uuid \<Rightarrow> trp_db \<Rightarrow> trp_error + delivery_trip" where
  "requireTrip t i db = loadTrip t i db"

definition completedOperation ::
    "uuid \<Rightarrow> uuid \<Rightarrow> uuid \<Rightarrow> uuid \<Rightarrow> uuid \<Rightarrow> op_kind \<Rightarrow> string \<Rightarrow> version \<Rightarrow> instant \<Rightarrow> trip_op" where
  "completedOperation i t trip requestId actor kind hash v now =
     (newOperation i t trip requestId actor kind hash [] [] None now)\<lparr> to_status := O_COMPLETED, to_activeLock := None,
       to_result := Some \<lparr> ov_tripId = Some trip, ov_requestId = requestId, ov_kind = kind, ov_status = O_COMPLETED,
         ov_version = v, ov_results = [] \<rparr> \<rparr>"

definition newTrip ::
    "(instant \<Rightarrow> string) \<Rightarrow> uuid \<Rightarrow> uuid \<Rightarrow> create_trip_dto \<Rightarrow> depot_snapshot \<Rightarrow> vehicle_view option \<Rightarrow> driver_binding option \<Rightarrow>
     instant \<Rightarrow> delivery_trip" where
  "newTrip stamp i t dto depot vehicle driver now =
     \<lparr> dt_id = i, dt_tenantId = t, dt_tripNumber = tripNumberOf stamp now i, dt_warehouseId = ce_warehouseId dto,
       dt_vehicleId = map_option vh_id vehicle, dt_driverId = map_option db_driverId driver,
       dt_driverUserId = map_option db_userId driver, dt_driverVersion = map_option db_version driver,
       dt_depotSnapshot = depot, dt_vehicleSnapshot = None, dt_driverSnapshot = None, dt_status = T_DRAFT,
       dt_plannedStartAt = ce_plannedStartAt dto, dt_actualStartAt = None, dt_completedAt = None, dt_totalWeight = 0,
       dt_totalVolume = 0, dt_approvedRoutePlanId = None, dt_dispatchVersion = 0, dt_dispatchedAt = None,
       dt_canceledAt = None, dt_cancelReason = None, dt_createdAt = now, dt_updatedAt = now, dt_version = 1,
       dt_deletedAt = None \<rparr>"

definition createTripTx ::
    "trp_env \<Rightarrow> (instant \<Rightarrow> string) \<Rightarrow> trip_user \<Rightarrow> create_trip_dto \<Rightarrow> depot_snapshot \<Rightarrow> vehicle_view option \<Rightarrow> driver_binding option \<Rightarrow>
     instant \<Rightarrow> trp_db \<Rightarrow> trp_error + uuid \<times> trp_db" where
  "createTripTx env stamp user dto depot vehicle driver now db =
     (let t = us_tenantId user; tripId = trp_next db in
      bind_res (createTrip (newTrip stamp tripId t dto depot vehicle driver now) (db\<lparr> trp_next := tripId + 2 \<rparr>)) (\<lambda>db1.
      bind_res (createOperation (completedOperation (tripId + 1) t tripId (ce_requestId dto) (us_id user) K_CREATE
          (te_hash env (HashCreate dto)) 1 now) db1) (\<lambda>db2. Inr (tripId, db2))))"

definition replayedTrip :: "uuid \<Rightarrow> trip_op \<Rightarrow> trp_db \<Rightarrow> trp_error + delivery_trip" where
  "replayedTrip t p db =
     (case Option.bind (to_result p) ov_tripId of
        None \<Rightarrow> Inl (TrpPlainError ''TypeError'') | Some i \<Rightarrow> requireTrip t i db)"

definition createTripFor ::
    "trp_env \<Rightarrow> (instant \<Rightarrow> string) \<Rightarrow> trip_master_api \<Rightarrow> trip_user \<Rightarrow> create_trip_dto \<Rightarrow> instant \<Rightarrow> trp_db \<Rightarrow> trp_db \<Rightarrow>
     (trp_error + delivery_trip) \<times> trp_db" where
  "createTripFor env stamp api user dto now db0 db =
     (let t = us_tenantId user; hash = te_hash env (HashCreate dto) in
      case replayOperation t (ce_requestId dto) (us_id user) hash db0 of
        Inl e \<Rightarrow> (Inl e, db)
      | Inr (Some p) \<Rightarrow> (replayedTrip t p db, db)
      | Inr None \<Rightarrow>
          (case bind_res (masterWarehouse api t (ce_warehouseId dto)) (\<lambda>depot.
                bind_res (optional_call (masterVehicle api t) (ce_vehicleId dto)) (\<lambda>vehicle.
                bind_res (optional_call (lockDriver api t) (ce_driverId dto)) (\<lambda>driver. Inr (depot, vehicle, driver)))) of
             Inl e \<Rightarrow> (Inl e, db)
           | Inr (depot, vehicle, driver) \<Rightarrow>
               (case createTripTx env stamp user dto depot vehicle driver now db of
                  Inr (tripId, db1) \<Rightarrow> (requireTrip t tripId db1, db1)
                | Inl e \<Rightarrow>
                    (case replayOperation t (ce_requestId dto) (us_id user) hash db of
                       Inl e1 \<Rightarrow> (Inl e1, db)
                     | Inr (Some p) \<Rightarrow> (replayedTrip t p db, db)
                     | Inr None \<Rightarrow>
                         (Inl (if e = TrpUniqueViolation then TripRule ''TRIP_NUMBER_OR_REQUEST_ID_CONFLICT'' else e), db)))))"

section \<open>Changing a trip\<close>

definition kind_text :: "op_kind \<Rightarrow> string" where
  "kind_text k = (if k = K_ASSIGNMENT then ''ASSIGNMENT'' else ''UPDATE'')"

text \<open>The reads before the transaction: a draft at the version, no operation pending, room for a version.\<close>

definition editableTrip :: "uuid \<Rightarrow> uuid \<Rightarrow> version \<Rightarrow> op_kind \<Rightarrow> trp_db \<Rightarrow> trp_error + delivery_trip" where
  "editableTrip t tripId expected kind db =
     bind_res (loadTrip t tripId db) (\<lambda>current.
     bind_res (assertTripVersion expected (dt_version current)) (\<lambda>_.
       if dt_status current \<noteq> T_DRAFT then Inl (TripInvalidState (dt_status current) (kind_text kind))
       else
         bind_res (noLock t tripId db) (\<lambda>_.
         bind_res (versionRoom expected (dt_version current)) (\<lambda>_. Inr current))))"

text \<open>\<^verbatim>\<open>updateMany\<close> guarded by version and status, and the answer when it hits no row.\<close>

definition guardedTripUpdate ::
    "uuid \<Rightarrow> uuid \<Rightarrow> version \<Rightarrow> (delivery_trip \<Rightarrow> delivery_trip) \<Rightarrow> instant \<Rightarrow> trp_db \<Rightarrow> trp_error + delivery_trip \<times> trp_db" where
  "guardedTripUpdate t tripId expected f now db =
     (if exists_row (\<lambda>x. dt_id x = tripId \<and> dt_tenantId x = t \<and> dt_version x = expected \<and> dt_status x = T_DRAFT \<and>
           dt_deletedAt x = None) (trips db)
      then bind_res (updateTrip tripId f now db) (\<lambda>(updated, db1).
           bind_res (noLock t tripId db1) (\<lambda>_. Inr (updated, db1)))
      else
        (case List.find (\<lambda>x. dt_id x = tripId \<and> dt_tenantId x = t) (trips db) of
           None \<Rightarrow> Inl (TripNotFound tripId)
         | Some actual \<Rightarrow>
             bind_res (assertTripVersion expected (dt_version actual)) (\<lambda>_. Inl (TripNotFound tripId))))"

definition editTrip ::
    "update_trip_dto \<Rightarrow> uuid option \<Rightarrow> uuid option \<Rightarrow> driver_binding option \<Rightarrow> delivery_trip \<Rightarrow> delivery_trip" where
  "editTrip dto vehicleId driverId driver x =
     x\<lparr> dt_plannedStartAt := (case ue_plannedStartAt dto of None \<Rightarrow> dt_plannedStartAt x | Some p \<Rightarrow> p),
        dt_vehicleId := vehicleId, dt_driverId := driverId, dt_driverUserId := map_option db_userId driver,
        dt_driverVersion := map_option db_version driver, dt_version := dt_version x + 1 \<rparr>"

definition updateDriverTx ::
    "trp_env \<Rightarrow> trip_user \<Rightarrow> uuid \<Rightarrow> op_kind \<Rightarrow> update_trip_dto \<Rightarrow> uuid option \<Rightarrow> uuid option \<Rightarrow> driver_binding option \<Rightarrow> instant \<Rightarrow>
     trp_db \<Rightarrow> trp_error + trp_db" where
  "updateDriverTx env user tripId kind dto vehicleId driverId driver now db =
     (let t = us_tenantId user in
      bind_res (guardedTripUpdate t tripId (ue_expectedVersion dto) (editTrip dto vehicleId driverId driver) now db) (\<lambda>(updated, db1).
      bind_res (toSafeVersion (dt_version updated)) (\<lambda>v.
        createOperation (completedOperation (trp_next db1) t tripId (ue_requestId dto) (us_id user) kind
          (te_hash env (HashUpdate kind tripId dto)) v now) (db1\<lparr> trp_next := trp_next db1 + 1 \<rparr>))))"

definition editLocal :: "update_trip_dto \<Rightarrow> delivery_trip \<Rightarrow> delivery_trip" where
  "editLocal dto x =
     (let y = x\<lparr> dt_plannedStartAt := (case ue_plannedStartAt dto of None \<Rightarrow> dt_plannedStartAt x | Some p \<Rightarrow> p),
            dt_vehicleId := (case ue_vehicleId dto of None \<Rightarrow> dt_vehicleId x | Some v \<Rightarrow> v), dt_version := dt_version x + 1 \<rparr>
      in if ue_driverId dto = Some None
         then y\<lparr> dt_driverId := None, dt_driverUserId := None, dt_driverVersion := None \<rparr> else y)"

definition updateLocalTx :: "trip_user \<Rightarrow> uuid \<Rightarrow> update_trip_dto \<Rightarrow> instant \<Rightarrow> trp_db \<Rightarrow> trp_error + trp_db" where
  "updateLocalTx user tripId dto now db =
     bind_res (guardedTripUpdate (us_tenantId user) tripId (ue_expectedVersion dto) (editLocal dto) now db) (\<lambda>(_, db1). Inr db1)"

definition updateLocalFields ::
    "trip_master_api \<Rightarrow> trip_user \<Rightarrow> uuid \<Rightarrow> op_kind \<Rightarrow> update_trip_dto \<Rightarrow> instant \<Rightarrow> trp_db \<Rightarrow> trp_db \<Rightarrow> (trp_error + delivery_trip) \<times> trp_db" where
  "updateLocalFields api user tripId kind dto now db0 db =
     (let t = us_tenantId user in
      case bind_res (editableTrip t tripId (ue_expectedVersion dto) kind db0) (\<lambda>current.
             optional_call (masterVehicle api t) (case ue_vehicleId dto of Some v \<Rightarrow> v | None \<Rightarrow> None)) of
        Inl e \<Rightarrow> (Inl e, db)
      | Inr _ \<Rightarrow>
          (case updateLocalTx user tripId dto now db of
             Inl e \<Rightarrow> (Inl e, db) | Inr db1 \<Rightarrow> (requireTrip t tripId db1, db1)))"

definition updateFields ::
    "trp_env \<Rightarrow> trip_master_api \<Rightarrow> trip_user \<Rightarrow> uuid \<Rightarrow> op_kind \<Rightarrow> update_trip_dto \<Rightarrow> instant \<Rightarrow> trp_db \<Rightarrow> trp_db \<Rightarrow>
     (trp_error + delivery_trip) \<times> trp_db" where
  "updateFields env api user tripId kind dto now db0 db =
     (let t = us_tenantId user; hash = te_hash env (HashUpdate kind tripId dto) in
      case replayOperation t (ue_requestId dto) (us_id user) hash db0 of
        Inl e \<Rightarrow> (Inl e, db)
      | Inr (Some p) \<Rightarrow> (requireTrip t tripId db, db)
      | Inr None \<Rightarrow>
          (case ue_driverId dto of
             Some (Some driverId) \<Rightarrow>
               (case bind_res (editableTrip t tripId (ue_expectedVersion dto) kind db0) (\<lambda>current.
                       let vehicleId = (case ue_vehicleId dto of None \<Rightarrow> dt_vehicleId current | Some v \<Rightarrow> v) in
                       bind_res (optional_call (masterVehicle api t) vehicleId) (\<lambda>_.
                       bind_res (lockDriver api t driverId) (\<lambda>driver. Inr (vehicleId, driver)))) of
                  Inl e \<Rightarrow> (Inl e, db)
                | Inr (vehicleId, driver) \<Rightarrow>
                    (case updateDriverTx env user tripId kind dto vehicleId (Some driverId) (Some driver) now db of
                       Inr db1 \<Rightarrow> (requireTrip t tripId db1, db1)
                     | Inl e \<Rightarrow>
                         (case replayOperation t (ue_requestId dto) (us_id user) hash db of
                            Inl e1 \<Rightarrow> (Inl e1, db)
                          | Inr (Some p) \<Rightarrow> (requireTrip t tripId db, db)
                          | Inr None \<Rightarrow>
                              (Inl (if e = TrpUniqueViolation then TripRule ''TRIP_REQUEST_ID_ALREADY_USED'' else e), db))))
           | _ \<Rightarrow> updateLocalFields api user tripId kind dto now db0 db))"

end
