(* ===== verification/Transport_Routes.thy ===== *)
theory Transport_Routes
  imports Transport_Commands
begin

text \<open>
  The route of a trip: the input of a plan read from the trip, master data and the fulfilment service
  (\<^verbatim>\<open>route-input.service.ts\<close>), a manual plan (\<^verbatim>\<open>route-plan.service.ts\<close>), its approval with a signed preview and
  the reopening of an approved trip (\<^verbatim>\<open>route-approval.service.ts\<close>, \<^verbatim>\<open>route-preview-token.service.ts\<close>), and
  their shared checks (\<^verbatim>\<open>route-domain.ts\<close>). Hashes, signing and verifying are parameters. An approval keeps
  the trip's row as its receipt.
\<close>

section \<open>Shared checks\<close>

definition tripMembers :: "uuid \<Rightarrow> trp_db \<Rightarrow> trip_shipment list" where
  "tripMembers trip db =
     sort_key ts_id (filter (\<lambda>m. ts_tripId m = trip \<and> member_live m \<and> ts_deletedAt m = None) (tripShipments db))"

definition plannedStops :: "uuid \<Rightarrow> trp_db \<Rightarrow> trip_stop list" where
  "plannedStops trip db =
     sort_key ps_plannedSequence (sort_key ps_id (filter (\<lambda>p. ps_tripId p = trip \<and> stop_live p) (tripStops db)))"

text \<open>\<^verbatim>\<open>routeTrip\<close>: the trip at the version and in the status, with nothing pending.\<close>

definition routeTrip :: "uuid \<Rightarrow> uuid \<Rightarrow> version \<Rightarrow> trip_status \<Rightarrow> trp_db \<Rightarrow> trp_error + delivery_trip" where
  "routeTrip t tripId expected status db =
     bind_res (loadTrip t tripId db) (\<lambda>trip.
       if dt_version trip \<noteq> expected \<or> MAX_SAFE_INTEGER \<le> int (dt_version trip)
       then bind_res (toSafeVersion (dt_version trip)) (\<lambda>v. Inl (TripVersionConflict expected v))
       else if dt_status trip \<noteq> status then Inl (TripInvalidState (dt_status trip) ''ROUTE'')
       else bind_res (assertNoPending t tripId db) (\<lambda>_. Inr trip))"

definition assertPermutation :: "uuid list \<Rightarrow> uuid list \<Rightarrow> trp_error + unit" where
  "assertPermutation ordered stopIds =
     (let n = length (remdups ordered) in
      if stopIds = [] \<or> n \<noteq> length ordered \<or> n \<noteq> length stopIds \<or> list_ex (\<lambda>i. i \<notin> set ordered) stopIds
      then Inl (TripRule ''ROUTE_REQUIRES_FULL_STOP_PERMUTATION'') else Inr ())"

text \<open>A plain decimal text, its fraction without the zeros at the end.\<close>

definition decimal_parts :: "string \<Rightarrow> string \<times> string" where
  "decimal_parts s = (takeWhile is_digit s, rev (dropWhile ((=) (CHR ''0'')) (rev (drop 1 (dropWhile is_digit s)))))"

definition decimal_shape :: "string \<Rightarrow> bool" where
  "decimal_shape s \<longleftrightarrow>
     (let whole = takeWhile is_digit s; rest = dropWhile is_digit s; frac = drop 1 rest
      in whole \<noteq> [] \<and> (rest = [] \<or> hd rest = CHR ''.'' \<and> list_all is_digit frac \<and> frac \<noteq> []))"

definition decimal_at :: "nat \<Rightarrow> string \<Rightarrow> int" where
  "decimal_at k s = (case decimal_parts s of (whole, frac) \<Rightarrow>
     digits_val whole * 10 ^ k + digits_val (frac @ replicate (k - length frac) (CHR ''0'')))"

definition measureText :: "nat \<Rightarrow> bool \<Rightarrow> string \<Rightarrow> trp_error + int" where
  "measureText k positive s =
     (if \<not> decimal_shape s \<or> hd s = CHR ''0'' \<and> length (takeWhile is_digit s) \<noteq> 1 \<or>
         k < length (snd (decimal_parts s)) \<or> positive \<and> decimal_at k s = 0 \<or> 10 ^ 18 \<le> decimal_at k s
      then Inl (TripRule ''ROUTE_MEASURE_INVALID'') else Inr (decimal_at k s))"

text \<open>\<^verbatim>\<open>coordinate\<close> of \<^verbatim>\<open>route-domain.ts\<close>, in millionths.\<close>

definition routeCoordinate :: "int \<Rightarrow> string \<Rightarrow> trp_error + int" where
  "routeCoordinate bound s =
     (let negative = (s \<noteq> [] \<and> hd s = CHR ''-''); u = (if negative then tl s else s) in
      if \<not> decimal_shape u \<or> bound * 10 ^ 6 < decimal_at 6 u \<or> 6 < length (snd (decimal_parts u))
      then Inl (TripRule ''ROUTE_COORDINATE_INVALID'')
      else Inr (if negative then - decimal_at 6 u else decimal_at 6 u))"

text \<open>A stored measure as the text of the input.\<close>

definition demandText :: "nat \<Rightarrow> int \<Rightarrow> trp_error + string" where
  "demandText k x = (if x < 0 \<or> 10 ^ 18 \<le> x then Inl (TripRule ''ROUTE_MEASURE_INVALID'') else Inr (toFixed k x))"

section \<open>The input of a plan\<close>

record route_context =
  rx_trip :: delivery_trip
  rx_members :: "trip_shipment list"
  rx_stops :: "trip_stop list"
  rx_input :: route_input
  rx_vehicleSnapshot :: vehicle_view
  rx_driverSnapshot :: trip_driver

text \<open>What \<^verbatim>\<open>assertReady\<close> throws, as seen by the route.\<close>

definition readyError :: "trp_error \<Rightarrow> trp_error" where
  "readyError e = (if definite e then TripConflict ''SHIPMENT_NOT_READY_OR_CLAIM_CHANGED''
     else case e of Downstream m s d \<Rightarrow> DownstreamService ''Fulfillment'' s | _ \<Rightarrow> e)"

fun membersReady ::
    "'ful fulfillment_api \<Rightarrow> delivery_trip \<Rightarrow> trip_shipment list \<Rightarrow> 'ful \<Rightarrow> trp_error + unit" where
  "membersReady api trip [] s = Inr ()"
| "membersReady api trip (m # ms) s =
     (case (ts_claimReceipt m, ts_shipmentVersion m) of
        (Some receipt, Some v) \<Rightarrow>
          if ts_warehouseId m \<noteq> dt_warehouseId trip then Inl (TripRule ''TRIP_MEMBERSHIP_BINDING_INVALID'')
          else
            bind_res (toSafeVersion v) (\<lambda>v'.
              case fulAssertReady api (dt_tenantId trip) (dt_id trip) (ts_shipmentId m) (ct_claimId receipt) v' s of
                Inl e \<Rightarrow> Inl (readyError e)
              | Inr _ \<Rightarrow> membersReady api trip ms s)
      | _ \<Rightarrow> Inl (TripRule ''TRIP_MEMBERSHIP_BINDING_INVALID''))"

definition stopInput :: "trip_shipment list \<Rightarrow> nat \<Rightarrow> trip_stop \<Rightarrow> trp_error + route_stop_input" where
  "stopInput members index p =
     (case List.find (\<lambda>m. ts_shipmentId m = ps_shipmentId p) members of
        None \<Rightarrow> Inl (TripRule ''TRIP_STOP_SNAPSHOT_INVALID'')
      | Some m \<Rightarrow>
          (case (ts_shipmentVersion m, as_latitude (ps_addressSnapshot p), as_longitude (ps_addressSnapshot p)) of
             (Some v, Some la, Some lo) \<Rightarrow>
               if as_addressLine (ps_addressSnapshot p) = [] \<or> ps_status p \<noteq> STOP_PENDING
               then Inl (TripRule ''TRIP_STOP_SNAPSHOT_INVALID'')
               else
                 bind_res (routeCoordinate 90 la) (\<lambda>la'.
                 bind_res (routeCoordinate 180 lo) (\<lambda>lo'.
                   if ps_latitude p \<noteq> Some la' \<or> ps_longitude p \<noteq> Some lo'
                   then Inl (TripRule ''TRIP_STOP_COORDINATE_MISMATCH'')
                   else
                     bind_res (toSafeVersion v) (\<lambda>v'.
                     bind_res (demandText 3 (ts_weight m)) (\<lambda>weight.
                     bind_res (demandText 6 (ts_volume m)) (\<lambda>volume.
                       Inr \<lparr> rs_stopId = ps_id p, rs_shipmentId = ps_shipmentId p, rs_shipmentVersion = v',
                         rs_addressSnapshot = ps_addressSnapshot p, rs_demandWeight = weight, rs_demandVolume = volume,
                         rs_sequence = index + 1 \<rparr>)))))
           | _ \<Rightarrow> Inl (TripRule ''TRIP_STOP_SNAPSHOT_INVALID'')))"

fun stopInputs :: "trip_shipment list \<Rightarrow> nat \<Rightarrow> trip_stop list \<Rightarrow> trp_error + route_stop_input list" where
  "stopInputs members index [] = Inr []"
| "stopInputs members index (p # ps) =
     bind_res (stopInput members index p) (\<lambda>x. bind_res (stopInputs members (index + 1) ps) (\<lambda>xs. Inr (x # xs)))"

definition depotInput :: "depot_snapshot \<Rightarrow> trp_error + string \<times> string \<times> string \<times> string" where
  "depotInput d =
     (case (ds_latitude d, ds_longitude d) of
        (Some la, Some lo) \<Rightarrow>
          if ds_name d = [] \<or> ds_addressLine d = [] then Inl (TripRule ''TRIP_DEPOT_SNAPSHOT_INVALID'')
          else bind_res (routeCoordinate 90 la) (\<lambda>_. bind_res (routeCoordinate 180 lo) (\<lambda>_.
                 Inr (ds_name d, ds_addressLine d, la, lo)))
      | _ \<Rightarrow> Inl (TripRule ''TRIP_DEPOT_SNAPSHOT_INVALID''))"

definition manifestReady :: "trip_shipment list \<Rightarrow> trip_stop list \<Rightarrow> bool" where
  "manifestReady ms ps \<longleftrightarrow> ms \<noteq> [] \<and> list_all (\<lambda>m. ts_state m = M_ACTIVE) ms \<and> ps \<noteq> [] \<and> length ps = length ms"

definition currentInput ::
    "trip_master_api \<Rightarrow> 'ful fulfillment_api \<Rightarrow> uuid \<Rightarrow> uuid \<Rightarrow> 'ful \<Rightarrow> trp_db \<Rightarrow> trp_error + route_context" where
  "currentInput master api t tripId s db =
     bind_res (loadTrip t tripId db) (\<lambda>trip.
       let members = tripMembers tripId db; stops = plannedStops tripId db in
       case (dt_vehicleId trip, dt_driverId trip, dt_driverUserId trip) of
         (Some vehicleId, Some driverId, Some driverUserId) \<Rightarrow>
           if \<not> manifestReady members stops then Inl (TripRule ''TRIP_MANIFEST_NOT_READY'')
           else
             bind_res (masterWarehouse master t (dt_warehouseId trip)) (\<lambda>_.
             bind_res (masterVehicle master t vehicleId) (\<lambda>vehicle.
             bind_res (driverForTrip master t driverId) (\<lambda>driver.
               if tv_userId driver \<noteq> driverUserId then Inl (TripConflict ''DRIVER_IDENTITY_BINDING_CHANGED'')
               else
                 bind_res (measureText 3 True (vh_capacityWeight vehicle)) (\<lambda>capacityWeight.
                 bind_res (measureText 6 True (vh_capacityVolume vehicle)) (\<lambda>capacityVolume.
                   if capacityWeight < totalWeightOf members \<or> capacityVolume < totalVolumeOf members
                   then Inl (TripRule ''TRIP_CAPACITY_EXCEEDED'')
                   else if dt_totalWeight trip \<noteq> totalWeightOf members \<or> dt_totalVolume trip \<noteq> totalVolumeOf members
                   then Inl (TripRule ''TRIP_TOTALS_MISMATCH'')
                   else
                     bind_res (membersReady api trip members s) (\<lambda>_.
                     bind_res (depotInput (dt_depotSnapshot trip)) (\<lambda>depot.
                     bind_res (toSafeVersion (dt_version trip)) (\<lambda>v.
                     bind_res (stopInputs members 0 stops) (\<lambda>inputs.
                       let cw = toFixed 3 capacityWeight; cv = toFixed 6 capacityVolume in
                       Inr \<lparr> rx_trip = trip, rx_members = members, rx_stops = stops,
                         rx_input = \<lparr> rn_tenantId = t, rn_tripId = tripId, rn_tripVersion = v,
                           rn_warehouseId = dt_warehouseId trip, rn_vehicleId = vh_id vehicle,
                           rn_plannedStartAt = dt_plannedStartAt trip,
                           rn_driver = (tv_id driver, tv_userId driver, tv_version driver), rn_depot = depot,
                           rn_vehicle = (vh_id vehicle, vh_version vehicle, vh_licensePlate vehicle, cw, cv),
                           rn_stops = inputs \<rparr>,
                         rx_vehicleSnapshot = vehicle\<lparr> vh_capacityWeight := cw, vh_capacityVolume := cv \<rparr>,
                         rx_driverSnapshot = driver \<rparr>)))))))))
       | _ \<Rightarrow> Inl (TripRule ''TRIP_RESOURCES_REQUIRED''))"

section \<open>Preview tokens\<close>

datatype route_action = R_APPROVE | R_OVERRIDE | R_DISPATCH

record manual_dto =
  mo_requestId :: uuid
  mo_expectedTripVersion :: version
  mo_orderedStopIds :: "uuid list"

text \<open>An approval; with \<open>ap_override\<close> it replaces the order of the stops, for a reason.\<close>

record approve_dto =
  ap_requestId :: uuid
  ap_expectedVersion :: version
  ap_planId :: uuid
  ap_planVersion :: version
  ap_inputHash :: string
  ap_previewToken :: string
  ap_override :: "(uuid list \<times> string) option"

record route_selection =
  rl_expectedVersion :: version
  rl_planId :: uuid
  rl_planVersion :: version
  rl_inputHash :: string
  rl_orderedStopIds :: "uuid list"
  rl_reason :: "string option"

record trip_dispatch_dto =
  tq_requestId :: uuid
  tq_version :: version
  tq_previewToken :: string

record dispatch_selection =
  sn_approvedPlanId :: uuid
  sn_inputHash :: string
  sn_dispatchVersion :: version
  sn_shipments :: "readiness_item list"

datatype route_hash =
    HashManual uuid manual_dto
  | HashApproval route_action uuid approve_dto
  | HashPreview route_selection vehicle_view trip_driver
  | HashSelection dispatch_selection
  | HashDispatch uuid trip_dispatch_dto

record route_claims =
  ku_purpose :: string
  ku_action :: route_action
  ku_tenantId :: uuid
  ku_actorId :: uuid
  ku_tripId :: uuid
  ku_payloadHash :: string
  ku_iat :: nat
  ku_exp :: nat

record route_env =
  rv_inputHash :: "route_input \<Rightarrow> string"
  rv_hash :: "route_hash \<Rightarrow> string"
  rv_batchHash :: "batch_request \<Rightarrow> string"
  rv_sign :: "route_claims \<Rightarrow> string"
  rv_verify :: "string \<Rightarrow> instant \<Rightarrow> route_claims option"

definition ROUTE_PREVIEW_TTL_SECONDS :: nat where "ROUTE_PREVIEW_TTL_SECONDS = 300"

definition issueRouteToken :: "route_env \<Rightarrow> trip_user \<Rightarrow> uuid \<Rightarrow> route_action \<Rightarrow> string \<Rightarrow> instant \<Rightarrow> string \<times> instant" where
  "issueRouteToken env user tripId action hash now =
     (let issuedAt = now div 1000 in
      (rv_sign env \<lparr> ku_purpose = ''trip.route.preview'', ku_action = action, ku_tenantId = us_tenantId user,
         ku_actorId = us_id user, ku_tripId = tripId, ku_payloadHash = hash, ku_iat = issuedAt,
         ku_exp = issuedAt + ROUTE_PREVIEW_TTL_SECONDS \<rparr>, (issuedAt + ROUTE_PREVIEW_TTL_SECONDS) * 1000))"

definition verifyRouteToken ::
    "route_env \<Rightarrow> string \<Rightarrow> trip_user \<Rightarrow> uuid \<Rightarrow> route_action \<Rightarrow> string \<Rightarrow> instant \<Rightarrow> trp_error + unit" where
  "verifyRouteToken env token user tripId action hash now =
     (case rv_verify env token now of
        None \<Rightarrow> Inl (TripRule ''ROUTE_PREVIEW_EXPIRED_OR_INVALID'')
      | Some c \<Rightarrow>
          if ku_purpose c = ''trip.route.preview'' \<and> sha256_text (ku_payloadHash c) \<and>
             ku_exp c = ku_iat c + ROUTE_PREVIEW_TTL_SECONDS \<and> ku_tenantId c = us_tenantId user \<and>
             ku_actorId c = us_id user \<and> ku_tripId c = tripId \<and> ku_action c = action \<and> ku_payloadHash c = hash
          then Inr () else Inl (TripRule ''ROUTE_PREVIEW_EXPIRED_OR_INVALID''))"

section \<open>Plans\<close>

definition findPlan :: "uuid \<Rightarrow> uuid \<Rightarrow> uuid \<Rightarrow> trp_db \<Rightarrow> route_plan option" where
  "findPlan t tripId planId db =
     List.find (\<lambda>r. rp_id r = planId \<and> rp_tenantId r = t \<and> rp_tripId r = tripId) (routePlans db)"

definition nextPlanVersion :: "uuid \<Rightarrow> uuid \<Rightarrow> trp_db \<Rightarrow> trp_error + version" where
  "nextPlanVersion t tripId db =
     toSafeVersion (fold max (map rp_planVersion (filter (\<lambda>r. rp_tenantId r = t \<and> rp_tripId r = tripId) (routePlans db))) 0 + 1)"

definition plan_conflict :: "route_plan \<Rightarrow> route_plan \<Rightarrow> bool" where
  "plan_conflict r q \<longleftrightarrow> rp_tenantId q = rp_tenantId r \<and>
     (rp_tripId q = rp_tripId r \<and> rp_planVersion q = rp_planVersion r \<or> rp_routeRequestId q = rp_routeRequestId r \<or>
      rp_approvalRequestId r \<noteq> None \<and> rp_approvalRequestId q = rp_approvalRequestId r)"

definition numbered_stops :: "uuid list \<Rightarrow> route_plan_stop list" where
  "numbered_stops ids = map (\<lambda>(n, i). \<lparr> rq_tripStopId = i, rq_sequence = n \<rparr>) (zip [1..<length ids + 1] ids)"

definition createPlan :: "route_plan \<Rightarrow> trp_db \<Rightarrow> trp_error + trp_db" where
  "createPlan r db =
     (if exists_row (plan_conflict r) (routePlans db) then Inl TrpUniqueViolation
      else if length (remdups (map rq_tripStopId (rp_stops r))) \<noteq> length (rp_stops r) then Inl TrpUniqueViolation
      else if rp_source r = OVERRIDE \<and> (rp_originalPlanId r = None \<or> rp_overrideReason r \<in> {None, Some []}) then Inl TrpCheckViolation
      else Inr (db\<lparr> routePlans := routePlans db @ [r] \<rparr>))"

definition planReplay :: "trip_user \<Rightarrow> uuid \<Rightarrow> uuid \<Rightarrow> string \<Rightarrow> trp_db \<Rightarrow> trp_error + route_plan option" where
  "planReplay user tripId requestId hash db =
     (case List.find (\<lambda>r. rp_tenantId r = us_tenantId user \<and> rp_routeRequestId r = requestId) (routePlans db) of
        None \<Rightarrow> Inr None
      | Some plan \<Rightarrow>
          if rp_tripId plan \<noteq> tripId \<or> rp_requestActorId plan \<noteq> Some (us_id user) \<or> rp_requestHash plan \<noteq> Some hash
          then Inl (TripConflict ''ROUTE_REQUEST_REPLAY_CONFLICT'') else Inr (Some plan))"

definition mapResourceConflict :: "trp_error \<Rightarrow> trp_error" where
  "mapResourceConflict e = (if e = TrpUniqueViolation then TripConflict ''TRIP_RESOURCE_OR_REQUEST_CONFLICT'' else e)"

definition manualPlan :: "route_env \<Rightarrow> trip_user \<Rightarrow> uuid \<Rightarrow> manual_dto \<Rightarrow> route_input \<Rightarrow> uuid \<Rightarrow> version \<Rightarrow> instant \<Rightarrow> route_plan" where
  "manualPlan env user tripId dto input i v now =
     \<lparr> rp_id = i, rp_tenantId = us_tenantId user, rp_tripId = tripId, rp_planVersion = v,
       rp_routeRequestId = mo_requestId dto, rp_requestActorId = Some (us_id user),
       rp_requestHash = Some (rv_hash env (HashManual tripId dto)), rp_source = MANUAL,
       rp_inputHash = rv_inputHash env input, rp_inputSnapshot = input, rp_optimizationRunId = None,
       rp_originalPlanId = None, rp_overrideReason = None, rp_approvedBy = None, rp_approvedAt = None,
       rp_approvalRequestId = None, rp_approvalHash = None, rp_approvalReceipt = None, rp_vehicleSnapshot = None,
       rp_driverSnapshot = None, rp_stops = numbered_stops (mo_orderedStopIds dto), rp_createdAt = now, rp_deletedAt = None \<rparr>"

definition manualTx ::
    "route_env \<Rightarrow> trip_user \<Rightarrow> uuid \<Rightarrow> manual_dto \<Rightarrow> route_input \<Rightarrow> instant \<Rightarrow> trp_db \<Rightarrow> trp_error + route_plan \<times> trp_db" where
  "manualTx env user tripId dto input now db =
     (let t = us_tenantId user in
      bind_res (routeTrip t tripId (mo_expectedTripVersion dto) T_DRAFT db) (\<lambda>_.
      bind_res (planReplay user tripId (mo_requestId dto) (rv_hash env (HashManual tripId dto)) db) (\<lambda>raced.
        case raced of
          Some plan \<Rightarrow> Inr (plan, db)
        | None \<Rightarrow>
            if rn_tripVersion input \<noteq> mo_expectedTripVersion dto then Inl (TripConflict ''ROUTE_INPUT_CHANGED'')
            else
              bind_res (nextPlanVersion t tripId db) (\<lambda>v.
                let plan = manualPlan env user tripId dto input (trp_next db) v now in
                bind_res (createPlan plan (db\<lparr> trp_next := trp_next db + 1 \<rparr>)) (\<lambda>db1. Inr (plan, db1))))))"

text \<open>\<open>db0\<close> and \<open>s0\<close> are the states of the look for an earlier request and of the reads of the input.\<close>

definition manualRoute ::
    "route_env \<Rightarrow> trip_master_api \<Rightarrow> 'ful fulfillment_api \<Rightarrow> trip_user \<Rightarrow> uuid \<Rightarrow> manual_dto \<Rightarrow> instant \<Rightarrow> trp_db \<Rightarrow> 'ful \<Rightarrow>
     trp_db \<Rightarrow> (trp_error + route_plan) \<times> trp_db" where
  "manualRoute env master api user tripId dto now db0 s0 db =
     (let hash = rv_hash env (HashManual tripId dto) in
      case planReplay user tripId (mo_requestId dto) hash db0 of
        Inl e \<Rightarrow> (Inl e, db)
      | Inr (Some plan) \<Rightarrow> (Inr plan, db)
      | Inr None \<Rightarrow>
          (case bind_res (currentInput master api (us_tenantId user) tripId s0 db0) (\<lambda>context.
                bind_res (assertPermutation (mo_orderedStopIds dto) (map rs_stopId (rn_stops (rx_input context)))) (\<lambda>_. Inr context)) of
             Inl e \<Rightarrow> (Inl e, db)
           | Inr context \<Rightarrow>
               (case manualTx env user tripId dto (rx_input context) now db of
                  Inr (plan, db1) \<Rightarrow> (Inr plan, db1)
                | Inl e \<Rightarrow>
                    (case planReplay user tripId (mo_requestId dto) hash db of
                       Inl e1 \<Rightarrow> (Inl e1, db)
                     | Inr (Some plan) \<Rightarrow> (Inr plan, db)
                     | Inr None \<Rightarrow> (Inl (mapResourceConflict e), db)))))"

section \<open>Approval\<close>

definition planSource :: "plan_source \<Rightarrow> plan_source" where
  "planSource s = (case s of OPTIMIZER \<Rightarrow> OPTIMIZED | MANUAL_OVERRIDE \<Rightarrow> OVERRIDE | _ \<Rightarrow> s)"

definition approveAction :: "approve_dto \<Rightarrow> route_action" where
  "approveAction dto = (if ap_override dto = None then R_APPROVE else R_OVERRIDE)"

definition validateApproval :: "route_env \<Rightarrow> route_context \<Rightarrow> approve_dto \<Rightarrow> trp_db \<Rightarrow> trp_error + route_plan \<times> uuid list" where
  "validateApproval env context dto db =
     (let trip = rx_trip context in
      case findPlan (dt_tenantId trip) (dt_id trip) (ap_planId dto) db of
        None \<Rightarrow> Inl (TripEntityNotFound ''RoutePlan'')
      | Some plan \<Rightarrow>
          if rp_deletedAt plan \<noteq> None \<or> rp_stops plan = [] then Inl (TripEntityNotFound ''RoutePlan'')
          else
            bind_res (toSafeVersion (rp_planVersion plan)) (\<lambda>v.
              if v \<noteq> ap_planVersion dto \<or> rp_inputHash plan \<noteq> ap_inputHash dto \<or>
                 rv_inputHash env (rx_input context) \<noteq> rp_inputHash plan
              then Inl (TripConflict ''ROUTE_INPUT_OR_PLAN_CHANGED'')
              else if rp_source plan = OPTIMIZED \<and> rp_optimizationRunId plan = None
              then Inl (TripRule ''OPTIMIZER_RESULT_NOT_PERSISTED'')
              else
                let ordered = (case ap_override dto of Some (ids, _) \<Rightarrow> ids
                      | None \<Rightarrow> map rq_tripStopId (sort_key rq_sequence (rp_stops plan))) in
                bind_res (assertPermutation ordered (map rs_stopId (rn_stops (rx_input context)))) (\<lambda>_. Inr (plan, ordered))))"

definition selectionOf :: "approve_dto \<Rightarrow> uuid list \<Rightarrow> route_selection" where
  "selectionOf dto ordered = \<lparr> rl_expectedVersion = ap_expectedVersion dto, rl_planId = ap_planId dto,
     rl_planVersion = ap_planVersion dto, rl_inputHash = ap_inputHash dto, rl_orderedStopIds = ordered,
     rl_reason = map_option snd (ap_override dto) \<rparr>"

definition approvalReceipt :: "trip_user \<Rightarrow> uuid \<Rightarrow> uuid \<Rightarrow> string \<Rightarrow> trp_db \<Rightarrow> trp_error + delivery_trip option" where
  "approvalReceipt user tripId requestId hash db =
     (case List.find (\<lambda>r. rp_tenantId r = us_tenantId user \<and> rp_approvalRequestId r = Some requestId) (routePlans db) of
        None \<Rightarrow> Inr None
      | Some prior \<Rightarrow>
          if rp_tripId prior \<noteq> tripId \<or> rp_approvedBy prior \<noteq> Some (us_id user) \<or> rp_approvalHash prior \<noteq> Some hash \<or>
             rp_approvalReceipt prior = None
          then Inl (TripConflict ''ROUTE_APPROVAL_REPLAY_CONFLICT'') else Inr (rp_approvalReceipt prior))"

definition approvedPlan ::
    "route_env \<Rightarrow> trip_user \<Rightarrow> approve_dto \<Rightarrow> route_context \<Rightarrow> route_plan \<Rightarrow> uuid list \<Rightarrow> uuid \<Rightarrow> version \<Rightarrow> instant \<Rightarrow> route_plan" where
  "approvedPlan env user dto context plan ordered i v now =
     \<lparr> rp_id = i, rp_tenantId = us_tenantId user, rp_tripId = dt_id (rx_trip context), rp_planVersion = v,
       rp_routeRequestId = i + 1, rp_requestActorId = None, rp_requestHash = None,
       rp_source = (if approveAction dto = R_OVERRIDE then OVERRIDE else planSource (rp_source plan)),
       rp_inputHash = rv_inputHash env (rx_input context), rp_inputSnapshot = rx_input context,
       rp_optimizationRunId = (if approveAction dto = R_OVERRIDE then None else rp_optimizationRunId plan),
       rp_originalPlanId = Some (rp_id plan),
       rp_overrideReason = (case ap_override dto of Some (_, r) \<Rightarrow> Some r | None \<Rightarrow> rp_overrideReason plan),
       rp_approvedBy = Some (us_id user), rp_approvedAt = Some now, rp_approvalRequestId = Some (ap_requestId dto),
       rp_approvalHash = Some (rv_hash env (HashApproval (approveAction dto) (dt_id (rx_trip context)) dto)),
       rp_approvalReceipt = None, rp_vehicleSnapshot = Some (rx_vehicleSnapshot context),
       rp_driverSnapshot = Some (rx_driverSnapshot context), rp_stops = numbered_stops ordered, rp_createdAt = now,
       rp_deletedAt = None \<rparr>"

text \<open>The approved sequence is cleared first, then written stop by stop.\<close>

definition sequence_taken :: "uuid \<Rightarrow> uuid \<Rightarrow> uuid \<Rightarrow> nat \<Rightarrow> trp_db \<Rightarrow> bool" where
  "sequence_taken t tripId stopId n db \<longleftrightarrow>
     exists_row (\<lambda>p. ps_id p \<noteq> stopId \<and> ps_tenantId p = t \<and> ps_tripId p = tripId \<and> ps_approvedSequence p = Some n) (tripStops db)"

fun numberStops :: "uuid \<Rightarrow> uuid \<Rightarrow> nat \<Rightarrow> uuid list \<Rightarrow> trp_db \<Rightarrow> trp_error + trp_db" where
  "numberStops t tripId n [] db = Inr db"
| "numberStops t tripId n (i # is) db =
     (if \<not> exists_row (\<lambda>p. ps_id p = i) (tripStops db) then Inl TrpNotFound
      else if sequence_taken t tripId i n db then Inl TrpUniqueViolation
      else numberStops t tripId (n + 1) is
        (setStops (\<lambda>p. ps_id p = i) (\<lambda>p. p\<lparr> ps_approvedSequence := Some n, ps_version := ps_version p + 1 \<rparr>) db))"

definition clearSequence :: "uuid \<Rightarrow> uuid \<Rightarrow> trp_db \<Rightarrow> trp_db" where
  "clearSequence t tripId db =
     setStops (\<lambda>p. ps_tenantId p = t \<and> ps_tripId p = tripId) (\<lambda>p. p\<lparr> ps_approvedSequence := None \<rparr>) db"

definition approveTx ::
    "route_env \<Rightarrow> trip_user \<Rightarrow> uuid \<Rightarrow> approve_dto \<Rightarrow> route_context \<Rightarrow> route_plan \<Rightarrow> uuid list \<Rightarrow> instant \<Rightarrow> trp_db \<Rightarrow>
     trp_error + delivery_trip \<times> trp_db" where
  "approveTx env user tripId dto context plan ordered now db =
     (let t = us_tenantId user; hash = rv_hash env (HashApproval (approveAction dto) tripId dto) in
      bind_res (approvalReceipt user tripId (ap_requestId dto) hash db) (\<lambda>raced.
        case raced of
          Some receipt \<Rightarrow> Inr (receipt, db)
        | None \<Rightarrow>
            bind_res (routeTrip t tripId (ap_expectedVersion dto) T_DRAFT db) (\<lambda>trip.
              let stops = plannedStops tripId db in
              if length stops \<noteq> length ordered \<or> list_ex (\<lambda>m. ts_state m \<noteq> M_ACTIVE) (tripMembers tripId db)
              then Inl (TripConflict ''TRIP_MANIFEST_CHANGED'')
              else
                bind_res (assertPermutation ordered (map ps_id stops)) (\<lambda>_.
                bind_res (nextPlanVersion t tripId db) (\<lambda>v.
                  let approved = approvedPlan env user dto context plan ordered (trp_next db) v now in
                  bind_res (createPlan approved (db\<lparr> trp_next := trp_next db + 2 \<rparr>)) (\<lambda>db1.
                  bind_res (numberStops t tripId 1 ordered (clearSequence t tripId db1)) (\<lambda>db2.
                  bind_res (updateTrip tripId (\<lambda>x. x\<lparr> dt_status := T_APPROVED, dt_approvedRoutePlanId := Some (rp_id approved),
                      dt_vehicleSnapshot := Some (rx_vehicleSnapshot context), dt_driverSnapshot := Some (rx_driverSnapshot context),
                      dt_version := dt_version x + 1 \<rparr>) now db2) (\<lambda>(updated, db3).
                  bind_res (toSafeVersion (dt_version trip)) (\<lambda>v0.
                  bind_res (toSafeVersion (dt_version updated)) (\<lambda>v1.
                    let db4 = tripEvent t ''RouteApproved'' 2 tripId (dt_version updated) (ap_requestId dto)
                          (TripChanged \<lparr> tx_beforeStatus = dt_status trip, tx_beforeVersion = v0, tx_afterStatus = dt_status updated,
                             tx_afterVersion = v1, tx_requestId = ap_requestId dto, tx_reason = map_option snd (ap_override dto),
                             tx_planId = Some (rp_id approved) \<rparr>) (Some (us_id user)) now db3
                    in Inr (updated, db4\<lparr> routePlans := update_where (\<lambda>r. rp_id r = rp_id approved)
                         (\<lambda>r. r\<lparr> rp_approvalReceipt := Some updated \<rparr>) (routePlans db4) \<rparr>)))))))))))"

definition approveRoute ::
    "route_env \<Rightarrow> trip_master_api \<Rightarrow> 'ful fulfillment_api \<Rightarrow> trip_user \<Rightarrow> uuid \<Rightarrow> approve_dto \<Rightarrow> instant \<Rightarrow> trp_db \<Rightarrow> 'ful \<Rightarrow>
     trp_db \<Rightarrow> (trp_error + delivery_trip) \<times> trp_db" where
  "approveRoute env master api user tripId dto now db0 s0 db =
     (let hash = rv_hash env (HashApproval (approveAction dto) tripId dto) in
      case approvalReceipt user tripId (ap_requestId dto) hash db0 of
        Inl e \<Rightarrow> (Inl e, db)
      | Inr (Some receipt) \<Rightarrow> (Inr receipt, db)
      | Inr None \<Rightarrow>
          (case bind_res (currentInput master api (us_tenantId user) tripId s0 db0) (\<lambda>context.
                bind_res (validateApproval env context dto db0) (\<lambda>(plan, ordered).
                bind_res (verifyRouteToken env (ap_previewToken dto) user tripId (approveAction dto)
                    (rv_hash env (HashPreview (selectionOf dto ordered) (rx_vehicleSnapshot context) (rx_driverSnapshot context))) now) (\<lambda>_.
                  Inr (context, plan, ordered)))) of
             Inl e \<Rightarrow> (Inl e, db)
           | Inr (context, plan, ordered) \<Rightarrow>
               (case approveTx env user tripId dto context plan ordered now db of
                  Inr (receipt, db1) \<Rightarrow> (Inr receipt, db1)
                | Inl e \<Rightarrow>
                    (case approvalReceipt user tripId (ap_requestId dto) hash db of
                       Inl e1 \<Rightarrow> (Inl e1, db)
                     | Inr (Some receipt) \<Rightarrow> (Inr receipt, db)
                     | Inr None \<Rightarrow> (Inl (mapResourceConflict e), db)))))"

section \<open>Reopening\<close>

record reopen_dto =
  ro_requestId :: uuid
  ro_expectedVersion :: version
  ro_reason :: string

definition reopenTx :: "trip_user \<Rightarrow> uuid \<Rightarrow> reopen_dto \<Rightarrow> instant \<Rightarrow> trp_db \<Rightarrow> trp_error + delivery_trip \<times> trp_db" where
  "reopenTx user tripId dto now db =
     (let t = us_tenantId user in
      bind_res (routeTrip t tripId (ro_expectedVersion dto) T_APPROVED db) (\<lambda>trip.
        let db1 = setStops (\<lambda>p. ps_tenantId p = t \<and> ps_tripId p = tripId)
              (\<lambda>p. p\<lparr> ps_approvedSequence := None, ps_version := ps_version p + 1 \<rparr>) db in
        bind_res (updateTrip tripId (\<lambda>x. x\<lparr> dt_status := T_DRAFT, dt_approvedRoutePlanId := None,
            dt_version := dt_version x + 1 \<rparr>) now db1) (\<lambda>(updated, db2).
        bind_res (toSafeVersion (dt_version trip)) (\<lambda>v0.
        bind_res (toSafeVersion (dt_version updated)) (\<lambda>v1.
          Inr (updated, tripEvent t ''TripReopened'' 1 tripId (dt_version updated) (ro_requestId dto)
            (TripChanged \<lparr> tx_beforeStatus = dt_status trip, tx_beforeVersion = v0, tx_afterStatus = dt_status updated,
               tx_afterVersion = v1, tx_requestId = ro_requestId dto, tx_reason = Some (ro_reason dto),
               tx_planId = dt_approvedRoutePlanId trip \<rparr>) (Some (us_id user)) now db2))))))"

end
