(* ===== verification/Transport_Cancellation.thy ===== *)
theory Transport_Cancellation
  imports Transport_Membership
begin

text \<open>
  The end of a membership from outside the trip's planning: the cancellation of a trip, confirmed with a
  signed preview of what it releases (\<^verbatim>\<open>trip-cancellation.service.ts\<close> and
  \<^verbatim>\<open>trip-cancel-preview-token.service.ts\<close>), and the cancellation of a shipment by its order
  (\<^verbatim>\<open>shipment-canceled.consumer.ts\<close>). Signing and verifying a JSON web token are parameters.
\<close>

section \<open>The preview token\<close>

record cancel_claims =
  kc_purpose :: string
  kc_action :: string
  kc_tokenVersion :: nat
  kc_tenantId :: uuid
  kc_actorId :: uuid
  kc_tripId :: uuid
  kc_expectedVersion :: version
  kc_membershipHash :: string
  kc_iat :: nat
  kc_exp :: nat

record cancel_tokens =
  ck_sign :: "cancel_claims \<Rightarrow> string"
  ck_verify :: "string \<Rightarrow> instant \<Rightarrow> cancel_claims option"

definition TRIP_CANCEL_PREVIEW_TTL_SECONDS :: nat where "TRIP_CANCEL_PREVIEW_TTL_SECONDS = 300"

text \<open>\<^verbatim>\<open>issue\<close>: the token and its expiry.\<close>

definition issueCancelToken ::
    "cancel_tokens \<Rightarrow> uuid \<Rightarrow> uuid \<Rightarrow> uuid \<Rightarrow> version \<Rightarrow> string \<Rightarrow> instant \<Rightarrow> string \<times> instant" where
  "issueCancelToken tokens t actor trip expected hash now =
     (let issuedAt = now div 1000; expiry = issuedAt + TRIP_CANCEL_PREVIEW_TTL_SECONDS in
      (ck_sign tokens \<lparr> kc_purpose = ''trip.cancel.preview'', kc_action = ''CANCEL'', kc_tokenVersion = 1,
         kc_tenantId = t, kc_actorId = actor, kc_tripId = trip, kc_expectedVersion = expected,
         kc_membershipHash = hash, kc_iat = issuedAt, kc_exp = expiry \<rparr>, expiry * 1000))"

definition cancelClaimsValid :: "cancel_claims \<Rightarrow> bool" where
  "cancelClaimsValid c \<longleftrightarrow> \<not> (kc_purpose c \<noteq> ''trip.cancel.preview'' \<or> kc_action c \<noteq> ''CANCEL'' \<or>
     kc_tokenVersion c \<noteq> 1 \<or> \<not> isSafeInteger (kc_expectedVersion c) \<or> kc_expectedVersion c = 0 \<or>
     kc_exp c \<noteq> kc_iat c + TRIP_CANCEL_PREVIEW_TTL_SECONDS)"

definition verifyCancelToken :: "cancel_tokens \<Rightarrow> string \<Rightarrow> instant \<Rightarrow> trp_error + cancel_claims" where
  "verifyCancelToken tokens token now =
     (case ck_verify tokens token now of
        None \<Rightarrow> Inl (TripRule ''CANCEL_PREVIEW_EXPIRED_OR_INVALID'')
      | Some c \<Rightarrow> if cancelClaimsValid c then Inr c else Inl (TripRule ''CANCEL_PREVIEW_EXPIRED_OR_INVALID''))"

section \<open>Canceling a trip\<close>

definition cancelable :: "delivery_trip \<Rightarrow> trp_error + unit" where
  "cancelable trip = (if dt_status trip \<noteq> T_DRAFT \<and> dt_status trip \<noteq> T_APPROVED
     then Inl (TripInvalidState (dt_status trip) ''CANCEL'') else Inr ())"

definition membershipHash :: "trp_env \<Rightarrow> uuid \<Rightarrow> uuid \<Rightarrow> uuid \<Rightarrow> version \<Rightarrow> trip_shipment list \<Rightarrow> string" where
  "membershipHash env t actor trip expected ms =
     te_hash env (HashMembers t actor trip expected
       (map (\<lambda>m. (ts_id m, ts_shipmentId m, ts_version m, ts_shipmentVersion m)) ms))"

definition releasableMembers :: "uuid \<Rightarrow> uuid \<Rightarrow> trp_db \<Rightarrow> trip_shipment list" where
  "releasableMembers t trip db = sort_key ts_shipmentId (activeMembers t trip db)"

record cancel_preview =
  kp_previewToken :: string
  kp_tripId :: uuid
  kp_expectedVersion :: version
  kp_expiresAt :: instant
  kp_activeShipmentCount :: nat
  kp_blocked :: bool
  kp_pendingRequestId :: "uuid option"

definition previewCancel ::
    "trp_env \<Rightarrow> cancel_tokens \<Rightarrow> trip_user \<Rightarrow> uuid \<Rightarrow> version \<Rightarrow> instant \<Rightarrow> trp_db \<Rightarrow> trp_error + cancel_preview" where
  "previewCancel env tokens user tripId expected now db =
     (let t = us_tenantId user in
      bind_res (loadTrip t tripId db) (\<lambda>trip.
      bind_res (assertTripVersion expected (dt_version trip)) (\<lambda>_.
      bind_res (cancelable trip) (\<lambda>_.
        let active = releasableMembers t tripId db;
            (token, expiry) = issueCancelToken tokens t (us_id user) tripId expected
              (membershipHash env t (us_id user) tripId expected active) now
        in Inr \<lparr> kp_previewToken = token, kp_tripId = tripId, kp_expectedVersion = expected, kp_expiresAt = expiry,
             kp_activeShipmentCount = length active,
             kp_blocked = (lockHolder t tripId db \<noteq> None \<or>
               exists_row (\<lambda>d. td_tenantId d = t \<and> td_tripId d = tripId \<and> td_status d \<noteq> I_REJECTED) (tripDispatches db)),
             kp_pendingRequestId = map_option to_requestId (lockHolder t tripId db) \<rparr>))))"

fun cancelMembers :: "uuid \<Rightarrow> uuid \<Rightarrow> version \<Rightarrow> trip_shipment list \<Rightarrow> trp_db \<Rightarrow> trp_error + trp_db" where
  "cancelMembers operationId actorId tripVersion [] db = Inr db"
| "cancelMembers operationId actorId tripVersion (m # ms) db =
     (if ts_claimReceipt m = None \<or> ts_shipmentVersion m = None then Inl (TripRule ''MEMBERSHIP_CLAIM_RECEIPT_MISSING'')
      else
        bind_res (toSafeVersion tripVersion) (\<lambda>v.
        bind_res (releaseRequestOf m actorId v ''TRIP_CANCELED'' (trp_next db)) (\<lambda>request.
          cancelMembers operationId actorId tripVersion ms
            (setMember (ts_id m) (\<lambda>x. x\<lparr> ts_operationId := Some operationId, ts_state := M_RELEASE_PENDING,
               ts_releaseRequest := Some request \<rparr>) (db\<lparr> trp_next := trp_next db + 1 \<rparr>)))))"

definition cancelTx ::
    "trp_env \<Rightarrow> trip_user \<Rightarrow> uuid \<Rightarrow> cancel_dto \<Rightarrow> cancel_claims \<Rightarrow> instant \<Rightarrow> trp_db \<Rightarrow> trp_error + uuid \<times> trp_db" where
  "cancelTx env user tripId dto claims now db =
     (let t = us_tenantId user; operationId = trp_next db in
      bind_res (assertNoPending t tripId db) (\<lambda>_.
      bind_res (loadTrip t tripId db) (\<lambda>trip.
      bind_res (assertTripVersion (cn_expectedVersion dto) (dt_version trip)) (\<lambda>_.
      bind_res (cancelable trip) (\<lambda>_.
      bind_res (versionRoom (cn_expectedVersion dto) (dt_version trip)) (\<lambda>_.
      bind_res (noLock t tripId db) (\<lambda>_.
        let rows = releasableMembers t tripId db in
        if membershipHash env t (us_id user) tripId (cn_expectedVersion dto) rows \<noteq> kc_membershipHash claims
        then Inl (TripRule ''CANCEL_PREVIEW_STALE'')
        else
          bind_res (createOperation (newOperation operationId t tripId (cn_requestId dto) (us_id user) K_CANCEL
              (te_hash env (HashCancel tripId dto)) (map ts_shipmentId rows) (map ts_id rows) (Some (cn_reason dto)) now)
              (db\<lparr> trp_next := operationId + 1 \<rparr>)) (\<lambda>db1.
          bind_res (cancelMembers operationId (us_id user) (dt_version trip + 1) rows db1) (\<lambda>db2.
          bind_res (updateTrip tripId bumpTrip now db2) (\<lambda>(_, db3). Inr (operationId, db3)))))))))))"

text \<open>\<^verbatim>\<open>findReplay\<close>: the earlier request must be this cancellation.\<close>

definition cancelReplay :: "trp_env \<Rightarrow> trip_user \<Rightarrow> uuid \<Rightarrow> cancel_dto \<Rightarrow> trp_db \<Rightarrow> trp_error + trip_op option" where
  "cancelReplay env user tripId dto db =
     (case operationOf (us_tenantId user) (cn_requestId dto) db of
        None \<Rightarrow> Inr None
      | Some p \<Rightarrow>
          if to_kind p \<noteq> K_CANCEL \<or> to_tripId p \<noteq> Some tripId \<or> to_actorId p \<noteq> us_id user \<or>
             to_payloadHash p \<noteq> te_hash env (HashCancel tripId dto)
          then Inl (TripConflict ''REQUEST_ID_REPLAY_MISMATCH'') else Inr (Some p))"

definition cancelTrip ::
    "trp_env \<Rightarrow> 'ful fulfillment_api \<Rightarrow> cancel_tokens \<Rightarrow> trip_user \<Rightarrow> uuid \<Rightarrow> cancel_dto \<Rightarrow> instant \<Rightarrow> trp_db \<Rightarrow> trp_db \<times> 'ful \<Rightarrow>
     (trp_error + operation_view option) \<times> trp_db \<times> 'ful" where
  "cancelTrip env api tokens user tripId dto now db0 w =
     (let t = us_tenantId user in
      case cancelReplay env user tripId dto db0 of
        Inl e \<Rightarrow> (Inl e, w)
      | Inr (Some p) \<Rightarrow> resumeAndView env api (to_id p) t (to_requestId p) now w
      | Inr None \<Rightarrow>
          (case cn_preview dto of
             Inr previewId \<Rightarrow> (Inl (TripRule ''CANCEL_PREVIEW_REFRESH_REQUIRED''), w)
           | Inl token \<Rightarrow>
               (case verifyCancelToken tokens token now of
                  Inl e \<Rightarrow> (Inl e, w)
                | Inr claims \<Rightarrow>
                    if kc_tenantId claims \<noteq> t \<or> kc_actorId claims \<noteq> us_id user \<or> kc_tripId claims \<noteq> tripId \<or>
                       kc_expectedVersion claims \<noteq> cn_expectedVersion dto
                    then (Inl (TripRule ''CANCEL_PREVIEW_EXPIRED_OR_INVALID''), w)
                    else
                      (case cancelTx env user tripId dto claims now (fst w) of
                         Inr (operationId, db1) \<Rightarrow> resumeAndView env api operationId t (cn_requestId dto) now (db1, snd w)
                       | Inl e \<Rightarrow>
                           (case cancelReplay env user tripId dto (fst w) of
                              Inl e1 \<Rightarrow> (Inl e1, w)
                            | Inr (Some p) \<Rightarrow> resumeAndView env api (to_id p) t (to_requestId p) now w
                            | Inr None \<Rightarrow> (Inl e, w))))))"

section \<open>A shipment canceled by its order\<close>

definition SHIPMENT_CANCELED_CONSUMER :: string where
  "SHIPMENT_CANCELED_CONSUMER = ''transport-shipment-canceled-v1''"

definition trp_inbox_has :: "uuid \<Rightarrow> trp_db \<Rightarrow> bool" where
  "trp_inbox_has i db = exists_row (\<lambda>r. ie_consumerName r = SHIPMENT_CANCELED_CONSUMER \<and> ie_eventId r = i) (trp_inbox db)"

text \<open>\<^verbatim>\<open>inboxEvent.create\<close>: consumer and event are unique.\<close>

definition trp_inbox_create :: "'p envelope \<Rightarrow> string \<Rightarrow> trp_db \<Rightarrow> trp_error + trp_db" where
  "trp_inbox_create event outcome db =
     (if trp_inbox_has (ev_eventId event) db then Inl TrpUniqueViolation
      else Inr (db\<lparr> trp_inbox := trp_inbox db @
        [\<lparr> ie_tenantId = ev_tenantId event, ie_consumerName = SHIPMENT_CANCELED_CONSUMER, ie_eventId = ev_eventId event,
           ie_eventType = ev_eventType event, ie_aggregateId = Some (ev_aggregateId event),
           ie_aggregateVersion = Some (ev_aggregateVersion event), ie_outcome = outcome \<rparr>] \<rparr>))"

text \<open>An event of the shipment at this version or a later one has been consumed.\<close>

definition cancellationStale :: "'p envelope \<Rightarrow> trp_db \<Rightarrow> bool" where
  "cancellationStale event db \<longleftrightarrow>
     exists_row (\<lambda>r. ie_consumerName r = SHIPMENT_CANCELED_CONSUMER \<and> ie_tenantId r = ev_tenantId event \<and>
       ie_aggregateId r = Some (ev_aggregateId event) \<and>
       (case ie_aggregateVersion r of None \<Rightarrow> False | Some v \<Rightarrow> ev_aggregateVersion event \<le> v)) (trp_inbox db)"

definition liveMember :: "uuid \<Rightarrow> uuid \<Rightarrow> trp_db \<Rightarrow> trip_shipment option" where
  "liveMember t shipmentId db =
     List.find (\<lambda>m. ts_tenantId m = t \<and> ts_shipmentId m = shipmentId \<and> member_live m \<and> ts_state m \<noteq> M_RELEASED)
       (tripShipments db)"

text \<open>The release of the canceled shipment: the operation, the membership, the stops and the trip.\<close>

definition cancelMemberTx ::
    "'p envelope \<Rightarrow> trip_shipment \<Rightarrow> instant \<Rightarrow> trp_db \<Rightarrow> trp_error + uuid \<times> trp_db" where
  "cancelMemberTx event m now db =
     (let t = ev_tenantId event; trip0 = ts_tripId m; operationId = trp_next db in
      case findTrip t trip0 db of
        None \<Rightarrow> Inl (TrpPlainError ''Active shipment membership has no tenant trip'')
      | Some trip \<Rightarrow>
          if dt_status trip \<noteq> T_DRAFT \<and> dt_status trip \<noteq> T_APPROVED
          then Inl (TrpPlainError ''ShipmentCanceled requires dispatch authority recovery; trip resources retained'')
          else
            bind_res (assertNoPending t (dt_id trip) db) (\<lambda>_.
              case (ts_claimReceipt m, ts_shipmentVersion m, ts_claimRequest m) of
                (Some receipt, Some _, Some claim) \<Rightarrow>
                  bind_res (toSafeVersion (dt_version trip + 1)) (\<lambda>tripVersion.
                    let request = \<lparr> lr_contractVersion = TRANSPORT_CONTRACT_VERSION, lr_tenantId = t,
                          lr_requestId = operationId + 1, lr_claimId = ct_claimId receipt, lr_tripId = trip0,
                          lr_shipmentId = ts_shipmentId m, lr_actorId = cq_actorId claim,
                          lr_expectedTripVersion = tripVersion, lr_expectedShipmentVersion = ev_aggregateVersion event,
                          lr_reason = ''SHIPMENT_CANCELED'' \<rparr> in
                    bind_res (createOperation (newOperation operationId t trip0 (ev_eventId event) (cq_actorId claim)
                        K_SHIPMENT_CANCELED (uuid_text (ev_eventId event)) [ts_shipmentId m] [ts_id m]
                        (Some ''SHIPMENT_CANCELED'') now) (db\<lparr> trp_next := operationId + 2 \<rparr>)) (\<lambda>db1.
                    let db2 = setMember (ts_id m) (\<lambda>x. x\<lparr> ts_operationId := Some operationId, ts_state := M_RELEASE_PENDING,
                          ts_shipmentVersion := Some (ev_aggregateVersion event), ts_releaseRequest := Some request \<rparr>) db1;
                        db3 = setStops (\<lambda>p. ps_tenantId p = t \<and> ps_tripId p = trip0) (\<lambda>p. p\<lparr> ps_approvedSequence := None \<rparr>) db2;
                        db4 = setStops (\<lambda>p. ps_tenantId p = t \<and> ps_tripId p = trip0 \<and> ps_shipmentId p = ts_shipmentId m \<and> stop_live p)
                          (\<lambda>p. p\<lparr> ps_deletedAt := Some now, ps_version := ps_version p + 1 \<rparr>) db3;
                        active = activeMembers t trip0 db4 in
                    bind_res (updateTrip trip0 (\<lambda>x. x\<lparr> dt_totalWeight := totalWeightOf active, dt_totalVolume := totalVolumeOf active,
                        dt_approvedRoutePlanId := None, dt_status := T_DRAFT, dt_version := dt_version x + 1 \<rparr>) now db4) (\<lambda>(_, db5).
                    bind_res (trp_inbox_create event ''APPLIED'' db5) (\<lambda>db6. Inr (operationId, db6)))))
              | _ \<Rightarrow> Inl (TrpPlainError ''Active membership is missing its durable claim binding'')))"

definition shipmentCanceledTx ::
    "'p envelope \<Rightarrow> instant \<Rightarrow> trp_db \<Rightarrow> trp_error + uuid option \<times> trp_db" where
  "shipmentCanceledTx event now db =
     (if cancellationStale event db
      then bind_res (trp_inbox_create event ''IGNORED_STALE'' db) (\<lambda>db1. Inr (None, db1))
      else
        (case liveMember (ev_tenantId event) (ev_aggregateId event) db of
           None \<Rightarrow> bind_res (trp_inbox_create event ''NO_MEMBERSHIP'' db) (\<lambda>db1. Inr (None, db1))
         | Some m \<Rightarrow>
             if ts_state m \<noteq> M_ACTIVE then Inl (TrpPlainError ''ShipmentCanceled is waiting for membership state'')
             else bind_res (cancelMemberTx event m now db) (\<lambda>(i, db1). Inr (Some i, db1))))"

text \<open>\<open>db0\<close> is the database of the look for the event in the inbox.\<close>

definition handleShipmentCanceled ::
    "trp_env \<Rightarrow> 'ful fulfillment_api \<Rightarrow> shipment_lifecycle option envelope \<Rightarrow> instant \<Rightarrow> trp_db \<Rightarrow> trp_db \<times> 'ful \<Rightarrow>
     (trp_error + unit) \<times> trp_db \<times> 'ful" where
  "handleShipmentCanceled env api event now db0 w =
     (if ev_eventType event \<noteq> ''ShipmentCanceled'' then (Inr (), w)
      else if \<not> validateShipmentEnvelope event ''fulfillment-service'' ''Shipment'' then (Inl (TrpPlainError ''Error''), w)
      else
        (case ev_payload event of
           None \<Rightarrow> (Inl (TrpPlainError ''ZodError''), w)
         | Some payload \<Rightarrow>
             if sl_shipmentId payload \<noteq> ev_aggregateId event
             then (Inl (TrpPlainError ''ShipmentCanceled aggregate identity does not match its payload''), w)
             else if trp_inbox_has (ev_eventId event) db0 then (Inr (), w)
             else
               (case shipmentCanceledTx event now (fst w) of
                  Inl e \<Rightarrow> (Inl e, w)
                | Inr (None, db1) \<Rightarrow> (Inr (), db1, snd w)
                | Inr (Some i, db1) \<Rightarrow> (Inr (), resume env api i True now (db1, snd w)))))"

end
