(* ===== verification/Transport_Driver.thy ===== *)
theory Transport_Driver
  imports Transport_Cancellation
begin

text \<open>
  The driver's part of a trip (\<^verbatim>\<open>driver-trip.service.ts\<close>, \<^verbatim>\<open>driver-trip.dto.ts\<close> and
  \<^verbatim>\<open>driver-action-preview-token.service.ts\<close>): the stops are settled in their approved order, each once, by
  the assigned driver or by an administrator with a signed preview; the last one completes the trip, and
  every result is published for the fulfilment service. SHA-256 of a command is a parameter.
\<close>

section \<open>Commands\<close>

datatype driver_action = DELIVER | FAIL

definition TRANSPORT_MAX_REASON_LENGTH :: nat where "TRANSPORT_MAX_REASON_LENGTH = 1000"

record action_dto =
  ax_requestId :: uuid
  ax_expectedTripVersion :: version
  ax_expectedStopVersion :: version
  ax_previewToken :: "string option"
  ax_actingReason :: "string option"
  ax_reason :: "string option"

definition reason_text :: "string option \<Rightarrow> bool" where
  "reason_text s \<longleftrightarrow> (case s of None \<Rightarrow> True
     | Some r \<Rightarrow> trim r = r \<and> r \<noteq> [] \<and> length r \<le> TRANSPORT_MAX_REASON_LENGTH)"

text \<open>What the schema leaves of a command: trimmed reasons.\<close>

definition driverActionCommandSchema :: "action_dto \<Rightarrow> bool" where
  "driverActionCommandSchema d \<longleftrightarrow> transportVersion (ax_expectedTripVersion d) \<and>
     transportVersion (ax_expectedStopVersion d) \<and>
     (case ax_previewToken d of None \<Rightarrow> True | Some k \<Rightarrow> 1 \<le> length k \<and> length k \<le> 4096) \<and>
     reason_text (ax_actingReason d) \<and> reason_text (ax_reason d)"

text \<open>The values of \<^verbatim>\<open>commandPayloadHash\<close>.\<close>

record command_payload =
  cy_tenantId :: uuid
  cy_actorId :: uuid
  cy_actorMode :: actor_mode
  cy_tripId :: uuid
  cy_stopId :: uuid
  cy_action :: driver_action
  cy_expectedTripVersion :: version
  cy_expectedStopVersion :: version
  cy_reason :: "string option"
  cy_actingReason :: "string option"
  cy_assignedDriverId :: "uuid option"
  cy_assignedDriverUserId :: "uuid option"

record action_claims =
  kd_tenantId :: uuid
  kd_actorId :: uuid
  kd_tripId :: uuid
  kd_payloadHash :: string
  kd_purpose :: string
  kd_iat :: nat
  kd_exp :: nat

record driver_env =
  dx_hash :: "command_payload \<Rightarrow> string"
  dx_sign :: "action_claims \<Rightarrow> string"
  dx_verify :: "string \<Rightarrow> instant \<Rightarrow> action_claims option"

definition TRANSPORT_PREVIEW_TTL_SECONDS :: nat where "TRANSPORT_PREVIEW_TTL_SECONDS = 300"

definition actorMode :: "trip_user \<Rightarrow> actor_mode" where
  "actorMode user = (if us_isSuperAdmin user then MODE_SUPER_ADMIN else MODE_DRIVER)"

definition commandPayload ::
    "trip_user \<Rightarrow> uuid \<Rightarrow> uuid \<Rightarrow> driver_action \<Rightarrow> action_dto \<Rightarrow> uuid option \<Rightarrow> uuid option \<Rightarrow> command_payload" where
  "commandPayload user tripId stopId action dto driverId driverUserId =
     \<lparr> cy_tenantId = us_tenantId user, cy_actorId = us_id user, cy_actorMode = actorMode user, cy_tripId = tripId,
       cy_stopId = stopId, cy_action = action, cy_expectedTripVersion = ax_expectedTripVersion dto,
       cy_expectedStopVersion = ax_expectedStopVersion dto, cy_reason = ax_reason dto,
       cy_actingReason = ax_actingReason dto, cy_assignedDriverId = driverId, cy_assignedDriverUserId = driverUserId \<rparr>"

section \<open>Preview tokens\<close>

definition issueActionToken :: "driver_env \<Rightarrow> trip_user \<Rightarrow> uuid \<Rightarrow> string \<Rightarrow> instant \<Rightarrow> string \<times> instant" where
  "issueActionToken env user tripId hash now =
     (let issuedAt = now div 1000 in
      (dx_sign env \<lparr> kd_tenantId = us_tenantId user, kd_actorId = us_id user, kd_tripId = tripId, kd_payloadHash = hash,
         kd_purpose = ''trip.driver-action.preview'', kd_iat = issuedAt,
         kd_exp = issuedAt + TRANSPORT_PREVIEW_TTL_SECONDS \<rparr>, (issuedAt + TRANSPORT_PREVIEW_TTL_SECONDS) * 1000))"

definition verifyActionToken :: "driver_env \<Rightarrow> string \<Rightarrow> trip_user \<Rightarrow> uuid \<Rightarrow> string \<Rightarrow> instant \<Rightarrow> trp_error + unit" where
  "verifyActionToken env token user tripId hash now =
     (case dx_verify env token now of
        None \<Rightarrow> Inl (TripRule ''DRIVER_ACTION_PREVIEW_EXPIRED_OR_INVALID'')
      | Some c \<Rightarrow>
          if kd_purpose c = ''trip.driver-action.preview'' \<and> sha256_text (kd_payloadHash c) \<and>
             kd_exp c = kd_iat c + TRANSPORT_PREVIEW_TTL_SECONDS \<and> kd_tenantId c = us_tenantId user \<and>
             kd_actorId c = us_id user \<and> kd_tripId c = tripId \<and> kd_payloadHash c = hash
          then Inr () else Inl (TripRule ''DRIVER_ACTION_PREVIEW_EXPIRED_OR_INVALID''))"

section \<open>The next stop\<close>

text \<open>\<^verbatim>\<open>orderBy: [{ approvedSequence: 'asc' }, { id: 'asc' }]\<close>; PostgreSQL puts the null ones last.\<close>

definition by_sequence :: "trip_stop list \<Rightarrow> trip_stop list" where
  "by_sequence xs =
     (let ys = sort_key ps_id xs in
      sort_key (\<lambda>p. case ps_approvedSequence p of None \<Rightarrow> 0 | Some n \<Rightarrow> n) (filter (\<lambda>p. ps_approvedSequence p \<noteq> None) ys) @
      filter (\<lambda>p. ps_approvedSequence p = None) ys)"

definition pendingStops :: "uuid \<Rightarrow> uuid \<Rightarrow> trp_db \<Rightarrow> trip_stop list" where
  "pendingStops t trip db = by_sequence (filter (\<lambda>p. ps_status p = STOP_PENDING) (liveStops t trip db))"

definition liveStop :: "uuid \<Rightarrow> uuid \<Rightarrow> uuid \<Rightarrow> trp_db \<Rightarrow> trip_stop option" where
  "liveStop t trip stopId db = List.find (\<lambda>p. ps_id p = stopId) (liveStops t trip db)"

text \<open>The stop may be settled: it is the first pending one in the approved order, and both versions are current.\<close>

definition loadActionable ::
    "trip_user \<Rightarrow> uuid \<Rightarrow> uuid \<Rightarrow> version \<Rightarrow> version \<Rightarrow> trp_db \<Rightarrow> trp_error + delivery_trip \<times> trip_stop" where
  "loadActionable user tripId stopId tripVersion stopVersion db =
     (let t = us_tenantId user in
      bind_res (loadTrip t tripId db) (\<lambda>trip.
        if dt_status trip \<noteq> T_IN_PROGRESS then Inl (TripConflict ''DELIVERY_TRIP_NOT_IN_PROGRESS'')
        else if dt_driverId trip = None \<or> dt_driverUserId trip = None
        then Inl (TripConflict ''DELIVERY_TRIP_DRIVER_UNASSIGNED'')
        else
          (case liveStop t tripId stopId db of
             None \<Rightarrow> Inl (TripEntityNotFound ''TripStop'')
           | Some p \<Rightarrow>
               (case pendingStops t tripId db of
                  [] \<Rightarrow> Inl (TripConflict ''DELIVERY_STOP_NOT_NEXT'')
                | next # _ \<Rightarrow>
                    if ps_id next \<noteq> stopId \<or> ps_approvedSequence next = None \<or> ps_status p \<noteq> STOP_PENDING
                    then Inl (TripConflict ''DELIVERY_STOP_NOT_NEXT'')
                    else if dt_version trip \<noteq> tripVersion \<or> ps_version p \<noteq> stopVersion
                    then Inl (TripConflict ''DELIVERY_VERSION_CONFLICT'')
                    else Inr (trip, p)))))"

definition assertAssigned :: "trip_user \<Rightarrow> uuid option \<Rightarrow> trp_error + unit" where
  "assertAssigned user driverUserId =
     (if \<not> us_isSuperAdmin user \<and> driverUserId \<noteq> Some (us_id user) then Inl TripAccessDenied else Inr ())"

record action_preview_dto =
  ay_action :: driver_action
  ay_expectedTripVersion :: version
  ay_expectedStopVersion :: version
  ay_actingReason :: string
  ay_reason :: "string option"

record action_preview =
  av_statusBefore :: stop_status
  av_statusAfter :: stop_status
  av_assignedDriverId :: "uuid option"
  av_previewToken :: string
  av_expiresAt :: instant

definition action_status :: "driver_action \<Rightarrow> stop_status" where
  "action_status a = (case a of DELIVER \<Rightarrow> STOP_DELIVERED | FAIL \<Rightarrow> STOP_FAILED)"

definition previewAction ::
    "driver_env \<Rightarrow> trip_user \<Rightarrow> uuid \<Rightarrow> uuid \<Rightarrow> action_preview_dto \<Rightarrow> instant \<Rightarrow> trp_db \<Rightarrow> trp_error + action_preview" where
  "previewAction env user tripId stopId dto now db =
     (if \<not> us_isSuperAdmin user then Inl TripAccessDenied
      else
        bind_res (loadActionable user tripId stopId (ay_expectedTripVersion dto) (ay_expectedStopVersion dto) db) (\<lambda>(trip, p).
          if ay_action dto = FAIL \<and> ay_reason dto = None then Inl (TripRule ''DELIVERY_FAILURE_REASON_REQUIRED'')
          else
            let command = \<lparr> ax_requestId = 0, ax_expectedTripVersion = ay_expectedTripVersion dto,
                  ax_expectedStopVersion = ay_expectedStopVersion dto, ax_previewToken = None,
                  ax_actingReason = Some (ay_actingReason dto), ax_reason = ay_reason dto \<rparr>;
                (token, expiry) = issueActionToken env user tripId
                  (dx_hash env (commandPayload user tripId stopId (ay_action dto) command (dt_driverId trip) (dt_driverUserId trip))) now
            in Inr \<lparr> av_statusBefore = ps_status p, av_statusAfter = action_status (ay_action dto),
                 av_assignedDriverId = dt_driverId trip, av_previewToken = token, av_expiresAt = expiry \<rparr>))"

section \<open>Settling a stop\<close>

definition actionAllowed :: "trip_user \<Rightarrow> driver_action \<Rightarrow> action_dto \<Rightarrow> trp_error + unit" where
  "actionAllowed user action dto =
     (if action = FAIL \<and> (ax_reason dto = None \<or> ax_reason dto = Some []) then Inl (TripRule ''DELIVERY_FAILURE_REASON_REQUIRED'')
      else if action = DELIVER \<and> ax_reason dto \<noteq> None then Inl (TripRule ''DELIVERY_SUCCESS_REASON_NOT_ALLOWED'')
      else if us_isSuperAdmin user \<and> (ax_previewToken dto \<in> {None, Some []} \<or> ax_actingReason dto \<in> {None, Some []})
      then Inl (TripRule ''DRIVER_ACTION_PREVIEW_REQUIRED'')
      else if \<not> us_isSuperAdmin user \<and> (ax_previewToken dto \<noteq> None \<or> ax_actingReason dto \<noteq> None)
      then Inl (TripRule ''DRIVER_CANNOT_ACT_AS_ADMIN'')
      else Inr ())"

definition attemptOf :: "uuid \<Rightarrow> uuid \<Rightarrow> trp_db \<Rightarrow> delivery_attempt option" where
  "attemptOf t requestId db =
     List.find (\<lambda>a. da_tenantId a = t \<and> da_requestId a = Some requestId) (deliveryAttempts db)"

text \<open>The receipt of an earlier use of the request, when user and content agree.\<close>

definition replayAction ::
    "driver_env \<Rightarrow> trip_user \<Rightarrow> uuid \<Rightarrow> uuid \<Rightarrow> driver_action \<Rightarrow> action_dto \<Rightarrow> trp_db \<Rightarrow> trp_error + delivery_result option" where
  "replayAction env user tripId stopId action dto db =
     (case attemptOf (us_tenantId user) (ax_requestId dto) db of
        None \<Rightarrow> Inr None
      | Some prior \<Rightarrow>
          if da_actorUserId prior \<noteq> Some (us_id user) \<or> da_actorMode prior \<noteq> Some (actorMode user) \<or>
             da_payloadHash prior \<noteq> Some (dx_hash env (commandPayload user tripId stopId action dto
               (Some (da_actorDriverId prior)) (da_assigneeUserId prior))) \<or> da_receipt prior = None
          then Inl (TripConflict ''DELIVERY_REQUEST_ID_CONFLICT'')
          else Inr (da_receipt prior))"

text \<open>\<^verbatim>\<open>deliveryAttempt.create\<close>: one per stop, one per request, and a failed one has a reason.\<close>

definition createAttempt :: "delivery_attempt \<Rightarrow> trp_db \<Rightarrow> trp_error + trp_db" where
  "createAttempt a db =
     (if exists_row (\<lambda>b. da_tenantId b = da_tenantId a \<and>
           (da_tripStopId b = da_tripStopId a \<or> da_requestId a \<noteq> None \<and> da_requestId b = da_requestId a)) (deliveryAttempts db)
      then Inl TrpUniqueViolation
      else if da_status a = STOP_FAILED \<and> da_reason a = None then Inl TrpCheckViolation
      else Inr (db\<lparr> deliveryAttempts := deliveryAttempts db @ [a] \<rparr>))"

definition settleStop :: "stop_status \<Rightarrow> instant \<Rightarrow> trip_stop \<Rightarrow> trip_stop" where
  "settleStop s now p = p\<lparr> ps_status := s, ps_completedAt := Some now, ps_version := ps_version p + 1 \<rparr>"

definition advanceTrip :: "bool \<Rightarrow> instant \<Rightarrow> delivery_trip \<Rightarrow> delivery_trip" where
  "advanceTrip completes now x = (if completes
     then x\<lparr> dt_status := T_COMPLETED, dt_completedAt := Some now, dt_version := dt_version x + 1 \<rparr>
     else x\<lparr> dt_version := dt_version x + 1 \<rparr>)"

definition otherPending :: "uuid \<Rightarrow> uuid \<Rightarrow> uuid \<Rightarrow> trp_db \<Rightarrow> trip_stop list" where
  "otherPending t trip stopId db =
     filter (\<lambda>p. ps_status p = STOP_PENDING \<and> ps_id p \<noteq> stopId) (liveStops t trip db)"

definition resultOf ::
    "trip_user \<Rightarrow> uuid \<Rightarrow> driver_action \<Rightarrow> action_dto \<Rightarrow> delivery_trip \<Rightarrow> trip_stop \<Rightarrow> version \<Rightarrow> version \<Rightarrow> instant \<Rightarrow> delivery_result" where
  "resultOf user tripId action dto trip p tripVersion stopVersion now =
     \<lparr> dl_requestId = ax_requestId dto, dl_tripId = tripId, dl_tripStopId = ps_id p, dl_shipmentId = ps_shipmentId p,
       dl_driverId = dt_driverId trip, dl_assigneeUserId = dt_driverUserId trip, dl_actorUserId = us_id user,
       dl_actorMode = actorMode user, dl_status = action_status action, dl_reason = ax_reason dto,
       dl_actingReason = ax_actingReason dto, dl_attempt = 1, dl_occurredAt = now, dl_tripVersion = tripVersion,
       dl_stopVersion = stopVersion \<rparr>"

definition resultPayload ::
    "uuid \<Rightarrow> uuid \<Rightarrow> driver_action \<Rightarrow> action_dto \<Rightarrow> uuid \<Rightarrow> uuid \<Rightarrow> trip_stop \<Rightarrow> instant \<Rightarrow> delivery_payload" where
  "resultPayload t tripId action dto driverId driverUserId p now =
     \<lparr> dv_contractVersion = TRANSPORT_CONTRACT_VERSION, dv_tenantId = t, dv_tripId = tripId, dv_stopId = ps_id p,
       dv_shipmentId = ps_shipmentId p, dv_attempt = 1, dv_driverId = driverId, dv_assigneeUserId = driverUserId,
       dv_outcome = (case action of DELIVER \<Rightarrow> OUTCOME_DELIVERED | FAIL \<Rightarrow> OUTCOME_FAILED),
       dv_occurredAt = now, dv_reason = ax_reason dto, dv_requestId = ax_requestId dto \<rparr>"

definition settleTx ::
    "driver_env \<Rightarrow> trip_user \<Rightarrow> uuid \<Rightarrow> uuid \<Rightarrow> action_dto \<Rightarrow> driver_action \<Rightarrow> instant \<Rightarrow> trp_db \<Rightarrow> trp_error + delivery_result \<times> trp_db" where
  "settleTx env user tripId stopId dto action now db =
     (let t = us_tenantId user in
      bind_res (replayAction env user tripId stopId action dto db) (\<lambda>raced.
        case raced of
          Some receipt \<Rightarrow> Inr (receipt, db)
        | None \<Rightarrow>
            bind_res (loadActionable user tripId stopId (ax_expectedTripVersion dto) (ax_expectedStopVersion dto) db) (\<lambda>(trip, p).
            bind_res (assertAssigned user (dt_driverUserId trip)) (\<lambda>_.
              let hash = dx_hash env (commandPayload user tripId stopId action dto (dt_driverId trip) (dt_driverUserId trip)) in
              bind_res (if us_isSuperAdmin user
                        then verifyActionToken env (the (ax_previewToken dto)) user tripId hash now else Inr ()) (\<lambda>_.
                let completes = (otherPending t tripId stopId db = []);
                    driverId = the (dt_driverId trip); driverUserId = the (dt_driverUserId trip);
                    db1 = setStops (\<lambda>q. ps_id q = stopId) (settleStop (action_status action) now) db in
                bind_res (updateTrip tripId (advanceTrip completes now) now db1) (\<lambda>(updated, db2).
                bind_res (toSafeVersion (dt_version updated)) (\<lambda>tripVersion.
                bind_res (toSafeVersion (ps_version p + 1)) (\<lambda>stopVersion.
                  let result = resultOf user tripId action dto trip p tripVersion stopVersion now in
                  bind_res (createAttempt \<lparr> da_id = trp_next db2, da_tenantId = t, da_tripStopId = stopId,
                      da_shipmentId = ps_shipmentId p, da_attemptNumber = 1, da_requestId = Some (ax_requestId dto),
                      da_status = action_status action, da_reason = ax_reason dto, da_actorDriverId = driverId,
                      da_actorUserId = Some (us_id user), da_assigneeUserId = Some driverUserId,
                      da_actorMode = Some (actorMode user), da_actingReason = ax_actingReason dto,
                      da_payloadHash = Some hash, da_receipt = Some result, da_occurredAt = now \<rparr>
                      (db2\<lparr> trp_next := trp_next db2 + 1 \<rparr>)) (\<lambda>db3.
                    Inr (result,
                      tripEvent t (case action of DELIVER \<Rightarrow> ''DeliveryCompleted'' | FAIL \<Rightarrow> ''DeliveryFailed'') 2 tripId
                        (dt_version updated) (ax_requestId dto)
                        (StopResult (resultPayload t tripId action dto driverId driverUserId p now)) None now db3))))))))))"

definition applyAction ::
    "driver_env \<Rightarrow> trip_user \<Rightarrow> uuid \<Rightarrow> uuid \<Rightarrow> action_dto \<Rightarrow> driver_action \<Rightarrow> instant \<Rightarrow> trp_db \<Rightarrow> trp_db \<Rightarrow>
     trp_error + delivery_result \<times> trp_db" where
  "applyAction env user tripId stopId dto action now db0 db =
     bind_res (actionAllowed user action dto) (\<lambda>_.
     bind_res (replayAction env user tripId stopId action dto db0) (\<lambda>existing.
       case existing of Some receipt \<Rightarrow> Inr (receipt, db)
       | None \<Rightarrow> settleTx env user tripId stopId dto action now db))"

section \<open>The driver's view\<close>

datatype trip_scope = SCOPE_CURRENT | SCOPE_HISTORY

record driver_query =
  dq_scope :: trip_scope
  dq_driverId :: "uuid option"
  dq_page :: nat
  dq_pageSize :: nat

record driver_trip_item =
  dy_tripId :: uuid
  dy_status :: trip_status
  dy_version :: version
  dy_stopCount :: nat
  dy_completedStopCount :: nat
  dy_nextStopId :: "uuid option"
  dy_nextApprovedSequence :: "nat option"

definition scope_status :: "trip_scope \<Rightarrow> trip_status list" where
  "scope_status s = (case s of SCOPE_CURRENT \<Rightarrow> [T_IN_PROGRESS] | SCOPE_HISTORY \<Rightarrow> [T_COMPLETED, T_CANCELED])"

definition driverWhere :: "trip_user \<Rightarrow> driver_query \<Rightarrow> delivery_trip \<Rightarrow> bool" where
  "driverWhere user q x \<longleftrightarrow> dt_tenantId x = us_tenantId user \<and> dt_deletedAt x = None \<and>
     (if us_isSuperAdmin user then (case dq_driverId q of None \<Rightarrow> True | Some d \<Rightarrow> dt_driverId x = Some d)
      else dt_driverUserId x = Some (us_id user)) \<and>
     dt_status x \<in> set (scope_status (dq_scope q))"

definition driverItem :: "trp_db \<Rightarrow> delivery_trip \<Rightarrow> trp_error + driver_trip_item" where
  "driverItem db x =
     (let stops = by_sequence (liveStops (dt_tenantId x) (dt_id x) db);
          next = List.find (\<lambda>p. ps_status p = STOP_PENDING) stops in
      bind_res (toSafeVersion (dt_version x)) (\<lambda>v.
        Inr \<lparr> dy_tripId = dt_id x, dy_status = dt_status x, dy_version = v, dy_stopCount = length stops,
          dy_completedStopCount = length (filter (\<lambda>p. ps_status p = STOP_DELIVERED \<or> ps_status p = STOP_FAILED) stops),
          dy_nextStopId = map_option ps_id next, dy_nextApprovedSequence = Option.bind next ps_approvedSequence \<rparr>))"

fun driverItems :: "trp_db \<Rightarrow> delivery_trip list \<Rightarrow> trp_error + driver_trip_item list" where
  "driverItems db [] = Inr []"
| "driverItems db (x # xs) = bind_res (driverItem db x) (\<lambda>i. bind_res (driverItems db xs) (\<lambda>is. Inr (i # is)))"

text \<open>\<^verbatim>\<open>orderBy: [{ plannedStartAt: 'desc' }, { id: 'desc' }]\<close>\<close>

definition latest_first :: "delivery_trip list \<Rightarrow> delivery_trip list" where
  "latest_first xs = rev (sort_key dt_plannedStartAt (sort_key dt_id xs))"

definition listDriverTrips :: "trip_user \<Rightarrow> driver_query \<Rightarrow> trp_db \<Rightarrow> trp_error + driver_trip_item list \<times> nat" where
  "listDriverTrips user q db =
     (if dq_driverId q \<noteq> None \<and> \<not> us_isSuperAdmin user then Inl TripAccessDenied
      else
        let rows = filter (driverWhere user q) (trips db) in
        bind_res (driverItems db (take (dq_pageSize q) (drop ((dq_page q - 1) * dq_pageSize q) (latest_first rows)))) (\<lambda>items.
          Inr (items, length rows)))"

end
