(* ===== verification/Transport_Dispatch.thy ===== *)
theory Transport_Dispatch
  imports Transport_Routes Transport_Driver
begin

text \<open>
  The dispatch of an approved trip (\<^verbatim>\<open>trip-dispatch.service.ts\<close>) and the recovery of what stopped on the way
  (\<^verbatim>\<open>trip-recovery.worker.ts\<close>). The request is saved before the fulfilment service is asked, its receipt
  before the trip leaves; a request whose inputs changed before it was submitted is rejected, every other
  failure is tried again.
\<close>

section \<open>The selection\<close>

definition dispatchesOf :: "uuid \<Rightarrow> uuid \<Rightarrow> trp_db \<Rightarrow> trip_dispatch list" where
  "dispatchesOf t tripId db = filter (\<lambda>d. td_tenantId d = t \<and> td_tripId d = tripId) (tripDispatches db)"

definition resource_trips :: "uuid \<Rightarrow> delivery_trip \<Rightarrow> trp_db \<Rightarrow> delivery_trip list" where
  "resource_trips t trip db = filter (\<lambda>x. dt_tenantId x = t \<and> trip_active x \<and>
     (dt_vehicleId x = dt_vehicleId trip \<or> dt_driverId x = dt_driverId trip)) (trips db)"

text \<open>\<^verbatim>\<open>dispatchReadiness\<close>, its answer parsed.\<close>

definition fulReadiness ::
    "'ful fulfillment_api \<Rightarrow> uuid \<Rightarrow> uuid \<Rightarrow> (uuid \<times> version) list \<Rightarrow> 'ful \<Rightarrow> trp_error + readiness_item list" where
  "fulReadiness api t tripId items s =
     bind_res (fulRequest (fa_readiness api t tripId items s)) (\<lambda>body.
       case body of
         None \<Rightarrow> Inl (TrpPlainError ''ZodError'')
       | Some rs \<Rightarrow>
           if list_all (\<lambda>r. transportVersion (ri_shipmentVersion r) \<and> transportVersion (ri_orderVersion r)) rs
           then Inr rs else Inl (TrpPlainError ''ZodError''))"

fun safeVersions :: "trip_shipment list \<Rightarrow> trp_error + (uuid \<times> version) list" where
  "safeVersions [] = Inr []"
| "safeVersions (m # ms) =
     (case ts_shipmentVersion m of
        None \<Rightarrow> Inl (TrpPlainError ''Transport version exceeds the supported safe integer range'')
      | Some v \<Rightarrow> bind_res (toSafeVersion v) (\<lambda>v'. bind_res (safeVersions ms) (\<lambda>xs. Inr ((ts_shipmentId m, v') # xs))))"

definition readiness_bound :: "readiness_item list \<Rightarrow> trip_shipment list \<Rightarrow> bool" where
  "readiness_bound rs ms \<longleftrightarrow> length rs = length ms \<and>
     list_all2 (\<lambda>r m. ri_shipmentId r = ts_shipmentId m \<and> Some (ri_orderId r) = ts_orderId m) rs ms"

definition sequences_agree :: "route_plan \<Rightarrow> trip_stop list \<Rightarrow> bool" where
  "sequences_agree plan stops \<longleftrightarrow>
     list_all (\<lambda>r. case List.find (\<lambda>p. ps_id p = rq_tripStopId r) stops of
       None \<Rightarrow> False | Some p \<Rightarrow> ps_approvedSequence p = Some (rq_sequence r)) (rp_stops plan)"

definition nextDispatchVersion :: "delivery_trip \<Rightarrow> trip_dispatch list \<Rightarrow> version" where
  "nextDispatchVersion trip ds =
     (if ds = [] then dt_dispatchVersion trip else fold max (map td_dispatchVersion ds) 0) + 1"

definition selection ::
    "route_env \<Rightarrow> trip_master_api \<Rightarrow> 'ful fulfillment_api \<Rightarrow> uuid \<Rightarrow> uuid \<Rightarrow> version \<Rightarrow> version option \<Rightarrow> 'ful \<Rightarrow> trp_db \<Rightarrow>
     trp_error + dispatch_selection" where
  "selection env master api t tripId v dispatchVersion s db =
     bind_res (currentInput master api t tripId s db) (\<lambda>context.
       let trip = rx_trip context in
       case dt_approvedRoutePlanId trip of
         None \<Rightarrow> Inl (TripConflict ''TRIP_NOT_APPROVED_OR_VERSION_CHANGED'')
       | Some planId \<Rightarrow>
           if dt_status trip \<noteq> T_APPROVED \<or> dt_version trip \<noteq> v
           then Inl (TripConflict ''TRIP_NOT_APPROVED_OR_VERSION_CHANGED'')
           else
             (case findPlan t tripId planId db of
                None \<Rightarrow> Inl (TripConflict ''ROUTE_INPUT_OR_PLAN_CHANGED'')
              | Some plan \<Rightarrow>
                  if rp_approvedAt plan = None \<or>
                     rv_inputHash env ((rx_input context)\<lparr> rn_tripVersion := rn_tripVersion (rp_inputSnapshot plan) \<rparr>) \<noteq> rp_inputHash plan
                  then Inl (TripConflict ''ROUTE_INPUT_OR_PLAN_CHANGED'')
                  else
                    bind_res (assertPermutation (map rq_tripStopId (rp_stops plan)) (map ps_id (rx_stops context))) (\<lambda>_.
                      if \<not> sequences_agree plan (rx_stops context) then Inl (TripConflict ''ROUTE_SEQUENCE_CHANGED'')
                      else if length (resource_trips t trip db) \<noteq> 1 then Inl (TripConflict ''TRIP_RESOURCE_CONFLICT'')
                      else
                        bind_res (safeVersions (rx_members context)) (\<lambda>items.
                        bind_res (fulReadiness api t tripId items s) (\<lambda>rs.
                          if \<not> readiness_bound rs (rx_members context)
                          then Inl (TripConflict ''SHIPMENT_READINESS_BINDING_CHANGED'')
                          else Inr \<lparr> sn_approvedPlanId = rp_id plan, sn_inputHash = rp_inputHash plan,
                                 sn_dispatchVersion = (case dispatchVersion of Some n \<Rightarrow> n
                                    | None \<Rightarrow> nextDispatchVersion trip (dispatchesOf t tripId db)),
                                 sn_shipments = rs \<rparr>)))))"

section \<open>Asking for a dispatch\<close>

definition findDispatch :: "uuid \<Rightarrow> uuid \<Rightarrow> trp_db \<Rightarrow> trip_dispatch option" where
  "findDispatch t requestId db = List.find (\<lambda>d. td_tenantId d = t \<and> td_idempotencyKey d = requestId) (tripDispatches db)"

definition setDispatch :: "uuid \<Rightarrow> (trip_dispatch \<Rightarrow> bool) \<Rightarrow> (trip_dispatch \<Rightarrow> trip_dispatch) \<Rightarrow> trp_db \<Rightarrow> trp_db" where
  "setDispatch i p f db = db\<lparr> tripDispatches := update_where (\<lambda>d. td_id d = i \<and> p d) f (tripDispatches db) \<rparr>"

definition dispatch_pending :: "trip_dispatch \<Rightarrow> bool" where
  "dispatch_pending d \<longleftrightarrow> td_status d = I_PENDING"

definition replayDispatch :: "trip_user \<Rightarrow> uuid \<Rightarrow> uuid \<Rightarrow> string \<Rightarrow> trp_db \<Rightarrow> trp_error + trip_dispatch option" where
  "replayDispatch user tripId requestId hash db =
     (case findDispatch (us_tenantId user) requestId db of
        None \<Rightarrow> Inr None
      | Some prior \<Rightarrow>
          if td_tripId prior \<noteq> tripId \<or> td_requestedBy prior \<noteq> us_id user \<or> td_payloadHash prior \<noteq> hash
          then Inl (TripConflict ''TRIP_DISPATCH_REPLAY_CONFLICT'') else Inr (Some prior))"

record dispatch_view =
  dh_planId :: uuid
  dh_inputHash :: string
  dh_dispatchVersion :: version
  dh_shipmentCount :: nat
  dh_previewToken :: string
  dh_expiresAt :: instant

definition previewTripDispatch ::
    "route_env \<Rightarrow> trip_master_api \<Rightarrow> 'ful fulfillment_api \<Rightarrow> trip_user \<Rightarrow> uuid \<Rightarrow> version \<Rightarrow> instant \<Rightarrow> 'ful \<Rightarrow> trp_db \<Rightarrow>
     trp_error + dispatch_view" where
  "previewTripDispatch env master api user tripId v now s db =
     bind_res (selection env master api (us_tenantId user) tripId v None s db) (\<lambda>sel.
     bind_res (routeTrip (us_tenantId user) tripId v T_APPROVED db) (\<lambda>_.
       let (token, expiry) = issueRouteToken env user tripId R_DISPATCH (rv_hash env (HashSelection sel)) now in
       Inr \<lparr> dh_planId = sn_approvedPlanId sel, dh_inputHash = sn_inputHash sel, dh_dispatchVersion = sn_dispatchVersion sel,
         dh_shipmentCount = length (sn_shipments sel), dh_previewToken = token, dh_expiresAt = expiry \<rparr>))"

definition batchItems :: "uuid \<Rightarrow> readiness_item list \<Rightarrow> batch_item list" where
  "batchItems n rs = map (\<lambda>(k, r). \<lparr> bi_shipmentId = ri_shipmentId r, bi_orderId = ri_orderId r,
     bi_reservationGroupId = ri_reservationGroupId r, bi_orderVersion = ri_orderVersion r,
     bi_shipmentVersion = ri_shipmentVersion r, bi_dispatchRequestId = k \<rparr>) (zip [n..<n + length rs] rs)"

definition batchRequestOf :: "trip_user \<Rightarrow> uuid \<Rightarrow> trip_dispatch_dto \<Rightarrow> dispatch_selection \<Rightarrow> uuid \<Rightarrow> batch_request" where
  "batchRequestOf user tripId dto sel n =
     \<lparr> br_contractVersion = 1, br_tenantId = us_tenantId user, br_requestId = tq_requestId dto, br_tripId = tripId,
       br_actorId = us_id user, br_expectedTripVersion = tq_version dto, br_dispatchVersion = sn_dispatchVersion sel,
       br_approvedPlanId = sn_approvedPlanId sel, br_inputHash = sn_inputHash sel,
       br_shipments = batchItems n (sn_shipments sel) \<rparr>"

definition createDispatch :: "trip_dispatch \<Rightarrow> trp_db \<Rightarrow> trp_error + trp_db" where
  "createDispatch d db =
     (if exists_row (\<lambda>e. td_id e = td_id d \<or> td_tenantId e = td_tenantId d \<and>
           (td_tripId e = td_tripId d \<and> td_dispatchVersion e = td_dispatchVersion d \<or> td_idempotencyKey e = td_idempotencyKey d))
           (tripDispatches db)
      then Inl TrpUniqueViolation
      else Inr (db\<lparr> tripDispatches := tripDispatches db @ [d] \<rparr>))"

definition newDispatch :: "uuid \<Rightarrow> trip_user \<Rightarrow> uuid \<Rightarrow> trip_dispatch_dto \<Rightarrow> string \<Rightarrow> batch_request \<Rightarrow> instant \<Rightarrow> trip_dispatch" where
  "newDispatch i user tripId dto hash payload now =
     \<lparr> td_id = i, td_tenantId = us_tenantId user, td_tripId = tripId, td_dispatchVersion = br_dispatchVersion payload,
       td_idempotencyKey = tq_requestId dto, td_status = I_PENDING, td_requestedBy = us_id user, td_stage = G_ACCEPTED,
       td_payloadHash = hash, td_payload = Some payload, td_receipt = None, td_result = None, td_attemptCount = 0,
       td_nextAttemptAt = now, td_lastError = None, td_requestedAt = now, td_completedAt = None \<rparr>"

definition acceptDispatchTx ::
    "trip_user \<Rightarrow> uuid \<Rightarrow> trip_dispatch_dto \<Rightarrow> string \<Rightarrow> batch_request \<Rightarrow> instant \<Rightarrow> trp_db \<Rightarrow> trp_error + trp_db" where
  "acceptDispatchTx user tripId dto hash payload now db =
     (let t = us_tenantId user in
      bind_res (replayDispatch user tripId (tq_requestId dto) hash db) (\<lambda>raced.
        if raced \<noteq> None then Inr db
        else
          bind_res (routeTrip t tripId (tq_version dto) T_APPROVED db) (\<lambda>_.
            if operationOf t (tq_requestId dto) db \<noteq> None then Inl (TripConflict ''TRIP_REQUEST_ID_ALREADY_USED'')
            else createDispatch (newDispatch (trp_next db) user tripId dto hash payload now) (db\<lparr> trp_next := trp_next db + 1 \<rparr>))))"

section \<open>Working on a dispatch\<close>

definition DISPATCH_RETRY_BASE_MS :: nat where "DISPATCH_RETRY_BASE_MS = 1000"
definition DISPATCH_RETRY_MAX_MS :: nat where "DISPATCH_RETRY_MAX_MS = 60000"

definition dispatchDelay :: "nat \<Rightarrow> nat" where
  "dispatchDelay attempts = min DISPATCH_RETRY_MAX_MS (DISPATCH_RETRY_BASE_MS * 2 ^ min attempts 6)"

definition unchanged_selection :: "route_env \<Rightarrow> batch_request \<Rightarrow> dispatch_selection \<Rightarrow> bool" where
  "unchanged_selection env payload sel \<longleftrightarrow>
     rv_hash env (HashSelection sel) = rv_hash env (HashSelection \<lparr> sn_approvedPlanId = br_approvedPlanId payload,
       sn_inputHash = br_inputHash payload, sn_dispatchVersion = br_dispatchVersion payload,
       sn_shipments = map (\<lambda>i. \<lparr> ri_shipmentId = bi_shipmentId i, ri_shipmentVersion = bi_shipmentVersion i,
         ri_orderId = bi_orderId i, ri_orderVersion = bi_orderVersion i,
         ri_reservationGroupId = bi_reservationGroupId i \<rparr>) (br_shipments payload) \<rparr>)"

definition submitTx :: "uuid \<Rightarrow> trip_dispatch \<Rightarrow> batch_request \<Rightarrow> trp_db \<Rightarrow> trp_error + trp_db" where
  "submitTx t row payload db =
     (case List.find (\<lambda>x. dt_id x = td_tripId row \<and> dt_tenantId x = t) (trips db) of
        None \<Rightarrow> Inl TrpNotFound
      | Some trip \<Rightarrow>
          if dt_status trip \<noteq> T_APPROVED \<or> dt_version trip \<noteq> br_expectedTripVersion payload \<or>
             dt_approvedRoutePlanId trip \<noteq> Some (br_approvedPlanId payload)
          then Inl (TripConflict ''DISPATCH_INPUT_CHANGED'')
          else Inr (setDispatch (td_id row) (\<lambda>d. dispatch_pending d \<and> td_stage d = G_ACCEPTED) (\<lambda>d. d\<lparr> td_stage := G_SUBMITTED \<rparr>) db))"

definition submitDispatch ::
    "route_env \<Rightarrow> trip_master_api \<Rightarrow> 'ful fulfillment_api \<Rightarrow> uuid \<Rightarrow> trip_dispatch \<Rightarrow> batch_request \<Rightarrow> trp_db \<times> 'ful \<Rightarrow> trp_error + trp_db" where
  "submitDispatch env master api t row payload w =
     (if td_stage row \<noteq> G_ACCEPTED then Inr (fst w)
      else
        bind_res (selection env master api t (td_tripId row) (br_expectedTripVersion payload) (Some (br_dispatchVersion payload))
            (snd w) (fst w)) (\<lambda>sel.
          if \<not> unchanged_selection env payload sel then Inl (TripConflict ''DISPATCH_INPUT_CHANGED'')
          else submitTx t row payload (fst w)))"

text \<open>The receipt belongs to the request.\<close>

definition receipt_bound :: "route_env \<Rightarrow> uuid \<Rightarrow> trip_dispatch \<Rightarrow> batch_request \<Rightarrow> batch_receipt \<Rightarrow> bool" where
  "receipt_bound env t row payload c \<longleftrightarrow> be_tenantId c = t \<and> be_tripId c = td_tripId row \<and>
     be_requestId c = td_idempotencyKey row \<and> be_payloadHash c = rv_batchHash env payload \<and>
     (case be_decision c of None \<Rightarrow> True | Some d \<Rightarrow> assertBatchDispatchGrantBinding payload d)"

definition receipt_complete :: "batch_request \<Rightarrow> batch_receipt \<Rightarrow> bool" where
  "receipt_complete payload c \<longleftrightarrow>
     (case be_decision c of Some d \<Rightarrow> is_granted d | None \<Rightarrow> False) \<and>
     length (be_shipments c) = length (br_shipments payload) \<and>
     list_all (\<lambda>i. list_ex (\<lambda>b. bt_shipmentId b = bi_shipmentId i \<and> bt_dispatchRequestId b = bi_dispatchRequestId i \<and>
       bt_shipmentVersion b = bi_shipmentVersion i + 1) (be_shipments c)) (br_shipments payload)"

definition rejectDispatch :: "uuid \<Rightarrow> batch_receipt \<Rightarrow> trp_db \<Rightarrow> trp_db" where
  "rejectDispatch i c db =
     setDispatch i dispatch_pending (\<lambda>d. d\<lparr> td_receipt := Some c, td_stage := G_REJECTED, td_status := I_REJECTED,
       td_lastError := Some (case be_decision c of Some (REJECTED b why) \<Rightarrow> why | _ \<Rightarrow> ''FULFILLMENT_REJECTED'') \<rparr>) db"

definition leaveTrip :: "batch_request \<Rightarrow> instant \<Rightarrow> delivery_trip \<Rightarrow> delivery_trip" where
  "leaveTrip payload now x = x\<lparr> dt_status := T_IN_PROGRESS, dt_actualStartAt := Some now, dt_dispatchedAt := Some now,
     dt_dispatchVersion := br_dispatchVersion payload, dt_version := dt_version x + 1 \<rparr>"

definition leftPayload :: "delivery_trip \<Rightarrow> batch_request \<Rightarrow> instant \<Rightarrow> trp_error + trip_dispatched" where
  "leftPayload trip payload now =
     (case (dt_driverId trip, dt_driverUserId trip, dt_vehicleId trip) of
        (Some driverId, Some userId, Some vehicleId) \<Rightarrow>
          if transportVersion (br_dispatchVersion payload) \<and> br_shipments payload \<noteq> [] \<and>
             list_all (\<lambda>i. transportVersion (bi_orderVersion i)) (br_shipments payload) \<and>
             length (remdups (map bi_shipmentId (br_shipments payload))) = length (br_shipments payload) \<and>
             length (remdups (map bi_orderId (br_shipments payload))) = length (br_shipments payload)
          then Inr \<lparr> tp_tenantId = dt_tenantId trip, tp_tripId = dt_id trip, tp_warehouseId = dt_warehouseId trip,
                 tp_dispatchVersion = br_dispatchVersion payload, tp_dispatchRequestId = br_requestId payload,
                 tp_approvedPlanId = br_approvedPlanId payload, tp_driverId = driverId, tp_assigneeUserId = userId,
                 tp_vehicleId = vehicleId, tp_dispatchedAt = now,
                 tp_shipments = map (\<lambda>i. \<lparr> tdi_shipmentId = bi_shipmentId i, tdi_orderId = bi_orderId i,
                   tdi_reservationGroupId = bi_reservationGroupId i, tdi_orderVersion = bi_orderVersion i \<rparr>) (br_shipments payload) \<rparr>
          else Inl (TrpPlainError ''ZodError'')
      | _ \<Rightarrow> Inl (TrpPlainError ''ZodError''))"

definition completedDispatch :: "delivery_trip \<Rightarrow> version \<Rightarrow> batch_request \<Rightarrow> instant \<Rightarrow> trip_dispatch \<Rightarrow> trip_dispatch" where
  "completedDispatch trip v payload now d = d\<lparr> td_status := I_COMPLETED, td_stage := G_COMPLETED,
     td_result := Some \<lparr> dz_tripId = dt_id trip, dz_version = v, dz_dispatchVersion = br_dispatchVersion payload,
       dz_dispatchedAt = now \<rparr>,
     td_completedAt := Some now, td_lastError := None \<rparr>"

definition commitDispatchTx :: "uuid \<Rightarrow> trip_dispatch \<Rightarrow> batch_request \<Rightarrow> instant \<Rightarrow> trp_db \<Rightarrow> trp_error + trp_db" where
  "commitDispatchTx t row payload now db =
     (case List.find (\<lambda>d. td_id d = td_id row) (tripDispatches db) of
        None \<Rightarrow> Inl TrpNotFound
      | Some d \<Rightarrow>
          if td_status d = I_COMPLETED then Inr db
          else if td_status d \<noteq> I_PENDING \<or> td_receipt d = None then Inl (TrpPlainError ''Dispatch receipt lost'')
          else
            (case List.find (\<lambda>x. dt_id x = td_tripId row \<and> dt_tenantId x = t) (trips db) of
               None \<Rightarrow> Inl TrpNotFound
             | Some trip \<Rightarrow>
                 if dt_status trip \<noteq> T_APPROVED \<or> dt_approvedRoutePlanId trip \<noteq> Some (br_approvedPlanId payload) \<or>
                    dt_version trip \<noteq> br_expectedTripVersion payload
                 then Inl (TrpPlainError ''Granted trip binding changed'')
                 else
                   bind_res (updateTrip (td_tripId row) (leaveTrip payload now) now db) (\<lambda>(updated, db1).
                   bind_res (toSafeVersion (dt_version updated)) (\<lambda>v.
                     let db2 = setDispatch (td_id row) (\<lambda>_. True) (completedDispatch trip v payload now) db1 in
                     bind_res (leftPayload trip payload now) (\<lambda>event.
                       Inr (tripEvent t ''TripDispatched'' 2 (dt_id trip) (dt_version updated) (td_idempotencyKey row) (TripLeft event)
                         (Some (td_requestedBy row)) now db2))))))"

definition commitDispatch :: "uuid \<Rightarrow> uuid \<Rightarrow> instant \<Rightarrow> trp_db \<Rightarrow> trp_error + trp_db" where
  "commitDispatch t requestId now db =
     (case findDispatch t requestId db of
        None \<Rightarrow> Inl TrpNotFound
      | Some row \<Rightarrow>
          (case td_payload row of
             None \<Rightarrow> Inl (TrpPlainError ''ZodError'')
           | Some payload \<Rightarrow>
               if batchRequestValid payload then commitDispatchTx t row payload now db else Inl (TrpPlainError ''ZodError'')))"

definition saveBatchReceipt :: "uuid \<Rightarrow> batch_receipt \<Rightarrow> trp_db \<Rightarrow> trp_db" where
  "saveBatchReceipt i c db = setDispatch i dispatch_pending (\<lambda>d. d\<lparr> td_stage := G_RECEIPTED, td_receipt := Some c \<rparr>) db"

text \<open>What follows the receipt: wait, reject, or save it and let the trip leave.\<close>

definition settleDispatch ::
    "route_env \<Rightarrow> uuid \<Rightarrow> trip_dispatch \<Rightarrow> batch_request \<Rightarrow> batch_receipt \<Rightarrow> instant \<Rightarrow> trp_db \<Rightarrow> trp_error option \<times> trp_db" where
  "settleDispatch env t row payload c now db =
     (if \<not> receipt_bound env t row payload c then (Some (TrpPlainError ''Mismatched Fulfillment dispatch receipt''), db)
      else if be_status c = I_PENDING then (None, db)
      else if be_status c = I_REJECTED then (None, rejectDispatch (td_id row) c db)
      else if \<not> receipt_complete payload c then (Some (TrpPlainError ''Incomplete Fulfillment dispatch receipt''), db)
      else
        let db1 = saveBatchReceipt (td_id row) c db in
        (case commitDispatch t (td_idempotencyKey row) now db1 of Inl e \<Rightarrow> (Some e, db1) | Inr db2 \<Rightarrow> (None, db2)))"

fun business_error :: "trp_error \<Rightarrow> bool" where
  "business_error (TripRule r) = True"
| "business_error (TripConflict r) = True"
| "business_error _ = False"

definition failUpdate :: "trip_dispatch \<Rightarrow> trip_dispatch \<Rightarrow> trp_error \<Rightarrow> instant \<Rightarrow> trp_db \<Rightarrow> trp_db" where
  "failUpdate row latest e now db =
     (let beforeSubmit = (td_stage latest = G_ACCEPTED \<and> business_error e) in
      setDispatch (td_id row) dispatch_pending (\<lambda>d.
        let x = d\<lparr> td_attemptCount := td_attemptCount d + 1,
              td_lastError := Some (if beforeSubmit then ''DISPATCH_PRECONDITION_CHANGED'' else ''DISPATCH_RECOVERY_PENDING''),
              td_nextAttemptAt := now + dispatchDelay (td_attemptCount row) \<rparr>
        in if beforeSubmit then x\<lparr> td_status := I_REJECTED, td_stage := G_REJECTED \<rparr> else x) db)"

definition failDispatch :: "trip_dispatch \<Rightarrow> trp_error \<Rightarrow> instant \<Rightarrow> trp_db \<Rightarrow> trp_db" where
  "failDispatch row e now db =
     (case List.find (\<lambda>d. td_id d = td_id row) (tripDispatches db) of
        None \<Rightarrow> db
      | Some latest \<Rightarrow> failUpdate row latest e now db)"

definition resumeDispatch ::
    "route_env \<Rightarrow> trip_master_api \<Rightarrow> 'ful fulfillment_api \<Rightarrow> uuid \<Rightarrow> uuid \<Rightarrow> instant \<Rightarrow> trp_db \<times> 'ful \<Rightarrow> trp_db \<times> 'ful" where
  "resumeDispatch env master api t requestId now w =
     (case findDispatch t requestId (fst w) of
        None \<Rightarrow> w
      | Some row \<Rightarrow>
          if td_status row \<noteq> I_PENDING then w
          else
            (case td_payload row of
               None \<Rightarrow>
                 (setDispatch (td_id row) dispatch_pending (\<lambda>d. d\<lparr> td_lastError := Some ''DISPATCH_LEGACY_INTENT_REQUIRES_RECONCILIATION'',
                    td_attemptCount := td_attemptCount d + 1, td_nextAttemptAt := now + DISPATCH_RETRY_MAX_MS \<rparr>) (fst w), snd w)
             | Some payload \<Rightarrow>
                 if \<not> batchRequestValid payload then
                   (setDispatch (td_id row) dispatch_pending (\<lambda>d. d\<lparr> td_lastError := Some ''DISPATCH_LEGACY_INTENT_REQUIRES_RECONCILIATION'',
                      td_attemptCount := td_attemptCount d + 1, td_nextAttemptAt := now + DISPATCH_RETRY_MAX_MS \<rparr>) (fst w), snd w)
                 else
                   (case submitDispatch env master api t row payload w of
                      Inl e \<Rightarrow> (failDispatch row e now (fst w), snd w)
                    | Inr db1 \<Rightarrow>
                        (case td_receipt row of
                           Some c \<Rightarrow>
                             (case (if batchReceiptValid c then settleDispatch env t row payload c now db1
                                    else (Some (TrpPlainError ''ZodError''), db1)) of
                                (None, db2) \<Rightarrow> (db2, snd w) | (Some e, db2) \<Rightarrow> (failDispatch row e now db2, snd w))
                         | None \<Rightarrow>
                             (case fulDispatchBatch api payload now (snd w) of
                                (Inl e, s1) \<Rightarrow> (failDispatch row e now db1, s1)
                              | (Inr c, s1) \<Rightarrow>
                                  (case settleDispatch env t row payload c now db1 of
                                     (None, db2) \<Rightarrow> (db2, s1) | (Some e, db2) \<Rightarrow> (failDispatch row e now db2, s1)))))))"

text \<open>\<open>db0\<close> and \<open>s0\<close> are the states of the reads before the transaction.\<close>

definition dispatchTrip ::
    "route_env \<Rightarrow> trip_master_api \<Rightarrow> 'ful fulfillment_api \<Rightarrow> trip_user \<Rightarrow> uuid \<Rightarrow> trip_dispatch_dto \<Rightarrow> instant \<Rightarrow> trp_db \<times> 'ful \<Rightarrow>
     trp_db \<times> 'ful \<Rightarrow> (trp_error + unit) \<times> trp_db \<times> 'ful" where
  "dispatchTrip env master api user tripId dto now w0 w =
     (let t = us_tenantId user; hash = rv_hash env (HashDispatch tripId dto) in
      case replayDispatch user tripId (tq_requestId dto) hash (fst w0) of
        Inl e \<Rightarrow> (Inl e, w)
      | Inr (Some prior) \<Rightarrow> (Inr (), resumeDispatch env master api t (tq_requestId dto) now w)
      | Inr None \<Rightarrow>
          (case bind_res (selection env master api t tripId (tq_version dto) None (snd w0) (fst w0)) (\<lambda>sel.
                bind_res (verifyRouteToken env (tq_previewToken dto) user tripId R_DISPATCH (rv_hash env (HashSelection sel)) now) (\<lambda>_.
                  Inr sel)) of
             Inl e \<Rightarrow> (Inl e, w)
           | Inr sel \<Rightarrow>
               let n = trp_next (fst w); payload = batchRequestOf user tripId dto sel n;
                   db = (fst w)\<lparr> trp_next := n + length (sn_shipments sel) \<rparr> in
               if \<not> batchRequestValid payload then (Inl (TrpPlainError ''ZodError''), w)
               else
                 (case acceptDispatchTx user tripId dto hash payload now db of
                    Inl e \<Rightarrow> (Inl e, w)
                  | Inr db1 \<Rightarrow> (Inr (), resumeDispatch env master api t (tq_requestId dto) now (db1, snd w)))))"

section \<open>Recovery\<close>

fun recoverDispatches ::
    "route_env \<Rightarrow> trip_master_api \<Rightarrow> 'ful fulfillment_api \<Rightarrow> trip_dispatch list \<Rightarrow> instant \<Rightarrow> trp_db \<times> 'ful \<Rightarrow> trp_db \<times> 'ful" where
  "recoverDispatches env master api [] now w = w"
| "recoverDispatches env master api (d # ds) now w =
     recoverDispatches env master api ds now (resumeDispatch env master api (td_tenantId d) (td_idempotencyKey d) now w)"

fun recoverOperations ::
    "trp_env \<Rightarrow> 'ful fulfillment_api \<Rightarrow> trip_op list \<Rightarrow> instant \<Rightarrow> trp_db \<times> 'ful \<Rightarrow> trp_db \<times> 'ful" where
  "recoverOperations env api [] now w = w"
| "recoverOperations env api (p # ps) now w = recoverOperations env api ps now (resume env api (to_id p) False now w)"

definition dueDispatches :: "nat \<Rightarrow> instant \<Rightarrow> trp_db \<Rightarrow> trip_dispatch list" where
  "dueDispatches n now db =
     take n (sort_key td_nextAttemptAt (sort_key td_id
       (filter (\<lambda>d. dispatch_pending d \<and> td_nextAttemptAt d \<le> now) (tripDispatches db))))"

definition dueOperations :: "instant \<Rightarrow> trp_db \<Rightarrow> trip_op list" where
  "dueOperations now db =
     take 25 (sort_key to_nextAttemptAt (sort_key to_createdAt (filter (leasable False now) (tripOperations db))))"

definition recoverTrips ::
    "trp_env \<Rightarrow> route_env \<Rightarrow> trip_master_api \<Rightarrow> 'ful fulfillment_api \<Rightarrow> nat \<Rightarrow> instant \<Rightarrow> trp_db \<times> 'ful \<Rightarrow> trp_db \<times> 'ful" where
  "recoverTrips env renv master api batchSize now w =
     (let w1 = recoverDispatches renv master api (dueDispatches batchSize now (fst w)) now w
      in recoverOperations env api (dueOperations now (fst w1)) now w1)"

end
