(* ===== verification/Transport_Invariant.thy ===== *)
theory Transport_Invariant
  imports Transport_Dispatch
begin

text \<open>
  The invariant of the transport database and the changes its transactions are made of. Its parts: the
  trips with the vehicles and drivers they hold, the operations with the trips they lock, the memberships
  with the operations that work on them, the dispatches with the trips they freeze, and the end of a
  cancellation. Inside a transaction the parts that speak of one operation may be suspended: \<open>trp_but B\<close> is
  the invariant without the operations \<open>B\<close>.
\<close>

section \<open>The invariant\<close>

definition planning :: "delivery_trip \<Rightarrow> bool" where
  "planning x \<longleftrightarrow> dt_status x = T_DRAFT \<or> dt_status x = T_APPROVED"

definition trip_sound :: "delivery_trip \<Rightarrow> bool" where
  "trip_sound x \<longleftrightarrow> trip_totals_fit x \<and> trip_row_ok x \<and> (dt_driverId x = None \<longleftrightarrow> dt_driverUserId x = None)"

definition trips_ok :: "trp_db \<Rightarrow> bool" where
  "trips_ok db \<longleftrightarrow> distinct (map dt_id (trips db)) \<and>
     (\<forall>x\<in>set (trips db). trip_sound x \<and> \<not> resource_taken x (trips db))"

definition lock_of :: "delivery_trip \<Rightarrow> uuid \<times> uuid" where
  "lock_of x = (dt_tenantId x, dt_id x)"

definition locked :: "uuid \<times> uuid \<Rightarrow> trp_db \<Rightarrow> bool" where
  "locked k db \<longleftrightarrow> (\<exists>p\<in>set (tripOperations db). to_activeLock p = Some k)"

definition op_locks :: "trp_db \<Rightarrow> trip_op \<Rightarrow> bool" where
  "op_locks db p \<longleftrightarrow> (if op_open (to_status p)
     then \<exists>x\<in>set (trips db). to_tripId p = Some (dt_id x) \<and> to_tenantId p = dt_tenantId x \<and>
       to_activeLock p = Some (lock_of x) \<and> planning x
     else to_activeLock p = None)"

definition ops_ok :: "trp_db \<Rightarrow> bool" where
  "ops_ok db \<longleftrightarrow> distinct (map to_id (tripOperations db)) \<and> (\<forall>p\<in>set (tripOperations db). op_locks db p) \<and>
     (\<forall>p\<in>set (tripOperations db). \<forall>q\<in>set (tripOperations db). \<forall>k.
        to_activeLock p = Some k \<and> to_activeLock q = Some k \<longrightarrow> p = q)"

definition trip_key :: "trip_shipment \<Rightarrow> uuid \<times> uuid" where
  "trip_key m = (ts_tenantId m, ts_tripId m)"

text \<open>The operation a pending membership waits for.\<close>

definition works_on :: "uuid set \<Rightarrow> trip_shipment \<Rightarrow> trip_op \<Rightarrow> bool" where
  "works_on B m p \<longleftrightarrow> ts_operationId m = Some (to_id p) \<and> op_open (to_status p) \<and> to_activeLock p = Some (trip_key m) \<and>
     (to_kind p = K_ADD \<and> to_id p \<in> B \<or> (ts_state m = M_CLAIM_PENDING \<longleftrightarrow> to_kind p = K_ADD \<and> to_status p = O_PENDING))"

definition member_pending :: "trip_shipment \<Rightarrow> bool" where
  "member_pending m \<longleftrightarrow> ts_state m = M_CLAIM_PENDING \<or> ts_state m = M_RELEASE_PENDING"

definition same_shipment :: "trip_shipment \<Rightarrow> trip_shipment \<Rightarrow> bool" where
  "same_shipment m n \<longleftrightarrow> ts_tenantId m = ts_tenantId n \<and> ts_shipmentId m = ts_shipmentId n"

definition belongs :: "trp_db \<Rightarrow> trip_shipment \<Rightarrow> bool" where
  "belongs db m \<longleftrightarrow> (\<forall>j. ts_operationId m = Some j \<longrightarrow> (\<exists>p\<in>set (tripOperations db). to_id p = j \<and>
     (to_tenantId p, to_tripId p) = (ts_tenantId m, Some (ts_tripId m))))"

definition members_ok :: "uuid set \<Rightarrow> trp_db \<Rightarrow> bool" where
  "members_ok B db \<longleftrightarrow> distinct (map ts_id (tripShipments db)) \<and>
     (\<forall>m\<in>set (tripShipments db). (member_live m \<longleftrightarrow> ts_state m \<noteq> M_RELEASED) \<and> belongs db m) \<and>
     (\<forall>m\<in>set (tripShipments db). \<forall>n\<in>set (tripShipments db).
        member_live m \<and> member_live n \<and> same_shipment m n \<longrightarrow> m = n) \<and>
     (\<forall>m\<in>set (tripShipments db). member_pending m \<longrightarrow> (\<exists>p\<in>set (tripOperations db). works_on B m p))"

text \<open>A dispatch under way carries its request and freezes its trip; once it is submitted, with the plan it names.\<close>

definition carries :: "trip_dispatch \<Rightarrow> batch_request \<Rightarrow> bool" where
  "carries d r \<longleftrightarrow> batchRequestValid r \<and> br_tenantId r = td_tenantId d \<and> br_tripId r = td_tripId d \<and> br_requestId r = td_idempotencyKey d"

definition freezes :: "trp_db \<Rightarrow> trip_dispatch \<Rightarrow> batch_request \<Rightarrow> delivery_trip \<Rightarrow> bool" where
  "freezes db d r x \<longleftrightarrow> carries d r \<and> dt_id x = td_tripId d \<and> dt_tenantId x = td_tenantId d \<and> dt_status x = T_APPROVED \<and>
     dt_version x = br_expectedTripVersion r \<and> int (dt_version x) < MAX_SAFE_INTEGER \<and>
     (td_stage d \<noteq> G_ACCEPTED \<longrightarrow> dt_approvedRoutePlanId x = Some (br_approvedPlanId r)) \<and> \<not> locked (lock_of x) db"

definition dispatches_ok :: "trp_db \<Rightarrow> bool" where
  "dispatches_ok db \<longleftrightarrow> distinct (map td_id (tripDispatches db)) \<and>
     (\<forall>d\<in>set (tripDispatches db). td_status d = I_PENDING \<longrightarrow>
        (\<exists>r. td_payload d = Some r \<and> (\<exists>x\<in>set (trips db). freezes db d r x))) \<and>
     (\<forall>d\<in>set (tripDispatches db). \<forall>e\<in>set (tripDispatches db).
        td_status d \<noteq> I_REJECTED \<and> td_status e \<noteq> I_REJECTED \<and> td_tenantId d = td_tenantId e \<and> td_tripId d = td_tripId e \<longrightarrow> d = e)"

text \<open>Under a cancellation nothing is active any more, and a canceled trip has released everything.\<close>

definition cancel_ok :: "uuid set \<Rightarrow> trp_db \<Rightarrow> bool" where
  "cancel_ok B db \<longleftrightarrow>
     (\<forall>p\<in>set (tripOperations db). op_open (to_status p) \<and> to_kind p = K_CANCEL \<and> to_id p \<notin> B \<longrightarrow>
        (\<forall>m\<in>set (tripShipments db). to_activeLock p = Some (trip_key m) \<longrightarrow> ts_state m \<noteq> M_ACTIVE)) \<and>
     (\<forall>x\<in>set (trips db). dt_status x = T_CANCELED \<longrightarrow>
        (\<forall>m\<in>set (tripShipments db). trip_key m = lock_of x \<longrightarrow> ts_state m = M_RELEASED))"

definition trp_but :: "uuid set \<Rightarrow> trp_db \<Rightarrow> bool" where
  "trp_but B db \<longleftrightarrow> trips_ok db \<and> ops_ok db \<and> members_ok B db \<and> dispatches_ok db \<and> cancel_ok B db"

definition trp_ok :: "trp_db \<Rightarrow> bool" where
  "trp_ok db = trp_but {} db"

lemma trp_butD:
  assumes "trp_but B db"
  shows "trips_ok db" "ops_ok db" "members_ok B db" "dispatches_ok db" "cancel_ok B db"
  using assms by (simp_all add: trp_but_def)

lemma works_on_mono: "works_on B m p \<Longrightarrow> B \<subseteq> C \<Longrightarrow> works_on C m p"
  by (auto simp: works_on_def)

lemma trp_but_mono:
  assumes "trp_but B db" "B \<subseteq> C"
  shows "trp_but C db"
proof -
  note p = trp_butD [OF assms(1)]
  have "members_ok C db" using p(3) works_on_mono [OF _ assms(2)] unfolding members_ok_def by blast
  moreover have "cancel_ok C db" using p(5) assms(2) unfolding cancel_ok_def by blast
  ultimately show ?thesis using p by (simp add: trp_but_def)
qed

section \<open>How trips evolve\<close>

inductive trip_life :: "trip_status \<Rightarrow> trip_status \<Rightarrow> bool" where
  approves: "trip_life T_DRAFT T_APPROVED"
| reopens: "trip_life T_APPROVED T_DRAFT"
| departs: "trip_life T_APPROVED T_IN_PROGRESS"
| ends: "trip_life T_IN_PROGRESS T_COMPLETED"
| cancels: "s \<in> {T_DRAFT, T_APPROVED} \<Longrightarrow> trip_life s T_CANCELED"

inductive_simps trip_life_simps [simp]:
  "trip_life T_COMPLETED s" "trip_life T_CANCELED s" "trip_life T_IN_PROGRESS s"

definition same_trip :: "delivery_trip \<Rightarrow> delivery_trip \<Rightarrow> bool" where
  "same_trip x y \<longleftrightarrow> dt_id y = dt_id x \<and> dt_tenantId y = dt_tenantId x \<and> dt_tripNumber y = dt_tripNumber x \<and>
     dt_warehouseId y = dt_warehouseId x"

text \<open>The vehicle, the driver and the plan of a trip.\<close>

definition resources :: "delivery_trip \<Rightarrow> uuid option \<times> uuid option \<times> uuid option \<times> uuid option" where
  "resources x = (dt_vehicleId x, dt_driverId x, dt_driverUserId x, dt_approvedRoutePlanId x)"

definition same_core :: "delivery_trip \<Rightarrow> delivery_trip \<Rightarrow> bool" where
  "same_core x y \<longleftrightarrow> dt_version y = dt_version x \<and> dt_status y = dt_status x \<and> resources y = resources x"

definition trip_becomes :: "delivery_trip \<Rightarrow> delivery_trip \<Rightarrow> bool" where
  "trip_becomes x y \<longleftrightarrow> same_trip x y \<and> dt_version x \<le> dt_version y \<and> (dt_version y = dt_version x \<longrightarrow> same_core x y) \<and>
     trip_life\<^sup>*\<^sup>* (dt_status x) (dt_status y) \<and> (\<not> planning x \<longrightarrow> resources y = resources x)"

definition trips_evolve :: "trp_db \<Rightarrow> trp_db \<Rightarrow> bool" where
  "trips_evolve db db' \<longleftrightarrow> (\<forall>x\<in>set (trips db). \<exists>y\<in>set (trips db'). trip_becomes x y)"

lemma trip_becomes_refl [simp]: "trip_becomes x x"
  by (simp add: trip_becomes_def same_trip_def same_core_def)

lemma departed_life: "trip_life\<^sup>*\<^sup>* s s' \<Longrightarrow> s \<notin> {T_DRAFT, T_APPROVED} \<Longrightarrow> s' \<notin> {T_DRAFT, T_APPROVED}"
  by (induction rule: rtranclp_induct) (auto elim: trip_life.cases)

lemma trip_becomes_trans:
  assumes "trip_becomes x y" "trip_becomes y z"
  shows "trip_becomes x z"
proof -
  have "trip_life\<^sup>*\<^sup>* (dt_status x) (dt_status z)" using assms unfolding trip_becomes_def by (meson rtranclp_trans)
  moreover have "same_core x z" if "dt_version z = dt_version x"
    using assms that unfolding trip_becomes_def same_core_def by (metis le_antisym)
  moreover have "resources z = resources x" if "\<not> planning x"
    using assms that departed_life [of "dt_status x" "dt_status y"] unfolding trip_becomes_def planning_def by auto
  ultimately show ?thesis using assms by (auto simp: trip_becomes_def same_trip_def)
qed

lemma trips_evolve_refl [simp, intro]: "trips_evolve db db"
  unfolding trips_evolve_def using trip_becomes_refl by blast

lemma trips_evolve_trans: "trips_evolve a b \<Longrightarrow> trips_evolve b c \<Longrightarrow> trips_evolve a c"
  unfolding trips_evolve_def using trip_becomes_trans by meson

text \<open>The result of a change: the invariant is kept and the trips have evolved.\<close>

definition keeps_trp :: "uuid set \<Rightarrow> trp_db \<Rightarrow> trp_db \<Rightarrow> bool" where
  "keeps_trp B db db' \<longleftrightarrow> (trp_but B db \<longrightarrow> trp_but B db' \<and> trips_evolve db db')"

lemma keeps_trpI: "(trp_but B db \<Longrightarrow> trp_but B db') \<Longrightarrow> trips db' = trips db \<Longrightarrow> keeps_trp B db db'"
  by (auto simp: keeps_trp_def trips_evolve_def intro: trip_becomes_refl)

lemma keeps_trp_refl [simp, intro]: "keeps_trp B db db"
  by (simp add: keeps_trp_def)

lemma keeps_trp_trans [trans]: "keeps_trp B a b \<Longrightarrow> keeps_trp B b c \<Longrightarrow> keeps_trp B a c"
  unfolding keeps_trp_def using trips_evolve_trans by blast

lemma keeps_trpD: "keeps_trp B db db' \<Longrightarrow> trp_but B db \<Longrightarrow> trp_but B db'"
  by (simp add: keeps_trp_def)

text \<open>Only four tables matter.\<close>

definition same_core_tables :: "trp_db \<Rightarrow> trp_db \<Rightarrow> bool" where
  "same_core_tables db db' \<longleftrightarrow> trips db' = trips db \<and> tripOperations db' = tripOperations db \<and>
     tripShipments db' = tripShipments db \<and> tripDispatches db' = tripDispatches db"

lemmas trp_parts = trips_ok_def ops_ok_def op_locks_def members_ok_def belongs_def dispatches_ok_def cancel_ok_def freezes_def locked_def

lemma same_core_tables_ok:
  assumes "same_core_tables db db'"
  shows "trips_ok db' = trips_ok db" "ops_ok db' = ops_ok db" "members_ok B db' = members_ok B db"
    "dispatches_ok db' = dispatches_ok db" "cancel_ok B db' = cancel_ok B db"
  using assms unfolding trp_parts same_core_tables_def by presburger+

lemma same_core_tables_keeps: "same_core_tables db db' \<Longrightarrow> keeps_trp B db db'"
  by (rule keeps_trpI) (simp_all only: trp_but_def same_core_tables_ok, simp add: same_core_tables_def)

section \<open>Changes of a trip\<close>

lemma updateTrip_D:
  assumes "updateTrip i f now db = Inr (y, db')"
  shows "\<exists>x\<in>set (trips db). dt_id x = i \<and> y = (f x)\<lparr> dt_updatedAt := now \<rparr> \<and> trip_totals_fit y \<and> trip_row_ok y \<and>
    \<not> resource_taken y (trips db) \<and> db' = db\<lparr> trips := update_where (\<lambda>z. dt_id z = i) (\<lambda>_. y) (trips db) \<rparr>"
  using assms by (auto simp: updateTrip_def Let_def split: option.splits if_splits dest!: find_Some_D)

lemma updateTrip_set:
  assumes d: "distinct (map dt_id (trips db))" and x: "x \<in> set (trips db)"
  shows "set (update_where (\<lambda>z. dt_id z = dt_id x) (\<lambda>_. y) (trips db)) = insert y (set (trips db) - {x})"
proof -
  have *: "z = x" if "z \<in> set (trips db)" "dt_id z = dt_id x" for z using d x that by (meson key_eq_imp_eq)
  show ?thesis
  proof (intro equalityI subsetI)
    fix z assume "z \<in> set (update_where (\<lambda>z. dt_id z = dt_id x) (\<lambda>_. y) (trips db))"
    then show "z \<in> insert y (set (trips db) - {x})" by (auto simp: in_set_update_where split: if_splits)
  next
    fix z assume "z \<in> insert y (set (trips db) - {x})"
    then show "z \<in> set (update_where (\<lambda>z. dt_id z = dt_id x) (\<lambda>_. y) (trips db))"
      using * x by (force simp: in_set_update_where)
  qed
qed

text \<open>A trip gets a new version: it was not frozen, and where it is locked it stays in planning.\<close>

definition trip_change :: "trp_db \<Rightarrow> delivery_trip \<Rightarrow> delivery_trip \<Rightarrow> bool" where
  "trip_change db x y \<longleftrightarrow> same_trip x y \<and> (dt_driverId y = None \<longleftrightarrow> dt_driverUserId y = None) \<and>
     (same_core x y \<or>
      dt_version x < dt_version y \<and> (dt_status y = dt_status x \<or> trip_life (dt_status x) (dt_status y)) \<and>
      (\<not> planning x \<longrightarrow> resources y = resources x) \<and>
      (\<forall>d\<in>set (tripDispatches db). td_status d = I_PENDING \<longrightarrow> (td_tenantId d, td_tripId d) \<noteq> lock_of x) \<and>
      (locked (lock_of x) db \<longrightarrow> planning y) \<and>
      (dt_status y = T_CANCELED \<longrightarrow> (\<forall>m\<in>set (tripShipments db). trip_key m = lock_of x \<longrightarrow> ts_state m = M_RELEASED)))"

lemma trip_change_becomes: "trip_change db x y \<Longrightarrow> trip_becomes x y"
  unfolding trip_change_def trip_becomes_def same_core_def by auto

lemma resource_taken_sym:
  assumes "resource_taken z ys" "y \<in> set ys" "\<And>w. w \<in> set ys \<Longrightarrow> w = y \<or> w \<in> set xs" "\<not> resource_taken z xs"
    "z \<in> set xs" "dt_id z \<noteq> dt_id y"
  shows "resource_taken y xs"
  using assms unfolding resource_taken_def exists_row_iff by metis

lemma updateTrip_keeps:
  assumes u: "updateTrip i f now db = Inr (y, db')"
    and c: "\<And>x. x \<in> set (trips db) \<Longrightarrow> dt_id x = i \<Longrightarrow> trip_change db x (f x)"
  shows "keeps_trp B db db'"
proof -
  from updateTrip_D [OF u] obtain x where x: "x \<in> set (trips db)" "dt_id x = i" "y = (f x)\<lparr> dt_updatedAt := now \<rparr>"
    "trip_totals_fit y" "trip_row_ok y" "\<not> resource_taken y (trips db)"
    and db': "db' = db\<lparr> trips := update_where (\<lambda>z. dt_id z = i) (\<lambda>_. y) (trips db) \<rparr>" by blast
  have ch: "trip_change db x y"
    using c [OF x(1,2)] unfolding x(3) trip_change_def same_trip_def same_core_def resources_def planning_def by simp
  note same = ch [unfolded trip_change_def, THEN conjunct1, unfolded same_trip_def]
  have lock: "lock_of y = lock_of x" using same by (simp add: lock_of_def)
  show ?thesis unfolding keeps_trp_def
  proof (intro impI conjI)
    assume ok: "trp_but B db"
    note p = trp_butD [OF ok]
    have d: "distinct (map dt_id (trips db))" using p(1) by (simp add: trips_ok_def)
    have s: "set (trips db') = insert y (set (trips db) - {x})" using updateTrip_set [OF d x(1)] by (simp add: db' x(2) [symmetric])
    have frame [simp]: "tripOperations db' = tripOperations db" "tripShipments db' = tripShipments db"
      "tripDispatches db' = tripDispatches db" by (simp_all add: db')
    have lk [simp]: "locked k db' = locked k db" for k by (simp add: locked_def)
    have key: "dt_id z \<noteq> dt_id x" if "z \<in> set (trips db)" "z \<noteq> x" for z using d x(1) that by (meson key_eq_imp_eq)
    have t: "trips_ok db'"
    proof -
      have "map dt_id (trips db') = map dt_id (trips db)" using same x(2) by (auto simp: db' update_where_def)
      moreover have "trip_sound y" using x(4,5) ch by (simp add: trip_sound_def trip_change_def)
      moreover have "\<not> resource_taken y (trips db')" using x(6) unfolding resource_taken_def exists_row_iff s by auto
      moreover have "\<not> resource_taken z (trips db')" if z: "z \<in> set (trips db)" "z \<noteq> x" for z
      proof
        assume r: "resource_taken z (trips db')"
        have "\<not> resource_taken z (trips db)" using p(1) z by (simp add: trips_ok_def)
        from resource_taken_sym [OF r _ _ this, of y] z key [OF z] s x(6) same show False by auto
      qed
      ultimately show ?thesis using p(1) unfolding trips_ok_def s by auto
    qed
    have o: "ops_ok db'"
    proof -
      have "op_locks db' q" if q: "q \<in> set (tripOperations db)" for q
      proof (cases "op_open (to_status q)")
        case True
        then obtain z where z: "z \<in> set (trips db)" "to_tripId q = Some (dt_id z)" "to_tenantId q = dt_tenantId z"
          "to_activeLock q = Some (lock_of z)" "planning z" using p(2) q unfolding ops_ok_def op_locks_def by metis
        show ?thesis
        proof (cases "z = x")
          case z': True
          then have "locked (lock_of x) db" using q z(4) by (auto simp: locked_def)
          then have "planning y" using ch z(5) z' unfolding trip_change_def same_core_def planning_def by auto
          then show ?thesis using True z z' s same lock unfolding op_locks_def by auto
        qed (use True z s in \<open>auto simp: op_locks_def\<close>)
      qed (use p(2) q in \<open>auto simp: ops_ok_def op_locks_def\<close>)
      then show ?thesis using p(2) unfolding ops_ok_def frame by blast
    qed
    have m: "members_ok B db'" using p(3) unfolding members_ok_def belongs_def frame .
    have e: "dispatches_ok db'"
    proof -
      have "\<exists>r. td_payload q = Some r \<and> (\<exists>z\<in>set (trips db'). freezes db' q r z)"
        if q: "q \<in> set (tripDispatches db)" "td_status q = I_PENDING" for q
      proof -
        obtain r z where z: "td_payload q = Some r" "z \<in> set (trips db)" "freezes db q r z"
          using p(4) q unfolding dispatches_ok_def by blast
        have "freezes db' q r (if z = x then y else z)"
        proof (cases "z = x")
          case True
          then have "same_core x y" using ch z(3) q unfolding trip_change_def freezes_def lock_of_def by auto
          then show ?thesis using z(3) True same lock by (auto simp: freezes_def same_core_def resources_def)
        qed (use z(3) in \<open>simp add: freezes_def\<close>)
        moreover have "(if z = x then y else z) \<in> set (trips db')" using z(2) s by simp
        ultimately show ?thesis using z(1) by blast
      qed
      then show ?thesis using p(4) unfolding dispatches_ok_def by simp
    qed
    have "cancel_ok B db'"
      using p(5) ch x(1) lock unfolding cancel_ok_def frame s trip_change_def same_core_def by auto
    with t o m e show "trp_but B db'" by (simp add: trp_but_def)
    show "trips_evolve db db'"
      unfolding trips_evolve_def using trip_change_becomes [OF ch] s by (metis Diff_iff insertCI singletonD trip_becomes_refl)
  qed
qed

section \<open>Changes of operations\<close>

text \<open>A new trip is a draft without shipments.\<close>

lemma createTrip_keeps:
  assumes c: "createTrip x db = Inr db'" and x: "dt_status x = T_DRAFT" "trip_sound x"
  shows "keeps_trp B db db'"
proof -
  have db': "db' = db\<lparr> trips := trips db @ [x] \<rparr>" and new: "\<forall>y\<in>set (trips db). dt_id y \<noteq> dt_id x"
    using c by (auto simp: createTrip_def split: if_splits)
  have na: "\<not> trip_active x" using x(1) by (simp add: trip_active_def)
  have s: "set (trips db') = insert x (set (trips db))" by (simp add: db')
  show ?thesis unfolding keeps_trp_def
  proof (intro impI conjI)
    assume ok: "trp_but B db"
    note p = trp_butD [OF ok]
    have frame [simp]: "tripOperations db' = tripOperations db" "tripShipments db' = tripShipments db"
      "tripDispatches db' = tripDispatches db" by (simp_all add: db')
    have "\<not> resource_taken y (trips db')" if "\<not> resource_taken y (trips db)" for y
      using that na unfolding resource_taken_def exists_row_iff s by auto
    moreover have "\<not> resource_taken x (trips db)" using na by (simp add: resource_taken_def)
    ultimately have "trips_ok db'" using p(1) new x(2) by (auto simp: trips_ok_def db')
    moreover have "ops_ok db'" using p(2) s unfolding ops_ok_def op_locks_def frame by (metis insertI2)
    moreover have "members_ok B db'" using p(3) unfolding members_ok_def belongs_def frame .
    moreover have "freezes db' d r y = freezes db d r y" for d r y by (simp add: freezes_def locked_def)
    then have "dispatches_ok db'" using p(4) s unfolding dispatches_ok_def frame by (metis insertI2)
    moreover have "cancel_ok B db'" using p(5) x(1) unfolding cancel_ok_def frame s by auto
    ultimately show "trp_but B db'" by (simp add: trp_but_def)
    show "trips_evolve db db'" unfolding trips_evolve_def s using trip_becomes_refl by blast
  qed
qed

lemma createOperation_D:
  "createOperation p db = Inr db' \<Longrightarrow> db' = db\<lparr> tripOperations := tripOperations db @ [p] \<rparr> \<and>
     (\<forall>q\<in>set (tripOperations db). to_id q \<noteq> to_id p \<and> (to_activeLock p = None \<or> to_activeLock q \<noteq> to_activeLock p))"
  by (auto simp: createOperation_def split: if_splits)

text \<open>An operation that is complete from the start locks nothing.\<close>

lemma createOperation_done_keeps:
  assumes c: "createOperation p db = Inr db'" and p: "\<not> op_open (to_status p)" "to_activeLock p = None"
  shows "keeps_trp B db db'"
proof (rule keeps_trpI)
  note d = createOperation_D [OF c]
  then show "trips db' = trips db" by simp
  have frame [simp]: "trips db' = trips db" "tripShipments db' = tripShipments db" "tripDispatches db' = tripDispatches db"
    and s: "set (tripOperations db') = insert p (set (tripOperations db))" using d by simp_all
  have lk: "locked k db' = locked k db" for k using p(2) unfolding locked_def s by auto
  assume "trp_but B db"
  note ok = trp_butD [OF this]
  have "trips_ok db'" using ok(1) unfolding trips_ok_def frame .
  moreover have "op_locks db' q = op_locks db q" for q by (simp add: op_locks_def)
  then have "ops_ok db'" using ok(2) p d unfolding ops_ok_def s op_locks_def by auto
  moreover have "members_ok B db'" using ok(3) unfolding members_ok_def belongs_def frame s by (meson insertI2)
  moreover have "dispatches_ok db'" using ok(4) unfolding dispatches_ok_def freezes_def frame lk .
  moreover have "cancel_ok B db'" using ok(5) p(1) unfolding cancel_ok_def frame s by auto
  ultimately show "trp_but B db'" by (simp add: trp_but_def)
qed

text \<open>An operation that starts: its trip is in planning and nothing has been dispatched for it.\<close>

lemma createOperation_opens:
  assumes c: "createOperation p db = Inr db'" and ok: "trp_but B db" and x: "x \<in> set (trips db)" "planning x"
    and p: "op_open (to_status p)" "to_tripId p = Some (dt_id x)" "to_tenantId p = dt_tenantId x" "to_activeLock p = Some (lock_of x)"
    and d: "\<forall>d\<in>set (tripDispatches db). td_status d = I_PENDING \<longrightarrow> (td_tenantId d, td_tripId d) \<noteq> lock_of x"
    and k: "to_kind p = K_CANCEL \<Longrightarrow> to_id p \<in> B"
  shows "trp_but B db'"
proof -
  note D = createOperation_D [OF c]
  have frame [simp]: "trips db' = trips db" "tripShipments db' = tripShipments db" "tripDispatches db' = tripDispatches db"
    and s: "set (tripOperations db') = insert p (set (tripOperations db))" using D by simp_all
  have lk: "locked j db' \<longleftrightarrow> j = lock_of x \<or> locked j db" for j using p(4) unfolding locked_def s by auto
  note ok = trp_butD [OF ok]
  have "trips_ok db'" using ok(1) unfolding trips_ok_def frame .
  moreover have "op_locks db' q = op_locks db q" for q by (simp add: op_locks_def)
  moreover have "op_locks db p" using x p unfolding op_locks_def by auto
  ultimately have "trips_ok db'" "ops_ok db'" using ok(2) p(4) D unfolding ops_ok_def s by auto
  moreover have "members_ok B db'" using ok(3) unfolding members_ok_def belongs_def frame s by (meson insertI2)
  moreover have "freezes db' e r y" if "freezes db e r y" "e \<in> set (tripDispatches db)" "td_status e = I_PENDING" for e r y
    using that d lk unfolding freezes_def lock_of_def by auto
  then have "dispatches_ok db'" using ok(4) unfolding dispatches_ok_def frame by blast
  moreover have "cancel_ok B db'" using ok(5) k unfolding cancel_ok_def frame s by auto
  ultimately show ?thesis by (simp add: trp_but_def)
qed

lemma setOperation_set:
  "set (tripOperations (setOperation i f db)) = (\<lambda>p. if to_id p = i then f p else p) ` set (tripOperations db)"
  by (auto simp: setOperation_def update_where_def)

lemma map_setOperation:
  "(\<And>p. to_id (f p) = to_id p) \<Longrightarrow> map to_id (tripOperations (setOperation i f db)) = map to_id (tripOperations db)"
  by (simp add: setOperation_def update_where_def)

text \<open>Retry counters and leases, and the start of a compensation.\<close>

definition same_op :: "uuid set \<Rightarrow> trip_op \<Rightarrow> trip_op \<Rightarrow> bool" where
  "same_op B p q \<longleftrightarrow> to_id q = to_id p \<and> to_tenantId q = to_tenantId p \<and> to_tripId q = to_tripId p \<and>
     to_kind q = to_kind p \<and> to_activeLock q = to_activeLock p \<and>
     (to_status q = to_status p \<or> op_open (to_status p) \<and> op_open (to_status q) \<and> to_kind p = K_ADD \<and> to_id p \<in> B)"

lemma setOperation_keeps:
  assumes f: "\<And>p. p \<in> set (tripOperations db) \<Longrightarrow> to_id p = i \<Longrightarrow> same_op B p (f p)"
  shows "keeps_trp B db (setOperation i f db)"
proof (rule keeps_trpI)
  define g where "g = (\<lambda>p. if to_id p = i then f p else p)"
  let ?db = "setOperation i f db"
  have s: "set (tripOperations ?db) = g ` set (tripOperations db)" using setOperation_set by (simp only: g_def)
  have g: "to_id (g p) = to_id p" "to_tenantId (g p) = to_tenantId p" "to_tripId (g p) = to_tripId p"
    "to_kind (g p) = to_kind p" "op_open (to_status (g p)) = op_open (to_status p)" "to_activeLock (g p) = to_activeLock p"
    "to_status (g p) = to_status p \<or> to_kind p = K_ADD \<and> to_id p \<in> B" if "p \<in> set (tripOperations db)" for p
    using f [OF that] by (auto simp: same_op_def g_def)
  have frame: "trips ?db = trips db" "tripShipments ?db = tripShipments db" "tripDispatches ?db = tripDispatches db"
    by (simp_all add: setOperation_def)
  then show "trips ?db = trips db" by blast
  have lk: "locked k ?db = locked k db" for k unfolding locked_def s by (simp add: g)
  assume "trp_but B db"
  note ok = trp_butD [OF this]
  have m: "map to_id (tripOperations ?db) = map to_id (tripOperations db)"
    using g(1) by (auto simp: setOperation_def update_where_def g_def)
  have "trips_ok ?db" using ok(1) unfolding trips_ok_def frame .
  moreover have "op_locks ?db (g p) = op_locks db p" if "p \<in> set (tripOperations db)" for p
    unfolding op_locks_def frame using g [OF that] by simp
  then have "\<forall>p\<in>set (tripOperations ?db). op_locks ?db p" using ok(2) unfolding ops_ok_def s by blast
  then have "ops_ok ?db" using ok(2) unfolding ops_ok_def m s by (auto simp: g)
  moreover have "works_on B x (g p) = works_on B x p" if "p \<in> set (tripOperations db)" for x p
    unfolding works_on_def using g [OF that] by auto
  then have "(\<exists>p\<in>set (tripOperations ?db). works_on B x p) \<longleftrightarrow> (\<exists>p\<in>set (tripOperations db). works_on B x p)" for x
    unfolding s by simp
  moreover have "belongs ?db x = belongs db x" for x unfolding belongs_def s by (simp add: g)
  ultimately have "trips_ok ?db" "ops_ok ?db" "members_ok B ?db" using ok(3) unfolding members_ok_def frame by simp_all
  moreover have "dispatches_ok ?db" using ok(4) unfolding dispatches_ok_def freezes_def frame lk .
  moreover have "cancel_ok B ?db" using ok(5) unfolding cancel_ok_def frame s by (auto simp: g)
  ultimately show "trp_but B ?db" by (simp add: trp_but_def)
qed

text \<open>An operation ends: nothing waits for it any more.\<close>

lemma setOperation_closes:
  assumes ok: "trp_but B db" and f: "\<And>p. to_id (f p) = to_id p \<and> to_tenantId (f p) = to_tenantId p \<and> to_tripId (f p) = to_tripId p \<and>
      \<not> op_open (to_status (f p)) \<and> to_activeLock (f p) = None"
    and m: "\<And>m. m \<in> set (tripShipments db) \<Longrightarrow> ts_operationId m = Some i \<Longrightarrow> \<not> member_pending m"
  shows "trp_but B (setOperation i f db)"
proof -
  let ?g = "\<lambda>p. if to_id p = i then f p else p"
  let ?db = "setOperation i f db"
  note s = setOperation_set [of i f db]
  have frame: "trips ?db = trips db" "tripShipments ?db = tripShipments db" "tripDispatches ?db = tripDispatches db"
    by (simp_all add: setOperation_def)
  have lk: "locked k ?db \<Longrightarrow> locked k db" for k unfolding locked_def s using f by (auto split: if_splits)
  note ok = trp_butD [OF ok]
  have mp: "map to_id (tripOperations ?db) = map to_id (tripOperations db)" using map_setOperation [of f i db] f by blast
  have "trips_ok ?db" using ok(1) unfolding trips_ok_def frame .
  moreover have "op_locks ?db (?g p)" if "op_locks db p" for p using that f unfolding op_locks_def frame by auto
  then have "\<forall>p\<in>set (tripOperations ?db). op_locks ?db p" using ok(2) unfolding ops_ok_def s by blast
  then have "ops_ok ?db" using ok(2) f unfolding ops_ok_def mp s by (auto split: if_splits)
  moreover have "members_ok B ?db"
  proof -
    have "\<exists>p\<in>set (tripOperations ?db). works_on B x p" if x: "x \<in> set (tripShipments db)" "member_pending x" for x
    proof -
      obtain p where p: "p \<in> set (tripOperations db)" "works_on B x p" using ok(3) x unfolding members_ok_def by blast
      then have "to_id p \<noteq> i" using m [OF x(1)] x(2) by (auto simp: works_on_def)
      then have "p \<in> set (tripOperations ?db)" using p(1) unfolding s by force
      with p(2) show ?thesis by blast
    qed
    moreover have "belongs ?db x" if "belongs db x" for x
    proof -
      have g: "to_id (?g p) = to_id p" "to_tenantId (?g p) = to_tenantId p" "to_tripId (?g p) = to_tripId p" for p using f by auto
      show ?thesis using that unfolding belongs_def s bex_simps g .
    qed
    ultimately show ?thesis using ok(3) unfolding members_ok_def frame by blast
  qed
  moreover have "dispatches_ok ?db" using ok(4) lk unfolding dispatches_ok_def freezes_def frame by blast
  moreover have "cancel_ok B ?db" using ok(5) f unfolding cancel_ok_def frame s by (auto split: if_splits)
  ultimately show ?thesis by (simp add: trp_but_def)
qed

section \<open>Changes of memberships\<close>

text \<open>The trip an open operation locks is the only one with its key.\<close>

lemma locked_not_canceled:
  assumes t: "trips_ok db" and o: "ops_ok db" and p: "p \<in> set (tripOperations db)" "to_activeLock p = Some (lock_of y)"
    and y: "y \<in> set (trips db)"
  shows "planning y"
proof -
  have "op_locks db p" using o p(1) by (simp add: ops_ok_def)
  with p(2) obtain x where x: "x \<in> set (trips db)" "lock_of x = lock_of y" "planning x"
    unfolding op_locks_def by (auto split: if_splits)
  have "distinct (map dt_id (trips db))" using t by (simp add: trips_ok_def)
  then have "x = y" using x y by (auto simp: lock_of_def dest: key_eq_imp_eq)
  with x(3) show ?thesis by simp
qed

lemma createMember_keeps:
  assumes c: "createMember m db = Inr db'" and m: "ts_state m = M_CLAIM_PENDING" "member_live m"
    and p: "p \<in> set (tripOperations db)" "works_on B m p"
  shows "keeps_trp B db db'"
proof (rule keeps_trpI)
  have db': "db' = db\<lparr> tripShipments := tripShipments db @ [m] \<rparr>"
    and new: "\<forall>n\<in>set (tripShipments db). ts_id n \<noteq> ts_id m \<and> \<not> (member_live n \<and> same_shipment n m)"
    using c m(2) by (auto simp: createMember_def same_shipment_def split: if_splits)
  show "trips db' = trips db" by (simp add: db')
  have frame [simp]: "trips db' = trips db" "tripOperations db' = tripOperations db" "tripDispatches db' = tripDispatches db"
    and s: "set (tripShipments db') = insert m (set (tripShipments db))" by (simp_all add: db')
  assume "trp_but B db"
  note ok = trp_butD [OF this]
  have sym: "same_shipment a b = same_shipment b a" for a b by (auto simp: same_shipment_def)
  have "trips_ok db'" using ok(1) unfolding trips_ok_def frame .
  moreover have "ops_ok db'" using ok(2) unfolding ops_ok_def op_locks_def frame .
  moreover have "members_ok B db'"
  proof -
    have "distinct (map ts_id (tripShipments db'))" using ok(3) new by (auto simp: members_ok_def db')
    moreover have "belongs db' m"
    proof -
      have "op_locks db p" using ok(2) p(1) by (simp add: ops_ok_def)
      then show ?thesis using p by (auto simp: belongs_def works_on_def op_locks_def trip_key_def lock_of_def)
    qed
    moreover have "belongs db' n = belongs db n" for n by (simp add: belongs_def)
    ultimately show ?thesis using ok(3) new p m sym unfolding members_ok_def s frame
      by (metis (no_types, lifting) insert_iff member_state.distinct(6))
  qed
  moreover have "dispatches_ok db'" using ok(4) unfolding dispatches_ok_def freezes_def locked_def frame .
  moreover have "\<not> (dt_status x = T_CANCELED \<and> trip_key m = lock_of x)" if "x \<in> set (trips db)" for x
    using locked_not_canceled [OF ok(1,2) p(1) _ that] p(2) by (auto simp: works_on_def planning_def)
  then have "cancel_ok B db'" using ok(5) m(1) unfolding cancel_ok_def frame s by (metis insert_iff member_state.distinct(1))
  ultimately show "trp_but B db'" by (simp add: trp_but_def)
qed

definition member_change :: "uuid set \<Rightarrow> trp_db \<Rightarrow> trip_shipment \<Rightarrow> trip_shipment \<Rightarrow> bool" where
  "member_change B db m n \<longleftrightarrow> ts_id n = ts_id m \<and> trip_key n = trip_key m \<and> same_shipment n m \<and>
     (member_live n \<longleftrightarrow> ts_state n \<noteq> M_RELEASED) \<and> (member_live n \<longrightarrow> member_live m) \<and>
     (member_pending n \<longrightarrow> (\<exists>p\<in>set (tripOperations db). works_on B n p)) \<and>
     (ts_operationId n = ts_operationId m \<or> member_pending n) \<and>
     (ts_state n = M_ACTIVE \<longrightarrow> ts_state m = M_ACTIVE \<or>
        (\<exists>p\<in>set (tripOperations db). to_activeLock p = Some (trip_key m) \<and> to_kind p \<noteq> K_CANCEL))"

lemma setMember_set:
  "set (tripShipments (setMember i f db)) = (\<lambda>m. if ts_id m = i then f m else m) ` set (tripShipments db)"
  by (auto simp: setMember_def update_where_def)

lemma setMember_keeps:
  assumes f: "\<And>m. m \<in> set (tripShipments db) \<Longrightarrow> ts_id m = i \<Longrightarrow> member_change B db m (f m)"
  shows "keeps_trp B db (setMember i f db)"
proof (rule keeps_trpI)
  define g where "g = (\<lambda>m. if ts_id m = i then f m else m)"
  let ?db = "setMember i f db"
  have s: "set (tripShipments ?db) = g ` set (tripShipments db)" using setMember_set by (simp only: g_def)
  have frame: "trips ?db = trips db" "tripOperations ?db = tripOperations db" "tripDispatches ?db = tripDispatches db"
    by (simp_all add: setMember_def)
  then show "trips ?db = trips db" by blast
  assume "trp_but B db"
  note ok = trp_butD [OF this]
  have g: "ts_id (g m) = ts_id m" "trip_key (g m) = trip_key m" "same_shipment (g m) m"
      "member_live (g m) \<longleftrightarrow> ts_state (g m) \<noteq> M_RELEASED" "member_live (g m) \<Longrightarrow> member_live m"
      "member_pending (g m) \<Longrightarrow> \<exists>p\<in>set (tripOperations db). works_on B (g m) p"
      "ts_state (g m) = M_ACTIVE \<Longrightarrow> ts_state m = M_ACTIVE \<or>
         (\<exists>p\<in>set (tripOperations db). to_activeLock p = Some (trip_key m) \<and> to_kind p \<noteq> K_CANCEL)"
    if m: "m \<in> set (tripShipments db)" for m
    using f [OF m] ok(3) m unfolding g_def member_change_def members_ok_def same_shipment_def by (auto split: if_splits)
  have "trips_ok ?db" using ok(1) unfolding trips_ok_def frame .
  moreover have "ops_ok ?db" using ok(2) unfolding ops_ok_def op_locks_def frame .
  moreover have "members_ok B ?db"
  proof -
    have "map ts_id (tripShipments ?db) = map ts_id (tripShipments db)"
      using g(1) by (auto simp: setMember_def update_where_def g_def)
    then have "distinct (map ts_id (tripShipments ?db))" using ok(3) by (simp add: members_ok_def)
    moreover have "m = n" if "m \<in> set (tripShipments db)" "n \<in> set (tripShipments db)" "member_live (g m)" "member_live (g n)"
      "same_shipment (g m) (g n)" for m n
    proof -
      have "same_shipment m n" using g(3) [OF that(1)] g(3) [OF that(2)] that(5) by (simp add: same_shipment_def)
      then show ?thesis using ok(3) that(1,2) g(5) [OF that(1,3)] g(5) [OF that(2,4)] unfolding members_ok_def by blast
    qed
    moreover have "belongs ?db (g m)" if m: "m \<in> set (tripShipments db)" for m
    proof (cases "ts_operationId (g m) = ts_operationId m")
      case True
      have "belongs db m" using ok(3) m by (simp add: members_ok_def)
      then show ?thesis using True g(2) [OF m] by (simp add: belongs_def frame trip_key_def)
    next
      case False
      then have "member_pending (g m)" using f [OF m] by (auto simp: g_def member_change_def split: if_splits)
      then obtain p where p: "p \<in> set (tripOperations db)" "works_on B (g m) p" using g(6) [OF m] by blast
      have "op_locks db p" using ok(2) p(1) by (simp add: ops_ok_def)
      then show ?thesis using p by (auto simp: belongs_def works_on_def op_locks_def trip_key_def lock_of_def frame)
    qed
    ultimately show ?thesis unfolding members_ok_def s frame using g(4,6) by blast
  qed
  moreover have "dispatches_ok ?db" using ok(4) unfolding dispatches_ok_def freezes_def locked_def frame .
  moreover have "cancel_ok B ?db"
  proof -
    have "ts_state (g m) \<noteq> M_ACTIVE" if p: "p \<in> set (tripOperations db)" "op_open (to_status p)" "to_kind p = K_CANCEL"
      "to_id p \<notin> B" "m \<in> set (tripShipments db)" "to_activeLock p = Some (trip_key (g m))" for p m
    proof
      assume a: "ts_state (g m) = M_ACTIVE"
      have k: "to_activeLock p = Some (trip_key m)" using p(6) g(2) [OF p(5)] by simp
      then have "ts_state m \<noteq> M_ACTIVE" using ok(5) p unfolding cancel_ok_def by blast
      then obtain q where "q \<in> set (tripOperations db)" "to_activeLock q = Some (trip_key m)" "to_kind q \<noteq> K_CANCEL"
        using g(7) [OF p(5) a] by blast
      then show False using ok(2) p(1,3) k unfolding ops_ok_def by blast
    qed
    moreover have "ts_state (g m) = M_RELEASED"
      if x: "x \<in> set (trips db)" "dt_status x = T_CANCELED" "m \<in> set (tripShipments db)" "trip_key (g m) = lock_of x" for x m
    proof -
      have "ts_state m = M_RELEASED" using ok(5) x g(2) [OF x(3)] unfolding cancel_ok_def by simp
      then show ?thesis using ok(3) x(3) g(4,5) [OF x(3)] unfolding members_ok_def by blast
    qed
    ultimately show ?thesis unfolding cancel_ok_def s frame by blast
  qed
  ultimately show "trp_but B ?db" by (simp add: trp_but_def)
qed

section \<open>Changes of dispatches\<close>

definition dispatch_change :: "trp_db \<Rightarrow> trip_dispatch \<Rightarrow> trip_dispatch \<Rightarrow> bool" where
  "dispatch_change db d e \<longleftrightarrow> td_id e = td_id d \<and> td_tenantId e = td_tenantId d \<and> td_tripId e = td_tripId d \<and>
     td_idempotencyKey e = td_idempotencyKey d \<and> td_payload e = td_payload d \<and> (td_status e \<noteq> I_REJECTED \<longrightarrow> td_status d \<noteq> I_REJECTED) \<and>
     (td_status e = I_PENDING \<longrightarrow> td_status d = I_PENDING \<and>
        (td_stage e = G_ACCEPTED \<or> td_stage d \<noteq> G_ACCEPTED \<or>
         (\<forall>r. td_payload d = Some r \<longrightarrow> (\<forall>x\<in>set (trips db). lock_of x = (td_tenantId d, td_tripId d) \<longrightarrow>
            dt_approvedRoutePlanId x = Some (br_approvedPlanId r)))))"

lemma setDispatch_set:
  "set (tripDispatches (setDispatch i p f db)) = (\<lambda>d. if td_id d = i \<and> p d then f d else d) ` set (tripDispatches db)"
  by (auto simp: setDispatch_def update_where_def)

lemma setDispatch_keeps:
  assumes f: "\<And>d. d \<in> set (tripDispatches db) \<Longrightarrow> td_id d = i \<Longrightarrow> p d \<Longrightarrow> dispatch_change db d (f d)"
  shows "keeps_trp B db (setDispatch i p f db)"
proof (rule keeps_trpI)
  define g where "g = (\<lambda>d. if td_id d = i \<and> p d then f d else d)"
  let ?db = "setDispatch i p f db"
  have s: "set (tripDispatches ?db) = g ` set (tripDispatches db)" using setDispatch_set by (simp only: g_def)
  have frame: "trips ?db = trips db" "tripOperations ?db = tripOperations db" "tripShipments ?db = tripShipments db"
    by (simp_all add: setDispatch_def)
  then show "trips ?db = trips db" by blast
  assume "trp_but B db"
  note ok = trp_butD [OF this]
  have g: "dispatch_change db d (g d)" if "d \<in> set (tripDispatches db)" for d
    using f [OF that] unfolding g_def by (auto simp: dispatch_change_def)
  have "freezes ?db e r x = freezes db e r x" for e r x by (simp add: freezes_def locked_def frame)
  moreover have "freezes db (g d) r x" if "d \<in> set (tripDispatches db)" "td_status (g d) = I_PENDING" "td_payload d = Some r"
    "x \<in> set (trips db)" "freezes db d r x" for d r x
    using g [OF that(1)] that(2-) unfolding freezes_def carries_def dispatch_change_def lock_of_def by auto
  moreover have "map td_id (tripDispatches ?db) = map td_id (tripDispatches db)"
    using g by (auto simp: setDispatch_def update_where_def g_def dispatch_change_def)
  ultimately have "dispatches_ok ?db"
    using ok(4) g unfolding dispatches_ok_def s frame dispatch_change_def ball_simps by metis
  moreover have "trips_ok ?db" using ok(1) unfolding trips_ok_def frame .
  moreover have "ops_ok ?db" using ok(2) unfolding ops_ok_def op_locks_def frame .
  moreover have "members_ok B ?db" using ok(3) unfolding members_ok_def belongs_def frame .
  moreover have "cancel_ok B ?db" using ok(5) unfolding cancel_ok_def frame .
  ultimately show "trp_but B ?db" by (simp add: trp_but_def)
qed

lemma createDispatch_keeps:
  assumes c: "createDispatch d db = Inr db'" and p: "td_payload d = Some r" "x \<in> set (trips db)" "freezes db d r x"
    and n: "\<forall>e\<in>set (tripDispatches db). td_status e \<noteq> I_REJECTED \<longrightarrow> (td_tenantId e, td_tripId e) \<noteq> (td_tenantId d, td_tripId d)"
  shows "keeps_trp B db db'"
proof (rule keeps_trpI)
  have db': "db' = db\<lparr> tripDispatches := tripDispatches db @ [d] \<rparr>" and new: "\<forall>e\<in>set (tripDispatches db). td_id e \<noteq> td_id d"
    using c by (auto simp: createDispatch_def split: if_splits)
  show "trips db' = trips db" by (simp add: db')
  have frame [simp]: "trips db' = trips db" "tripOperations db' = tripOperations db" "tripShipments db' = tripShipments db"
    and s: "set (tripDispatches db') = insert d (set (tripDispatches db))" by (simp_all add: db')
  assume "trp_but B db"
  note ok = trp_butD [OF this]
  have fz: "freezes db' e q y = freezes db e q y" for e q y by (simp add: freezes_def locked_def)
  have "distinct (map td_id (tripDispatches db'))" using ok(4) new by (auto simp: dispatches_ok_def db')
  moreover have "\<exists>q. td_payload e = Some q \<and> (\<exists>y\<in>set (trips db). freezes db e q y)"
    if "e = d \<or> e \<in> set (tripDispatches db)" "td_status e = I_PENDING" for e
    using that p ok(4) unfolding dispatches_ok_def by blast
  moreover have "a = b" if "a = d \<or> a \<in> set (tripDispatches db)" "b = d \<or> b \<in> set (tripDispatches db)"
    "td_status a \<noteq> I_REJECTED" "td_status b \<noteq> I_REJECTED" "td_tenantId a = td_tenantId b" "td_tripId a = td_tripId b" for a b
    using that n ok(4) unfolding dispatches_ok_def by (metis (no_types, lifting))
  ultimately have "dispatches_ok db'" unfolding dispatches_ok_def s frame fz insert_iff Ball_def by blast
  moreover have "trips_ok db'" using ok(1) unfolding trips_ok_def frame .
  moreover have "ops_ok db'" using ok(2) unfolding ops_ok_def op_locks_def frame .
  moreover have "members_ok B db'" using ok(3) unfolding members_ok_def belongs_def frame .
  moreover have "cancel_ok B db'" using ok(5) unfolding cancel_ok_def frame .
  ultimately show "trp_but B db'" by (simp add: trp_but_def)
qed

text \<open>The part about one operation taken up again.\<close>

lemma trp_but_none:
  assumes ok: "trp_but {i} db" and p: "p \<in> set (tripOperations db)" "to_id p = i"
    and a: "\<And>m. to_kind p = K_ADD \<Longrightarrow> m \<in> set (tripShipments db) \<Longrightarrow> ts_operationId m = Some i \<Longrightarrow> member_pending m \<Longrightarrow>
      (ts_state m = M_CLAIM_PENDING \<longleftrightarrow> to_status p = O_PENDING)"
    and c: "\<And>m. to_kind p = K_CANCEL \<Longrightarrow> m \<in> set (tripShipments db) \<Longrightarrow> to_activeLock p = Some (trip_key m) \<Longrightarrow> ts_state m \<noteq> M_ACTIVE"
  shows "trp_ok db"
proof -
  note ok = trp_butD [OF ok]
  have only: "q = p" if "q \<in> set (tripOperations db)" "to_id q = i" for q
    using ok(2) p that unfolding ops_ok_def by (meson key_eq_imp_eq)
  have "works_on {} m q" if "m \<in> set (tripShipments db)" "member_pending m" "q \<in> set (tripOperations db)" "works_on {i} m q" for m q
    using that a only [of q] unfolding works_on_def by auto
  then have "members_ok {} db" using ok(3) unfolding members_ok_def by blast
  moreover have "cancel_ok {} db" using ok(5) c only unfolding cancel_ok_def by blast
  ultimately show ?thesis using ok by (simp add: trp_ok_def trp_but_def)
qed

end
