(* ===== verification/Transport_Steps.thy ===== *)
theory Transport_Steps
  imports Transport_Invariant
begin

text \<open>
  The transactions of the transport service keep the invariant and move the trips along their life cycle,
  and the service as a step relation: one step is one transaction of one of its operations.
\<close>

section \<open>Guards\<close>

lemma findTrip_D:
  "findTrip t i db = Some x \<Longrightarrow> x \<in> set (trips db) \<and> lock_of x = (t, i) \<and> dt_deletedAt x = None"
  by (auto simp: findTrip_def lock_of_def dest!: find_Some_D)

lemma loadTrip_D:
  "loadTrip t i db = Inr x \<Longrightarrow> x \<in> set (trips db) \<and> lock_of x = (t, i)"
  by (auto simp: loadTrip_def dest: findTrip_D split: option.splits)

lemma noLock_D: "noLock t i db = Inr u \<Longrightarrow> \<not> locked (t, i) db"
  by (auto simp: noLock_def lockHolder_def locked_def find_None_iff split: if_splits)

lemma assertNoPending_D:
  assumes "assertNoPending t i db = Inr u"
  shows "\<not> locked (t, i) db" "\<forall>d\<in>set (tripDispatches db). td_status d \<noteq> I_REJECTED \<longrightarrow> (td_tenantId d, td_tripId d) \<noteq> (t, i)"
proof -
  have l: "lockHolder t i db = None"
    and d: "\<forall>d\<in>set (tripDispatches db). \<not> (td_tenantId d = t \<and> td_tripId d = i \<and> td_status d \<noteq> I_REJECTED)"
    using assms by (auto simp: assertNoPending_def split: if_splits)
  show "\<not> locked (t, i) db" using l by (auto simp: lockHolder_def locked_def find_None_iff)
  show "\<forall>d\<in>set (tripDispatches db). td_status d \<noteq> I_REJECTED \<longrightarrow> (td_tenantId d, td_tripId d) \<noteq> (t, i)" using d by auto
qed

lemma assertTripVersion_D: "assertTripVersion e v = Inr u \<Longrightarrow> v = e"
  by (auto simp: assertTripVersion_def bind_res_Inr_iff split: if_splits)

lemma draftTrip_D:
  assumes "draftTrip t i v what db = Inr x"
  shows "x \<in> set (trips db)" "lock_of x = (t, i)" "dt_status x = T_DRAFT" "\<not> locked (t, i) db"
  using assms loadTrip_D [of t i db x] noLock_D [of t i db]
  by (auto simp: draftTrip_def bind_res_Inr_iff split: if_splits)

lemma routeTrip_D:
  assumes "routeTrip t i v s db = Inr x"
  shows "x \<in> set (trips db)" "lock_of x = (t, i)" "dt_status x = s" "dt_version x = v" "int v < MAX_SAFE_INTEGER"
    "\<not> locked (t, i) db" "\<forall>d\<in>set (tripDispatches db). td_status d \<noteq> I_REJECTED \<longrightarrow> (td_tenantId d, td_tripId d) \<noteq> (t, i)"
  using assms loadTrip_D [of t i db x] assertNoPending_D [of t i db]
  by (auto simp: routeTrip_def bind_res_Inr_iff split: if_splits)

text \<open>A trip that is not approved is not frozen.\<close>

lemma not_frozen:
  assumes "dispatches_ok db" "trips_ok db" "x \<in> set (trips db)" "dt_status x \<noteq> T_APPROVED"
  shows "\<forall>d\<in>set (tripDispatches db). td_status d = I_PENDING \<longrightarrow> (td_tenantId d, td_tripId d) \<noteq> lock_of x"
proof (intro ballI impI notI)
  fix d assume d: "d \<in> set (tripDispatches db)" "td_status d = I_PENDING" "(td_tenantId d, td_tripId d) = lock_of x"
  then obtain r y where "y \<in> set (trips db)" "freezes db d r y" using assms(1) unfolding dispatches_ok_def by blast
  moreover from this d(3) have "dt_id y = dt_id x" by (simp add: freezes_def lock_of_def)
  ultimately show False using assms(2-4) unfolding trips_ok_def freezes_def by (metis key_eq_imp_eq)
qed

lemma the_trip:
  assumes "trips_ok db" "x \<in> set (trips db)" "y \<in> set (trips db)" "dt_id y = dt_id x"
  shows "y = x"
  using assms unfolding trips_ok_def by (meson key_eq_imp_eq)

section \<open>What leaves the four tables alone\<close>

lemma core_frames:
  "same_core_tables db (setStops p f db)" "same_core_tables db (tripEvent t e ev i v q pay actor now db)"
  "same_core_tables db (clearSequence t i db)" "same_core_tables db (saveStop m s position db)"
  "same_core_tables db (db\<lparr> trp_next := n \<rparr>)" "same_core_tables db (db\<lparr> routePlans := rs \<rparr>)"
  by (simp_all add: same_core_tables_def setStops_def tripEvent_def clearSequence_def saveStop_def Let_def split: option.split)

lemma same_core_tables_trans: "same_core_tables a b \<Longrightarrow> same_core_tables b c \<Longrightarrow> same_core_tables a c"
  by (simp add: same_core_tables_def)

lemma createPlan_frame: "createPlan r db = Inr db' \<Longrightarrow> same_core_tables db db'"
  by (auto simp: createPlan_def same_core_tables_def split: if_splits)

lemma numberStops_frame: "numberStops t i n is db = Inr db' \<Longrightarrow> same_core_tables db db'"
proof (induction "is" arbitrary: n db)
  case (Cons j js)
  from Cons.prems have "numberStops t i (n + 1) js
    (setStops (\<lambda>p. ps_id p = j) (\<lambda>p. p\<lparr> ps_approvedSequence := Some n, ps_version := ps_version p + 1 \<rparr>) db) = Inr db'"
    by (auto split: if_splits)
  from Cons.IH [OF this] show ?case using core_frames(1) same_core_tables_trans by blast
qed (simp add: same_core_tables_def)

lemma trp_inbox_create_frame: "trp_inbox_create e out db = Inr db' \<Longrightarrow> same_core_tables db db'"
  by (auto simp: trp_inbox_create_def same_core_tables_def split: if_splits)

lemma createAttempt_frame: "createAttempt a db = Inr db' \<Longrightarrow> same_core_tables db db'"
  by (auto simp: createAttempt_def same_core_tables_def split: if_splits)

lemmas frame_keeps = core_frames [THEN same_core_tables_keeps] createPlan_frame [THEN same_core_tables_keeps]
  numberStops_frame [THEN same_core_tables_keeps] trp_inbox_create_frame [THEN same_core_tables_keeps]
  createAttempt_frame [THEN same_core_tables_keeps]

section \<open>Trips\<close>

lemma trip_change_totals: "trip_sound x \<Longrightarrow> trip_change db x (x\<lparr> dt_totalWeight := a, dt_totalVolume := b \<rparr>)"
  by (simp add: trip_change_def same_trip_def same_core_def resources_def trip_sound_def)

lemma recalculate_keeps: "recalculateTripTotals t i now db = Inr db' \<Longrightarrow> keeps_trp B db db'"
proof -
  assume "recalculateTripTotals t i now db = Inr db'"
  then obtain y where u: "updateTrip i (\<lambda>x. x\<lparr> dt_totalWeight := totalWeightOf (activeMembers t i db),
      dt_totalVolume := totalVolumeOf (activeMembers t i db) \<rparr>) now db = Inr (y, db')"
    by (auto simp: recalculateTripTotals_def Let_def bind_res_Inr_iff)
  show ?thesis
  proof (cases "trp_but B db")
    case True
    then show ?thesis using updateTrip_keeps [OF u trip_change_totals] trp_butD(1) [OF True] by (simp add: trips_ok_def)
  qed (simp add: keeps_trp_def)
qed

text \<open>A trip in planning gets a new version; an approved one must not be frozen.\<close>

lemma planning_change:
  assumes ok: "trp_but B db" and x: "x \<in> set (trips db)" "planning x" "planning y"
    and y: "same_trip x y" "dt_version x < dt_version y" "dt_driverId y = None \<longleftrightarrow> dt_driverUserId y = None"
    and f: "dt_status x = T_DRAFT \<or> (\<forall>d\<in>set (tripDispatches db). td_status d = I_PENDING \<longrightarrow> (td_tenantId d, td_tripId d) \<noteq> lock_of x)"
  shows "trip_change db x y"
proof -
  have "\<forall>d\<in>set (tripDispatches db). td_status d = I_PENDING \<longrightarrow> (td_tenantId d, td_tripId d) \<noteq> lock_of x"
    using f not_frozen [OF trp_butD(4,1) [OF ok] x(1)] by auto
  moreover have "dt_status y = dt_status x \<or> trip_life (dt_status x) (dt_status y)"
    using x(2,3) by (auto simp: planning_def intro: trip_life.intros)
  moreover have "dt_status y \<noteq> T_CANCELED" using x(3) by (auto simp: planning_def)
  ultimately show ?thesis using x y by (simp add: trip_change_def)
qed

lemma updateTrip_planning:
  assumes u: "updateTrip i f now db = Inr (y, db')" and x: "x \<in> set (trips db)" "dt_id x = i" "planning x" "planning (f x)"
    and y: "same_trip x (f x)" "dt_version x < dt_version (f x)"
      "trip_sound x \<Longrightarrow> dt_driverId (f x) = None \<longleftrightarrow> dt_driverUserId (f x) = None"
    and f: "dt_status x = T_DRAFT \<or> (\<forall>d\<in>set (tripDispatches db). td_status d = I_PENDING \<longrightarrow> (td_tenantId d, td_tripId d) \<noteq> lock_of x)"
  shows "keeps_trp B db db'"
proof (cases "trp_but B db")
  case True
  note t = trp_butD(1) [OF True]
  have "trip_sound x" using t x(1) by (simp add: trips_ok_def)
  from planning_change [OF True x(1,3,4) y(1,2) y(3) [OF this] f] show ?thesis
    using updateTrip_keeps [OF u] the_trip [OF t x(1)] x(2) by metis
qed (simp add: keeps_trp_def)

lemma bumpTrip_simps [simp]:
  "same_trip x (bumpTrip x)" "dt_version (bumpTrip x) = dt_version x + 1" "dt_status (bumpTrip x) = dt_status x"
  "dt_driverId (bumpTrip x) = dt_driverId x" "dt_driverUserId (bumpTrip x) = dt_driverUserId x"
  by (simp_all add: bumpTrip_def same_trip_def planning_def)

lemma trip_sound_driver: "trip_sound x \<Longrightarrow> dt_driverId x = None \<longleftrightarrow> dt_driverUserId x = None"
  by (simp add: trip_sound_def)

section \<open>Creating and changing a trip\<close>

lemma newTrip_sound: "trip_sound (newTrip stamp i t dto depot vehicle driver now)"
  by (simp add: trip_sound_def newTrip_def trip_totals_fit_def trip_row_ok_def trip_active_def)

lemma completedOperation_simps [simp]:
  "to_activeLock (completedOperation i t trip q a k h v now) = None"
  "op_open (to_status (completedOperation i t trip q a k h v now)) = False"
  by (simp_all add: completedOperation_def op_open_def)

lemma createTripTx_keeps:
  assumes "createTripTx env stamp user dto depot vehicle driver now db = Inr (i, db')"
  shows "keeps_trp B db db'"
proof -
  from assms obtain db1 where
    c: "createTrip (newTrip stamp (trp_next db) (us_tenantId user) dto depot vehicle driver now) (db\<lparr> trp_next := trp_next db + 2 \<rparr>) = Inr db1"
    and op: "createOperation (completedOperation (trp_next db + 1) (us_tenantId user) (trp_next db) (ce_requestId dto) (us_id user) K_CREATE
       (te_hash env (HashCreate dto)) 1 now) db1 = Inr db'"
    by (auto simp: createTripTx_def Let_def bind_res_Inr_iff)
  have "keeps_trp B db (db\<lparr> trp_next := trp_next db + 2 \<rparr>)" by (rule frame_keeps)
  also have "keeps_trp B \<dots> db1" by (rule createTrip_keeps [OF c _ newTrip_sound]) (simp add: newTrip_def)
  also have "keeps_trp B \<dots> db'" by (rule createOperation_done_keeps [OF op]) simp_all
  finally show ?thesis .
qed

lemma guardedTripUpdate_keeps:
  assumes g: "guardedTripUpdate t i v f now db = Inr (y, db')"
    and f: "\<And>x. same_trip x (f x) \<and> dt_version (f x) = dt_version x + 1 \<and> dt_status (f x) = dt_status x"
      "\<And>x. trip_sound x \<Longrightarrow> dt_driverId (f x) = None \<longleftrightarrow> dt_driverUserId (f x) = None"
  shows "keeps_trp B db db'"
proof -
  from g obtain x where x: "x \<in> set (trips db)" "dt_id x = i" "dt_status x = T_DRAFT" and u: "updateTrip i f now db = Inr (y, db')"
    by (auto simp: guardedTripUpdate_def bind_res_Inr_iff split: if_splits option.splits)
  show ?thesis by (rule updateTrip_planning [OF u x(1,2)]) (use x f in \<open>auto simp: planning_def\<close>)
qed

lemma editTrip_simps [simp]:
  "same_trip x (editTrip dto v d b x)" "dt_version (editTrip dto v d b x) = dt_version x + 1"
  "dt_status (editTrip dto v d b x) = dt_status x" "dt_driverId (editTrip dto v d b x) = d"
  "dt_driverUserId (editTrip dto v d b x) = map_option db_userId b"
  by (simp_all add: editTrip_def same_trip_def)

lemma updateDriverTx_keeps:
  assumes "updateDriverTx env user tripId kind dto vehicleId (Some driverId) (Some driver) now db = Inr db'"
  shows "keeps_trp B db db'"
proof -
  from assms obtain y v db1 where
    g: "guardedTripUpdate (us_tenantId user) tripId (ue_expectedVersion dto) (editTrip dto vehicleId (Some driverId) (Some driver)) now db = Inr (y, db1)"
    and op: "createOperation (completedOperation (trp_next db1) (us_tenantId user) tripId (ue_requestId dto) (us_id user) kind
          (te_hash env (HashUpdate kind tripId dto)) v now) (db1\<lparr> trp_next := trp_next db1 + 1 \<rparr>) = Inr db'"
    by (auto simp: updateDriverTx_def Let_def bind_res_Inr_iff)
  have "keeps_trp B db db1" by (rule guardedTripUpdate_keeps [OF g]) simp_all
  also have "keeps_trp B db1 (db1\<lparr> trp_next := trp_next db1 + 1 \<rparr>)" by (rule frame_keeps)
  also have "keeps_trp B \<dots> db'" by (rule createOperation_done_keeps [OF op]) simp_all
  finally show ?thesis .
qed

lemma editLocal_simps:
  "same_trip x (editLocal dto x)" "dt_version (editLocal dto x) = dt_version x + 1" "dt_status (editLocal dto x) = dt_status x"
  "trip_sound x \<Longrightarrow> dt_driverId (editLocal dto x) = None \<longleftrightarrow> dt_driverUserId (editLocal dto x) = None"
  by (simp_all add: editLocal_def same_trip_def trip_sound_def Let_def)

lemma updateLocalTx_keeps: "updateLocalTx user tripId dto now db = Inr db' \<Longrightarrow> keeps_trp B db db'"
  unfolding updateLocalTx_def bind_res_Inr_iff by (auto intro!: guardedTripUpdate_keeps simp: editLocal_simps)

section \<open>Adding shipments\<close>

lemma newOperation_simps [simp]:
  "to_id (newOperation i t trip q a k h ss ms r now) = i" "to_tenantId (newOperation i t trip q a k h ss ms r now) = t"
  "to_tripId (newOperation i t trip q a k h ss ms r now) = Some trip" "to_kind (newOperation i t trip q a k h ss ms r now) = k"
  "to_status (newOperation i t trip q a k h ss ms r now) = O_PENDING"
  "to_activeLock (newOperation i t trip q a k h ss ms r now) = Some (t, trip)"
  by (simp_all add: newOperation_def)

lemma op_open_simps [simp]: "op_open O_PENDING" "op_open O_COMPENSATING" "\<not> op_open O_COMPLETED" "\<not> op_open O_REJECTED"
  by (simp_all add: op_open_def)

text \<open>The operation of a request is saved: its trip is in planning, and no dispatch freezes it.\<close>

lemma newOperation_opens:
  assumes c: "createOperation (newOperation i t trip q a k h ss ms r now) (db\<lparr> trp_next := n \<rparr>) = Inr db1" and ok: "trp_ok db"
    and x: "x \<in> set (trips db)" "lock_of x = (t, trip)" "planning x"
    and f: "\<forall>d\<in>set (tripDispatches db). td_status d = I_PENDING \<longrightarrow> (td_tenantId d, td_tripId d) \<noteq> (t, trip)"
    and k: "k = K_CANCEL \<longrightarrow> i \<in> B"
  shows "trp_but B db1" "trips db1 = trips db" "tripDispatches db1 = tripDispatches db" "tripShipments db1 = tripShipments db"
    "newOperation i t trip q a k h ss ms r now \<in> set (tripOperations db1)"
proof -
  let ?p = "newOperation i t trip q a k h ss ms r now"
  show "trips db1 = trips db" "tripDispatches db1 = tripDispatches db" "tripShipments db1 = tripShipments db"
    "?p \<in> set (tripOperations db1)" using createOperation_D [OF c] by simp_all
  have "keeps_trp B db (db\<lparr> trp_next := n \<rparr>)" by (rule frame_keeps)
  then have "trp_but B (db\<lparr> trp_next := n \<rparr>)" using keeps_trpD trp_but_mono ok unfolding trp_ok_def by blast
  then show "trp_but B db1"
    by (rule createOperation_opens [OF c, of B x]) (use x f k in \<open>auto simp: lock_of_def\<close>)
qed

lemma newMember_simps [simp]:
  "ts_state (newMember user trip op v i c item now) = M_CLAIM_PENDING" "member_live (newMember user trip op v i c item now)"
  "ts_operationId (newMember user trip op v i c item now) = Some op"
  "trip_key (newMember user trip op v i c item now) = (us_tenantId user, dt_id trip)"
  by (simp_all add: newMember_def member_live_def trip_key_def)

lemma createMembers_keeps:
  assumes "createMembers (newMembers user trip op v n items now) db = Inr db'"
    "p \<in> set (tripOperations db)" "to_id p = op" "to_kind p = K_ADD" "to_status p = O_PENDING"
    "to_activeLock p = Some (us_tenantId user, dt_id trip)"
  shows "keeps_trp B db db' \<and> tripOperations db' = tripOperations db \<and> trips db' = trips db \<and> tripDispatches db' = tripDispatches db"
  using assms
proof (induction items arbitrary: n db)
  case (Cons item items)
  let ?m = "newMember user trip op v n (n + 1) item now"
  from Cons.prems(1) obtain db1 where c: "createMember ?m db = Inr db1"
    and r: "createMembers (newMembers user trip op v (n + 2) items now) db1 = Inr db'" by (auto simp: bind_res_Inr_iff)
  have f: "tripOperations db1 = tripOperations db" "trips db1 = trips db" "tripDispatches db1 = tripDispatches db"
    using c by (auto simp: createMember_def split: if_splits)
  have "keeps_trp B db db1"
    by (rule createMember_keeps [OF c _ _ Cons.prems(2)]) (use Cons.prems in \<open>simp_all add: works_on_def\<close>)
  with Cons.IH [OF r] Cons.prems f show ?case using keeps_trp_trans by metis
qed simp

lemma addTx_keeps:
  assumes "addTx env user tripId dto now db = Inr (i, db')"
  shows "keeps_trp {} db db'"
proof -
  let ?t = "us_tenantId user" and ?i = "trp_next db"
  from assms obtain trip v db1 db2 y ms where d: "draftTrip ?t tripId (ad_expectedTripVersion dto) ''ADD_SHIPMENTS'' db = Inr trip"
    and ms: "ms = newMembers user trip ?i v (?i + 1) (ad_shipments dto) now"
    and c: "createOperation (newOperation ?i ?t tripId (ad_requestId dto) (us_id user) K_ADD (te_hash env (HashAdd tripId dto))
        (map ai_shipmentId (ad_shipments dto)) (map ts_id ms) None now) (db\<lparr> trp_next := ?i + 1 + 2 * length ms \<rparr>) = Inr db1"
    and m: "createMembers ms db1 = Inr db2" and u: "updateTrip tripId bumpTrip now db2 = Inr (y, db')"
    by (auto simp: addTx_def Let_def bind_res_Inr_iff split: if_splits)
  note D = draftTrip_D [OF d]
  have dt: "dt_id trip = tripId" "dt_tenantId trip = ?t" using D(2) by (simp_all add: lock_of_def)
  show ?thesis unfolding keeps_trp_def
  proof (intro impI)
    assume "trp_but {} db"
    then have ok: "trp_ok db" by (simp add: trp_ok_def)
    note p = trp_butD [OF ok [unfolded trp_ok_def]]
    have fz: "\<forall>d\<in>set (tripDispatches db). td_status d = I_PENDING \<longrightarrow> (td_tenantId d, td_tripId d) \<noteq> (?t, tripId)"
      using not_frozen [OF p(4,1) D(1)] D(2,3) by simp
    have "planning trip" using D(3) by (simp add: planning_def)
    note O = newOperation_opens [OF c ok D(1,2) this fz, of "{}", simplified]
    note M = createMembers_keeps [OF m [unfolded ms] O(5)]
    have k: "keeps_trp {} db1 db2" "trips db2 = trips db" using M dt O(2) by simp_all
    have "keeps_trp {} db2 db'"
      by (rule updateTrip_planning [OF u, of trip]) (use k(2) D dt in \<open>simp_all add: planning_def trip_sound_driver\<close>)
    with k(1) have "keeps_trp {} db1 db'" by (rule keeps_trp_trans)
    then show "trp_but {} db' \<and> trips_evolve db db'" using O(1) O(2) by (simp add: keeps_trp_def trips_evolve_def)
  qed
qed

section \<open>Memberships that leave\<close>

lemma member_frames [simp]:
  "trips (setMember i f db) = trips db" "tripOperations (setMember i f db) = tripOperations db"
  "tripDispatches (setMember i f db) = tripDispatches db"
  by (simp_all add: setMember_def)

text \<open>The memberships named by \<open>I\<close> are on the trip \<open>k\<close> and have not left it.\<close>

definition on_trip :: "uuid \<times> uuid \<Rightarrow> uuid set \<Rightarrow> trp_db \<Rightarrow> bool" where
  "on_trip k I db \<longleftrightarrow> (\<forall>x\<in>set (tripShipments db). ts_id x \<in> I \<longrightarrow> trip_key x = k \<and> member_live x)"

lemma on_trip_active:
  assumes ok: "trp_but B db" and ms: "set ms \<subseteq> set (activeMembers t i db)"
  shows "on_trip (t, i) (ts_id ` set ms) db"
proof -
  have d: "distinct (map ts_id (tripShipments db))" using trp_butD(3) [OF ok] by (simp add: members_ok_def)
  show ?thesis unfolding on_trip_def
  proof (intro ballI impI)
    fix x assume x: "x \<in> set (tripShipments db)" "ts_id x \<in> ts_id ` set ms"
    then obtain m where m: "m \<in> set ms" "ts_id x = ts_id m" by auto
    then have "m \<in> set (tripShipments db)" "trip_key m = (t, i)" "member_live m"
      using ms by (auto simp: activeMembers_def trip_key_def)
    moreover from this have "x = m" using d x(1) m(2) key_eq_imp_eq by metis
    ultimately show "trip_key x = (t, i) \<and> member_live x" by simp
  qed
qed

definition leaving :: "uuid \<Rightarrow> trip_shipment \<Rightarrow> trip_shipment \<Rightarrow> bool" where
  "leaving i x y \<longleftrightarrow> ts_id y = ts_id x \<and> trip_key y = trip_key x \<and> same_shipment y x \<and> ts_removedAt y = ts_removedAt x \<and>
     ts_state y = M_RELEASE_PENDING \<and> ts_operationId y = Some i"

definition releaser :: "uuid \<times> uuid \<Rightarrow> uuid \<Rightarrow> trp_db \<Rightarrow> bool" where
  "releaser k i db \<longleftrightarrow> (\<exists>p\<in>set (tripOperations db). to_id p = i \<and> op_open (to_status p) \<and> to_activeLock p = Some k \<and> to_kind p \<noteq> K_ADD)"

lemma leaving_keeps:
  assumes r: "releaser k i db" and o: "on_trip k {j} db" and f: "\<And>x. leaving i x (f x)"
  shows "keeps_trp B db (setMember j f db)"
proof (rule setMember_keeps)
  fix x assume "x \<in> set (tripShipments db)" "ts_id x = j"
  then have x: "trip_key x = k" "member_live x" using o by (auto simp: on_trip_def)
  from r obtain p where "p \<in> set (tripOperations db)" "to_id p = i" "op_open (to_status p)" "to_activeLock p = Some k" "to_kind p \<noteq> K_ADD"
    by (auto simp: releaser_def)
  then have "\<exists>p\<in>set (tripOperations db). works_on B (f x) p" using f [of x] x unfolding works_on_def leaving_def by auto
  then show "member_change B db x (f x)"
    using f [of x] x(2) by (auto simp: member_change_def leaving_def member_live_def member_pending_def)
qed

text \<open>What a loop of releases does: the named memberships leave, the others stay as they are.\<close>

definition released_all :: "uuid set \<Rightarrow> uuid set \<Rightarrow> trp_db \<Rightarrow> trp_db \<Rightarrow> bool" where
  "released_all B I db db' \<longleftrightarrow> keeps_trp B db db' \<and> trips db' = trips db \<and> tripOperations db' = tripOperations db \<and>
     tripDispatches db' = tripDispatches db \<and>
     (\<forall>x\<in>set (tripShipments db'). ts_state x = M_ACTIVE \<longrightarrow> x \<in> set (tripShipments db) \<and> ts_id x \<notin> I)"

lemma releaseMembers_all:
  assumes "releaseMembers i actor v why ms db = Inr db'" "releaser k i db" "on_trip k (ts_id ` set ms) db"
  shows "released_all B (ts_id ` set ms) db db'"
  using assms
proof (induction ms arbitrary: db)
  case (Cons m ms)
  from Cons.prems(1) obtain q where q: "releaseMembers i actor v why ms (setMember (ts_id m) (\<lambda>x. x\<lparr> ts_operationId := Some i,
      ts_state := M_RELEASE_PENDING, ts_releaseRequest := Some q \<rparr>) (db\<lparr> trp_next := trp_next db + 1 \<rparr>)) = Inr db'"
    by (auto simp: bind_res_Inr_iff)
  define f :: "trip_shipment \<Rightarrow> trip_shipment"
    where "f = (\<lambda>x. x\<lparr> ts_operationId := Some i, ts_state := M_RELEASE_PENDING, ts_releaseRequest := Some q \<rparr>)"
  define db0 where "db0 = db\<lparr> trp_next := trp_next db + 1 \<rparr>"
  have f: "leaving i x (f x)" for x by (simp add: f_def leaving_def trip_key_def same_shipment_def)
  have tables [simp]: "trips db0 = trips db" "tripOperations db0 = tripOperations db" "tripDispatches db0 = tripDispatches db"
    "tripShipments db0 = tripShipments db" by (simp_all add: db0_def)
  have k0: "keeps_trp B db db0" unfolding db0_def by (rule frame_keeps)
  have r: "releaser k i db0" using Cons.prems(2) by (simp add: releaser_def)
  have k: "keeps_trp B db (setMember (ts_id m) f db0)"
    using k0 leaving_keeps [OF r _ f, of "ts_id m" B] Cons.prems(3) keeps_trp_trans by (auto simp: on_trip_def)
  have "trip_key (f x) = trip_key x \<and> member_live (f x) = member_live x \<and> ts_id (f x) = ts_id x" for x
    using f [of x] by (simp add: leaving_def member_live_def)
  then have o: "on_trip k (ts_id ` set ms) (setMember (ts_id m) f db0)"
    using Cons.prems(3) unfolding on_trip_def setMember_set by auto
  have "releaser k i (setMember (ts_id m) f db0)" using r by (simp add: releaser_def)
  from Cons.IH [OF q [folded f_def db0_def] this o] have IH: "released_all B (ts_id ` set ms) (setMember (ts_id m) f db0) db'" .
  have "x \<in> set (tripShipments db) \<and> ts_id x \<noteq> ts_id m"
    if "x \<in> set (tripShipments (setMember (ts_id m) f db0))" "ts_state x = M_ACTIVE" for x
    using that f unfolding setMember_set leaving_def by (auto split: if_splits)
  then show ?case using IH keeps_trp_trans [OF k] unfolding released_all_def by auto
qed (auto simp: released_all_def)

lemma toSafeVersion_D: "toSafeVersion v = Inr w \<Longrightarrow> w = v"
  by (auto simp: toSafeVersion_def split: if_splits)

lemma cancelMembers_release:
  "cancelMembers i actor v ms db = Inr db' \<Longrightarrow> releaseMembers i actor v ''TRIP_CANCELED'' ms db = Inr db'"
proof (induction ms arbitrary: db)
  case (Cons m ms)
  then show ?case by (auto simp: bind_res_Inr_iff split: if_splits dest!: toSafeVersion_D)
qed simp

lemma newOperation_releaser:
  "newOperation i t trip q a k h ss ms r now \<in> set (tripOperations db) \<Longrightarrow> k \<noteq> K_ADD \<Longrightarrow> releaser (t, trip) i db"
  unfolding releaser_def by (rule bexI) simp_all

lemma removeTx_keeps:
  assumes "removeTx env user tripId dto now db = Inr (i, db')"
  shows "keeps_trp {} db db'"
proof -
  let ?t = "us_tenantId user" and ?i = "trp_next db"
  from assms obtain trip ms v db1 db2 y where d: "draftTrip ?t tripId (rm_expectedTripVersion dto) ''REMOVE_SHIPMENTS'' db = Inr trip"
    and ms: "ms = filter (\<lambda>m. ts_shipmentId m \<in> set (rm_shipmentIds dto)) (activeMembers ?t tripId db)"
    and c: "createOperation (newOperation ?i ?t tripId (rm_requestId dto) (us_id user) K_REMOVE (te_hash env (HashRemove tripId dto))
        (rm_shipmentIds dto) (map ts_id ms) (Some ''REMOVED_FROM_TRIP'') now) (db\<lparr> trp_next := ?i + 1 \<rparr>) = Inr db1"
    and m: "releaseMembers ?i (us_id user) v ''REMOVED_FROM_TRIP'' ms db1 = Inr db2" and u: "updateTrip tripId bumpTrip now db2 = Inr (y, db')"
    by (auto simp: removeTx_def Let_def bind_res_Inr_iff split: if_splits)
  note D = draftTrip_D [OF d]
  have dt: "dt_id trip = tripId" "dt_tenantId trip = ?t" using D(2) by (simp_all add: lock_of_def)
  show ?thesis unfolding keeps_trp_def
  proof (intro impI)
    assume "trp_but {} db"
    then have ok: "trp_ok db" by (simp add: trp_ok_def)
    note p = trp_butD [OF ok [unfolded trp_ok_def]]
    have fz: "\<forall>d\<in>set (tripDispatches db). td_status d = I_PENDING \<longrightarrow> (td_tenantId d, td_tripId d) \<noteq> (?t, tripId)"
      using not_frozen [OF p(4,1) D(1)] D(2,3) by simp
    have pl: "planning trip" using D(3) by (simp add: planning_def)
    have "K_REMOVE = K_CANCEL \<longrightarrow> ?i \<in> {}" by simp
    note O = newOperation_opens [OF c ok D(1,2) pl fz this]
    note ok1 = O(1)
    have "set ms \<subseteq> set (activeMembers ?t tripId db1)" by (auto simp: ms activeMembers_def O(4))
    then have "on_trip (?t, tripId) (ts_id ` set ms) db1" by (rule on_trip_active [OF ok1])
    from releaseMembers_all [OF m newOperation_releaser [OF O(5)] this, of "{}"]
    have R: "keeps_trp {} db1 db2" "trips db2 = trips db1" by (simp_all add: released_all_def)
    have "keeps_trp {} db2 db'"
      by (rule updateTrip_planning [OF u, of trip]) (use R(2) O(2) D dt in \<open>simp_all add: planning_def trip_sound_driver\<close>)
    with R(1) have "keeps_trp {} db1 db'" by (rule keeps_trp_trans)
    then show "trp_but {} db' \<and> trips_evolve db db'" using ok1 O(2) by (simp add: keeps_trp_def trips_evolve_def)
  qed
qed

section \<open>Cancellations\<close>

lemma updateTrip_frame:
  "updateTrip i f now db = Inr (y, db') \<Longrightarrow> tripShipments db' = tripShipments db \<and> tripOperations db' = tripOperations db \<and>
     tripDispatches db' = tripDispatches db"
  using updateTrip_D by fastforce

lemma cancelable_planning: "cancelable trip = Inr u \<Longrightarrow> planning trip"
  by (auto simp: cancelable_def planning_def split: if_splits)

lemma trips_evolve_same: "trips db' = trips db \<Longrightarrow> trips_evolve db db'"
  unfolding trips_evolve_def using trip_becomes_refl by metis

lemma keeps_some: "keeps_trp B db db' \<Longrightarrow> trp_but B db \<Longrightarrow> trp_but B db' \<and> trips_evolve db db'"
  by (simp add: keeps_trp_def)

lemma cancelTx_keeps:
  assumes "cancelTx env user tripId dto claims now db = Inr (i, db')"
  shows "keeps_trp {} db db'"
proof -
  let ?t = "us_tenantId user" and ?i = "trp_next db"
  let ?p = "newOperation ?i ?t tripId (cn_requestId dto) (us_id user) K_CANCEL (te_hash env (HashCancel tripId dto))
    (map ts_shipmentId (releasableMembers ?t tripId db)) (map ts_id (releasableMembers ?t tripId db)) (Some (cn_reason dto)) now"
  from assms obtain trip u db1 db2 y u' v where a: "assertNoPending ?t tripId db = Inr u" and l: "loadTrip ?t tripId db = Inr trip"
    and cl: "cancelable trip = Inr u'" and c: "createOperation ?p (db\<lparr> trp_next := ?i + 1 \<rparr>) = Inr db1"
    and m: "cancelMembers ?i (us_id user) v (releasableMembers ?t tripId db) db1 = Inr db2"
    and up: "updateTrip tripId bumpTrip now db2 = Inr (y, db')"
    by (auto simp: cancelTx_def Let_def bind_res_Inr_iff split: if_splits)
  define rows where "rows = releasableMembers ?t tripId db"
  have D: "trip \<in> set (trips db)" "lock_of trip = (?t, tripId)" "planning trip" using loadTrip_D [OF l] cancelable_planning [OF cl] by simp_all
  have dt: "dt_id trip = tripId" "dt_tenantId trip = ?t" using D(2) by (simp_all add: lock_of_def)
  have fz: "\<forall>d\<in>set (tripDispatches db). td_status d = I_PENDING \<longrightarrow> (td_tenantId d, td_tripId d) \<noteq> (?t, tripId)"
    using assertNoPending_D(2) [OF a] by auto
  show ?thesis unfolding keeps_trp_def
  proof (intro impI)
    assume "trp_but {} db"
    then have ok: "trp_ok db" by (simp add: trp_ok_def)
    have "K_CANCEL = K_CANCEL \<longrightarrow> ?i \<in> {?i}" by simp
    note O = newOperation_opens [OF c ok D fz this]
    have "set rows \<subseteq> set (activeMembers ?t tripId db1)" by (auto simp: rows_def releasableMembers_def activeMembers_def O(4))
    then have "on_trip (?t, tripId) (ts_id ` set rows) db1" by (rule on_trip_active [OF O(1)])
    from releaseMembers_all [OF cancelMembers_release [OF m [folded rows_def]] newOperation_releaser [OF O(5)] this, of "{?i}"]
    have R: "keeps_trp {?i} db1 db2" "trips db2 = trips db1" "tripOperations db2 = tripOperations db1" "tripDispatches db2 = tripDispatches db1"
      and left: "\<And>x. x \<in> set (tripShipments db2) \<Longrightarrow> ts_state x = M_ACTIVE \<Longrightarrow> x \<in> set (tripShipments db1) \<and> ts_id x \<notin> ts_id ` set rows"
      by (simp_all add: released_all_def)
    have "keeps_trp {?i} db2 db'"
      by (rule updateTrip_planning [OF up, of trip]) (use R O D dt fz in \<open>simp_all add: planning_def trip_sound_driver\<close>)
    with R(1) have k: "keeps_trp {?i} db1 db'" by (rule keeps_trp_trans)
    note k' = keeps_some [OF k O(1)]
    have p: "?p \<in> set (tripOperations db')" using O(5) R(3) updateTrip_frame [OF up] by simp
    have "trp_ok db'"
    proof (rule trp_but_none [OF conjunct1 [OF k'] p])
      fix x assume x: "x \<in> set (tripShipments db')" "to_activeLock ?p = Some (trip_key x)"
      show "ts_state x \<noteq> M_ACTIVE"
      proof
        assume act: "ts_state x = M_ACTIVE"
        then have "x \<in> set (tripShipments db)" "ts_id x \<notin> ts_id ` set rows" using left x(1) updateTrip_frame [OF up] O(4) by auto
        moreover from this trp_butD(3) [OF ok [unfolded trp_ok_def]] act have "member_live x" by (simp add: members_ok_def)
        ultimately show False using act x(2) by (auto simp: rows_def releasableMembers_def activeMembers_def trip_key_def)
      qed
    qed simp_all
    then show "trp_but {} db' \<and> trips_evolve db db'" using k' O(2) by (simp add: trp_ok_def trips_evolve_def)
  qed
qed

lemma liveMember_D:
  "liveMember t s db = Some m \<Longrightarrow> m \<in> set (tripShipments db) \<and> member_live m \<and> ts_tenantId m = t \<and> ts_state m \<noteq> M_RELEASED"
  by (auto simp: liveMember_def dest!: find_Some_D)

lemma on_trip_member:
  assumes "trp_but B db" "m \<in> set (tripShipments db)" "member_live m"
  shows "on_trip (trip_key m) {ts_id m} db"
proof -
  have "distinct (map ts_id (tripShipments db))" using trp_butD(3) [OF assms(1)] by (simp add: members_ok_def)
  then have "x = m" if "x \<in> set (tripShipments db)" "ts_id x = ts_id m" for x using that assms(2) by (meson key_eq_imp_eq)
  then show ?thesis using assms(3) by (auto simp: on_trip_def)
qed

lemma cancelMemberTx_keeps:
  assumes c: "cancelMemberTx event m now db = Inr (i, db')" and m: "m \<in> set (tripShipments db)" "member_live m" "ts_tenantId m = ev_tenantId event"
  shows "keeps_trp {} db db'"
proof -
  let ?t = "ev_tenantId event" and ?i = "trp_next db"
  from c obtain trip a k u q db1 y db5 where f: "findTrip ?t (ts_tripId m) db = Some trip"
    and st: "planning trip" and a: "assertNoPending ?t (dt_id trip) db = Inr u"
    and o: "createOperation (newOperation ?i ?t (ts_tripId m) (ev_eventId event) a K_SHIPMENT_CANCELED (uuid_text (ev_eventId event))
        [ts_shipmentId m] [ts_id m] (Some ''SHIPMENT_CANCELED'') now) (db\<lparr> trp_next := ?i + 2 \<rparr>) = Inr db1"
    and up: "updateTrip (ts_tripId m) k now
       (setStops (\<lambda>p. ps_tenantId p = ?t \<and> ps_tripId p = ts_tripId m \<and> ps_shipmentId p = ts_shipmentId m \<and> stop_live p)
          (\<lambda>p. p\<lparr> ps_deletedAt := Some now, ps_version := ps_version p + 1 \<rparr>)
         (setStops (\<lambda>p. ps_tenantId p = ?t \<and> ps_tripId p = ts_tripId m) (\<lambda>p. p\<lparr> ps_approvedSequence := None \<rparr>)
           (setMember (ts_id m) (\<lambda>x. x\<lparr> ts_operationId := Some ?i, ts_state := M_RELEASE_PENDING,
              ts_shipmentVersion := Some (ev_aggregateVersion event), ts_releaseRequest := Some q \<rparr>) db1))) = Inr (y, db5)"
    and k: "\<And>x. same_trip x (k x) \<and> dt_version (k x) = dt_version x + 1 \<and> dt_status (k x) = T_DRAFT \<and>
        dt_driverId (k x) = dt_driverId x \<and> dt_driverUserId (k x) = dt_driverUserId x"
    and ib: "trp_inbox_create event ''APPLIED'' db5 = Inr db'"
    by (auto simp: cancelMemberTx_def Let_def bind_res_Inr_iff planning_def same_trip_def split: option.splits if_splits)
  note D = findTrip_D [OF f]
  have dt: "dt_id trip = ts_tripId m" "dt_tenantId trip = ?t" using D by (simp_all add: lock_of_def)
  have fz: "\<forall>d\<in>set (tripDispatches db). td_status d = I_PENDING \<longrightarrow> (td_tenantId d, td_tripId d) \<noteq> (?t, ts_tripId m)"
    using assertNoPending_D(2) [OF a] dt by auto
  show ?thesis unfolding keeps_trp_def
  proof (intro impI)
    assume "trp_but {} db"
    then have ok: "trp_ok db" by (simp add: trp_ok_def)
    have "K_SHIPMENT_CANCELED = K_CANCEL \<longrightarrow> ?i \<in> {}" by simp
    note O = newOperation_opens [OF o ok conjunct1 [OF D] conjunct1 [OF conjunct2 [OF D]] st fz this]
    have r: "releaser (?t, ts_tripId m) ?i db1" by (rule newOperation_releaser [OF O(5)]) simp
    have "on_trip (?t, ts_tripId m) {ts_id m} db1"
      using on_trip_member [OF O(1), of m] m O(4) by (simp add: trip_key_def)
    note k1 = leaving_keeps [OF r this, of "\<lambda>x. x\<lparr> ts_operationId := Some ?i, ts_state := M_RELEASE_PENDING,
              ts_shipmentVersion := Some (ev_aggregateVersion event), ts_releaseRequest := Some q \<rparr>" "{}"]
    have "keeps_trp {} db1 db5"
      using keeps_trp_trans [OF keeps_trp_trans [OF keeps_trp_trans [OF k1 frame_keeps(1)] frame_keeps(1)] updateTrip_planning [OF up, of trip "{}"]]
        k O D dt st fz by (simp add: leaving_def trip_key_def same_shipment_def planning_def trip_sound_driver setStops_def)
    from keeps_trp_trans [OF this frame_keeps(9) [OF ib]]
    show "trp_but {} db' \<and> trips_evolve db db'" using O(1,2) by (simp add: keeps_trp_def trips_evolve_def)
  qed
qed

lemma shipmentCanceledTx_keeps:
  assumes "shipmentCanceledTx event now db = Inr (i, db')"
  shows "keeps_trp {} db db'"
  using assms frame_keeps(9) [of event _ db db' "{}"]
  by (auto simp: shipmentCanceledTx_def bind_res_Inr_iff split: if_splits option.splits dest!: liveMember_D elim!: cancelMemberTx_keeps)

section \<open>Saving replies\<close>

lemma findMember_D:
  assumes "trp_but B db" "findMember i db = Some m"
  shows "m \<in> set (tripShipments db)" "ts_id m = i" "x \<in> set (tripShipments db) \<Longrightarrow> ts_id x = i \<Longrightarrow> x = m"
proof -
  show m: "m \<in> set (tripShipments db)" "ts_id m = i" using assms(2) by (auto simp: findMember_def dest!: find_Some_D)
  have "distinct (map ts_id (tripShipments db))" using trp_butD(3) [OF assms(1)] by (simp add: members_ok_def)
  then show "x \<in> set (tripShipments db) \<Longrightarrow> ts_id x = i \<Longrightarrow> x = m" using m by (auto dest: key_eq_imp_eq)
qed

text \<open>A membership whose claim is pending waits for an operation that adds shipments.\<close>

lemma pending_works_on:
  "trp_but B db \<Longrightarrow> m \<in> set (tripShipments db) \<Longrightarrow> member_pending m \<Longrightarrow> \<exists>p\<in>set (tripOperations db). works_on B m p"
  by (simp add: trp_but_def members_ok_def)

lemma claim_pending_adder:
  assumes "trp_but B db" "m \<in> set (tripShipments db)" "ts_state m = M_CLAIM_PENDING"
  shows "\<exists>p\<in>set (tripOperations db). to_activeLock p = Some (trip_key m) \<and> to_kind p \<noteq> K_CANCEL"
  using pending_works_on [OF assms(1,2)] assms(3) unfolding member_pending_def works_on_def by fastforce

lemma member_state_live:
  "trp_but B db \<Longrightarrow> m \<in> set (tripShipments db) \<Longrightarrow> member_live m \<longleftrightarrow> ts_state m \<noteq> M_RELEASED"
  by (simp add: trp_but_def members_ok_def)

lemma persistClaim_keeps:
  assumes "persistClaim m0 receipt s now db = Inr db'"
  shows "keeps_trp {} db db'"
proof -
  from assms obtain position m where f: "findMember (ts_id m0) db = Some m"
    and c: "db' = db \<or> ts_state m = M_CLAIM_PENDING \<and>
      recalculateTripTotals (ts_tenantId m) (ts_tripId m) now (setMember (ts_id m) (activateMember receipt s) (saveStop m s position db)) = Inr db'"
    by (auto simp: persistClaim_def bind_res_Inr_iff split: option.splits if_splits)
  define g :: "trip_shipment \<Rightarrow> trip_shipment" where "g = activateMember receipt s"
  have g: "ts_id (g x) = ts_id x" "trip_key (g x) = trip_key x" "same_shipment (g x) x" "member_live (g x) = member_live x"
    "ts_state (g x) = M_ACTIVE" "ts_operationId (g x) = ts_operationId x" for x
    by (simp_all add: g_def activateMember_def trip_key_def same_shipment_def member_live_def)
  show ?thesis unfolding keeps_trp_def
  proof (intro impI)
    assume ok: "trp_but {} db"
    note F = findMember_D [OF ok f]
    show "trp_but {} db' \<and> trips_evolve db db'"
    proof (cases "db' = db")
      case False
      then have st: "ts_state m = M_CLAIM_PENDING"
        and r: "recalculateTripTotals (ts_tenantId m) (ts_tripId m) now (setMember (ts_id m) g (saveStop m s position db)) = Inr db'"
        using c by (simp_all add: g_def)
      have t: "same_core_tables db (saveStop m s position db)" by (rule core_frames)
      have "keeps_trp {} (saveStop m s position db) (setMember (ts_id m) g (saveStop m s position db))"
      proof (rule setMember_keeps)
        fix x assume "x \<in> set (tripShipments (saveStop m s position db))" "ts_id x = ts_id m"
        then have "x = m" using F(3) [of x] F(2) t by (simp add: same_core_tables_def)
        then show "member_change {} (saveStop m s position db) x (g x)"
          using g [of m] st claim_pending_adder [OF ok F(1) st] member_state_live [OF ok F(1)] t
          by (simp add: member_change_def member_pending_def same_core_tables_def)
      qed
      from keeps_trp_trans [OF keeps_trp_trans [OF same_core_tables_keeps [OF t] this] recalculate_keeps [OF r]]
      show ?thesis using ok by (simp add: keeps_trp_def)
    qed (use ok in simp)
  qed
qed

lemma persistRelease_keeps:
  assumes "persistRelease i receipt now db = Inr db'"
  shows "keeps_trp B db db'"
proof -
  from assms obtain t j p f where "db' = db \<or>
      recalculateTripTotals t j now (setStops p f (setMember i (releasedMember receipt now) db)) = Inr db'"
    by (auto simp: persistRelease_def split: option.splits if_splits)
  moreover have "keeps_trp B db (setMember i (releasedMember receipt now) db)"
    by (rule setMember_keeps) (simp add: member_change_def releasedMember_def trip_key_def same_shipment_def member_live_def member_pending_def)
  then have "keeps_trp B db (setStops p f (setMember i (releasedMember receipt now) db))" using frame_keeps(1) by (rule keeps_trp_trans)
  ultimately show ?thesis using keeps_trp_trans [OF _ recalculate_keeps] by blast
qed

section \<open>Compensation\<close>

text \<open>The rows of the list are those of the table, and they wait for the operation \<open>i\<close> on the trip \<open>k\<close>.\<close>

definition current_rows :: "uuid \<Rightarrow> uuid \<times> uuid \<Rightarrow> trip_shipment list \<Rightarrow> trp_db \<Rightarrow> bool" where
  "current_rows i k ms db \<longleftrightarrow> distinct (map ts_id ms) \<and>
     (\<forall>m\<in>set ms. ts_operationId m = Some i \<and> trip_key m = k \<and> (member_live m \<longleftrightarrow> ts_state m \<noteq> M_RELEASED)) \<and>
     (\<forall>m\<in>set ms. \<forall>x\<in>set (tripShipments db). ts_id x = ts_id m \<longrightarrow> x = m)"

definition adder :: "uuid \<times> uuid \<Rightarrow> uuid \<Rightarrow> trp_db \<Rightarrow> bool" where
  "adder k i db \<longleftrightarrow> (\<exists>p\<in>set (tripOperations db). to_id p = i \<and> op_open (to_status p) \<and> to_activeLock p = Some k \<and> to_kind p = K_ADD)"

text \<open>Which change of a row the compensation makes.\<close>

definition compensates :: "trip_shipment \<Rightarrow> trip_shipment \<Rightarrow> bool" where
  "compensates x y \<longleftrightarrow> ts_id y = ts_id x \<and> trip_key y = trip_key x \<and> same_shipment y x \<and> ts_operationId y = ts_operationId x \<and>
     (ts_state y = M_RELEASE_PENDING \<and> ts_removedAt y = ts_removedAt x \<or> ts_state y = M_RELEASED \<and> ts_removedAt y \<noteq> None)"

lemma compensates_keeps:
  assumes a: "adder k i db" and r: "current_rows i k (m # ms) db" and f: "\<And>x. compensates x (f x)" and st: "ts_state m \<noteq> M_RELEASED"
  shows "keeps_trp {i} db (setMember (ts_id m) f db)" "current_rows i k ms (setMember (ts_id m) f db)"
    "\<And>x. x \<in> set (tripShipments (setMember (ts_id m) f db)) \<Longrightarrow> ts_state x = M_CLAIM_PENDING \<Longrightarrow> x \<in> set (tripShipments db) \<and> ts_id x \<noteq> ts_id m"
proof -
  show "keeps_trp {i} db (setMember (ts_id m) f db)"
  proof (rule setMember_keeps)
    fix x assume "x \<in> set (tripShipments db)" "ts_id x = ts_id m"
    then have x: "x = m" using r by (simp add: current_rows_def)
    have m: "ts_operationId m = Some i" "trip_key m = k" "member_live m" using r st by (simp_all add: current_rows_def)
    from a obtain p where "p \<in> set (tripOperations db)" "to_id p = i" "op_open (to_status p)" "to_activeLock p = Some k" "to_kind p = K_ADD"
      by (auto simp: adder_def)
    then have "\<exists>p\<in>set (tripOperations db). works_on {i} (f m) p" using f [of m] m unfolding works_on_def compensates_def by auto
    then show "member_change {i} db x (f x)"
      using f [of m] m x by (auto simp: member_change_def compensates_def member_live_def member_pending_def)
  qed
  have "ts_id (f x) = ts_id x" for x using f [of x] by (simp add: compensates_def)
  then show "current_rows i k ms (setMember (ts_id m) f db)"
    using r unfolding current_rows_def setMember_set by (auto split: if_splits)
  have "ts_state (f x) \<noteq> M_CLAIM_PENDING" for x using f [of x] by (auto simp: compensates_def)
  then show "x \<in> set (tripShipments db) \<and> ts_id x \<noteq> ts_id m"
    if "x \<in> set (tripShipments (setMember (ts_id m) f db))" "ts_state x = M_CLAIM_PENDING" for x
    using that unfolding setMember_set by (auto split: if_splits)
qed

lemma compensateMembers_all:
  assumes "compensateMembers actor v ms now db = Inr db'" "adder k i db" "current_rows i k ms db"
  shows "keeps_trp {i} db db' \<and> trips db' = trips db \<and> tripOperations db' = tripOperations db \<and> tripDispatches db' = tripDispatches db \<and>
    (\<forall>x\<in>set (tripShipments db'). ts_state x = M_CLAIM_PENDING \<longrightarrow> x \<in> set (tripShipments db) \<and> x \<notin> set ms)"
  using assms
proof (induction ms arbitrary: db)
  case (Cons m ms)
  show ?case
  proof (cases "ts_state m = M_ACTIVE \<or> ts_state m = M_CLAIM_PENDING")
    case False
    then have "compensateMembers actor v ms now db = Inr db'" using Cons.prems(1) by simp
    moreover have "current_rows i k ms db" using Cons.prems(3) by (simp add: current_rows_def)
    ultimately show ?thesis using Cons.IH [OF _ Cons.prems(2)] False by fastforce
  next
    case True
    then have "\<exists>f n. compensateMembers actor v ms now (setMember (ts_id m) f (db\<lparr> trp_next := n \<rparr>)) = Inr db' \<and> (\<forall>x. compensates x (f x))"
    proof
      assume "ts_state m = M_ACTIVE"
      then obtain q where "compensateMembers actor v ms now (setMember (ts_id m)
          (\<lambda>x. x\<lparr> ts_state := M_RELEASE_PENDING, ts_releaseRequest := Some q \<rparr>) (db\<lparr> trp_next := trp_next db + 1 \<rparr>)) = Inr db'"
        using Cons.prems(1) by (auto simp: bind_res_Inr_iff)
      then show ?thesis
        by (intro exI [of _ "\<lambda>x. x\<lparr> ts_state := M_RELEASE_PENDING, ts_releaseRequest := Some q \<rparr>"] exI [of _ "trp_next db + 1"])
          (simp add: compensates_def trip_key_def same_shipment_def)
    next
      assume "ts_state m = M_CLAIM_PENDING"
      then have "compensateMembers actor v ms now (setMember (ts_id m)
          (\<lambda>x. x\<lparr> ts_state := M_RELEASED, ts_removedAt := Some now \<rparr>) (db\<lparr> trp_next := trp_next db \<rparr>)) = Inr db'"
        using Cons.prems(1) by simp
      then show ?thesis
        by (intro exI [of _ "\<lambda>x. x\<lparr> ts_state := M_RELEASED, ts_removedAt := Some now \<rparr>"] exI [of _ "trp_next db"])
          (simp add: compensates_def trip_key_def same_shipment_def)
    qed
    then obtain f n where c: "compensateMembers actor v ms now (setMember (ts_id m) f (db\<lparr> trp_next := n \<rparr>)) = Inr db'"
      and f: "\<And>x. compensates x (f x)" by blast
    define db0 where "db0 = db\<lparr> trp_next := n \<rparr>"
    have t [simp]: "tripOperations db0 = tripOperations db" "tripShipments db0 = tripShipments db" "trips db0 = trips db"
      "tripDispatches db0 = tripDispatches db" by (simp_all add: db0_def)
    have "adder k i db0" "current_rows i k (m # ms) db0" using Cons.prems(2,3) by (simp_all add: adder_def current_rows_def)
    note K = compensates_keeps [OF this f] True
    have "keeps_trp {i} db db0" unfolding db0_def by (rule frame_keeps)
    with K(1) True have k: "keeps_trp {i} db (setMember (ts_id m) f db0)" using keeps_trp_trans by auto
    have "adder k i (setMember (ts_id m) f db0)" using Cons.prems(2) by (simp add: adder_def)
    note IH = Cons.IH [OF c [folded db0_def] this K(2)]
    have "x \<in> set (tripShipments db) \<and> x \<notin> set (m # ms)" if "x \<in> set (tripShipments db')" "ts_state x = M_CLAIM_PENDING" for x
      using IH K(3) [of x] True that by auto
    then show ?thesis using IH True keeps_trp_trans [OF k] by auto
  qed
qed simp

lemma findOperation_D:
  assumes "trp_but B db" "findOperation i db = Some p"
  shows "p \<in> set (tripOperations db)" "to_id p = i" "q \<in> set (tripOperations db) \<Longrightarrow> to_id q = i \<Longrightarrow> q = p"
proof -
  show p: "p \<in> set (tripOperations db)" "to_id p = i" using assms(2) by (auto simp: findOperation_def dest!: find_Some_D)
  have "distinct (map to_id (tripOperations db))" using trp_butD(2) [OF assms(1)] by (simp add: ops_ok_def)
  then show "q \<in> set (tripOperations db) \<Longrightarrow> to_id q = i \<Longrightarrow> q = p" using p by (auto dest: key_eq_imp_eq)
qed

text \<open>An open operation locks its trip, and its memberships are on that trip.\<close>

lemma open_op:
  assumes ok: "trp_but B db" and f: "findOperation i db = Some p" and o: "op_open (to_status p)"
  obtains x where "x \<in> set (trips db)" "to_tripId p = Some (dt_id x)" "to_tenantId p = dt_tenantId x" "to_activeLock p = Some (lock_of x)"
    "planning x" "\<And>m. m \<in> set (tripShipments db) \<Longrightarrow> ts_operationId m = Some i \<Longrightarrow> trip_key m = lock_of x"
proof -
  note F = findOperation_D [OF ok f]
  have "op_locks db p" using trp_butD(2) [OF ok] F(1) by (simp add: ops_ok_def)
  then obtain x where x: "x \<in> set (trips db)" "to_tripId p = Some (dt_id x)" "to_tenantId p = dt_tenantId x" "to_activeLock p = Some (lock_of x)"
    "planning x" using o by (auto simp: op_locks_def)
  have "trip_key m = lock_of x" if m: "m \<in> set (tripShipments db)" "ts_operationId m = Some i" for m
  proof -
    have "belongs db m" using trp_butD(3) [OF ok] m(1) by (simp add: members_ok_def)
    then obtain q where "q \<in> set (tripOperations db)" "to_id q = i" "(to_tenantId q, to_tripId q) = (ts_tenantId m, Some (ts_tripId m))"
      using m(2) by (auto simp: belongs_def)
    with F(3) [of q] x show ?thesis by (simp add: trip_key_def lock_of_def)
  qed
  with x show ?thesis using that by blast
qed

text \<open>The membership whose claim came back with a bad snapshot counts as claimed.\<close>

lemma invalidClaim_keeps:
  assumes m: "\<And>x. x \<in> set (tripShipments db) \<Longrightarrow> ts_id x = j \<Longrightarrow> ts_operationId x = Some i \<and> ts_state x \<noteq> M_RELEASED"
    and a: "adder k i db" and k: "\<And>x. x \<in> set (tripShipments db) \<Longrightarrow> ts_operationId x = Some i \<Longrightarrow> trip_key x = k \<and>
      (member_live x \<longleftrightarrow> ts_state x \<noteq> M_RELEASED)"
  shows "keeps_trp B db (setMember j (invalidClaimMember receipt) db)"
proof (rule setMember_keeps)
  fix x assume x: "x \<in> set (tripShipments db)" "ts_id x = j"
  from a have "\<exists>p\<in>set (tripOperations db). to_activeLock p = Some k \<and> to_kind p \<noteq> K_CANCEL" by (auto simp: adder_def)
  then show "member_change B db x (invalidClaimMember receipt x)"
    using m [OF x] k [of x] x(1) by (simp add: member_change_def invalidClaimMember_def trip_key_def same_shipment_def member_live_def member_pending_def)
qed

lemma compensation_done:
  assumes ok: "trp_but {i} db" and p: "p \<in> set (tripOperations db)" "to_id p = i" "to_kind p = K_ADD" "op_open (to_status p)"
    and c: "\<And>m. m \<in> set (tripShipments db) \<Longrightarrow> ts_operationId m = Some i \<Longrightarrow> ts_state m \<noteq> M_CLAIM_PENDING"
  shows "trp_ok (setOperation i (\<lambda>q. q\<lparr> to_status := O_COMPENSATING, to_lastError := Some reason \<rparr>) db)"
proof -
  let ?f = "\<lambda>q. q\<lparr> to_status := O_COMPENSATING, to_lastError := Some reason \<rparr>"
  have d: "distinct (map to_id (tripOperations db))" using trp_butD(2) [OF ok] by (simp add: ops_ok_def)
  have "same_op {i} q (?f q)" if "q \<in> set (tripOperations db)" "to_id q = i" for q
  proof -
    have "q = p" using d that p(1,2) by (auto dest: key_eq_imp_eq)
    then show ?thesis using p by (simp add: same_op_def)
  qed
  then have "keeps_trp {i} db (setOperation i ?f db)" by (rule setOperation_keeps)
  then have k: "trp_but {i} (setOperation i ?f db)" using ok by (rule keeps_trpD)
  have "?f p \<in> set (tripOperations (setOperation i ?f db))" unfolding setOperation_set using p(1,2) by force
  then show ?thesis
  proof (rule trp_but_none [OF k])
    fix m assume "m \<in> set (tripShipments (setOperation i ?f db))" "ts_operationId m = Some i"
    then show "ts_state m = M_CLAIM_PENDING \<longleftrightarrow> to_status (?f p) = O_PENDING" using c [of m] by (simp add: setOperation_def)
  qed (use p in simp_all)
qed

lemma beginCompensation_keeps:
  assumes c: "beginCompensation i reason invalid now db = Inr db'" and f: "findOperation i db = Some p"
    and p: "op_open (to_status p)" "to_kind p = K_ADD"
    and m: "\<And>j receipt x. invalid = Some (j, receipt) \<Longrightarrow> x \<in> set (tripShipments db) \<Longrightarrow> ts_id x = j \<Longrightarrow>
      ts_operationId x = Some i \<and> ts_state x \<noteq> M_RELEASED"
  shows "keeps_trp {} db db'"
proof -
  define db1 where "db1 = (case invalid of None \<Rightarrow> db | Some (j, receipt) \<Rightarrow> setMember j (invalidClaimMember receipt) db)"
  from c f obtain v db2 where cm: "compensateMembers (to_actorId p) v (operationMembers i db1) now db1 = Inr db2"
    and db': "db' = setOperation i (\<lambda>q. q\<lparr> to_status := O_COMPENSATING, to_lastError := Some reason \<rparr>) db2"
    by (auto simp: beginCompensation_def db1_def Let_def bind_res_Inr_iff split: option.splits)
  show ?thesis unfolding keeps_trp_def
  proof (intro impI)
    assume ok: "trp_but {} db"
    note F = findOperation_D [OF ok f]
    obtain x where x: "to_activeLock p = Some (lock_of x)"
      "\<And>m. m \<in> set (tripShipments db) \<Longrightarrow> ts_operationId m = Some i \<Longrightarrow> trip_key m = lock_of x"
      using open_op [OF ok f p(1)] by metis
    have a: "adder (lock_of x) i db" using F(1,2) p x(1) unfolding adder_def by blast
    have rows: "trip_key m = lock_of x \<and> (member_live m \<longleftrightarrow> ts_state m \<noteq> M_RELEASED)"
      if "m \<in> set (tripShipments db)" "ts_operationId m = Some i" for m
      using x(2) [OF that] member_state_live [OF ok that(1)] by blast
    have k1: "keeps_trp {} db db1"
    proof (cases invalid)
      case (Some z)
      obtain j receipt where z: "z = (j, receipt)" by force
      have "keeps_trp {} db (setMember j (invalidClaimMember receipt) db)" by (rule invalidClaim_keeps [OF m a rows]) (simp add: Some z)
      then show ?thesis by (simp add: db1_def Some z)
    qed (simp add: db1_def)
    have t1: "trips db1 = trips db" "tripOperations db1 = tripOperations db" by (auto simp: db1_def split: option.split)
    note k1 = keeps_some [OF k1 ok]
    then have ok1: "trp_but {i} db1" by (auto intro: trp_but_mono)
    have f1: "findOperation i db1 = Some p" using f t1(2) by (simp add: findOperation_def)
    obtain y where y: "to_activeLock p = Some (lock_of y)"
      "\<And>m. m \<in> set (tripShipments db1) \<Longrightarrow> ts_operationId m = Some i \<Longrightarrow> trip_key m = lock_of y"
      using open_op [OF ok1 f1 p(1)] by metis
    have "distinct (map ts_id (tripShipments db1))" using trp_butD(3) [OF ok1] by (simp add: members_ok_def)
    then have "current_rows i (lock_of y) (operationMembers i db1) db1"
      using y(2) member_state_live [OF ok1] unfolding current_rows_def operationMembers_def
      by (auto simp: distinct_map_filter dest: key_eq_imp_eq)
    moreover have "adder (lock_of y) i db1" using a x(1) y(1) t1 by (simp add: adder_def)
    ultimately have C: "keeps_trp {i} db1 db2" "trips db2 = trips db1" "tripOperations db2 = tripOperations db1"
      "\<And>m. m \<in> set (tripShipments db2) \<Longrightarrow> ts_state m = M_CLAIM_PENDING \<Longrightarrow>
         m \<in> set (tripShipments db1) \<and> m \<notin> set (operationMembers i db1)"
      using compensateMembers_all [OF cm] by auto
    have "p \<in> set (tripOperations db2)" using F(1) C(3) t1(2) by simp
    then have "trp_ok db'" unfolding db'
      by (rule compensation_done [OF keeps_trpD [OF C(1) ok1] _ F(2) p(2,1)]) (use C(4) in \<open>auto simp: operationMembers_def\<close>)
    moreover have "trips db' = trips db" using C(2) t1(1) by (simp add: db' setOperation_def)
    ultimately show "trp_but {} db' \<and> trips_evolve db db'" using trips_evolve_same by (simp add: trp_ok_def)
  qed
qed

section \<open>The end of an operation\<close>

lemma updateTrip_setOperation:
  "updateTrip i f now db = Inr (y, db') \<Longrightarrow> updateTrip i f now (setOperation j g db) = Inr (y, setOperation j g db')"
  by (auto simp: updateTrip_def setOperation_def Let_def split: option.splits if_splits)

lemma finalizeTrip_simps [simp]:
  "same_trip x (finalizeTrip c a b r now x)" "dt_version (finalizeTrip c a b r now x) = dt_version x + 1"
  "dt_status (finalizeTrip c a b r now x) = (if c then T_CANCELED else dt_status x)"
  "dt_driverId (finalizeTrip c a b r now x) = dt_driverId x" "dt_driverUserId (finalizeTrip c a b r now x) = dt_driverUserId x"
  by (simp_all add: finalizeTrip_def same_trip_def Let_def)

text \<open>Nothing of the operation's trip is pending or, after a cancellation, active.\<close>

lemma canceled_released:
  assumes ok: "trp_but {} db" and p: "p \<in> set (tripOperations db)" "op_open (to_status p)" "to_kind p = K_CANCEL"
    and n: "\<And>m. m \<in> set (tripShipments db) \<Longrightarrow> ts_operationId m = Some (to_id p) \<Longrightarrow> \<not> member_pending m"
    and m: "m \<in> set (tripShipments db)" "to_activeLock p = Some (trip_key m)"
  shows "ts_state m = M_RELEASED"
proof -
  have "ts_state m \<noteq> M_ACTIVE" using trp_butD(5) [OF ok] p m by (simp add: cancel_ok_def)
  moreover have "\<not> member_pending m"
  proof
    assume "member_pending m"
    then obtain q where q: "q \<in> set (tripOperations db)" "works_on {} m q" using pending_works_on [OF ok m(1)] by blast
    then have "q = p" using trp_butD(2) [OF ok] p(1) m(2) unfolding ops_ok_def works_on_def by blast
    then show False using q(2) n [OF m(1)] \<open>member_pending m\<close> by (simp add: works_on_def)
  qed
  ultimately show ?thesis by (cases "ts_state m") (auto simp: member_pending_def)
qed

lemma same_core_tables_refl: "same_core_tables db db"
  by (simp add: same_core_tables_def)

lemma finalize_D:
  assumes fz: "finalize i status now db = Inr db'" and f: "findOperation i db = Some p"
  shows "\<exists>j trip a b y db1 result. to_tripId p = Some j \<and>
    List.find (\<lambda>x. dt_id x = j \<and> dt_tenantId x = to_tenantId p) (trips db) = Some trip \<and>
    updateTrip (dt_id trip) (finalizeTrip (to_kind p = K_CANCEL \<and> status = O_COMPLETED) a b (to_reason p) now) now db = Inr (y, db1) \<and>
    same_core_tables (setOperation i (finalizeOperation status result) db1) db'"
proof -
  define c where "c \<longleftrightarrow> to_kind p = K_CANCEL \<and> status = O_COMPLETED"
  from fz f obtain j trip where j: "to_tripId p = Some j"
    "List.find (\<lambda>x. dt_id x = j \<and> dt_tenantId x = to_tenantId p) (trips db) = Some trip"
    by (simp add: finalize_def Let_def split: option.splits)
  have "\<exists>a b y db1. updateTrip (dt_id trip) (finalizeTrip c a b (to_reason p) now) now db = Inr (y, db1) \<and>
    (\<exists>result. same_core_tables (setOperation i (finalizeOperation status result) db1) db')"
  proof (cases c)
    case True
    then have "to_kind p = K_CANCEL" "status = O_COMPLETED" by (simp_all add: c_def)
    then have "\<exists>a b y db1. updateTrip (dt_id trip) (finalizeTrip True a b (to_reason p) now) now db = Inr (y, db1) \<and>
      (\<exists>result t n e v q pay actor. db' = tripEvent t n e (dt_id trip) v q pay actor now (setOperation i (finalizeOperation status result) db1))"
      using fz f j by (auto simp: finalize_def Let_def bind_res_Inr_iff) blast
    then show ?thesis using True core_frames(2) by metis
  next
    case False
    then have "\<exists>a b y db1. updateTrip (dt_id trip) (finalizeTrip False a b (to_reason p) now) now db = Inr (y, db1) \<and>
      (\<exists>result. db' = setOperation i (finalizeOperation status result) db1)"
      using fz f j unfolding c_def by (auto simp: finalize_def Let_def bind_res_Inr_iff split: if_splits) blast+
    then show ?thesis using False same_core_tables_refl by metis
  qed
  with j show ?thesis unfolding c_def by blast
qed

lemma finalize_keeps:
  assumes fz: "finalize i status now db = Inr db'" and f: "findOperation i db = Some p" and p: "op_open (to_status p)"
    and s: "\<not> op_open status" and n: "\<And>m. m \<in> set (tripShipments db) \<Longrightarrow> ts_operationId m = Some i \<Longrightarrow> \<not> member_pending m"
  shows "keeps_trp {} db db'"
proof -
  let ?c = "to_kind p = K_CANCEL \<and> status = O_COMPLETED"
  from finalize_D [OF fz f] obtain j trip a b y db1 result where j: "to_tripId p = Some j"
    and t: "List.find (\<lambda>x. dt_id x = j \<and> dt_tenantId x = to_tenantId p) (trips db) = Some trip"
    and u: "updateTrip (dt_id trip) (finalizeTrip ?c a b (to_reason p) now) now db = Inr (y, db1)"
    and c: "same_core_tables (setOperation i (finalizeOperation status result) db1) db'" by blast
  note db' = same_core_tables_keeps [OF c, of "{}"]
  let ?g = "finalizeOperation status result"
  show ?thesis unfolding keeps_trp_def
  proof (intro impI)
    assume ok: "trp_but {} db"
    note F = findOperation_D [OF ok f]
    obtain x where x: "x \<in> set (trips db)" "to_tripId p = Some (dt_id x)" "to_tenantId p = dt_tenantId x" "to_activeLock p = Some (lock_of x)"
      "planning x" using open_op [OF ok f p] by metis
    have trip: "trip = x" using find_Some_D [OF t] the_trip [OF trp_butD(1) [OF ok] x(1), of trip] x(2) j by simp
    have closed: "trp_but {} (setOperation i ?g db)"
      by (rule setOperation_closes [OF ok _ n]) (use s in \<open>simp_all add: finalizeOperation_def\<close>)
    have "trip_change (setOperation i ?g db) z (finalizeTrip ?c a b (to_reason p) now z)"
      if z: "z \<in> set (trips (setOperation i ?g db))" "dt_id z = dt_id trip" for z
    proof -
      have zx: "z = x" using z trip the_trip [OF trp_butD(1) [OF ok] x(1), of z] by (simp add: setOperation_def)
      have "\<not> locked (lock_of x) (setOperation i ?g db)"
      proof
        assume "locked (lock_of x) (setOperation i ?g db)"
        then obtain q where q: "q \<in> set (tripOperations db)" "to_activeLock (if to_id q = i then ?g q else q) = Some (lock_of x)"
          unfolding locked_def setOperation_set by auto
        then have "to_id q \<noteq> i" "to_activeLock q = Some (lock_of x)" by (auto simp: finalizeOperation_def split: if_splits)
        then show False using trp_butD(2) [OF ok] q(1) F(1,2) x(4) unfolding ops_ok_def by blast
      qed
      moreover have "locked (lock_of x) db" using F(1) x(4) by (auto simp: locked_def)
      then have "\<forall>d\<in>set (tripDispatches db). td_status d = I_PENDING \<longrightarrow> (td_tenantId d, td_tripId d) \<noteq> lock_of x"
        using trp_butD(1,4) [OF ok] unfolding dispatches_ok_def freezes_def lock_of_def by fastforce
      moreover have "ts_state m = M_RELEASED" if "?c" "m \<in> set (tripShipments db)" "trip_key m = lock_of x" for m
        by (rule canceled_released [OF ok F(1) p]) (use n F(2) that x(4) in auto)
      moreover have "trip_sound x" using trp_butD(1) [OF ok] x(1) by (simp add: trips_ok_def)
      ultimately show ?thesis
        using x(5) unfolding zx trip_change_def planning_def by (auto simp: setOperation_def trip_sound_def intro: trip_life.cancels)
    qed
    then have "keeps_trp {} (setOperation i ?g db) (setOperation i ?g db1)"
      by (rule updateTrip_keeps [OF updateTrip_setOperation [OF u]])
    from keeps_some [OF keeps_trp_trans [OF this db'] closed]
    show "trp_but {} db' \<and> trips_evolve db db'" by (simp add: trips_evolve_def setOperation_def)
  qed
qed

section \<open>Leases and retries\<close>

lemma lease_keeps: "keeps_trp B db (setOperation i (\<lambda>p. p\<lparr> to_lockedUntil := l \<rparr>) db)"
  by (rule setOperation_keeps) (simp add: same_op_def)

lemma scheduleRetry_keeps: "keeps_trp B db (scheduleRetry env i e now db)"
  unfolding scheduleRetry_def by (rule setOperation_keeps) (simp add: same_op_def)

section \<open>Plans\<close>

lemma createPlan_keeps: "createPlan r (db\<lparr> trp_next := n \<rparr>) = Inr db1 \<Longrightarrow> keeps_trp B db db1"
  using keeps_trp_trans [OF frame_keeps(5) frame_keeps(7)] by blast

lemma manualTx_keeps: "manualTx env user tripId dto input now db = Inr (r, db') \<Longrightarrow> keeps_trp B db db'"
  by (auto simp: manualTx_def Let_def bind_res_Inr_iff split: option.splits if_splits intro: createPlan_keeps)

lemma approveTx_keeps:
  assumes "approveTx env user tripId dto context plan ordered now db = Inr (y, db')"
  shows "keeps_trp B db db'"
proof (cases "db' = db")
  case False
  let ?t = "us_tenantId user"
  from assms False obtain trip r n db1 db2 f z db3 e ev v q pay a rs where
    rt: "routeTrip ?t tripId (ap_expectedVersion dto) T_DRAFT db = Inr trip"
    and c: "createPlan r (db\<lparr> trp_next := n \<rparr>) = Inr db1" and m: "numberStops ?t tripId 1 ordered (clearSequence ?t tripId db1) = Inr db2"
    and u: "updateTrip tripId f now db2 = Inr (z, db3)"
    and f: "\<And>x. same_trip x (f x) \<and> dt_version (f x) = dt_version x + 1 \<and> dt_status (f x) = T_APPROVED \<and>
        dt_driverId (f x) = dt_driverId x \<and> dt_driverUserId (f x) = dt_driverUserId x"
    and db': "db' = (tripEvent ?t e ev tripId v q pay a now db3)\<lparr> routePlans := rs \<rparr>"
    by (auto simp: approveTx_def Let_def bind_res_Inr_iff same_trip_def split: option.splits if_splits)
  note D = routeTrip_D [OF rt]
  have t: "same_core_tables db db2"
    using same_core_tables_trans [OF createPlan_frame [OF c] same_core_tables_trans [OF core_frames(3) numberStops_frame [OF m]]]
    by (simp add: same_core_tables_def)
  have "keeps_trp B db2 db3"
    by (rule updateTrip_planning [OF u, of trip])
      (use D f t in \<open>simp_all add: planning_def trip_sound_driver lock_of_def same_core_tables_def\<close>)
  from keeps_trp_trans [OF keeps_trp_trans [OF same_core_tables_keeps [OF t] this] keeps_trp_trans [OF frame_keeps(2) frame_keeps(6)]]
  show ?thesis unfolding db' .
qed simp

lemma reopenTx_keeps:
  assumes "reopenTx user tripId dto now db = Inr (y, db')"
  shows "keeps_trp B db db'"
proof -
  let ?t = "us_tenantId user"
  from assms obtain trip p g f z db2 e ev v q pay a where rt: "routeTrip ?t tripId (ro_expectedVersion dto) T_APPROVED db = Inr trip"
    and u: "updateTrip tripId f now (setStops p g db) = Inr (z, db2)"
    and f: "\<And>x. same_trip x (f x) \<and> dt_version (f x) = dt_version x + 1 \<and> dt_status (f x) = T_DRAFT \<and>
        dt_driverId (f x) = dt_driverId x \<and> dt_driverUserId (f x) = dt_driverUserId x"
    and db': "db' = tripEvent ?t e ev tripId v q pay a now db2"
    by (auto simp: reopenTx_def Let_def bind_res_Inr_iff same_trip_def)
  note D = routeTrip_D [OF rt]
  have "keeps_trp B (setStops p g db) db2"
    by (rule updateTrip_planning [OF u, of trip]) (use D f in \<open>auto simp: planning_def trip_sound_driver lock_of_def setStops_def\<close>)
  from keeps_trp_trans [OF frame_keeps(1) keeps_trp_trans [OF this frame_keeps(2)]] show ?thesis unfolding db' .
qed

section \<open>Delivery results\<close>

lemma loadActionable_D:
  "loadActionable user tripId stopId v w db = Inr (x, p) \<Longrightarrow> x \<in> set (trips db) \<and> lock_of x = (us_tenantId user, tripId) \<and> dt_status x = T_IN_PROGRESS"
  by (auto simp: loadActionable_def Let_def bind_res_Inr_iff dest: loadTrip_D split: if_splits option.splits list.splits)

lemma settleTx_keeps:
  assumes "settleTx env user tripId stopId dto action now db = Inr (r, db')"
  shows "keeps_trp B db db'"
proof (cases "db' = db")
  case False
  let ?t = "us_tenantId user"
  from assms False obtain x p h g c y db2 n at db3 e v q pay where
    l: "loadActionable user tripId stopId (ax_expectedTripVersion dto) (ax_expectedStopVersion dto) db = Inr (x, p)"
    and u: "updateTrip tripId (advanceTrip c now) now (setStops h g db) = Inr (y, db2)"
    and a: "createAttempt at (db2\<lparr> trp_next := n \<rparr>) = Inr db3" and db': "db' = tripEvent ?t e 2 tripId v q pay None now db3"
    by (auto simp: settleTx_def Let_def bind_res_Inr_iff split: option.splits)
  note D = loadActionable_D [OF l]
  have "keeps_trp B (setStops h g db) db2" unfolding keeps_trp_def
  proof (intro impI)
    assume ok: "trp_but B (setStops h g db)"
    have x: "x \<in> set (trips (setStops h g db))" using D by (simp add: setStops_def)
    have "trip_change (setStops h g db) z (advanceTrip c now z)" if z: "z \<in> set (trips (setStops h g db))" "dt_id z = tripId" for z
    proof -
      have zx: "z = x" using the_trip [OF trp_butD(1) [OF ok] x, of z] z D by (simp add: lock_of_def)
      have "\<not> locked (lock_of x) (setStops h g db)"
        using locked_not_canceled [OF trp_butD(1,2) [OF ok] _ _ x] D by (auto simp: locked_def planning_def)
      moreover have "trip_sound x" using trp_butD(1) [OF ok] x by (simp add: trips_ok_def)
      ultimately show ?thesis unfolding zx using not_frozen [OF trp_butD(4,1) [OF ok] x] D
        by (auto simp: trip_change_def advanceTrip_def same_trip_def resources_def trip_sound_def intro: trip_life.ends)
    qed
    from keeps_some [OF updateTrip_keeps [OF u this] ok] show "trp_but B db2 \<and> trips_evolve (setStops h g db) db2" .
  qed
  from keeps_trp_trans [OF keeps_trp_trans [OF frame_keeps(1) this] keeps_trp_trans [OF frame_keeps(5) frame_keeps(10) [OF a]]]
  show ?thesis unfolding db' using frame_keeps(2) keeps_trp_trans by blast
qed simp

section \<open>Dispatches\<close>

lemma dispatch_frames [simp]:
  "trips (setDispatch i p f db) = trips db" "tripOperations (setDispatch i p f db) = tripOperations db"
  "tripShipments (setDispatch i p f db) = tripShipments db"
  by (simp_all add: setDispatch_def)

text \<open>The row a worker has read, by the columns that never change.\<close>

definition dispatch_row :: "uuid \<Rightarrow> trip_dispatch \<Rightarrow> batch_request \<Rightarrow> trp_db \<Rightarrow> bool" where
  "dispatch_row t row payload db \<longleftrightarrow> (\<exists>d\<in>set (tripDispatches db). td_id d = td_id row \<and> td_tenantId d = t \<and>
     td_tripId d = td_tripId row \<and> td_payload d = Some payload)"

lemma dispatch_unique:
  "trp_but B db \<Longrightarrow> d \<in> set (tripDispatches db) \<Longrightarrow> e \<in> set (tripDispatches db) \<Longrightarrow> td_id d = td_id e \<Longrightarrow> d = e"
  unfolding trp_but_def dispatches_ok_def by (blast dest: key_eq_imp_eq)

lemma acceptDispatchTx_keeps:
  assumes a: "acceptDispatchTx user tripId dto hash payload now db = Inr db'" and p: "payload = batchRequestOf user tripId dto sel n"
    and v: "batchRequestValid payload"
  shows "keeps_trp B db db'"
proof (cases "db' = db")
  case False
  let ?t = "us_tenantId user"
  from a False obtain x m where rt: "routeTrip ?t tripId (tq_version dto) T_APPROVED db = Inr x"
    and c: "createDispatch (newDispatch (trp_next db) user tripId dto hash payload now) (db\<lparr> trp_next := m \<rparr>) = Inr db'"
    by (auto simp: acceptDispatchTx_def Let_def bind_res_Inr_iff split: if_splits)
  note D = routeTrip_D [OF rt]
  have "carries (newDispatch (trp_next db) user tripId dto hash payload now) payload"
    using v by (simp add: carries_def newDispatch_def p batchRequestOf_def)
  then have "keeps_trp B (db\<lparr> trp_next := m \<rparr>) db'"
    by (intro createDispatch_keeps [OF c, of payload x])
      (use D p in \<open>auto simp: newDispatch_def freezes_def lock_of_def locked_def batchRequestOf_def\<close>)
  with frame_keeps(5) show ?thesis by (rule keeps_trp_trans)
qed simp

lemma submitTx_keeps:
  assumes s: "submitTx t row payload db = Inr db'" and r: "dispatch_row t row payload db"
  shows "keeps_trp B db db'"
proof -
  let ?p = "\<lambda>d. dispatch_pending d \<and> td_stage d = G_ACCEPTED" and ?f = "\<lambda>d. d\<lparr> td_stage := G_SUBMITTED \<rparr>"
  from s obtain trip where t: "List.find (\<lambda>x. dt_id x = td_tripId row \<and> dt_tenantId x = t) (trips db) = Some trip"
    and pl: "dt_approvedRoutePlanId trip = Some (br_approvedPlanId payload)" and db': "db' = setDispatch (td_id row) ?p ?f db"
    by (auto simp: submitTx_def split: option.splits if_splits)
  from r obtain d0 where d0: "d0 \<in> set (tripDispatches db)" "td_id d0 = td_id row" "td_tenantId d0 = t" "td_tripId d0 = td_tripId row"
    "td_payload d0 = Some payload" by (auto simp: dispatch_row_def)
  show ?thesis unfolding keeps_trp_def
  proof (intro impI)
    assume ok: "trp_but B db"
    have "dispatch_change db d (?f d)" if d: "d \<in> set (tripDispatches db)" "td_id d = td_id row" "?p d" for d
    proof -
      have "d = d0" using dispatch_unique [OF ok d(1) d0(1)] d(2) d0(2) by simp
      moreover have "x = trip" if "x \<in> set (trips db)" "lock_of x = (t, td_tripId row)" for x
        using the_trip [OF trp_butD(1) [OF ok], of trip x] find_Some_D [OF t] that by (simp add: lock_of_def)
      ultimately show ?thesis using d(3) d0 pl by (auto simp: dispatch_change_def dispatch_pending_def)
    qed
    from keeps_some [OF setDispatch_keeps [OF this] ok] show "trp_but B db' \<and> trips_evolve db db'" by (simp add: db')
  qed
qed

lemma rejectDispatch_keeps: "keeps_trp B db (rejectDispatch i c db)"
  unfolding rejectDispatch_def by (rule setDispatch_keeps) (simp add: dispatch_change_def dispatch_pending_def)

lemma failUpdate_keeps: "keeps_trp B db (failUpdate row latest e now db)"
  unfolding failUpdate_def Let_def
  by (auto intro!: setDispatch_keeps simp: dispatch_change_def dispatch_pending_def)

lemma deferDispatch_keeps:
  "keeps_trp B db (setDispatch i dispatch_pending (\<lambda>d. d\<lparr> td_lastError := e, td_attemptCount := n d, td_nextAttemptAt := a \<rparr>) db)"
  by (rule setDispatch_keeps) (simp add: dispatch_change_def dispatch_pending_def)

text \<open>A receipt is saved for a request that has been submitted.\<close>

definition submitted :: "uuid \<Rightarrow> trp_db \<Rightarrow> bool" where
  "submitted i db \<longleftrightarrow> (\<forall>d\<in>set (tripDispatches db). td_id d = i \<and> td_status d = I_PENDING \<longrightarrow> td_stage d \<noteq> G_ACCEPTED)"

lemma saveBatchReceipt_keeps: "submitted i db \<Longrightarrow> keeps_trp B db (saveBatchReceipt i c db)"
  unfolding saveBatchReceipt_def
  by (rule setDispatch_keeps) (simp add: dispatch_change_def dispatch_pending_def submitted_def)

lemma updateTrip_setDispatch:
  "updateTrip i f now db = Inr (y, db') \<Longrightarrow> updateTrip i f now (setDispatch j p g db) = Inr (y, setDispatch j p g db')"
  by (auto simp: updateTrip_def setDispatch_def Let_def split: option.splits if_splits)

lemma leaveTrip_simps [simp]:
  "same_trip x (leaveTrip r now x)" "dt_version (leaveTrip r now x) = dt_version x + 1" "dt_status (leaveTrip r now x) = T_IN_PROGRESS"
  "dt_driverId (leaveTrip r now x) = dt_driverId x" "dt_driverUserId (leaveTrip r now x) = dt_driverUserId x"
  by (simp_all add: leaveTrip_def same_trip_def)

lemma commitDispatchTx_keeps:
  assumes c: "commitDispatchTx t row payload now db = Inr db'" and r: "dispatch_row t row payload db"
  shows "keeps_trp B db db'"
proof (cases "db' = db")
  case False
  from c False obtain d trip y db1 n v pay where d: "List.find (\<lambda>d. td_id d = td_id row) (tripDispatches db) = Some d"
    "td_status d = I_PENDING" and t: "List.find (\<lambda>x. dt_id x = td_tripId row \<and> dt_tenantId x = t) (trips db) = Some trip"
    and st: "dt_status trip = T_APPROVED" and u: "updateTrip (td_tripId row) (leaveTrip payload now) now db = Inr (y, db1)"
    and db': "db' = tripEvent t ''TripDispatched'' 2 (dt_id trip) v (td_idempotencyKey row) pay (Some (td_requestedBy row)) now
        (setDispatch (td_id row) (\<lambda>_. True) (completedDispatch trip n payload now) db1)"
    by (auto simp: commitDispatchTx_def Let_def bind_res_Inr_iff split: option.splits if_splits)
  define g where "g = completedDispatch trip n payload now"
  have g: "td_id (g d) = td_id d \<and> td_tenantId (g d) = td_tenantId d \<and> td_tripId (g d) = td_tripId d \<and>
      td_idempotencyKey (g d) = td_idempotencyKey d \<and> td_payload (g d) = td_payload d \<and> td_status (g d) = I_COMPLETED" for d by (simp add: g_def completedDispatch_def)
  note db' = db' [folded g_def]
  show ?thesis unfolding keeps_trp_def
  proof (intro impI)
    assume ok: "trp_but B db"
    from r obtain d0 where d0: "d0 \<in> set (tripDispatches db)" "td_id d0 = td_id row" "td_tenantId d0 = t" "td_tripId d0 = td_tripId row"
      "td_payload d0 = Some payload" by (auto simp: dispatch_row_def)
    note d = find_Some_D [OF d(1)] d(2)
    have dd: "d = d0" using dispatch_unique [OF ok] d d0 by simp
    have trip: "trip \<in> set (trips db)" "lock_of trip = (t, td_tripId row)" using find_Some_D [OF t] by (simp_all add: lock_of_def)
    let ?db = "setDispatch (td_id row) (\<lambda>_. True) g db"
    have "dispatch_change db e (g e)" if "e \<in> set (tripDispatches db)" "td_id e = td_id row" for e
      using dispatch_unique [OF ok that(1), of d] d that(2) g by (simp add: dispatch_change_def)
    then have "keeps_trp B db ?db" by (rule setDispatch_keeps)
    note ok1 = conjunct1 [OF keeps_some [OF this ok]]
    have "trip_change ?db z (leaveTrip payload now z)" if z: "z \<in> set (trips ?db)" "dt_id z = td_tripId row" for z
    proof -
      have zx: "z = trip" using the_trip [OF trp_butD(1) [OF ok] trip(1), of z] z trip(2) by (simp add: lock_of_def)
      obtain q x where "x \<in> set (trips db)" "freezes db d q x" using trp_butD(4) [OF ok] d by (auto simp: dispatches_ok_def)
      then have "\<not> locked (lock_of trip) db" using the_trip [OF trp_butD(1) [OF ok] trip(1), of x] dd d0 trip(2)
        by (auto simp: freezes_def lock_of_def)
      then have "\<not> locked (lock_of trip) ?db" by (simp add: locked_def)
      moreover have "(td_tenantId e, td_tripId e) \<noteq> lock_of trip" if e: "e \<in> set (tripDispatches ?db)" "td_status e = I_PENDING" for e
      proof
        assume k: "(td_tenantId e, td_tripId e) = lock_of trip"
        from e g have e': "e \<in> set (tripDispatches db)" "td_id e \<noteq> td_id row" by (auto simp: setDispatch_set split: if_splits)
        moreover have "e = d" using trp_butD(4) [OF ok] e' e(2) d dd d0 trip(2) k unfolding dispatches_ok_def by auto
        ultimately show False using d by simp
      qed
      moreover have "trip_sound trip" using trp_butD(1) [OF ok] trip(1) by (simp add: trips_ok_def)
      ultimately show ?thesis unfolding zx using st
        by (simp add: trip_change_def planning_def trip_sound_driver trip_life.departs)
    qed
    then have "keeps_trp B ?db (setDispatch (td_id row) (\<lambda>_. True) g db1)" by (rule updateTrip_keeps [OF updateTrip_setDispatch [OF u]])
    from keeps_some [OF keeps_trp_trans [OF this frame_keeps(2)] ok1] show "trp_but B db' \<and> trips_evolve db db'"
      by (simp add: db' trips_evolve_def)
  qed
qed simp

end
