(* ===== verification/Transport_Service.thy ===== *)
theory Transport_Service
  imports Transport_Dispatch Fulfillment_Run
begin

text \<open>
  The fulfilment service as the transport service sees it: the answers of
  \<^verbatim>\<open>internal-shipment-trip.controller.ts\<close> with the statuses of the exception filter. The texts of the error
  messages are a parameter. And what becomes of a release that the fulfilment service refuses.
\<close>

section \<open>The controller\<close>

definition ful_reply_status :: "ful_error \<Rightarrow> nat" where
  "ful_reply_status e =
     (case ful_http_status e of
        Some n \<Rightarrow> n
      | None \<Rightarrow> (case e of BusinessRuleViolation _ \<Rightarrow> 422 | FulEntityNotFound _ \<Rightarrow> 404 | FulBadRequest _ \<Rightarrow> 400 | _ \<Rightarrow> 500))"

definition answered :: "(ful_error \<Rightarrow> string) \<Rightarrow> ful_error + 'a \<Rightarrow> 'a trip_reply" where
  "answered msg r = (case r of Inl e \<Rightarrow> TripReply (ful_reply_status e) (Some (msg e)) None | Inr x \<Rightarrow> TripReply 200 None (Some x))"

text \<open>A handler that throws has written nothing.\<close>

definition answered_tx :: "(ful_error \<Rightarrow> string) \<Rightarrow> ful_error + 'a \<times> ful_db \<Rightarrow> ful_db \<Rightarrow> 'a trip_reply \<times> ful_db" where
  "answered_tx msg r f =
     (case r of Inl e \<Rightarrow> (TripReply (ful_reply_status e) (Some (msg e)) None, f) | Inr (x, f') \<Rightarrow> (TripReply 200 None (Some x), f'))"

fun claim_body :: "trip_response \<Rightarrow> claim_receipt option \<times> trip_snapshot option" where
  "claim_body (ClaimResponse receipt snap) = (Some receipt, Some snap)"
| "claim_body (ReleaseResponse receipt) = (None, None)"

fun release_body :: "trip_response \<Rightarrow> release_receipt option" where
  "release_body (ReleaseResponse receipt) = Some receipt"
| "release_body (ClaimResponse receipt snap) = None"

fun reply_map :: "('a \<Rightarrow> 'b) \<Rightarrow> 'a trip_reply \<Rightarrow> 'b trip_reply" where
  "reply_map g (TripNetworkFailure m) = TripNetworkFailure m"
| "reply_map g (TripReply n m b) = TripReply n m (map_option g b)"

definition postClaim ::
    "(ful_error \<Rightarrow> string) \<Rightarrow> claim_request \<Rightarrow> instant \<Rightarrow> ful_db \<times> 'ord \<Rightarrow> (claim_receipt option \<times> trip_snapshot option) trip_reply \<times> ful_db \<times> 'ord" where
  "postClaim msg p now s =
     (if \<not> claimRequestValid p then (TripReply 400 (Some ''Invalid request body'') None, s)
      else let (reply, f) = answered_tx msg (claimShipment p now (fst s)) (fst s) in (reply_map claim_body reply, f, snd s))"

definition postRelease ::
    "(ful_error \<Rightarrow> string) \<Rightarrow> release_request \<Rightarrow> instant \<Rightarrow> ful_db \<times> 'ord \<Rightarrow> release_receipt option trip_reply \<times> ful_db \<times> 'ord" where
  "postRelease msg p now s =
     (case parseReleaseRequest p of
        None \<Rightarrow> (TripReply 400 (Some ''Invalid request body'') None, s)
      | Some q \<Rightarrow> let (reply, f) = answered_tx msg (releaseShipment q now (fst s)) (fst s) in (reply_map release_body reply, f, snd s))"

definition postReadiness ::
    "(ful_error \<Rightarrow> string) \<Rightarrow> 'ord order_api \<Rightarrow> uuid \<Rightarrow> uuid \<Rightarrow> (uuid \<times> version) list \<Rightarrow> ful_db \<times> 'ord \<Rightarrow> readiness_item list trip_reply" where
  "postReadiness msg oapi t trip items s =
     (if items = [] \<or> 100 < length items \<or> \<not> list_all (\<lambda>(i, v). transportVersion v) items
      then TripReply 400 (Some ''Invalid request body'') None
      else answered msg (readiness oapi t trip items (snd s) (fst s)))"

definition postDispatchBatch ::
    "(ful_error \<Rightarrow> string) \<Rightarrow> 'ord order_api \<Rightarrow> ful_env \<Rightarrow> batch_request \<Rightarrow> instant \<Rightarrow> ful_db \<times> 'ord \<Rightarrow> batch_receipt trip_reply \<times> ful_db \<times> 'ord" where
  "postDispatchBatch msg oapi fenv r now s =
     (if \<not> batchRequestValid r then (TripReply 400 (Some ''Invalid request body'') None, s)
      else let (result, s') = dispatchBatch oapi fenv r now s in (answered msg result, s'))"

definition fulfilment_service ::
    "(ful_error \<Rightarrow> string) \<Rightarrow> 'ord order_api \<Rightarrow> ful_env \<Rightarrow> (ful_db \<times> 'ord) fulfillment_api" where
  "fulfilment_service msg oapi fenv = \<lparr> fa_claim = postClaim msg, fa_release = postRelease msg,
     fa_status = (\<lambda>t claimId s. answered msg (claimStatus t claimId (fst s))),
     fa_readiness = postReadiness msg oapi, fa_dispatchBatch = postDispatchBatch msg oapi fenv \<rparr>"

lemma fulfilment_service_simps [simp]:
  "fa_claim (fulfilment_service msg oapi fenv) = postClaim msg"
  "fa_release (fulfilment_service msg oapi fenv) = postRelease msg"
  "fa_dispatchBatch (fulfilment_service msg oapi fenv) = postDispatchBatch msg oapi fenv"
  by (simp_all add: fulfilment_service_def)

lemma ful_reply_status_error [simp]: "\<not> http_ok (ful_reply_status e)"
  by (cases e) (auto simp: ful_reply_status_def http_ok_def)

section \<open>Operation rows\<close>

lemma find_same_key:
  assumes "\<And>x. k (g x) = k x"
  shows "List.find (\<lambda>x. k x = i) (update_where (\<lambda>x. k x = j) g xs) =
    map_option (\<lambda>x. if i = j then g x else x) (List.find (\<lambda>x. k x = i) xs)"
  using assms by (induction xs) auto

lemma findOperation_set:
  assumes "\<And>x. to_id (g x) = to_id x"
  shows "findOperation i (setOperation j g db) = map_option (\<lambda>x. if i = j then g x else x) (findOperation i db)"
  unfolding findOperation_def setOperation_def by (simp add: find_same_key [of to_id g] assms)

lemma setOperation_frame [simp]:
  "tripShipments (setOperation i g db) = tripShipments db" "trips (setOperation i g db) = trips db"
  "tripStops (setOperation i g db) = tripStops db" "tripDispatches (setOperation i g db) = tripDispatches db"
  "trp_next (setOperation i g db) = trp_next db" "pendingMembers j st (setOperation i g db) = pendingMembers j st db"
  by (simp_all add: setOperation_def pendingMembers_def operationMembers_def)

section \<open>A refused release\<close>

text \<open>The fulfilment service refuses the request at every time.\<close>

definition refused :: "release_request \<Rightarrow> ful_db \<Rightarrow> bool" where
  "refused q f \<longleftrightarrow> (\<forall>now. \<exists>e. releaseShipment q now f = Inl e)"

lemma fulRelease_refused:
  assumes "parseReleaseRequest q = Some q" "refused q f"
  shows "\<exists>e. fulRelease (fulfilment_service msg oapi fenv) q now (f, s) = (Inl e, f, s)"
proof -
  from assms(2) obtain e where "releaseShipment q now f = Inl e" by (auto simp: refused_def)
  with assms(1) show ?thesis by (simp add: fulRelease_def postRelease_def answered_tx_def fulRequest_def)
qed

text \<open>An operation that releases one membership, still to be released.\<close>

definition releasing :: "uuid \<Rightarrow> trip_op \<Rightarrow> trip_shipment \<Rightarrow> release_request \<Rightarrow> trp_db \<Rightarrow> bool" where
  "releasing i p m q db \<longleftrightarrow> findOperation i db = Some p \<and> op_open (to_status p) \<and>
     (to_status p = O_COMPENSATING \<or> releases_kind (to_kind p)) \<and>
     pendingMembers i M_RELEASE_PENDING db = [m] \<and> ts_releaseRequest m = Some q \<and> parseReleaseRequest q = Some q"

lemma by_assignment_single [simp]: "by_assignment [m] = [m]"
  by (simp add: by_assignment_def)

text \<open>One attempt at it changes nothing but the operation's retry counter.\<close>

lemma resume_refused:
  assumes r: "releasing i p m q db" and f: "refused q f"
  shows "\<exists>db' p'. resume env (fulfilment_service msg oapi fenv) i force now (db, f, s) = (db', f, s) \<and>
    releasing i p' m q db' \<and> to_activeLock p' = to_activeLock p \<and> to_tripId p' = to_tripId p \<and> to_status p' = to_status p \<and>
    tripShipments db' = tripShipments db \<and> trips db' = trips db \<and> tripStops db' = tripStops db"
proof (cases "exists_row (\<lambda>p. to_id p = i \<and> leasable force now p) (tripOperations db)")
  case False
  with r show ?thesis by (auto simp: resume_def)
next
  case True
  let ?api = "fulfilment_service msg oapi fenv"
  let ?lease = "\<lambda>p. p\<lparr> to_lockedUntil := Some (now + PROCESS_LEASE_MS) \<rparr>"
  let ?db1 = "setOperation i ?lease db"
  note r' = r [unfolded releasing_def]
  have p1: "findOperation i ?db1 = Some (?lease p)" using r' by (simp add: findOperation_set)
  obtain e where e: "fulRelease ?api q now (f, s) = (Inl e, f, s)"
    using fulRelease_refused [of q f msg oapi fenv now s] r' f by blast
  have rows: "releaseRows ?api (by_assignment (pendingMembers i M_RELEASE_PENDING ?db1)) now (?db1, f, s) = (Some e, ?db1, f, s)"
    using r' e by simp
  have k: "op_open (to_status p)" "to_status p = O_COMPENSATING \<or> releases_kind (to_kind p)" using r' by blast+
  then have nc: "\<not> (to_status p = O_PENDING \<and> to_kind p = K_ADD)" by (auto simp: releases_kind_def)
  have "processReleases ?api i now (?db1, f, s) = (Some e, ?db1, f, s)"
    unfolding processReleases_def using p1 k(2) rows by simp
  then have pr: "processOperation env ?api i now (?db1, f, s) = (Some e, ?db1, f, s)"
    unfolding processOperation_def using p1 k(1) nc by auto
  let ?retry = "\<lambda>p. p\<lparr> to_attemptCount := to_attemptCount p + 1,
    to_nextAttemptAt := now + retryDelay (to_attemptCount p + 1), to_lockedUntil := None,
    to_lastError := Some (error_message env e) \<rparr>"
  let ?db = "setOperation i (\<lambda>p. p\<lparr> to_lockedUntil := None \<rparr>) (setOperation i ?retry ?db1)"
  let ?p = "(?retry (?lease p))\<lparr> to_lockedUntil := None \<rparr>"
  have "resume env ?api i force now (db, f, s) = (?db, f, s)"
    unfolding resume_def using True pr p1 k(1) by (simp add: scheduleRetry_def releaseLease_def)
  moreover have "findOperation i ?db = Some ?p" using r' by (simp add: findOperation_set)
  ultimately show ?thesis using r' unfolding releasing_def
    by (intro exI [of _ ?db] exI [of _ ?p]) simp
qed

fun attempts ::
    "trp_env \<Rightarrow> 'ful fulfillment_api \<Rightarrow> uuid \<Rightarrow> instant list \<Rightarrow> trp_db \<times> 'ful \<Rightarrow> trp_db \<times> 'ful" where
  "attempts env api i [] w = w"
| "attempts env api i (now # nows) w = attempts env api i nows (resume env api i True now w)"

lemma attempts_refused:
  assumes "releasing i p m q db" "refused q f"
  shows "\<exists>db' p'. attempts env (fulfilment_service msg oapi fenv) i nows (db, f, s) = (db', f, s) \<and>
    releasing i p' m q db' \<and> to_activeLock p' = to_activeLock p \<and> to_status p' = to_status p \<and> tripShipments db' = tripShipments db"
  using assms
proof (induction nows arbitrary: db p)
  case (Cons now nows)
  from resume_refused [OF Cons.prems, of env msg oapi fenv True now s] obtain db1 p1 where
    r: "resume env (fulfilment_service msg oapi fenv) i True now (db, f, s) = (db1, f, s)" "releasing i p1 m q db1"
      "to_activeLock p1 = to_activeLock p" "to_status p1 = to_status p" "tripShipments db1 = tripShipments db" by blast
  from Cons.IH [OF r(2) Cons.prems(2)] r show ?case by (metis attempts.simps(2))
qed auto

section \<open>Why a release is refused\<close>

lemma releaseShipment_error:
  assumes "parseReleaseRequest q = Some q" "releaseTx q now f = Inl e"
  shows "\<exists>e. releaseShipment q now f = Inl e"
  using assms by (auto simp: releaseShipment_def requestConflict_def)

text \<open>The request comes from another user than the claim.\<close>

lemma refused_actor:
  assumes ok: "ful_ok f" and r: "r \<in> set (tripReceipts f)" "tr_operation r = CLAIM" "tr_claimId r = lr_claimId q"
    and a: "tr_actorId r \<noteq> lr_actorId q" and n: "findReceipt (lr_tenantId q) (lr_requestId q) f = None"
    and v: "parseReleaseRequest q = Some q"
  shows "refused q f"
proof -
  have c: "claims_ok f" using ok by (simp add: ful_ok_def ful_but_def)
  have only: "r' = r" if "findClaim (lr_tenantId q) (lr_claimId q) f = Some r'" for r'
    using find_Some_D [OF that [unfolded findClaim_def]] c r unfolding claims_ok_def by auto
  have "\<exists>e. releaseTx q now f = Inl e" for now
  proof (cases "loadShipment (lr_tenantId q) (lr_shipmentId q) f")
    case (Inr x)
    show ?thesis
    proof (cases "findClaim (lr_tenantId q) (lr_claimId q) f")
      case (Some r')
      have "originalMatches r q \<noteq> Inr True" using a by (auto simp: originalMatches_def split: trip_request.split trip_response.split)
      then show ?thesis using Inr Some only n
        by (cases "originalMatches r q") (auto simp: releaseTx_def)
    qed (use Inr n in \<open>simp add: releaseTx_def\<close>)
  qed (use n in \<open>simp add: releaseTx_def\<close>)
  then show ?thesis unfolding refused_def using releaseShipment_error [OF v] by blast
qed

text \<open>The shipment has moved on since the request was written.\<close>

lemma refused_version:
  assumes n: "findReceipt (lr_tenantId q) (lr_requestId q) f = None" and v: "parseReleaseRequest q = Some q"
    and x: "\<And>x. findShipment (lr_tenantId q) (lr_shipmentId q) f = Some x \<Longrightarrow> sp_version x \<noteq> lr_expectedShipmentVersion q"
  shows "refused q f"
proof -
  have "\<exists>e. releaseTx q now f = Inl e" for now
  proof (cases "findShipment (lr_tenantId q) (lr_shipmentId q) f")
    case (Some y)
    with x n show ?thesis
      by (cases "findClaim (lr_tenantId q) (lr_claimId q) f"; cases "originalMatches (the (findClaim (lr_tenantId q) (lr_claimId q) f)) q")
        (auto simp: releaseTx_def loadShipment_def assertShipmentVersion_def)
  qed (use n in \<open>simp add: releaseTx_def loadShipment_def\<close>)
  then show ?thesis unfolding refused_def using releaseShipment_error [OF v] by blast
qed

end
