(* ===== verification/Transport_Work.thy ===== *)
theory Transport_Work
  imports Transport_Steps Transport_Service
begin

text \<open>
  The transport service as step relations: one step is one transaction of one of its operations, so that
  requests, workers and the consumer interleave at will between them. In \<open>trp_work\<close> every worker on an
  operation carries what it has read so far, and its steps have the conditions of the code and no others; a
  worker takes an operation that no other works on, which is what its lease gives for as long as the work
  takes. In \<open>trp_step\<close> the workers are left out, and the premises of their steps say what they know; every
  step of \<open>trp_work\<close> is one of \<open>trp_step\<close> or leaves the database alone.
\<close>

section \<open>Steps of the database\<close>

definition no_pending :: "uuid \<Rightarrow> trp_db \<Rightarrow> bool" where
  "no_pending i db \<longleftrightarrow> (\<forall>m\<in>set (tripShipments db). ts_operationId m = Some i \<longrightarrow> \<not> member_pending m)"

text \<open>The claim named by a compensation is one of its operation that has not left the trip.\<close>

definition claim_of :: "uuid \<Rightarrow> (uuid \<times> claim_receipt) option \<Rightarrow> trp_db \<Rightarrow> bool" where
  "claim_of i invalid db \<longleftrightarrow> (case invalid of None \<Rightarrow> True | Some (j, receipt) \<Rightarrow>
     \<forall>x\<in>set (tripShipments db). ts_id x = j \<longrightarrow> ts_operationId x = Some i \<and> ts_state x \<noteq> M_RELEASED)"

text \<open>The transactions of the requests, the consumer and the dispatches.\<close>

inductive trp_free :: "trp_db \<Rightarrow> trp_db \<Rightarrow> bool" where
  creates: "createTripTx env stamp user dto depot vehicle driver now db = Inr (i, db') \<Longrightarrow> trp_free db db'"
| assigns: "updateDriverTx env user trip kind dto vehicleId (Some driverId) (Some driver) now db = Inr db' \<Longrightarrow> trp_free db db'"
| edits: "updateLocalTx user trip dto now db = Inr db' \<Longrightarrow> trp_free db db'"
| adds: "addTx env user trip dto now db = Inr (i, db') \<Longrightarrow> trp_free db db'"
| removes: "removeTx env user trip dto now db = Inr (i, db') \<Longrightarrow> trp_free db db'"
| cancels: "cancelTx env user trip dto claims now db = Inr (i, db') \<Longrightarrow> trp_free db db'"
| shipment_canceled: "shipmentCanceledTx (event :: shipment_lifecycle option envelope) now db = Inr (r, db') \<Longrightarrow> trp_free db db'"
| plans: "manualTx renv user trip dto input now db = Inr (r, db') \<Longrightarrow> trp_free db db'"
| approves: "approveTx renv user trip dto context plan ordered now db = Inr (y, db') \<Longrightarrow> trp_free db db'"
| reopens: "reopenTx user trip dto now db = Inr (y, db') \<Longrightarrow> trp_free db db'"
| settles: "settleTx denv user trip stop dto action now db = Inr (r, db') \<Longrightarrow> trp_free db db'"
| accepts: "payload = batchRequestOf user trip dto sel n \<Longrightarrow> batchRequestValid payload \<Longrightarrow>
    acceptDispatchTx user trip dto hash payload now db = Inr db' \<Longrightarrow> trp_free db db'"
| draws: "trp_next db \<le> n \<Longrightarrow> trp_free db (db\<lparr> trp_next := n \<rparr>)"
| submits: "dispatch_row t row payload db \<Longrightarrow> submitTx t row payload db = Inr db' \<Longrightarrow> trp_free db db'"
| rejects: "trp_free db (rejectDispatch i c db)"
| receipts: "submitted i db \<Longrightarrow> trp_free db (saveBatchReceipt i c db)"
| commits: "dispatch_row t row payload db \<Longrightarrow> commitDispatchTx t row payload now db = Inr db' \<Longrightarrow> trp_free db db'"
| fails: "trp_free db (failUpdate row latest e now db)"
| defers: "trp_free db (setDispatch i dispatch_pending (\<lambda>d. d\<lparr> td_lastError := e, td_attemptCount := n d, td_nextAttemptAt := a \<rparr>) db)"

inductive trp_step :: "trp_db \<Rightarrow> trp_db \<Rightarrow> bool" where
  free: "trp_free db db' \<Longrightarrow> trp_step db db'"
| leases: "trp_step db (setOperation i (\<lambda>p. p\<lparr> to_lockedUntil := l \<rparr>) db)"
| retries: "trp_step db (scheduleRetry env i e now db)"
| claims: "persistClaim m receipt s now db = Inr db' \<Longrightarrow> trp_step db db'"
| releases: "persistRelease j rr now db = Inr db' \<Longrightarrow> trp_step db db'"
| compensates: "findOperation i db = Some p \<Longrightarrow> op_open (to_status p) \<Longrightarrow> to_kind p = K_ADD \<Longrightarrow> claim_of i invalid db \<Longrightarrow>
    beginCompensation i reason invalid now db = Inr db' \<Longrightarrow> trp_step db db'"
| ends: "findOperation i db = Some p \<Longrightarrow> op_open (to_status p) \<Longrightarrow> \<not> op_open status \<Longrightarrow> no_pending i db \<Longrightarrow>
    finalize i status now db = Inr db' \<Longrightarrow> trp_step db db'"

lemma trp_free_keeps: "trp_free db db' \<Longrightarrow> keeps_trp {} db db'"
  by (induction rule: trp_free.induct)
    (simp_all add: createTripTx_keeps updateDriverTx_keeps updateLocalTx_keeps addTx_keeps removeTx_keeps cancelTx_keeps
      shipmentCanceledTx_keeps manualTx_keeps approveTx_keeps reopenTx_keeps settleTx_keeps acceptDispatchTx_keeps submitTx_keeps
      rejectDispatch_keeps saveBatchReceipt_keeps commitDispatchTx_keeps failUpdate_keeps deferDispatch_keeps frame_keeps(5))

lemma trp_step_keeps: "trp_step db db' \<Longrightarrow> keeps_trp {} db db'"
proof (induction rule: trp_step.induct)
  case (compensates i db p invalid reason now db')
  then show ?case by (intro beginCompensation_keeps) (auto simp: claim_of_def)
next
  case (ends i db p status now db')
  then show ?case by (intro finalize_keeps) (auto simp: no_pending_def)
qed (simp_all add: trp_free_keeps lease_keeps scheduleRetry_keeps persistClaim_keeps persistRelease_keeps)

lemma trp_steps_keep: "trp_step\<^sup>*\<^sup>* db db' \<Longrightarrow> keeps_trp {} db db'"
  by (induction rule: rtranclp_induct) (blast intro: keeps_trp_trans trp_step_keeps)+

lemma trp_steps_ok: "trp_step\<^sup>*\<^sup>* db db' \<Longrightarrow> trp_ok db \<Longrightarrow> trp_ok db'"
  using trp_steps_keep keeps_trpD unfolding trp_ok_def by blast

lemma trp_steps_evolve: "trp_step\<^sup>*\<^sup>* db db' \<Longrightarrow> trp_ok db \<Longrightarrow> trips_evolve db db'"
  using trp_steps_keep unfolding trp_ok_def keeps_trp_def by blast

section \<open>Workers\<close>

text \<open>
  Where a worker stands: it has the lease, has read the operation's row, works through a list of claims, could
  not save the reply of one, has begun a compensation, has read the row again after the claims, works through a
  list of releases with the row it read before them, has counted no waiting membership and is about to end the
  operation, or is done.
\<close>

datatype work =
    Leased
  | Has trip_op
  | Claims "trip_shipment list"
  | Unsaved
  | Refused
  | Claimed trip_op
  | Releases trip_op "trip_shipment list"
  | Ready op_status
  | Done

type_synonym workers = "uuid \<Rightarrow> work option"

definition releases_next :: "trip_op \<Rightarrow> bool" where
  "releases_next p \<longleftrightarrow> to_status p = O_COMPENSATING \<or> releases_kind (to_kind p)"

definition final_status :: "trip_op \<Rightarrow> op_status" where
  "final_status p = (if to_status p = O_COMPENSATING then O_REJECTED else O_COMPLETED)"

inductive trp_work :: "trp_db \<times> workers \<Rightarrow> trp_db \<times> workers \<Rightarrow> bool" where
  other: "trp_free db db' \<Longrightarrow> trp_work (db, ws) (db', ws)"
| takes: "ws i = None \<Longrightarrow> exists_row (\<lambda>p. to_id p = i \<and> leasable force now p) (tripOperations db) \<Longrightarrow>
    trp_work (db, ws) (setOperation i (\<lambda>p. p\<lparr> to_lockedUntil := Some (now + PROCESS_LEASE_MS) \<rparr>) db, ws(i \<mapsto> Leased))"
| reads: "ws i = Some Leased \<Longrightarrow> findOperation i db = Some p \<Longrightarrow> op_open (to_status p) \<Longrightarrow> trp_work (db, ws) (db, ws(i \<mapsto> Has p))"
| rereads: "ws i \<in> {Some (Has q), Some (Claimed q)} \<Longrightarrow> findOperation i db = Some p \<Longrightarrow> trp_work (db, ws) (db, ws(i \<mapsto> Has p))"
| lists_claims: "ws i = Some (Has p) \<Longrightarrow> to_status p = O_PENDING \<Longrightarrow> to_kind p = K_ADD \<Longrightarrow>
    trp_work (db, ws) (db, ws(i \<mapsto> Claims (pendingMembers i M_CLAIM_PENDING db)))"
| claims: "ws i = Some (Claims ms) \<Longrightarrow> m \<in> set ms \<Longrightarrow> persistClaim m receipt s now db = Inr db' \<Longrightarrow> trp_work (db, ws) (db', ws)"
| not_saved: "ws i = Some (Claims ms) \<Longrightarrow> m \<in> set ms \<Longrightarrow> beginCompensation i reason (Some (ts_id m, receipt)) now db = Inr db' \<Longrightarrow>
    trp_work (db, ws) (db', ws(i \<mapsto> Unsaved))"
| refused: "ws i \<in> {Some (Claims ms), Some Unsaved} \<Longrightarrow> beginCompensation i reason None now db = Inr db' \<Longrightarrow>
    trp_work (db, ws) (db', ws(i \<mapsto> Refused))"
| claimed: "ws i \<in> {Some (Claims ms), Some Refused} \<Longrightarrow> findOperation i db = Some p \<Longrightarrow> trp_work (db, ws) (db, ws(i \<mapsto> Claimed p))"
| claims_end: "ws i = Some (Claimed p) \<Longrightarrow> to_status p = O_PENDING \<Longrightarrow> pendingMembers i M_CLAIM_PENDING db = [] \<Longrightarrow>
    trp_work (db, ws) (db, ws(i \<mapsto> Ready O_COMPLETED))"
| lists_releases: "ws i = Some (Has p) \<Longrightarrow> releases_next p \<Longrightarrow>
    trp_work (db, ws) (db, ws(i \<mapsto> Releases p (pendingMembers i M_RELEASE_PENDING db)))"
| releases: "ws i = Some (Releases p ms) \<Longrightarrow> m \<in> set ms \<Longrightarrow> persistRelease (ts_id m) rr now db = Inr db' \<Longrightarrow> trp_work (db, ws) (db', ws)"
| releases_end: "ws i = Some (Releases p ms) \<Longrightarrow> pendingMembers i M_RELEASE_PENDING db = [] \<Longrightarrow>
    trp_work (db, ws) (db, ws(i \<mapsto> Ready (final_status p)))"
| ends: "ws i = Some (Ready status) \<Longrightarrow> finalize i status now db = Inr db' \<Longrightarrow> trp_work (db, ws) (db', ws(i \<mapsto> Done))"
| retries: "ws i = Some w \<Longrightarrow> trp_work (db, ws) (scheduleRetry env i e now db, ws(i \<mapsto> Done))"
| frees: "ws i = Some w \<Longrightarrow> trp_work (db, ws) (releaseLease i db, ws(i := None))"
| dies: "ws i = Some w \<Longrightarrow> trp_work (db, ws) (db, ws(i := None))"

section \<open>What a step leaves to the other workers\<close>

text \<open>A step changes at most the memberships named by \<open>I\<close>, and leaves each with its operation or gives it to \<open>k\<close>.\<close>

definition rows_change :: "uuid set \<Rightarrow> uuid option \<Rightarrow> trp_db \<Rightarrow> trp_db \<Rightarrow> bool" where
  "rows_change I k db db' \<longleftrightarrow> (\<exists>g. tripShipments db' = map g (tripShipments db) \<and>
     (\<forall>x. ts_id (g x) = ts_id x \<and> (ts_id x \<notin> I \<longrightarrow> g x = x) \<and> ts_operationId (g x) \<in> {ts_operationId x, k}))"

lemma rows_change_same: "tripShipments db' = tripShipments db \<Longrightarrow> rows_change I k db db'"
  unfolding rows_change_def by (intro exI [of _ id]) simp

lemma rows_change_trans:
  assumes "rows_change I k a b" "rows_change J k b c"
  shows "rows_change (I \<union> J) k a c"
proof -
  from assms obtain f g where "tripShipments b = map f (tripShipments a)" "tripShipments c = map g (tripShipments b)"
    "\<forall>x. ts_id (f x) = ts_id x \<and> (ts_id x \<notin> I \<longrightarrow> f x = x) \<and> ts_operationId (f x) \<in> {ts_operationId x, k}"
    "\<forall>x. ts_id (g x) = ts_id x \<and> (ts_id x \<notin> J \<longrightarrow> g x = x) \<and> ts_operationId (g x) \<in> {ts_operationId x, k}"
    unfolding rows_change_def by blast
  moreover from this have "ts_operationId (g (f x)) \<in> {ts_operationId x, k}" for x by (metis insert_iff singletonD)
  ultimately show ?thesis unfolding rows_change_def by (intro exI [of _ "g \<circ> f"]) auto
qed

lemma rows_change_set:
  assumes "\<And>x. ts_id (f x) = ts_id x \<and> ts_operationId (f x) \<in> {ts_operationId x, k}" "j \<in> I"
    "tripShipments db' = tripShipments (setMember j f db)"
  shows "rows_change I k db db'"
  unfolding rows_change_def
  by (intro exI [of _ "\<lambda>x. if ts_id x = j then f x else x"]) (use assms in \<open>auto simp: setMember_def update_where_def\<close>)

lemma rows_change_others:
  assumes c: "rows_change I k db db'" and k: "k \<noteq> Some i"
    and n: "\<And>x. x \<in> set (tripShipments db) \<Longrightarrow> ts_id x \<in> I \<Longrightarrow> ts_operationId x \<noteq> Some i"
  shows "set (operationMembers i db') = set (operationMembers i db)"
proof -
  from c obtain g where g: "tripShipments db' = map g (tripShipments db)"
    "\<And>x. ts_id (g x) = ts_id x" "\<And>x. ts_id x \<notin> I \<Longrightarrow> g x = x" "\<And>x. ts_operationId (g x) \<in> {ts_operationId x, k}"
    unfolding rows_change_def by blast
  have "g x = x" if "x \<in> set (tripShipments db)" "ts_operationId (g x) = Some i \<or> ts_operationId x = Some i" for x
    using g(3,4) [of x] n [OF that(1)] k that(2) by (cases "ts_id x \<in> I") auto
  then show ?thesis unfolding operationMembers_def g(1) by force
qed

text \<open>The row of the operation \<open>i\<close> keeps its kind and its status.\<close>

definition op_kept :: "uuid \<Rightarrow> trp_db \<Rightarrow> trp_db \<Rightarrow> bool" where
  "op_kept i db db' \<longleftrightarrow> (\<forall>p. findOperation i db = Some p \<longrightarrow>
     (\<exists>q. findOperation i db' = Some q \<and> to_status q = to_status p \<and> to_kind q = to_kind p))"

lemma op_kept_same: "tripOperations db' = tripOperations db \<Longrightarrow> op_kept i db db'"
  by (simp add: op_kept_def findOperation_def)

lemma op_kept_append: "tripOperations db' = tripOperations db @ ps \<Longrightarrow> op_kept i db db'"
  by (simp add: op_kept_def findOperation_def find_append)

lemma op_kept_set:
  assumes "tripOperations db' = tripOperations (setOperation j f db)"
    "\<And>p. to_id (f p) = to_id p \<and> (j = i \<longrightarrow> to_status (f p) = to_status p \<and> to_kind (f p) = to_kind p)"
  shows "op_kept i db db'"
proof -
  have "findOperation i db' = findOperation i (setOperation j f db)" using assms(1) by (simp add: findOperation_def)
  then show ?thesis using assms(2) by (auto simp: op_kept_def findOperation_set)
qed

text \<open>The worker on the open operation \<open>i\<close> finds all as it left it.\<close>

definition undisturbed :: "uuid \<Rightarrow> trp_db \<Rightarrow> trp_db \<Rightarrow> bool" where
  "undisturbed i db db' \<longleftrightarrow> (\<forall>p. findOperation i db = Some p \<and> op_open (to_status p) \<longrightarrow>
     op_kept i db db' \<and> set (operationMembers i db') = set (operationMembers i db))"

lemma undisturbedI:
  "op_kept i db db' \<Longrightarrow> (\<And>p. findOperation i db = Some p \<Longrightarrow> op_open (to_status p) \<Longrightarrow>
     set (operationMembers i db') = set (operationMembers i db)) \<Longrightarrow> undisturbed i db db'"
  by (simp add: undisturbed_def)

lemma undisturbed_same:
  "tripOperations db' = tripOperations db \<and> tripShipments db' = tripShipments db \<Longrightarrow> undisturbed i db db'"
  by (rule undisturbedI) (simp_all add: op_kept_same operationMembers_def)

lemma undisturbed_appended:
  "tripOperations db' = tripOperations db @ ps \<and> tripShipments db' = tripShipments db \<Longrightarrow> undisturbed i db db'"
  by (rule undisturbedI) (auto simp: op_kept_append operationMembers_def)

text \<open>A request that takes memberships off a trip: the trip is unlocked, and the operation is new.\<close>

lemma undisturbed_released:
  assumes ok: "trp_ok db" and o: "tripOperations db' = tripOperations db @ [q]" "to_id q \<notin> to_id ` set (tripOperations db)"
    and c: "rows_change I (Some j) db db'" and j: "to_id q = j" and l: "\<not> locked k db"
    and n: "\<And>x. x \<in> set (tripShipments db) \<Longrightarrow> ts_id x \<in> I \<Longrightarrow> trip_key x = k"
  shows "undisturbed i db db'"
proof (rule undisturbedI)
  show "op_kept i db db'" using o(1) by (rule op_kept_append)
  fix p assume p: "findOperation i db = Some p" "op_open (to_status p)"
  note B = ok [unfolded trp_ok_def]
  obtain x where x: "to_activeLock p = Some (lock_of x)" "\<And>m. m \<in> set (tripShipments db) \<Longrightarrow> ts_operationId m = Some i \<Longrightarrow> trip_key m = lock_of x"
    using open_op [OF B p] by metis
  note F = findOperation_D [OF B p(1)]
  show "set (operationMembers i db') = set (operationMembers i db)"
  proof (rule rows_change_others [OF c])
    show "Some j \<noteq> Some i" using o(2) j F(1,2) by auto
    show "ts_operationId m \<noteq> Some i" if "m \<in> set (tripShipments db)" "ts_id m \<in> I" for m
      using n [OF that] x l F(1) that(1) by (auto simp: locked_def)
  qed
qed

section \<open>The transactions of the others\<close>

lemma createOperation_frame:
  "createOperation q db = Inr db' \<Longrightarrow> tripOperations db' = tripOperations db @ [q] \<and> tripShipments db' = tripShipments db \<and>
     to_id q \<notin> to_id ` set (tripOperations db)"
  by (auto simp: createOperation_def split: if_splits)

lemma createMembers_frame:
  "createMembers ms db = Inr db' \<Longrightarrow> tripShipments db' = tripShipments db @ ms \<and> tripOperations db' = tripOperations db"
  by (induction ms arbitrary: db) (auto simp: createMember_def bind_res_Inr_iff split: if_splits)

lemma newMembers_operation: "m \<in> set (newMembers user trip j v n items now) \<Longrightarrow> ts_operationId m = Some j"
  by (induction items arbitrary: n) (auto simp: newMember_def)

lemma releaseMembers_frame:
  "releaseMembers j actor v why ms db = Inr db' \<Longrightarrow> tripOperations db' = tripOperations db \<and> rows_change (ts_id ` set ms) (Some j) db db'"
proof (induction ms arbitrary: db)
  case (Cons m ms)
  from Cons.prems obtain q where r: "releaseMembers j actor v why ms (setMember (ts_id m) (\<lambda>x. x\<lparr> ts_operationId := Some j,
      ts_state := M_RELEASE_PENDING, ts_releaseRequest := Some q \<rparr>) (db\<lparr> trp_next := trp_next db + 1 \<rparr>)) = Inr db'"
    by (auto simp: bind_res_Inr_iff)
  note IH = Cons.IH [OF r]
  have "rows_change {ts_id m} (Some j) db (setMember (ts_id m) (\<lambda>x. x\<lparr> ts_operationId := Some j,
      ts_state := M_RELEASE_PENDING, ts_releaseRequest := Some q \<rparr>) (db\<lparr> trp_next := trp_next db + 1 \<rparr>))"
    by (rule rows_change_set [of "\<lambda>x. x\<lparr> ts_operationId := Some j, ts_state := M_RELEASE_PENDING, ts_releaseRequest := Some q \<rparr>"])
      (simp_all add: setMember_def)
  from rows_change_trans [OF this conjunct2 [OF IH]] show ?case using IH by simp
qed (simp add: rows_change_same)

lemma active_on_trip:
  assumes ok: "trp_ok db" and ms: "set ms \<subseteq> set (activeMembers t i db)" and x: "x \<in> set (tripShipments db)" "ts_id x \<in> ts_id ` set ms"
  shows "trip_key x = (t, i)"
  using on_trip_active [OF ok [unfolded trp_ok_def] ms] x unfolding on_trip_def by blast

lemma addTx_undisturbed:
  assumes "addTx env user trip dto now db = Inr (j, db')"
  shows "undisturbed i db db'"
proof -
  let ?k = "trp_next db"
  from assms obtain v x db1 db2 y ms where ms: "ms = newMembers user x ?k v (?k + 1) (ad_shipments dto) now"
    and c: "createOperation (newOperation ?k (us_tenantId user) trip (ad_requestId dto) (us_id user) K_ADD (te_hash env (HashAdd trip dto))
        (map ai_shipmentId (ad_shipments dto)) (map ts_id ms) None now) (db\<lparr> trp_next := ?k + 1 + 2 * length ms \<rparr>) = Inr db1"
    and m: "createMembers ms db1 = Inr db2" and u: "updateTrip trip bumpTrip now db2 = Inr (y, db')"
    by (auto simp: addTx_def Let_def bind_res_Inr_iff split: if_splits)
  note C = createOperation_frame [OF c] and M = createMembers_frame [OF m] and U = updateTrip_frame [OF u]
  show ?thesis
  proof (rule undisturbedI)
    show "op_kept i db db'" using C M U by (intro op_kept_append) simp
    fix p assume "findOperation i db = Some p"
    then have "?k \<noteq> i" using C by (auto simp: findOperation_def dest!: find_Some_D)
    then show "set (operationMembers i db') = set (operationMembers i db)" using C M U
      by (auto simp: operationMembers_def ms dest: newMembers_operation)
  qed
qed

lemma removeTx_undisturbed:
  assumes ok: "trp_ok db" and r: "removeTx env user trip dto now db = Inr (j, db')"
  shows "undisturbed i db db'"
proof -
  let ?t = "us_tenantId user"
  from r obtain x ms v db1 db2 y where d: "draftTrip ?t trip (rm_expectedTripVersion dto) ''REMOVE_SHIPMENTS'' db = Inr x"
    and ms: "ms = filter (\<lambda>m. ts_shipmentId m \<in> set (rm_shipmentIds dto)) (activeMembers ?t trip db)"
    and c: "createOperation (newOperation (trp_next db) ?t trip (rm_requestId dto) (us_id user) K_REMOVE (te_hash env (HashRemove trip dto))
        (rm_shipmentIds dto) (map ts_id ms) (Some ''REMOVED_FROM_TRIP'') now) (db\<lparr> trp_next := trp_next db + 1 \<rparr>) = Inr db1"
    and m: "releaseMembers (trp_next db) (us_id user) v ''REMOVED_FROM_TRIP'' ms db1 = Inr db2" and u: "updateTrip trip bumpTrip now db2 = Inr (y, db')"
    by (auto simp: removeTx_def Let_def bind_res_Inr_iff split: if_splits)
  note C = createOperation_frame [OF c] and M = releaseMembers_frame [OF m] and U = updateTrip_frame [OF u]
  have rc: "rows_change (ts_id ` set ms) (Some (trp_next db)) db db'" using M C U by (simp add: rows_change_def)
  show ?thesis
    by (rule undisturbed_released [OF ok _ _ rc]) (use C M U draftTrip_D(4) [OF d] active_on_trip [OF ok, of ms] ms in auto)
qed

lemma cancelTx_undisturbed:
  assumes ok: "trp_ok db" and r: "cancelTx env user trip dto claims now db = Inr (j, db')"
  shows "undisturbed i db db'"
proof -
  let ?t = "us_tenantId user"
  from r obtain u0 v db1 db2 y where d: "noLock ?t trip db = Inr u0"
    and c: "createOperation (newOperation (trp_next db) ?t trip (cn_requestId dto) (us_id user) K_CANCEL (te_hash env (HashCancel trip dto))
        (map ts_shipmentId (releasableMembers ?t trip db)) (map ts_id (releasableMembers ?t trip db)) (Some (cn_reason dto)) now)
        (db\<lparr> trp_next := trp_next db + 1 \<rparr>) = Inr db1"
    and m: "cancelMembers (trp_next db) (us_id user) v (releasableMembers ?t trip db) db1 = Inr db2" and u: "updateTrip trip bumpTrip now db2 = Inr (y, db')"
    by (auto simp: cancelTx_def Let_def bind_res_Inr_iff split: if_splits)
  note C = createOperation_frame [OF c] and M = releaseMembers_frame [OF cancelMembers_release [OF m]] and U = updateTrip_frame [OF u]
  have ms: "set (releasableMembers ?t trip db) \<subseteq> set (activeMembers ?t trip db)" by (simp add: releasableMembers_def)
  have rc: "rows_change (ts_id ` set (releasableMembers ?t trip db)) (Some (trp_next db)) db db'" using M C U by (simp add: rows_change_def)
  show ?thesis
    by (rule undisturbed_released [OF ok _ _ rc]) (use C M U noLock_D [OF d] active_on_trip [OF ok ms] in auto)
qed

lemma trp_inbox_create_rows:
  "trp_inbox_create event out db = Inr db' \<Longrightarrow> tripOperations db' = tripOperations db \<and> tripShipments db' = tripShipments db"
  using trp_inbox_create_frame [of event out db db'] by (simp add: same_core_tables_def)

lemma cancelMemberTx_undisturbed:
  assumes ok: "trp_ok db" and c: "cancelMemberTx event m now db = Inr (j, db')"
    and m: "m \<in> set (tripShipments db)" "member_live m" "ts_tenantId m = ev_tenantId event"
  shows "undisturbed i db db'"
proof -
  let ?t = "ev_tenantId event" and ?i = "trp_next db"
  from c obtain trip a k u q db1 y db5 where f: "findTrip ?t (ts_tripId m) db = Some trip"
    and a: "assertNoPending ?t (dt_id trip) db = Inr u"
    and o: "createOperation (newOperation ?i ?t (ts_tripId m) (ev_eventId event) a K_SHIPMENT_CANCELED (uuid_text (ev_eventId event))
        [ts_shipmentId m] [ts_id m] (Some ''SHIPMENT_CANCELED'') now) (db\<lparr> trp_next := ?i + 2 \<rparr>) = Inr db1"
    and up: "updateTrip (ts_tripId m) k now
       (setStops (\<lambda>p. ps_tenantId p = ?t \<and> ps_tripId p = ts_tripId m \<and> ps_shipmentId p = ts_shipmentId m \<and> stop_live p)
          (\<lambda>p. p\<lparr> ps_deletedAt := Some now, ps_version := ps_version p + 1 \<rparr>)
         (setStops (\<lambda>p. ps_tenantId p = ?t \<and> ps_tripId p = ts_tripId m) (\<lambda>p. p\<lparr> ps_approvedSequence := None \<rparr>)
           (setMember (ts_id m) (\<lambda>x. x\<lparr> ts_operationId := Some ?i, ts_state := M_RELEASE_PENDING,
              ts_shipmentVersion := Some (ev_aggregateVersion event), ts_releaseRequest := Some q \<rparr>) db1))) = Inr (y, db5)"
    and ib: "trp_inbox_create event ''APPLIED'' db5 = Inr db'"
    by (auto simp: cancelMemberTx_def Let_def bind_res_Inr_iff split: option.splits if_splits)
  note C = createOperation_frame [OF o] and U = updateTrip_frame [OF up] and N = trp_inbox_create_rows [OF ib]
  have rc: "rows_change {ts_id m} (Some ?i) db db'"
    by (rule rows_change_set [of "\<lambda>x. x\<lparr> ts_operationId := Some ?i, ts_state := M_RELEASE_PENDING,
        ts_shipmentVersion := Some (ev_aggregateVersion event), ts_releaseRequest := Some q \<rparr>"])
      (use C U N in \<open>simp_all add: setMember_def setStops_def\<close>)
  have "trip_key x = (?t, ts_tripId m)" if "x \<in> set (tripShipments db)" "ts_id x \<in> {ts_id m}" for x
    using on_trip_member [OF ok [unfolded trp_ok_def] m(1,2)] that m(3) by (simp add: on_trip_def trip_key_def)
  moreover have "\<not> locked (?t, ts_tripId m) db" using assertNoPending_D(1) [OF a] findTrip_D [OF f] by (simp add: lock_of_def)
  ultimately show ?thesis
    by (intro undisturbed_released [OF ok _ _ rc, of "newOperation ?i ?t (ts_tripId m) (ev_eventId event) a K_SHIPMENT_CANCELED
        (uuid_text (ev_eventId event)) [ts_shipmentId m] [ts_id m] (Some ''SHIPMENT_CANCELED'') now" "(?t, ts_tripId m)"])
      (use C U N in \<open>auto simp: setStops_def\<close>)
qed

lemma shipmentCanceledTx_undisturbed:
  assumes "trp_ok db" "shipmentCanceledTx event now db = Inr (r, db')"
  shows "undisturbed i db db'"
  using assms(2) undisturbed_same [OF trp_inbox_create_rows]
  by (auto simp: shipmentCanceledTx_def bind_res_Inr_iff split: if_splits option.splits
      dest!: liveMember_D elim!: cancelMemberTx_undisturbed [OF assms(1)])

lemma createTripTx_undisturbed:
  assumes "createTripTx env stamp user dto depot vehicle driver now db = Inr (j, db')"
  shows "undisturbed i db db'"
proof -
  from assms obtain x n db1 q where "createTrip x (db\<lparr> trp_next := n \<rparr>) = Inr db1" "createOperation q db1 = Inr db'"
    by (auto simp: createTripTx_def Let_def bind_res_Inr_iff)
  then have "tripOperations db' = tripOperations db @ [q] \<and> tripShipments db' = tripShipments db"
    using createOperation_frame [of q db1 db'] by (auto simp: createTrip_def split: if_splits)
  then show ?thesis by (rule undisturbed_appended)
qed

lemma guardedTripUpdate_frame:
  "guardedTripUpdate t trip v f now db = Inr (y, db') \<Longrightarrow> tripOperations db' = tripOperations db \<and> tripShipments db' = tripShipments db"
  by (auto simp: guardedTripUpdate_def bind_res_Inr_iff split: if_splits option.splits dest!: updateTrip_frame)

lemma updateDriverTx_undisturbed:
  assumes "updateDriverTx env user trip kind dto vehicleId driverId driver now db = Inr db'"
  shows "undisturbed i db db'"
proof -
  from assms obtain f y db1 n q where "guardedTripUpdate (us_tenantId user) trip (ue_expectedVersion dto) f now db = Inr (y, db1)"
    "createOperation q (db1\<lparr> trp_next := n \<rparr>) = Inr db'"
    by (auto simp: updateDriverTx_def Let_def bind_res_Inr_iff)
  then have "tripOperations db' = tripOperations db @ [q] \<and> tripShipments db' = tripShipments db"
    using createOperation_frame [of q "db1\<lparr> trp_next := n \<rparr>" db'] guardedTripUpdate_frame by fastforce
  then show ?thesis by (rule undisturbed_appended)
qed

lemma updateLocalTx_rows:
  "updateLocalTx user trip dto now db = Inr db' \<Longrightarrow> tripOperations db' = tripOperations db \<and> tripShipments db' = tripShipments db"
  by (auto simp: updateLocalTx_def bind_res_Inr_iff dest!: guardedTripUpdate_frame)

lemma core_rows: "same_core_tables db db' \<Longrightarrow> tripOperations db' = tripOperations db \<and> tripShipments db' = tripShipments db"
  by (simp add: same_core_tables_def)

lemma manualTx_rows:
  "manualTx renv user trip dto input now db = Inr (r, db') \<Longrightarrow> tripOperations db' = tripOperations db \<and> tripShipments db' = tripShipments db"
  by (auto simp: manualTx_def Let_def bind_res_Inr_iff split: option.splits if_splits dest!: createPlan_frame [THEN core_rows])

lemma approveTx_rows:
  assumes "approveTx renv user trip dto context plan ordered now db = Inr (y, db')"
  shows "tripOperations db' = tripOperations db \<and> tripShipments db' = tripShipments db"
proof (cases "db' = db")
  case False
  with assms obtain r n db1 db2 t f z db3 rs a b c d e g h where "createPlan r (db\<lparr> trp_next := n \<rparr>) = Inr db1"
    "numberStops t trip 1 ordered (clearSequence t trip db1) = Inr db2" "updateTrip trip f now db2 = Inr (z, db3)"
    "db' = (tripEvent t a b trip c d e g now db3)\<lparr> routePlans := rs \<rparr>"
    by (auto simp: approveTx_def Let_def bind_res_Inr_iff split: option.splits if_splits)
  then show ?thesis
    by (auto simp: tripEvent_def clearSequence_def setStops_def dest!: createPlan_frame [THEN core_rows] numberStops_frame [THEN core_rows] updateTrip_frame)
qed simp

lemma reopenTx_rows:
  "reopenTx user trip dto now db = Inr (y, db') \<Longrightarrow> tripOperations db' = tripOperations db \<and> tripShipments db' = tripShipments db"
  by (auto simp: reopenTx_def Let_def bind_res_Inr_iff tripEvent_def setStops_def dest!: updateTrip_frame)

lemma settleTx_rows:
  assumes "settleTx env user trip stop dto action now db = Inr (r, db')"
  shows "tripOperations db' = tripOperations db \<and> tripShipments db' = tripShipments db"
proof (cases "db' = db")
  case False
  with assms obtain h g c y db2 n at db3 t e v q pay where
    "updateTrip trip (advanceTrip c now) now (setStops h g db) = Inr (y, db2)"
    "createAttempt at (db2\<lparr> trp_next := n \<rparr>) = Inr db3" "db' = tripEvent t e 2 trip v q pay None now db3"
    by (auto simp: settleTx_def Let_def bind_res_Inr_iff split: option.splits)
  then show ?thesis by (auto simp: tripEvent_def setStops_def dest!: createAttempt_frame [THEN core_rows] updateTrip_frame)
qed simp

lemma acceptDispatchTx_rows:
  "acceptDispatchTx user trip dto hash payload now db = Inr db' \<Longrightarrow> tripOperations db' = tripOperations db \<and> tripShipments db' = tripShipments db"
  by (auto simp: acceptDispatchTx_def Let_def bind_res_Inr_iff createDispatch_def split: if_splits)

lemma submitTx_rows:
  "submitTx t row payload db = Inr db' \<Longrightarrow> tripOperations db' = tripOperations db \<and> tripShipments db' = tripShipments db"
  by (auto simp: submitTx_def split: option.splits if_splits)

lemma commitDispatchTx_rows:
  assumes "commitDispatchTx t row payload now db = Inr db'"
  shows "tripOperations db' = tripOperations db \<and> tripShipments db' = tripShipments db"
proof (cases "db' = db")
  case False
  with assms obtain f y db1 p g a b trip v q pay c where "updateTrip (td_tripId row) f now db = Inr (y, db1)"
    "db' = tripEvent t a b trip v q pay c now (setDispatch (td_id row) p g db1)"
    by (auto simp: commitDispatchTx_def Let_def bind_res_Inr_iff split: option.splits if_splits)
  then show ?thesis by (auto simp: tripEvent_def dest!: updateTrip_frame)
qed simp

lemma dispatch_rows:
  "tripOperations (setDispatch i p f db) = tripOperations db \<and> tripShipments (setDispatch i p f db) = tripShipments db"
  by simp

lemma trp_free_undisturbed:
  assumes "trp_free db db'" "trp_ok db"
  shows "undisturbed i db db'"
  using assms
proof (induction rule: trp_free.induct)
  case (fails row latest e now db)
  show ?case unfolding failUpdate_def Let_def by (rule undisturbed_same) simp
qed (auto simp: rejectDispatch_def saveBatchReceipt_def createTripTx_undisturbed updateDriverTx_undisturbed addTx_undisturbed removeTx_undisturbed
    cancelTx_undisturbed shipmentCanceledTx_undisturbed
    dest: updateLocalTx_rows manualTx_rows approveTx_rows reopenTx_rows settleTx_rows acceptDispatchTx_rows submitTx_rows commitDispatchTx_rows
    intro: undisturbed_same)

section \<open>The transactions of a worker\<close>

lemma persistClaim_frame:
  assumes "persistClaim m0 receipt s now db = Inr db'"
  shows "tripOperations db' = tripOperations db"
    "x \<in> set (tripShipments db') \<Longrightarrow> \<exists>y\<in>set (tripShipments db). ts_id y = ts_id x \<and> ts_operationId y = ts_operationId x \<and>
      (ts_state x = ts_state y \<or> ts_state x = M_ACTIVE)"
proof -
  from assms obtain position m where c: "db' = db \<or>
      recalculateTripTotals (ts_tenantId m) (ts_tripId m) now (setMember (ts_id m) (activateMember receipt s) (saveStop m s position db)) = Inr db'"
    by (auto simp: persistClaim_def bind_res_Inr_iff split: option.splits if_splits)
  have t: "same_core_tables db (saveStop m s position db)" by (rule core_frames)
  have f: "tripOperations db' = tripOperations db \<and> (tripShipments db' = tripShipments db \<or>
      tripShipments db' = tripShipments (setMember (ts_id m) (activateMember receipt s) (saveStop m s position db)))"
    using c t by (auto simp: recalculateTripTotals_def Let_def bind_res_Inr_iff same_core_tables_def dest!: updateTrip_frame)
  then show "tripOperations db' = tripOperations db" by simp
  show "\<exists>y\<in>set (tripShipments db). ts_id y = ts_id x \<and> ts_operationId y = ts_operationId x \<and>
      (ts_state x = ts_state y \<or> ts_state x = M_ACTIVE)" if "x \<in> set (tripShipments db')"
    using f that t by (auto simp: setMember_set activateMember_def same_core_tables_def split: if_splits) blast+
qed

lemma updateTrip_no_snapshot: "updateTrip i f now db \<noteq> Inl (InvalidClaimSnapshot r)"
  by (auto simp: updateTrip_def Let_def split: option.splits)

lemma persistClaim_no_snapshot: "persistClaim m0 receipt s now db \<noteq> Inl (InvalidClaimSnapshot r)"
proof
  assume "persistClaim m0 receipt s now db = Inl (InvalidClaimSnapshot r)"
  then show False using updateTrip_no_snapshot
    by (auto simp: persistClaim_def claimPosition_def coordinateOf_def recalculateTripTotals_def Let_def bind_res_Inl_iff
        split: option.splits if_splits prod.splits)
qed

lemma compensateMembers_frame:
  "compensateMembers actor v ms now db = Inr db' \<Longrightarrow> tripOperations db' = tripOperations db"
proof (induction ms arbitrary: db)
  case (Cons m ms)
  then show ?case by (fastforce simp: bind_res_Inr_iff split: if_splits)
qed simp

lemma beginCompensation_op:
  assumes "beginCompensation i reason invalid now db = Inr db'" "findOperation i db = Some p"
  shows "findOperation i db' = Some (p\<lparr> to_status := O_COMPENSATING, to_lastError := Some reason \<rparr>)"
proof -
  from assms obtain db0 db2 v where c: "compensateMembers (to_actorId p) v (operationMembers i db0) now db0 = Inr db2"
    and db0: "tripOperations db0 = tripOperations db"
    and db': "db' = setOperation i (\<lambda>q. q\<lparr> to_status := O_COMPENSATING, to_lastError := Some reason \<rparr>) db2"
    by (auto simp: beginCompensation_def Let_def bind_res_Inr_iff split: option.splits)
  have "findOperation i db2 = Some p" using compensateMembers_frame [OF c] db0 assms(2) by (simp add: findOperation_def)
  then show ?thesis using find_Some_D [of "\<lambda>p. to_id p = i"] by (simp add: db' findOperation_set)
qed

lemma persistRelease_frame: "persistRelease j c now db = Inr db' \<Longrightarrow> tripOperations db' = tripOperations db"
  by (auto simp: persistRelease_def recalculateTripTotals_def Let_def bind_res_Inr_iff setStops_def split: option.splits if_splits dest!: updateTrip_frame)

lemma persistClaim_rows:
  assumes "persistClaim m0 receipt s now db = Inr db'"
  shows "tripShipments db' = tripShipments db \<or> tripShipments db' = tripShipments (setMember (ts_id m0) (activateMember receipt s) db)"
proof -
  from assms obtain position m where f: "findMember (ts_id m0) db = Some m"
    and c: "db' = db \<or> recalculateTripTotals (ts_tenantId m) (ts_tripId m) now
      (setMember (ts_id m) (activateMember receipt s) (saveStop m s position db)) = Inr db'"
    by (auto simp: persistClaim_def bind_res_Inr_iff split: option.splits if_splits)
  have "ts_id m = ts_id m0" using f by (auto simp: findMember_def dest!: find_Some_D)
  moreover have "same_core_tables db (saveStop m s position db)" by (rule core_frames)
  ultimately show ?thesis using c
    by (auto simp: recalculateTripTotals_def Let_def bind_res_Inr_iff same_core_tables_def setMember_def dest!: updateTrip_frame)
qed

lemma persistRelease_rows:
  assumes "persistRelease j receipt now db = Inr db'"
  shows "tripShipments db' = tripShipments db \<or> tripShipments db' = tripShipments (setMember j (releasedMember receipt now) db)"
  using assms
  by (auto simp: persistRelease_def recalculateTripTotals_def Let_def bind_res_Inr_iff setStops_def
      split: option.splits if_splits dest!: updateTrip_frame)

lemma compensateMembers_rows:
  "compensateMembers actor v ms now db = Inr db' \<Longrightarrow> rows_change (ts_id ` set ms) k db db'"
proof (induction ms arbitrary: db)
  case (Cons m ms)
  let ?rest = "compensateMembers actor v ms now"
  have step: "rows_change {ts_id m} k db (setMember (ts_id m) f (db\<lparr> trp_next := n \<rparr>))"
    if "\<And>x. ts_id (f x) = ts_id x \<and> ts_operationId (f x) = ts_operationId x" for f n
    by (rule rows_change_set [of f]) (use that in \<open>simp_all add: setMember_def\<close>)
  have weak: "rows_change I k a b \<Longrightarrow> rows_change (insert j I) k a b" for I j a b unfolding rows_change_def by blast
  have all: "rows_change (ts_id ` set (m # ms)) k db db'"
    if "?rest (setMember (ts_id m) f (db\<lparr> trp_next := n \<rparr>)) = Inr db'" "\<And>x. ts_id (f x) = ts_id x \<and> ts_operationId (f x) = ts_operationId x" for f n
    using rows_change_trans [OF step [OF that(2)] Cons.IH [OF that(1)]] by simp
  show ?case
  proof (cases "ts_state m")
    case M_ACTIVE
    with Cons.prems obtain q where "?rest (setMember (ts_id m) (\<lambda>x. x\<lparr> ts_state := M_RELEASE_PENDING, ts_releaseRequest := Some q \<rparr>)
        (db\<lparr> trp_next := trp_next db + 1 \<rparr>)) = Inr db'" by (auto simp: bind_res_Inr_iff)
    then show ?thesis by (rule all) simp
  next
    case M_CLAIM_PENDING
    with Cons.prems have "?rest (setMember (ts_id m) (\<lambda>x. x\<lparr> ts_state := M_RELEASED, ts_removedAt := Some now \<rparr>)
        (db\<lparr> trp_next := trp_next db \<rparr>)) = Inr db'" by simp
    then show ?thesis by (rule all) simp
  qed (use Cons weak in simp_all)
qed (simp add: rows_change_same)

lemma operationMembers_set:
  assumes "\<And>x. ts_operationId (f x) = ts_operationId x"
  shows "operationMembers i (setMember j f db) = map (\<lambda>x. if ts_id x = j then f x else x) (operationMembers i db)"
  unfolding operationMembers_def setMember_def update_where_def by (simp add: filter_map comp_def assms if_distrib cong: if_cong)

lemma beginCompensation_rows:
  assumes "beginCompensation i reason invalid now db = Inr db'"
  shows "\<exists>f. tripOperations db' = tripOperations (setOperation i f db) \<and> (\<forall>p. to_id (f p) = to_id p)"
    "rows_change (ts_id ` set (operationMembers i db) \<union> (case invalid of None \<Rightarrow> {} | Some (j, receipt) \<Rightarrow> {j})) (Some i) db db'"
proof -
  define db1 where "db1 = (case invalid of None \<Rightarrow> db | Some (j, receipt) \<Rightarrow> setMember j (invalidClaimMember receipt) db)"
  from assms obtain p where f: "findOperation i db = Some p" by (auto simp: beginCompensation_def split: option.splits)
  from assms f obtain v db2 where c: "compensateMembers (to_actorId p) v (operationMembers i db1) now db1 = Inr db2"
    and db': "db' = setOperation i (\<lambda>q. q\<lparr> to_status := O_COMPENSATING, to_lastError := Some reason \<rparr>) db2"
    by (auto simp: beginCompensation_def db1_def Let_def bind_res_Inr_iff split: option.splits)
  have o: "tripOperations db1 = tripOperations db" by (simp add: db1_def split: option.split)
  show "\<exists>f. tripOperations db' = tripOperations (setOperation i f db) \<and> (\<forall>p. to_id (f p) = to_id p)"
    using compensateMembers_frame [OF c] o
    by (intro exI [of _ "\<lambda>q. q\<lparr> to_status := O_COMPENSATING, to_lastError := Some reason \<rparr>"]) (simp add: db' setOperation_def)
  let ?J = "case invalid of None \<Rightarrow> {} | Some (j, receipt) \<Rightarrow> {j}"
  have 1: "rows_change ?J (Some i) db db1"
  proof (cases invalid)
    case (Some z)
    obtain j receipt where z: "z = (j, receipt)" by force
    have "rows_change {j} (Some i) db (setMember j (invalidClaimMember receipt) db)"
      by (rule rows_change_set [of "invalidClaimMember receipt"]) (simp_all add: invalidClaimMember_def)
    then show ?thesis using Some z by (simp add: db1_def)
  qed (simp add: db1_def rows_change_same)
  have "map ts_id (operationMembers i db1) = map ts_id (operationMembers i db)"
    by (cases invalid) (auto simp: db1_def operationMembers_set invalidClaimMember_def)
  then have "ts_id ` set (operationMembers i db1) = ts_id ` set (operationMembers i db)" by (metis list.set_map)
  with rows_change_trans [OF 1 compensateMembers_rows [OF c]] have "rows_change (?J \<union> ts_id ` set (operationMembers i db)) (Some i) db db2" by simp
  then show "rows_change (ts_id ` set (operationMembers i db) \<union> ?J) (Some i) db db'" by (simp add: db' Un_commute rows_change_def)
qed

lemma finalize_rows:
  assumes "finalize i status now db = Inr db'"
  shows "\<exists>f. tripOperations db' = tripOperations (setOperation i f db) \<and> (\<forall>p. to_id (f p) = to_id p)" "tripShipments db' = tripShipments db"
proof -
  from assms obtain p where "findOperation i db = Some p" by (auto simp: finalize_def split: option.splits)
  from finalize_D [OF assms this] obtain j f y db1 result where u: "updateTrip j f now db = Inr (y, db1)"
    and c: "same_core_tables (setOperation i (finalizeOperation status result) db1) db'" by blast
  show "\<exists>f. tripOperations db' = tripOperations (setOperation i f db) \<and> (\<forall>p. to_id (f p) = to_id p)"
    using updateTrip_frame [OF u] c
    by (intro exI [of _ "finalizeOperation status result"]) (simp add: same_core_tables_def setOperation_def finalizeOperation_def)
  show "tripShipments db' = tripShipments db" using updateTrip_frame [OF u] c by (simp add: same_core_tables_def)
qed

text \<open>What an open operation waits for, by its kind and status.\<close>

lemma waits_for:
  assumes ok: "trp_ok db" and p: "findOperation i db = Some p" and m: "m \<in> set (tripShipments db)" "ts_operationId m = Some i" "member_pending m"
  shows "ts_state m = M_CLAIM_PENDING \<longleftrightarrow> to_kind p = K_ADD \<and> to_status p = O_PENDING"
proof -
  note ok = ok [unfolded trp_ok_def]
  obtain q where q: "q \<in> set (tripOperations db)" "works_on {} m q" using pending_works_on [OF ok m(1,3)] by blast
  moreover have "q = p" using findOperation_D(3) [OF ok p q(1)] q(2) m(2) by (simp add: works_on_def)
  ultimately show ?thesis by (simp add: works_on_def)
qed

lemma none_pending:
  assumes "trp_ok db" "findOperation i db = Some p"
    and "if to_kind p = K_ADD \<and> to_status p = O_PENDING then pendingMembers i M_CLAIM_PENDING db = [] else pendingMembers i M_RELEASE_PENDING db = []"
  shows "no_pending i db"
  unfolding no_pending_def
proof (intro ballI impI notI)
  fix m assume m: "m \<in> set (tripShipments db)" "ts_operationId m = Some i" "member_pending m"
  with waits_for [OF assms(1,2) m] assms(3) show False
    by (auto simp: pendingMembers_def operationMembers_def filter_empty_conv member_pending_def split: if_splits)
qed

section \<open>What a worker knows\<close>

definition working :: "uuid \<Rightarrow> (op_status \<Rightarrow> op_kind \<Rightarrow> bool) \<Rightarrow> trp_db \<Rightarrow> bool" where
  "working i P db \<longleftrightarrow> (\<exists>p. findOperation i db = Some p \<and> op_open (to_status p) \<and> P (to_status p) (to_kind p))"

definition held_rows :: "uuid \<Rightarrow> trip_shipment list \<Rightarrow> (member_state \<Rightarrow> bool) \<Rightarrow> trp_db \<Rightarrow> bool" where
  "held_rows i ms S db \<longleftrightarrow> (\<forall>m\<in>set ms. \<exists>x\<in>set (operationMembers i db). ts_id x = ts_id m \<and> S (ts_state x))"

fun knows :: "uuid \<Rightarrow> work \<Rightarrow> trp_db \<Rightarrow> bool" where
  "knows i Leased db = True"
| "knows i (Has p) db = working i (\<lambda>s k. s = to_status p \<and> k = to_kind p) db"
| "knows i (Claims ms) db \<longleftrightarrow> working i (\<lambda>s k. k = K_ADD) db \<and> held_rows i ms (\<lambda>s. s \<noteq> M_RELEASED) db"
| "knows i Unsaved db = working i (\<lambda>s k. k = K_ADD) db"
| "knows i Refused db = working i (\<lambda>s k. k = K_ADD) db"
| "knows i (Claimed p) db \<longleftrightarrow> working i (\<lambda>s k. s = to_status p \<and> k = to_kind p) db \<and> to_kind p = K_ADD"
| "knows i (Releases p ms) db \<longleftrightarrow> working i (\<lambda>s k. s = to_status p \<and> k = to_kind p) db \<and> releases_next p \<and> held_rows i ms (\<lambda>s. True) db"
| "knows i (Ready status) db \<longleftrightarrow> working i (\<lambda>s k. True) db \<and> \<not> op_open status \<and> no_pending i db"
| "knows i Done db = True"

definition sound :: "trp_db \<times> workers \<Rightarrow> bool" where
  "sound c \<longleftrightarrow> trp_ok (fst c) \<and> (\<forall>i w. snd c i = Some w \<longrightarrow> knows i w (fst c))"

lemma working_undisturbed: "undisturbed i db db' \<Longrightarrow> working i P db \<Longrightarrow> working i P db'"
  by (auto simp: undisturbed_def op_kept_def working_def)

lemma members_undisturbed:
  "undisturbed i db db' \<Longrightarrow> working i P db \<Longrightarrow> set (operationMembers i db') = set (operationMembers i db)"
  by (auto simp: undisturbed_def working_def)

lemma no_pending_members: "no_pending i db \<longleftrightarrow> (\<forall>m\<in>set (operationMembers i db). \<not> member_pending m)"
  by (auto simp: no_pending_def operationMembers_def)

lemma knows_undisturbed: "undisturbed i db db' \<Longrightarrow> knows i w db \<Longrightarrow> knows i w db'"
  by (cases w) (auto simp: held_rows_def no_pending_members dest: members_undisturbed intro: working_undisturbed)

lemma held_owner:
  assumes "trp_ok db" "held_rows j ms S db" "m \<in> set ms" "x \<in> set (tripShipments db)" "ts_id x = ts_id m"
  shows "ts_operationId x = Some j \<and> S (ts_state x)"
proof -
  from assms(2,3) obtain y where y: "y \<in> set (tripShipments db)" "ts_operationId y = Some j" "ts_id y = ts_id m" "S (ts_state y)"
    by (auto simp: held_rows_def operationMembers_def)
  have "distinct (map ts_id (tripShipments db))" using trp_butD(3) [OF assms(1) [unfolded trp_ok_def]] by (simp add: members_ok_def)
  then have "x = y" using assms(4,5) y by (auto dest: key_eq_imp_eq)
  with y show ?thesis by simp
qed

section \<open>Every step of a worker is one of the database\<close>

text \<open>What a worker on \<open>j\<close> writes leaves the workers on other operations alone.\<close>

lemma worker_undisturbed:
  assumes "rows_change I (Some j) db db'" "j \<noteq> i" "op_kept i db db'"
    and "\<And>x. x \<in> set (tripShipments db) \<Longrightarrow> ts_id x \<in> I \<Longrightarrow> ts_operationId x = Some j"
  shows "undisturbed i db db'"
  by (rule undisturbedI [OF assms(3) rows_change_others [OF assms(1)]]) (use assms(2,4) in auto)

lemma retry_undisturbed: "undisturbed i db (scheduleRetry env j e now db)" and lease_undisturbed: "undisturbed i db (releaseLease j db)"
    "undisturbed i db (setOperation j (\<lambda>p. p\<lparr> to_lockedUntil := l \<rparr>) db)"
  by (auto simp: scheduleRetry_def releaseLease_def operationMembers_def intro!: undisturbedI op_kept_set)

lemma persistClaim_undisturbed:
  assumes ok: "trp_ok db" and c: "persistClaim m receipt s now db = Inr db'" and h: "held_rows j ms S db" "m \<in> set ms" and ij: "j \<noteq> i"
  shows "undisturbed i db db'"
proof (rule worker_undisturbed [OF _ ij])
  show "rows_change {ts_id m} (Some j) db db'"
    using persistClaim_rows [OF c] rows_change_set [of "activateMember receipt s" "Some j" "ts_id m" "{ts_id m}" db' db]
    by (auto simp: activateMember_def intro: rows_change_same)
  show "op_kept i db db'" using persistClaim_frame(1) [OF c] by (rule op_kept_same)
qed (use held_owner [OF ok h] in simp)

lemma persistRelease_undisturbed:
  assumes ok: "trp_ok db" and c: "persistRelease (ts_id m) receipt now db = Inr db'" and h: "held_rows j ms S db" "m \<in> set ms" and ij: "j \<noteq> i"
  shows "undisturbed i db db'"
proof (rule worker_undisturbed [OF _ ij])
  show "rows_change {ts_id m} (Some j) db db'"
    using persistRelease_rows [OF c] rows_change_set [of "releasedMember receipt now" "Some j" "ts_id m" "{ts_id m}" db' db]
    by (auto simp: releasedMember_def intro: rows_change_same)
  show "op_kept i db db'" using persistRelease_frame [OF c] by (rule op_kept_same)
qed (use held_owner [OF ok h] in simp)

lemma beginCompensation_undisturbed:
  assumes ok: "trp_ok db" and c: "beginCompensation j reason invalid now db = Inr db'" and ij: "j \<noteq> i"
    and h: "\<And>m receipt. invalid = Some (m, receipt) \<Longrightarrow> held_rows j ms S db \<and> (\<exists>x\<in>set ms. m = ts_id x)"
  shows "undisturbed i db db'"
proof (rule worker_undisturbed [OF beginCompensation_rows(2) [OF c] ij])
  show "op_kept i db db'" using beginCompensation_rows(1) [OF c] op_kept_set [of db' j _ db i] ij by blast
  fix x assume x: "x \<in> set (tripShipments db)"
    "ts_id x \<in> ts_id ` set (operationMembers j db) \<union> (case invalid of None \<Rightarrow> {} | Some (m, receipt) \<Rightarrow> {m})"
  have "held_rows j (operationMembers j db) (\<lambda>_. True) db" by (auto simp: held_rows_def)
  then show "ts_operationId x = Some j" using x(2) held_owner [OF ok _ _ x(1)] h by (fastforce split: option.splits)
qed

lemma finalize_undisturbed:
  assumes "finalize j status now db = Inr db'" "j \<noteq> i"
  shows "undisturbed i db db'"
  by (rule undisturbedI) (use finalize_rows [OF assms(1)] assms(2) op_kept_set [of db' j _ db i] in \<open>auto simp: operationMembers_def\<close>)

text \<open>The rows in the worker's own hands.\<close>

lemma held_rows_set:
  assumes "held_rows i ms S db" "tripShipments db' = tripShipments db \<or> tripShipments db' = tripShipments (setMember j f db)"
    "\<And>x. ts_id (f x) = ts_id x \<and> ts_operationId (f x) = ts_operationId x \<and> (S (ts_state x) \<longrightarrow> S (ts_state (f x)))"
  shows "held_rows i ms S db'"
  unfolding held_rows_def
proof
  fix m assume "m \<in> set ms"
  then obtain x where x: "x \<in> set (tripShipments db)" "ts_operationId x = Some i" "ts_id x = ts_id m" "S (ts_state x)"
    using assms(1) by (auto simp: held_rows_def operationMembers_def)
  from assms(2) have "x \<in> set (tripShipments db') \<or> (if ts_id x = j then f x else x) \<in> set (tripShipments db')"
    using x(1) setMember_set [of j f db] by auto
  then show "\<exists>x\<in>set (operationMembers i db'). ts_id x = ts_id m \<and> S (ts_state x)"
    using x assms(3) [of x] by (auto simp: operationMembers_def split: if_splits)
qed

lemma working_same: "tripOperations db' = tripOperations db \<Longrightarrow> working i P db' = working i P db"
  by (simp add: working_def findOperation_def)

lemma pending_rows: "P S \<Longrightarrow> held_rows i (pendingMembers i S db) P db"
  by (auto simp: held_rows_def pendingMembers_def)

lemma compensation_working:
  assumes "beginCompensation i reason invalid now db = Inr db'" "working i (\<lambda>s k. k = K_ADD) db"
  shows "working i (\<lambda>s k. k = K_ADD) db'"
  using beginCompensation_op [OF assms(1)] assms(2) by (auto simp: working_def)

lemma sound_knows: "sound (db, ws) \<Longrightarrow> ws i = Some w \<Longrightarrow> knows i w db" and sound_ok: "sound (db, ws) \<Longrightarrow> trp_ok db"
  by (simp_all add: sound_def)

lemma soundI:
  assumes "sound (db, ws)" "trp_ok db'" "\<And>i. j \<noteq> i \<Longrightarrow> undisturbed i db db'" "\<And>w. v = Some w \<Longrightarrow> knows j w db'"
  shows "sound (db', ws(j := v))"
proof -
  have "knows i w db'" if "ws i = Some w" "i \<noteq> j" for i w
    using knows_undisturbed [OF assms(3)] assms(1) that by (auto simp: sound_def)
  then show ?thesis using assms(2,4) by (auto simp: sound_def)
qed

lemma step_ok: "trp_step db db' \<Longrightarrow> trp_ok db \<Longrightarrow> trp_ok db'"
  using trp_step_keeps keeps_trpD unfolding trp_ok_def by blast

text \<open>A step of \<open>trp_work\<close> keeps what all workers know, and is a step of the database or leaves it alone.\<close>

definition implements :: "trp_db \<times> workers \<Rightarrow> trp_db \<times> workers \<Rightarrow> bool" where
  "implements c c' \<longleftrightarrow> sound c' \<and> (fst c' = fst c \<or> trp_step (fst c) (fst c'))"

lemma implements_reads: "sound (db, ws) \<Longrightarrow> knows i w db \<Longrightarrow> implements (db, ws) (db, ws(i \<mapsto> w))"
  by (simp add: implements_def sound_def)

lemma implements_writes:
  assumes "sound (db, ws)" "trp_step db db'" "\<And>j. i \<noteq> j \<Longrightarrow> undisturbed j db db'" "\<And>w. v = Some w \<Longrightarrow> knows i w db'"
  shows "implements (db, ws) (db', ws(i := v))"
  using soundI [OF assms(1) _ assms(3,4)] step_ok [OF assms(2)] assms(1,2) by (simp add: implements_def sound_def)

lemma claims_implement:
  assumes s: "sound (db, ws)" and w: "ws i = Some (Claims ms)" "m \<in> set ms" and c: "persistClaim m receipt sn now db = Inr db'"
  shows "implements (db, ws) (db', ws)"
proof -
  have k: "trp_ok db" "working i (\<lambda>s k. k = K_ADD) db" "held_rows i ms (\<lambda>s. s \<noteq> M_RELEASED) db"
    using s w(1) unfolding sound_def by fastforce+
  have "held_rows i ms (\<lambda>s. s \<noteq> M_RELEASED) db'"
    by (rule held_rows_set [OF k(3) persistClaim_rows [OF c]]) (simp add: activateMember_def)
  then have "knows i (Claims ms) db'" using k(2) working_same [OF persistClaim_frame(1) [OF c]] by simp
  then have "implements (db, ws) (db', ws(i \<mapsto> Claims ms))"
    by (intro implements_writes [OF s trp_step.claims [OF c]]) (auto intro: persistClaim_undisturbed [OF k(1) c k(3) w(2)])
  moreover have "ws(i \<mapsto> Claims ms) = ws" using w(1) by (rule fun_upd_idem)
  ultimately show ?thesis by simp
qed

lemma releases_implement:
  assumes s: "sound (db, ws)" and w: "ws i = Some (Releases p ms)" "m \<in> set ms" and c: "persistRelease (ts_id m) receipt now db = Inr db'"
  shows "implements (db, ws) (db', ws)"
proof -
  have k: "trp_ok db" "working i (\<lambda>s k. s = to_status p \<and> k = to_kind p) db" "releases_next p" "held_rows i ms (\<lambda>s. True) db"
    using s w(1) unfolding sound_def by fastforce+
  have "held_rows i ms (\<lambda>s. True) db'" by (rule held_rows_set [OF k(4) persistRelease_rows [OF c]]) (simp add: releasedMember_def)
  then have "knows i (Releases p ms) db'" using k(2,3) working_same [OF persistRelease_frame [OF c]] by simp
  then have "implements (db, ws) (db', ws(i \<mapsto> Releases p ms))"
    by (intro implements_writes [OF s trp_step.releases [OF c]]) (auto intro: persistRelease_undisturbed [OF k(1) c k(4) w(2)])
  moreover have "ws(i \<mapsto> Releases p ms) = ws" using w(1) by (rule fun_upd_idem)
  ultimately show ?thesis by simp
qed

lemma compensation_implements:
  assumes s: "sound (db, ws)" and w: "working i (\<lambda>s k. k = K_ADD) db" and c: "beginCompensation i reason invalid now db = Inr db'"
    and h: "\<And>m receipt. invalid = Some (m, receipt) \<Longrightarrow> held_rows i ms (\<lambda>s. s \<noteq> M_RELEASED) db \<and> (\<exists>x\<in>set ms. m = ts_id x)"
    and v: "v \<in> {Unsaved, Refused}"
  shows "implements (db, ws) (db', ws(i \<mapsto> v))"
proof -
  have ok: "trp_ok db" using s by (simp add: sound_def)
  from w obtain p where p: "findOperation i db = Some p" "op_open (to_status p)" "to_kind p = K_ADD" by (auto simp: working_def)
  have "claim_of i invalid db" using h held_owner [OF ok] by (fastforce simp: claim_of_def split: option.split)
  from trp_step.compensates [OF p this c] show ?thesis
  proof (rule implements_writes [OF s])
    show "undisturbed j db db'" if "i \<noteq> j" for j
      by (rule beginCompensation_undisturbed [OF ok c that, of ms "\<lambda>s. s \<noteq> M_RELEASED"]) (use h in blast)+
    show "knows i u db'" if "Some v = Some u" for u using that v compensation_working [OF c w] by auto
  qed
qed

lemma end_implements:
  assumes s: "sound (db, ws)" and w: "ws i = Some (Ready status)" and c: "finalize i status now db = Inr db'"
  shows "implements (db, ws) (db', ws(i \<mapsto> Done))"
proof -
  have "knows i (Ready status) db" using sound_knows [OF s w] .
  then obtain p where p: "findOperation i db = Some p" "op_open (to_status p)" "\<not> op_open status" "no_pending i db" by (auto simp: working_def)
  from trp_step.ends [OF p c] show ?thesis by (rule implements_writes [OF s]) (use finalize_undisturbed [OF c] in auto)
qed

lemma knows_open: "knows i w db \<Longrightarrow> w \<notin> {Leased, Done} \<Longrightarrow> working i (\<lambda>s k. True) db"
  by (cases w) (auto simp: working_def)

text \<open>Nothing waits any more, so the worker may end the operation.\<close>

lemma ready:
  assumes ok: "trp_ok db" and w: "working i (\<lambda>s k. s = to_status p \<and> k = to_kind p) db"
    and n: "if to_kind p = K_ADD \<and> to_status p = O_PENDING then pendingMembers i M_CLAIM_PENDING db = [] else pendingMembers i M_RELEASE_PENDING db = []"
  shows "working i (\<lambda>s k. True) db \<and> no_pending i db"
proof -
  from w obtain q where "findOperation i db = Some q" "op_open (to_status q)" "to_status q = to_status p" "to_kind q = to_kind p"
    by (auto simp: working_def)
  with none_pending [OF ok this(1)] n show ?thesis by (auto simp: working_def)
qed

lemma trp_work_implements: "trp_work c c' \<Longrightarrow> sound c \<Longrightarrow> implements c c'"
proof (induction rule: trp_work.induct)
  case (other db db' ws)
  have "knows i w db'" if "ws i = Some w" for i w
    using knows_undisturbed [OF trp_free_undisturbed [OF other(1)]] other(2) that by (auto simp: sound_def)
  then show ?case using trp_step.free [OF other(1)] step_ok other(2) by (auto simp: implements_def sound_def)
next
  case (takes ws i force now db)
  show ?case by (rule implements_writes [OF takes(3) trp_step.leases lease_undisturbed(2)]) auto
next
  case (reads ws i db p)
  then show ?case by (intro implements_reads) (auto simp: working_def)
next
  case (rereads ws i q db p)
  then have "\<exists>w. knows i w db \<and> w \<notin> {Leased, Done}" using sound_knows [OF rereads(3)] by (auto simp del: knows.simps)
  then have "working i (\<lambda>s k. True) db" using knows_open by blast
  then show ?case using rereads by (intro implements_reads) (auto simp: working_def)
next
  case (lists_claims ws i p db)
  have "working i (\<lambda>s k. s = to_status p \<and> k = to_kind p) db" using sound_knows [OF lists_claims(4,1)] by simp
  then have "knows i (Claims (pendingMembers i M_CLAIM_PENDING db)) db" using lists_claims(3)
    by (auto simp: working_def intro: pending_rows)
  then show ?case by (rule implements_reads [OF lists_claims(4)])
next
  case (claims ws i ms m receipt s now db db')
  then show ?case by (intro claims_implement)
next
  case (not_saved ws i ms m reason receipt now db db')
  have "knows i (Claims ms) db" using sound_knows [OF not_saved(4,1)] .
  then show ?case using not_saved by (intro compensation_implements) auto
next
  case (refused ws i ms reason now db db')
  then have "working i (\<lambda>s k. k = K_ADD) db" using sound_knows [OF refused(3)] by fastforce
  then show ?case by (rule compensation_implements [OF refused(3) _ refused(2)]) auto
next
  case (claimed ws i ms db p)
  then have "working i (\<lambda>s k. k = K_ADD) db" using sound_knows [OF claimed(3)] by fastforce
  then show ?case using claimed by (intro implements_reads) (auto simp: working_def)
next
  case (claims_end ws i p db)
  have "working i (\<lambda>s k. s = to_status p \<and> k = to_kind p) db" "to_kind p = K_ADD" using sound_knows [OF claims_end(4,1)] by force+
  from ready [OF sound_ok [OF claims_end(4)] this(1)] this(2) claims_end show ?case by (intro implements_reads) auto
next
  case (lists_releases ws i p db)
  have "working i (\<lambda>s k. s = to_status p \<and> k = to_kind p) db" using sound_knows [OF lists_releases(3,1)] by simp
  then have "knows i (Releases p (pendingMembers i M_RELEASE_PENDING db)) db" using lists_releases(2)
    by (simp add: pending_rows)
  then show ?case by (rule implements_reads [OF lists_releases(3)])
next
  case (releases ws i p ms m rr now db db')
  then show ?case by (intro releases_implement)
next
  case (releases_end ws i p ms db)
  have k: "working i (\<lambda>s k. s = to_status p \<and> k = to_kind p) db" "releases_next p" "trp_ok db"
    using sound_knows [OF releases_end(3,1)] sound_ok [OF releases_end(3)] by simp_all
  then have "\<not> (to_kind p = K_ADD \<and> to_status p = O_PENDING)" by (auto simp: releases_next_def releases_kind_def)
  from ready [OF k(3,1)] this releases_end show ?case by (intro implements_reads) (auto simp: final_status_def)
next
  case (ends ws i status now db db')
  then show ?case by (intro end_implements)
next
  case (retries ws i w env e now db)
  show ?case by (rule implements_writes [OF retries(2) trp_step.retries retry_undisturbed]) auto
next
  case (frees ws i w db)
  show ?case unfolding releaseLease_def by (rule implements_writes [OF frees(2) trp_step.leases lease_undisturbed(2)]) auto
next
  case (dies ws i w db)
  then show ?case by (simp add: implements_def sound_def)
qed

lemma trp_works_implement: "trp_work\<^sup>*\<^sup>* c c' \<Longrightarrow> sound c \<Longrightarrow> sound c' \<and> trp_step\<^sup>*\<^sup>* (fst c) (fst c')"
proof (induction rule: rtranclp_induct)
  case (step c1 c2)
  then have "implements c1 c2" using trp_work_implements by blast
  with step show ?case unfolding implements_def by (metis rtranclp.rtrancl_into_rtrancl)
qed simp

lemma sound_unattended: "trp_ok db \<Longrightarrow> sound (db, Map.empty)"
  by (simp add: sound_def)

lemma trp_works_ok: "trp_work\<^sup>*\<^sup>* (db, Map.empty) (db', ws) \<Longrightarrow> trp_ok db \<Longrightarrow> trp_ok db'"
  using trp_works_implement [OF _ sound_unattended] by (fastforce simp: sound_def)

lemma trp_works_steps: "trp_work\<^sup>*\<^sup>* (db, Map.empty) (db', ws) \<Longrightarrow> trp_ok db \<Longrightarrow> trp_step\<^sup>*\<^sup>* db db'"
  using trp_works_implement [OF _ sound_unattended] by fastforce

end
