(* ===== verification/Transport_Relation.thy ===== *)
theory Transport_Relation
  imports Transport_Work
begin

text \<open>The whole operations of the transport service are sequences of the steps of \<open>trp_work\<close>.\<close>

section \<open>Runs\<close>

abbreviation trp_run :: "trp_db \<Rightarrow> trp_db \<Rightarrow> bool" where
  "trp_run db db' \<equiv> trp_work\<^sup>*\<^sup>* (db, Map.empty) (db', Map.empty)"

lemma trp_one: "trp_free a b \<Longrightarrow> trp_run a b"
  by (rule r_into_rtranclp) (rule trp_work.other)

lemma trp_first: "trp_free a b \<Longrightarrow> trp_run b c \<Longrightarrow> trp_run a c"
  using trp_one rtranclp_trans by meson

lemma trp_last: "trp_run a b \<Longrightarrow> trp_free b c \<Longrightarrow> trp_run a c"
  using trp_one rtranclp_trans by meson

lemma trp_both: "trp_run a b \<Longrightarrow> trp_run b c \<Longrightarrow> trp_run a c"
  by (rule rtranclp_trans)

lemma trp_run_ok: "trp_run a b \<Longrightarrow> trp_ok a \<Longrightarrow> trp_ok b" and trp_run_steps: "trp_run a b \<Longrightarrow> trp_ok a \<Longrightarrow> trp_step\<^sup>*\<^sup>* a b"
  using trp_works_ok trp_works_steps by blast+

section \<open>The work on an operation\<close>

text \<open>The one worker of the run stands at \<open>v\<close>, later at \<open>u\<close>.\<close>

definition works :: "uuid \<Rightarrow> trp_db \<Rightarrow> work \<Rightarrow> trp_db \<Rightarrow> work \<Rightarrow> bool" where
  "works i db v db' u \<longleftrightarrow> trp_work\<^sup>*\<^sup>* (db, [i \<mapsto> v]) (db', [i \<mapsto> u])"

lemma works_refl [simp]: "works i db v db v"
  by (simp add: works_def)

lemma works_first: "trp_work (db, [i \<mapsto> v]) (db1, [i \<mapsto> v, i \<mapsto> w]) \<Longrightarrow> works i db1 w db' u \<Longrightarrow> works i db v db' u"
  unfolding works_def by (simp add: converse_rtranclp_into_rtranclp)

lemma works_same: "trp_work (db, [i \<mapsto> v]) (db1, [i \<mapsto> v]) \<Longrightarrow> works i db1 v db' u \<Longrightarrow> works i db v db' u"
  unfolding works_def by (rule converse_rtranclp_into_rtranclp)

lemma works_trans: "works i a v b u \<Longrightarrow> works i b u c w \<Longrightarrow> works i a v c w"
  unfolding works_def by (rule rtranclp_trans)

lemma works_one: "trp_work (db, [i \<mapsto> v]) (db1, [i \<mapsto> v, i \<mapsto> w]) \<Longrightarrow> works i db v db1 w"
  using works_first [OF _ works_refl] .

lemma works_some [simp]: "\<exists>u. works i db v db u"
  using works_refl by blast

lemma saveFailed_works:
  assumes s: "saveFailed env i (ts_id m) receipt e now db = (r, db')" and e: "\<And>c. e \<noteq> InvalidClaimSnapshot c" and m: "m \<in> set ms"
  shows "\<exists>u. works i db (Claims ms) db' u \<and> (r = None \<longrightarrow> u = Refused)"
proof (cases "definite e")
  case d: True
  have inner: "(case e of InvalidClaimSnapshot c \<Rightarrow> beginCompensation i (error_message env e) (Some (ts_id m, c)) now db | _ \<Rightarrow> Inr db) = Inr db"
    using e by (cases e) auto
  show ?thesis
  proof (cases "beginCompensation i (error_message env e) (Some (ts_id m, receipt)) now db")
    case (Inl e2)
    then show ?thesis using s d inner by (auto simp: saveFailed_def)
  next
    case (Inr db2)
    have 1: "works i db (Claims ms) db2 Unsaved" by (rule works_one [OF trp_work.not_saved [OF _ m Inr]]) simp
    show ?thesis
    proof (cases "beginCompensation i (error_message env e) None now db2")
      case Inl': (Inl e3)
      then show ?thesis using s d inner Inr 1 by (auto simp: saveFailed_def)
    next
      case Inr': (Inr db3)
      have "works i db2 Unsaved db3 Refused" by (rule works_one [OF trp_work.refused [OF _ Inr']]) simp
      with works_trans [OF 1 this] show ?thesis using s d inner Inr Inr' by (auto simp: saveFailed_def)
    qed
  qed
next
  case False
  then show ?thesis using s e by (cases e) (auto simp: saveFailed_def)
qed

lemma claimRows_works:
  "claimRows env api i ms now (db, s) = (r, db', s') \<Longrightarrow> set ms \<subseteq> set ns \<Longrightarrow>
     \<exists>u. works i db (Claims ns) db' u \<and> (r = None \<longrightarrow> u \<in> {Claims ns, Refused})"
proof (induction ms arbitrary: db s)
  case (Cons m ms)
  have m: "m \<in> set ns" "set ms \<subseteq> set ns" using Cons.prems(2) by simp_all
  show ?case
  proof (cases "ts_claimRequest m")
    case (Some q)
    obtain reply s1 where c: "fulClaim api q now s = (reply, s1)" by force
    show ?thesis
    proof (cases reply)
      case (Inl e)
      have "works i db (Claims ns) db1 Refused" if "beginCompensation i (error_message env e) None now db = Inr db1" for db1
        by (rule works_one [OF trp_work.refused [OF _ that]]) simp
      then show ?thesis using Cons.prems(1) Some c Inl works_refl [of i db "Claims ns"] by (auto split: if_splits sum.splits)
    next
      case (Inr z)
      obtain receipt snap where z: "z = (receipt, snap)" by force
      show ?thesis
      proof (cases "persistClaim m receipt snap now db")
        case (Inl e)
        obtain r1 db1 where sf: "saveFailed env i (ts_id m) receipt e now db = (r1, db1)" by force
        then have "r1 = r" "db1 = db'" using Cons.prems(1) Some c Inr z Inl by auto
        moreover have "\<And>c. e \<noteq> InvalidClaimSnapshot c" using persistClaim_no_snapshot Inl by metis
        ultimately show ?thesis using saveFailed_works [OF sf _ m(1)] by blast
      next
        case pc: (Inr db1)
        have "claimRows env api i ms now (db1, s1) = (r, db', s')" using Cons.prems(1) Some c Inr z pc by simp
        from Cons.IH [OF this m(2)] show ?thesis
          using works_same [OF trp_work.claims [OF _ m(1) pc]] by (metis fun_upd_same)
      qed
    qed
  qed (use Cons.prems(1) works_refl [of i db "Claims ns"] in auto)
qed (auto intro!: exI [of _ "Claims ns"])

lemma releaseRows_works:
  "releaseRows api ms now (db, s) = (r, db', s') \<Longrightarrow> set ms \<subseteq> set ns \<Longrightarrow> works i db (Releases p ns) db' (Releases p ns)"
proof (induction ms arbitrary: db s)
  case (Cons m ms)
  show ?case
  proof (cases "ts_releaseRequest m")
    case (Some q)
    obtain reply s1 where c: "fulRelease api q now s = (reply, s1)" by force
    show ?thesis
    proof (cases reply)
      case (Inr receipt)
      show ?thesis
      proof (cases "persistRelease (ts_id m) receipt now db")
        case pr: (Inr db1)
        have "releaseRows api ms now (db1, s1) = (r, db', s')" using Cons.prems(1) Some c Inr pr by simp
        from Cons.IH [OF this] Cons.prems(2) show ?thesis
          by (intro works_same [OF trp_work.releases [OF _ _ pr]]) auto
      qed (use Cons.prems Some c Inr in simp)
    qed (use Cons.prems Some c in simp)
  qed (use Cons.prems in simp)
qed simp

lemma finishOperation_works:
  "finishOperation i status now w = (r, w') \<Longrightarrow> \<exists>u. works i (fst w) (Ready status) (fst w') u"
  using works_one [OF trp_work.ends [of "[i \<mapsto> Ready status]" i status now "fst w"]] works_refl
  by (fastforce simp: finishOperation_def split: sum.splits)

lemma by_assignment_set [simp]: "set (by_assignment ms) = set ms"
  by (simp add: by_assignment_def)

lemma processReleases_works:
  assumes pr: "processReleases api i now w = (r, w')" and v: "v \<in> {Has q, Claimed q}"
  shows "\<exists>u. works i (fst w) v (fst w') u"
proof (cases "findOperation i (fst w)")
  case None
  then have "w' = w" using pr by (simp add: processReleases_def)
  then show ?thesis using works_refl by blast
next
  case (Some p)
  let ?ns = "pendingMembers i M_RELEASE_PENDING (fst w)"
  have h: "works i (fst w) v (fst w) (Has p)" by (rule works_one [OF trp_work.rereads [OF _ Some]]) (use v in auto)
  show ?thesis
  proof (cases "releases_next p")
    case True
    have l: "works i (fst w) (Has p) (fst w) (Releases p ?ns)" by (rule works_one [OF trp_work.lists_releases [OF _ True]]) simp
    obtain e w1 where rr: "releaseRows api (by_assignment ?ns) now w = (e, w1)" using prod.exhaust by blast
    have "works i (fst w) (Releases p ?ns) (fst w1) (Releases p ?ns)"
      using releaseRows_works [of api _ now "fst w" "snd w" e "fst w1" "snd w1" ?ns] rr by simp
    note W = works_trans [OF works_trans [OF h l] this]
    show ?thesis
    proof (cases "e = None \<and> pendingMembers i M_RELEASE_PENDING (fst w1) = []")
      case n: True
      have "finishOperation i (final_status p) now w1 = (r, w')"
        using pr Some True rr n by (simp add: processReleases_def releases_next_def final_status_def)
      moreover have "works i (fst w1) (Releases p ?ns) (fst w1) (Ready (final_status p))"
        by (rule works_one [OF trp_work.releases_end]) (use n in simp_all)
      ultimately show ?thesis using finishOperation_works works_trans [OF works_trans [OF W]] by meson
    next
      case False
      then have "w' = w1" using pr Some True rr by (auto simp: processReleases_def releases_next_def split: option.splits)
      with W show ?thesis by blast
    qed
  next
    case False
    then have "w' = w" using pr Some by (simp add: processReleases_def releases_next_def)
    with h show ?thesis by blast
  qed
qed

lemma processClaims_works:
  assumes pr: "processClaims env api i now w = (r, w')" and p: "to_status p = O_PENDING" "to_kind p = K_ADD"
  shows "\<exists>u. works i (fst w) (Has p) (fst w') u"
proof -
  let ?ns = "pendingMembers i M_CLAIM_PENDING (fst w)"
  have l: "works i (fst w) (Has p) (fst w) (Claims ?ns)" by (rule works_one [OF trp_work.lists_claims [OF _ p]]) simp
  obtain e db1 s1 where cr: "claimRows env api i (by_assignment ?ns) now (fst w, snd w) = (e, db1, s1)"
    using prod_cases3 by blast
  then obtain u where u: "works i (fst w) (Claims ?ns) db1 u" "e = None \<Longrightarrow> u \<in> {Claims ?ns, Refused}"
    using claimRows_works [OF cr, of ?ns] by auto
  note W = works_trans [OF l u(1)]
  show ?thesis
  proof (cases "e = None \<and> findOperation i db1 \<noteq> None")
    case False
    then have "fst w' = db1" using pr cr by (auto simp: processClaims_def split: option.splits)
    with W show ?thesis by blast
  next
    case True
    then obtain q where q: "findOperation i db1 = Some q" by blast
    have c: "works i db1 u db1 (Claimed q)" by (rule works_one [OF trp_work.claimed [OF _ q]]) (use u(2) True in auto)
    note W = works_trans [OF W c]
    show ?thesis
    proof (cases "to_status q = O_PENDING")
      case pending: True
      show ?thesis
      proof (cases "pendingMembers i M_CLAIM_PENDING db1 = []")
        case n: True
        have "finishOperation i O_COMPLETED now (db1, s1) = (r, w')" using pr cr True q pending n by (simp add: processClaims_def)
        moreover have "works i db1 (Claimed q) db1 (Ready O_COMPLETED)" by (rule works_one [OF trp_work.claims_end]) (use pending n in simp_all)
        ultimately show ?thesis using finishOperation_works [of i O_COMPLETED now "(db1, s1)"] works_trans [OF works_trans [OF W]] by fastforce
      qed (use pr cr True q pending W in \<open>auto simp: processClaims_def\<close>)
    next
      case False
      then have "processReleases api i now (db1, s1) = (r, w')" using pr cr True q by (simp add: processClaims_def)
      from processReleases_works [OF this, of "Claimed q" q] show ?thesis using works_trans [OF W] by fastforce
    qed
  qed
qed

lemma processOperation_works:
  assumes "processOperation env api i now w = (r, w')"
  shows "\<exists>u. works i (fst w) Leased (fst w') u"
proof (cases "\<exists>p. findOperation i (fst w) = Some p \<and> op_open (to_status p)")
  case True
  then obtain p where p: "findOperation i (fst w) = Some p" "op_open (to_status p)" by blast
  have h: "works i (fst w) Leased (fst w) (Has p)" by (rule works_one [OF trp_work.reads [OF _ p]]) simp
  have "\<exists>u. works i (fst w) (Has p) (fst w') u"
  proof (cases "to_status p = O_PENDING \<and> to_kind p = K_ADD")
    case k: True
    then have "processClaims env api i now w = (r, w')" using assms p by (simp add: processOperation_def)
    with k show ?thesis using processClaims_works by blast
  next
    case False
    then have "processReleases api i now w = (r, w')" using assms p by (auto simp: processOperation_def)
    then show ?thesis using processReleases_works by blast
  qed
  with h show ?thesis using works_trans by blast
next
  case False
  then have "w' = w" using assms by (auto simp: processOperation_def split: option.splits if_splits)
  then show ?thesis using works_refl by blast
qed

lemma resume_steps: "trp_run (fst w) (fst (resume env api i force now w))"
proof (cases "exists_row (\<lambda>p. to_id p = i \<and> leasable force now p) (tripOperations (fst w))")
  case True
  let ?db1 = "setOperation i (\<lambda>p. p\<lparr> to_lockedUntil := Some (now + PROCESS_LEASE_MS) \<rparr>) (fst w)"
  obtain r db2 s2 where p: "processOperation env api i now (?db1, snd w) = (r, db2, s2)" using prod_cases3 by blast
  have "trp_work (fst w, Map.empty) (?db1, [i \<mapsto> Leased])" by (rule trp_work.takes [OF _ True]) simp
  moreover from processOperation_works [OF p] obtain u where "works i ?db1 Leased db2 u" by auto
  ultimately have W: "trp_work\<^sup>*\<^sup>* (fst w, Map.empty) (db2, [i \<mapsto> u])" unfolding works_def by (rule converse_rtranclp_into_rtranclp)
  have free: "trp_run (fst w) (releaseLease i db3)" if "trp_work\<^sup>*\<^sup>* (fst w, Map.empty) (db3, [i \<mapsto> v])" for db3 v
    using rtranclp.rtrancl_into_rtrancl [OF that trp_work.frees [of _ i]] by simp
  have "trp_work\<^sup>*\<^sup>* (fst w, Map.empty) (scheduleRetry env i e now db2, [i \<mapsto> Done])" for e
    using rtranclp.rtrancl_into_rtrancl [OF W trp_work.retries [of _ i]] by simp
  then have "trp_run (fst w) (fst (endResume env i now (r, db2, s2)))"
    using free [OF W] free by (cases r) (auto split: option.split)
  then show ?thesis using True p by (simp add: resume_def)
qed (simp add: resume_def)

lemma resumeAndView_steps: "trp_run (fst w) (fst (snd (resumeAndView env api i t q now w)))"
  unfolding resumeAndView_def Let_def snd_conv by (rule resume_steps)

lemma begun_steps:
  "trp_free db db1 \<Longrightarrow> trp_run db (fst (snd (resumeAndView env api i t q now (db1, s))))"
  using trp_first resumeAndView_steps [of "(db1, s)"] by fastforce

lemmas request_steps = begun_steps [OF adds] begun_steps [OF removes] begun_steps [OF cancels] resumeAndView_steps

lemma addShipments_steps: "trp_run (fst w) (fst (snd (addShipments env api user trip dto now db0 w)))"
  unfolding addShipments_def Let_def by (auto split: sum.split option.split intro: request_steps)

lemma removeShipments_steps: "trp_run (fst w) (fst (snd (removeShipments env api user trip dto now db0 w)))"
  unfolding removeShipments_def Let_def by (auto split: sum.split option.split intro: request_steps)

lemma cancelTrip_steps: "trp_run (fst w) (fst (snd (cancelTrip env api tokens user trip dto now db0 w)))"
  unfolding cancelTrip_def Let_def by (auto split: sum.split option.split intro: request_steps)

lemma handleShipmentCanceled_steps: "trp_run (fst w) (fst (snd (handleShipmentCanceled env api event now db0 w)))"
proof -
  have "trp_run (fst w) (fst (resume env api i True now (db1, snd w)))" if "shipmentCanceledTx event now (fst w) = Inr (Some i, db1)" for i db1
    using trp_first [OF shipment_canceled [OF that]] resume_steps [of "(db1, snd w)"] by fastforce
  then show ?thesis using trp_one [OF shipment_canceled]
    by (auto simp: handleShipmentCanceled_def split: sum.split option.split)
qed

section \<open>The work on a dispatch\<close>

lemma findDispatch_D: "findDispatch t q db = Some d \<Longrightarrow> d \<in> set (tripDispatches db) \<and> td_tenantId d = t"
  by (auto simp: findDispatch_def dest!: find_Some_D)

lemma found_row: "findDispatch t q db = Some d \<Longrightarrow> td_payload d = Some payload \<Longrightarrow> dispatch_row t d payload db"
  unfolding dispatch_row_def by (auto dest: findDispatch_D)

lemma submitDispatch_steps:
  assumes ok: "trp_ok (fst w)" and s: "submitDispatch env master api t row payload w = Inr db1"
    and f: "findDispatch t q (fst w) = Some row" and p: "td_payload row = Some payload"
  shows "trp_run (fst w) db1 \<and> submitted (td_id row) db1"
proof (cases "td_stage row = G_ACCEPTED")
  case False
  then have "db1 = fst w" using s by (simp add: submitDispatch_def)
  moreover have "d = row" if "d \<in> set (tripDispatches (fst w))" "td_id d = td_id row" for d
    using dispatch_unique [OF ok [unfolded trp_ok_def] that(1)] findDispatch_D [OF f] that(2) by blast
  ultimately show ?thesis using False by (auto simp: submitted_def)
next
  case True
  then have tx: "submitTx t row payload (fst w) = Inr db1"
    using s by (auto simp: submitDispatch_def bind_res_Inr_iff split: if_splits)
  then have "db1 = setDispatch (td_id row) (\<lambda>d. dispatch_pending d \<and> td_stage d = G_ACCEPTED) (\<lambda>d. d\<lparr> td_stage := G_SUBMITTED \<rparr>) (fst w)"
    by (auto simp: submitTx_def split: option.splits if_splits)
  then have "submitted (td_id row) db1" by (auto simp: submitted_def setDispatch_set dispatch_pending_def split: if_splits)
  then show ?thesis using trp_one [OF submits [OF found_row [OF f p] tx]] by simp
qed

lemma commitDispatch_steps:
  assumes "commitDispatch t q now db = Inr db'"
  shows "trp_run db db'"
proof -
  from assms obtain row payload where f: "findDispatch t q db = Some row" "td_payload row = Some payload"
    and tx: "commitDispatchTx t row payload now db = Inr db'"
    by (auto simp: commitDispatch_def split: option.splits if_splits)
  show ?thesis by (rule trp_one [OF commits [OF found_row [OF f] tx]])
qed

lemma settleDispatch_steps:
  assumes "submitted (td_id row) db"
  shows "trp_run db (snd (settleDispatch env t row payload c now db))"
  using trp_one [OF receipts [OF assms]] trp_both [OF trp_one [OF receipts [OF assms]] commitDispatch_steps] trp_one [OF rejects]
  unfolding settleDispatch_def Let_def by (auto split: sum.split)

lemma failed: "trp_run a db \<Longrightarrow> trp_run a (failDispatch row e now db)"
  unfolding failDispatch_def by (auto split: option.split intro: trp_last fails)

lemma settled_then_failed:
  assumes "submitted (td_id row) db" "trp_run a db" "settleDispatch env t row payload c now db = (r, db')"
  shows "trp_run a (case r of None \<Rightarrow> db' | Some e \<Rightarrow> failDispatch row e now db')"
proof -
  have "trp_run a db'" using settleDispatch_steps [OF assms(1), of env t payload c now] assms(2,3) trp_both by fastforce
  then show ?thesis using failed by (auto split: option.split)
qed

lemma resumeDispatch_steps:
  assumes ok: "trp_ok (fst w)"
  shows "trp_run (fst w) (fst (resumeDispatch env master api t q now w))"
proof (cases "findDispatch t q (fst w)")
  case f: (Some row)
  show ?thesis
  proof (cases "td_status row = I_PENDING")
    case pending: True
    show ?thesis
    proof (cases "td_payload row")
      case None
      then show ?thesis using f pending trp_one [OF defers] by (simp add: resumeDispatch_def)
    next
      case p: (Some payload)
      show ?thesis
      proof (cases "batchRequestValid payload")
        case False
        then show ?thesis using f pending p trp_one [OF defers] by (simp add: resumeDispatch_def)
      next
        case v: True
        show ?thesis
        proof (cases "submitDispatch env master api t row payload w")
          case (Inl e)
          then show ?thesis using f pending p v failed [OF rtranclp.rtrancl_refl] by (simp add: resumeDispatch_def)
        next
          case s: (Inr db1)
          note S = submitDispatch_steps [OF ok s f p]
          have fail: "trp_run (fst w) (failDispatch row e now db1)" for e using failed [OF conjunct1 [OF S]] .
          have settle: "settleDispatch env t row payload c now db1 = (None, x) \<Longrightarrow> trp_run (fst w) x"
            "settleDispatch env t row payload c now db1 = (Some e, x) \<Longrightarrow> trp_run (fst w) (failDispatch row e now x)" for c e x
            using settled_then_failed [OF conjunct2 [OF S] conjunct1 [OF S], of env t payload c now] by fastforce+
          show ?thesis
          proof (cases "td_receipt row")
            case (Some c)
            then show ?thesis using f pending p v s fail settle by (auto simp: resumeDispatch_def split: prod.splits option.splits)
          next
            case None
            obtain reply s1 where b: "fulDispatchBatch api payload now (snd w) = (reply, s1)" by force
            then show ?thesis using f pending p v s fail settle None
              by (cases reply) (auto simp: resumeDispatch_def split: prod.splits option.splits)
          qed
        qed
      qed
    qed
  qed (use f in \<open>simp add: resumeDispatch_def\<close>)
qed (simp add: resumeDispatch_def)

lemma dispatchTrip_steps:
  assumes ok: "trp_ok (fst w)"
  shows "trp_run (fst w) (fst (snd (dispatchTrip env master api user trip dto now w0 w)))"
proof -
  have begun: "trp_run (fst w) (fst (resumeDispatch env master api t q now (db1, s)))" if s: "trp_run (fst w) db1" for t q s db1
    using trp_both [OF s] resumeDispatch_steps [of "(db1, s)"] trp_run_ok [OF s ok] by simp
  have accept: "trp_run (fst w) db1"
    if "batchRequestValid (batchRequestOf user trip dto sel n)"
      "acceptDispatchTx user trip dto hash (batchRequestOf user trip dto sel n) now ((fst w)\<lparr> trp_next := trp_next (fst w) + k \<rparr>) = Inr db1"
    for hash sel n k db1
    by (rule trp_first [OF draws trp_one [OF accepts [OF refl that]]]) simp
  show ?thesis unfolding dispatchTrip_def Let_def
    by (auto split: sum.split option.split intro: begun [OF accept] resumeDispatch_steps [OF ok])
qed

lemma recoverDispatches_steps: "trp_ok (fst w) \<Longrightarrow> trp_run (fst w) (fst (recoverDispatches env master api ds now w))"
proof (induction ds arbitrary: w)
  case (Cons d ds)
  note r = resumeDispatch_steps [OF Cons.prems, of env master api "td_tenantId d" "td_idempotencyKey d" now]
  from trp_both [OF r Cons.IH [OF trp_run_ok [OF r Cons.prems]]] show ?case by simp
qed simp

lemma recoverOperations_steps: "trp_run (fst w) (fst (recoverOperations env api ps now w))"
proof (induction ps arbitrary: w)
  case (Cons p ps)
  from trp_both [OF resume_steps [of w env api "to_id p" False now] Cons.IH] show ?case by simp
qed simp

lemma recoverTrips_steps:
  assumes "trp_ok (fst w)"
  shows "trp_run (fst w) (fst (recoverTrips env renv master api n now w))"
proof -
  note r = recoverDispatches_steps [OF assms, of renv master api "dueDispatches n now (fst w)" now]
  from trp_both [OF r recoverOperations_steps] show ?thesis by (simp add: recoverTrips_def Let_def)
qed

section \<open>The other requests\<close>

lemma createTripFor_steps: "trp_run db (snd (createTripFor env stamp api user dto now db0 db))"
  unfolding createTripFor_def Let_def by (auto split: sum.split option.split intro: trp_one creates)

lemma updateLocalFields_steps: "trp_run db (snd (updateLocalFields api user trip kind dto now db0 db))"
  unfolding updateLocalFields_def Let_def by (auto split: sum.split intro: trp_one edits)

lemma updateFields_steps: "trp_run db (snd (updateFields env api user trip kind dto now db0 db))"
  unfolding updateFields_def Let_def
  by (simp split: sum.split option.split prod.split) (auto intro: trp_one [OF assigns] updateLocalFields_steps)

lemma manualRoute_steps: "trp_run db (snd (manualRoute env master api user trip dto now db0 s0 db))"
  unfolding manualRoute_def Let_def by (auto split: sum.split option.split intro: trp_one plans)

lemma approveRoute_steps: "trp_run db (snd (approveRoute env master api user trip dto now db0 s0 db))"
  unfolding approveRoute_def Let_def by (auto split: sum.split option.split intro: trp_one approves)

lemma applyAction_steps: "applyAction env user trip stop dto action now db0 db = Inr (r, db') \<Longrightarrow> trp_run db db'"
  unfolding applyAction_def by (auto simp: bind_res_Inr_iff split: option.splits intro: trp_one settles)

end
