(* ===== verification/Transport_Agreement.thy ===== *)
theory Transport_Agreement
  imports Transport_Relation
begin

text \<open>
  What the dispatch of a trip relies on in the service that carries it out, as a locale: whatever became of
  an earlier request, the next one ends with a final receipt. The transport service is proved against it
  once, and the fulfilment service with the order service behind it is shown to be such a service.
\<close>

section \<open>A dispatch that was submitted\<close>

lemma pending_dispatch_frozen:
  assumes "trp_ok db" "findDispatch t q db = Some row" "td_status row = I_PENDING"
  shows "\<exists>r x. td_payload row = Some r \<and> carries row r \<and> x \<in> set (trips db) \<and> freezes db row r x"
  using assms findDispatch_D unfolding trp_ok_def trp_but_def dispatches_ok_def freezes_def by blast

lemma findDispatch_set:
  assumes "\<And>d. td_tenantId (g d) = td_tenantId d \<and> td_idempotencyKey (g d) = td_idempotencyKey d"
  shows "findDispatch t q (setDispatch i p g db) =
    map_option (\<lambda>d. if td_id d = i \<and> p d then g d else d) (findDispatch t q db)"
proof -
  have "List.find (\<lambda>d. td_tenantId d = t \<and> td_idempotencyKey d = q) (update_where (\<lambda>d. td_id d = i \<and> p d) g ds) =
      map_option (\<lambda>d. if td_id d = i \<and> p d then g d else d) (List.find (\<lambda>d. td_tenantId d = t \<and> td_idempotencyKey d = q) ds)" for ds
    using assms by (induction ds) auto
  then show ?thesis by (simp add: findDispatch_def setDispatch_def)
qed

text \<open>The trip has left with the shipments of the request, one version up, and says so.\<close>

definition trip_departed :: "batch_request \<Rightarrow> instant \<Rightarrow> trp_db \<Rightarrow> trp_db \<Rightarrow> bool" where
  "trip_departed r now db db' \<longleftrightarrow>
     (\<exists>x\<in>set (trips db). \<exists>y\<in>set (trips db'). dt_id x = br_tripId r \<and> dt_tenantId x = br_tenantId r \<and>
        dt_status x = T_APPROVED \<and> dt_version x = br_expectedTripVersion r \<and> y = (leaveTrip r now x)\<lparr> dt_updatedAt := now \<rparr>) \<and>
     (\<exists>d. findDispatch (br_tenantId r) (br_requestId r) db' = Some d \<and> td_status d = I_COMPLETED) \<and>
     (\<exists>p. map ob_payload (trp_outbox db') = map ob_payload (trp_outbox db) @ [TripLeft p] \<and> tp_tripId p = br_tripId r \<and>
        map tdi_shipmentId (tp_shipments p) = map bi_shipmentId (br_shipments r))"

definition dispatch_refused :: "batch_request \<Rightarrow> trp_db \<Rightarrow> trp_db \<Rightarrow> bool" where
  "dispatch_refused r db db' \<longleftrightarrow> trips db' = trips db \<and> trp_outbox db' = trp_outbox db \<and>
     (\<exists>d. findDispatch (br_tenantId r) (br_requestId r) db' = Some d \<and> td_status d = I_REJECTED)"

lemma updateTrip_leaves:
  assumes "trips_ok db" "x \<in> set (trips db)" "dt_status x = T_APPROVED"
  shows "updateTrip (dt_id x) (leaveTrip r now) now db =
    Inr ((leaveTrip r now x)\<lparr> dt_updatedAt := now \<rparr>,
      db\<lparr> trips := update_where (\<lambda>z. dt_id z = dt_id x) (\<lambda>_. (leaveTrip r now x)\<lparr> dt_updatedAt := now \<rparr>) (trips db) \<rparr>)"
proof -
  note t = assms(1) [unfolded trips_ok_def]
  have f: "List.find (\<lambda>z. dt_id z = dt_id x) (trips db) = Some x" using find_key_unique [of dt_id "trips db" x] t assms(2) by simp
  let ?y = "(leaveTrip r now x)\<lparr> dt_updatedAt := now \<rparr>"
  have a: "trip_active x" "trip_active ?y" using assms(3) by (simp_all add: trip_active_def leaveTrip_def)
  have s: "trip_sound x" "\<not> resource_taken x (trips db)" using t assms(2) by blast+
  have "trip_totals_fit x" "dt_vehicleId x \<noteq> None \<and> dt_driverId x \<noteq> None"
    using s(1) a(1) unfolding trip_sound_def trip_row_ok_def by blast+
  then have "trip_totals_fit ?y" "trip_row_ok ?y" by (simp_all add: trip_totals_fit_def trip_row_ok_def leaveTrip_def)
  moreover have "resource_taken ?y (trips db) = resource_taken x (trips db)"
    unfolding resource_taken_def using a by (simp add: leaveTrip_def)
  ultimately show ?thesis using f s(2) by (simp add: updateTrip_def Let_def)
qed

lemma leftPayload_valid:
  assumes "trip_sound x" "dt_status x = T_APPROVED" "batchRequestValid r"
  shows "\<exists>p. leftPayload x r now = Inr p \<and> tp_tripId p = dt_id x \<and>
    map tdi_shipmentId (tp_shipments p) = map bi_shipmentId (br_shipments r)"
proof -
  obtain a b c where "dt_driverId x = Some a" "dt_driverUserId x = Some b" "dt_vehicleId x = Some c"
    using assms(1,2) by (auto simp: trip_sound_def trip_row_ok_def trip_active_def)
  then show ?thesis using assms(3) by (simp add: leftPayload_def batchRequestValid_def list_all_iff comp_def)
qed

text \<open>Once the shipments have left nothing keeps the trip from leaving.\<close>

lemma commit_departs:
  assumes ok: "trp_ok db" and f: "findDispatch (br_tenantId r) (br_requestId r) db = Some row"
    and row: "td_status row = I_PENDING" "td_payload row = Some r" "td_stage row \<noteq> G_ACCEPTED"
  shows "\<exists>db'. commitDispatch (br_tenantId r) (br_requestId r) now (saveBatchReceipt (td_id row) c db) = Inr db' \<and>
    trip_departed r now db db'"
proof -
  from pending_dispatch_frozen [OF ok f row(1)] row obtain x where fr: "carries row r" "x \<in> set (trips db)" "freezes db row r x" by auto
  note fz = fr(3) [unfolded freezes_def]
  note p = trp_butD [OF ok [unfolded trp_ok_def]]
  have x: "dt_id x = br_tripId r" "dt_id x = td_tripId row" "dt_tenantId x = br_tenantId r" "dt_status x = T_APPROVED"
      "dt_version x = br_expectedTripVersion r" "dt_approvedRoutePlanId x = Some (br_approvedPlanId r)"
    using fz row(3) by (simp_all add: carries_def)
  have v: "batchRequestValid r" using fr(1) by (simp add: carries_def)
  define db1 where "db1 = saveBatchReceipt (td_id row) c db"
  define row1 where "row1 = row\<lparr> td_stage := G_RECEIPTED, td_receipt := Some c \<rparr>"
  have f1: "findDispatch (br_tenantId r) (br_requestId r) db1 = Some row1"
    unfolding db1_def saveBatchReceipt_def by (subst findDispatch_set) (simp_all add: f row(1) dispatch_pending_def row1_def)
  have same: "trips db1 = trips db" "trp_outbox db1 = trp_outbox db" by (simp_all add: db1_def saveBatchReceipt_def setDispatch_def)
  have "trp_but {} db1" using ok row(3) p(4) findDispatch_D [OF f] dispatch_unique [OF ok [unfolded trp_ok_def]]
    unfolding db1_def trp_ok_def by (intro keeps_trpD [OF saveBatchReceipt_keeps]) (auto simp: submitted_def)
  note p1 = trp_butD [OF this]
  have d1: "List.find (\<lambda>d. td_id d = td_id row1) (tripDispatches db1) = Some row1"
    using find_key_unique [of td_id "tripDispatches db1" row1] p1(4) findDispatch_D [OF f1] by (simp add: dispatches_ok_def)
  have t1: "List.find (\<lambda>z. dt_id z = td_tripId row1 \<and> dt_tenantId z = br_tenantId r) (trips db1) = Some x"
    using p(1) fr(2) x same by (intro find_unique) (auto simp: trips_ok_def row1_def dest: key_eq_imp_eq)
  define y where "y = (leaveTrip r now x)\<lparr> dt_updatedAt := now \<rparr>"
  define db2 where "db2 = db1\<lparr> trips := update_where (\<lambda>z. dt_id z = dt_id x) (\<lambda>_. y) (trips db1) \<rparr>"
  have u: "updateTrip (td_tripId row1) (leaveTrip r now) now db1 = Inr (y, db2)"
    using updateTrip_leaves [of db1 x r now] p1(1) fr(2) x same by (simp add: row1_def y_def db2_def)
  have sv: "toSafeVersion (dt_version y) = Inr (dt_version y)"
    using fz by (simp add: toSafeVersion_def isSafeInteger_def y_def leaveTrip_def)
  from leftPayload_valid [OF _ x(4) v, of now] p(1) fr(2) obtain ev where
    ev: "leftPayload x r now = Inr ev" "tp_tripId ev = dt_id x" "map tdi_shipmentId (tp_shipments ev) = map bi_shipmentId (br_shipments r)"
    by (auto simp: trips_ok_def)
  define g where "g = completedDispatch x (dt_version y) r now"
  define db3 where "db3 = setDispatch (td_id row1) (\<lambda>_. True) g db2"
  define db' where "db' = tripEvent (br_tenantId r) ''TripDispatched'' 2 (dt_id x) (dt_version y) (td_idempotencyKey row1) (TripLeft ev)
      (Some (td_requestedBy row1)) now db3"
  have "commitDispatch (br_tenantId r) (br_requestId r) now db1 = Inr db'"
    using f1 d1 t1 u sv ev(1) x v row
    by (simp add: commitDispatch_def commitDispatchTx_def row1_def db'_def db3_def g_def)
  moreover have "findDispatch (br_tenantId r) (br_requestId r) db' = Some (g row1)"
  proof -
    have "findDispatch (br_tenantId r) (br_requestId r) db3 = Some (g row1)"
      unfolding db3_def using f1 by (subst findDispatch_set) (simp_all add: g_def completedDispatch_def db2_def findDispatch_def)
    then show ?thesis by (simp add: db'_def tripEvent_def findDispatch_def)
  qed
  moreover have "y \<in> set (trips db')" using fr(2) same
    by (auto simp: db'_def db3_def db2_def tripEvent_def setDispatch_def update_where_def)
  moreover have "map ob_payload (trp_outbox db') = map ob_payload (trp_outbox db) @ [TripLeft ev]"
    by (simp add: db'_def db3_def db2_def tripEvent_def setDispatch_def same)
  ultimately have "commitDispatch (br_tenantId r) (br_requestId r) now db1 = Inr db' \<and> trip_departed r now db db'"
    using x fr(2) ev y_def unfolding trip_departed_def by (auto simp: g_def completedDispatch_def)
  then show ?thesis unfolding db1_def by blast
qed

lemma decided_granted: "batch_decided r d s \<Longrightarrow> is_granted d \<Longrightarrow> orders_granted r s"
  by (simp add: batch_decided_def)

section \<open>The service that carries a dispatch out\<close>

text \<open>
  \<open>stands r s\<close>: a request \<open>r\<close> may be sent in the state \<open>s\<close>, for the first time or again. \<open>carried r s\<close>: its
  shipments have left.
\<close>

locale dispatch_executor =
  fixes api :: "'ful fulfillment_api" and fenv :: ful_env and stands carried :: "batch_request \<Rightarrow> 'ful \<Rightarrow> bool" and content :: "'ful \<Rightarrow> 'a"
  assumes executes: "batchRequestValid r \<Longrightarrow> stands r s \<Longrightarrow> \<exists>c s'. fa_dispatchBatch api r now s = (TripReply 200 None (Some c), s') \<and>
    receipt_for fenv r c \<and> (be_status c = I_COMPLETED \<and> carried r s' \<or> be_status c = I_REJECTED \<and> content s' = content s)"
begin

lemma request_answered:
  assumes "batchRequestValid r" "stands r s"
  shows "\<exists>c s'. fulDispatchBatch api r now s = (Inr c, s') \<and> receipt_for fenv r c \<and>
    (be_status c = I_COMPLETED \<and> carried r s' \<or> be_status c = I_REJECTED \<and> content s' = content s)"
proof -
  from executes [OF assms, of now] obtain c s' where c: "fa_dispatchBatch api r now s = (TripReply 200 None (Some c), s')"
    "receipt_for fenv r c" "be_status c = I_COMPLETED \<and> carried r s' \<or> be_status c = I_REJECTED \<and> content s' = content s" by blast
  then have "fulDispatchBatch api r now s = (Inr c, s')"
    using assms(1) by (simp add: fulDispatchBatch_def fulRequest_def http_ok_def receipt_for_def)
  with c show ?thesis by blast
qed

lemma receipt_settles:
  assumes ok: "trp_ok db" and f: "findDispatch (br_tenantId r) (br_requestId r) db = Some row"
    and row: "td_status row = I_PENDING" "td_payload row = Some r" "td_stage row \<noteq> G_ACCEPTED"
    and c: "receipt_for fenv r c" and h: "rv_batchHash env = fe_batchHash fenv"
  shows "\<exists>db'. settleDispatch env (br_tenantId r) row r c now db = (None, db') \<and>
    (if be_status c = I_COMPLETED then trip_departed r now db db' else dispatch_refused r db db')"
proof -
  note c' = c [unfolded receipt_for_def]
  have q: "td_idempotencyKey row = br_requestId r" "td_tripId row = br_tripId r"
    using pending_dispatch_frozen [OF ok f row(1)] row(2) by (auto simp: carries_def)
  have bound: "receipt_bound env (br_tenantId r) row r c" using c' h q by (auto simp: receipt_bound_def split: option.splits)
  show ?thesis
  proof (cases "be_status c = I_COMPLETED")
    case True
    then have "receipt_complete r c" using c'
      by (auto simp: receipt_complete_def item_receipt_def list_all_iff list_ex_iff split: option.splits if_splits)
    then show ?thesis using commit_departs [OF ok f row, of now c] True bound q(1)
      by (auto simp: settleDispatch_def)
  next
    case False
    then have "be_status c = I_REJECTED" using c' by (auto split: option.splits if_splits)
    moreover have "dispatch_refused r db (rejectDispatch (td_id row) c db)" using f row(1)
      unfolding dispatch_refused_def rejectDispatch_def by (subst findDispatch_set) (simp_all add: setDispatch_def dispatch_pending_def)
    ultimately show ?thesis using bound by (simp add: settleDispatch_def)
  qed
qed

text \<open>One attempt at a submitted dispatch ends it.\<close>

lemma resumeDispatch_ends:
  assumes ok: "trp_ok db" and f: "findDispatch t q db = Some row"
    and row: "td_status row = I_PENDING" "td_payload row = Some r" "td_stage row \<noteq> G_ACCEPTED" "td_receipt row = None"
    and s: "stands r s" and h: "rv_batchHash env = fe_batchHash fenv"
  shows "\<exists>db' s'. resumeDispatch env master api t q now (db, s) = (db', s') \<and>
    (trip_departed r now db db' \<and> carried r s' \<or> dispatch_refused r db db' \<and> content s' = content s)"
proof -
  have k: "batchRequestValid r" "t = br_tenantId r" "q = br_requestId r"
    using pending_dispatch_frozen [OF ok f row(1)] row(2) f by (auto simp: carries_def findDispatch_def dest: find_Some_D)
  from request_answered [OF k(1) s, of now] obtain c s' where c: "fulDispatchBatch api r now s = (Inr c, s')" "receipt_for fenv r c"
    "be_status c = I_COMPLETED \<and> carried r s' \<or> be_status c = I_REJECTED \<and> content s' = content s" by blast
  from receipt_settles [OF ok f [unfolded k(2,3)] row(1-3) c(2) h, of now] obtain db' where
    d: "settleDispatch env t row r c now db = (None, db')"
      "if be_status c = I_COMPLETED then trip_departed r now db db' else dispatch_refused r db db'" unfolding k(2,3) by blast
  have "resumeDispatch env master api t q now (db, s) = (db', s')"
    using f row k(1) c(1) d(1) by (simp add: resumeDispatch_def submitDispatch_def)
  with c(3) d(2) show ?thesis by auto
qed

end

section \<open>The fulfilment service is such a service\<close>

definition trip_carried :: "batch_request \<Rightarrow> ful_db \<times> ord_db \<Rightarrow> bool" where
  "trip_carried r w \<longleftrightarrow> (\<forall>item\<in>set (br_shipments r). item_dispatched (br_tenantId r) (fst w) item) \<and> orders_granted r (snd w)"

text \<open>
  What an earlier request may have left: nothing; a batch under way, decided by the order service or not; a
  batch that has ended.
\<close>

definition batch_under_way :: "batch_request \<Rightarrow> shipment_dispatch_batch \<Rightarrow> ord_db \<Rightarrow> bool" where
  "batch_under_way r b s \<longleftrightarrow> fb_status b = I_PENDING \<and> (\<forall>item\<in>set (br_shipments r). isSafeInteger (bi_shipmentVersion item + 1)) \<and>
     (fb_decision b = None \<and> batch_undecided r s \<or> (\<exists>d. batch_decided r d s \<and> fb_decision b \<in> {None, Some d}))"

definition batch_over :: "ful_env \<Rightarrow> batch_request \<Rightarrow> shipment_dispatch_batch \<Rightarrow> ful_db \<times> ord_db \<Rightarrow> bool" where
  "batch_over fenv r b w \<longleftrightarrow> fb_status b \<noteq> I_PENDING \<and> (\<exists>c. fb_response b = Some c \<and> receipt_for fenv r c \<and>
     (be_status c = I_COMPLETED \<and> trip_carried r w \<or> be_status c = I_REJECTED))"

definition batch_stands :: "ful_env \<Rightarrow> batch_request \<Rightarrow> ful_db \<times> ord_db \<Rightarrow> bool" where
  "batch_stands fenv r w \<longleftrightarrow> ful_ok (fst w) \<and>
     (batch_new fenv r (fst w) \<and> batch_undecided r (snd w) \<or>
      sha256_text (fe_batchHash fenv r) \<and> (\<exists>b. findBatch (br_tenantId r) (br_requestId r) (fst w) = Some b \<and> fb_payload b = r \<and>
        fb_payloadHash b = fe_batchHash fenv r \<and> (batch_under_way r b (snd w) \<or> batch_over fenv r b w)))"

text \<open>The moving parts of the two services behind the interface.\<close>

definition fleet :: "ful_db \<times> ord_db \<Rightarrow> shipment list \<times> sales_order list" where
  "fleet w = (shipments (fst w), orders (snd w))"

lemma batch_stands_ends:
  assumes v: "batchRequestValid r" and st: "batch_stands fenv r w"
  shows "\<exists>c f' s'. dispatchBatch (order_service oenv) fenv r now w = (Inr c, f', s') \<and> receipt_for fenv r c \<and>
    (be_status c = I_COMPLETED \<and> trip_carried r (f', s') \<or> be_status c = I_REJECTED \<and> fleet (f', s') = fleet w)"
proof -
  obtain f s where w: "w = (f, s)" by (cases w)
  have ok: "ful_ok f" using st by (simp add: batch_stands_def w)
  consider (new) "batch_new fenv r f" "batch_undecided r s"
    | (open_batch) b where "findBatch (br_tenantId r) (br_requestId r) f = Some b" "fb_payload b = r" "fb_payloadHash b = fe_batchHash fenv r"
        "sha256_text (fe_batchHash fenv r)" "batch_under_way r b s"
    | (over) b where "findBatch (br_tenantId r) (br_requestId r) f = Some b" "fb_payloadHash b = fe_batchHash fenv r" "batch_over fenv r b w"
    using st by (auto simp: batch_stands_def w)
  then show ?thesis
  proof cases
    case new
    from authority.dispatchBatch_ends [OF ok new, of oenv now] decided_granted show ?thesis
      unfolding w trip_carried_def fleet_def fst_conv snd_conv by blast
  next
    case open_batch
    from open_batch(5) obtain d where d: "fb_status b = I_PENDING" "\<forall>item\<in>set (br_shipments r). isSafeInteger (bi_shipmentVersion item + 1)"
      "fb_decision b = None \<and> batch_undecided r s \<or> batch_decided r d s \<and> fb_decision b \<in> {None, Some d}"
      unfolding batch_under_way_def by blast
    from authority.dispatchBatch_resumes [OF ok v open_batch(1) d(1) open_batch(2-4) d(2,3), of oenv now] decided_granted show ?thesis
      unfolding w trip_carried_def fleet_def fst_conv snd_conv by blast
  next
    case over
    then obtain c where c: "fb_status b \<noteq> I_PENDING" "fb_response b = Some c" "receipt_for fenv r c"
      "be_status c = I_COMPLETED \<and> trip_carried r w \<or> be_status c = I_REJECTED" by (auto simp: batch_over_def)
    have "dispatchBatch (order_service oenv) fenv r now (f, s) = (Inr c, f, s)"
      using c(3) by (intro authority.dispatchBatch_repeats [OF v over(1) c(1) over(2) c(2)]) (simp add: receipt_for_def)
    with c(3,4) show ?thesis unfolding w by blast
  qed
qed

interpretation executor: dispatch_executor "fulfilment_service msg (order_service oenv) fenv" fenv "batch_stands fenv" trip_carried fleet
  for msg oenv fenv
proof unfold_locales
  fix r w now
  assume r: "batchRequestValid r" "batch_stands fenv r w"
  from batch_stands_ends [OF this, of oenv now] show "\<exists>c s'. fa_dispatchBatch (fulfilment_service msg (order_service oenv) fenv) r now w =
      (TripReply 200 None (Some c), s') \<and> receipt_for fenv r c \<and>
      (be_status c = I_COMPLETED \<and> trip_carried r s' \<or> be_status c = I_REJECTED \<and> fleet s' = fleet w)"
    using r(1) by (auto simp: postDispatchBatch_def answered_def)
qed

end
