(* ===== verification/Transport_Overrun.thy ===== *)
theory Transport_Overrun
  imports Transport_Relation
begin

text \<open>
  What becomes of a dispatch when the trip has a new version all the same: a worker that outlives its lease ends
  an operation once more (\<^verbatim>\<open>finalize\<close> does not look at its status), and no attempt at the dispatch can
  let the trip leave any more.
\<close>

section \<open>A dispatch whose trip has moved on\<close>

text \<open>The trip of the dispatch is not at the version its request names.\<close>

definition stranded :: "uuid \<Rightarrow> uuid \<Rightarrow> trp_db \<Rightarrow> bool" where
  "stranded t q db \<longleftrightarrow> (\<exists>row r x. findDispatch t q db = Some row \<and> td_payload row = Some r \<and>
     List.find (\<lambda>x. dt_id x = td_tripId row \<and> dt_tenantId x = t) (trips db) = Some x \<and> dt_version x \<noteq> br_expectedTripVersion r)"

text \<open>No step of an attempt moves a trip, or gives the dispatch another request.\<close>

definition stays_stranded :: "uuid \<Rightarrow> uuid \<Rightarrow> trp_db \<Rightarrow> trp_db \<Rightarrow> bool" where
  "stays_stranded t q db db' \<longleftrightarrow> trips db' = trips db \<and> stranded t q db'"

lemma stays_stranded_refl: "stranded t q db \<Longrightarrow> stays_stranded t q db db"
  by (simp add: stays_stranded_def)

lemma stranded_set:
  assumes f: "\<And>d. td_tenantId (f d) = td_tenantId d \<and> td_idempotencyKey (f d) = td_idempotencyKey d \<and>
      td_tripId (f d) = td_tripId d \<and> td_payload (f d) = td_payload d"
    and s: "stays_stranded t q db0 db"
  shows "stays_stranded t q db0 (setDispatch i p f db)"
proof -
  have k: "\<exists>d'. List.find (\<lambda>d. td_tenantId d = t \<and> td_idempotencyKey d = q) (update_where u f ds) = Some d' \<and>
      td_tripId d' = td_tripId d \<and> td_payload d' = td_payload d"
    if "List.find (\<lambda>d. td_tenantId d = t \<and> td_idempotencyKey d = q) ds = Some d" for u ds d
    using that by (induction ds) (auto simp: f split: if_splits)
  show ?thesis using s k unfolding stays_stranded_def stranded_def findDispatch_def setDispatch_def by fastforce
qed

lemma commitDispatch_stranded: "stranded t q db \<Longrightarrow> commitDispatch t q now db = Inr db' \<Longrightarrow> db' = db"
  by (auto simp: stranded_def commitDispatch_def commitDispatchTx_def split: option.splits if_splits)

lemma failDispatch_stranded: "stays_stranded t q db0 db \<Longrightarrow> stays_stranded t q db0 (failDispatch row e now db)"
  unfolding failDispatch_def failUpdate_def Let_def by (auto split: option.split intro: stranded_set)

lemma settleDispatch_stranded:
  assumes "findDispatch t q db = Some row" "stays_stranded t q db0 db" "settleDispatch env t row payload c now db = (e, db')"
  shows "stays_stranded t q db0 db'"
proof -
  have q: "td_idempotencyKey row = q" using assms(1) by (auto simp: findDispatch_def dest!: find_Some_D)
  have "stays_stranded t q db0 (rejectDispatch (td_id row) c db)" "stays_stranded t q db0 (saveBatchReceipt (td_id row) c db)"
    using assms(2) by (auto simp: rejectDispatch_def saveBatchReceipt_def intro: stranded_set)
  moreover from this(2) have "db2 = saveBatchReceipt (td_id row) c db" if "commitDispatch t q now (saveBatchReceipt (td_id row) c db) = Inr db2" for db2
    using commitDispatch_stranded [OF _ that] by (simp add: stays_stranded_def)
  ultimately show ?thesis using assms(2,3) q unfolding settleDispatch_def Let_def by (auto split: if_splits sum.splits)
qed

lemma submitDispatch_stranded:
  assumes s: "stranded t q db" and f: "findDispatch t q db = Some row" "td_payload row = Some payload"
    and "submitDispatch env master api t row payload (db, s) = Inr db1"
  shows "db1 = db"
  using assms by (auto simp: submitDispatch_def stranded_def submitTx_def bind_res_Inr_iff split: if_splits option.splits)

lemma resumeDispatch_stranded:
  assumes st: "stranded t q (fst w)"
  shows "stays_stranded t q (fst w) (fst (resumeDispatch env master api t q now w))"
proof -
  obtain db s where w: "w = (db, s)" by force
  have s0: "stays_stranded t q db db" using st w stays_stranded_refl by simp
  from st w obtain row r where f: "findDispatch t q db = Some row" "td_payload row = Some r" by (auto simp: stranded_def)
  have submitted: "db1 = db" if "submitDispatch env master api t row r (db, s) = Inr db1" for db1
    using submitDispatch_stranded [OF _ f that] st w by simp
  have settled: "stays_stranded t q db db'" if "settleDispatch env t row r c now db = (e, db')" for c e db'
    using settleDispatch_stranded [OF f(1) s0 that] .
  have legacy: "stays_stranded t q db (setDispatch (td_id row) dispatch_pending (\<lambda>d. d\<lparr> td_lastError := Some ''DISPATCH_LEGACY_INTENT_REQUIRES_RECONCILIATION'',
      td_attemptCount := td_attemptCount d + 1, td_nextAttemptAt := now + DISPATCH_RETRY_MAX_MS \<rparr>) db)"
    by (rule stranded_set [OF _ s0]) simp
  note failed = failDispatch_stranded [OF s0] failDispatch_stranded [OF settled]
  show ?thesis
  proof (cases "td_status row = I_PENDING \<and> batchRequestValid r")
    case False
    then show ?thesis using f s0 legacy unfolding w by (auto simp: resumeDispatch_def)
  next
    case True
    show ?thesis
    proof (cases "submitDispatch env master api t row r (db, s)")
      case (Inl e)
      then show ?thesis using True f failed(1) unfolding w by (simp add: resumeDispatch_def)
    next
      case (Inr db1)
      note sub = Inr [unfolded submitted [OF Inr]]
      show ?thesis
      proof (cases "td_receipt row")
        case (Some c)
        then show ?thesis using True f sub failed settled unfolding w
          by (auto simp: resumeDispatch_def split: prod.split option.split)
      next
        case None
        obtain reply s1 where "fulDispatchBatch api r now s = (reply, s1)" by force
        then show ?thesis using True f sub failed settled None unfolding w
          by (cases reply) (auto simp: resumeDispatch_def split: prod.split option.split)
      qed
    qed
  qed
qed

fun dispatch_attempts ::
    "route_env \<Rightarrow> trip_master_api \<Rightarrow> 'ful fulfillment_api \<Rightarrow> uuid \<Rightarrow> uuid \<Rightarrow> instant list \<Rightarrow> trp_db \<times> 'ful \<Rightarrow> trp_db \<times> 'ful" where
  "dispatch_attempts env master api t q [] w = w"
| "dispatch_attempts env master api t q (now # nows) w = dispatch_attempts env master api t q nows (resumeDispatch env master api t q now w)"

lemma attempts_stranded:
  "stranded t q (fst w) \<Longrightarrow> trips (fst (dispatch_attempts env master api t q nows w)) = trips (fst w)"
proof (induction nows arbitrary: w)
  case (Cons now nows)
  from resumeDispatch_stranded [OF Cons.prems] Cons.IH show ?case unfolding stays_stranded_def by fastforce
qed simp

text \<open>An operation of the trip that is ended once more, while its dispatch is under way.\<close>

lemma finalize_strands:
  assumes ok: "trp_ok db" and d: "findDispatch t q db = Some row" "td_status row = I_PENDING" "td_payload row = Some r"
    and p: "findOperation i db = Some p" "to_tripId p = Some (td_tripId row)" and fz: "finalize i status now db = Inr db'"
  shows "stranded t q db' \<and> (\<exists>x\<in>set (trips db'). dt_id x = td_tripId row \<and> dt_version x = br_expectedTripVersion r + 1)"
proof -
  note D = findDispatch_D [OF d(1)] and B = trp_butD [OF ok [unfolded trp_ok_def]]
  obtain x where x: "x \<in> set (trips db)" "freezes db row r x" using B(4) D d(2,3) by (fastforce simp: dispatches_ok_def)
  from finalize_D [OF fz p(1)] p(2) obtain trip c a b y db1 result where t: "trip \<in> set (trips db)" "dt_id trip = td_tripId row"
    and u: "updateTrip (dt_id trip) (finalizeTrip c a b (to_reason p) now) now db = Inr (y, db1)"
    and s: "same_core_tables (setOperation i (finalizeOperation status result) db1) db'" by (fastforce dest: find_Some_D)
  have "trip = x" using the_trip [OF B(1) x(1) t(1)] t(2) x(2) by (simp add: freezes_def)
  from updateTrip_D [OF u] obtain z where z: "z \<in> set (trips db)" "dt_id z = dt_id trip"
    "y = (finalizeTrip c a b (to_reason p) now z)\<lparr> dt_updatedAt := now \<rparr>"
    "db1 = db\<lparr> trips := update_where (\<lambda>z. dt_id z = dt_id trip) (\<lambda>_. y) (trips db) \<rparr>" by blast
  have "z = x" using the_trip [OF B(1) x(1) z(1)] z(2) \<open>trip = x\<close> by simp
  then have y: "dt_id y = td_tripId row" "dt_tenantId y = t" "dt_version y = br_expectedTripVersion r + 1"
    using z(3) x(2) D by (auto simp: finalizeTrip_def freezes_def Let_def)
  have trips: "trips db' = update_where (\<lambda>z. dt_id z = td_tripId row) (\<lambda>_. y) (trips db)"
    using s z(4) t(2) by (simp add: same_core_tables_def)
  have dist: "distinct (map dt_id (trips db))" using B(1) by (simp add: trips_ok_def)
  have mem: "y \<in> set (trips db')" unfolding trips using z(1,2) t(2) by (force simp: in_set_update_where)
  have "List.find (\<lambda>x. dt_id x = td_tripId row \<and> dt_tenantId x = t) (trips db') = Some y"
    by (rule find_unique [OF mem]) (use y trips in \<open>auto simp: in_set_update_where split: if_splits\<close>)
  moreover have "findDispatch t q db' = Some row" using s z(4) d(1) by (simp add: same_core_tables_def findDispatch_def)
  ultimately show ?thesis using y mem d(3) unfolding stranded_def by fastforce
qed

end
