(* ===== verification/Transport_Run.thy ===== *)
theory Transport_Run
  imports Transport_Service
begin

text \<open>
  A run of the transport service with the fulfilment and the order service, for the witnesses: a trip is
  created, a ready shipment with known coordinates joins it and leaves it again.
\<close>

section \<open>The services at the start\<close>

definition demo_tenv :: trp_env where
  "demo_tenv = \<lparr> te_hash = (\<lambda>h. case h of HashAdd t d \<Rightarrow> ''add'' | HashRemove t d \<Rightarrow> ''remove'' | HashCancel t d \<Rightarrow> ''cancel''
       | HashCreate d \<Rightarrow> ''create'' | HashUpdate k t d \<Rightarrow> ''update'' | HashMembers t a i v ms \<Rightarrow> ''members''),
     te_message = (\<lambda>e. ''error'') \<rparr>"

definition demo_user :: trip_user where
  "demo_user = \<lparr> us_tenantId = 1, us_id = 7, us_isSuperAdmin = False \<rparr>"

definition demo_other :: trip_user where
  "demo_other = demo_user\<lparr> us_id := 8 \<rparr>"

definition demo_depot :: depot_snapshot where
  "demo_depot = \<lparr> ds_id = 2, ds_name = ''Main'', ds_addressLine = ''2 Le Loi'', ds_latitude = Some ''10.7'',
     ds_longitude = Some ''106.6'', ds_status = ''ACTIVE'', ds_version = 1 \<rparr>"

definition demo_master_trip :: trip_master_api where
  "demo_master_trip = \<lparr> mt_warehouse = (\<lambda>t i. HttpReply 200 (Some (demo_depot\<lparr> ds_id := i \<rparr>))),
     mt_vehicle = (\<lambda>t i. HttpReply 200 (Some \<lparr> vh_id = i, vh_code = ''V'', vh_licensePlate = ''51C'', vh_capacityWeight = ''900'',
       vh_capacityVolume = ''9'', vh_status = ''ACTIVE'', vh_version = 1 \<rparr>)),
     mt_driver = (\<lambda>i. HttpReply 200 (Some \<lparr> dw_id = i, dw_tenantId = 1, dw_userId = 9, dw_status = ''ACTIVE'', dw_version = 1 \<rparr>)),
     mt_linkLock = (\<lambda>t i v u. HttpReply 200 (Some \<lparr> db_driverId = i, db_userId = u, db_version = v \<rparr>)),
     mt_driverForTrip = (\<lambda>t i. HttpReply 200 (Some \<lparr> tv_id = i, tv_tenantId = t, tv_userId = 9, tv_displayName = ''An'', tv_version = 1 \<rparr>)) \<rparr>"

definition demo_tapi :: "(ful_db \<times> ord_db) fulfillment_api" where
  "demo_tapi = fulfilment_service (\<lambda>e. ''conflict'') demo_api_ord demo_fenv"

text \<open>The confirmation of the demonstration order, its address with coordinates.\<close>

definition demo_located :: order_event where
  "demo_located = demo_confirmation\<lparr> ev_payload := (ev_payload demo_confirmation)\<lparr>
     oy_confirmed := map_option (\<lambda>c. c\<lparr> pr_deliveryAddressSnapshot := (pr_deliveryAddressSnapshot c)\<lparr>
       as_latitude := Some ''10.5'', as_longitude := Some ''106.7'' \<rparr> \<rparr>) (oy_confirmed (ev_payload demo_confirmation)) \<rparr> \<rparr>"

definition demo_g1 :: "ful_error + ful_db" where
  "demo_g1 = handleShipmentOrderEvent demo_api_ord demo_fenv 13 (fst (snd demo_confirm)) ful_init demo_located ful_init"

definition demo_g2 :: "ful_error + ful_db" where
  "demo_g2 = transitionTx 1 1 S_PICKING demo_sctx None 14 (projr demo_g1)"

definition demo_g3 :: "ful_error + ful_db" where
  "demo_g3 = transitionTx 1 2 S_READY_TO_SHIP demo_sctx None 15 (projr demo_g2)"

definition demo_g :: ful_db where
  "demo_g = projr demo_g3"

lemma demo_g_value [code]: "demo_g =
    \<lparr>shipments = [\<lparr>sp_id = 1, sp_tenantId = 1, sp_shipmentNumber =
    ''SHP-00000000-0000-0000-0000-000000000001'', sp_orderId = 1, sp_warehouseId = 2, sp_deliveryAddressId = 6,
    sp_customerSnapshot = \<lparr>cs_customerId = 5, cs_customerVersion = 1, cs_code = ''C-1'', cs_name =
    ''Minh Anh'', cs_taxCode = None, cs_phone = None, cs_email = None\<rparr>, sp_deliveryAddressSnapshot =
    \<lparr>as_addressId = 6, as_addressVersion = 1, as_addressType = ''SHIPPING'', as_label = None, as_recipientName
    = ''Minh Anh'', as_phone = None, as_addressLine = ''1 Le Loi'', as_ward = None, as_district = None, as_province =
    ''HCM'', as_postalCode = None, as_latitude = Some ''10.5'', as_longitude = Some ''106.7'', as_deliveryNote =
    None\<rparr>, sp_warehouseSnapshot = \<lparr>ws_warehouseId = 2, ws_warehouseVersion = 1, ws_code = ''W-1'',
    ws_name = ''Main'', ws_addressLine = ''2 Le Loi'', ws_ward = None, ws_district = None, ws_province = ''HCM'',
    ws_postalCode = None, ws_latitude = None, ws_longitude = None\<rparr>, sp_orderNumber = ''SO-19700101-000001'',
    sp_confirmedOrderVersion = 2, sp_status = S_READY_TO_SHIP, sp_totalWeight = 0, sp_totalVolume = 0,
    sp_reservationGroupId = 10, sp_assignedTripId = None, sp_tripClaimId = None, sp_dispatchIssuedAt = None,
    sp_readyAt = Some 15, sp_deliveredAt = None, sp_failedAt = None, sp_failureReason = None, sp_createdAt = 13,
    sp_updatedAt = 15, sp_version = 3, sp_deletedAt = None\<rparr>], shipmentItems = [\<lparr>it_id = 2, it_tenantId
    = 1, it_shipmentId = 1, it_orderLineId = 2, it_productId = 31, it_skuSnapshot = ''SKU'', it_productNameSnapshot =
    ''Tea'', it_unitSnapshot = ''BOX'', it_quantity = 15, it_weight = 0, it_volume = 0, it_deletedAt = None\<rparr>],
    shipmentHistory = [\<lparr>hs_id = 3, hs_tenantId = 1, hs_shipmentId = 1, hs_fromStatus = None, hs_toStatus =
    S_PENDING_PICK, hs_reason = None, hs_actorId = Some 7, hs_correlationId = 90, hs_shipmentVersion = 1,
    hs_occurredAt = 13\<rparr>, \<lparr>hs_id = 6, hs_tenantId = 1, hs_shipmentId = 1, hs_fromStatus = Some
    S_PENDING_PICK, hs_toStatus = S_PICKING, hs_reason = None, hs_actorId = Some 7, hs_correlationId = 91,
    hs_shipmentVersion = 2, hs_occurredAt = 14\<rparr>, \<lparr>hs_id = 8, hs_tenantId = 1, hs_shipmentId = 1,
    hs_fromStatus = Some S_PICKING, hs_toStatus = S_READY_TO_SHIP, hs_reason = None, hs_actorId = Some 7,
    hs_correlationId = 91, hs_shipmentVersion = 3, hs_occurredAt = 15\<rparr>], dispatchIntents = [], fulBatches =
    [], orderCursors = [\<lparr>cu_tenantId = 1, cu_orderId = 1, cu_orderVersion = 2, cu_canceled = False\<rparr>],
    tripReceipts = [], ful_inbox = [\<lparr>fi_id = 5, fi_tenantId = 1, fi_eventId = 5, fi_consumerName =
    ''fulfillment-order-events'', fi_eventType = ''OrderConfirmed'', fi_aggregateId = Some 1, fi_aggregateVersion =
    Some 2, fi_eventPayload = None, fi_payloadHash = None, fi_semanticKey = None, fi_attemptCount = 0,
    fi_nextAttemptAt = 13, fi_lastError = None, fi_processedAt = 13, fi_outcome = ''APPLIED'', fi_errorCode =
    None\<rparr>], ful_outbox = [\<lparr>ob_id = 4, ob_tenantId = 1, ob_eventType = ''ShipmentCreated'',
    ob_eventVersion = 1, ob_aggregateType = ''Shipment'', ob_aggregateId = 1, ob_aggregateVersion = 1,
    ob_correlationId = 90, ob_causationId = Some 5, ob_payload = \<lparr>sl_shipmentId = 1, sl_orderId = 1,
    sl_reservationGroupId = 10, sl_warehouseId = 2, sl_dispatchRequestId = None, sl_reason = None\<rparr>,
    ob_payloadActor = Some 7, ob_occurredAt = 13, ob_publishedAt = None, ob_attemptCount = 0, ob_nextAttemptAt = 13,
    ob_lastError = None, ob_version = 1, ob_deletedAt = None\<rparr>, \<lparr>ob_id = 7, ob_tenantId = 1,
    ob_eventType = ''ShipmentPicking'', ob_eventVersion = 1, ob_aggregateType = ''Shipment'', ob_aggregateId = 1,
    ob_aggregateVersion = 2, ob_correlationId = 91, ob_causationId = Some 91, ob_payload = \<lparr>sl_shipmentId = 1,
    sl_orderId = 1, sl_reservationGroupId = 10, sl_warehouseId = 2, sl_dispatchRequestId = None, sl_reason =
    None\<rparr>, ob_payloadActor = Some 7, ob_occurredAt = 14, ob_publishedAt = None, ob_attemptCount = 0,
    ob_nextAttemptAt = 14, ob_lastError = None, ob_version = 1, ob_deletedAt = None\<rparr>, \<lparr>ob_id = 9,
    ob_tenantId = 1, ob_eventType = ''ShipmentReadyToShip'', ob_eventVersion = 1, ob_aggregateType = ''Shipment'',
    ob_aggregateId = 1, ob_aggregateVersion = 3, ob_correlationId = 91, ob_causationId = Some 91, ob_payload =
    \<lparr>sl_shipmentId = 1, sl_orderId = 1, sl_reservationGroupId = 10, sl_warehouseId = 2, sl_dispatchRequestId =
    None, sl_reason = None\<rparr>, ob_payloadActor = Some 7, ob_occurredAt = 15, ob_publishedAt = None,
    ob_attemptCount = 0, ob_nextAttemptAt = 15, ob_lastError = None, ob_version = 1, ob_deletedAt = None\<rparr>],
    ful_next = 10\<rparr>"
  by code_simp

definition trp_init :: trp_db where
  "trp_init = \<lparr> trips = [], tripShipments = [], tripStops = [], routePlans = [], deliveryAttempts = [], tripDispatches = [],
     tripOperations = [], trp_outbox = [], trp_inbox = [], trp_next = 61 \<rparr>"

definition demo_t1 :: trp_db where
  "demo_t1 = snd (createTripFor demo_tenv (\<lambda>now. ''20260101000000'') demo_master_trip demo_user
     \<lparr> ce_requestId = 40, ce_warehouseId = 2, ce_plannedStartAt = 99, ce_vehicleId = Some 3, ce_driverId = Some 4 \<rparr> 17 trp_init trp_init)"

lemma demo_t1_value [code]: "demo_t1 =
    \<lparr>trips = [\<lparr>dt_id = 61, dt_tenantId = 1, dt_tripNumber = ''TR-20260101000000-00000000'',
    dt_warehouseId = 2, dt_vehicleId = Some 3, dt_driverId = Some 4, dt_driverUserId = Some 9, dt_driverVersion =
    Some 1, dt_depotSnapshot = \<lparr>ds_id = 2, ds_name = ''Main'', ds_addressLine = ''2 Le Loi'', ds_latitude =
    Some ''10.7'', ds_longitude = Some ''106.6'', ds_status = ''ACTIVE'', ds_version = 1\<rparr>, dt_vehicleSnapshot
    = None, dt_driverSnapshot = None, dt_status = T_DRAFT, dt_plannedStartAt = 99, dt_actualStartAt = None,
    dt_completedAt = None, dt_totalWeight = 0, dt_totalVolume = 0, dt_approvedRoutePlanId = None, dt_dispatchVersion
    = 0, dt_dispatchedAt = None, dt_canceledAt = None, dt_cancelReason = None, dt_createdAt = 17, dt_updatedAt = 17,
    dt_version = 1, dt_deletedAt = None\<rparr>], tripShipments = [], tripStops = [], routePlans = [],
    deliveryAttempts = [], tripDispatches = [], tripOperations = [\<lparr>to_id = 62, to_tenantId = 1, to_tripId =
    Some 61, to_requestId = 40, to_actorId = 7, to_kind = K_CREATE, to_status = O_COMPLETED, to_payloadHash =
    ''create'', to_shipmentIds = [], to_membershipIds = [], to_reason = None, to_result = Some \<lparr>ov_tripId =
    Some 61, ov_requestId = 40, ov_kind = K_CREATE, ov_status = O_COMPLETED, ov_version = 1, ov_results = []\<rparr>,
    to_activeLock = None, to_attemptCount = 0, to_nextAttemptAt = 17, to_lockedUntil = None, to_lastError = None,
    to_createdAt = 17, to_version = 1\<rparr>], trp_outbox = [], trp_inbox = [], trp_next = 63\<rparr>"
  by code_simp

definition demo_add_dto :: add_dto where
  "demo_add_dto = \<lparr> ad_requestId = 41, ad_expectedTripVersion = 1,
     ad_shipments = [\<lparr> ai_shipmentId = 1, ai_expectedShipmentVersion = 3 \<rparr>] \<rparr>"

definition demo_added :: "(trp_error + operation_view option) \<times> trp_db \<times> ful_db \<times> ord_db" where
  "demo_added = addShipments demo_tenv demo_tapi demo_user 61 demo_add_dto 20 demo_t1 (demo_t1, demo_g, demo_rdb)"

definition demo_remove_dto :: remove_dto where
  "demo_remove_dto = \<lparr> rm_requestId = 42, rm_expectedTripVersion = 3, rm_shipmentIds = [1] \<rparr>"

section \<open>The trip departs\<close>

definition demo_hash :: "char \<Rightarrow> string" where
  "demo_hash c = replicate 64 c"

definition demo_renv :: route_env where
  "demo_renv = \<lparr> rv_inputHash = (\<lambda>n. demo_hash (CHR ''1'')),
     rv_hash = (\<lambda>h. case h of HashManual t d \<Rightarrow> demo_hash (CHR ''2'') | HashApproval a t d \<Rightarrow> demo_hash (CHR ''3'')
       | HashPreview l v d \<Rightarrow> demo_hash (CHR ''4'') | HashSelection n \<Rightarrow> demo_hash (CHR ''5'') | HashDispatch t d \<Rightarrow> demo_hash (CHR ''6'')),
     rv_batchHash = fe_batchHash demo_fenv,
     rv_sign = (\<lambda>c. ''token''),
     rv_verify = (\<lambda>k now. Some \<lparr> ku_purpose = ''trip.route.preview'',
       ku_action = (if k = ''approve'' then R_APPROVE else R_DISPATCH), ku_tenantId = 1, ku_actorId = 7, ku_tripId = 61,
       ku_payloadHash = (if k = ''approve'' then demo_hash (CHR ''4'') else demo_hash (CHR ''5'')), ku_iat = 0, ku_exp = 300 \<rparr>) \<rparr>"

text \<open>The lease of an operation and the delay of a retry stay names in the evaluations below.\<close>

declare PROCESS_LEASE_MS_def [code del] dispatchDelay_def [code del]

definition demo_t2 :: trp_db where
  "demo_t2 = fst (snd demo_added)"

definition demo_g4 :: ful_db where
  "demo_g4 = fst (snd (snd demo_added))"

lemma demo_added_value: "snd demo_added = (
    \<lparr>trips = [\<lparr>dt_id = 61, dt_tenantId = 1, dt_tripNumber = ''TR-20260101000000-00000000'',
    dt_warehouseId = 2, dt_vehicleId = Some 3, dt_driverId = Some 4, dt_driverUserId = Some 9, dt_driverVersion =
    Some 1, dt_depotSnapshot = \<lparr>ds_id = 2, ds_name = ''Main'', ds_addressLine = ''2 Le Loi'', ds_latitude =
    Some ''10.7'', ds_longitude = Some ''106.6'', ds_status = ''ACTIVE'', ds_version = 1\<rparr>, dt_vehicleSnapshot
    = None, dt_driverSnapshot = None, dt_status = T_DRAFT, dt_plannedStartAt = 99, dt_actualStartAt = None,
    dt_completedAt = None, dt_totalWeight = 0, dt_totalVolume = 0, dt_approvedRoutePlanId = None, dt_dispatchVersion
    = 0, dt_dispatchedAt = None, dt_canceledAt = None, dt_cancelReason = None, dt_createdAt = 17, dt_updatedAt = 20,
    dt_version = 3, dt_deletedAt = None\<rparr>], tripShipments = [\<lparr>ts_id = 64, ts_tenantId = 1, ts_tripId =
    61, ts_shipmentId = 1, ts_orderId = Some 1, ts_warehouseId = 2, ts_operationId = Some 63, ts_state = M_ACTIVE,
    ts_weight = 0, ts_volume = 0, ts_expectedShipmentVersion = Some 3, ts_shipmentVersion = Some 4, ts_orderVersion =
    Some 2, ts_claimRequest = Some \<lparr>cq_contractVersion = 1, cq_tenantId = 1, cq_requestId = 65, cq_tripId =
    61, cq_shipmentId = 1, cq_actorId = 7, cq_expectedTripVersion = 2, cq_expectedShipmentVersion = 3\<rparr>,
    ts_claimReceipt = Some \<lparr>ct_contractVersion = 1, ct_tenantId = 1, ct_requestId = 65, ct_tripId = 61,
    ct_shipmentId = 1, ct_claimId = 10, ct_tripVersion = 2, ct_shipmentVersion = 4, ct_claimedAt = 20\<rparr>,
    ts_releaseRequest = None, ts_releaseReceipt = None, ts_shipmentSnapshot = Some \<lparr>ns_tenantId = 1,
    ns_shipmentId = 1, ns_shipmentNumber = ''SHP-00000000-0000-0000-0000-000000000001'', ns_orderId = 1,
    ns_warehouseId = 2, ns_shipmentVersion = 4, ns_orderVersion = 2, ns_deliveryAddressSnapshot =
    \<lparr>as_addressId = 6, as_addressVersion = 1, as_addressType = ''SHIPPING'', as_label = None, as_recipientName
    = ''Minh Anh'', as_phone = None, as_addressLine = ''1 Le Loi'', as_ward = None, as_district = None, as_province =
    ''HCM'', as_postalCode = None, as_latitude = Some ''10.5'', as_longitude = Some ''106.7'', as_deliveryNote =
    None\<rparr>, ns_totalWeight = ''0.000'', ns_totalVolume = ''0.000000'', ns_items = [\<lparr>ni_orderLineId = 2,
    ni_productId = 31, ni_skuSnapshot = ''SKU'', ni_productNameSnapshot = ''Tea'', ni_unitSnapshot = ''BOX'',
    ni_quantity = ''0.015'', ni_weight = ''0.000'', ni_volume = ''0.000000''\<rparr>]\<rparr>, ts_assignedAt = 20,
    ts_removedAt = None, ts_version = 1, ts_deletedAt = None\<rparr>], tripStops = [\<lparr>ps_id = 66, ps_tenantId =
    1, ps_tripId = 61, ps_shipmentId = 1, ps_deliveryAddressId = 6, ps_addressSnapshot = \<lparr>as_addressId = 6,
    as_addressVersion = 1, as_addressType = ''SHIPPING'', as_label = None, as_recipientName = ''Minh Anh'', as_phone
    = None, as_addressLine = ''1 Le Loi'', as_ward = None, as_district = None, as_province = ''HCM'', as_postalCode =
    None, as_latitude = Some ''10.5'', as_longitude = Some ''106.7'', as_deliveryNote = None\<rparr>, ps_latitude =
    Some 10500000, ps_longitude = Some 106700000, ps_plannedSequence = 1, ps_approvedSequence = None, ps_status =
    STOP_PENDING, ps_currentAttempt = 0, ps_completedAt = None, ps_version = 1, ps_deletedAt = None\<rparr>],
    routePlans = [], deliveryAttempts = [], tripDispatches = [], tripOperations = [\<lparr>to_id = 62, to_tenantId =
    1, to_tripId = Some 61, to_requestId = 40, to_actorId = 7, to_kind = K_CREATE, to_status = O_COMPLETED,
    to_payloadHash = ''create'', to_shipmentIds = [], to_membershipIds = [], to_reason = None, to_result = Some
    \<lparr>ov_tripId = Some 61, ov_requestId = 40, ov_kind = K_CREATE, ov_status = O_COMPLETED, ov_version = 1,
    ov_results = []\<rparr>, to_activeLock = None, to_attemptCount = 0, to_nextAttemptAt = 17, to_lockedUntil = None,
    to_lastError = None, to_createdAt = 17, to_version = 1\<rparr>, \<lparr>to_id = 63, to_tenantId = 1, to_tripId =
    Some 61, to_requestId = 41, to_actorId = 7, to_kind = K_ADD, to_status = O_COMPLETED, to_payloadHash = ''add'',
    to_shipmentIds = [1], to_membershipIds = [64], to_reason = None, to_result = Some \<lparr>ov_tripId = Some 61,
    ov_requestId = 41, ov_kind = K_ADD, ov_status = O_COMPLETED, ov_version = 3, ov_results = [\<lparr>or_shipmentId
    = 1, or_state = M_ACTIVE, or_reason = None\<rparr>]\<rparr>, to_activeLock = None, to_attemptCount = 0,
    to_nextAttemptAt = 20, to_lockedUntil = None, to_lastError = None, to_createdAt = 20, to_version = 2\<rparr>],
    trp_outbox = [], trp_inbox = [], trp_next = 67\<rparr>,
    \<lparr>shipments = [\<lparr>sp_id = 1, sp_tenantId = 1, sp_shipmentNumber =
    ''SHP-00000000-0000-0000-0000-000000000001'', sp_orderId = 1, sp_warehouseId = 2, sp_deliveryAddressId = 6,
    sp_customerSnapshot = \<lparr>cs_customerId = 5, cs_customerVersion = 1, cs_code = ''C-1'', cs_name =
    ''Minh Anh'', cs_taxCode = None, cs_phone = None, cs_email = None\<rparr>, sp_deliveryAddressSnapshot =
    \<lparr>as_addressId = 6, as_addressVersion = 1, as_addressType = ''SHIPPING'', as_label = None, as_recipientName
    = ''Minh Anh'', as_phone = None, as_addressLine = ''1 Le Loi'', as_ward = None, as_district = None, as_province =
    ''HCM'', as_postalCode = None, as_latitude = Some ''10.5'', as_longitude = Some ''106.7'', as_deliveryNote =
    None\<rparr>, sp_warehouseSnapshot = \<lparr>ws_warehouseId = 2, ws_warehouseVersion = 1, ws_code = ''W-1'',
    ws_name = ''Main'', ws_addressLine = ''2 Le Loi'', ws_ward = None, ws_district = None, ws_province = ''HCM'',
    ws_postalCode = None, ws_latitude = None, ws_longitude = None\<rparr>, sp_orderNumber = ''SO-19700101-000001'',
    sp_confirmedOrderVersion = 2, sp_status = S_READY_TO_SHIP, sp_totalWeight = 0, sp_totalVolume = 0,
    sp_reservationGroupId = 10, sp_assignedTripId = Some 61, sp_tripClaimId = Some 10, sp_dispatchIssuedAt = None,
    sp_readyAt = Some 15, sp_deliveredAt = None, sp_failedAt = None, sp_failureReason = None, sp_createdAt = 13,
    sp_updatedAt = 20, sp_version = 4, sp_deletedAt = None\<rparr>], shipmentItems = [\<lparr>it_id = 2, it_tenantId
    = 1, it_shipmentId = 1, it_orderLineId = 2, it_productId = 31, it_skuSnapshot = ''SKU'', it_productNameSnapshot =
    ''Tea'', it_unitSnapshot = ''BOX'', it_quantity = 15, it_weight = 0, it_volume = 0, it_deletedAt = None\<rparr>],
    shipmentHistory = [\<lparr>hs_id = 3, hs_tenantId = 1, hs_shipmentId = 1, hs_fromStatus = None, hs_toStatus =
    S_PENDING_PICK, hs_reason = None, hs_actorId = Some 7, hs_correlationId = 90, hs_shipmentVersion = 1,
    hs_occurredAt = 13\<rparr>, \<lparr>hs_id = 6, hs_tenantId = 1, hs_shipmentId = 1, hs_fromStatus = Some
    S_PENDING_PICK, hs_toStatus = S_PICKING, hs_reason = None, hs_actorId = Some 7, hs_correlationId = 91,
    hs_shipmentVersion = 2, hs_occurredAt = 14\<rparr>, \<lparr>hs_id = 8, hs_tenantId = 1, hs_shipmentId = 1,
    hs_fromStatus = Some S_PICKING, hs_toStatus = S_READY_TO_SHIP, hs_reason = None, hs_actorId = Some 7,
    hs_correlationId = 91, hs_shipmentVersion = 3, hs_occurredAt = 15\<rparr>], dispatchIntents = [], fulBatches =
    [], orderCursors = [\<lparr>cu_tenantId = 1, cu_orderId = 1, cu_orderVersion = 2, cu_canceled = False\<rparr>],
    tripReceipts = [\<lparr>tr_id = 11, tr_tenantId = 1, tr_requestId = 65, tr_shipmentId = 1, tr_tripId = 61,
    tr_claimId = 10, tr_actorId = 7, tr_operation = CLAIM, tr_requestPayload = ClaimRequest
    \<lparr>cq_contractVersion = 1, cq_tenantId = 1, cq_requestId = 65, cq_tripId = 61, cq_shipmentId = 1, cq_actorId
    = 7, cq_expectedTripVersion = 2, cq_expectedShipmentVersion = 3\<rparr>, tr_responsePayload = ClaimResponse
    \<lparr>ct_contractVersion = 1, ct_tenantId = 1, ct_requestId = 65, ct_tripId = 61, ct_shipmentId = 1, ct_claimId
    = 10, ct_tripVersion = 2, ct_shipmentVersion = 4, ct_claimedAt = 20\<rparr> \<lparr>ns_tenantId = 1,
    ns_shipmentId = 1, ns_shipmentNumber = ''SHP-00000000-0000-0000-0000-000000000001'', ns_orderId = 1,
    ns_warehouseId = 2, ns_shipmentVersion = 4, ns_orderVersion = 2, ns_deliveryAddressSnapshot =
    \<lparr>as_addressId = 6, as_addressVersion = 1, as_addressType = ''SHIPPING'', as_label = None, as_recipientName
    = ''Minh Anh'', as_phone = None, as_addressLine = ''1 Le Loi'', as_ward = None, as_district = None, as_province =
    ''HCM'', as_postalCode = None, as_latitude = Some ''10.5'', as_longitude = Some ''106.7'', as_deliveryNote =
    None\<rparr>, ns_totalWeight = ''0.000'', ns_totalVolume = ''0.000000'', ns_items = [\<lparr>ni_orderLineId = 2,
    ni_productId = 31, ni_skuSnapshot = ''SKU'', ni_productNameSnapshot = ''Tea'', ni_unitSnapshot = ''BOX'',
    ni_quantity = ''0.015'', ni_weight = ''0.000'', ni_volume = ''0.000000''\<rparr>]\<rparr>, tr_createdAt =
    20\<rparr>], ful_inbox = [\<lparr>fi_id = 5, fi_tenantId = 1, fi_eventId = 5, fi_consumerName =
    ''fulfillment-order-events'', fi_eventType = ''OrderConfirmed'', fi_aggregateId = Some 1, fi_aggregateVersion =
    Some 2, fi_eventPayload = None, fi_payloadHash = None, fi_semanticKey = None, fi_attemptCount = 0,
    fi_nextAttemptAt = 13, fi_lastError = None, fi_processedAt = 13, fi_outcome = ''APPLIED'', fi_errorCode =
    None\<rparr>], ful_outbox = [\<lparr>ob_id = 4, ob_tenantId = 1, ob_eventType = ''ShipmentCreated'',
    ob_eventVersion = 1, ob_aggregateType = ''Shipment'', ob_aggregateId = 1, ob_aggregateVersion = 1,
    ob_correlationId = 90, ob_causationId = Some 5, ob_payload = \<lparr>sl_shipmentId = 1, sl_orderId = 1,
    sl_reservationGroupId = 10, sl_warehouseId = 2, sl_dispatchRequestId = None, sl_reason = None\<rparr>,
    ob_payloadActor = Some 7, ob_occurredAt = 13, ob_publishedAt = None, ob_attemptCount = 0, ob_nextAttemptAt = 13,
    ob_lastError = None, ob_version = 1, ob_deletedAt = None\<rparr>, \<lparr>ob_id = 7, ob_tenantId = 1,
    ob_eventType = ''ShipmentPicking'', ob_eventVersion = 1, ob_aggregateType = ''Shipment'', ob_aggregateId = 1,
    ob_aggregateVersion = 2, ob_correlationId = 91, ob_causationId = Some 91, ob_payload = \<lparr>sl_shipmentId = 1,
    sl_orderId = 1, sl_reservationGroupId = 10, sl_warehouseId = 2, sl_dispatchRequestId = None, sl_reason =
    None\<rparr>, ob_payloadActor = Some 7, ob_occurredAt = 14, ob_publishedAt = None, ob_attemptCount = 0,
    ob_nextAttemptAt = 14, ob_lastError = None, ob_version = 1, ob_deletedAt = None\<rparr>, \<lparr>ob_id = 9,
    ob_tenantId = 1, ob_eventType = ''ShipmentReadyToShip'', ob_eventVersion = 1, ob_aggregateType = ''Shipment'',
    ob_aggregateId = 1, ob_aggregateVersion = 3, ob_correlationId = 91, ob_causationId = Some 91, ob_payload =
    \<lparr>sl_shipmentId = 1, sl_orderId = 1, sl_reservationGroupId = 10, sl_warehouseId = 2, sl_dispatchRequestId =
    None, sl_reason = None\<rparr>, ob_payloadActor = Some 7, ob_occurredAt = 15, ob_publishedAt = None,
    ob_attemptCount = 0, ob_nextAttemptAt = 15, ob_lastError = None, ob_version = 1, ob_deletedAt = None\<rparr>],
    ful_next = 12\<rparr>, demo_rdb)"
  by code_simp

lemma demo_t2_value [code]: "demo_t2 =
    \<lparr>trips = [\<lparr>dt_id = 61, dt_tenantId = 1, dt_tripNumber = ''TR-20260101000000-00000000'',
    dt_warehouseId = 2, dt_vehicleId = Some 3, dt_driverId = Some 4, dt_driverUserId = Some 9, dt_driverVersion =
    Some 1, dt_depotSnapshot = \<lparr>ds_id = 2, ds_name = ''Main'', ds_addressLine = ''2 Le Loi'', ds_latitude =
    Some ''10.7'', ds_longitude = Some ''106.6'', ds_status = ''ACTIVE'', ds_version = 1\<rparr>, dt_vehicleSnapshot
    = None, dt_driverSnapshot = None, dt_status = T_DRAFT, dt_plannedStartAt = 99, dt_actualStartAt = None,
    dt_completedAt = None, dt_totalWeight = 0, dt_totalVolume = 0, dt_approvedRoutePlanId = None, dt_dispatchVersion
    = 0, dt_dispatchedAt = None, dt_canceledAt = None, dt_cancelReason = None, dt_createdAt = 17, dt_updatedAt = 20,
    dt_version = 3, dt_deletedAt = None\<rparr>], tripShipments = [\<lparr>ts_id = 64, ts_tenantId = 1, ts_tripId =
    61, ts_shipmentId = 1, ts_orderId = Some 1, ts_warehouseId = 2, ts_operationId = Some 63, ts_state = M_ACTIVE,
    ts_weight = 0, ts_volume = 0, ts_expectedShipmentVersion = Some 3, ts_shipmentVersion = Some 4, ts_orderVersion =
    Some 2, ts_claimRequest = Some \<lparr>cq_contractVersion = 1, cq_tenantId = 1, cq_requestId = 65, cq_tripId =
    61, cq_shipmentId = 1, cq_actorId = 7, cq_expectedTripVersion = 2, cq_expectedShipmentVersion = 3\<rparr>,
    ts_claimReceipt = Some \<lparr>ct_contractVersion = 1, ct_tenantId = 1, ct_requestId = 65, ct_tripId = 61,
    ct_shipmentId = 1, ct_claimId = 10, ct_tripVersion = 2, ct_shipmentVersion = 4, ct_claimedAt = 20\<rparr>,
    ts_releaseRequest = None, ts_releaseReceipt = None, ts_shipmentSnapshot = Some \<lparr>ns_tenantId = 1,
    ns_shipmentId = 1, ns_shipmentNumber = ''SHP-00000000-0000-0000-0000-000000000001'', ns_orderId = 1,
    ns_warehouseId = 2, ns_shipmentVersion = 4, ns_orderVersion = 2, ns_deliveryAddressSnapshot =
    \<lparr>as_addressId = 6, as_addressVersion = 1, as_addressType = ''SHIPPING'', as_label = None, as_recipientName
    = ''Minh Anh'', as_phone = None, as_addressLine = ''1 Le Loi'', as_ward = None, as_district = None, as_province =
    ''HCM'', as_postalCode = None, as_latitude = Some ''10.5'', as_longitude = Some ''106.7'', as_deliveryNote =
    None\<rparr>, ns_totalWeight = ''0.000'', ns_totalVolume = ''0.000000'', ns_items = [\<lparr>ni_orderLineId = 2,
    ni_productId = 31, ni_skuSnapshot = ''SKU'', ni_productNameSnapshot = ''Tea'', ni_unitSnapshot = ''BOX'',
    ni_quantity = ''0.015'', ni_weight = ''0.000'', ni_volume = ''0.000000''\<rparr>]\<rparr>, ts_assignedAt = 20,
    ts_removedAt = None, ts_version = 1, ts_deletedAt = None\<rparr>], tripStops = [\<lparr>ps_id = 66, ps_tenantId =
    1, ps_tripId = 61, ps_shipmentId = 1, ps_deliveryAddressId = 6, ps_addressSnapshot = \<lparr>as_addressId = 6,
    as_addressVersion = 1, as_addressType = ''SHIPPING'', as_label = None, as_recipientName = ''Minh Anh'', as_phone
    = None, as_addressLine = ''1 Le Loi'', as_ward = None, as_district = None, as_province = ''HCM'', as_postalCode =
    None, as_latitude = Some ''10.5'', as_longitude = Some ''106.7'', as_deliveryNote = None\<rparr>, ps_latitude =
    Some 10500000, ps_longitude = Some 106700000, ps_plannedSequence = 1, ps_approvedSequence = None, ps_status =
    STOP_PENDING, ps_currentAttempt = 0, ps_completedAt = None, ps_version = 1, ps_deletedAt = None\<rparr>],
    routePlans = [], deliveryAttempts = [], tripDispatches = [], tripOperations = [\<lparr>to_id = 62, to_tenantId =
    1, to_tripId = Some 61, to_requestId = 40, to_actorId = 7, to_kind = K_CREATE, to_status = O_COMPLETED,
    to_payloadHash = ''create'', to_shipmentIds = [], to_membershipIds = [], to_reason = None, to_result = Some
    \<lparr>ov_tripId = Some 61, ov_requestId = 40, ov_kind = K_CREATE, ov_status = O_COMPLETED, ov_version = 1,
    ov_results = []\<rparr>, to_activeLock = None, to_attemptCount = 0, to_nextAttemptAt = 17, to_lockedUntil = None,
    to_lastError = None, to_createdAt = 17, to_version = 1\<rparr>, \<lparr>to_id = 63, to_tenantId = 1, to_tripId =
    Some 61, to_requestId = 41, to_actorId = 7, to_kind = K_ADD, to_status = O_COMPLETED, to_payloadHash = ''add'',
    to_shipmentIds = [1], to_membershipIds = [64], to_reason = None, to_result = Some \<lparr>ov_tripId = Some 61,
    ov_requestId = 41, ov_kind = K_ADD, ov_status = O_COMPLETED, ov_version = 3, ov_results = [\<lparr>or_shipmentId
    = 1, or_state = M_ACTIVE, or_reason = None\<rparr>]\<rparr>, to_activeLock = None, to_attemptCount = 0,
    to_nextAttemptAt = 20, to_lockedUntil = None, to_lastError = None, to_createdAt = 20, to_version = 2\<rparr>],
    trp_outbox = [], trp_inbox = [], trp_next = 67\<rparr>"
  by (simp only: demo_t2_def demo_added_value fst_conv)

lemma demo_g4_value [code]: "demo_g4 =
    \<lparr>shipments = [\<lparr>sp_id = 1, sp_tenantId = 1, sp_shipmentNumber =
    ''SHP-00000000-0000-0000-0000-000000000001'', sp_orderId = 1, sp_warehouseId = 2, sp_deliveryAddressId = 6,
    sp_customerSnapshot = \<lparr>cs_customerId = 5, cs_customerVersion = 1, cs_code = ''C-1'', cs_name =
    ''Minh Anh'', cs_taxCode = None, cs_phone = None, cs_email = None\<rparr>, sp_deliveryAddressSnapshot =
    \<lparr>as_addressId = 6, as_addressVersion = 1, as_addressType = ''SHIPPING'', as_label = None, as_recipientName
    = ''Minh Anh'', as_phone = None, as_addressLine = ''1 Le Loi'', as_ward = None, as_district = None, as_province =
    ''HCM'', as_postalCode = None, as_latitude = Some ''10.5'', as_longitude = Some ''106.7'', as_deliveryNote =
    None\<rparr>, sp_warehouseSnapshot = \<lparr>ws_warehouseId = 2, ws_warehouseVersion = 1, ws_code = ''W-1'',
    ws_name = ''Main'', ws_addressLine = ''2 Le Loi'', ws_ward = None, ws_district = None, ws_province = ''HCM'',
    ws_postalCode = None, ws_latitude = None, ws_longitude = None\<rparr>, sp_orderNumber = ''SO-19700101-000001'',
    sp_confirmedOrderVersion = 2, sp_status = S_READY_TO_SHIP, sp_totalWeight = 0, sp_totalVolume = 0,
    sp_reservationGroupId = 10, sp_assignedTripId = Some 61, sp_tripClaimId = Some 10, sp_dispatchIssuedAt = None,
    sp_readyAt = Some 15, sp_deliveredAt = None, sp_failedAt = None, sp_failureReason = None, sp_createdAt = 13,
    sp_updatedAt = 20, sp_version = 4, sp_deletedAt = None\<rparr>], shipmentItems = [\<lparr>it_id = 2, it_tenantId
    = 1, it_shipmentId = 1, it_orderLineId = 2, it_productId = 31, it_skuSnapshot = ''SKU'', it_productNameSnapshot =
    ''Tea'', it_unitSnapshot = ''BOX'', it_quantity = 15, it_weight = 0, it_volume = 0, it_deletedAt = None\<rparr>],
    shipmentHistory = [\<lparr>hs_id = 3, hs_tenantId = 1, hs_shipmentId = 1, hs_fromStatus = None, hs_toStatus =
    S_PENDING_PICK, hs_reason = None, hs_actorId = Some 7, hs_correlationId = 90, hs_shipmentVersion = 1,
    hs_occurredAt = 13\<rparr>, \<lparr>hs_id = 6, hs_tenantId = 1, hs_shipmentId = 1, hs_fromStatus = Some
    S_PENDING_PICK, hs_toStatus = S_PICKING, hs_reason = None, hs_actorId = Some 7, hs_correlationId = 91,
    hs_shipmentVersion = 2, hs_occurredAt = 14\<rparr>, \<lparr>hs_id = 8, hs_tenantId = 1, hs_shipmentId = 1,
    hs_fromStatus = Some S_PICKING, hs_toStatus = S_READY_TO_SHIP, hs_reason = None, hs_actorId = Some 7,
    hs_correlationId = 91, hs_shipmentVersion = 3, hs_occurredAt = 15\<rparr>], dispatchIntents = [], fulBatches =
    [], orderCursors = [\<lparr>cu_tenantId = 1, cu_orderId = 1, cu_orderVersion = 2, cu_canceled = False\<rparr>],
    tripReceipts = [\<lparr>tr_id = 11, tr_tenantId = 1, tr_requestId = 65, tr_shipmentId = 1, tr_tripId = 61,
    tr_claimId = 10, tr_actorId = 7, tr_operation = CLAIM, tr_requestPayload = ClaimRequest
    \<lparr>cq_contractVersion = 1, cq_tenantId = 1, cq_requestId = 65, cq_tripId = 61, cq_shipmentId = 1, cq_actorId
    = 7, cq_expectedTripVersion = 2, cq_expectedShipmentVersion = 3\<rparr>, tr_responsePayload = ClaimResponse
    \<lparr>ct_contractVersion = 1, ct_tenantId = 1, ct_requestId = 65, ct_tripId = 61, ct_shipmentId = 1, ct_claimId
    = 10, ct_tripVersion = 2, ct_shipmentVersion = 4, ct_claimedAt = 20\<rparr> \<lparr>ns_tenantId = 1,
    ns_shipmentId = 1, ns_shipmentNumber = ''SHP-00000000-0000-0000-0000-000000000001'', ns_orderId = 1,
    ns_warehouseId = 2, ns_shipmentVersion = 4, ns_orderVersion = 2, ns_deliveryAddressSnapshot =
    \<lparr>as_addressId = 6, as_addressVersion = 1, as_addressType = ''SHIPPING'', as_label = None, as_recipientName
    = ''Minh Anh'', as_phone = None, as_addressLine = ''1 Le Loi'', as_ward = None, as_district = None, as_province =
    ''HCM'', as_postalCode = None, as_latitude = Some ''10.5'', as_longitude = Some ''106.7'', as_deliveryNote =
    None\<rparr>, ns_totalWeight = ''0.000'', ns_totalVolume = ''0.000000'', ns_items = [\<lparr>ni_orderLineId = 2,
    ni_productId = 31, ni_skuSnapshot = ''SKU'', ni_productNameSnapshot = ''Tea'', ni_unitSnapshot = ''BOX'',
    ni_quantity = ''0.015'', ni_weight = ''0.000'', ni_volume = ''0.000000''\<rparr>]\<rparr>, tr_createdAt =
    20\<rparr>], ful_inbox = [\<lparr>fi_id = 5, fi_tenantId = 1, fi_eventId = 5, fi_consumerName =
    ''fulfillment-order-events'', fi_eventType = ''OrderConfirmed'', fi_aggregateId = Some 1, fi_aggregateVersion =
    Some 2, fi_eventPayload = None, fi_payloadHash = None, fi_semanticKey = None, fi_attemptCount = 0,
    fi_nextAttemptAt = 13, fi_lastError = None, fi_processedAt = 13, fi_outcome = ''APPLIED'', fi_errorCode =
    None\<rparr>], ful_outbox = [\<lparr>ob_id = 4, ob_tenantId = 1, ob_eventType = ''ShipmentCreated'',
    ob_eventVersion = 1, ob_aggregateType = ''Shipment'', ob_aggregateId = 1, ob_aggregateVersion = 1,
    ob_correlationId = 90, ob_causationId = Some 5, ob_payload = \<lparr>sl_shipmentId = 1, sl_orderId = 1,
    sl_reservationGroupId = 10, sl_warehouseId = 2, sl_dispatchRequestId = None, sl_reason = None\<rparr>,
    ob_payloadActor = Some 7, ob_occurredAt = 13, ob_publishedAt = None, ob_attemptCount = 0, ob_nextAttemptAt = 13,
    ob_lastError = None, ob_version = 1, ob_deletedAt = None\<rparr>, \<lparr>ob_id = 7, ob_tenantId = 1,
    ob_eventType = ''ShipmentPicking'', ob_eventVersion = 1, ob_aggregateType = ''Shipment'', ob_aggregateId = 1,
    ob_aggregateVersion = 2, ob_correlationId = 91, ob_causationId = Some 91, ob_payload = \<lparr>sl_shipmentId = 1,
    sl_orderId = 1, sl_reservationGroupId = 10, sl_warehouseId = 2, sl_dispatchRequestId = None, sl_reason =
    None\<rparr>, ob_payloadActor = Some 7, ob_occurredAt = 14, ob_publishedAt = None, ob_attemptCount = 0,
    ob_nextAttemptAt = 14, ob_lastError = None, ob_version = 1, ob_deletedAt = None\<rparr>, \<lparr>ob_id = 9,
    ob_tenantId = 1, ob_eventType = ''ShipmentReadyToShip'', ob_eventVersion = 1, ob_aggregateType = ''Shipment'',
    ob_aggregateId = 1, ob_aggregateVersion = 3, ob_correlationId = 91, ob_causationId = Some 91, ob_payload =
    \<lparr>sl_shipmentId = 1, sl_orderId = 1, sl_reservationGroupId = 10, sl_warehouseId = 2, sl_dispatchRequestId =
    None, sl_reason = None\<rparr>, ob_payloadActor = Some 7, ob_occurredAt = 15, ob_publishedAt = None,
    ob_attemptCount = 0, ob_nextAttemptAt = 15, ob_lastError = None, ob_version = 1, ob_deletedAt = None\<rparr>],
    ful_next = 12\<rparr>"
  by (simp only: demo_g4_def demo_added_value fst_conv snd_conv)

definition demo_t3 :: trp_db where
  "demo_t3 = snd (manualRoute demo_renv demo_master_trip demo_tapi demo_user 61
     \<lparr> mo_requestId = 43, mo_expectedTripVersion = 3, mo_orderedStopIds = [66] \<rparr> 21 demo_t2 (demo_g4, demo_rdb) demo_t2)"

lemma demo_t3_value [code]: "demo_t3 =
    \<lparr>trips = [\<lparr>dt_id = 61, dt_tenantId = 1, dt_tripNumber = ''TR-20260101000000-00000000'',
    dt_warehouseId = 2, dt_vehicleId = Some 3, dt_driverId = Some 4, dt_driverUserId = Some 9, dt_driverVersion =
    Some 1, dt_depotSnapshot = \<lparr>ds_id = 2, ds_name = ''Main'', ds_addressLine = ''2 Le Loi'', ds_latitude =
    Some ''10.7'', ds_longitude = Some ''106.6'', ds_status = ''ACTIVE'', ds_version = 1\<rparr>, dt_vehicleSnapshot
    = None, dt_driverSnapshot = None, dt_status = T_DRAFT, dt_plannedStartAt = 99, dt_actualStartAt = None,
    dt_completedAt = None, dt_totalWeight = 0, dt_totalVolume = 0, dt_approvedRoutePlanId = None, dt_dispatchVersion
    = 0, dt_dispatchedAt = None, dt_canceledAt = None, dt_cancelReason = None, dt_createdAt = 17, dt_updatedAt = 20,
    dt_version = 3, dt_deletedAt = None\<rparr>], tripShipments = [\<lparr>ts_id = 64, ts_tenantId = 1, ts_tripId =
    61, ts_shipmentId = 1, ts_orderId = Some 1, ts_warehouseId = 2, ts_operationId = Some 63, ts_state = M_ACTIVE,
    ts_weight = 0, ts_volume = 0, ts_expectedShipmentVersion = Some 3, ts_shipmentVersion = Some 4, ts_orderVersion =
    Some 2, ts_claimRequest = Some \<lparr>cq_contractVersion = 1, cq_tenantId = 1, cq_requestId = 65, cq_tripId =
    61, cq_shipmentId = 1, cq_actorId = 7, cq_expectedTripVersion = 2, cq_expectedShipmentVersion = 3\<rparr>,
    ts_claimReceipt = Some \<lparr>ct_contractVersion = 1, ct_tenantId = 1, ct_requestId = 65, ct_tripId = 61,
    ct_shipmentId = 1, ct_claimId = 10, ct_tripVersion = 2, ct_shipmentVersion = 4, ct_claimedAt = 20\<rparr>,
    ts_releaseRequest = None, ts_releaseReceipt = None, ts_shipmentSnapshot = Some \<lparr>ns_tenantId = 1,
    ns_shipmentId = 1, ns_shipmentNumber = ''SHP-00000000-0000-0000-0000-000000000001'', ns_orderId = 1,
    ns_warehouseId = 2, ns_shipmentVersion = 4, ns_orderVersion = 2, ns_deliveryAddressSnapshot =
    \<lparr>as_addressId = 6, as_addressVersion = 1, as_addressType = ''SHIPPING'', as_label = None, as_recipientName
    = ''Minh Anh'', as_phone = None, as_addressLine = ''1 Le Loi'', as_ward = None, as_district = None, as_province =
    ''HCM'', as_postalCode = None, as_latitude = Some ''10.5'', as_longitude = Some ''106.7'', as_deliveryNote =
    None\<rparr>, ns_totalWeight = ''0.000'', ns_totalVolume = ''0.000000'', ns_items = [\<lparr>ni_orderLineId = 2,
    ni_productId = 31, ni_skuSnapshot = ''SKU'', ni_productNameSnapshot = ''Tea'', ni_unitSnapshot = ''BOX'',
    ni_quantity = ''0.015'', ni_weight = ''0.000'', ni_volume = ''0.000000''\<rparr>]\<rparr>, ts_assignedAt = 20,
    ts_removedAt = None, ts_version = 1, ts_deletedAt = None\<rparr>], tripStops = [\<lparr>ps_id = 66, ps_tenantId =
    1, ps_tripId = 61, ps_shipmentId = 1, ps_deliveryAddressId = 6, ps_addressSnapshot = \<lparr>as_addressId = 6,
    as_addressVersion = 1, as_addressType = ''SHIPPING'', as_label = None, as_recipientName = ''Minh Anh'', as_phone
    = None, as_addressLine = ''1 Le Loi'', as_ward = None, as_district = None, as_province = ''HCM'', as_postalCode =
    None, as_latitude = Some ''10.5'', as_longitude = Some ''106.7'', as_deliveryNote = None\<rparr>, ps_latitude =
    Some 10500000, ps_longitude = Some 106700000, ps_plannedSequence = 1, ps_approvedSequence = None, ps_status =
    STOP_PENDING, ps_currentAttempt = 0, ps_completedAt = None, ps_version = 1, ps_deletedAt = None\<rparr>],
    routePlans = [\<lparr>rp_id = 67, rp_tenantId = 1, rp_tripId = 61, rp_planVersion = 1, rp_routeRequestId = 43,
    rp_requestActorId = Some 7, rp_requestHash = Some
    ''2222222222222222222222222222222222222222222222222222222222222222'', rp_source = MANUAL, rp_inputHash =
    ''1111111111111111111111111111111111111111111111111111111111111111'', rp_inputSnapshot = \<lparr>rn_tenantId = 1,
    rn_tripId = 61, rn_tripVersion = 3, rn_warehouseId = 2, rn_vehicleId = 3, rn_plannedStartAt = 99, rn_driver = (4,
    9, 1), rn_depot = (''Main'', ''2 Le Loi'', ''10.7'', ''106.6''), rn_vehicle = (3, 1, ''51C'', ''900.000'',
    ''9.000000''), rn_stops = [\<lparr>rs_stopId = 66, rs_shipmentId = 1, rs_shipmentVersion = 4, rs_addressSnapshot
    = \<lparr>as_addressId = 6, as_addressVersion = 1, as_addressType = ''SHIPPING'', as_label = None,
    as_recipientName = ''Minh Anh'', as_phone = None, as_addressLine = ''1 Le Loi'', as_ward = None, as_district =
    None, as_province = ''HCM'', as_postalCode = None, as_latitude = Some ''10.5'', as_longitude = Some ''106.7'',
    as_deliveryNote = None\<rparr>, rs_demandWeight = ''0.000'', rs_demandVolume = ''0.000000'', rs_sequence =
    1\<rparr>]\<rparr>, rp_optimizationRunId = None, rp_originalPlanId = None, rp_overrideReason = None,
    rp_approvedBy = None, rp_approvedAt = None, rp_approvalRequestId = None, rp_approvalHash = None,
    rp_approvalReceipt = None, rp_vehicleSnapshot = None, rp_driverSnapshot = None, rp_stops = [\<lparr>rq_tripStopId
    = 66, rq_sequence = 1\<rparr>], rp_createdAt = 21, rp_deletedAt = None\<rparr>], deliveryAttempts = [],
    tripDispatches = [], tripOperations = [\<lparr>to_id = 62, to_tenantId = 1, to_tripId = Some 61, to_requestId =
    40, to_actorId = 7, to_kind = K_CREATE, to_status = O_COMPLETED, to_payloadHash = ''create'', to_shipmentIds =
    [], to_membershipIds = [], to_reason = None, to_result = Some \<lparr>ov_tripId = Some 61, ov_requestId = 40,
    ov_kind = K_CREATE, ov_status = O_COMPLETED, ov_version = 1, ov_results = []\<rparr>, to_activeLock = None,
    to_attemptCount = 0, to_nextAttemptAt = 17, to_lockedUntil = None, to_lastError = None, to_createdAt = 17,
    to_version = 1\<rparr>, \<lparr>to_id = 63, to_tenantId = 1, to_tripId = Some 61, to_requestId = 41, to_actorId =
    7, to_kind = K_ADD, to_status = O_COMPLETED, to_payloadHash = ''add'', to_shipmentIds = [1], to_membershipIds =
    [64], to_reason = None, to_result = Some \<lparr>ov_tripId = Some 61, ov_requestId = 41, ov_kind = K_ADD,
    ov_status = O_COMPLETED, ov_version = 3, ov_results = [\<lparr>or_shipmentId = 1, or_state = M_ACTIVE, or_reason
    = None\<rparr>]\<rparr>, to_activeLock = None, to_attemptCount = 0, to_nextAttemptAt = 20, to_lockedUntil = None,
    to_lastError = None, to_createdAt = 20, to_version = 2\<rparr>], trp_outbox = [], trp_inbox = [], trp_next =
    68\<rparr>"
  by code_simp

definition demo_t4 :: trp_db where
  "demo_t4 = snd (approveRoute demo_renv demo_master_trip demo_tapi demo_user 61
     \<lparr> ap_requestId = 44, ap_expectedVersion = 3, ap_planId = 67, ap_planVersion = 1, ap_inputHash = demo_hash (CHR ''1''),
       ap_previewToken = ''approve'', ap_override = None \<rparr> 22 demo_t3 (demo_g4, demo_rdb) demo_t3)"

lemma demo_t4_value [code]: "demo_t4 =
    \<lparr>trips = [\<lparr>dt_id = 61, dt_tenantId = 1, dt_tripNumber = ''TR-20260101000000-00000000'',
    dt_warehouseId = 2, dt_vehicleId = Some 3, dt_driverId = Some 4, dt_driverUserId = Some 9, dt_driverVersion =
    Some 1, dt_depotSnapshot = \<lparr>ds_id = 2, ds_name = ''Main'', ds_addressLine = ''2 Le Loi'', ds_latitude =
    Some ''10.7'', ds_longitude = Some ''106.6'', ds_status = ''ACTIVE'', ds_version = 1\<rparr>, dt_vehicleSnapshot
    = Some \<lparr>vh_id = 3, vh_code = ''V'', vh_licensePlate = ''51C'', vh_capacityWeight = ''900.000'',
    vh_capacityVolume = ''9.000000'', vh_status = ''ACTIVE'', vh_version = 1\<rparr>, dt_driverSnapshot = Some
    \<lparr>tv_id = 4, tv_tenantId = 1, tv_userId = 9, tv_displayName = ''An'', tv_version = 1\<rparr>, dt_status =
    T_APPROVED, dt_plannedStartAt = 99, dt_actualStartAt = None, dt_completedAt = None, dt_totalWeight = 0,
    dt_totalVolume = 0, dt_approvedRoutePlanId = Some 68, dt_dispatchVersion = 0, dt_dispatchedAt = None,
    dt_canceledAt = None, dt_cancelReason = None, dt_createdAt = 17, dt_updatedAt = 22, dt_version = 4, dt_deletedAt
    = None\<rparr>], tripShipments = [\<lparr>ts_id = 64, ts_tenantId = 1, ts_tripId = 61, ts_shipmentId = 1,
    ts_orderId = Some 1, ts_warehouseId = 2, ts_operationId = Some 63, ts_state = M_ACTIVE, ts_weight = 0, ts_volume
    = 0, ts_expectedShipmentVersion = Some 3, ts_shipmentVersion = Some 4, ts_orderVersion = Some 2, ts_claimRequest
    = Some \<lparr>cq_contractVersion = 1, cq_tenantId = 1, cq_requestId = 65, cq_tripId = 61, cq_shipmentId = 1,
    cq_actorId = 7, cq_expectedTripVersion = 2, cq_expectedShipmentVersion = 3\<rparr>, ts_claimReceipt = Some
    \<lparr>ct_contractVersion = 1, ct_tenantId = 1, ct_requestId = 65, ct_tripId = 61, ct_shipmentId = 1, ct_claimId
    = 10, ct_tripVersion = 2, ct_shipmentVersion = 4, ct_claimedAt = 20\<rparr>, ts_releaseRequest = None,
    ts_releaseReceipt = None, ts_shipmentSnapshot = Some \<lparr>ns_tenantId = 1, ns_shipmentId = 1,
    ns_shipmentNumber = ''SHP-00000000-0000-0000-0000-000000000001'', ns_orderId = 1, ns_warehouseId = 2,
    ns_shipmentVersion = 4, ns_orderVersion = 2, ns_deliveryAddressSnapshot = \<lparr>as_addressId = 6,
    as_addressVersion = 1, as_addressType = ''SHIPPING'', as_label = None, as_recipientName = ''Minh Anh'', as_phone
    = None, as_addressLine = ''1 Le Loi'', as_ward = None, as_district = None, as_province = ''HCM'', as_postalCode =
    None, as_latitude = Some ''10.5'', as_longitude = Some ''106.7'', as_deliveryNote = None\<rparr>, ns_totalWeight
    = ''0.000'', ns_totalVolume = ''0.000000'', ns_items = [\<lparr>ni_orderLineId = 2, ni_productId = 31,
    ni_skuSnapshot = ''SKU'', ni_productNameSnapshot = ''Tea'', ni_unitSnapshot = ''BOX'', ni_quantity = ''0.015'',
    ni_weight = ''0.000'', ni_volume = ''0.000000''\<rparr>]\<rparr>, ts_assignedAt = 20, ts_removedAt = None,
    ts_version = 1, ts_deletedAt = None\<rparr>], tripStops = [\<lparr>ps_id = 66, ps_tenantId = 1, ps_tripId = 61,
    ps_shipmentId = 1, ps_deliveryAddressId = 6, ps_addressSnapshot = \<lparr>as_addressId = 6, as_addressVersion =
    1, as_addressType = ''SHIPPING'', as_label = None, as_recipientName = ''Minh Anh'', as_phone = None,
    as_addressLine = ''1 Le Loi'', as_ward = None, as_district = None, as_province = ''HCM'', as_postalCode = None,
    as_latitude = Some ''10.5'', as_longitude = Some ''106.7'', as_deliveryNote = None\<rparr>, ps_latitude = Some
    10500000, ps_longitude = Some 106700000, ps_plannedSequence = 1, ps_approvedSequence = Some 1, ps_status =
    STOP_PENDING, ps_currentAttempt = 0, ps_completedAt = None, ps_version = 2, ps_deletedAt = None\<rparr>],
    routePlans = [\<lparr>rp_id = 67, rp_tenantId = 1, rp_tripId = 61, rp_planVersion = 1, rp_routeRequestId = 43,
    rp_requestActorId = Some 7, rp_requestHash = Some
    ''2222222222222222222222222222222222222222222222222222222222222222'', rp_source = MANUAL, rp_inputHash =
    ''1111111111111111111111111111111111111111111111111111111111111111'', rp_inputSnapshot = \<lparr>rn_tenantId = 1,
    rn_tripId = 61, rn_tripVersion = 3, rn_warehouseId = 2, rn_vehicleId = 3, rn_plannedStartAt = 99, rn_driver = (4,
    9, 1), rn_depot = (''Main'', ''2 Le Loi'', ''10.7'', ''106.6''), rn_vehicle = (3, 1, ''51C'', ''900.000'',
    ''9.000000''), rn_stops = [\<lparr>rs_stopId = 66, rs_shipmentId = 1, rs_shipmentVersion = 4, rs_addressSnapshot
    = \<lparr>as_addressId = 6, as_addressVersion = 1, as_addressType = ''SHIPPING'', as_label = None,
    as_recipientName = ''Minh Anh'', as_phone = None, as_addressLine = ''1 Le Loi'', as_ward = None, as_district =
    None, as_province = ''HCM'', as_postalCode = None, as_latitude = Some ''10.5'', as_longitude = Some ''106.7'',
    as_deliveryNote = None\<rparr>, rs_demandWeight = ''0.000'', rs_demandVolume = ''0.000000'', rs_sequence =
    1\<rparr>]\<rparr>, rp_optimizationRunId = None, rp_originalPlanId = None, rp_overrideReason = None,
    rp_approvedBy = None, rp_approvedAt = None, rp_approvalRequestId = None, rp_approvalHash = None,
    rp_approvalReceipt = None, rp_vehicleSnapshot = None, rp_driverSnapshot = None, rp_stops = [\<lparr>rq_tripStopId
    = 66, rq_sequence = 1\<rparr>], rp_createdAt = 21, rp_deletedAt = None\<rparr>, \<lparr>rp_id = 68, rp_tenantId =
    1, rp_tripId = 61, rp_planVersion = 2, rp_routeRequestId = 69, rp_requestActorId = None, rp_requestHash = None,
    rp_source = MANUAL, rp_inputHash = ''1111111111111111111111111111111111111111111111111111111111111111'',
    rp_inputSnapshot = \<lparr>rn_tenantId = 1, rn_tripId = 61, rn_tripVersion = 3, rn_warehouseId = 2, rn_vehicleId
    = 3, rn_plannedStartAt = 99, rn_driver = (4, 9, 1), rn_depot = (''Main'', ''2 Le Loi'', ''10.7'', ''106.6''),
    rn_vehicle = (3, 1, ''51C'', ''900.000'', ''9.000000''), rn_stops = [\<lparr>rs_stopId = 66, rs_shipmentId = 1,
    rs_shipmentVersion = 4, rs_addressSnapshot = \<lparr>as_addressId = 6, as_addressVersion = 1, as_addressType =
    ''SHIPPING'', as_label = None, as_recipientName = ''Minh Anh'', as_phone = None, as_addressLine = ''1 Le Loi'',
    as_ward = None, as_district = None, as_province = ''HCM'', as_postalCode = None, as_latitude = Some ''10.5'',
    as_longitude = Some ''106.7'', as_deliveryNote = None\<rparr>, rs_demandWeight = ''0.000'', rs_demandVolume =
    ''0.000000'', rs_sequence = 1\<rparr>]\<rparr>, rp_optimizationRunId = None, rp_originalPlanId = Some 67,
    rp_overrideReason = None, rp_approvedBy = Some 7, rp_approvedAt = Some 22, rp_approvalRequestId = Some 44,
    rp_approvalHash = Some ''3333333333333333333333333333333333333333333333333333333333333333'', rp_approvalReceipt =
    Some \<lparr>dt_id = 61, dt_tenantId = 1, dt_tripNumber = ''TR-20260101000000-00000000'', dt_warehouseId = 2,
    dt_vehicleId = Some 3, dt_driverId = Some 4, dt_driverUserId = Some 9, dt_driverVersion = Some 1,
    dt_depotSnapshot = \<lparr>ds_id = 2, ds_name = ''Main'', ds_addressLine = ''2 Le Loi'', ds_latitude = Some
    ''10.7'', ds_longitude = Some ''106.6'', ds_status = ''ACTIVE'', ds_version = 1\<rparr>, dt_vehicleSnapshot =
    Some \<lparr>vh_id = 3, vh_code = ''V'', vh_licensePlate = ''51C'', vh_capacityWeight = ''900.000'',
    vh_capacityVolume = ''9.000000'', vh_status = ''ACTIVE'', vh_version = 1\<rparr>, dt_driverSnapshot = Some
    \<lparr>tv_id = 4, tv_tenantId = 1, tv_userId = 9, tv_displayName = ''An'', tv_version = 1\<rparr>, dt_status =
    T_APPROVED, dt_plannedStartAt = 99, dt_actualStartAt = None, dt_completedAt = None, dt_totalWeight = 0,
    dt_totalVolume = 0, dt_approvedRoutePlanId = Some 68, dt_dispatchVersion = 0, dt_dispatchedAt = None,
    dt_canceledAt = None, dt_cancelReason = None, dt_createdAt = 17, dt_updatedAt = 22, dt_version = 4, dt_deletedAt
    = None\<rparr>, rp_vehicleSnapshot = Some \<lparr>vh_id = 3, vh_code = ''V'', vh_licensePlate = ''51C'',
    vh_capacityWeight = ''900.000'', vh_capacityVolume = ''9.000000'', vh_status = ''ACTIVE'', vh_version =
    1\<rparr>, rp_driverSnapshot = Some \<lparr>tv_id = 4, tv_tenantId = 1, tv_userId = 9, tv_displayName = ''An'',
    tv_version = 1\<rparr>, rp_stops = [\<lparr>rq_tripStopId = 66, rq_sequence = 1\<rparr>], rp_createdAt = 22,
    rp_deletedAt = None\<rparr>], deliveryAttempts = [], tripDispatches = [], tripOperations = [\<lparr>to_id = 62,
    to_tenantId = 1, to_tripId = Some 61, to_requestId = 40, to_actorId = 7, to_kind = K_CREATE, to_status =
    O_COMPLETED, to_payloadHash = ''create'', to_shipmentIds = [], to_membershipIds = [], to_reason = None, to_result
    = Some \<lparr>ov_tripId = Some 61, ov_requestId = 40, ov_kind = K_CREATE, ov_status = O_COMPLETED, ov_version =
    1, ov_results = []\<rparr>, to_activeLock = None, to_attemptCount = 0, to_nextAttemptAt = 17, to_lockedUntil =
    None, to_lastError = None, to_createdAt = 17, to_version = 1\<rparr>, \<lparr>to_id = 63, to_tenantId = 1,
    to_tripId = Some 61, to_requestId = 41, to_actorId = 7, to_kind = K_ADD, to_status = O_COMPLETED, to_payloadHash
    = ''add'', to_shipmentIds = [1], to_membershipIds = [64], to_reason = None, to_result = Some \<lparr>ov_tripId =
    Some 61, ov_requestId = 41, ov_kind = K_ADD, ov_status = O_COMPLETED, ov_version = 3, ov_results =
    [\<lparr>or_shipmentId = 1, or_state = M_ACTIVE, or_reason = None\<rparr>]\<rparr>, to_activeLock = None,
    to_attemptCount = 0, to_nextAttemptAt = 20, to_lockedUntil = None, to_lastError = None, to_createdAt = 20,
    to_version = 2\<rparr>], trp_outbox = [\<lparr>ob_id = 70, ob_tenantId = 1, ob_eventType = ''RouteApproved'',
    ob_eventVersion = 2, ob_aggregateType = ''DeliveryTrip'', ob_aggregateId = 61, ob_aggregateVersion = 4,
    ob_correlationId = 44, ob_causationId = Some 44, ob_payload = TripChanged \<lparr>tx_beforeStatus = T_DRAFT,
    tx_beforeVersion = 3, tx_afterStatus = T_APPROVED, tx_afterVersion = 4, tx_requestId = 44, tx_reason = None,
    tx_planId = Some 68\<rparr>, ob_payloadActor = Some 7, ob_occurredAt = 22, ob_publishedAt = None, ob_attemptCount
    = 0, ob_nextAttemptAt = 22, ob_lastError = None, ob_version = 1, ob_deletedAt = None\<rparr>], trp_inbox = [],
    trp_next = 71\<rparr>"
  by code_simp

text \<open>The same service, but the answer to the request for a dispatch is lost.\<close>

definition demo_lossy :: "(ful_db \<times> ord_db) fulfillment_api" where
  "demo_lossy = demo_tapi\<lparr> fa_dispatchBatch := (\<lambda>r now s. (TripNetworkFailure ''timeout'', snd (fa_dispatchBatch demo_tapi r now s))) \<rparr>"

definition demo_lost :: "(trp_error + unit) \<times> trp_db \<times> ful_db \<times> ord_db" where
  "demo_lost = dispatchTrip demo_renv demo_master_trip demo_lossy demo_user 61
     \<lparr> tq_requestId = 45, tq_version = 4, tq_previewToken = ''dispatch'' \<rparr> 23 (demo_t4, demo_g4, demo_rdb) (demo_t4, demo_g4, demo_rdb)"

definition demo_t5 :: trp_db where
  "demo_t5 = fst (snd demo_lost)"

definition demo_s5 :: "ful_db \<times> ord_db" where
  "demo_s5 = snd (snd demo_lost)"

lemma demo_lost_value: "snd demo_lost = (
    \<lparr>trips = [\<lparr>dt_id = 61, dt_tenantId = 1, dt_tripNumber = ''TR-20260101000000-00000000'',
    dt_warehouseId = 2, dt_vehicleId = Some 3, dt_driverId = Some 4, dt_driverUserId = Some 9, dt_driverVersion =
    Some 1, dt_depotSnapshot = \<lparr>ds_id = 2, ds_name = ''Main'', ds_addressLine = ''2 Le Loi'', ds_latitude =
    Some ''10.7'', ds_longitude = Some ''106.6'', ds_status = ''ACTIVE'', ds_version = 1\<rparr>, dt_vehicleSnapshot
    = Some \<lparr>vh_id = 3, vh_code = ''V'', vh_licensePlate = ''51C'', vh_capacityWeight = ''900.000'',
    vh_capacityVolume = ''9.000000'', vh_status = ''ACTIVE'', vh_version = 1\<rparr>, dt_driverSnapshot = Some
    \<lparr>tv_id = 4, tv_tenantId = 1, tv_userId = 9, tv_displayName = ''An'', tv_version = 1\<rparr>, dt_status =
    T_APPROVED, dt_plannedStartAt = 99, dt_actualStartAt = None, dt_completedAt = None, dt_totalWeight = 0,
    dt_totalVolume = 0, dt_approvedRoutePlanId = Some 68, dt_dispatchVersion = 0, dt_dispatchedAt = None,
    dt_canceledAt = None, dt_cancelReason = None, dt_createdAt = 17, dt_updatedAt = 22, dt_version = 4, dt_deletedAt
    = None\<rparr>], tripShipments = [\<lparr>ts_id = 64, ts_tenantId = 1, ts_tripId = 61, ts_shipmentId = 1,
    ts_orderId = Some 1, ts_warehouseId = 2, ts_operationId = Some 63, ts_state = M_ACTIVE, ts_weight = 0, ts_volume
    = 0, ts_expectedShipmentVersion = Some 3, ts_shipmentVersion = Some 4, ts_orderVersion = Some 2, ts_claimRequest
    = Some \<lparr>cq_contractVersion = 1, cq_tenantId = 1, cq_requestId = 65, cq_tripId = 61, cq_shipmentId = 1,
    cq_actorId = 7, cq_expectedTripVersion = 2, cq_expectedShipmentVersion = 3\<rparr>, ts_claimReceipt = Some
    \<lparr>ct_contractVersion = 1, ct_tenantId = 1, ct_requestId = 65, ct_tripId = 61, ct_shipmentId = 1, ct_claimId
    = 10, ct_tripVersion = 2, ct_shipmentVersion = 4, ct_claimedAt = 20\<rparr>, ts_releaseRequest = None,
    ts_releaseReceipt = None, ts_shipmentSnapshot = Some \<lparr>ns_tenantId = 1, ns_shipmentId = 1,
    ns_shipmentNumber = ''SHP-00000000-0000-0000-0000-000000000001'', ns_orderId = 1, ns_warehouseId = 2,
    ns_shipmentVersion = 4, ns_orderVersion = 2, ns_deliveryAddressSnapshot = \<lparr>as_addressId = 6,
    as_addressVersion = 1, as_addressType = ''SHIPPING'', as_label = None, as_recipientName = ''Minh Anh'', as_phone
    = None, as_addressLine = ''1 Le Loi'', as_ward = None, as_district = None, as_province = ''HCM'', as_postalCode =
    None, as_latitude = Some ''10.5'', as_longitude = Some ''106.7'', as_deliveryNote = None\<rparr>, ns_totalWeight
    = ''0.000'', ns_totalVolume = ''0.000000'', ns_items = [\<lparr>ni_orderLineId = 2, ni_productId = 31,
    ni_skuSnapshot = ''SKU'', ni_productNameSnapshot = ''Tea'', ni_unitSnapshot = ''BOX'', ni_quantity = ''0.015'',
    ni_weight = ''0.000'', ni_volume = ''0.000000''\<rparr>]\<rparr>, ts_assignedAt = 20, ts_removedAt = None,
    ts_version = 1, ts_deletedAt = None\<rparr>], tripStops = [\<lparr>ps_id = 66, ps_tenantId = 1, ps_tripId = 61,
    ps_shipmentId = 1, ps_deliveryAddressId = 6, ps_addressSnapshot = \<lparr>as_addressId = 6, as_addressVersion =
    1, as_addressType = ''SHIPPING'', as_label = None, as_recipientName = ''Minh Anh'', as_phone = None,
    as_addressLine = ''1 Le Loi'', as_ward = None, as_district = None, as_province = ''HCM'', as_postalCode = None,
    as_latitude = Some ''10.5'', as_longitude = Some ''106.7'', as_deliveryNote = None\<rparr>, ps_latitude = Some
    10500000, ps_longitude = Some 106700000, ps_plannedSequence = 1, ps_approvedSequence = Some 1, ps_status =
    STOP_PENDING, ps_currentAttempt = 0, ps_completedAt = None, ps_version = 2, ps_deletedAt = None\<rparr>],
    routePlans = [\<lparr>rp_id = 67, rp_tenantId = 1, rp_tripId = 61, rp_planVersion = 1, rp_routeRequestId = 43,
    rp_requestActorId = Some 7, rp_requestHash = Some
    ''2222222222222222222222222222222222222222222222222222222222222222'', rp_source = MANUAL, rp_inputHash =
    ''1111111111111111111111111111111111111111111111111111111111111111'', rp_inputSnapshot = \<lparr>rn_tenantId = 1,
    rn_tripId = 61, rn_tripVersion = 3, rn_warehouseId = 2, rn_vehicleId = 3, rn_plannedStartAt = 99, rn_driver = (4,
    9, 1), rn_depot = (''Main'', ''2 Le Loi'', ''10.7'', ''106.6''), rn_vehicle = (3, 1, ''51C'', ''900.000'',
    ''9.000000''), rn_stops = [\<lparr>rs_stopId = 66, rs_shipmentId = 1, rs_shipmentVersion = 4, rs_addressSnapshot
    = \<lparr>as_addressId = 6, as_addressVersion = 1, as_addressType = ''SHIPPING'', as_label = None,
    as_recipientName = ''Minh Anh'', as_phone = None, as_addressLine = ''1 Le Loi'', as_ward = None, as_district =
    None, as_province = ''HCM'', as_postalCode = None, as_latitude = Some ''10.5'', as_longitude = Some ''106.7'',
    as_deliveryNote = None\<rparr>, rs_demandWeight = ''0.000'', rs_demandVolume = ''0.000000'', rs_sequence =
    1\<rparr>]\<rparr>, rp_optimizationRunId = None, rp_originalPlanId = None, rp_overrideReason = None,
    rp_approvedBy = None, rp_approvedAt = None, rp_approvalRequestId = None, rp_approvalHash = None,
    rp_approvalReceipt = None, rp_vehicleSnapshot = None, rp_driverSnapshot = None, rp_stops = [\<lparr>rq_tripStopId
    = 66, rq_sequence = 1\<rparr>], rp_createdAt = 21, rp_deletedAt = None\<rparr>, \<lparr>rp_id = 68, rp_tenantId =
    1, rp_tripId = 61, rp_planVersion = 2, rp_routeRequestId = 69, rp_requestActorId = None, rp_requestHash = None,
    rp_source = MANUAL, rp_inputHash = ''1111111111111111111111111111111111111111111111111111111111111111'',
    rp_inputSnapshot = \<lparr>rn_tenantId = 1, rn_tripId = 61, rn_tripVersion = 3, rn_warehouseId = 2, rn_vehicleId
    = 3, rn_plannedStartAt = 99, rn_driver = (4, 9, 1), rn_depot = (''Main'', ''2 Le Loi'', ''10.7'', ''106.6''),
    rn_vehicle = (3, 1, ''51C'', ''900.000'', ''9.000000''), rn_stops = [\<lparr>rs_stopId = 66, rs_shipmentId = 1,
    rs_shipmentVersion = 4, rs_addressSnapshot = \<lparr>as_addressId = 6, as_addressVersion = 1, as_addressType =
    ''SHIPPING'', as_label = None, as_recipientName = ''Minh Anh'', as_phone = None, as_addressLine = ''1 Le Loi'',
    as_ward = None, as_district = None, as_province = ''HCM'', as_postalCode = None, as_latitude = Some ''10.5'',
    as_longitude = Some ''106.7'', as_deliveryNote = None\<rparr>, rs_demandWeight = ''0.000'', rs_demandVolume =
    ''0.000000'', rs_sequence = 1\<rparr>]\<rparr>, rp_optimizationRunId = None, rp_originalPlanId = Some 67,
    rp_overrideReason = None, rp_approvedBy = Some 7, rp_approvedAt = Some 22, rp_approvalRequestId = Some 44,
    rp_approvalHash = Some ''3333333333333333333333333333333333333333333333333333333333333333'', rp_approvalReceipt =
    Some \<lparr>dt_id = 61, dt_tenantId = 1, dt_tripNumber = ''TR-20260101000000-00000000'', dt_warehouseId = 2,
    dt_vehicleId = Some 3, dt_driverId = Some 4, dt_driverUserId = Some 9, dt_driverVersion = Some 1,
    dt_depotSnapshot = \<lparr>ds_id = 2, ds_name = ''Main'', ds_addressLine = ''2 Le Loi'', ds_latitude = Some
    ''10.7'', ds_longitude = Some ''106.6'', ds_status = ''ACTIVE'', ds_version = 1\<rparr>, dt_vehicleSnapshot =
    Some \<lparr>vh_id = 3, vh_code = ''V'', vh_licensePlate = ''51C'', vh_capacityWeight = ''900.000'',
    vh_capacityVolume = ''9.000000'', vh_status = ''ACTIVE'', vh_version = 1\<rparr>, dt_driverSnapshot = Some
    \<lparr>tv_id = 4, tv_tenantId = 1, tv_userId = 9, tv_displayName = ''An'', tv_version = 1\<rparr>, dt_status =
    T_APPROVED, dt_plannedStartAt = 99, dt_actualStartAt = None, dt_completedAt = None, dt_totalWeight = 0,
    dt_totalVolume = 0, dt_approvedRoutePlanId = Some 68, dt_dispatchVersion = 0, dt_dispatchedAt = None,
    dt_canceledAt = None, dt_cancelReason = None, dt_createdAt = 17, dt_updatedAt = 22, dt_version = 4, dt_deletedAt
    = None\<rparr>, rp_vehicleSnapshot = Some \<lparr>vh_id = 3, vh_code = ''V'', vh_licensePlate = ''51C'',
    vh_capacityWeight = ''900.000'', vh_capacityVolume = ''9.000000'', vh_status = ''ACTIVE'', vh_version =
    1\<rparr>, rp_driverSnapshot = Some \<lparr>tv_id = 4, tv_tenantId = 1, tv_userId = 9, tv_displayName = ''An'',
    tv_version = 1\<rparr>, rp_stops = [\<lparr>rq_tripStopId = 66, rq_sequence = 1\<rparr>], rp_createdAt = 22,
    rp_deletedAt = None\<rparr>], deliveryAttempts = [], tripDispatches = [\<lparr>td_id = 72, td_tenantId = 1,
    td_tripId = 61, td_dispatchVersion = 1, td_idempotencyKey = 45, td_status = I_PENDING, td_requestedBy = 7,
    td_stage = G_SUBMITTED, td_payloadHash = ''6666666666666666666666666666666666666666666666666666666666666666'',
    td_payload = Some \<lparr>br_contractVersion = 1, br_tenantId = 1, br_requestId = 45, br_tripId = 61, br_actorId
    = 7, br_expectedTripVersion = 4, br_dispatchVersion = 1, br_approvedPlanId = 68, br_inputHash =
    ''1111111111111111111111111111111111111111111111111111111111111111'', br_shipments = [\<lparr>bi_shipmentId = 1,
    bi_orderId = 1, bi_reservationGroupId = 10, bi_orderVersion = 4, bi_shipmentVersion = 4, bi_dispatchRequestId =
    71\<rparr>]\<rparr>, td_receipt = None, td_result = None, td_attemptCount = 1, td_nextAttemptAt = 23 + dispatchDelay 0,
    td_lastError = Some ''DISPATCH_RECOVERY_PENDING'', td_requestedAt = 23, td_completedAt = None\<rparr>],
    tripOperations = [\<lparr>to_id = 62, to_tenantId = 1, to_tripId = Some 61, to_requestId = 40, to_actorId = 7,
    to_kind = K_CREATE, to_status = O_COMPLETED, to_payloadHash = ''create'', to_shipmentIds = [], to_membershipIds =
    [], to_reason = None, to_result = Some \<lparr>ov_tripId = Some 61, ov_requestId = 40, ov_kind = K_CREATE,
    ov_status = O_COMPLETED, ov_version = 1, ov_results = []\<rparr>, to_activeLock = None, to_attemptCount = 0,
    to_nextAttemptAt = 17, to_lockedUntil = None, to_lastError = None, to_createdAt = 17, to_version = 1\<rparr>,
    \<lparr>to_id = 63, to_tenantId = 1, to_tripId = Some 61, to_requestId = 41, to_actorId = 7, to_kind = K_ADD,
    to_status = O_COMPLETED, to_payloadHash = ''add'', to_shipmentIds = [1], to_membershipIds = [64], to_reason =
    None, to_result = Some \<lparr>ov_tripId = Some 61, ov_requestId = 41, ov_kind = K_ADD, ov_status = O_COMPLETED,
    ov_version = 3, ov_results = [\<lparr>or_shipmentId = 1, or_state = M_ACTIVE, or_reason = None\<rparr>]\<rparr>,
    to_activeLock = None, to_attemptCount = 0, to_nextAttemptAt = 20, to_lockedUntil = None, to_lastError = None,
    to_createdAt = 20, to_version = 2\<rparr>], trp_outbox = [\<lparr>ob_id = 70, ob_tenantId = 1, ob_eventType =
    ''RouteApproved'', ob_eventVersion = 2, ob_aggregateType = ''DeliveryTrip'', ob_aggregateId = 61,
    ob_aggregateVersion = 4, ob_correlationId = 44, ob_causationId = Some 44, ob_payload = TripChanged
    \<lparr>tx_beforeStatus = T_DRAFT, tx_beforeVersion = 3, tx_afterStatus = T_APPROVED, tx_afterVersion = 4,
    tx_requestId = 44, tx_reason = None, tx_planId = Some 68\<rparr>, ob_payloadActor = Some 7, ob_occurredAt = 22,
    ob_publishedAt = None, ob_attemptCount = 0, ob_nextAttemptAt = 22, ob_lastError = None, ob_version = 1,
    ob_deletedAt = None\<rparr>], trp_inbox = [], trp_next = 73\<rparr>,
    (\<lparr>shipments = [\<lparr>sp_id = 1, sp_tenantId = 1, sp_shipmentNumber =
    ''SHP-00000000-0000-0000-0000-000000000001'', sp_orderId = 1, sp_warehouseId = 2, sp_deliveryAddressId = 6,
    sp_customerSnapshot = \<lparr>cs_customerId = 5, cs_customerVersion = 1, cs_code = ''C-1'', cs_name =
    ''Minh Anh'', cs_taxCode = None, cs_phone = None, cs_email = None\<rparr>, sp_deliveryAddressSnapshot =
    \<lparr>as_addressId = 6, as_addressVersion = 1, as_addressType = ''SHIPPING'', as_label = None, as_recipientName
    = ''Minh Anh'', as_phone = None, as_addressLine = ''1 Le Loi'', as_ward = None, as_district = None, as_province =
    ''HCM'', as_postalCode = None, as_latitude = Some ''10.5'', as_longitude = Some ''106.7'', as_deliveryNote =
    None\<rparr>, sp_warehouseSnapshot = \<lparr>ws_warehouseId = 2, ws_warehouseVersion = 1, ws_code = ''W-1'',
    ws_name = ''Main'', ws_addressLine = ''2 Le Loi'', ws_ward = None, ws_district = None, ws_province = ''HCM'',
    ws_postalCode = None, ws_latitude = None, ws_longitude = None\<rparr>, sp_orderNumber = ''SO-19700101-000001'',
    sp_confirmedOrderVersion = 2, sp_status = S_DISPATCHED, sp_totalWeight = 0, sp_totalVolume = 0,
    sp_reservationGroupId = 10, sp_assignedTripId = Some 61, sp_tripClaimId = Some 10, sp_dispatchIssuedAt = Some 23,
    sp_readyAt = Some 15, sp_deliveredAt = None, sp_failedAt = None, sp_failureReason = None, sp_createdAt = 13,
    sp_updatedAt = 23, sp_version = 5, sp_deletedAt = None\<rparr>], shipmentItems = [\<lparr>it_id = 2, it_tenantId
    = 1, it_shipmentId = 1, it_orderLineId = 2, it_productId = 31, it_skuSnapshot = ''SKU'', it_productNameSnapshot =
    ''Tea'', it_unitSnapshot = ''BOX'', it_quantity = 15, it_weight = 0, it_volume = 0, it_deletedAt = None\<rparr>],
    shipmentHistory = [\<lparr>hs_id = 3, hs_tenantId = 1, hs_shipmentId = 1, hs_fromStatus = None, hs_toStatus =
    S_PENDING_PICK, hs_reason = None, hs_actorId = Some 7, hs_correlationId = 90, hs_shipmentVersion = 1,
    hs_occurredAt = 13\<rparr>, \<lparr>hs_id = 6, hs_tenantId = 1, hs_shipmentId = 1, hs_fromStatus = Some
    S_PENDING_PICK, hs_toStatus = S_PICKING, hs_reason = None, hs_actorId = Some 7, hs_correlationId = 91,
    hs_shipmentVersion = 2, hs_occurredAt = 14\<rparr>, \<lparr>hs_id = 8, hs_tenantId = 1, hs_shipmentId = 1,
    hs_fromStatus = Some S_PICKING, hs_toStatus = S_READY_TO_SHIP, hs_reason = None, hs_actorId = Some 7,
    hs_correlationId = 91, hs_shipmentVersion = 3, hs_occurredAt = 15\<rparr>, \<lparr>hs_id = 12, hs_tenantId = 1,
    hs_shipmentId = 1, hs_fromStatus = Some S_READY_TO_SHIP, hs_toStatus = S_DISPATCHED, hs_reason = None, hs_actorId
    = Some 7, hs_correlationId = 45, hs_shipmentVersion = 5, hs_occurredAt = 23\<rparr>], dispatchIntents =
    [\<lparr>di_id = 71, di_tenantId = 1, di_shipmentId = 1, di_orderVersion = 4, di_shipmentVersion = 4, di_actorId
    = 7, di_correlationId = 45, di_status = I_COMPLETED, di_batchId = Some 45, di_grantReceipt = Some (GRANTED
    \<lparr>bb_contractVersion = 1, bb_tenantId = 1, bb_requestId = 45, bb_tripId = 61, bb_actorId = 7,
    bb_dispatchVersion = 1, bb_approvedPlanId = 68, bb_inputHash =
    ''1111111111111111111111111111111111111111111111111111111111111111'', bb_decidedAt = 23\<rparr>
    [\<lparr>bg_shipmentId = 1, bg_orderId = 1, bg_grantId = 71, bg_orderVersion = 4, bg_reservationGroupId = 10,
    bg_dispatchRequestId = 71\<rparr>]), di_rejectionReason = None, di_attemptCount = 0, di_nextAttemptAt =
    23\<rparr>], fulBatches = [\<lparr>fb_id = 45, fb_tenantId = 1, fb_tripId = 61, fb_payload =
    \<lparr>br_contractVersion = 1, br_tenantId = 1, br_requestId = 45, br_tripId = 61, br_actorId = 7,
    br_expectedTripVersion = 4, br_dispatchVersion = 1, br_approvedPlanId = 68, br_inputHash =
    ''1111111111111111111111111111111111111111111111111111111111111111'', br_shipments = [\<lparr>bi_shipmentId = 1,
    bi_orderId = 1, bi_reservationGroupId = 10, bi_orderVersion = 4, bi_shipmentVersion = 4, bi_dispatchRequestId =
    71\<rparr>]\<rparr>, fb_payloadHash = ''aaaaaaaaaaaaaaaaaaaaaaaaaaaaaaaaaaaaaaaaaaaaaaaaaaaaaaaaaaaaaaaa'',
    fb_status = I_COMPLETED, fb_stage = STAGE_COMPLETED, fb_decision = Some (GRANTED \<lparr>bb_contractVersion = 1,
    bb_tenantId = 1, bb_requestId = 45, bb_tripId = 61, bb_actorId = 7, bb_dispatchVersion = 1, bb_approvedPlanId =
    68, bb_inputHash = ''1111111111111111111111111111111111111111111111111111111111111111'', bb_decidedAt =
    23\<rparr> [\<lparr>bg_shipmentId = 1, bg_orderId = 1, bg_grantId = 71, bg_orderVersion = 4,
    bg_reservationGroupId = 10, bg_dispatchRequestId = 71\<rparr>]), fb_response = Some \<lparr>be_tenantId = 1,
    be_requestId = 45, be_tripId = 61, be_payloadHash =
    ''aaaaaaaaaaaaaaaaaaaaaaaaaaaaaaaaaaaaaaaaaaaaaaaaaaaaaaaaaaaaaaaa'', be_status = I_COMPLETED, be_stage =
    STAGE_COMPLETED, be_decision = Some (GRANTED \<lparr>bb_contractVersion = 1, bb_tenantId = 1, bb_requestId = 45,
    bb_tripId = 61, bb_actorId = 7, bb_dispatchVersion = 1, bb_approvedPlanId = 68, bb_inputHash =
    ''1111111111111111111111111111111111111111111111111111111111111111'', bb_decidedAt = 23\<rparr>
    [\<lparr>bg_shipmentId = 1, bg_orderId = 1, bg_grantId = 71, bg_orderVersion = 4, bg_reservationGroupId = 10,
    bg_dispatchRequestId = 71\<rparr>]), be_shipments = [\<lparr>bt_shipmentId = 1, bt_dispatchRequestId = 71,
    bt_shipmentVersion = 5\<rparr>]\<rparr>, fb_attemptCount = 0, fb_nextAttemptAt = 23, fb_lastError =
    None\<rparr>], orderCursors = [\<lparr>cu_tenantId = 1, cu_orderId = 1, cu_orderVersion = 2, cu_canceled =
    False\<rparr>], tripReceipts = [\<lparr>tr_id = 11, tr_tenantId = 1, tr_requestId = 65, tr_shipmentId = 1,
    tr_tripId = 61, tr_claimId = 10, tr_actorId = 7, tr_operation = CLAIM, tr_requestPayload = ClaimRequest
    \<lparr>cq_contractVersion = 1, cq_tenantId = 1, cq_requestId = 65, cq_tripId = 61, cq_shipmentId = 1, cq_actorId
    = 7, cq_expectedTripVersion = 2, cq_expectedShipmentVersion = 3\<rparr>, tr_responsePayload = ClaimResponse
    \<lparr>ct_contractVersion = 1, ct_tenantId = 1, ct_requestId = 65, ct_tripId = 61, ct_shipmentId = 1, ct_claimId
    = 10, ct_tripVersion = 2, ct_shipmentVersion = 4, ct_claimedAt = 20\<rparr> \<lparr>ns_tenantId = 1,
    ns_shipmentId = 1, ns_shipmentNumber = ''SHP-00000000-0000-0000-0000-000000000001'', ns_orderId = 1,
    ns_warehouseId = 2, ns_shipmentVersion = 4, ns_orderVersion = 2, ns_deliveryAddressSnapshot =
    \<lparr>as_addressId = 6, as_addressVersion = 1, as_addressType = ''SHIPPING'', as_label = None, as_recipientName
    = ''Minh Anh'', as_phone = None, as_addressLine = ''1 Le Loi'', as_ward = None, as_district = None, as_province =
    ''HCM'', as_postalCode = None, as_latitude = Some ''10.5'', as_longitude = Some ''106.7'', as_deliveryNote =
    None\<rparr>, ns_totalWeight = ''0.000'', ns_totalVolume = ''0.000000'', ns_items = [\<lparr>ni_orderLineId = 2,
    ni_productId = 31, ni_skuSnapshot = ''SKU'', ni_productNameSnapshot = ''Tea'', ni_unitSnapshot = ''BOX'',
    ni_quantity = ''0.015'', ni_weight = ''0.000'', ni_volume = ''0.000000''\<rparr>]\<rparr>, tr_createdAt =
    20\<rparr>], ful_inbox = [\<lparr>fi_id = 5, fi_tenantId = 1, fi_eventId = 5, fi_consumerName =
    ''fulfillment-order-events'', fi_eventType = ''OrderConfirmed'', fi_aggregateId = Some 1, fi_aggregateVersion =
    Some 2, fi_eventPayload = None, fi_payloadHash = None, fi_semanticKey = None, fi_attemptCount = 0,
    fi_nextAttemptAt = 13, fi_lastError = None, fi_processedAt = 13, fi_outcome = ''APPLIED'', fi_errorCode =
    None\<rparr>], ful_outbox = [\<lparr>ob_id = 4, ob_tenantId = 1, ob_eventType = ''ShipmentCreated'',
    ob_eventVersion = 1, ob_aggregateType = ''Shipment'', ob_aggregateId = 1, ob_aggregateVersion = 1,
    ob_correlationId = 90, ob_causationId = Some 5, ob_payload = \<lparr>sl_shipmentId = 1, sl_orderId = 1,
    sl_reservationGroupId = 10, sl_warehouseId = 2, sl_dispatchRequestId = None, sl_reason = None\<rparr>,
    ob_payloadActor = Some 7, ob_occurredAt = 13, ob_publishedAt = None, ob_attemptCount = 0, ob_nextAttemptAt = 13,
    ob_lastError = None, ob_version = 1, ob_deletedAt = None\<rparr>, \<lparr>ob_id = 7, ob_tenantId = 1,
    ob_eventType = ''ShipmentPicking'', ob_eventVersion = 1, ob_aggregateType = ''Shipment'', ob_aggregateId = 1,
    ob_aggregateVersion = 2, ob_correlationId = 91, ob_causationId = Some 91, ob_payload = \<lparr>sl_shipmentId = 1,
    sl_orderId = 1, sl_reservationGroupId = 10, sl_warehouseId = 2, sl_dispatchRequestId = None, sl_reason =
    None\<rparr>, ob_payloadActor = Some 7, ob_occurredAt = 14, ob_publishedAt = None, ob_attemptCount = 0,
    ob_nextAttemptAt = 14, ob_lastError = None, ob_version = 1, ob_deletedAt = None\<rparr>, \<lparr>ob_id = 9,
    ob_tenantId = 1, ob_eventType = ''ShipmentReadyToShip'', ob_eventVersion = 1, ob_aggregateType = ''Shipment'',
    ob_aggregateId = 1, ob_aggregateVersion = 3, ob_correlationId = 91, ob_causationId = Some 91, ob_payload =
    \<lparr>sl_shipmentId = 1, sl_orderId = 1, sl_reservationGroupId = 10, sl_warehouseId = 2, sl_dispatchRequestId =
    None, sl_reason = None\<rparr>, ob_payloadActor = Some 7, ob_occurredAt = 15, ob_publishedAt = None,
    ob_attemptCount = 0, ob_nextAttemptAt = 15, ob_lastError = None, ob_version = 1, ob_deletedAt = None\<rparr>,
    \<lparr>ob_id = 13, ob_tenantId = 1, ob_eventType = ''ShipmentDispatched'', ob_eventVersion = 1, ob_aggregateType
    = ''Shipment'', ob_aggregateId = 1, ob_aggregateVersion = 5, ob_correlationId = 45, ob_causationId = Some 45,
    ob_payload = \<lparr>sl_shipmentId = 1, sl_orderId = 1, sl_reservationGroupId = 10, sl_warehouseId = 2,
    sl_dispatchRequestId = Some 71, sl_reason = None\<rparr>, ob_payloadActor = Some 7, ob_occurredAt = 23,
    ob_publishedAt = None, ob_attemptCount = 0, ob_nextAttemptAt = 23, ob_lastError = None, ob_version = 1,
    ob_deletedAt = None\<rparr>], ful_next = 14\<rparr>, \<lparr>orders = [\<lparr>so_id = 1, so_tenantId = 1,
    so_orderNumber = ''SO-19700101-000001'', so_customerId = 5, so_deliveryAddressId = 6, so_warehouseId = 2,
    so_customerSnapshot = \<lparr>cs_customerId = 5, cs_customerVersion = 1, cs_code = ''C-1'', cs_name =
    ''Minh Anh'', cs_taxCode = None, cs_phone = None, cs_email = None\<rparr>, so_deliveryAddressSnapshot =
    \<lparr>as_addressId = 6, as_addressVersion = 1, as_addressType = ''SHIPPING'', as_label = None, as_recipientName
    = ''Minh Anh'', as_phone = None, as_addressLine = ''1 Le Loi'', as_ward = None, as_district = None, as_province =
    ''HCM'', as_postalCode = None, as_latitude = None, as_longitude = None, as_deliveryNote = None\<rparr>,
    so_warehouseSnapshot = \<lparr>ws_warehouseId = 2, ws_warehouseVersion = 1, ws_code = ''W-1'', ws_name =
    ''Main'', ws_addressLine = ''2 Le Loi'', ws_ward = None, ws_district = None, ws_province = ''HCM'', ws_postalCode
    = None, ws_latitude = None, ws_longitude = None\<rparr>, so_currency = ''VND'', so_status = READY_TO_SHIP,
    so_orderSource = ''MANUAL'', so_idempotencyKey = Some ''demo-key'', so_idempotencyRequestHash = Some ''0.015'',
    so_totals = \<lparr>ot_totalQuantity = 15, ot_totalWeight = 0, ot_totalVolume = 0\<rparr>, so_pendingSince =
    None, so_confirmedAt = Some 12, so_reservationGroupId = Some 10, so_cancellationRequestedAt = None,
    so_cancellationReason = None, so_cancellationActorId = None, so_cancellationCorrelationId = None,
    so_dispatchRequestId = Some 71, so_dispatchShipmentId = Some 1, so_dispatchOrderVersion = Some 4,
    so_dispatchGrantedAt = Some 23, so_dispatchActorId = Some 7, so_dispatchCorrelationId = Some 45, so_canceledAt =
    None, so_completedAt = None, so_cancelReason = None, so_createdAt = 3, so_updatedAt = 23, so_version = 5,
    so_deletedAt = None\<rparr>], orderLines = [\<lparr>ol_id = 2, ol_tenantId = 1, ol_orderId = 1, ol_lineNumber =
    1, ol_productId = 31, ol_skuSnapshot = ''SKU'', ol_productNameSnapshot = ''Tea'', ol_unitSnapshot = ''BOX'',
    ol_quantity = 15, ol_unitWeight = 2, ol_unitVolume = 1, ol_deletedAt = None\<rparr>], orderHistory =
    [\<lparr>oh_id = 3, oh_tenantId = 1, oh_orderId = 1, oh_fromStatus = None, oh_toStatus = DRAFT, oh_reason = None,
    oh_actorId = Some 7, oh_correlationId = 90, oh_orderVersion = 1, oh_occurredAt = 3, oh_deletedAt = None\<rparr>,
    \<lparr>oh_id = 6, oh_tenantId = 1, oh_orderId = 1, oh_fromStatus = Some DRAFT, oh_toStatus = CONFIRMED,
    oh_reason = None, oh_actorId = Some 7, oh_correlationId = 90, oh_orderVersion = 2, oh_occurredAt = 12,
    oh_deletedAt = None\<rparr>, \<lparr>oh_id = 7, oh_tenantId = 1, oh_orderId = 1, oh_fromStatus = Some CONFIRMED,
    oh_toStatus = PICKING, oh_reason = None, oh_actorId = Some 7, oh_correlationId = 92, oh_orderVersion = 3,
    oh_occurredAt = 21, oh_deletedAt = None\<rparr>, \<lparr>oh_id = 8, oh_tenantId = 1, oh_orderId = 1,
    oh_fromStatus = Some PICKING, oh_toStatus = READY_TO_SHIP, oh_reason = None, oh_actorId = Some 7,
    oh_correlationId = 92, oh_orderVersion = 4, oh_occurredAt = 22, oh_deletedAt = None\<rparr>], shortages = [],
    dispatchBatches = [\<lparr>bd_id = 45, bd_tenantId = 1, bd_payload = \<lparr>br_contractVersion = 1, br_tenantId
    = 1, br_requestId = 45, br_tripId = 61, br_actorId = 7, br_expectedTripVersion = 4, br_dispatchVersion = 1,
    br_approvedPlanId = 68, br_inputHash = ''1111111111111111111111111111111111111111111111111111111111111111'',
    br_shipments = [\<lparr>bi_shipmentId = 1, bi_orderId = 1, bi_reservationGroupId = 10, bi_orderVersion = 4,
    bi_shipmentVersion = 4, bi_dispatchRequestId = 71\<rparr>]\<rparr>, bd_decision = GRANTED
    \<lparr>bb_contractVersion = 1, bb_tenantId = 1, bb_requestId = 45, bb_tripId = 61, bb_actorId = 7,
    bb_dispatchVersion = 1, bb_approvedPlanId = 68, bb_inputHash =
    ''1111111111111111111111111111111111111111111111111111111111111111'', bb_decidedAt = 23\<rparr>
    [\<lparr>bg_shipmentId = 1, bg_orderId = 1, bg_grantId = 71, bg_orderVersion = 4, bg_reservationGroupId = 10,
    bg_dispatchRequestId = 71\<rparr>]\<rparr>], orderSequences = [\<lparr>sq_tenantId = 1, sq_period = ''19700101'',
    sq_lastValue = 1\<rparr>], ord_outbox = [\<lparr>ob_id = 4, ob_tenantId = 1, ob_eventType = ''OrderCreated'',
    ob_eventVersion = 1, ob_aggregateType = ''SalesOrder'', ob_aggregateId = 1, ob_aggregateVersion = 1,
    ob_correlationId = 90, ob_causationId = Some 90, ob_payload = DraftPayload \<lparr>dp_orderId = 1, dp_orderNumber
    = ''SO-19700101-000001'', dp_status = ''DRAFT'', dp_customerId = 5, dp_deliveryAddressId = 6, dp_warehouseId = 2,
    dp_currency = ''VND'', dp_totalQuantity = ''0.015'', dp_totalWeight = ''0.000'', dp_totalVolume = ''0.000000'',
    dp_orderLines = [(1, 31, ''0.015'')]\<rparr>, ob_payloadActor = Some 7, ob_occurredAt = 3, ob_publishedAt = None,
    ob_attemptCount = 0, ob_nextAttemptAt = 3, ob_lastError = None, ob_version = 1, ob_deletedAt = None\<rparr>,
    \<lparr>ob_id = 5, ob_tenantId = 1, ob_eventType = ''OrderConfirmed'', ob_eventVersion = 1, ob_aggregateType =
    ''SalesOrder'', ob_aggregateId = 1, ob_aggregateVersion = 2, ob_correlationId = 90, ob_causationId = Some 90,
    ob_payload = ConfirmedPayload \<lparr>cf_orderId = 1, cf_orderNumber = ''SO-19700101-000001'', cf_orderVersion =
    2, cf_reservationGroupId = 10, cf_confirmedAt = 12, cf_customerId = 5, cf_deliveryAddressId = 6, cf_warehouseId =
    2, cf_customerSnapshot = \<lparr>cs_customerId = 5, cs_customerVersion = 1, cs_code = ''C-1'', cs_name =
    ''Minh Anh'', cs_taxCode = None, cs_phone = None, cs_email = None\<rparr>, cf_deliveryAddressSnapshot =
    \<lparr>as_addressId = 6, as_addressVersion = 1, as_addressType = ''SHIPPING'', as_label = None, as_recipientName
    = ''Minh Anh'', as_phone = None, as_addressLine = ''1 Le Loi'', as_ward = None, as_district = None, as_province =
    ''HCM'', as_postalCode = None, as_latitude = None, as_longitude = None, as_deliveryNote = None\<rparr>,
    cf_warehouseSnapshot = \<lparr>ws_warehouseId = 2, ws_warehouseVersion = 1, ws_code = ''W-1'', ws_name =
    ''Main'', ws_addressLine = ''2 Le Loi'', ws_ward = None, ws_district = None, ws_province = ''HCM'', ws_postalCode
    = None, ws_latitude = None, ws_longitude = None\<rparr>, cf_totalQuantity = ''0.015'', cf_totalWeight =
    ''0.000'', cf_totalVolume = ''0.000000'', cf_orderLines = [\<lparr>lv_id = 2, lv_lineNumber = 1, lv_productId =
    31, lv_skuSnapshot = ''SKU'', lv_productNameSnapshot = ''Tea'', lv_unitSnapshot = ''BOX'', lv_quantity =
    ''0.015'', lv_unitWeight = ''0.002'', lv_unitVolume = ''0.000001''\<rparr>]\<rparr>, ob_payloadActor = Some 7,
    ob_occurredAt = 12, ob_publishedAt = None, ob_attemptCount = 0, ob_nextAttemptAt = 12, ob_lastError = None,
    ob_version = 1, ob_deletedAt = None\<rparr>], ord_inbox = [\<lparr>ie_tenantId = 1, ie_consumerName =
    ''order-shipment-lifecycle'', ie_eventId = 40, ie_eventType = ''ShipmentPicking'', ie_aggregateId = Some 70,
    ie_aggregateVersion = Some 1, ie_outcome = ''APPLIED''\<rparr>, \<lparr>ie_tenantId = 1, ie_consumerName =
    ''order-shipment-lifecycle'', ie_eventId = 41, ie_eventType = ''ShipmentReadyToShip'', ie_aggregateId = Some 70,
    ie_aggregateVersion = Some 2, ie_outcome = ''APPLIED''\<rparr>], ord_next = 9\<rparr>))"
  by code_simp

lemma demo_t5_value [code]: "demo_t5 =
    \<lparr>trips = [\<lparr>dt_id = 61, dt_tenantId = 1, dt_tripNumber = ''TR-20260101000000-00000000'',
    dt_warehouseId = 2, dt_vehicleId = Some 3, dt_driverId = Some 4, dt_driverUserId = Some 9, dt_driverVersion =
    Some 1, dt_depotSnapshot = \<lparr>ds_id = 2, ds_name = ''Main'', ds_addressLine = ''2 Le Loi'', ds_latitude =
    Some ''10.7'', ds_longitude = Some ''106.6'', ds_status = ''ACTIVE'', ds_version = 1\<rparr>, dt_vehicleSnapshot
    = Some \<lparr>vh_id = 3, vh_code = ''V'', vh_licensePlate = ''51C'', vh_capacityWeight = ''900.000'',
    vh_capacityVolume = ''9.000000'', vh_status = ''ACTIVE'', vh_version = 1\<rparr>, dt_driverSnapshot = Some
    \<lparr>tv_id = 4, tv_tenantId = 1, tv_userId = 9, tv_displayName = ''An'', tv_version = 1\<rparr>, dt_status =
    T_APPROVED, dt_plannedStartAt = 99, dt_actualStartAt = None, dt_completedAt = None, dt_totalWeight = 0,
    dt_totalVolume = 0, dt_approvedRoutePlanId = Some 68, dt_dispatchVersion = 0, dt_dispatchedAt = None,
    dt_canceledAt = None, dt_cancelReason = None, dt_createdAt = 17, dt_updatedAt = 22, dt_version = 4, dt_deletedAt
    = None\<rparr>], tripShipments = [\<lparr>ts_id = 64, ts_tenantId = 1, ts_tripId = 61, ts_shipmentId = 1,
    ts_orderId = Some 1, ts_warehouseId = 2, ts_operationId = Some 63, ts_state = M_ACTIVE, ts_weight = 0, ts_volume
    = 0, ts_expectedShipmentVersion = Some 3, ts_shipmentVersion = Some 4, ts_orderVersion = Some 2, ts_claimRequest
    = Some \<lparr>cq_contractVersion = 1, cq_tenantId = 1, cq_requestId = 65, cq_tripId = 61, cq_shipmentId = 1,
    cq_actorId = 7, cq_expectedTripVersion = 2, cq_expectedShipmentVersion = 3\<rparr>, ts_claimReceipt = Some
    \<lparr>ct_contractVersion = 1, ct_tenantId = 1, ct_requestId = 65, ct_tripId = 61, ct_shipmentId = 1, ct_claimId
    = 10, ct_tripVersion = 2, ct_shipmentVersion = 4, ct_claimedAt = 20\<rparr>, ts_releaseRequest = None,
    ts_releaseReceipt = None, ts_shipmentSnapshot = Some \<lparr>ns_tenantId = 1, ns_shipmentId = 1,
    ns_shipmentNumber = ''SHP-00000000-0000-0000-0000-000000000001'', ns_orderId = 1, ns_warehouseId = 2,
    ns_shipmentVersion = 4, ns_orderVersion = 2, ns_deliveryAddressSnapshot = \<lparr>as_addressId = 6,
    as_addressVersion = 1, as_addressType = ''SHIPPING'', as_label = None, as_recipientName = ''Minh Anh'', as_phone
    = None, as_addressLine = ''1 Le Loi'', as_ward = None, as_district = None, as_province = ''HCM'', as_postalCode =
    None, as_latitude = Some ''10.5'', as_longitude = Some ''106.7'', as_deliveryNote = None\<rparr>, ns_totalWeight
    = ''0.000'', ns_totalVolume = ''0.000000'', ns_items = [\<lparr>ni_orderLineId = 2, ni_productId = 31,
    ni_skuSnapshot = ''SKU'', ni_productNameSnapshot = ''Tea'', ni_unitSnapshot = ''BOX'', ni_quantity = ''0.015'',
    ni_weight = ''0.000'', ni_volume = ''0.000000''\<rparr>]\<rparr>, ts_assignedAt = 20, ts_removedAt = None,
    ts_version = 1, ts_deletedAt = None\<rparr>], tripStops = [\<lparr>ps_id = 66, ps_tenantId = 1, ps_tripId = 61,
    ps_shipmentId = 1, ps_deliveryAddressId = 6, ps_addressSnapshot = \<lparr>as_addressId = 6, as_addressVersion =
    1, as_addressType = ''SHIPPING'', as_label = None, as_recipientName = ''Minh Anh'', as_phone = None,
    as_addressLine = ''1 Le Loi'', as_ward = None, as_district = None, as_province = ''HCM'', as_postalCode = None,
    as_latitude = Some ''10.5'', as_longitude = Some ''106.7'', as_deliveryNote = None\<rparr>, ps_latitude = Some
    10500000, ps_longitude = Some 106700000, ps_plannedSequence = 1, ps_approvedSequence = Some 1, ps_status =
    STOP_PENDING, ps_currentAttempt = 0, ps_completedAt = None, ps_version = 2, ps_deletedAt = None\<rparr>],
    routePlans = [\<lparr>rp_id = 67, rp_tenantId = 1, rp_tripId = 61, rp_planVersion = 1, rp_routeRequestId = 43,
    rp_requestActorId = Some 7, rp_requestHash = Some
    ''2222222222222222222222222222222222222222222222222222222222222222'', rp_source = MANUAL, rp_inputHash =
    ''1111111111111111111111111111111111111111111111111111111111111111'', rp_inputSnapshot = \<lparr>rn_tenantId = 1,
    rn_tripId = 61, rn_tripVersion = 3, rn_warehouseId = 2, rn_vehicleId = 3, rn_plannedStartAt = 99, rn_driver = (4,
    9, 1), rn_depot = (''Main'', ''2 Le Loi'', ''10.7'', ''106.6''), rn_vehicle = (3, 1, ''51C'', ''900.000'',
    ''9.000000''), rn_stops = [\<lparr>rs_stopId = 66, rs_shipmentId = 1, rs_shipmentVersion = 4, rs_addressSnapshot
    = \<lparr>as_addressId = 6, as_addressVersion = 1, as_addressType = ''SHIPPING'', as_label = None,
    as_recipientName = ''Minh Anh'', as_phone = None, as_addressLine = ''1 Le Loi'', as_ward = None, as_district =
    None, as_province = ''HCM'', as_postalCode = None, as_latitude = Some ''10.5'', as_longitude = Some ''106.7'',
    as_deliveryNote = None\<rparr>, rs_demandWeight = ''0.000'', rs_demandVolume = ''0.000000'', rs_sequence =
    1\<rparr>]\<rparr>, rp_optimizationRunId = None, rp_originalPlanId = None, rp_overrideReason = None,
    rp_approvedBy = None, rp_approvedAt = None, rp_approvalRequestId = None, rp_approvalHash = None,
    rp_approvalReceipt = None, rp_vehicleSnapshot = None, rp_driverSnapshot = None, rp_stops = [\<lparr>rq_tripStopId
    = 66, rq_sequence = 1\<rparr>], rp_createdAt = 21, rp_deletedAt = None\<rparr>, \<lparr>rp_id = 68, rp_tenantId =
    1, rp_tripId = 61, rp_planVersion = 2, rp_routeRequestId = 69, rp_requestActorId = None, rp_requestHash = None,
    rp_source = MANUAL, rp_inputHash = ''1111111111111111111111111111111111111111111111111111111111111111'',
    rp_inputSnapshot = \<lparr>rn_tenantId = 1, rn_tripId = 61, rn_tripVersion = 3, rn_warehouseId = 2, rn_vehicleId
    = 3, rn_plannedStartAt = 99, rn_driver = (4, 9, 1), rn_depot = (''Main'', ''2 Le Loi'', ''10.7'', ''106.6''),
    rn_vehicle = (3, 1, ''51C'', ''900.000'', ''9.000000''), rn_stops = [\<lparr>rs_stopId = 66, rs_shipmentId = 1,
    rs_shipmentVersion = 4, rs_addressSnapshot = \<lparr>as_addressId = 6, as_addressVersion = 1, as_addressType =
    ''SHIPPING'', as_label = None, as_recipientName = ''Minh Anh'', as_phone = None, as_addressLine = ''1 Le Loi'',
    as_ward = None, as_district = None, as_province = ''HCM'', as_postalCode = None, as_latitude = Some ''10.5'',
    as_longitude = Some ''106.7'', as_deliveryNote = None\<rparr>, rs_demandWeight = ''0.000'', rs_demandVolume =
    ''0.000000'', rs_sequence = 1\<rparr>]\<rparr>, rp_optimizationRunId = None, rp_originalPlanId = Some 67,
    rp_overrideReason = None, rp_approvedBy = Some 7, rp_approvedAt = Some 22, rp_approvalRequestId = Some 44,
    rp_approvalHash = Some ''3333333333333333333333333333333333333333333333333333333333333333'', rp_approvalReceipt =
    Some \<lparr>dt_id = 61, dt_tenantId = 1, dt_tripNumber = ''TR-20260101000000-00000000'', dt_warehouseId = 2,
    dt_vehicleId = Some 3, dt_driverId = Some 4, dt_driverUserId = Some 9, dt_driverVersion = Some 1,
    dt_depotSnapshot = \<lparr>ds_id = 2, ds_name = ''Main'', ds_addressLine = ''2 Le Loi'', ds_latitude = Some
    ''10.7'', ds_longitude = Some ''106.6'', ds_status = ''ACTIVE'', ds_version = 1\<rparr>, dt_vehicleSnapshot =
    Some \<lparr>vh_id = 3, vh_code = ''V'', vh_licensePlate = ''51C'', vh_capacityWeight = ''900.000'',
    vh_capacityVolume = ''9.000000'', vh_status = ''ACTIVE'', vh_version = 1\<rparr>, dt_driverSnapshot = Some
    \<lparr>tv_id = 4, tv_tenantId = 1, tv_userId = 9, tv_displayName = ''An'', tv_version = 1\<rparr>, dt_status =
    T_APPROVED, dt_plannedStartAt = 99, dt_actualStartAt = None, dt_completedAt = None, dt_totalWeight = 0,
    dt_totalVolume = 0, dt_approvedRoutePlanId = Some 68, dt_dispatchVersion = 0, dt_dispatchedAt = None,
    dt_canceledAt = None, dt_cancelReason = None, dt_createdAt = 17, dt_updatedAt = 22, dt_version = 4, dt_deletedAt
    = None\<rparr>, rp_vehicleSnapshot = Some \<lparr>vh_id = 3, vh_code = ''V'', vh_licensePlate = ''51C'',
    vh_capacityWeight = ''900.000'', vh_capacityVolume = ''9.000000'', vh_status = ''ACTIVE'', vh_version =
    1\<rparr>, rp_driverSnapshot = Some \<lparr>tv_id = 4, tv_tenantId = 1, tv_userId = 9, tv_displayName = ''An'',
    tv_version = 1\<rparr>, rp_stops = [\<lparr>rq_tripStopId = 66, rq_sequence = 1\<rparr>], rp_createdAt = 22,
    rp_deletedAt = None\<rparr>], deliveryAttempts = [], tripDispatches = [\<lparr>td_id = 72, td_tenantId = 1,
    td_tripId = 61, td_dispatchVersion = 1, td_idempotencyKey = 45, td_status = I_PENDING, td_requestedBy = 7,
    td_stage = G_SUBMITTED, td_payloadHash = ''6666666666666666666666666666666666666666666666666666666666666666'',
    td_payload = Some \<lparr>br_contractVersion = 1, br_tenantId = 1, br_requestId = 45, br_tripId = 61, br_actorId
    = 7, br_expectedTripVersion = 4, br_dispatchVersion = 1, br_approvedPlanId = 68, br_inputHash =
    ''1111111111111111111111111111111111111111111111111111111111111111'', br_shipments = [\<lparr>bi_shipmentId = 1,
    bi_orderId = 1, bi_reservationGroupId = 10, bi_orderVersion = 4, bi_shipmentVersion = 4, bi_dispatchRequestId =
    71\<rparr>]\<rparr>, td_receipt = None, td_result = None, td_attemptCount = 1, td_nextAttemptAt = 23 + dispatchDelay 0,
    td_lastError = Some ''DISPATCH_RECOVERY_PENDING'', td_requestedAt = 23, td_completedAt = None\<rparr>],
    tripOperations = [\<lparr>to_id = 62, to_tenantId = 1, to_tripId = Some 61, to_requestId = 40, to_actorId = 7,
    to_kind = K_CREATE, to_status = O_COMPLETED, to_payloadHash = ''create'', to_shipmentIds = [], to_membershipIds =
    [], to_reason = None, to_result = Some \<lparr>ov_tripId = Some 61, ov_requestId = 40, ov_kind = K_CREATE,
    ov_status = O_COMPLETED, ov_version = 1, ov_results = []\<rparr>, to_activeLock = None, to_attemptCount = 0,
    to_nextAttemptAt = 17, to_lockedUntil = None, to_lastError = None, to_createdAt = 17, to_version = 1\<rparr>,
    \<lparr>to_id = 63, to_tenantId = 1, to_tripId = Some 61, to_requestId = 41, to_actorId = 7, to_kind = K_ADD,
    to_status = O_COMPLETED, to_payloadHash = ''add'', to_shipmentIds = [1], to_membershipIds = [64], to_reason =
    None, to_result = Some \<lparr>ov_tripId = Some 61, ov_requestId = 41, ov_kind = K_ADD, ov_status = O_COMPLETED,
    ov_version = 3, ov_results = [\<lparr>or_shipmentId = 1, or_state = M_ACTIVE, or_reason = None\<rparr>]\<rparr>,
    to_activeLock = None, to_attemptCount = 0, to_nextAttemptAt = 20, to_lockedUntil = None, to_lastError = None,
    to_createdAt = 20, to_version = 2\<rparr>], trp_outbox = [\<lparr>ob_id = 70, ob_tenantId = 1, ob_eventType =
    ''RouteApproved'', ob_eventVersion = 2, ob_aggregateType = ''DeliveryTrip'', ob_aggregateId = 61,
    ob_aggregateVersion = 4, ob_correlationId = 44, ob_causationId = Some 44, ob_payload = TripChanged
    \<lparr>tx_beforeStatus = T_DRAFT, tx_beforeVersion = 3, tx_afterStatus = T_APPROVED, tx_afterVersion = 4,
    tx_requestId = 44, tx_reason = None, tx_planId = Some 68\<rparr>, ob_payloadActor = Some 7, ob_occurredAt = 22,
    ob_publishedAt = None, ob_attemptCount = 0, ob_nextAttemptAt = 22, ob_lastError = None, ob_version = 1,
    ob_deletedAt = None\<rparr>], trp_inbox = [], trp_next = 73\<rparr>"
  by (simp only: demo_t5_def demo_lost_value fst_conv)

lemma demo_s5_value [code]: "demo_s5 =
    (\<lparr>shipments = [\<lparr>sp_id = 1, sp_tenantId = 1, sp_shipmentNumber =
    ''SHP-00000000-0000-0000-0000-000000000001'', sp_orderId = 1, sp_warehouseId = 2, sp_deliveryAddressId = 6,
    sp_customerSnapshot = \<lparr>cs_customerId = 5, cs_customerVersion = 1, cs_code = ''C-1'', cs_name =
    ''Minh Anh'', cs_taxCode = None, cs_phone = None, cs_email = None\<rparr>, sp_deliveryAddressSnapshot =
    \<lparr>as_addressId = 6, as_addressVersion = 1, as_addressType = ''SHIPPING'', as_label = None, as_recipientName
    = ''Minh Anh'', as_phone = None, as_addressLine = ''1 Le Loi'', as_ward = None, as_district = None, as_province =
    ''HCM'', as_postalCode = None, as_latitude = Some ''10.5'', as_longitude = Some ''106.7'', as_deliveryNote =
    None\<rparr>, sp_warehouseSnapshot = \<lparr>ws_warehouseId = 2, ws_warehouseVersion = 1, ws_code = ''W-1'',
    ws_name = ''Main'', ws_addressLine = ''2 Le Loi'', ws_ward = None, ws_district = None, ws_province = ''HCM'',
    ws_postalCode = None, ws_latitude = None, ws_longitude = None\<rparr>, sp_orderNumber = ''SO-19700101-000001'',
    sp_confirmedOrderVersion = 2, sp_status = S_DISPATCHED, sp_totalWeight = 0, sp_totalVolume = 0,
    sp_reservationGroupId = 10, sp_assignedTripId = Some 61, sp_tripClaimId = Some 10, sp_dispatchIssuedAt = Some 23,
    sp_readyAt = Some 15, sp_deliveredAt = None, sp_failedAt = None, sp_failureReason = None, sp_createdAt = 13,
    sp_updatedAt = 23, sp_version = 5, sp_deletedAt = None\<rparr>], shipmentItems = [\<lparr>it_id = 2, it_tenantId
    = 1, it_shipmentId = 1, it_orderLineId = 2, it_productId = 31, it_skuSnapshot = ''SKU'', it_productNameSnapshot =
    ''Tea'', it_unitSnapshot = ''BOX'', it_quantity = 15, it_weight = 0, it_volume = 0, it_deletedAt = None\<rparr>],
    shipmentHistory = [\<lparr>hs_id = 3, hs_tenantId = 1, hs_shipmentId = 1, hs_fromStatus = None, hs_toStatus =
    S_PENDING_PICK, hs_reason = None, hs_actorId = Some 7, hs_correlationId = 90, hs_shipmentVersion = 1,
    hs_occurredAt = 13\<rparr>, \<lparr>hs_id = 6, hs_tenantId = 1, hs_shipmentId = 1, hs_fromStatus = Some
    S_PENDING_PICK, hs_toStatus = S_PICKING, hs_reason = None, hs_actorId = Some 7, hs_correlationId = 91,
    hs_shipmentVersion = 2, hs_occurredAt = 14\<rparr>, \<lparr>hs_id = 8, hs_tenantId = 1, hs_shipmentId = 1,
    hs_fromStatus = Some S_PICKING, hs_toStatus = S_READY_TO_SHIP, hs_reason = None, hs_actorId = Some 7,
    hs_correlationId = 91, hs_shipmentVersion = 3, hs_occurredAt = 15\<rparr>, \<lparr>hs_id = 12, hs_tenantId = 1,
    hs_shipmentId = 1, hs_fromStatus = Some S_READY_TO_SHIP, hs_toStatus = S_DISPATCHED, hs_reason = None, hs_actorId
    = Some 7, hs_correlationId = 45, hs_shipmentVersion = 5, hs_occurredAt = 23\<rparr>], dispatchIntents =
    [\<lparr>di_id = 71, di_tenantId = 1, di_shipmentId = 1, di_orderVersion = 4, di_shipmentVersion = 4, di_actorId
    = 7, di_correlationId = 45, di_status = I_COMPLETED, di_batchId = Some 45, di_grantReceipt = Some (GRANTED
    \<lparr>bb_contractVersion = 1, bb_tenantId = 1, bb_requestId = 45, bb_tripId = 61, bb_actorId = 7,
    bb_dispatchVersion = 1, bb_approvedPlanId = 68, bb_inputHash =
    ''1111111111111111111111111111111111111111111111111111111111111111'', bb_decidedAt = 23\<rparr>
    [\<lparr>bg_shipmentId = 1, bg_orderId = 1, bg_grantId = 71, bg_orderVersion = 4, bg_reservationGroupId = 10,
    bg_dispatchRequestId = 71\<rparr>]), di_rejectionReason = None, di_attemptCount = 0, di_nextAttemptAt =
    23\<rparr>], fulBatches = [\<lparr>fb_id = 45, fb_tenantId = 1, fb_tripId = 61, fb_payload =
    \<lparr>br_contractVersion = 1, br_tenantId = 1, br_requestId = 45, br_tripId = 61, br_actorId = 7,
    br_expectedTripVersion = 4, br_dispatchVersion = 1, br_approvedPlanId = 68, br_inputHash =
    ''1111111111111111111111111111111111111111111111111111111111111111'', br_shipments = [\<lparr>bi_shipmentId = 1,
    bi_orderId = 1, bi_reservationGroupId = 10, bi_orderVersion = 4, bi_shipmentVersion = 4, bi_dispatchRequestId =
    71\<rparr>]\<rparr>, fb_payloadHash = ''aaaaaaaaaaaaaaaaaaaaaaaaaaaaaaaaaaaaaaaaaaaaaaaaaaaaaaaaaaaaaaaa'',
    fb_status = I_COMPLETED, fb_stage = STAGE_COMPLETED, fb_decision = Some (GRANTED \<lparr>bb_contractVersion = 1,
    bb_tenantId = 1, bb_requestId = 45, bb_tripId = 61, bb_actorId = 7, bb_dispatchVersion = 1, bb_approvedPlanId =
    68, bb_inputHash = ''1111111111111111111111111111111111111111111111111111111111111111'', bb_decidedAt =
    23\<rparr> [\<lparr>bg_shipmentId = 1, bg_orderId = 1, bg_grantId = 71, bg_orderVersion = 4,
    bg_reservationGroupId = 10, bg_dispatchRequestId = 71\<rparr>]), fb_response = Some \<lparr>be_tenantId = 1,
    be_requestId = 45, be_tripId = 61, be_payloadHash =
    ''aaaaaaaaaaaaaaaaaaaaaaaaaaaaaaaaaaaaaaaaaaaaaaaaaaaaaaaaaaaaaaaa'', be_status = I_COMPLETED, be_stage =
    STAGE_COMPLETED, be_decision = Some (GRANTED \<lparr>bb_contractVersion = 1, bb_tenantId = 1, bb_requestId = 45,
    bb_tripId = 61, bb_actorId = 7, bb_dispatchVersion = 1, bb_approvedPlanId = 68, bb_inputHash =
    ''1111111111111111111111111111111111111111111111111111111111111111'', bb_decidedAt = 23\<rparr>
    [\<lparr>bg_shipmentId = 1, bg_orderId = 1, bg_grantId = 71, bg_orderVersion = 4, bg_reservationGroupId = 10,
    bg_dispatchRequestId = 71\<rparr>]), be_shipments = [\<lparr>bt_shipmentId = 1, bt_dispatchRequestId = 71,
    bt_shipmentVersion = 5\<rparr>]\<rparr>, fb_attemptCount = 0, fb_nextAttemptAt = 23, fb_lastError =
    None\<rparr>], orderCursors = [\<lparr>cu_tenantId = 1, cu_orderId = 1, cu_orderVersion = 2, cu_canceled =
    False\<rparr>], tripReceipts = [\<lparr>tr_id = 11, tr_tenantId = 1, tr_requestId = 65, tr_shipmentId = 1,
    tr_tripId = 61, tr_claimId = 10, tr_actorId = 7, tr_operation = CLAIM, tr_requestPayload = ClaimRequest
    \<lparr>cq_contractVersion = 1, cq_tenantId = 1, cq_requestId = 65, cq_tripId = 61, cq_shipmentId = 1, cq_actorId
    = 7, cq_expectedTripVersion = 2, cq_expectedShipmentVersion = 3\<rparr>, tr_responsePayload = ClaimResponse
    \<lparr>ct_contractVersion = 1, ct_tenantId = 1, ct_requestId = 65, ct_tripId = 61, ct_shipmentId = 1, ct_claimId
    = 10, ct_tripVersion = 2, ct_shipmentVersion = 4, ct_claimedAt = 20\<rparr> \<lparr>ns_tenantId = 1,
    ns_shipmentId = 1, ns_shipmentNumber = ''SHP-00000000-0000-0000-0000-000000000001'', ns_orderId = 1,
    ns_warehouseId = 2, ns_shipmentVersion = 4, ns_orderVersion = 2, ns_deliveryAddressSnapshot =
    \<lparr>as_addressId = 6, as_addressVersion = 1, as_addressType = ''SHIPPING'', as_label = None, as_recipientName
    = ''Minh Anh'', as_phone = None, as_addressLine = ''1 Le Loi'', as_ward = None, as_district = None, as_province =
    ''HCM'', as_postalCode = None, as_latitude = Some ''10.5'', as_longitude = Some ''106.7'', as_deliveryNote =
    None\<rparr>, ns_totalWeight = ''0.000'', ns_totalVolume = ''0.000000'', ns_items = [\<lparr>ni_orderLineId = 2,
    ni_productId = 31, ni_skuSnapshot = ''SKU'', ni_productNameSnapshot = ''Tea'', ni_unitSnapshot = ''BOX'',
    ni_quantity = ''0.015'', ni_weight = ''0.000'', ni_volume = ''0.000000''\<rparr>]\<rparr>, tr_createdAt =
    20\<rparr>], ful_inbox = [\<lparr>fi_id = 5, fi_tenantId = 1, fi_eventId = 5, fi_consumerName =
    ''fulfillment-order-events'', fi_eventType = ''OrderConfirmed'', fi_aggregateId = Some 1, fi_aggregateVersion =
    Some 2, fi_eventPayload = None, fi_payloadHash = None, fi_semanticKey = None, fi_attemptCount = 0,
    fi_nextAttemptAt = 13, fi_lastError = None, fi_processedAt = 13, fi_outcome = ''APPLIED'', fi_errorCode =
    None\<rparr>], ful_outbox = [\<lparr>ob_id = 4, ob_tenantId = 1, ob_eventType = ''ShipmentCreated'',
    ob_eventVersion = 1, ob_aggregateType = ''Shipment'', ob_aggregateId = 1, ob_aggregateVersion = 1,
    ob_correlationId = 90, ob_causationId = Some 5, ob_payload = \<lparr>sl_shipmentId = 1, sl_orderId = 1,
    sl_reservationGroupId = 10, sl_warehouseId = 2, sl_dispatchRequestId = None, sl_reason = None\<rparr>,
    ob_payloadActor = Some 7, ob_occurredAt = 13, ob_publishedAt = None, ob_attemptCount = 0, ob_nextAttemptAt = 13,
    ob_lastError = None, ob_version = 1, ob_deletedAt = None\<rparr>, \<lparr>ob_id = 7, ob_tenantId = 1,
    ob_eventType = ''ShipmentPicking'', ob_eventVersion = 1, ob_aggregateType = ''Shipment'', ob_aggregateId = 1,
    ob_aggregateVersion = 2, ob_correlationId = 91, ob_causationId = Some 91, ob_payload = \<lparr>sl_shipmentId = 1,
    sl_orderId = 1, sl_reservationGroupId = 10, sl_warehouseId = 2, sl_dispatchRequestId = None, sl_reason =
    None\<rparr>, ob_payloadActor = Some 7, ob_occurredAt = 14, ob_publishedAt = None, ob_attemptCount = 0,
    ob_nextAttemptAt = 14, ob_lastError = None, ob_version = 1, ob_deletedAt = None\<rparr>, \<lparr>ob_id = 9,
    ob_tenantId = 1, ob_eventType = ''ShipmentReadyToShip'', ob_eventVersion = 1, ob_aggregateType = ''Shipment'',
    ob_aggregateId = 1, ob_aggregateVersion = 3, ob_correlationId = 91, ob_causationId = Some 91, ob_payload =
    \<lparr>sl_shipmentId = 1, sl_orderId = 1, sl_reservationGroupId = 10, sl_warehouseId = 2, sl_dispatchRequestId =
    None, sl_reason = None\<rparr>, ob_payloadActor = Some 7, ob_occurredAt = 15, ob_publishedAt = None,
    ob_attemptCount = 0, ob_nextAttemptAt = 15, ob_lastError = None, ob_version = 1, ob_deletedAt = None\<rparr>,
    \<lparr>ob_id = 13, ob_tenantId = 1, ob_eventType = ''ShipmentDispatched'', ob_eventVersion = 1, ob_aggregateType
    = ''Shipment'', ob_aggregateId = 1, ob_aggregateVersion = 5, ob_correlationId = 45, ob_causationId = Some 45,
    ob_payload = \<lparr>sl_shipmentId = 1, sl_orderId = 1, sl_reservationGroupId = 10, sl_warehouseId = 2,
    sl_dispatchRequestId = Some 71, sl_reason = None\<rparr>, ob_payloadActor = Some 7, ob_occurredAt = 23,
    ob_publishedAt = None, ob_attemptCount = 0, ob_nextAttemptAt = 23, ob_lastError = None, ob_version = 1,
    ob_deletedAt = None\<rparr>], ful_next = 14\<rparr>, \<lparr>orders = [\<lparr>so_id = 1, so_tenantId = 1,
    so_orderNumber = ''SO-19700101-000001'', so_customerId = 5, so_deliveryAddressId = 6, so_warehouseId = 2,
    so_customerSnapshot = \<lparr>cs_customerId = 5, cs_customerVersion = 1, cs_code = ''C-1'', cs_name =
    ''Minh Anh'', cs_taxCode = None, cs_phone = None, cs_email = None\<rparr>, so_deliveryAddressSnapshot =
    \<lparr>as_addressId = 6, as_addressVersion = 1, as_addressType = ''SHIPPING'', as_label = None, as_recipientName
    = ''Minh Anh'', as_phone = None, as_addressLine = ''1 Le Loi'', as_ward = None, as_district = None, as_province =
    ''HCM'', as_postalCode = None, as_latitude = None, as_longitude = None, as_deliveryNote = None\<rparr>,
    so_warehouseSnapshot = \<lparr>ws_warehouseId = 2, ws_warehouseVersion = 1, ws_code = ''W-1'', ws_name =
    ''Main'', ws_addressLine = ''2 Le Loi'', ws_ward = None, ws_district = None, ws_province = ''HCM'', ws_postalCode
    = None, ws_latitude = None, ws_longitude = None\<rparr>, so_currency = ''VND'', so_status = READY_TO_SHIP,
    so_orderSource = ''MANUAL'', so_idempotencyKey = Some ''demo-key'', so_idempotencyRequestHash = Some ''0.015'',
    so_totals = \<lparr>ot_totalQuantity = 15, ot_totalWeight = 0, ot_totalVolume = 0\<rparr>, so_pendingSince =
    None, so_confirmedAt = Some 12, so_reservationGroupId = Some 10, so_cancellationRequestedAt = None,
    so_cancellationReason = None, so_cancellationActorId = None, so_cancellationCorrelationId = None,
    so_dispatchRequestId = Some 71, so_dispatchShipmentId = Some 1, so_dispatchOrderVersion = Some 4,
    so_dispatchGrantedAt = Some 23, so_dispatchActorId = Some 7, so_dispatchCorrelationId = Some 45, so_canceledAt =
    None, so_completedAt = None, so_cancelReason = None, so_createdAt = 3, so_updatedAt = 23, so_version = 5,
    so_deletedAt = None\<rparr>], orderLines = [\<lparr>ol_id = 2, ol_tenantId = 1, ol_orderId = 1, ol_lineNumber =
    1, ol_productId = 31, ol_skuSnapshot = ''SKU'', ol_productNameSnapshot = ''Tea'', ol_unitSnapshot = ''BOX'',
    ol_quantity = 15, ol_unitWeight = 2, ol_unitVolume = 1, ol_deletedAt = None\<rparr>], orderHistory =
    [\<lparr>oh_id = 3, oh_tenantId = 1, oh_orderId = 1, oh_fromStatus = None, oh_toStatus = DRAFT, oh_reason = None,
    oh_actorId = Some 7, oh_correlationId = 90, oh_orderVersion = 1, oh_occurredAt = 3, oh_deletedAt = None\<rparr>,
    \<lparr>oh_id = 6, oh_tenantId = 1, oh_orderId = 1, oh_fromStatus = Some DRAFT, oh_toStatus = CONFIRMED,
    oh_reason = None, oh_actorId = Some 7, oh_correlationId = 90, oh_orderVersion = 2, oh_occurredAt = 12,
    oh_deletedAt = None\<rparr>, \<lparr>oh_id = 7, oh_tenantId = 1, oh_orderId = 1, oh_fromStatus = Some CONFIRMED,
    oh_toStatus = PICKING, oh_reason = None, oh_actorId = Some 7, oh_correlationId = 92, oh_orderVersion = 3,
    oh_occurredAt = 21, oh_deletedAt = None\<rparr>, \<lparr>oh_id = 8, oh_tenantId = 1, oh_orderId = 1,
    oh_fromStatus = Some PICKING, oh_toStatus = READY_TO_SHIP, oh_reason = None, oh_actorId = Some 7,
    oh_correlationId = 92, oh_orderVersion = 4, oh_occurredAt = 22, oh_deletedAt = None\<rparr>], shortages = [],
    dispatchBatches = [\<lparr>bd_id = 45, bd_tenantId = 1, bd_payload = \<lparr>br_contractVersion = 1, br_tenantId
    = 1, br_requestId = 45, br_tripId = 61, br_actorId = 7, br_expectedTripVersion = 4, br_dispatchVersion = 1,
    br_approvedPlanId = 68, br_inputHash = ''1111111111111111111111111111111111111111111111111111111111111111'',
    br_shipments = [\<lparr>bi_shipmentId = 1, bi_orderId = 1, bi_reservationGroupId = 10, bi_orderVersion = 4,
    bi_shipmentVersion = 4, bi_dispatchRequestId = 71\<rparr>]\<rparr>, bd_decision = GRANTED
    \<lparr>bb_contractVersion = 1, bb_tenantId = 1, bb_requestId = 45, bb_tripId = 61, bb_actorId = 7,
    bb_dispatchVersion = 1, bb_approvedPlanId = 68, bb_inputHash =
    ''1111111111111111111111111111111111111111111111111111111111111111'', bb_decidedAt = 23\<rparr>
    [\<lparr>bg_shipmentId = 1, bg_orderId = 1, bg_grantId = 71, bg_orderVersion = 4, bg_reservationGroupId = 10,
    bg_dispatchRequestId = 71\<rparr>]\<rparr>], orderSequences = [\<lparr>sq_tenantId = 1, sq_period = ''19700101'',
    sq_lastValue = 1\<rparr>], ord_outbox = [\<lparr>ob_id = 4, ob_tenantId = 1, ob_eventType = ''OrderCreated'',
    ob_eventVersion = 1, ob_aggregateType = ''SalesOrder'', ob_aggregateId = 1, ob_aggregateVersion = 1,
    ob_correlationId = 90, ob_causationId = Some 90, ob_payload = DraftPayload \<lparr>dp_orderId = 1, dp_orderNumber
    = ''SO-19700101-000001'', dp_status = ''DRAFT'', dp_customerId = 5, dp_deliveryAddressId = 6, dp_warehouseId = 2,
    dp_currency = ''VND'', dp_totalQuantity = ''0.015'', dp_totalWeight = ''0.000'', dp_totalVolume = ''0.000000'',
    dp_orderLines = [(1, 31, ''0.015'')]\<rparr>, ob_payloadActor = Some 7, ob_occurredAt = 3, ob_publishedAt = None,
    ob_attemptCount = 0, ob_nextAttemptAt = 3, ob_lastError = None, ob_version = 1, ob_deletedAt = None\<rparr>,
    \<lparr>ob_id = 5, ob_tenantId = 1, ob_eventType = ''OrderConfirmed'', ob_eventVersion = 1, ob_aggregateType =
    ''SalesOrder'', ob_aggregateId = 1, ob_aggregateVersion = 2, ob_correlationId = 90, ob_causationId = Some 90,
    ob_payload = ConfirmedPayload \<lparr>cf_orderId = 1, cf_orderNumber = ''SO-19700101-000001'', cf_orderVersion =
    2, cf_reservationGroupId = 10, cf_confirmedAt = 12, cf_customerId = 5, cf_deliveryAddressId = 6, cf_warehouseId =
    2, cf_customerSnapshot = \<lparr>cs_customerId = 5, cs_customerVersion = 1, cs_code = ''C-1'', cs_name =
    ''Minh Anh'', cs_taxCode = None, cs_phone = None, cs_email = None\<rparr>, cf_deliveryAddressSnapshot =
    \<lparr>as_addressId = 6, as_addressVersion = 1, as_addressType = ''SHIPPING'', as_label = None, as_recipientName
    = ''Minh Anh'', as_phone = None, as_addressLine = ''1 Le Loi'', as_ward = None, as_district = None, as_province =
    ''HCM'', as_postalCode = None, as_latitude = None, as_longitude = None, as_deliveryNote = None\<rparr>,
    cf_warehouseSnapshot = \<lparr>ws_warehouseId = 2, ws_warehouseVersion = 1, ws_code = ''W-1'', ws_name =
    ''Main'', ws_addressLine = ''2 Le Loi'', ws_ward = None, ws_district = None, ws_province = ''HCM'', ws_postalCode
    = None, ws_latitude = None, ws_longitude = None\<rparr>, cf_totalQuantity = ''0.015'', cf_totalWeight =
    ''0.000'', cf_totalVolume = ''0.000000'', cf_orderLines = [\<lparr>lv_id = 2, lv_lineNumber = 1, lv_productId =
    31, lv_skuSnapshot = ''SKU'', lv_productNameSnapshot = ''Tea'', lv_unitSnapshot = ''BOX'', lv_quantity =
    ''0.015'', lv_unitWeight = ''0.002'', lv_unitVolume = ''0.000001''\<rparr>]\<rparr>, ob_payloadActor = Some 7,
    ob_occurredAt = 12, ob_publishedAt = None, ob_attemptCount = 0, ob_nextAttemptAt = 12, ob_lastError = None,
    ob_version = 1, ob_deletedAt = None\<rparr>], ord_inbox = [\<lparr>ie_tenantId = 1, ie_consumerName =
    ''order-shipment-lifecycle'', ie_eventId = 40, ie_eventType = ''ShipmentPicking'', ie_aggregateId = Some 70,
    ie_aggregateVersion = Some 1, ie_outcome = ''APPLIED''\<rparr>, \<lparr>ie_tenantId = 1, ie_consumerName =
    ''order-shipment-lifecycle'', ie_eventId = 41, ie_eventType = ''ShipmentReadyToShip'', ie_aggregateId = Some 70,
    ie_aggregateVersion = Some 2, ie_outcome = ''APPLIED''\<rparr>], ord_next = 9\<rparr>)"
  by (simp only: demo_s5_def demo_lost_value snd_conv)

end
