(* ===== verification/Transport_Theorems.thy ===== *)
theory Transport_Theorems
  imports Transport_Agreement Transport_Overrun Transport_Run
begin

text \<open>The properties of the transport service and of the dispatch of a trip through all three services.\<close>

section \<open>The demonstration run is one of the service\<close>

lemma trp_ok_init: "trp_ok trp_init"
  by (simp add: trp_ok_def trp_but_def trp_parts trp_init_def)

lemma demo_runs_t2: "trp_run trp_init demo_t2"
proof -
  have "trp_run trp_init demo_t1" unfolding demo_t1_def by (rule createTripFor_steps)
  moreover have "trp_run demo_t1 demo_t2" unfolding demo_t2_def demo_added_def
    using addShipments_steps [of "(demo_t1, demo_g, demo_rdb)"] by simp
  ultimately show ?thesis by (rule trp_both)
qed

lemma demo_runs_t4: "trp_run demo_t2 demo_t4"
proof -
  have "trp_run demo_t2 demo_t3" unfolding demo_t3_def by (rule manualRoute_steps)
  moreover have "trp_run demo_t3 demo_t4" unfolding demo_t4_def by (rule approveRoute_steps)
  ultimately show ?thesis by (rule trp_both)
qed

lemma demo_runs_t5: "trp_run demo_t4 demo_t5"
  unfolding demo_t5_def demo_lost_def
  using dispatchTrip_steps [of "(demo_t4, demo_g4, demo_rdb)"]
    trp_run_ok [OF trp_both [OF demo_runs_t2 demo_runs_t4] trp_ok_init] by simp

lemma demo_trip_runs: "trp_run trp_init demo_t4" "trp_run trp_init demo_t5"
  using trp_both [OF demo_runs_t2 demo_runs_t4] trp_both [OF trp_both [OF demo_runs_t2 demo_runs_t4] demo_runs_t5] by blast+

lemma demo_trips_ok: "trp_ok demo_t2" "trp_ok demo_t4" "trp_ok demo_t5"
  using trp_run_ok [OF _ trp_ok_init] demo_runs_t2 demo_trip_runs by blast+

lemma demo_reaches_t4: "trp_step\<^sup>*\<^sup>* demo_t2 demo_t4"
  using trp_run_steps [OF demo_runs_t4 demo_trips_ok(1)] .


text \<open>The request of the dispatch of the run.\<close>

definition demo_request :: batch_request where
  "demo_request = \<lparr> br_contractVersion = 1, br_tenantId = 1, br_requestId = 45, br_tripId = 61, br_actorId = 7,
     br_expectedTripVersion = 4, br_dispatchVersion = 1, br_approvedPlanId = 68, br_inputHash = demo_hash (CHR ''1''),
     br_shipments = [\<lparr> bi_shipmentId = 1, bi_orderId = 1, bi_reservationGroupId = 10, bi_orderVersion = 4,
       bi_shipmentVersion = 4, bi_dispatchRequestId = 71 \<rparr>] \<rparr>"

section \<open>The invariant\<close>

text \<open>
  C11. The database invariant of the transport service holds in every state it reaches by any interleaving of
  the transactions of its requests, its consumer and its workers, whatever the other services answer, as long
  as an operation has one worker at a time: that is what the lease of thirty seconds gives to a worker that is
  done within it, and the only assumption on workers, whose steps have no guard that the code has not. An active
  trip has a vehicle and a driver no other active trip has, an operation that is not finished holds the one lock
  of a trip still in planning, a membership that waits is worked on by such an operation, and a dispatch under
  way freezes its trip. A worker about to end an operation, which does not look at it again, finds it open and
  none of its memberships waiting.
\<close>

theorem transport_invariant:
  assumes "trp_work\<^sup>*\<^sup>* (trp_init, Map.empty) (db, ws)"
  shows "trp_ok db \<and> (\<forall>i status. ws i = Some (Ready status) \<longrightarrow>
    (\<exists>p. findOperation i db = Some p \<and> op_open (to_status p)) \<and> no_pending i db)"
proof -
  have s: "sound (db, ws)" using trp_works_implement [OF assms] sound_unattended [OF trp_ok_init] by simp
  have "(\<exists>p. findOperation i db = Some p \<and> op_open (to_status p)) \<and> no_pending i db" if "ws i = Some (Ready status)" for i status
    using sound_knows [OF s that] by (auto simp: working_def)
  then show ?thesis using sound_ok [OF s] by blast
qed

theorem transport_invariant_witness: "trp_ok demo_t5 \<and> map dt_status (trips demo_t5) = [T_APPROVED]"
proof -
  have "map dt_status (trips demo_t5) = [T_APPROVED]" by code_simp
  with transport_invariant [OF demo_trip_runs(2)] show ?thesis by blast
qed



section \<open>The life of a trip\<close>

text \<open>
  C16. The transport service implements the life of a trip: between any two states of a run a trip is kept,
  its status moves only from draft to approved and back, from approved to on the road and from there to
  completed, with a cancellation possible until it leaves; its number and warehouse never change, its
  version never goes back, two equal versions mean that status, vehicle, driver and plan are the same, and
  once the trip has left these do not change any more.
\<close>

theorem trip_refines_lifecycle:
  assumes "trp_ok db" "trp_step\<^sup>*\<^sup>* db db'" "x \<in> set (trips db)"
  shows "\<exists>y\<in>set (trips db'). dt_id y = dt_id x \<and> dt_tripNumber y = dt_tripNumber x \<and> dt_warehouseId y = dt_warehouseId x \<and>
    trip_life\<^sup>*\<^sup>* (dt_status x) (dt_status y) \<and> dt_version x \<le> dt_version y \<and>
    (dt_version y = dt_version x \<or> \<not> planning x \<longrightarrow> resources y = resources x) \<and>
    (dt_version y = dt_version x \<longrightarrow> dt_status y = dt_status x)"
  using trp_steps_evolve [OF assms(2,1)] assms(3)
  unfolding trips_evolve_def trip_becomes_def same_trip_def same_core_def by blast

theorem trip_refines_lifecycle_witness:
  "\<exists>x\<in>set (trips demo_t2). \<exists>y\<in>set (trips demo_t4). dt_status x = T_DRAFT \<and> dt_status y = T_APPROVED \<and> dt_id y = dt_id x \<and>
     trip_life\<^sup>*\<^sup>* (dt_status x) (dt_status y)"
proof -
  have "map dt_status (trips demo_t2) = [T_DRAFT]" "map dt_status (trips demo_t4) = [T_APPROVED]" by code_simp+
  then obtain x y where x: "trips demo_t2 = [x]" "dt_status x = T_DRAFT" and y: "trips demo_t4 = [y]" "dt_status y = T_APPROVED" by auto
  from trip_refines_lifecycle [OF demo_trips_ok(1) demo_reaches_t4, of x] x y show ?thesis by auto
qed

section \<open>The dispatch of a trip\<close>

text \<open>
  C12. A dispatch under way freezes its trip: in every state reached by any interleaving in which an operation has
  one worker at a time (its lease outlasts the attempt), the trip of a pending dispatch is approved, at the version the request
  names, no operation holds its lock, and no other dispatch of it is pending or completed; once the
  request may have been sent, the approved plan is the one it names.
\<close>

theorem pending_dispatch_freezes:
  assumes "trp_work\<^sup>*\<^sup>* (trp_init, Map.empty) (db, ws)" "d \<in> set (tripDispatches db)" "td_status d = I_PENDING"
  shows "\<exists>r. \<exists>x\<in>set (trips db). td_payload d = Some r \<and> batchRequestValid r \<and> br_tripId r = dt_id x \<and> dt_id x = td_tripId d \<and>
    dt_status x = T_APPROVED \<and> dt_version x = br_expectedTripVersion r \<and>
    (td_stage d \<noteq> G_ACCEPTED \<longrightarrow> dt_approvedRoutePlanId x = Some (br_approvedPlanId r)) \<and>
    (\<forall>p\<in>set (tripOperations db). to_activeLock p \<noteq> Some (dt_tenantId x, dt_id x)) \<and>
    (\<forall>e\<in>set (tripDispatches db). td_tenantId e = td_tenantId d \<and> td_tripId e = td_tripId d \<and> td_status e \<noteq> I_REJECTED \<longrightarrow> e = d)"
proof -
  note p = trp_butD(4) [OF trp_works_ok [OF assms(1) trp_ok_init, unfolded trp_ok_def], unfolded dispatches_ok_def]
  from p assms(2,3) obtain r x where r: "td_payload d = Some r" "x \<in> set (trips db)" "freezes db d r x" by blast
  have "\<forall>e\<in>set (tripDispatches db). td_tenantId e = td_tenantId d \<and> td_tripId e = td_tripId d \<and> td_status e \<noteq> I_REJECTED \<longrightarrow> e = d"
    using p assms(2,3) by (metis intent_status.distinct)
  with r show ?thesis unfolding freezes_def carries_def locked_def lock_of_def by (intro exI [of _ r] bexI [of _ x]) auto
qed

theorem pending_dispatch_freezes_witness:
  "\<exists>d r. \<exists>x\<in>set (trips demo_t5). tripDispatches demo_t5 = [d] \<and> td_status d = I_PENDING \<and> td_payload d = Some r \<and>
     dt_status x = T_APPROVED \<and> dt_version x = br_expectedTripVersion r"
proof -
  have "map td_status (tripDispatches demo_t5) = [I_PENDING]" by code_simp
  then obtain d where d: "tripDispatches demo_t5 = [d]" "td_status d = I_PENDING" by auto
  from pending_dispatch_freezes [OF demo_trip_runs(2), of d] d show ?thesis by auto
qed

text \<open>
  C39. A worker that outlives its lease strands the dispatch of its trip: this is why the invariant
  assumes one worker at a time. \<^verbatim>\<open>finalize\<close> looks neither at the status of the operation nor at the lease, so a worker that was
  slow ends the operation once more, when another worker has ended it and the trip has been approved and is
  being dispatched. Then the trip is one version past the one the request names, and no attempt at
  the dispatch, however many there are and whatever the fulfilment service answers, moves the trip any more,
  though the shipments may have left.
\<close>

theorem overrun_strands_dispatch:
  assumes "trp_ok db" "findDispatch t q db = Some row" "td_status row = I_PENDING" "td_payload row = Some r"
    "findOperation i db = Some p" "to_tripId p = Some (td_tripId row)" "finalize i status now db = Inr db'"
  shows "(\<exists>x\<in>set (trips db'). dt_id x = td_tripId row \<and> dt_version x = br_expectedTripVersion r + 1) \<and>
    trips (fst (dispatch_attempts env master api t q nows (db', s))) = trips db'"
proof -
  note S = finalize_strands [OF assms]
  from attempts_stranded [of t q "(db', s)"] S show ?thesis by simp
qed

text \<open>The addition of the shipment is ended again while the answer to the dispatch is lost.\<close>

theorem overrun_strands_dispatch_witness:
  "\<exists>p db'. findOperation 63 demo_t5 = Some p \<and> to_status p = O_COMPLETED \<and> finalize 63 O_COMPLETED 24 demo_t5 = Inr db' \<and>
     map dt_status (trips db') = [T_APPROVED] \<and>
     trips (fst (dispatch_attempts demo_renv demo_master_trip demo_tapi 1 45 [25, 9000, 200000] (db', demo_s5))) = trips db' \<and>
     map sp_status (shipments (fst demo_s5)) = [S_DISPATCHED]"
proof -
  have "map_option (\<lambda>p. (to_status p, to_tripId p)) (findOperation 63 demo_t5) = Some (O_COMPLETED, Some 61)" by code_simp
  then obtain p where p: "findOperation 63 demo_t5 = Some p" "to_status p = O_COMPLETED" "to_tripId p = Some 61" by auto
  have "map_option (\<lambda>d. (td_status d, td_payload d, td_tripId d)) (findDispatch 1 45 demo_t5) = Some (I_PENDING, Some demo_request, 61)" by code_simp
  then obtain d where d: "findDispatch 1 45 demo_t5 = Some d" "td_status d = I_PENDING" "td_payload d = Some demo_request" "td_tripId d = 61" by auto
  have f: "map_sum id (\<lambda>db. map dt_status (trips db)) (finalize 63 O_COMPLETED 24 demo_t5) = Inr [T_APPROVED]" by code_simp
  then obtain db' where db': "finalize 63 O_COMPLETED 24 demo_t5 = Inr db'" "map dt_status (trips db') = [T_APPROVED]"
    by (cases "finalize 63 O_COMPLETED 24 demo_t5") auto
  have sp: "map sp_status (shipments (fst demo_s5)) = [S_DISPATCHED]" by code_simp
  from overrun_strands_dispatch [OF demo_trips_ok(3) d(1-3) p(1) _ db'(1), of demo_renv demo_master_trip demo_tapi "[25, 9000, 200000]" demo_s5]
  show ?thesis using p d(4) db' sp by auto
qed

text \<open>
  C4. A dispatch whose answer was lost completes, across the databases of three services. Whatever became of
  the first request (it never arrived, the batch was prepared, the order service has decided, the shipments
  have left), one more attempt by the recovery worker ends the dispatch: either the trip is on the road one
  version up with the event that says so, every shipment of the request is dispatched and every order
  granted, or the dispatch is rejected and no trip, shipment or order has changed. The two services must
  agree on the hash of a request, which both take from \<^verbatim>\<open>transport-hash.ts\<close>.
\<close>

theorem lost_trip_dispatch_completes:
  assumes "trp_ok db" "findDispatch t q db = Some row" "td_status row = I_PENDING" "td_payload row = Some r"
    "td_stage row \<noteq> G_ACCEPTED" "td_receipt row = None" "batch_stands fenv r w" "rv_batchHash renv = fe_batchHash fenv"
  shows "\<exists>db' w'. resumeDispatch renv master (fulfilment_service msg (order_service oenv) fenv) t q now (db, w) = (db', w') \<and>
    (trip_departed r now db db' \<and> trip_carried r w' \<or> dispatch_refused r db db' \<and> fleet w' = fleet w)"
  by (rule executor.resumeDispatch_ends [OF assms])

text \<open>The fulfilment service of the run.\<close>

lemma demo_g_ok: "ful_ok demo_g"
proof -
  have r: "demo_g1 = Inr (projr demo_g1)" "demo_g2 = Inr (projr demo_g2)" "demo_g3 = Inr demo_g"
    unfolding demo_g_def by (rule ok_projr, code_simp)+
  have "keeps_ful {} ful_init (projr demo_g1)"
    using r(1) unfolding demo_g1_def by (rule handleShipmentOrderEvent_keeps)
  moreover have "keeps_ful {} (projr demo_g1) (projr demo_g2)"
    by (rule transitionTx_keeps [OF trans [OF demo_g2_def [symmetric] r(2)]]) (simp add: MANUAL_TARGETS_def)
  moreover have "keeps_ful {} (projr demo_g2) demo_g"
    by (rule transitionTx_keeps [OF trans [OF demo_g3_def [symmetric] r(3)]]) (simp add: MANUAL_TARGETS_def)
  ultimately show ?thesis using ful_ok_init by (simp add: keeps_ful_def ful_ok_def)
qed

lemma demo_g4_ok: "ful_ok demo_g4"
proof -
  have "map_sum (\<lambda>e. ()) snd (claimShipment \<lparr> cq_contractVersion = 1, cq_tenantId = 1, cq_requestId = 65, cq_tripId = 61, cq_shipmentId = 1,
      cq_actorId = 7, cq_expectedTripVersion = 2, cq_expectedShipmentVersion = 3 \<rparr> 20 demo_g) = Inr demo_g4" by code_simp
  then have "\<exists>q res. claimShipment q 20 demo_g = Inr (res, demo_g4)" by (auto simp: map_sum_def split: sum.splits) blast
  then show ?thesis using claimShipment_keeps demo_g_ok unfolding keeps_ful_def ful_ok_def by blast
qed

lemma demo_request_new: "batch_new demo_fenv demo_request demo_g4"
  by code_simp

lemma demo_request_undecided: "batch_undecided demo_request demo_rdb"
proof -
  have "list_all (\<lambda>b. bd_id b \<noteq> br_requestId demo_request) (dispatchBatches demo_rdb)" by code_simp
  then show ?thesis using demo_ready_ok by (simp add: batch_undecided_def demo_rdb_def list_all_iff)
qed

lemma demo_request_served: "snd (dispatchBatch demo_api_ord demo_fenv demo_request 23 (demo_g4, demo_rdb)) = demo_s5"
  by code_simp

text \<open>The shipment has left in the fulfilment service, and the transport service does not know it.\<close>

lemma demo_request_stands: "batch_stands demo_fenv demo_request demo_s5"
proof -
  from batch_stands_ends [of demo_request demo_fenv "(demo_g4, demo_rdb)" demo_env 23] demo_g4_ok demo_request_new demo_request_undecided
  obtain c f s where c: "dispatchBatch demo_api_ord demo_fenv demo_request 23 (demo_g4, demo_rdb) = (Inr c, f, s)" "receipt_for demo_fenv demo_request c"
    "be_status c = I_COMPLETED \<and> trip_carried demo_request (f, s) \<or> be_status c = I_REJECTED \<and> fleet (f, s) = fleet (demo_g4, demo_rdb)"
    by (auto simp: batch_stands_def batch_new_def demo_api_ord_def)
  have s5: "demo_s5 = (f, s)" using demo_request_served c(1) by simp
  let ?b = "findBatch 1 45 (fst demo_s5)"
  have b: "map_option (\<lambda>b. (fb_payload b, fb_payloadHash b, fb_status b, map_option Inr (fb_response b))) ?b =
      Some (demo_request, fe_batchHash demo_fenv demo_request, I_COMPLETED,
        Some (fst (dispatchBatch demo_api_ord demo_fenv demo_request 23 (demo_g4, demo_rdb))))" by code_simp
  obtain b where b': "findBatch 1 45 f = Some b" "fb_payload b = demo_request" "fb_payloadHash b = fe_batchHash demo_fenv demo_request"
    "fb_status b = I_COMPLETED" "fb_response b = Some c" using b unfolding s5 c(1) by auto
  have ok: "ful_ok f" using ful_steps_ok [OF dispatchBatch_steps [of demo_api_ord demo_fenv demo_g4 demo_request 23 demo_rdb] demo_g4_ok] c(1) by simp
  have "batch_over demo_fenv demo_request b (f, s)" using b' c(2,3) by (auto simp: batch_over_def)
  moreover have "sha256_text (fe_batchHash demo_fenv demo_request)" using demo_request_new by (simp add: batch_new_def)
  moreover have "br_tenantId demo_request = 1" "br_requestId demo_request = 45" by (simp_all add: demo_request_def)
  ultimately show ?thesis using b' ok unfolding s5 batch_stands_def by auto
qed

theorem lost_trip_dispatch_completes_witness:
  "\<exists>db' w'. resumeDispatch demo_renv demo_master_trip demo_tapi 1 45 24 (demo_t5, demo_s5) = (db', w') \<and>
     (trip_departed demo_request 24 demo_t5 db' \<and> trip_carried demo_request w' \<or>
      dispatch_refused demo_request demo_t5 db' \<and> fleet w' = fleet demo_s5)"
proof -
  have "map_option (\<lambda>d. (td_status d, td_payload d, td_stage d, td_receipt d)) (findDispatch 1 45 demo_t5) =
      Some (I_PENDING, Some demo_request, G_SUBMITTED, None)" by code_simp
  then obtain row where row: "findDispatch 1 45 demo_t5 = Some row" "td_status row = I_PENDING" "td_payload row = Some demo_request"
    "td_stage row \<noteq> G_ACCEPTED" "td_receipt row = None" by auto
  have "rv_batchHash demo_renv = fe_batchHash demo_fenv" by (simp add: demo_renv_def)
  from lost_trip_dispatch_completes [OF demo_trips_ok(3) row demo_request_stands this] show ?thesis
    unfolding demo_tapi_def demo_api_ord_def by blast
qed

section \<open>A removal by another user\<close>

lemma filter_updated_one:
  assumes "distinct (map k xs)" "m \<in> set xs" "P (f m)" "\<And>y. y \<in> set xs \<Longrightarrow> \<not> P y"
  shows "filter P (update_where (\<lambda>y. k y = k m) f xs) = [f m]"
  using assms
proof (induction xs)
  case (Cons a xs)
  show ?case
  proof (cases "a = m")
    case True
    with Cons.prems(1) have "k y \<noteq> k m" if "y \<in> set xs" for y using that by (auto simp: image_iff)
    then have "update_where (\<lambda>y. k y = k m) f xs = xs" by (intro update_where_id) simp
    then show ?thesis using True Cons.prems by (simp add: filter_empty_conv)
  next
    case False
    with Cons.prems have "k a \<noteq> k m" by (auto simp: image_iff)
    then show ?thesis using Cons False by simp
  qed
qed simp

lemma length_one_member: "length xs = 1 \<Longrightarrow> x \<in> set xs \<Longrightarrow> xs = [x]"
  by (cases xs) auto

text \<open>A shipment of the trip that a user claimed.\<close>

definition claimed_member :: "uuid \<Rightarrow> uuid \<Rightarrow> trip_shipment \<Rightarrow> claim_receipt \<Rightarrow> trp_db \<Rightarrow> bool" where
  "claimed_member t trip m receipt db \<longleftrightarrow> m \<in> set (activeMembers t trip db) \<and> ts_claimReceipt m = Some receipt"

lemma removeTx_releasing:
  assumes ok: "trp_ok db" and rm: "removeTx env user trip dto now db = Inr (i, db')"
    and m: "claimed_member (us_tenantId user) trip m receipt db" and one: "rm_shipmentIds dto = [ts_shipmentId m]"
  shows "\<exists>p m' q. releasing i p m' q db' \<and> to_activeLock p = Some (us_tenantId user, trip) \<and> to_status p = O_PENDING \<and>
    lr_tenantId q = us_tenantId user \<and> lr_requestId q = trp_next db + 1 \<and> lr_claimId q = ct_claimId receipt \<and>
    lr_actorId q = us_id user \<and> lr_shipmentId q = ts_shipmentId m \<and> Some (lr_expectedShipmentVersion q) = ts_shipmentVersion m \<and>
    m' = m\<lparr> ts_operationId := Some i, ts_state := M_RELEASE_PENDING, ts_releaseRequest := Some q \<rparr>"
proof -
  let ?t = "us_tenantId user" and ?i = "trp_next db"
  let ?op = "newOperation ?i ?t trip (rm_requestId dto) (us_id user) K_REMOVE (te_hash env (HashRemove trip dto))
    (rm_shipmentIds dto) [ts_id m] (Some ''REMOVED_FROM_TRIP'') now"
  note p = trp_butD [OF ok [unfolded trp_ok_def]]
  from rm obtain x v ms db1 db2 y where x: "draftTrip ?t trip (rm_expectedTripVersion dto) ''REMOVE_SHIPMENTS'' db = Inr x"
    and ms: "ms = filter (\<lambda>n. ts_shipmentId n \<in> set (rm_shipmentIds dto)) (activeMembers ?t trip db)" "length ms = length (rm_shipmentIds dto)"
    and c: "createOperation (newOperation ?i ?t trip (rm_requestId dto) (us_id user) K_REMOVE (te_hash env (HashRemove trip dto))
        (rm_shipmentIds dto) (map ts_id ms) (Some ''REMOVED_FROM_TRIP'') now) (db\<lparr> trp_next := ?i + 1 \<rparr>) = Inr db1"
    and v: "toSafeVersion (dt_version x + 1) = Inr v"
    and r: "releaseMembers ?i (us_id user) v ''REMOVED_FROM_TRIP'' ms db1 = Inr db2" and u: "updateTrip trip bumpTrip now db2 = Inr (y, db')"
    and i: "i = ?i"
    by (auto simp: removeTx_def Let_def bind_res_Inr_iff split: if_splits)
  have mm: "m \<in> set (tripShipments db)" "ts_tenantId m = ?t" "ts_tripId m = trip" "ts_claimReceipt m = Some receipt"
    using m by (auto simp: claimed_member_def activeMembers_def)
  have "ms = [m]" using m one ms by (intro length_one_member) (auto simp: claimed_member_def)
  with r obtain q where q: "releaseRequestOf m (us_id user) v ''REMOVED_FROM_TRIP'' (trp_next db1) = Inr q"
    and db2: "db2 = setMember (ts_id m) (\<lambda>z. z\<lparr> ts_operationId := Some ?i, ts_state := M_RELEASE_PENDING, ts_releaseRequest := Some q \<rparr>)
      (db1\<lparr> trp_next := trp_next db1 + 1 \<rparr>)" by (auto simp: bind_res_Inr_iff)
  note C = createOperation_D [OF c [unfolded \<open>ms = [m]\<close>, simplified]]
  let ?f = "\<lambda>z. z\<lparr> ts_operationId := Some ?i, ts_state := M_RELEASE_PENDING, ts_releaseRequest := Some q \<rparr>"
  have rows: "tripShipments db' = update_where (\<lambda>z. ts_id z = ts_id m) ?f (tripShipments db)" "tripOperations db' = tripOperations db @ [?op]"
    using updateTrip_frame [OF u] C by (simp_all add: db2 setMember_def)
  have "ts_operationId n \<noteq> Some ?i" if "n \<in> set (tripShipments db)" for n
    using p(3) that C unfolding members_ok_def belongs_def by (auto simp: newOperation_def)
  then have "filter (\<lambda>z. ts_operationId z = Some ?i) (tripShipments db') = [?f m]"
    unfolding rows using p(3) mm(1) by (intro filter_updated_one) (auto simp: members_ok_def)
  then have pend: "pendingMembers ?i M_RELEASE_PENDING db' = [?f m]" by (simp add: pendingMembers_def operationMembers_def)
  have "findOperation ?i db' = Some ?op"
    using C by (auto simp: findOperation_def rows find_append newOperation_def find_None_iff split: option.splits dest!: find_Some_D)
  moreover have "parseReleaseRequest q = Some q \<and> lr_tenantId q = ?t \<and> lr_requestId q = ?i + 1 \<and>
      lr_claimId q = ct_claimId receipt \<and> lr_actorId q = us_id user \<and> lr_shipmentId q = ts_shipmentId m \<and>
      Some (lr_expectedShipmentVersion q) = ts_shipmentVersion m"
  proof -
    have "trim ''REMOVED_FROM_TRIP'' = ''REMOVED_FROM_TRIP''" by code_simp
    then show ?thesis using q v mm C
      by (auto simp: releaseRequestOf_def bind_res_Inr_iff toSafeVersion_def parseReleaseRequest_def transportVersion_def split: option.splits if_splits)
  qed
  ultimately have "releasing ?i ?op (?f m) q db'" using pend
    by (simp add: releasing_def newOperation_def op_open_def releases_kind_def)
  then show ?thesis using \<open>parseReleaseRequest q = Some q \<and> _\<close> i by (intro exI [of _ ?op] exI [of _ "?f m"] exI [of _ q]) (auto simp: newOperation_def)
qed

text \<open>
  C19. Only the user who put a shipment on a trip can take it off. The removal by another user of the tenant
  is accepted and locks the trip, but the fulfilment service compares the actor of the release with the
  actor of the claim and refuses, so the operation never ends: after any number of attempts it is still
  open and still holds the lock of the trip, the shipment still waits for its release, and nothing has
  changed in the fulfilment service.
\<close>

theorem removal_by_other_user_never_ends:
  assumes "trp_ok db" "ful_ok f" "removeTx env user trip dto now db = Inr (i, db1)"
    "claimed_member (us_tenantId user) trip m receipt db" "rm_shipmentIds dto = [ts_shipmentId m]"
    "c \<in> set (tripReceipts f)" "tr_operation c = CLAIM" "tr_claimId c = ct_claimId receipt" "tr_actorId c \<noteq> us_id user"
    "findReceipt (us_tenantId user) (trp_next db + 1) f = None"
  shows "\<exists>db' p. attempts env (fulfilment_service msg oapi fenv) i nows (db1, f, s) = (db', f, s) \<and>
    findOperation i db' = Some p \<and> to_status p = O_PENDING \<and> to_activeLock p = Some (us_tenantId user, trip) \<and>
    (\<exists>m'\<in>set (tripShipments db'). ts_id m' = ts_id m \<and> ts_state m' = M_RELEASE_PENDING)"
proof -
  from removeTx_releasing [OF assms(1,3-5)] obtain p m' q where r: "releasing i p m' q db1"
    "to_activeLock p = Some (us_tenantId user, trip)" "to_status p = O_PENDING"
      "m' = m\<lparr> ts_operationId := Some i, ts_state := M_RELEASE_PENDING, ts_releaseRequest := Some q \<rparr>"
    and q: "lr_tenantId q = us_tenantId user" "lr_requestId q = trp_next db + 1" "lr_claimId q = ct_claimId receipt" "lr_actorId q = us_id user"
    by blast
  have "refused q f" using assms(6-10) q r(1) by (intro refused_actor [OF assms(2,6)]) (auto simp: releasing_def)
  from attempts_refused [OF r(1) this, of env msg oapi fenv nows s] obtain db' p' where
    a: "attempts env (fulfilment_service msg oapi fenv) i nows (db1, f, s) = (db', f, s)" "releasing i p' m' q db'"
      "to_activeLock p' = to_activeLock p" "to_status p' = to_status p" by blast
  have "m' \<in> set (pendingMembers i M_RELEASE_PENDING db')" using a(2) by (simp add: releasing_def)
  then have "\<exists>m'\<in>set (tripShipments db'). ts_id m' = ts_id m \<and> ts_state m' = M_RELEASE_PENDING"
    using r(4) by (intro bexI [of _ m']) (simp_all add: pendingMembers_def operationMembers_def)
  with a r(2,3) show ?thesis unfolding releasing_def by auto
qed

text \<open>User 7 put the shipment of the run on the trip, user 8 removes it.\<close>

theorem removal_by_other_user_never_ends_witness:
  "\<exists>i db1 db' p. removeTx demo_tenv demo_other 61 demo_remove_dto 25 demo_t2 = Inr (i, db1) \<and>
     attempts demo_tenv demo_tapi i [26, 9000, 200000] (db1, demo_g4, demo_rdb) = (db', demo_g4, demo_rdb) \<and>
     findOperation i db' = Some p \<and> to_status p = O_PENDING \<and> to_activeLock p = Some (1, 61)"
proof -
  have "is_ok (removeTx demo_tenv demo_other 61 demo_remove_dto 25 demo_t2)" by code_simp
  then obtain i db1 where rm: "removeTx demo_tenv demo_other 61 demo_remove_dto 25 demo_t2 = Inr (i, db1)"
    by (cases "removeTx demo_tenv demo_other 61 demo_remove_dto 25 demo_t2") auto
  have "map (\<lambda>m. (ts_shipmentId m, map_option ct_claimId (ts_claimReceipt m))) (activeMembers 1 61 demo_t2) = [(1, Some 10)]" by code_simp
  then obtain m receipt where m: "claimed_member 1 61 m receipt demo_t2" "ts_shipmentId m = 1" "ct_claimId receipt = 10"
    by (auto simp: claimed_member_def)
  have "map (\<lambda>c. (tr_operation c, tr_claimId c, tr_actorId c)) (tripReceipts demo_g4) = [(CLAIM, 10, 7)]" by code_simp
  then obtain c where c: "c \<in> set (tripReceipts demo_g4)" "tr_operation c = CLAIM" "tr_claimId c = 10" "tr_actorId c = 7" by auto
  have n: "findReceipt 1 (trp_next demo_t2 + 1) demo_g4 = None" by code_simp
  have u: "us_tenantId demo_other = 1" "us_id demo_other = 8" "rm_shipmentIds demo_remove_dto = [1]"
    by (simp_all add: demo_other_def demo_user_def demo_remove_dto_def)
  from removal_by_other_user_never_ends [OF demo_trips_ok(1) demo_g4_ok rm, unfolded u, OF m(1), of c "\<lambda>e. ''conflict''" demo_api_ord demo_fenv
      "[26, 9000, 200000]" demo_rdb] m(2,3) c n rm show ?thesis by (auto simp: demo_tapi_def)
qed

text \<open>
  C18. A removal overtaken by the cancellation of the shipment blocks its trip for good. The release names the
  version the shipment had when the removal was accepted; when the fulfilment service cancels the shipment
  first, the version no longer fits and every attempt is refused, while the consumer of the cancellation
  refuses the event because the shipment is waiting for its release: after any number of attempts the
  operation is open and locks the trip, and the event of the cancellation is an error that is tried again.
\<close>

theorem overtaken_removal_deadlocks:
  assumes "trp_ok db" "removeTx env user trip dto now db = Inr (i, db1)"
    "claimed_member (us_tenantId user) trip m receipt db" "rm_shipmentIds dto = [ts_shipmentId m]"
    "findShipment (us_tenantId user) (ts_shipmentId m) f = Some x" "ts_shipmentVersion m \<noteq> Some (sp_version x)"
    "findReceipt (us_tenantId user) (trp_next db + 1) f = None"
  shows "\<exists>db' p. attempts env (fulfilment_service msg oapi fenv) i nows (db1, f, s) = (db', f, s) \<and>
    findOperation i db' = Some p \<and> to_status p = O_PENDING \<and> to_activeLock p = Some (us_tenantId user, trip) \<and>
    (\<forall>event now'. ev_tenantId event = us_tenantId user \<and> ev_aggregateId event = ts_shipmentId m \<and> \<not> cancellationStale event db' \<longrightarrow>
      (\<exists>e. shipmentCanceledTx (event :: shipment_lifecycle option envelope) now' db' = Inl e))"
proof -
  from removeTx_releasing [OF assms(1-4)] obtain p m' q where r: "releasing i p m' q db1"
    "to_activeLock p = Some (us_tenantId user, trip)" "to_status p = O_PENDING"
      "m' = m\<lparr> ts_operationId := Some i, ts_state := M_RELEASE_PENDING, ts_releaseRequest := Some q \<rparr>"
    and q: "lr_tenantId q = us_tenantId user" "lr_requestId q = trp_next db + 1" "lr_shipmentId q = ts_shipmentId m"
      "Some (lr_expectedShipmentVersion q) = ts_shipmentVersion m" by blast
  have "refused q f" using assms(5-7) q r(1) by (intro refused_version) (auto simp: releasing_def)
  from attempts_refused [OF r(1) this, of env msg oapi fenv nows s] obtain db' p' where
    a: "attempts env (fulfilment_service msg oapi fenv) i nows (db1, f, s) = (db', f, s)" "releasing i p' m' q db'"
      "to_activeLock p' = to_activeLock p" "to_status p' = to_status p" "tripShipments db' = tripShipments db1" by blast
  have m: "ts_tenantId m = us_tenantId user" "member_live m" using assms(3) by (auto simp: claimed_member_def activeMembers_def)
  have "m' \<in> set (pendingMembers i M_RELEASE_PENDING db')" using a(2) by (simp add: releasing_def)
  then have m': "m' \<in> set (tripShipments db1)" using a(5) by (simp add: pendingMembers_def operationMembers_def)
  have "members_ok {} db1" using keeps_trpD [OF removeTx_keeps [OF assms(2)]] assms(1) trp_butD(3) unfolding trp_ok_def by blast
  then have only: "n = m'" if "n \<in> set (tripShipments db1)" "member_live n" "same_shipment n m'" for n
    using m' m(2) r(4) that unfolding members_ok_def by (simp add: member_live_def)
  have v: "ts_tenantId m' = us_tenantId user" "ts_shipmentId m' = ts_shipmentId m" "member_live m'" "ts_state m' = M_RELEASE_PENDING"
    using m r(4) by (simp_all add: member_live_def)
  have "liveMember (us_tenantId user) (ts_shipmentId m) db' = Some m'" unfolding liveMember_def a(5)
  proof (rule find_unique [OF m'])
    fix n
    assume "n \<in> set (tripShipments db1)"
      "ts_tenantId n = us_tenantId user \<and> ts_shipmentId n = ts_shipmentId m \<and> member_live n \<and> ts_state n \<noteq> M_RELEASED"
    then show "n = m'" using only [of n] v by (simp add: same_shipment_def)
  qed (simp add: v)
  then have "\<exists>e. shipmentCanceledTx (event :: shipment_lifecycle option envelope) now' db' = Inl e"
    if "ev_tenantId event = us_tenantId user" "ev_aggregateId event = ts_shipmentId m" "\<not> cancellationStale event db'" for event now'
    using that v(4) by (simp add: shipmentCanceledTx_def)
  with a r(2,3) show ?thesis unfolding releasing_def by auto
qed

text \<open>The order of the run is canceled while user 7 takes its shipment off the trip.\<close>

definition demo_overtaken :: "ful_error + ful_db" where
  "demo_overtaken = handleShipmentOrderEvent demo_api_ord demo_fenv 24 demo_rdb demo_g4
     (demo_located\<lparr> ev_eventId := 101, ev_eventType := ''OrderCanceled'', ev_aggregateVersion := 5,
        ev_payload := \<lparr> oy_orderId = Some 1, oy_confirmed = None, oy_cancelReason = Some ''changed'' \<rparr> \<rparr>) demo_g4"

theorem overtaken_removal_deadlocks_witness:
  "\<exists>i db1 db' p. removeTx demo_tenv demo_user 61 demo_remove_dto 25 demo_t2 = Inr (i, db1) \<and>
     attempts demo_tenv demo_tapi i [26, 9000, 200000] (db1, projr demo_overtaken, demo_rdb) = (db', projr demo_overtaken, demo_rdb) \<and>
     map sp_status (shipments (projr demo_overtaken)) = [S_CANCELED] \<and> findOperation i db' = Some p \<and> to_status p = O_PENDING"
proof -
  have "is_ok (removeTx demo_tenv demo_user 61 demo_remove_dto 25 demo_t2)" by code_simp
  then obtain i db1 where rm: "removeTx demo_tenv demo_user 61 demo_remove_dto 25 demo_t2 = Inr (i, db1)"
    by (cases "removeTx demo_tenv demo_user 61 demo_remove_dto 25 demo_t2") auto
  have "map (\<lambda>m. (ts_shipmentId m, ts_shipmentVersion m, map_option ct_claimId (ts_claimReceipt m))) (activeMembers 1 61 demo_t2) =
      [(1, Some 4, Some 10)]" by code_simp
  then obtain m receipt where m: "claimed_member 1 61 m receipt demo_t2" "ts_shipmentId m = 1" "ts_shipmentVersion m = Some 4"
    by (auto simp: claimed_member_def)
  have "map_option (\<lambda>x. sp_version x) (findShipment 1 1 (projr demo_overtaken)) = Some 5" by code_simp
  then obtain x where x: "findShipment 1 1 (projr demo_overtaken) = Some x" "sp_version x = 5" by auto
  have n: "findReceipt 1 (trp_next demo_t2 + 1) (projr demo_overtaken) = None" by code_simp
  have c: "map sp_status (shipments (projr demo_overtaken)) = [S_CANCELED]" by code_simp
  have "us_tenantId demo_user = 1" "rm_shipmentIds demo_remove_dto = [ts_shipmentId m]"
    by (simp_all add: demo_user_def demo_remove_dto_def m(2))
  note k = overtaken_removal_deadlocks [OF demo_trips_ok(1) rm, unfolded this(1), OF m(1) this(2), unfolded m(2), OF x(1) _ n]
  have "ts_shipmentVersion m \<noteq> Some (sp_version x)" using m(3) x(2) by simp
  from k [OF this, of "\<lambda>e. ''conflict''" demo_api_ord demo_fenv "[26, 9000, 200000]" demo_rdb] obtain db' p where
    "attempts demo_tenv demo_tapi i [26, 9000, 200000] (db1, projr demo_overtaken, demo_rdb) = (db', projr demo_overtaken, demo_rdb)"
    "findOperation i db' = Some p" "to_status p = O_PENDING" unfolding demo_tapi_def by blast
  with rm c show ?thesis by (intro exI conjI)
qed

end
