(* ===== verification/Spec2Isabelle.thy ===== *)
theory Spec2Isabelle
  imports Inventory_Theorems Order_Theorems Order_Lookup Order_Protocols Order_Recovery Order_Agreement
    Fulfillment_Theorems Transport_Theorems
begin

text \<open>
  Verification of the LogiX backend: NestJS services with a PostgreSQL schema each, that call each other
  over HTTP and exchange domain events over Kafka through a transactional outbox and an inbox. A sales
  order is created and confirmed in \<^verbatim>\<open>order-service\<close>, its stock is reserved and issued in
  \<^verbatim>\<open>inventory-service\<close>, its shipment is handled by \<^verbatim>\<open>fulfillment-service\<close> and carried by
  \<^verbatim>\<open>transport-service\<close>; \<^verbatim>\<open>libs/messaging\<close> carries the events.

  \<^bold>\<open>How the program is modelled.\<close>

  \<^item> A service's database is a record of tables, a table a list of records with the columns of
    \<^verbatim>\<open>schema.prisma\<close> the code reads or writes. Constraints and unique indexes of the migrations are checks
    of the insert and update operations.
  \<^item> An operation is a function from its arguments and the database to an error or the result with the new
    database. A transaction that throws leaves no trace: the old database is kept. Row and advisory locks
    are the atomicity of a transaction; where an operation reads before its transaction starts, the state
    it read is a separate argument (\<open>db0\<close>), so that every interleaving in between is covered; so is the
    look of a delivery result at its shipment, which takes no lock on the row it writes.
  \<^item> An error is a constructor per throw of the source, with its reason and HTTP status; \<open>OrdPlainError\<close>
    and the like are exceptions of \<^verbatim>\<open>Error\<close> or the database driver.
  \<^item> UUIDs are natural numbers with their canonical lower-case text; instants are natural numbers of
    milliseconds; amounts are integers scaled by their column's digits.
  \<^item> A call of another service is a function of a parameter record (\<open>master_data_api\<close>, \<open>inventory_api\<close>)
    whose reply may be lost; for the composition theorems the parameter is the model of the inventory
    service itself. \<^verbatim>\<open>Promise.all\<close> over look-ups that change nothing is evaluated left to right: the
    failure reported may be another one of those that occur.
  \<^item> SHA-256, the rounding of \<^verbatim>\<open>Prisma.Decimal\<close> and the broker are parameters.

  \<^bold>\<open>Theories.\<close>

  \<^item> \<open>Prelude\<close>: rows of a table (\<open>update_where\<close>, \<open>exists_row\<close>), results, texts of numbers and UUIDs.
  \<^item> \<open>Messaging\<close> (\<^verbatim>\<open>libs/messaging\<close>): the envelope, the Prisma outbox store, the relay, the consumer. Its
    locales are \<open>outbox_relay_store\<close> (what the relay needs of a store: per-aggregate order) and
    \<open>idempotent_consumer\<close> (what an inbox promises: exactly-once effect under at-least-once delivery).
  \<^item> \<open>Inventory_Base\<close>, \<open>Inventory_Movement\<close>, \<open>Inventory_Reservation\<close>, \<open>Inventory_Stock\<close>, \<open>Inventory_Events\<close>
    (\<^verbatim>\<open>inventory-service\<close>): balances, movements with their race, reservations (reserve, release, preview),
    receipts, adjustments and queries, shipment issue, order events and the reconciler. The invariant
    \<open>inv_ok\<close> ties the reserved amount of every balance to its active reservations and the on-hand amount
    to its movements; every operation keeps it. \<open>Inventory_Theorems\<close> has the service as a step relation and
    its properties.
  \<^item> \<open>Order_Domain\<close>, \<open>Order_References\<close>, \<open>Order_Base\<close>, \<open>Order_Commands\<close>, \<open>Order_Reservation\<close>,
    \<open>Order_Dispatch\<close>, \<open>Order_Events\<close> (\<^verbatim>\<open>order-service/src/orders\<close>): the state machine and arithmetic, the
    master-data client and resolver, the tables, views and inventory client, create, update, cancel and
    the recovery of cancellations, confirm, reconcile and shortages, the dispatch decision for one order
    and for a batch, the shipment and stock consumers and the queries. \<open>Contracts\<close> has the batch dispatch
    contract of \<^verbatim>\<open>transport.contract.ts\<close>.
  \<^item> \<open>Order_Invariant\<close>: the invariant \<open>ord_ok\<close> and the abstract life of an order (\<open>lifecycle\<close> on status,
    cancellation under way, dispatch granted). Every operation is a sequence of moves, each of which
    replaces one row by a newer version along the abstract life, adds one order, or leaves the orders alone.
  \<^item> \<open>Order_Theorems\<close>: the service as a step relation in which cancellations, confirmations and relays
    interleave at will and the inventory service answers anything; its invariant, refinement, the exclusion
    of dispatch and cancellation, the bound on an order's history. \<open>Order_Lookup\<close>: amounts, totals and the
    concurrent look-up. \<open>Order_Protocols\<close>: retried and racing creations. \<open>Order_Agreement\<close>: batch decisions
    and the projection of shipment events. \<open>Order_Composition\<close> states what the order service relies on as
    the locale \<open>reservation_authority\<close> and interprets it on the inventory service; \<open>Order_Recovery\<close> has
    the properties of the two services together.

  \<^item> \<open>Trip_Contracts\<close> has the rest of \<^verbatim>\<open>transport.contract.ts\<close>: claims, releases, delivery results and batch
    receipts with their binding checks. \<open>Fulfillment_Base\<close>, \<open>Fulfillment_Orders\<close>, \<open>Fulfillment_Dispatch\<close>,
    \<open>Fulfillment_Claims\<close>, \<open>Fulfillment_Delivery\<close> (\<^verbatim>\<open>fulfillment-service/src/shipments\<close>): tables, state
    machine and queries; the consumer of order events with its cursor; the dispatch of one shipment and of
    a trip, each with its intents, its calls of the order service and its recovery; the claims of trips and
    the pool; delivery results with deferral, duplicates and conflicts.
  \<^item> \<open>Fulfillment_Invariant\<close>: the invariant \<open>ful_ok\<close>. \<open>Fulfillment_Effects\<close> and \<open>Fulfillment_Batches\<close>: what every
    operation does to the rows and that it keeps the invariant. \<open>Fulfillment_Steps\<close>: the service as a step
    relation of single transactions, and that the whole operations are sequences of such steps.
    \<open>Fulfillment_Settlement\<close>: how a decided batch ends. \<open>Fulfillment_Agreement\<close>: the order service as its HTTP
    controllers expose it, the locale \<open>dispatch_authority\<close> (what the dispatch of a trip relies on) and its
    interpretation on the order service. \<open>Fulfillment_Run\<close>: a run of the services on concrete rows, for
    the witnesses. \<open>Fulfillment_Theorems\<close>: the properties.

  \<^item> \<open>Transport_Base\<close>, \<open>Transport_Rows\<close> (\<^verbatim>\<open>transport-service\<close>: \<^verbatim>\<open>schema.prisma\<close>, \<^verbatim>\<open>trip-serialization.ts\<close>,
    \<^verbatim>\<open>fulfillment.client.ts\<close>): tables, row operations, the client of the fulfilment service.
    \<open>Transport_Membership\<close> (\<^verbatim>\<open>trip-membership.service.ts\<close>): adding and removing shipments as operations that
    lock the trip, call the fulfilment service shipment by shipment, compensate and are resumed.
    \<open>Transport_Cancellation\<close>: the preview token, the cancellation of a trip and of a shipment.
    \<open>Transport_Driver\<close>: the mobile application, delivery attempts and the completion of a trip.
    \<open>Transport_Commands\<close>: creating and changing trips. \<open>Transport_Routes\<close>: manual plans, approval and
    reopening. \<open>Transport_Dispatch\<close> (\<^verbatim>\<open>trip-dispatch.service.ts\<close>, \<^verbatim>\<open>trip-recovery.worker.ts\<close>): the dispatch of
    an approved trip through its stages, and the recovery of everything that stopped on the way.
  \<^item> \<open>Transport_Service\<close>, \<open>Transport_Run\<close>: the fulfilment service as the HTTP interface the transport service
    calls, and a run of both on concrete rows. \<open>Transport_Invariant\<close>: the invariant \<open>trp_ok\<close> and the changes
    transactions are made of. \<open>Transport_Steps\<close>: the transactions keep it. \<open>Transport_Work\<close>: the service as
    step relations, one step per transaction. In \<open>trp_work\<close> a worker on an operation carries what it has
    read, and its steps have the guards of the code only; the one assumption is that an operation has one
    worker at a time, which its lease gives as long as an attempt ends within it (the code neither renews nor
    fences the lease). \<open>trp_step\<close> is the same seen from the database, with the knowledge of the workers as
    premises, and \<open>trp_works_implement\<close> derives these. \<open>Transport_Relation\<close>: the whole operations are sequences
    of such steps. \<open>Transport_Overrun\<close>: what a worker that outlives its lease does to a dispatch.
    \<open>Transport_Agreement\<close>: the locale \<open>dispatch_executor\<close> (what the dispatch of a trip relies on in the service
    that carries it out) and its interpretation on the fulfilment service with the order service behind it.
    \<open>Transport_Theorems\<close>: the properties, the dispatch of a trip through all three databases among them.

  \<^bold>\<open>Bounds.\<close> Loops are structural recursions, so no fuel is needed. Totals are exact up to 20 significant
  digits, which is what the decimal library keeps; versions are checked against the safe integers where
  the source does so.

  \<^bold>\<open>Not modelled.\<close> The HTTP layer (controllers, guards, validation pipes, filters) beyond the validity of
  the request bodies and the replies one service gives another, JSON and Zod shapes beyond the conditions
  the code relies on, timers, logging, Kafka itself. Of \<^verbatim>\<open>transport-service\<close> the
  route optimizer with its matrix, the list queries and the timers, \<^verbatim>\<open>identity-service\<close> and \<^verbatim>\<open>master-data-service\<close> (accounts, roles and reference data:
  what the order service reads of it is a parameter). \<^verbatim>\<open>api-gateway\<close> forwards requests, \<^verbatim>\<open>audit-service\<close> and
  \<^verbatim>\<open>notification-service\<close> are skeletons, the forecast, agent and route-optimizer services are Python.
\<close>

end
